(* ===== verification/Prelude.thy ===== *)
theory Prelude
  imports Main "HOL-Library.Multiset" "HOL-Library.Sublist"
begin

text \<open>
  Shared ground of the development: the parts of Go and of PostgreSQL that
  every package under \<^verbatim>\<open>src/internal\<close> uses.

  \<^item> Fixed-width integers: \<open>int64\<close> and \<open>uint64\<close> values are mathematical
    integers kept in range by \<open>wrap64\<close> and \<open>uint64_of\<close>; Go's truncating
    division is \<open>go_div\<close>.
  \<^item> Strings are byte lists (Go's \<open>len\<close> counts bytes); \<open>TrimSpace\<close> is
    \<open>strings.TrimSpace\<close> on UTF-8, and \<open>match_regex\<close> is the fragment of
    \<open>regexp\<close> the sources use (anchored sequences of character classes with
    bounded repetition).
  \<^item> Errors are values of \<open>go_error\<close>; fallible code returns
    \<open>go_error + 'a\<close> and \<open>bindE\<close> is the \<open>if err != nil { return err }\<close> idiom.
  \<^item> Tables are lists of rows; \<open>update_where\<close> is SQL's \<open>UPDATE ... WHERE\<close>
    and \<open>count_rows\<close> is \<open>SELECT count(*)\<close>.
\<close>

section \<open>Collections of facts\<close>

named_theorems go_simps "evaluation of the Go primitives on concrete values"
named_theorems table_simps "facts on rows, counts and updates of tables"
named_theorems frame_simps "which tables an operation leaves alone"

section \<open>Fixed-width integers\<close>

definition max_int64 :: int where
  "max_int64 = 9223372036854775807"

definition wrap64 :: "int \<Rightarrow> int" where
  "wrap64 x = (x + 9223372036854775808) mod 18446744073709551616 - 9223372036854775808"

definition uint64_of :: "int \<Rightarrow> int" where
  "uint64_of x = x mod 18446744073709551616"

definition in_int64 :: "int \<Rightarrow> bool" where
  "in_int64 x \<longleftrightarrow> -9223372036854775808 \<le> x \<and> x \<le> max_int64"

text \<open>Go's integer division and remainder truncate towards zero.\<close>

definition go_div :: "int \<Rightarrow> int \<Rightarrow> int" where
  "go_div a b = sgn a * sgn b * (\<bar>a\<bar> div \<bar>b\<bar>)"

definition go_mod :: "int \<Rightarrow> int \<Rightarrow> int" where
  "go_mod a b = a - b * go_div a b"

lemma wrap64_id [simp]: "in_int64 x \<Longrightarrow> wrap64 x = x"
  by (simp add: wrap64_def in_int64_def max_int64_def)

lemma wrap64_range: "in_int64 (wrap64 x)"
proof -
  have "0 \<le> (x + 9223372036854775808) mod 18446744073709551616"
    and "(x + 9223372036854775808) mod 18446744073709551616 < 18446744073709551616"
    by simp_all
  then show ?thesis
    unfolding in_int64_def wrap64_def max_int64_def by linarith
qed

lemma uint64_of_id: "0 \<le> x \<Longrightarrow> x \<le> max_int64 \<Longrightarrow> uint64_of x = x"
  by (simp add: uint64_of_def max_int64_def)

lemma go_div_nonneg: "0 \<le> a \<Longrightarrow> 0 < b \<Longrightarrow> go_div a b = a div b"
  by (cases "a = 0") (simp_all add: go_div_def)

lemma go_mod_nonneg: "0 \<le> a \<Longrightarrow> 0 < b \<Longrightarrow> go_mod a b = a mod b"
  by (simp add: go_mod_def go_div_nonneg minus_mult_div_eq_mod)

section \<open>Bytes, characters and strings\<close>

abbreviation byte :: "char \<Rightarrow> nat" where
  "byte c \<equiv> of_char c"

definition is_upper :: "char \<Rightarrow> bool" where
  "is_upper c \<longleftrightarrow> 65 \<le> byte c \<and> byte c \<le> 90"

definition is_lower :: "char \<Rightarrow> bool" where
  "is_lower c \<longleftrightarrow> 97 \<le> byte c \<and> byte c \<le> 122"

definition is_digit :: "char \<Rightarrow> bool" where
  "is_digit c \<longleftrightarrow> 48 \<le> byte c \<and> byte c \<le> 57"

definition digit_val :: "char \<Rightarrow> int" where
  "digit_val c = int (byte c) - 48"

definition is_upper_digit :: "char \<Rightarrow> bool" where
  "is_upper_digit c \<longleftrightarrow> is_upper c \<or> is_digit c"

definition is_upper_digit_dash :: "char \<Rightarrow> bool" where
  "is_upper_digit_dash c \<longleftrightarrow> is_upper c \<or> is_digit c \<or> c = CHR ''-''"

definition is_upper_digit_slash_dash :: "char \<Rightarrow> bool" where
  "is_upper_digit_slash_dash c \<longleftrightarrow> is_upper c \<or> is_digit c \<or> c = CHR ''/'' \<or> c = CHR ''-''"

lemmas char_class_defs [go_simps] =
  is_upper_def is_lower_def is_digit_def is_upper_digit_def is_upper_digit_dash_def
  is_upper_digit_slash_dash_def

lemma digit_val_range: "is_digit c \<Longrightarrow> 0 \<le> digit_val c \<and> digit_val c \<le> 9"
  by (auto simp: is_digit_def digit_val_def)

text \<open>
  \<open>len\<close> of a Go string as an \<open>int\<close>.
\<close>

abbreviation len :: "'a list \<Rightarrow> int" where
  "len s \<equiv> int (length s)"

text \<open>
  PostgreSQL's \<open>length\<close> counts characters: in UTF-8, the bytes that are not
  continuation bytes.
\<close>

fun pg_length :: "string \<Rightarrow> int" where
  "pg_length [] = 0"
| "pg_length (c # s) = (if 128 \<le> byte c \<and> byte c < 192 then 0 else 1) + pg_length s"

text \<open>
  The UTF-8 encodings of the code points with the Unicode White_Space property,
  which \<open>unicode.IsSpace\<close> accepts and \<open>strings.TrimSpace\<close> strips.
\<close>

definition space_encodings :: "string list" where
  "space_encodings = map (map char_of)
     [[9], [10], [11], [12], [13], [32],
      [194, 133], [194, 160], [225, 154, 128],
      [226, 128, 128], [226, 128, 129], [226, 128, 130], [226, 128, 131],
      [226, 128, 132], [226, 128, 133], [226, 128, 134], [226, 128, 135],
      [226, 128, 136], [226, 128, 137], [226, 128, 138],
      [226, 128, 168], [226, 128, 169], [226, 128, 175],
      [226, 129, 159], [227, 128, (128::nat)]]"

definition strip_one :: "string list \<Rightarrow> string \<Rightarrow> string option" where
  "strip_one es s = map_option (\<lambda>e. drop (length e) s) (find (\<lambda>e. e \<noteq> [] \<and> prefix e s) es)"

lemma strip_one_shorter: "strip_one es s = Some t \<Longrightarrow> length t < length s"
proof -
  assume "strip_one es s = Some t"
  then obtain e where e: "find (\<lambda>e. e \<noteq> [] \<and> prefix e s) es = Some e" and t: "t = drop (length e) s"
    by (auto simp: strip_one_def)
  from e have "e \<noteq> [] \<and> prefix e s" by (auto simp: find_Some_iff)
  with t show ?thesis
    by (auto simp: prefix_def neq_Nil_conv)
qed

function strip_all :: "string list \<Rightarrow> string \<Rightarrow> string" where
  "strip_all es s = (case strip_one es s of None \<Rightarrow> s | Some t \<Rightarrow> strip_all es t)"
  by pat_completeness auto
termination
  by (relation "measure (\<lambda>(es, s). length s)") (auto dest: strip_one_shorter)

declare strip_all.simps [simp del]

definition TrimSpace :: "string \<Rightarrow> string" where
  "TrimSpace s =
     rev (strip_all (map rev space_encodings) (rev (strip_all space_encodings s)))"

definition canonical :: "string \<Rightarrow> bool" where
  "canonical s \<longleftrightarrow> s = TrimSpace s"

text \<open>Text that starts and ends with a visible ASCII character is left as it is.\<close>

lemma strip_all_stop:
  assumes "\<And>e. e \<in> set es \<Longrightarrow> e \<noteq> [] \<Longrightarrow> hd e \<noteq> c"
  shows "strip_all es (c # s) = c # s"
proof -
  have "find (\<lambda>e. e \<noteq> [] \<and> prefix e (c # s)) es = None"
    using assms by (auto simp: find_None_iff prefix_def) (metis hd_append2 list.sel(1))
  then show ?thesis by (simp add: strip_all.simps strip_one_def)
qed

lemma TrimSpace_visible [go_simps]:
  assumes "33 \<le> byte c" "byte c \<le> 127" "33 \<le> byte (last (c # s))" "byte (last (c # s)) \<le> 127"
  shows "TrimSpace (c # s) = c # s"
proof -
  have *: "hd e \<noteq> x \<and> last e \<noteq> x" if "e \<in> set space_encodings" "33 \<le> byte x" "byte x \<le> 127" for e x
    using that by (auto simp: space_encodings_def)
  have a: "strip_all space_encodings (c # s) = c # s"
    by (rule strip_all_stop) (use * assms in blast)
  obtain b z where r: "rev (c # s) = b # z" and b: "b = last (c # s)"
    by (metis hd_rev list.collapse list.discI rev_is_Nil_conv)
  have "strip_all (map rev space_encodings) (b # z) = b # z"
  proof (rule strip_all_stop)
    fix e assume "e \<in> set (map rev space_encodings)"
    then obtain f where "f \<in> set space_encodings" "hd e = last f" by (auto simp: hd_rev)
    then show "hd e \<noteq> b" using * [of f b] assms b by simp
  qed
  with a r show ?thesis unfolding TrimSpace_def by (metis rev_rev_ident)
qed

section \<open>Anchored regular expressions\<close>

text \<open>
  A pattern \<open>^[class]{m,n}...$\<close> is a list of segments: a character class, a
  minimum and a maximum repetition count. Without the multi-line flag Go's
  \<open>$\<close> matches only at the end of the text, so the whole text is consumed.
\<close>

datatype segment = Seg "char \<Rightarrow> bool" nat nat

fun match_regex :: "segment list \<Rightarrow> string \<Rightarrow> bool" where
  "match_regex [] s = (s = [])"
| "match_regex (Seg p m n # rs) s =
     list_ex (\<lambda>k. k \<le> length s \<and> list_all p (take k s) \<and> match_regex rs (drop k s)) [m..<Suc n]"

lemma match_regex_single:
  "match_regex [Seg p m n] s \<longleftrightarrow> m \<le> length s \<and> length s \<le> n \<and> list_all p s"
  by (auto simp: list_ex_iff)

lemma match_regex_head:
  "match_regex (Seg p 1 1 # rs) s \<longleftrightarrow> (\<exists>c cs. s = c # cs \<and> p c \<and> match_regex rs cs)"
  by (cases s) auto

lemma match_regex_head_tail [go_simps]:
  "match_regex [Seg p (Suc 0) (Suc 0), Seg q m n] (c # cs) \<longleftrightarrow>
     p c \<and> m \<le> length cs \<and> length cs \<le> n \<and> list_all q cs"
  using match_regex_head [of p "[Seg q m n]" "c # cs"] by (simp add: match_regex_single del: match_regex.simps)

definition is_letter :: "char \<Rightarrow> bool" where
  "is_letter c \<longleftrightarrow> is_upper c \<or> is_lower c"

definition is_hex :: "char \<Rightarrow> bool" where
  "is_hex c \<longleftrightarrow> is_digit c \<or> (97 \<le> byte c \<and> byte c \<le> 102)"

definition sha256_text :: "string \<Rightarrow> bool" where
  "sha256_text s \<longleftrightarrow> prefix ''sha256:'' s \<and> match_regex [Seg is_hex 64 64] (drop 7 s)"

section \<open>Errors\<close>

text \<open>
  The sentinel errors the packages export, the texts of \<open>errors.New\<close>, and what
  PostgreSQL reports for a violated constraint. \<open>Wrapf\<close> is
  \<open>fmt.Errorf("...: %w", err)\<close>.
\<close>

datatype pkg =
    Booking | Queue | Portcall | Declarations | Tariff | Ledger | Payments | Customs
  | Securechain | Offshore | Cruise | Manifests | Waste | Registry

datatype pg_violation = CheckViolation string | UniqueViolation string | RaiseException string

datatype go_error =
    ErrNotFound pkg
  | ErrInvalidTransition pkg
  | ErrOptimisticConflict pkg
  | ErrIdempotencyConflict pkg
  | ErrSlotUnavailable | ErrSlotWindow | ErrGateDenied | ErrPaymentInvalid
  | ErrPaymentReceiptReuse | ErrRefundUnavailable | ErrReleaseVerifierMissing
  | ErrCallUpCapacity | ErrGraceWindow
  | ErrDocumentConflict | ErrClearanceConflict | ErrClearanceInvalid
  | ErrScheduleInvalid | ErrRuleInvalid | ErrNotEffective | ErrBandGap | ErrFactsInvalid | ErrOverflow
  | ErrDeclarationNotFound | ErrPaymentUnverified
  | ErrDeclarationInvalid | ErrNotCleared | ErrPermitInvalid | ErrForbidden
  | ErrNotTailHolder | ErrNotAuthorizedParty | ErrNoReleaseAuthority | ErrVelocityHold | ErrTokenInvalid
  | ErrChainCompletedRelease
  | ErrEventRejected | ErrExcursionInvalid | ErrAllocationInvalid
  | ErrSignatureVerification | ErrMalformedEnvelope | ErrManifestConflict
  | ErrConflict pkg | ErrMakerChecker pkg
  | ErrText string
  | PgErr pg_violation
  | Wrapf string go_error

text \<open>\<open>errors.Is\<close> walks down the chain of wrapped errors.\<close>

fun errors_Is :: "go_error \<Rightarrow> go_error \<Rightarrow> bool" where
  "errors_Is (Wrapf s err) target = (Wrapf s err = target \<or> errors_Is err target)"
| "errors_Is err target = (err = target)"

type_synonym 'a result = "go_error + 'a"

definition bindE :: "'e + 'a \<Rightarrow> ('a \<Rightarrow> 'e + 'b) \<Rightarrow> 'e + 'b" where
  "bindE x f = (case x of Inl e \<Rightarrow> Inl e | Inr a \<Rightarrow> f a)"

lemma bindE_simps [simp]:
  "bindE (Inl e) f = Inl e"
  "bindE (Inr a) f = f a"
  by (simp_all add: bindE_def)

lemma bindE_Inr_iff: "bindE x f = Inr b \<longleftrightarrow> (\<exists>a. x = Inr a \<and> f a = Inr b)"
  by (cases x) auto

lemma bindE_Inl_iff: "bindE x f = Inl e \<longleftrightarrow> x = Inl e \<or> (\<exists>a. x = Inr a \<and> f a = Inl e)"
  by (cases x) auto

definition ensure :: "bool \<Rightarrow> 'e \<Rightarrow> 'e + unit" where
  "ensure P e = (if P then Inr () else Inl e)"

lemma ensure_simps [simp]: "ensure True e = Inr ()" "ensure False e = Inl e"
  by (simp_all add: ensure_def)

lemma ensure_Inr [simp]: "ensure P e = Inr u \<longleftrightarrow> P"
  by (simp add: ensure_def)

lemma ensure_Inl [simp]: "ensure P e = Inl e' \<longleftrightarrow> \<not> P \<and> e' = e"
  by (auto simp: ensure_def)

definition or_fail :: "'e option \<Rightarrow> 'e + unit" where
  "or_fail x = (case x of None \<Rightarrow> Inr () | Some e \<Rightarrow> Inl e)"

lemma or_fail_simps [simp]:
  "or_fail None = Inr ()" "or_fail (Some e) = Inl e"
  "(or_fail x = Inr u) = (x = None)"
  by (simp_all add: or_fail_def split: option.splits)

definition from_option :: "'e \<Rightarrow> 'a option \<Rightarrow> 'e + 'a" where
  "from_option e x = (case x of None \<Rightarrow> Inl e | Some a \<Rightarrow> Inr a)"

lemma from_option_simps [simp]:
  "from_option e None = Inl e" "from_option e (Some a) = Inr a"
  "(from_option e x = Inr a) = (x = Some a)"
  by (simp_all add: from_option_def split: option.splits)

definition wrap_err :: "string \<Rightarrow> 'a result \<Rightarrow> 'a result" where
  "wrap_err context r = (case r of Inl err \<Rightarrow> Inl (Wrapf context err) | Inr a \<Rightarrow> Inr a)"

lemma wrap_err_Inr [simp]: "wrap_err s r = Inr a \<longleftrightarrow> r = Inr a"
  by (simp add: wrap_err_def split: sum.splits)

section \<open>Tables\<close>

text \<open>A \<open>BIGINT\<close> column counted up by SQL: past the range the statement fails.\<close>

definition pg_inc :: "int \<Rightarrow> int result" where
  "pg_inc v = (if v \<ge> max_int64 then Inl (PgErr (RaiseException ''bigint out of range'')) else Inr (v + 1))"

lemma pg_inc_Inr [simp]: "pg_inc v = Inr v' \<longleftrightarrow> v < max_int64 \<and> v' = v + 1"
  by (auto simp: pg_inc_def)

definition count_rows :: "('r \<Rightarrow> bool) \<Rightarrow> 'r list \<Rightarrow> int" where
  "count_rows P T = int (length (filter P T))"

definition update_where :: "('r \<Rightarrow> bool) \<Rightarrow> ('r \<Rightarrow> 'r) \<Rightarrow> 'r list \<Rightarrow> 'r list" where
  "update_where P f T = map (\<lambda>r. if P r then f r else r) T"

lemma count_rows_nonneg [simp]: "0 \<le> count_rows P T"
  by (simp add: count_rows_def)

lemma count_rows_Nil [simp]: "count_rows P [] = 0"
  by (simp add: count_rows_def)

lemma count_rows_Cons [simp]: "count_rows P (r # T) = (if P r then 1 else 0) + count_rows P T"
  by (simp add: count_rows_def)

lemma count_rows_append [simp]: "count_rows P (T @ U) = count_rows P T + count_rows P U"
  by (simp add: count_rows_def)

lemma count_rows_zero_iff: "count_rows P T = 0 \<longleftrightarrow> (\<forall>r\<in>set T. \<not> P r)"
  by (auto simp: count_rows_def filter_empty_conv)

lemma count_rows_pos_iff: "0 < count_rows P T \<longleftrightarrow> (\<exists>r\<in>set T. P r)"
proof -
  have "0 < count_rows P T \<longleftrightarrow> count_rows P T \<noteq> 0"
    using count_rows_nonneg [of P T] by linarith
  then show ?thesis by (auto simp: count_rows_zero_iff)
qed

lemma count_rows_mono: "(\<And>r. r \<in> set T \<Longrightarrow> P r \<Longrightarrow> Q r) \<Longrightarrow> count_rows P T \<le> count_rows Q T"
  by (induction T) auto

lemma count_rows_cong: "(\<And>r. r \<in> set T \<Longrightarrow> P r = Q r) \<Longrightarrow> count_rows P T = count_rows Q T"
  by (induction T) auto

lemma set_update_where:
  "r' \<in> set (update_where P f T) \<longleftrightarrow> (\<exists>r\<in>set T. r' = (if P r then f r else r))"
  by (auto simp: update_where_def)

lemma length_update_where [simp]: "length (update_where P f T) = length T"
  by (simp add: update_where_def)

lemma update_where_none: "(\<And>r. r \<in> set T \<Longrightarrow> \<not> P r) \<Longrightarrow> update_where P f T = T"
  by (induction T) (auto simp: update_where_def)

lemma map_update_where:
  "(\<And>r. P r \<Longrightarrow> g (f r) = g r) \<Longrightarrow> map g (update_where P f T) = map g T"
  by (simp add: update_where_def)

lemma count_update_where_le:
  assumes "\<And>r. r \<in> set T \<Longrightarrow> P r \<Longrightarrow> Q (f r) \<Longrightarrow> Q r"
  shows "count_rows Q (update_where P f T) \<le> count_rows Q T"
  using assms by (induction T) (auto simp: update_where_def)

lemma count_update_where_less:
  assumes "\<And>r. r \<in> set T \<Longrightarrow> P r \<Longrightarrow> Q r \<and> \<not> Q (f r)" and "\<exists>r\<in>set T. P r"
  shows "count_rows Q (update_where P f T) < count_rows Q T"
  using assms
proof (induction T)
  case Nil
  then show ?case by simp
next
  case (Cons a T)
  have le: "count_rows Q (update_where P f T) \<le> count_rows Q T"
    by (rule count_update_where_le) (use Cons.prems in auto)
  show ?case
  proof (cases "P a")
    case True
    with Cons.prems(1) [of a] le show ?thesis by (auto simp: update_where_def)
  next
    case False
    with Cons show ?thesis by (auto simp: update_where_def)
  qed
qed

text \<open>
  In a table whose key is unique, an update of the row with key \<open>k\<close> changes a
  count by that row alone.
\<close>

lemma count_update_unique:
  assumes "distinct (map key T)" and "r \<in> set T" and "\<And>x. x \<in> set T \<Longrightarrow> P x \<longleftrightarrow> x = r"
  shows "count_rows Q (update_where P f T)
       = count_rows (\<lambda>x. Q x \<and> key x \<noteq> key r) T + (if Q (f r) then 1 else 0)"
  using assms
proof (induction T)
  case Nil
  then show ?case by simp
next
  case (Cons a T)
  show ?case
  proof (cases "a = r")
    case True
    with Cons.prems(1) have "key r \<notin> key ` set T" by simp
    then have "\<And>x. x \<in> set T \<Longrightarrow> key x \<noteq> key r \<and> x \<noteq> r" by (metis image_eqI)
    moreover from this have "update_where P f T = T"
      by (intro update_where_none) (use Cons.prems(3) in auto)
    ultimately have "count_rows Q (update_where P f T) = count_rows (\<lambda>x. Q x \<and> key x \<noteq> key r) T"
      by (auto intro: count_rows_cong)
    with True Cons.prems(3) [of a] show ?thesis by (auto simp: update_where_def)
  next
    case False
    with Cons.prems have "r \<in> set T" and "key a \<noteq> key r" by auto
    with Cons have "count_rows Q (update_where P f T)
        = count_rows (\<lambda>x. Q x \<and> key x \<noteq> key r) T + (if Q (f r) then 1 else 0)" by auto
    with False Cons.prems(3) [of a] \<open>key a \<noteq> key r\<close> show ?thesis by (auto simp: update_where_def)
  qed
qed

lemma find_SomeD: "find P T = Some r \<Longrightarrow> r \<in> set T \<and> P r"
  by (auto simp: find_Some_iff)

lemma find_NoneD: "find P T = None \<Longrightarrow> r \<in> set T \<Longrightarrow> \<not> P r"
  by (auto simp: find_None_iff)

lemma distinct_key_eq:
  "distinct (map key T) \<Longrightarrow> r \<in> set T \<Longrightarrow> s \<in> set T \<Longrightarrow> key r = key s \<Longrightarrow> r = s"
  by (auto simp: distinct_map inj_on_def)

lemma mset_sub_distinct:
  assumes "mset ys \<subseteq># mset xs" and "distinct xs"
  shows "distinct ys"
  unfolding distinct_count_atmost_1
proof
  fix a
  have "count (mset ys) a \<le> count (mset xs) a" using assms(1) by (rule mset_subset_eq_count)
  also have "\<dots> \<le> 1" using assms(2) by (simp add: distinct_count_atmost_1)
  finally have "count (mset ys) a \<le> 1" .
  show "count (mset ys) a = (if a \<in> set ys then 1 else 0)"
  proof (cases "a \<in> set ys")
    case True
    then have "0 < count (mset ys) a" by simp
    with \<open>count (mset ys) a \<le> 1\<close> have "count (mset ys) a = 1" by linarith
    with True show ?thesis by simp
  next
    case False
    then have "count (mset ys) a = 0" by (simp add: count_eq_zero_iff)
    with False show ?thesis by simp
  qed
qed

lemma list_all2_left: "list_all2 R xs ys \<Longrightarrow> x \<in> set xs \<Longrightarrow> \<exists>y\<in>set ys. R x y"
  by (induction rule: list_all2_induct) auto

lemma list_all2_right: "list_all2 R xs ys \<Longrightarrow> y \<in> set ys \<Longrightarrow> \<exists>x\<in>set xs. R x y"
  by (induction rule: list_all2_induct) auto

lemmas table_facts [table_simps] = set_update_where update_where_none

end
