(* ===== verification/Identifiers.thy ===== *)
theory Identifiers
  imports Prelude
begin

text \<open>
  The check-digit validators of \<^verbatim>\<open>src/internal/containerid\<close> (ISO 6346),
  \<^verbatim>\<open>src/internal/imonumber\<close> and \<^verbatim>\<open>src/internal/mmsinumber\<close>: the
  digit loops as recursions over the index, the acceptance predicates, and how
  far the two check digits detect mistyped numbers.
\<close>

section \<open>ISO 6346 container numbers\<close>

definition containerid_Pattern :: "segment list" where
  "containerid_Pattern = [Seg is_upper 4 4, Seg is_digit 7 7]"

definition letterValues :: "int list" where
  "letterValues =
     [10, 12, 13, 14, 15, 16, 17, 18, 19, 20, 21, 23, 24,
      25, 26, 27, 28, 29, 30, 31, 32, 34, 35, 36, 37, 38]"

definition containerid_value :: "char \<Rightarrow> int" where
  "containerid_value c = (if is_upper c then letterValues ! (byte c - 65) else digit_val c)"

text \<open>The loop \<open>for i := 0; i < 10; i++ { sum += value << uint(i) }\<close>, from index \<open>i\<close>.\<close>

fun containerid_sum :: "nat \<Rightarrow> string \<Rightarrow> int" where
  "containerid_sum i [] = 0"
| "containerid_sum i (c # cs) =
     (if i < 10 then containerid_value c * 2 ^ i + containerid_sum (Suc i) cs else 0)"

definition containerid_CheckDigit :: "string \<Rightarrow> int \<times> bool" where
  "containerid_CheckDigit code =
     (if length code \<noteq> 11 \<or> \<not> match_regex containerid_Pattern code then (0, False)
      else let digit = containerid_sum 0 code mod 11
           in (if digit = 10 then 0 else digit, True))"

definition containerid_Valid :: "string \<Rightarrow> bool" where
  "containerid_Valid code =
     (case containerid_CheckDigit code of
        (digit, ok) \<Rightarrow> if \<not> ok then False else digit_val (code ! 10) = digit)"

section \<open>IMO ship numbers\<close>

definition imonumber_Pattern :: "segment list" where
  "imonumber_Pattern = [Seg is_digit 7 7]"

fun imonumber_sum :: "nat \<Rightarrow> string \<Rightarrow> int" where
  "imonumber_sum i [] = 0"
| "imonumber_sum i (c # cs) =
     (if i < 6 then digit_val c * (7 - int i) + imonumber_sum (Suc i) cs else 0)"

definition imonumber_CheckDigit :: "string \<Rightarrow> int \<times> bool" where
  "imonumber_CheckDigit imo =
     (if \<not> match_regex imonumber_Pattern imo then (0, False) else (imonumber_sum 0 imo mod 10, True))"

definition imonumber_Valid :: "string \<Rightarrow> bool" where
  "imonumber_Valid imo =
     (case imonumber_CheckDigit imo of
        (digit, ok) \<Rightarrow> if \<not> ok then False else digit_val (imo ! 6) = digit)"

section \<open>Maritime Mobile Service Identities\<close>

definition is_nonzero_digit :: "char \<Rightarrow> bool" where
  "is_nonzero_digit c \<longleftrightarrow> 49 \<le> byte c \<and> byte c \<le> 57"

definition mmsinumber_Pattern :: "segment list" where
  "mmsinumber_Pattern = [Seg is_nonzero_digit 1 1, Seg is_digit 8 8]"

definition allocatedMIDs :: "string list" where
  "allocatedMIDs =
     [''657'', ''610'', ''613'', ''615'', ''619'', ''626'', ''627'', ''663'', ''667'', ''671'',
      ''211'', ''215'', ''219'', ''220'', ''226'', ''227'', ''228'', ''232'', ''233'', ''234'',
      ''235'', ''244'', ''245'', ''246'', ''257'', ''265'', ''266'', ''338'', ''366'', ''367'',
      ''368'', ''369'', ''370'', ''371'', ''372'', ''373'', ''538'', ''477'', ''412'', ''413'',
      ''414'', ''419'', ''431'', ''432'', ''563'', ''564'', ''565'', ''616'', ''620'', ''636'',
      ''637'']"

definition mmsinumber_MID :: "string \<Rightarrow> string \<times> bool" where
  "mmsinumber_MID mmsi =
     (if \<not> match_regex mmsinumber_Pattern mmsi then ([], False) else (take 3 mmsi, True))"

definition mmsinumber_Valid :: "string \<Rightarrow> bool" where
  "mmsinumber_Valid mmsi =
     (case mmsinumber_MID mmsi of (mid, ok) \<Rightarrow> if \<not> ok then False else mid \<in> set allocatedMIDs)"

section \<open>The shape of accepted numbers\<close>

lemma match_regex_two:
  "match_regex [Seg p a a, Seg q b b] s \<longleftrightarrow>
     length s = a + b \<and> list_all p (take a s) \<and> list_all q (drop a s)"
  by (auto simp: list_ex_iff min_def)

lemma containerid_CheckDigit_ok:
  "snd (containerid_CheckDigit code) \<longleftrightarrow>
     length code = 11 \<and> list_all is_upper (take 4 code) \<and> list_all is_digit (drop 4 code)"
  by (auto simp: containerid_CheckDigit_def containerid_Pattern_def match_regex_two Let_def)

lemma imonumber_CheckDigit_ok:
  "snd (imonumber_CheckDigit imo) \<longleftrightarrow> length imo = 7 \<and> list_all is_digit imo"
  by (auto simp: imonumber_CheckDigit_def imonumber_Pattern_def match_regex_single)

lemma containerid_Valid_iff:
  "containerid_Valid code \<longleftrightarrow>
     length code = 11 \<and> list_all is_upper (take 4 code) \<and> list_all is_digit (drop 4 code) \<and>
     digit_val (code ! 10) = (containerid_sum 0 code mod 11) mod 10"
proof -
  have small: "(x::int) mod 11 = 10 \<or> (0 \<le> x mod 11 \<and> x mod 11 < 10)" for x
    by (cases "x mod 11 = 10") (use pos_mod_bound [of 11 x] pos_mod_sign [of 11 x] in auto)
  show ?thesis
    using small [of "containerid_sum 0 code"]
    by (auto simp: containerid_Valid_def containerid_CheckDigit_def containerid_Pattern_def
          match_regex_two Let_def)
qed

lemma imonumber_Valid_iff:
  "imonumber_Valid imo \<longleftrightarrow>
     length imo = 7 \<and> list_all is_digit imo \<and> digit_val (imo ! 6) = imonumber_sum 0 imo mod 10"
  by (auto simp: imonumber_Valid_def imonumber_CheckDigit_def imonumber_Pattern_def match_regex_single)

lemma mmsinumber_Valid_shape:
  "mmsinumber_Valid m \<Longrightarrow> length m = 9 \<and> list_all is_digit (drop 1 m) \<and> take 3 m \<in> set allocatedMIDs"
  by (auto simp: mmsinumber_Valid_def mmsinumber_MID_def mmsinumber_Pattern_def match_regex_two
      split: if_splits)

section \<open>Changing one position\<close>

text \<open>
  Replacing the character at one index changes a weighted sum by the weight of
  that index; the two sums of this theory are instances.
\<close>

lemma containerid_sum_update:
  assumes "k < length s" and "i + k < 10"
  shows "containerid_sum i (s[k := c]) =
         containerid_sum i s + (containerid_value c - containerid_value (s ! k)) * 2 ^ (i + k)"
  using assms
proof (induction s arbitrary: i k)
  case Nil
  then show ?case by simp
next
  case (Cons a s)
  show ?case
  proof (cases k)
    case 0
    with Cons.prems show ?thesis by (simp add: algebra_simps)
  next
    case (Suc k')
    with Cons.prems have "k' < length s" "Suc i + k' < 10" by auto
    from Cons.IH [OF this] Suc Cons.prems show ?thesis by (simp add: algebra_simps)
  qed
qed

lemma imonumber_sum_update:
  assumes "k < length s" and "i + k < 6"
  shows "imonumber_sum i (s[k := c]) =
         imonumber_sum i s + (digit_val c - digit_val (s ! k)) * (7 - int (i + k))"
  using assms
proof (induction s arbitrary: i k)
  case Nil
  then show ?case by simp
next
  case (Cons a s)
  show ?case
  proof (cases k)
    case 0
    with Cons.prems show ?thesis by (simp add: algebra_simps)
  next
    case (Suc k')
    with Cons.prems have "k' < length s" "Suc i + k' < 6" by auto
    from Cons.IH [OF this] Suc Cons.prems show ?thesis by (simp add: algebra_simps)
  qed
qed

text \<open>Swapping two neighbours changes the IMO sum by the difference of the digits.\<close>

lemma imonumber_sum_swap:
  assumes "Suc k < length s" and "Suc k < 6"
  shows "imonumber_sum 0 (s[k := s ! Suc k, Suc k := s ! k]) =
         imonumber_sum 0 s + (digit_val (s ! Suc k) - digit_val (s ! k))"
  using assms
  by (simp add: imonumber_sum_update algebra_simps of_nat_diff)

lemma no_small_multiple_of_11:
  fixes d :: int
  assumes "- 9 \<le> d" "d \<le> 9" "d \<noteq> 0" "n < 10"
  shows "\<not> 11 dvd d * 2 ^ n"
proof
  assume "11 dvd d * 2 ^ n"
  moreover have "coprime (11::int) (2 ^ n)" by (simp add: coprime_power_right_iff)
  ultimately have "11 dvd d" by (simp add: coprime_dvd_mult_left_iff)
  with assms show False by (auto dest: zdvd_imp_le)
qed

lemma containerid_value_digit: "is_digit c \<Longrightarrow> containerid_value c = digit_val c"
  by (simp add: containerid_value_def is_upper_def is_digit_def)

lemma digit_val_inj: "digit_val c = digit_val d \<Longrightarrow> c = d"
  by (simp add: digit_val_def)

lemma mod11_residue_step:
  fixes a d :: int
  assumes "(a + d) mod 11 mod 10 = a mod 11 mod 10" and "a mod 11 \<noteq> 0" and "a mod 11 \<noteq> 10"
  shows "11 dvd d"
proof -
  have "a mod 11 \<in> {1..9}"
    using assms(2,3) pos_mod_bound [of 11 a] pos_mod_sign [of 11 a] by auto
  then have "(a + d) mod 11 = a mod 11"
    using assms(1) pos_mod_bound [of 11 "a + d"] pos_mod_sign [of 11 "a + d"]
    by (cases "(a + d) mod 11 = 10") auto
  then show ?thesis by (simp add: mod_eq_dvd_iff)
qed

text \<open>
  A container number whose serial digit at some position is mistyped is
  rejected: if \<open>code\<close> passes the ISO 6346 check and its weighted sum is not
  congruent to 0 or 10 modulo 11, then no other digit at any of the six serial
  positions passes. (Sums congruent to 0 and to 10 share the check digit 0, so
  for them the standard itself is blind to some single-digit errors.)
\<close>

theorem containerid_mistyped_digit_rejected:
  assumes valid: "containerid_Valid code"
    and pos: "4 \<le> k" "k < 10"
    and digit: "is_digit c" "c \<noteq> code ! k"
    and residue: "containerid_sum 0 code mod 11 \<noteq> 0" "containerid_sum 0 code mod 11 \<noteq> 10"
  shows "\<not> containerid_Valid (code[k := c])"
proof
  assume valid': "containerid_Valid (code[k := c])"
  from valid have len: "length code = 11" and "list_all is_digit (drop 4 code)"
    and check: "digit_val (code ! 10) = containerid_sum 0 code mod 11 mod 10"
    by (auto simp: containerid_Valid_iff)
  then have old: "is_digit (code ! k)"
    using pos by (auto simp: list_all_length dest: spec [of _ "k - 4"])
  define d where "d = digit_val c - digit_val (code ! k)"
  have sum: "containerid_sum 0 (code[k := c]) = containerid_sum 0 code + d * 2 ^ k"
    using pos len digit old by (simp add: containerid_sum_update containerid_value_digit d_def)
  from valid' pos len have "digit_val (code ! 10) = (containerid_sum 0 code + d * 2 ^ k) mod 11 mod 10"
    by (simp add: containerid_Valid_iff sum)
  with check have "(containerid_sum 0 code + d * 2 ^ k) mod 11 mod 10 = containerid_sum 0 code mod 11 mod 10"
    by linarith
  then have "11 dvd d * 2 ^ k"
    using residue by (rule mod11_residue_step)
  moreover have "- 9 \<le> d" "d \<le> 9" "d \<noteq> 0"
    using digit_val_range [OF old] digit_val_range [OF digit(1)] digit digit_val_inj
    by (auto simp: d_def)
  ultimately show False using no_small_multiple_of_11 pos by blast
qed

theorem containerid_mistyped_digit_rejected_witness:
  "containerid_Valid ''CSQU3054383'' \<and> \<not> containerid_Valid (''CSQU3054383''[5 := CHR ''7''])"
proof -
  have v: "containerid_Valid ''CSQU3054383''"
    by code_simp
  have r: "containerid_sum 0 ''CSQU3054383'' mod 11 = 3"
    by code_simp
  have d: "is_digit CHR ''7''" "CHR ''7'' \<noteq> ''CSQU3054383'' ! 5"
    by code_simp+
  show ?thesis
    using containerid_mistyped_digit_rejected [of "''CSQU3054383''" 5 "CHR ''7''"] v r d by simp
qed

text \<open>
  The IMO check digit catches every transposition: swapping two
  different neighbouring digits among the six weighted ones turns an accepted
  IMO number into a rejected one.
\<close>

theorem imonumber_transposition_rejected:
  assumes "imonumber_Valid imo" and "k < 5" and "imo ! k \<noteq> imo ! Suc k"
  shows "\<not> imonumber_Valid (imo[k := imo ! Suc k, Suc k := imo ! k])"
proof
  assume swapped: "imonumber_Valid (imo[k := imo ! Suc k, Suc k := imo ! k])"
  from assms(1) have len: "length imo = 7" and digits: "list_all is_digit imo"
    and check: "digit_val (imo ! 6) = imonumber_sum 0 imo mod 10"
    by (auto simp: imonumber_Valid_iff)
  define d where "d = digit_val (imo ! Suc k) - digit_val (imo ! k)"
  have "is_digit (imo ! k)" "is_digit (imo ! Suc k)"
    using digits len assms(2) by (auto simp: list_all_length)
  then have range: "- 9 \<le> d" "d \<le> 9" "d \<noteq> 0"
    using digit_val_range [of "imo ! k"] digit_val_range [of "imo ! Suc k"] assms(3) digit_val_inj
    by (auto simp: d_def)
  from swapped len assms(2) have "imonumber_sum 0 imo mod 10 = (imonumber_sum 0 imo + d) mod 10"
    by (simp add: imonumber_Valid_iff imonumber_sum_swap check d_def)
  then have "10 dvd d" by (metis add_diff_cancel_left' mod_eq_dvd_iff)
  with range show False by (auto dest: zdvd_imp_le)
qed

theorem imonumber_transposition_rejected_witness:
  "imonumber_Valid ''9074729'' \<and> \<not> imonumber_Valid (''9074729''[0 := CHR ''0'', Suc 0 := CHR ''9''])"
proof -
  have "imonumber_Valid ''9074729''" by code_simp
  then show ?thesis
    using imonumber_transposition_rejected [of "''9074729''" 0] by simp
qed

end
