(* ===== verification/Tenant.thy ===== *)
theory Tenant
  imports Prelude
begin

text \<open>
  \<^verbatim>\<open>src/internal/tenantctx\<close> (claims, tenant identifiers, roles) and
  \<^verbatim>\<open>src/internal/tenantdb\<close> (the tenant transaction). A request context is
  a \<open>ctx\<close>: the verified claims if there are any, and what PostgreSQL answers
  to \<open>BEGIN\<close>, to \<open>set_config\<close> and to \<open>COMMIT\<close> of this request's transaction.
  Clock readings and random UUIDs are tapes (\<open>env\<close>): \<open>clk e n\<close> is the n-th
  reading of \<open>time.Now()\<close> of the operation and \<open>rnd e n\<close> its n-th fresh UUID.
  Times are microseconds, the resolution of the database.
\<close>

section \<open>Claims\<close>

type_synonym time = int

record Claims =
  Issuer :: string
  Audience :: string
  TenantID :: string
  Subject :: string
  Expires :: int
  Roles :: "string list"

definition HasRole :: "Claims \<Rightarrow> string \<Rightarrow> bool" where
  "HasRole claims role = list_ex (\<lambda>held. held = role) (Roles claims)"

definition HasAnyRole :: "Claims \<Rightarrow> string list \<Rightarrow> bool" where
  "HasAnyRole claims roles = list_ex (HasRole claims) roles"

definition validRole :: "string \<Rightarrow> bool" where
  "validRole value =
     (if len value < 2 \<or> len value > 64 then False
      else if \<not> list_all (\<lambda>c. is_lower c \<or> is_digit c \<or> c = CHR ''-'') value then False
      else is_lower (value ! 0))"

text \<open>The loop of \<open>sanitizeRoles\<close> with its \<open>seen\<close> set and the roles kept so far.\<close>

fun sanitize_loop :: "string set \<Rightarrow> string list \<Rightarrow> string list \<Rightarrow> string list" where
  "sanitize_loop seen clean [] = clean"
| "sanitize_loop seen clean (role # roles) =
     (if \<not> validRole role \<or> role \<in> seen then sanitize_loop seen clean roles
      else sanitize_loop (insert role seen) (clean @ [role]) roles)"

definition sanitizeRoles :: "string list \<Rightarrow> string list" where
  "sanitizeRoles roles = sanitize_loop {} [] roles"

definition is_tenant_char :: "char \<Rightarrow> bool" where
  "is_tenant_char c \<longleftrightarrow> is_lower c \<or> is_upper c \<or> is_digit c \<or>
     c = CHR ''.'' \<or> c = CHR ''_'' \<or> c = CHR '':'' \<or> c = CHR ''-''"

definition validTenantID :: "string \<Rightarrow> bool" where
  "validTenantID value =
     (if len value < 11 \<or> len value > 135 \<or> \<not> prefix ''tenant-'' value then False
      else list_all is_tenant_char (drop 7 value))"

section \<open>Contexts\<close>

record ctx =
  ctx_claims :: "Claims option"
  begin_err :: "go_error option"
  config_err :: "go_error option"
  commit_err :: "go_error option"

record env =
  clk :: "nat \<Rightarrow> time"
  rnd :: "nat \<Rightarrow> string"

definition later :: "nat \<Rightarrow> nat \<Rightarrow> env \<Rightarrow> env" where
  "later i j e = \<lparr>clk = (\<lambda>n. clk e (n + i)), rnd = (\<lambda>n. rnd e (n + j))\<rparr>"

definition TenantClaims :: "ctx \<Rightarrow> Claims result" where
  "TenantClaims c = from_option (ErrText ''validated tenant context is required'') (ctx_claims c)"

definition WithClaims :: "ctx \<Rightarrow> Claims \<Rightarrow> ctx result" where
  "WithClaims c claims =
     (if \<not> validTenantID (TenantID claims) \<or> TrimSpace (Subject claims) = []
      then Inl (ErrText ''cannot attach unverified tenant claims'')
      else Inr (c\<lparr>ctx_claims := Some claims\<rparr>))"

section \<open>The tenant transaction\<close>

text \<open>
  \<open>WithTx\<close> runs \<open>work\<close> on the database of the transaction. Every error return
  reaches the deferred \<open>Rollback\<close>, so the database is the one before; only a
  successful \<open>Commit\<close> publishes the new one.
\<close>

definition WithTx :: "ctx \<Rightarrow> (Claims \<Rightarrow> 'db \<Rightarrow> ('a \<times> 'db) result) \<Rightarrow> 'db \<Rightarrow> 'a result \<times> 'db" where
  "WithTx c work db =
     (case TenantClaims c of
        Inl e \<Rightarrow> (Inl e, db)
      | Inr claims \<Rightarrow>
         (case begin_err c of
            Some e \<Rightarrow> (Inl (Wrapf ''begin tenant transaction'' e), db)
          | None \<Rightarrow>
             (case config_err c of
                Some e \<Rightarrow> (Inl (Wrapf ''set tenant transaction context'' e), db)
              | None \<Rightarrow>
                 (case work claims db of
                    Inl e \<Rightarrow> (Inl e, db)
                  | Inr (a, db') \<Rightarrow>
                     (case commit_err c of
                        Some e \<Rightarrow> (Inl (Wrapf ''commit tenant transaction'' e), db)
                      | None \<Rightarrow> (Inr a, db'))))))"

lemma WithTx_cases:
  assumes "WithTx c work db = (r, db')"
  obtains (rollback) err where "r = Inl err" and "db' = db"
  | (commit) claims a where "ctx_claims c = Some claims" and "work claims db = Inr (a, db')" and "r = Inr a"
  using assms
  by (auto simp: WithTx_def TenantClaims_def split: sum.splits option.splits prod.splits)

lemma WithTx_error: "WithTx c work db = (Inl e, db') \<Longrightarrow> db' = db"
  by (erule WithTx_cases) auto

lemma WithTx_InrD:
  "WithTx c work db = (Inr a, db') \<Longrightarrow> \<exists>claims. ctx_claims c = Some claims \<and> work claims db = Inr (a, db')"
  by (erule WithTx_cases) auto

lemma WithTx_Inr_intro:
  "\<lbrakk>ctx_claims c = Some claims; begin_err c = None; config_err c = None; commit_err c = None;
    work claims db = Inr (a, db')\<rbrakk> \<Longrightarrow> WithTx c work db = (Inr a, db')"
  by (simp add: WithTx_def TenantClaims_def)

text \<open>
  An invariant that every successful unit of work keeps is kept by the
  transaction, whatever it answers.
\<close>

lemma WithTx_invariant:
  assumes "WithTx c work db = (r, db')" and "I db"
    and "\<And>claims a db'. work claims db = Inr (a, db') \<Longrightarrow> I db'"
  shows "I db'"
  using assms by (auto elim!: WithTx_cases)

lemma WithTx_relation:
  assumes "WithTx c work db = (r, db')" and "R db db"
    and "\<And>claims a db'. ctx_claims c = Some claims \<Longrightarrow> work claims db = Inr (a, db') \<Longrightarrow> R db db'"
  shows "R db db'"
  using assms by (auto elim!: WithTx_cases)

text \<open>
  The same transaction around work that also calls an external system \<open>'w\<close> (the
  settlement ledger): a rollback undoes the database but not the outside world.
\<close>

definition WithTxW ::
  "ctx \<Rightarrow> (Claims \<Rightarrow> 'db \<Rightarrow> 'w \<Rightarrow> ('a \<times> 'db) result \<times> 'w) \<Rightarrow> 'db \<Rightarrow> 'w \<Rightarrow> 'a result \<times> 'db \<times> 'w" where
  "WithTxW c work db w =
     (case TenantClaims c of
        Inl e \<Rightarrow> (Inl e, db, w)
      | Inr claims \<Rightarrow>
         (case begin_err c of
            Some e \<Rightarrow> (Inl (Wrapf ''begin tenant transaction'' e), db, w)
          | None \<Rightarrow>
             (case config_err c of
                Some e \<Rightarrow> (Inl (Wrapf ''set tenant transaction context'' e), db, w)
              | None \<Rightarrow>
                 (case work claims db w of
                    (Inl e, w') \<Rightarrow> (Inl e, db, w')
                  | (Inr (a, db'), w') \<Rightarrow>
                     (case commit_err c of
                        Some e \<Rightarrow> (Inl (Wrapf ''commit tenant transaction'' e), db, w')
                      | None \<Rightarrow> (Inr a, db', w'))))))"

lemma WithTxW_cases:
  assumes "WithTxW c work db w = (r, db', w')"
  obtains (unstarted) err where "r = Inl err" and "db' = db" and "w' = w"
  | (rollback) claims err x where "ctx_claims c = Some claims" and "work claims db w = (x, w')"
      and "r = Inl err" and "db' = db"
  | (commit) claims a where "ctx_claims c = Some claims" and "work claims db w = (Inr (a, db'), w')"
      and "r = Inr a"
proof (cases "\<exists>claims. ctx_claims c = Some claims \<and> begin_err c = None \<and> config_err c = None")
  case False
  then have "\<exists>err. (r, db', w') = (Inl err, db, w)"
    using assms
    by (cases "ctx_claims c"; cases "begin_err c"; cases "config_err c")
       (auto simp: WithTxW_def TenantClaims_def)
  then show thesis by (auto intro: unstarted)
next
  case True
  then obtain claims where c: "ctx_claims c = Some claims" "begin_err c = None" "config_err c = None"
    by blast
  obtain x w1 where w: "work claims db w = (x, w1)" by (cases "work claims db w") blast
  show thesis
  proof (cases x)
    case (Inl err)
    with assms c w have "r = Inl err" "db' = db" "w' = w1" by (simp_all add: WithTxW_def TenantClaims_def)
    with c(1) w show thesis by (auto intro: rollback)
  next
    case (Inr y)
    then obtain a d where x: "x = Inr (a, d)" by (cases y) auto
    show thesis
    proof (cases "commit_err c")
      case None
      with assms c w x have "r = Inr a" "db' = d" "w' = w1" by (simp_all add: WithTxW_def TenantClaims_def)
      with c(1) w x show thesis by (auto intro: commit)
    next
      case (Some e)
      with assms c w x have "r = Inl (Wrapf ''commit tenant transaction'' e)" "db' = db" "w' = w1"
        by (simp_all add: WithTxW_def TenantClaims_def)
      with c(1) w show thesis by (auto intro: rollback)
    qed
  qed
qed

lemma WithTxW_relation:
  assumes "WithTxW c work db w = (r, db', w')" and "R db db"
    and "\<And>claims a db'. ctx_claims c = Some claims \<Longrightarrow> work claims db w = (Inr (a, db'), w') \<Longrightarrow> R db db'"
  shows "R db db'"
  using assms by (auto elim!: WithTxW_cases)

section \<open>Roles\<close>

lemma sanitize_loop_set:
  assumes "set clean = seen"
  shows "set (sanitize_loop seen clean roles) = seen \<union> {r \<in> set roles. validRole r}"
  using assms by (induction seen clean roles rule: sanitize_loop.induct) auto

lemma sanitize_loop_distinct:
  "set clean = seen \<Longrightarrow> distinct clean \<Longrightarrow> distinct (sanitize_loop seen clean roles)"
  by (induction seen clean roles rule: sanitize_loop.induct) auto

text \<open>
  \<open>sanitizeRoles\<close> keeps exactly the well-formed roles of a token, once
  each: a token carries a role after verification iff it carried it before and
  the role name is canonical, so a token of malformed roles ends with none.
\<close>

theorem sanitizeRoles_exact:
  "set (sanitizeRoles roles) = {r \<in> set roles. validRole r} \<and> distinct (sanitizeRoles roles)
   \<and> HasRole (cl\<lparr>Roles := sanitizeRoles roles\<rparr>) role = (role \<in> set roles \<and> validRole role)"
proof -
  have "set (sanitizeRoles roles) = {r \<in> set roles. validRole r}"
    by (simp add: sanitizeRoles_def sanitize_loop_set)
  moreover have "distinct (sanitizeRoles roles)"
    by (simp add: sanitizeRoles_def sanitize_loop_distinct)
  ultimately show ?thesis by (auto simp: HasRole_def list_ex_iff)
qed

end
