(* ===== verification/Events.thy ===== *)
theory Events
  imports Tenant "HOL-Library.List_Lexorder" "HOL-Library.Char_ord"
begin

text \<open>
  \<^verbatim>\<open>src/internal/events/envelope.go\<close>: the event envelope, its validation and
  the FHIR bundle it carries. The domain payload stands for its JSON text. The
  Ed25519 signature over the canonicalised JSON is a parameter (\<open>signer\<close>),
  because canonicalisation is a third-party package.
\<close>

definition TopicBooking :: string where "TopicBooking = ''ports.booking.v1''"
definition TopicGate :: string where "TopicGate = ''ports.gate.v1''"
definition TopicQueue :: string where "TopicQueue = ''ports.queue.v1''"
definition TopicDeclarations :: string where "TopicDeclarations = ''trade.declarations.v1''"

definition validTopic :: "string \<Rightarrow> bool" where
  "validTopic topic \<longleftrightarrow> topic \<in> set
     [TopicBooking, TopicGate, TopicQueue, TopicDeclarations,
      ''ports.offshore.v1'', ''ports.manifests.v1'', ''ports.cruise.v1'',
      ''finance.revenue-assessments.v1'', ''ports.securechain.v1'', ''registry.vessel.v1'',
      ''registry.seafarer.v1'', ''registry.cabotage.v1'', ''registry.fisheries.v1'',
      ''ports.waste-receipts.v1'']"

record Provenance =
  PrincipalID :: string
  PrincipalRole :: string
  Signature :: string
  LedgerCommitHash :: string

datatype 'p fhirExtension = PayloadExtension 'p | ScalarExtension string string

record 'p fhirBundle =
  fb_Timestamp :: time
  fb_FullURL :: string
  fb_ID :: string
  fb_Code :: string
  fb_Extension :: "'p fhirExtension list"

record 'p Envelope =
  ev_EnvelopeVersion :: string
  ev_EventID :: string
  ev_EventType :: string
  ev_OccurredAt :: time
  ev_Producer :: string
  ev_CorrelationID :: string
  ev_Classification :: string
  ev_FHIR :: "'p fhirBundle"
  ev_Provenance :: Provenance

type_synonym 'p signer = "'p Envelope \<Rightarrow> string result"

section \<open>The ordering of extension keys\<close>

text \<open>
  The nested loops that order the keys: \<open>exchange_pass x ys\<close> is the inner loop
  with the element at index \<open>i\<close> in hand, \<open>exchange_sort\<close> the outer one.
\<close>

fun exchange_pass :: "'a::linorder \<Rightarrow> 'a list \<Rightarrow> 'a \<times> 'a list" where
  "exchange_pass x [] = (x, [])"
| "exchange_pass x (y # ys) =
     (if y < x then (case exchange_pass y ys of (m, r) \<Rightarrow> (m, x # r))
      else (case exchange_pass x ys of (m, r) \<Rightarrow> (m, y # r)))"

lemma exchange_pass_length: "exchange_pass x ys = (m, r) \<Longrightarrow> length r = length ys"
  by (induction x ys arbitrary: m r rule: exchange_pass.induct) (auto split: if_splits prod.splits)

function exchange_sort :: "'a::linorder list \<Rightarrow> 'a list" where
  "exchange_sort [] = []"
| "exchange_sort (x # xs) = (case exchange_pass x xs of (m, r) \<Rightarrow> m # exchange_sort r)"
  by pat_completeness auto
termination
  by (relation "measure length") (auto dest: exchange_pass_length [OF sym])

lemma exchange_pass_mset:
  "exchange_pass x ys = (m, r) \<Longrightarrow> add_mset m (mset r) = add_mset x (mset ys)"
  by (induction x ys arbitrary: m r rule: exchange_pass.induct)
     (auto split: if_splits prod.splits simp: add_mset_commute)

lemma exchange_pass_min: "exchange_pass x ys = (m, r) \<Longrightarrow> m \<le> x \<and> (\<forall>y\<in>set r. m \<le> y)"
  by (induction x ys arbitrary: m r rule: exchange_pass.induct)
     (fastforce split: if_splits prod.splits)+

lemma exchange_sort_mset: "mset (exchange_sort xs) = mset xs"
  by (induction xs rule: exchange_sort.induct)
     (auto split: prod.splits dest: exchange_pass_mset)

lemma exchange_sort_sorted: "sorted (exchange_sort xs)"
proof (induction xs rule: exchange_sort.induct)
  case (2 x xs)
  obtain m r where p: "exchange_pass x xs = (m, r)" by fastforce
  have "\<forall>y\<in>set (exchange_sort r). m \<le> y"
    using exchange_pass_min [OF p] mset_eq_setD [OF exchange_sort_mset [of r]] by auto
  with 2 p show ?case by simp
qed simp

lemma exchange_sort_eq: "exchange_sort xs = sort xs"
  by (rule properties_for_sort [symmetric]) (simp_all add: exchange_sort_mset exchange_sort_sorted)

section \<open>Building an envelope\<close>

definition entry_extensions :: "'p \<Rightarrow> (string \<times> string) list \<Rightarrow> 'p fhirExtension list" where
  "entry_extensions payload extensions =
     PayloadExtension payload #
     map (\<lambda>key. ScalarExtension (''https://blueeconomy.gov.ng/fhir/StructureDefinition/'' @ key)
                   (case map_of extensions key of None \<Rightarrow> [] | Some v \<Rightarrow> v))
       (exchange_sort (map fst extensions))"

definition Message ::
  "string \<Rightarrow> string \<Rightarrow> string \<Rightarrow> string \<Rightarrow> 'p \<Rightarrow> (string \<times> string) list \<Rightarrow> Provenance \<Rightarrow> time
   \<Rightarrow> 'p signer option \<Rightarrow> env \<Rightarrow> 'p Envelope result" where
  "Message eventType topic correlationID subjectID payload extensions prov occurredAt signer e =
     (case signer of
        None \<Rightarrow> Inl (ErrText ''an envelope signer is required'')
      | Some sign \<Rightarrow>
         if TrimSpace eventType = [] \<or> \<not> validTopic topic
         then Inl (ErrText ''event type and a platform v1 topic are required'')
         else if TrimSpace correlationID = [] \<or> TrimSpace subjectID = []
         then Inl (ErrText ''correlation id and subject id are required'')
         else if TrimSpace (PrincipalID prov) = [] \<or> TrimSpace (PrincipalRole prov) = []
         then Inl (ErrText ''provenance principal id and role are required'')
         else if list_ex (\<lambda>key. TrimSpace key = []) (map fst extensions)
         then Inl (ErrText ''extension keys must be non-empty'')
         else let bundle = \<lparr>fb_Timestamp = occurredAt, fb_FullURL = ''urn:uuid:'' @ rnd e 0,
                            fb_ID = subjectID, fb_Code = eventType,
                            fb_Extension = entry_extensions payload extensions\<rparr>;
                  envelope = \<lparr>ev_EnvelopeVersion = ''1.0'', ev_EventID = rnd e 1,
                              ev_EventType = eventType, ev_OccurredAt = occurredAt,
                              ev_Producer = ''s1-port-interoperability'',
                              ev_CorrelationID = correlationID, ev_Classification = ''INTERNAL'',
                              ev_FHIR = bundle, ev_Provenance = prov\<rparr>
              in (case sign envelope of
                    Inl err \<Rightarrow> Inl (Wrapf ''sign envelope'' err)
                  | Inr signature \<Rightarrow>
                      Inr (envelope\<lparr>ev_Provenance := prov\<lparr>Signature := signature\<rparr>\<rparr>)))"

lemma entry_extensions_order:
  assumes "mset ext1 = mset ext2" and "distinct (map fst ext1)"
  shows "entry_extensions p ext1 = entry_extensions p ext2"
proof -
  have keys: "mset (map fst ext1) = mset (map fst ext2)" using assms(1) by simp
  have dist2: "distinct (map fst ext2)"
    using assms(2) mset_eq_imp_distinct_iff [OF keys] by blast
  have "map_of ext1 = map_of ext2"
    using assms dist2 mset_eq_setD [OF assms(1)] by (metis map_of_inject_set)
  moreover have "exchange_sort (map fst ext1) = exchange_sort (map fst ext2)"
    using keys by (simp add: exchange_sort_eq) (metis mset_map properties_for_sort sorted_sort mset_sort)
  ultimately show ?thesis by (simp add: entry_extensions_def)
qed

text \<open>
  The bytes that are signed do not depend on the iteration order of
  Go's extension map: any two orders of the same key-value pairs build the same
  envelope (or the same error), because the exchange loops are a sort.
\<close>

theorem Message_map_order_irrelevant:
  assumes "mset ext1 = mset ext2" and "distinct (map fst ext1)"
  shows "Message ty topic corr sub p ext1 prov at signer e = Message ty topic corr sub p ext2 prov at signer e"
proof -
  have keys: "list_ex (\<lambda>key. TrimSpace key = []) (map fst ext1) = list_ex (\<lambda>key. TrimSpace key = []) (map fst ext2)"
    using mset_eq_setD [OF assms(1)] by (auto simp: list_ex_iff)
  show ?thesis
    by (simp only: Message_def keys entry_extensions_order [OF assms])
qed

theorem Message_map_order_irrelevant_witness:
  "Message ''booking.paid'' TopicBooking ''corr'' ''bk-1'' (7::nat) [(''b'', ''2''), (''a'', ''1'')]
     \<lparr>PrincipalID = ''p'', PrincipalRole = ''r'', Signature = [], LedgerCommitHash = []\<rparr> 5
     (Some (\<lambda>_. Inr ''sig'')) \<lparr>clk = (\<lambda>_. 0), rnd = (\<lambda>_. ''u'')\<rparr>
   = Message ''booking.paid'' TopicBooking ''corr'' ''bk-1'' 7 [(''a'', ''1''), (''b'', ''2'')]
     \<lparr>PrincipalID = ''p'', PrincipalRole = ''r'', Signature = [], LedgerCommitHash = []\<rparr> 5
     (Some (\<lambda>_. Inr ''sig'')) \<lparr>clk = (\<lambda>_. 0), rnd = (\<lambda>_. ''u'')\<rparr>"
  by (rule Message_map_order_irrelevant) simp_all

text \<open>What a successful call says about its inputs, for the emitting packages.\<close>

lemma Message_InrD:
  assumes "Message ty topic corr sub p ext prov at signer e = Inr env"
  shows "signer \<noteq> None \<and> ev_EventType env = ty \<and> ev_CorrelationID env = corr \<and> fb_ID (ev_FHIR env) = sub
    \<and> TrimSpace (PrincipalID prov) \<noteq> [] \<and> TrimSpace (PrincipalRole prov) \<noteq> []
    \<and> PrincipalID (ev_Provenance env) = PrincipalID prov
    \<and> LedgerCommitHash (ev_Provenance env) = LedgerCommitHash prov"
  using assms by (auto simp: Message_def Let_def split: option.splits if_splits sum.splits)

end
