(* ===== verification/Booking_Model.thy ===== *)
theory Booking_Model
  imports Tenant Identifiers
begin

text \<open>
  \<^verbatim>\<open>src/internal/booking/model.go\<close>: the truck-booking state machine, the
  booking, slot, intent and scan records, and the validation of requests.
\<close>

section \<open>States and transitions\<close>

datatype BStatus =
    B_DRAFTED | B_PENDING_SYNC | B_SLOT_RESERVED | B_PAID | B_VALIDATION_PENDING | B_GATE_APPROVED
  | B_COMPLETED | B_CANCELLED | B_EXPIRED | B_REJECTED | B_RECONCILIATION_REQUIRED | B_REFUNDED

fun booking_transitions :: "BStatus \<Rightarrow> BStatus list" where
  "booking_transitions B_DRAFTED = [B_SLOT_RESERVED, B_CANCELLED]"
| "booking_transitions B_PENDING_SYNC = [B_SLOT_RESERVED, B_RECONCILIATION_REQUIRED, B_CANCELLED]"
| "booking_transitions B_SLOT_RESERVED = [B_PAID, B_EXPIRED, B_CANCELLED]"
| "booking_transitions B_PAID =
     [B_GATE_APPROVED, B_VALIDATION_PENDING, B_EXPIRED, B_CANCELLED, B_REFUNDED]"
| "booking_transitions B_VALIDATION_PENDING =
     [B_PAID, B_REJECTED, B_EXPIRED, B_CANCELLED, B_REFUNDED]"
| "booking_transitions B_GATE_APPROVED = [B_COMPLETED]"
| "booking_transitions B_REJECTED = [B_CANCELLED]"
| "booking_transitions B_RECONCILIATION_REQUIRED = [B_SLOT_RESERVED, B_CANCELLED]"
| "booking_transitions _ = []"

definition booking_ValidTransition :: "BStatus \<Rightarrow> BStatus \<Rightarrow> bool" where
  "booking_ValidTransition current next \<longleftrightarrow> next \<in> set (booking_transitions current)"

text \<open>The statuses the SQL of the store and of the capacity trigger counts against a slot.\<close>

definition holds_capacity :: "BStatus \<Rightarrow> bool" where
  "holds_capacity s \<longleftrightarrow> s \<in> {B_SLOT_RESERVED, B_PAID, B_VALIDATION_PENDING, B_GATE_APPROVED}"

datatype Channel = ChannelWeb | ChannelUSSD | ChannelOffline | ChannelOther string

section \<open>Patterns\<close>

definition truckPlatePattern :: "segment list" where
  "truckPlatePattern = [Seg is_upper_digit 1 1, Seg is_upper_digit_dash 2 15]"

definition msisdnPattern :: "segment list" where
  "msisdnPattern = [Seg (\<lambda>c. c = CHR ''+'') 1 1, Seg is_digit 8 15]"

definition terminalPattern :: "segment list" where
  "terminalPattern = [Seg is_upper 1 1, Seg is_upper_digit_dash 1 31]"

definition portCodePattern :: "segment list" where
  "portCodePattern = [Seg is_upper 2 8]"

definition declarationRefPattern :: "segment list" where
  "declarationRefPattern = [Seg is_upper_digit 1 1, Seg is_upper_digit_slash_dash 3 63]"

section \<open>Records\<close>

record BCreateRequest =
  cr_RequestID :: string
  cr_TruckPlate :: string
  cr_TruckerMSISDN :: string
  cr_TerminalID :: string
  cr_Channel :: Channel
  cr_AmountKobo :: int
  cr_ExpiresAt :: time
  cr_CargoDeclarationRef :: string
  cr_DeclaredWeightKg :: int
  cr_ConsigneeID :: string
  cr_OperatorID :: string
  cr_ContainerID :: string

record BookingRow =
  b_BookingID :: string
  b_TenantID :: string
  b_RequestID :: string
  b_TruckPlate :: string
  b_TruckerMSISDN :: string
  b_TerminalID :: string
  b_CreatedBy :: "string option"
  b_SlotID :: "string option"
  b_Channel :: Channel
  b_Status :: BStatus
  b_AmountKobo :: int
  b_Currency :: string
  b_CargoDeclarationRef :: "string option"
  b_DeclaredWeightKg :: "int option"
  b_ConsigneeID :: "string option"
  b_OperatorID :: "string option"
  b_ContainerID :: "string option"
  b_PaymentReceiptRef :: "string option"
  b_GateID :: "string option"
  b_LedgerCommitHash :: "string option"
  b_ReconciliationReason :: "string option"
  b_CreatedAt :: time
  b_UpdatedAt :: time
  b_ExpiresAt :: time
  b_Version :: int

record Slot =
  s_SlotID :: string
  s_TenantID :: string
  s_TerminalID :: string
  s_StartsAt :: time
  s_EndsAt :: time
  s_Capacity :: int
  s_CreatedAt :: time

record PaymentIntent =
  i_IntentID :: string
  i_TenantID :: string
  i_BookingID :: string
  i_RequestID :: string
  i_AmountKobo :: int
  i_Currency :: string
  i_MojaloopTxRef :: string
  i_Status :: string
  i_CreatedAt :: time

record GateScan =
  g_ScanID :: string
  g_TenantID :: string
  g_BookingID :: string
  g_GateID :: string
  g_ScannedBy :: string
  g_Decision :: string
  g_DenialReason :: "string option"
  g_ScannedAt :: time

record Principal =
  pr_ID :: string
  pr_Role :: string

section \<open>Validation\<close>

text \<open>
  \<open>time.Time{}\<close>, the instant \<open>IsZero\<close> recognises: 1 January of year 1, in
  microseconds before the Unix epoch.
\<close>

definition zero_time :: time where
  "zero_time = - 62135596800000000"

definition booking_Validate :: "time \<Rightarrow> BCreateRequest \<Rightarrow> go_error option" where
  "booking_Validate now r =
     (if len (cr_RequestID r) < 8 \<or> len (cr_RequestID r) > 128 \<or> cr_RequestID r \<noteq> TrimSpace (cr_RequestID r)
      then Some (ErrText ''request_id must be canonical text between 8 and 128 characters'')
      else if \<not> match_regex truckPlatePattern (cr_TruckPlate r)
      then Some (ErrText ''truck_plate must be an uppercase registration plate'')
      else if \<not> match_regex msisdnPattern (cr_TruckerMSISDN r)
      then Some (ErrText ''trucker_msisdn must be E.164'')
      else if \<not> match_regex terminalPattern (cr_TerminalID r)
      then Some (ErrText ''terminal_id is invalid'')
      else if cr_Channel r \<notin> {ChannelWeb, ChannelUSSD, ChannelOffline}
      then Some (ErrText ''channel must be WEB, USSD or OFFLINE'')
      else if cr_AmountKobo r \<le> 0
      then Some (ErrText ''amount_kobo must be positive'')
      else if cr_ExpiresAt r = zero_time \<or> cr_ExpiresAt r < now
      then Some (ErrText ''expires_at must be in the future'')
      else if cr_ContainerID r \<noteq> [] \<and> \<not> containerid_Valid (cr_ContainerID r)
      then Some (ErrText ''container_id must be an ISO 6346 container number with a valid check digit'')
      else if cr_CargoDeclarationRef r = []
      then (if cr_DeclaredWeightKg r \<noteq> 0 \<or> cr_ConsigneeID r \<noteq> [] \<or> cr_OperatorID r \<noteq> []
            then Some (ErrText ''customs declaration fields require cargo_declaration_ref'') else None)
      else if \<not> match_regex declarationRefPattern (cr_CargoDeclarationRef r)
      then Some (ErrText ''cargo_declaration_ref is invalid'')
      else if cr_DeclaredWeightKg r \<le> 0
      then Some (ErrText ''declared_weight_kg must be positive when a cargo declaration is referenced'')
      else if len (cr_ConsigneeID r) < 2 \<or> len (cr_ConsigneeID r) > 128 \<or> cr_ConsigneeID r \<noteq> TrimSpace (cr_ConsigneeID r)
      then Some (ErrText ''consignee_id must be canonical text between 2 and 128 characters'')
      else if len (cr_OperatorID r) < 2 \<or> len (cr_OperatorID r) > 128 \<or> cr_OperatorID r \<noteq> TrimSpace (cr_OperatorID r)
      then Some (ErrText ''operator_id must be canonical text between 2 and 128 characters'')
      else None)"

definition ValidateSlotWindow :: "time \<Rightarrow> time \<Rightarrow> int \<Rightarrow> go_error option" where
  "ValidateSlotWindow startsAt endsAt capacity =
     (if \<not> endsAt > startsAt then Some (ErrText ''slot ends_at must be after starts_at'')
      else if capacity < 1 then Some (ErrText ''slot capacity must be at least 1'')
      else None)"

definition booking_ValidateTerminalID :: "string \<Rightarrow> go_error option" where
  "booking_ValidateTerminalID value =
     (if \<not> match_regex terminalPattern value then Some (ErrText ''terminal_id is invalid'') else None)"

definition ValidatePortCode :: "string \<Rightarrow> go_error option" where
  "ValidatePortCode value =
     (if \<not> match_regex portCodePattern value then Some (ErrText ''port_code is invalid'') else None)"

section \<open>Facts on the state machine\<close>

lemma booking_transition_irrefl: "\<not> booking_ValidTransition s s"
  by (cases s) (simp_all add: booking_ValidTransition_def)

definition booking_terminal :: "BStatus \<Rightarrow> bool" where
  "booking_terminal s \<longleftrightarrow> s \<in> {B_COMPLETED, B_CANCELLED, B_EXPIRED, B_REFUNDED}"

lemma booking_terminal_stuck: "booking_terminal s \<longleftrightarrow> (\<forall>t. \<not> booking_ValidTransition s t)"
  by (cases s) (auto simp: booking_terminal_def booking_ValidTransition_def)

text \<open>A new reservation starts only from the three states without a slot.\<close>

lemma transition_into_capacity:
  "booking_ValidTransition s t \<Longrightarrow> holds_capacity t \<Longrightarrow> \<not> holds_capacity s \<Longrightarrow>
   t = B_SLOT_RESERVED \<and> s \<in> {B_DRAFTED, B_PENDING_SYNC, B_RECONCILIATION_REQUIRED}"
  by (cases s) (auto simp: booking_ValidTransition_def holds_capacity_def)

end
