(* ===== verification/Queue_Model.thy ===== *)
theory Queue_Model
  imports Booking_Model
begin

text \<open>
  \<^verbatim>\<open>src/internal/queue/model.go\<close>: the call-up queue's state machine, priority
  classes, records and request validation. The plate, MSISDN and terminal
  patterns are the same regular expressions as in the booking package.
\<close>

datatype QStatus =
    Q_REQUESTED | Q_QUEUED | Q_CALLED_UP | Q_EN_ROUTE | Q_ARRIVED | Q_CANCELLED | Q_EXPIRED
  | Q_FORFEITED | Q_RECONCILIATION_REQUIRED

datatype PriorityClass = ClassStandard | ClassPerishable | ClassPriority | ClassOther string

fun rank_class :: "PriorityClass \<Rightarrow> int" where
  "rank_class ClassPerishable = 0"
| "rank_class ClassPriority = 1"
| "rank_class _ = 2"

fun queue_transitions :: "QStatus \<Rightarrow> QStatus list" where
  "queue_transitions Q_REQUESTED = [Q_QUEUED, Q_CANCELLED, Q_RECONCILIATION_REQUIRED]"
| "queue_transitions Q_QUEUED = [Q_CALLED_UP, Q_EXPIRED, Q_CANCELLED, Q_RECONCILIATION_REQUIRED]"
| "queue_transitions Q_CALLED_UP =
     [Q_EN_ROUTE, Q_ARRIVED, Q_FORFEITED, Q_CANCELLED, Q_RECONCILIATION_REQUIRED]"
| "queue_transitions Q_EN_ROUTE = [Q_ARRIVED, Q_FORFEITED, Q_CANCELLED, Q_RECONCILIATION_REQUIRED]"
| "queue_transitions Q_RECONCILIATION_REQUIRED = [Q_QUEUED, Q_CANCELLED]"
| "queue_transitions _ = []"

definition queue_ValidTransition :: "QStatus \<Rightarrow> QStatus \<Rightarrow> bool" where
  "queue_ValidTransition current next \<longleftrightarrow> next \<in> set (queue_transitions current)"

definition called_up :: "QStatus \<Rightarrow> bool" where
  "called_up s \<longleftrightarrow> s = Q_CALLED_UP \<or> s = Q_EN_ROUTE"

record QCreateRequest =
  qc_IdempotencyKey :: string
  qc_TruckPlate :: string
  qc_TruckerMSISDN :: string
  qc_TerminalID :: string
  qc_PriorityClass :: PriorityClass
  qc_BookingID :: string

record QueueRow =
  q_QueueRequestID :: string
  q_TenantID :: string
  q_IdempotencyKey :: string
  q_BookingID :: "string option"
  q_TruckPlate :: string
  q_TruckerMSISDN :: string
  q_TerminalID :: string
  q_PriorityClass :: PriorityClass
  q_Status :: QStatus
  q_Position :: "int option"
  q_CalledUpAt :: "time option"
  q_GraceDeadline :: "time option"
  q_ArrivedAt :: "time option"
  q_GateID :: "string option"
  q_ForfeitReason :: "string option"
  q_ReconciliationReason :: "string option"
  q_CreatedAt :: time
  q_UpdatedAt :: time
  q_Version :: int

definition queue_Validate :: "QCreateRequest \<Rightarrow> go_error option" where
  "queue_Validate r =
     (if len (qc_IdempotencyKey r) < 8 \<or> len (qc_IdempotencyKey r) > 128
         \<or> qc_IdempotencyKey r \<noteq> TrimSpace (qc_IdempotencyKey r)
      then Some (ErrText ''idempotency_key must be canonical text between 8 and 128 characters'')
      else if \<not> match_regex truckPlatePattern (qc_TruckPlate r)
      then Some (ErrText ''truck_plate must be an uppercase registration plate'')
      else if \<not> match_regex msisdnPattern (qc_TruckerMSISDN r)
      then Some (ErrText ''trucker_msisdn must be E.164'')
      else if \<not> match_regex terminalPattern (qc_TerminalID r)
      then Some (ErrText ''terminal_id is invalid'')
      else if qc_PriorityClass r \<notin> {ClassStandard, ClassPerishable, ClassPriority}
      then Some (ErrText ''priority_class must be STANDARD, PERISHABLE or PRIORITY'')
      else if qc_BookingID r \<noteq> [] \<and> len (qc_BookingID r) > 64
      then Some (ErrText ''booking_id is invalid'')
      else None)"

definition queue_validateTerminalID :: "string \<Rightarrow> go_error option" where
  "queue_validateTerminalID value =
     (if \<not> match_regex terminalPattern value then Some (ErrText ''terminal_id is invalid'') else None)"

lemma queue_transition_irrefl: "\<not> queue_ValidTransition s s"
  by (cases s) (simp_all add: queue_ValidTransition_def)

lemma transition_into_called_up:
  "queue_ValidTransition s t \<Longrightarrow> called_up t \<Longrightarrow> \<not> called_up s \<Longrightarrow> s = Q_QUEUED \<and> t = Q_CALLED_UP"
  by (cases s) (auto simp: queue_ValidTransition_def called_up_def)

end
