(* ===== verification/Database.thy ===== *)
theory Database
  imports Queue_Model Events
begin

text \<open>
  The tables behind the booking and queue stores, with the parts of the schema
  under \<^verbatim>\<open>src/db/migrations\<close> that reject a write: check constraints, primary
  keys, the partial unique indexes, and the two capacity triggers. Row-level
  security shows a transaction only the rows of its tenant (\<open>visible\<close>).
  Foreign keys to \<open>platform_tenants\<close> and the set of registered tenants are not
  modelled; a query that PostgreSQL cannot run at all is an error return that
  rolls back, as every error does.
\<close>

record Terminal =
  t_TerminalID :: string
  t_TenantID :: string
  t_PortCode :: string
  t_Name :: string
  t_BookingFeeKobo :: int
  t_Active :: bool
  t_QueueCapacity :: int

record CustomsValidationRow =
  v_ValidationID :: string
  v_TenantID :: string
  v_BookingID :: string
  v_DeclarationRef :: string
  v_Decision :: string
  v_ReasonCode :: string
  v_CustomsStatus :: string
  v_CustomsWeightKg :: int
  v_BookingWeightKg :: int
  v_ConsigneeID :: string
  v_OperatorID :: string
  v_ValidatedBy :: string
  v_ValidatedAt :: time

datatype payload = BookingPayload BookingRow | ScanPayload GateScan | QueuePayload QueueRow

record OutboxRow =
  o_EventID :: string
  o_TenantID :: string
  o_Topic :: string
  o_EventType :: string
  o_Payload :: "payload Envelope"
  o_CreatedAt :: time

record db =
  port_terminals :: "Terminal list"
  terminal_slots :: "Slot list"
  truck_bookings :: "BookingRow list"
  booking_payment_intents :: "PaymentIntent list"
  gate_scans :: "GateScan list"
  customs_validations :: "CustomsValidationRow list"
  truck_queue_requests :: "QueueRow list"
  platform_outbox :: "OutboxRow list"

definition empty_db :: db where
  "empty_db = \<lparr>port_terminals = [], terminal_slots = [], truck_bookings = [],
     booking_payment_intents = [], gate_scans = [], customs_validations = [],
     truck_queue_requests = [], platform_outbox = []\<rparr>"

section \<open>Check constraints\<close>

definition truck_bookings_check :: "BookingRow \<Rightarrow> bool" where
  "truck_bookings_check b \<longleftrightarrow>
     8 \<le> pg_length (b_RequestID b) \<and> pg_length (b_RequestID b) \<le> 128 \<and>
     match_regex truckPlatePattern (b_TruckPlate b) \<and>
     match_regex msisdnPattern (b_TruckerMSISDN b) \<and>
     b_Channel b \<in> {ChannelWeb, ChannelUSSD, ChannelOffline} \<and>
     0 < b_AmountKobo b \<and> b_Currency b = ''NGN'' \<and> 0 < b_Version b \<and>
     (case b_CargoDeclarationRef b of
        None \<Rightarrow> True
      | Some ref \<Rightarrow> match_regex declarationRefPattern ref \<and>
          (case b_DeclaredWeightKg b of None \<Rightarrow> False | Some w \<Rightarrow> 0 < w) \<and>
          (case b_ConsigneeID b of None \<Rightarrow> False | Some s \<Rightarrow> 2 \<le> pg_length s \<and> pg_length s \<le> 128) \<and>
          (case b_OperatorID b of None \<Rightarrow> False | Some s \<Rightarrow> 2 \<le> pg_length s \<and> pg_length s \<le> 128)) \<and>
     (case b_ContainerID b of None \<Rightarrow> True | Some c \<Rightarrow> match_regex containerid_Pattern c)"

definition truck_queue_check :: "QueueRow \<Rightarrow> bool" where
  "truck_queue_check q \<longleftrightarrow>
     8 \<le> pg_length (q_IdempotencyKey q) \<and> pg_length (q_IdempotencyKey q) \<le> 128 \<and>
     match_regex truckPlatePattern (q_TruckPlate q) \<and>
     match_regex msisdnPattern (q_TruckerMSISDN q) \<and>
     q_PriorityClass q \<in> {ClassStandard, ClassPerishable, ClassPriority} \<and>
     (case q_Position q of None \<Rightarrow> True | Some p \<Rightarrow> 0 < p) \<and> 0 < q_Version q \<and>
     (q_Status q \<in> {Q_QUEUED, Q_CALLED_UP, Q_EN_ROUTE, Q_ARRIVED} \<longrightarrow> q_Position q \<noteq> None) \<and>
     (q_Status q \<in> {Q_CALLED_UP, Q_EN_ROUTE} \<longrightarrow> q_GraceDeadline q \<noteq> None) \<and>
     (q_Status q = Q_ARRIVED \<longrightarrow> q_ArrivedAt q \<noteq> None)"

section \<open>Capacity triggers\<close>

text \<open>The bookings that count against a slot, and the call-ups that count against a terminal.\<close>

definition in_slot :: "string \<Rightarrow> BookingRow \<Rightarrow> bool" where
  "in_slot slotID b \<longleftrightarrow> b_SlotID b = Some slotID \<and> holds_capacity (b_Status b)"

definition in_callup :: "string \<Rightarrow> QueueRow \<Rightarrow> bool" where
  "in_callup terminalID q \<longleftrightarrow> q_TerminalID q = terminalID \<and> called_up (q_Status q)"

text \<open>The selects run under row-level security of tenant \<open>tid\<close>.\<close>

definition find_terminal :: "string \<Rightarrow> db \<Rightarrow> string \<Rightarrow> Terminal option" where
  "find_terminal tid d terminalID =
     find (\<lambda>t. t_TenantID t = tid \<and> t_TerminalID t = terminalID) (port_terminals d)"

definition find_slot :: "string \<Rightarrow> db \<Rightarrow> string \<Rightarrow> Slot option" where
  "find_slot tid d slotID =
     find (\<lambda>s. s_TenantID s = tid \<and> s_SlotID s = slotID) (terminal_slots d)"

definition find_booking :: "string \<Rightarrow> db \<Rightarrow> string \<Rightarrow> BookingRow option" where
  "find_booking tid d bookingID =
     find (\<lambda>b. b_TenantID b = tid \<and> b_BookingID b = bookingID) (truck_bookings d)"

definition find_queue :: "string \<Rightarrow> db \<Rightarrow> string \<Rightarrow> QueueRow option" where
  "find_queue tid d qid =
     find (\<lambda>q. q_TenantID q = tid \<and> q_QueueRequestID q = qid) (truck_queue_requests d)"

definition enforce_slot_capacity :: "string \<Rightarrow> db \<Rightarrow> BookingRow \<Rightarrow> go_error option" where
  "enforce_slot_capacity tid d new =
     (case b_SlotID new of
        None \<Rightarrow> None
      | Some slotID \<Rightarrow>
          if \<not> holds_capacity (b_Status new) then None
          else (case find_slot tid d slotID of
                  None \<Rightarrow> Some (PgErr (RaiseException ''slot does not exist''))
                | Some slot \<Rightarrow>
                    if count_rows (\<lambda>b. b_TenantID b = tid \<and> in_slot slotID b \<and> b_BookingID b \<noteq> b_BookingID new)
                         (truck_bookings d) \<ge> s_Capacity slot
                    then Some (PgErr (CheckViolation ''slot is at capacity''))
                    else None))"

definition enforce_terminal_callup_capacity :: "string \<Rightarrow> db \<Rightarrow> QueueRow \<Rightarrow> go_error option" where
  "enforce_terminal_callup_capacity tid d new =
     (if \<not> called_up (q_Status new) then None
      else (case find_terminal tid d (q_TerminalID new) of
              None \<Rightarrow> Some (PgErr (RaiseException ''terminal does not exist''))
            | Some t \<Rightarrow>
                if count_rows (\<lambda>q. q_TenantID q = tid \<and> in_callup (q_TerminalID new) q
                                 \<and> q_QueueRequestID q \<noteq> q_QueueRequestID new)
                     (truck_queue_requests d) \<ge> t_QueueCapacity t
                then Some (PgErr (CheckViolation ''terminal call-up capacity exhausted''))
                else None))"

section \<open>Writes\<close>

text \<open>
  What an \<open>INSERT\<close> or \<open>UPDATE\<close> of a row is refused for: the trigger runs before
  the check constraints, and those before the unique indexes.
\<close>

definition receipt_conflict :: "db \<Rightarrow> BookingRow \<Rightarrow> bool" where
  "receipt_conflict d new \<longleftrightarrow>
     b_PaymentReceiptRef new \<noteq> None \<and>
     list_ex (\<lambda>b. b_BookingID b \<noteq> b_BookingID new \<and> b_PaymentReceiptRef b = b_PaymentReceiptRef new)
       (truck_bookings d)"

definition receipt_index :: string where
  "receipt_index = ''truck_bookings_payment_receipt_ref_uniq''"

definition booking_write_error :: "string \<Rightarrow> db \<Rightarrow> BookingRow \<Rightarrow> go_error option" where
  "booking_write_error tid d new =
     (case enforce_slot_capacity tid d new of
        Some e \<Rightarrow> Some e
      | None \<Rightarrow>
          if \<not> truck_bookings_check new then Some (PgErr (CheckViolation ''truck_bookings_check''))
          else if receipt_conflict d new then Some (PgErr (UniqueViolation receipt_index))
          else None)"

definition position_conflict :: "db \<Rightarrow> QueueRow \<Rightarrow> bool" where
  "position_conflict d new \<longleftrightarrow>
     q_Position new \<noteq> None \<and>
     list_ex (\<lambda>q. q_QueueRequestID q \<noteq> q_QueueRequestID new \<and> q_TerminalID q = q_TerminalID new
                 \<and> q_Position q = q_Position new) (truck_queue_requests d)"

definition queue_write_error :: "string \<Rightarrow> db \<Rightarrow> QueueRow \<Rightarrow> go_error option" where
  "queue_write_error tid d new =
     (case enforce_terminal_callup_capacity tid d new of
        Some e \<Rightarrow> Some e
      | None \<Rightarrow>
          if \<not> truck_queue_check new then Some (PgErr (CheckViolation ''truck_queue_requests_check''))
          else if position_conflict d new then Some (PgErr (UniqueViolation ''truck_queue_position_idx''))
          else None)"

section \<open>The transactional outbox\<close>

text \<open>
  \<open>emit\<close> of both packages: build the envelope, then insert the outbox row in the
  caller's transaction. \<open>event_id\<close> is the primary key of the outbox.
\<close>

definition emit ::
  "Claims \<Rightarrow> string \<Rightarrow> string \<Rightarrow> string \<Rightarrow> string \<Rightarrow> payload \<Rightarrow> (string \<times> string) list \<Rightarrow> Principal
   \<Rightarrow> string \<Rightarrow> time \<Rightarrow> payload signer option \<Rightarrow> env \<Rightarrow> db \<Rightarrow> db result" where
  "emit claims topic eventType correlationID subjectID p extensions pr ledgerHash occurredAt signer e d =
     bindE (case Message eventType topic correlationID subjectID p extensions
                   \<lparr>PrincipalID = pr_ID pr, PrincipalRole = pr_Role pr, Signature = [],
                    LedgerCommitHash = ledgerHash\<rparr> occurredAt signer e of
              Inl err \<Rightarrow> Inl (Wrapf ''build envelope'' err) | Inr envelope \<Rightarrow> Inr envelope)
       (\<lambda>envelope.
          if list_ex (\<lambda>o1. o_EventID o1 = ev_EventID envelope) (platform_outbox d)
          then Inl (PgErr (UniqueViolation ''platform_outbox_pkey''))
          else Inr (d\<lparr>platform_outbox := platform_outbox d @
                  [\<lparr>o_EventID = ev_EventID envelope, o_TenantID = TenantID claims, o_Topic = topic,
                    o_EventType = eventType, o_Payload = envelope, o_CreatedAt = occurredAt\<rparr>]\<rparr>))"

lemma emit_frame:
  assumes "emit claims topic ty corr sub p ext pr lh at signer e d = Inr d'"
  shows "\<exists>row. d' = d\<lparr>platform_outbox := platform_outbox d @ [row]\<rparr> \<and> o_TenantID row = TenantID claims
     \<and> o_Topic row = topic \<and> o_EventType row = ty \<and> o_CreatedAt row = at
     \<and> ev_EventType (o_Payload row) = ty \<and> fb_ID (ev_FHIR (o_Payload row)) = sub
     \<and> PrincipalID (ev_Provenance (o_Payload row)) = pr_ID pr
     \<and> LedgerCommitHash (ev_Provenance (o_Payload row)) = lh"
  using assms
  by (auto simp: emit_def bindE_Inr_iff split: sum.splits if_splits dest!: Message_InrD)

lemma emit_tables [frame_simps]:
  assumes "emit claims topic ty corr sub p ext pr lh at signer e d = Inr d'"
  shows "port_terminals d' = port_terminals d" "terminal_slots d' = terminal_slots d"
    "truck_bookings d' = truck_bookings d" "booking_payment_intents d' = booking_payment_intents d"
    "gate_scans d' = gate_scans d" "customs_validations d' = customs_validations d"
    "truck_queue_requests d' = truck_queue_requests d"
  using emit_frame [OF assms] by auto

lemma emit_principal:
  assumes "emit claims topic ty corr sub p ext pr lh at signer e d = Inr d'"
  shows "signer \<noteq> None \<and> TrimSpace (pr_ID pr) \<noteq> [] \<and> TrimSpace (pr_Role pr) \<noteq> []"
  using assms
  by (auto simp: emit_def bindE_Inr_iff split: sum.splits if_splits dest!: Message_InrD)

lemma booking_write_ok:
  assumes "booking_write_error tid d new = None"
  shows "enforce_slot_capacity tid d new = None" "truck_bookings_check new" "\<not> receipt_conflict d new"
  using assms by (auto simp: booking_write_error_def split: option.splits if_splits)

lemma queue_write_ok:
  assumes "queue_write_error tid d new = None"
  shows "enforce_terminal_callup_capacity tid d new = None" "truck_queue_check new" "\<not> position_conflict d new"
  using assms by (auto simp: queue_write_error_def split: option.splits if_splits)

lemma find_booking_SomeD:
  "find_booking tid d k = Some b \<Longrightarrow> b \<in> set (truck_bookings d) \<and> b_TenantID b = tid \<and> b_BookingID b = k"
  by (auto simp: find_booking_def dest: find_SomeD)

lemma find_queue_SomeD:
  "find_queue tid d k = Some q \<Longrightarrow> q \<in> set (truck_queue_requests d) \<and> q_TenantID q = tid \<and> q_QueueRequestID q = k"
  by (auto simp: find_queue_def dest: find_SomeD)

lemma find_slot_SomeD:
  "find_slot tid d k = Some s \<Longrightarrow> s \<in> set (terminal_slots d) \<and> s_TenantID s = tid \<and> s_SlotID s = k"
  by (auto simp: find_slot_def dest: find_SomeD)

lemma find_terminal_SomeD:
  "find_terminal tid d k = Some t \<Longrightarrow> t \<in> set (port_terminals d) \<and> t_TenantID t = tid \<and> t_TerminalID t = k"
  by (auto simp: find_terminal_def dest: find_SomeD)

end
