(* ===== verification/Sha256.thy ===== *)
theory Sha256
  imports Prelude "HOL-Library.Word"
begin

unbundle bit_operations_syntax

text \<open>
  \<open>crypto/sha256\<close> and \<open>encoding/hex\<close> of Go's standard library, on byte
  strings: FIPS 180-4 padding, message schedule and compression over 32-bit
  words, and lower-case hexadecimal output.
\<close>

type_synonym u32 = "32 word"

definition sha_k :: "u32 list" where
  "sha_k =
   [0x428a2f98, 0x71374491, 0xb5c0fbcf, 0xe9b5dba5, 0x3956c25b, 0x59f111f1, 0x923f82a4, 0xab1c5ed5,
    0xd807aa98, 0x12835b01, 0x243185be, 0x550c7dc3, 0x72be5d74, 0x80deb1fe, 0x9bdc06a7, 0xc19bf174,
    0xe49b69c1, 0xefbe4786, 0x0fc19dc6, 0x240ca1cc, 0x2de92c6f, 0x4a7484aa, 0x5cb0a9dc, 0x76f988da,
    0x983e5152, 0xa831c66d, 0xb00327c8, 0xbf597fc7, 0xc6e00bf3, 0xd5a79147, 0x06ca6351, 0x14292967,
    0x27b70a85, 0x2e1b2138, 0x4d2c6dfc, 0x53380d13, 0x650a7354, 0x766a0abb, 0x81c2c92e, 0x92722c85,
    0xa2bfe8a1, 0xa81a664b, 0xc24b8b70, 0xc76c51a3, 0xd192e819, 0xd6990624, 0xf40e3585, 0x106aa070,
    0x19a4c116, 0x1e376c08, 0x2748774c, 0x34b0bcb5, 0x391c0cb3, 0x4ed8aa4a, 0x5b9cca4f, 0x682e6ff3,
    0x748f82ee, 0x78a5636f, 0x84c87814, 0x8cc70208, 0x90befffa, 0xa4506ceb, 0xbef9a3f7, 0xc67178f2]"

definition sha_init :: "u32 list" where
  "sha_init = [0x6a09e667, 0xbb67ae85, 0x3c6ef372, 0xa54ff53a,
               0x510e527f, 0x9b05688c, 0x1f83d9ab, 0x5be0cd19]"

text \<open>Padding: one bit, zeros, and the bit length as a 64-bit big-endian number.\<close>

definition sha_pad :: "int list \<Rightarrow> int list" where
  "sha_pad bs =
     bs @ [128] @ replicate (nat ((119 - len bs mod 64) mod 64)) 0
        @ map (\<lambda>i. (8 * len bs div 256 ^ i) mod 256) [7, 6, 5, 4, 3, 2, 1, 0]"

fun words_of :: "int list \<Rightarrow> u32 list" where
  "words_of (a # b # c # d # rest) = word_of_int (((a * 256 + b) * 256 + c) * 256 + d) # words_of rest"
| "words_of _ = []"

text \<open>The schedule is kept most recent first: \<open>w ! 1\<close> is \<open>W(t-2)\<close> and so on.\<close>

definition sha_extend :: "u32 list \<Rightarrow> u32 list" where
  "sha_extend w =
     (let w15 = w ! 14; w2 = w ! 1;
          s0 = (word_rotr 7 w15) XOR (word_rotr 18 w15) XOR (drop_bit 3 w15);
          s1 = (word_rotr 17 w2) XOR (word_rotr 19 w2) XOR (drop_bit 10 w2)
      in (w ! 15 + s0 + w ! 6 + s1) # w)"

definition sha_schedule :: "u32 list \<Rightarrow> u32 list" where
  "sha_schedule block = rev ((sha_extend ^^ 48) (rev block))"

fun sha_round :: "u32 list \<Rightarrow> u32 \<times> u32 \<Rightarrow> u32 list" where
  "sha_round [a, b, c, d, e, f, g, h] (k, w) =
     (let s1 = (word_rotr 6 e) XOR (word_rotr 11 e) XOR (word_rotr 25 e);
          ch = (e AND f) XOR ((NOT e) AND g);
          t1 = h + s1 + ch + k + w;
          s0 = (word_rotr 2 a) XOR (word_rotr 13 a) XOR (word_rotr 22 a);
          maj = (a AND b) XOR (a AND c) XOR (b AND c);
          t2 = s0 + maj
      in [t1 + t2, a, b, c, d + t1, e, f, g])"
| "sha_round st _ = st"

definition sha_compress :: "u32 list \<Rightarrow> u32 list \<Rightarrow> u32 list" where
  "sha_compress st block =
     map2 (+) st (foldl sha_round st (zip sha_k (sha_schedule block)))"

function sha_blocks :: "u32 list \<Rightarrow> u32 list \<Rightarrow> u32 list" where
  "sha_blocks st ws =
     (if length ws < 16 then st else sha_blocks (sha_compress st (take 16 ws)) (drop 16 ws))"
  by pat_completeness auto
termination
  by (relation "measure (\<lambda>(st, ws). length ws)") auto

declare sha_blocks.simps [simp del]

definition word_bytes :: "u32 \<Rightarrow> int list" where
  "word_bytes w = map (\<lambda>i. (uint w div 256 ^ i) mod 256) [3, 2, 1, 0]"

definition Sum256 :: "string \<Rightarrow> string" where
  "Sum256 s =
     map char_of (concat (map word_bytes (sha_blocks sha_init (words_of (sha_pad (map of_char s))))))"

definition hex_digit :: "nat \<Rightarrow> char" where
  "hex_digit n = ''0123456789abcdef'' ! n"

definition EncodeToString :: "string \<Rightarrow> string" where
  "EncodeToString s = concat (map (\<lambda>c. [hex_digit (byte c div 16), hex_digit (byte c mod 16)]) s)"

section \<open>Sizes\<close>

lemma length_sha_compress [simp]: "length st = 8 \<Longrightarrow> length (sha_compress st block) = 8"
proof -
  have round: "length (sha_round st' x) = length st'" for st' x
    by (induction st' x rule: sha_round.induct) (simp_all add: Let_def)
  have "length (foldl sha_round st xs) = length st" for xs
    by (induction xs arbitrary: st) (simp_all add: round)
  then show "length st = 8 \<Longrightarrow> ?thesis" by (simp add: sha_compress_def)
qed

lemma length_sha_blocks [simp]: "length st = 8 \<Longrightarrow> length (sha_blocks st ws) = 8"
  by (induction st ws rule: sha_blocks.induct) (subst sha_blocks.simps, simp)

lemma length_Sum256 [simp]: "length (Sum256 s) = 32"
proof -
  have "length (concat (map word_bytes ws)) = 4 * length ws" for ws
    by (induction ws) (simp_all add: word_bytes_def)
  then show ?thesis by (simp add: Sum256_def sha_init_def)
qed

lemma length_EncodeToString [simp]: "length (EncodeToString s) = 2 * length s"
  by (induction s) (simp_all add: EncodeToString_def)

end
