(* ===== verification/Ledger.thy ===== *)
theory Ledger
  imports Sha256
begin

text \<open>
  \<^verbatim>\<open>src/internal/ledger/ledger.go\<close>: deterministic account and transfer ids,
  the settlement of a booking and its refund. The TigerBeetle client is a
  third-party package and a parameter (\<open>tb_client\<close>); \<open>tigerbeetle_contract\<close>
  states what its documentation promises: creating accounts posts nothing, a
  transfer reported created or existing is stored as submitted, and a call stores
  nothing but what was submitted and deletes nothing.
  \<open>uint64\<close> amounts are non-negative integers; a 128-bit id is its 16 bytes.
\<close>

section \<open>Identifiers\<close>

definition accountNamespace :: string where "accountNamespace = ''ecallup:account:''"
definition transferNamespace :: string where "transferNamespace = ''ecallup:settlement:''"
definition refundNamespace :: string where "refundNamespace = ''ecallup:refund:''"
definition ledgerCodeNGN :: int where "ledgerCodeNGN = 566"
definition ledgerTruckerPayable :: string where "ledgerTruckerPayable = ''trucker-payable''"
definition ledgerOperator :: string where "ledgerOperator = ''terminal-operator''"
definition ledgerFGNShare :: string where "ledgerFGNShare = ''fgn-share''"
definition ledgerTruckerClearing :: string where "ledgerTruckerClearing = ''trucker-clearing''"

definition AccountID :: "string \<Rightarrow> string" where
  "AccountID role = take 16 (Sum256 (accountNamespace @ role))"

definition TransferID :: "string \<Rightarrow> string \<Rightarrow> string" where
  "TransferID bookingID leg = take 16 (Sum256 (transferNamespace @ bookingID @ '':'' @ leg))"

definition CommitHash :: "string \<Rightarrow> string" where
  "CommitHash bookingID = ''sha256:'' @ EncodeToString (Sum256 (transferNamespace @ bookingID))"

definition RefundTransferID :: "string \<Rightarrow> string \<Rightarrow> string" where
  "RefundTransferID bookingID leg = take 16 (Sum256 (refundNamespace @ bookingID @ '':'' @ leg))"

definition RefundCommitHash :: "string \<Rightarrow> string" where
  "RefundCommitHash bookingID = ''sha256:'' @ EncodeToString (Sum256 (refundNamespace @ bookingID))"

section \<open>The TigerBeetle client\<close>

record tb_account =
  a_ID :: string
  a_Ledger :: int
  a_Code :: int

record tb_transfer =
  tr_ID :: string
  tr_DebitAccountID :: string
  tr_CreditAccountID :: string
  tr_Amount :: int
  tr_Ledger :: int
  tr_Code :: int

datatype account_status = AccountCreated | AccountExists | AccountOther
datatype transfer_status = TransferCreated | TransferExists | TransferOther

record 't tb_client =
  CreateAccounts :: "tb_account list \<Rightarrow> 't \<Rightarrow> account_status list result \<times> 't"
  CreateTransfers :: "tb_transfer list \<Rightarrow> 't \<Rightarrow> transfer_status list result \<times> 't"

record Settlement =
  BookingID :: string
  AmountKobo :: int
  FgnShareKobo :: int

type_synonym Refund = Settlement

section \<open>Posting\<close>

definition settlement_accounts :: "tb_account list" where
  "settlement_accounts = map (\<lambda>role. \<lparr>a_ID = AccountID role, a_Ledger = 1, a_Code = ledgerCodeNGN\<rparr>)
     [ledgerTruckerPayable, ledgerOperator, ledgerFGNShare, ledgerTruckerClearing]"

definition ensureAccounts :: "'t tb_client \<Rightarrow> 't \<Rightarrow> unit result \<times> 't" where
  "ensureAccounts client st =
     (case CreateAccounts client settlement_accounts st of
        (Inl err, st') \<Rightarrow> (Inl (Wrapf ''create settlement accounts'' err), st')
      | (Inr results, st') \<Rightarrow>
          if length results \<noteq> length settlement_accounts
          then (Inl (ErrText ''create settlement accounts: unexpected number of dense results''), st')
          else if list_ex (\<lambda>s. s \<notin> {AccountCreated, AccountExists}) results
          then (Inl (ErrText ''create settlement account: unexpected status''), st')
          else (Inr (), st'))"

definition settlement_transfers :: "Settlement \<Rightarrow> tb_transfer list" where
  "settlement_transfers s =
     [\<lparr>tr_ID = TransferID (BookingID s) ''operator'', tr_DebitAccountID = AccountID ledgerTruckerPayable,
       tr_CreditAccountID = AccountID ledgerOperator,
       tr_Amount = uint64_of (AmountKobo s - FgnShareKobo s), tr_Ledger = 1, tr_Code = ledgerCodeNGN\<rparr>,
      \<lparr>tr_ID = TransferID (BookingID s) ''fgn'', tr_DebitAccountID = AccountID ledgerTruckerPayable,
       tr_CreditAccountID = AccountID ledgerFGNShare,
       tr_Amount = FgnShareKobo s, tr_Ledger = 1, tr_Code = ledgerCodeNGN\<rparr>]"

definition refund_transfers :: "Refund \<Rightarrow> tb_transfer list" where
  "refund_transfers r =
     [\<lparr>tr_ID = RefundTransferID (BookingID r) ''operator'', tr_DebitAccountID = AccountID ledgerOperator,
       tr_CreditAccountID = AccountID ledgerTruckerClearing,
       tr_Amount = uint64_of (AmountKobo r - FgnShareKobo r), tr_Ledger = 1, tr_Code = ledgerCodeNGN\<rparr>,
      \<lparr>tr_ID = RefundTransferID (BookingID r) ''fgn'', tr_DebitAccountID = AccountID ledgerFGNShare,
       tr_CreditAccountID = AccountID ledgerTruckerClearing,
       tr_Amount = FgnShareKobo r, tr_Ledger = 1, tr_Code = ledgerCodeNGN\<rparr>]"

text \<open>The common tail of both operations: create the transfers and read the dense results.\<close>

definition post_transfers :: "'t tb_client \<Rightarrow> tb_transfer list \<Rightarrow> string \<Rightarrow> 't \<Rightarrow> string result \<times> 't" where
  "post_transfers client transfers hash st =
     (case CreateTransfers client transfers st of
        (Inl err, st') \<Rightarrow> (Inl (Wrapf ''commit transfers'' err), st')
      | (Inr results, st') \<Rightarrow>
          if length results \<noteq> length transfers
          then (Inl (ErrText ''commit transfers: unexpected number of dense results''), st')
          else if list_ex (\<lambda>s. s \<notin> {TransferCreated, TransferExists}) results
          then (Inl (ErrText ''commit transfer: unexpected status''), st')
          else (Inr hash, st'))"

definition CommitBookingSettlement :: "'t tb_client \<Rightarrow> Settlement \<Rightarrow> 't \<Rightarrow> string result \<times> 't" where
  "CommitBookingSettlement client s st =
     (if BookingID s = [] \<or> AmountKobo s = 0
      then (Inl (ErrText ''settlement booking id and amount are required''), st)
      else if FgnShareKobo s = 0 \<or> FgnShareKobo s \<ge> AmountKobo s
      then (Inl (ErrText ''FGN share must be positive and below the total amount''), st)
      else (case ensureAccounts client st of
              (Inl err, st') \<Rightarrow> (Inl err, st')
            | (Inr _, st') \<Rightarrow>
                post_transfers client (settlement_transfers s) (CommitHash (BookingID s)) st'))"

definition RefundBookingSettlement :: "'t tb_client \<Rightarrow> Refund \<Rightarrow> 't \<Rightarrow> string result \<times> 't" where
  "RefundBookingSettlement client r st =
     (if BookingID r = [] \<or> AmountKobo r = 0
      then (Inl (ErrText ''refund booking id and amount are required''), st)
      else if FgnShareKobo r = 0 \<or> FgnShareKobo r \<ge> AmountKobo r
      then (Inl (ErrText ''refund FGN share must be positive and below the total amount''), st)
      else (case ensureAccounts client st of
              (Inl err, st') \<Rightarrow> (Inl err, st')
            | (Inr _, st') \<Rightarrow>
                post_transfers client (refund_transfers r) (RefundCommitHash (BookingID r)) st'))"

section \<open>The FGN share\<close>

text \<open>
  \<open>uint64(AmountKobo * fgnShareBPS / 10000)\<close>, written out in both places that use
  it (\<^verbatim>\<open>booking/store.go\<close> for refunds, \<^verbatim>\<open>server/booking.go\<close> for settlements).
\<close>

definition fgn_share :: "int \<Rightarrow> int \<Rightarrow> int" where
  "fgn_share amountKobo bps = uint64_of (go_div (wrap64 (amountKobo * bps)) 10000)"

lemma fgn_share_exact:
  assumes "0 < amount" "0 < bps" "amount * bps \<le> max_int64"
  shows "fgn_share amount bps = amount * bps div 10000"
proof -
  have "0 \<le> amount * bps" using assms(1,2) by simp
  with assms(3) have w: "wrap64 (amount * bps) = amount * bps"
    by (intro wrap64_id) (simp add: in_int64_def)
  have "amount * bps div 10000 \<le> max_int64"
    using assms(3) \<open>0 \<le> amount * bps\<close> by (simp add: max_int64_def)
  then show ?thesis
    using \<open>0 \<le> amount * bps\<close> by (simp add: fgn_share_def w go_div_nonneg uint64_of_id pos_imp_zdiv_nonneg_iff)
qed

lemma fgn_share_below:
  assumes "0 < amount" "0 < bps" "bps < 10000" "amount * bps \<le> max_int64"
  shows "0 \<le> fgn_share amount bps \<and> fgn_share amount bps < amount"
proof -
  have "amount * bps < amount * 10000" using assms(1,3) by simp
  then have "amount * bps div 10000 < amount" using assms(1) by linarith
  moreover have "0 \<le> amount * bps" using assms(1,2) by simp
  ultimately show ?thesis
    using assms by (simp add: fgn_share_exact pos_imp_zdiv_nonneg_iff)
qed

section \<open>What the postings add up to\<close>

lemma operator_leg_amount:
  "0 \<le> FgnShareKobo s \<Longrightarrow> FgnShareKobo s < AmountKobo s \<Longrightarrow> AmountKobo s \<le> max_int64 \<Longrightarrow>
   uint64_of (AmountKobo s - FgnShareKobo s) = AmountKobo s - FgnShareKobo s"
  by (rule uint64_of_id) auto

text \<open>
  The split is exact: for the share both callers compute (basis points
  below 10000, no overflow of the product), every settlement leg debits the
  trucker-payable account by a non-negative amount and the legs add up to the
  booking amount; the refund with the same share is the mirror, leg by leg: it
  debits the account the settlement leg credited by the same amount and credits
  trucker-clearing.
\<close>

theorem settlement_refund_mirror:
  assumes "0 < AmountKobo s" "0 < bps" "bps < 10000" "AmountKobo s * bps \<le> max_int64"
    and "FgnShareKobo s = fgn_share (AmountKobo s) bps"
  shows "sum_list (map tr_Amount (settlement_transfers s)) = AmountKobo s
    \<and> list_all (\<lambda>t. tr_DebitAccountID t = AccountID ledgerTruckerPayable \<and> 0 \<le> tr_Amount t) (settlement_transfers s)
    \<and> map (\<lambda>t. (tr_DebitAccountID t, tr_Amount t)) (refund_transfers s)
        = map (\<lambda>t. (tr_CreditAccountID t, tr_Amount t)) (settlement_transfers s)
    \<and> list_all (\<lambda>t. tr_CreditAccountID t = AccountID ledgerTruckerClearing) (refund_transfers s)"
proof -
  have share: "0 \<le> FgnShareKobo s" "FgnShareKobo s < AmountKobo s"
    using fgn_share_below [OF assms(1-4)] assms(5) by simp_all
  have "AmountKobo s * 1 \<le> AmountKobo s * bps" using assms(1,2) by (intro mult_left_mono) auto
  then have "AmountKobo s \<le> max_int64" using assms(4) by linarith
  then have "uint64_of (AmountKobo s - FgnShareKobo s) = AmountKobo s - FgnShareKobo s"
    using operator_leg_amount share by blast
  then show ?thesis
    using share by (simp add: settlement_transfers_def refund_transfers_def)
qed

theorem settlement_refund_mirror_witness:
  "sum_list (map tr_Amount (settlement_transfers
     \<lparr>BookingID = ''bk-1'', AmountKobo = 250000, FgnShareKobo = 37500\<rparr>)) = 250000"
proof -
  have "fgn_share 250000 1500 = 37500" by (simp add: fgn_share_def wrap64_def go_div_def uint64_of_def)
  then show ?thesis
    using settlement_refund_mirror [of "\<lparr>BookingID = ''bk-1'', AmountKobo = 250000, FgnShareKobo = 37500\<rparr>" 1500]
    by (simp add: max_int64_def)
qed

section \<open>Idempotent posting\<close>

definition tigerbeetle_contract :: "'t tb_client \<Rightarrow> ('t \<Rightarrow> tb_transfer list) \<Rightarrow> bool" where
  "tigerbeetle_contract client posted \<longleftrightarrow>
     (\<forall>as st r st'. CreateAccounts client as st = (r, st') \<longrightarrow> posted st' = posted st) \<and>
     (\<forall>ts st rs st'. CreateTransfers client ts st = (Inr rs, st') \<longrightarrow> length rs = length ts \<longrightarrow>
        list_all (\<lambda>r. r \<in> {TransferCreated, TransferExists}) rs \<longrightarrow>
        set (posted st') = set (posted st) \<union> set ts) \<and>
     (\<forall>ts st r st'. CreateTransfers client ts st = (r, st') \<longrightarrow>
        set (posted st) \<subseteq> set (posted st') \<and> set (posted st') \<subseteq> set (posted st) \<union> set ts)"

lemma post_transfers_Inr:
  assumes "tigerbeetle_contract client posted" and "post_transfers client ts hash st = (Inr h, st')"
  shows "h = hash \<and> set (posted st') = set (posted st) \<union> set ts"
proof -
  from assms(2) obtain rs where rs: "CreateTransfers client ts st = (Inr rs, st')" "length rs = length ts"
      "list_all (\<lambda>r. r \<in> {TransferCreated, TransferExists}) rs" and "h = hash"
    by (auto simp: post_transfers_def list_ex_iff list_all_iff split: prod.splits sum.splits if_splits)
  with assms(1) show ?thesis unfolding tigerbeetle_contract_def by blast
qed

lemma ensureAccounts_posted:
  "tigerbeetle_contract client posted \<Longrightarrow> ensureAccounts client st = (r, st') \<Longrightarrow> posted st' = posted st"
  by (force simp: tigerbeetle_contract_def ensureAccounts_def split: prod.splits sum.splits if_splits)

lemma CommitBookingSettlement_Inr:
  assumes "tigerbeetle_contract client posted" and "CommitBookingSettlement client s st = (Inr h, st')"
  shows "h = CommitHash (BookingID s) \<and> set (posted st') = set (posted st) \<union> set (settlement_transfers s)"
proof -
  from assms(2) obtain st1 where "ensureAccounts client st = (Inr (), st1)"
      "post_transfers client (settlement_transfers s) (CommitHash (BookingID s)) st1 = (Inr h, st')"
    by (auto simp: CommitBookingSettlement_def split: if_splits prod.splits sum.splits)
  then show ?thesis
    using post_transfers_Inr [OF assms(1)] ensureAccounts_posted [OF assms(1)] by metis
qed

lemma RefundBookingSettlement_Inr:
  assumes "tigerbeetle_contract client posted" and "RefundBookingSettlement client r st = (Inr h, st')"
  shows "h = RefundCommitHash (BookingID r) \<and> set (posted st') = set (posted st) \<union> set (refund_transfers r)"
proof -
  from assms(2) obtain st1 where "ensureAccounts client st = (Inr (), st1)"
      "post_transfers client (refund_transfers r) (RefundCommitHash (BookingID r)) st1 = (Inr h, st')"
    by (auto simp: RefundBookingSettlement_def split: if_splits prod.splits sum.splits)
  then show ?thesis
    using post_transfers_Inr [OF assms(1)] ensureAccounts_posted [OF assms(1)] by metis
qed

text \<open>Whatever the outcome, nothing but the two legs can have been posted.\<close>

lemma RefundBookingSettlement_bound:
  assumes "tigerbeetle_contract client posted" and "RefundBookingSettlement client r st = (x, st')"
  shows "set (posted st) \<subseteq> set (posted st') \<and> set (posted st') \<subseteq> set (posted st) \<union> set (refund_transfers r)"
proof -
  consider "st' = st" | y where "ensureAccounts client st = (y, st')"
    | y st1 z where "ensureAccounts client st = (y, st1)" "CreateTransfers client (refund_transfers r) st1 = (z, st')"
    using assms(2)
    by (auto simp: RefundBookingSettlement_def post_transfers_def split: if_splits prod.splits sum.splits)
  then show ?thesis
  proof cases
    case 3
    from ensureAccounts_posted [OF assms(1) 3(1)] 3(2) assms(1) show ?thesis
      unfolding tigerbeetle_contract_def by metis
  qed (use ensureAccounts_posted [OF assms(1)] in auto)
qed

lemma RefundBookingSettlement_hash:
  "RefundBookingSettlement client r st = (Inr h, st') \<Longrightarrow> h = RefundCommitHash (BookingID r)"
  by (auto simp: RefundBookingSettlement_def post_transfers_def split: if_splits prod.splits sum.splits)

lemma RefundCommitHash_nonempty: "RefundCommitHash b \<noteq> []"
  by (simp add: RefundCommitHash_def)

text \<open>
  A settlement is posted once: when the commit succeeds the ledger holds
  the two legs besides what it held before, the returned hash is the commit hash
  of the booking, and a retry that succeeds returns the same hash and posts
  nothing new.
\<close>

theorem settlement_retry_idempotent:
  assumes "tigerbeetle_contract client posted"
    and "CommitBookingSettlement client s st = (Inr h, st1)"
    and "CommitBookingSettlement client s st1 = (Inr h2, st2)"
  shows "h = CommitHash (BookingID s) \<and> set (posted st1) = set (posted st) \<union> set (settlement_transfers s)
    \<and> h2 = h \<and> set (posted st2) = set (posted st1)"
  using CommitBookingSettlement_Inr [OF assms(1,2)] CommitBookingSettlement_Inr [OF assms(1,3)] by auto

text \<open>A ledger that stores transfers in a list, to instantiate the client.\<close>

definition list_tigerbeetle :: "tb_transfer list tb_client" where
  "list_tigerbeetle =
     \<lparr>CreateAccounts = (\<lambda>as st. (Inr (map (\<lambda>_. AccountExists) as), st)),
      CreateTransfers = (\<lambda>ts st. (Inr (map (\<lambda>t. if t \<in> set st then TransferExists else TransferCreated) ts),
                                  st @ filter (\<lambda>t. t \<notin> set st) ts))\<rparr>"

lemma list_tigerbeetle_contract: "tigerbeetle_contract list_tigerbeetle (\<lambda>st. st)"
  by (auto simp: tigerbeetle_contract_def list_tigerbeetle_def)

lemma list_tigerbeetle_commit:
  assumes "BookingID s \<noteq> []" "0 < FgnShareKobo s" "FgnShareKobo s < AmountKobo s"
  shows "CommitBookingSettlement list_tigerbeetle s st =
     (Inr (CommitHash (BookingID s)), st @ filter (\<lambda>t. t \<notin> set st) (settlement_transfers s))"
  using assms
  by (auto simp: CommitBookingSettlement_def ensureAccounts_def post_transfers_def list_tigerbeetle_def
      settlement_accounts_def list_ex_iff)

theorem settlement_retry_idempotent_witness:
  "\<exists>h st1 st2. CommitBookingSettlement list_tigerbeetle
       \<lparr>BookingID = ''bk-1'', AmountKobo = 250000, FgnShareKobo = 37500\<rparr> [] = (Inr h, st1)
     \<and> CommitBookingSettlement list_tigerbeetle
       \<lparr>BookingID = ''bk-1'', AmountKobo = 250000, FgnShareKobo = 37500\<rparr> st1 = (Inr h, st2)
     \<and> set st2 = set st1 \<and> length st1 = 2"
proof -
  let ?s = "\<lparr>BookingID = ''bk-1'', AmountKobo = 250000, FgnShareKobo = 37500\<rparr>"
  let ?st1 = "settlement_transfers ?s"
  have first: "CommitBookingSettlement list_tigerbeetle ?s [] = (Inr (CommitHash ''bk-1''), ?st1)"
    by (simp add: list_tigerbeetle_commit)
  obtain st2 where second: "CommitBookingSettlement list_tigerbeetle ?s ?st1 = (Inr (CommitHash ''bk-1''), st2)"
    by (simp add: list_tigerbeetle_commit)
  from settlement_retry_idempotent [OF list_tigerbeetle_contract first second]
  have "set st2 = set ?st1" by simp
  moreover have "length ?st1 = 2" by (simp add: settlement_transfers_def)
  ultimately show ?thesis using first second by blast
qed

end
