(* ===== verification/Versioned.thy ===== *)
theory Versioned
  imports Prelude
begin

text \<open>
  Versioned rows with a state machine: the shape the booking, queue and
  port-call tables share. A row moves by a listed transition, keeps its key and
  tenant and counts its version up; a table evolves by such moves of the rows of
  one tenant and by rows that tenant adds. The locale \<open>versioned_rows\<close> holds what
  follows for any such table; the stores interpret it on their own rows.
\<close>

definition row_step ::
  "('r \<Rightarrow> string) \<Rightarrow> ('r \<Rightarrow> string) \<Rightarrow> ('r \<Rightarrow> 's) \<Rightarrow> ('r \<Rightarrow> int) \<Rightarrow> ('s \<Rightarrow> 's \<Rightarrow> bool) \<Rightarrow> string \<Rightarrow> 'r \<Rightarrow> 'r \<Rightarrow> bool" where
  "row_step key tenant status version valid tid r r' \<longleftrightarrow>
     tenant r = tid \<and> tenant r' = tid \<and> key r' = key r \<and> valid (status r) (status r')
     \<and> version r' = wrap64 (version r + 1)"

definition table_evolves ::
  "('r \<Rightarrow> string) \<Rightarrow> ('r \<Rightarrow> string) \<Rightarrow> ('r \<Rightarrow> 's) \<Rightarrow> ('r \<Rightarrow> int) \<Rightarrow> ('s \<Rightarrow> 's \<Rightarrow> bool) \<Rightarrow> string
   \<Rightarrow> 'r list \<Rightarrow> 'r list \<Rightarrow> bool" where
  "table_evolves key tenant status version valid tid T T' \<longleftrightarrow>
     (\<exists>U N. T' = U @ N \<and> list_all2 (row_step key tenant status version valid tid)\<^sup>*\<^sup>* T U
          \<and> (\<forall>r\<in>set N. tenant r = tid))"

locale versioned_rows =
  fixes key :: "'r \<Rightarrow> string" and tenant :: "'r \<Rightarrow> string" and status :: "'r \<Rightarrow> 's"
    and version :: "'r \<Rightarrow> int" and valid :: "'s \<Rightarrow> 's \<Rightarrow> bool"
  assumes no_self_loop: "\<not> valid s s"
begin

abbreviation step :: "string \<Rightarrow> 'r \<Rightarrow> 'r \<Rightarrow> bool" where
  "step \<equiv> row_step key tenant status version valid"

abbreviation evolves :: "string \<Rightarrow> 'r list \<Rightarrow> 'r list \<Rightarrow> bool" where
  "evolves \<equiv> table_evolves key tenant status version valid"

lemma path_key_tenant: "(step tid)\<^sup>*\<^sup>* r r' \<Longrightarrow> key r' = key r \<and> tenant r' = tenant r"
  by (induction rule: rtranclp_induct) (auto simp: row_step_def)

lemma path_status: "(step tid)\<^sup>*\<^sup>* r r' \<Longrightarrow> valid\<^sup>*\<^sup>* (status r) (status r')"
proof (induction rule: rtranclp_induct)
  case (step y z)
  then have "valid (status y) (status z)" by (simp add: row_step_def)
  with step.IH show ?case by (rule rtranclp.rtrancl_into_rtrancl)
qed simp

lemma step_changes: "step tid r r' \<Longrightarrow> r' \<noteq> r"
  using no_self_loop by (auto simp: row_step_def)

lemma path_stuck: "(step tid)\<^sup>*\<^sup>* r r' \<Longrightarrow> (\<And>t. \<not> valid (status r) t) \<Longrightarrow> r' = r"
  by (erule converse_rtranclpE) (auto simp: row_step_def)

lemma path_foreign: "(step tid)\<^sup>*\<^sup>* r r' \<Longrightarrow> tenant r \<noteq> tid \<Longrightarrow> r' = r"
  by (erule converse_rtranclpE) (auto simp: row_step_def)

lemma evolves_refl [simp, intro]: "evolves tid T T"
  unfolding table_evolves_def by (intro exI [of _ T] exI [of _ "[]"]) (simp add: list_all2_refl)

lemma evolves_trans:
  assumes "evolves tid T U" and "evolves tid U V"
  shows "evolves tid T V"
proof -
  from assms obtain A N B M where
    U: "U = A @ N" "list_all2 (step tid)\<^sup>*\<^sup>* T A" "\<forall>r\<in>set N. tenant r = tid" and
    V: "V = B @ M" "list_all2 (step tid)\<^sup>*\<^sup>* U B" "\<forall>r\<in>set M. tenant r = tid"
    unfolding table_evolves_def by blast
  from U(1) V(2) obtain A' N' where B: "B = A' @ N'" "list_all2 (step tid)\<^sup>*\<^sup>* A A'" "list_all2 (step tid)\<^sup>*\<^sup>* N N'"
    by (auto simp: list_all2_append1)
  have "list_all2 (step tid)\<^sup>*\<^sup>* T A'"
    using U(2) B(2) by (rule list_all2_trans [rotated]) (rule rtranclp_trans)
  moreover have "\<forall>r\<in>set N'. tenant r = tid"
    using U(3) B(3) path_key_tenant by (fastforce simp: list_all2_conv_all_nth in_set_conv_nth)
  ultimately show ?thesis
    unfolding table_evolves_def using V(1,3) B(1)
    by (intro exI [of _ A'] exI [of _ "N' @ M"]) auto
qed

lemma evolves_insert: "tenant r = tid \<Longrightarrow> evolves tid T (T @ [r])"
  unfolding table_evolves_def by (intro exI [of _ T] exI [of _ "[r]"]) (simp add: list_all2_refl)

lemma evolves_update:
  assumes "\<And>r. r \<in> set T \<Longrightarrow> P r \<Longrightarrow> step tid r (f r)"
  shows "evolves tid T (update_where P f T)"
  unfolding table_evolves_def
  by (intro exI [of _ "update_where P f T"] exI [of _ "[]"])
     (use assms in \<open>auto simp: update_where_def list_all2_conv_all_nth\<close>)

lemma evolves_cases:
  assumes "evolves tid T T'" and "r' \<in> set T'"
  obtains (old) r where "r \<in> set T" and "(step tid)\<^sup>*\<^sup>* r r'" | (new) "tenant r' = tid"
proof -
  from assms(1) obtain U N where T': "T' = U @ N" "list_all2 (step tid)\<^sup>*\<^sup>* T U" "\<forall>r\<in>set N. tenant r = tid"
    unfolding table_evolves_def by blast
  show thesis
  proof (cases "r' \<in> set U")
    case True
    with T'(2) obtain r where "r \<in> set T" "(step tid)\<^sup>*\<^sup>* r r'"
      by (blast dest: list_all2_right)
    then show thesis by (rule old)
  next
    case False
    with T' assms(2) show thesis by (intro new) auto
  qed
qed

text \<open>No row is ever removed, and each row moves along the state machine.\<close>

lemma evolves_keeps:
  assumes "evolves tid T T'" and "r \<in> set T"
  shows "\<exists>r'\<in>set T'. key r' = key r \<and> tenant r' = tenant r \<and> valid\<^sup>*\<^sup>* (status r) (status r')"
proof -
  from assms(1) obtain U N where "T' = U @ N" "list_all2 (step tid)\<^sup>*\<^sup>* T U"
    unfolding table_evolves_def by blast
  with assms(2) obtain r' where "r' \<in> set T'" "(step tid)\<^sup>*\<^sup>* r r'"
    by (auto dest: list_all2_left)
  then show ?thesis using path_key_tenant path_status by blast
qed

text \<open>Rows in a state without successors, and rows of other tenants, stay as they are.\<close>

lemma evolves_stuck:
  assumes "evolves tid T T'" and "r \<in> set T" and "\<And>t. \<not> valid (status r) t"
  shows "r \<in> set T'"
proof -
  from assms(1) obtain U N where "T' = U @ N" "list_all2 (step tid)\<^sup>*\<^sup>* T U"
    unfolding table_evolves_def by blast
  with assms(2) obtain r' where "r' \<in> set T'" "(step tid)\<^sup>*\<^sup>* r r'"
    by (auto dest: list_all2_left)
  with path_stuck assms(3) show ?thesis by metis
qed

lemma evolves_foreign:
  assumes "evolves tid T T'" and "tid' \<noteq> tid"
  shows "filter (\<lambda>r. tenant r = tid') T' = filter (\<lambda>r. tenant r = tid') T"
proof -
  from assms(1) obtain U N where T': "T' = U @ N" "list_all2 (step tid)\<^sup>*\<^sup>* T U" "\<forall>r\<in>set N. tenant r = tid"
    unfolding table_evolves_def by blast
  from T'(2) have "filter (\<lambda>r. tenant r = tid') U = filter (\<lambda>r. tenant r = tid') T"
  proof (induction T U rule: list_all2_induct)
    case (Cons x xs y ys)
    then have "tenant x = tid' \<Longrightarrow> y = x" and "tenant y = tenant x"
      using path_foreign path_key_tenant assms(2) by auto
    with Cons show ?case by auto
  qed simp
  moreover have "filter (\<lambda>r. tenant r = tid') N = []"
    using T'(3) assms(2) by (simp add: filter_empty_conv)
  ultimately show ?thesis by (simp add: T'(1))
qed

end

end
