(* ===== verification/Customs.thy ===== *)
theory Customs
  imports Prelude
begin

text \<open>
  \<^verbatim>\<open>src/internal/customs/customs.go\<close>: the rules that cross-check a booking
  against a customs declaration. The HTTP client that fetches the declaration is
  not modelled; its answer is an argument of the workflow activity.
\<close>

definition DecisionMatch :: string where "DecisionMatch = ''MATCH''"
definition DecisionMismatch :: string where "DecisionMismatch = ''MISMATCH''"
definition ReasonDeclarationNotFound :: string where "ReasonDeclarationNotFound = ''DECLARATION_NOT_FOUND''"
definition ReasonDeclarationInvalid :: string where "ReasonDeclarationInvalid = ''DECLARATION_STATUS_INVALID''"
definition ReasonWeightTolerance :: string where "ReasonWeightTolerance = ''WEIGHT_TOLERANCE_EXCEEDED''"
definition ReasonConsigneeMismatch :: string where "ReasonConsigneeMismatch = ''CONSIGNEE_MISMATCH''"
definition ReasonOperatorMismatch :: string where "ReasonOperatorMismatch = ''OPERATOR_MISMATCH''"

lemmas decision_defs = DecisionMatch_def DecisionMismatch_def
lemmas reason_defs = ReasonDeclarationNotFound_def ReasonDeclarationInvalid_def
  ReasonWeightTolerance_def ReasonConsigneeMismatch_def ReasonOperatorMismatch_def

record CustomsDeclaration =
  cd_DeclarationRef :: string
  cd_Status :: string
  cd_WeightKg :: int
  cd_ConsigneeID :: string
  cd_OperatorID :: string

record BookingExpectation =
  be_DeclarationRef :: string
  be_DeclaredWeightKg :: int
  be_ConsigneeID :: string
  be_OperatorID :: string
  be_WeightToleranceBPS :: int

record Evaluation =
  e_Decision :: string
  e_ReasonCode :: string
  e_DeclarationRef :: string
  e_CustomsStatus :: string
  e_CustomsWeightKg :: int
  e_BookingWeightKg :: int
  e_ConsigneeID :: string
  e_OperatorID :: string

definition weightWithinTolerance :: "int \<Rightarrow> int \<Rightarrow> int \<Rightarrow> bool" where
  "weightWithinTolerance customsKg bookingKg toleranceBPS =
     (if customsKg \<le> 0 \<or> bookingKg \<le> 0 \<or> toleranceBPS < 0 then False
      else let difference = wrap64 (customsKg - bookingKg);
               difference = (if difference < 0 then wrap64 (- difference) else difference)
           in wrap64 (difference * 10000) \<le> wrap64 (bookingKg * toleranceBPS))"

definition Evaluate :: "CustomsDeclaration \<Rightarrow> BookingExpectation \<Rightarrow> Evaluation" where
  "Evaluate declaration expectation =
     (let evaluation = \<lparr>e_Decision = DecisionMismatch, e_ReasonCode = [],
            e_DeclarationRef = cd_DeclarationRef declaration, e_CustomsStatus = cd_Status declaration,
            e_CustomsWeightKg = cd_WeightKg declaration, e_BookingWeightKg = be_DeclaredWeightKg expectation,
            e_ConsigneeID = cd_ConsigneeID declaration, e_OperatorID = cd_OperatorID declaration\<rparr>
      in if cd_Status declaration \<noteq> ''VALID'' \<and> cd_Status declaration \<noteq> ''RELEASED''
         then evaluation\<lparr>e_ReasonCode := ReasonDeclarationInvalid\<rparr>
         else if \<not> weightWithinTolerance (cd_WeightKg declaration) (be_DeclaredWeightKg expectation)
                      (be_WeightToleranceBPS expectation)
         then evaluation\<lparr>e_ReasonCode := ReasonWeightTolerance\<rparr>
         else if cd_ConsigneeID declaration = [] \<or> cd_ConsigneeID declaration \<noteq> be_ConsigneeID expectation
         then evaluation\<lparr>e_ReasonCode := ReasonConsigneeMismatch\<rparr>
         else if cd_OperatorID declaration = [] \<or> cd_OperatorID declaration \<noteq> be_OperatorID expectation
         then evaluation\<lparr>e_ReasonCode := ReasonOperatorMismatch\<rparr>
         else evaluation\<lparr>e_Decision := DecisionMatch, e_ReasonCode := []\<rparr>)"

section \<open>The tolerance is exact where the products fit\<close>

lemma in_int64_scale: "0 \<le> x \<Longrightarrow> x \<le> 900000000000000 \<Longrightarrow> in_int64 (x * 10000)"
  by (simp add: in_int64_def max_int64_def)

lemma weightWithinTolerance_exact:
  assumes "0 \<le> tol" "0 < booking" "0 < customs"
    and "customs \<le> 900000000000000" "booking \<le> 900000000000000" "booking * tol \<le> max_int64"
  shows "weightWithinTolerance customs booking tol \<longleftrightarrow> \<bar>customs - booking\<bar> * 10000 \<le> booking * tol"
proof -
  have "in_int64 (customs - booking)" "in_int64 (booking - customs)"
    using assms by (simp_all add: in_int64_def max_int64_def)
  moreover have "\<bar>customs - booking\<bar> \<le> 900000000000000" using assms(2-5) by linarith
  then have "in_int64 (\<bar>customs - booking\<bar> * 10000)"
    by (intro in_int64_scale) simp_all
  moreover have "0 \<le> booking * tol" using assms(1,2) by simp
  then have "in_int64 (booking * tol)" using assms(6) by (simp add: in_int64_def)
  ultimately show ?thesis
    using assms(1-3) by (auto simp: weightWithinTolerance_def Let_def abs_if)
qed

text \<open>Every mismatch carries a reason and every match carries none.\<close>

lemma Evaluate_decision:
  "e_Decision (Evaluate d x) = DecisionMatch \<and> e_ReasonCode (Evaluate d x) = [] \<or>
   e_Decision (Evaluate d x) = DecisionMismatch \<and> e_ReasonCode (Evaluate d x) \<noteq> []"
  by (simp add: Evaluate_def Let_def reason_defs)

lemma Evaluate_ref: "e_DeclarationRef (Evaluate d x) = cd_DeclarationRef d"
  by (simp add: Evaluate_def Let_def)

text \<open>
  The cross-check matches exactly when it should: on weights up to nine
  hundred trillion kilograms, \<open>Evaluate\<close> answers MATCH iff the declaration is
  VALID or RELEASED, its weight is positive and deviates from the booked weight by
  at most the tolerance in basis points (boundary included), and consignee and
  operator are non-empty and equal. Otherwise it answers MISMATCH with a reason.
\<close>

theorem Evaluate_match_iff:
  assumes "cd_WeightKg d \<le> 900000000000000" "be_DeclaredWeightKg x \<le> 900000000000000"
    and "be_DeclaredWeightKg x * be_WeightToleranceBPS x \<le> max_int64"
  shows "(e_Decision (Evaluate d x) = DecisionMatch \<longleftrightarrow>
      (cd_Status d = ''VALID'' \<or> cd_Status d = ''RELEASED'') \<and>
      0 < cd_WeightKg d \<and> 0 < be_DeclaredWeightKg x \<and> 0 \<le> be_WeightToleranceBPS x \<and>
      \<bar>cd_WeightKg d - be_DeclaredWeightKg x\<bar> * 10000 \<le> be_DeclaredWeightKg x * be_WeightToleranceBPS x \<and>
      cd_ConsigneeID d \<noteq> [] \<and> cd_ConsigneeID d = be_ConsigneeID x \<and>
      cd_OperatorID d \<noteq> [] \<and> cd_OperatorID d = be_OperatorID x)
    \<and> (e_Decision (Evaluate d x) = DecisionMismatch \<longleftrightarrow> e_ReasonCode (Evaluate d x) \<noteq> [])"
proof -
  have tol: "weightWithinTolerance (cd_WeightKg d) (be_DeclaredWeightKg x) (be_WeightToleranceBPS x) \<longleftrightarrow>
      0 < cd_WeightKg d \<and> 0 < be_DeclaredWeightKg x \<and> 0 \<le> be_WeightToleranceBPS x \<and>
      \<bar>cd_WeightKg d - be_DeclaredWeightKg x\<bar> * 10000 \<le> be_DeclaredWeightKg x * be_WeightToleranceBPS x"
  proof (cases "0 < cd_WeightKg d \<and> 0 < be_DeclaredWeightKg x \<and> 0 \<le> be_WeightToleranceBPS x")
    case True
    with assms show ?thesis by (simp add: weightWithinTolerance_exact)
  next
    case False
    then show ?thesis by (auto simp: weightWithinTolerance_def)
  qed
  have "e_Decision (Evaluate d x) = DecisionMatch \<longleftrightarrow>
      (cd_Status d = ''VALID'' \<or> cd_Status d = ''RELEASED'') \<and>
      weightWithinTolerance (cd_WeightKg d) (be_DeclaredWeightKg x) (be_WeightToleranceBPS x) \<and>
      cd_ConsigneeID d \<noteq> [] \<and> cd_ConsigneeID d = be_ConsigneeID x \<and>
      cd_OperatorID d \<noteq> [] \<and> cd_OperatorID d = be_OperatorID x"
    by (auto simp: Evaluate_def Let_def decision_defs)
  with tol show ?thesis
    using Evaluate_decision [of d x] by (auto simp: decision_defs)
qed

theorem Evaluate_match_iff_witness:
  "e_Decision (Evaluate
      \<lparr>cd_DeclarationRef = ''NG/1'', cd_Status = ''VALID'', cd_WeightKg = 10500, cd_ConsigneeID = ''c1'', cd_OperatorID = ''o1''\<rparr>
      \<lparr>be_DeclarationRef = ''NG/1'', be_DeclaredWeightKg = 10000, be_ConsigneeID = ''c1'', be_OperatorID = ''o1'',
       be_WeightToleranceBPS = 500\<rparr>) = DecisionMatch"
  by (subst Evaluate_match_iff [THEN conjunct1]) (simp_all add: max_int64_def)

text \<open>
  Above that range the products wrap around: a declaration of two quadrillion
  kilograms is accepted against a booking of 150 tonnes at a tolerance of zero.
\<close>

lemma weight_tolerance_wraps:
  "weightWithinTolerance 1844674407520955 150000 0"
  by (simp add: weightWithinTolerance_def wrap64_def Let_def)

end
