(* ===== verification/Go_Format.thy ===== *)
theory Go_Format
  imports Tenant
begin

text \<open>
  The text forms the sources build with the standard library: \<open>fmt.Sprintf("%d")\<close>
  of integers and \<open>Format(time.RFC3339)\<close> of UTC instants (microseconds since the
  Unix epoch, proleptic Gregorian calendar).
\<close>

section \<open>Decimal integers\<close>

fun dec_nat :: "nat \<Rightarrow> string" where
  "dec_nat n = (if n < 10 then [char_of (48 + n)] else dec_nat (n div 10) @ [char_of (48 + n mod 10)])"

declare dec_nat.simps [simp del]

definition fmt_d :: "int \<Rightarrow> string" where
  "fmt_d i = (if i < 0 then CHR ''-'' # dec_nat (nat (- i)) else dec_nat (nat i))"

definition pad_left :: "nat \<Rightarrow> string \<Rightarrow> string" where
  "pad_left w s = replicate (w - length s) (CHR ''0'') @ s"

definition digits_value :: "string \<Rightarrow> int" where
  "digits_value s = foldl (\<lambda>a c. a * 10 + digit_val c) 0 s"

lemma digits_value_Nil [simp]: "digits_value [] = 0"
  by (simp add: digits_value_def)

lemma digits_value_snoc [simp]: "digits_value (s @ [c]) = digits_value s * 10 + digit_val c"
  by (simp add: digits_value_def)

lemma digit_char: "n < 10 \<Longrightarrow> is_digit (char_of (48 + n)) \<and> digit_val (char_of (48 + n)) = int n"
  by (simp add: is_digit_def digit_val_def)

lemma dec_nat_digits: "list_all is_digit (dec_nat n) \<and> dec_nat n \<noteq> []"
  by (induction n rule: dec_nat.induct) (subst (1 2) dec_nat.simps, auto simp: digit_char)

lemma digits_value_dec_nat: "digits_value (dec_nat n) = int n"
proof (induction n rule: dec_nat.induct)
  case (1 n)
  show ?case
  proof (cases "n < 10")
    case True
    then show ?thesis
      using digits_value_snoc [of "[]"] by (subst dec_nat.simps) (simp add: digit_char)
  next
    case False
    have "digits_value (dec_nat n) = digits_value (dec_nat (n div 10)) * 10 + int (n mod 10)"
      using False by (subst dec_nat.simps) (simp add: digit_char)
    also have "\<dots> = int (n div 10 * 10 + n mod 10)" unfolding 1 [OF False] by (simp only: of_nat_add of_nat_mult of_nat_numeral)
    finally show ?thesis by (simp only: div_mult_mod_eq)
  qed
qed

text \<open>Printing is injective: a decimal text determines its number.\<close>

lemma dec_nat_inject: "dec_nat m = dec_nat n \<longleftrightarrow> m = n"
  by (metis digits_value_dec_nat of_nat_eq_iff)

section \<open>RFC 3339\<close>

text \<open>Year, month and day of a count of days since 1 January 1970.\<close>

definition civil_of_days :: "int \<Rightarrow> int \<times> int \<times> int" where
  "civil_of_days days =
     (let z = days + 719468;
          era = z div 146097;
          doe = z mod 146097;
          yoe = (doe - doe div 1460 + doe div 36524 - doe div 146096) div 365;
          doy = doe - (365 * yoe + yoe div 4 - yoe div 100);
          mp = (5 * doy + 2) div 153;
          d = doy - (153 * mp + 2) div 5 + 1;
          m = (if mp < 10 then mp + 3 else mp - 9)
      in (yoe + era * 400 + (if m \<le> 2 then 1 else 0), m, d))"

definition two :: "int \<Rightarrow> string" where
  "two i = pad_left 2 (fmt_d i)"

definition rfc3339 :: "time \<Rightarrow> string" where
  "rfc3339 t =
     (let secs = t div 1000000; days = secs div 86400; s = secs mod 86400 in
      case civil_of_days days of (y, m, d) \<Rightarrow>
        (if y < 0 then CHR ''-'' # pad_left 4 (fmt_d (- y)) else pad_left 4 (fmt_d y)) @ ''-'' @ two m @ ''-'' @ two d @ ''T''
          @ two (s div 3600) @ '':'' @ two (s mod 3600 div 60) @ '':'' @ two (s mod 60) @ ''Z'')"

text \<open>\<open>time.RFC3339Nano\<close> drops the trailing zeros of the fraction of a second.\<close>

definition rfc3339nano :: "time \<Rightarrow> string" where
  "rfc3339nano t =
     (let us = t mod 1000000 in
      butlast (rfc3339 t)
        @ (if us = 0 then [] else CHR ''.'' # rev (dropWhile (\<lambda>c. c = CHR ''0'') (rev (pad_left 6 (fmt_d us)))))
        @ ''Z'')"

section \<open>Texts\<close>

text \<open>
  \<open>strings.Split\<close> at one byte, \<open>strings.TrimPrefix\<close> and \<open>strings.ToUpper\<close>; \<open>upper\<close> stands for
  the tables of \<open>unicode.ToUpper\<close> on text that is not ASCII.
\<close>

fun split_on :: "char \<Rightarrow> string \<Rightarrow> string list" where
  "split_on c [] = [[]]"
| "split_on c (x # xs) =
     (if x = c then [] # split_on c xs else (case split_on c xs of [] \<Rightarrow> [[x]] | p # ps \<Rightarrow> (x # p) # ps))"

lemma split_on_ne: "split_on c s \<noteq> []"
  by (cases s) (auto split: list.splits)

definition trim_prefix :: "string \<Rightarrow> string \<Rightarrow> string" where
  "trim_prefix p s = (if prefix p s then drop (length p) s else s)"

definition ascii_upper :: "char \<Rightarrow> char" where
  "ascii_upper c = (if is_lower c then char_of (byte c - 32) else c)"

definition ToUpper :: "(string \<Rightarrow> string) \<Rightarrow> string \<Rightarrow> string" where
  "ToUpper upper s = (if list_all (\<lambda>c. byte c < 128) s then map ascii_upper s else upper s)"

end
