(* ===== verification/Booking_Store.thy ===== *)
theory Booking_Store
  imports Database Ledger Customs Go_Format
begin

text \<open>
  \<^verbatim>\<open>src/internal/booking/store.go\<close>: every operation of the booking store as a
  function on the database. \<open>X_work\<close> is the closure an operation \<open>X\<close> passes to
  \<open>withTx\<close>; \<open>X\<close> itself validates its arguments and runs the transaction. The
  capacity listener, the release verifier and the refunder are the interfaces the
  source declares, fields of the store. A refund reaches the settlement ledger
  \<open>'l\<close> outside the transaction.
\<close>

section \<open>The store\<close>

type_synonym listener = "Claims \<Rightarrow> string \<Rightarrow> Principal \<Rightarrow> env \<Rightarrow> db \<Rightarrow> db result"
type_synonym release_verifier = "Claims \<Rightarrow> db \<Rightarrow> string \<Rightarrow> string \<Rightarrow> go_error option"
type_synonym 'l refund_rail = "Refund \<Rightarrow> 'l \<Rightarrow> string result \<times> 'l"

record 'l bstore =
  st_signer :: "payload signer option"
  st_listener :: "listener option"
  st_releaseVerifier :: "release_verifier option"
  st_refunder :: "'l refund_rail option"
  st_fgnShareBPS :: int
  st_refundWired :: bool

definition booking_NewStore :: "payload signer option \<Rightarrow> 'l bstore" where
  "booking_NewStore signer = \<lparr>st_signer = signer, st_listener = None, st_releaseVerifier = None,
     st_refunder = None, st_fgnShareBPS = 0, st_refundWired = False\<rparr>"

definition SetCapacityListener :: "listener option \<Rightarrow> 'l bstore \<Rightarrow> 'l bstore" where
  "SetCapacityListener l st = st\<lparr>st_listener := l\<rparr>"

definition SetReleaseVerifier :: "release_verifier option \<Rightarrow> 'l bstore \<Rightarrow> 'l bstore" where
  "SetReleaseVerifier v st = st\<lparr>st_releaseVerifier := v\<rparr>"

definition SetRefundPoster :: "'l refund_rail option \<Rightarrow> int \<Rightarrow> 'l bstore \<Rightarrow> 'l bstore result" where
  "SetRefundPoster refunder bps st =
     (if refunder = None \<or> bps \<le> 0 \<or> bps \<ge> 10000
      then Inl (ErrText ''refund poster requires a ledger refunder and an FGN share between 1 and 9999 basis points'')
      else Inr (st\<lparr>st_refunder := refunder, st_fgnShareBPS := bps, st_refundWired := True\<rparr>))"

text \<open>
  \<open>st_refunder\<close> is set whenever \<open>st_refundWired\<close> is; on a nil refunder Go would
  panic, which ends the request without a transition like any other error.
\<close>

definition refundIfPaid :: "'l bstore \<Rightarrow> BookingRow \<Rightarrow> 'l \<Rightarrow> string result \<times> 'l" where
  "refundIfPaid st booking w =
     (if b_Status booking \<noteq> B_PAID \<and> b_Status booking \<noteq> B_VALIDATION_PENDING then (Inr [], w)
      else if \<not> st_refundWired st then (Inl ErrRefundUnavailable, w)
      else (case st_refunder st of
              None \<Rightarrow> (Inl (ErrText ''nil pointer dereference''), w)
            | Some refunder \<Rightarrow>
                (case refunder \<lparr>BookingID = b_BookingID booking, AmountKobo = uint64_of (b_AmountKobo booking),
                                FgnShareKobo = fgn_share (b_AmountKobo booking) (st_fgnShareBPS st)\<rparr> w of
                   (Inl err, w') \<Rightarrow> (Inl ErrRefundUnavailable, w')
                 | (Inr commitHash, w') \<Rightarrow> (Inr commitHash, w'))))"

definition capacityReleased ::
  "'l bstore \<Rightarrow> Claims \<Rightarrow> BookingRow \<Rightarrow> Principal \<Rightarrow> env \<Rightarrow> db \<Rightarrow> db result" where
  "capacityReleased st claims before pr e d =
     (case st_listener st of
        None \<Rightarrow> Inr d
      | Some CapacityReleased \<Rightarrow>
          if b_SlotID before = None then Inr d
          else if b_Status before \<in> {B_SLOT_RESERVED, B_PAID, B_VALIDATION_PENDING, B_GATE_APPROVED}
          then CapacityReleased claims (b_TerminalID before) pr e d
          else Inr d)"

section \<open>Terminals and slots\<close>

fun drop_spaces :: "string \<Rightarrow> string" where
  "drop_spaces [] = []"
| "drop_spaces (c # cs) = (if c = CHR '' '' then drop_spaces cs else c # cs)"

definition nameTrim :: "string \<Rightarrow> string" where
  "nameTrim value = rev (drop_spaces (rev (drop_spaces value)))"

definition CreateTerminal_work ::
  "string \<Rightarrow> string \<Rightarrow> string \<Rightarrow> int \<Rightarrow> Claims \<Rightarrow> db \<Rightarrow> (unit \<times> db) result" where
  "CreateTerminal_work terminalID portCode name fee claims d =
     (if list_ex (\<lambda>t. t_TerminalID t = terminalID) (port_terminals d) then Inr ((), d)
      else Inr ((), d\<lparr>port_terminals := port_terminals d @
             [\<lparr>t_TerminalID = terminalID, t_TenantID = TenantID claims, t_PortCode = portCode, t_Name = name,
               t_BookingFeeKobo = fee, t_Active = True, t_QueueCapacity = 1\<rparr>]\<rparr>))"

definition CreateTerminal :: "ctx \<Rightarrow> string \<Rightarrow> string \<Rightarrow> string \<Rightarrow> int \<Rightarrow> db \<Rightarrow> unit result \<times> db" where
  "CreateTerminal c terminalID portCode name fee d =
     (case booking_ValidateTerminalID terminalID of Some err \<Rightarrow> (Inl err, d)
      | None \<Rightarrow> (case ValidatePortCode portCode of Some err \<Rightarrow> (Inl err, d)
      | None \<Rightarrow>
          if len name < 2 \<or> len name > 256 \<or> name \<noteq> nameTrim name
          then (Inl (ErrText ''terminal name must be canonical text between 2 and 256 characters''), d)
          else if fee \<le> 0 then (Inl (ErrText ''terminal booking fee must be positive''), d)
          else WithTx c (CreateTerminal_work terminalID portCode name fee) d))"

text \<open>
  The \<open>capacity\<close> column is a 32-bit integer; the driver refuses a larger value.
  \<open>created_at\<close> defaults to the transaction's clock. The answer pairs the slot
  with its terminal's port code.
\<close>

definition CreateSlot_work ::
  "string \<Rightarrow> time \<Rightarrow> time \<Rightarrow> int \<Rightarrow> env \<Rightarrow> Claims \<Rightarrow> db \<Rightarrow> ((Slot \<times> string) \<times> db) result" where
  "CreateSlot_work terminalID startsAt endsAt capacity e claims d =
     bindE (from_option (ErrNotFound Booking) (find_terminal (TenantID claims) d terminalID)) (\<lambda>t.
     if \<not> t_Active t then Inl (ErrText ''terminal is not active'')
     else if capacity > 2147483647 then Inl (Wrapf ''create slot'' (ErrText ''value out of range for int4''))
     else if list_ex (\<lambda>s. s_TenantID s = TenantID claims \<and> s_TerminalID s = terminalID \<and> s_StartsAt s = startsAt)
               (terminal_slots d)
     then Inl (ErrIdempotencyConflict Booking)
     else if list_ex (\<lambda>s. s_SlotID s = rnd e 0) (terminal_slots d)
     then Inl (Wrapf ''create slot'' (PgErr (UniqueViolation ''terminal_slots_pkey'')))
     else let slot = \<lparr>s_SlotID = rnd e 0, s_TenantID = TenantID claims, s_TerminalID = terminalID,
                      s_StartsAt = startsAt, s_EndsAt = endsAt, s_Capacity = capacity, s_CreatedAt = clk e 0\<rparr>
          in Inr ((slot, t_PortCode t), d\<lparr>terminal_slots := terminal_slots d @ [slot]\<rparr>))"

definition CreateSlot ::
  "ctx \<Rightarrow> string \<Rightarrow> time \<Rightarrow> time \<Rightarrow> int \<Rightarrow> env \<Rightarrow> db \<Rightarrow> (Slot \<times> string) result \<times> db" where
  "CreateSlot c terminalID startsAt endsAt capacity e d =
     (case booking_ValidateTerminalID terminalID of Some err \<Rightarrow> (Inl err, d)
      | None \<Rightarrow> (case ValidateSlotWindow startsAt endsAt capacity of Some err \<Rightarrow> (Inl err, d)
      | None \<Rightarrow> WithTx c (CreateSlot_work terminalID startsAt endsAt capacity e) d))"

text \<open>The slots that overlap \<open>[from, to)\<close> with their live reservation counts, by start.\<close>

definition ListSlots_work ::
  "string \<Rightarrow> time \<Rightarrow> time \<Rightarrow> Claims \<Rightarrow> db \<Rightarrow> ((Slot \<times> int) list \<times> db) result" where
  "ListSlots_work terminalID from to claims d =
     Inr (map (\<lambda>s. (s, count_rows (\<lambda>b. b_TenantID b = TenantID claims \<and> in_slot (s_SlotID s) b) (truck_bookings d)))
            (sort_key s_StartsAt
              (filter (\<lambda>s. s_TenantID s = TenantID claims \<and> s_TerminalID s = terminalID
                         \<and> s_StartsAt s < to \<and> s_EndsAt s > from) (terminal_slots d))), d)"

definition ListSlots :: "ctx \<Rightarrow> string \<Rightarrow> time \<Rightarrow> time \<Rightarrow> db \<Rightarrow> (Slot \<times> int) list result \<times> db" where
  "ListSlots c terminalID from to d = WithTx c (ListSlots_work terminalID from to) d"

section \<open>Creation\<close>

definition containerIDPtr :: "string \<Rightarrow> string option" where
  "containerIDPtr containerID = (if containerID = [] then None else Some containerID)"

definition declarationBinding ::
  "BCreateRequest \<Rightarrow> string option \<times> int option \<times> string option \<times> string option" where
  "declarationBinding r =
     (if cr_CargoDeclarationRef r = [] then (None, None, None, None)
      else (Some (cr_CargoDeclarationRef r), Some (cr_DeclaredWeightKg r), Some (cr_ConsigneeID r), Some (cr_OperatorID r)))"

fun channel_text :: "Channel \<Rightarrow> string" where
  "channel_text ChannelWeb = ''WEB''"
| "channel_text ChannelUSSD = ''USSD''"
| "channel_text ChannelOffline = ''OFFLINE''"
| "channel_text (ChannelOther s) = s"

definition new_booking :: "Claims \<Rightarrow> BCreateRequest \<Rightarrow> Principal \<Rightarrow> env \<Rightarrow> BookingRow" where
  "new_booking claims r pr e =
     (case declarationBinding r of (declarationRef, declaredWeight, consigneeID, operatorID) \<Rightarrow>
       \<lparr>b_BookingID = rnd e 0, b_TenantID = TenantID claims, b_RequestID = cr_RequestID r,
        b_TruckPlate = cr_TruckPlate r, b_TruckerMSISDN = cr_TruckerMSISDN r, b_TerminalID = cr_TerminalID r,
        b_CreatedBy = Some (pr_ID pr), b_SlotID = None, b_Channel = cr_Channel r,
        b_Status = (if cr_Channel r = ChannelOffline then B_PENDING_SYNC else B_DRAFTED),
        b_AmountKobo = cr_AmountKobo r, b_Currency = ''NGN'', b_CargoDeclarationRef = declarationRef,
        b_DeclaredWeightKg = declaredWeight, b_ConsigneeID = consigneeID, b_OperatorID = operatorID,
        b_ContainerID = containerIDPtr (cr_ContainerID r), b_PaymentReceiptRef = None, b_GateID = None,
        b_LedgerCommitHash = None, b_ReconciliationReason = None, b_CreatedAt = clk e 0,
        b_UpdatedAt = clk e 0, b_ExpiresAt = cr_ExpiresAt r, b_Version = 1\<rparr>)"

text \<open>The comparison of an idempotent replay with the stored booking.\<close>

definition same_request :: "BookingRow \<Rightarrow> BCreateRequest \<Rightarrow> bool" where
  "same_request existing r \<longleftrightarrow>
     b_TruckPlate existing = cr_TruckPlate r \<and> b_TruckerMSISDN existing = cr_TruckerMSISDN r \<and>
     b_TerminalID existing = cr_TerminalID r \<and> b_Channel existing = cr_Channel r \<and>
     b_AmountKobo existing = cr_AmountKobo r \<and>
     (b_CargoDeclarationRef existing, b_DeclaredWeightKg existing, b_ConsigneeID existing, b_OperatorID existing)
       = declarationBinding r \<and>
     b_ContainerID existing = containerIDPtr (cr_ContainerID r)"

definition find_request :: "string \<Rightarrow> db \<Rightarrow> string \<Rightarrow> BookingRow option" where
  "find_request tid d requestID =
     find (\<lambda>b. b_TenantID b = tid \<and> b_RequestID b = requestID) (truck_bookings d)"

definition release_check :: "'l bstore \<Rightarrow> Claims \<Rightarrow> BCreateRequest \<Rightarrow> db \<Rightarrow> go_error option" where
  "release_check st claims r d =
     (if cr_ContainerID r = [] then None
      else (case st_releaseVerifier st of
              None \<Rightarrow> Some ErrReleaseVerifierMissing
            | Some verify \<Rightarrow> verify claims d (cr_ContainerID r) (Subject claims)))"

definition createTx ::
  "'l bstore \<Rightarrow> BCreateRequest \<Rightarrow> Principal \<Rightarrow> env \<Rightarrow> Claims \<Rightarrow> db \<Rightarrow> (BookingRow \<times> db) result" where
  "createTx st r pr e claims d =
     bindE (from_option (ErrNotFound Booking) (find_terminal (TenantID claims) d (cr_TerminalID r))) (\<lambda>t.
     bindE (ensure (t_Active t) (ErrText ''terminal is not active'')) (\<lambda>_.
     bindE (or_fail (release_check st claims r d)) (\<lambda>_.
     let booking = new_booking claims r pr e in
     case booking_write_error (TenantID claims) d booking of
       Some err \<Rightarrow> Inl (Wrapf ''insert booking'' err)
     | None \<Rightarrow>
        (case find_request (TenantID claims) d (cr_RequestID r) of
           Some existing \<Rightarrow>
             if same_request existing r then Inr (existing, d) else Inl (ErrIdempotencyConflict Booking)
         | None \<Rightarrow>
             if list_ex (\<lambda>b. b_BookingID b = b_BookingID booking) (truck_bookings d)
             then Inl (Wrapf ''insert booking'' (PgErr (UniqueViolation ''truck_bookings_pkey'')))
             else bindE (emit claims TopicBooking
                      (if b_Status booking = B_PENDING_SYNC then ''booking.pending_sync'' else ''booking.drafted'')
                      (b_RequestID booking) (b_BookingID booking) (BookingPayload booking)
                      [(''terminal-id'', b_TerminalID booking), (''channel'', channel_text (b_Channel booking))]
                      pr [] (clk e 0) (st_signer st) (later 0 1 e)
                      (d\<lparr>truck_bookings := truck_bookings d @ [booking]\<rparr>))
                    (\<lambda>d'. Inr (booking, d'))))))"

definition Create ::
  "'l bstore \<Rightarrow> ctx \<Rightarrow> BCreateRequest \<Rightarrow> Principal \<Rightarrow> env \<Rightarrow> db \<Rightarrow> BookingRow result \<times> db" where
  "Create st c r pr e d =
     (case booking_Validate (clk e 0) r of Some err \<Rightarrow> (Inl err, d)
      | None \<Rightarrow>
          if pr_ID pr = [] \<or> pr_Role pr = [] then (Inl (ErrText ''booking principal is required''), d)
          else WithTx c (createTx st r pr (later 1 0 e)) d)"

section \<open>Reading and the transition\<close>

definition getForUpdate :: "Claims \<Rightarrow> db \<Rightarrow> string \<Rightarrow> BookingRow result" where
  "getForUpdate claims d bookingID = from_option (ErrNotFound Booking) (find_booking (TenantID claims) d bookingID)"

definition Get :: "ctx \<Rightarrow> string \<Rightarrow> db \<Rightarrow> BookingRow result \<times> db" where
  "Get c bookingID d =
     WithTx c (\<lambda>claims d. bindE (getForUpdate claims d bookingID) (\<lambda>b. Inr (b, d))) d"

text \<open>The row of the guarded \<open>UPDATE\<close>: same id, and the status and version the caller read.\<close>

definition update_target :: "Claims \<Rightarrow> BookingRow \<Rightarrow> BookingRow \<Rightarrow> bool" where
  "update_target claims booking r \<longleftrightarrow>
     b_TenantID r = TenantID claims \<and> b_BookingID r = b_BookingID booking \<and>
     b_Status r = b_Status booking \<and> b_Version r = b_Version booking"

definition set_columns :: "BookingRow \<Rightarrow> BookingRow \<Rightarrow> BookingRow" where
  "set_columns updated r =
     r\<lparr>b_Status := b_Status updated, b_SlotID := b_SlotID updated,
       b_PaymentReceiptRef := b_PaymentReceiptRef updated, b_GateID := b_GateID updated,
       b_LedgerCommitHash := b_LedgerCommitHash updated,
       b_ReconciliationReason := b_ReconciliationReason updated,
       b_UpdatedAt := b_UpdatedAt updated, b_Version := b_Version updated\<rparr>"

definition transitionTx ::
  "'l bstore \<Rightarrow> Claims \<Rightarrow> BookingRow \<Rightarrow> BStatus \<Rightarrow> (BookingRow \<Rightarrow> BookingRow) \<Rightarrow> string
   \<Rightarrow> (string \<times> string) list \<Rightarrow> Principal \<Rightarrow> string \<Rightarrow> env \<Rightarrow> db \<Rightarrow> (BookingRow \<times> db) result" where
  "transitionTx st claims booking next mutate eventType extensions pr ledgerCommitHash e d =
     (if \<not> booking_ValidTransition (b_Status booking) next then Inl (ErrInvalidTransition Booking)
      else let updated = mutate (booking\<lparr>b_Status := next, b_UpdatedAt := clk e 0,
                                         b_Version := wrap64 (b_Version booking + 1)\<rparr>) in
      case find (update_target claims booking) (truck_bookings d) of
        None \<Rightarrow> Inl (ErrOptimisticConflict Booking)
      | Some row \<Rightarrow>
          let result = set_columns updated row in
          (case booking_write_error (TenantID claims) d result of
             Some err \<Rightarrow> Inl (Wrapf ''transition booking'' err)
           | None \<Rightarrow>
               bindE (emit claims TopicBooking eventType (b_RequestID result) (b_BookingID result)
                        (BookingPayload result) extensions pr ledgerCommitHash (b_UpdatedAt result)
                        (st_signer st) e
                        (d\<lparr>truck_bookings := update_where (update_target claims booking) (set_columns updated)
                                               (truck_bookings d)\<rparr>))
                     (\<lambda>d'. Inr (result, d'))))"

definition slotCapacityFree :: "Claims \<Rightarrow> db \<Rightarrow> string \<Rightarrow> (bool \<times> Slot) result" where
  "slotCapacityFree claims d slotID =
     bindE (from_option (ErrNotFound Booking) (find_slot (TenantID claims) d slotID)) (\<lambda>slot.
     Inr (count_rows (\<lambda>b. b_TenantID b = TenantID claims \<and> in_slot slotID b) (truck_bookings d) < s_Capacity slot, slot))"

section \<open>Reservation and reconciliation\<close>

definition ReserveSlot_work ::
  "'l bstore \<Rightarrow> string \<Rightarrow> string \<Rightarrow> int \<Rightarrow> Principal \<Rightarrow> env \<Rightarrow> Claims \<Rightarrow> db \<Rightarrow> (BookingRow \<times> db) result" where
  "ReserveSlot_work st bookingID slotID expectedVersion pr e claims d =
     bindE (getForUpdate claims d bookingID) (\<lambda>booking.
     bindE (ensure (b_Version booking = expectedVersion) (ErrOptimisticConflict Booking)) (\<lambda>_.
     bindE (ensure (b_Status booking = B_DRAFTED \<or> b_Status booking = B_RECONCILIATION_REQUIRED)
              (ErrInvalidTransition Booking)) (\<lambda>_.
     bindE (slotCapacityFree claims d slotID) (\<lambda>(free, slot).
     bindE (ensure (s_TerminalID slot = b_TerminalID booking) ErrSlotWindow) (\<lambda>_.
     bindE (ensure (clk e 0 < s_EndsAt slot) ErrSlotWindow) (\<lambda>_.
     bindE (ensure free ErrSlotUnavailable) (\<lambda>_.
     transitionTx st claims booking B_SLOT_RESERVED
       (\<lambda>u. u\<lparr>b_SlotID := Some slotID, b_ReconciliationReason := None\<rparr>)
       ''booking.slot_reserved'' [(''slot-id'', slotID), (''terminal-id'', b_TerminalID booking)]
       pr [] (later 1 0 e) d)))))))"

definition ReserveSlot ::
  "'l bstore \<Rightarrow> ctx \<Rightarrow> string \<Rightarrow> string \<Rightarrow> int \<Rightarrow> Principal \<Rightarrow> env \<Rightarrow> db \<Rightarrow> BookingRow result \<times> db" where
  "ReserveSlot st c bookingID slotID expectedVersion pr e d =
     WithTx c (ReserveSlot_work st bookingID slotID expectedVersion pr e) d"

text \<open>
  The clock is read once for the condition (\<open>clk e 0\<close>) and again to word the
  reason (\<open>clk e 1\<close>).
\<close>

definition Reconcile_work ::
  "'l bstore \<Rightarrow> string \<Rightarrow> string \<Rightarrow> int \<Rightarrow> Principal \<Rightarrow> env \<Rightarrow> Claims \<Rightarrow> db \<Rightarrow> (BookingRow \<times> db) result" where
  "Reconcile_work st bookingID slotID expectedVersion pr e claims d =
     bindE (getForUpdate claims d bookingID) (\<lambda>booking.
     bindE (ensure (b_Version booking = expectedVersion) (ErrOptimisticConflict Booking)) (\<lambda>_.
     bindE (ensure (b_Status booking = B_PENDING_SYNC) (ErrInvalidTransition Booking)) (\<lambda>_.
     bindE (slotCapacityFree claims d slotID) (\<lambda>(free, slot).
     if s_TerminalID slot \<noteq> b_TerminalID booking \<or> \<not> clk e 0 < s_EndsAt slot \<or> \<not> free
     then let reason = (if s_TerminalID slot \<noteq> b_TerminalID booking then ''slot terminal mismatch on reconnect''
                        else if \<not> clk e 1 < s_EndsAt slot then ''slot window elapsed on reconnect''
                        else ''slot capacity exhausted on reconnect'')
          in transitionTx st claims booking B_RECONCILIATION_REQUIRED
               (\<lambda>u. u\<lparr>b_ReconciliationReason := Some reason\<rparr>)
               ''booking.reconciliation_required'' [(''slot-id'', slotID), (''reason'', reason)]
               pr [] (later 2 0 e) d
     else transitionTx st claims booking B_SLOT_RESERVED
            (\<lambda>u. u\<lparr>b_SlotID := Some slotID, b_ReconciliationReason := None\<rparr>)
            ''booking.reconciled'' [(''slot-id'', slotID), (''terminal-id'', b_TerminalID booking)]
            pr [] (later 2 0 e) d))))"

definition Reconcile ::
  "'l bstore \<Rightarrow> ctx \<Rightarrow> string \<Rightarrow> string \<Rightarrow> int \<Rightarrow> Principal \<Rightarrow> env \<Rightarrow> db \<Rightarrow> BookingRow result \<times> db" where
  "Reconcile st c bookingID slotID expectedVersion pr e d =
     WithTx c (Reconcile_work st bookingID slotID expectedVersion pr e) d"

section \<open>Payment\<close>

definition find_intent :: "string \<Rightarrow> db \<Rightarrow> string \<Rightarrow> PaymentIntent option" where
  "find_intent tid d requestID =
     find (\<lambda>i. i_TenantID i = tid \<and> i_RequestID i = requestID) (booking_payment_intents d)"

definition CreatePaymentIntent_work ::
  "string \<Rightarrow> string \<Rightarrow> string \<Rightarrow> int \<Rightarrow> env \<Rightarrow> Claims \<Rightarrow> db \<Rightarrow> (PaymentIntent \<times> db) result" where
  "CreatePaymentIntent_work bookingID requestID mojaloopTxRef expectedVersion e claims d =
     bindE (getForUpdate claims d bookingID) (\<lambda>booking.
     bindE (ensure (b_Version booking = expectedVersion) (ErrOptimisticConflict Booking)) (\<lambda>_.
     bindE (ensure (b_Status booking = B_SLOT_RESERVED) (ErrInvalidTransition Booking)) (\<lambda>_.
     case find_intent (TenantID claims) d requestID of
       Some existing \<Rightarrow>
         if i_BookingID existing \<noteq> bookingID \<or> i_MojaloopTxRef existing \<noteq> mojaloopTxRef
         then Inl (ErrIdempotencyConflict Booking) else Inr (existing, d)
     | None \<Rightarrow>
         if list_ex (\<lambda>i. i_IntentID i = rnd e 0) (booking_payment_intents d)
         then Inl (Wrapf ''insert payment intent'' (PgErr (UniqueViolation ''booking_payment_intents_pkey'')))
         else let intent = \<lparr>i_IntentID = rnd e 0, i_TenantID = TenantID claims, i_BookingID = bookingID,
                            i_RequestID = requestID, i_AmountKobo = b_AmountKobo booking, i_Currency = ''NGN'',
                            i_MojaloopTxRef = mojaloopTxRef, i_Status = ''REQUESTED'', i_CreatedAt = clk e 0\<rparr>
              in Inr (intent, d\<lparr>booking_payment_intents := booking_payment_intents d @ [intent]\<rparr>))))"

definition CreatePaymentIntent ::
  "ctx \<Rightarrow> string \<Rightarrow> string \<Rightarrow> string \<Rightarrow> int \<Rightarrow> env \<Rightarrow> db \<Rightarrow> PaymentIntent result \<times> db" where
  "CreatePaymentIntent c bookingID requestID mojaloopTxRef expectedVersion e d =
     (if len requestID < 8 \<or> len requestID > 128
      then (Inl (ErrText ''payment request_id must be between 8 and 128 characters''), d)
      else if mojaloopTxRef = [] then (Inl ErrPaymentInvalid, d)
      else WithTx c (CreatePaymentIntent_work bookingID requestID mojaloopTxRef expectedVersion e) d)"

definition pending_intent :: "Claims \<Rightarrow> string \<Rightarrow> PaymentIntent \<Rightarrow> bool" where
  "pending_intent claims bookingID i \<longleftrightarrow>
     i_TenantID i = TenantID claims \<and> i_BookingID i = bookingID \<and> i_Status i = ''REQUESTED''"

text \<open>Among intents created at the same instant the query may return any; the model takes the first.\<close>

definition PendingPaymentIntent :: "ctx \<Rightarrow> string \<Rightarrow> db \<Rightarrow> PaymentIntent result \<times> db" where
  "PendingPaymentIntent c bookingID d =
     WithTx c (\<lambda>claims d.
       case sort_key (\<lambda>i. - i_CreatedAt i) (filter (pending_intent claims bookingID) (booking_payment_intents d)) of
         [] \<Rightarrow> Inl ErrPaymentInvalid
       | intent # _ \<Rightarrow> Inr (intent, d)) d"

fun isReceiptReuseConflict :: "go_error \<Rightarrow> bool" where
  "isReceiptReuseConflict (Wrapf _ err) = isReceiptReuseConflict err"
| "isReceiptReuseConflict (PgErr (UniqueViolation constraint)) = (constraint = receipt_index)"
| "isReceiptReuseConflict _ = False"

definition matching_intent :: "Claims \<Rightarrow> string \<Rightarrow> string \<Rightarrow> PaymentIntent \<Rightarrow> bool" where
  "matching_intent claims bookingID receiptRef i \<longleftrightarrow>
     pending_intent claims bookingID i \<and> i_MojaloopTxRef i = receiptRef"

definition ConfirmPayment_work ::
  "'l bstore \<Rightarrow> string \<Rightarrow> string \<Rightarrow> int \<Rightarrow> Principal \<Rightarrow> env \<Rightarrow> Claims \<Rightarrow> db \<Rightarrow> (BookingRow \<times> db) result" where
  "ConfirmPayment_work st bookingID receiptRef expectedVersion pr e claims d =
     bindE (getForUpdate claims d bookingID) (\<lambda>booking.
     if b_Status booking = B_PAID \<and> b_PaymentReceiptRef booking = Some receiptRef then Inr (booking, d)
     else bindE (ensure (b_Version booking = expectedVersion) (ErrOptimisticConflict Booking)) (\<lambda>_.
     bindE (ensure (b_Status booking = B_SLOT_RESERVED) (ErrInvalidTransition Booking)) (\<lambda>_.
     if count_rows (matching_intent claims bookingID receiptRef) (booking_payment_intents d) = 0
     then Inl ErrPaymentInvalid
     else case transitionTx st claims booking B_PAID (\<lambda>u. u\<lparr>b_PaymentReceiptRef := Some receiptRef\<rparr>)
                ''booking.paid''
                [(''payment-receipt-ref'', receiptRef), (''amount-kobo'', fmt_d (b_AmountKobo booking))]
                pr [] e
                (d\<lparr>booking_payment_intents := update_where (matching_intent claims bookingID receiptRef)
                      (\<lambda>i. i\<lparr>i_Status := ''COMPLETED''\<rparr>) (booking_payment_intents d)\<rparr>) of
            Inl err \<Rightarrow> if isReceiptReuseConflict err then Inl ErrPaymentReceiptReuse else Inl err
          | Inr result \<Rightarrow> Inr result)))"

definition ConfirmPayment ::
  "'l bstore \<Rightarrow> ctx \<Rightarrow> string \<Rightarrow> string \<Rightarrow> int \<Rightarrow> Principal \<Rightarrow> env \<Rightarrow> db \<Rightarrow> BookingRow result \<times> db" where
  "ConfirmPayment st c bookingID receiptRef expectedVersion pr e d =
     (if receiptRef = [] \<or> len receiptRef > 128 then (Inl ErrPaymentInvalid, d)
      else WithTx c (ConfirmPayment_work st bookingID receiptRef expectedVersion pr e) d)"

section \<open>Customs validation\<close>

definition customs_match :: "string \<Rightarrow> string \<Rightarrow> CustomsValidationRow \<Rightarrow> bool" where
  "customs_match tid bookingID v \<longleftrightarrow>
     v_TenantID v = tid \<and> v_BookingID v = bookingID \<and> v_Decision v = DecisionMatch"

definition hasCustomsMatch :: "Claims \<Rightarrow> db \<Rightarrow> string \<Rightarrow> bool" where
  "hasCustomsMatch claims d bookingID =
     (count_rows (customs_match (TenantID claims) bookingID) (customs_validations d) > 0)"

definition BeginCustomsValidation_work ::
  "'l bstore \<Rightarrow> string \<Rightarrow> Principal \<Rightarrow> env \<Rightarrow> Claims \<Rightarrow> db \<Rightarrow> (BookingRow \<times> db) result" where
  "BeginCustomsValidation_work st bookingID pr e claims d =
     bindE (getForUpdate claims d bookingID) (\<lambda>booking.
     case b_CargoDeclarationRef booking of
       None \<Rightarrow> Inl (ErrText ''booking does not reference a cargo declaration'')
     | Some ref \<Rightarrow>
         if b_Status booking = B_VALIDATION_PENDING then Inr (booking, d)
         else if b_Status booking = B_PAID
         then (if hasCustomsMatch claims d bookingID then Inr (booking, d)
               else transitionTx st claims booking B_VALIDATION_PENDING (\<lambda>u. u)
                      ''booking.customs_validation_pending'' [(''cargo-declaration-ref'', ref)] pr [] e d)
         else Inl (ErrInvalidTransition Booking))"

definition BeginCustomsValidation ::
  "'l bstore \<Rightarrow> ctx \<Rightarrow> string \<Rightarrow> Principal \<Rightarrow> env \<Rightarrow> db \<Rightarrow> BookingRow result \<times> db" where
  "BeginCustomsValidation st c bookingID pr e d = WithTx c (BeginCustomsValidation_work st bookingID pr e) d"

definition customs_validations_check :: "CustomsValidationRow \<Rightarrow> bool" where
  "customs_validations_check v \<longleftrightarrow>
     (v_Decision v = DecisionMatch \<and> v_ReasonCode v = [] \<or> v_Decision v = DecisionMismatch \<and> v_ReasonCode v \<noteq> [])
     \<and> 2 \<le> pg_length (v_ValidatedBy v) \<and> pg_length (v_ValidatedBy v) \<le> 256"

definition insert_validation :: "CustomsValidationRow \<Rightarrow> db \<Rightarrow> db result" where
  "insert_validation v d =
     (if \<not> customs_validations_check v
      then Inl (Wrapf ''persist customs validation'' (PgErr (CheckViolation ''customs_validations_check'')))
      else if list_ex (\<lambda>r. v_ValidationID r = v_ValidationID v) (customs_validations d)
      then Inl (Wrapf ''persist customs validation'' (PgErr (UniqueViolation ''customs_validations_pkey'')))
      else Inr (d\<lparr>customs_validations := customs_validations d @ [v]\<rparr>))"

definition new_validation :: "Claims \<Rightarrow> string \<Rightarrow> Evaluation \<Rightarrow> string \<Rightarrow> env \<Rightarrow> CustomsValidationRow" where
  "new_validation claims bookingID ev validatedBy e =
     \<lparr>v_ValidationID = rnd e 0, v_TenantID = TenantID claims, v_BookingID = bookingID,
      v_DeclarationRef = e_DeclarationRef ev, v_Decision = e_Decision ev, v_ReasonCode = e_ReasonCode ev,
      v_CustomsStatus = e_CustomsStatus ev, v_CustomsWeightKg = e_CustomsWeightKg ev,
      v_BookingWeightKg = e_BookingWeightKg ev, v_ConsigneeID = e_ConsigneeID ev,
      v_OperatorID = e_OperatorID ev, v_ValidatedBy = validatedBy, v_ValidatedAt = clk e 0\<rparr>"

definition RecordCustomsValidation_work ::
  "'l bstore \<Rightarrow> string \<Rightarrow> Evaluation \<Rightarrow> string \<Rightarrow> Principal \<Rightarrow> env \<Rightarrow> Claims \<Rightarrow> db \<Rightarrow> (BookingRow \<times> db) result" where
  "RecordCustomsValidation_work st bookingID ev validatedBy pr e claims d =
     bindE (getForUpdate claims d bookingID) (\<lambda>booking.
     bindE (ensure (b_Status booking = B_VALIDATION_PENDING) (ErrInvalidTransition Booking)) (\<lambda>_.
     bindE (ensure (b_CargoDeclarationRef booking = Some (e_DeclarationRef ev))
              (ErrText ''customs validation ref does not match the booking declaration'')) (\<lambda>_.
     bindE (insert_validation (new_validation claims bookingID ev validatedBy e) d) (\<lambda>d.
     transitionTx st claims booking (if e_Decision ev = DecisionMismatch then B_REJECTED else B_PAID) (\<lambda>u. u)
       ''booking.customs_validated''
       [(''cargo-declaration-ref'', e_DeclarationRef ev), (''decision'', e_Decision ev),
        (''reason-code'', e_ReasonCode ev)] pr [] (later 1 1 e) d))))"

definition RecordCustomsValidation ::
  "'l bstore \<Rightarrow> ctx \<Rightarrow> string \<Rightarrow> Evaluation \<Rightarrow> string \<Rightarrow> Principal \<Rightarrow> env \<Rightarrow> db \<Rightarrow> BookingRow result \<times> db" where
  "RecordCustomsValidation st c bookingID ev validatedBy pr e d =
     (if e_Decision ev \<noteq> DecisionMatch \<and> e_Decision ev \<noteq> DecisionMismatch
      then (Inl (ErrText ''customs validation decision must be MATCH or MISMATCH''), d)
      else if e_Decision ev = DecisionMismatch \<and> e_ReasonCode ev = []
      then (Inl (ErrText ''customs validation mismatch requires a reason code''), d)
      else if len validatedBy < 2 \<or> len validatedBy > 256
      then (Inl (ErrText ''customs validator identity is required''), d)
      else WithTx c (RecordCustomsValidation_work st bookingID ev validatedBy pr e) d)"

section \<open>The gate\<close>

definition gate_scans_check :: "GateScan \<Rightarrow> bool" where
  "gate_scans_check g \<longleftrightarrow>
     2 \<le> pg_length (g_GateID g) \<and> pg_length (g_GateID g) \<le> 64 \<and> 2 \<le> pg_length (g_ScannedBy g) \<and> pg_length (g_ScannedBy g) \<le> 256 \<and>
     (g_Decision g = ''APPROVED'' \<or> g_Decision g = ''DENIED'')"

definition insert_scan :: "string \<Rightarrow> GateScan \<Rightarrow> db \<Rightarrow> db result" where
  "insert_scan what g d =
     (if \<not> gate_scans_check g then Inl (Wrapf what (PgErr (CheckViolation ''gate_scans_check'')))
      else if list_ex (\<lambda>r. g_ScanID r = g_ScanID g) (gate_scans d)
      then Inl (Wrapf what (PgErr (UniqueViolation ''gate_scans_pkey'')))
      else Inr (d\<lparr>gate_scans := gate_scans d @ [g]\<rparr>))"

text \<open>The first failing check of the gate controller, as the reason it denies with.\<close>

definition gate_denial :: "Claims \<Rightarrow> db \<Rightarrow> BookingRow \<Rightarrow> time \<Rightarrow> string option" where
  "gate_denial claims d booking scannedAt =
     (if b_Status booking \<noteq> B_PAID then Some ''booking is not in PAID state''
      else if b_PaymentReceiptRef booking = None then Some ''payment receipt is missing''
      else if b_CargoDeclarationRef booking \<noteq> None \<and> \<not> hasCustomsMatch claims d (b_BookingID booking)
      then Some ''customs validation has not cleared this booking''
      else (case b_SlotID booking of
              None \<Rightarrow> Some ''no slot is assigned to this booking''
            | Some slotID \<Rightarrow>
               (case find_slot (TenantID claims) d slotID of
                  None \<Rightarrow> Some ''assigned slot is unavailable''
                | Some slot \<Rightarrow>
                    if scannedAt < s_StartsAt slot \<or> scannedAt > s_EndsAt slot
                    then Some ''scan is outside the booked slot window'' else None)))"

text \<open>The closure \<open>deny\<close>: it persists and emits, then returns the sentinel error.\<close>

definition deny ::
  "'l bstore \<Rightarrow> BookingRow \<Rightarrow> GateScan \<Rightarrow> string \<Rightarrow> Principal \<Rightarrow> env \<Rightarrow> Claims \<Rightarrow> db
   \<Rightarrow> ((GateScan \<times> BookingRow) \<times> db) result" where
  "deny st booking scan reason pr e claims d =
     (let scan = scan\<lparr>g_DenialReason := Some reason\<rparr> in
      bindE (insert_scan ''persist denied gate scan'' scan d) (\<lambda>d.
      bindE (emit claims TopicGate ''gate.scan_denied'' (b_RequestID booking) (b_BookingID booking) (ScanPayload scan)
               [(''gate-id'', g_GateID scan), (''reason'', reason)] pr [] (g_ScannedAt scan) (st_signer st) e d) (\<lambda>d.
      Inl ErrGateDenied)))"

definition RecordGateScan_work ::
  "'l bstore \<Rightarrow> string \<Rightarrow> string \<Rightarrow> string \<Rightarrow> time \<Rightarrow> Principal \<Rightarrow> env \<Rightarrow> Claims \<Rightarrow> db
   \<Rightarrow> ((GateScan \<times> BookingRow) \<times> db) result" where
  "RecordGateScan_work st bookingID gateID scannedBy scannedAt pr e claims d =
     bindE (getForUpdate claims d bookingID) (\<lambda>booking.
     let scan = \<lparr>g_ScanID = rnd e 0, g_TenantID = TenantID claims, g_BookingID = bookingID, g_GateID = gateID,
                 g_ScannedBy = scannedBy, g_Decision = ''DENIED'', g_DenialReason = None, g_ScannedAt = scannedAt\<rparr> in
     case gate_denial claims d booking scannedAt of
       Some reason \<Rightarrow> deny st booking scan reason pr (later 0 1 e) claims d
     | None \<Rightarrow>
         let scan = scan\<lparr>g_Decision := ''APPROVED''\<rparr> in
         bindE (insert_scan ''persist approved gate scan'' scan d) (\<lambda>d.
         bindE (transitionTx st claims booking B_GATE_APPROVED (\<lambda>u. u\<lparr>b_GateID := Some gateID\<rparr>)
                  ''booking.gate_approved'' [(''gate-id'', gateID), (''scan-id'', g_ScanID scan)] pr [] (later 0 1 e) d) (\<lambda>(result, d).
         bindE (emit claims TopicGate ''gate.scan_approved'' (b_RequestID booking) bookingID (ScanPayload scan)
                  [(''gate-id'', gateID), (''booking-id'', bookingID)] pr [] scannedAt (st_signer st) (later 1 3 e) d) (\<lambda>d.
         Inr ((scan, result), d)))))"

definition RecordGateScan ::
  "'l bstore \<Rightarrow> ctx \<Rightarrow> string \<Rightarrow> string \<Rightarrow> string \<Rightarrow> time \<Rightarrow> Principal \<Rightarrow> env \<Rightarrow> db
   \<Rightarrow> (GateScan \<times> BookingRow) result \<times> db" where
  "RecordGateScan st c bookingID gateID scannedBy scannedAt pr e d =
     (if len gateID < 2 \<or> len gateID > 64 \<or> scannedBy = [] \<or> len scannedBy > 256 then (Inl ErrGateDenied, d)
      else WithTx c (RecordGateScan_work st bookingID gateID scannedBy scannedAt pr e) d)"

section \<open>Completion, cancellation and expiry\<close>

definition Complete_work ::
  "'l bstore \<Rightarrow> string \<Rightarrow> int \<Rightarrow> string \<Rightarrow> Principal \<Rightarrow> env \<Rightarrow> Claims \<Rightarrow> db \<Rightarrow> (BookingRow \<times> db) result" where
  "Complete_work st bookingID expectedVersion ledgerCommitHash pr e claims d =
     bindE (getForUpdate claims d bookingID) (\<lambda>booking.
     bindE (ensure (b_Version booking = expectedVersion) (ErrOptimisticConflict Booking)) (\<lambda>_.
     bindE (transitionTx st claims booking B_COMPLETED (\<lambda>u. u\<lparr>b_LedgerCommitHash := Some ledgerCommitHash\<rparr>)
              ''booking.completed'' [(''ledger-commit-hash'', ledgerCommitHash)] pr ledgerCommitHash e d) (\<lambda>(result, d).
     bindE (capacityReleased st claims booking pr (later 1 2 e) d) (\<lambda>d.
     Inr (result, d)))))"

definition Complete ::
  "'l bstore \<Rightarrow> ctx \<Rightarrow> string \<Rightarrow> int \<Rightarrow> string \<Rightarrow> Principal \<Rightarrow> env \<Rightarrow> db \<Rightarrow> BookingRow result \<times> db" where
  "Complete st c bookingID expectedVersion ledgerCommitHash pr e d =
     (if ledgerCommitHash = [] then (Inl (ErrText ''ledger commit hash is required to complete a booking''), d)
      else WithTx c (Complete_work st bookingID expectedVersion ledgerCommitHash pr e) d)"

text \<open>
  The tail \<open>Cancel\<close> and \<open>ExpireDue\<close> share once the refund has answered: the
  transition with the refund hash, then the capacity release.
\<close>

definition close_mutation :: "string option \<Rightarrow> string \<Rightarrow> BookingRow \<Rightarrow> BookingRow" where
  "close_mutation reason refundHash u =
     (let u = (case reason of None \<Rightarrow> u | Some r \<Rightarrow> u\<lparr>b_ReconciliationReason := Some r\<rparr>)
      in if refundHash \<noteq> [] then u\<lparr>b_LedgerCommitHash := Some refundHash\<rparr> else u)"

definition close_booking ::
  "'l bstore \<Rightarrow> Claims \<Rightarrow> BookingRow \<Rightarrow> BStatus \<Rightarrow> string option \<Rightarrow> string \<Rightarrow> string
   \<Rightarrow> (string \<times> string) list \<Rightarrow> Principal \<Rightarrow> env \<Rightarrow> db \<Rightarrow> (BookingRow \<times> db) result" where
  "close_booking st claims booking next reason refundHash eventType extensions pr e d =
     bindE (transitionTx st claims booking next (close_mutation reason refundHash)
              eventType extensions pr refundHash e d) (\<lambda>(result, d).
     bindE (capacityReleased st claims booking pr (later 1 2 e) d) (\<lambda>d.
     Inr (result, d)))"

definition Cancel_work ::
  "'l bstore \<Rightarrow> string \<Rightarrow> int \<Rightarrow> string \<Rightarrow> Principal \<Rightarrow> env \<Rightarrow> Claims \<Rightarrow> db \<Rightarrow> 'l
   \<Rightarrow> (BookingRow \<times> db) result \<times> 'l" where
  "Cancel_work st bookingID expectedVersion reason pr e claims d w =
     (case getForUpdate claims d bookingID of
        Inl err \<Rightarrow> (Inl err, w)
      | Inr booking \<Rightarrow>
          if b_Version booking \<noteq> expectedVersion then (Inl (ErrOptimisticConflict Booking), w)
          else (case refundIfPaid st booking w of
                  (Inl err, w') \<Rightarrow> (Inl err, w')
                | (Inr refundHash, w') \<Rightarrow>
                    (close_booking st claims booking
                       (if refundHash \<noteq> [] then B_REFUNDED else B_CANCELLED) (Some reason) refundHash
                       (if refundHash \<noteq> [] then ''booking.refunded'' else ''booking.cancelled'')
                       ((''reason'', reason) #
                        (if refundHash \<noteq> []
                         then [(''refund-commit-hash'', refundHash), (''refunded-amount-kobo'', fmt_d (b_AmountKobo booking))]
                         else []))
                       pr e d, w')))"

definition Cancel ::
  "'l bstore \<Rightarrow> ctx \<Rightarrow> string \<Rightarrow> int \<Rightarrow> string \<Rightarrow> Principal \<Rightarrow> env \<Rightarrow> db \<Rightarrow> 'l \<Rightarrow> BookingRow result \<times> db \<times> 'l" where
  "Cancel st c bookingID expectedVersion reason pr e d w =
     (if reason = [] \<or> len reason > 1024 then (Inl (ErrText ''cancellation reason is required''), d, w)
      else WithTxW c (Cancel_work st bookingID expectedVersion reason pr e) d w)"

text \<open>
  \<open>SKIP LOCKED\<close> without an \<open>ORDER BY\<close> returns some of the due rows in some order:
  \<open>pick\<close>. Each iteration reads three clock values and four UUIDs at most.
\<close>

definition expirable :: "Claims \<Rightarrow> time \<Rightarrow> BookingRow \<Rightarrow> bool" where
  "expirable claims now b \<longleftrightarrow> b_TenantID b = TenantID claims \<and>
     b_Status b \<in> {B_SLOT_RESERVED, B_PAID, B_VALIDATION_PENDING} \<and> b_ExpiresAt b < now"

fun expire_loop ::
  "'l bstore \<Rightarrow> Claims \<Rightarrow> time \<Rightarrow> Principal \<Rightarrow> BookingRow list \<Rightarrow> env \<Rightarrow> int \<Rightarrow> db \<Rightarrow> 'l
   \<Rightarrow> (int \<times> db) result \<times> 'l" where
  "expire_loop st claims now pr [] e n d w = (Inr (n, d), w)"
| "expire_loop st claims now pr (booking # due) e n d w =
     (case refundIfPaid st booking w of
        (Inl err, w') \<Rightarrow> (Inl err, w')
      | (Inr refundHash, w') \<Rightarrow>
          (case close_booking st claims booking
                  (if refundHash \<noteq> [] then B_REFUNDED else B_EXPIRED) None refundHash
                  (if refundHash \<noteq> [] then ''booking.refunded'' else ''booking.expired'')
                  (if refundHash \<noteq> []
                   then [(''refund-commit-hash'', refundHash), (''refunded-amount-kobo'', fmt_d (b_AmountKobo booking)),
                         (''expired-at'', rfc3339 now)]
                   else [])
                  pr e d of
             Inl err \<Rightarrow> (Inl err, w')
           | Inr (_, d') \<Rightarrow> expire_loop st claims now pr due (later 3 4 e) (n + 1) d' w'))"

definition ExpireDue ::
  "'l bstore \<Rightarrow> (BookingRow list \<Rightarrow> BookingRow list) \<Rightarrow> ctx \<Rightarrow> time \<Rightarrow> Principal \<Rightarrow> env \<Rightarrow> db \<Rightarrow> 'l
   \<Rightarrow> int result \<times> db \<times> 'l" where
  "ExpireDue st pick c now pr e d w =
     WithTxW c (\<lambda>claims d w.
       expire_loop st claims now pr (pick (filter (expirable claims now) (truck_bookings d))) e 0 d w) d w"

end
