(* ===== verification/Queue_Store.thy ===== *)
theory Queue_Store
  imports Booking_Store "HOL-Library.Product_Lexorder"
begin

text \<open>
  \<^verbatim>\<open>src/internal/queue/store.go\<close>: every operation of the call-up queue. The row
  lock on the terminal serialises position assignment and promotion, so one
  operation sees the table as one state. Durations and instants are in
  microseconds. On an error return only the error is modelled, except for a late
  arrival, which commits and returns the promoted request with its error.
\<close>

section \<open>The store\<close>

definition DefaultGraceWindow :: int where "DefaultGraceWindow = 5400000000"
definition pendingBookingValidity :: int where "pendingBookingValidity = 43200000000"

record 'l qstore =
  qs_bookings :: "'l bstore"
  qs_signer :: "payload signer option"
  qs_graceWindow :: int

definition queue_NewStore ::
  "'l bstore option \<Rightarrow> payload signer option \<Rightarrow> int \<Rightarrow> 'l qstore result" where
  "queue_NewStore bookings signer graceWindow =
     (case bookings of
        None \<Rightarrow> Inl (ErrText ''queue store requires a booking store'')
      | Some b \<Rightarrow>
          if signer = None then Inl (ErrText ''queue store requires an envelope signer'')
          else if graceWindow < 0 then Inl (ErrText ''call-up grace window must not be negative'')
          else Inr \<lparr>qs_bookings = b, qs_signer = signer,
                    qs_graceWindow = (if graceWindow = 0 then DefaultGraceWindow else graceWindow)\<rparr>)"

definition lockTerminal :: "Claims \<Rightarrow> db \<Rightarrow> string \<Rightarrow> Terminal result" where
  "lockTerminal claims d terminalID =
     from_option (ErrNotFound Queue) (find_terminal (TenantID claims) d terminalID)"

fun class_text :: "PriorityClass \<Rightarrow> string" where
  "class_text ClassStandard = ''STANDARD''"
| "class_text ClassPerishable = ''PERISHABLE''"
| "class_text ClassPriority = ''PRIORITY''"
| "class_text (ClassOther s) = s"

section \<open>The transition\<close>

definition queue_getForUpdate :: "Claims \<Rightarrow> db \<Rightarrow> string \<Rightarrow> QueueRow result" where
  "queue_getForUpdate claims d qid = from_option (ErrNotFound Queue) (find_queue (TenantID claims) d qid)"

definition queue_Get :: "ctx \<Rightarrow> string \<Rightarrow> db \<Rightarrow> QueueRow result \<times> db" where
  "queue_Get c qid d = WithTx c (\<lambda>claims d. bindE (queue_getForUpdate claims d qid) (\<lambda>q. Inr (q, d))) d"

definition queue_target :: "Claims \<Rightarrow> QueueRow \<Rightarrow> QueueRow \<Rightarrow> bool" where
  "queue_target claims request r \<longleftrightarrow>
     q_TenantID r = TenantID claims \<and> q_QueueRequestID r = q_QueueRequestID request \<and>
     q_Status r = q_Status request \<and> q_Version r = q_Version request"

definition queue_set_columns :: "QueueRow \<Rightarrow> QueueRow \<Rightarrow> QueueRow" where
  "queue_set_columns updated r =
     r\<lparr>q_Status := q_Status updated, q_Position := q_Position updated, q_CalledUpAt := q_CalledUpAt updated,
       q_GraceDeadline := q_GraceDeadline updated, q_ArrivedAt := q_ArrivedAt updated,
       q_GateID := q_GateID updated, q_ForfeitReason := q_ForfeitReason updated,
       q_ReconciliationReason := q_ReconciliationReason updated, q_UpdatedAt := q_UpdatedAt updated,
       q_Version := q_Version updated\<rparr>"

definition queue_transitionTx ::
  "'l qstore \<Rightarrow> Claims \<Rightarrow> QueueRow \<Rightarrow> QStatus \<Rightarrow> (QueueRow \<Rightarrow> QueueRow) \<Rightarrow> string
   \<Rightarrow> (string \<times> string) list \<Rightarrow> Principal \<Rightarrow> env \<Rightarrow> db \<Rightarrow> (QueueRow \<times> db) result" where
  "queue_transitionTx qs claims request next mutate eventType extensions pr e d =
     (if \<not> queue_ValidTransition (q_Status request) next then Inl (ErrInvalidTransition Queue)
      else let updated = mutate (request\<lparr>q_Status := next, q_UpdatedAt := clk e 0,
                                         q_Version := wrap64 (q_Version request + 1)\<rparr>) in
      case find (queue_target claims request) (truck_queue_requests d) of
        None \<Rightarrow> Inl (ErrOptimisticConflict Queue)
      | Some row \<Rightarrow>
          let result = queue_set_columns updated row in
          (case queue_write_error (TenantID claims) d result of
             Some err \<Rightarrow> Inl (Wrapf ''transition queue request'' err)
           | None \<Rightarrow>
               bindE (emit claims TopicQueue eventType (q_IdempotencyKey result) (q_QueueRequestID result)
                        (QueuePayload result) extensions pr [] (q_UpdatedAt result) (qs_signer qs) e
                        (d\<lparr>truck_queue_requests := update_where (queue_target claims request)
                              (queue_set_columns updated) (truck_queue_requests d)\<rparr>))
                     (\<lambda>d'. Inr (result, d'))))"

section \<open>Creation and position assignment\<close>

definition positions :: "string \<Rightarrow> db \<Rightarrow> string \<Rightarrow> int list" where
  "positions tid d terminalID =
     List.map_filter q_Position
       (filter (\<lambda>q. q_TenantID q = tid \<and> q_TerminalID q = terminalID) (truck_queue_requests d))"

text \<open>\<open>SELECT COALESCE(MAX(position), 0) + 1\<close>; PostgreSQL refuses a result beyond 64 bits.\<close>

definition assign_position :: "string \<Rightarrow> db \<Rightarrow> string \<Rightarrow> int result" where
  "assign_position tid d terminalID =
     (let ps = positions tid d terminalID; p = (if ps = [] then 0 else Max (set ps)) + 1
      in if p > max_int64 then Inl (Wrapf ''assign queue position'' (ErrText ''bigint out of range'')) else Inr p)"

definition new_queue_request :: "Claims \<Rightarrow> QCreateRequest \<Rightarrow> string \<Rightarrow> env \<Rightarrow> QueueRow" where
  "new_queue_request claims r bookingID e =
     \<lparr>q_QueueRequestID = rnd e 0, q_TenantID = TenantID claims, q_IdempotencyKey = qc_IdempotencyKey r,
      q_BookingID = Some bookingID, q_TruckPlate = qc_TruckPlate r, q_TruckerMSISDN = qc_TruckerMSISDN r,
      q_TerminalID = qc_TerminalID r, q_PriorityClass = qc_PriorityClass r, q_Status = Q_REQUESTED,
      q_Position = None, q_CalledUpAt = None, q_GraceDeadline = None, q_ArrivedAt = None, q_GateID = None,
      q_ForfeitReason = None, q_ReconciliationReason = None, q_CreatedAt = clk e 0, q_UpdatedAt = clk e 0,
      q_Version = 1\<rparr>"

definition find_key :: "string \<Rightarrow> db \<Rightarrow> string \<Rightarrow> QueueRow option" where
  "find_key tid d key =
     find (\<lambda>q. q_TenantID q = tid \<and> q_IdempotencyKey q = key) (truck_queue_requests d)"

text \<open>The pending-booking leg: the referenced booking, or a new one priced at the terminal fee.\<close>

definition pending_booking ::
  "'l qstore \<Rightarrow> QCreateRequest \<Rightarrow> Channel \<Rightarrow> Principal \<Rightarrow> Terminal \<Rightarrow> env \<Rightarrow> Claims \<Rightarrow> db \<Rightarrow> (string \<times> db) result" where
  "pending_booking qs r channel pr t e claims d =
     (if qc_BookingID r = []
      then (case createTx (qs_bookings qs)
                  \<lparr>cr_RequestID = qc_IdempotencyKey r, cr_TruckPlate = qc_TruckPlate r,
                   cr_TruckerMSISDN = qc_TruckerMSISDN r, cr_TerminalID = qc_TerminalID r,
                   cr_Channel = channel, cr_AmountKobo = t_BookingFeeKobo t,
                   cr_ExpiresAt = clk e 0 + pendingBookingValidity, cr_CargoDeclarationRef = [],
                   cr_DeclaredWeightKg = 0, cr_ConsigneeID = [], cr_OperatorID = [], cr_ContainerID = []\<rparr>
                  pr (later 1 0 e) claims d of
              Inl err \<Rightarrow> Inl (Wrapf ''create pending booking'' err)
            | Inr (pending, d') \<Rightarrow> Inr (b_BookingID pending, d'))
      else if find_booking (TenantID claims) d (qc_BookingID r) = None then Inl (ErrNotFound Queue)
      else Inr (qc_BookingID r, d))"

definition queue_createTx ::
  "'l qstore \<Rightarrow> QCreateRequest \<Rightarrow> Channel \<Rightarrow> Principal \<Rightarrow> env \<Rightarrow> Claims \<Rightarrow> db \<Rightarrow> (QueueRow \<times> db) result" where
  "queue_createTx qs r channel pr e claims d =
     bindE (lockTerminal claims d (qc_TerminalID r)) (\<lambda>t.
     bindE (ensure (t_Active t) (ErrText ''terminal is not active'')) (\<lambda>_.
     bindE (pending_booking qs r channel pr t e claims d) (\<lambda>(bookingID, d).
     let inserted = new_queue_request claims r bookingID (later 2 3 e) in
     case queue_write_error (TenantID claims) d inserted of
       Some err \<Rightarrow> Inl (Wrapf ''insert queue request'' err)
     | None \<Rightarrow>
        (case find_key (TenantID claims) d (qc_IdempotencyKey r) of
           Some existing \<Rightarrow>
             if q_TruckPlate existing \<noteq> qc_TruckPlate r \<or> q_TruckerMSISDN existing \<noteq> qc_TruckerMSISDN r \<or>
                q_TerminalID existing \<noteq> qc_TerminalID r \<or> q_PriorityClass existing \<noteq> qc_PriorityClass r
             then Inl (ErrIdempotencyConflict Queue) else Inr (existing, d)
         | None \<Rightarrow>
             if list_ex (\<lambda>q. q_QueueRequestID q = q_QueueRequestID inserted) (truck_queue_requests d)
             then Inl (Wrapf ''insert queue request'' (PgErr (UniqueViolation ''truck_queue_requests_pkey'')))
             else
               bindE (emit claims TopicQueue ''queue.requested'' (q_IdempotencyKey inserted)
                        (q_QueueRequestID inserted) (QueuePayload inserted)
                        [(''terminal-id'', q_TerminalID inserted),
                         (''priority-class'', class_text (q_PriorityClass inserted))]
                        pr [] (q_CreatedAt inserted) (qs_signer qs) (later 3 4 e)
                        (d\<lparr>truck_queue_requests := truck_queue_requests d @ [inserted]\<rparr>)) (\<lambda>d.
               bindE (assign_position (TenantID claims) d (qc_TerminalID r)) (\<lambda>position.
               queue_transitionTx qs claims inserted Q_QUEUED (\<lambda>u. u\<lparr>q_Position := Some position\<rparr>)
                 ''queue.position_assigned''
                 [(''terminal-id'', q_TerminalID inserted), (''position'', fmt_d position)] pr (later 3 6 e) d))))))"

definition queue_Create ::
  "'l qstore \<Rightarrow> ctx \<Rightarrow> QCreateRequest \<Rightarrow> Channel \<Rightarrow> Principal \<Rightarrow> env \<Rightarrow> db \<Rightarrow> QueueRow result \<times> db" where
  "queue_Create qs c r channel pr e d =
     (case queue_Validate r of Some err \<Rightarrow> (Inl err, d)
      | None \<Rightarrow>
          if channel \<noteq> ChannelWeb \<and> channel \<noteq> ChannelUSSD
          then (Inl (ErrText ''queue channel must be WEB or USSD''), d)
          else if pr_ID pr = [] \<or> pr_Role pr = [] then (Inl (ErrText ''queue principal is required''), d)
          else WithTx c (queue_createTx qs r channel pr e) d)"

section \<open>Promotion\<close>

text \<open>\<open>ORDER BY\<close> priority class, then position (PostgreSQL puts NULL last).\<close>

definition queue_key :: "QueueRow \<Rightarrow> int \<times> int \<times> int" where
  "queue_key q = (rank_class (q_PriorityClass q), case q_Position q of None \<Rightarrow> (1, 0) | Some p \<Rightarrow> (0, p))"

definition queued_at :: "string \<Rightarrow> string \<Rightarrow> QueueRow \<Rightarrow> bool" where
  "queued_at tid terminalID q \<longleftrightarrow> q_TenantID q = tid \<and> q_TerminalID q = terminalID \<and> q_Status q = Q_QUEUED"

definition head_of_queue :: "string \<Rightarrow> db \<Rightarrow> string \<Rightarrow> QueueRow option" where
  "head_of_queue tid d terminalID =
     (case sort_key queue_key (filter (queued_at tid terminalID) (truck_queue_requests d)) of
        [] \<Rightarrow> None | q # _ \<Rightarrow> Some q)"

definition active_callups :: "string \<Rightarrow> db \<Rightarrow> string \<Rightarrow> int" where
  "active_callups tid d terminalID =
     count_rows (\<lambda>q. q_TenantID q = tid \<and> in_callup terminalID q) (truck_queue_requests d)"

definition promoteNextTx ::
  "'l qstore \<Rightarrow> Claims \<Rightarrow> string \<Rightarrow> Principal \<Rightarrow> time \<Rightarrow> env \<Rightarrow> db \<Rightarrow> (QueueRow option \<times> db) result" where
  "promoteNextTx qs claims terminalID pr now e d =
     bindE (or_fail (queue_validateTerminalID terminalID)) (\<lambda>_.
     bindE (lockTerminal claims d terminalID) (\<lambda>t.
     if active_callups (TenantID claims) d terminalID \<ge> t_QueueCapacity t then Inr (None, d)
     else case head_of_queue (TenantID claims) d terminalID of
            None \<Rightarrow> Inr (None, d)
          | Some head \<Rightarrow>
              let deadline = now + qs_graceWindow qs in
              bindE (queue_transitionTx qs claims head Q_CALLED_UP
                       (\<lambda>u. u\<lparr>q_CalledUpAt := Some now, q_GraceDeadline := Some deadline\<rparr>)
                       ''queue.called_up''
                       [(''terminal-id'', terminalID), (''grace-deadline'', rfc3339 deadline)] pr e d)
                    (\<lambda>(promoted, d'). Inr (Some promoted, d'))))"

definition ConfigureTerminal_work :: "string \<Rightarrow> int \<Rightarrow> Claims \<Rightarrow> db \<Rightarrow> (unit \<times> db) result" where
  "ConfigureTerminal_work terminalID queueCapacity claims d =
     (if queueCapacity > 2147483647
      then Inl (Wrapf ''configure terminal queue capacity'' (ErrText ''value out of range for int4''))
      else if find_terminal (TenantID claims) d terminalID = None then Inl (ErrNotFound Queue)
      else Inr ((), d\<lparr>port_terminals :=
             update_where (\<lambda>t. t_TenantID t = TenantID claims \<and> t_TerminalID t = terminalID)
               (\<lambda>t. t\<lparr>t_QueueCapacity := queueCapacity\<rparr>) (port_terminals d)\<rparr>))"

definition ConfigureTerminal :: "ctx \<Rightarrow> string \<Rightarrow> int \<Rightarrow> db \<Rightarrow> unit result \<times> db" where
  "ConfigureTerminal c terminalID queueCapacity d =
     (case queue_validateTerminalID terminalID of Some err \<Rightarrow> (Inl err, d)
      | None \<Rightarrow>
          if queueCapacity < 1 then (Inl (ErrText ''queue capacity must be at least 1''), d)
          else WithTx c (ConfigureTerminal_work terminalID queueCapacity) d)"

definition PromoteNext ::
  "'l qstore \<Rightarrow> ctx \<Rightarrow> string \<Rightarrow> Principal \<Rightarrow> env \<Rightarrow> db \<Rightarrow> QueueRow option result \<times> db" where
  "PromoteNext qs c terminalID pr e d =
     WithTx c (\<lambda>claims d. promoteNextTx qs claims terminalID pr (clk e 0) (later 1 0 e) d) d"

definition CapacityReleased :: "'l qstore \<Rightarrow> listener" where
  "CapacityReleased qs claims terminalID pr e d =
     bindE (promoteNextTx qs claims terminalID pr (clk e 0) (later 1 0 e) d) (\<lambda>(_, d'). Inr d')"

section \<open>Arrival, departure and forfeiture\<close>

text \<open>The closure answers the arrived request, or \<open>None\<close> for a late arrival, and the promoted one.\<close>

definition Arrive_work ::
  "'l qstore \<Rightarrow> string \<Rightarrow> string \<Rightarrow> int \<Rightarrow> Principal \<Rightarrow> env \<Rightarrow> Claims \<Rightarrow> db
   \<Rightarrow> ((QueueRow option \<times> QueueRow option) \<times> db) result" where
  "Arrive_work qs qid gateID expectedVersion pr e claims d =
     bindE (queue_getForUpdate claims d qid) (\<lambda>request.
     bindE (ensure (q_Version request = expectedVersion) (ErrOptimisticConflict Queue)) (\<lambda>_.
     bindE (ensure (q_Status request = Q_CALLED_UP \<or> q_Status request = Q_EN_ROUTE)
              (ErrInvalidTransition Queue)) (\<lambda>_.
     let now = clk e 0 in
     if (case q_GraceDeadline request of None \<Rightarrow> False | Some deadline \<Rightarrow> now > deadline)
     then let reason = ''arrived after the call-up grace window'' in
          bindE (queue_transitionTx qs claims request Q_FORFEITED (\<lambda>u. u\<lparr>q_ForfeitReason := Some reason\<rparr>)
                   ''queue.forfeited'' [(''terminal-id'', q_TerminalID request), (''reason'', reason)] pr (later 1 0 e) d) (\<lambda>(_, d).
          bindE (promoteNextTx qs claims (q_TerminalID request) pr now (later 2 2 e) d) (\<lambda>(promoted, d).
          Inr ((None, promoted), d)))
     else bindE (queue_transitionTx qs claims request Q_ARRIVED
                   (\<lambda>u. u\<lparr>q_ArrivedAt := Some now, q_GateID := Some gateID\<rparr>)
                   ''queue.arrived'' [(''terminal-id'', q_TerminalID request), (''gate-id'', gateID)] pr (later 1 0 e) d) (\<lambda>(result, d).
          bindE (promoteNextTx qs claims (q_TerminalID request) pr now (later 2 2 e) d) (\<lambda>(promoted, d).
          Inr ((Some result, promoted), d))))))"

definition Arrive ::
  "'l qstore \<Rightarrow> ctx \<Rightarrow> string \<Rightarrow> string \<Rightarrow> int \<Rightarrow> Principal \<Rightarrow> env \<Rightarrow> db
   \<Rightarrow> ((go_error \<times> QueueRow option) + (QueueRow \<times> QueueRow option)) \<times> db" where
  "Arrive qs c qid gateID expectedVersion pr e d =
     (if len gateID < 2 \<or> len gateID > 64
      then (Inl (ErrText ''gate_id must be between 2 and 64 characters'', None), d)
      else case WithTx c (Arrive_work qs qid gateID expectedVersion pr e) d of
             (Inl err, d') \<Rightarrow> (Inl (err, None), d')
           | (Inr (None, promoted), d') \<Rightarrow> (Inl (ErrGraceWindow, promoted), d')
           | (Inr (Some arrived, promoted), d') \<Rightarrow> (Inr (arrived, promoted), d'))"

definition Depart_work ::
  "'l qstore \<Rightarrow> string \<Rightarrow> int \<Rightarrow> Principal \<Rightarrow> env \<Rightarrow> Claims \<Rightarrow> db \<Rightarrow> (QueueRow \<times> db) result" where
  "Depart_work qs qid expectedVersion pr e claims d =
     bindE (queue_getForUpdate claims d qid) (\<lambda>request.
     bindE (ensure (q_Version request = expectedVersion) (ErrOptimisticConflict Queue)) (\<lambda>_.
     queue_transitionTx qs claims request Q_EN_ROUTE (\<lambda>u. u) ''queue.en_route''
       [(''terminal-id'', q_TerminalID request)] pr e d))"

definition Depart ::
  "'l qstore \<Rightarrow> ctx \<Rightarrow> string \<Rightarrow> int \<Rightarrow> Principal \<Rightarrow> env \<Rightarrow> db \<Rightarrow> QueueRow result \<times> db" where
  "Depart qs c qid expectedVersion pr e d = WithTx c (Depart_work qs qid expectedVersion pr e) d"

definition forfeitTx ::
  "'l qstore \<Rightarrow> Claims \<Rightarrow> QueueRow \<Rightarrow> string \<Rightarrow> Principal \<Rightarrow> time \<Rightarrow> env \<Rightarrow> db
   \<Rightarrow> ((QueueRow \<times> QueueRow option) \<times> db) result" where
  "forfeitTx qs claims request reason pr now e d =
     bindE (queue_transitionTx qs claims request Q_FORFEITED (\<lambda>u. u\<lparr>q_ForfeitReason := Some reason\<rparr>)
              ''queue.forfeited'' [(''terminal-id'', q_TerminalID request), (''reason'', reason)] pr e d) (\<lambda>(result, d).
     bindE (promoteNextTx qs claims (q_TerminalID request) pr now (later 1 2 e) d) (\<lambda>(promoted, d).
     Inr ((result, promoted), d)))"

definition Forfeit ::
  "'l qstore \<Rightarrow> ctx \<Rightarrow> string \<Rightarrow> string \<Rightarrow> Principal \<Rightarrow> env \<Rightarrow> db \<Rightarrow> (QueueRow \<times> QueueRow option) result \<times> db" where
  "Forfeit qs c qid reason pr e d =
     (if reason = [] \<or> len reason > 1024 then (Inl (ErrText ''forfeiture reason is required''), d)
      else WithTx c (\<lambda>claims d.
             bindE (queue_getForUpdate claims d qid) (\<lambda>request.
             forfeitTx qs claims request reason pr (clk e 0) (later 1 0 e) d)) d)"

section \<open>Sweeps\<close>

definition forfeitable :: "Claims \<Rightarrow> time \<Rightarrow> QueueRow \<Rightarrow> bool" where
  "forfeitable claims now q \<longleftrightarrow> q_TenantID q = TenantID claims \<and> called_up (q_Status q) \<and>
     (case q_GraceDeadline q of None \<Rightarrow> False | Some deadline \<Rightarrow> deadline < now)"

fun forfeit_loop ::
  "'l qstore \<Rightarrow> Claims \<Rightarrow> time \<Rightarrow> Principal \<Rightarrow> QueueRow list \<Rightarrow> env \<Rightarrow> db \<Rightarrow> (QueueRow list \<times> db) result" where
  "forfeit_loop qs claims now pr [] e d = Inr ([], d)"
| "forfeit_loop qs claims now pr (request # due) e d =
     bindE (forfeitTx qs claims request ''call-up grace window elapsed'' pr now e d) (\<lambda>((_, promoted), d).
     bindE (forfeit_loop qs claims now pr due (later 2 4 e) d) (\<lambda>(promotedAll, d).
     Inr ((case promoted of None \<Rightarrow> promotedAll | Some q \<Rightarrow> q # promotedAll), d)))"

definition ForfeitExpired ::
  "'l qstore \<Rightarrow> (QueueRow list \<Rightarrow> QueueRow list) \<Rightarrow> ctx \<Rightarrow> time \<Rightarrow> Principal \<Rightarrow> env \<Rightarrow> db
   \<Rightarrow> (int \<times> QueueRow list) result \<times> db" where
  "ForfeitExpired qs pick c now pr e d =
     WithTx c (\<lambda>claims d.
       let due = pick (filter (forfeitable claims now) (truck_queue_requests d)) in
       bindE (forfeit_loop qs claims now pr due e d) (\<lambda>(promotedAll, d).
       Inr ((len due, promotedAll), d))) d"

definition stale :: "Claims \<Rightarrow> time \<Rightarrow> QueueRow \<Rightarrow> bool" where
  "stale claims createdBefore q \<longleftrightarrow>
     q_TenantID q = TenantID claims \<and> q_Status q = Q_QUEUED \<and> q_CreatedAt q < createdBefore"

fun stale_loop ::
  "'l qstore \<Rightarrow> Claims \<Rightarrow> Principal \<Rightarrow> QueueRow list \<Rightarrow> env \<Rightarrow> db \<Rightarrow> db result" where
  "stale_loop qs claims pr [] e d = Inr d"
| "stale_loop qs claims pr (request # due) e d =
     bindE (queue_transitionTx qs claims request Q_EXPIRED (\<lambda>u. u) ''queue.expired''
              [(''terminal-id'', q_TerminalID request)] pr e d) (\<lambda>(_, d).
     stale_loop qs claims pr due (later 1 2 e) d)"

definition ExpireStale ::
  "'l qstore \<Rightarrow> (QueueRow list \<Rightarrow> QueueRow list) \<Rightarrow> ctx \<Rightarrow> time \<Rightarrow> Principal \<Rightarrow> env \<Rightarrow> db \<Rightarrow> int result \<times> db" where
  "ExpireStale qs pick c createdBefore pr e d =
     WithTx c (\<lambda>claims d.
       let due = pick (filter (stale claims createdBefore) (truck_queue_requests d)) in
       bindE (stale_loop qs claims pr due e d) (\<lambda>d. Inr (len due, d))) d"

section \<open>Cancellation and reconciliation\<close>

text \<open>The tail of \<open>Cancel\<close> and \<open>FlagReconciliation\<close>: a released call-up promotes the next.\<close>

definition promote_if :: "bool \<Rightarrow> 'l qstore \<Rightarrow> Claims \<Rightarrow> string \<Rightarrow> Principal \<Rightarrow> env \<Rightarrow> db \<Rightarrow> (QueueRow option \<times> db) result" where
  "promote_if wasCalledUp qs claims terminalID pr e d =
     (if wasCalledUp then promoteNextTx qs claims terminalID pr (clk e 0) (later 1 0 e) d else Inr (None, d))"

definition queue_Cancel_work ::
  "'l qstore \<Rightarrow> string \<Rightarrow> int \<Rightarrow> string \<Rightarrow> Principal \<Rightarrow> env \<Rightarrow> Claims \<Rightarrow> db
   \<Rightarrow> ((QueueRow \<times> QueueRow option) \<times> db) result" where
  "queue_Cancel_work qs qid expectedVersion reason pr e claims d =
     bindE (queue_getForUpdate claims d qid) (\<lambda>request.
     bindE (ensure (q_Version request = expectedVersion) (ErrOptimisticConflict Queue)) (\<lambda>_.
     bindE (queue_transitionTx qs claims request Q_CANCELLED (\<lambda>u. u\<lparr>q_ReconciliationReason := Some reason\<rparr>)
              ''queue.cancelled'' [(''reason'', reason)] pr e d) (\<lambda>(result, d).
     bindE (promote_if (called_up (q_Status request)) qs claims (q_TerminalID request) pr (later 1 2 e) d) (\<lambda>(promoted, d).
     Inr ((result, promoted), d)))))"

definition queue_Cancel ::
  "'l qstore \<Rightarrow> ctx \<Rightarrow> string \<Rightarrow> int \<Rightarrow> string \<Rightarrow> Principal \<Rightarrow> env \<Rightarrow> db
   \<Rightarrow> (QueueRow \<times> QueueRow option) result \<times> db" where
  "queue_Cancel qs c qid expectedVersion reason pr e d =
     (if reason = [] \<or> len reason > 1024 then (Inl (ErrText ''cancellation reason is required''), d)
      else WithTx c (queue_Cancel_work qs qid expectedVersion reason pr e) d)"

definition FlagReconciliation_work ::
  "'l qstore \<Rightarrow> string \<Rightarrow> int \<Rightarrow> string \<Rightarrow> Principal \<Rightarrow> env \<Rightarrow> Claims \<Rightarrow> db \<Rightarrow> (QueueRow \<times> db) result" where
  "FlagReconciliation_work qs qid expectedVersion reason pr e claims d =
     bindE (queue_getForUpdate claims d qid) (\<lambda>request.
     bindE (ensure (q_Version request = expectedVersion) (ErrOptimisticConflict Queue)) (\<lambda>_.
     bindE (queue_transitionTx qs claims request Q_RECONCILIATION_REQUIRED
              (\<lambda>u. u\<lparr>q_ReconciliationReason := Some reason\<rparr>)
              ''queue.reconciliation_required'' [(''reason'', reason)] pr e d) (\<lambda>(result, d).
     bindE (promote_if (called_up (q_Status request)) qs claims (q_TerminalID request) pr (later 1 2 e) d) (\<lambda>(_, d).
     Inr (result, d)))))"

definition FlagReconciliation ::
  "'l qstore \<Rightarrow> ctx \<Rightarrow> string \<Rightarrow> int \<Rightarrow> string \<Rightarrow> Principal \<Rightarrow> env \<Rightarrow> db \<Rightarrow> QueueRow result \<times> db" where
  "FlagReconciliation qs c qid expectedVersion reason pr e d =
     (if reason = [] \<or> len reason > 1024 then (Inl (ErrText ''reconciliation reason is required''), d)
      else WithTx c (FlagReconciliation_work qs qid expectedVersion reason pr e) d)"

definition Requeue_work ::
  "'l qstore \<Rightarrow> string \<Rightarrow> int \<Rightarrow> Principal \<Rightarrow> env \<Rightarrow> Claims \<Rightarrow> db \<Rightarrow> (QueueRow \<times> db) result" where
  "Requeue_work qs qid expectedVersion pr e claims d =
     bindE (queue_getForUpdate claims d qid) (\<lambda>request.
     bindE (ensure (q_Version request = expectedVersion) (ErrOptimisticConflict Queue)) (\<lambda>_.
     bindE (ensure (q_Status request = Q_RECONCILIATION_REQUIRED) (ErrInvalidTransition Queue)) (\<lambda>_.
     bindE (lockTerminal claims d (q_TerminalID request)) (\<lambda>_.
     bindE (assign_position (TenantID claims) d (q_TerminalID request)) (\<lambda>position.
     queue_transitionTx qs claims request Q_QUEUED
       (\<lambda>u. u\<lparr>q_Position := Some position, q_ReconciliationReason := None, q_CalledUpAt := None,
               q_GraceDeadline := None\<rparr>)
       ''queue.position_assigned''
       [(''terminal-id'', q_TerminalID request), (''position'', fmt_d position), (''requeue'', ''true'')] pr e d)))))"

definition Requeue ::
  "'l qstore \<Rightarrow> ctx \<Rightarrow> string \<Rightarrow> int \<Rightarrow> Principal \<Rightarrow> env \<Rightarrow> db \<Rightarrow> QueueRow result \<times> db" where
  "Requeue qs c qid expectedVersion pr e d = WithTx c (Requeue_work qs qid expectedVersion pr e) d"

section \<open>Views\<close>

definition ListTerminal :: "ctx \<Rightarrow> string \<Rightarrow> db \<Rightarrow> QueueRow list result \<times> db" where
  "ListTerminal c terminalID d =
     (case queue_validateTerminalID terminalID of Some err \<Rightarrow> (Inl err, d)
      | None \<Rightarrow> WithTx c (\<lambda>claims d.
          Inr (sort_key queue_key (filter (\<lambda>q. q_TenantID q = TenantID claims \<and> q_TerminalID q = terminalID
                 \<and> q_Status q \<in> {Q_QUEUED, Q_CALLED_UP, Q_EN_ROUTE}) (truck_queue_requests d)), d)) d)"

text \<open>Ordered by terminal and deadline; a call-up always carries a deadline, so NULLs do not arise.\<close>

definition ListActiveCallUps :: "ctx \<Rightarrow> db \<Rightarrow> QueueRow list result \<times> db" where
  "ListActiveCallUps c d =
     WithTx c (\<lambda>claims d.
       Inr (sort_key (\<lambda>q. (q_TerminalID q, case q_GraceDeadline q of None \<Rightarrow> (1::int, 0) | Some g \<Rightarrow> (0, g)))
              (filter (\<lambda>q. q_TenantID q = TenantID claims \<and> called_up (q_Status q)) (truck_queue_requests d)), d)) d"

section \<open>The reconciliation sweep\<close>

lemma queue_transitionTx_InrE:
  assumes "queue_transitionTx qs claims request next mutate ty ext pr e d = Inr (result, d')"
  obtains row o1 where "queue_ValidTransition (q_Status request) next"
    and "find (queue_target claims request) (truck_queue_requests d) = Some row"
    and "result = queue_set_columns (mutate (request\<lparr>q_Status := next, q_UpdatedAt := clk e 0,
           q_Version := wrap64 (q_Version request + 1)\<rparr>)) row"
    and "queue_write_error (TenantID claims) d result = None"
    and "d' = d\<lparr>truck_queue_requests := update_where (queue_target claims request)
           (queue_set_columns (mutate (request\<lparr>q_Status := next, q_UpdatedAt := clk e 0,
             q_Version := wrap64 (q_Version request + 1)\<rparr>))) (truck_queue_requests d),
           platform_outbox := platform_outbox d @ [o1]\<rparr>"
    and "o_TenantID o1 = TenantID claims" "o_Topic o1 = TopicQueue" "o_EventType o1 = ty"
proof -
  from assms obtain row where f: "find (queue_target claims request) (truck_queue_requests d) = Some row"
    by (auto simp: queue_transitionTx_def Let_def split: if_splits option.splits)
  show thesis
    using assms f
    by (auto simp: queue_transitionTx_def Let_def bindE_Inr_iff split: if_splits option.splits
        dest!: emit_frame intro!: that)
qed

lemma head_of_queue_SomeD:
  assumes "head_of_queue tid d t = Some q"
  shows "q \<in> set (truck_queue_requests d) \<and> queued_at tid t q \<and>
    (\<forall>r\<in>set (truck_queue_requests d). queued_at tid t r \<longrightarrow> queue_key q \<le> queue_key r)"
proof -
  let ?xs = "filter (queued_at tid t) (truck_queue_requests d)"
  from assms obtain qs where s: "sort_key queue_key ?xs = q # qs"
    by (auto simp: head_of_queue_def split: list.splits)
  then have "set (q # qs) = set ?xs" by (metis set_sort)
  moreover have "sorted (map queue_key (q # qs))" by (metis s sorted_sort_key)
  ultimately show ?thesis by auto
qed

lemma head_of_queue_NoneD:
  "head_of_queue tid d t = None \<Longrightarrow> q \<in> set (truck_queue_requests d) \<Longrightarrow> \<not> queued_at tid t q"
  by (auto simp: head_of_queue_def split: list.splits) (metis (no_types) filter_empty_conv length_0_conv length_sort list.size(3))

text \<open>Each promotion takes one row out of QUEUED, so the fill loop ends.\<close>

lemma promote_decreases:
  assumes "promoteNextTx qs claims t pr now e d = Inr (Some q, d')"
  shows "count_rows (\<lambda>q. q_Status q = Q_QUEUED) (truck_queue_requests d')
       < count_rows (\<lambda>q. q_Status q = Q_QUEUED) (truck_queue_requests d)"
proof -
  from assms obtain head where h: "head_of_queue (TenantID claims) d t = Some head"
    and tr: "queue_transitionTx qs claims head Q_CALLED_UP
       (\<lambda>u. u\<lparr>q_CalledUpAt := Some now, q_GraceDeadline := Some (now + qs_graceWindow qs)\<rparr>)
       ''queue.called_up'' [(''terminal-id'', t), (''grace-deadline'', rfc3339 (now + qs_graceWindow qs))] pr e d = Inr (q, d')"
    by (auto simp: promoteNextTx_def bindE_Inr_iff Let_def split: if_splits option.splits)
  have "q_Status head = Q_QUEUED" using head_of_queue_SomeD [OF h] by (auto simp: queued_at_def)
  with tr show ?thesis
    by (elim queue_transitionTx_InrE)
       (auto intro!: count_update_where_less dest!: find_SomeD simp: queue_target_def queue_set_columns_def)
qed

function promote_all ::
  "'l qstore \<Rightarrow> Claims \<Rightarrow> string \<Rightarrow> Principal \<Rightarrow> time \<Rightarrow> env \<Rightarrow> db \<Rightarrow> (QueueRow list \<times> db) result" where
  "promote_all qs claims terminalID pr now e d =
     (case promoteNextTx qs claims terminalID pr now e d of
        Inl err \<Rightarrow> Inl err
      | Inr (None, d') \<Rightarrow> Inr ([], d')
      | Inr (Some promoted, d') \<Rightarrow>
          bindE (promote_all qs claims terminalID pr now (later 1 2 e) d') (\<lambda>(promotedAll, d'').
          Inr (promoted # promotedAll, d'')))"
  by pat_completeness auto
termination
  by (relation "measure (\<lambda>(qs, claims, t, pr, now, e, d).
        nat (count_rows (\<lambda>q. q_Status q = Q_QUEUED) (truck_queue_requests d)))")
     (auto dest!: promote_decreases simp: nat_mono_iff intro: le_less_trans [OF count_rows_nonneg])

declare promote_all.simps [simp del]

fun fill_loop ::
  "'l qstore \<Rightarrow> Claims \<Rightarrow> Principal \<Rightarrow> time \<Rightarrow> string list \<Rightarrow> env \<Rightarrow> db \<Rightarrow> (QueueRow list \<times> db) result" where
  "fill_loop qs claims pr now [] e d = Inr ([], d)"
| "fill_loop qs claims pr now (terminalID # terminalIDs) e d =
     bindE (promote_all qs claims terminalID pr now e d) (\<lambda>(ps, d).
     bindE (fill_loop qs claims pr now terminalIDs (later (length ps) (2 * length ps) e) d) (\<lambda>(qs', d).
     Inr (ps @ qs', d)))"

text \<open>\<open>pick\<close> and \<open>order\<close> are the row orders PostgreSQL chooses for the two unordered selects.\<close>

definition ReconcileCallUps ::
  "'l qstore \<Rightarrow> (QueueRow list \<Rightarrow> QueueRow list) \<Rightarrow> (string list \<Rightarrow> string list) \<Rightarrow> ctx \<Rightarrow> Principal \<Rightarrow> env \<Rightarrow> db
   \<Rightarrow> QueueRow list result \<times> db" where
  "ReconcileCallUps qs pick order c pr e d =
     WithTx c (\<lambda>claims d.
       let now = clk e 0; due = pick (filter (forfeitable claims now) (truck_queue_requests d)); e = later 1 0 e in
       bindE (forfeit_loop qs claims now pr due e d) (\<lambda>(forfeited, d).
       let terminalIDs = order (remdups (map q_TerminalID (filter (\<lambda>q. q_TenantID q = TenantID claims
                           \<and> q_Status q = Q_QUEUED) (truck_queue_requests d)))) in
       bindE (fill_loop qs claims pr now terminalIDs (later (2 * length due) (4 * length due) e) d) (\<lambda>(filled, d).
       Inr (forfeited @ filled, d)))) d"

end
