(* ===== verification/Writes.thy ===== *)
theory Writes
  imports Queue_Store Versioned
begin

text \<open>
  The abstract database the stores promise: a small set of atomic writes
  (\<open>db_write\<close>), each with the conditions under which the code may perform it, and
  the invariants every sequence of such writes keeps. The theories
  \<open>Booking_Correct\<close> and \<open>Queue_Correct\<close> show that each operation of the stores is
  such a sequence, so that an invariant is proved once per write and not once per
  operation.
\<close>

section \<open>Replacing a row\<close>

definition replace_row :: "('r \<Rightarrow> string) \<Rightarrow> 'r \<Rightarrow> 'r list \<Rightarrow> 'r list" where
  "replace_row key new T = update_where (\<lambda>r. key r = key new) (\<lambda>_. new) T"

lemma replace_row_keys: "map key (replace_row key new T) = map key T"
  by (simp add: replace_row_def update_where_def)

lemma set_replace_row:
  "distinct (map key T) \<Longrightarrow> b \<in> set T \<Longrightarrow> key new = key b \<Longrightarrow>
   set (replace_row key new T) = insert new (set T - {b})"
  by (auto simp: replace_row_def update_where_def dest: distinct_key_eq)

lemma update_where_replace:
  assumes "distinct (map key T)" and "b \<in> set T" and "P b"
    and "\<And>r. P r \<Longrightarrow> key r = key b" and "key (f b) = key b"
  shows "update_where P f T = replace_row key (f b) T"
proof -
  have "\<And>r. r \<in> set T \<Longrightarrow> P r \<longleftrightarrow> r = b" and "\<And>r. r \<in> set T \<Longrightarrow> key r = key b \<longleftrightarrow> r = b"
    using assms by (metis distinct_key_eq)+
  with assms(5) show ?thesis
    by (auto simp: replace_row_def update_where_def)
qed

lemma count_replace_row:
  assumes "distinct (map key T)" and "b \<in> set T" and "key new = key b"
  shows "count_rows Q (replace_row key new T)
       = count_rows (\<lambda>x. Q x \<and> key x \<noteq> key b) T + (if Q new then 1 else 0)"
proof -
  have "\<And>x. x \<in> set T \<Longrightarrow> key x = key b \<longleftrightarrow> x = b" using assms by (metis distinct_key_eq)
  from count_update_unique [OF assms(1,2) this, of Q "\<lambda>_. new"]
  show ?thesis by (simp add: replace_row_def assms(3))
qed

section \<open>What a booking update may do\<close>

definition has_slot :: "db \<Rightarrow> BookingRow \<Rightarrow> bool" where
  "has_slot d b \<longleftrightarrow> (\<exists>s\<in>set (terminal_slots d). b_SlotID b = Some (s_SlotID s)
     \<and> s_TenantID s = b_TenantID b \<and> s_TerminalID s = b_TerminalID b)"

definition has_receipt :: "db \<Rightarrow> BookingRow \<Rightarrow> bool" where
  "has_receipt d b \<longleftrightarrow> (\<exists>i\<in>set (booking_payment_intents d). b_PaymentReceiptRef b = Some (i_MojaloopTxRef i)
     \<and> i_TenantID i = b_TenantID b \<and> i_BookingID i = b_BookingID b \<and> i_Status i = ''COMPLETED'')"

text \<open>An approved scan inside the window of the booked slot, and a customs match where one is due.\<close>

definition gate_cleared :: "db \<Rightarrow> BookingRow \<Rightarrow> bool" where
  "gate_cleared d b \<longleftrightarrow>
     (\<exists>g\<in>set (gate_scans d). g_TenantID g = b_TenantID b \<and> g_BookingID g = b_BookingID b
        \<and> g_Decision g = ''APPROVED''
        \<and> (\<exists>s\<in>set (terminal_slots d). b_SlotID b = Some (s_SlotID s) \<and> s_TenantID s = b_TenantID b
             \<and> s_StartsAt s \<le> g_ScannedAt g \<and> g_ScannedAt g \<le> s_EndsAt s))
     \<and> (b_CargoDeclarationRef b \<noteq> None \<longrightarrow>
         (\<exists>v\<in>set (customs_validations d). customs_match (b_TenantID b) (b_BookingID b) v))"

definition ledger_recorded :: "BookingRow \<Rightarrow> bool" where
  "ledger_recorded b \<longleftrightarrow> (\<exists>h. b_LedgerCommitHash b = Some h \<and> h \<noteq> [])"

abbreviation booking_step :: "string \<Rightarrow> BookingRow \<Rightarrow> BookingRow \<Rightarrow> bool" where
  "booking_step \<equiv> row_step b_BookingID b_TenantID b_Status b_Version booking_ValidTransition"

definition booking_change :: "string \<Rightarrow> db \<Rightarrow> BookingRow \<Rightarrow> BookingRow \<Rightarrow> bool" where
  "booking_change tid d b b' \<longleftrightarrow>
     booking_step tid b b' \<and> b' = set_columns b' b \<and>
     (if b_Status b' = B_SLOT_RESERVED then has_slot d b' else b_SlotID b' = b_SlotID b) \<and>
     (if b_Status b = B_SLOT_RESERVED \<and> b_Status b' = B_PAID then has_receipt d b'
      else b_PaymentReceiptRef b' = b_PaymentReceiptRef b) \<and>
     (b_Status b' = B_GATE_APPROVED \<longrightarrow> gate_cleared d b') \<and>
     (b_Status b' = B_COMPLETED \<or> b_Status b' = B_REFUNDED \<longrightarrow> ledger_recorded b') \<and>
     booking_write_error tid d b' = None"

section \<open>What a queue update may do\<close>

abbreviation queue_step :: "string \<Rightarrow> QueueRow \<Rightarrow> QueueRow \<Rightarrow> bool" where
  "queue_step \<equiv> row_step q_QueueRequestID q_TenantID q_Status q_Version queue_ValidTransition"

definition in_time :: "QueueRow \<Rightarrow> bool" where
  "in_time q \<longleftrightarrow> (case (q_ArrivedAt q, q_GraceDeadline q) of (Some a, Some g) \<Rightarrow> a \<le> g | _ \<Rightarrow> True)"

definition queue_change :: "string \<Rightarrow> db \<Rightarrow> QueueRow \<Rightarrow> QueueRow \<Rightarrow> bool" where
  "queue_change tid d q q' \<longleftrightarrow>
     queue_step tid q q' \<and> q' = queue_set_columns q' q \<and>
     (if q_Status q' = Q_QUEUED
      then \<exists>p. q_Position q' = Some p \<and> (\<forall>x\<in>set (positions tid d (q_TerminalID q)). x < p)
      else q_Position q' = q_Position q) \<and>
     (q_Status q' = Q_CALLED_UP \<longrightarrow>
        head_of_queue tid d (q_TerminalID q) = Some q \<and>
        (\<exists>t. find_terminal tid d (q_TerminalID q) = Some t \<and>
             active_callups tid d (q_TerminalID q) < t_QueueCapacity t)) \<and>
     (q_Status q' = Q_ARRIVED \<longrightarrow> in_time q') \<and>
     queue_write_error tid d q' = None"

section \<open>The writes\<close>

inductive db_write :: "string \<Rightarrow> db \<Rightarrow> db \<Rightarrow> bool" for tid :: string where
  terminal_insert:
    "\<lbrakk>t_TenantID t = tid; \<forall>x\<in>set (port_terminals d). t_TerminalID x \<noteq> t_TerminalID t; t_QueueCapacity t = 1\<rbrakk>
     \<Longrightarrow> db_write tid d (d\<lparr>port_terminals := port_terminals d @ [t]\<rparr>)"
| slot_insert:
    "\<lbrakk>s_TenantID s = tid; \<forall>x\<in>set (terminal_slots d). s_SlotID x \<noteq> s_SlotID s; 1 \<le> s_Capacity s;
      s_StartsAt s < s_EndsAt s; find_terminal tid d (s_TerminalID s) \<noteq> None\<rbrakk>
     \<Longrightarrow> db_write tid d (d\<lparr>terminal_slots := terminal_slots d @ [s]\<rparr>)"
| booking_insert:
    "\<lbrakk>b_TenantID b = tid; \<forall>x\<in>set (truck_bookings d). b_BookingID x \<noteq> b_BookingID b;
      \<forall>x\<in>set (truck_bookings d). \<not> (b_TenantID x = tid \<and> b_RequestID x = b_RequestID b);
      b_Status b \<in> {B_DRAFTED, B_PENDING_SYNC}; b_SlotID b = None; b_PaymentReceiptRef b = None; b_Version b = 1;
      find_terminal tid d (b_TerminalID b) \<noteq> None; truck_bookings_check b\<rbrakk>
     \<Longrightarrow> db_write tid d (d\<lparr>truck_bookings := truck_bookings d @ [b]\<rparr>)"
| booking_update:
    "\<lbrakk>b \<in> set (truck_bookings d); booking_change tid d b b'\<rbrakk>
     \<Longrightarrow> db_write tid d (d\<lparr>truck_bookings := replace_row b_BookingID b' (truck_bookings d)\<rparr>)"
| intent_insert:
    "\<lbrakk>i_TenantID i = tid; i_Status i = ''REQUESTED''; b \<in> set (truck_bookings d); b_TenantID b = tid;
      b_BookingID b = i_BookingID i; b_AmountKobo b = i_AmountKobo i\<rbrakk>
     \<Longrightarrow> db_write tid d (d\<lparr>booking_payment_intents := booking_payment_intents d @ [i]\<rparr>)"
| intents_complete:
    "(\<And>i. P i \<Longrightarrow> i_TenantID i = tid) \<Longrightarrow>
     db_write tid d (d\<lparr>booking_payment_intents :=
       update_where P (\<lambda>i. i\<lparr>i_Status := ''COMPLETED''\<rparr>) (booking_payment_intents d)\<rparr>)"
| scan_insert:
    "\<lbrakk>g_TenantID g = tid\<rbrakk> \<Longrightarrow> db_write tid d (d\<lparr>gate_scans := gate_scans d @ [g]\<rparr>)"
| validation_insert:
    "\<lbrakk>v_TenantID v = tid; customs_validations_check v; b \<in> set (truck_bookings d); b_TenantID b = tid;
      b_BookingID b = v_BookingID v; b_CargoDeclarationRef b = Some (v_DeclarationRef v)\<rbrakk>
     \<Longrightarrow> db_write tid d (d\<lparr>customs_validations := customs_validations d @ [v]\<rparr>)"
| queue_insert:
    "\<lbrakk>q_TenantID q = tid; \<forall>x\<in>set (truck_queue_requests d). q_QueueRequestID x \<noteq> q_QueueRequestID q;
      q_Status q = Q_REQUESTED; q_Position q = None; q_Version q = 1; truck_queue_check q;
      find_terminal tid d (q_TerminalID q) \<noteq> None\<rbrakk>
     \<Longrightarrow> db_write tid d (d\<lparr>truck_queue_requests := truck_queue_requests d @ [q]\<rparr>)"
| queue_update:
    "\<lbrakk>q \<in> set (truck_queue_requests d); queue_change tid d q q'\<rbrakk>
     \<Longrightarrow> db_write tid d (d\<lparr>truck_queue_requests := replace_row q_QueueRequestID q' (truck_queue_requests d)\<rparr>)"
| outbox_append:
    "o_TenantID o1 = tid \<Longrightarrow> db_write tid d (d\<lparr>platform_outbox := platform_outbox d @ [o1]\<rparr>)"

text \<open>The one write that changes a terminal: its call-up capacity is configured.\<close>

definition db_config :: "string \<Rightarrow> db \<Rightarrow> db \<Rightarrow> bool" where
  "db_config tid d d' \<longleftrightarrow> (\<exists>terminalID c. 1 \<le> c \<and> d' = d\<lparr>port_terminals :=
     update_where (\<lambda>t. t_TenantID t = tid \<and> t_TerminalID t = terminalID)
       (\<lambda>t. t\<lparr>t_QueueCapacity := c\<rparr>) (port_terminals d)\<rparr>)"

abbreviation db_writes :: "string \<Rightarrow> db \<Rightarrow> db \<Rightarrow> bool" where
  "db_writes tid \<equiv> (db_write tid)\<^sup>*\<^sup>*"

section \<open>The invariant\<close>

definition keys_ok :: "db \<Rightarrow> bool" where
  "keys_ok d \<longleftrightarrow> distinct (map t_TerminalID (port_terminals d)) \<and> distinct (map s_SlotID (terminal_slots d))
     \<and> distinct (map b_BookingID (truck_bookings d)) \<and> distinct (map q_QueueRequestID (truck_queue_requests d))
     \<and> distinct (map (\<lambda>b. (b_TenantID b, b_RequestID b)) (truck_bookings d))"

definition slot_stage :: "BStatus \<Rightarrow> bool" where
  "slot_stage s \<longleftrightarrow> s \<in> {B_SLOT_RESERVED, B_PAID, B_VALIDATION_PENDING, B_GATE_APPROVED, B_COMPLETED, B_REJECTED,
     B_EXPIRED, B_REFUNDED}"

definition early_stage :: "BStatus \<Rightarrow> bool" where
  "early_stage s \<longleftrightarrow> s \<in> {B_DRAFTED, B_PENDING_SYNC, B_RECONCILIATION_REQUIRED}"

definition paid_stage :: "BStatus \<Rightarrow> bool" where
  "paid_stage s \<longleftrightarrow>
     s \<in> {B_PAID, B_VALIDATION_PENDING, B_GATE_APPROVED, B_COMPLETED, B_REJECTED, B_REFUNDED}"

lemmas stage_defs = slot_stage_def early_stage_def paid_stage_def

definition lifecycle_ok :: "db \<Rightarrow> BookingRow \<Rightarrow> bool" where
  "lifecycle_ok d b \<longleftrightarrow>
     (b_SlotID b \<noteq> None \<longrightarrow> has_slot d b) \<and>
     (slot_stage (b_Status b) \<longrightarrow> b_SlotID b \<noteq> None) \<and>
     (early_stage (b_Status b) \<longrightarrow> b_SlotID b = None) \<and>
     (b_PaymentReceiptRef b \<noteq> None \<longrightarrow> has_receipt d b) \<and>
     (paid_stage (b_Status b) \<longrightarrow> b_PaymentReceiptRef b \<noteq> None) \<and>
     (b_Status b = B_GATE_APPROVED \<or> b_Status b = B_COMPLETED \<longrightarrow> gate_cleared d b) \<and>
     (b_Status b = B_COMPLETED \<or> b_Status b = B_REFUNDED \<longrightarrow> ledger_recorded b)"

definition capacity_ok :: "db \<Rightarrow> bool" where
  "capacity_ok d \<longleftrightarrow>
     (\<forall>s\<in>set (terminal_slots d). count_rows (in_slot (s_SlotID s)) (truck_bookings d) \<le> s_Capacity s)"

definition receipts_ok :: "db \<Rightarrow> bool" where
  "receipts_ok d \<longleftrightarrow> (\<forall>b\<in>set (truck_bookings d). \<forall>c\<in>set (truck_bookings d).
     b_PaymentReceiptRef b \<noteq> None \<and> b_PaymentReceiptRef b = b_PaymentReceiptRef c \<longrightarrow> b = c)"

definition validations_ok :: "db \<Rightarrow> bool" where
  "validations_ok d \<longleftrightarrow> (\<forall>v\<in>set (customs_validations d). customs_validations_check v \<and>
     (\<exists>b\<in>set (truck_bookings d). b_TenantID b = v_TenantID v \<and> b_BookingID b = v_BookingID v
        \<and> b_CargoDeclarationRef b = Some (v_DeclarationRef v)))"

definition queue_ok :: "db \<Rightarrow> bool" where
  "queue_ok d \<longleftrightarrow> (\<forall>q\<in>set (truck_queue_requests d). truck_queue_check q \<and> (q_Status q = Q_ARRIVED \<longrightarrow> in_time q)) \<and>
     (\<forall>q\<in>set (truck_queue_requests d). \<forall>r\<in>set (truck_queue_requests d).
        q_Position q \<noteq> None \<and> q_Position q = q_Position r \<and> q_TerminalID q = q_TerminalID r \<longrightarrow> q = r)"

definition db_inv :: "db \<Rightarrow> bool" where
  "db_inv d \<longleftrightarrow> keys_ok d \<and> list_all (lifecycle_ok d) (truck_bookings d) \<and> capacity_ok d \<and> receipts_ok d
     \<and> validations_ok d \<and> queue_ok d"

lemma db_inv_empty: "db_inv empty_db"
  by (simp add: db_inv_def keys_ok_def capacity_ok_def receipts_ok_def validations_ok_def queue_ok_def empty_db_def)

text \<open>Every payment intent is for a booking of its tenant and asks for exactly what that booking costs.\<close>

definition intents_ok :: "db \<Rightarrow> bool" where
  "intents_ok d \<longleftrightarrow> (\<forall>i\<in>set (booking_payment_intents d). \<exists>b\<in>set (truck_bookings d).
     b_TenantID b = i_TenantID i \<and> b_BookingID b = i_BookingID i \<and> b_AmountKobo b = i_AmountKobo i)"

section \<open>Every write keeps the invariant\<close>

lemma replace_row_map:
  assumes "distinct (map key T)" and "b \<in> set T" and "key new = key b" and "g new = g b"
  shows "map g (replace_row key new T) = map g T"
  using assms by (auto simp: replace_row_def update_where_def dest: distinct_key_eq)

lemma set_columns_fixed [simp]:
  "b_BookingID (set_columns u b) = b_BookingID b" "b_TenantID (set_columns u b) = b_TenantID b"
  "b_RequestID (set_columns u b) = b_RequestID b" "b_TerminalID (set_columns u b) = b_TerminalID b"
  "b_CargoDeclarationRef (set_columns u b) = b_CargoDeclarationRef b"
  "b_AmountKobo (set_columns u b) = b_AmountKobo b" "b_ExpiresAt (set_columns u b) = b_ExpiresAt b"
  "b_TruckerMSISDN (set_columns u b) = b_TruckerMSISDN b" "b_CreatedBy (set_columns u b) = b_CreatedBy b"
  "b_Channel (set_columns u b) = b_Channel b" "b_TruckPlate (set_columns u b) = b_TruckPlate b"
  by (simp_all add: set_columns_def)

lemma set_columns_set [simp]:
  "b_Status (set_columns u b) = b_Status u" "b_SlotID (set_columns u b) = b_SlotID u"
  "b_PaymentReceiptRef (set_columns u b) = b_PaymentReceiptRef u"
  "b_LedgerCommitHash (set_columns u b) = b_LedgerCommitHash u" "b_Version (set_columns u b) = b_Version u"
  "b_GateID (set_columns u b) = b_GateID u" "b_UpdatedAt (set_columns u b) = b_UpdatedAt u"
  "b_ReconciliationReason (set_columns u b) = b_ReconciliationReason u"
  by (simp_all add: set_columns_def)

lemma queue_set_columns_fixed [simp]:
  "q_QueueRequestID (queue_set_columns u q) = q_QueueRequestID q" "q_TenantID (queue_set_columns u q) = q_TenantID q"
  "q_TerminalID (queue_set_columns u q) = q_TerminalID q" "q_PriorityClass (queue_set_columns u q) = q_PriorityClass q"
  "q_IdempotencyKey (queue_set_columns u q) = q_IdempotencyKey q" "q_BookingID (queue_set_columns u q) = q_BookingID q"
  "q_CreatedAt (queue_set_columns u q) = q_CreatedAt q"
  by (simp_all add: queue_set_columns_def)

lemma queue_set_columns_set [simp]:
  "q_Status (queue_set_columns u q) = q_Status u" "q_Position (queue_set_columns u q) = q_Position u"
  "q_GraceDeadline (queue_set_columns u q) = q_GraceDeadline u" "q_ArrivedAt (queue_set_columns u q) = q_ArrivedAt u"
  "q_CalledUpAt (queue_set_columns u q) = q_CalledUpAt u" "q_Version (queue_set_columns u q) = q_Version u"
  by (simp_all add: queue_set_columns_def)

lemma booking_changeD:
  assumes "booking_change tid d b b'"
  shows "b_BookingID b' = b_BookingID b" "b_TenantID b = tid" "b_TenantID b' = tid"
    "b_RequestID b' = b_RequestID b" "b_TerminalID b' = b_TerminalID b"
    "b_CargoDeclarationRef b' = b_CargoDeclarationRef b"
    "booking_ValidTransition (b_Status b) (b_Status b')" "booking_write_error tid d b' = None"
proof -
  from assms have s: "booking_step tid b b'" and f: "b' = set_columns b' b"
    and w: "booking_write_error tid d b' = None" by (auto simp: booking_change_def)
  from s show "b_BookingID b' = b_BookingID b" "b_TenantID b = tid" "b_TenantID b' = tid"
    "booking_ValidTransition (b_Status b) (b_Status b')" by (auto simp: row_step_def)
  show "b_RequestID b' = b_RequestID b" "b_TerminalID b' = b_TerminalID b"
    "b_CargoDeclarationRef b' = b_CargoDeclarationRef b"
    using arg_cong [OF f, of b_RequestID] arg_cong [OF f, of b_TerminalID]
      arg_cong [OF f, of b_CargoDeclarationRef] by simp_all
  from w show "booking_write_error tid d b' = None" .
qed

lemma queue_changeD:
  assumes "queue_change tid d q q'"
  shows "q_QueueRequestID q' = q_QueueRequestID q" "q_TenantID q = tid" "q_TenantID q' = tid"
    "q_TerminalID q' = q_TerminalID q" "q_PriorityClass q' = q_PriorityClass q"
    "queue_ValidTransition (q_Status q) (q_Status q')" "queue_write_error tid d q' = None"
proof -
  from assms have s: "queue_step tid q q'" and f: "q' = queue_set_columns q' q"
    and w: "queue_write_error tid d q' = None" by (auto simp: queue_change_def)
  from s show "q_QueueRequestID q' = q_QueueRequestID q" "q_TenantID q = tid" "q_TenantID q' = tid"
    "queue_ValidTransition (q_Status q) (q_Status q')" by (auto simp: row_step_def)
  show "q_TerminalID q' = q_TerminalID q" "q_PriorityClass q' = q_PriorityClass q"
    using arg_cong [OF f, of q_TerminalID] arg_cong [OF f, of q_PriorityClass] by simp_all
  from w show "queue_write_error tid d q' = None" .
qed

lemma keys_ok_write:
  assumes "db_write tid d d'" and "keys_ok d"
  shows "keys_ok d'"
  using assms(1)
proof cases
  case (booking_update b b')
  note c = booking_changeD [OF booking_update(3)]
  have k: "distinct (map b_BookingID (truck_bookings d))" using assms(2) by (simp add: keys_ok_def)
  have "map (\<lambda>b. (b_TenantID b, b_RequestID b)) (replace_row b_BookingID b' (truck_bookings d))
      = map (\<lambda>b. (b_TenantID b, b_RequestID b)) (truck_bookings d)"
    by (rule replace_row_map [OF k booking_update(2)]) (simp_all add: c)
  with booking_update(1) assms(2) show ?thesis by (simp add: keys_ok_def replace_row_keys)
qed (use assms(2) in \<open>auto simp: keys_ok_def replace_row_keys\<close>)

lemma intents_ok_iff:
  "intents_ok d \<longleftrightarrow> set (map (\<lambda>i. (i_TenantID i, i_BookingID i, i_AmountKobo i)) (booking_payment_intents d))
     \<subseteq> set (map (\<lambda>b. (b_TenantID b, b_BookingID b, b_AmountKobo b)) (truck_bookings d))"
  unfolding intents_ok_def set_map image_subset_iff image_iff by (simp only: prod.inject) metis

lemma intents_ok_write:
  assumes "db_write tid d d'" and "intents_ok d" and "keys_ok d"
  shows "intents_ok d'"
  using assms(1)
proof cases
  case (booking_update b b')
  note c = booking_changeD [OF booking_update(3)]
  have "b' = set_columns b' b" using booking_update(3) by (simp add: booking_change_def)
  from arg_cong [OF this, of b_AmountKobo] have "b_AmountKobo b' = b_AmountKobo b" by simp
  then have "map (\<lambda>b. (b_TenantID b, b_BookingID b, b_AmountKobo b)) (replace_row b_BookingID b' (truck_bookings d))
      = map (\<lambda>b. (b_TenantID b, b_BookingID b, b_AmountKobo b)) (truck_bookings d)"
    using assms(3) by (intro replace_row_map [OF _ booking_update(2)]) (simp_all add: c keys_ok_def)
  then have "intents_ok d' \<longleftrightarrow> intents_ok d" unfolding intents_ok_iff by (simp add: booking_update(1))
  with assms(2) show ?thesis by simp
next
  case (intents_complete P)
  have "map (\<lambda>i. (i_TenantID i, i_BookingID i, i_AmountKobo i)) (booking_payment_intents d')
      = map (\<lambda>i. (i_TenantID i, i_BookingID i, i_AmountKobo i)) (booking_payment_intents d)"
    by (simp add: intents_complete(1) update_where_def)
  then have "intents_ok d' \<longleftrightarrow> intents_ok d" unfolding intents_ok_iff by (simp add: intents_complete(1))
  with assms(2) show ?thesis by simp
qed (use assms(2) in \<open>auto simp: intents_ok_def\<close>)

text \<open>Evidence is never withdrawn: slots, completed intents, scans and validations stay.\<close>

lemma write_append_only:
  assumes "db_write tid d d'"
  shows "set (terminal_slots d) \<subseteq> set (terminal_slots d')" and "set (gate_scans d) \<subseteq> set (gate_scans d')"
    and "set (customs_validations d) \<subseteq> set (customs_validations d')"
  using assms by (auto elim: db_write.cases)

lemma evidence_write:
  assumes "db_write tid d d'"
  shows "has_slot d b \<Longrightarrow> has_slot d' b" and "gate_cleared d b \<Longrightarrow> gate_cleared d' b"
  using write_append_only [OF assms] unfolding has_slot_def gate_cleared_def by blast+

lemma completed_intent_write:
  assumes "db_write tid d d'" and "i \<in> set (booking_payment_intents d)" and "i_Status i = ''COMPLETED''"
  shows "i \<in> set (booking_payment_intents d')"
proof -
  have "i\<lparr>i_Status := ''COMPLETED''\<rparr> = i" using assms(3) by simp
  then have "i \<in> set (update_where P (\<lambda>i. i\<lparr>i_Status := ''COMPLETED''\<rparr>) (booking_payment_intents d))" for P
    using assms(2) by (force simp: set_update_where)
  with assms(1,2) show ?thesis by cases auto
qed

lemma receipt_write: "db_write tid d d' \<Longrightarrow> has_receipt d b \<Longrightarrow> has_receipt d' b"
  unfolding has_receipt_def by (blast intro: completed_intent_write)

lemma lifecycle_write: "db_write tid d d' \<Longrightarrow> lifecycle_ok d b \<Longrightarrow> lifecycle_ok d' b"
  using evidence_write receipt_write by (auto simp: lifecycle_ok_def)

text \<open>How the stages of a booking follow each other in the state machine.\<close>

lemma slot_stage_step: "booking_ValidTransition s t \<Longrightarrow> slot_stage t \<Longrightarrow> t = B_SLOT_RESERVED \<or> slot_stage s"
  by (cases s) (auto simp: booking_ValidTransition_def stage_defs)

lemma early_stage_step: "booking_ValidTransition s t \<Longrightarrow> early_stage t \<Longrightarrow> early_stage s \<and> t \<noteq> B_SLOT_RESERVED"
  by (cases s) (auto simp: booking_ValidTransition_def stage_defs)

lemma paid_stage_step:
  "booking_ValidTransition s t \<Longrightarrow> paid_stage t \<Longrightarrow> s = B_SLOT_RESERVED \<and> t = B_PAID \<or> paid_stage s"
  by (cases s) (auto simp: booking_ValidTransition_def stage_defs)

lemma completed_from: "booking_ValidTransition s t \<Longrightarrow> t = B_COMPLETED \<Longrightarrow> s = B_GATE_APPROVED"
  by (cases s) (auto simp: booking_ValidTransition_def)

lemma booking_change_lifecycle:
  assumes "booking_change tid d b b'" and "lifecycle_ok d b"
  shows "lifecycle_ok d b'"
proof -
  note c = booking_changeD [OF assms(1)]
  have slot: "b_SlotID b' = b_SlotID b \<Longrightarrow> has_slot d b' = has_slot d b"
    by (simp add: has_slot_def c)
  have receipt: "b_PaymentReceiptRef b' = b_PaymentReceiptRef b \<Longrightarrow> has_receipt d b' = has_receipt d b"
    by (simp add: has_receipt_def c)
  have gate: "b_SlotID b' = b_SlotID b \<Longrightarrow> gate_cleared d b' = gate_cleared d b"
    by (simp add: gate_cleared_def c)
  have some: "has_slot d b' \<Longrightarrow> b_SlotID b' \<noteq> None" "has_receipt d b' \<Longrightarrow> b_PaymentReceiptRef b' \<noteq> None"
    by (auto simp: has_slot_def has_receipt_def)
  note l = assms(2) [unfolded lifecycle_ok_def]
  have S: "b_Status b' = B_SLOT_RESERVED \<Longrightarrow> has_slot d b'"
      "b_Status b' \<noteq> B_SLOT_RESERVED \<Longrightarrow> b_SlotID b' = b_SlotID b"
    and R: "b_Status b = B_SLOT_RESERVED \<and> b_Status b' = B_PAID \<Longrightarrow> has_receipt d b'"
      "\<not> (b_Status b = B_SLOT_RESERVED \<and> b_Status b' = B_PAID) \<Longrightarrow> b_PaymentReceiptRef b' = b_PaymentReceiptRef b"
    and G: "b_Status b' = B_GATE_APPROVED \<Longrightarrow> gate_cleared d b'"
    and L: "b_Status b' = B_COMPLETED \<or> b_Status b' = B_REFUNDED \<Longrightarrow> ledger_recorded b'"
    using assms(1) by (auto simp: booking_change_def)
  show ?thesis
    unfolding lifecycle_ok_def
  proof (intro conjI impI)
    show "has_slot d b'" if "b_SlotID b' \<noteq> None"
      using that l S slot by (cases "b_Status b' = B_SLOT_RESERVED") simp_all
    show "b_SlotID b' \<noteq> None" if "slot_stage (b_Status b')"
      using slot_stage_step [OF c(7) that] l S some by metis
    show "b_SlotID b' = None" if "early_stage (b_Status b')"
      using early_stage_step [OF c(7) that] l S(2) by simp
    show "has_receipt d b'" if "b_PaymentReceiptRef b' \<noteq> None"
      using that l R receipt by metis
    show "b_PaymentReceiptRef b' \<noteq> None" if "paid_stage (b_Status b')"
      using paid_stage_step [OF c(7) that] l R some by metis
    show "gate_cleared d b'" if "b_Status b' = B_GATE_APPROVED \<or> b_Status b' = B_COMPLETED"
      using that completed_from [OF c(7)] l G gate S(2) by (elim disjE) simp_all
    show "ledger_recorded b'" if "b_Status b' = B_COMPLETED \<or> b_Status b' = B_REFUNDED"
      using that by (rule L)
  qed
qed

lemma lifecycle_preserved:
  assumes "db_write tid d d'" and "keys_ok d" and "list_all (lifecycle_ok d) (truck_bookings d)"
  shows "list_all (lifecycle_ok d') (truck_bookings d')"
proof -
  have old: "\<And>b. b \<in> set (truck_bookings d) \<Longrightarrow> lifecycle_ok d' b"
    using assms lifecycle_write by (auto simp: list_all_iff)
  show ?thesis using assms(1)
  proof cases
    case (booking_update b b')
    have "set (truck_bookings d') = insert b' (set (truck_bookings d) - {b})"
      using booking_update booking_changeD(1) [OF booking_update(3)] assms(2)
      by (simp add: keys_ok_def set_replace_row)
    moreover have "lifecycle_ok d' b'"
      using booking_change_lifecycle [OF booking_update(3)] assms booking_update(2)
      by (auto simp: list_all_iff intro: lifecycle_write)
    ultimately show ?thesis using old by (auto simp: list_all_iff)
  next
    case (booking_insert b)
    then have "lifecycle_ok d' b" by (auto simp: lifecycle_ok_def stage_defs)
    with booking_insert old show ?thesis by (auto simp: list_all_iff)
  qed (use old in \<open>auto simp: list_all_iff\<close>)
qed

text \<open>
  The trigger counts the rows of its tenant only; that is every row of the slot,
  because a booking and its slot have the same tenant.
\<close>

lemma slot_tenant:
  assumes "keys_ok d" and "list_all (lifecycle_ok d) (truck_bookings d)"
    and "s \<in> set (terminal_slots d)" and "b \<in> set (truck_bookings d)" and "in_slot (s_SlotID s) b"
  shows "b_TenantID b = s_TenantID s"
proof -
  have "lifecycle_ok d b" using assms(2,4) by (simp add: list_all_iff)
  moreover have id: "b_SlotID b = Some (s_SlotID s)" using assms(5) by (simp add: in_slot_def)
  ultimately have "has_slot d b" by (simp add: lifecycle_ok_def)
  with id obtain s' where "s' \<in> set (terminal_slots d)" "s_SlotID s' = s_SlotID s" "s_TenantID s' = b_TenantID b"
    by (auto simp: has_slot_def)
  moreover from this assms(1,3) have "s' = s" by (auto simp: keys_ok_def dest: distinct_key_eq)
  ultimately show ?thesis by simp
qed

lemma booking_update_capacity:
  assumes "keys_ok d" and "list_all (lifecycle_ok d) (truck_bookings d)" and "capacity_ok d"
    and "b \<in> set (truck_bookings d)" and "booking_change tid d b b'" and "s \<in> set (terminal_slots d)"
  shows "count_rows (in_slot (s_SlotID s)) (replace_row b_BookingID b' (truck_bookings d)) \<le> s_Capacity s"
proof -
  let ?others = "\<lambda>x. in_slot (s_SlotID s) x \<and> b_BookingID x \<noteq> b_BookingID b"
  note c = booking_changeD [OF assms(5)]
  have "count_rows (in_slot (s_SlotID s)) (replace_row b_BookingID b' (truck_bookings d))
      = count_rows ?others (truck_bookings d) + (if in_slot (s_SlotID s) b' then 1 else 0)"
    using assms(1,4) c by (intro count_replace_row) (auto simp: keys_ok_def)
  moreover have "count_rows ?others (truck_bookings d) + 1 \<le> s_Capacity s" if "in_slot (s_SlotID s) b'"
  proof -
    from that c booking_write_ok(1) [OF c(8)] obtain s' where
      s': "find_slot tid d (s_SlotID s) = Some s'"
      and cap: "count_rows (\<lambda>x. b_TenantID x = tid \<and> in_slot (s_SlotID s) x \<and> b_BookingID x \<noteq> b_BookingID b)
            (truck_bookings d) < s_Capacity s'"
      by (auto simp: enforce_slot_capacity_def in_slot_def split: option.splits if_splits)
    from s' assms(1,6) have "s' = s" and t: "s_TenantID s = tid"
      by (auto dest!: find_slot_SomeD simp: keys_ok_def dest: distinct_key_eq)
    moreover have "count_rows ?others (truck_bookings d)
        = count_rows (\<lambda>x. b_TenantID x = tid \<and> in_slot (s_SlotID s) x \<and> b_BookingID x \<noteq> b_BookingID b) (truck_bookings d)"
      using slot_tenant [OF assms(1,2,6)] t by (auto intro!: count_rows_cong)
    ultimately show ?thesis using cap by simp
  qed
  moreover have "count_rows ?others (truck_bookings d) \<le> s_Capacity s"
    using assms(3,6) count_rows_mono [of "truck_bookings d" ?others "in_slot (s_SlotID s)"]
    by (auto simp: capacity_ok_def)
  ultimately show ?thesis by auto
qed

lemma capacity_preserved:
  assumes "db_write tid d d'" and "keys_ok d" and "list_all (lifecycle_ok d) (truck_bookings d)" and "capacity_ok d"
  shows "capacity_ok d'"
  using assms(1)
proof cases
  case (booking_update b b')
  then show ?thesis using booking_update_capacity [OF assms(2-4)] by (auto simp: capacity_ok_def)
next
  case (slot_insert s)
  have "\<not> in_slot (s_SlotID s) b" if "b \<in> set (truck_bookings d)" for b
  proof
    assume "in_slot (s_SlotID s) b"
    then have id: "b_SlotID b = Some (s_SlotID s)" by (simp add: in_slot_def)
    moreover have "lifecycle_ok d b" using assms(3) that by (simp add: list_all_iff)
    ultimately have "has_slot d b" by (simp add: lifecycle_ok_def)
    with id slot_insert(3) show False by (auto simp: has_slot_def)
  qed
  then have "count_rows (in_slot (s_SlotID s)) (truck_bookings d) = 0" by (simp add: count_rows_zero_iff)
  with slot_insert assms(4) show ?thesis by (auto simp: capacity_ok_def)
qed (use assms(4) in \<open>auto simp: capacity_ok_def in_slot_def\<close>)

lemma receipts_preserved:
  assumes "db_write tid d d'" and "keys_ok d" and "receipts_ok d"
  shows "receipts_ok d'"
  using assms(1)
proof cases
  case (booking_update b b')
  note c = booking_changeD [OF booking_update(3)]
  have rows: "set (truck_bookings d') = insert b' (set (truck_bookings d) - {b})"
    using booking_update c(1) assms(2) by (simp add: keys_ok_def set_replace_row)
  have fresh: "b_PaymentReceiptRef x \<noteq> b_PaymentReceiptRef b'"
    if "x \<in> set (truck_bookings d) - {b}" "b_PaymentReceiptRef b' \<noteq> None" for x
  proof -
    have "b_BookingID x \<noteq> b_BookingID b'"
      using that(1) booking_update(2) assms(2) c(1) by (auto simp: keys_ok_def dest: distinct_key_eq)
    then show ?thesis
      using booking_write_ok(3) [OF c(8)] that by (auto simp: receipt_conflict_def list_ex_iff)
  qed
  show ?thesis
    unfolding receipts_ok_def rows
  proof (intro ballI impI)
    fix x y
    assume x: "x \<in> insert b' (set (truck_bookings d) - {b})" and y: "y \<in> insert b' (set (truck_bookings d) - {b})"
      and eq: "b_PaymentReceiptRef x \<noteq> None \<and> b_PaymentReceiptRef x = b_PaymentReceiptRef y"
    show "x = y"
    proof (cases "x = b' \<or> y = b'")
      case True
      with x y eq fresh show ?thesis by (metis insert_iff)
    next
      case False
      with x y eq assms(3) show ?thesis unfolding receipts_ok_def by blast
    qed
  qed
next
  case (booking_insert b)
  have "x = y" if "x \<in> insert b (set (truck_bookings d))" "y \<in> insert b (set (truck_bookings d))"
    "b_PaymentReceiptRef x \<noteq> None" "b_PaymentReceiptRef x = b_PaymentReceiptRef y" for x y
    using that assms(3) booking_insert(7) unfolding receipts_ok_def by (metis insert_iff)
  moreover have "set (truck_bookings d') = insert b (set (truck_bookings d))" using booking_insert(1) by simp
  ultimately show ?thesis unfolding receipts_ok_def by blast
qed (use assms(3) in \<open>simp_all add: receipts_ok_def\<close>)

lemma validations_preserved:
  assumes "db_write tid d d'" and "keys_ok d" and "validations_ok d"
  shows "validations_ok d'"
  using assms(1)
proof cases
  case (booking_update b b')
  note c = booking_changeD [OF booking_update(3)]
  have rows: "set (truck_bookings d') = insert b' (set (truck_bookings d) - {b})"
    using booking_update c(1) assms(2) by (simp add: keys_ok_def set_replace_row)
  have "\<exists>x\<in>set (truck_bookings d'). b_TenantID x = b_TenantID y \<and> b_BookingID x = b_BookingID y
      \<and> b_CargoDeclarationRef x = b_CargoDeclarationRef y" if "y \<in> set (truck_bookings d)" for y
    using that c rows by (cases "y = b") auto
  with booking_update(1) assms(3) show ?thesis by (simp add: validations_ok_def) metis
qed (use assms(3) in \<open>auto simp: validations_ok_def\<close>)

lemma queue_preserved:
  assumes "db_write tid d d'" and "keys_ok d" and "queue_ok d"
  shows "queue_ok d'"
  using assms(1)
proof cases
  case (queue_update q q')
  note c = queue_changeD [OF queue_update(3)]
  note w = queue_write_ok [OF c(7)]
  have rows: "set (truck_queue_requests d') = insert q' (set (truck_queue_requests d) - {q})"
    using queue_update c(1) assms(2) by (simp add: keys_ok_def set_replace_row)
  have fresh: "q_Position x \<noteq> q_Position q' \<or> q_TerminalID x \<noteq> q_TerminalID q'"
    if "x \<in> set (truck_queue_requests d) - {q}" "q_Position q' \<noteq> None" for x
  proof -
    have "q_QueueRequestID x \<noteq> q_QueueRequestID q'"
      using that(1) queue_update(2) assms(2) c(1) by (auto simp: keys_ok_def dest: distinct_key_eq)
    then show ?thesis using w(3) that by (auto simp: position_conflict_def list_ex_iff)
  qed
  have "x = y" if "x \<in> insert q' (set (truck_queue_requests d) - {q})"
    "y \<in> insert q' (set (truck_queue_requests d) - {q})"
    "q_Position x \<noteq> None" "q_Position x = q_Position y" "q_TerminalID x = q_TerminalID y" for x y
  proof (cases "x = q' \<or> y = q'")
    case True
    with that fresh [of x] fresh [of y] show ?thesis by auto
  next
    case False
    with that assms(3) show ?thesis unfolding queue_ok_def by blast
  qed
  moreover have "in_time q'" if "q_Status q' = Q_ARRIVED"
    using queue_update(3) that by (simp add: queue_change_def)
  ultimately show ?thesis
    using assms(3) w(2) unfolding queue_ok_def rows by blast
next
  case (queue_insert q)
  then show ?thesis using assms(3) by (auto simp: queue_ok_def)
qed (use assms(3) in \<open>auto simp: queue_ok_def\<close>)

lemma db_inv_write: "db_write tid d d' \<Longrightarrow> db_inv d \<Longrightarrow> db_inv d'"
  unfolding db_inv_def
  by (blast intro: keys_ok_write lifecycle_preserved capacity_preserved receipts_preserved
      validations_preserved queue_preserved)

lemma db_inv_writes: "db_writes tid d d' \<Longrightarrow> db_inv d \<Longrightarrow> db_inv d'"
  by (induction rule: rtranclp_induct) (auto intro: db_inv_write)

lemma intents_ok_writes: "db_writes tid d d' \<Longrightarrow> keys_ok d \<Longrightarrow> intents_ok d \<Longrightarrow> intents_ok d'"
proof -
  assume "db_writes tid d d'" "keys_ok d" "intents_ok d"
  then have "keys_ok d' \<and> intents_ok d'" by (induction rule: rtranclp_induct) (auto intro: keys_ok_write intents_ok_write)
  then show ?thesis ..
qed

lemma intents_ok_config: "db_config tid d d' \<Longrightarrow> intents_ok d \<Longrightarrow> intents_ok d'"
  by (auto simp: db_config_def intents_ok_def)

lemma db_config_terminals:
  assumes "db_config tid d d'"
  obtains T where "d' = d\<lparr>port_terminals := T\<rparr>" and "map t_TerminalID T = map t_TerminalID (port_terminals d)"
    and "map (\<lambda>t. (t_TenantID t, t_TerminalID t)) T = map (\<lambda>t. (t_TenantID t, t_TerminalID t)) (port_terminals d)"
  using assms unfolding db_config_def by (auto intro!: that simp: map_update_where)

lemma lifecycle_terminals: "lifecycle_ok (d\<lparr>port_terminals := T\<rparr>) b = lifecycle_ok d b"
  by (simp add: lifecycle_ok_def has_slot_def has_receipt_def gate_cleared_def)

lemma invariants_terminals:
  "capacity_ok (d\<lparr>port_terminals := T\<rparr>) = capacity_ok d" "receipts_ok (d\<lparr>port_terminals := T\<rparr>) = receipts_ok d"
  "validations_ok (d\<lparr>port_terminals := T\<rparr>) = validations_ok d" "queue_ok (d\<lparr>port_terminals := T\<rparr>) = queue_ok d"
  by (simp_all add: capacity_ok_def receipts_ok_def validations_ok_def queue_ok_def)

lemma db_inv_config:
  assumes "db_config tid d d'" and "db_inv d"
  shows "db_inv d'"
proof -
  from assms(1) obtain T where d': "d' = d\<lparr>port_terminals := T\<rparr>"
    and T: "map t_TerminalID T = map t_TerminalID (port_terminals d)"
    by (rule db_config_terminals)
  have "keys_ok d'" using assms(2) T by (simp add: db_inv_def keys_ok_def d')
  moreover have "list_all (lifecycle_ok d') (truck_bookings d')"
    using assms(2) by (simp add: db_inv_def d' lifecycle_terminals list_all_iff)
  moreover have "capacity_ok d'" "receipts_ok d'" "validations_ok d'" "queue_ok d'"
    using assms(2) by (simp_all add: db_inv_def d' invariants_terminals)
  ultimately show ?thesis by (simp add: db_inv_def)
qed

lemma db_inv_keys: "db_inv d \<Longrightarrow> keys_ok d"
  by (simp add: db_inv_def)

section \<open>Tables evolve by their state machines\<close>

interpretation brows: versioned_rows b_BookingID b_TenantID b_Status b_Version booking_ValidTransition
  by unfold_locales (rule booking_transition_irrefl)

interpretation qrows: versioned_rows q_QueueRequestID q_TenantID q_Status q_Version queue_ValidTransition
  by unfold_locales (rule queue_transition_irrefl)

abbreviation bookings_evolve :: "string \<Rightarrow> BookingRow list \<Rightarrow> BookingRow list \<Rightarrow> bool" where
  "bookings_evolve \<equiv> table_evolves b_BookingID b_TenantID b_Status b_Version booking_ValidTransition"

abbreviation queue_evolves :: "string \<Rightarrow> QueueRow list \<Rightarrow> QueueRow list \<Rightarrow> bool" where
  "queue_evolves \<equiv> table_evolves q_QueueRequestID q_TenantID q_Status q_Version queue_ValidTransition"

lemma write_bookings_evolve:
  assumes "db_write tid d d'" and "keys_ok d"
  shows "bookings_evolve tid (truck_bookings d) (truck_bookings d')"
  using assms(1)
proof cases
  case (booking_update b b')
  have "x = b" if "x \<in> set (truck_bookings d)" "b_BookingID x = b_BookingID b'" for x
    using that booking_update(2) booking_changeD(1) [OF booking_update(3)] assms(2)
    by (auto simp: keys_ok_def dest: distinct_key_eq)
  with booking_update show ?thesis
    unfolding replace_row_def by (auto simp: booking_change_def intro!: brows.evolves_update)
qed (auto intro: brows.evolves_insert)

lemma write_queue_evolves:
  assumes "db_write tid d d'" and "keys_ok d"
  shows "queue_evolves tid (truck_queue_requests d) (truck_queue_requests d')"
  using assms(1)
proof cases
  case (queue_update q q')
  have "x = q" if "x \<in> set (truck_queue_requests d)" "q_QueueRequestID x = q_QueueRequestID q'" for x
    using that queue_update(2) queue_changeD(1) [OF queue_update(3)] assms(2)
    by (auto simp: keys_ok_def dest: distinct_key_eq)
  with queue_update show ?thesis
    unfolding replace_row_def by (auto simp: queue_change_def intro!: qrows.evolves_update)
qed (auto intro: qrows.evolves_insert)

lemma writes_evolve:
  assumes "db_writes tid d d'" and "keys_ok d"
  shows "bookings_evolve tid (truck_bookings d) (truck_bookings d') \<and>
         queue_evolves tid (truck_queue_requests d) (truck_queue_requests d') \<and> keys_ok d'"
  using assms
proof (induction rule: rtranclp_induct)
  case (step y z)
  then show ?case
    by (meson keys_ok_write write_bookings_evolve write_queue_evolves brows.evolves_trans qrows.evolves_trans)
qed auto

section \<open>Tenants are isolated\<close>

definition tenant_view :: "string \<Rightarrow> db \<Rightarrow> db" where
  "tenant_view tid d =
     \<lparr>port_terminals = filter (\<lambda>r. t_TenantID r = tid) (port_terminals d),
      terminal_slots = filter (\<lambda>r. s_TenantID r = tid) (terminal_slots d),
      truck_bookings = filter (\<lambda>r. b_TenantID r = tid) (truck_bookings d),
      booking_payment_intents = filter (\<lambda>r. i_TenantID r = tid) (booking_payment_intents d),
      gate_scans = filter (\<lambda>r. g_TenantID r = tid) (gate_scans d),
      customs_validations = filter (\<lambda>r. v_TenantID r = tid) (customs_validations d),
      truck_queue_requests = filter (\<lambda>r. q_TenantID r = tid) (truck_queue_requests d),
      platform_outbox = filter (\<lambda>r. o_TenantID r = tid) (platform_outbox d)\<rparr>"

lemma filter_update_foreign:
  assumes "\<And>r. r \<in> set T \<Longrightarrow> P r \<Longrightarrow> \<not> Q r \<and> \<not> Q (f r)"
  shows "filter Q (update_where P f T) = filter Q T"
  using assms by (induction T) (auto simp: update_where_def)

lemma write_isolated:
  assumes "db_write tid d d'" and "keys_ok d" and "tid' \<noteq> tid"
  shows "tenant_view tid' d' = tenant_view tid' d"
proof -
  have "filter (\<lambda>r. b_TenantID r = tid') (truck_bookings d') = filter (\<lambda>r. b_TenantID r = tid') (truck_bookings d)"
    "filter (\<lambda>r. q_TenantID r = tid') (truck_queue_requests d') = filter (\<lambda>r. q_TenantID r = tid') (truck_queue_requests d)"
    using brows.evolves_foreign [OF write_bookings_evolve [OF assms(1,2)] assms(3)]
      qrows.evolves_foreign [OF write_queue_evolves [OF assms(1,2)] assms(3)] by auto
  with assms(1,3) show ?thesis
    by (cases; simp add: tenant_view_def; auto intro!: filter_update_foreign)
qed

lemma writes_isolated:
  assumes "db_writes tid d d'" and "keys_ok d" and "tid' \<noteq> tid"
  shows "tenant_view tid' d' = tenant_view tid' d \<and> keys_ok d'"
  using assms
proof (induction rule: rtranclp_induct)
  case (step y z)
  then show ?case using write_isolated [of tid y z tid'] keys_ok_write [of tid y z] by auto
qed simp

lemma config_isolated: "db_config tid d d' \<Longrightarrow> tid' \<noteq> tid \<Longrightarrow> tenant_view tid' d' = tenant_view tid' d"
  by (auto simp: db_config_def tenant_view_def intro!: filter_update_foreign)

section \<open>Call-up capacity\<close>

definition callups_within :: "db \<Rightarrow> bool" where
  "callups_within d \<longleftrightarrow>
     (\<forall>t\<in>set (port_terminals d). active_callups (t_TenantID t) d (t_TerminalID t) \<le> t_QueueCapacity t)"

definition queue_terminals :: "db \<Rightarrow> bool" where
  "queue_terminals d \<longleftrightarrow>
     (\<forall>q\<in>set (truck_queue_requests d). \<exists>t\<in>set (port_terminals d).
        t_TenantID t = q_TenantID q \<and> t_TerminalID t = q_TerminalID q)"

lemma find_terminal_iff:
  "find_terminal tid d k \<noteq> None \<longleftrightarrow> (\<exists>t\<in>set (port_terminals d). t_TenantID t = tid \<and> t_TerminalID t = k)"
  by (auto simp: find_terminal_def find_None_iff)

lemma queue_terminals_write:
  assumes "db_write tid d d'" and "keys_ok d" and "queue_terminals d"
  shows "queue_terminals d'"
  using assms(1)
proof cases
  case (queue_update q q')
  note c = queue_changeD [OF queue_update(3)]
  have "set (truck_queue_requests d') = insert q' (set (truck_queue_requests d) - {q})"
    using queue_update c(1) assms(2) by (simp add: keys_ok_def set_replace_row)
  with queue_update(1,2) c assms(3) show ?thesis by (auto simp: queue_terminals_def)
next
  case (queue_insert q)
  with find_terminal_iff [of tid d "q_TerminalID q"] assms(3) show ?thesis by (auto simp: queue_terminals_def)
qed (use assms(3) in \<open>auto simp: queue_terminals_def\<close>)

lemma queue_update_callups:
  assumes "keys_ok d" and "callups_within d" and "q \<in> set (truck_queue_requests d)" and "queue_change tid d q q'"
    and "t \<in> set (port_terminals d)"
  shows "count_rows (\<lambda>x. q_TenantID x = t_TenantID t \<and> in_callup (t_TerminalID t) x)
           (replace_row q_QueueRequestID q' (truck_queue_requests d)) \<le> t_QueueCapacity t"
proof -
  let ?Q = "\<lambda>x. q_TenantID x = t_TenantID t \<and> in_callup (t_TerminalID t) x"
  let ?others = "\<lambda>x. ?Q x \<and> q_QueueRequestID x \<noteq> q_QueueRequestID q"
  note c = queue_changeD [OF assms(4)]
  have "count_rows ?Q (replace_row q_QueueRequestID q' (truck_queue_requests d))
      = count_rows ?others (truck_queue_requests d) + (if ?Q q' then 1 else 0)"
    using assms(1,3) c by (intro count_replace_row) (auto simp: keys_ok_def)
  moreover have "count_rows ?others (truck_queue_requests d) + 1 \<le> t_QueueCapacity t" if "?Q q'"
  proof -
    from that c(3) have t: "t_TenantID t = tid" "q_TerminalID q' = t_TerminalID t" "called_up (q_Status q')"
      by (auto simp: in_callup_def)
    with c(1) queue_write_ok(1) [OF c(7)] obtain t' where "find_terminal tid d (t_TerminalID t) = Some t'"
      and cap: "count_rows (\<lambda>x. q_TenantID x = tid \<and> in_callup (t_TerminalID t) x
         \<and> q_QueueRequestID x \<noteq> q_QueueRequestID q) (truck_queue_requests d) < t_QueueCapacity t'"
      by (auto simp: enforce_terminal_callup_capacity_def split: option.splits if_splits)
    moreover from this(1) assms(1,5) have "t' = t"
      by (auto dest!: find_terminal_SomeD simp: keys_ok_def dest: distinct_key_eq)
    moreover have "?others = (\<lambda>x. q_TenantID x = tid \<and> in_callup (t_TerminalID t) x
         \<and> q_QueueRequestID x \<noteq> q_QueueRequestID q)" using t(1) by auto
    ultimately show ?thesis by simp
  qed
  moreover have "count_rows ?others (truck_queue_requests d) \<le> t_QueueCapacity t"
    using assms(2,5) count_rows_mono [of "truck_queue_requests d" ?others ?Q]
    by (fastforce simp: callups_within_def active_callups_def)
  ultimately show ?thesis by auto
qed

lemma callups_write:
  assumes "db_write tid d d'" and "keys_ok d" and "queue_terminals d" and "callups_within d"
  shows "callups_within d'"
  using assms(1)
proof cases
  case (queue_update q q')
  then show ?thesis
    using queue_update_callups [OF assms(2,4)] by (auto simp: callups_within_def active_callups_def)
next
  case (terminal_insert t)
  have "\<not> (q_TenantID q = t_TenantID t \<and> in_callup (t_TerminalID t) q)" if "q \<in> set (truck_queue_requests d)" for q
    using assms(3) terminal_insert(3) that by (fastforce simp: queue_terminals_def in_callup_def)
  then have "active_callups (t_TenantID t) d (t_TerminalID t) = 0"
    unfolding active_callups_def count_rows_zero_iff by blast
  with terminal_insert assms(4) show ?thesis by (auto simp: callups_within_def active_callups_def)
next
  case (queue_insert q)
  then show ?thesis using assms(4) by (auto simp: callups_within_def active_callups_def in_callup_def called_up_def)
qed (use assms(4) in \<open>auto simp: callups_within_def active_callups_def\<close>)

lemma callups_writes:
  assumes "db_writes tid d d'" and "keys_ok d" and "queue_terminals d"
  shows "queue_terminals d' \<and> keys_ok d' \<and> (callups_within d \<longrightarrow> callups_within d')"
  using assms
proof (induction rule: rtranclp_induct)
  case (step y z)
  then show ?case using queue_terminals_write callups_write keys_ok_write by blast
qed simp

lemma config_terminals:
  "db_config tid d d' \<Longrightarrow> (\<lambda>t. (t_TenantID t, t_TerminalID t)) ` set (port_terminals d')
     = (\<lambda>t. (t_TenantID t, t_TerminalID t)) ` set (port_terminals d) \<and> truck_queue_requests d' = truck_queue_requests d"
  by (erule db_config_terminals) (auto dest!: arg_cong [of _ _ set])

lemma queue_terminals_alt:
  "queue_terminals d \<longleftrightarrow> (\<forall>q\<in>set (truck_queue_requests d).
     (q_TenantID q, q_TerminalID q) \<in> (\<lambda>t. (t_TenantID t, t_TerminalID t)) ` set (port_terminals d))"
  by (auto simp: queue_terminals_def image_iff) metis+

lemma queue_terminals_config: "db_config tid d d' \<Longrightarrow> queue_terminals d \<Longrightarrow> queue_terminals d'"
  using config_terminals [of tid d d'] by (simp add: queue_terminals_alt)

lemma callups_config:
  assumes "db_config tid d d'" and "callups_within d"
    and "\<forall>t\<in>set (port_terminals d). \<forall>t'\<in>set (port_terminals d'). t_TerminalID t' = t_TerminalID t
           \<longrightarrow> t_QueueCapacity t \<le> t_QueueCapacity t'"
  shows "callups_within d'"
proof -
  note ct = config_terminals [OF assms(1)]
  have q: "truck_queue_requests d' = truck_queue_requests d" using ct by simp
  have old: "\<exists>t\<in>set (port_terminals d). t_TerminalID t' = t_TerminalID t \<and> t_TenantID t' = t_TenantID t"
    if "t' \<in> set (port_terminals d')" for t'
  proof -
    from that have "(t_TenantID t', t_TerminalID t') \<in> (\<lambda>t. (t_TenantID t, t_TerminalID t)) ` set (port_terminals d')" by blast
    with ct show ?thesis by auto
  qed
  show ?thesis
    unfolding callups_within_def
  proof
    fix t' assume t': "t' \<in> set (port_terminals d')"
    from old [OF this] obtain t where t: "t \<in> set (port_terminals d)" "t_TerminalID t' = t_TerminalID t"
       "t_TenantID t' = t_TenantID t" by blast
    then have "active_callups (t_TenantID t) d (t_TerminalID t) \<le> t_QueueCapacity t" "t_QueueCapacity t \<le> t_QueueCapacity t'"
      using assms(2,3) t' by (auto simp: callups_within_def)
    with t(2,3) q show "active_callups (t_TenantID t') d' (t_TerminalID t') \<le> t_QueueCapacity t'"
      by (simp add: active_callups_def)
  qed
qed

end
