(* ===== verification/Booking_Correct.thy ===== *)
theory Booking_Correct
  imports Writes
begin

text \<open>
  The booking store implements the abstract writes: every operation that commits
  is a sequence of \<open>db_write\<close> steps of its tenant, and one that returns an error
  leaves the database as it was. The interfaces the store calls are locales:
  \<open>capacity_listener\<close> (what \<open>CapacityReleased\<close> may do inside the booking's
  transaction) and \<open>refund_rail\<close> (a successful refund has a commit hash);
  \<open>booking_store\<close> is a store wired to such implementations.
\<close>

section \<open>Interfaces\<close>

locale capacity_listener =
  fixes release :: listener
  assumes release_writes: "release claims t pr e d = Inr d' \<Longrightarrow> keys_ok d \<Longrightarrow> db_writes (TenantID claims) d d'"
    and release_bookings: "release claims t pr e d = Inr d' \<Longrightarrow> truck_bookings d' = truck_bookings d"

locale refund_rail =
  fixes refund :: "'l refund_rail"
  assumes refund_hash: "refund r w = (Inr h, w') \<Longrightarrow> h \<noteq> []"

interpretation tb_refund: refund_rail "RefundBookingSettlement client"
  by unfold_locales (metis RefundBookingSettlement_hash RefundCommitHash_nonempty)

section \<open>The transition\<close>

lemma transitionTx_InrE:
  assumes "transitionTx st claims b next mutate ty ext pr lh e d = Inr (result, d')"
  obtains row o1 where "booking_ValidTransition (b_Status b) next"
    and "find (update_target claims b) (truck_bookings d) = Some row"
    and "result = set_columns (mutate (b\<lparr>b_Status := next, b_UpdatedAt := clk e 0,
           b_Version := wrap64 (b_Version b + 1)\<rparr>)) row"
    and "booking_write_error (TenantID claims) d result = None"
    and "d' = d\<lparr>truck_bookings := update_where (update_target claims b)
           (set_columns (mutate (b\<lparr>b_Status := next, b_UpdatedAt := clk e 0,
             b_Version := wrap64 (b_Version b + 1)\<rparr>))) (truck_bookings d),
           platform_outbox := platform_outbox d @ [o1]\<rparr>"
    and "o_TenantID o1 = TenantID claims" "o_Topic o1 = TopicBooking" "o_EventType o1 = ty"
    and "LedgerCommitHash (ev_Provenance (o_Payload o1)) = lh"
proof -
  from assms obtain row where f: "find (update_target claims b) (truck_bookings d) = Some row"
    by (auto simp: transitionTx_def Let_def split: if_splits option.splits)
  show thesis
    using assms f
    by (auto simp: transitionTx_def Let_def bindE_Inr_iff split: if_splits option.splits
        dest!: emit_frame intro!: that)
qed

text \<open>
  A transition of a row the transaction has read is one booking update and one
  outbox row, provided the mutation respects the rules of \<open>booking_change\<close>.
\<close>

lemma transitionTx_writes:
  assumes tr: "transitionTx st claims b next mutate ty ext pr lh e d = Inr (result, d')"
    and k: "keys_ok d" and b: "b \<in> set (truck_bookings d)" "b_TenantID b = TenantID claims"
    and u: "u = mutate (b\<lparr>b_Status := next, b_UpdatedAt := clk e 0, b_Version := wrap64 (b_Version b + 1)\<rparr>)"
    and fixed: "b_Status u = next" "b_Version u = wrap64 (b_Version b + 1)"
    and slot: "if next = B_SLOT_RESERVED then has_slot d (set_columns u b) else b_SlotID u = b_SlotID b"
    and receipt: "if b_Status b = B_SLOT_RESERVED \<and> next = B_PAID then has_receipt d (set_columns u b)
          else b_PaymentReceiptRef u = b_PaymentReceiptRef b"
    and gate: "next = B_GATE_APPROVED \<Longrightarrow> gate_cleared d (set_columns u b)"
    and ledger: "next = B_COMPLETED \<or> next = B_REFUNDED \<Longrightarrow> ledger_recorded u"
  shows "db_writes (TenantID claims) d d' \<and> result = set_columns u b
    \<and> (\<exists>o1. d' = d\<lparr>truck_bookings := replace_row b_BookingID result (truck_bookings d),
          platform_outbox := platform_outbox d @ [o1]\<rparr> \<and> o_TenantID o1 = TenantID claims \<and> o_EventType o1 = ty
          \<and> LedgerCommitHash (ev_Provenance (o_Payload o1)) = lh)"
  using tr
proof (rule transitionTx_InrE)
  fix row o1
  assume v: "booking_ValidTransition (b_Status b) next"
    and f: "find (update_target claims b) (truck_bookings d) = Some row"
    and r: "result = set_columns (mutate (b\<lparr>b_Status := next, b_UpdatedAt := clk e 0,
             b_Version := wrap64 (b_Version b + 1)\<rparr>)) row"
    and w: "booking_write_error (TenantID claims) d result = None"
    and d': "d' = d\<lparr>truck_bookings := update_where (update_target claims b)
             (set_columns (mutate (b\<lparr>b_Status := next, b_UpdatedAt := clk e 0,
               b_Version := wrap64 (b_Version b + 1)\<rparr>))) (truck_bookings d),
             platform_outbox := platform_outbox d @ [o1]\<rparr>"
    and o1: "o_TenantID o1 = TenantID claims" "o_EventType o1 = ty"
      "LedgerCommitHash (ev_Provenance (o_Payload o1)) = lh"
  have dist: "distinct (map b_BookingID (truck_bookings d))" using k by (simp add: keys_ok_def)
  have "row = b"
    using find_SomeD [OF f] b dist by (auto simp: update_target_def dest: distinct_key_eq)
  with r u have res: "result = set_columns u b" by simp
  have upd: "update_where (update_target claims b) (set_columns u) (truck_bookings d)
      = replace_row b_BookingID result (truck_bookings d)"
    unfolding res using b by (intro update_where_replace [OF dist]) (auto simp: update_target_def)
  have "booking_change (TenantID claims) d b result"
    unfolding booking_change_def
    using v w b(2) fixed slot receipt gate ledger res
    by (auto simp: row_step_def ledger_recorded_def set_columns_def)
  then have "db_write (TenantID claims) d (d\<lparr>truck_bookings := replace_row b_BookingID result (truck_bookings d)\<rparr>)"
    by (rule booking_update [OF b(1)])
  moreover have "db_write (TenantID claims) (d\<lparr>truck_bookings := replace_row b_BookingID result (truck_bookings d)\<rparr>) d'"
    using outbox_append [OF o1(1), of "d\<lparr>truck_bookings := replace_row b_BookingID result (truck_bookings d)\<rparr>"]
    by (simp add: d' u [symmetric] upd)
  ultimately have "db_writes (TenantID claims) d d'" by (meson converse_rtranclp_into_rtranclp r_into_rtranclp)
  moreover have "d' = d\<lparr>truck_bookings := replace_row b_BookingID result (truck_bookings d),
      platform_outbox := platform_outbox d @ [o1]\<rparr>"
    by (simp add: d' u [symmetric] upd)
  ultimately show ?thesis using res o1 by blast
qed

lemma getForUpdate_InrD:
  "getForUpdate claims d k = Inr b \<Longrightarrow>
   find_booking (TenantID claims) d k = Some b \<and> b \<in> set (truck_bookings d)
   \<and> b_TenantID b = TenantID claims \<and> b_BookingID b = k"
  by (auto simp: getForUpdate_def dest: find_booking_SomeD)

lemma slotCapacityFree_InrD:
  "slotCapacityFree claims d k = Inr (free, s) \<Longrightarrow>
   s \<in> set (terminal_slots d) \<and> s_TenantID s = TenantID claims \<and> s_SlotID s = k \<and>
   (free \<longleftrightarrow> count_rows (\<lambda>b. b_TenantID b = TenantID claims \<and> in_slot k b) (truck_bookings d) < s_Capacity s)"
  by (auto simp: slotCapacityFree_def bindE_Inr_iff dest!: find_slot_SomeD)

section \<open>Operations on terminals and slots, creation\<close>

lemma CreateTerminal_writes:
  "CreateTerminal_work t p n fee claims d = Inr (a, d') \<Longrightarrow> db_writes (TenantID claims) d d'"
  by (auto simp: CreateTerminal_work_def list_ex_iff split: if_splits intro!: r_into_rtranclp terminal_insert)

lemma CreateSlot_writes:
  "CreateSlot_work t from to cap e claims d = Inr (a, d') \<Longrightarrow> from < to \<Longrightarrow> 1 \<le> cap \<Longrightarrow>
   db_writes (TenantID claims) d d'"
  by (auto simp: CreateSlot_work_def bindE_Inr_iff Let_def list_ex_iff split: if_splits
      intro!: r_into_rtranclp slot_insert)

lemma new_booking_simps [simp]:
  "b_BookingID (new_booking claims r pr e) = rnd e 0" "b_TenantID (new_booking claims r pr e) = TenantID claims"
  "b_RequestID (new_booking claims r pr e) = cr_RequestID r" "b_TerminalID (new_booking claims r pr e) = cr_TerminalID r"
  "b_SlotID (new_booking claims r pr e) = None" "b_PaymentReceiptRef (new_booking claims r pr e) = None"
  "b_Version (new_booking claims r pr e) = 1" "b_LedgerCommitHash (new_booking claims r pr e) = None"
  "b_Status (new_booking claims r pr e) = (if cr_Channel r = ChannelOffline then B_PENDING_SYNC else B_DRAFTED)"
  "b_AmountKobo (new_booking claims r pr e) = cr_AmountKobo r" "b_CreatedBy (new_booking claims r pr e) = Some (pr_ID pr)"
  by (simp_all add: new_booking_def split: prod.splits)

lemma createTx_InrE:
  assumes "createTx st r pr e claims d = Inr (b, d')"
  obtains (replay) "find_request (TenantID claims) d (cr_RequestID r) = Some b" and "same_request b r" and "d' = d"
  | (created) o1 where "find_request (TenantID claims) d (cr_RequestID r) = None"
    and "b = new_booking claims r pr e" and "\<forall>x\<in>set (truck_bookings d). b_BookingID x \<noteq> b_BookingID b"
    and "find_terminal (TenantID claims) d (cr_TerminalID r) \<noteq> None" and "truck_bookings_check b"
    and "d' = d\<lparr>truck_bookings := truck_bookings d @ [b], platform_outbox := platform_outbox d @ [o1]\<rparr>"
    and "o_TenantID o1 = TenantID claims" and "cr_ContainerID r \<noteq> [] \<longrightarrow> st_releaseVerifier st \<noteq> None"
proof -
  let ?b = "new_booking claims r pr e"
  from assms obtain t where t: "find_terminal (TenantID claims) d (cr_TerminalID r) = Some t" "t_Active t"
      "release_check st claims r d = None"
    by (auto simp: createTx_def bindE_Inr_iff)
  have w: "booking_write_error (TenantID claims) d ?b = None"
    using assms t by (auto simp: createTx_def ensure_def Let_def split: option.splits)
  have rel: "cr_ContainerID r \<noteq> [] \<longrightarrow> st_releaseVerifier st \<noteq> None"
    using t(3) by (auto simp: release_check_def split: if_splits option.splits)
  show thesis
  proof (cases "find_request (TenantID claims) d (cr_RequestID r)")
    case (Some x)
    with assms t w show thesis
      by (intro replay) (auto simp: createTx_def ensure_def Let_def split: if_splits)
  next
    case None
    with assms t w have fresh: "\<forall>x\<in>set (truck_bookings d). b_BookingID x \<noteq> b_BookingID ?b" and b: "b = ?b"
      and "\<exists>ty. emit claims TopicBooking ty (b_RequestID ?b) (b_BookingID ?b) (BookingPayload ?b)
        [(''terminal-id'', b_TerminalID ?b), (''channel'', channel_text (b_Channel ?b))] pr [] (clk e 0) (st_signer st)
        (later 0 1 e) (d\<lparr>truck_bookings := truck_bookings d @ [?b]\<rparr>) = Inr d'"
      by (auto simp: createTx_def ensure_def Let_def bindE_Inr_iff list_ex_iff split: if_splits)
    then obtain o1 where "d' = d\<lparr>truck_bookings := truck_bookings d @ [?b], platform_outbox := platform_outbox d @ [o1]\<rparr>"
        "o_TenantID o1 = TenantID claims"
      by (auto dest!: emit_frame)
    with None b fresh t rel booking_write_ok(2) [OF w] show thesis by (intro created) auto
  qed
qed

lemma createTx_writes:
  assumes "createTx st r pr e claims d = Inr (b, d')"
  shows "db_writes (TenantID claims) d d'"
  using assms
proof (cases rule: createTx_InrE)
  case (created o1)
  let ?d1 = "d\<lparr>truck_bookings := truck_bookings d @ [b]\<rparr>"
  have "\<forall>x\<in>set (truck_bookings d). \<not> (b_TenantID x = TenantID claims \<and> b_RequestID x = b_RequestID b)"
    using created(1,2) by (auto simp: find_request_def find_None_iff)
  with created have "db_write (TenantID claims) d ?d1"
    by (intro booking_insert) auto
  moreover have "db_write (TenantID claims) ?d1 d'"
    using outbox_append [OF created(7), of ?d1] created(6) by simp
  ultimately show ?thesis by (meson converse_rtranclp_into_rtranclp r_into_rtranclp)
qed simp

section \<open>Reservation, reconciliation and payment\<close>

lemma reserve_writes:
  assumes "transitionTx st claims b B_SLOT_RESERVED
      (\<lambda>u. u\<lparr>b_SlotID := Some slotID, b_ReconciliationReason := None\<rparr>) ty ext pr lh e d = Inr (r, d')"
    and "keys_ok d" and "b \<in> set (truck_bookings d)" "b_TenantID b = TenantID claims"
    and "s \<in> set (terminal_slots d)" "s_TenantID s = TenantID claims" "s_SlotID s = slotID"
      "s_TerminalID s = b_TerminalID b"
  shows "db_writes (TenantID claims) d d'"
proof -
  let ?u = "b\<lparr>b_Status := B_SLOT_RESERVED, b_UpdatedAt := clk e 0, b_Version := wrap64 (b_Version b + 1),
      b_SlotID := Some slotID, b_ReconciliationReason := None\<rparr>"
  have "has_slot d (set_columns ?u b)" using assms(4-8) by (auto simp: has_slot_def)
  then show ?thesis
    using transitionTx_writes [OF assms(1-4), of ?u] by simp
qed

lemma ReserveSlot_writes:
  "ReserveSlot_work st k slotID ver pr e claims d = Inr (r, d') \<Longrightarrow> keys_ok d \<Longrightarrow> db_writes (TenantID claims) d d'"
  by (auto simp: ReserveSlot_work_def bindE_Inr_iff dest!: getForUpdate_InrD slotCapacityFree_InrD
      intro: reserve_writes)

lemma Reconcile_writes:
  assumes "Reconcile_work st k slotID ver pr e claims d = Inr (r, d')" and "keys_ok d"
  shows "db_writes (TenantID claims) d d'"
proof -
  from assms(1) obtain b free s where g: "getForUpdate claims d k = Inr b"
    and c: "slotCapacityFree claims d slotID = Inr (free, s)"
    and X: "(if s_TerminalID s \<noteq> b_TerminalID b \<or> \<not> clk e 0 < s_EndsAt s \<or> \<not> free
       then let reason = (if s_TerminalID s \<noteq> b_TerminalID b then ''slot terminal mismatch on reconnect''
                          else if \<not> clk e 1 < s_EndsAt s then ''slot window elapsed on reconnect''
                          else ''slot capacity exhausted on reconnect'')
            in transitionTx st claims b B_RECONCILIATION_REQUIRED
                 (\<lambda>u. u\<lparr>b_ReconciliationReason := Some reason\<rparr>)
                 ''booking.reconciliation_required'' [(''slot-id'', slotID), (''reason'', reason)] pr [] (later 2 0 e) d
       else transitionTx st claims b B_SLOT_RESERVED
              (\<lambda>u. u\<lparr>b_SlotID := Some slotID, b_ReconciliationReason := None\<rparr>)
              ''booking.reconciled'' [(''slot-id'', slotID), (''terminal-id'', b_TerminalID b)] pr [] (later 2 0 e) d)
       = Inr (r, d')"
    by (auto simp: Reconcile_work_def bindE_Inr_iff)
  have b: "b \<in> set (truck_bookings d)" "b_TenantID b = TenantID claims"
    using getForUpdate_InrD [OF g] by auto
  have s: "s \<in> set (terminal_slots d)" "s_TenantID s = TenantID claims" "s_SlotID s = slotID"
    using slotCapacityFree_InrD [OF c] by auto
  show ?thesis
  proof (cases "s_TerminalID s \<noteq> b_TerminalID b \<or> \<not> clk e 0 < s_EndsAt s \<or> \<not> free")
    case True
    then obtain reason ty ext where "transitionTx st claims b B_RECONCILIATION_REQUIRED
        (\<lambda>u. u\<lparr>b_ReconciliationReason := Some reason\<rparr>) ty ext pr [] (later 2 0 e) d = Inr (r, d')"
      using X by (simp only: if_True Let_def)
    from transitionTx_writes [OF this assms(2) b refl] show ?thesis by simp
  next
    case False
    then have "transitionTx st claims b B_SLOT_RESERVED (\<lambda>u. u\<lparr>b_SlotID := Some slotID, b_ReconciliationReason := None\<rparr>)
        ''booking.reconciled'' [(''slot-id'', slotID), (''terminal-id'', b_TerminalID b)] pr [] (later 2 0 e) d = Inr (r, d')"
      using X by (simp only: if_False)
    with False show ?thesis using reserve_writes [OF _ assms(2) b s] by blast
  qed
qed

lemma CreatePaymentIntent_writes:
  assumes "CreatePaymentIntent_work k req ref ver e claims d = Inr (i, d')"
  shows "db_writes (TenantID claims) d d'"
proof -
  from assms obtain b where g: "getForUpdate claims d k = Inr b" by (auto simp: CreatePaymentIntent_work_def bindE_Inr_iff)
  with assms have "d' = d \<or> (d' = d\<lparr>booking_payment_intents := booking_payment_intents d @ [i]\<rparr>
      \<and> i_TenantID i = TenantID claims \<and> i_Status i = ''REQUESTED'' \<and> i_BookingID i = k \<and> b_AmountKobo b = i_AmountKobo i)"
    by (auto simp: CreatePaymentIntent_work_def bindE_Inr_iff Let_def split: option.splits if_splits)
  then show ?thesis using getForUpdate_InrD [OF g] intent_insert [of i "TenantID claims" b d] by auto
qed

lemma ConfirmPayment_cases:
  assumes "ConfirmPayment_work st k ref ver pr e claims d = Inr (r, d')"
  obtains (replay) "find_booking (TenantID claims) d k = Some r" and "b_Status r = B_PAID"
    and "b_PaymentReceiptRef r = Some ref" and "d' = d"
  | (paid) b i ext where "b \<in> set (truck_bookings d)" and "b_TenantID b = TenantID claims" and "b_BookingID b = k"
    and "b_Status b = B_SLOT_RESERVED" and "b_Version b = ver"
    and "i \<in> set (booking_payment_intents d)" and "matching_intent claims k ref i"
    and "transitionTx st claims b B_PAID (\<lambda>u. u\<lparr>b_PaymentReceiptRef := Some ref\<rparr>) ''booking.paid'' ext pr [] e
      (d\<lparr>booking_payment_intents := update_where (matching_intent claims k ref)
           (\<lambda>i. i\<lparr>i_Status := ''COMPLETED''\<rparr>) (booking_payment_intents d)\<rparr>) = Inr (r, d')"
proof -
  from assms obtain b where g: "getForUpdate claims d k = Inr b"
    by (auto simp: ConfirmPayment_work_def bindE_Inr_iff)
  note rest = assms g
  have b: "find_booking (TenantID claims) d k = Some b" "b \<in> set (truck_bookings d)"
      "b_TenantID b = TenantID claims" "b_BookingID b = k"
    using getForUpdate_InrD [OF g] by auto
  show thesis
  proof (cases "b_Status b = B_PAID \<and> b_PaymentReceiptRef b = Some ref")
    case True
    with rest b(1) show thesis by (intro replay) (auto simp: ConfirmPayment_work_def)
  next
    case False
    with rest have "b_Version b = ver" "b_Status b = B_SLOT_RESERVED"
      and n: "count_rows (matching_intent claims k ref) (booking_payment_intents d) \<noteq> 0"
      and tr: "transitionTx st claims b B_PAID (\<lambda>u. u\<lparr>b_PaymentReceiptRef := Some ref\<rparr>) ''booking.paid''
           [(''payment-receipt-ref'', ref), (''amount-kobo'', fmt_d (b_AmountKobo b))] pr [] e
          (d\<lparr>booking_payment_intents := update_where (matching_intent claims k ref)
               (\<lambda>i. i\<lparr>i_Status := ''COMPLETED''\<rparr>) (booking_payment_intents d)\<rparr>) = Inr (r, d')"
      by (auto simp: ConfirmPayment_work_def bindE_Inr_iff split: if_splits sum.splits)
    moreover from n obtain i where "i \<in> set (booking_payment_intents d)" "matching_intent claims k ref i"
      by (auto simp: count_rows_zero_iff)
    ultimately show thesis using b by (intro paid) auto
  qed
qed

lemma ConfirmPayment_writes:
  assumes "ConfirmPayment_work st k ref ver pr e claims d = Inr (r, d')" and "keys_ok d"
  shows "db_writes (TenantID claims) d d'"
  using assms(1)
proof (cases rule: ConfirmPayment_cases)
  case (paid b i ext)
  let ?d1 = "d\<lparr>booking_payment_intents := update_where (matching_intent claims k ref)
       (\<lambda>i. i\<lparr>i_Status := ''COMPLETED''\<rparr>) (booking_payment_intents d)\<rparr>"
  let ?u = "b\<lparr>b_Status := B_PAID, b_UpdatedAt := clk e 0, b_Version := wrap64 (b_Version b + 1),
      b_PaymentReceiptRef := Some ref\<rparr>"
  have w: "db_write (TenantID claims) d ?d1"
    by (rule intents_complete) (simp add: matching_intent_def pending_intent_def)
  have "i\<lparr>i_Status := ''COMPLETED''\<rparr> \<in> set (booking_payment_intents ?d1)"
    using paid(6,7) by (auto simp: set_update_where)
  moreover have "i_MojaloopTxRef i = ref" "i_TenantID i = TenantID claims" "i_BookingID i = k"
    using paid(7) by (simp_all add: matching_intent_def pending_intent_def)
  ultimately have "has_receipt ?d1 (set_columns ?u b)"
    using paid(2,3) unfolding has_receipt_def by (intro bexI [of _ "i\<lparr>i_Status := ''COMPLETED''\<rparr>"]) simp_all
  then have "db_writes (TenantID claims) ?d1 d'"
    using transitionTx_writes [OF paid(8) keys_ok_write [OF w assms(2)], of ?u] paid(1,2,4) by simp
  with w show ?thesis by (rule converse_rtranclp_into_rtranclp)
qed simp

section \<open>Customs and the gate\<close>

text \<open>A transition whose mutation leaves slot and receipt alone, for the other target states.\<close>

lemma plain_transition_writes:
  assumes "transitionTx st claims b next mutate ty ext pr lh e d = Inr (r, d')"
    and "keys_ok d" and "b \<in> set (truck_bookings d)" "b_TenantID b = TenantID claims"
    and "\<And>u. b_Status (mutate u) = b_Status u" "\<And>u. b_Version (mutate u) = b_Version u"
      "\<And>u. b_SlotID (mutate u) = b_SlotID u" "\<And>u. b_PaymentReceiptRef (mutate u) = b_PaymentReceiptRef u"
    and "next \<notin> {B_SLOT_RESERVED, B_GATE_APPROVED}" "\<not> (b_Status b = B_SLOT_RESERVED \<and> next = B_PAID)"
    and "next = B_COMPLETED \<or> next = B_REFUNDED \<Longrightarrow> (\<And>u. ledger_recorded (mutate u))"
  shows "db_writes (TenantID claims) d d' \<and> truck_bookings d' = replace_row b_BookingID r (truck_bookings d)
    \<and> b_BookingID r = b_BookingID b"
  using transitionTx_writes [OF assms(1-4) refl] assms(5-11) by auto

lemma BeginCustomsValidation_writes:
  assumes "BeginCustomsValidation_work st k pr e claims d = Inr (r, d')" and "keys_ok d"
  shows "db_writes (TenantID claims) d d'"
proof -
  from assms(1) obtain b where g: "getForUpdate claims d k = Inr b"
    and alt: "d' = d \<or> (\<exists>ext. transitionTx st claims b B_VALIDATION_PENDING (\<lambda>u. u)
       ''booking.customs_validation_pending'' ext pr [] e d = Inr (r, d'))"
    by (auto simp: BeginCustomsValidation_work_def bindE_Inr_iff split: option.splits if_splits)
  from alt show ?thesis
    using plain_transition_writes [OF _ assms(2)] getForUpdate_InrD [OF g] by fastforce
qed

lemma RecordCustomsValidation_writes:
  assumes "RecordCustomsValidation_work st k ev by1 pr e claims d = Inr (r, d')" and "keys_ok d"
  shows "db_writes (TenantID claims) d d'"
proof -
  let ?v = "new_validation claims k ev by1 e"
  let ?next = "if e_Decision ev = DecisionMismatch then B_REJECTED else B_PAID"
  from assms(1) obtain b d1 ext where g: "getForUpdate claims d k = Inr b"
    and b: "b_Status b = B_VALIDATION_PENDING" "b_CargoDeclarationRef b = Some (e_DeclarationRef ev)"
    and v: "insert_validation ?v d = Inr d1"
    and tr: "transitionTx st claims b ?next (\<lambda>u. u) ''booking.customs_validated'' ext pr [] (later 1 1 e) d1 = Inr (r, d')"
    unfolding RecordCustomsValidation_work_def bindE_Inr_iff ensure_Inr by blast
  note b' = getForUpdate_InrD [OF g]
  from v have d1: "d1 = d\<lparr>customs_validations := customs_validations d @ [?v]\<rparr>" and chk: "customs_validations_check ?v"
    by (auto simp: insert_validation_def split: if_splits)
  have w: "db_write (TenantID claims) d d1"
    unfolding d1 using b b' chk by (intro validation_insert) (auto simp: new_validation_def)
  have "db_writes (TenantID claims) d1 d'"
    using plain_transition_writes [OF tr keys_ok_write [OF w assms(2)]] b b' d1
    by (cases "e_Decision ev = DecisionMismatch") auto
  with w show ?thesis by (rule converse_rtranclp_into_rtranclp)
qed

text \<open>The gate controller lets a booking through exactly in this situation.\<close>

definition gate_conditions :: "Claims \<Rightarrow> db \<Rightarrow> BookingRow \<Rightarrow> time \<Rightarrow> bool" where
  "gate_conditions claims d b at \<longleftrightarrow>
     b_Status b = B_PAID \<and> b_PaymentReceiptRef b \<noteq> None \<and>
     (b_CargoDeclarationRef b \<noteq> None \<longrightarrow> hasCustomsMatch claims d (b_BookingID b)) \<and>
     (\<exists>slotID s. b_SlotID b = Some slotID \<and> find_slot (TenantID claims) d slotID = Some s
        \<and> s_StartsAt s \<le> at \<and> at \<le> s_EndsAt s)"

lemma gate_denial_None: "gate_denial claims d b at = None \<longleftrightarrow> gate_conditions claims d b at"
  by (auto simp: gate_denial_def gate_conditions_def split: option.splits if_splits)

lemma insert_scan_InrD:
  "insert_scan what g d = Inr d' \<Longrightarrow> d' = d\<lparr>gate_scans := gate_scans d @ [g]\<rparr> \<and> gate_scans_check g"
  by (auto simp: insert_scan_def split: if_splits)

lemma deny_never_Inr: "deny st b scan reason pr e claims d \<noteq> Inr x"
  by (auto simp: deny_def Let_def bindE_Inr_iff)

lemma RecordGateScan_InrE:
  assumes "RecordGateScan_work st k gateID by1 at pr e claims d = Inr ((scan, r), d')"
  obtains b d1 d2 o1 ext where "getForUpdate claims d k = Inr b" and "gate_conditions claims d b at"
    and "d1 = d\<lparr>gate_scans := gate_scans d @ [scan]\<rparr>" and "gate_scans_check scan"
    and "scan = \<lparr>g_ScanID = rnd e 0, g_TenantID = TenantID claims, g_BookingID = k, g_GateID = gateID,
           g_ScannedBy = by1, g_Decision = ''APPROVED'', g_DenialReason = None, g_ScannedAt = at\<rparr>"
    and "transitionTx st claims b B_GATE_APPROVED (\<lambda>u. u\<lparr>b_GateID := Some gateID\<rparr>) ''booking.gate_approved''
           ext pr [] (later 0 1 e) d1 = Inr (r, d2)"
    and "d' = d2\<lparr>platform_outbox := platform_outbox d2 @ [o1]\<rparr>" and "o_TenantID o1 = TenantID claims"
    and "o_Topic o1 = TopicGate" and "o_EventType o1 = ''gate.scan_approved''"
proof -
  from assms obtain b where g: "getForUpdate claims d k = Inr b"
    by (auto simp: RecordGateScan_work_def bindE_Inr_iff)
  have c: "gate_denial claims d b at = None"
    using assms g
    by (cases "gate_denial claims d b at") (simp_all add: RecordGateScan_work_def Let_def deny_never_Inr)
  show thesis
    using assms g c
    by (auto simp: RecordGateScan_work_def Let_def bindE_Inr_iff gate_denial_None
        dest!: insert_scan_InrD emit_frame intro!: that)
qed

lemma RecordGateScan_writes:
  assumes "RecordGateScan_work st k gateID by1 at pr e claims d = Inr (a, d')" and "keys_ok d"
  shows "db_writes (TenantID claims) d d'"
proof -
  obtain scan r where a: "a = (scan, r)" by (cases a) blast
  from assms(1) [unfolded a] show ?thesis
  proof (cases rule: RecordGateScan_InrE)
    case (1 b d1 d2 o1 ext)
    note b = getForUpdate_InrD [OF 1(1)]
    have w: "db_write (TenantID claims) d d1" unfolding 1(3) by (rule scan_insert) (simp add: 1(5))
    let ?u = "b\<lparr>b_Status := B_GATE_APPROVED, b_UpdatedAt := clk (later 0 1 e) 0,
        b_Version := wrap64 (b_Version b + 1), b_GateID := Some gateID\<rparr>"
    from 1(2) obtain s where s: "b_SlotID b = Some (s_SlotID s)" "s \<in> set (terminal_slots d)"
        "s_TenantID s = TenantID claims" "s_StartsAt s \<le> at" "at \<le> s_EndsAt s"
      by (auto simp: gate_conditions_def dest!: find_slot_SomeD)
    have "gate_cleared d1 (set_columns ?u b)"
      using s b 1(2,3,5)
      by (auto simp: gate_cleared_def gate_conditions_def hasCustomsMatch_def count_rows_pos_iff)
    then have "db_writes (TenantID claims) d1 d2"
      using transitionTx_writes [OF 1(6) keys_ok_write [OF w assms(2)], of ?u] b 1(3) by simp
    moreover have "db_write (TenantID claims) d2 d'"
      unfolding 1(7) by (rule outbox_append) (rule 1(8))
    ultimately show ?thesis using w by (meson converse_rtranclp_into_rtranclp rtranclp.rtrancl_into_rtrancl)
  qed
qed

section \<open>Completion, cancellation and expiry of a wired store\<close>

locale booking_store =
  fixes st :: "'l bstore"
  assumes listener: "st_listener st = Some l \<Longrightarrow> capacity_listener l"
    and refunder: "st_refunder st = Some r \<Longrightarrow> refund_rail r"
begin

lemma capacityReleased_writes:
  assumes "capacityReleased st claims b pr e d = Inr d'" and "keys_ok d"
  shows "db_writes (TenantID claims) d d' \<and> truck_bookings d' = truck_bookings d"
  using assms capacity_listener.release_writes [OF listener] capacity_listener.release_bookings [OF listener]
  by (fastforce simp: capacityReleased_def split: option.splits if_splits)

lemma refundIfPaid_hash:
  assumes "refundIfPaid st b w = (Inr h, w')"
  shows "h \<noteq> [] \<longleftrightarrow> b_Status b = B_PAID \<or> b_Status b = B_VALIDATION_PENDING"
  using assms refund_rail.refund_hash [OF refunder]
  by (auto simp: refundIfPaid_def split: if_splits option.splits prod.splits sum.splits)

lemma Complete_writes:
  assumes "Complete_work st k ver h pr e claims d = Inr (r, d')" and "keys_ok d" and "h \<noteq> []"
  shows "db_writes (TenantID claims) d d'"
proof -
  from assms(1) obtain b d1 where g: "getForUpdate claims d k = Inr b"
    and tr: "transitionTx st claims b B_COMPLETED (\<lambda>u. u\<lparr>b_LedgerCommitHash := Some h\<rparr>) ''booking.completed''
       [(''ledger-commit-hash'', h)] pr h e d = Inr (r, d1)"
    and rel: "capacityReleased st claims b pr (later 1 2 e) d1 = Inr d'"
    by (auto simp: Complete_work_def bindE_Inr_iff)
  have w: "db_writes (TenantID claims) d d1"
    using plain_transition_writes [OF tr assms(2)] getForUpdate_InrD [OF g] assms(3) by (simp add: ledger_recorded_def)
  with writes_evolve [OF w assms(2)] capacityReleased_writes [OF rel] show ?thesis by auto
qed

lemma close_mutation_simps [simp]:
  "b_Status (close_mutation reason h u) = b_Status u" "b_Version (close_mutation reason h u) = b_Version u"
  "b_SlotID (close_mutation reason h u) = b_SlotID u"
  "b_PaymentReceiptRef (close_mutation reason h u) = b_PaymentReceiptRef u"
  "h \<noteq> [] \<Longrightarrow> b_LedgerCommitHash (close_mutation reason h u) = Some h"
  by (simp_all add: close_mutation_def Let_def split: option.splits)

text \<open>Closing a booking with the hash \<open>refundIfPaid\<close> answered.\<close>

lemma close_booking_writes:
  assumes cl: "close_booking st claims b next reason h ty ext pr e d = Inr (r, d')" and k: "keys_ok d"
    and b: "b \<in> set (truck_bookings d)" "b_TenantID b = TenantID claims"
    and nx: "next \<in> {B_REFUNDED, B_CANCELLED, B_EXPIRED}" "next = B_REFUNDED \<longrightarrow> h \<noteq> []"
  shows "db_writes (TenantID claims) d d' \<and> truck_bookings d' = replace_row b_BookingID r (truck_bookings d)
    \<and> b_BookingID r = b_BookingID b \<and> b_Status r = next \<and> (h \<noteq> [] \<longrightarrow> b_LedgerCommitHash r = Some h)"
proof -
  let ?m = "close_mutation reason h"
  from cl obtain d1 where tr: "transitionTx st claims b next ?m ty ext pr h e d = Inr (r, d1)"
    and rel: "capacityReleased st claims b pr (later 1 2 e) d1 = Inr d'"
    by (auto simp: close_booking_def bindE_Inr_iff)
  have led: "ledger_recorded (?m u)" if "next = B_COMPLETED \<or> next = B_REFUNDED" for u
    using that nx by (auto simp: ledger_recorded_def)
  have "db_writes (TenantID claims) d d1 \<and> r = set_columns (?m (b\<lparr>b_Status := next, b_UpdatedAt := clk e 0,
      b_Version := wrap64 (b_Version b + 1)\<rparr>)) b
    \<and> (\<exists>o1. d1 = d\<lparr>truck_bookings := replace_row b_BookingID r (truck_bookings d),
          platform_outbox := platform_outbox d @ [o1]\<rparr> \<and> o_TenantID o1 = TenantID claims \<and> o_EventType o1 = ty
          \<and> LedgerCommitHash (ev_Provenance (o_Payload o1)) = h)"
    by (rule transitionTx_writes [OF tr k b refl]) (use led nx in auto)
  moreover from this writes_evolve [OF _ k] have "keys_ok d1" by blast
  ultimately show ?thesis
    using capacityReleased_writes [OF rel] by auto
qed

lemma Cancel_writes:
  assumes "Cancel_work st k ver reason pr e claims d w = (Inr (r, d'), w')" and "keys_ok d"
  obtains b h where "getForUpdate claims d k = Inr b" and "refundIfPaid st b w = (Inr h, w')"
    and "db_writes (TenantID claims) d d'" and "truck_bookings d' = replace_row b_BookingID r (truck_bookings d)"
    and "b_Status r = (if h \<noteq> [] then B_REFUNDED else B_CANCELLED)" and "h \<noteq> [] \<longrightarrow> b_LedgerCommitHash r = Some h"
    and "b_BookingID r = k"
proof -
  from assms(1) obtain b h ty ext where g: "getForUpdate claims d k = Inr b" and f: "refundIfPaid st b w = (Inr h, w')"
    and cl: "close_booking st claims b (if h \<noteq> [] then B_REFUNDED else B_CANCELLED) (Some reason) h ty ext pr e d = Inr (r, d')"
    by (auto simp: Cancel_work_def split: sum.splits if_splits prod.splits)
  note b = getForUpdate_InrD [OF g]
  show thesis
    using close_booking_writes [OF cl assms(2)] b g f by (intro that) auto
qed

lemma expire_loop_writes:
  assumes "expire_loop st claims now pr due e n d w = (Inr (m, d'), w')" and "keys_ok d"
    and "set due \<subseteq> set (truck_bookings d)" "distinct (map b_BookingID due)"
    and "\<forall>b\<in>set due. b_TenantID b = TenantID claims"
  shows "db_writes (TenantID claims) d d' \<and> m = n + len due"
  using assms
proof (induction due arbitrary: e n d w)
  case (Cons b due)
  from Cons.prems(1) obtain h w1 ty ext r d1 where f: "refundIfPaid st b w = (Inr h, w1)"
    and cl: "close_booking st claims b (if h \<noteq> [] then B_REFUNDED else B_EXPIRED) None h ty ext pr e d = Inr (r, d1)"
    and rest: "expire_loop st claims now pr due (later 3 4 e) (n + 1) d1 w1 = (Inr (m, d'), w')"
    by (auto split: sum.splits prod.splits)
  have c: "db_writes (TenantID claims) d d1" "truck_bookings d1 = replace_row b_BookingID r (truck_bookings d)"
    "b_BookingID r = b_BookingID b"
    using close_booking_writes [OF cl Cons.prems(2)] Cons.prems(3,5) by auto
  then have "keys_ok d1" using writes_evolve Cons.prems(2) by blast
  moreover have "set due \<subseteq> set (truck_bookings d1)"
  proof -
    have "set (truck_bookings d1) = insert r (set (truck_bookings d) - {b})"
      unfolding c(2) using Cons.prems(2,3) c(3) by (intro set_replace_row) (auto simp: keys_ok_def)
    moreover have "b \<notin> set due" using Cons.prems(4) by auto
    ultimately show ?thesis using Cons.prems(3) by auto
  qed
  ultimately show ?case
    using Cons.IH [OF rest] Cons.prems(4,5) c(1) by auto
qed simp

end

end
