(* ===== verification/Queue_Correct.thy ===== *)
theory Queue_Correct
  imports Booking_Correct
begin

text \<open>
  The call-up queue implements the abstract writes, and its \<open>CapacityReleased\<close> is
  a capacity listener, which wires the booking store to the queue.
\<close>

section \<open>The transition\<close>

lemma queue_getForUpdate_InrD:
  "queue_getForUpdate claims d k = Inr q \<Longrightarrow>
   q \<in> set (truck_queue_requests d) \<and> q_TenantID q = TenantID claims \<and> q_QueueRequestID q = k"
  by (auto simp: queue_getForUpdate_def dest: find_queue_SomeD)

lemma assign_position_tail: "assign_position tid d t = Inr p \<Longrightarrow> \<forall>x\<in>set (positions tid d t). x < p"
  by (auto simp: assign_position_def Let_def split: if_splits dest: Max_ge [OF finite_set])

lemma queue_transitionTx_writes:
  assumes tr: "queue_transitionTx qs claims q next mutate ty ext pr e d = Inr (result, d')"
    and k: "keys_ok d" and q: "q \<in> set (truck_queue_requests d)" "q_TenantID q = TenantID claims"
    and u: "u = mutate (q\<lparr>q_Status := next, q_UpdatedAt := clk e 0, q_Version := wrap64 (q_Version q + 1)\<rparr>)"
    and fixed: "q_Status u = next" "q_Version u = wrap64 (q_Version q + 1)"
    and pos: "if next = Q_QUEUED
        then \<exists>p. q_Position u = Some p \<and> (\<forall>x\<in>set (positions (TenantID claims) d (q_TerminalID q)). x < p)
        else q_Position u = q_Position q"
    and call: "next = Q_CALLED_UP \<Longrightarrow> head_of_queue (TenantID claims) d (q_TerminalID q) = Some q \<and>
        (\<exists>t. find_terminal (TenantID claims) d (q_TerminalID q) = Some t \<and>
             active_callups (TenantID claims) d (q_TerminalID q) < t_QueueCapacity t)"
    and time: "next = Q_ARRIVED \<Longrightarrow> in_time u"
  shows "db_writes (TenantID claims) d d' \<and> result = queue_set_columns u q
    \<and> (\<exists>o1. d' = d\<lparr>truck_queue_requests := replace_row q_QueueRequestID result (truck_queue_requests d),
          platform_outbox := platform_outbox d @ [o1]\<rparr> \<and> o_TenantID o1 = TenantID claims \<and> o_EventType o1 = ty)"
  using tr
proof (rule queue_transitionTx_InrE)
  fix row o1
  assume v: "queue_ValidTransition (q_Status q) next"
    and f: "find (queue_target claims q) (truck_queue_requests d) = Some row"
    and r: "result = queue_set_columns (mutate (q\<lparr>q_Status := next, q_UpdatedAt := clk e 0,
             q_Version := wrap64 (q_Version q + 1)\<rparr>)) row"
    and w: "queue_write_error (TenantID claims) d result = None"
    and d': "d' = d\<lparr>truck_queue_requests := update_where (queue_target claims q)
             (queue_set_columns (mutate (q\<lparr>q_Status := next, q_UpdatedAt := clk e 0,
               q_Version := wrap64 (q_Version q + 1)\<rparr>))) (truck_queue_requests d),
             platform_outbox := platform_outbox d @ [o1]\<rparr>"
    and o1: "o_TenantID o1 = TenantID claims" "o_EventType o1 = ty"
  have dist: "distinct (map q_QueueRequestID (truck_queue_requests d))" using k by (simp add: keys_ok_def)
  have "row = q"
    using find_SomeD [OF f] q dist by (auto simp: queue_target_def dest: distinct_key_eq)
  with r u have res: "result = queue_set_columns u q" by simp
  have upd: "update_where (queue_target claims q) (queue_set_columns u) (truck_queue_requests d)
      = replace_row q_QueueRequestID result (truck_queue_requests d)"
    unfolding res using q by (intro update_where_replace [OF dist]) (auto simp: queue_target_def)
  have "in_time result" if "next = Q_ARRIVED" using time [OF that] by (simp add: res in_time_def)
  then have "queue_change (TenantID claims) d q result"
    unfolding queue_change_def
    using v w q(2) fixed pos call res
    by (auto simp: row_step_def queue_set_columns_def)
  then have "db_write (TenantID claims) d
      (d\<lparr>truck_queue_requests := replace_row q_QueueRequestID result (truck_queue_requests d)\<rparr>)"
    by (rule queue_update [OF q(1)])
  moreover have "db_write (TenantID claims)
      (d\<lparr>truck_queue_requests := replace_row q_QueueRequestID result (truck_queue_requests d)\<rparr>) d'"
    using outbox_append [OF o1(1),
        of "d\<lparr>truck_queue_requests := replace_row q_QueueRequestID result (truck_queue_requests d)\<rparr>"]
    by (simp add: d' u [symmetric] upd)
  ultimately have "db_writes (TenantID claims) d d'" by (meson converse_rtranclp_into_rtranclp r_into_rtranclp)
  moreover have "d' = d\<lparr>truck_queue_requests := replace_row q_QueueRequestID result (truck_queue_requests d),
      platform_outbox := platform_outbox d @ [o1]\<rparr>"
    by (simp add: d' u [symmetric] upd)
  ultimately show ?thesis using res o1 by blast
qed

text \<open>The transitions that neither queue, call up nor admit a truck.\<close>

lemma queue_plain_writes:
  assumes "queue_transitionTx qs claims q next mutate ty ext pr e d = Inr (r, d')"
    and "keys_ok d" and "q \<in> set (truck_queue_requests d)" "q_TenantID q = TenantID claims"
    and "\<And>u. q_Status (mutate u) = q_Status u" "\<And>u. q_Version (mutate u) = q_Version u"
      "\<And>u. q_Position (mutate u) = q_Position u"
    and "next \<notin> {Q_QUEUED, Q_CALLED_UP, Q_ARRIVED}"
  shows "db_writes (TenantID claims) d d' \<and> keys_ok d' \<and> truck_bookings d' = truck_bookings d
    \<and> truck_queue_requests d' = replace_row q_QueueRequestID r (truck_queue_requests d)
    \<and> port_terminals d' = port_terminals d \<and> q_QueueRequestID r = q_QueueRequestID q
    \<and> q_TerminalID r = q_TerminalID q \<and> q_Status r = next"
proof -
  have *: "db_writes (TenantID claims) d d'"
    "r = queue_set_columns (mutate (q\<lparr>q_Status := next, q_UpdatedAt := clk e 0, q_Version := wrap64 (q_Version q + 1)\<rparr>)) q"
    "\<exists>o1. d' = d\<lparr>truck_queue_requests := replace_row q_QueueRequestID r (truck_queue_requests d),
          platform_outbox := platform_outbox d @ [o1]\<rparr>"
    using queue_transitionTx_writes [OF assms(1-4) refl] assms(5-8) by auto
  with writes_evolve [OF *(1) assms(2)] assms(5) show ?thesis by auto
qed

section \<open>Promotion\<close>

lemma promoteNextTx_cases:
  assumes "promoteNextTx qs claims t pr now e d = Inr (x, d')"
  obtains (idle) "x = None" and "d' = d" and "queue_validateTerminalID t = None"
    and "\<And>tm. find_terminal (TenantID claims) d t = Some tm \<Longrightarrow>
       t_QueueCapacity tm \<le> active_callups (TenantID claims) d t \<or> head_of_queue (TenantID claims) d t = None"
  | (promoted) tm head q ext where "x = Some q" and "find_terminal (TenantID claims) d t = Some tm"
    and "active_callups (TenantID claims) d t < t_QueueCapacity tm"
    and "head_of_queue (TenantID claims) d t = Some head"
    and "queue_transitionTx qs claims head Q_CALLED_UP
       (\<lambda>u. u\<lparr>q_CalledUpAt := Some now, q_GraceDeadline := Some (now + qs_graceWindow qs)\<rparr>)
       ''queue.called_up'' ext pr e d = Inr (q, d')"
  using assms
  by (auto simp: promoteNextTx_def bindE_Inr_iff Let_def lockTerminal_def split: if_splits option.splits)

lemma promoteNextTx_writes:
  assumes "promoteNextTx qs claims t pr now e d = Inr (x, d')" and "keys_ok d"
  shows "db_writes (TenantID claims) d d' \<and> keys_ok d' \<and> truck_bookings d' = truck_bookings d
    \<and> (\<forall>q\<in>set (truck_queue_requests d). q_Status q \<noteq> Q_QUEUED \<longrightarrow> q \<in> set (truck_queue_requests d'))"
  using assms(1)
proof (cases rule: promoteNextTx_cases)
  case (promoted tm head q ext)
  note h = head_of_queue_SomeD [OF promoted(4)]
  then have hd: "head \<in> set (truck_queue_requests d)" "q_TenantID head = TenantID claims" "q_TerminalID head = t"
    "q_Status head = Q_QUEUED" by (auto simp: queued_at_def)
  let ?u = "head\<lparr>q_Status := Q_CALLED_UP, q_UpdatedAt := clk e 0, q_Version := wrap64 (q_Version head + 1),
     q_CalledUpAt := Some now, q_GraceDeadline := Some (now + qs_graceWindow qs)\<rparr>"
  have *: "db_writes (TenantID claims) d d'" "q = queue_set_columns ?u head"
    "\<exists>o1. d' = d\<lparr>truck_queue_requests := replace_row q_QueueRequestID q (truck_queue_requests d),
          platform_outbox := platform_outbox d @ [o1]\<rparr>"
    using queue_transitionTx_writes [OF promoted(5) assms(2) hd(1,2), of ?u] promoted(2,3,4) hd(3) by auto
  from *(3) have t: "truck_queue_requests d' = replace_row q_QueueRequestID q (truck_queue_requests d)"
    and tb: "truck_bookings d' = truck_bookings d" by auto
  have "q_QueueRequestID q = q_QueueRequestID head" using *(2) by simp
  then have "set (truck_queue_requests d') = insert q (set (truck_queue_requests d) - {head})"
    unfolding t using hd(1) assms(2) by (intro set_replace_row) (simp_all add: keys_ok_def)
  then have "\<forall>q\<in>set (truck_queue_requests d). q_Status q \<noteq> Q_QUEUED \<longrightarrow> q \<in> set (truck_queue_requests d')"
    using hd(4) by auto
  with *(1) tb writes_evolve [OF *(1) assms(2)] show ?thesis by blast
qed (use assms(2) in simp)

lemma promoted_deadline:
  assumes "promoteNextTx qs claims t pr now e d = Inr (Some q, d')"
  shows "q_Status q = Q_CALLED_UP \<and> q_CalledUpAt q = Some now \<and> q_GraceDeadline q = Some (now + qs_graceWindow qs)"
  using assms
proof (cases rule: promoteNextTx_cases)
  case (promoted tm head q' ext)
  from promoted(1,5) show ?thesis
    by (elim queue_transitionTx_InrE) (simp add: queue_set_columns_def)
qed simp

lemma CapacityReleased_promotes:
  "CapacityReleased qs claims t pr e d = Inr d' \<Longrightarrow>
   \<exists>x. promoteNextTx qs claims t pr (clk e 0) (later 1 0 e) d = Inr (x, d')"
  by (auto simp: CapacityReleased_def bindE_Inr_iff)

lemma promoteNextTx_bookings:
  assumes "promoteNextTx qs claims t pr now e d = Inr (x, d')"
  shows "truck_bookings d' = truck_bookings d"
  using assms by (auto elim!: promoteNextTx_cases queue_transitionTx_InrE)

interpretation callup: capacity_listener "CapacityReleased qs"
proof unfold_locales
  fix claims t pr e d d'
  assume rel: "CapacityReleased qs claims t pr e d = Inr d'"
  show "truck_bookings d' = truck_bookings d"
    using CapacityReleased_promotes [OF rel] promoteNextTx_bookings by blast
  assume "keys_ok d"
  then show "db_writes (TenantID claims) d d'"
    using CapacityReleased_promotes [OF rel] promoteNextTx_writes by blast
qed

section \<open>Creation and configuration\<close>

lemma pending_booking_writes:
  assumes "pending_booking qs r channel pr t e claims d = Inr (k, d')"
  shows "db_writes (TenantID claims) d d' \<and> port_terminals d' = port_terminals d
    \<and> truck_queue_requests d' = truck_queue_requests d"
proof (cases "qc_BookingID r = []")
  case True
  with assms obtain req e' b where c: "createTx (qs_bookings qs) req pr e' claims d = Inr (b, d')"
    by (auto simp: pending_booking_def split: sum.splits)
  then show ?thesis using createTx_writes [OF c] by (auto elim: createTx_InrE)
next
  case False
  with assms show ?thesis by (auto simp: pending_booking_def split: if_splits)
qed

lemma new_queue_request_simps [simp]:
  "q_QueueRequestID (new_queue_request claims r k e) = rnd e 0" "q_TenantID (new_queue_request claims r k e) = TenantID claims"
  "q_TerminalID (new_queue_request claims r k e) = qc_TerminalID r" "q_Status (new_queue_request claims r k e) = Q_REQUESTED"
  "q_Position (new_queue_request claims r k e) = None" "q_Version (new_queue_request claims r k e) = 1"
  "q_PriorityClass (new_queue_request claims r k e) = qc_PriorityClass r"
  "q_IdempotencyKey (new_queue_request claims r k e) = qc_IdempotencyKey r"
  "q_BookingID (new_queue_request claims r k e) = Some k"
  by (simp_all add: new_queue_request_def)

lemma queue_createTx_InrE:
  assumes "queue_createTx qs r channel pr e claims d = Inr (q, d')"
  obtains t k d1 where "find_terminal (TenantID claims) d (qc_TerminalID r) = Some t"
    and "t_Active t" and "pending_booking qs r channel pr t e claims d = Inr (k, d1)"
    and "find_key (TenantID claims) d1 (qc_IdempotencyKey r) = Some q \<and> d' = d1 \<or>
     (\<exists>new d2 d3 o1 p ext. new = new_queue_request claims r k (later 2 3 e)
        \<and> find_key (TenantID claims) d1 (qc_IdempotencyKey r) = None
        \<and> queue_write_error (TenantID claims) d1 new = None
        \<and> (\<forall>x\<in>set (truck_queue_requests d1). q_QueueRequestID x \<noteq> q_QueueRequestID new)
        \<and> d2 = d1\<lparr>truck_queue_requests := truck_queue_requests d1 @ [new]\<rparr>
        \<and> d3 = d2\<lparr>platform_outbox := platform_outbox d2 @ [o1]\<rparr> \<and> o_TenantID o1 = TenantID claims
        \<and> assign_position (TenantID claims) d3 (qc_TerminalID r) = Inr p
        \<and> queue_transitionTx qs claims new Q_QUEUED (\<lambda>u. u\<lparr>q_Position := Some p\<rparr>) ''queue.position_assigned''
            ext pr (later 3 6 e) d3 = Inr (q, d'))"
proof -
  from assms obtain t k d1 where t: "find_terminal (TenantID claims) d (qc_TerminalID r) = Some t" "t_Active t"
    and p: "pending_booking qs r channel pr t e claims d = Inr (k, d1)"
    by (auto simp: queue_createTx_def bindE_Inr_iff lockTerminal_def)
  show thesis
  proof (rule that [OF t p])
    let ?new = "new_queue_request claims r k (later 2 3 e)"
    have w: "queue_write_error (TenantID claims) d1 ?new = None"
      using assms t p by (auto simp: queue_createTx_def lockTerminal_def ensure_def Let_def split: option.splits)
    show "find_key (TenantID claims) d1 (qc_IdempotencyKey r) = Some q \<and> d' = d1 \<or>
     (\<exists>new d2 d3 o1 p ext. new = ?new
        \<and> find_key (TenantID claims) d1 (qc_IdempotencyKey r) = None
        \<and> queue_write_error (TenantID claims) d1 new = None
        \<and> (\<forall>x\<in>set (truck_queue_requests d1). q_QueueRequestID x \<noteq> q_QueueRequestID new)
        \<and> d2 = d1\<lparr>truck_queue_requests := truck_queue_requests d1 @ [new]\<rparr>
        \<and> d3 = d2\<lparr>platform_outbox := platform_outbox d2 @ [o1]\<rparr> \<and> o_TenantID o1 = TenantID claims
        \<and> assign_position (TenantID claims) d3 (qc_TerminalID r) = Inr p
        \<and> queue_transitionTx qs claims new Q_QUEUED (\<lambda>u. u\<lparr>q_Position := Some p\<rparr>) ''queue.position_assigned''
            ext pr (later 3 6 e) d3 = Inr (q, d'))"
    proof (cases "find_key (TenantID claims) d1 (qc_IdempotencyKey r)")
      case None
      with assms t p w show ?thesis
        by (auto simp: queue_createTx_def lockTerminal_def ensure_def Let_def bindE_Inr_iff list_ex_iff
            split: if_splits dest!: emit_frame) blast
    next
      case (Some x)
      with assms t p w show ?thesis
        by (auto simp: queue_createTx_def lockTerminal_def ensure_def Let_def split: if_splits)
    qed
  qed
qed

lemma queue_createTx_writes:
  assumes "queue_createTx qs r channel pr e claims d = Inr (q, d')" and "keys_ok d"
  shows "db_writes (TenantID claims) d d'"
  using assms(1)
proof (cases rule: queue_createTx_InrE)
  case (1 t k d1)
  note pb = pending_booking_writes [OF 1(3)]
  have k1: "keys_ok d1" using pb writes_evolve assms(2) by blast
  from 1(4) show ?thesis
  proof (elim disjE exE conjE)
    fix new d2 d3 o1 p ext
    assume new: "new = new_queue_request claims r k (later 2 3 e)"
      and w: "queue_write_error (TenantID claims) d1 new = None"
      and fresh: "\<forall>x\<in>set (truck_queue_requests d1). q_QueueRequestID x \<noteq> q_QueueRequestID new"
      and d2: "d2 = d1\<lparr>truck_queue_requests := truck_queue_requests d1 @ [new]\<rparr>"
      and d3: "d3 = d2\<lparr>platform_outbox := platform_outbox d2 @ [o1]\<rparr>" "o_TenantID o1 = TenantID claims"
      and pos: "assign_position (TenantID claims) d3 (qc_TerminalID r) = Inr p"
      and tr: "queue_transitionTx qs claims new Q_QUEUED (\<lambda>u. u\<lparr>q_Position := Some p\<rparr>) ''queue.position_assigned''
            ext pr (later 3 6 e) d3 = Inr (q, d')"
    have "find_terminal (TenantID claims) d1 (qc_TerminalID r) = Some t"
      using 1(1) pb by (simp add: find_terminal_def)
    then have w2: "db_write (TenantID claims) d1 d2"
      unfolding d2 using new fresh queue_write_ok(2) [OF w] by (intro queue_insert) auto
    have w3: "db_write (TenantID claims) d2 d3" unfolding d3(1) by (rule outbox_append) (rule d3(2))
    have k3: "keys_ok d3" using w2 w3 k1 keys_ok_write by blast
    let ?u = "new\<lparr>q_Status := Q_QUEUED, q_UpdatedAt := clk (later 3 6 e) 0, q_Version := wrap64 (q_Version new + 1),
       q_Position := Some p\<rparr>"
    have "db_writes (TenantID claims) d3 d'"
      using queue_transitionTx_writes [OF tr k3, of ?u] d2 d3 new assign_position_tail [OF pos] by simp
    then show ?thesis using pb w2 w3 by (meson converse_rtranclp_into_rtranclp rtranclp_trans)
  next
    assume "d' = d1"
    with pb show ?thesis by simp
  qed
qed

lemma ConfigureTerminal_config:
  "ConfigureTerminal_work t c claims d = Inr (a, d') \<Longrightarrow> 1 \<le> c \<Longrightarrow> db_config (TenantID claims) d d'"
  by (auto simp: ConfigureTerminal_work_def db_config_def split: if_splits)

section \<open>Arrival, forfeiture, cancellation\<close>

text \<open>A transition followed by the promotion of the next truck.\<close>

lemma then_promote:
  assumes "db_writes (TenantID claims) d d1" and "keys_ok d"
    and "promoteNextTx qs claims t pr now e d1 = Inr (x, d')"
  shows "db_writes (TenantID claims) d d'"
proof -
  have "keys_ok d1" using writes_evolve [OF assms(1,2)] by blast
  from promoteNextTx_writes [OF assms(3) this] assms(1) show ?thesis by auto
qed

lemma Arrive_cases:
  assumes "Arrive_work qs k gateID ver pr e claims d = Inr ((a, x), d')"
  obtains (late) q g r d1 ext where "queue_getForUpdate claims d k = Inr q" and "called_up (q_Status q)"
    and "q_GraceDeadline q = Some g" and "g < clk e 0" and "a = None"
    and "queue_transitionTx qs claims q Q_FORFEITED
       (\<lambda>u. u\<lparr>q_ForfeitReason := Some ''arrived after the call-up grace window''\<rparr>) ''queue.forfeited'' ext pr (later 1 0 e) d
       = Inr (r, d1)"
    and "promoteNextTx qs claims (q_TerminalID q) pr (clk e 0) (later 2 2 e) d1 = Inr (x, d')"
  | (arrived) q r d1 ext where "queue_getForUpdate claims d k = Inr q" and "called_up (q_Status q)"
    and "\<And>g. q_GraceDeadline q = Some g \<Longrightarrow> clk e 0 \<le> g" and "a = Some r"
    and "queue_transitionTx qs claims q Q_ARRIVED (\<lambda>u. u\<lparr>q_ArrivedAt := Some (clk e 0), q_GateID := Some gateID\<rparr>)
       ''queue.arrived'' ext pr (later 1 0 e) d = Inr (r, d1)"
    and "promoteNextTx qs claims (q_TerminalID q) pr (clk e 0) (later 2 2 e) d1 = Inr (x, d')"
proof -
  from assms obtain q where q: "queue_getForUpdate claims d k = Inr q" "called_up (q_Status q)"
    by (auto simp: Arrive_work_def bindE_Inr_iff called_up_def)
  show thesis
  proof (cases "case q_GraceDeadline q of None \<Rightarrow> False | Some deadline \<Rightarrow> clk e 0 > deadline")
    case True
    with assms q obtain r d1 where "queue_transitionTx qs claims q Q_FORFEITED
         (\<lambda>u. u\<lparr>q_ForfeitReason := Some ''arrived after the call-up grace window''\<rparr>) ''queue.forfeited''
         [(''terminal-id'', q_TerminalID q), (''reason'', ''arrived after the call-up grace window'')] pr (later 1 0 e) d
         = Inr (r, d1)" "promoteNextTx qs claims (q_TerminalID q) pr (clk e 0) (later 2 2 e) d1 = Inr (x, d')" "a = None"
      by (auto simp: Arrive_work_def bindE_Inr_iff Let_def)
    with True q show thesis by (auto intro: late split: option.splits)
  next
    case False
    with assms q obtain r d1 where "queue_transitionTx qs claims q Q_ARRIVED
         (\<lambda>u. u\<lparr>q_ArrivedAt := Some (clk e 0), q_GateID := Some gateID\<rparr>) ''queue.arrived''
         [(''terminal-id'', q_TerminalID q), (''gate-id'', gateID)] pr (later 1 0 e) d
         = Inr (r, d1)" "promoteNextTx qs claims (q_TerminalID q) pr (clk e 0) (later 2 2 e) d1 = Inr (x, d')" "a = Some r"
      by (auto simp: Arrive_work_def bindE_Inr_iff Let_def)
    with False q show thesis by (intro arrived) auto
  qed
qed

lemma Arrive_writes:
  assumes "Arrive_work qs k gateID ver pr e claims d = Inr (y, d')" and "keys_ok d"
  shows "db_writes (TenantID claims) d d'"
proof -
  obtain a x where y: "y = (a, x)" by (cases y) blast
  from assms(1) [unfolded y] show ?thesis
  proof (cases rule: Arrive_cases)
    case (late q g r d1 ext)
    note q = queue_getForUpdate_InrD [OF late(1)]
    have "db_writes (TenantID claims) d d1"
      using queue_plain_writes [OF late(6) assms(2)] q by simp
    then show ?thesis using assms(2) late(7) by (rule then_promote)
  next
    case (arrived q r d1 ext)
    note q = queue_getForUpdate_InrD [OF arrived(1)]
    let ?u = "q\<lparr>q_Status := Q_ARRIVED, q_UpdatedAt := clk (later 1 0 e) 0, q_Version := wrap64 (q_Version q + 1),
        q_ArrivedAt := Some (clk e 0), q_GateID := Some gateID\<rparr>"
    have "in_time ?u" using arrived(3) by (simp add: in_time_def split: option.splits)
    then have "db_writes (TenantID claims) d d1"
      using queue_transitionTx_writes [OF arrived(5) assms(2), of ?u] q by simp
    then show ?thesis using assms(2) arrived(6) by (rule then_promote)
  qed
qed

lemma Depart_writes:
  assumes "Depart_work qs k ver pr e claims d = Inr (r, d')" and "keys_ok d"
  shows "db_writes (TenantID claims) d d'"
proof -
  from assms(1) obtain q ext where q: "queue_getForUpdate claims d k = Inr q"
    and tr: "queue_transitionTx qs claims q Q_EN_ROUTE (\<lambda>u. u) ''queue.en_route'' ext pr e d = Inr (r, d')"
    by (auto simp: Depart_work_def bindE_Inr_iff)
  show ?thesis using queue_plain_writes [OF tr assms(2)] queue_getForUpdate_InrD [OF q] by simp
qed

lemma forfeitTx_writes:
  assumes "forfeitTx qs claims q reason pr now e d = Inr ((r, x), d')" and "keys_ok d"
    and "q \<in> set (truck_queue_requests d)" "q_TenantID q = TenantID claims"
  shows "db_writes (TenantID claims) d d' \<and> keys_ok d'
    \<and> (\<forall>p\<in>set (truck_queue_requests d). p \<noteq> q \<longrightarrow> q_Status p \<noteq> Q_QUEUED \<longrightarrow> p \<in> set (truck_queue_requests d'))"
proof -
  from assms(1) obtain d1 ext where tr: "queue_transitionTx qs claims q Q_FORFEITED
       (\<lambda>u. u\<lparr>q_ForfeitReason := Some reason\<rparr>) ''queue.forfeited'' ext pr e d = Inr (r, d1)"
    and pm: "promoteNextTx qs claims (q_TerminalID q) pr now (later 1 2 e) d1 = Inr (x, d')"
    by (auto simp: forfeitTx_def bindE_Inr_iff)
  have t: "db_writes (TenantID claims) d d1" "keys_ok d1"
    "truck_queue_requests d1 = replace_row q_QueueRequestID r (truck_queue_requests d)"
    "q_QueueRequestID r = q_QueueRequestID q"
    using queue_plain_writes [OF tr assms(2-4)] by simp_all
  have "set (truck_queue_requests d1) = insert r (set (truck_queue_requests d) - {q})"
    unfolding t(3) using assms(2,3) t(4) by (intro set_replace_row) (simp_all add: keys_ok_def)
  with promoteNextTx_writes [OF pm t(2)] t(1) show ?thesis by (auto intro: rtranclp_trans)
qed

lemma promote_if_writes:
  assumes "promote_if c qs claims t pr e d1 = Inr (x, d')" and "db_writes (TenantID claims) d d1" and "keys_ok d"
  shows "db_writes (TenantID claims) d d'"
  using assms then_promote [OF assms(2,3)] by (auto simp: promote_if_def split: if_splits)

lemma queue_Cancel_writes:
  assumes "queue_Cancel_work qs k ver reason pr e claims d = Inr (a, d')" and "keys_ok d"
  shows "db_writes (TenantID claims) d d'"
proof -
  from assms(1) obtain q r d1 x ext where q: "queue_getForUpdate claims d k = Inr q"
    and tr: "queue_transitionTx qs claims q Q_CANCELLED (\<lambda>u. u\<lparr>q_ReconciliationReason := Some reason\<rparr>)
       ''queue.cancelled'' ext pr e d = Inr (r, d1)"
    and pm: "promote_if (called_up (q_Status q)) qs claims (q_TerminalID q) pr (later 1 2 e) d1 = Inr (x, d')"
    by (auto simp: queue_Cancel_work_def bindE_Inr_iff)
  have "db_writes (TenantID claims) d d1"
    using queue_plain_writes [OF tr assms(2)] queue_getForUpdate_InrD [OF q] by simp
  with pm show ?thesis using assms(2) by (rule promote_if_writes)
qed

lemma FlagReconciliation_writes:
  assumes "FlagReconciliation_work qs k ver reason pr e claims d = Inr (a, d')" and "keys_ok d"
  shows "db_writes (TenantID claims) d d'"
proof -
  from assms(1) obtain q r d1 x ext where q: "queue_getForUpdate claims d k = Inr q"
    and tr: "queue_transitionTx qs claims q Q_RECONCILIATION_REQUIRED
       (\<lambda>u. u\<lparr>q_ReconciliationReason := Some reason\<rparr>) ''queue.reconciliation_required'' ext pr e d = Inr (r, d1)"
    and pm: "promote_if (called_up (q_Status q)) qs claims (q_TerminalID q) pr (later 1 2 e) d1 = Inr (x, d')"
    by (auto simp: FlagReconciliation_work_def bindE_Inr_iff)
  have "db_writes (TenantID claims) d d1"
    using queue_plain_writes [OF tr assms(2)] queue_getForUpdate_InrD [OF q] by simp
  with pm show ?thesis using assms(2) by (rule promote_if_writes)
qed

lemma Requeue_writes:
  assumes "Requeue_work qs k ver pr e claims d = Inr (r, d')" and "keys_ok d"
  shows "db_writes (TenantID claims) d d'"
proof -
  from assms(1) obtain q p ext where q: "queue_getForUpdate claims d k = Inr q"
    and p: "assign_position (TenantID claims) d (q_TerminalID q) = Inr p"
    and tr: "queue_transitionTx qs claims q Q_QUEUED
       (\<lambda>u. u\<lparr>q_Position := Some p, q_ReconciliationReason := None, q_CalledUpAt := None, q_GraceDeadline := None\<rparr>)
       ''queue.position_assigned'' ext pr e d = Inr (r, d')"
    by (auto simp: Requeue_work_def bindE_Inr_iff)
  show ?thesis
    using queue_transitionTx_writes [OF tr assms(2) _ _ refl] queue_getForUpdate_InrD [OF q] assign_position_tail [OF p]
    by simp
qed

section \<open>Sweeps\<close>

lemma forfeit_loop_writes:
  assumes "forfeit_loop qs claims now pr due e d = Inr (ps, d')" and "keys_ok d"
    and "set due \<subseteq> set (truck_queue_requests d)" "distinct due"
    and "\<forall>q\<in>set due. q_TenantID q = TenantID claims \<and> q_Status q \<noteq> Q_QUEUED"
  shows "db_writes (TenantID claims) d d'"
  using assms
proof (induction due arbitrary: e d ps)
  case (Cons q due)
  from Cons.prems(1) obtain r x d1 ps' where f: "forfeitTx qs claims q ''call-up grace window elapsed'' pr now e d = Inr ((r, x), d1)"
    and rest: "forfeit_loop qs claims now pr due (later 2 4 e) d1 = Inr (ps', d')"
    by (auto simp: bindE_Inr_iff)
  have w: "db_writes (TenantID claims) d d1" "keys_ok d1"
    "\<forall>p\<in>set (truck_queue_requests d). p \<noteq> q \<longrightarrow> q_Status p \<noteq> Q_QUEUED \<longrightarrow> p \<in> set (truck_queue_requests d1)"
    using forfeitTx_writes [OF f Cons.prems(2)] Cons.prems(3,5) by auto
  have "set due \<subseteq> set (truck_queue_requests d1)"
    using Cons.prems(3-5) w(3) by fastforce
  with Cons.IH [OF rest w(2)] Cons.prems(4,5) w(1) show ?case by auto
qed simp

lemma stale_loop_writes:
  assumes "stale_loop qs claims pr due e d = Inr d'" and "keys_ok d"
    and "set due \<subseteq> set (truck_queue_requests d)" "distinct due" "\<forall>q\<in>set due. q_TenantID q = TenantID claims"
  shows "db_writes (TenantID claims) d d'"
  using assms
proof (induction due arbitrary: e d)
  case (Cons q due)
  from Cons.prems(1) obtain r d1 ext where tr: "queue_transitionTx qs claims q Q_EXPIRED (\<lambda>u. u) ''queue.expired'' ext pr e d = Inr (r, d1)"
    and rest: "stale_loop qs claims pr due (later 1 2 e) d1 = Inr d'"
    by (auto simp: bindE_Inr_iff)
  have w: "db_writes (TenantID claims) d d1" "keys_ok d1"
    "truck_queue_requests d1 = replace_row q_QueueRequestID r (truck_queue_requests d)"
    "q_QueueRequestID r = q_QueueRequestID q"
    using queue_plain_writes [OF tr Cons.prems(2)] Cons.prems(3,5) by simp_all
  have "set (truck_queue_requests d1) = insert r (set (truck_queue_requests d) - {q})"
    unfolding w(3) using Cons.prems(2,3) w(4) by (intro set_replace_row) (simp_all add: keys_ok_def)
  then have "set due \<subseteq> set (truck_queue_requests d1)" using Cons.prems(3,4) by auto
  with Cons.IH [OF rest w(2)] Cons.prems(4,5) w(1) show ?case by auto
qed simp

lemma promote_all_writes:
  "promote_all qs claims t pr now e d = Inr (ps, d') \<Longrightarrow> keys_ok d \<Longrightarrow> db_writes (TenantID claims) d d' \<and> keys_ok d'"
proof (induction qs claims t pr now e d arbitrary: ps rule: promote_all.induct)
  case (1 qs claims t pr now e d)
  from "1.prems"(1) obtain x d1 where p: "promoteNextTx qs claims t pr now e d = Inr (x, d1)"
    by (auto simp: promote_all.simps [of qs claims t pr now e d] split: sum.splits)
  note w = promoteNextTx_writes [OF p "1.prems"(2)]
  show ?case
  proof (cases x)
    case None
    with p "1.prems" w show ?thesis by (simp add: promote_all.simps [of qs claims t pr now e d])
  next
    case (Some q)
    with p "1.prems"(1) obtain ps' where "promote_all qs claims t pr now (later 1 2 e) d1 = Inr (ps', d')"
      by (auto simp: promote_all.simps [of qs claims t pr now e d] bindE_Inr_iff)
    then have "db_writes (TenantID claims) d1 d' \<and> keys_ok d'" using "1.IH" [OF p refl Some] w by blast
    with w show ?thesis by (blast intro: rtranclp_trans)
  qed
qed

lemma fill_loop_writes:
  "fill_loop qs claims pr now ts e d = Inr (ps, d') \<Longrightarrow> keys_ok d \<Longrightarrow> db_writes (TenantID claims) d d'"
proof (induction ts arbitrary: e d ps)
  case (Cons t ts)
  then obtain ps1 d1 e1 ps2 where "promote_all qs claims t pr now e d = Inr (ps1, d1)"
    and "fill_loop qs claims pr now ts e1 d1 = Inr (ps2, d')"
    by (auto simp: bindE_Inr_iff)
  with Cons.IH promote_all_writes Cons.prems(2) show ?case by (meson rtranclp_trans)
qed simp

end
