(* ===== verification/System.thy ===== *)
theory System
  imports Queue_Correct
begin

text \<open>
  The two stores wired together as in \<^verbatim>\<open>src/cmd/port-interoperability/main.go\<close>, every
  operation of their public interfaces as one step relation, and what holds in
  every state the running system can reach from an empty database. Operations
  are atomic steps: each is one serialised tenant transaction (row locks and the
  guarded updates of the source), of any tenant, with any arguments, any clock,
  any fresh identifiers and any transaction failures.
\<close>

section \<open>Wiring\<close>

definition wired_queue :: "payload signer \<Rightarrow> int \<Rightarrow> 't qstore result" where
  "wired_queue signer grace = queue_NewStore (Some (booking_NewStore (Some signer))) (Some signer) grace"

definition wired_bookings ::
  "payload signer \<Rightarrow> release_verifier \<Rightarrow> 't tb_client \<Rightarrow> int \<Rightarrow> 't qstore \<Rightarrow> 't bstore result" where
  "wired_bookings signer verifier client bps qs =
     SetRefundPoster (Some (RefundBookingSettlement client)) bps
       (SetReleaseVerifier (Some verifier)
         (SetCapacityListener (Some (CapacityReleased qs)) (booking_NewStore (Some signer))))"

text \<open>Both stores share one booking store object, so the queue sees the wired one.\<close>

definition wire ::
  "payload signer \<Rightarrow> release_verifier \<Rightarrow> 't tb_client \<Rightarrow> int \<Rightarrow> int \<Rightarrow> ('t bstore \<times> 't qstore) result" where
  "wire signer verifier client bps grace =
     bindE (wired_queue signer grace) (\<lambda>qs.
     bindE (wired_bookings signer verifier client bps qs) (\<lambda>bs.
     Inr (bs, qs\<lparr>qs_bookings := bs\<rparr>)))"

lemma wired_bookings_InrD:
  "wired_bookings signer verifier client bps qs = Inr bs \<Longrightarrow>
   st_listener bs = Some (CapacityReleased qs) \<and> st_refunder bs = Some (RefundBookingSettlement client)
   \<and> st_refundWired bs \<and> st_fgnShareBPS bs = bps \<and> 0 < bps \<and> bps < 10000 \<and> st_releaseVerifier bs = Some verifier
   \<and> st_signer bs = Some signer"
  by (auto simp: wired_bookings_def SetRefundPoster_def SetReleaseVerifier_def SetCapacityListener_def
      booking_NewStore_def split: if_splits)

text \<open>The store as wired with a given queue, grace window and refund share, for the interpretation.\<close>

definition wired_store ::
  "payload signer \<Rightarrow> release_verifier \<Rightarrow> 't tb_client \<Rightarrow> int \<Rightarrow> 't qstore \<Rightarrow> 't bstore" where
  "wired_store signer verifier client bps qs =
     (SetReleaseVerifier (Some verifier) (SetCapacityListener (Some (CapacityReleased qs)) (booking_NewStore (Some signer))))
       \<lparr>st_refunder := Some (RefundBookingSettlement client), st_fgnShareBPS := bps, st_refundWired := True\<rparr>"

interpretation wired: booking_store "wired_store signer verifier client bps qs"
  by unfold_locales
     (auto simp: wired_store_def SetReleaseVerifier_def SetCapacityListener_def booking_NewStore_def
       dest: callup.release_writes callup.release_bookings tb_refund.refund_hash)

lemma wire_wired_store:
  "wire signer verifier client bps grace = Inr (bs, qs) \<Longrightarrow> \<exists>qs0. bs = wired_store signer verifier client bps qs0"
  by (auto simp: wire_def bindE_Inr_iff wired_bookings_def SetRefundPoster_def wired_store_def split: if_splits)

section \<open>The steps of the system\<close>

definition some_rows :: "('r list \<Rightarrow> 'r list) \<Rightarrow> bool" where
  "some_rows pick \<longleftrightarrow> (\<forall>xs. mset (pick xs) \<subseteq># mset xs)"

lemma some_rows_subset: "some_rows pick \<Longrightarrow> set (pick xs) \<subseteq> set xs"
  unfolding some_rows_def by (metis set_mset_mono set_mset_mset)

lemma some_rows_keys:
  assumes "some_rows pick" and "distinct (map f xs)"
  shows "distinct (map f (pick xs))"
proof -
  have "mset (map f (pick xs)) \<subseteq># mset (map f xs)"
    using assms(1) by (simp add: some_rows_def image_mset_subseteq_mono)
  with assms(2) show ?thesis by (rule mset_sub_distinct [rotated])
qed

inductive op_step :: "'l bstore \<Rightarrow> 'l qstore \<Rightarrow> ctx \<Rightarrow> db \<times> 'l \<Rightarrow> db \<times> 'l \<Rightarrow> bool" for bs qs c where
  CreateTerminal: "CreateTerminal c t p n fee d = (r, d') \<Longrightarrow> op_step bs qs c (d, w) (d', w)"
| CreateSlot: "CreateSlot c t from to cap e d = (rs, d') \<Longrightarrow> op_step bs qs c (d, w) (d', w)"
| ListSlots: "ListSlots c t from to d = (rl, d') \<Longrightarrow> op_step bs qs c (d, w) (d', w)"
| Create: "Create bs c req pr e d = (rb, d') \<Longrightarrow> op_step bs qs c (d, w) (d', w)"
| Get: "Get c k d = (rb, d') \<Longrightarrow> op_step bs qs c (d, w) (d', w)"
| ReserveSlot: "ReserveSlot bs c k s ver pr e d = (rb, d') \<Longrightarrow> op_step bs qs c (d, w) (d', w)"
| Reconcile: "Reconcile bs c k s ver pr e d = (rb, d') \<Longrightarrow> op_step bs qs c (d, w) (d', w)"
| CreatePaymentIntent: "CreatePaymentIntent c k reqID ref ver e d = (ri, d') \<Longrightarrow> op_step bs qs c (d, w) (d', w)"
| PendingPaymentIntent: "PendingPaymentIntent c k d = (ri, d') \<Longrightarrow> op_step bs qs c (d, w) (d', w)"
| ConfirmPayment: "ConfirmPayment bs c k ref ver pr e d = (rb, d') \<Longrightarrow> op_step bs qs c (d, w) (d', w)"
| BeginCustomsValidation: "BeginCustomsValidation bs c k pr e d = (rb, d') \<Longrightarrow> op_step bs qs c (d, w) (d', w)"
| RecordCustomsValidation:
    "RecordCustomsValidation bs c k ev by1 pr e d = (rb, d') \<Longrightarrow> op_step bs qs c (d, w) (d', w)"
| RecordGateScan: "RecordGateScan bs c k gateID by1 at pr e d = (rg, d') \<Longrightarrow> op_step bs qs c (d, w) (d', w)"
| Complete: "Complete bs c k ver h pr e d = (rb, d') \<Longrightarrow> op_step bs qs c (d, w) (d', w)"
| Cancel: "Cancel bs c k ver reason pr e d w = (rb, d', w') \<Longrightarrow> op_step bs qs c (d, w) (d', w')"
| ExpireDue: "some_rows pickb \<Longrightarrow> ExpireDue bs pickb c now pr e d w = (rn, d', w') \<Longrightarrow> op_step bs qs c (d, w) (d', w')"
| queue_Create: "queue_Create qs c qreq channel pr e d = (rq, d') \<Longrightarrow> op_step bs qs c (d, w) (d', w)"
| queue_Get: "queue_Get c k d = (rq, d') \<Longrightarrow> op_step bs qs c (d, w) (d', w)"
| ConfigureTerminal: "ConfigureTerminal c t cap d = (r, d') \<Longrightarrow> op_step bs qs c (d, w) (d', w)"
| PromoteNext: "PromoteNext qs c t pr e d = (rp, d') \<Longrightarrow> op_step bs qs c (d, w) (d', w)"
| Arrive: "Arrive qs c k gateID ver pr e d = (ra, d') \<Longrightarrow> op_step bs qs c (d, w) (d', w)"
| Depart: "Depart qs c k ver pr e d = (rq, d') \<Longrightarrow> op_step bs qs c (d, w) (d', w)"
| Forfeit: "Forfeit qs c k reason pr e d = (rf, d') \<Longrightarrow> op_step bs qs c (d, w) (d', w)"
| ForfeitExpired:
    "some_rows pick \<Longrightarrow> ForfeitExpired qs pick c now pr e d = (rx, d') \<Longrightarrow> op_step bs qs c (d, w) (d', w)"
| ExpireStale: "some_rows pick \<Longrightarrow> ExpireStale qs pick c now pr e d = (rn, d') \<Longrightarrow> op_step bs qs c (d, w) (d', w)"
| queue_Cancel: "queue_Cancel qs c k ver reason pr e d = (rf, d') \<Longrightarrow> op_step bs qs c (d, w) (d', w)"
| FlagReconciliation:
    "FlagReconciliation qs c k ver reason pr e d = (rq, d') \<Longrightarrow> op_step bs qs c (d, w) (d', w)"
| Requeue: "Requeue qs c k ver pr e d = (rq, d') \<Longrightarrow> op_step bs qs c (d, w) (d', w)"
| ListTerminal: "ListTerminal c t d = (rql, d') \<Longrightarrow> op_step bs qs c (d, w) (d', w)"
| ListActiveCallUps: "ListActiveCallUps c d = (rql, d') \<Longrightarrow> op_step bs qs c (d, w) (d', w)"
| ReconcileCallUps:
    "some_rows pick \<Longrightarrow> ReconcileCallUps qs pick order c pr e d = (rql, d') \<Longrightarrow> op_step bs qs c (d, w) (d', w)"

text \<open>The states of a run from an empty database, whatever the ledger holds.\<close>

inductive reachable :: "'l bstore \<Rightarrow> 'l qstore \<Rightarrow> db \<times> 'l \<Rightarrow> bool" for bs qs where
  start: "reachable bs qs (empty_db, w)"
| step: "reachable bs qs x \<Longrightarrow> op_step bs qs c x y \<Longrightarrow> reachable bs qs y"

text \<open>The tenant a context speaks for; without claims there is no transaction at all.\<close>

definition tenant_writes :: "ctx \<Rightarrow> db \<Rightarrow> db \<Rightarrow> bool" where
  "tenant_writes c d d' \<longleftrightarrow>
     (case ctx_claims c of None \<Rightarrow> d' = d
      | Some claims \<Rightarrow> db_writes (TenantID claims) d d' \<or> db_config (TenantID claims) d d')"

lemma tenant_writes_refl [simp]: "tenant_writes c d d"
  by (simp add: tenant_writes_def split: option.splits)

lemma WithTx_tenant_writes:
  assumes "WithTx c work d = (r, d')"
    and "\<And>claims a d'. work claims d = Inr (a, d') \<Longrightarrow> db_writes (TenantID claims) d d'"
  shows "tenant_writes c d d'"
  using assms by (cases rule: WithTx_cases) (auto simp: tenant_writes_def)

lemma WithTxW_tenant_writes:
  assumes "WithTxW c work d w = (r, d', w')"
    and "\<And>claims a d' w'. work claims d w = (Inr (a, d'), w') \<Longrightarrow> db_writes (TenantID claims) d d'"
  shows "tenant_writes c d d'"
  using assms by (cases rule: WithTxW_cases) (auto simp: tenant_writes_def)

section \<open>Every operation is a sequence of writes of its tenant\<close>

lemma read_only_tx:
  "WithTx c work d = (r, d') \<Longrightarrow> (\<And>claims a d'. work claims d = Inr (a, d') \<Longrightarrow> d' = d) \<Longrightarrow> d' = d"
  by (erule WithTx_cases) auto

lemma CreateTerminal_op: "CreateTerminal c t p n fee d = (r, d') \<Longrightarrow> tenant_writes c d d'"
  by (auto simp: CreateTerminal_def split: option.splits if_splits
      intro: WithTx_tenant_writes [OF _ CreateTerminal_writes])

lemma CreateSlot_op: "CreateSlot c t from to cap e d = (r, d') \<Longrightarrow> tenant_writes c d d'"
  by (auto simp: CreateSlot_def ValidateSlotWindow_def split: option.splits if_splits
      intro: WithTx_tenant_writes [OF _ CreateSlot_writes])

lemma ListSlots_op: "ListSlots c t from to d = (r, d') \<Longrightarrow> d' = d"
  unfolding ListSlots_def by (erule read_only_tx) (simp add: ListSlots_work_def)

lemma Create_op: "Create st c req pr e d = (r, d') \<Longrightarrow> tenant_writes c d d'"
  by (auto simp: Create_def split: option.splits if_splits intro: WithTx_tenant_writes [OF _ createTx_writes])

lemma Get_op: "Get c k d = (r, d') \<Longrightarrow> d' = d"
  unfolding Get_def by (erule read_only_tx) (auto simp: bindE_Inr_iff)

lemma ReserveSlot_op: "ReserveSlot st c k s ver pr e d = (r, d') \<Longrightarrow> keys_ok d \<Longrightarrow> tenant_writes c d d'"
  unfolding ReserveSlot_def by (erule WithTx_tenant_writes) (rule ReserveSlot_writes)

lemma Reconcile_op: "Reconcile st c k s ver pr e d = (r, d') \<Longrightarrow> keys_ok d \<Longrightarrow> tenant_writes c d d'"
  unfolding Reconcile_def by (erule WithTx_tenant_writes) (rule Reconcile_writes)

lemma CreatePaymentIntent_op: "CreatePaymentIntent c k reqID ref ver e d = (r, d') \<Longrightarrow> tenant_writes c d d'"
  by (auto simp: CreatePaymentIntent_def split: if_splits intro: WithTx_tenant_writes [OF _ CreatePaymentIntent_writes])

lemma PendingPaymentIntent_op: "PendingPaymentIntent c k d = (r, d') \<Longrightarrow> d' = d"
  unfolding PendingPaymentIntent_def by (erule read_only_tx) (auto split: list.splits)

lemma ConfirmPayment_op: "ConfirmPayment st c k ref ver pr e d = (r, d') \<Longrightarrow> keys_ok d \<Longrightarrow> tenant_writes c d d'"
  by (auto simp: ConfirmPayment_def split: if_splits intro: WithTx_tenant_writes [OF _ ConfirmPayment_writes])

lemma BeginCustomsValidation_op:
  "BeginCustomsValidation st c k pr e d = (r, d') \<Longrightarrow> keys_ok d \<Longrightarrow> tenant_writes c d d'"
  unfolding BeginCustomsValidation_def by (erule WithTx_tenant_writes) (rule BeginCustomsValidation_writes)

lemma RecordCustomsValidation_op:
  "RecordCustomsValidation st c k ev by1 pr e d = (r, d') \<Longrightarrow> keys_ok d \<Longrightarrow> tenant_writes c d d'"
  by (auto simp: RecordCustomsValidation_def split: if_splits
      intro: WithTx_tenant_writes [OF _ RecordCustomsValidation_writes])

lemma RecordGateScan_op:
  "RecordGateScan st c k gateID by1 at pr e d = (r, d') \<Longrightarrow> keys_ok d \<Longrightarrow> tenant_writes c d d'"
  by (auto simp: RecordGateScan_def split: if_splits intro: WithTx_tenant_writes [OF _ RecordGateScan_writes])

lemma queue_Create_op:
  "queue_Create qs c qreq channel pr e d = (r, d') \<Longrightarrow> keys_ok d \<Longrightarrow> tenant_writes c d d'"
  by (auto simp: queue_Create_def split: option.splits if_splits intro: WithTx_tenant_writes [OF _ queue_createTx_writes])

lemma queue_Get_op: "queue_Get c k d = (r, d') \<Longrightarrow> d' = d"
  unfolding queue_Get_def by (erule read_only_tx) (auto simp: bindE_Inr_iff)

lemma ConfigureTerminal_op: "ConfigureTerminal c t cap d = (r, d') \<Longrightarrow> tenant_writes c d d'"
  by (auto simp: ConfigureTerminal_def tenant_writes_def split: option.splits if_splits elim!: WithTx_cases
      dest: ConfigureTerminal_config)

lemma PromoteNext_op: "PromoteNext qs c t pr e d = (r, d') \<Longrightarrow> keys_ok d \<Longrightarrow> tenant_writes c d d'"
  unfolding PromoteNext_def by (erule WithTx_tenant_writes) (blast dest: promoteNextTx_writes)

lemma Arrive_op: "Arrive qs c k gateID ver pr e d = (r, d') \<Longrightarrow> keys_ok d \<Longrightarrow> tenant_writes c d d'"
  by (auto simp: Arrive_def split: if_splits prod.splits sum.splits option.splits
      intro: WithTx_tenant_writes [OF _ Arrive_writes])

lemma Depart_op: "Depart qs c k ver pr e d = (r, d') \<Longrightarrow> keys_ok d \<Longrightarrow> tenant_writes c d d'"
  unfolding Depart_def by (erule WithTx_tenant_writes) (rule Depart_writes)

lemma Forfeit_op:
  assumes "Forfeit qs c k reason pr e d = (r, d')" and "keys_ok d"
  shows "tenant_writes c d d'"
proof (cases "reason = [] \<or> len reason > 1024")
  case False
  with assms(1) have "WithTx c (\<lambda>claims d. bindE (queue_getForUpdate claims d k) (\<lambda>request.
      forfeitTx qs claims request reason pr (clk e 0) (later 1 0 e) d)) d = (r, d')"
    unfolding Forfeit_def by argo
  then show ?thesis
    by (rule WithTx_tenant_writes)
       (use assms(2) forfeitTx_writes in \<open>force simp: bindE_Inr_iff dest!: queue_getForUpdate_InrD\<close>)
qed (use assms(1) in \<open>auto simp: Forfeit_def\<close>)

lemma due_rows:
  assumes "some_rows pick" and "keys_ok d" and "\<And>q. P q \<Longrightarrow> Q q"
  shows "set (pick (filter P (truck_queue_requests d))) \<subseteq> set (truck_queue_requests d)"
    and "distinct (pick (filter P (truck_queue_requests d)))"
    and "\<forall>q\<in>set (pick (filter P (truck_queue_requests d))). Q q"
proof -
  have s: "set (pick (filter P (truck_queue_requests d))) \<subseteq> set (filter P (truck_queue_requests d))"
    using assms(1) by (rule some_rows_subset)
  from s show "set (pick (filter P (truck_queue_requests d))) \<subseteq> set (truck_queue_requests d)"
    and "\<forall>q\<in>set (pick (filter P (truck_queue_requests d))). Q q" using assms(3) by auto
  have "distinct (truck_queue_requests d)" using assms(2) by (auto simp: keys_ok_def distinct_map)
  then show "distinct (pick (filter P (truck_queue_requests d)))"
    using some_rows_keys [OF assms(1), of "\<lambda>x. x"] by simp
qed

lemma forfeitable_rows: "forfeitable claims now q \<Longrightarrow> q_TenantID q = TenantID claims \<and> q_Status q \<noteq> Q_QUEUED"
  by (auto simp: forfeitable_def called_up_def)

lemma ForfeitExpired_op:
  assumes "ForfeitExpired qs pick c now pr e d = (r, d')" and "keys_ok d" and "some_rows pick"
  shows "tenant_writes c d d'"
  using assms(1) unfolding ForfeitExpired_def
proof (rule WithTx_tenant_writes)
  fix claims a d'
  assume "(let due = pick (filter (forfeitable claims now) (truck_queue_requests d)) in
       bindE (forfeit_loop qs claims now pr due e d) (\<lambda>(promotedAll, d). Inr ((len due, promotedAll), d))) = Inr (a, d')"
  then show "db_writes (TenantID claims) d d'"
    using forfeit_loop_writes [OF _ assms(2) due_rows [OF assms(3,2) forfeitable_rows]]
    by (auto simp: Let_def bindE_Inr_iff)
qed

lemma ExpireStale_op:
  assumes "ExpireStale qs pick c now pr e d = (r, d')" and "keys_ok d" and "some_rows pick"
  shows "tenant_writes c d d'"
  using assms(1) unfolding ExpireStale_def
proof (rule WithTx_tenant_writes)
  fix claims a d'
  assume "(let due = pick (filter (stale claims now) (truck_queue_requests d)) in
       bindE (stale_loop qs claims pr due e d) (\<lambda>d. Inr (len due, d))) = Inr (a, d')"
  then show "db_writes (TenantID claims) d d'"
    using stale_loop_writes [OF _ assms(2) due_rows [OF assms(3,2), of "stale claims now" "\<lambda>q. q_TenantID q = TenantID claims"]]
    by (auto simp: Let_def bindE_Inr_iff stale_def)
qed

lemma queue_Cancel_op: "queue_Cancel qs c k ver reason pr e d = (r, d') \<Longrightarrow> keys_ok d \<Longrightarrow> tenant_writes c d d'"
  by (auto simp: queue_Cancel_def split: if_splits intro: WithTx_tenant_writes [OF _ queue_Cancel_writes])

lemma FlagReconciliation_op:
  "FlagReconciliation qs c k ver reason pr e d = (r, d') \<Longrightarrow> keys_ok d \<Longrightarrow> tenant_writes c d d'"
  by (auto simp: FlagReconciliation_def split: if_splits intro: WithTx_tenant_writes [OF _ FlagReconciliation_writes])

lemma Requeue_op: "Requeue qs c k ver pr e d = (r, d') \<Longrightarrow> keys_ok d \<Longrightarrow> tenant_writes c d d'"
  unfolding Requeue_def by (erule WithTx_tenant_writes) (rule Requeue_writes)

lemma ListTerminal_op: "ListTerminal c t d = (r, d') \<Longrightarrow> d' = d"
  by (auto simp: ListTerminal_def split: option.splits elim!: read_only_tx)

lemma ListActiveCallUps_op: "ListActiveCallUps c d = (r, d') \<Longrightarrow> d' = d"
  unfolding ListActiveCallUps_def by (erule read_only_tx) simp

lemma ReconcileCallUps_op:
  assumes "ReconcileCallUps qs pick order c pr e d = (r, d')" and "keys_ok d" and "some_rows pick"
  shows "tenant_writes c d d'"
  using assms(1) unfolding ReconcileCallUps_def Let_def
proof (rule WithTx_tenant_writes)
  fix claims a d2
  let ?due = "pick (filter (forfeitable claims (clk e 0)) (truck_queue_requests d))"
  assume "bindE (forfeit_loop qs claims (clk e 0) pr ?due (later 1 0 e) d) (\<lambda>(forfeited, d).
       bindE (fill_loop qs claims pr (clk e 0) (order (remdups (map q_TerminalID (filter (\<lambda>q. q_TenantID q = TenantID claims
                  \<and> q_Status q = Q_QUEUED) (truck_queue_requests d)))))
                  (later (2 * length ?due) (4 * length ?due) (later 1 0 e)) d) (\<lambda>(filled, d).
       Inr (forfeited @ filled, d))) = Inr (a, d2)"
  then obtain ps d1 ts e1 qs1 where f: "forfeit_loop qs claims (clk e 0) pr ?due (later 1 0 e) d = Inr (ps, d1)"
    and g: "fill_loop qs claims pr (clk e 0) ts e1 d1 = Inr (qs1, d2)"
    by (auto simp: bindE_Inr_iff)
  have w: "db_writes (TenantID claims) d d1"
    using forfeit_loop_writes [OF f assms(2) due_rows [OF assms(3,2) forfeitable_rows]] .
  then have "keys_ok d1" using writes_evolve assms(2) by blast
  with g w show "db_writes (TenantID claims) d d2" by (auto dest: fill_loop_writes)
qed

context booking_store
begin

lemma Complete_op: "Complete st c k ver h pr e d = (r, d') \<Longrightarrow> keys_ok d \<Longrightarrow> tenant_writes c d d'"
  by (auto simp: Complete_def split: if_splits intro: WithTx_tenant_writes [OF _ Complete_writes])

lemma Cancel_op: "Cancel st c k ver reason pr e d w = (r, d', w') \<Longrightarrow> keys_ok d \<Longrightarrow> tenant_writes c d d'"
  by (auto simp: Cancel_def split: if_splits elim: Cancel_writes intro: WithTxW_tenant_writes)

lemma ExpireDue_op:
  assumes "ExpireDue st pick c now pr e d w = (r, d', w')" and "keys_ok d" and "some_rows pick"
  shows "tenant_writes c d d'"
  using assms(1) unfolding ExpireDue_def
proof (rule WithTxW_tenant_writes)
  fix claims a d' w'
  let ?due = "pick (filter (expirable claims now) (truck_bookings d))"
  assume x: "expire_loop st claims now pr ?due e 0 d w = (Inr (a, d'), w')"
  have s: "set ?due \<subseteq> set (filter (expirable claims now) (truck_bookings d))"
    using assms(3) by (rule some_rows_subset)
  have "distinct (map b_BookingID ?due)"
    using assms(3) by (rule some_rows_keys) (use assms(2) in \<open>simp add: keys_ok_def distinct_map_filter\<close>)
  moreover have "set ?due \<subseteq> set (truck_bookings d)" and "\<forall>b\<in>set ?due. b_TenantID b = TenantID claims"
    using s by (auto simp: expirable_def)
  ultimately show "db_writes (TenantID claims) d d'"
    using expire_loop_writes [OF x assms(2)] by blast
qed

lemmas op_writes =
  CreateTerminal_op CreateSlot_op Create_op ReserveSlot_op Reconcile_op CreatePaymentIntent_op ConfirmPayment_op
  BeginCustomsValidation_op RecordCustomsValidation_op RecordGateScan_op Complete_op Cancel_op ExpireDue_op
  queue_Create_op ConfigureTerminal_op PromoteNext_op Arrive_op Depart_op Forfeit_op ForfeitExpired_op ExpireStale_op
  queue_Cancel_op FlagReconciliation_op Requeue_op ReconcileCallUps_op

lemmas op_reads =
  ListSlots_op Get_op PendingPaymentIntent_op queue_Get_op ListTerminal_op ListActiveCallUps_op

lemma op_step_writes: "op_step st qs c (d, w) (d', w') \<Longrightarrow> keys_ok d \<Longrightarrow> tenant_writes c d d'"
  by (erule op_step.cases; clarify;
      ((erule op_writes; assumption) | (drule op_reads, simp only: tenant_writes_refl)))

lemma op_step_inv: "op_step st qs c (d, w) (d', w') \<Longrightarrow> db_inv d \<Longrightarrow> db_inv d'"
  using op_step_writes [of qs c d w d' w'] db_inv_keys [of d] db_inv_writes db_inv_config
  by (auto simp: tenant_writes_def split: option.splits)

lemma reachable_inv: "reachable st qs x \<Longrightarrow> db_inv (fst x)"
proof (induction rule: reachable.induct)
  case (step x c y)
  then show ?case using op_step_inv [of qs c "fst x" "snd x" "fst y" "snd y"] by simp
qed (simp add: db_inv_empty)

lemma reachable_terminals: "reachable st qs x \<Longrightarrow> queue_terminals (fst x)"
proof (induction rule: reachable.induct)
  case (step x c y)
  have "keys_ok (fst x)" using db_inv_keys [OF reachable_inv [OF step.hyps(1)]] .
  moreover from this have "tenant_writes c (fst x) (fst y)"
    using op_step_writes [of qs c "fst x" "snd x" "fst y" "snd y"] step.hyps(2) by simp
  ultimately show ?case
    using step.IH callups_writes queue_terminals_config by (auto simp: tenant_writes_def split: option.splits)
qed (simp add: queue_terminals_def empty_db_def)

lemma reachable_intents: "reachable st qs x \<Longrightarrow> intents_ok (fst x)"
proof (induction rule: reachable.induct)
  case (step x c y)
  have "keys_ok (fst x)" using db_inv_keys [OF reachable_inv [OF step.hyps(1)]] .
  moreover from this have "tenant_writes c (fst x) (fst y)"
    using op_step_writes [of qs c "fst x" "snd x" "fst y" "snd y"] step.hyps(2) by simp
  ultimately show ?case
    using step.IH intents_ok_writes intents_ok_config by (auto simp: tenant_writes_def split: option.splits)
qed (simp add: intents_ok_def empty_db_def)

end

text \<open>The same for the stores \<open>wire\<close> builds.\<close>

lemma wire_step_writes:
  "wire signer verifier client bps grace = Inr (bs, qs) \<Longrightarrow> op_step bs qs' c (d, w) (d', w') \<Longrightarrow> keys_ok d \<Longrightarrow>
   tenant_writes c d d'"
  by (frule wire_wired_store, clarify, rule wired.op_step_writes)

lemma wire_reachable_inv:
  "wire signer verifier client bps grace = Inr (bs, qs) \<Longrightarrow> reachable bs qs (d, w) \<Longrightarrow> db_inv d"
  by (frule wire_wired_store, clarify, drule wired.reachable_inv, simp)

lemma wire_reachable_intents:
  "wire signer verifier client bps grace = Inr (bs, qs) \<Longrightarrow> reachable bs qs (d, w) \<Longrightarrow> intents_ok d"
  by (frule wire_wired_store, clarify, drule wired.reachable_intents, simp)

lemma wire_reachable_terminals:
  "wire signer verifier client bps grace = Inr (bs, qs) \<Longrightarrow> reachable bs qs (d, w) \<Longrightarrow> queue_terminals d"
  by (frule wire_wired_store, clarify, drule wired.reachable_terminals, simp)

lemma reachable_match_ref:
  assumes "db_inv d" and "b \<in> set (truck_bookings d)" and "v \<in> set (customs_validations d)"
    and "customs_match (b_TenantID b) (b_BookingID b) v"
  shows "b_CargoDeclarationRef b = Some (v_DeclarationRef v)"
proof -
  from assms(1,3) obtain b' where b': "b' \<in> set (truck_bookings d)" "b_BookingID b' = v_BookingID v"
      "b_CargoDeclarationRef b' = Some (v_DeclarationRef v)"
    unfolding db_inv_def validations_ok_def by blast
  moreover have "b_BookingID b' = b_BookingID b" using b'(2) assms(4) by (simp add: customs_match_def)
  then have "b' = b" using assms(1,2) b'(1) by (auto simp: db_inv_def keys_ok_def dest: distinct_key_eq)
  ultimately show ?thesis by simp
qed

end
