(* ===== verification/Scenario.thy ===== *)
theory Scenario
  imports System
begin

text \<open>
  A concrete run of the wired system, used to instantiate the properties: one
  tenant registers a terminal with a slot of capacity one, books it, pays, passes
  the gate, and queues two trucks.
\<close>

definition demo_claims :: Claims where
  "demo_claims = \<lparr>Issuer = ''issuer'', Audience = ''aud'', TenantID = ''tenant-demo'', Subject = ''clerk'',
     Expires = 0, Roles = []\<rparr>"

definition demo_ctx :: ctx where
  "demo_ctx = \<lparr>ctx_claims = Some demo_claims, begin_err = None, config_err = None, commit_err = None\<rparr>"

definition demo_signer :: "payload signer" where
  "demo_signer = (\<lambda>_. Inr ''sig'')"

definition demo_verifier :: release_verifier where
  "demo_verifier = (\<lambda>_ _ _ _. None)"

definition demo_pr :: Principal where
  "demo_pr = \<lparr>pr_ID = ''clerk'', pr_Role = ''operator''\<rparr>"

definition demo_queue :: "tb_transfer list qstore" where
  "demo_queue = \<lparr>qs_bookings = booking_NewStore (Some demo_signer), qs_signer = Some demo_signer,
     qs_graceWindow = 100\<rparr>"

definition demo_store :: "tb_transfer list bstore" where
  "demo_store = wired_store demo_signer demo_verifier list_tigerbeetle 1500 demo_queue"

definition demo_env :: "int \<Rightarrow> string \<Rightarrow> env" where
  "demo_env t p = \<lparr>clk = (\<lambda>_. t), rnd = (\<lambda>n. p @ replicate n (CHR ''x''))\<rparr>"

definition demo_request :: "string \<Rightarrow> BCreateRequest" where
  "demo_request rid = \<lparr>cr_RequestID = rid, cr_TruckPlate = ''LAG-123'', cr_TruckerMSISDN = ''+2348031234567'',
     cr_TerminalID = ''APAPA'', cr_Channel = ChannelWeb, cr_AmountKobo = 250000, cr_ExpiresAt = 900,
     cr_CargoDeclarationRef = [], cr_DeclaredWeightKg = 0, cr_ConsigneeID = [], cr_OperatorID = [], cr_ContainerID = []\<rparr>"

definition demo1 :: db where
  "demo1 = snd (CreateTerminal demo_ctx ''APAPA'' ''NGAPP'' ''Apapa Terminal'' 250000 empty_db)"

definition demo2 :: db where
  "demo2 = snd (CreateSlot demo_ctx ''APAPA'' 100 200 1 (demo_env 1 ''slot'') demo1)"

definition demo3 :: db where
  "demo3 = snd (Create demo_store demo_ctx (demo_request ''request-1'') demo_pr (demo_env 10 ''bk'') demo2)"

definition demo4 :: db where
  "demo4 = snd (ReserveSlot demo_store demo_ctx ''bk'' ''slot'' 1 demo_pr (demo_env 20 ''rs'') demo3)"

lemma demo_ctx_simps [simp]:
  "ctx_claims demo_ctx = Some demo_claims" "begin_err demo_ctx = None" "config_err demo_ctx = None"
  "commit_err demo_ctx = None" "TenantID demo_claims = ''tenant-demo''" "Subject demo_claims = ''clerk''"
  by (simp_all add: demo_ctx_def demo_claims_def)

lemma demo_env_simps [simp]: "clk (demo_env t p) n = t" "rnd (demo_env t p) n = p @ replicate n (CHR ''x'')"
  "clk (later i j (demo_env t p)) n = t" "rnd (later i j (demo_env t p)) n = p @ replicate (n + j) (CHR ''x'')"
  by (simp_all add: demo_env_def later_def)

lemma demo_ids [simp]: "replicate 2 c = [c, c]" "replicate 3 c = [c, c, c]" "replicate 4 c = [c, c, c, c]"
  "replicate 5 c = [c, c, c, c, c]" "replicate 7 c = [c, c, c, c, c, c, c]"
  by (simp_all add: numeral_eq_Suc)

lemma demo_later [simp]: "later i 0 (demo_env t p) = demo_env t p"
  by (simp add: demo_env_def later_def)

lemma demo_request_simps [simp]:
  "cr_RequestID (demo_request r) = r" "cr_TerminalID (demo_request r) = ''APAPA''" "cr_ContainerID (demo_request r) = []"
  "cr_Channel (demo_request r) = ChannelWeb" "cr_AmountKobo (demo_request r) = 250000"
  "pr_ID demo_pr = ''clerk''" "pr_Role demo_pr = ''operator''"
  by (simp_all add: demo_request_def demo_pr_def)

lemma WithTx_demo: "WithTx demo_ctx work d = (case work demo_claims d of Inl e \<Rightarrow> (Inl e, d) | Inr (a, d') \<Rightarrow> (Inr a, d'))"
  by (simp add: WithTx_def TenantClaims_def split: sum.splits)

lemma demo1_eq: "demo1 = empty_db\<lparr>port_terminals := [\<lparr>t_TerminalID = ''APAPA'', t_TenantID = ''tenant-demo'',
   t_PortCode = ''NGAPP'', t_Name = ''Apapa Terminal'', t_BookingFeeKobo = 250000, t_Active = True, t_QueueCapacity = 1\<rparr>]\<rparr>"
  by (simp add: demo1_def CreateTerminal_def booking_ValidateTerminalID_def ValidatePortCode_def terminalPattern_def
      portCodePattern_def match_regex_single go_simps nameTrim_def CreateTerminal_work_def WithTx_demo empty_db_def
      del: match_regex.simps)

definition demo_event ::
  "string \<Rightarrow> string \<Rightarrow> string \<Rightarrow> string \<Rightarrow> payload \<Rightarrow> (string \<times> string) list \<Rightarrow> string \<Rightarrow> time \<Rightarrow> env \<Rightarrow> OutboxRow" where
  "demo_event topic ty corr sub p ext lh at e =
     \<lparr>o_EventID = rnd e 1, o_TenantID = ''tenant-demo'', o_Topic = topic, o_EventType = ty,
      o_Payload = \<lparr>ev_EnvelopeVersion = ''1.0'', ev_EventID = rnd e 1, ev_EventType = ty, ev_OccurredAt = at,
        ev_Producer = ''s1-port-interoperability'', ev_CorrelationID = corr, ev_Classification = ''INTERNAL'',
        ev_FHIR = \<lparr>fb_Timestamp = at, fb_FullURL = ''urn:uuid:'' @ rnd e 0, fb_ID = sub, fb_Code = ty,
          fb_Extension = entry_extensions p ext\<rparr>,
        ev_Provenance = \<lparr>PrincipalID = ''clerk'', PrincipalRole = ''operator'', Signature = ''sig'', LedgerCommitHash = lh\<rparr>\<rparr>,
      o_CreatedAt = at\<rparr>"

lemma demo_event_simps [simp]:
  "o_EventID (demo_event topic ty corr sub p ext lh at e) = rnd e 1"
  "o_EventType (demo_event topic ty corr sub p ext lh at e) = ty"
  by (simp_all add: demo_event_def)

lemma emit_demo:
  assumes "TrimSpace ty \<noteq> []" "validTopic topic" "TrimSpace corr \<noteq> []" "TrimSpace sub \<noteq> []"
    and "list_all (\<lambda>k. TrimSpace k \<noteq> []) (map fst ext)" "rnd e 1 \<notin> set (map o_EventID (platform_outbox d))"
  shows "emit demo_claims topic ty corr sub p ext demo_pr lh at (Some demo_signer) e d
    = Inr (d\<lparr>platform_outbox := platform_outbox d @ [demo_event topic ty corr sub p ext lh at e]\<rparr>)"
proof -
  have "TrimSpace ''clerk'' = ''clerk''" "TrimSpace ''operator'' = ''operator''" by (simp_all add: go_simps)
  with assms show ?thesis
    by (auto simp: emit_def Message_def demo_pr_def demo_signer_def demo_event_def Let_def list_ex_iff list_all_iff
        image_iff)
qed

lemma demo_store_simps [simp]:
  "st_signer demo_store = Some demo_signer" "st_listener demo_store = Some (CapacityReleased demo_queue)"
  "st_refundWired demo_store" "st_refunder demo_store = Some (RefundBookingSettlement list_tigerbeetle)"
  "st_fgnShareBPS demo_store = 1500" "qs_signer demo_queue = Some demo_signer" "qs_graceWindow demo_queue = 100"
  by (simp_all add: demo_store_def wired_store_def SetReleaseVerifier_def SetCapacityListener_def booking_NewStore_def
      demo_queue_def)

lemmas demo_topics = TopicBooking_def TopicGate_def TopicQueue_def TopicDeclarations_def validTopic_def

definition demo_slot :: Slot where
  "demo_slot = \<lparr>s_SlotID = ''slot'', s_TenantID = ''tenant-demo'', s_TerminalID = ''APAPA'', s_StartsAt = 100,
     s_EndsAt = 200, s_Capacity = 1, s_CreatedAt = 1\<rparr>"

lemma demo2_eq: "demo2 = demo1\<lparr>terminal_slots := [demo_slot]\<rparr>"
  by (simp add: demo2_def CreateSlot_def booking_ValidateTerminalID_def ValidateSlotWindow_def terminalPattern_def
      go_simps CreateSlot_work_def WithTx_demo demo1_eq empty_db_def find_terminal_def demo_slot_def Let_def
      del: match_regex.simps)

definition demo_row :: BookingRow where
  "demo_row = new_booking demo_claims (demo_request ''request-1'') demo_pr (demo_env 10 ''bk'')"

lemmas demo_row_defs = demo_row_def new_booking_def declarationBinding_def containerIDPtr_def demo_request_def demo_pr_def

lemma demo_row_check: "truck_bookings_check demo_row"
  by (simp add: demo_row_defs truck_bookings_check_def truckPlatePattern_def msisdnPattern_def go_simps
      del: match_regex.simps)

lemma demo_row_simps [simp]:
  "b_BookingID demo_row = ''bk''" "b_TenantID demo_row = ''tenant-demo''" "b_RequestID demo_row = ''request-1''"
  "b_Status demo_row = B_DRAFTED" "b_Version demo_row = 1" "b_TerminalID demo_row = ''APAPA''" "b_SlotID demo_row = None"
  "b_PaymentReceiptRef demo_row = None" "b_Channel demo_row = ChannelWeb" "b_AmountKobo demo_row = 250000"
  "b_CargoDeclarationRef demo_row = None" "b_ExpiresAt demo_row = 900"
  by (simp_all add: demo_row_defs)

lemma demo3_step:
  "Create demo_store demo_ctx (demo_request ''request-1'') demo_pr (demo_env 10 ''bk'') demo2
     = (Inr demo_row, demo2\<lparr>truck_bookings := [demo_row],
         platform_outbox := [demo_event TopicBooking ''booking.drafted'' ''request-1'' ''bk'' (BookingPayload demo_row)
           [(''terminal-id'', ''APAPA''), (''channel'', ''WEB'')] [] 10 (later 0 1 (demo_env 10 ''bk''))]\<rparr>)"
proof -
  have v: "booking_Validate 10 (demo_request ''request-1'') = None"
    by (simp add: booking_Validate_def demo_request_def truckPlatePattern_def msisdnPattern_def terminalPattern_def
        go_simps zero_time_def del: match_regex.simps)
  have w: "booking_write_error ''tenant-demo'' demo2 demo_row = None"
    using demo_row_check by (simp add: booking_write_error_def enforce_slot_capacity_def receipt_conflict_def)
  have t: "find_terminal ''tenant-demo'' demo2 ''APAPA'' \<noteq> None"
    "truck_bookings demo2 = []" "platform_outbox demo2 = []"
    and a: "\<And>t. find_terminal ''tenant-demo'' demo2 ''APAPA'' = Some t \<Longrightarrow> t_Active t"
    by (simp_all add: demo2_eq demo1_eq empty_db_def find_terminal_def)
  then show ?thesis
    using v w a
    by (auto simp: Create_def createTx_def WithTx_demo release_check_def find_request_def emit_demo Let_def
        demo_row_def [symmetric] demo_topics go_simps)
qed

lemma demo3_facts [simp]: "truck_bookings demo3 = [demo_row]" "terminal_slots demo3 = [demo_slot]"
  "port_terminals demo3 = port_terminals demo1" "map o_EventID (platform_outbox demo3) = [''bkxx'']"
  "booking_payment_intents demo3 = []" "gate_scans demo3 = []" "truck_queue_requests demo3 = []" "customs_validations demo3 = []"
  by (simp_all add: demo3_def demo3_step) (simp_all add: demo2_eq demo1_eq empty_db_def numeral_2_eq_2)

text \<open>A transition of the only booking of the run.\<close>

lemma transitionTx_demo:
  assumes "truck_bookings d = [b]" "b_TenantID b = ''tenant-demo''" "booking_ValidTransition (b_Status b) next"
    and "u = mutate (b\<lparr>b_Status := next, b_UpdatedAt := clk e 0, b_Version := wrap64 (b_Version b + 1)\<rparr>)"
    and "booking_write_error ''tenant-demo'' d (set_columns u b) = None"
    and "TrimSpace ty \<noteq> []" "TrimSpace (b_RequestID b) \<noteq> []" "TrimSpace (b_BookingID b) \<noteq> []"
    and "list_all (\<lambda>k. TrimSpace k \<noteq> []) (map fst ext)" "rnd e 1 \<notin> set (map o_EventID (platform_outbox d))"
  shows "transitionTx demo_store demo_claims b next mutate ty ext demo_pr lh e d
    = Inr (set_columns u b, d\<lparr>truck_bookings := [set_columns u b], platform_outbox := platform_outbox d @
        [demo_event TopicBooking ty (b_RequestID b) (b_BookingID b) (BookingPayload (set_columns u b)) ext lh
           (b_UpdatedAt u) e]\<rparr>)"
  using assms
  by (auto simp: transitionTx_def update_target_def update_where_def Let_def emit_demo demo_topics)

lemma demo_row_transition_check:
  "truck_bookings_check (set_columns u demo_row) \<longleftrightarrow> 0 < b_Version u"
  using demo_row_check by (simp add: truck_bookings_check_def set_columns_def)

lemma wrap64_small [simp]: "wrap64 2 = 2" "wrap64 3 = 3" "wrap64 4 = 4"
  by (simp_all add: wrap64_def)

definition demo_reserved :: BookingRow where
  "demo_reserved = set_columns (demo_row\<lparr>b_Status := B_SLOT_RESERVED, b_UpdatedAt := 20, b_Version := 2,
     b_SlotID := Some ''slot'', b_ReconciliationReason := None\<rparr>) demo_row"

lemma demo4_step:
  "\<exists>o1. ReserveSlot demo_store demo_ctx ''bk'' ''slot'' 1 demo_pr (demo_env 20 ''rs'') demo3
     = (Inr demo_reserved, demo3\<lparr>truck_bookings := [demo_reserved], platform_outbox := platform_outbox demo3 @ [o1]\<rparr>)
   \<and> o_EventID o1 = ''rsx''"
proof -
  let ?u = "demo_row\<lparr>b_Status := B_SLOT_RESERVED, b_UpdatedAt := 20, b_Version := 2,
     b_SlotID := Some ''slot'', b_ReconciliationReason := None\<rparr>"
  have w: "booking_write_error ''tenant-demo'' demo3 (set_columns ?u demo_row) = None"
    by (simp add: booking_write_error_def enforce_slot_capacity_def receipt_conflict_def demo_row_transition_check
        holds_capacity_def find_slot_def demo_slot_def)
  have tr: "transitionTx demo_store demo_claims demo_row B_SLOT_RESERVED
       (\<lambda>u. u\<lparr>b_SlotID := Some ''slot'', b_ReconciliationReason := None\<rparr>)
       ''booking.slot_reserved'' [(''slot-id'', ''slot''), (''terminal-id'', ''APAPA'')]
       demo_pr [] (demo_env 20 ''rs'') demo3
     = Inr (demo_reserved, demo3\<lparr>truck_bookings := [demo_reserved], platform_outbox := platform_outbox demo3 @
        [demo_event TopicBooking ''booking.slot_reserved'' ''request-1'' ''bk'' (BookingPayload demo_reserved)
           [(''slot-id'', ''slot''), (''terminal-id'', ''APAPA'')] [] 20 (demo_env 20 ''rs'')]\<rparr>)"
    using w transitionTx_demo [of demo3 demo_row B_SLOT_RESERVED ?u "\<lambda>u. u\<lparr>b_SlotID := Some ''slot'', b_ReconciliationReason := None\<rparr>"
        "demo_env 20 ''rs''" "''booking.slot_reserved''" "[(''slot-id'', ''slot''), (''terminal-id'', ''APAPA'')]" "[]"]
    by (simp add: demo_reserved_def booking_ValidTransition_def go_simps)
  then show ?thesis
    by (intro exI [of _ "demo_event TopicBooking ''booking.slot_reserved'' ''request-1'' ''bk'' (BookingPayload demo_reserved)
           [(''slot-id'', ''slot''), (''terminal-id'', ''APAPA'')] [] 20 (demo_env 20 ''rs'')"])
       (simp add: ReserveSlot_def WithTx_demo ReserveSlot_work_def getForUpdate_def find_booking_def slotCapacityFree_def
        find_slot_def demo_slot_def in_slot_def)
qed

lemma demo4_facts [simp]: "truck_bookings demo4 = [demo_reserved]" "terminal_slots demo4 = [demo_slot]"
  "map o_EventID (platform_outbox demo4) = [''bkxx'', ''rsx'']" "booking_payment_intents demo4 = []"
  "port_terminals demo4 = port_terminals demo1" "gate_scans demo4 = []" "customs_validations demo4 = []"
  using demo4_step by (auto simp: demo4_def)

definition demo_intent :: PaymentIntent where
  "demo_intent = \<lparr>i_IntentID = ''in'', i_TenantID = ''tenant-demo'', i_BookingID = ''bk'', i_RequestID = ''payment-1'',
     i_AmountKobo = 250000, i_Currency = ''NGN'', i_MojaloopTxRef = ''tx-1'', i_Status = ''REQUESTED'', i_CreatedAt = 30\<rparr>"

definition demo5 :: db where
  "demo5 = snd (CreatePaymentIntent demo_ctx ''bk'' ''payment-1'' ''tx-1'' 2 (demo_env 30 ''in'') demo4)"

lemma demo_reserved_simps [simp]:
  "b_BookingID demo_reserved = ''bk''" "b_TenantID demo_reserved = ''tenant-demo''" "b_RequestID demo_reserved = ''request-1''"
  "b_Status demo_reserved = B_SLOT_RESERVED" "b_Version demo_reserved = 2" "b_SlotID demo_reserved = Some ''slot''"
  "b_PaymentReceiptRef demo_reserved = None" "b_AmountKobo demo_reserved = 250000" "b_CargoDeclarationRef demo_reserved = None"
  by (simp_all add: demo_reserved_def)

lemma demo5_step:
  "CreatePaymentIntent demo_ctx ''bk'' ''payment-1'' ''tx-1'' 2 (demo_env 30 ''in'') demo4
     = (Inr demo_intent, demo4\<lparr>booking_payment_intents := [demo_intent]\<rparr>)"
  by (simp add: CreatePaymentIntent_def WithTx_demo CreatePaymentIntent_work_def getForUpdate_def find_booking_def
      find_intent_def demo_intent_def Let_def)

lemma demo5_facts [simp]: "truck_bookings demo5 = [demo_reserved]" "terminal_slots demo5 = [demo_slot]"
  "map o_EventID (platform_outbox demo5) = [''bkxx'', ''rsx'']" "booking_payment_intents demo5 = [demo_intent]"
  "port_terminals demo5 = port_terminals demo1" "gate_scans demo5 = []" "customs_validations demo5 = []"
  by (simp_all add: demo5_def demo5_step)

definition demo_paid :: BookingRow where
  "demo_paid = set_columns (demo_reserved\<lparr>b_Status := B_PAID, b_UpdatedAt := 40, b_Version := 3,
     b_PaymentReceiptRef := Some ''tx-1''\<rparr>) demo_reserved"

definition demo6 :: db where
  "demo6 = snd (ConfirmPayment demo_store demo_ctx ''bk'' ''tx-1'' 2 demo_pr (demo_env 40 ''pay'') demo5)"

lemma demo_reserved_transition_check:
  "truck_bookings_check (set_columns u demo_reserved) \<longleftrightarrow> 0 < b_Version u"
  using demo_row_check by (simp add: truck_bookings_check_def set_columns_def demo_reserved_def)

lemma demo6_step:
  "\<exists>o1. ConfirmPayment demo_store demo_ctx ''bk'' ''tx-1'' 2 demo_pr (demo_env 40 ''pay'') demo5
     = (Inr demo_paid, demo5\<lparr>booking_payment_intents := [demo_intent\<lparr>i_Status := ''COMPLETED''\<rparr>],
         truck_bookings := [demo_paid], platform_outbox := platform_outbox demo5 @ [o1]\<rparr>) \<and> o_EventID o1 = ''payx''"
proof -
  let ?d = "demo5\<lparr>booking_payment_intents := [demo_intent\<lparr>i_Status := ''COMPLETED''\<rparr>]\<rparr>"
  let ?u = "demo_reserved\<lparr>b_Status := B_PAID, b_UpdatedAt := 40, b_Version := 3, b_PaymentReceiptRef := Some ''tx-1''\<rparr>"
  let ?ext = "[(''payment-receipt-ref'', ''tx-1''), (''amount-kobo'', fmt_d 250000)]"
  let ?o = "demo_event TopicBooking ''booking.paid'' ''request-1'' ''bk'' (BookingPayload demo_paid) ?ext [] 40 (demo_env 40 ''pay'')"
  have w: "booking_write_error ''tenant-demo'' ?d (set_columns ?u demo_reserved) = None"
    by (simp add: booking_write_error_def enforce_slot_capacity_def receipt_conflict_def demo_reserved_transition_check
        holds_capacity_def find_slot_def demo_slot_def)
  have "transitionTx demo_store demo_claims demo_reserved B_PAID (\<lambda>u. u\<lparr>b_PaymentReceiptRef := Some ''tx-1''\<rparr>)
       ''booking.paid'' ?ext demo_pr [] (demo_env 40 ''pay'') ?d
     = Inr (demo_paid, ?d\<lparr>truck_bookings := [demo_paid], platform_outbox := platform_outbox demo5 @ [?o]\<rparr>)"
    using w transitionTx_demo [of ?d demo_reserved B_PAID ?u "\<lambda>u. u\<lparr>b_PaymentReceiptRef := Some ''tx-1''\<rparr>"
        "demo_env 40 ''pay''" "''booking.paid''" ?ext "[]"]
    by (simp add: demo_paid_def booking_ValidTransition_def go_simps)
  then show ?thesis
    by (intro exI [of _ ?o])
       (simp add: ConfirmPayment_def WithTx_demo ConfirmPayment_work_def getForUpdate_def find_booking_def
        matching_intent_def pending_intent_def demo_intent_def update_where_def)
qed

lemma demo6_facts [simp]: "truck_bookings demo6 = [demo_paid]" "terminal_slots demo6 = [demo_slot]"
  "booking_payment_intents demo6 = [demo_intent\<lparr>i_Status := ''COMPLETED''\<rparr>]" "port_terminals demo6 = port_terminals demo1"
  "map o_EventID (platform_outbox demo6) = [''bkxx'', ''rsx'', ''payx'']" "gate_scans demo6 = []" "customs_validations demo6 = []"
  using demo6_step by (auto simp: demo6_def)

lemma demo_paid_simps [simp]:
  "b_BookingID demo_paid = ''bk''" "b_TenantID demo_paid = ''tenant-demo''" "b_RequestID demo_paid = ''request-1''"
  "b_Status demo_paid = B_PAID" "b_Version demo_paid = 3" "b_SlotID demo_paid = Some ''slot''"
  "b_PaymentReceiptRef demo_paid = Some ''tx-1''" "b_AmountKobo demo_paid = 250000" "b_CargoDeclarationRef demo_paid = None"
  "b_TerminalID demo_paid = ''APAPA''"
  by (simp_all add: demo_paid_def demo_reserved_def)

lemma demo_paid_transition_check: "truck_bookings_check (set_columns u demo_paid) \<longleftrightarrow> 0 < b_Version u"
  using demo_row_check by (simp add: truck_bookings_check_def set_columns_def demo_paid_def demo_reserved_def)

definition demo_scan :: GateScan where
  "demo_scan = \<lparr>g_ScanID = ''gs'', g_TenantID = ''tenant-demo'', g_BookingID = ''bk'', g_GateID = ''G1'',
     g_ScannedBy = ''officer'', g_Decision = ''APPROVED'', g_DenialReason = None, g_ScannedAt = 150\<rparr>"

definition demo_gated :: BookingRow where
  "demo_gated = set_columns (demo_paid\<lparr>b_Status := B_GATE_APPROVED, b_UpdatedAt := 150, b_Version := 4,
     b_GateID := Some ''G1''\<rparr>) demo_paid"

definition demo7 :: db where
  "demo7 = snd (RecordGateScan demo_store demo_ctx ''bk'' ''G1'' ''officer'' 150 demo_pr (demo_env 150 ''gs'') demo6)"

lemma demo7_step:
  "\<exists>o1 o2. RecordGateScan demo_store demo_ctx ''bk'' ''G1'' ''officer'' 150 demo_pr (demo_env 150 ''gs'') demo6
     = (Inr (demo_scan, demo_gated), demo6\<lparr>gate_scans := [demo_scan], truck_bookings := [demo_gated],
         platform_outbox := platform_outbox demo6 @ [o1, o2]\<rparr>) \<and> o_EventID o1 = ''gsxx'' \<and> o_EventID o2 = ''gsxxxx''"
proof -
  let ?d = "demo6\<lparr>gate_scans := [demo_scan]\<rparr>"
  let ?u = "demo_paid\<lparr>b_Status := B_GATE_APPROVED, b_UpdatedAt := 150, b_Version := 4, b_GateID := Some ''G1''\<rparr>"
  let ?e = "later 0 1 (demo_env 150 ''gs'')"
  let ?ext = "[(''gate-id'', ''G1''), (''scan-id'', ''gs'')]"
  let ?o = "demo_event TopicBooking ''booking.gate_approved'' ''request-1'' ''bk'' (BookingPayload demo_gated) ?ext [] 150 ?e"
  have w: "booking_write_error ''tenant-demo'' ?d (set_columns ?u demo_paid) = None"
    by (simp add: booking_write_error_def enforce_slot_capacity_def receipt_conflict_def demo_paid_transition_check
        holds_capacity_def find_slot_def demo_slot_def)
  have tr: "transitionTx demo_store demo_claims demo_paid B_GATE_APPROVED (\<lambda>u. u\<lparr>b_GateID := Some ''G1''\<rparr>)
       ''booking.gate_approved'' ?ext demo_pr [] ?e ?d
     = Inr (demo_gated, ?d\<lparr>truck_bookings := [demo_gated], platform_outbox := platform_outbox demo6 @ [?o]\<rparr>)"
    using w transitionTx_demo [of ?d demo_paid B_GATE_APPROVED ?u "\<lambda>u. u\<lparr>b_GateID := Some ''G1''\<rparr>"
        ?e "''booking.gate_approved''" ?ext "[]"]
    by (simp add: demo_gated_def booking_ValidTransition_def go_simps numeral_2_eq_2)
  have g: "gate_denial demo_claims demo6 demo_paid 150 = None"
    by (simp add: gate_denial_def find_slot_def demo_slot_def)
  have sc: "insert_scan ''persist approved gate scan'' demo_scan demo6 = Inr ?d"
    by (simp add: insert_scan_def gate_scans_check_def demo_scan_def)
  have ids: "map o_EventID (platform_outbox demo6 @ [?o]) = [''bkxx'', ''rsx'', ''payx'', ''gsxx'']"
    by (simp add: numeral_2_eq_2)
  have em: "emit demo_claims TopicGate ''gate.scan_approved'' ''request-1'' ''bk'' (ScanPayload demo_scan)
      [(''gate-id'', ''G1''), (''booking-id'', ''bk'')] demo_pr [] 150 (Some demo_signer) (later 1 3 (demo_env 150 ''gs''))
      (?d\<lparr>truck_bookings := [demo_gated], platform_outbox := platform_outbox demo6 @ [?o]\<rparr>)
    = Inr (?d\<lparr>truck_bookings := [demo_gated], platform_outbox := (platform_outbox demo6 @ [?o]) @
        [demo_event TopicGate ''gate.scan_approved'' ''request-1'' ''bk'' (ScanPayload demo_scan)
          [(''gate-id'', ''G1''), (''booking-id'', ''bk'')] [] 150 (later 1 3 (demo_env 150 ''gs''))]\<rparr>)"
    by (subst emit_demo) (use ids in \<open>simp_all add: go_simps demo_topics\<close>)
  show ?thesis
    by (rule exI [of _ ?o], rule exI [of _ "demo_event TopicGate ''gate.scan_approved'' ''request-1'' ''bk''
          (ScanPayload demo_scan) [(''gate-id'', ''G1''), (''booking-id'', ''bk'')] [] 150 (later 1 3 (demo_env 150 ''gs''))"])
       (intro conjI, simp add: RecordGateScan_def WithTx_demo RecordGateScan_work_def getForUpdate_def find_booking_def g
         demo_scan_def [symmetric] sc tr em del: One_nat_def, simp_all add: numeral_eq_Suc)
qed

lemma demo7_facts [simp]: "truck_bookings demo7 = [demo_gated]" "terminal_slots demo7 = [demo_slot]"
  "gate_scans demo7 = [demo_scan]" "port_terminals demo7 = port_terminals demo1"
  "truck_queue_requests demo7 = truck_queue_requests demo6"
  "map o_EventID (platform_outbox demo7) = [''bkxx'', ''rsx'', ''payx'', ''gsxx'', ''gsxxxx'']"
  using demo7_step by (auto simp: demo7_def)

section \<open>The run is reachable\<close>

lemma demo_wire:
  "wire demo_signer demo_verifier list_tigerbeetle 1500 100 = Inr (demo_store, demo_queue\<lparr>qs_bookings := demo_store\<rparr>)"
  by (simp add: wire_def wired_queue_def queue_NewStore_def wired_bookings_def SetRefundPoster_def demo_store_def
      wired_store_def demo_queue_def SetReleaseVerifier_def SetCapacityListener_def booking_NewStore_def)

abbreviation demo_reachable :: "db \<Rightarrow> bool" where
  "demo_reachable d \<equiv> reachable demo_store (demo_queue\<lparr>qs_bookings := demo_store\<rparr>) (d, [])"

lemma demo_run: "demo_reachable demo1" "demo_reachable demo2" "demo_reachable demo3" "demo_reachable demo4"
  "demo_reachable demo5" "demo_reachable demo6" "demo_reachable demo7"
proof -
  have s1: "demo_reachable demo1"
    by (rule reachable.step [OF reachable.start op_step.CreateTerminal]) (simp add: demo1_def prod_eq_iff)
  have s2: "demo_reachable demo2"
    by (rule reachable.step [OF s1 op_step.CreateSlot]) (simp add: demo2_def prod_eq_iff)
  have s3: "demo_reachable demo3"
    by (rule reachable.step [OF s2 op_step.Create]) (simp add: demo3_def prod_eq_iff)
  have s4: "demo_reachable demo4"
    by (rule reachable.step [OF s3 op_step.ReserveSlot]) (simp add: demo4_def prod_eq_iff)
  have s5: "demo_reachable demo5"
    by (rule reachable.step [OF s4 op_step.CreatePaymentIntent]) (simp add: demo5_def prod_eq_iff)
  have s6: "demo_reachable demo6"
    by (rule reachable.step [OF s5 op_step.ConfirmPayment]) (simp add: demo6_def prod_eq_iff)
  have s7: "demo_reachable demo7"
    by (rule reachable.step [OF s6 op_step.RecordGateScan]) (simp add: demo7_def prod_eq_iff)
  show "demo_reachable demo1" "demo_reachable demo2" "demo_reachable demo3" "demo_reachable demo4"
    "demo_reachable demo5" "demo_reachable demo6" "demo_reachable demo7"
    by (fact s1 s2 s3 s4 s5 s6 s7)+
qed

section \<open>A truck queues and is called up\<close>

abbreviation demo_q :: "tb_transfer list qstore" where
  "demo_q \<equiv> demo_queue\<lparr>qs_bookings := demo_store\<rparr>"

definition demo_qreq :: QCreateRequest where
  "demo_qreq = \<lparr>qc_IdempotencyKey = ''queue-req-1'', qc_TruckPlate = ''LAG-123'', qc_TruckerMSISDN = ''+2348031234567'',
     qc_TerminalID = ''APAPA'', qc_PriorityClass = ClassStandard, qc_BookingID = []\<rparr>"

definition demo_pending :: BookingRow where
  "demo_pending = new_booking demo_claims
     \<lparr>cr_RequestID = ''queue-req-1'', cr_TruckPlate = ''LAG-123'', cr_TruckerMSISDN = ''+2348031234567'',
      cr_TerminalID = ''APAPA'', cr_Channel = ChannelWeb, cr_AmountKobo = 250000,
      cr_ExpiresAt = 10 + pendingBookingValidity, cr_CargoDeclarationRef = [], cr_DeclaredWeightKg = 0,
      cr_ConsigneeID = [], cr_OperatorID = [], cr_ContainerID = []\<rparr> demo_pr (demo_env 10 ''q'')"

definition demo_q_requested :: QueueRow where
  "demo_q_requested = new_queue_request demo_claims demo_qreq ''q'' (later 2 3 (demo_env 10 ''q''))"

definition demo_q_waiting :: QueueRow where
  "demo_q_waiting = queue_set_columns (demo_q_requested\<lparr>q_Status := Q_QUEUED, q_UpdatedAt := 10, q_Version := 2,
     q_Position := Some 1\<rparr>) demo_q_requested"

definition demo_q1 :: db where
  "demo_q1 = snd (queue_Create demo_q demo_ctx demo_qreq ChannelWeb demo_pr (demo_env 10 ''q'') demo1)"

lemma demo1_facts [simp]: "truck_bookings demo1 = []" "platform_outbox demo1 = []" "truck_queue_requests demo1 = []"
  "find_terminal ''tenant-demo'' (demo1\<lparr>truck_bookings := T, platform_outbox := ob\<rparr>) ''APAPA'' = Some (hd (port_terminals demo1))"
  "find_terminal ''tenant-demo'' (demo1\<lparr>truck_bookings := T, platform_outbox := ob, truck_queue_requests := Q\<rparr>) ''APAPA''
     = Some (hd (port_terminals demo1))"
  "find_terminal ''tenant-demo'' demo1 ''APAPA'' = Some (hd (port_terminals demo1))"
  "t_Active (hd (port_terminals demo1))" "t_BookingFeeKobo (hd (port_terminals demo1)) = 250000"
  "t_QueueCapacity (hd (port_terminals demo1)) = 1"
  by (simp_all add: demo1_eq empty_db_def find_terminal_def)

lemma demo_pending_step:
  "\<exists>o1. pending_booking demo_q demo_qreq ChannelWeb demo_pr (hd (port_terminals demo1)) (demo_env 10 ''q'') demo_claims demo1
     = Inr (''q'', demo1\<lparr>truck_bookings := [demo_pending], platform_outbox := [o1]\<rparr>) \<and> o_EventID o1 = ''qxx''"
proof -
  have c: "truck_bookings_check demo_pending"
    by (simp add: demo_pending_def new_booking_def declarationBinding_def containerIDPtr_def demo_pr_def
        truck_bookings_check_def truckPlatePattern_def msisdnPattern_def go_simps del: match_regex.simps)
  have "b_SlotID demo_pending = None" "b_PaymentReceiptRef demo_pending = None" "b_Status demo_pending = B_DRAFTED"
    "b_BookingID demo_pending = ''q''" "b_RequestID demo_pending = ''queue-req-1''" "b_TerminalID demo_pending = ''APAPA''"
    by (simp_all add: demo_pending_def)
  moreover from this c have "booking_write_error ''tenant-demo'' demo1 demo_pending = None"
    by (simp add: booking_write_error_def enforce_slot_capacity_def receipt_conflict_def)
  ultimately show ?thesis
    by (auto simp: pending_booking_def demo_qreq_def createTx_def Let_def release_check_def find_request_def
        demo_pending_def [symmetric] emit_demo demo_topics go_simps)
qed

lemma demo_q_requested_simps [simp]:
  "q_Status demo_q_requested = Q_REQUESTED" "q_TenantID demo_q_requested = ''tenant-demo''"
  "q_QueueRequestID demo_q_requested = ''qxxx''" "q_Version demo_q_requested = 1" "q_Position demo_q_requested = None"
  "q_TerminalID demo_q_requested = ''APAPA''" "q_IdempotencyKey demo_q_requested = ''queue-req-1''"
  "q_PriorityClass demo_q_requested = ClassStandard" "q_CreatedAt demo_q_requested = 10"
  by (simp_all add: demo_q_requested_def new_queue_request_def demo_qreq_def)

lemma demo_q_check: "truck_queue_check demo_q_requested"
  by (simp add: demo_q_requested_def new_queue_request_def demo_qreq_def truck_queue_check_def truckPlatePattern_def
      msisdnPattern_def go_simps del: match_regex.simps)

lemma demo_q1_step:
  "fst (queue_Create demo_q demo_ctx demo_qreq ChannelWeb demo_pr (demo_env 10 ''q'') demo1) = Inr demo_q_waiting
   \<and> truck_queue_requests demo_q1 = [demo_q_waiting] \<and> port_terminals demo_q1 = port_terminals demo1
   \<and> truck_bookings demo_q1 = [demo_pending]
   \<and> map o_EventID (platform_outbox demo_q1) = [''qxx'', ''qxxxxx'', ''qxxxxxxx'']"
proof -
  obtain o1 where pb: "pending_booking demo_q demo_qreq ChannelWeb demo_pr (hd (port_terminals demo1)) (demo_env 10 ''q'')
      demo_claims demo1 = Inr (''q'', demo1\<lparr>truck_bookings := [demo_pending], platform_outbox := [o1]\<rparr>)"
    and o1: "o_EventID o1 = ''qxx''" using demo_pending_step by blast
  have v: "queue_Validate demo_qreq = None"
    by (simp add: queue_Validate_def demo_qreq_def truckPlatePattern_def msisdnPattern_def terminalPattern_def go_simps
        del: match_regex.simps)
  let ?u = "demo_q_requested\<lparr>q_Status := Q_QUEUED, q_UpdatedAt := 10, q_Version := 2, q_Position := Some 1\<rparr>"
  have w: "queue_write_error ''tenant-demo'' d demo_q_requested = None" for d
    using demo_q_check by (simp add: queue_write_error_def enforce_terminal_callup_capacity_def called_up_def position_conflict_def)
  have w2: "queue_write_error ''tenant-demo'' d (queue_set_columns ?u demo_q_requested) = None"
    if "truck_queue_requests d = [demo_q_requested]" for d
    using demo_q_check that
    by (simp add: queue_write_error_def enforce_terminal_callup_capacity_def called_up_def position_conflict_def
        truck_queue_check_def queue_set_columns_def)
  have p: "assign_position ''tenant-demo'' d ''APAPA'' = Inr 1" if "truck_queue_requests d = [demo_q_requested]" for d
    using that by (simp add: assign_position_def positions_def List.map_filter_def max_int64_def)
  have t: "qc_TerminalID demo_qreq = ''APAPA''" "qc_IdempotencyKey demo_qreq = ''queue-req-1''"
    by (simp_all add: demo_qreq_def)
  show ?thesis
    using v pb o1
    by (auto simp: demo_q1_def queue_Create_def WithTx_demo queue_createTx_def lockTerminal_def t Let_def find_key_def w w2 p
        demo_q_requested_def [symmetric] emit_demo demo_topics go_simps queue_transitionTx_def queue_ValidTransition_def
        queue_target_def update_where_def demo_q_waiting_def)
qed

lemma demo_q1_facts [simp]: "truck_queue_requests demo_q1 = [demo_q_waiting]" "port_terminals demo_q1 = port_terminals demo1"
  "truck_bookings demo_q1 = [demo_pending]"
  "o_EventID ` set (platform_outbox demo_q1) = {''qxx'', ''qxxxxx'', ''qxxxxxxx''}"
  using demo_q1_step by (simp_all flip: set_map)

lemma demo_q_waiting_simps [simp]:
  "q_Status demo_q_waiting = Q_QUEUED" "q_TenantID demo_q_waiting = ''tenant-demo''"
  "q_QueueRequestID demo_q_waiting = ''qxxx''" "q_Version demo_q_waiting = 2" "q_Position demo_q_waiting = Some 1"
  "q_TerminalID demo_q_waiting = ''APAPA''" "q_IdempotencyKey demo_q_waiting = ''queue-req-1''"
  by (simp_all add: demo_q_waiting_def)

definition demo_q_called :: QueueRow where
  "demo_q_called = queue_set_columns (demo_q_waiting\<lparr>q_Status := Q_CALLED_UP, q_UpdatedAt := 50, q_Version := 3,
     q_CalledUpAt := Some 50, q_GraceDeadline := Some 150\<rparr>) demo_q_waiting"

definition demo_q2 :: db where
  "demo_q2 = snd (PromoteNext demo_q demo_ctx ''APAPA'' demo_pr (demo_env 50 ''pn'') demo_q1)"

lemma demo_q2_step:
  "PromoteNext demo_q demo_ctx ''APAPA'' demo_pr (demo_env 50 ''pn'') demo_q1 = (Inr (Some demo_q_called), demo_q2)
   \<and> truck_queue_requests demo_q2 = [demo_q_called] \<and> port_terminals demo_q2 = port_terminals demo1
   \<and> truck_bookings demo_q2 = [demo_pending]
   \<and> o_EventID ` set (platform_outbox demo_q2) = {''pnx'', ''qxx'', ''qxxxxx'', ''qxxxxxxx''}"
proof -
  let ?u = "demo_q_waiting\<lparr>q_Status := Q_CALLED_UP, q_UpdatedAt := 50, q_Version := 3, q_CalledUpAt := Some 50,
     q_GraceDeadline := Some 150\<rparr>"
  have t: "find_terminal ''tenant-demo'' demo_q1 ''APAPA'' = Some (hd (port_terminals demo1))"
    using demo1_facts(6) by (simp add: find_terminal_def)
  have v: "queue_validateTerminalID ''APAPA'' = None"
    by (simp add: queue_validateTerminalID_def terminalPattern_def go_simps del: match_regex.simps)
  have w: "queue_write_error ''tenant-demo'' demo_q1 (queue_set_columns ?u demo_q_waiting) = None"
    using demo_q_check t
    by (simp add: queue_write_error_def enforce_terminal_callup_capacity_def called_up_def position_conflict_def
        truck_queue_check_def queue_set_columns_def in_callup_def demo_q_waiting_def)
  have h: "head_of_queue ''tenant-demo'' demo_q1 ''APAPA'' = Some demo_q_waiting"
    by (simp add: head_of_queue_def queued_at_def)
  have a: "active_callups ''tenant-demo'' demo_q1 ''APAPA'' = 0"
    by (simp add: active_callups_def in_callup_def called_up_def)
  show ?thesis
    by (simp add: demo_q2_def PromoteNext_def WithTx_demo promoteNextTx_def v lockTerminal_def t a h Let_def
        queue_transitionTx_def queue_ValidTransition_def queue_target_def w emit_demo demo_topics go_simps
        update_where_def demo_q_called_def)
qed

lemma demo_q2_facts [simp]: "truck_queue_requests demo_q2 = [demo_q_called]" "port_terminals demo_q2 = port_terminals demo1"
  "truck_bookings demo_q2 = [demo_pending]"
  "o_EventID ` set (platform_outbox demo_q2) = {''pnx'', ''qxx'', ''qxxxxx'', ''qxxxxxxx''}"
  using demo_q2_step by simp_all

lemma demo_q_called_simps [simp]:
  "q_Status demo_q_called = Q_CALLED_UP" "q_TenantID demo_q_called = ''tenant-demo''"
  "q_QueueRequestID demo_q_called = ''qxxx''" "q_Version demo_q_called = 3" "q_Position demo_q_called = Some 1"
  "q_TerminalID demo_q_called = ''APAPA''" "q_IdempotencyKey demo_q_called = ''queue-req-1''"
  "q_GraceDeadline demo_q_called = Some 150" "q_PriorityClass demo_q_called = ClassStandard"
  by (simp_all add: demo_q_called_def demo_q_waiting_def)

text \<open>A second truck joins behind it, on the booking the first request created.\<close>

definition demo_qreq2 :: QCreateRequest where
  "demo_qreq2 = demo_qreq\<lparr>qc_IdempotencyKey := ''queue-req-2'', qc_TruckPlate := ''LAG-456'', qc_BookingID := ''q''\<rparr>"

definition demo_q_second :: QueueRow where
  "demo_q_second = queue_set_columns ((new_queue_request demo_claims demo_qreq2 ''q'' (later 2 3 (demo_env 60 ''r'')))
     \<lparr>q_Status := Q_QUEUED, q_UpdatedAt := 60, q_Version := 2, q_Position := Some 2\<rparr>)
     (new_queue_request demo_claims demo_qreq2 ''q'' (later 2 3 (demo_env 60 ''r'')))"

definition demo_q3 :: db where
  "demo_q3 = snd (queue_Create demo_q demo_ctx demo_qreq2 ChannelWeb demo_pr (demo_env 60 ''r'') demo_q2)"

lemma demo_q3_step:
  "queue_Create demo_q demo_ctx demo_qreq2 ChannelWeb demo_pr (demo_env 60 ''r'') demo_q2 = (Inr demo_q_second, demo_q3)
   \<and> truck_queue_requests demo_q3 = [demo_q_called, demo_q_second] \<and> port_terminals demo_q3 = port_terminals demo1
   \<and> o_EventID ` set (platform_outbox demo_q3) = {''pnx'', ''qxx'', ''qxxxxx'', ''qxxxxxxx'', ''rxxxxx'', ''rxxxxxxx''}"
proof -
  let ?n = "new_queue_request demo_claims demo_qreq2 ''q'' (later 2 3 (demo_env 60 ''r''))"
  let ?u = "?n\<lparr>q_Status := Q_QUEUED, q_UpdatedAt := 60, q_Version := 2, q_Position := Some 2\<rparr>"
  have pb: "pending_booking demo_q demo_qreq2 ChannelWeb demo_pr t (demo_env 60 ''r'') demo_claims demo_q2 = Inr (''q'', demo_q2)" for t
    by (simp add: pending_booking_def demo_qreq2_def find_booking_def demo_pending_def)
  have f: "find_terminal ''tenant-demo'' demo_q2 ''APAPA'' = Some (hd (port_terminals demo1))"
    using demo1_facts(6) by (simp add: find_terminal_def)
  have v: "queue_Validate demo_qreq2 = None"
    by (simp add: queue_Validate_def demo_qreq_def demo_qreq2_def truckPlatePattern_def msisdnPattern_def terminalPattern_def
        go_simps del: match_regex.simps)
  have c: "truck_queue_check ?n"
    by (simp add: new_queue_request_def demo_qreq_def demo_qreq2_def truck_queue_check_def truckPlatePattern_def
        msisdnPattern_def go_simps del: match_regex.simps)
  have n: "q_Status ?n = Q_REQUESTED" "q_Position ?n = None" "q_Version ?n = 1" "q_QueueRequestID ?n = ''rxxx''"
    "q_TenantID ?n = ''tenant-demo''" "q_TerminalID ?n = ''APAPA''" "q_IdempotencyKey ?n = ''queue-req-2''"
    by (simp_all add: new_queue_request_def demo_qreq_def demo_qreq2_def)
  have w: "queue_write_error ''tenant-demo'' d ?n = None" for d
    using c by (simp add: queue_write_error_def enforce_terminal_callup_capacity_def called_up_def position_conflict_def)
  have w2: "queue_write_error ''tenant-demo'' d (queue_set_columns ?u ?n) = None"
    if "truck_queue_requests d = [demo_q_called, ?n]" for d
    using c that n by (simp add: queue_write_error_def enforce_terminal_callup_capacity_def called_up_def position_conflict_def
        truck_queue_check_def queue_set_columns_def)
  have p: "assign_position ''tenant-demo'' d ''APAPA'' = Inr 2" if "truck_queue_requests d = [demo_q_called, ?n]" for d
    using that n by (simp add: assign_position_def positions_def List.map_filter_def max_int64_def)
  have t: "qc_TerminalID demo_qreq2 = ''APAPA''" "qc_IdempotencyKey demo_qreq2 = ''queue-req-2''"
    by (simp_all add: demo_qreq_def demo_qreq2_def)
  show ?thesis
    using v
    by (simp add: demo_q3_def queue_Create_def WithTx_demo queue_createTx_def lockTerminal_def t f pb Let_def find_key_def w w2 p n
        emit_demo demo_topics go_simps queue_transitionTx_def queue_ValidTransition_def queue_target_def update_where_def
        demo_q_second_def insert_commute del: new_queue_request_simps)
qed

lemma demo_q3_facts [simp]: "truck_queue_requests demo_q3 = [demo_q_called, demo_q_second]"
  "port_terminals demo_q3 = port_terminals demo1"
  "o_EventID ` set (platform_outbox demo_q3) = {''pnx'', ''qxx'', ''qxxxxx'', ''qxxxxxxx'', ''rxxxxx'', ''rxxxxxxx''}"
  using demo_q3_step by simp_all

lemma demo_q_second_simps [simp]:
  "q_Status demo_q_second = Q_QUEUED" "q_TenantID demo_q_second = ''tenant-demo''"
  "q_QueueRequestID demo_q_second = ''rxxx''" "q_Version demo_q_second = 2" "q_Position demo_q_second = Some 2"
  "q_TerminalID demo_q_second = ''APAPA''" "q_IdempotencyKey demo_q_second = ''queue-req-2''" "q_PriorityClass demo_q_second = ClassStandard"
  by (simp_all add: demo_q_second_def new_queue_request_def demo_qreq_def demo_qreq2_def)

lemma demo_queue_run: "demo_reachable demo_q1" "demo_reachable demo_q2" "demo_reachable demo_q3"
proof -
  have s1: "demo_reachable demo_q1"
    by (rule reachable.step [OF demo_run(1) op_step.queue_Create]) (simp add: demo_q1_def prod_eq_iff)
  have s2: "demo_reachable demo_q2"
    by (rule reachable.step [OF s1 op_step.PromoteNext]) (simp add: demo_q2_def prod_eq_iff)
  have s3: "demo_reachable demo_q3"
    by (rule reachable.step [OF s2 op_step.queue_Create]) (simp add: demo_q3_def prod_eq_iff)
  show "demo_reachable demo_q1" "demo_reachable demo_q2" "demo_reachable demo_q3" by (fact s1 s2 s3)+
qed

end
