(* ===== verification/Queue_Properties.thy ===== *)
theory Queue_Properties
  imports Scenario
begin

text \<open>
  What the call-up queue promises: trucks are called strictly by priority class
  and position, the reconciliation sweep leaves no free capacity unused, a truck
  that arrives late forfeits, and a new request joins at the tail.
\<close>

section \<open>Order of call-ups\<close>

lemma queue_key_inj:
  assumes "db_inv d" and "q \<in> set (truck_queue_requests d)" "r \<in> set (truck_queue_requests d)"
    and "queued_at tid t q" "queued_at tid t r" "queue_key q = queue_key r"
  shows "q = r"
proof -
  from assms(1,2) have "truck_queue_check q" by (auto simp: db_inv_def queue_ok_def)
  with assms(4) have "q_Position q \<noteq> None" by (auto simp: truck_queue_check_def queued_at_def)
  moreover from this assms(6) have "q_Position q = q_Position r"
    by (auto simp: queue_key_def split: option.splits)
  ultimately show ?thesis
    using assms(1-5) unfolding db_inv_def queue_ok_def queued_at_def by metis
qed

text \<open>
  Claim C36. Call-ups are fair: \<open>PromoteNext\<close> calls up a truck only while the
  terminal has free call-up capacity, and the truck it calls is the unique first
  of the queue, ahead of every other waiting truck of the terminal by priority
  class and then by position; it gets the full grace window from now. When it
  calls nobody, nothing changed and the terminal is full or nobody waits.
\<close>

theorem PromoteNext_fifo:
  assumes "db_inv d" and "ctx_claims c = Some claims" and "PromoteNext qs c t pr e d = (Inr x, d')"
  shows "case x of
      None \<Rightarrow> d' = d \<and> (\<exists>tm. find_terminal (TenantID claims) d t = Some tm \<and>
         (t_QueueCapacity tm \<le> active_callups (TenantID claims) d t \<or>
          (\<forall>q\<in>set (truck_queue_requests d). \<not> queued_at (TenantID claims) t q)))
    | Some q \<Rightarrow> \<exists>head tm. head \<in> set (truck_queue_requests d) \<and> queued_at (TenantID claims) t head
        \<and> (\<forall>r\<in>set (truck_queue_requests d). queued_at (TenantID claims) t r \<and> r \<noteq> head \<longrightarrow> queue_key head < queue_key r)
        \<and> find_terminal (TenantID claims) d t = Some tm \<and> active_callups (TenantID claims) d t < t_QueueCapacity tm
        \<and> q_QueueRequestID q = q_QueueRequestID head \<and> q_Status q = Q_CALLED_UP
        \<and> q_GraceDeadline q = Some (clk e 0 + qs_graceWindow qs)
        \<and> truck_queue_requests d' = replace_row q_QueueRequestID q (truck_queue_requests d)"
proof -
  from WithTx_InrD [OF assms(3) [unfolded PromoteNext_def]] assms(2)
  have p: "promoteNextTx qs claims t pr (clk e 0) (later 1 0 e) d = Inr (x, d')" by auto
  have k: "keys_ok d" using assms(1) by (rule db_inv_keys)
  show ?thesis
  proof (cases x)
    case None
    from p obtain tm where tm: "find_terminal (TenantID claims) d t = Some tm"
      by (auto simp: promoteNextTx_def bindE_Inr_iff lockTerminal_def)
    from p None show ?thesis
      using tm head_of_queue_NoneD by (cases rule: promoteNextTx_cases) auto
  next
    case (Some q)
    from p [unfolded Some] obtain tm head ext where tm: "find_terminal (TenantID claims) d t = Some tm"
      and cap: "active_callups (TenantID claims) d t < t_QueueCapacity tm"
      and h: "head_of_queue (TenantID claims) d t = Some head"
      and tr: "queue_transitionTx qs claims head Q_CALLED_UP
       (\<lambda>u. u\<lparr>q_CalledUpAt := Some (clk e 0), q_GraceDeadline := Some (clk e 0 + qs_graceWindow qs)\<rparr>)
       ''queue.called_up'' ext pr (later 1 0 e) d = Inr (q, d')"
      by (cases rule: promoteNextTx_cases) auto
    note hd = head_of_queue_SomeD [OF h]
    have first: "queue_key head < queue_key r"
      if "r \<in> set (truck_queue_requests d)" "queued_at (TenantID claims) t r" "r \<noteq> head" for r
      using hd that queue_key_inj [OF assms(1), of head r "TenantID claims" t] by (metis order_le_less)
    have q: "q_TenantID head = TenantID claims" "q_TerminalID head = t" using hd by (auto simp: queued_at_def)
    have "q = queue_set_columns (head\<lparr>q_Status := Q_CALLED_UP, q_UpdatedAt := clk (later 1 0 e) 0,
        q_Version := wrap64 (q_Version head + 1), q_CalledUpAt := Some (clk e 0),
        q_GraceDeadline := Some (clk e 0 + qs_graceWindow qs)\<rparr>) head
      \<and> truck_queue_requests d' = replace_row q_QueueRequestID q (truck_queue_requests d)"
      using queue_transitionTx_writes [OF tr k _ q(1) refl] hd tm cap h q(2) by auto
    with Some hd first tm cap show ?thesis by auto
  qed
qed

theorem PromoteNext_fifo_witness:
  "\<exists>head\<in>set (truck_queue_requests demo_q1). q_QueueRequestID demo_q_called = q_QueueRequestID head
     \<and> q_GraceDeadline demo_q_called = Some 150"
proof -
  have inv: "db_inv demo_q1" by (rule wire_reachable_inv [OF demo_wire demo_queue_run(1)])
  have "PromoteNext demo_q demo_ctx ''APAPA'' demo_pr (demo_env 50 ''pn'') demo_q1 = (Inr (Some demo_q_called), demo_q2)"
    using demo_q2_step by blast
  from PromoteNext_fifo [OF inv _ this, of demo_claims] show ?thesis by auto
qed

section \<open>The sweep fills every terminal\<close>

definition served :: "string \<Rightarrow> db \<Rightarrow> string \<Rightarrow> bool" where
  "served tid d t \<longleftrightarrow> (\<forall>q\<in>set (truck_queue_requests d). queued_at tid t q \<longrightarrow>
     (\<exists>tm. find_terminal tid d t = Some tm \<and> t_QueueCapacity tm \<le> active_callups tid d t))"

abbreviation at_terminal :: "string \<Rightarrow> db \<Rightarrow> QueueRow list" where
  "at_terminal t d \<equiv> filter (\<lambda>q. q_TerminalID q = t) (truck_queue_requests d)"

lemma served_local:
  assumes "at_terminal t d' = at_terminal t d" and "port_terminals d' = port_terminals d"
  shows "served tid d' t = served tid d t"
proof -
  have f: "filter (\<lambda>q. q_TerminalID q = t \<and> P q) (truck_queue_requests d')
      = filter (\<lambda>q. q_TerminalID q = t \<and> P q) (truck_queue_requests d)" for P
    using arg_cong [OF assms(1), of "filter P"] by (simp add: conj_commute)
  have "active_callups tid d' t = active_callups tid d t"
    using f [of "\<lambda>q. q_TenantID q = tid \<and> called_up (q_Status q)"]
    by (simp add: active_callups_def count_rows_def in_callup_def conj_ac)
  moreover have "{q \<in> set (truck_queue_requests d'). queued_at tid t q} = {q \<in> set (truck_queue_requests d). queued_at tid t q}"
    using arg_cong [OF f [of "\<lambda>q. q_TenantID q = tid \<and> q_Status q = Q_QUEUED"], of set]
    by (simp add: queued_at_def conj_ac)
  moreover have "find_terminal tid d' t = find_terminal tid d t"
    using assms(2) by (simp add: find_terminal_def)
  moreover have "served tid x t \<longleftrightarrow> (\<forall>q\<in>{q \<in> set (truck_queue_requests x). queued_at tid t q}.
      \<exists>tm. find_terminal tid x t = Some tm \<and> t_QueueCapacity tm \<le> active_callups tid x t)" for x
    unfolding served_def by blast
  ultimately show ?thesis by (simp only:)
qed

lemma promote_local:
  assumes "promoteNextTx qs claims t pr now e d = Inr (x, d')" and "keys_ok d"
  shows "port_terminals d' = port_terminals d \<and> (\<forall>t'. t' \<noteq> t \<longrightarrow> at_terminal t' d' = at_terminal t' d)"
  using assms(1)
proof (cases rule: promoteNextTx_cases)
  case (promoted tm head q ext)
  from head_of_queue_SomeD [OF promoted(4)] have h: "head \<in> set (truck_queue_requests d)"
    "q_TenantID head = TenantID claims" "q_TerminalID head = t" by (auto simp: queued_at_def)
  let ?u = "head\<lparr>q_Status := Q_CALLED_UP, q_UpdatedAt := clk e 0, q_Version := wrap64 (q_Version head + 1),
     q_CalledUpAt := Some now, q_GraceDeadline := Some (now + qs_graceWindow qs)\<rparr>"
  have *: "q = queue_set_columns ?u head" "\<exists>o1. d' = d\<lparr>truck_queue_requests :=
      replace_row q_QueueRequestID q (truck_queue_requests d), platform_outbox := platform_outbox d @ [o1]\<rparr>"
    using queue_transitionTx_writes [OF promoted(5) assms(2) h(1,2), of ?u] promoted(2,3,4) h(3) by auto
  have "x = head" if "x \<in> set (truck_queue_requests d)" "q_QueueRequestID x = q_QueueRequestID q" for x
    using that h(1) *(1) assms(2) by (auto simp: keys_ok_def dest: distinct_key_eq)
  then have "filter (\<lambda>q. q_TerminalID q = t') (replace_row q_QueueRequestID q (truck_queue_requests d)) = at_terminal t' d"
    if "t' \<noteq> t" for t'
    unfolding replace_row_def using that h(3) *(1) by (intro filter_update_foreign) auto
  with *(2) show ?thesis by auto
qed simp

lemma idle_served:
  assumes "promoteNextTx qs claims t pr now e d = Inr (None, d')"
  shows "d' = d \<and> served (TenantID claims) d t"
proof -
  from assms obtain tm where tm: "find_terminal (TenantID claims) d t = Some tm"
    by (auto simp: promoteNextTx_def bindE_Inr_iff lockTerminal_def)
  from assms show ?thesis
    using tm head_of_queue_NoneD by (cases rule: promoteNextTx_cases) (auto simp: served_def)
qed

lemma promote_all_served:
  "promote_all qs claims t pr now e d = Inr (ps, d') \<Longrightarrow> keys_ok d \<Longrightarrow>
   port_terminals d' = port_terminals d \<and> (\<forall>t'. t' \<noteq> t \<longrightarrow> at_terminal t' d' = at_terminal t' d)
   \<and> served (TenantID claims) d' t"
proof (induction qs claims t pr now e d arbitrary: ps rule: promote_all.induct)
  case (1 qs claims t pr now e d)
  from "1.prems"(1) obtain x d1 where p: "promoteNextTx qs claims t pr now e d = Inr (x, d1)"
    by (auto simp: promote_all.simps [of qs claims t pr now e d] split: sum.splits)
  show ?case
  proof (cases x)
    case None
    with p "1.prems" have "d' = d1" by (simp add: promote_all.simps [of qs claims t pr now e d])
    with idle_served [OF p [unfolded None]] show ?thesis by simp
  next
    case (Some q)
    with p "1.prems"(1) obtain ps' where "promote_all qs claims t pr now (later 1 2 e) d1 = Inr (ps', d')"
      by (auto simp: promote_all.simps [of qs claims t pr now e d] bindE_Inr_iff)
    with "1.IH" [OF p refl Some] promoteNextTx_writes [OF p "1.prems"(2)] promote_local [OF p "1.prems"(2)]
    show ?thesis by auto
  qed
qed

lemma fill_loop_served:
  "fill_loop qs claims pr now ts e d = Inr (ps, d') \<Longrightarrow> keys_ok d \<Longrightarrow>
   port_terminals d' = port_terminals d \<and> (\<forall>t'. t' \<notin> set ts \<longrightarrow> at_terminal t' d' = at_terminal t' d)
   \<and> (\<forall>t\<in>set ts. served (TenantID claims) d' t)"
proof (induction ts arbitrary: e d ps)
  case (Cons t ts)
  then obtain ps1 d1 e1 ps2 where p: "promote_all qs claims t pr now e d = Inr (ps1, d1)"
    and f: "fill_loop qs claims pr now ts e1 d1 = Inr (ps2, d')"
    by (auto simp: bindE_Inr_iff)
  have k: "keys_ok d1" using promote_all_writes [OF p Cons.prems(2)] by simp
  note a = promote_all_served [OF p Cons.prems(2)] and b = Cons.IH [OF f k]
  have "served (TenantID claims) d' t"
    using a b served_local [of t d' d1] by (cases "t \<in> set ts") auto
  with a b show ?case by auto
qed simp

lemma ReconcileCallUps_serves:
  assumes "db_inv d" and "some_rows pick" and "\<And>xs. set (order xs) = set xs" and "ctx_claims c = Some claims"
    and "ReconcileCallUps qs pick order c pr e d = (Inr ps, d')"
    and "q \<in> set (truck_queue_requests d')" and "q_TenantID q = TenantID claims" and "q_Status q = Q_QUEUED"
  shows "\<exists>tm. find_terminal (TenantID claims) d' (q_TerminalID q) = Some tm
     \<and> t_QueueCapacity tm \<le> active_callups (TenantID claims) d' (q_TerminalID q)"
proof -
  let ?due = "pick (filter (forfeitable claims (clk e 0)) (truck_queue_requests d))"
  have k: "keys_ok d" using assms(1) by (rule db_inv_keys)
  from WithTx_InrD [OF assms(5) [unfolded ReconcileCallUps_def Let_def]] assms(4)
  obtain fs d1 qs1 e1 where f: "forfeit_loop qs claims (clk e 0) pr ?due (later 1 0 e) d = Inr (fs, d1)"
    and g: "fill_loop qs claims pr (clk e 0) (order (remdups (map q_TerminalID (filter (\<lambda>q. q_TenantID q = TenantID claims
              \<and> q_Status q = Q_QUEUED) (truck_queue_requests d1))))) e1 d1 = Inr (qs1, d')"
    by (auto simp: bindE_Inr_iff)
  have "db_writes (TenantID claims) d d1"
    using forfeit_loop_writes [OF f k due_rows [OF assms(2) k forfeitable_rows]] .
  then have k1: "keys_ok d1" using writes_evolve k by blast
  note fl = fill_loop_served [OF g k1]
  have "served (TenantID claims) d' (q_TerminalID q)"
  proof (cases "q_TerminalID q \<in> set (order (remdups (map q_TerminalID (filter (\<lambda>q. q_TenantID q = TenantID claims
              \<and> q_Status q = Q_QUEUED) (truck_queue_requests d1)))))")
    case True
    with fl show ?thesis by blast
  next
    case False
    with fl have "at_terminal (q_TerminalID q) d' = at_terminal (q_TerminalID q) d1" by blast
    moreover have "q \<in> set (at_terminal (q_TerminalID q) d')" using assms(6) by simp
    ultimately have "q \<in> set (truck_queue_requests d1)" by simp
    with False assms(3,7,8) show ?thesis by auto
  qed
  with assms(6-8) show ?thesis by (auto simp: served_def queued_at_def)
qed

text \<open>
  The sweep wastes no capacity: after a successful \<open>ReconcileCallUps\<close>,
  whatever order the database returned its rows in, a truck of the tenant is still
  waiting at a terminal only if that terminal's call-up capacity is used up.
\<close>

theorem ReconcileCallUps_fills:
  assumes "db_inv d" and "some_rows pick" and "\<And>xs. set (order xs) = set xs" and "ctx_claims c = Some claims"
    and "ReconcileCallUps qs pick order c pr e d = (Inr ps, d')"
    and "q \<in> set (truck_queue_requests d')" and "q_TenantID q = TenantID claims" and "q_Status q = Q_QUEUED"
  shows "\<exists>tm. find_terminal (TenantID claims) d' (q_TerminalID q) = Some tm
     \<and> t_QueueCapacity tm \<le> active_callups (TenantID claims) d' (q_TerminalID q)"
  using assms by (rule ReconcileCallUps_serves)

theorem ReconcileCallUps_fills_witness:
  "\<exists>tm. find_terminal ''tenant-demo'' demo_q3 ''APAPA'' = Some tm \<and> t_QueueCapacity tm \<le> active_callups ''tenant-demo'' demo_q3 ''APAPA''
     \<and> queued_at ''tenant-demo'' ''APAPA'' demo_q_second"
proof -
  have inv: "db_inv demo_q3" by (rule wire_reachable_inv [OF demo_wire demo_queue_run(3)])
  have p: "promoteNextTx demo_q demo_claims ''APAPA'' demo_pr 100 e demo_q3 = Inr (None, demo_q3)" for e
  proof -
    have "find_terminal ''tenant-demo'' demo_q3 ''APAPA'' = Some (hd (port_terminals demo1))"
      using demo1_facts(6) by (simp add: find_terminal_def)
    moreover have "queue_validateTerminalID ''APAPA'' = None"
      by (simp add: queue_validateTerminalID_def terminalPattern_def go_simps del: match_regex.simps)
    moreover have "active_callups ''tenant-demo'' demo_q3 ''APAPA'' = 1"
      by (simp add: active_callups_def in_callup_def called_up_def)
    ultimately show ?thesis by (simp add: promoteNextTx_def lockTerminal_def)
  qed
  have a: "promote_all demo_q demo_claims ''APAPA'' demo_pr 100 e demo_q3 = Inr ([], demo_q3)" for e
    by (subst promote_all.simps) (simp add: p)
  have "ReconcileCallUps demo_q (\<lambda>x. x) (\<lambda>x. x) demo_ctx demo_pr (demo_env 100 ''s'') demo_q3 = (Inr [], demo_q3)"
    by (simp add: ReconcileCallUps_def WithTx_demo Let_def forfeitable_def called_up_def a)
  from ReconcileCallUps_fills [OF inv _ _ _ this, of demo_claims demo_q_second] show ?thesis
    by (simp add: some_rows_def queued_at_def)
qed

section \<open>Arrival\<close>

lemma find_queue_row:
  assumes "keys_ok d" and "q \<in> set (truck_queue_requests d)" and "q_TenantID q = tid" and "q_QueueRequestID q = k"
  shows "find_queue tid d k = Some q"
proof (cases "find_queue tid d k")
  case None
  with assms(2-4) show ?thesis by (auto simp: find_queue_def find_None_iff)
next
  case (Some x)
  with find_queue_SomeD [OF Some] assms show ?thesis by (auto simp: keys_ok_def dest: distinct_key_eq)
qed

lemma moved_then_promoted:
  assumes tr: "queue_transitionTx qs claims q nxt mutate ty ext pr e d = Inr (r, d1)"
    and st: "\<And>u. q_Status (mutate u) = q_Status u" and n: "nxt \<noteq> Q_QUEUED" and k: "keys_ok d"
    and p: "promoteNextTx qs claims t pr now e' d1 = Inr (x, d')"
  shows "find_queue (TenantID claims) d' (q_QueueRequestID q) = Some r \<and> q_Status r = nxt"
proof -
  from tr obtain row o1 where f: "find (queue_target claims q) (truck_queue_requests d) = Some row"
    and r: "r = queue_set_columns (mutate (q\<lparr>q_Status := nxt, q_UpdatedAt := clk e 0,
           q_Version := wrap64 (q_Version q + 1)\<rparr>)) row"
    and d1: "d1 = d\<lparr>truck_queue_requests := update_where (queue_target claims q)
           (queue_set_columns (mutate (q\<lparr>q_Status := nxt, q_UpdatedAt := clk e 0,
             q_Version := wrap64 (q_Version q + 1)\<rparr>))) (truck_queue_requests d),
           platform_outbox := platform_outbox d @ [o1]\<rparr>"
    by (rule queue_transitionTx_InrE)
  note row = find_SomeD [OF f]
  have in1: "r \<in> set (truck_queue_requests d1)" using row r unfolding d1 by (auto simp: set_update_where)
  have s: "q_Status r = nxt" using r st by (simp add: queue_set_columns_def)
  have k1: "keys_ok d1" using k unfolding d1 by (simp add: keys_ok_def map_update_where queue_set_columns_def)
  note pw = promoteNextTx_writes [OF p k1]
  then have "r \<in> set (truck_queue_requests d')" using in1 s n by blast
  with pw row r have "find_queue (TenantID claims) d' (q_QueueRequestID q) = Some r"
    by (intro find_queue_row) (auto simp: queue_target_def queue_set_columns_def)
  with s show ?thesis by simp
qed

text \<open>
  Claim C39. A late truck loses its turn, and only a late one. \<open>Arrive\<close> answers
  success only for a truck that was called up and came within its grace deadline,
  and that truck is then stored as ARRIVED with its gate and arrival time. When it
  answers an error, either nothing changed, or the error is \<open>ErrGraceWindow\<close>, the
  truck was called up and came after its deadline, and its forfeiture is committed.
\<close>

theorem Arrive_grace_window:
  assumes "db_inv d" and "ctx_claims c = Some claims" and "Arrive qs c k gateID ver pr e d = (y, d')"
  shows "case y of
      Inr (a, x) \<Rightarrow> \<exists>q. find_queue (TenantID claims) d k = Some q \<and> q_Version q = ver \<and> called_up (q_Status q)
         \<and> (\<forall>g. q_GraceDeadline q = Some g \<longrightarrow> clk e 0 \<le> g)
         \<and> q_Status a = Q_ARRIVED \<and> q_GateID a = Some gateID \<and> q_ArrivedAt a = Some (clk e 0)
         \<and> find_queue (TenantID claims) d' k = Some a
    | Inl (err, x) \<Rightarrow> d' = d \<or> err = ErrGraceWindow \<and>
         (\<exists>q g a. find_queue (TenantID claims) d k = Some q \<and> called_up (q_Status q) \<and> q_GraceDeadline q = Some g
            \<and> g < clk e 0 \<and> q_Status a = Q_FORFEITED \<and> find_queue (TenantID claims) d' k = Some a)"
proof -
  have k: "keys_ok d" using assms(1) by (rule db_inv_keys)
  consider (same) err x where "y = Inl (err, x)" "d' = d"
    | (work) a x where "Arrive_work qs k gateID ver pr e claims d = Inr ((a, x), d')"
        "y = (case a of None \<Rightarrow> Inl (ErrGraceWindow, x) | Some q \<Rightarrow> Inr (q, x))"
    using assms(2,3) unfolding Arrive_def
    by (auto split: if_splits prod.splits sum.splits option.splits elim!: WithTx_cases)
  then show ?thesis
  proof cases
    case (work a x)
    from work(1) show ?thesis
    proof (cases rule: Arrive_cases)
      case (late q g r d1 ext)
      with moved_then_promoted [OF late(6) _ _ k late(7)] queue_getForUpdate_InrD [OF late(1)] work(2)
      show ?thesis by (auto simp: queue_getForUpdate_def)
    next
      case (arrived q r d1 ext)
      have "q_Version q = ver" using work(1) arrived(1) by (auto simp: Arrive_work_def bindE_Inr_iff)
      moreover have "q_GateID r = Some gateID" "q_ArrivedAt r = Some (clk e 0)"
        using arrived(5) by (auto elim!: queue_transitionTx_InrE simp: queue_set_columns_def)
      ultimately show ?thesis
        using arrived moved_then_promoted [OF arrived(5) _ _ k arrived(6)] queue_getForUpdate_InrD [OF arrived(1)] work(2)
        by (auto simp: queue_getForUpdate_def)
    qed
  qed auto
qed

lemma demo_late_arrival:
  "\<exists>d'. Arrive demo_q demo_ctx ''qxxx'' ''G1'' 3 demo_pr (demo_env 151 ''a'') demo_q2 = (Inl (ErrGraceWindow, None), d') \<and> d' \<noteq> demo_q2"
proof -
  let ?u = "demo_q_called\<lparr>q_Status := Q_FORFEITED, q_UpdatedAt := 151, q_Version := 4,
     q_ForfeitReason := Some ''arrived after the call-up grace window''\<rparr>"
  let ?d = "\<lambda>ob. demo_q2\<lparr>truck_queue_requests := [queue_set_columns ?u demo_q_called], platform_outbox := ob\<rparr>"
  have w: "queue_write_error ''tenant-demo'' demo_q2 (queue_set_columns ?u demo_q_called) = None"
    using demo_q_check
    by (simp add: queue_write_error_def enforce_terminal_callup_capacity_def called_up_def position_conflict_def
        truck_queue_check_def queue_set_columns_def demo_q_called_def demo_q_waiting_def)
  have p: "promoteNextTx demo_q demo_claims ''APAPA'' demo_pr 151 e d = Inr (None, d)"
    if "port_terminals d = port_terminals demo1" "truck_queue_requests d = [x]" "q_Status x = Q_FORFEITED" for e d x
  proof -
    have "find_terminal ''tenant-demo'' d ''APAPA'' = Some (hd (port_terminals demo1))"
      using demo1_facts(6) that(1) by (simp add: find_terminal_def)
    moreover have "queue_validateTerminalID ''APAPA'' = None"
      by (simp add: queue_validateTerminalID_def terminalPattern_def go_simps del: match_regex.simps)
    moreover have "head_of_queue ''tenant-demo'' d ''APAPA'' = None"
      using that by (simp add: head_of_queue_def queued_at_def)
    ultimately show ?thesis by (simp add: promoteNextTx_def lockTerminal_def)
  qed
  have ne: "d' \<noteq> demo_q2" if "truck_queue_requests d' = [x]" "q_Status x = Q_FORFEITED" for d' x
  proof
    assume "d' = demo_q2"
    with that have "demo_q_called = x" by simp
    with that(2) demo_q_called_simps(1) show False by simp
  qed
  show ?thesis
    by (simp add: Arrive_def WithTx_demo Arrive_work_def queue_getForUpdate_def find_queue_def Let_def queue_transitionTx_def
        queue_ValidTransition_def queue_target_def w emit_demo demo_topics go_simps update_where_def p ne)
qed

theorem Arrive_grace_window_witness:
  "\<exists>d' a. Arrive demo_q demo_ctx ''qxxx'' ''G1'' 3 demo_pr (demo_env 151 ''a'') demo_q2 = (Inl (ErrGraceWindow, None), d')
     \<and> find_queue ''tenant-demo'' d' ''qxxx'' = Some a \<and> q_Status a = Q_FORFEITED"
proof -
  have inv: "db_inv demo_q2" by (rule wire_reachable_inv [OF demo_wire demo_queue_run(2)])
  obtain d' where d': "Arrive demo_q demo_ctx ''qxxx'' ''G1'' 3 demo_pr (demo_env 151 ''a'') demo_q2 = (Inl (ErrGraceWindow, None), d')"
    "d' \<noteq> demo_q2" using demo_late_arrival by blast
  from Arrive_grace_window [OF inv _ d'(1), of demo_claims] d' show ?thesis by auto
qed

section \<open>Joining\<close>

text \<open>
  A new request joins at the tail, once: a successful \<open>Create\<close> on an
  active terminal either answers the request already stored under the idempotency
  key and leaves the queue as it is, or appends one request that waits (QUEUED)
  at a position behind every position ever given out at that terminal; the
  requests already there stay as they are.
\<close>

theorem queue_Create_joins_tail:
  assumes "db_inv d" and "ctx_claims c = Some claims" and "queue_Create qs c r channel pr e d = (Inr q, d')"
  shows "(\<exists>t. find_terminal (TenantID claims) d (qc_TerminalID r) = Some t \<and> t_Active t)
    \<and> (find_key (TenantID claims) d (qc_IdempotencyKey r) = Some q \<and> truck_queue_requests d' = truck_queue_requests d
        \<and> q_TruckPlate q = qc_TruckPlate r \<and> q_TerminalID q = qc_TerminalID r \<and> q_PriorityClass q = qc_PriorityClass r
       \<or> find_key (TenantID claims) d (qc_IdempotencyKey r) = None \<and> truck_queue_requests d' = truck_queue_requests d @ [q]
        \<and> q_Status q = Q_QUEUED \<and> q_TerminalID q = qc_TerminalID r \<and> q_IdempotencyKey q = qc_IdempotencyKey r
        \<and> (\<exists>p. q_Position q = Some p \<and> (\<forall>x\<in>set (positions (TenantID claims) d (qc_TerminalID r)). x < p)))"
proof -
  from assms(2,3) have cr: "queue_createTx qs r channel pr e claims d = Inr (q, d')"
    by (auto simp: queue_Create_def split: option.splits if_splits dest!: WithTx_InrD)
  then show ?thesis
  proof (cases rule: queue_createTx_InrE)
    case (1 t k d1)
    note pb = pending_booking_writes [OF 1(3)]
    have key: "find_key (TenantID claims) d1 x = find_key (TenantID claims) d x" for x using pb by (simp add: find_key_def)
    from 1(4) show ?thesis
    proof (elim disjE exE conjE)
      assume f: "find_key (TenantID claims) d1 (qc_IdempotencyKey r) = Some q" and "d' = d1"
      moreover have "q_TruckPlate q = qc_TruckPlate r \<and> q_TerminalID q = qc_TerminalID r \<and> q_PriorityClass q = qc_PriorityClass r"
        using cr 1 f by (auto simp: queue_createTx_def lockTerminal_def Let_def split: option.splits if_splits)
      ultimately show ?thesis using 1 pb key by auto
    next
      fix new d2 d3 o1 p ext
      assume new: "new = new_queue_request claims r k (later 2 3 e)"
        and n: "find_key (TenantID claims) d1 (qc_IdempotencyKey r) = None"
        and fresh: "\<forall>x\<in>set (truck_queue_requests d1). q_QueueRequestID x \<noteq> q_QueueRequestID new"
        and d2: "d2 = d1\<lparr>truck_queue_requests := truck_queue_requests d1 @ [new]\<rparr>"
        and d3: "d3 = d2\<lparr>platform_outbox := platform_outbox d2 @ [o1]\<rparr>"
        and pos: "assign_position (TenantID claims) d3 (qc_TerminalID r) = Inr p"
        and tr: "queue_transitionTx qs claims new Q_QUEUED (\<lambda>u. u\<lparr>q_Position := Some p\<rparr>) ''queue.position_assigned''
            ext pr (later 3 6 e) d3 = Inr (q, d')"
      let ?f = "queue_set_columns (new\<lparr>q_Status := Q_QUEUED, q_UpdatedAt := clk (later 3 6 e) 0,
          q_Version := wrap64 (q_Version new + 1), q_Position := Some p\<rparr>)"
      from tr obtain row o2 where row: "find (queue_target claims new) (truck_queue_requests d3) = Some row"
        and q: "q = ?f row"
        and d': "d' = d3\<lparr>truck_queue_requests := update_where (queue_target claims new) ?f (truck_queue_requests d3),
                 platform_outbox := platform_outbox d3 @ [o2]\<rparr>"
        by (rule queue_transitionTx_InrE)
      have tq: "truck_queue_requests d3 = truck_queue_requests d @ [new]" using pb d2 d3 by simp
      have no: "\<not> queue_target claims new x" if "x \<in> set (truck_queue_requests d)" for x
        using that fresh pb by (auto simp: queue_target_def)
      have "row = new" using find_SomeD [OF row] no tq by auto
      moreover have "queue_target claims new new" using find_SomeD [OF row] \<open>row = new\<close> by simp
      ultimately have "truck_queue_requests d' = truck_queue_requests d @ [q]"
        using d' tq q update_where_none [of "truck_queue_requests d" "queue_target claims new", OF no]
        by (simp add: update_where_def)
      moreover have "set (positions (TenantID claims) d (qc_TerminalID r)) \<subseteq> set (positions (TenantID claims) d3 (qc_TerminalID r))"
        by (auto simp: positions_def tq List.map_filter_def)
      ultimately show ?thesis
        using 1(1,2) n key q \<open>row = new\<close> new assign_position_tail [OF pos]
        by (auto simp: queue_set_columns_def)
    qed
  qed
qed

theorem queue_Create_joins_tail_witness:
  "q_Status demo_q_second = Q_QUEUED \<and> (\<exists>p. q_Position demo_q_second = Some p \<and> 1 < p)"
proof -
  have inv: "db_inv demo_q2" by (rule wire_reachable_inv [OF demo_wire demo_queue_run(2)])
  have "queue_Create demo_q demo_ctx demo_qreq2 ChannelWeb demo_pr (demo_env 60 ''r'') demo_q2 = (Inr demo_q_second, demo_q3)"
    using demo_q3_step by blast
  from queue_Create_joins_tail [OF inv _ this, of demo_claims] show ?thesis
    by (auto simp: positions_def List.map_filter_def demo_qreq2_def demo_qreq_def find_key_def)
qed

end
