(* ===== verification/Booking_Properties.thy ===== *)
theory Booking_Properties
  imports Scenario
begin

text \<open>
  What the booking store promises, operation by operation: creation is idempotent,
  a payment needs the intent it was requested with, the gate approves exactly under
  its conditions, a paid booking is never closed without its refund, and the
  expiry sweep leaves nothing overdue.
\<close>

section \<open>Creation\<close>

lemma find_request_row:
  assumes "keys_ok d" and "b \<in> set (truck_bookings d)" and "b_TenantID b = tid" and "b_RequestID b = k"
  shows "find_request tid d k = Some b"
proof (cases "find_request tid d k")
  case None
  with assms(2-4) show ?thesis by (auto simp: find_request_def find_None_iff)
next
  case (Some x)
  then have "x \<in> set (truck_bookings d)" "(b_TenantID x, b_RequestID x) = (b_TenantID b, b_RequestID b)"
    using assms(3,4) by (auto simp: find_request_def dest: find_SomeD)
  then have "x = b" using assms(1,2) by (auto simp: keys_ok_def dest: distinct_key_eq)
  with Some show ?thesis by simp
qed

lemma Create_InrD:
  "Create st c r pr e d = (Inr b, d') \<Longrightarrow> ctx_claims c = Some claims \<Longrightarrow> createTx st r pr (later 1 0 e) claims d = Inr (b, d')"
  by (auto simp: Create_def split: option.splits if_splits dest!: WithTx_InrD)

text \<open>
  A request books once: a successful \<open>Create\<close> either answers the
  booking the tenant already has under this request id, which then agrees with the
  request in every compared field, and changes nothing; or it appends exactly one
  new booking, PENDING_SYNC for the offline channel and DRAFTED otherwise, without
  slot or receipt. Afterwards the request id leads to that booking, and any retry
  that succeeds answers it again and changes nothing.
\<close>

theorem Create_once:
  assumes "db_inv d" and "ctx_claims c = Some claims" and "Create st c r pr e d = (Inr b, d')"
  shows "(find_request (TenantID claims) d (cr_RequestID r) = Some b \<and> same_request b r \<and> d' = d
      \<or> find_request (TenantID claims) d (cr_RequestID r) = None \<and> truck_bookings d' = truck_bookings d @ [b]
        \<and> b_Status b = (if cr_Channel r = ChannelOffline then B_PENDING_SYNC else B_DRAFTED)
        \<and> b_SlotID b = None \<and> b_PaymentReceiptRef b = None)
    \<and> find_request (TenantID claims) d' (cr_RequestID r) = Some b
    \<and> (\<forall>pr2 e2 b2 d2. Create st c r pr2 e2 d' = (Inr b2, d2) \<longrightarrow> b2 = b \<and> d2 = d')"
proof -
  have k: "keys_ok d" using assms(1) by (rule db_inv_keys)
  note cr = Create_InrD [OF assms(3,2)]
  have k': "keys_ok d'" using createTx_writes [OF cr] writes_evolve k by blast
  have found: "find_request (TenantID claims) d' (cr_RequestID r) = Some b"
    using cr
  proof (cases rule: createTx_InrE)
    case (created o1)
    then show ?thesis by (intro find_request_row k') auto
  qed simp
  have "b2 = b \<and> d2 = d'" if "Create st c r pr2 e2 d' = (Inr b2, d2)" for pr2 e2 b2 d2
    using Create_InrD [OF that assms(2)] by (rule createTx_InrE) (use found in auto)
  moreover have "find_request (TenantID claims) d (cr_RequestID r) = Some b \<and> same_request b r \<and> d' = d
      \<or> find_request (TenantID claims) d (cr_RequestID r) = None \<and> truck_bookings d' = truck_bookings d @ [b]
        \<and> b_Status b = (if cr_Channel r = ChannelOffline then B_PENDING_SYNC else B_DRAFTED)
        \<and> b_SlotID b = None \<and> b_PaymentReceiptRef b = None"
    using cr by (cases rule: createTx_InrE) auto
  ultimately show ?thesis using found by blast
qed

theorem Create_once_witness:
  "find_request ''tenant-demo'' demo3 ''request-1'' = Some demo_row \<and> truck_bookings demo3 = truck_bookings demo2 @ [demo_row]"
proof -
  have inv: "db_inv demo2" by (rule wire_reachable_inv [OF demo_wire demo_run(2)])
  have e: "truck_bookings demo2 = []" by (simp add: demo2_eq)
  have "Create demo_store demo_ctx (demo_request ''request-1'') demo_pr (demo_env 10 ''bk'') demo2 = (Inr demo_row, demo3)"
    by (simp add: demo3_def demo3_step)
  from Create_once [OF inv _ this, of demo_claims] e show ?thesis by (auto simp: find_request_def)
qed

section \<open>Payment\<close>

lemma find_booking_row:
  assumes "keys_ok d" and "b \<in> set (truck_bookings d)" and "b_TenantID b = tid" and "b_BookingID b = k"
  shows "find_booking tid d k = Some b"
proof (cases "find_booking tid d k")
  case None
  with assms(2-4) show ?thesis by (auto simp: find_booking_def find_None_iff)
next
  case (Some x)
  with find_booking_SomeD [OF Some] assms show ?thesis by (auto simp: keys_ok_def dest: distinct_key_eq)
qed

lemma transitioned_row:
  assumes tr: "transitionTx st claims b nxt mutate ty ext pr lh e d = Inr (r, d')" and k: "keys_ok d"
    and st: "\<And>u. b_Status (mutate u) = b_Status u"
  shows "find_booking (TenantID claims) d' (b_BookingID b) = Some r \<and> b_Status r = nxt"
proof -
  from tr obtain row o1 where f: "find (update_target claims b) (truck_bookings d) = Some row"
    and r: "r = set_columns (mutate (b\<lparr>b_Status := nxt, b_UpdatedAt := clk e 0, b_Version := wrap64 (b_Version b + 1)\<rparr>)) row"
    and d': "d' = d\<lparr>truck_bookings := update_where (update_target claims b)
           (set_columns (mutate (b\<lparr>b_Status := nxt, b_UpdatedAt := clk e 0,
             b_Version := wrap64 (b_Version b + 1)\<rparr>))) (truck_bookings d),
           platform_outbox := platform_outbox d @ [o1]\<rparr>"
    by (rule transitionTx_InrE)
  note row = find_SomeD [OF f]
  have "r \<in> set (truck_bookings d')" using row r unfolding d' by (auto simp: set_update_where)
  moreover have "keys_ok d'" using k unfolding d' by (simp add: keys_ok_def map_update_where set_columns_def)
  ultimately have "find_booking (TenantID claims) d' (b_BookingID b) = Some r"
    using row r by (intro find_booking_row) (auto simp: update_target_def set_columns_def)
  with r st show ?thesis by (simp add: set_columns_def)
qed

lemma ConfirmPayment_outcome:
  assumes "db_inv d" and "ctx_claims c = Some claims" and "ConfirmPayment st c k ref ver pr e d = (Inr r, d')"
  shows "find_booking (TenantID claims) d' k = Some r \<and> b_Status r = B_PAID \<and> b_PaymentReceiptRef r = Some ref
    \<and> (find_booking (TenantID claims) d k = Some r \<and> d' = d
       \<or> (\<exists>b. find_booking (TenantID claims) d k = Some b \<and> b_Status b = B_SLOT_RESERVED \<and> b_Version b = ver)
         \<and> (\<exists>i\<in>set (booking_payment_intents d). i_TenantID i = TenantID claims \<and> i_BookingID i = k
               \<and> i_Status i = ''REQUESTED'' \<and> i_MojaloopTxRef i = ref)
         \<and> (\<forall>x\<in>set (truck_bookings d). b_BookingID x = k \<or> b_PaymentReceiptRef x \<noteq> Some ref))"
proof -
  have k: "keys_ok d" using assms(1) by (rule db_inv_keys)
  from assms(2,3) have "ConfirmPayment_work st k ref ver pr e claims d = Inr (r, d')"
    by (auto simp: ConfirmPayment_def split: if_splits dest!: WithTx_InrD)
  then show ?thesis
  proof (cases rule: ConfirmPayment_cases)
    case (paid b i ext)
    let ?d1 = "d\<lparr>booking_payment_intents := update_where (matching_intent claims k ref)
         (\<lambda>i. i\<lparr>i_Status := ''COMPLETED''\<rparr>) (booking_payment_intents d)\<rparr>"
    have "keys_ok ?d1" using k by (simp add: keys_ok_def)
    note row = transitioned_row [OF paid(8) this]
    have f: "find_booking (TenantID claims) d k = Some b" using paid(1-3) k by (intro find_booking_row)
    from paid(8) have ref: "b_PaymentReceiptRef r = Some ref" "b_BookingID r = k"
      and w: "booking_write_error (TenantID claims) ?d1 r = None"
      using paid(3) by (auto elim!: transitionTx_InrE dest!: find_SomeD simp: set_columns_def update_target_def)
    have "\<forall>x\<in>set (truck_bookings d). b_BookingID x = k \<or> b_PaymentReceiptRef x \<noteq> Some ref"
      using booking_write_ok(3) [OF w] ref by (auto simp: receipt_conflict_def list_ex_iff)
    with row ref f paid show ?thesis
      by (auto simp: matching_intent_def pending_intent_def)
  qed auto
qed

text \<open>
  Claim C31. Only the requested payment pays: a successful \<open>ConfirmPayment\<close> leaves
  the booking stored as PAID with the confirmed receipt. Either it was so already
  and nothing changed, or it held a reserved slot and a payment intent of its own,
  still REQUESTED, with exactly this reference; and no booking had the receipt
  before.
\<close>

theorem ConfirmPayment_requested:
  assumes "db_inv d" and "ctx_claims c = Some claims" and "ConfirmPayment st c k ref ver pr e d = (Inr r, d')"
  shows "find_booking (TenantID claims) d' k = Some r \<and> b_Status r = B_PAID \<and> b_PaymentReceiptRef r = Some ref
    \<and> (find_booking (TenantID claims) d k = Some r \<and> d' = d
       \<or> (\<exists>b. find_booking (TenantID claims) d k = Some b \<and> b_Status b = B_SLOT_RESERVED \<and> b_Version b = ver)
         \<and> (\<exists>i\<in>set (booking_payment_intents d). i_TenantID i = TenantID claims \<and> i_BookingID i = k
               \<and> i_Status i = ''REQUESTED'' \<and> i_MojaloopTxRef i = ref)
         \<and> (\<forall>x\<in>set (truck_bookings d). b_BookingID x = k \<or> b_PaymentReceiptRef x \<noteq> Some ref))"
  using assms by (rule ConfirmPayment_outcome)

theorem ConfirmPayment_requested_witness:
  "find_booking ''tenant-demo'' demo6 ''bk'' = Some demo_paid
   \<and> (\<exists>i\<in>set (booking_payment_intents demo5). i_Status i = ''REQUESTED'' \<and> i_MojaloopTxRef i = ''tx-1'')"
proof -
  have inv: "db_inv demo5" by (rule wire_reachable_inv [OF demo_wire demo_run(5)])
  have "ConfirmPayment demo_store demo_ctx ''bk'' ''tx-1'' 2 demo_pr (demo_env 40 ''pay'') demo5 = (Inr demo_paid, demo6)"
    using demo6_step by (auto simp: demo6_def)
  moreover have "demo_paid \<noteq> demo_reserved" by (metis BStatus.distinct demo_paid_simps(4) demo_reserved_simps(4))
  ultimately show ?thesis
    using ConfirmPayment_requested [OF inv, of demo_ctx demo_claims demo_store "''bk''" "''tx-1''" 2 demo_pr "demo_env 40 ''pay''"]
    by (auto simp: find_booking_def)
qed

section \<open>The gate\<close>

text \<open>
  A refused scan keeps nothing: the denial inserts its row and its event and then fails
  the transaction, which rolls both back.
\<close>

lemma RecordGateScan_rolls_back: "RecordGateScan st c k gateID by1 at pr e d = (Inl err, d') \<Longrightarrow> d' = d"
  by (auto simp: RecordGateScan_def split: if_splits elim!: WithTx_cases)

text \<open>
  Claim C7. The gate admits only under its conditions: a successful scan
  means that the booking was PAID with a receipt, cleared by customs if it names a
  declaration, and scanned inside its slot's window; it stores one APPROVED scan
  and the booking as GATE_APPROVED at that gate. After
  any error, a denial included, every booking is as it was and there is no
  APPROVED scan that was not there before.
\<close>

theorem RecordGateScan_decides:
  assumes "db_inv d" and "ctx_claims c = Some claims" and "RecordGateScan st c k gateID by1 at pr e d = (y, d')"
  shows "case y of
      Inl err \<Rightarrow> truck_bookings d' = truck_bookings d \<and> (\<forall>g\<in>set (gate_scans d'). g_Decision g = ''APPROVED'' \<longrightarrow> g \<in> set (gate_scans d))
    | Inr (scan, r) \<Rightarrow> \<exists>b. find_booking (TenantID claims) d k = Some b \<and> gate_conditions claims d b at
        \<and> g_Decision scan = ''APPROVED'' \<and> g_BookingID scan = k \<and> g_ScannedAt scan = at
        \<and> gate_scans d' = gate_scans d @ [scan]
        \<and> find_booking (TenantID claims) d' k = Some r \<and> b_Status r = B_GATE_APPROVED \<and> b_GateID r = Some gateID"
proof (cases y)
  case (Inl err)
  with assms(3) show ?thesis by (auto dest: RecordGateScan_rolls_back)
next
  case (Inr x)
  obtain scan r where x: "x = (scan, r)" by (cases x) blast
  from assms(2,3) Inr x have "RecordGateScan_work st k gateID by1 at pr e claims d = Inr ((scan, r), d')"
    by (auto simp: RecordGateScan_def split: if_splits dest!: WithTx_InrD)
  then show ?thesis
  proof (cases rule: RecordGateScan_InrE)
    case (1 b d1 d2 o1 ext)
    note b = getForUpdate_InrD [OF 1(1)]
    have "keys_ok d1" using db_inv_keys [OF assms(1)] 1(3) by (simp add: keys_ok_def)
    note row = transitioned_row [OF 1(6) this]
    have "b_GateID r = Some gateID" "gate_scans d2 = gate_scans d1"
      using 1(6) by (auto elim!: transitionTx_InrE simp: set_columns_def)
    moreover have "find_booking (TenantID claims) d' k = find_booking (TenantID claims) d2 k"
      using 1(7) by (simp add: find_booking_def)
    ultimately show ?thesis using Inr x row b 1 by auto
  qed
qed

theorem RecordGateScan_decides_witness:
  "gate_conditions demo_claims demo6 demo_paid 150 \<and> gate_scans demo7 = [demo_scan]"
proof -
  have inv: "db_inv demo6" by (rule wire_reachable_inv [OF demo_wire demo_run(6)])
  have "RecordGateScan demo_store demo_ctx ''bk'' ''G1'' ''officer'' 150 demo_pr (demo_env 150 ''gs'') demo6
      = (Inr (demo_scan, demo_gated), demo7)"
    using demo7_step by (auto simp: demo7_def)
  from RecordGateScan_decides [OF inv _ this, of demo_claims] show ?thesis by (auto simp: find_booking_def)
qed

section \<open>Refunds\<close>

lemma moved_booking_row:
  assumes "db_writes tid d d'" and "keys_ok d" and "b \<in> set (truck_bookings d)" and "b_TenantID b = tid"
    and "r \<in> set (truck_bookings d')" and "b_BookingID r = b_BookingID b"
  shows "find_booking tid d' (b_BookingID b) = Some r \<and> b_TenantID r = tid"
proof -
  note ev = writes_evolve [OF assms(1,2)]
  from brows.evolves_keeps [OF conjunct1 [OF ev] assms(3)] obtain r' where r': "r' \<in> set (truck_bookings d')"
    "b_BookingID r' = b_BookingID b" "b_TenantID r' = b_TenantID b" by blast
  have "r' = r" using r' assms(5,6) ev by (auto simp: keys_ok_def dest: distinct_key_eq)
  with r' assms(4,5) ev show ?thesis by (auto intro: find_booking_row)
qed

definition booking_refund :: "'l bstore \<Rightarrow> BookingRow \<Rightarrow> Refund" where
  "booking_refund st b = \<lparr>BookingID = b_BookingID b, AmountKobo = uint64_of (b_AmountKobo b),
     FgnShareKobo = fgn_share (b_AmountKobo b) (st_fgnShareBPS st)\<rparr>"

lemma refundIfPaid_wired:
  assumes "st_refundWired st" and "st_refunder st = Some (RefundBookingSettlement client)"
  shows "refundIfPaid st b w = (if b_Status b = B_PAID \<or> b_Status b = B_VALIDATION_PENDING
     then (case RefundBookingSettlement client (booking_refund st b) w of
             (Inl err, w') \<Rightarrow> (Inl ErrRefundUnavailable, w') | (Inr h, w') \<Rightarrow> (Inr h, w'))
     else (Inr [], w))"
  using assms by (auto simp: refundIfPaid_def booking_refund_def)

lemma refundIfPaid_posted:
  assumes "st_refundWired st" and "st_refunder st = Some (RefundBookingSettlement client)"
    and "tigerbeetle_contract client posted" and "refundIfPaid st b w = (x, w')"
  shows "set (posted w) \<subseteq> set (posted w') \<and> set (posted w') \<subseteq> set (posted w) \<union> set (refund_transfers (booking_refund st b))
    \<and> (case x of Inl _ \<Rightarrow> b_Status b = B_PAID \<or> b_Status b = B_VALIDATION_PENDING
       | Inr h \<Rightarrow> if b_Status b = B_PAID \<or> b_Status b = B_VALIDATION_PENDING
           then h = RefundCommitHash (b_BookingID b)
             \<and> set (posted w') = set (posted w) \<union> set (refund_transfers (booking_refund st b))
           else h = [] \<and> w' = w)"
proof -
  obtain y w1 where r: "RefundBookingSettlement client (booking_refund st b) w = (y, w1)"
    by (cases "RefundBookingSettlement client (booking_refund st b) w") blast
  show ?thesis
    using assms(4) refundIfPaid_wired [OF assms(1,2), of b w] r RefundBookingSettlement_bound [OF assms(3) r]
      RefundBookingSettlement_Inr [OF assms(3), of "booking_refund st b" w _ w1]
    by (cases y) (auto simp: booking_refund_def split: if_splits)
qed

text \<open>
  Claim C8. No money is stranded and none is paid twice: on the wired store, a
  successful \<open>Cancel\<close> of a booking that holds the trucker's money leaves it
  REFUNDED with the refund's commit hash, and the ledger then holds the two refund
  legs of that booking besides what it held; a successful cancellation of any other
  booking leaves it CANCELLED and the ledger untouched. After an error the database
  is unchanged, and even then the ledger can only have gained those same legs, which
  a retry posts again under the same ids.
\<close>

theorem Cancel_refunds_exactly_once:
  assumes "wire signer verifier client bps grace = Inr (bs, qs)" and "tigerbeetle_contract client posted" and "db_inv d"
    and "ctx_claims c = Some claims" and "find_booking (TenantID claims) d k = Some b"
    and "Cancel bs c k ver reason pr e d w = (y, d', w')"
  shows "set (posted w) \<subseteq> set (posted w') \<and> set (posted w') \<subseteq> set (posted w) \<union> set (refund_transfers (booking_refund bs b))
    \<and> (case y of
         Inl _ \<Rightarrow> d' = d
       | Inr r \<Rightarrow> find_booking (TenantID claims) d' k = Some r \<and>
           (if b_Status b = B_PAID \<or> b_Status b = B_VALIDATION_PENDING
            then b_Status r = B_REFUNDED \<and> b_LedgerCommitHash r = Some (RefundCommitHash k)
              \<and> set (posted w') = set (posted w) \<union> set (refund_transfers (booking_refund bs b))
            else b_Status r = B_CANCELLED \<and> w' = w))"
proof -
  have k: "keys_ok d" using assms(3) by (rule db_inv_keys)
  from assms(1) obtain qs0 where bs: "bs = wired_store signer verifier client bps qs0" using wire_wired_store by blast
  have wd: "st_refundWired bs" "st_refunder bs = Some (RefundBookingSettlement client)" by (simp_all add: bs wired_store_def)
  have b: "getForUpdate claims d k = Inr b" "b_BookingID b = k" "b_TenantID b = TenantID claims"
    using assms(5) find_booking_SomeD [OF assms(5)] by (simp_all add: getForUpdate_def)
  note posted = refundIfPaid_posted [OF wd assms(2)]
  consider (none) err where "y = Inl err" "d' = d" "w' = w"
    | (fail) err x where "y = Inl err" "d' = d" "refundIfPaid bs b w = (x, w')"
    | (ok) r where "y = Inr r" "Cancel_work bs k ver reason pr e claims d w = (Inr (r, d'), w')"
    using assms(4,6) b(1) unfolding Cancel_def
    by (auto split: if_splits elim!: WithTxW_cases) (auto simp: Cancel_work_def split: if_splits prod.splits sum.splits)
  then show ?thesis
  proof cases
    case fail
    from posted [OF fail(3)] fail show ?thesis by auto
  next
    case (ok r)
    obtain h where f: "refundIfPaid bs b w = (Inr h, w')"
      and t: "truck_bookings d' = replace_row b_BookingID r (truck_bookings d)" and w: "db_writes (TenantID claims) d d'"
      and s: "b_Status r = (if h \<noteq> [] then B_REFUNDED else B_CANCELLED)" "h \<noteq> [] \<longrightarrow> b_LedgerCommitHash r = Some h"
        "b_BookingID r = k"
      by (rule wired.Cancel_writes [OF ok(2) [unfolded bs] k]) (use b(1) in \<open>auto simp: bs\<close>)
    have "set (truck_bookings d') = insert r (set (truck_bookings d) - {b})"
      unfolding t using find_booking_SomeD [OF assms(5)] k s(3) b(2) by (intro set_replace_row) (auto simp: keys_ok_def)
    then have r: "find_booking (TenantID claims) d' k = Some r"
      using moved_booking_row [OF w k, of b r] find_booking_SomeD [OF assms(5)] s(3) by auto
    from posted [OF f] ok(1) s r b(2) show ?thesis by (auto simp: RefundCommitHash_nonempty split: if_splits)
  qed auto
qed

section \<open>Expiry\<close>

context booking_store
begin

text \<open>The sweep closes the rows it was given and touches no other.\<close>

lemma expire_loop_rows:
  assumes "expire_loop st claims now pr due e n d w = (Inr (m, d'), w')" and "keys_ok d"
    and "set due \<subseteq> set (truck_bookings d)" "distinct (map b_BookingID due)"
    and "\<forall>b\<in>set due. b_TenantID b = TenantID claims"
  shows "\<forall>x\<in>set (truck_bookings d'). x \<in> set (truck_bookings d) - set due \<or> b_Status x \<in> {B_EXPIRED, B_REFUNDED}"
  using assms
proof (induction due arbitrary: e n d w)
  case (Cons b due)
  from Cons.prems(1) obtain h w1 ty ext r d1 where f: "refundIfPaid st b w = (Inr h, w1)"
    and cl: "close_booking st claims b (if h \<noteq> [] then B_REFUNDED else B_EXPIRED) None h ty ext pr e d = Inr (r, d1)"
    and rest: "expire_loop st claims now pr due (later 3 4 e) (n + 1) d1 w1 = (Inr (m, d'), w')"
    by (auto split: sum.splits prod.splits)
  have c: "db_writes (TenantID claims) d d1" "truck_bookings d1 = replace_row b_BookingID r (truck_bookings d)"
    "b_BookingID r = b_BookingID b" "b_Status r \<in> {B_EXPIRED, B_REFUNDED}"
    using close_booking_writes [OF cl Cons.prems(2)] Cons.prems(3,5) by auto
  have s: "set (truck_bookings d1) = insert r (set (truck_bookings d) - {b})"
    unfolding c(2) using Cons.prems(2,3) c(3) by (intro set_replace_row) (auto simp: keys_ok_def)
  have "keys_ok d1" using writes_evolve [OF c(1) Cons.prems(2)] by blast
  moreover have "set due \<subseteq> set (truck_bookings d1)" using s Cons.prems(3,4) by auto
  ultimately have "\<forall>x\<in>set (truck_bookings d'). x \<in> set (truck_bookings d1) - set due \<or> b_Status x \<in> {B_EXPIRED, B_REFUNDED}"
    using Cons.IH [OF rest] Cons.prems(4,5) by simp
  with s c(4) show ?case by auto
qed simp

lemma ExpireDue_rows:
  assumes "ExpireDue st pick c now pr e d w = (Inr n, d', w')" and "ctx_claims c = Some claims" and "keys_ok d"
    and "\<And>xs. mset (pick xs) = mset xs"
  shows "n = count_rows (expirable claims now) (truck_bookings d)
    \<and> (\<forall>x\<in>set (truck_bookings d'). x \<in> set (truck_bookings d) \<and> \<not> expirable claims now x \<or> b_Status x \<in> {B_EXPIRED, B_REFUNDED})"
proof -
  let ?due = "pick (filter (expirable claims now) (truck_bookings d))"
  have x: "expire_loop st claims now pr ?due e 0 d w = (Inr (n, d'), w')"
    using assms(1) unfolding ExpireDue_def by (rule WithTxW_cases) (use assms(2) in auto)
  have due: "set ?due = {b \<in> set (truck_bookings d). expirable claims now b}"
    using assms(4) [of "filter (expirable claims now) (truck_bookings d)"] by (metis set_filter set_mset_mset)
  have "distinct (map b_BookingID ?due)"
    by (rule some_rows_keys) (use assms(3,4) in \<open>simp_all add: some_rows_def keys_ok_def distinct_map_filter\<close>)
  moreover have "\<forall>b\<in>set ?due. b_TenantID b = TenantID claims" using due by (auto simp: expirable_def)
  moreover have "set ?due \<subseteq> set (truck_bookings d)" using due by auto
  ultimately have "n = len ?due"
    "\<forall>x\<in>set (truck_bookings d'). x \<in> set (truck_bookings d) - set ?due \<or> b_Status x \<in> {B_EXPIRED, B_REFUNDED}"
    using expire_loop_writes [OF x assms(3)] expire_loop_rows [OF x assms(3)] by auto
  moreover have "length ?due = length (filter (expirable claims now) (truck_bookings d))"
    using assms(4) by (metis size_mset)
  ultimately show ?thesis using due by (auto simp: count_rows_def)
qed

end

text \<open>
  The expiry sweep is complete: when no due row was locked by another
  transaction and \<open>ExpireDue\<close> succeeds, it reports the number of bookings that
  were due, and afterwards every booking is either one that was not due, unchanged,
  or closed as EXPIRED or REFUNDED; none is left due.
\<close>

theorem ExpireDue_complete:
  assumes "wire signer verifier client bps grace = Inr (bs, qs)" and "db_inv d" and "ctx_claims c = Some claims"
    and "\<And>xs. mset (pick xs) = mset xs" and "ExpireDue bs pick c now pr e d w = (Inr n, d', w')"
  shows "n = count_rows (expirable claims now) (truck_bookings d)
    \<and> (\<forall>x\<in>set (truck_bookings d'). x \<in> set (truck_bookings d) \<and> \<not> expirable claims now x \<or> b_Status x \<in> {B_EXPIRED, B_REFUNDED})
    \<and> (\<forall>x\<in>set (truck_bookings d'). \<not> expirable claims now x)"
proof -
  from assms(1) obtain qs0 where bs: "bs = wired_store signer verifier client bps qs0" using wire_wired_store by blast
  from wired.ExpireDue_rows [OF assms(5) [unfolded bs] assms(3) db_inv_keys [OF assms(2)] assms(4)]
  show ?thesis by (auto simp: expirable_def)
qed

section \<open>The paid booking of the scenario is refunded\<close>

lemma demo6_queue [simp]: "truck_queue_requests demo6 = []"
  using demo4_step demo5_step demo6_step by (auto simp: demo4_def demo5_def demo6_def)

lemma demo_close:
  assumes "h \<noteq> []" and "TrimSpace ty \<noteq> []" and "list_all (\<lambda>k. TrimSpace k \<noteq> []) (map fst ext)"
  shows "\<exists>r d'. close_booking demo_store demo_claims demo_paid B_REFUNDED reason h ty ext demo_pr (demo_env 950 ''cl'') demo6
     = Inr (r, d')"
proof -
  let ?u = "close_mutation reason h (demo_paid\<lparr>b_Status := B_REFUNDED, b_UpdatedAt := 950, b_Version := 4\<rparr>)"
  let ?r = "set_columns ?u demo_paid"
  have u: "b_Status ?u = B_REFUNDED" "b_Version ?u = 4" "b_SlotID ?u = Some ''slot''" "b_PaymentReceiptRef ?u = Some ''tx-1''"
    by simp_all
  have w: "booking_write_error ''tenant-demo'' demo6 ?r = None"
    using u by (simp add: booking_write_error_def enforce_slot_capacity_def receipt_conflict_def demo_paid_transition_check
        holds_capacity_def)
  obtain ob where tr: "transitionTx demo_store demo_claims demo_paid B_REFUNDED (close_mutation reason h) ty ext demo_pr h
       (demo_env 950 ''cl'') demo6 = Inr (?r, demo6\<lparr>truck_bookings := [?r], platform_outbox := ob\<rparr>)"
    using w assms transitionTx_demo [of demo6 demo_paid B_REFUNDED ?u "close_mutation reason h" "demo_env 950 ''cl''" ty ext h]
    by (auto simp: booking_ValidTransition_def go_simps)
  let ?d = "demo6\<lparr>truck_bookings := [?r], platform_outbox := ob\<rparr>"
  have "find_terminal ''tenant-demo'' ?d ''APAPA'' = Some (hd (port_terminals demo1))"
    using demo1_facts(6) by (simp add: find_terminal_def)
  moreover have "queue_validateTerminalID ''APAPA'' = None"
    by (simp add: queue_validateTerminalID_def terminalPattern_def go_simps del: match_regex.simps)
  moreover have "head_of_queue ''tenant-demo'' ?d ''APAPA'' = None" by (simp add: head_of_queue_def)
  ultimately have "capacityReleased demo_store demo_claims demo_paid demo_pr e ?d = Inr ?d" for e
    by (simp add: capacityReleased_def CapacityReleased_def promoteNextTx_def lockTerminal_def)
  with tr show ?thesis by (simp add: close_booking_def)
qed

lemma demo_refund:
  "refundIfPaid demo_store demo_paid [] = (Inr (RefundCommitHash ''bk''), refund_transfers (booking_refund demo_store demo_paid))"
proof -
  have "fgn_share 250000 1500 = 37500" by (simp add: fgn_share_def wrap64_def go_div_def uint64_of_def)
  then show ?thesis
    by (simp add: refundIfPaid_wired [of demo_store list_tigerbeetle] booking_refund_def RefundBookingSettlement_def
        ensureAccounts_def post_transfers_def list_tigerbeetle_def settlement_accounts_def list_ex_iff uint64_of_def)
qed

theorem Cancel_refunds_exactly_once_witness:
  "\<exists>r d' w'. Cancel demo_store demo_ctx ''bk'' 3 ''breakdown'' demo_pr (demo_env 950 ''cl'') demo6 [] = (Inr r, d', w')
     \<and> b_Status r = B_REFUNDED \<and> set w' = set (refund_transfers (booking_refund demo_store demo_paid))"
proof -
  have inv: "db_inv demo6" by (rule wire_reachable_inv [OF demo_wire demo_run(6)])
  have "\<exists>r d'. Cancel demo_store demo_ctx ''bk'' 3 ''breakdown'' demo_pr (demo_env 950 ''cl'') demo6 []
      = (Inr r, d', refund_transfers (booking_refund demo_store demo_paid))"
    using demo_close [of "RefundCommitHash ''bk''" "''booking.refunded''" "[(''reason'', ''breakdown''),
        (''refund-commit-hash'', RefundCommitHash ''bk''), (''refunded-amount-kobo'', fmt_d 250000)]" "Some ''breakdown''"]
    by (auto simp: Cancel_def WithTxW_def TenantClaims_def Cancel_work_def getForUpdate_def find_booking_def demo_refund
        RefundCommitHash_nonempty go_simps demo_ctx_def)
  then obtain r d' where "Cancel demo_store demo_ctx ''bk'' 3 ''breakdown'' demo_pr (demo_env 950 ''cl'') demo6 []
      = (Inr r, d', refund_transfers (booking_refund demo_store demo_paid))" by blast
  with Cancel_refunds_exactly_once [OF demo_wire list_tigerbeetle_contract inv _ _ this, of demo_claims demo_paid]
  show ?thesis by (auto simp: find_booking_def)
qed

theorem ExpireDue_complete_witness:
  "\<exists>d' w'. ExpireDue demo_store (\<lambda>x. x) demo_ctx 950 demo_pr (demo_env 950 ''cl'') demo6 [] = (Inr 1, d', w')
     \<and> list_all (\<lambda>b. b_Status b \<in> {B_EXPIRED, B_REFUNDED}) (truck_bookings d')"
proof -
  have inv: "db_inv demo6" by (rule wire_reachable_inv [OF demo_wire demo_run(6)])
  have due: "expirable demo_claims 950 demo_paid"
    by (simp add: expirable_def) (simp add: demo_paid_def demo_reserved_def demo_row_defs)
  obtain r d' where "close_booking demo_store demo_claims demo_paid B_REFUNDED None (RefundCommitHash ''bk'') ''booking.refunded''
      [(''refund-commit-hash'', RefundCommitHash ''bk''), (''refunded-amount-kobo'', fmt_d 250000), (''expired-at'', rfc3339 950)]
      demo_pr (demo_env 950 ''cl'') demo6 = Inr (r, d')"
    using demo_close [of "RefundCommitHash ''bk''" "''booking.refunded''" "[(''refund-commit-hash'', RefundCommitHash ''bk''),
        (''refunded-amount-kobo'', fmt_d 250000), (''expired-at'', rfc3339 950)]" None]
    by (auto simp: RefundCommitHash_nonempty go_simps)
  then have x: "ExpireDue demo_store (\<lambda>x. x) demo_ctx 950 demo_pr (demo_env 950 ''cl'') demo6 []
      = (Inr 1, d', refund_transfers (booking_refund demo_store demo_paid))"
    using due by (simp add: ExpireDue_def WithTxW_def TenantClaims_def demo_refund RefundCommitHash_nonempty demo_ctx_def)
  from ExpireDue_complete [OF demo_wire inv _ _ x, of demo_claims] due x show ?thesis
    by (auto simp: list_all_iff)
qed

end
