(* ===== verification/Workflows.thy ===== *)
theory Workflows
  imports Booking_Properties
begin

text \<open>
  \<^verbatim>\<open>src/internal/booking/workflow.go\<close> and \<^verbatim>\<open>src/internal/queue/workflow.go\<close>: the
  activities and the two Temporal workflows. Temporal itself (signal delivery,
  timers, activity retries) is the environment of the step relations: a workflow
  blocks in a selector until a signal or its timer arrives, an activity may be
  attempted any number of times, and between two moves of a workflow the rest of
  the system does anything it can do. Each store call of an activity has its own
  transaction, so an activity is given one context per call.
\<close>

section \<open>Inputs and activities\<close>

record WorkflowInput =
  wi_BookingID :: string
  wi_TenantID :: string
  wi_PrincipalID :: string
  wi_AmountKobo :: int
  wi_FgnShareKobo :: int
  wi_ExpectedVersion :: int
  wi_PaymentDeadline :: time
  wi_GateScanDeadline :: time

record WorkflowResult =
  wr_BookingID :: string
  wr_Outcome :: string
  wr_LedgerCommitHash :: string

record ObserverState =
  os_BookingID :: string
  os_Stage :: string
  os_Receipt :: string
  os_ScanID :: string
  os_CustomsDecision :: string
  os_UpdatedAt :: string

type_synonym customs_validator = "env \<Rightarrow> string \<Rightarrow> CustomsDeclaration result"

record 'l Activities =
  ac_Store :: "'l bstore"
  ac_Ledger :: "Settlement \<Rightarrow> 'l \<Rightarrow> string result \<times> 'l"
  ac_Customs :: "customs_validator option"
  ac_CustomsWeightToleranceBPS :: int

definition NewActivities ::
  "'l bstore option \<Rightarrow> (Settlement \<Rightarrow> 'l \<Rightarrow> string result \<times> 'l) option \<Rightarrow> 'l Activities result" where
  "NewActivities store settlement =
     (case (store, settlement) of
        (Some s, Some l) \<Rightarrow> Inr \<lparr>ac_Store = s, ac_Ledger = l, ac_Customs = None, ac_CustomsWeightToleranceBPS = 0\<rparr>
      | _ \<Rightarrow> Inl (ErrText ''booking activities require a store and a ledger''))"

definition SetCustomsValidator ::
  "customs_validator option \<Rightarrow> int \<Rightarrow> 'l Activities \<Rightarrow> 'l Activities result" where
  "SetCustomsValidator validator weightToleranceBPS ac =
     (if validator = None \<or> weightToleranceBPS < 0
      then Inl (ErrText ''customs validator and a non-negative weight tolerance are required'')
      else Inr (ac\<lparr>ac_Customs := validator, ac_CustomsWeightToleranceBPS := weightToleranceBPS\<rparr>))"

text \<open>\<open>now\<close> is in microseconds; the token would expire an hour later.\<close>

definition activityCtx :: "string \<Rightarrow> string \<Rightarrow> time \<Rightarrow> ctx \<Rightarrow> ctx result" where
  "activityCtx tenantID principalID now c =
     WithClaims c \<lparr>Issuer = ''ecallup-booking-workflow'', Audience = ''s1-port-interoperability'', TenantID = tenantID,
       Subject = principalID, Expires = (now + 3600000000) div 1000000, Roles = []\<rparr>"

definition workflowPrincipal :: "WorkflowInput \<Rightarrow> Principal" where
  "workflowPrincipal input = \<lparr>pr_ID = wi_PrincipalID input, pr_Role = ''booking-workflow''\<rparr>"

definition ReceiptCheck :: "(nat \<Rightarrow> ctx) \<Rightarrow> WorkflowInput \<Rightarrow> string \<Rightarrow> env \<Rightarrow> db \<Rightarrow> unit result \<times> db" where
  "ReceiptCheck cs input receiptRef e d =
     (case activityCtx (wi_TenantID input) (wi_PrincipalID input) (clk e 0) (cs 0) of
        Inl err \<Rightarrow> (Inl err, d)
      | Inr c \<Rightarrow>
         (case Get c (wi_BookingID input) d of
            (Inl err, d') \<Rightarrow> (Inl (Wrapf ''receipt check load'' err), d')
          | (Inr booking, d') \<Rightarrow>
              if b_Status booking \<noteq> B_PAID \<or> b_PaymentReceiptRef booking \<noteq> Some receiptRef
              then (Inl (ErrText ''payment receipt is not persisted for this booking''), d')
              else (Inr (), d')))"

definition CustomsNotRequired :: string where "CustomsNotRequired = ''NOT_REQUIRED''"
definition CustomsMatched :: string where "CustomsMatched = ''MATCH''"
definition CustomsRejected :: string where "CustomsRejected = ''REJECTED''"
definition customsValidatorIdentity :: string where "customsValidatorIdentity = ''nigeria-customs-declaration-api''"

text \<open>The \<open>switch\<close> on the validator's answer; a nil dereference of the pending booking is an error of the activity.\<close>

definition customs_evaluation :: "'l Activities \<Rightarrow> customs_validator \<Rightarrow> BookingRow \<Rightarrow> env \<Rightarrow> Evaluation result" where
  "customs_evaluation ac validator pending e =
     (case (b_CargoDeclarationRef pending, b_DeclaredWeightKg pending, b_ConsigneeID pending, b_OperatorID pending) of
        (Some ref, Some weight, Some consignee, Some operator) \<Rightarrow>
          (case validator e ref of
             Inl err \<Rightarrow>
               if errors_Is err ErrDeclarationNotFound
               then Inr \<lparr>e_Decision = DecisionMismatch, e_ReasonCode = ReasonDeclarationNotFound, e_DeclarationRef = ref,
                         e_CustomsStatus = [], e_CustomsWeightKg = 0, e_BookingWeightKg = weight,
                         e_ConsigneeID = [], e_OperatorID = []\<rparr>
               else Inl (Wrapf ''customs validator unreachable'' err)
           | Inr declaration \<Rightarrow>
               Inr (Evaluate declaration \<lparr>be_DeclarationRef = ref, be_DeclaredWeightKg = weight, be_ConsigneeID = consignee,
                      be_OperatorID = operator, be_WeightToleranceBPS = ac_CustomsWeightToleranceBPS ac\<rparr>))
      | _ \<Rightarrow> Inl (ErrText ''nil pointer dereference''))"

definition CustomsValidation ::
  "'l Activities \<Rightarrow> (nat \<Rightarrow> ctx) \<Rightarrow> WorkflowInput \<Rightarrow> env \<Rightarrow> db \<Rightarrow> string result \<times> db" where
  "CustomsValidation ac cs input e d =
     (let bound = (\<lambda>i. activityCtx (wi_TenantID input) (wi_PrincipalID input) (clk e 0) (cs i)) in
      case (bound 0, bound 1, bound 2) of
        (Inr c0, Inr c1, Inr c2) \<Rightarrow>
         (case Get c0 (wi_BookingID input) d of
            (Inl err, d1) \<Rightarrow> (Inl (Wrapf ''customs validation load'' err), d1)
          | (Inr booking, d1) \<Rightarrow>
              if b_CargoDeclarationRef booking = None then (Inr CustomsNotRequired, d1)
              else if b_Status booking = B_REJECTED then (Inr CustomsRejected, d1)
              else (case BeginCustomsValidation (ac_Store ac) c1 (wi_BookingID input) (workflowPrincipal input) (later 1 0 e) d1 of
                 (Inl err, d2) \<Rightarrow> (Inl (Wrapf ''begin customs validation'' err), d2)
               | (Inr pending, d2) \<Rightarrow>
                   if b_Status pending = B_PAID then (Inr CustomsMatched, d2)
                   else (case ac_Customs ac of
                      None \<Rightarrow> (Inl (ErrText ''customs validator is not configured: booking stays VALIDATION_PENDING''), d2)
                    | Some validator \<Rightarrow>
                       (case customs_evaluation ac validator pending (later 2 2 e) of
                          Inl err \<Rightarrow> (Inl err, d2)
                        | Inr evaluation \<Rightarrow>
                           (case RecordCustomsValidation (ac_Store ac) c2 (wi_BookingID input) evaluation customsValidatorIdentity
                                   (workflowPrincipal input) (later 3 3 e) d2 of
                              (Inl err, d3) \<Rightarrow> (Inl (Wrapf ''record customs validation'' err), d3)
                            | (Inr _, d3) \<Rightarrow>
                                (Inr (if e_Decision evaluation = DecisionMatch then CustomsMatched else CustomsRejected), d3))))))
      | (Inl err, _, _) \<Rightarrow> (Inl err, d)
      | (_, Inl err, _) \<Rightarrow> (Inl err, d)
      | (_, _, Inl err) \<Rightarrow> (Inl err, d))"

definition CommitLedger :: "'l Activities \<Rightarrow> WorkflowInput \<Rightarrow> 'l \<Rightarrow> string result \<times> 'l" where
  "CommitLedger ac input w =
     ac_Ledger ac \<lparr>BookingID = wi_BookingID input, AmountKobo = wi_AmountKobo input, FgnShareKobo = wi_FgnShareKobo input\<rparr> w"

definition AuditCommit ::
  "'l Activities \<Rightarrow> (nat \<Rightarrow> ctx) \<Rightarrow> WorkflowInput \<Rightarrow> string \<Rightarrow> env \<Rightarrow> db \<Rightarrow> unit result \<times> db" where
  "AuditCommit ac cs input ledgerCommitHash e d =
     (case (activityCtx (wi_TenantID input) (wi_PrincipalID input) (clk e 0) (cs 0),
            activityCtx (wi_TenantID input) (wi_PrincipalID input) (clk e 0) (cs 1)) of
        (Inr c0, Inr c1) \<Rightarrow>
         (case Get c0 (wi_BookingID input) d of
            (Inl err, d1) \<Rightarrow> (Inl (Wrapf ''audit commit load'' err), d1)
          | (Inr booking, d1) \<Rightarrow>
             (case Complete (ac_Store ac) c1 (wi_BookingID input) (b_Version booking) ledgerCommitHash
                     (workflowPrincipal input) (later 1 0 e) d1 of
                (Inl err, d2) \<Rightarrow> (Inl err, d2)
              | (Inr _, d2) \<Rightarrow> (Inr (), d2)))
      | (Inl err, _) \<Rightarrow> (Inl err, d)
      | (_, Inl err) \<Rightarrow> (Inl err, d))"

definition ExpireBooking ::
  "'l Activities \<Rightarrow> (BookingRow list \<Rightarrow> BookingRow list) \<Rightarrow> (nat \<Rightarrow> ctx) \<Rightarrow> WorkflowInput \<Rightarrow> env \<Rightarrow> db \<Rightarrow> 'l
   \<Rightarrow> unit result \<times> db \<times> 'l" where
  "ExpireBooking ac pick cs input e d w =
     (case activityCtx (wi_TenantID input) (wi_PrincipalID input) (clk e 0) (cs 0) of
        Inl err \<Rightarrow> (Inl err, d, w)
      | Inr c \<Rightarrow>
         (case ExpireDue (ac_Store ac) pick c (clk e 1) (workflowPrincipal input) (later 2 0 e) d w of
            (Inl err, d', w') \<Rightarrow> (Inl err, d', w')
          | (Inr _, d', w') \<Rightarrow> (Inr (), d', w')))"

section \<open>The booking workflow\<close>

datatype bw_point =
    Await_Payment | Run_ExpireUnpaid | Run_ReceiptCheck string | Run_CustomsValidation | Await_GateScan
  | Run_ExpireUnscanned | Run_CommitLedger | Run_AuditCommit string | BW_Returned "WorkflowResult result"

record bw =
  bw_point :: bw_point
  bw_state :: ObserverState

definition bw_update :: "string \<Rightarrow> time \<Rightarrow> ObserverState \<Rightarrow> ObserverState" where
  "bw_update stage now s = s\<lparr>os_Stage := stage, os_UpdatedAt := rfc3339 now\<rparr>"

definition bw_start :: "WorkflowInput \<Rightarrow> time \<Rightarrow> bw" where
  "bw_start input now =
     \<lparr>bw_point = (if wi_BookingID input = [] \<or> wi_TenantID input = []
                  then BW_Returned (Inl (ErrText ''booking id and tenant id are required'')) else Await_Payment),
      bw_state = \<lparr>os_BookingID = wi_BookingID input, os_Stage = ''AWAITING_PAYMENT'', os_Receipt = [], os_ScanID = [],
                  os_CustomsDecision = [], os_UpdatedAt = rfc3339 now\<rparr>\<rparr>"

text \<open>
  A selector fires with the received signal value, or with \<open>None\<close> when the timer
  comes first; the variable then still holds the empty string.
\<close>

definition bw_select :: "string option \<Rightarrow> time \<Rightarrow> bw \<Rightarrow> bw" where
  "bw_select received now b =
     (let value = (case received of None \<Rightarrow> [] | Some v \<Rightarrow> v); s = bw_state b in
      case bw_point b of
        Await_Payment \<Rightarrow>
          if value = [] then \<lparr>bw_point = Run_ExpireUnpaid, bw_state = bw_update ''EXPIRED_AWAITING_PAYMENT'' now s\<rparr>
          else \<lparr>bw_point = Run_ReceiptCheck value, bw_state = bw_update ''RECEIPT_CHECK'' now (s\<lparr>os_Receipt := value\<rparr>)\<rparr>
      | Await_GateScan \<Rightarrow>
          if value = [] then \<lparr>bw_point = Run_ExpireUnscanned, bw_state = bw_update ''EXPIRED_AWAITING_GATE_SCAN'' now s\<rparr>
          else \<lparr>bw_point = Run_CommitLedger, bw_state = bw_update ''LEDGER_COMMIT'' now (s\<lparr>os_ScanID := value\<rparr>)\<rparr>
      | _ \<Rightarrow> b)"

definition bw_result :: "WorkflowInput \<Rightarrow> string \<Rightarrow> string \<Rightarrow> bw_point" where
  "bw_result input outcome hash =
     BW_Returned (Inr \<lparr>wr_BookingID = wi_BookingID input, wr_Outcome = outcome, wr_LedgerCommitHash = hash\<rparr>)"

text \<open>
  One attempt of the pending activity. The answer is the error of the attempt,
  wrapped as the workflow wraps it, or the workflow at its next blocking point.
\<close>

definition bw_activity ::
  "'l Activities \<Rightarrow> WorkflowInput \<Rightarrow> (BookingRow list \<Rightarrow> BookingRow list) \<Rightarrow> (nat \<Rightarrow> ctx) \<Rightarrow> env \<Rightarrow> time \<Rightarrow> bw \<Rightarrow> db \<Rightarrow> 'l
   \<Rightarrow> bw result \<times> db \<times> 'l" where
  "bw_activity ac input pick cs e now b d w =
     (let s = bw_state b in
      case bw_point b of
        Run_ExpireUnpaid \<Rightarrow>
         (case ExpireBooking ac pick cs input e d w of
            (Inl err, d', w') \<Rightarrow> (Inl (Wrapf ''expire unpaid booking'' err), d', w')
          | (Inr _, d', w') \<Rightarrow> (Inr (b\<lparr>bw_point := bw_result input ''EXPIRED'' []\<rparr>), d', w'))
      | Run_ReceiptCheck receiptRef \<Rightarrow>
         (case ReceiptCheck cs input receiptRef e d of
            (Inl err, d') \<Rightarrow> (Inl (Wrapf ''receipt check'' err), d', w)
          | (Inr _, d') \<Rightarrow> (Inr \<lparr>bw_point = Run_CustomsValidation, bw_state = bw_update ''CUSTOMS_VALIDATION'' now s\<rparr>, d', w))
      | Run_CustomsValidation \<Rightarrow>
         (case CustomsValidation ac cs input e d of
            (Inl err, d') \<Rightarrow> (Inl (Wrapf ''customs validation'' err), d', w)
          | (Inr decision, d') \<Rightarrow>
              let s = s\<lparr>os_CustomsDecision := decision\<rparr> in
              if decision = CustomsRejected
              then (Inr \<lparr>bw_point = bw_result input ''REJECTED'' [], bw_state = bw_update ''REJECTED'' now s\<rparr>, d', w)
              else (Inr \<lparr>bw_point = Await_GateScan, bw_state = bw_update ''AWAITING_GATE_SCAN'' now s\<rparr>, d', w))
      | Run_ExpireUnscanned \<Rightarrow>
         (case ExpireBooking ac pick cs input e d w of
            (Inl err, d', w') \<Rightarrow> (Inl (Wrapf ''expire unscanned booking'' err), d', w')
          | (Inr _, d', w') \<Rightarrow> (Inr (b\<lparr>bw_point := bw_result input ''EXPIRED'' []\<rparr>), d', w'))
      | Run_CommitLedger \<Rightarrow>
         (case CommitLedger ac input w of
            (Inl err, w') \<Rightarrow> (Inl (Wrapf ''ledger commit'' err), d, w')
          | (Inr hash, w') \<Rightarrow> (Inr \<lparr>bw_point = Run_AuditCommit hash, bw_state = bw_update ''AUDIT_COMMIT'' now s\<rparr>, d, w'))
      | Run_AuditCommit hash \<Rightarrow>
         (case AuditCommit ac cs input hash e d of
            (Inl err, d') \<Rightarrow> (Inl (Wrapf ''audit commit'' err), d', w)
          | (Inr _, d') \<Rightarrow>
              (Inr \<lparr>bw_point = bw_result input ''COMPLETED'' hash, bw_state = bw_update ''COMPLETED'' now s\<rparr>, d', w))
      | _ \<Rightarrow> (Inr b, d, w))"

text \<open>
  The workflow among everything else: operations of the stores by anyone, other
  settlements on the ledger, its own selectors and activity attempts. A failed
  attempt is retried or, when Temporal gives up, ends the workflow with its error.
\<close>

inductive bw_step ::
  "'l Activities \<Rightarrow> 'l qstore \<Rightarrow> WorkflowInput \<Rightarrow> bw \<times> db \<times> 'l \<Rightarrow> bw \<times> db \<times> 'l \<Rightarrow> bool" for ac qs input where
  other: "op_step (ac_Store ac) qs c (d, w) (d', w') \<Longrightarrow> bw_step ac qs input (b, d, w) (b, d', w')"
| settlement: "ac_Ledger ac s w = (r, w') \<Longrightarrow> bw_step ac qs input (b, d, w) (b, d, w')"
| select: "bw_step ac qs input (b, d, w) (bw_select received now b, d, w)"
| attempt: "some_rows pick \<Longrightarrow> bw_activity ac input pick cs e now b d w = (Inr b', d', w') \<Longrightarrow>
    bw_step ac qs input (b, d, w) (b', d', w')"
| retry: "some_rows pick \<Longrightarrow> bw_activity ac input pick cs e now b d w = (Inl err, d', w') \<Longrightarrow>
    bw_step ac qs input (b, d, w) (b, d', w')"
| give_up: "some_rows pick \<Longrightarrow> bw_activity ac input pick cs e now b d w = (Inl err, d', w') \<Longrightarrow>
    bw_step ac qs input (b, d, w) (b\<lparr>bw_point := BW_Returned (Inl err)\<rparr>, d', w')"

section \<open>What the rest of the system keeps\<close>

text \<open>Nothing anyone does undoes the invariant or a completed booking.\<close>

definition keeps :: "db \<Rightarrow> db \<Rightarrow> bool" where
  "keeps d d' \<longleftrightarrow> (db_inv d \<longrightarrow> db_inv d' \<and>
     (\<forall>b\<in>set (truck_bookings d). b_Status b = B_COMPLETED \<longrightarrow> b \<in> set (truck_bookings d')))"

lemma keeps_refl [simp]: "keeps d d" by (simp add: keeps_def)

lemma keeps_trans: "keeps d d1 \<Longrightarrow> keeps d1 d2 \<Longrightarrow> keeps d d2" by (auto simp: keeps_def)

lemma tenant_writes_keeps:
  assumes "db_inv d \<Longrightarrow> tenant_writes c d d'"
  shows "keeps d d'"
  unfolding keeps_def
proof (intro impI conjI ballI)
  assume inv: "db_inv d"
  then have k: "keys_ok d" by (rule db_inv_keys)
  note w = assms [OF inv]
  show "db_inv d'"
    using w inv db_inv_writes db_inv_config by (auto simp: tenant_writes_def split: option.splits)
  fix b
  assume b: "b \<in> set (truck_bookings d)" "b_Status b = B_COMPLETED"
  from w obtain tid where "bookings_evolve tid (truck_bookings d) (truck_bookings d')"
    using writes_evolve [OF _ k] by (auto simp: tenant_writes_def db_config_def split: option.splits)
  from brows.evolves_stuck [OF this b(1)] b(2) show "b \<in> set (truck_bookings d')"
    using booking_terminal_stuck [of B_COMPLETED] by (auto simp: booking_terminal_def)
qed

lemma wire_op_keeps:
  "wire signer verifier client bps grace = Inr (bs, qs) \<Longrightarrow> op_step bs qs' c (d, w) (d', w') \<Longrightarrow> keeps d d'"
  by (rule tenant_writes_keeps) (erule wire_step_writes, assumption, erule db_inv_keys)

section \<open>What the ledger keeps\<close>

lemma CommitBookingSettlement_mono:
  assumes "tigerbeetle_contract client posted" and "CommitBookingSettlement client s st = (x, st')"
  shows "set (posted st) \<subseteq> set (posted st')"
proof -
  consider "st' = st" | y where "ensureAccounts client st = (y, st')"
    | y st1 z where "ensureAccounts client st = (y, st1)" "CreateTransfers client (settlement_transfers s) st1 = (z, st')"
    using assms(2)
    by (auto simp: CommitBookingSettlement_def post_transfers_def split: if_splits prod.splits sum.splits)
  then show ?thesis
  proof cases
    case 3
    from ensureAccounts_posted [OF assms(1) 3(1)] 3(2) assms(1) show ?thesis
      unfolding tigerbeetle_contract_def by metis
  qed (use ensureAccounts_posted [OF assms(1)] in auto)
qed

lemma expire_loop_mono:
  assumes "st_refundWired st" and "st_refunder st = Some (RefundBookingSettlement client)" and "tigerbeetle_contract client posted"
  shows "expire_loop st claims now pr due e n d w = (x, w') \<Longrightarrow> set (posted w) \<subseteq> set (posted w')"
proof (induction due arbitrary: e n d w)
  case (Cons b due)
  obtain y w1 where f: "refundIfPaid st b w = (y, w1)" by (cases "refundIfPaid st b w") blast
  have m: "set (posted w) \<subseteq> set (posted w1)" using refundIfPaid_posted [OF assms f] by blast
  show ?case
  proof (cases "w' = w1")
    case False
    with Cons.prems f obtain e1 n1 d1 where "expire_loop st claims now pr due e1 n1 d1 w1 = (x, w')"
      by (auto split: sum.splits prod.splits)
    with Cons.IH m show ?thesis by blast
  qed (use m in simp)
qed simp

lemma op_step_mono:
  assumes "st_refundWired bs" and "st_refunder bs = Some (RefundBookingSettlement client)" and "tigerbeetle_contract client posted"
    and "op_step bs qs c (d, w) (d', w')"
  shows "set (posted w) \<subseteq> set (posted w')"
  using assms(4)
proof (cases rule: op_step.cases)
  case (Cancel k ver reason pr e rb)
  then show ?thesis
    unfolding Cancel_def
    by (auto split: if_splits elim!: WithTxW_cases)
       (auto simp: Cancel_work_def split: sum.splits if_splits prod.splits dest!: refundIfPaid_posted [OF assms(1-3)])
next
  case (ExpireDue pickb now pr e rn)
  from ExpireDue(2) show ?thesis
    unfolding ExpireDue_def by (rule WithTxW_cases) (auto dest: expire_loop_mono [OF assms(1-3)])
qed auto

section \<open>The activities\<close>

lemma Get_same: "Get c k d = (r, d') \<Longrightarrow> d' = d" by (rule Get_op)

lemma ReceiptCheck_same: "ReceiptCheck cs input ref e d = (r, d') \<Longrightarrow> d' = d"
  by (auto simp: ReceiptCheck_def split: sum.splits prod.splits if_splits dest: Get_same)

lemma CustomsValidation_keeps:
  assumes "CustomsValidation ac cs input e d = (r, d')"
  shows "keeps d d'"
proof -
  have b: "keeps d d1" if "BeginCustomsValidation (ac_Store ac) c k pr e1 d = (x, d1)" for c k pr e1 x d d1
    by (rule tenant_writes_keeps) (rule BeginCustomsValidation_op [OF that db_inv_keys])
  have v: "keeps d d1" if "RecordCustomsValidation (ac_Store ac) c k ev by1 pr e1 d = (x, d1)" for c k ev by1 pr e1 x d d1
    by (rule tenant_writes_keeps) (rule RecordCustomsValidation_op [OF that db_inv_keys])
  show ?thesis
    using assms unfolding CustomsValidation_def Let_def
    by (auto split: sum.splits prod.splits if_splits option.splits dest!: Get_same b v intro: keeps_trans)
qed

lemma Complete_InrD:
  assumes "wire signer verifier client bps grace = Inr (bs, qs)" and "Complete bs c k ver h pr e d = (Inr r, d')"
    and "db_inv d" and "ctx_claims c = Some claims"
  shows "find_booking (TenantID claims) d' k = Some r \<and> b_Status r = B_COMPLETED \<and> b_LedgerCommitHash r = Some h"
proof -
  have k: "keys_ok d" using assms(3) by (rule db_inv_keys)
  from assms(1) obtain qs0 where bs: "bs = wired_store signer verifier client bps qs0" using wire_wired_store by blast
  from assms(2,4) have "Complete_work bs k ver h pr e claims d = Inr (r, d')"
    by (auto simp: Complete_def split: if_splits dest!: WithTx_InrD)
  then obtain b d1 where g: "getForUpdate claims d k = Inr b"
    and tr: "transitionTx bs claims b B_COMPLETED (\<lambda>u. u\<lparr>b_LedgerCommitHash := Some h\<rparr>) ''booking.completed''
       [(''ledger-commit-hash'', h)] pr h e d = Inr (r, d1)"
    and rel: "capacityReleased bs claims b pr (later 1 2 e) d1 = Inr d'"
    by (auto simp: Complete_work_def bindE_Inr_iff)
  have "keys_ok d1" using tr k by (auto elim!: transitionTx_InrE simp: keys_ok_def map_update_where set_columns_def)
  then have "truck_bookings d' = truck_bookings d1"
    using wired.capacityReleased_writes [OF rel [unfolded bs]] by blast
  then have "find_booking (TenantID claims) d' k = find_booking (TenantID claims) d1 k" by (simp add: find_booking_def)
  moreover have "b_LedgerCommitHash r = Some h" using tr by (auto elim!: transitionTx_InrE simp: set_columns_def)
  ultimately show ?thesis using transitioned_row [OF tr k] getForUpdate_InrD [OF g] by auto
qed

lemma AuditCommit_keeps:
  assumes "wire signer verifier client bps grace = Inr (ac_Store ac, qs)" and "AuditCommit ac cs input h e d = (r, d')"
  shows "keeps d d'"
proof -
  have k: "keeps d d1" if "Complete (ac_Store ac) c k ver h pr e1 d = (x, d1)" for c k ver pr e1 x d1
    by (rule wire_op_keeps [OF assms(1) op_step.Complete [OF that]])
  show ?thesis
    using assms(2) unfolding AuditCommit_def
    by (auto split: sum.splits prod.splits dest!: Get_same k)
qed

lemma AuditCommit_completes:
  assumes "wire signer verifier client bps grace = Inr (ac_Store ac, qs)" and "AuditCommit ac cs input h e d = (Inr u, d')"
    and "db_inv d"
  shows "\<exists>b\<in>set (truck_bookings d'). b_BookingID b = wi_BookingID input \<and> b_TenantID b = wi_TenantID input
     \<and> b_Status b = B_COMPLETED \<and> b_LedgerCommitHash b = Some h"
proof -
  from assms(2) obtain c0 c1 booking d1 x where
      c1: "activityCtx (wi_TenantID input) (wi_PrincipalID input) (clk e 0) (cs 1) = Inr c1"
    and "Get c0 (wi_BookingID input) d = (Inr booking, d1)"
    and cm: "Complete (ac_Store ac) c1 (wi_BookingID input) (b_Version booking) h (workflowPrincipal input) (later 1 0 e) d1 = (Inr x, d')"
    by (auto simp: AuditCommit_def split: sum.splits prod.splits)
  then have "d1 = d" by (auto dest: Get_same)
  obtain claims where cl: "ctx_claims c1 = Some claims" "TenantID claims = wi_TenantID input"
    using c1 by (auto simp: activityCtx_def WithClaims_def split: if_splits)
  from Complete_InrD [OF assms(1) cm [unfolded \<open>d1 = d\<close>] assms(3) cl(1)] cl(2)
  show ?thesis by (auto dest!: find_booking_SomeD)
qed

lemma ExpireBooking_keeps:
  assumes "wire signer verifier client bps grace = Inr (ac_Store ac, qs)" and "some_rows pick"
    and "ExpireBooking ac pick cs input e d w = (r, d', w')"
  shows "keeps d d'"
proof -
  have k: "keeps d d1" if "ExpireDue (ac_Store ac) pick c now pr e1 d w = (x, d1, w1)" for c now pr e1 x d1 w1
    by (rule wire_op_keeps [OF assms(1) op_step.ExpireDue [OF assms(2) that]])
  show ?thesis using assms(3) unfolding ExpireBooking_def by (auto split: sum.splits prod.splits dest!: k)
qed

section \<open>Completed means paid, admitted and settled\<close>

definition workflow_settlement :: "WorkflowInput \<Rightarrow> Settlement" where
  "workflow_settlement input =
     \<lparr>BookingID = wi_BookingID input, AmountKobo = wi_AmountKobo input, FgnShareKobo = wi_FgnShareKobo input\<rparr>"

definition settled :: "WorkflowInput \<Rightarrow> ('l \<Rightarrow> tb_transfer list) \<Rightarrow> string \<Rightarrow> 'l \<Rightarrow> bool" where
  "settled input posted h w \<longleftrightarrow> h = CommitHash (wi_BookingID input)
     \<and> set (settlement_transfers (workflow_settlement input)) \<subseteq> set (posted w)"

definition completed_with :: "WorkflowInput \<Rightarrow> string \<Rightarrow> db \<Rightarrow> bool" where
  "completed_with input h d \<longleftrightarrow> (\<exists>b\<in>set (truck_bookings d). b_BookingID b = wi_BookingID input
     \<and> b_TenantID b = wi_TenantID input \<and> b_Status b = B_COMPLETED \<and> b_LedgerCommitHash b = Some h)"

fun bw_inv :: "WorkflowInput \<Rightarrow> ('l \<Rightarrow> tb_transfer list) \<Rightarrow> bw_point \<Rightarrow> db \<Rightarrow> 'l \<Rightarrow> bool" where
  "bw_inv input posted (Run_AuditCommit h) d w = settled input posted h w"
| "bw_inv input posted (BW_Returned (Inr r)) d w =
     (wr_Outcome r = ''COMPLETED'' \<longrightarrow> settled input posted (wr_LedgerCommitHash r) w
        \<and> completed_with input (wr_LedgerCommitHash r) d)"
| "bw_inv input posted _ d w = True"

lemma bw_inv_mono:
  assumes "bw_inv input posted p d w" and "db_inv d" and "keeps d d'" and "set (posted w) \<subseteq> set (posted w')"
  shows "bw_inv input posted p d' w'"
proof -
  have s: "settled input posted h w \<Longrightarrow> settled input posted h w'" for h using assms(4) by (auto simp: settled_def)
  have c: "completed_with input h d \<Longrightarrow> completed_with input h d'" for h
    using assms(2,3) by (auto simp: completed_with_def keeps_def)
  show ?thesis using assms(1) s c by (induction input posted p d w rule: bw_inv.induct) auto
qed

lemma ExpireBooking_mono:
  assumes "st_refundWired (ac_Store ac)" and "st_refunder (ac_Store ac) = Some (RefundBookingSettlement client)"
    and "tigerbeetle_contract client posted" and "ExpireBooking ac pick cs input e d w = (r, d', w')"
  shows "set (posted w) \<subseteq> set (posted w')"
proof -
  have k: "set (posted w) \<subseteq> set (posted w1)"
    if "ExpireDue (ac_Store ac) pick c now pr e1 d w = (x, d1, w1)" for c now pr e1 x d1 w1
    using that unfolding ExpireDue_def by (rule WithTxW_cases) (auto dest: expire_loop_mono [OF assms(1-3)])
  show ?thesis using assms(4) unfolding ExpireBooking_def by (auto split: sum.splits prod.splits dest: k)
qed

lemma bw_activity_world:
  assumes w: "wire signer verifier client bps grace = Inr (ac_Store ac, qs)" and l: "ac_Ledger ac = CommitBookingSettlement client"
    and c: "tigerbeetle_contract client posted" and p: "some_rows pick"
    and a: "bw_activity ac input pick cs e now b d w0 = (x, d', w')"
  shows "keeps d d' \<and> set (posted w0) \<subseteq> set (posted w')"
proof -
  from w obtain qs0 where bs: "ac_Store ac = wired_store signer verifier client bps qs0" using wire_wired_store by blast
  have wd: "st_refundWired (ac_Store ac)" "st_refunder (ac_Store ac) = Some (RefundBookingSettlement client)"
    by (simp_all add: bs wired_store_def)
  have m: "set (posted w0) \<subseteq> set (posted w1)" if "CommitLedger ac input w0 = (y, w1)" for y w1
    using that CommitBookingSettlement_mono [OF c] by (simp add: CommitLedger_def l)
  show ?thesis
    using a
    by (cases "bw_point b")
       (auto simp: bw_activity_def Let_def split: sum.splits prod.splits if_splits
         dest!: ReceiptCheck_same CustomsValidation_keeps AuditCommit_keeps [OF w] m
         dest: ExpireBooking_keeps [OF w p] ExpireBooking_mono [OF wd c])
qed

lemma bw_activity_inv:
  assumes w: "wire signer verifier client bps grace = Inr (ac_Store ac, qs)" and l: "ac_Ledger ac = CommitBookingSettlement client"
    and c: "tigerbeetle_contract client posted" and p: "some_rows pick"
    and a: "bw_activity ac input pick cs e now b d w0 = (Inr b', d', w')"
    and inv: "bw_inv input posted (bw_point b) d w0" and dinv: "db_inv d"
  shows "bw_inv input posted (bw_point b') d' w'"
proof (cases "bw_point b")
  case Run_CommitLedger
  with a obtain h where h: "CommitBookingSettlement client (workflow_settlement input) w0 = (Inr h, w')"
    "bw_point b' = Run_AuditCommit h"
    by (auto simp: bw_activity_def CommitLedger_def l workflow_settlement_def split: sum.splits prod.splits)
  from CommitBookingSettlement_Inr [OF c h(1)] h(2) show ?thesis
    by (simp add: settled_def workflow_settlement_def)
next
  case (Run_AuditCommit h)
  with a have ok: "AuditCommit ac cs input h e d = (Inr (), d')" "w' = w0" "bw_point b' = bw_result input ''COMPLETED'' h"
    by (auto simp: bw_activity_def split: sum.splits prod.splits)
  from AuditCommit_completes [OF w ok(1) dinv] have "completed_with input h d'" by (simp add: completed_with_def)
  with inv ok Run_AuditCommit show ?thesis by (simp add: bw_result_def)
next
  case (BW_Returned r)
  with a inv show ?thesis by (simp add: bw_activity_def)
qed (use a in \<open>auto simp: bw_activity_def bw_result_def Let_def split: sum.splits prod.splits if_splits\<close>)

lemma bw_step_inv:
  assumes w: "wire signer verifier client bps grace = Inr (ac_Store ac, qs)" and l: "ac_Ledger ac = CommitBookingSettlement client"
    and c: "tigerbeetle_contract client posted"
    and st: "bw_step ac qs input x y"
    and inv: "bw_inv input posted (bw_point (fst x)) (fst (snd x)) (snd (snd x)) \<and> db_inv (fst (snd x))"
  shows "bw_inv input posted (bw_point (fst y)) (fst (snd y)) (snd (snd y)) \<and> db_inv (fst (snd y))"
  using st
proof (cases rule: bw_step.cases)
  case (other c' d w0 d' w' b)
  from w obtain qs0 where bs: "ac_Store ac = wired_store signer verifier client bps qs0" using wire_wired_store by blast
  have "set (posted w0) \<subseteq> set (posted w')"
    by (rule op_step_mono [OF _ _ c other(3)]) (simp_all add: bs wired_store_def)
  moreover have "keeps d d'" by (rule wire_op_keeps [OF w other(3)])
  ultimately show ?thesis
    using inv other bw_inv_mono [of input posted "bw_point b" d w0 d' w'] by (auto simp: keeps_def)
next
  case (settlement s w0 r w' b d)
  have "set (posted w0) \<subseteq> set (posted w')" using settlement(3) by (simp add: l CommitBookingSettlement_mono [OF c])
  then show ?thesis using inv settlement bw_inv_mono [of input posted "bw_point b" d w0 d w'] by simp
next
  case (select b d w0 received now)
  have "bw_inv input posted (bw_point (bw_select received now b)) d w0"
    using inv select by (cases "bw_point b") (auto simp: bw_select_def Let_def)
  with inv select show ?thesis by simp
next
  case (attempt pick cs e now b d w0 b' d' w')
  with bw_activity_world [OF w l c attempt(3,4)] bw_activity_inv [OF w l c attempt(3,4)] inv show ?thesis
    by (auto simp: keeps_def)
next
  case (retry pick cs e now b d w0 err d' w')
  with bw_activity_world [OF w l c retry(3,4)] inv bw_inv_mono [of input posted "bw_point b" d w0 d' w'] show ?thesis
    by (auto simp: keeps_def)
next
  case (give_up pick cs e now b d w0 err d' w')
  with bw_activity_world [OF w l c give_up(3,4)] inv show ?thesis by (auto simp: keeps_def)
qed

lemma bw_run_inv:
  assumes "wire signer verifier client bps grace = Inr (ac_Store ac, qs)" and "ac_Ledger ac = CommitBookingSettlement client"
    and "tigerbeetle_contract client posted" and "(bw_step ac qs input)\<^sup>*\<^sup>* (bw_start input now, d0, w0) y" and "db_inv d0"
  shows "bw_inv input posted (bw_point (fst y)) (fst (snd y)) (snd (snd y)) \<and> db_inv (fst (snd y))"
  using assms(4)
proof (induction rule: rtranclp_induct)
  case base
  with assms(5) show ?case by (simp add: bw_start_def)
next
  case (step x y)
  show ?case by (rule bw_step_inv [OF assms(1-3) step.hyps(2) step.IH])
qed

text \<open>
  Claim C30. A workflow that answers COMPLETED tells the truth, whatever happened
  around it and however often its activities were retried: from then on the
  booking is stored as COMPLETED with the answered hash, that hash is the booking's
  commit hash, both settlement legs are in the ledger, and the booking was paid by a
  completed intent of its own and admitted at the gate.
\<close>

theorem workflow_completed_sound:
  assumes "wire signer verifier client bps grace = Inr (ac_Store ac, qs)" and "ac_Ledger ac = CommitBookingSettlement client"
    and "tigerbeetle_contract client posted" and "db_inv d0"
    and "(bw_step ac qs input)\<^sup>*\<^sup>* (bw_start input now, d0, w0) (b, d, w)"
    and "bw_point b = BW_Returned (Inr r)" and "wr_Outcome r = ''COMPLETED''"
  shows "wr_LedgerCommitHash r = CommitHash (wi_BookingID input)
    \<and> set (settlement_transfers (workflow_settlement input)) \<subseteq> set (posted w)
    \<and> (\<exists>x\<in>set (truck_bookings d). b_BookingID x = wi_BookingID input \<and> b_TenantID x = wi_TenantID input
         \<and> b_Status x = B_COMPLETED \<and> b_LedgerCommitHash x = Some (wr_LedgerCommitHash r)
         \<and> has_receipt d x \<and> gate_cleared d x)"
proof -
  from bw_run_inv [OF assms(1-3,5,4)] assms(6,7)
  have s: "settled input posted (wr_LedgerCommitHash r) w" "completed_with input (wr_LedgerCommitHash r) d" and inv: "db_inv d"
    by auto
  from s(2) obtain x where x: "x \<in> set (truck_bookings d)" "b_BookingID x = wi_BookingID input" "b_TenantID x = wi_TenantID input"
    "b_Status x = B_COMPLETED" "b_LedgerCommitHash x = Some (wr_LedgerCommitHash r)" by (auto simp: completed_with_def)
  have "lifecycle_ok d x" using inv x(1) by (simp add: db_inv_def list_all_iff)
  then have "has_receipt d x" "gate_cleared d x" using x(4) by (auto simp: lifecycle_ok_def paid_stage_def)
  with x s(1) show ?thesis by (auto simp: settled_def)
qed

text \<open>The scenario's booking goes through its workflow.\<close>

definition demo_input :: WorkflowInput where
  "demo_input = \<lparr>wi_BookingID = ''bk'', wi_TenantID = ''tenant-demo'', wi_PrincipalID = ''clerk'', wi_AmountKobo = 250000,
     wi_FgnShareKobo = 37500, wi_ExpectedVersion = 1, wi_PaymentDeadline = 500, wi_GateScanDeadline = 900\<rparr>"

definition demo_activities :: "tb_transfer list Activities" where
  "demo_activities = \<lparr>ac_Store = demo_store, ac_Ledger = CommitBookingSettlement list_tigerbeetle, ac_Customs = None,
     ac_CustomsWeightToleranceBPS = 0\<rparr>"

lemma demo_activityCtx:
  "activityCtx ''tenant-demo'' ''clerk'' now demo_ctx = Inr (demo_ctx\<lparr>ctx_claims := Some \<lparr>Issuer = ''ecallup-booking-workflow'',
     Audience = ''s1-port-interoperability'', TenantID = ''tenant-demo'', Subject = ''clerk'',
     Expires = (now + 3600000000) div 1000000, Roles = []\<rparr>\<rparr>)"
  by (simp add: activityCtx_def WithClaims_def validTenantID_def is_tenant_char_def go_simps)

lemma demo_gated_simps [simp]:
  "b_BookingID demo_gated = ''bk''" "b_TenantID demo_gated = ''tenant-demo''" "b_RequestID demo_gated = ''request-1''"
  "b_Status demo_gated = B_GATE_APPROVED" "b_Version demo_gated = 4" "b_SlotID demo_gated = Some ''slot''"
  "b_PaymentReceiptRef demo_gated = Some ''tx-1''" "b_TerminalID demo_gated = ''APAPA''"
  by (simp_all add: demo_gated_def)

lemma emit_demo_signer:
  assumes "TrimSpace ty \<noteq> []" "validTopic topic" "TrimSpace corr \<noteq> []" "TrimSpace sub \<noteq> []"
    and "TrimSpace (pr_ID pr) \<noteq> []" "TrimSpace (pr_Role pr) \<noteq> []"
    and "list_all (\<lambda>k. TrimSpace k \<noteq> []) (map fst ext)" "rnd e 1 \<notin> set (map o_EventID (platform_outbox d))"
  shows "\<exists>o1. emit claims topic ty corr sub p ext pr lh at (Some demo_signer) e d
    = Inr (d\<lparr>platform_outbox := platform_outbox d @ [o1]\<rparr>)"
  using assms by (auto simp: emit_def Message_def demo_signer_def Let_def list_ex_iff list_all_iff image_iff)

lemma demo_audit:
  "\<exists>d'. AuditCommit demo_activities (\<lambda>_. demo_ctx) demo_input (CommitHash ''bk'') (demo_env 200 ''au'') demo7 = (Inr (), d')"
proof -
  let ?claims = "\<lparr>Issuer = ''ecallup-booking-workflow'', Audience = ''s1-port-interoperability'', TenantID = ''tenant-demo'',
     Subject = ''clerk'', Expires = 3600, Roles = []\<rparr>"
  let ?pr = "\<lparr>pr_ID = ''clerk'', pr_Role = ''booking-workflow''\<rparr>"
  let ?u = "demo_gated\<lparr>b_Status := B_COMPLETED, b_UpdatedAt := 200, b_Version := wrap64 5, b_LedgerCommitHash := Some (CommitHash ''bk'')\<rparr>"
  let ?r = "set_columns ?u demo_gated"
  have w5: "wrap64 5 = 5" by (simp add: wrap64_def)
  have "truck_bookings_check ?r"
    using demo_row_check by (simp add: truck_bookings_check_def set_columns_def demo_gated_def demo_paid_def demo_reserved_def w5)
  then have w: "booking_write_error ''tenant-demo'' demo7 ?r = None"
    by (simp add: booking_write_error_def enforce_slot_capacity_def receipt_conflict_def holds_capacity_def)
  obtain o1 where em: "emit ?claims TopicBooking ''booking.completed'' ''request-1'' ''bk'' (BookingPayload ?r)
      [(''ledger-commit-hash'', CommitHash ''bk'')] ?pr (CommitHash ''bk'') 200 (Some demo_signer) (demo_env 200 ''au'')
      (demo7\<lparr>truck_bookings := [?r]\<rparr>) = Inr (demo7\<lparr>truck_bookings := [?r], platform_outbox := platform_outbox demo7 @ [o1]\<rparr>)"
    using emit_demo_signer [of "''booking.completed''" TopicBooking "''request-1''" "''bk''" ?pr
        "[(''ledger-commit-hash'', CommitHash ''bk'')]" "demo_env 200 ''au''" "demo7\<lparr>truck_bookings := [?r]\<rparr>"
        ?claims "BookingPayload ?r" "CommitHash ''bk''" 200]
    by (auto simp: go_simps demo_topics)
  have tr: "transitionTx demo_store ?claims demo_gated B_COMPLETED (\<lambda>u. u\<lparr>b_LedgerCommitHash := Some (CommitHash ''bk'')\<rparr>)
      ''booking.completed'' [(''ledger-commit-hash'', CommitHash ''bk'')] ?pr (CommitHash ''bk'') (demo_env 200 ''au'') demo7
    = Inr (?r, demo7\<lparr>truck_bookings := [?r], platform_outbox := platform_outbox demo7 @ [o1]\<rparr>)"
    using w em by (simp add: transitionTx_def booking_ValidTransition_def Let_def update_target_def update_where_def)
  let ?d = "demo7\<lparr>truck_bookings := [?r], platform_outbox := platform_outbox demo7 @ [o1]\<rparr>"
  have "find_terminal ''tenant-demo'' ?d ''APAPA'' = Some (hd (port_terminals demo1))"
    using demo1_facts(6) by (simp add: find_terminal_def)
  moreover have "queue_validateTerminalID ''APAPA'' = None"
    by (simp add: queue_validateTerminalID_def terminalPattern_def go_simps del: match_regex.simps)
  moreover have "head_of_queue ''tenant-demo'' ?d ''APAPA'' = None" by (simp add: head_of_queue_def)
  ultimately have rel: "capacityReleased demo_store ?claims demo_gated ?pr e ?d = Inr ?d" for e
    by (simp add: capacityReleased_def CapacityReleased_def promoteNextTx_def lockTerminal_def)
  have "CommitHash ''bk'' \<noteq> []" by (simp add: CommitHash_def)
  then have "Complete demo_store (demo_ctx\<lparr>ctx_claims := Some ?claims\<rparr>) ''bk'' 4 (CommitHash ''bk'') ?pr (demo_env 200 ''au'') demo7
      = (Inr ?r, ?d)"
    using tr rel by (simp add: Complete_def WithTx_def TenantClaims_def demo_ctx_def Complete_work_def getForUpdate_def find_booking_def)
  then show ?thesis
    by (simp add: AuditCommit_def demo_input_def demo_activities_def demo_activityCtx workflowPrincipal_def Get_def
        WithTx_def TenantClaims_def getForUpdate_def find_booking_def)
qed

theorem workflow_completed_sound_witness:
  "\<exists>b d w r. (bw_step demo_activities demo_q demo_input)\<^sup>*\<^sup>* (bw_start demo_input 40, demo6, []) (b, d, w)
     \<and> bw_point b = BW_Returned (Inr r) \<and> wr_LedgerCommitHash r = CommitHash ''bk''
     \<and> set (settlement_transfers (workflow_settlement demo_input)) \<subseteq> set w"
proof -
  let ?R = "bw_step demo_activities demo_q demo_input"
  let ?at = "\<lambda>b d w x. bw_activity demo_activities demo_input (\<lambda>x. x) (\<lambda>_. demo_ctx) (demo_env 200 ''au'') 200 b d w = x"
  have in1: "wi_BookingID demo_input = ''bk''" "wi_TenantID demo_input = ''tenant-demo''" "wi_PrincipalID demo_input = ''clerk''"
    "wi_AmountKobo demo_input = 250000" "wi_FgnShareKobo demo_input = 37500" by (simp_all add: demo_input_def)
  have pk: "some_rows (\<lambda>x. x)" by (simp add: some_rows_def)
  obtain d8 where audit: "AuditCommit demo_activities (\<lambda>_. demo_ctx) demo_input (CommitHash ''bk'') (demo_env 200 ''au'') demo7 = (Inr (), d8)"
    using demo_audit by blast
  obtain w1 where led: "CommitLedger demo_activities demo_input [] = (Inr (CommitHash ''bk''), w1)"
    by (simp add: CommitLedger_def demo_activities_def in1 list_tigerbeetle_commit)
  define b0 where "b0 = bw_start demo_input 40"
  define b1 where "b1 = bw_select (Some ''tx-1'') 40 b0"
  have p1: "bw_point b1 = Run_ReceiptCheck ''tx-1''" by (simp add: b1_def b0_def bw_start_def bw_select_def Let_def in1)
  have s1: "?R (b0, demo6, []) (b1, demo6, [])" unfolding b1_def by (rule bw_step.select)
  define b2 where "b2 = \<lparr>bw_point = Run_CustomsValidation, bw_state = bw_update ''CUSTOMS_VALIDATION'' 200 (bw_state b1)\<rparr>"
  have "ReceiptCheck (\<lambda>_. demo_ctx) demo_input ''tx-1'' (demo_env 200 ''au'') demo6 = (Inr (), demo6)"
    by (simp add: ReceiptCheck_def in1 demo_activityCtx Get_def WithTx_def TenantClaims_def getForUpdate_def find_booking_def)
  then have "?at b1 demo6 [] (Inr b2, demo6, [])" by (simp add: bw_activity_def p1 b2_def)
  then have s2: "?R (b1, demo6, []) (b2, demo6, [])" by (rule bw_step.attempt [OF pk])
  define b3 where "b3 = \<lparr>bw_point = Await_GateScan, bw_state = bw_update ''AWAITING_GATE_SCAN'' 200
     ((bw_state b2)\<lparr>os_CustomsDecision := CustomsNotRequired\<rparr>)\<rparr>"
  have "CustomsValidation demo_activities (\<lambda>_. demo_ctx) demo_input (demo_env 200 ''au'') demo6 = (Inr CustomsNotRequired, demo6)"
    by (simp add: CustomsValidation_def in1 demo_activityCtx Get_def WithTx_def TenantClaims_def getForUpdate_def
        find_booking_def)
  then have "?at b2 demo6 [] (Inr b3, demo6, [])"
    by (simp add: bw_activity_def b2_def b3_def CustomsNotRequired_def CustomsRejected_def)
  then have s3: "?R (b2, demo6, []) (b3, demo6, [])" by (rule bw_step.attempt [OF pk])
  have "op_step (ac_Store demo_activities) demo_q demo_ctx (demo6, []) (demo7, [])"
    by (rule op_step.RecordGateScan) (simp add: demo7_def prod_eq_iff demo_activities_def)
  then have s4: "?R (b3, demo6, []) (b3, demo7, [])" by (rule bw_step.other)
  define b4 where "b4 = bw_select (Some ''gs'') 200 b3"
  have p4: "bw_point b4 = Run_CommitLedger" by (simp add: b4_def b3_def bw_select_def Let_def)
  have s5: "?R (b3, demo7, []) (b4, demo7, [])" unfolding b4_def by (rule bw_step.select)
  define b5 where "b5 = \<lparr>bw_point = Run_AuditCommit (CommitHash ''bk''), bw_state = bw_update ''AUDIT_COMMIT'' 200 (bw_state b4)\<rparr>"
  have "?at b4 demo7 [] (Inr b5, demo7, w1)" by (simp add: bw_activity_def p4 led b5_def)
  then have s6: "?R (b4, demo7, []) (b5, demo7, w1)" by (rule bw_step.attempt [OF pk])
  define b6 where "b6 = \<lparr>bw_point = bw_result demo_input ''COMPLETED'' (CommitHash ''bk''), bw_state = bw_update ''COMPLETED'' 200 (bw_state b5)\<rparr>"
  have "?at b5 demo7 w1 (Inr b6, d8, w1)" by (simp add: bw_activity_def b5_def b6_def audit)
  then have s7: "?R (b5, demo7, w1) (b6, d8, w1)" by (rule bw_step.attempt [OF pk])
  have run: "?R\<^sup>*\<^sup>* (b0, demo6, []) (b6, d8, w1)"
    using s1 s2 s3 s4 s5 s6 s7 by (meson converse_rtranclp_into_rtranclp rtranclp.rtrancl_refl)
  have inv: "db_inv demo6" by (rule wire_reachable_inv [OF demo_wire demo_run(6)])
  have w: "ac_Store demo_activities = demo_store" "ac_Ledger demo_activities = CommitBookingSettlement list_tigerbeetle"
    by (simp_all add: demo_activities_def)
  have wr: "wire demo_signer demo_verifier list_tigerbeetle 1500 100 = Inr (ac_Store demo_activities, demo_q)"
    using demo_wire by (simp add: w(1))
  let ?r = "\<lparr>wr_BookingID = ''bk'', wr_Outcome = ''COMPLETED'', wr_LedgerCommitHash = CommitHash ''bk''\<rparr>"
  have pt: "bw_point b6 = BW_Returned (Inr ?r)" by (simp add: b6_def bw_result_def in1)
  have "set (settlement_transfers (workflow_settlement demo_input)) \<subseteq> set w1"
    using workflow_completed_sound [OF wr w(2) list_tigerbeetle_contract inv run [unfolded b0_def] pt] by simp
  then show ?thesis
    using run [unfolded b0_def] pt
    by (intro exI [of _ b6] exI [of _ d8] exI [of _ w1] exI [of _ ?r] conjI) simp_all
qed

end
