(* ===== verification/Sweeper.thy ===== *)
theory Sweeper
  imports Queue_Properties Workflows
begin

text \<open>
  \<^verbatim>\<open>src/internal/queue/workflow.go\<close> (the call-up workflow) and
  \<^verbatim>\<open>src/internal/queue/sweeper.go\<close> (the multi-tenant sweeper). The Temporal client
  that starts workflows is a parameter of the sweeper with a state \<open>'o\<close> of its own;
  its errors are only logged. What the database returns in no promised order is a
  choice of each sweep, as are clocks, identifiers and transaction failures.
\<close>

section \<open>The call-up workflow\<close>

record CallUpWorkflowInput =
  ci_QueueRequestID :: string
  ci_TenantID :: string
  ci_PrincipalID :: string
  ci_TerminalID :: string
  ci_GraceDeadline :: time

record CallUpWorkflowResult =
  cw_QueueRequestID :: string
  cw_Outcome :: string

record CallUpObserverState =
  co_QueueRequestID :: string
  co_Stage :: string
  co_GateID :: string
  co_UpdatedAt :: string

definition callUpActivityCtx :: "string \<Rightarrow> string \<Rightarrow> time \<Rightarrow> ctx \<Rightarrow> ctx result" where
  "callUpActivityCtx tenantID principalID now c =
     WithClaims c \<lparr>Issuer = ''ecallup-callup-workflow'', Audience = ''s1-port-interoperability'', TenantID = tenantID,
       Subject = principalID, Expires = (now + 3600000000) div 1000000, Roles = []\<rparr>"

definition callUpPrincipal :: "CallUpWorkflowInput \<Rightarrow> Principal" where
  "callUpPrincipal input = \<lparr>pr_ID = ci_PrincipalID input, pr_Role = ''callup-workflow''\<rparr>"

definition ArrivalCheck :: "(nat \<Rightarrow> ctx) \<Rightarrow> CallUpWorkflowInput \<Rightarrow> string \<Rightarrow> env \<Rightarrow> db \<Rightarrow> unit result \<times> db" where
  "ArrivalCheck cs input gateID e d =
     (case callUpActivityCtx (ci_TenantID input) (ci_PrincipalID input) (clk e 0) (cs 0) of
        Inl err \<Rightarrow> (Inl err, d)
      | Inr c \<Rightarrow>
         (case queue_Get c (ci_QueueRequestID input) d of
            (Inl err, d') \<Rightarrow> (Inl (Wrapf ''arrival check load'' err), d')
          | (Inr request, d') \<Rightarrow>
              if q_Status request \<noteq> Q_ARRIVED \<or> q_GateID request \<noteq> Some gateID
              then (Inl (ErrText ''arrival is not persisted for this queue request''), d')
              else (Inr (), d')))"

definition ForfeitCallUp ::
  "'l qstore \<Rightarrow> (nat \<Rightarrow> ctx) \<Rightarrow> CallUpWorkflowInput \<Rightarrow> env \<Rightarrow> db \<Rightarrow> unit result \<times> db" where
  "ForfeitCallUp qs cs input e d =
     (case (callUpActivityCtx (ci_TenantID input) (ci_PrincipalID input) (clk e 0) (cs 0),
            callUpActivityCtx (ci_TenantID input) (ci_PrincipalID input) (clk e 0) (cs 1)) of
        (Inr c0, Inr c1) \<Rightarrow>
         (case queue_Get c0 (ci_QueueRequestID input) d of
            (Inl err, d') \<Rightarrow> (Inl (Wrapf ''forfeit load'' err), d')
          | (Inr request, d') \<Rightarrow>
              if q_Status request \<noteq> Q_CALLED_UP \<and> q_Status request \<noteq> Q_EN_ROUTE then (Inr (), d')
              else (case Forfeit qs c1 (ci_QueueRequestID input) ''call-up grace window elapsed''
                           (callUpPrincipal input) (later 1 0 e) d' of
                      (Inl err, d'') \<Rightarrow> (Inl err, d'')
                    | (Inr _, d'') \<Rightarrow> (Inr (), d'')))
      | (Inl err, _) \<Rightarrow> (Inl err, d)
      | (_, Inl err) \<Rightarrow> (Inl err, d))"

datatype cw_point = Await_Arrival | Run_ForfeitCallUp | Run_ArrivalCheck string | CW_Returned "CallUpWorkflowResult result"

record cw =
  cw_point :: cw_point
  cw_state :: CallUpObserverState

definition cw_start :: "CallUpWorkflowInput \<Rightarrow> time \<Rightarrow> cw" where
  "cw_start input now =
     \<lparr>cw_point = (if ci_QueueRequestID input = [] \<or> ci_TenantID input = []
                  then CW_Returned (Inl (ErrText ''queue request id and tenant id are required'')) else Await_Arrival),
      cw_state = \<lparr>co_QueueRequestID = ci_QueueRequestID input, co_Stage = ''AWAITING_ARRIVAL'', co_GateID = [],
                  co_UpdatedAt = rfc3339 now\<rparr>\<rparr>"

definition cw_select :: "string option \<Rightarrow> time \<Rightarrow> cw \<Rightarrow> cw" where
  "cw_select received now b =
     (let gateID = (case received of None \<Rightarrow> [] | Some v \<Rightarrow> v); s = cw_state b in
      case cw_point b of
        Await_Arrival \<Rightarrow>
          if gateID = []
          then \<lparr>cw_point = Run_ForfeitCallUp, cw_state = s\<lparr>co_Stage := ''GRACE_WINDOW_ELAPSED'', co_UpdatedAt := rfc3339 now\<rparr>\<rparr>
          else \<lparr>cw_point = Run_ArrivalCheck gateID,
                cw_state = s\<lparr>co_GateID := gateID, co_Stage := ''ARRIVAL_CHECK'', co_UpdatedAt := rfc3339 now\<rparr>\<rparr>
      | _ \<Rightarrow> b)"

definition cw_activity ::
  "'l qstore \<Rightarrow> CallUpWorkflowInput \<Rightarrow> (nat \<Rightarrow> ctx) \<Rightarrow> env \<Rightarrow> time \<Rightarrow> cw \<Rightarrow> db \<Rightarrow> cw result \<times> db" where
  "cw_activity qs input cs e now b d =
     (let result = (\<lambda>outcome. CW_Returned (Inr \<lparr>cw_QueueRequestID = ci_QueueRequestID input, cw_Outcome = outcome\<rparr>)) in
      case cw_point b of
        Run_ForfeitCallUp \<Rightarrow>
         (case ForfeitCallUp qs cs input e d of
            (Inl err, d') \<Rightarrow> (Inl (Wrapf ''forfeit call-up'' err), d')
          | (Inr _, d') \<Rightarrow> (Inr (b\<lparr>cw_point := result ''FORFEITED''\<rparr>), d'))
      | Run_ArrivalCheck gateID \<Rightarrow>
         (case ArrivalCheck cs input gateID e d of
            (Inl err, d') \<Rightarrow> (Inl (Wrapf ''arrival check'' err), d')
          | (Inr _, d') \<Rightarrow>
              (Inr \<lparr>cw_point = result ''ARRIVED'', cw_state = (cw_state b)\<lparr>co_Stage := ''ARRIVED'', co_UpdatedAt := rfc3339 now\<rparr>\<rparr>, d'))
      | _ \<Rightarrow> (Inr b, d))"

section \<open>The sweeper\<close>

type_synonym 'o callup_orchestrator = "CallUpWorkflowInput \<Rightarrow> 'o \<Rightarrow> unit result \<times> 'o"

record ('l, 'o) Sweeper =
  sw_store :: "'l qstore"
  sw_callUps :: "'o callup_orchestrator"
  sw_onlyTenant :: string
  sw_staleAfter :: int

definition NewSweeper ::
  "'l qstore option \<Rightarrow> 'o callup_orchestrator option \<Rightarrow> string \<Rightarrow> int \<Rightarrow> ('l, 'o) Sweeper result" where
  "NewSweeper store callUps onlyTenant staleAfter =
     (case (store, callUps) of
        (Some s, Some o1) \<Rightarrow>
          if staleAfter \<le> 0 then Inl (ErrText ''call-up sweeper requires a positive stale-entry cutoff'')
          else Inr \<lparr>sw_store = s, sw_callUps = o1, sw_onlyTenant = onlyTenant, sw_staleAfter = staleAfter\<rparr>
      | _ \<Rightarrow> Inl (ErrText ''call-up sweeper requires a database pool, a queue store and a call-up orchestrator''))"

text \<open>What is left open of one tenant's sweep: contexts, clocks and ids, and the row orders.\<close>

record sweep_run =
  sr_ctx :: "nat \<Rightarrow> ctx"
  sr_env :: env
  sr_stale :: "QueueRow list \<Rightarrow> QueueRow list"
  sr_due :: "QueueRow list \<Rightarrow> QueueRow list"
  sr_order :: "string list \<Rightarrow> string list"

definition sweep_principal :: Principal where
  "sweep_principal = \<lparr>pr_ID = ''booking-worker'', pr_Role = ''callup-engine''\<rparr>"

definition sweep_ctx :: "string \<Rightarrow> time \<Rightarrow> ctx \<Rightarrow> ctx result" where
  "sweep_ctx tenantID now c =
     WithClaims c \<lparr>Issuer = ''booking-worker'', Audience = ''s1-port-interoperability'', TenantID = tenantID,
       Subject = ''booking-worker'', Expires = (now + 3600000000) div 1000000, Roles = []\<rparr>"

fun start_workflows :: "'o callup_orchestrator \<Rightarrow> QueueRow list \<Rightarrow> 'o \<Rightarrow> 'o" where
  "start_workflows start [] o1 = o1"
| "start_workflows start (request # active) o1 =
     (case q_GraceDeadline request of
        None \<Rightarrow> start_workflows start active o1
      | Some deadline \<Rightarrow>
          start_workflows start active
            (snd (start \<lparr>ci_QueueRequestID = q_QueueRequestID request, ci_TenantID = q_TenantID request,
                         ci_PrincipalID = pr_ID sweep_principal, ci_TerminalID = q_TerminalID request,
                         ci_GraceDeadline = deadline\<rparr> o1)))"

definition sweepTenant ::
  "('l, 'o) Sweeper \<Rightarrow> sweep_run \<Rightarrow> string \<Rightarrow> db \<Rightarrow> 'o \<Rightarrow> unit result \<times> db \<times> 'o" where
  "sweepTenant sw r tenantID d o1 =
     (let e = sr_env r; bound = (\<lambda>i. sweep_ctx tenantID (clk e 0) (sr_ctx r i)) in
      case (bound 0, bound 1, bound 2) of
        (Inr c0, Inr c1, Inr c2) \<Rightarrow>
         (case ExpireStale (sw_store sw) (sr_stale r) c0 (clk e 1 - sw_staleAfter sw) sweep_principal (later 2 0 e) d of
            (Inl err, d1) \<Rightarrow> (Inl (Wrapf ''expire stale queue entries'' err), d1, o1)
          | (Inr n, d1) \<Rightarrow>
             (case ReconcileCallUps (sw_store sw) (sr_due r) (sr_order r) c1 sweep_principal
                     (later (2 + nat n) (2 * nat n) e) d1 of
                (Inl err, d2) \<Rightarrow> (Inl (Wrapf ''reconcile call-ups'' err), d2, o1)
              | (Inr _, d2) \<Rightarrow>
                 (case ListActiveCallUps c2 d2 of
                    (Inl err, d3) \<Rightarrow> (Inl (Wrapf ''list active call-ups'' err), d3, o1)
                  | (Inr active, d3) \<Rightarrow> (Inr (), d3, start_workflows (sw_callUps sw) active o1))))
      | (Inl err, _, _) \<Rightarrow> (Inl (Wrapf ''bind tenant claims'' err), d, o1)
      | (_, Inl err, _) \<Rightarrow> (Inl (Wrapf ''bind tenant claims'' err), d, o1)
      | (_, _, Inl err) \<Rightarrow> (Inl (Wrapf ''bind tenant claims'' err), d, o1))"

text \<open>\<open>platform_tenants\<close> pairs tenants with their active flag; \<open>query_err\<close> is a failure of the query.\<close>

definition sweepTenants :: "('l, 'o) Sweeper \<Rightarrow> (string \<times> bool) list \<Rightarrow> go_error option \<Rightarrow> string list result" where
  "sweepTenants sw platform_tenants query_err =
     (if sw_onlyTenant sw \<noteq> [] then Inr [sw_onlyTenant sw]
      else (case query_err of
              Some err \<Rightarrow> Inl (Wrapf ''list active tenants'' err)
            | None \<Rightarrow> Inr (sort (map fst (filter snd platform_tenants)))))"

text \<open>The loop answers the first error and the tenants that failed, in order.\<close>

fun sweep_loop ::
  "('l, 'o) Sweeper \<Rightarrow> (string \<Rightarrow> sweep_run) \<Rightarrow> string list \<Rightarrow> db \<Rightarrow> 'o \<Rightarrow> (go_error option \<times> string list) \<times> db \<times> 'o" where
  "sweep_loop sw runs [] d o1 = ((None, []), d, o1)"
| "sweep_loop sw runs (tenantID # tenants) d o1 =
     (case sweepTenant sw (runs tenantID) tenantID d o1 of
        (r, d1, o2) \<Rightarrow>
          (case sweep_loop sw runs tenants d1 o2 of
             ((firstErr, failed), d2, o3) \<Rightarrow>
               (case r of
                  Inl err \<Rightarrow> ((Some (Wrapf (''sweep tenant '' @ tenantID) err), tenantID # failed), d2, o3)
                | Inr _ \<Rightarrow> ((firstErr, failed), d2, o3))))"

definition SweepOnce ::
  "('l, 'o) Sweeper \<Rightarrow> (string \<Rightarrow> sweep_run) \<Rightarrow> (string \<times> bool) list \<Rightarrow> go_error option \<Rightarrow> db \<Rightarrow> 'o
   \<Rightarrow> (go_error option \<times> string list) \<times> db \<times> 'o" where
  "SweepOnce sw runs platform_tenants query_err d o1 =
     (case sweepTenants sw platform_tenants query_err of
        Inl err \<Rightarrow> ((Some err, []), d, o1)
      | Inr tenants \<Rightarrow> sweep_loop sw runs tenants d o1)"

section \<open>The call-up workflow releases the terminal\<close>

lemma Forfeit_row:
  assumes "Forfeit qs c k reason pr e d = (Inr x, d')" and "ctx_claims c = Some claims" and "db_inv d"
  shows "\<exists>q. find_queue (TenantID claims) d' k = Some q \<and> q_Status q = Q_FORFEITED"
proof -
  from assms(1,2) obtain q where g: "queue_getForUpdate claims d k = Inr q"
    and f: "forfeitTx qs claims q reason pr (clk e 0) (later 1 0 e) d = Inr (x, d')"
    by (auto simp: Forfeit_def bindE_Inr_iff split: if_splits dest!: WithTx_InrD)
  from f obtain r d1 y where tr: "queue_transitionTx qs claims q Q_FORFEITED (\<lambda>u. u\<lparr>q_ForfeitReason := Some reason\<rparr>)
       ''queue.forfeited'' [(''terminal-id'', q_TerminalID q), (''reason'', reason)] pr (later 1 0 e) d = Inr (r, d1)"
    and p: "promoteNextTx qs claims (q_TerminalID q) pr (clk e 0) (later 1 2 (later 1 0 e)) d1 = Inr (y, d')"
    by (auto simp: forfeitTx_def bindE_Inr_iff)
  from moved_then_promoted [OF tr _ _ db_inv_keys [OF assms(3)] p] queue_getForUpdate_InrD [OF g]
  show ?thesis by auto
qed

lemma callUpActivityCtx_claims:
  "callUpActivityCtx t p now c = Inr c' \<Longrightarrow> \<exists>claims. ctx_claims c' = Some claims \<and> TenantID claims = t"
  by (auto simp: callUpActivityCtx_def WithClaims_def split: if_splits)

lemma queue_Get_InrD:
  "queue_Get c k d = (Inr q, d') \<Longrightarrow> ctx_claims c = Some claims \<Longrightarrow> find_queue (TenantID claims) d k = Some q \<and> d' = d"
  by (auto simp: queue_Get_def bindE_Inr_iff queue_getForUpdate_def dest!: WithTx_InrD)

text \<open>
  A call-up workflow never ends with the truck still called up: when its
  last activity succeeds, the outcome ARRIVED means that the request is stored as
  ARRIVED at the signalled gate and nothing changed, and the outcome FORFEITED means
  that the request holds no call-up capacity any more: it is FORFEITED if it was
  still called up, and otherwise the activity changed nothing.
\<close>

theorem callup_workflow_releases:
  assumes "db_inv d" and "cw_activity qs input cs e now b d = (Inr b', d')"
    and "cw_point b = Run_ForfeitCallUp \<or> cw_point b = Run_ArrivalCheck gateID"
  shows "\<exists>q. find_queue (ci_TenantID input) d' (ci_QueueRequestID input) = Some q \<and>
    (case cw_point b of
       Run_ArrivalCheck g \<Rightarrow> d' = d \<and> q_Status q = Q_ARRIVED \<and> q_GateID q = Some g
         \<and> cw_point b' = CW_Returned (Inr \<lparr>cw_QueueRequestID = ci_QueueRequestID input, cw_Outcome = ''ARRIVED''\<rparr>)
     | _ \<Rightarrow> \<not> called_up (q_Status q)
         \<and> (\<exists>q0. find_queue (ci_TenantID input) d (ci_QueueRequestID input) = Some q0
              \<and> (if called_up (q_Status q0) then q_Status q = Q_FORFEITED else d' = d))
         \<and> cw_point b' = CW_Returned (Inr \<lparr>cw_QueueRequestID = ci_QueueRequestID input, cw_Outcome = ''FORFEITED''\<rparr>))"
  using assms(3)
proof
  assume p: "cw_point b = Run_ForfeitCallUp"
  with assms(2) have f: "ForfeitCallUp qs cs input e d = (Inr (), d')"
    and b': "cw_point b' = CW_Returned (Inr \<lparr>cw_QueueRequestID = ci_QueueRequestID input, cw_Outcome = ''FORFEITED''\<rparr>)"
    by (auto simp: cw_activity_def split: sum.splits prod.splits)
  from f obtain c0 c1 q0 d0 where
      c0: "callUpActivityCtx (ci_TenantID input) (ci_PrincipalID input) (clk e 0) (cs 0) = Inr c0"
    and c1: "callUpActivityCtx (ci_TenantID input) (ci_PrincipalID input) (clk e 0) (cs 1) = Inr c1"
    and g0: "queue_Get c0 (ci_QueueRequestID input) d = (Inr q0, d0)"
    and f0: "(if q_Status q0 \<noteq> Q_CALLED_UP \<and> q_Status q0 \<noteq> Q_EN_ROUTE then (Inr (), d0)
       else (case Forfeit qs c1 (ci_QueueRequestID input) ''call-up grace window elapsed'' (callUpPrincipal input) (later 1 0 e) d0 of
               (Inl err, d'') \<Rightarrow> (Inl err, d'') | (Inr _, d'') \<Rightarrow> (Inr (), d''))) = (Inr (), d')"
    by (auto simp: ForfeitCallUp_def split: sum.splits prod.splits)
  have d0: "d0 = d" using g0 by (rule queue_Get_op)
  note g = g0 [unfolded d0]
  have d': "\<not> called_up (q_Status q0) \<and> d' = d \<or> called_up (q_Status q0) \<and>
       (\<exists>x. Forfeit qs c1 (ci_QueueRequestID input) ''call-up grace window elapsed'' (callUpPrincipal input) (later 1 0 e) d = (Inr x, d'))"
    using f0 by (auto simp: d0 called_up_def split: if_splits sum.splits prod.splits)
  from callUpActivityCtx_claims [OF c0] queue_Get_InrD [OF g]
  have q0: "find_queue (ci_TenantID input) d (ci_QueueRequestID input) = Some q0" by auto
  from d' show ?thesis
  proof
    assume "\<not> called_up (q_Status q0) \<and> d' = d"
    with q0 p b' show ?thesis by auto
  next
    assume c: "called_up (q_Status q0) \<and> (\<exists>x. Forfeit qs c1 (ci_QueueRequestID input) ''call-up grace window elapsed''
        (callUpPrincipal input) (later 1 0 e) d = (Inr x, d'))"
    with callUpActivityCtx_claims [OF c1] Forfeit_row [OF _ _ assms(1)]
    obtain q where "find_queue (ci_TenantID input) d' (ci_QueueRequestID input) = Some q" "q_Status q = Q_FORFEITED" by metis
    with c q0 p b' show ?thesis by (auto simp: called_up_def)
  qed
next
  assume p: "cw_point b = Run_ArrivalCheck gateID"
  with assms(2) have "ArrivalCheck cs input gateID e d = (Inr (), d')"
    and b': "cw_point b' = CW_Returned (Inr \<lparr>cw_QueueRequestID = ci_QueueRequestID input, cw_Outcome = ''ARRIVED''\<rparr>)"
    by (auto simp: cw_activity_def split: sum.splits prod.splits)
  then obtain c0 q where c0: "callUpActivityCtx (ci_TenantID input) (ci_PrincipalID input) (clk e 0) (cs 0) = Inr c0"
    and g: "queue_Get c0 (ci_QueueRequestID input) d = (Inr q, d')" and q: "q_Status q = Q_ARRIVED" "q_GateID q = Some gateID"
    by (auto simp: ArrivalCheck_def split: sum.splits prod.splits if_splits)
  from callUpActivityCtx_claims [OF c0] queue_Get_InrD [OF g] q p b' show ?thesis by auto
qed

section \<open>One sweep serves every tenant\<close>

definition served_tenant :: "string \<Rightarrow> db \<Rightarrow> bool" where
  "served_tenant tid d \<longleftrightarrow> (\<forall>q\<in>set (truck_queue_requests d). q_TenantID q = tid \<and> q_Status q = Q_QUEUED \<longrightarrow>
     (\<exists>tm. find_terminal tid d (q_TerminalID q) = Some tm \<and> t_QueueCapacity tm \<le> active_callups tid d (q_TerminalID q)))"

lemma find_filter: "(\<And>x. P x \<Longrightarrow> Q x) \<Longrightarrow> find P (filter Q xs) = find P xs"
  by (induction xs) auto

lemma filter_weaker: "(\<And>x. P x \<Longrightarrow> Q x) \<Longrightarrow> filter P (filter Q xs) = filter P xs"
  by (induction xs) auto

lemma served_tenant_view: "served_tenant tid (tenant_view tid d) = served_tenant tid d"
proof -
  have f: "find_terminal tid (tenant_view tid d) t = find_terminal tid d t" for t
    unfolding find_terminal_def tenant_view_def by (simp, intro find_filter) simp
  have a: "active_callups tid (tenant_view tid d) t = active_callups tid d t" for t
    unfolding active_callups_def tenant_view_def count_rows_def
    by (simp only: db.select_convs filter_weaker [of "\<lambda>q. q_TenantID q = tid \<and> in_callup t q" "\<lambda>q. q_TenantID q = tid"])
  have q: "truck_queue_requests (tenant_view tid d) = filter (\<lambda>r. q_TenantID r = tid) (truck_queue_requests d)"
    by (simp add: tenant_view_def)
  show ?thesis unfolding served_tenant_def f a q by auto
qed

definition open_choices :: "sweep_run \<Rightarrow> bool" where
  "open_choices r \<longleftrightarrow> some_rows (sr_stale r) \<and> some_rows (sr_due r) \<and> (\<forall>xs. set (sr_order r xs) = set xs)"

lemma sweep_ctx_claims: "sweep_ctx t now c = Inr c' \<Longrightarrow> \<exists>claims. ctx_claims c' = Some claims \<and> TenantID claims = t"
  by (auto simp: sweep_ctx_def WithClaims_def split: if_splits)

lemma sweep_ctx_cases:
  "(\<forall>c. \<exists>err. sweep_ctx t now c = Inl err) \<or> (\<forall>c. \<exists>c'. sweep_ctx t now c = Inr c')"
  by (simp add: sweep_ctx_def WithClaims_def)

lemma tenant_step:
  assumes "tenant_writes c d d'" and "ctx_claims c = Some claims" and "TenantID claims = tid" and "db_inv d"
  shows "db_inv d' \<and> (\<forall>t. t \<noteq> tid \<longrightarrow> tenant_view t d' = tenant_view t d)"
proof -
  have "db_writes tid d d' \<or> db_config tid d d'" using assms(1-3) by (simp add: tenant_writes_def)
  then show ?thesis
  proof
    assume w: "db_writes tid d d'"
    show ?thesis
      using db_inv_writes [OF w assms(4)] writes_isolated [OF w db_inv_keys [OF assms(4)]] by simp
  next
    assume w: "db_config tid d d'"
    show ?thesis using db_inv_config [OF w assms(4)] config_isolated [OF w] by simp
  qed
qed

lemma sweepTenant_steps:
  assumes "sweepTenant sw r tid d o1 = (x, d', o2)" and "open_choices r" and "db_inv d"
  shows "db_inv d' \<and> (\<forall>t. t \<noteq> tid \<longrightarrow> tenant_view t d' = tenant_view t d) \<and> (x = Inr () \<longrightarrow> served_tenant tid d')"
proof -
  let ?e = "sr_env r"
  consider (unbound) err where "sweep_ctx tid (clk ?e 0) (sr_ctx r 0) = Inl err"
    | (bound) c0 c1 c2 where "sweep_ctx tid (clk ?e 0) (sr_ctx r 0) = Inr c0" "sweep_ctx tid (clk ?e 0) (sr_ctx r 1) = Inr c1"
        "sweep_ctx tid (clk ?e 0) (sr_ctx r 2) = Inr c2"
    using sweep_ctx_cases [of tid "clk ?e 0"] by metis
  then show ?thesis
  proof cases
    case bound
    from sweep_ctx_claims [OF bound(1)] obtain k0 where k0: "ctx_claims c0 = Some k0" "TenantID k0 = tid" by blast
    from sweep_ctx_claims [OF bound(2)] obtain k1 where k1: "ctx_claims c1 = Some k1" "TenantID k1 = tid" by blast
    obtain y d1 where s: "ExpireStale (sw_store sw) (sr_stale r) c0 (clk ?e 1 - sw_staleAfter sw) sweep_principal (later 2 0 ?e) d = (y, d1)"
      by (cases "ExpireStale (sw_store sw) (sr_stale r) c0 (clk ?e 1 - sw_staleAfter sw) sweep_principal (later 2 0 ?e) d") blast
    have s1: "db_inv d1 \<and> (\<forall>t. t \<noteq> tid \<longrightarrow> tenant_view t d1 = tenant_view t d)"
      using ExpireStale_op [OF s db_inv_keys [OF assms(3)]] assms(2) k0 assms(3)
      by (intro tenant_step) (auto simp: open_choices_def)
    show ?thesis
    proof (cases y)
      case (Inl err)
      with assms(1) bound s have "x = Inl (Wrapf ''expire stale queue entries'' err)" "d' = d1"
        by (simp_all add: sweepTenant_def Let_def)
      with s1 show ?thesis by simp
    next
      case (Inr n)
      let ?e1 = "later (2 + nat n) (2 * nat n) ?e"
      obtain z d2 where rc: "ReconcileCallUps (sw_store sw) (sr_due r) (sr_order r) c1 sweep_principal ?e1 d1 = (z, d2)"
        by (cases "ReconcileCallUps (sw_store sw) (sr_due r) (sr_order r) c1 sweep_principal ?e1 d1") blast
      have s2: "db_inv d2 \<and> (\<forall>t. t \<noteq> tid \<longrightarrow> tenant_view t d2 = tenant_view t d1)"
        using ReconcileCallUps_op [OF rc db_inv_keys] assms(2) k1 s1 by (intro tenant_step) (auto simp: open_choices_def)
      have served: "served_tenant tid d2" if "z = Inr ps" for ps
        using ReconcileCallUps_serves [OF _ _ _ k1(1) rc [unfolded that]] s1 assms(2) k1(2)
        by (auto simp: served_tenant_def open_choices_def)
      obtain v d3 where la: "ListActiveCallUps c2 d2 = (v, d3)" by (cases "ListActiveCallUps c2 d2") blast
      have "d3 = d2" using la by (rule ListActiveCallUps_op)
      then have "d' = d2 \<and> (x = Inr () \<longrightarrow> (\<exists>ps. z = Inr ps))"
        using assms(1) bound s Inr rc la by (cases z; cases v) (auto simp: sweepTenant_def Let_def)
      with s1 s2 served show ?thesis by auto
    qed
  next
    case (unbound err)
    with assms(1,3) show ?thesis by (auto simp: sweepTenant_def Let_def)
  qed
qed

lemma sweep_loop_steps:
  "sweep_loop sw runs ts d o1 = ((err, failed), d', o2) \<Longrightarrow> distinct ts \<Longrightarrow> (\<And>t. open_choices (runs t)) \<Longrightarrow> db_inv d \<Longrightarrow>
   db_inv d' \<and> (\<forall>t. t \<notin> set ts \<longrightarrow> tenant_view t d' = tenant_view t d)
   \<and> (\<forall>t\<in>set ts. t \<notin> set failed \<longrightarrow> served_tenant t d') \<and> (err = None \<longleftrightarrow> failed = []) \<and> set failed \<subseteq> set ts"
proof (induction ts arbitrary: d o1 err failed d' o2)
  case (Cons t ts)
  obtain x d1 o3 where s: "sweepTenant sw (runs t) t d o1 = (x, d1, o3)" by (cases "sweepTenant sw (runs t) t d o1") auto
  obtain err' failed' d2 o4 where l: "sweep_loop sw runs ts d1 o3 = ((err', failed'), d2, o4)"
    by (cases "sweep_loop sw runs ts d1 o3") auto
  have r: "d' = d2" "failed = (case x of Inl _ \<Rightarrow> t # failed' | Inr _ \<Rightarrow> failed')"
    "err = (case x of Inl e \<Rightarrow> Some (Wrapf (''sweep tenant '' @ t) e) | Inr _ \<Rightarrow> err')"
    using Cons.prems(1) s l by (auto split: sum.splits)
  note a = sweepTenant_steps [OF s Cons.prems(3) Cons.prems(4)]
  have b: "db_inv d2 \<and> (\<forall>u. u \<notin> set ts \<longrightarrow> tenant_view u d2 = tenant_view u d1)
     \<and> (\<forall>u\<in>set ts. u \<notin> set failed' \<longrightarrow> served_tenant u d2) \<and> (err' = None \<longleftrightarrow> failed' = []) \<and> set failed' \<subseteq> set ts"
    using Cons.IH [OF l] Cons.prems(2,3) a by auto
  have "served_tenant t d2" if "x = Inr ()"
  proof -
    have "tenant_view t d2 = tenant_view t d1" using b Cons.prems(2) by auto
    with a that served_tenant_view [of t d1] served_tenant_view [of t d2] show ?thesis by simp
  qed
  with a b r Cons.prems(2) show ?case by (cases x) auto
qed simp

text \<open>
  Claim C32. One sweep serves every tenant, and a failing tenant spoils it for
  nobody else: after \<open>SweepOnce\<close>, for every tenant it listed that did not fail,
  a truck of that tenant still waits only where the terminal's call-up capacity is
  used up, whether or not other tenants failed before or after it; it reports an
  error exactly when some tenant failed, and the invariant still holds.
\<close>

theorem SweepOnce_serves_every_tenant:
  assumes "db_inv d" and "\<And>t. open_choices (runs t)" and "distinct (map fst platform_tenants)"
    and "SweepOnce sw runs platform_tenants None d o1 = ((err, failed), d', o2)"
    and "sw_onlyTenant sw = []" and "(t, True) \<in> set platform_tenants" and "t \<notin> set failed"
  shows "db_inv d' \<and> (err = None \<longleftrightarrow> failed = []) \<and>
    (\<forall>q\<in>set (truck_queue_requests d'). q_TenantID q = t \<and> q_Status q = Q_QUEUED \<longrightarrow>
       (\<exists>tm. find_terminal t d' (q_TerminalID q) = Some tm \<and> t_QueueCapacity tm \<le> active_callups t d' (q_TerminalID q)))"
proof -
  let ?ts = "sort (map fst (filter snd platform_tenants))"
  have "sweep_loop sw runs ?ts d o1 = ((err, failed), d', o2)"
    using assms(4,5) by (simp add: SweepOnce_def sweepTenants_def)
  then have "db_inv d' \<and> (\<forall>t\<in>set ?ts. t \<notin> set failed \<longrightarrow> served_tenant t d') \<and> (err = None \<longleftrightarrow> failed = [])"
    using sweep_loop_steps [of sw runs ?ts d o1 err failed d' o2] assms(1-3) by (simp add: distinct_map_filter)
  moreover have "t \<in> set ?ts" using assms(6) by force
  ultimately have "served_tenant t d' \<and> db_inv d' \<and> (err = None \<longleftrightarrow> failed = [])" using assms(7) by blast
  then show ?thesis unfolding served_tenant_def by blast
qed

section \<open>Concrete runs\<close>

definition demo_callup :: CallUpWorkflowInput where
  "demo_callup = \<lparr>ci_QueueRequestID = ''qxxx'', ci_TenantID = ''tenant-demo'', ci_PrincipalID = ''booking-worker'',
     ci_TerminalID = ''APAPA'', ci_GraceDeadline = 150\<rparr>"

theorem callup_workflow_releases_witness:
  "\<exists>b' d' q. cw_activity demo_q demo_callup (\<lambda>_. demo_ctx) (demo_env 151 ''f'') 151 (cw_select None 151 (cw_start demo_callup 50)) demo_q1
       = (Inr b', d') \<and> find_queue ''tenant-demo'' d' ''qxxx'' = Some q \<and> \<not> called_up (q_Status q)"
proof -
  have inv: "db_inv demo_q1" by (rule wire_reachable_inv [OF demo_wire demo_queue_run(1)])
  let ?b = "cw_select None 151 (cw_start demo_callup 50)"
  have p: "cw_point ?b = Run_ForfeitCallUp" by (simp add: cw_select_def cw_start_def demo_callup_def)
  let ?claims = "\<lparr>Issuer = ''ecallup-callup-workflow'', Audience = ''s1-port-interoperability'', TenantID = ''tenant-demo'',
     Subject = ''booking-worker'', Expires = 3600, Roles = []\<rparr>"
  have c1: "callUpActivityCtx ''tenant-demo'' ''booking-worker'' 151 demo_ctx = Inr (demo_ctx\<lparr>ctx_claims := Some ?claims\<rparr>)"
    by (simp add: callUpActivityCtx_def WithClaims_def validTenantID_def is_tenant_char_def go_simps)
  have "queue_Get (demo_ctx\<lparr>ctx_claims := Some ?claims\<rparr>) ''qxxx'' demo_q1 = (Inr demo_q_waiting, demo_q1)"
    by (simp add: queue_Get_def WithTx_def TenantClaims_def queue_getForUpdate_def find_queue_def)
  then have "ForfeitCallUp demo_q (\<lambda>_. demo_ctx) demo_callup (demo_env 151 ''f'') demo_q1 = (Inr (), demo_q1)"
    by (simp add: ForfeitCallUp_def demo_callup_def c1)
  then have a: "\<exists>b'. cw_activity demo_q demo_callup (\<lambda>_. demo_ctx) (demo_env 151 ''f'') 151 ?b demo_q1 = (Inr b', demo_q1)"
    by (simp add: cw_activity_def p)
  then obtain b' where a: "cw_activity demo_q demo_callup (\<lambda>_. demo_ctx) (demo_env 151 ''f'') 151 ?b demo_q1 = (Inr b', demo_q1)" by blast
  from callup_workflow_releases [OF inv a, of "[]"] p a show ?thesis by (auto simp: demo_callup_def)
qed

definition demo_sweeper :: "(tb_transfer list, nat) Sweeper" where
  "demo_sweeper = \<lparr>sw_store = demo_q, sw_callUps = (\<lambda>_ n. (Inr (), Suc n)), sw_onlyTenant = [], sw_staleAfter = 1000\<rparr>"

definition demo_sweep :: sweep_run where
  "demo_sweep = \<lparr>sr_ctx = (\<lambda>_. demo_ctx), sr_env = demo_env 100 ''s'', sr_stale = (\<lambda>x. x), sr_due = (\<lambda>x. x), sr_order = (\<lambda>x. x)\<rparr>"

theorem SweepOnce_serves_every_tenant_witness:
  "\<exists>r d' n. SweepOnce demo_sweeper (\<lambda>_. demo_sweep) [(''tenant-demo'', True)] None demo_q3 0 = (r, d', n)
     \<and> fst r = None \<and> t_QueueCapacity (hd (port_terminals demo1)) \<le> active_callups ''tenant-demo'' d' ''APAPA''"
proof -
  have inv: "db_inv demo_q3" by (rule wire_reachable_inv [OF demo_wire demo_queue_run(3)])
  define claims where "claims = \<lparr>Issuer = ''booking-worker'', Audience = ''s1-port-interoperability'', TenantID = ''tenant-demo'',
     Subject = ''booking-worker'', Expires = 3600, Roles = []\<rparr>"
  have c: "sweep_ctx ''tenant-demo'' 100 demo_ctx = Inr (demo_ctx\<lparr>ctx_claims := Some claims\<rparr>)"
    and t: "TenantID claims = ''tenant-demo''"
    by (simp_all add: sweep_ctx_def WithClaims_def validTenantID_def is_tenant_char_def go_simps claims_def)
  have f: "find_terminal ''tenant-demo'' demo_q3 ''APAPA'' = Some (hd (port_terminals demo1))"
    using demo1_facts(6) by (simp add: find_terminal_def)
  have p: "promoteNextTx demo_q claims ''APAPA'' pr 100 e demo_q3 = Inr (None, demo_q3)" for pr e
  proof -
    have "queue_validateTerminalID ''APAPA'' = None"
      by (simp add: queue_validateTerminalID_def terminalPattern_def go_simps del: match_regex.simps)
    moreover have "active_callups ''tenant-demo'' demo_q3 ''APAPA'' = 1"
      by (simp add: active_callups_def in_callup_def called_up_def)
    ultimately show ?thesis using f by (simp add: promoteNextTx_def lockTerminal_def t)
  qed
  have a: "promote_all demo_q claims ''APAPA'' pr 100 e demo_q3 = Inr ([], demo_q3)" for pr e
    by (subst promote_all.simps) (simp add: p)
  have cr: "q_CreatedAt demo_q_second = 60"
    by (simp add: demo_q_second_def new_queue_request_def)
  let ?c = "demo_ctx\<lparr>ctx_claims := Some claims\<rparr>"
  have "ExpireStale demo_q (\<lambda>x. x) ?c (-900) sweep_principal e demo_q3 = (Inr 0, demo_q3)" for e
    by (simp add: ExpireStale_def WithTx_def TenantClaims_def stale_def cr)
  moreover have "ReconcileCallUps demo_q (\<lambda>x. x) (\<lambda>x. x) ?c sweep_principal (demo_env 100 ''s'') demo_q3 = (Inr [], demo_q3)"
    by (simp add: ReconcileCallUps_def WithTx_def TenantClaims_def Let_def forfeitable_def called_up_def a t)
  moreover have "\<exists>active. ListActiveCallUps ?c demo_q3 = (Inr active, demo_q3)"
    by (simp add: ListActiveCallUps_def WithTx_def TenantClaims_def)
  ultimately have "\<exists>n. sweepTenant demo_sweeper demo_sweep ''tenant-demo'' demo_q3 0 = (Inr (), demo_q3, n)"
    by (auto simp: sweepTenant_def demo_sweeper_def demo_sweep_def c Let_def)
  then obtain n where "SweepOnce demo_sweeper (\<lambda>_. demo_sweep) [(''tenant-demo'', True)] None demo_q3 0 = ((None, []), demo_q3, n)"
    by (auto simp: SweepOnce_def sweepTenants_def demo_sweeper_def)
  with SweepOnce_serves_every_tenant [OF inv _ _ this, of "''tenant-demo''"] f show ?thesis
    by (auto simp: open_choices_def demo_sweep_def some_rows_def demo_sweeper_def)
qed

end
