(* ===== verification/Directory.thy ===== *)
theory Directory
  imports Booking_Properties
begin

text \<open>
  \<^verbatim>\<open>src/internal/booking/directory.go\<close> and \<^verbatim>\<open>src/internal/queue/directory.go\<close>: what the
  USSD gateway may do with the two stores. Every call of a store has its own
  transaction, so an operation that calls several is given one context per call.
\<close>

section \<open>Phone numbers\<close>

text \<open>\<open>digits\<close> keeps the ASCII digits; \<open>strings.TrimLeft(value, "0")\<close> drops leading zeros.\<close>

definition msisdn_digits :: "string \<Rightarrow> string" where
  "msisdn_digits value = filter is_digit value"

definition trim_zeros :: "string \<Rightarrow> string" where
  "trim_zeros value = dropWhile (\<lambda>c. c = CHR ''0'') value"

definition msisdnMatches :: "string \<Rightarrow> string \<Rightarrow> bool" where
  "msisdnMatches a b =
     (let digitsA = msisdn_digits a; digitsB = msisdn_digits b;
          nationalA = trim_zeros digitsA; nationalB = trim_zeros digitsB in
      if len nationalA < 7 \<or> len nationalB < 7 then False
      else digitsA = digitsB \<or> suffix nationalB digitsA \<or> suffix nationalA digitsB)"

section \<open>The booking directory\<close>

record SlotInfo =
  si_Slot :: Slot
  si_PortCode :: string
  si_BookingFeeKobo :: int

definition GetSlot :: "ctx \<Rightarrow> string \<Rightarrow> db \<Rightarrow> SlotInfo result \<times> db" where
  "GetSlot c slotID d =
     WithTx c (\<lambda>claims d.
       case find_slot (TenantID claims) d slotID of
         None \<Rightarrow> Inl (ErrNotFound Booking)
       | Some s \<Rightarrow>
          (case find_terminal (TenantID claims) d (s_TerminalID s) of
             None \<Rightarrow> Inl (ErrNotFound Booking)
           | Some t \<Rightarrow> Inr (\<lparr>si_Slot = s, si_PortCode = t_PortCode t, si_BookingFeeKobo = t_BookingFeeKobo t\<rparr>, d))) d"

record 'l BookingDirectory =
  bd_store :: "'l bstore"
  bd_principal :: Principal

definition booking_NewDirectory :: "'l bstore option \<Rightarrow> Principal \<Rightarrow> 'l BookingDirectory result" where
  "booking_NewDirectory store pr =
     (case store of
        None \<Rightarrow> Inl (ErrText ''booking directory requires a store and a principal'')
      | Some s \<Rightarrow>
          if pr_ID pr = [] \<or> pr_Role pr = [] then Inl (ErrText ''booking directory requires a store and a principal'')
          else Inr \<lparr>bd_store = s, bd_principal = pr\<rparr>)"

definition BookingStatus :: "ctx \<Rightarrow> string \<Rightarrow> string \<Rightarrow> db \<Rightarrow> BookingRow result \<times> db" where
  "BookingStatus c bookingID msisdn d =
     (case Get c bookingID d of
        (Inl err, d') \<Rightarrow> (Inl err, d')
      | (Inr found, d') \<Rightarrow>
          if \<not> msisdnMatches (b_TruckerMSISDN found) msisdn then (Inl (ErrNotFound Booking), d') else (Inr found, d'))"

definition ussd_request :: "SlotInfo \<Rightarrow> string \<Rightarrow> string \<Rightarrow> string \<Rightarrow> BCreateRequest" where
  "ussd_request slot truckPlate msisdn requestID =
     \<lparr>cr_RequestID = requestID, cr_TruckPlate = truckPlate, cr_TruckerMSISDN = msisdn,
      cr_TerminalID = s_TerminalID (si_Slot slot), cr_Channel = ChannelUSSD, cr_AmountKobo = si_BookingFeeKobo slot,
      cr_ExpiresAt = s_EndsAt (si_Slot slot), cr_CargoDeclarationRef = [], cr_DeclaredWeightKg = 0, cr_ConsigneeID = [],
      cr_OperatorID = [], cr_ContainerID = []\<rparr>"

definition BookSlotByID ::
  "'l BookingDirectory \<Rightarrow> (nat \<Rightarrow> ctx) \<Rightarrow> string \<Rightarrow> string \<Rightarrow> string \<Rightarrow> string \<Rightarrow> env \<Rightarrow> db \<Rightarrow> BookingRow result \<times> db" where
  "BookSlotByID dir cs slotID truckPlate msisdn requestID e d =
     (case GetSlot (cs 0) slotID d of
        (Inl err, d1) \<Rightarrow> (Inl err, d1)
      | (Inr slot, d1) \<Rightarrow>
         (case Create (bd_store dir) (cs 1) (ussd_request slot truckPlate msisdn requestID) (bd_principal dir) e d1 of
            (Inl err, d2) \<Rightarrow> (Inl err, d2)
          | (Inr created, d2) \<Rightarrow>
              if b_Status created = B_SLOT_RESERVED
              then (if b_SlotID created = Some slotID then (Inr created, d2) else (Inl (ErrIdempotencyConflict Booking), d2))
              else ReserveSlot (bd_store dir) (cs 2) (b_BookingID created) slotID (b_Version created)
                     (bd_principal dir) (later 2 3 e) d2))"

section \<open>The queue directory\<close>

record 'l QueueDirectory =
  qd_store :: "'l qstore"
  qd_principal :: Principal

definition queue_NewDirectory :: "'l qstore option \<Rightarrow> Principal \<Rightarrow> 'l QueueDirectory result" where
  "queue_NewDirectory store pr =
     (case store of
        None \<Rightarrow> Inl (ErrText ''queue directory requires a store and a principal'')
      | Some s \<Rightarrow>
          if pr_ID pr = [] \<or> pr_Role pr = [] then Inl (ErrText ''queue directory requires a store and a principal'')
          else Inr \<lparr>qd_store = s, qd_principal = pr\<rparr>)"

definition RequestQueueEntry ::
  "'l QueueDirectory \<Rightarrow> ctx \<Rightarrow> string \<Rightarrow> string \<Rightarrow> string \<Rightarrow> string \<Rightarrow> env \<Rightarrow> db \<Rightarrow> QueueRow result \<times> db" where
  "RequestQueueEntry dir c terminalID truckPlate msisdn requestID e d =
     queue_Create (qd_store dir) c
       \<lparr>qc_IdempotencyKey = requestID, qc_TruckPlate = truckPlate, qc_TruckerMSISDN = msisdn, qc_TerminalID = terminalID,
        qc_PriorityClass = ClassStandard, qc_BookingID = []\<rparr> ChannelUSSD (qd_principal dir) e d"

definition QueueStatus :: "ctx \<Rightarrow> string \<Rightarrow> string \<Rightarrow> db \<Rightarrow> QueueRow result \<times> db" where
  "QueueStatus c queueRequestID msisdn d =
     (case queue_Get c queueRequestID d of
        (Inl err, d') \<Rightarrow> (Inl err, d')
      | (Inr found, d') \<Rightarrow>
          if \<not> msisdnMatches (q_TruckerMSISDN found) msisdn then (Inl (ErrNotFound Queue), d') else (Inr found, d'))"

section \<open>What a phone number opens\<close>

lemma trim_zeros_suffix: "suffix (trim_zeros s) s"
  by (simp add: trim_zeros_def suffix_dropWhile)

lemma trim_zeros_id: "s \<noteq> [] \<Longrightarrow> hd s \<noteq> CHR ''0'' \<Longrightarrow> trim_zeros s = s"
  by (cases s) (auto simp: trim_zeros_def)

lemma suffix_same_length: "suffix a b \<Longrightarrow> length a = length b \<Longrightarrow> a = b"
  by (auto simp: suffix_def)

text \<open>
  A status query is answered for the booking's own number only, up to
  the way it is written: matching is symmetric; a national number dialled with its
  trunk zero matches the same number behind any country code; and two numbers of the
  same digit count, neither starting with a zero, match only if their digits agree.
\<close>

theorem msisdnMatches_spec:
  "msisdnMatches a b = msisdnMatches b a
   \<and> (\<forall>n cc. list_all is_digit n \<longrightarrow> 7 \<le> length n \<longrightarrow> hd n \<noteq> CHR ''0'' \<longrightarrow> list_all is_digit cc \<longrightarrow> cc \<noteq> [] \<longrightarrow>
        hd cc \<noteq> CHR ''0'' \<longrightarrow> msisdnMatches (''0'' @ n) (''+'' @ cc @ n))
   \<and> (msisdnMatches a b \<longrightarrow> length (msisdn_digits a) = length (msisdn_digits b) \<longrightarrow>
        trim_zeros (msisdn_digits a) = msisdn_digits a \<longrightarrow> trim_zeros (msisdn_digits b) = msisdn_digits b \<longrightarrow>
        msisdn_digits a = msisdn_digits b)"
proof (intro conjI allI impI)
  show "msisdnMatches a b = msisdnMatches b a" by (auto simp: msisdnMatches_def Let_def)
  fix n cc :: string
  assume n: "list_all is_digit n" "7 \<le> length n" "hd n \<noteq> CHR ''0''" and cc: "list_all is_digit cc" "cc \<noteq> []" "hd cc \<noteq> CHR ''0''"
  have "n \<noteq> []" using n(2) by auto
  then have tn: "trim_zeros n = n" using n(3) by (rule trim_zeros_id)
  have "filter is_digit n = n" "filter is_digit cc = cc" using n(1) cc(1) by (simp_all add: list_all_iff filter_id_conv)
  then have d: "msisdn_digits (''0'' @ n) = CHR ''0'' # n" "msisdn_digits (''+'' @ cc @ n) = cc @ n"
    by (simp_all add: msisdn_digits_def is_digit_def)
  have t: "trim_zeros (CHR ''0'' # n) = n" using tn by (simp add: trim_zeros_def)
  have t2: "trim_zeros (cc @ n) = cc @ n" using cc by (intro trim_zeros_id) simp_all
  show "msisdnMatches (''0'' @ n) (''+'' @ cc @ n)"
    using n(2) unfolding msisdnMatches_def Let_def d t t2 by (simp add: suffix_def)
next
  assume "msisdnMatches a b" "length (msisdn_digits a) = length (msisdn_digits b)"
    "trim_zeros (msisdn_digits a) = msisdn_digits a" "trim_zeros (msisdn_digits b) = msisdn_digits b"
  then show "msisdn_digits a = msisdn_digits b"
    by (auto simp: msisdnMatches_def Let_def split: if_splits dest: suffix_same_length)
qed

theorem msisdnMatches_spec_witness:
  "msisdnMatches ''08031234567'' ''+2348031234567''"
  using msisdnMatches_spec [THEN conjunct2, THEN conjunct1, rule_format, of "''8031234567''" "''234''"]
  by (simp add: is_digit_def)

text \<open>Without the length condition the match is only one of suffixes: another subscriber's number can match.\<close>

lemma msisdn_suffix_collision: "msisdnMatches ''+2348031234567'' ''+31234567''"
  by (simp add: msisdnMatches_def msisdn_digits_def trim_zeros_def is_digit_def suffix_def)

end
