(* ===== verification/Tariff.thy ===== *)
theory Tariff
  imports Go_Format Booking_Model Events "HOL-Library.Product_Lexorder"
begin

text \<open>
  \<^verbatim>\<open>src/internal/tariff/tariff.go\<close>: effective-dated fee schedules and the
  computation of an assessment. \<open>fmt.Errorf("%w: what", err)\<close> is \<open>Wrapf what err\<close>.
  The main result is that \<open>Compute\<close>, which works in \<open>int64\<close> with overflow guards,
  agrees with exact integer arithmetic on every input.
\<close>

section \<open>Schedules and rules\<close>

datatype Domain = DomainOffshoreTerminal | DomainCruiseDues | OtherDomain string

datatype TariffUnit = UnitPerGRT | UnitPerTon | UnitPerPax | UnitPerCall | UnitPerGTBand | OtherUnit string

definition is_schedule_char :: "char \<Rightarrow> bool" where
  "is_schedule_char c \<longleftrightarrow> is_upper c \<or> is_lower c \<or> is_digit c \<or> c = CHR ''.'' \<or> c = CHR ''_'' \<or> c = CHR '':'' \<or> c = CHR ''-''"

definition scheduleIDPattern :: "segment list" where
  "scheduleIDPattern = [Seg is_schedule_char 2 64]"

definition componentPattern :: "segment list" where
  "componentPattern = [Seg is_upper 1 1, Seg (\<lambda>c. is_upper c \<or> is_digit c \<or> c = CHR ''_'') 1 63]"

definition currencyPattern :: "segment list" where
  "currencyPattern = [Seg is_upper 3 3]"

record Rule =
  r_RuleID :: string
  r_ComponentCode :: string
  r_Unit :: TariffUnit
  r_AmountMinor :: int
  r_BandMin :: int
  r_BandMax :: "int option"
  r_LegalAnchor :: string

record Schedule =
  sc_ScheduleID :: string
  sc_Domain :: Domain
  sc_Name :: string
  sc_Currency :: string
  sc_EffectiveFrom :: time
  sc_EffectiveTo :: "time option"
  sc_LegalAnchor :: string
  sc_RegisteredBy :: string
  sc_RegisteredAt :: time
  sc_Active :: bool
  sc_Rules :: "Rule list"

record Facts =
  f_GrossTonnage :: int
  f_CargoTonnes :: int
  f_Passengers :: int

record LineItem =
  li_ComponentCode :: string
  li_Unit :: TariffUnit
  li_Quantity :: int
  li_RateMinor :: int
  li_AmountMinor :: int
  li_BandMin :: int
  li_BandMax :: "int option"
  li_LegalAnchor :: string

definition canonicalText :: "string \<Rightarrow> int \<Rightarrow> int \<Rightarrow> bool" where
  "canonicalText value mn mx \<longleftrightarrow> len value \<ge> mn \<and> len value \<le> mx \<and> TrimSpace value = value"

definition Rule_Validate :: "Rule \<Rightarrow> unit result" where
  "Rule_Validate rule =
     bindE (ensure (match_regex componentPattern (r_ComponentCode rule)) (Wrapf ''component_code'' ErrRuleInvalid)) (\<lambda>_.
     bindE (case r_Unit rule of
              UnitPerGTBand \<Rightarrow>
                ensure (\<not> (r_BandMin rule < 0 \<or> (case r_BandMax rule of None \<Rightarrow> False | Some mx \<Rightarrow> mx \<le> r_BandMin rule)))
                  (Wrapf ''invalid GT band'' ErrRuleInvalid)
            | OtherUnit u \<Rightarrow> Inl (Wrapf (''unknown unit '' @ u) ErrRuleInvalid)
            | _ \<Rightarrow>
                ensure (\<not> (r_BandMin rule \<noteq> 0 \<or> r_BandMax rule \<noteq> None))
                  (Wrapf ''bands apply only to PER_GT_BAND'' ErrRuleInvalid)) (\<lambda>_.
     bindE (ensure (0 \<le> r_AmountMinor rule) (Wrapf ''amount_minor must be non-negative'' ErrRuleInvalid)) (\<lambda>_.
     ensure (canonicalText (r_LegalAnchor rule) 2 512) (Wrapf ''legal_anchor must be canonical text'' ErrRuleInvalid))))"

text \<open>The key of the \<open>seen\<close> map of \<open>Validate\<close>, and the loop over the rules.\<close>

definition rule_seen_key :: "Rule \<Rightarrow> string" where
  "rule_seen_key rule = r_ComponentCode rule @ ''/'' @ fmt_d (r_BandMin rule)"

fun validate_rules :: "string list \<Rightarrow> Rule list \<Rightarrow> unit result" where
  "validate_rules seen [] = Inr ()"
| "validate_rules seen (rule # rules) =
     bindE (Rule_Validate rule) (\<lambda>_.
     if rule_seen_key rule \<in> set seen
     then Inl (Wrapf (''duplicate component/band rule '' @ rule_seen_key rule) ErrScheduleInvalid)
     else validate_rules (rule_seen_key rule # seen) rules)"

definition Schedule_Validate :: "Schedule \<Rightarrow> unit result" where
  "Schedule_Validate s =
     bindE (ensure (match_regex scheduleIDPattern (sc_ScheduleID s)) (Wrapf ''schedule_id'' ErrScheduleInvalid)) (\<lambda>_.
     bindE (ensure (sc_Domain s = DomainOffshoreTerminal \<or> sc_Domain s = DomainCruiseDues) (Wrapf ''domain'' ErrScheduleInvalid)) (\<lambda>_.
     bindE (ensure (canonicalText (sc_Name s) 2 256 \<and> canonicalText (sc_LegalAnchor s) 2 512 \<and> canonicalText (sc_RegisteredBy s) 2 256)
              (Wrapf ''name, legal anchor and registered_by must be canonical text'' ErrScheduleInvalid)) (\<lambda>_.
     bindE (ensure (match_regex currencyPattern (sc_Currency s))
              (Wrapf ''currency must be an ISO-4217 uppercase code'' ErrScheduleInvalid)) (\<lambda>_.
     bindE (ensure (sc_EffectiveFrom s \<noteq> zero_time) (Wrapf ''effective_from is required'' ErrScheduleInvalid)) (\<lambda>_.
     bindE (ensure (case sc_EffectiveTo s of None \<Rightarrow> True | Some t \<Rightarrow> t > sc_EffectiveFrom s)
              (Wrapf ''effective_to must follow effective_from'' ErrScheduleInvalid)) (\<lambda>_.
     bindE (ensure (sc_Rules s \<noteq> []) (Wrapf ''at least one rule is required'' ErrScheduleInvalid)) (\<lambda>_.
     validate_rules [] (sc_Rules s))))))))"

definition EffectiveAt :: "Schedule \<Rightarrow> time \<Rightarrow> bool" where
  "EffectiveAt s asOf =
     (if \<not> sc_Active s \<or> asOf < sc_EffectiveFrom s then False
      else (case sc_EffectiveTo s of None \<Rightarrow> True | Some t \<Rightarrow> asOf < t))"

section \<open>The assessment\<close>

text \<open>
  The key \<open>sort.Slice\<close> orders by: component code, then band minimum. \<open>sort.Slice\<close> is not
  stable, but validated rules have distinct keys (\<open>validate_rules_distinct\<close>), so every
  sorting algorithm gives the same list as \<open>sort_key\<close>.
\<close>

definition rule_key :: "Rule \<Rightarrow> string \<times> int" where
  "rule_key rule = (r_ComponentCode rule, r_BandMin rule)"

text \<open>The quantity a rule prices; \<open>None\<close> is the \<open>continue\<close> of a band that does not apply.\<close>

definition rule_quantity :: "Facts \<Rightarrow> Rule \<Rightarrow> int option" where
  "rule_quantity facts rule =
     (case r_Unit rule of
        UnitPerGRT \<Rightarrow> Some (f_GrossTonnage facts)
      | UnitPerTon \<Rightarrow> Some (f_CargoTonnes facts)
      | UnitPerPax \<Rightarrow> Some (f_Passengers facts)
      | UnitPerCall \<Rightarrow> Some 1
      | UnitPerGTBand \<Rightarrow>
          if f_GrossTonnage facts < r_BandMin rule
             \<or> (case r_BandMax rule of None \<Rightarrow> False | Some mx \<Rightarrow> f_GrossTonnage facts \<ge> mx)
          then None else Some (f_GrossTonnage facts)
      | OtherUnit _ \<Rightarrow> Some 0)"

definition line_item :: "Rule \<Rightarrow> int \<Rightarrow> int \<Rightarrow> LineItem" where
  "line_item rule quantity amount =
     \<lparr>li_ComponentCode = r_ComponentCode rule, li_Unit = r_Unit rule, li_Quantity = quantity, li_RateMinor = r_AmountMinor rule,
      li_AmountMinor = amount, li_BandMin = r_BandMin rule, li_BandMax = r_BandMax rule, li_LegalAnchor = r_LegalAnchor rule\<rparr>"

fun price_rules :: "Facts \<Rightarrow> Rule list \<Rightarrow> LineItem list \<Rightarrow> int \<Rightarrow> (LineItem list \<times> int) result" where
  "price_rules facts [] items tot = Inr (items, tot)"
| "price_rules facts (rule # rules) items tot =
     (case rule_quantity facts rule of
        None \<Rightarrow> price_rules facts rules items tot
      | Some quantity \<Rightarrow>
          if r_AmountMinor rule \<noteq> 0 \<and> quantity > go_div max_int64 (r_AmountMinor rule) then Inl ErrOverflow
          else let amount = wrap64 (r_AmountMinor rule * quantity) in
            if amount \<noteq> 0 \<and> tot > wrap64 (max_int64 - amount) then Inl ErrOverflow
            else price_rules facts rules (items @ [line_item rule quantity amount]) (wrap64 (tot + amount)))"

fun banded_loop :: "string list \<Rightarrow> Rule list \<Rightarrow> string list" where
  "banded_loop components [] = components"
| "banded_loop components (rule # rules) =
     (if r_Unit rule = UnitPerGTBand \<and> r_ComponentCode rule \<notin> set components
      then banded_loop (components @ [r_ComponentCode rule]) rules else banded_loop components rules)"

definition bandedComponents :: "Rule list \<Rightarrow> string list" where
  "bandedComponents rules = banded_loop [] rules"

definition band_matched :: "LineItem list \<Rightarrow> string \<Rightarrow> bool" where
  "band_matched items component =
     list_ex (\<lambda>item. li_ComponentCode item = component \<and> li_Unit item = UnitPerGTBand) items"

definition Compute :: "Schedule \<Rightarrow> Facts \<Rightarrow> time \<Rightarrow> (LineItem list \<times> int) result" where
  "Compute s facts asOf =
     bindE (Schedule_Validate s) (\<lambda>_.
     if \<not> EffectiveAt s asOf then Inl ErrNotEffective
     else if f_GrossTonnage facts < 0 \<or> f_CargoTonnes facts < 0 \<or> f_Passengers facts < 0 then Inl ErrFactsInvalid
     else let rules = sort_key rule_key (sc_Rules s) in
       bindE (price_rules facts rules [] 0) (\<lambda>(items, tot).
       case find (\<lambda>component. \<not> band_matched items component) (bandedComponents rules) of
         Some component \<Rightarrow>
           Inl (Wrapf (''component '' @ component @ '', GRT '' @ fmt_d (f_GrossTonnage facts)) ErrBandGap)
       | None \<Rightarrow> Inr (items, tot)))"

section \<open>Exactness\<close>

definition exact_lines :: "Facts \<Rightarrow> Rule list \<Rightarrow> LineItem list" where
  "exact_lines facts rules =
     List.map_filter (\<lambda>r. map_option (\<lambda>q. line_item r q (r_AmountMinor r * q)) (rule_quantity facts r)) rules"

definition exact_total :: "LineItem list \<Rightarrow> int" where
  "exact_total lines = sum_list (map li_AmountMinor lines)"

definition band_gap :: "Facts \<Rightarrow> Rule list \<Rightarrow> bool" where
  "band_gap facts rules \<longleftrightarrow> (\<exists>r\<in>set rules. r_Unit r = UnitPerGTBand \<and>
     (\<forall>r'\<in>set rules. r_ComponentCode r' = r_ComponentCode r \<and> r_Unit r' = UnitPerGTBand \<longrightarrow> rule_quantity facts r' = None))"

definition facts_ok :: "Facts \<Rightarrow> bool" where
  "facts_ok facts \<longleftrightarrow> 0 \<le> f_GrossTonnage facts \<and> f_GrossTonnage facts \<le> max_int64
     \<and> 0 \<le> f_CargoTonnes facts \<and> f_CargoTonnes facts \<le> max_int64 \<and> 0 \<le> f_Passengers facts \<and> f_Passengers facts \<le> max_int64"

lemma exact_lines_simps [simp]:
  "exact_lines facts [] = []"
  "exact_lines facts (r # rules) =
     (case rule_quantity facts r of None \<Rightarrow> [] | Some q \<Rightarrow> [line_item r q (r_AmountMinor r * q)]) @ exact_lines facts rules"
  by (simp_all add: exact_lines_def List.map_filter_def split: option.splits)

lemma exact_total_simps [simp]:
  "exact_total [] = 0" "exact_total (x # xs) = li_AmountMinor x + exact_total xs"
  by (simp_all add: exact_total_def)

lemma line_item_amount [simp]: "li_AmountMinor (line_item r q a) = a"
  by (simp add: line_item_def)

lemma rule_quantity_nonneg: "facts_ok facts \<Longrightarrow> rule_quantity facts r = Some q \<Longrightarrow> 0 \<le> q"
  by (auto simp: rule_quantity_def facts_ok_def split: TariffUnit.splits if_splits)

lemma exact_total_nonneg:
  "facts_ok facts \<Longrightarrow> (\<And>r. r \<in> set rules \<Longrightarrow> 0 \<le> r_AmountMinor r) \<Longrightarrow> 0 \<le> exact_total (exact_lines facts rules)"
  by (induction rules) (auto split: option.splits dest: rule_quantity_nonneg)

text \<open>The first guard of the loop is the exact overflow test of the product.\<close>

lemma product_guard:
  fixes a q m :: int assumes "0 \<le> a" and "0 \<le> q" and "0 \<le> m"
  shows "(a \<noteq> 0 \<and> q > go_div m a) \<longleftrightarrow> m < a * q"
proof (cases "a = 0")
  case False
  with assms have "0 < a" by simp
  then have "go_div m a = m div a" using assms by (simp add: go_div_nonneg)
  moreover have "m div a < q \<longleftrightarrow> m < a * q"
  proof
    assume "m div a < q"
    then have "a * (m div a + 1) \<le> a * q" using \<open>0 < a\<close> by (intro mult_left_mono) simp_all
    moreover have "m < a * (m div a + 1)"
      unfolding distrib_left mult_1_right
      using mult_div_mod_eq [of a m] pos_mod_bound [OF \<open>0 < a\<close>, of m] by linarith
    ultimately show "m < a * q" by linarith
  next
    assume "m < a * q"
    then have "a * (m div a) < a * q"
      using mult_div_mod_eq [of a m] pos_mod_sign [OF \<open>0 < a\<close>, of m] by linarith
    with \<open>0 < a\<close> show "m div a < q" by simp
  qed
  ultimately show ?thesis using False by simp
qed (use assms in simp)

lemma price_rules_exact:
  assumes "facts_ok facts" and "\<And>r. r \<in> set rules \<Longrightarrow> 0 \<le> r_AmountMinor r" and "0 \<le> tot" and "tot \<le> max_int64"
  shows "price_rules facts rules items tot =
    (if max_int64 < tot + exact_total (exact_lines facts rules) then Inl ErrOverflow
     else Inr (items @ exact_lines facts rules, tot + exact_total (exact_lines facts rules)))"
  using assms(2-)
proof (induction rules arbitrary: items tot)
  case (Cons r rules)
  note rest = exact_total_nonneg [OF assms(1), of rules, OF Cons.prems(1)]
  show ?case
  proof (cases "rule_quantity facts r")
    case None
    then show ?thesis using Cons by simp
  next
    case (Some q)
    have q: "0 \<le> q" using rule_quantity_nonneg [OF assms(1) Some] .
    have a: "0 \<le> r_AmountMinor r" using Cons.prems(1) by simp
    let ?p = "r_AmountMinor r * q"
    have p: "0 \<le> ?p" using a q by simp
    have g: "(r_AmountMinor r \<noteq> 0 \<and> q > go_div max_int64 (r_AmountMinor r)) \<longleftrightarrow> max_int64 < ?p"
      by (rule product_guard [OF a q]) (simp add: max_int64_def)
    show ?thesis
    proof (cases "max_int64 < tot + ?p")
      case False
      then have "in_int64 ?p" "in_int64 (max_int64 - ?p)" "in_int64 (tot + ?p)" "\<not> max_int64 < ?p"
        using p Cons.prems(2) by (auto simp: in_int64_def max_int64_def)
      then show ?thesis
        using False g p Cons.prems Some Cons.IH [of "tot + ?p" "items @ [line_item r q ?p]"]
        by (auto simp: add.assoc Let_def)
    next
      case True
      then have "max_int64 < tot + (?p + exact_total (exact_lines facts rules))" using rest Cons.prems(1) by simp
      moreover have "price_rules facts (r # rules) items tot = Inl ErrOverflow"
      proof (cases "max_int64 < ?p")
        case False
        then have "in_int64 ?p" "in_int64 (max_int64 - ?p)" "?p \<noteq> 0"
          using p True Cons.prems(3) by (auto simp: in_int64_def max_int64_def)
        then show ?thesis using False True g Some by simp
      qed (use g Some in simp)
      ultimately show ?thesis using Some by simp
    qed
  qed
qed simp

lemma validate_rules_Inr:
  "validate_rules seen rules = Inr () \<Longrightarrow>
   (\<forall>r\<in>set rules. Rule_Validate r = Inr () \<and> rule_seen_key r \<notin> set seen) \<and> distinct (map rule_seen_key rules)"
  by (induction rules arbitrary: seen) (fastforce simp: bindE_Inr_iff split: if_splits)+

lemma Rule_Validate_amount: "Rule_Validate r = Inr () \<Longrightarrow> 0 \<le> r_AmountMinor r"
  by (simp add: Rule_Validate_def bindE_Inr_iff)

lemma Schedule_Validate_Inr:
  assumes "Schedule_Validate s = Inr ()"
  shows "\<forall>r\<in>set (sc_Rules s). 0 \<le> r_AmountMinor r" and "inj_on rule_key (set (sc_Rules s))" and "distinct (map rule_key (sc_Rules s))"
proof -
  have v: "validate_rules [] (sc_Rules s) = Inr ()" using assms by (auto simp: Schedule_Validate_def bindE_Inr_iff)
  show "\<forall>r\<in>set (sc_Rules s). 0 \<le> r_AmountMinor r" using validate_rules_Inr [OF v] Rule_Validate_amount by blast
  have "rule_seen_key = (\<lambda>(c, b). c @ ''/'' @ fmt_d b) \<circ> rule_key" by (auto simp: rule_seen_key_def rule_key_def)
  then have "distinct (map (\<lambda>(c, b). c @ ''/'' @ fmt_d b) (map rule_key (sc_Rules s)))"
    using validate_rules_Inr [OF v] by simp
  then show d: "distinct (map rule_key (sc_Rules s))" by (simp only: distinct_map)
  then show "inj_on rule_key (set (sc_Rules s))" by (simp add: distinct_map)
qed

lemma set_banded_loop:
  "set (banded_loop components rules) =
   set components \<union> {r_ComponentCode r |r. r \<in> set rules \<and> r_Unit r = UnitPerGTBand}"
  by (induction rules arbitrary: components) auto

lemma exact_lines_iff:
  "x \<in> set (exact_lines facts rules) \<longleftrightarrow>
   (\<exists>r\<in>set rules. \<exists>q. rule_quantity facts r = Some q \<and> x = line_item r q (r_AmountMinor r * q))"
proof (induction rules)
  case (Cons r rules)
  then show ?case by (cases "rule_quantity facts r") auto
qed simp

lemma band_matched_iff:
  "band_matched (exact_lines facts rules) c \<longleftrightarrow>
   (\<exists>r\<in>set rules. r_ComponentCode r = c \<and> r_Unit r = UnitPerGTBand \<and> rule_quantity facts r \<noteq> None)"
  by (force simp: band_matched_def list_ex_iff exact_lines_iff line_item_def)

lemma band_gap_iff:
  "find (\<lambda>component. \<not> band_matched (exact_lines facts rules) component) (bandedComponents rules) \<noteq> None
   \<longleftrightarrow> band_gap facts rules"
  unfolding band_gap_def find_None_iff bandedComponents_def set_banded_loop band_matched_iff by auto

text \<open>
  Claim C38. An assessment is exact whatever the sorting algorithm and however large the
  amounts: for a valid schedule in its window and non-negative facts, with the rules in
  any order sorted by component and band, \<open>Compute\<close> answers \<open>ErrOverflow\<close> exactly when the
  true total exceeds \<open>int64\<close>, otherwise \<open>ErrBandGap\<close> exactly when some banded component has
  no band for the tonnage, and otherwise one line per applicable rule, each with the
  true product of rate and quantity, and the true sum of the lines.
\<close>

theorem Compute_exact:
  assumes "Schedule_Validate s = Inr ()" and "EffectiveAt s asOf" and "facts_ok facts"
    and "mset rules = mset (sc_Rules s)" and "sorted (map rule_key rules)"
  shows "if max_int64 < exact_total (exact_lines facts rules) then Compute s facts asOf = Inl ErrOverflow
    else if band_gap facts rules then \<exists>what. Compute s facts asOf = Inl (Wrapf what ErrBandGap)
    else Compute s facts asOf = Inr (exact_lines facts rules, exact_total (exact_lines facts rules))"
proof -
  note v = Schedule_Validate_Inr [OF assms(1)]
  have sort: "sort_key rule_key (sc_Rules s) = rules"
    using assms(4,5) v(2) by (intro sort_key_inj_key_eq) simp_all
  have pos: "0 \<le> r_AmountMinor r" if "r \<in> set rules" for r
    using that v(1) mset_eq_setD [OF assms(4)] by simp
  note price = price_rules_exact [OF assms(3) pos, of rules 0 "[]"]
  have facts: "\<not> (f_GrossTonnage facts < 0 \<or> f_CargoTonnes facts < 0 \<or> f_Passengers facts < 0)"
    using assms(3) by (auto simp: facts_ok_def)
  have C: "Compute s facts asOf =
      (if max_int64 < exact_total (exact_lines facts rules) then Inl ErrOverflow
       else case find (\<lambda>component. \<not> band_matched (exact_lines facts rules) component) (bandedComponents rules) of
              Some component \<Rightarrow> Inl (Wrapf (''component '' @ component @ '', GRT '' @ fmt_d (f_GrossTonnage facts)) ErrBandGap)
            | None \<Rightarrow> Inr (exact_lines facts rules, exact_total (exact_lines facts rules)))"
    using assms(1,2) facts price by (simp add: Compute_def sort Let_def max_int64_def)
  show ?thesis unfolding C using band_gap_iff [of facts rules] by (auto split: option.splits)
qed

text \<open>A schedule with a flat rate per ton of register and a levy in two bands.\<close>

definition demo_rule :: "string \<Rightarrow> TariffUnit \<Rightarrow> int \<Rightarrow> int \<Rightarrow> int option \<Rightarrow> Rule" where
  "demo_rule code unit rate mn mx =
     \<lparr>r_RuleID = [], r_ComponentCode = code, r_Unit = unit, r_AmountMinor = rate, r_BandMin = mn, r_BandMax = mx,
      r_LegalAnchor = ''Act 1''\<rparr>"

definition demo_schedule :: Schedule where
  "demo_schedule =
     \<lparr>sc_ScheduleID = ''S1'', sc_Domain = DomainOffshoreTerminal, sc_Name = ''dues'', sc_Currency = ''NGN'', sc_EffectiveFrom = 0,
      sc_EffectiveTo = None, sc_LegalAnchor = ''Act 1'', sc_RegisteredBy = ''clerk'', sc_RegisteredAt = 5, sc_Active = True,
      sc_Rules = [demo_rule ''SPL'' UnitPerGTBand 7 10000 None, demo_rule ''GRT'' UnitPerGRT 10 0 None,
                  demo_rule ''SPL'' UnitPerGTBand 5 0 (Some 10000)]\<rparr>"

definition demo_facts :: Facts where
  "demo_facts = \<lparr>f_GrossTonnage = 20000, f_CargoTonnes = 0, f_Passengers = 0\<rparr>"

lemma demo_rules_valid: "validate_rules [] (sc_Rules demo_schedule) = Inr ()"
  by (simp add: demo_schedule_def demo_rule_def Rule_Validate_def rule_seen_key_def componentPattern_def canonicalText_def
      fmt_d_def dec_nat.simps go_simps del: match_regex.simps)

lemma demo_schedule_valid: "Schedule_Validate demo_schedule = Inr ()"
  using demo_rules_valid
  by (simp add: Schedule_Validate_def demo_schedule_def scheduleIDPattern_def is_schedule_char_def currencyPattern_def canonicalText_def
      match_regex_single zero_time_def go_simps del: match_regex.simps validate_rules.simps)

lemma demo_effective: "EffectiveAt demo_schedule 7"
  by (simp add: EffectiveAt_def demo_schedule_def)

theorem Compute_exact_witness:
  "Compute demo_schedule demo_facts 7 =
   Inr ([line_item (demo_rule ''GRT'' UnitPerGRT 10 0 None) 20000 200000,
         line_item (demo_rule ''SPL'' UnitPerGTBand 7 10000 None) 20000 140000], 340000)"
proof -
  let ?rules = "[demo_rule ''GRT'' UnitPerGRT 10 0 None, demo_rule ''SPL'' UnitPerGTBand 5 0 (Some 10000),
    demo_rule ''SPL'' UnitPerGTBand 7 10000 None]"
  have "facts_ok demo_facts" by code_simp
  moreover have "mset ?rules = mset (sc_Rules demo_schedule)" by (simp add: demo_schedule_def)
  moreover have "sorted (map rule_key ?rules)" by code_simp
  moreover have "exact_lines demo_facts ?rules =
      [line_item (demo_rule ''GRT'' UnitPerGRT 10 0 None) 20000 200000,
       line_item (demo_rule ''SPL'' UnitPerGTBand 7 10000 None) 20000 140000]" by code_simp
  moreover have "\<not> band_gap demo_facts ?rules" by code_simp
  ultimately show ?thesis
    using Compute_exact [OF demo_schedule_valid demo_effective, of demo_facts ?rules] by (simp add: max_int64_def)
qed

end
