(* ===== verification/Tariff_Store.thy ===== *)
theory Tariff_Store
  imports Tariff
begin

text \<open>
  \<^verbatim>\<open>src/internal/tariff/store.go\<close> over the tables of
  \<^verbatim>\<open>src/db/migrations/0016_offshore_terminal_calls.sql\<close>: immutable schedules, their
  rules, and recorded assessments with their revenue events. A row is paired with its
  tenant; selects see the rows of the transaction's tenant only, unique indexes see all.
  Instants are in microseconds, so truncation to microseconds is the identity.
  \<open>uuid_text\<close> stands for the driver's UUID codec: the canonical text of a UUID, or
  \<open>None\<close> for a text that is none.
\<close>

record RulePlace =
  rp_TenantID :: string
  rp_ScheduleID :: string
  rp_Rule :: Rule

record Assessment =
  as_AssessmentID :: string
  as_Domain :: Domain
  as_CallReference :: string
  as_ScheduleID :: string
  as_AsOf :: time
  as_Facts :: Facts
  as_LineItems :: "LineItem list"
  as_TotalMinor :: int
  as_Currency :: string
  as_AssessedBy :: string
  as_AssessedAt :: time
  as_IdempotencyKey :: string

record RevenueEvent =
  re_TenantID :: string
  re_Topic :: string
  re_EventType :: string
  re_Envelope :: "Assessment Envelope"
  re_CreatedAt :: time

record tdb =
  tariff_schedules :: "(string \<times> Schedule) list"
  tariff_rules :: "RulePlace list"
  revenue_assessments :: "(string \<times> Assessment) list"
  revenue_outbox :: "RevenueEvent list"

definition tariff_schedules_check :: "Schedule \<Rightarrow> bool" where
  "tariff_schedules_check s \<longleftrightarrow>
     match_regex scheduleIDPattern (sc_ScheduleID s) \<and> (sc_Domain s = DomainOffshoreTerminal \<or> sc_Domain s = DomainCruiseDues)
     \<and> 2 \<le> pg_length (sc_Name s) \<and> pg_length (sc_Name s) \<le> 256 \<and> match_regex currencyPattern (sc_Currency s)
     \<and> 2 \<le> pg_length (sc_LegalAnchor s) \<and> pg_length (sc_LegalAnchor s) \<le> 512
     \<and> 2 \<le> pg_length (sc_RegisteredBy s) \<and> pg_length (sc_RegisteredBy s) \<le> 256
     \<and> (case sc_EffectiveTo s of None \<Rightarrow> True | Some t \<Rightarrow> t > sc_EffectiveFrom s)"

definition tariff_rules_check :: "Rule \<Rightarrow> bool" where
  "tariff_rules_check r \<longleftrightarrow>
     match_regex componentPattern (r_ComponentCode r) \<and> (case r_Unit r of OtherUnit _ \<Rightarrow> False | _ \<Rightarrow> True)
     \<and> 0 \<le> r_AmountMinor r \<and> 0 \<le> r_BandMin r \<and> 2 \<le> pg_length (r_LegalAnchor r) \<and> pg_length (r_LegalAnchor r) \<le> 512
     \<and> (r_Unit r = UnitPerGTBand \<longrightarrow> (case r_BandMax r of None \<Rightarrow> True | Some mx \<Rightarrow> mx > r_BandMin r))"

definition tariff_rule_error :: "tdb \<Rightarrow> RulePlace \<Rightarrow> pg_violation option" where
  "tariff_rule_error d new =
     (if \<not> tariff_rules_check (rp_Rule new) then Some (CheckViolation ''tariff_rules_check'')
      else if list_ex (\<lambda>p. r_RuleID (rp_Rule p) = r_RuleID (rp_Rule new)) (tariff_rules d)
      then Some (UniqueViolation ''tariff_rules_pkey'')
      else if list_ex (\<lambda>p. rp_ScheduleID p = rp_ScheduleID new \<and> rule_key (rp_Rule p) = rule_key (rp_Rule new)) (tariff_rules d)
      then Some (UniqueViolation ''tariff_rules_schedule_id_component_code_band_min_key'')
      else None)"

section \<open>Registration\<close>

text \<open>The loop over the rules; \<open>n\<close> counts the UUIDs drawn so far.\<close>

fun insert_rules ::
  "(string \<Rightarrow> string option) \<Rightarrow> string \<Rightarrow> string \<Rightarrow> env \<Rightarrow> nat \<Rightarrow> Rule list \<Rightarrow> tdb \<Rightarrow> tdb result" where
  "insert_rules uuid_text tid scheduleID e n [] d = Inr d"
| "insert_rules uuid_text tid scheduleID e n (rule # rules) d =
     (let fresh = (r_RuleID rule = []); ruleID = (if fresh then rnd e n else r_RuleID rule) in
      case uuid_text ruleID of
        None \<Rightarrow> Inl (Wrapf (''insert tariff rule '' @ r_ComponentCode rule) (ErrText ''invalid UUID''))
      | Some u \<Rightarrow>
          let new = \<lparr>rp_TenantID = tid, rp_ScheduleID = scheduleID, rp_Rule = rule\<lparr>r_RuleID := u\<rparr>\<rparr> in
          case tariff_rule_error d new of
            Some v \<Rightarrow> Inl (Wrapf (''insert tariff rule '' @ r_ComponentCode rule) (PgErr v))
          | None \<Rightarrow> insert_rules uuid_text tid scheduleID e (if fresh then Suc n else n) rules
                     (d\<lparr>tariff_rules := tariff_rules d @ [new]\<rparr>))"

definition find_schedule :: "string \<Rightarrow> tdb \<Rightarrow> string \<Rightarrow> Schedule option" where
  "find_schedule tid d scheduleID =
     map_option snd (find (\<lambda>(t, s). t = tid \<and> sc_ScheduleID s = scheduleID) (tariff_schedules d))"

definition RegisterScheduleTx ::
  "(string \<Rightarrow> string option) \<Rightarrow> Schedule \<Rightarrow> env \<Rightarrow> Claims \<Rightarrow> tdb \<Rightarrow> (unit \<times> tdb) result" where
  "RegisterScheduleTx uuid_text s e claims d =
     (let registeredAt = (if sc_RegisteredAt s = zero_time then clk e 0 else sc_RegisteredAt s);
          row = s\<lparr>sc_RegisteredAt := registeredAt, sc_Rules := []\<rparr> in
      if \<not> tariff_schedules_check s
      then Inl (Wrapf ''insert tariff schedule'' (PgErr (CheckViolation ''tariff_schedules_check'')))
      else if list_ex (\<lambda>(_, x). sc_ScheduleID x = sc_ScheduleID s) (tariff_schedules d)
      then (case find_schedule (TenantID claims) d (sc_ScheduleID s) of
              None \<Rightarrow> Inl (Wrapf ''load retained tariff schedule'' (ErrText ''no rows in result set''))
            | Some x \<Rightarrow>
                if sc_Domain x \<noteq> sc_Domain s \<or> sc_Currency x \<noteq> sc_Currency s \<or> sc_LegalAnchor x \<noteq> sc_LegalAnchor s
                   \<or> \<not> (sc_EffectiveFrom x = sc_EffectiveFrom s \<and> sc_EffectiveTo x = sc_EffectiveTo s)
                then Inl (Wrapf (''schedule '' @ sc_ScheduleID s @ '' is immutable; register a new schedule id'') ErrScheduleInvalid)
                else Inr ((), d))
      else bindE (insert_rules uuid_text (TenantID claims) (sc_ScheduleID s) e 0 (sc_Rules s)
                    (d\<lparr>tariff_schedules := tariff_schedules d @ [(TenantID claims, row)]\<rparr>)) (\<lambda>d'. Inr ((), d')))"

definition RegisterSchedule ::
  "(string \<Rightarrow> string option) \<Rightarrow> ctx \<Rightarrow> Schedule \<Rightarrow> env \<Rightarrow> tdb \<Rightarrow> unit result \<times> tdb" where
  "RegisterSchedule uuid_text c s e d =
     (case Schedule_Validate s of
        Inl err \<Rightarrow> (Inl err, d)
      | Inr _ \<Rightarrow> WithTx c (RegisterScheduleTx uuid_text s e) d)"

section \<open>Loading\<close>

text \<open>The rules of a schedule in the order of the query (codes are upper-case ASCII).\<close>

definition load_rules :: "string \<Rightarrow> tdb \<Rightarrow> string \<Rightarrow> Rule list" where
  "load_rules tid d scheduleID =
     sort_key rule_key (map rp_Rule (filter (\<lambda>p. rp_TenantID p = tid \<and> rp_ScheduleID p = scheduleID) (tariff_rules d)))"

definition effective_rows :: "string \<Rightarrow> tdb \<Rightarrow> Domain \<Rightarrow> time \<Rightarrow> Schedule list" where
  "effective_rows tid d domain asOf =
     map snd (filter (\<lambda>(t, s). t = tid \<and> sc_Domain s = domain \<and> sc_Active s \<and> sc_EffectiveFrom s \<le> asOf
        \<and> (case sc_EffectiveTo s of None \<Rightarrow> True | Some e \<Rightarrow> e > asOf)) (tariff_schedules d))"

text \<open>
  \<open>ORDER BY effective_from DESC, schedule_id DESC LIMIT 1\<close> is the last row of the ascending order.
  Ids of schedules that start at the same instant are compared bytewise here; PostgreSQL compares
  them by the collation of the column, which can pick another of these schedules.
\<close>

definition LoadEffective :: "string \<Rightarrow> tdb \<Rightarrow> Domain \<Rightarrow> time \<Rightarrow> Schedule result" where
  "LoadEffective tid d domain asOf =
     (if domain \<noteq> DomainOffshoreTerminal \<and> domain \<noteq> DomainCruiseDues then Inl (Wrapf ''domain'' ErrScheduleInvalid)
      else (let rows = sort_key (\<lambda>s. (sc_EffectiveFrom s, sc_ScheduleID s)) (effective_rows tid d domain asOf) in
        if rows = [] then Inl ErrNotEffective
        else let s = (last rows)\<lparr>sc_Rules := load_rules tid d (sc_ScheduleID (last rows))\<rparr> in
          if sc_Rules s = [] then Inl (Wrapf (''schedule '' @ sc_ScheduleID s @ '' has no rules'') ErrScheduleInvalid)
          else Inr s))"

definition LoadSchedule :: "string \<Rightarrow> tdb \<Rightarrow> string \<Rightarrow> Schedule result" where
  "LoadSchedule tid d scheduleID =
     (case find_schedule tid d scheduleID of
        None \<Rightarrow> Inl (ErrNotFound Tariff)
      | Some s \<Rightarrow> Inr (s\<lparr>sc_Rules := load_rules tid d scheduleID\<rparr>))"

section \<open>Assessments\<close>

record AssessmentParams =
  ap_IdempotencyKey :: string
  ap_Domain :: Domain
  ap_CallReference :: string
  ap_Schedule :: Schedule
  ap_AsOf :: time
  ap_Facts :: Facts
  ap_LineItems :: "LineItem list"
  ap_TotalMinor :: int
  ap_PrincipalID :: string
  ap_PrincipalRole :: string

definition domain_text :: "Domain \<Rightarrow> string" where
  "domain_text x = (case x of DomainOffshoreTerminal \<Rightarrow> ''OFFSHORE_TERMINAL'' | DomainCruiseDues \<Rightarrow> ''CRUISE_DUES'' | OtherDomain s \<Rightarrow> s)"

definition revenue_assessments_check :: "string \<Rightarrow> tdb \<Rightarrow> Assessment \<Rightarrow> bool" where
  "revenue_assessments_check tid d a \<longleftrightarrow>
     (as_Domain a = DomainOffshoreTerminal \<or> as_Domain a = DomainCruiseDues)
     \<and> 2 \<le> pg_length (as_CallReference a) \<and> pg_length (as_CallReference a) \<le> 64 \<and> 0 \<le> as_TotalMinor a
     \<and> match_regex currencyPattern (as_Currency a) \<and> 2 \<le> pg_length (as_AssessedBy a) \<and> pg_length (as_AssessedBy a) \<le> 256
     \<and> list_ex (\<lambda>(_, s). sc_ScheduleID s = as_ScheduleID a) (tariff_schedules d)"

definition new_assessment :: "AssessmentParams \<Rightarrow> env \<Rightarrow> Assessment" where
  "new_assessment p e =
     \<lparr>as_AssessmentID = rnd e 0, as_Domain = ap_Domain p, as_CallReference = ap_CallReference p,
      as_ScheduleID = sc_ScheduleID (ap_Schedule p), as_AsOf = ap_AsOf p, as_Facts = ap_Facts p, as_LineItems = ap_LineItems p,
      as_TotalMinor = ap_TotalMinor p, as_Currency = sc_Currency (ap_Schedule p), as_AssessedBy = ap_PrincipalID p,
      as_AssessedAt = clk e 0, as_IdempotencyKey = ap_IdempotencyKey p\<rparr>"

definition find_assessment :: "string \<Rightarrow> tdb \<Rightarrow> string \<Rightarrow> Assessment option" where
  "find_assessment tid d k =
     map_option snd (find (\<lambda>(t, a). t = tid \<and> as_IdempotencyKey a = k) (revenue_assessments d))"

definition same_assessment :: "Assessment \<Rightarrow> AssessmentParams \<Rightarrow> bool" where
  "same_assessment a p \<longleftrightarrow>
     as_Domain a = ap_Domain p \<and> as_CallReference a = ap_CallReference p \<and> as_ScheduleID a = sc_ScheduleID (ap_Schedule p)
     \<and> as_AsOf a = ap_AsOf p \<and> as_TotalMinor a = ap_TotalMinor p \<and> as_AssessedBy a = ap_PrincipalID p"

definition emit_assessment ::
  "Assessment signer \<Rightarrow> Claims \<Rightarrow> AssessmentParams \<Rightarrow> Assessment \<Rightarrow> env \<Rightarrow> tdb \<Rightarrow> tdb result" where
  "emit_assessment signer claims p a e d =
     bindE (case Message ''revenue.assessment_issued'' ''finance.revenue-assessments.v1'' (ap_IdempotencyKey p) (ap_CallReference p) a
              [(''domain'', domain_text (ap_Domain p)), (''schedule-id'', sc_ScheduleID (ap_Schedule p)),
               (''currency'', sc_Currency (ap_Schedule p)), (''total-minor'', fmt_d (ap_TotalMinor p)),
               (''call-reference'', ap_CallReference p)]
              \<lparr>PrincipalID = ap_PrincipalID p, PrincipalRole = ap_PrincipalRole p, Signature = [], LedgerCommitHash = []\<rparr>
              (clk e 0) (Some signer) (later 0 1 e) of
              Inl err \<Rightarrow> Inl (Wrapf ''build revenue assessment envelope'' err) | Inr envelope \<Rightarrow> Inr envelope)
       (\<lambda>envelope.
          if list_ex (\<lambda>r. ev_EventID (re_Envelope r) = ev_EventID envelope) (revenue_outbox d)
          then Inl (Wrapf ''write revenue assessment outbox event'' (PgErr (UniqueViolation ''platform_outbox_pkey'')))
          else Inr (d\<lparr>revenue_outbox := revenue_outbox d @
                 [\<lparr>re_TenantID = TenantID claims, re_Topic = ''finance.revenue-assessments.v1'',
                   re_EventType = ''revenue.assessment_issued'', re_Envelope = envelope, re_CreatedAt = clk e 0\<rparr>]\<rparr>))"

text \<open>A retained row is answered with the facts and lines of the call, as in the source.\<close>

definition RecordAssessmentTx ::
  "Assessment signer option \<Rightarrow> AssessmentParams \<Rightarrow> env \<Rightarrow> Claims \<Rightarrow> tdb \<Rightarrow> (Assessment \<times> tdb) result" where
  "RecordAssessmentTx signer p e claims d =
     (case signer of
        None \<Rightarrow> Inl (ErrText ''an envelope signer is required (fail closed)'')
      | Some sign \<Rightarrow>
         if ap_IdempotencyKey p = [] \<or> len (ap_IdempotencyKey p) > 256
         then Inl (ErrText ''assessment idempotency key must be non-empty and at most 256 characters'')
         else if ap_Domain p \<noteq> DomainOffshoreTerminal \<and> ap_Domain p \<noteq> DomainCruiseDues
         then Inl (Wrapf ''domain'' ErrScheduleInvalid)
         else if \<not> canonicalText (ap_CallReference p) 2 64 \<or> \<not> canonicalText (ap_PrincipalID p) 2 256 \<or> ap_PrincipalRole p = []
         then Inl (Wrapf ''call reference and principal are required'' (ErrIdempotencyConflict Tariff))
         else if ap_TotalMinor p < 0 \<or> ap_LineItems p = []
         then Inl (ErrText ''assessment requires a non-negative total and at least one line item'')
         else let a = new_assessment p e in
           if \<not> revenue_assessments_check (TenantID claims) d a
           then Inl (Wrapf ''insert revenue assessment'' (PgErr (CheckViolation ''revenue_assessments_check'')))
           else if list_ex (\<lambda>(_, x). as_IdempotencyKey x = ap_IdempotencyKey p) (revenue_assessments d)
           then (case find_assessment (TenantID claims) d (ap_IdempotencyKey p) of
                   None \<Rightarrow> Inl (Wrapf ''load retained assessment'' (ErrText ''no rows in result set''))
                 | Some x \<Rightarrow>
                     if \<not> same_assessment x p then Inl (ErrIdempotencyConflict Tariff)
                     else Inr (x\<lparr>as_Facts := ap_Facts p, as_LineItems := ap_LineItems p\<rparr>, d))
           else if list_ex (\<lambda>(_, x). as_AssessmentID x = rnd e 0) (revenue_assessments d)
           then Inl (Wrapf ''insert revenue assessment'' (PgErr (UniqueViolation ''revenue_assessments_pkey'')))
           else bindE (emit_assessment sign claims p a e (d\<lparr>revenue_assessments := revenue_assessments d @ [(TenantID claims, a)]\<rparr>))
                  (\<lambda>d'. Inr (a, d')))"

section \<open>What is registered is what is priced\<close>

text \<open>The identifier of a rule row plays no part in an assessment.\<close>

definition unnamed :: "Rule \<Rightarrow> Rule" where
  "unnamed r = r\<lparr>r_RuleID := []\<rparr>"

lemma unnamed_fields [simp]:
  "r_ComponentCode (unnamed r) = r_ComponentCode r" "r_Unit (unnamed r) = r_Unit r" "r_BandMin (unnamed r) = r_BandMin r"
  "r_BandMax (unnamed r) = r_BandMax r" "r_AmountMinor (unnamed r) = r_AmountMinor r" "r_LegalAnchor (unnamed r) = r_LegalAnchor r"
  "rule_key (unnamed r) = rule_key r" "rule_seen_key (unnamed r) = rule_seen_key r" "Rule_Validate (unnamed r) = Rule_Validate r"
  "rule_quantity facts (unnamed r) = rule_quantity facts r" "line_item (unnamed r) q a = line_item r q a"
  "unnamed (r\<lparr>r_RuleID := u\<rparr>) = unnamed r"
  by (simp_all add: unnamed_def rule_key_def rule_seen_key_def Rule_Validate_def rule_quantity_def line_item_def
      cong: TariffUnit.case_cong option.case_cong)

lemma price_rules_unnamed: "price_rules facts (map unnamed rules) items t = price_rules facts rules items t"
  by (induction rules arbitrary: items t) (simp_all add: Let_def split: option.splits)

lemma banded_unnamed: "banded_loop cs (map unnamed rules) = banded_loop cs rules"
  by (induction rules arbitrary: cs) simp_all

lemma validate_rules_unnamed: "validate_rules seen (map unnamed rules) = validate_rules seen rules"
  by (induction rules arbitrary: seen) (simp_all add: bindE_def split: sum.splits)

lemma sort_unnamed: "sort_key rule_key (map unnamed rules) = map unnamed (sort_key rule_key rules)"
proof (induction rules)
  case (Cons r rules)
  have "insort_key rule_key (unnamed r) (map unnamed xs) = map unnamed (insort_key rule_key r xs)" for xs
    by (induction xs) auto
  with Cons show ?case by simp
qed simp

lemma validate_rules_InrI:
  "(\<forall>r\<in>set rules. Rule_Validate r = Inr () \<and> rule_seen_key r \<notin> set seen) \<Longrightarrow> distinct (map rule_seen_key rules) \<Longrightarrow>
   validate_rules seen rules = Inr ()"
proof (induction rules arbitrary: seen)
  case (Cons r rules)
  have "rule_seen_key r \<notin> rule_seen_key ` set rules" using Cons.prems(2) by simp
  then have "\<forall>x\<in>set rules. rule_seen_key x \<noteq> rule_seen_key r" by (metis imageI)
  then have "validate_rules (rule_seen_key r # seen) rules = Inr ()"
    using Cons.prems by (intro Cons.IH) auto
  with Cons.prems show ?case by simp
qed simp

lemma validate_rules_sort: "validate_rules [] rules = Inr () \<Longrightarrow> validate_rules [] (sort_key rule_key rules) = Inr ()"
  by (drule validate_rules_Inr, rule validate_rules_InrI) (auto simp: distinct_map)

lemma Compute_stored:
  assumes "Schedule_Validate s = Inr ()" and "map unnamed stored = map unnamed (sc_Rules s)"
  shows "Compute (s\<lparr>sc_RegisteredAt := t, sc_Rules := sort_key rule_key stored\<rparr>) facts asOf = Compute s facts asOf"
proof -
  let ?s = "s\<lparr>sc_RegisteredAt := t, sc_Rules := sort_key rule_key stored\<rparr>"
  have "validate_rules [] (sc_Rules s) = Inr ()" using assms(1) by (auto simp: Schedule_Validate_def bindE_Inr_iff)
  then have "validate_rules [] stored = Inr ()" using assms(2) by (metis validate_rules_unnamed)
  then have "validate_rules [] (sort_key rule_key stored) = Inr ()" by (rule validate_rules_sort)
  moreover have "stored \<noteq> []" using assms by (auto simp: Schedule_Validate_def bindE_Inr_iff)
  moreover have "sort_key rule_key stored \<noteq> []" using \<open>stored \<noteq> []\<close> by (metis length_0_conv length_sort)
  ultimately have v: "Schedule_Validate ?s = Inr ()"
    using assms(1) by (auto simp: Schedule_Validate_def bindE_Inr_iff split: option.splits)
  let ?a = "sort_key rule_key stored" and ?b = "sort_key rule_key (sc_Rules s)"
  have m: "map unnamed ?a = map unnamed ?b" using assms(2) by (metis sort_unnamed)
  then have "price_rules facts ?a [] 0 = price_rules facts ?b [] 0" and "bandedComponents ?a = bandedComponents ?b"
    unfolding bandedComponents_def by (metis price_rules_unnamed, metis banded_unnamed)
  moreover have "sort_key rule_key ?a = ?a" by (rule sort_key_id_if_sorted) simp
  moreover have "EffectiveAt ?s asOf = EffectiveAt s asOf" by (simp add: EffectiveAt_def)
  ultimately show ?thesis using v assms(1) by (simp add: Compute_def Let_def)
qed

lemma insert_rules_Inr:
  "insert_rules u tid sid e n rules d = Inr d' \<Longrightarrow>
   \<exists>new. d' = d\<lparr>tariff_rules := tariff_rules d @ map (\<lambda>r. \<lparr>rp_TenantID = tid, rp_ScheduleID = sid, rp_Rule = r\<rparr>) new\<rparr>
     \<and> map unnamed new = map unnamed rules"
proof (induction rules arbitrary: n d)
  case Nil
  then show ?case by (intro exI [of _ "[]"]) simp
next
  case (Cons r rules)
  from Cons.prems obtain w m where ins: "insert_rules u tid sid e m rules
      (d\<lparr>tariff_rules := tariff_rules d @ [\<lparr>rp_TenantID = tid, rp_ScheduleID = sid, rp_Rule = r\<lparr>r_RuleID := w\<rparr>\<rparr>]\<rparr>) = Inr d'"
    by (auto simp: Let_def split: option.splits if_splits)
  from Cons.IH [OF ins] obtain new where "d' = d\<lparr>tariff_rules := tariff_rules d @
      \<lparr>rp_TenantID = tid, rp_ScheduleID = sid, rp_Rule = r\<lparr>r_RuleID := w\<rparr>\<rparr>
      # map (\<lambda>r. \<lparr>rp_TenantID = tid, rp_ScheduleID = sid, rp_Rule = r\<rparr>) new\<rparr>" "map unnamed new = map unnamed rules"
    by auto
  then show ?case by (intro exI [of _ "r\<lparr>r_RuleID := w\<rparr> # new"]) simp
qed

text \<open>The foreign key of the rules, and the primary key of the schedules.\<close>

definition tariff_keys :: "tdb \<Rightarrow> bool" where
  "tariff_keys d \<longleftrightarrow> (\<forall>p\<in>set (tariff_rules d). \<exists>x\<in>set (tariff_schedules d). sc_ScheduleID (snd x) = rp_ScheduleID p)
     \<and> distinct (map (sc_ScheduleID \<circ> snd) (tariff_schedules d))
     \<and> distinct (map (as_IdempotencyKey \<circ> snd) (revenue_assessments d))"

lemma find_schedule_row:
  assumes "tariff_keys d" and "(tid, x) \<in> set (tariff_schedules d)"
  shows "find_schedule tid d (sc_ScheduleID x) = Some x"
proof (cases "find (\<lambda>(t, s). t = tid \<and> sc_ScheduleID s = sc_ScheduleID x) (tariff_schedules d)")
  case None
  with assms(2) show ?thesis by (auto simp: find_None_iff)
next
  case (Some y)
  note y = find_SomeD [OF Some]
  have "y = (tid, x)"
    using assms y by (intro distinct_key_eq [of "sc_ScheduleID \<circ> snd" "tariff_schedules d"]) (auto simp: tariff_keys_def)
  with Some show ?thesis by (simp add: find_schedule_def)
qed

lemma RegisterScheduleTx_new:
  assumes "RegisterScheduleTx u s e claims d = Inr ((), d')" and "tariff_keys d"
    and "sc_ScheduleID s \<notin> sc_ScheduleID ` snd ` set (tariff_schedules d)"
  obtains t stored where "map unnamed stored = map unnamed (sc_Rules s)" and "tariff_keys d'"
    and "(TenantID claims, s\<lparr>sc_RegisteredAt := t, sc_Rules := []\<rparr>) \<in> set (tariff_schedules d')"
    and "load_rules (TenantID claims) d' (sc_ScheduleID s) = sort_key rule_key stored"
proof -
  define t where "t = (if sc_RegisteredAt s = zero_time then clk e 0 else sc_RegisteredAt s)"
  let ?row = "s\<lparr>sc_RegisteredAt := t, sc_Rules := []\<rparr>"
  have "\<not> list_ex (\<lambda>(_, x). sc_ScheduleID x = sc_ScheduleID s) (tariff_schedules d)"
    using assms(3) by (auto simp: list_ex_iff image_iff)
  with assms(1) have "insert_rules u (TenantID claims) (sc_ScheduleID s) e 0 (sc_Rules s)
      (d\<lparr>tariff_schedules := tariff_schedules d @ [(TenantID claims, ?row)]\<rparr>) = Inr d'"
    by (auto simp: RegisterScheduleTx_def Let_def t_def bindE_Inr_iff split: if_splits)
  from insert_rules_Inr [OF this] obtain new where new: "map unnamed new = map unnamed (sc_Rules s)"
    and d': "d' = d\<lparr>tariff_schedules := tariff_schedules d @ [(TenantID claims, ?row)], tariff_rules := tariff_rules d @
      map (\<lambda>r. \<lparr>rp_TenantID = TenantID claims, rp_ScheduleID = sc_ScheduleID s, rp_Rule = r\<rparr>) new\<rparr>" by auto
  have "filter (\<lambda>p. rp_TenantID p = TenantID claims \<and> rp_ScheduleID p = sc_ScheduleID s) (tariff_rules d) = []"
    using assms(2,3) by (fastforce simp: filter_empty_conv tariff_keys_def image_iff)
  then have "load_rules (TenantID claims) d' (sc_ScheduleID s) = sort_key rule_key new"
    by (simp add: load_rules_def d' comp_def filter_map)
  moreover have "tariff_keys d'" using assms(2,3) by (auto simp: tariff_keys_def d')
  ultimately show thesis using new by (intro that) (auto simp: d')
qed

text \<open>
  What is registered is what is priced, for good: after a schedule with a new
  id is registered, loading it by id gives back its domain, currency, window and activity,
  every assessment against the loaded schedule is the one against the registered
  schedule (same lines, same total, same error), and registering it again changes
  nothing.
\<close>

theorem registered_schedule_prices_alike:
  assumes "tariff_keys d" and "ctx_claims c = Some claims" and "RegisterSchedule u c s e d = (Inr (), d')"
    and "sc_ScheduleID s \<notin> sc_ScheduleID ` snd ` set (tariff_schedules d)"
  shows "\<exists>s'. LoadSchedule (TenantID claims) d' (sc_ScheduleID s) = Inr s'
    \<and> sc_Domain s' = sc_Domain s \<and> sc_Currency s' = sc_Currency s \<and> sc_Active s' = sc_Active s
    \<and> sc_EffectiveFrom s' = sc_EffectiveFrom s \<and> sc_EffectiveTo s' = sc_EffectiveTo s
    \<and> (\<forall>facts asOf. Compute s' facts asOf = Compute s facts asOf)
    \<and> (\<forall>e2. RegisterScheduleTx u s e2 claims d' = Inr ((), d'))"
proof -
  from assms(2,3) have v: "Schedule_Validate s = Inr ()" and r: "RegisterScheduleTx u s e claims d = Inr ((), d')"
    by (auto simp: RegisterSchedule_def split: sum.splits dest: WithTx_InrD)
  from RegisterScheduleTx_new [OF r assms(1,4)] obtain t stored where st: "map unnamed stored = map unnamed (sc_Rules s)"
    and k: "tariff_keys d'" and row: "(TenantID claims, s\<lparr>sc_RegisteredAt := t, sc_Rules := []\<rparr>) \<in> set (tariff_schedules d')"
    and ld: "load_rules (TenantID claims) d' (sc_ScheduleID s) = sort_key rule_key stored" .
  have f: "find_schedule (TenantID claims) d' (sc_ScheduleID s) = Some (s\<lparr>sc_RegisteredAt := t, sc_Rules := []\<rparr>)"
    using find_schedule_row [OF k row] by simp
  have "list_ex (\<lambda>(_, x). sc_ScheduleID x = sc_ScheduleID s) (tariff_schedules d')" unfolding list_ex_iff using row by (intro bexI [OF _ row]) simp
  moreover have "tariff_schedules_check s" using r by (auto simp: RegisterScheduleTx_def Let_def split: if_splits)
  ultimately have "RegisterScheduleTx u s e2 claims d' = Inr ((), d')" for e2
    by (simp add: RegisterScheduleTx_def f Let_def)
  with f ld Compute_stored [OF v st] show ?thesis by (auto simp: LoadSchedule_def)
qed

text \<open>
  Only the header is compared: registering an id again with other rates is answered as if
  it had been accepted, while the stored rates stay.
\<close>

lemma reregistration_ignores_rules:
  assumes "RegisterScheduleTx u s e claims d = Inr ((), d)" and "list_ex (\<lambda>(_, x). sc_ScheduleID x = sc_ScheduleID s) (tariff_schedules d)"
  shows "RegisterScheduleTx u (s\<lparr>sc_Rules := others\<rparr>) e2 claims d = Inr ((), d)"
  using assms by (auto simp: RegisterScheduleTx_def Let_def tariff_schedules_check_def split: if_splits option.splits)

section \<open>Which schedule prices a call\<close>

lemma last_sort_key_max:
  fixes k :: "'a \<Rightarrow> 'b::linorder"
  assumes "xs \<noteq> []"
  shows "last (sort_key k xs) \<in> set xs" and "x \<in> set xs \<Longrightarrow> k x \<le> k (last (sort_key k xs))"
proof -
  have ne: "sort_key k xs \<noteq> []" using assms by (metis length_0_conv length_sort)
  then show "last (sort_key k xs) \<in> set xs" using last_in_set [OF ne] by simp
  assume "x \<in> set xs"
  then have "x \<in> set (butlast (sort_key k xs) @ [last (sort_key k xs)])"
    unfolding append_butlast_last_id [OF ne] by simp
  moreover have "sorted (map k (butlast (sort_key k xs) @ [last (sort_key k xs)]))"
    unfolding append_butlast_last_id [OF ne] by simp
  ultimately show "k x \<le> k (last (sort_key k xs))"
    by (auto simp: sorted_append simp del: append_butlast_last_id)
qed

text \<open>
  The newest effective schedule prices a call: \<open>LoadEffective\<close> answers a schedule
  of the tenant and the domain that is effective at the instant, with the rules stored for
  it, and no effective schedule of that tenant and domain starts later; and it answers
  \<open>ErrNotEffective\<close> exactly when the tenant has no effective schedule of that domain.
\<close>

theorem LoadEffective_newest:
  assumes "dm = DomainOffshoreTerminal \<or> dm = DomainCruiseDues"
  shows "(LoadEffective tid d dm asOf = Inl ErrNotEffective \<longleftrightarrow>
      (\<forall>x. (tid, x) \<in> set (tariff_schedules d) \<longrightarrow> \<not> (sc_Domain x = dm \<and> EffectiveAt x asOf)))
    \<and> (\<forall>s. LoadEffective tid d dm asOf = Inr s \<longrightarrow>
        sc_Domain s = dm \<and> EffectiveAt s asOf \<and> sc_Rules s = load_rules tid d (sc_ScheduleID s) \<and> sc_Rules s \<noteq> []
        \<and> (\<exists>x. (tid, x) \<in> set (tariff_schedules d) \<and> s = x\<lparr>sc_Rules := sc_Rules s\<rparr>)
        \<and> (\<forall>x. (tid, x) \<in> set (tariff_schedules d) \<longrightarrow> sc_Domain x = dm \<and> EffectiveAt x asOf \<longrightarrow>
             (sc_EffectiveFrom x, sc_ScheduleID x) \<le> (sc_EffectiveFrom s, sc_ScheduleID s)))"
proof -
  let ?rows = "effective_rows tid d dm asOf" and ?k = "\<lambda>s. (sc_EffectiveFrom s, sc_ScheduleID s)"
  have rows: "x \<in> set ?rows \<longleftrightarrow> (tid, x) \<in> set (tariff_schedules d) \<and> sc_Domain x = dm \<and> EffectiveAt x asOf" for x
    by (force simp: effective_rows_def EffectiveAt_def split: option.splits)
  show ?thesis
  proof (cases "?rows = []")
    case True
    then show ?thesis using assms rows by (auto simp: LoadEffective_def)
  next
    case False
    have ne: "sort_key ?k ?rows \<noteq> []" using False by (metis length_0_conv length_sort)
    let ?x = "last (sort_key ?k ?rows)"
    have in1: "?x \<in> set ?rows" by (rule last_sort_key_max(1) [OF False])
    have mx: "?k x \<le> ?k ?x" if "x \<in> set ?rows" for x by (rule last_sort_key_max(2) [OF False that])
    have L: "LoadEffective tid d dm asOf =
        (if load_rules tid d (sc_ScheduleID ?x) = [] then Inl (Wrapf (''schedule '' @ sc_ScheduleID ?x @ '' has no rules'') ErrScheduleInvalid)
         else Inr (?x\<lparr>sc_Rules := load_rules tid d (sc_ScheduleID ?x)\<rparr>))"
      using assms ne by (auto simp: LoadEffective_def Let_def)
    have eff: "EffectiveAt (?x\<lparr>sc_Rules := rs\<rparr>) asOf = EffectiveAt ?x asOf" for rs by (simp add: EffectiveAt_def)
    have "(tid, ?x) \<in> set (tariff_schedules d)" "sc_Domain ?x = dm" "EffectiveAt ?x asOf" using rows in1 by blast+
    moreover have "?k x \<le> ?k ?x" if "(tid, x) \<in> set (tariff_schedules d)" "sc_Domain x = dm" "EffectiveAt x asOf" for x
      using that rows mx by blast
    ultimately show ?thesis unfolding L by (auto simp: eff simp del: less_eq_prod_simp)
  qed
qed

section \<open>Assessments are recorded once\<close>

lemma find_assessment_row:
  assumes "tariff_keys d" and "(tid, a) \<in> set (revenue_assessments d)"
  shows "find_assessment tid d (as_IdempotencyKey a) = Some a"
proof (cases "find (\<lambda>(t, x). t = tid \<and> as_IdempotencyKey x = as_IdempotencyKey a) (revenue_assessments d)")
  case None
  with assms(2) show ?thesis by (auto simp: find_None_iff)
next
  case (Some y)
  note y = find_SomeD [OF Some]
  have "y = (tid, a)"
    using assms y by (intro distinct_key_eq [of "as_IdempotencyKey \<circ> snd" "revenue_assessments d"]) (auto simp: tariff_keys_def)
  with Some show ?thesis by (simp add: find_assessment_def)
qed

lemma emit_assessment_Inr:
  "emit_assessment sign claims p a e d = Inr d' \<Longrightarrow>
   \<exists>ev. d' = d\<lparr>revenue_outbox := revenue_outbox d @ [ev]\<rparr> \<and> fb_ID (ev_FHIR (re_Envelope ev)) = ap_CallReference p
     \<and> ev_CorrelationID (re_Envelope ev) = ap_IdempotencyKey p"
  by (auto simp: emit_assessment_def bindE_Inr_iff split: sum.splits if_splits dest!: Message_InrD)

text \<open>
  An assessment is recorded and announced once: a successful call either adds
  exactly one assessment under its key together with exactly one revenue event for it, or
  finds the tenant's assessment of that key, which agrees with the call in all compared
  fields, and changes nothing. Afterwards the key leads to that assessment, every further
  call with the key succeeds only with the same answer and without a second row or
  event, and a call with another total is refused.
\<close>

theorem RecordAssessment_exactly_once:
  assumes "tariff_keys d" and "RecordAssessmentTx signer p e claims d = Inr (a, d')"
  shows "(find_assessment (TenantID claims) d (ap_IdempotencyKey p) \<noteq> None \<and> d' = d
      \<or> ap_IdempotencyKey p \<notin> as_IdempotencyKey ` snd ` set (revenue_assessments d)
        \<and> revenue_assessments d' = revenue_assessments d @ [(TenantID claims, a)]
        \<and> (\<exists>ev. revenue_outbox d' = revenue_outbox d @ [ev] \<and> ev_CorrelationID (re_Envelope ev) = ap_IdempotencyKey p))
    \<and> tariff_keys d' \<and> as_TotalMinor a = ap_TotalMinor p \<and> as_LineItems a = ap_LineItems p
    \<and> (\<forall>signer2 p2 e2. ap_IdempotencyKey p2 = ap_IdempotencyKey p \<longrightarrow>
        (case RecordAssessmentTx signer2 p2 e2 claims d' of
           Inl _ \<Rightarrow> True
         | Inr (a2, d2) \<Rightarrow> d2 = d' \<and> as_AssessmentID a2 = as_AssessmentID a \<and> ap_TotalMinor p2 = ap_TotalMinor p))"
proof -
  let ?k = "ap_IdempotencyKey p" and ?old = "list_ex (\<lambda>(_, x). as_IdempotencyKey x = ap_IdempotencyKey p) (revenue_assessments d)"
  have "\<exists>x. find_assessment (TenantID claims) d' ?k = Some x \<and> as_AssessmentID x = as_AssessmentID a \<and> as_TotalMinor x = ap_TotalMinor p
      \<and> as_TotalMinor a = ap_TotalMinor p \<and> as_LineItems a = ap_LineItems p \<and> tariff_keys d'
      \<and> (find_assessment (TenantID claims) d ?k \<noteq> None \<and> d' = d
         \<or> ?k \<notin> as_IdempotencyKey ` snd ` set (revenue_assessments d)
          \<and> revenue_assessments d' = revenue_assessments d @ [(TenantID claims, a)]
          \<and> (\<exists>ev. revenue_outbox d' = revenue_outbox d @ [ev] \<and> ev_CorrelationID (re_Envelope ev) = ?k))"
  proof (cases ?old)
    case True
    with assms show ?thesis
      by (auto simp: RecordAssessmentTx_def Let_def same_assessment_def split: option.splits if_splits)
  next
    case False
    with assms(2) obtain sign where a: "a = new_assessment p e"
      and em: "emit_assessment sign claims p a e (d\<lparr>revenue_assessments := revenue_assessments d @ [(TenantID claims, a)]\<rparr>) = Inr d'"
      by (auto simp: RecordAssessmentTx_def Let_def bindE_Inr_iff split: option.splits if_splits)
    from emit_assessment_Inr [OF em] obtain ev where ev: "ev_CorrelationID (re_Envelope ev) = ?k"
      and d': "d' = d\<lparr>revenue_assessments := revenue_assessments d @ [(TenantID claims, a)], revenue_outbox := revenue_outbox d @ [ev]\<rparr>"
      by auto
    have new: "?k \<notin> as_IdempotencyKey ` snd ` set (revenue_assessments d)" using False by (auto simp: list_ex_iff)
    then have k: "tariff_keys d'" using assms(1) by (auto simp: tariff_keys_def d' a new_assessment_def)
    have "find_assessment (TenantID claims) d' (as_IdempotencyKey a) = Some a"
      by (rule find_assessment_row [OF k]) (simp add: d')
    with new ev k show ?thesis by (auto simp: d' a new_assessment_def)
  qed
  then obtain x where x: "find_assessment (TenantID claims) d' ?k = Some x" "as_AssessmentID x = as_AssessmentID a"
      "as_TotalMinor x = ap_TotalMinor p" and rest: "as_TotalMinor a = ap_TotalMinor p" "as_LineItems a = ap_LineItems p" "tariff_keys d'"
      "find_assessment (TenantID claims) d ?k \<noteq> None \<and> d' = d
         \<or> ?k \<notin> as_IdempotencyKey ` snd ` set (revenue_assessments d)
          \<and> revenue_assessments d' = revenue_assessments d @ [(TenantID claims, a)]
          \<and> (\<exists>ev. revenue_outbox d' = revenue_outbox d @ [ev] \<and> ev_CorrelationID (re_Envelope ev) = ?k)" by blast
  have "list_ex (\<lambda>(_, x). as_IdempotencyKey x = ?k) (revenue_assessments d')"
    using x(1) by (auto simp: find_assessment_def list_ex_iff dest!: find_SomeD)
  then have "case RecordAssessmentTx signer2 p2 e2 claims d' of Inl _ \<Rightarrow> True
      | Inr (a2, d2) \<Rightarrow> d2 = d' \<and> as_AssessmentID a2 = as_AssessmentID a \<and> ap_TotalMinor p2 = ap_TotalMinor p"
    if "ap_IdempotencyKey p2 = ?k" for signer2 p2 e2
    using that x by (auto simp: RecordAssessmentTx_def Let_def same_assessment_def split: option.splits)
  with rest show ?thesis by blast
qed

section \<open>A schedule in use\<close>

definition demo_tclaims :: Claims where
  "demo_tclaims = \<lparr>Issuer = [], Audience = [], TenantID = ''tenant-demo'', Subject = ''clerk'', Expires = 0, Roles = []\<rparr>"

definition demo_tctx :: ctx where
  "demo_tctx = \<lparr>ctx_claims = Some demo_tclaims, begin_err = None, config_err = None, commit_err = None\<rparr>"

definition demo_tenv :: env where
  "demo_tenv = \<lparr>clk = (\<lambda>n. 1000 + int n), rnd = (\<lambda>n. replicate n (CHR ''u''))\<rparr>"

definition demo_tdb :: tdb where
  "demo_tdb = \<lparr>tariff_schedules = [], tariff_rules = [], revenue_assessments = [], revenue_outbox = []\<rparr>"

definition demo_tdb1 :: tdb where
  "demo_tdb1 = \<lparr>tariff_schedules = [(''tenant-demo'', demo_schedule\<lparr>sc_Rules := []\<rparr>)],
     tariff_rules = [\<lparr>rp_TenantID = ''tenant-demo'', rp_ScheduleID = ''S1'', rp_Rule = demo_rule ''SPL'' UnitPerGTBand 7 10000 None\<rparr>,
       \<lparr>rp_TenantID = ''tenant-demo'', rp_ScheduleID = ''S1'', rp_Rule = (demo_rule ''GRT'' UnitPerGRT 10 0 None)\<lparr>r_RuleID := ''u''\<rparr>\<rparr>,
       \<lparr>rp_TenantID = ''tenant-demo'', rp_ScheduleID = ''S1'', rp_Rule = (demo_rule ''SPL'' UnitPerGTBand 5 0 (Some 10000))\<lparr>r_RuleID := ''uu''\<rparr>\<rparr>],
     revenue_assessments = [], revenue_outbox = []\<rparr>"

lemma demo_tdb_keys: "tariff_keys demo_tdb" "tariff_keys demo_tdb1"
  by (simp_all add: tariff_keys_def demo_tdb_def demo_tdb1_def demo_schedule_def)

lemma demo_rule_checks:
  "tariff_rules_check ((demo_rule ''GRT'' u r mn mx)\<lparr>r_RuleID := i\<rparr>) \<longleftrightarrow>
     (case u of OtherUnit _ \<Rightarrow> False | _ \<Rightarrow> True) \<and> 0 \<le> r \<and> 0 \<le> mn \<and> (u = UnitPerGTBand \<longrightarrow> (case mx of None \<Rightarrow> True | Some x \<Rightarrow> x > mn))"
  "tariff_rules_check ((demo_rule ''SPL'' u r mn mx)\<lparr>r_RuleID := i\<rparr>) \<longleftrightarrow>
     (case u of OtherUnit _ \<Rightarrow> False | _ \<Rightarrow> True) \<and> 0 \<le> r \<and> 0 \<le> mn \<and> (u = UnitPerGTBand \<longrightarrow> (case mx of None \<Rightarrow> True | Some x \<Rightarrow> x > mn))"
  by (simp_all add: tariff_rules_check_def demo_rule_def componentPattern_def go_simps del: match_regex.simps cong: TariffUnit.case_cong option.case_cong)

lemma demo_schedule_check: "tariff_schedules_check demo_schedule"
  by (simp add: tariff_schedules_check_def demo_schedule_def scheduleIDPattern_def is_schedule_char_def currencyPattern_def
      match_regex_single go_simps del: match_regex.simps)

lemma demo_registered: "RegisterSchedule Some demo_tctx demo_schedule demo_tenv demo_tdb = (Inr (), demo_tdb1)"
proof -
  have "insert_rules Some ''tenant-demo'' ''S1'' demo_tenv 0 (sc_Rules demo_schedule)
      (demo_tdb\<lparr>tariff_schedules := [(''tenant-demo'', demo_schedule\<lparr>sc_Rules := []\<rparr>)]\<rparr>) = Inr demo_tdb1"
    by (simp add: demo_schedule_def demo_tdb_def demo_tdb1_def tariff_rule_error_def demo_rule_checks rule_key_def demo_tenv_def Let_def)
       (simp add: demo_rule_def)
  moreover have "demo_schedule\<lparr>sc_RegisteredAt := sc_RegisteredAt demo_schedule, sc_Rules := []\<rparr> = demo_schedule\<lparr>sc_Rules := []\<rparr>" by simp
  moreover have "sc_RegisteredAt demo_schedule \<noteq> zero_time" "sc_ScheduleID demo_schedule = ''S1''"
    by (simp_all add: demo_schedule_def zero_time_def)
  ultimately have "RegisterScheduleTx Some demo_schedule demo_tenv demo_tclaims demo_tdb = Inr ((), demo_tdb1)"
    using demo_schedule_check by (simp add: RegisterScheduleTx_def Let_def demo_tdb_def demo_tclaims_def)
  then show ?thesis
    using demo_schedule_valid by (simp add: RegisterSchedule_def demo_tctx_def WithTx_def TenantClaims_def)
qed

theorem registered_schedule_prices_alike_witness:
  "\<exists>s'. LoadSchedule ''tenant-demo'' demo_tdb1 ''S1'' = Inr s'
    \<and> Compute s' demo_facts 7 = Compute demo_schedule demo_facts 7"
proof -
  have new: "sc_ScheduleID demo_schedule \<notin> sc_ScheduleID ` snd ` set (tariff_schedules demo_tdb)" by (simp add: demo_tdb_def)
  have c: "ctx_claims demo_tctx = Some demo_tclaims" by (simp add: demo_tctx_def)
  from registered_schedule_prices_alike [OF demo_tdb_keys(1) c demo_registered new] show ?thesis
    by (auto simp: demo_tclaims_def demo_schedule_def)
qed

theorem LoadEffective_newest_witness:
  "LoadEffective ''tenant-other'' demo_tdb1 DomainOffshoreTerminal 7 = Inl ErrNotEffective
   \<and> LoadEffective ''tenant-demo'' demo_tdb1 DomainOffshoreTerminal 7 \<noteq> Inl ErrNotEffective"
  unfolding LoadEffective_newest [of DomainOffshoreTerminal, OF disjI1, OF refl, THEN conjunct1]
  by (auto simp: demo_tdb1_def demo_schedule_def EffectiveAt_def)

definition demo_params :: AssessmentParams where
  "demo_params =
     \<lparr>ap_IdempotencyKey = ''key-1'', ap_Domain = DomainOffshoreTerminal, ap_CallReference = ''call-1'', ap_Schedule = demo_schedule,
      ap_AsOf = 7, ap_Facts = demo_facts, ap_LineItems = [line_item (demo_rule ''GRT'' UnitPerGRT 10 0 None) 20000 200000],
      ap_TotalMinor = 200000, ap_PrincipalID = ''officer'', ap_PrincipalRole = ''assessor''\<rparr>"

lemma demo_emit:
  "\<exists>ev. emit_assessment (\<lambda>_. Inr ''sig'') demo_tclaims demo_params a demo_tenv (demo_tdb1\<lparr>revenue_assessments := xs\<rparr>) =
     Inr (demo_tdb1\<lparr>revenue_assessments := xs, revenue_outbox := [ev]\<rparr>)"
  by (simp add: emit_assessment_def Message_def demo_params_def demo_tdb1_def validTopic_def go_simps Let_def)

lemma demo_recorded:
  "\<exists>d'. RecordAssessmentTx (Some (\<lambda>_. Inr ''sig'')) demo_params demo_tenv demo_tclaims demo_tdb1 =
    Inr (new_assessment demo_params demo_tenv, d')"
proof -
  have "revenue_assessments_check (TenantID demo_tclaims) demo_tdb1 (new_assessment demo_params demo_tenv)"
    by (simp add: revenue_assessments_check_def new_assessment_def demo_params_def demo_tdb1_def demo_schedule_def currencyPattern_def
        match_regex_single go_simps del: match_regex.simps)
  moreover have "\<not> list_ex P (revenue_assessments demo_tdb1)" for P by (simp add: demo_tdb1_def)
  moreover obtain ev where "emit_assessment (\<lambda>_. Inr ''sig'') demo_tclaims demo_params (new_assessment demo_params demo_tenv) demo_tenv
      (demo_tdb1\<lparr>revenue_assessments := revenue_assessments demo_tdb1 @ [(TenantID demo_tclaims, new_assessment demo_params demo_tenv)]\<rparr>)
      = Inr ev" using demo_emit by blast
  ultimately show ?thesis
    by (simp add: RecordAssessmentTx_def Let_def) (simp add: demo_params_def canonicalText_def go_simps)
qed

theorem RecordAssessment_exactly_once_witness:
  "\<exists>a d' ev. RecordAssessmentTx (Some (\<lambda>_. Inr ''sig'')) demo_params demo_tenv demo_tclaims demo_tdb1 = Inr (a, d')
    \<and> revenue_assessments d' = [(''tenant-demo'', a)] \<and> revenue_outbox d' = [ev]"
proof -
  obtain a d' where r: "RecordAssessmentTx (Some (\<lambda>_. Inr ''sig'')) demo_params demo_tenv demo_tclaims demo_tdb1 = Inr (a, d')"
    using demo_recorded by blast
  have "find_assessment (TenantID demo_tclaims) demo_tdb1 (ap_IdempotencyKey demo_params) = None"
    by (simp add: find_assessment_def demo_tdb1_def)
  with RecordAssessment_exactly_once [OF demo_tdb_keys(2) r] r show ?thesis by (auto simp: demo_tdb1_def demo_tclaims_def)
qed

end
