(* ===== verification/Payments.thy ===== *)
theory Payments
  imports Go_Format Booking_Model
begin

text \<open>
  \<^verbatim>\<open>src/internal/payments/mojaloop.go\<close>: payment requests to the Mojaloop switch and the
  check that a transfer is settled. The switch behind HTTP is a parameter: what it
  answers to a request is a transport error, or a status code, an error while reading
  the body, whether the body is empty, and what \<open>json.Unmarshal\<close> makes of it.
\<close>

record 'a http_answer =
  ha_Status :: int
  ha_ReadErr :: "go_error option"
  ha_Empty :: bool
  ha_Json :: "'a result"

record Intent =
  in_RequestID :: string
  in_BookingID :: string
  in_AmountKobo :: int
  in_Currency :: string
  in_PayerMSISDN :: string

record Receipt =
  rc_TxRef :: string
  rc_AcceptedAt :: time

definition TransferStateCommitted :: string where
  "TransferStateCommitted = ''COMMITTED''"

record TransferStatus =
  ts_TxRef :: string
  ts_State :: string
  ts_AmountKobo :: int
  ts_Currency :: string
  ts_Fulfilment :: string

record MojaloopGateway =
  mg_baseURL :: string
  mg_token :: string

definition trim_right_slash :: "string \<Rightarrow> string" where
  "trim_right_slash s = rev (dropWhile (\<lambda>c. c = CHR ''/'') (rev s))"

definition NewMojaloop :: "string \<Rightarrow> string \<Rightarrow> MojaloopGateway result" where
  "NewMojaloop baseURL token =
     (if \<not> prefix ''https://'' baseURL then Inl (ErrText ''MOJALOOP_BASE_URL must be an HTTPS switch endpoint'')
      else if TrimSpace token = [] then Inl (ErrText ''MOJALOOP_BEARER_TOKEN must be configured'')
      else Inr \<lparr>mg_baseURL = trim_right_slash baseURL, mg_token = token\<rparr>)"

section \<open>Requesting a payment\<close>

record transactionRequest =
  tr_TransactionRequestID :: string
  tr_PayeeIDType :: string
  tr_PayeeID :: string
  tr_PayerIDType :: string
  tr_PayerID :: string
  tr_Amount :: string
  tr_Currency :: string
  tr_Scenario :: string
  tr_Initiator :: string
  tr_InitiatorType :: string

text \<open>\<open>fmt.Sprintf("%d.%02d", kobo/100, kobo%100)\<close> of a positive amount.\<close>

definition naira_text :: "int \<Rightarrow> string" where
  "naira_text kobo = fmt_d (go_div kobo 100) @ ''.'' @ pad_left 2 (fmt_d (go_mod kobo 100))"

definition trim_plus :: "string \<Rightarrow> string" where
  "trim_plus s = (if prefix ''+'' s then drop 1 s else s)"

definition transaction_request :: "Intent \<Rightarrow> transactionRequest" where
  "transaction_request i =
     \<lparr>tr_TransactionRequestID = in_RequestID i, tr_PayeeIDType = ''ALIAS'', tr_PayeeID = in_BookingID i,
      tr_PayerIDType = ''MSISDN'', tr_PayerID = trim_plus (in_PayerMSISDN i), tr_Amount = naira_text (in_AmountKobo i),
      tr_Currency = ''NGN'', tr_Scenario = ''PAYMENT'', tr_Initiator = ''PAYER'', tr_InitiatorType = ''CONSUMER''\<rparr>"

definition RequestPayment ::
  "MojaloopGateway \<Rightarrow> (string \<Rightarrow> transactionRequest \<Rightarrow> string http_answer result) \<Rightarrow> Intent \<Rightarrow> env \<Rightarrow> Receipt result" where
  "RequestPayment gw post i e =
     (if len (in_RequestID i) < 8 \<or> in_AmountKobo i \<le> 0 \<or> in_Currency i \<noteq> ''NGN'' \<or> in_BookingID i = []
      then Inl (ErrText ''payment intent is incomplete'')
      else case post (mg_baseURL gw @ ''/transactionRequests'') (transaction_request i) of
        Inl err \<Rightarrow> Inl (Wrapf ''mojaloop transaction request'' err)
      | Inr a \<Rightarrow>
         (case ha_ReadErr a of
            Some err \<Rightarrow> Inl (Wrapf ''read mojaloop response'' err)
          | None \<Rightarrow>
             if ha_Status a \<noteq> 200 \<and> ha_Status a \<noteq> 202
             then Inl (ErrText (''mojaloop rejected payment intent: status '' @ fmt_d (ha_Status a)))
             else (case (if ha_Empty a then Inr [] else ha_Json a) of
                     Inl err \<Rightarrow> Inl (Wrapf ''decode mojaloop response'' err)
                   | Inr decoded \<Rightarrow>
                       let txRef = (if decoded = [] then in_RequestID i else decoded) in
                       if txRef \<noteq> in_RequestID i then Inl (ErrText ''mojaloop returned a mismatched transaction reference'')
                       else Inr \<lparr>rc_TxRef = txRef, rc_AcceptedAt = clk e 1\<rparr>)))"

section \<open>Reading an amount\<close>

text \<open>\<open>strings.Cut(value, ".")\<close>, without the found flag.\<close>

definition cut_dot :: "string \<Rightarrow> string \<times> string" where
  "cut_dot value = (takeWhile (\<lambda>c. c \<noteq> CHR ''.'') value, drop 1 (dropWhile (\<lambda>c. c \<noteq> CHR ''.'') value))"

text \<open>
  \<open>fmt.Sscanf(naira, "%d", &whole)\<close> of a digit string: its value, or an error beyond
  \<open>int64\<close>. A digit loop over runes rejects exactly the strings with a byte that is no
  ASCII digit. The byte subtraction of a non-digit cannot be observed, since the loop
  after the \<open>switch\<close> rejects it.
\<close>

definition parseNairaMinor :: "string \<Rightarrow> int result" where
  "parseNairaMinor value =
     (if value = [] \<or> len value > 20 then Inl (ErrText ''amount is missing or too long'')
      else let naira = fst (cut_dot value); kobo = snd (cut_dot value) in
        if naira = [] then Inl (ErrText ''amount is malformed'')
        else if \<not> list_all is_digit naira then Inl (ErrText ''amount contains non-numeric characters'')
        else if digits_value naira > max_int64 then Inl (ErrText ''amount is malformed'')
        else if length kobo > 2 then Inl (ErrText ''amount carries sub-kobo precision'')
        else if \<not> list_all is_digit kobo then Inl (ErrText ''amount contains non-numeric characters'')
        else let fraction = (case kobo of [] \<Rightarrow> 0 | [a] \<Rightarrow> digit_val a * 10 | a # b # _ \<Rightarrow> digit_val a * 10 + digit_val b) in
          Inr (wrap64 (digits_value naira * 100 + fraction)))"

section \<open>Verifying a payment\<close>

record TransferAnswer =
  ta_TransferID :: string
  ta_TransferState :: string
  ta_Fulfilment :: string
  ta_Amount :: "(string \<times> string) option"

definition VerifyPayment ::
  "MojaloopGateway \<Rightarrow> (string \<Rightarrow> TransferAnswer http_answer result) \<Rightarrow> string \<Rightarrow> int \<Rightarrow> TransferStatus result" where
  "VerifyPayment gw get txRef expectedAmountKobo =
     (if txRef = [] \<or> len txRef > 128 \<or> expectedAmountKobo \<le> 0 then Inl ErrPaymentUnverified
      else case get (mg_baseURL gw @ ''/transfers/'' @ txRef) of
        Inl err \<Rightarrow> Inl (Wrapf ''mojaloop transfer status query'' err)
      | Inr a \<Rightarrow>
         (case ha_ReadErr a of
            Some err \<Rightarrow> Inl (Wrapf ''read mojaloop transfer status'' err)
          | None \<Rightarrow>
             if ha_Status a \<noteq> 200
             then Inl (ErrText (''mojaloop transfer status query failed: status '' @ fmt_d (ha_Status a)))
             else (case ha_Json a of
                     Inl err \<Rightarrow> Inl (Wrapf ''decode mojaloop transfer status'' err)
                   | Inr decoded \<Rightarrow>
                       if ta_TransferState decoded \<noteq> TransferStateCommitted \<or> TrimSpace (ta_Fulfilment decoded) = []
                       then Inl ErrPaymentUnverified
                       else if ta_TransferID decoded \<noteq> [] \<and> ta_TransferID decoded \<noteq> txRef then Inl ErrPaymentUnverified
                       else (case ta_Amount decoded of
                               None \<Rightarrow> Inl (ErrText ''mojaloop transfer status carries no amount; refusing to verify'')
                             | Some (amount, currency) \<Rightarrow>
                                 (case parseNairaMinor amount of
                                    Inl _ \<Rightarrow> Inl (ErrText ''mojaloop transfer amount is unreadable; refusing to verify'')
                                  | Inr amountKobo \<Rightarrow>
                                      if currency \<noteq> ''NGN''
                                      then Inl (ErrText ''mojaloop transfer amount is unreadable; refusing to verify'')
                                      else if amountKobo \<noteq> expectedAmountKobo then Inl ErrPaymentUnverified
                                      else Inr \<lparr>ts_TxRef = txRef, ts_State = ta_TransferState decoded, ts_AmountKobo = amountKobo,
                                                ts_Currency = currency, ts_Fulfilment = ta_Fulfilment decoded\<rparr>)))))"

section \<open>Amounts survive the switch\<close>

lemma dec_nat_length: "0 < k \<Longrightarrow> n < 10 ^ k \<Longrightarrow> length (dec_nat n) \<le> k"
proof (induction k arbitrary: n)
  case (Suc k)
  show ?case
  proof (cases "n < 10")
    case False
    then have "0 < k" using Suc.prems(2) by (cases k) auto
    then have "length (dec_nat (n div 10)) \<le> k" using Suc by (intro Suc.IH) (auto simp: less_mult_imp_div_less)
    with False show ?thesis by (subst dec_nat.simps) simp
  qed (simp add: dec_nat.simps)
qed simp

lemma pad_two:
  assumes "n < (100::nat)"
  shows "\<exists>a b. pad_left 2 (dec_nat n) = [a, b] \<and> is_digit a \<and> is_digit b \<and> digit_val a * 10 + digit_val b = int n"
proof (cases "n < 10")
  case True
  have "is_digit CHR ''0''" "digit_val CHR ''0'' = 0" by (simp_all add: is_digit_def digit_val_def)
  with True show ?thesis using digit_char [OF True] by (simp add: dec_nat.simps pad_left_def)
next
  case False
  then have "dec_nat n = [char_of (48 + n div 10), char_of (48 + n mod 10)]"
    using assms by (subst dec_nat.simps) (simp add: dec_nat.simps)
  moreover have "n div 10 < 10" "n mod 10 < 10" using assms by auto
  moreover have "int (n div 10) * 10 + int (n mod 10) = int n"
    by (metis div_mult_mod_eq of_nat_add of_nat_mult of_nat_numeral)
  ultimately show ?thesis using digit_char [of "n div 10"] digit_char [of "n mod 10"]
    by (simp add: pad_left_def)
qed

lemma digits_value_bounds: "list_all is_digit s \<Longrightarrow> 0 \<le> digits_value s \<and> digits_value s < 10 ^ length s"
proof (induction s rule: rev_induct)
  case (snoc c s)
  then show ?case using digit_val_range [of c] by auto
qed simp

lemma cut_dot_append: "CHR ''.'' \<notin> set a \<Longrightarrow> cut_dot (a @ ''.'' @ b) = (a, b)"
proof -
  assume "CHR ''.'' \<notin> set a"
  then have "\<forall>c\<in>set a. c \<noteq> CHR ''.''" by auto
  then have "takeWhile (\<lambda>c. c \<noteq> CHR ''.'') (a @ ''.'' @ b) = a" "dropWhile (\<lambda>c. c \<noteq> CHR ''.'') (a @ ''.'' @ b) = ''.'' @ b"
    by (simp_all add: takeWhile_append2 dropWhile_append2)
  then show ?thesis by (simp add: cut_dot_def)
qed

lemma digits_no_dot: "list_all is_digit s \<Longrightarrow> CHR ''.'' \<notin> set s"
  by (auto simp: list_all_iff is_digit_def)

text \<open>
  The value of a decimal text in kobo, independently of how it is parsed: the digits before
  the point count hundreds, the two places after it, padded with zeros, count ones.
\<close>

definition kobo_value :: "string \<Rightarrow> int" where
  "kobo_value value = digits_value (fst (cut_dot value)) * 100 + digits_value (take 2 (snd (cut_dot value) @ ''00''))"

lemma two_places:
  assumes "length k \<le> 2" and "list_all is_digit k"
  shows "digits_value (take 2 (k @ ''00'')) = (case k of [] \<Rightarrow> 0 | [a] \<Rightarrow> digit_val a * 10 | a # b # _ \<Rightarrow> digit_val a * 10 + digit_val b)"
    and "0 \<le> digits_value (take 2 (k @ ''00''))" and "digits_value (take 2 (k @ ''00'')) < 100"
proof -
  have "digit_val CHR ''0'' = 0" by (simp add: digit_val_def)
  then show "digits_value (take 2 (k @ ''00'')) = (case k of [] \<Rightarrow> 0 | [a] \<Rightarrow> digit_val a * 10 | a # b # _ \<Rightarrow> digit_val a * 10 + digit_val b)"
    using assms(1) by (auto simp: digits_value_def numeral_2_eq_2 split: list.splits)
  have "list_all is_digit (take 2 (k @ ''00''))" using assms(2) by (auto simp: list_all_iff is_digit_def dest!: in_set_takeD)
  moreover have "length (take 2 (k @ ''00'')) = 2" by simp
  ultimately show "0 \<le> digits_value (take 2 (k @ ''00''))" "digits_value (take 2 (k @ ''00'')) < 100"
    using digits_value_bounds [of "take 2 (k @ ''00'')"] by (simp_all del: take_append length_take length_append)
qed

lemma parseNairaMinor_exact:
  assumes "parseNairaMinor text = Inr v" and "length (fst (cut_dot text)) \<le> 16"
  shows "v = kobo_value text \<and> digits_value (fst (cut_dot text)) * 100 \<le> v \<and> v < digits_value (fst (cut_dot text)) * 100 + 100"
proof -
  let ?w = "digits_value (fst (cut_dot text))" and ?k = "snd (cut_dot text)"
  from assms(1) have dig: "list_all is_digit (fst (cut_dot text))" "list_all is_digit ?k" and k2: "length ?k \<le> 2"
    by (auto simp: parseNairaMinor_def Let_def split: if_splits)
  note fr = two_places [OF k2 dig(2)]
  have v: "v = wrap64 (kobo_value text)"
    using assms(1) fr(1) by (auto simp: parseNairaMinor_def Let_def kobo_value_def split: if_splits)
  have "0 \<le> ?w" "?w < 10 ^ 16"
    using digits_value_bounds [OF dig(1)] assms(2) power_increasing [of "length (fst (cut_dot text))" 16 "10::int"] by auto
  then have "in_int64 (kobo_value text)" using fr(2,3) by (simp add: in_int64_def max_int64_def kobo_value_def)
  then show ?thesis using v fr(2,3) by (simp add: kobo_value_def)
qed

text \<open>
  Claim C40. The amount the switch is asked for is the amount the booking owes: for every
  \<open>int64\<close> amount of kobo, the decimal text sent to the switch is read back as exactly that
  amount. And whatever text of at most 16 digits before the point is read, it is read
  without wrap-around: the result is the true value, at least zero.
\<close>

theorem naira_round_trip:
  "(0 \<le> kobo \<and> kobo \<le> max_int64 \<longrightarrow> parseNairaMinor (naira_text kobo) = Inr kobo)
   \<and> (parseNairaMinor text = Inr v \<and> length (fst (cut_dot text)) \<le> 16 \<longrightarrow>
        digits_value (fst (cut_dot text)) * 100 \<le> v \<and> v < digits_value (fst (cut_dot text)) * 100 + 100)"
proof (intro conjI impI)
  assume k: "0 \<le> kobo \<and> kobo \<le> max_int64"
  define w f where "w = nat (kobo div 100)" and "f = nat (kobo mod 100)"
  have wf: "kobo = int w * 100 + int f" "f < 100" using k by (simp_all add: w_def f_def)
  have w: "w \<le> 92233720368547758" using k wf by (simp add: max_int64_def)
  obtain a b where ab: "pad_left 2 (dec_nat f) = [a, b]" "is_digit a" "is_digit b" "digit_val a * 10 + digit_val b = int f"
    using pad_two [OF wf(2)] by blast
  have t: "naira_text kobo = dec_nat w @ ''.'' @ [a, b]"
    using k ab(1) pos_imp_zdiv_nonneg_iff [of 100 kobo] pos_mod_sign [of 100 kobo]
    by (simp add: naira_text_def not_less [symmetric] go_div_nonneg go_mod_nonneg fmt_d_def w_def f_def)
  have d: "list_all is_digit (dec_nat w)" "dec_nat w \<noteq> []" using dec_nat_digits by auto
  have len: "length (dec_nat w) \<le> 17" using w by (intro dec_nat_length) simp_all
  have "digits_value (dec_nat w) \<le> max_int64" using w by (simp add: digits_value_dec_nat max_int64_def)
  moreover have "in_int64 kobo" using k by (simp add: in_int64_def max_int64_def)
  ultimately show "parseNairaMinor (naira_text kobo) = Inr kobo"
    unfolding parseNairaMinor_def Let_def t cut_dot_append [OF digits_no_dot [OF d(1)]]
    using d len ab wf(1) by (simp add: digits_value_dec_nat add.assoc)
next
  assume "parseNairaMinor text = Inr v \<and> length (fst (cut_dot text)) \<le> 16"
  then show "digits_value (fst (cut_dot text)) * 100 \<le> v" "v < digits_value (fst (cut_dot text)) * 100 + 100"
    using parseNairaMinor_exact by blast+
qed

theorem naira_round_trip_witness:
  "parseNairaMinor (naira_text 1234505) = Inr 1234505 \<and> naira_text 1234505 = ''12345.05''"
proof
  show "parseNairaMinor (naira_text 1234505) = Inr 1234505"
    using naira_round_trip [of 1234505] by (simp add: max_int64_def)
  show "naira_text 1234505 = ''12345.05''"
    by (simp add: naira_text_def go_div_def go_mod_def fmt_d_def pad_left_def dec_nat.simps) (simp add: char_of_def bit_Suc_0_iff)
qed

text \<open>Beyond that length the multiplication by 100 wraps: some 184 quadrillion naira are read as 84 kobo.\<close>

lemma naira_wraps: "parseNairaMinor ''184467440737095517'' = Inr 84"
  by (simp add: parseNairaMinor_def cut_dot_def digits_value_def digit_val_def is_digit_def max_int64_def wrap64_def Let_def)

section \<open>Only a settled transfer verifies\<close>

lemma VerifyPayment_ok:
  "VerifyPayment gw get txRef expected = Inr st \<Longrightarrow>
   ts_TxRef st = txRef \<and> ts_State st = TransferStateCommitted \<and> ts_AmountKobo st = expected \<and> ts_Currency st = ''NGN''"
  by (auto simp: VerifyPayment_def split: option.splits sum.splits if_splits)

text \<open>What a verified payment says about the answer of the switch.\<close>

lemma VerifyPayment_InrD:
  assumes "VerifyPayment gw get txRef expected = Inr st"
  shows "0 < expected \<and> (\<exists>a t amount. get (mg_baseURL gw @ ''/transfers/'' @ txRef) = Inr a \<and> ha_Status a = 200 \<and> ha_Json a = Inr t
      \<and> ta_TransferState t = TransferStateCommitted \<and> TrimSpace (ta_Fulfilment t) \<noteq> []
      \<and> ta_TransferID t \<in> {[], txRef} \<and> ta_Amount t = Some (amount, ''NGN'') \<and> parseNairaMinor amount = Inr expected)"
  using assms by (auto simp: VerifyPayment_def split: option.splits sum.splits if_splits)

end
