(* ===== verification/Http_Booking.thy ===== *)
theory Http_Booking
  imports Sweeper Directory Payments
begin

text \<open>
  The booking handlers of \<^verbatim>\<open>src/internal/server/booking.go\<close> and the role checks of
  \<^verbatim>\<open>src/internal/server/auth.go\<close>: what a caller of the HTTP API can make the stores do. A
  request carries the verified claims of its context and, per store call, what the
  database answers to the transaction; a body is \<open>None\<close> when it does not decode. The
  workflow orchestrator is a parameter with a state of its own. The store calls of one
  handler run one after another on the database; what others do in between is covered
  by the theorems on the stores.
\<close>

section \<open>Requests, replies and roles\<close>

record request =
  rq_claims :: "Claims option"
  rq_begin :: "nat \<Rightarrow> go_error option"
  rq_config :: "nat \<Rightarrow> go_error option"
  rq_commit :: "nat \<Rightarrow> go_error option"

definition rq_ctx :: "request \<Rightarrow> nat \<Rightarrow> ctx" where
  "rq_ctx rq n = \<lparr>ctx_claims = rq_claims rq, begin_err = rq_begin rq n, config_err = rq_config rq n, commit_err = rq_commit rq n\<rparr>"

lemma rq_ctx_claims [simp]: "ctx_claims (rq_ctx rq n) = rq_claims rq"
  by (simp add: rq_ctx_def)

datatype message = Text string | ErrorOf go_error

datatype 'a reply = Failed "int \<times> message" | Answered int 'a

definition RoleGateOfficer :: string where "RoleGateOfficer = ''gate-officer''"
definition RoleNPAOfficer :: string where "RoleNPAOfficer = ''npa-officer''"
definition RolePortOperatorAdmin :: string where "RolePortOperatorAdmin = ''port-operator-admin''"
definition RolePaymentSwitch :: string where "RolePaymentSwitch = ''payment-switch''"

definition claimsOf :: "request \<Rightarrow> (int \<times> message) + Claims" where
  "claimsOf rq =
     (case rq_claims rq of None \<Rightarrow> Inl (401, Text ''verified tenant claims are required'') | Some claims \<Rightarrow> Inr claims)"

definition requireRole :: "request \<Rightarrow> string \<Rightarrow> (int \<times> message) + Claims" where
  "requireRole rq role =
     bindE (claimsOf rq) (\<lambda>claims.
     if \<not> HasRole claims role then Inl (403, Text (''verified '' @ role @ '' role is required'')) else Inr claims)"

definition principalOf :: "request \<Rightarrow> string \<Rightarrow> Principal" where
  "principalOf rq role =
     (case rq_claims rq of
        None \<Rightarrow> \<lparr>pr_ID = ''unknown'', pr_Role = role\<rparr>
      | Some claims \<Rightarrow> \<lparr>pr_ID = Subject claims, pr_Role = role\<rparr>)"

definition writeBookingError :: "go_error \<Rightarrow> int \<times> message" where
  "writeBookingError err =
     (if errors_Is err (ErrNotFound Booking) then (404, ErrorOf err)
      else if errors_Is err (ErrIdempotencyConflict Booking) \<or> errors_Is err (ErrOptimisticConflict Booking)
        \<or> errors_Is err (ErrInvalidTransition Booking) \<or> errors_Is err ErrSlotUnavailable \<or> errors_Is err ErrPaymentReceiptReuse
      then (409, ErrorOf err)
      else if errors_Is err ErrSlotWindow \<or> errors_Is err ErrPaymentInvalid then (422, ErrorOf err)
      else if errors_Is err ErrGateDenied then (403, ErrorOf err)
      else if errors_Is err ErrRefundUnavailable then (503, ErrorOf err)
      else (500, Text ''internal booking failure''))"

definition answer :: "int \<Rightarrow> 'a result \<Rightarrow> 'a reply" where
  "answer status r = (case r of Inl err \<Rightarrow> Failed (writeBookingError err) | Inr a \<Rightarrow> Answered status a)"

record ('l, 'o) Server =
  sv_bookings :: "'l bstore"
  sv_queues :: "'l qstore"
  sv_gateway :: MojaloopGateway
  sv_post :: "string \<Rightarrow> transactionRequest \<Rightarrow> string http_answer result"
  sv_get :: "string \<Rightarrow> TransferAnswer http_answer result"
  sv_StartBookingWorkflow :: "WorkflowInput \<Rightarrow> 'o \<Rightarrow> unit result \<times> 'o"
  sv_SignalPaymentConfirmed :: "string \<Rightarrow> string \<Rightarrow> 'o \<Rightarrow> unit result \<times> 'o"
  sv_SignalGateScan :: "string \<Rightarrow> string \<Rightarrow> 'o \<Rightarrow> unit result \<times> 'o"
  sv_ObserverState :: "string \<Rightarrow> 'o \<Rightarrow> ObserverState result"
  sv_StartCallUpWorkflow :: "CallUpWorkflowInput \<Rightarrow> 'o \<Rightarrow> unit result \<times> 'o"
  sv_SignalArrivalConfirmed :: "string \<Rightarrow> string \<Rightarrow> 'o \<Rightarrow> unit result \<times> 'o"
  sv_CallUpObserverState :: "string \<Rightarrow> 'o \<Rightarrow> CallUpObserverState result"
  sv_fgnShareBPS :: int

section \<open>Terminals and slots\<close>

definition createTerminal :: "request \<Rightarrow> (string \<times> string \<times> string \<times> int) option \<Rightarrow> db \<Rightarrow> string reply \<times> db" where
  "createTerminal rq body d =
     (case requireRole rq RolePortOperatorAdmin of
        Inl x \<Rightarrow> (Failed x, d)
      | Inr _ \<Rightarrow>
         (case body of
            None \<Rightarrow> (Failed (400, Text ''invalid terminal JSON''), d)
          | Some (terminalID, portCode, name, fee) \<Rightarrow>
             (case CreateTerminal (rq_ctx rq 0) terminalID portCode name fee d of
                (Inl err, d') \<Rightarrow> (Failed (writeBookingError err), d')
              | (Inr _, d') \<Rightarrow> (Answered 201 terminalID, d'))))"

definition createSlot :: "request \<Rightarrow> (string \<times> time \<times> time \<times> int) option \<Rightarrow> env \<Rightarrow> db \<Rightarrow> (Slot \<times> string) reply \<times> db" where
  "createSlot rq body e d =
     (case requireRole rq RolePortOperatorAdmin of
        Inl x \<Rightarrow> (Failed x, d)
      | Inr _ \<Rightarrow>
         (case body of
            None \<Rightarrow> (Failed (400, Text ''invalid slot JSON''), d)
          | Some (terminalID, startsAt, endsAt, capacity) \<Rightarrow>
             (case CreateSlot (rq_ctx rq 0) terminalID startsAt endsAt capacity e d of (r, d') \<Rightarrow> (answer 201 r, d'))))"

text \<open>The query parameters \<open>from\<close> and \<open>to\<close> are \<open>None\<close> when they are not RFC 3339.\<close>

definition listSlots :: "request \<Rightarrow> string \<Rightarrow> time option \<Rightarrow> time option \<Rightarrow> db \<Rightarrow> (Slot \<times> int) list reply \<times> db" where
  "listSlots rq terminalID from to d =
     (case from of
        None \<Rightarrow> (Failed (400, Text ''from must be RFC3339''), d)
      | Some f \<Rightarrow>
         (case to of
            None \<Rightarrow> (Failed (400, Text ''to must be RFC3339''), d)
          | Some t \<Rightarrow> (case ListSlots (rq_ctx rq 0) terminalID f t d of (r, d') \<Rightarrow> (answer 200 r, d'))))"

section \<open>Bookings\<close>

definition createBooking :: "('l, 'o) Server \<Rightarrow> request \<Rightarrow> BCreateRequest option \<Rightarrow> env \<Rightarrow> db \<Rightarrow> BookingRow reply \<times> db" where
  "createBooking sv rq body e d =
     (case body of
        None \<Rightarrow> (Failed (400, Text ''invalid booking JSON''), d)
      | Some input \<Rightarrow>
          (case Create (sv_bookings sv) (rq_ctx rq 0) input (principalOf rq ''trucker'') e d of (r, d') \<Rightarrow> (answer 201 r, d')))"

definition bookingVisible :: "request \<Rightarrow> BookingRow \<Rightarrow> (int \<times> message) option" where
  "bookingVisible rq found =
     (case claimsOf rq of
        Inl e \<Rightarrow> Some e
      | Inr claims \<Rightarrow>
          if b_CreatedBy found = Some (Subject claims) then None
          else if HasAnyRole claims [RoleGateOfficer, RoleNPAOfficer, RolePortOperatorAdmin, RolePaymentSwitch] then None
          else Some (403, Text ''booking belongs to a different subject''))"

definition bookingRead ::
  "('l, 'o) Server \<Rightarrow> request \<Rightarrow> string \<Rightarrow> db \<Rightarrow> 'o \<Rightarrow> (BookingRow + ObserverState) reply \<times> db" where
  "bookingRead sv rq path d orc =
     (let parts = split_on (CHR ''/'') (trim_prefix ''/v1/bookings/'' path) in
      if length parts = 2 \<and> parts ! 0 \<noteq> [] \<and> parts ! 1 = ''observer''
      then (case Get (rq_ctx rq 0) (parts ! 0) d of
              (Inl err, d') \<Rightarrow> (Failed (writeBookingError err), d')
            | (Inr found, d') \<Rightarrow>
               (case bookingVisible rq found of
                  Some x \<Rightarrow> (Failed x, d')
                | None \<Rightarrow> (case sv_ObserverState sv (parts ! 0) orc of
                            Inl err \<Rightarrow> (Failed (writeBookingError err), d') | Inr state \<Rightarrow> (Answered 200 (Inr state), d'))))
      else if length parts \<noteq> 1 \<or> parts ! 0 = [] then (Failed (404, Text ''booking not found''), d)
      else (case Get (rq_ctx rq 0) (parts ! 0) d of
              (Inl err, d') \<Rightarrow> (Failed (writeBookingError err), d')
            | (Inr found, d') \<Rightarrow>
               (case bookingVisible rq found of
                  Some x \<Rightarrow> (Failed x, d')
                | None \<Rightarrow> (Answered 200 (Inl found), d'))))"

definition reserveSlot ::
  "('l, 'o) Server \<Rightarrow> request \<Rightarrow> string \<Rightarrow> (string \<times> int) option \<Rightarrow> env \<Rightarrow> db \<Rightarrow> BookingRow reply \<times> db" where
  "reserveSlot sv rq bookingID body e d =
     (case body of
        None \<Rightarrow> (Failed (400, Text ''slot_id and positive expected_version are required''), d)
      | Some (slotID, ver) \<Rightarrow>
          if slotID = [] \<or> ver < 1 then (Failed (400, Text ''slot_id and positive expected_version are required''), d)
          else (case ReserveSlot (sv_bookings sv) (rq_ctx rq 0) bookingID slotID ver (principalOf rq ''trucker'') e d of
                  (r, d') \<Rightarrow> (answer 200 r, d')))"

definition reconcileBooking ::
  "('l, 'o) Server \<Rightarrow> request \<Rightarrow> string \<Rightarrow> (string \<times> int) option \<Rightarrow> env \<Rightarrow> db \<Rightarrow> BookingRow reply \<times> db" where
  "reconcileBooking sv rq bookingID body e d =
     (case body of
        None \<Rightarrow> (Failed (400, Text ''slot_id and positive expected_version are required''), d)
      | Some (slotID, ver) \<Rightarrow>
          if slotID = [] \<or> ver < 1 then (Failed (400, Text ''slot_id and positive expected_version are required''), d)
          else (case Reconcile (sv_bookings sv) (rq_ctx rq 0) bookingID slotID ver (principalOf rq ''sync-agent'') e d of
                  (r, d') \<Rightarrow> (answer 200 r, d')))"

section \<open>Payment\<close>

definition booking_intent :: "string \<Rightarrow> string \<Rightarrow> BookingRow \<Rightarrow> Intent" where
  "booking_intent requestID bookingID found =
     \<lparr>in_RequestID = requestID, in_BookingID = bookingID, in_AmountKobo = b_AmountKobo found, in_Currency = b_Currency found,
      in_PayerMSISDN = b_TruckerMSISDN found\<rparr>"

definition booking_workflow_input :: "('l, 'o) Server \<Rightarrow> request \<Rightarrow> BookingRow \<Rightarrow> time \<Rightarrow> WorkflowInput" where
  "booking_workflow_input sv rq found gateDeadline =
     \<lparr>wi_BookingID = b_BookingID found, wi_TenantID = b_TenantID found, wi_PrincipalID = pr_ID (principalOf rq ''trucker''),
      wi_AmountKobo = uint64_of (b_AmountKobo found),
      wi_FgnShareKobo = uint64_of (go_div (wrap64 (b_AmountKobo found * sv_fgnShareBPS sv)) 10000),
      wi_ExpectedVersion = b_Version found, wi_PaymentDeadline = b_ExpiresAt found, wi_GateScanDeadline = gateDeadline\<rparr>"

definition gate_deadline :: "request \<Rightarrow> BookingRow \<Rightarrow> db \<Rightarrow> time" where
  "gate_deadline rq found d =
     (case b_SlotID found of
        None \<Rightarrow> b_ExpiresAt found
      | Some slotID \<Rightarrow> (case fst (GetSlot (rq_ctx rq 2) slotID d) of Inl _ \<Rightarrow> b_ExpiresAt found | Inr slot \<Rightarrow> s_EndsAt (si_Slot slot)))"

definition createPaymentIntent ::
  "('l, 'o) Server \<Rightarrow> request \<Rightarrow> string \<Rightarrow> (string \<times> int) option \<Rightarrow> env \<Rightarrow> db \<Rightarrow> 'o \<Rightarrow> PaymentIntent reply \<times> db \<times> 'o" where
  "createPaymentIntent sv rq bookingID body e d orc =
     (case body of
        None \<Rightarrow> (Failed (400, Text ''request_id and positive expected_version are required''), d, orc)
      | Some (requestID, ver) \<Rightarrow>
         if requestID = [] \<or> ver < 1 then (Failed (400, Text ''request_id and positive expected_version are required''), d, orc)
         else (case Get (rq_ctx rq 0) bookingID d of
           (Inl err, d1) \<Rightarrow> (Failed (writeBookingError err), d1, orc)
         | (Inr found, d1) \<Rightarrow>
             if b_Version found \<noteq> ver then (Failed (writeBookingError (ErrOptimisticConflict Booking)), d1, orc)
             else (case RequestPayment (sv_gateway sv) (sv_post sv) (booking_intent requestID bookingID found) e of
               Inl _ \<Rightarrow> (Failed (502, Text ''payment switch rejected the intent''), d1, orc)
             | Inr receipt \<Rightarrow>
                (case CreatePaymentIntent (rq_ctx rq 1) bookingID requestID (rc_TxRef receipt) ver (later 2 0 e) d1 of
                   (Inl err, d2) \<Rightarrow> (Failed (writeBookingError err), d2, orc)
                 | (Inr intent, d2) \<Rightarrow>
                    (case sv_StartBookingWorkflow sv (booking_workflow_input sv rq found (gate_deadline rq found d2)) orc of
                       (Inl _, orc') \<Rightarrow> (Failed (502, Text ''booking workflow could not be started''), d2, orc')
                     | (Inr _, orc') \<Rightarrow> (Answered 201 intent, d2, orc'))))))"

text \<open>
  The amount to verify: that of the pending intent, if its reference is the caller's; or,
  when no intent is pending, that of a booking already paid with the caller's receipt.
\<close>

definition expected_amount :: "request \<Rightarrow> string \<Rightarrow> string \<Rightarrow> db \<Rightarrow> ((int \<times> message) + int) \<times> db" where
  "expected_amount rq bookingID receiptRef d =
     (case PendingPaymentIntent (rq_ctx rq 0) bookingID d of
        (Inl err, d1) \<Rightarrow>
          if errors_Is err ErrPaymentInvalid
          then (case Get (rq_ctx rq 1) bookingID d1 of
                  (Inl getErr, d2) \<Rightarrow> (Inl (writeBookingError getErr), d2)
                | (Inr found, d2) \<Rightarrow>
                    if b_Status found \<noteq> B_PAID \<or> b_PaymentReceiptRef found \<noteq> Some receiptRef
                    then (Inl (writeBookingError err), d2)
                    else (Inr (b_AmountKobo found), d2))
          else (Inl (writeBookingError err), d1)
      | (Inr intent, d1) \<Rightarrow>
          if i_MojaloopTxRef intent \<noteq> receiptRef
          then (Inl (422, Text ''receipt_ref does not match the switch-issued transaction reference of this booking''), d1)
          else (Inr (i_AmountKobo intent), d1))"

definition confirmPayment ::
  "('l, 'o) Server \<Rightarrow> request \<Rightarrow> string \<Rightarrow> (string \<times> int) option \<Rightarrow> env \<Rightarrow> db \<Rightarrow> 'o \<Rightarrow> BookingRow reply \<times> db \<times> 'o" where
  "confirmPayment sv rq bookingID body e d orc =
     (case requireRole rq RolePaymentSwitch of
        Inl x \<Rightarrow> (Failed x, d, orc)
      | Inr claims \<Rightarrow>
         (case body of
            None \<Rightarrow> (Failed (400, Text ''receipt_ref and positive expected_version are required''), d, orc)
          | Some (receiptRef, ver) \<Rightarrow>
             if receiptRef = [] \<or> ver < 1
             then (Failed (400, Text ''receipt_ref and positive expected_version are required''), d, orc)
             else (case expected_amount rq bookingID receiptRef d of
               (Inl x, d1) \<Rightarrow> (Failed x, d1, orc)
             | (Inr amountKobo, d1) \<Rightarrow>
                (case VerifyPayment (sv_gateway sv) (sv_get sv) receiptRef amountKobo of
                   Inl err \<Rightarrow>
                     if errors_Is err ErrPaymentUnverified
                     then (Failed (422, Text ''payment is not settled at the switch for the expected amount''), d1, orc)
                     else (Failed (503, Text ''payment switch verification unavailable; confirmation UNVERIFIED''), d1, orc)
                 | Inr status \<Rightarrow>
                    (case ConfirmPayment (sv_bookings sv) (rq_ctx rq 2) bookingID (ts_TxRef status) ver
                            \<lparr>pr_ID = Subject claims, pr_Role = RolePaymentSwitch\<rparr> e d1 of
                       (Inl err, d2) \<Rightarrow> (Failed (writeBookingError err), d2, orc)
                     | (Inr paid, d2) \<Rightarrow>
                        (case sv_SignalPaymentConfirmed sv bookingID (ts_TxRef status) orc of
                           (Inl _, orc') \<Rightarrow>
                             (Failed (502, Text ''payment recorded but workflow signal failed; retry this confirmation''), d2, orc')
                         | (Inr _, orc') \<Rightarrow> (Answered 200 paid, d2, orc')))))))"

section \<open>Cancellation and the gate\<close>

definition cancelBooking ::
  "('l, 'o) Server \<Rightarrow> request \<Rightarrow> string \<Rightarrow> (int \<times> string) option \<Rightarrow> env \<Rightarrow> db \<Rightarrow> 'l \<Rightarrow> BookingRow reply \<times> db \<times> 'l" where
  "cancelBooking sv rq bookingID body e d w =
     (case body of
        None \<Rightarrow> (Failed (400, Text ''expected_version and reason are required''), d, w)
      | Some (ver, reason) \<Rightarrow>
          if ver < 1 \<or> TrimSpace reason = [] then (Failed (400, Text ''expected_version and reason are required''), d, w)
          else (case Cancel (sv_bookings sv) (rq_ctx rq 0) bookingID ver reason (principalOf rq ''trucker'') e d w of
                  (r, d', w') \<Rightarrow> (answer 200 r, d', w')))"

definition gateScan ::
  "('l, 'o) Server \<Rightarrow> request \<Rightarrow> (string \<times> string \<times> time option) option \<Rightarrow> env \<Rightarrow> db \<Rightarrow> 'o
   \<Rightarrow> (GateScan \<times> BookingRow) reply \<times> db \<times> 'o" where
  "gateScan sv rq body e d orc =
     (case claimsOf rq of
        Inl x \<Rightarrow> (Failed x, d, orc)
      | Inr claims \<Rightarrow>
         (case body of
            None \<Rightarrow> (Failed (400, Text ''booking_id and gate_id are required''), d, orc)
          | Some (bookingID, gateID, at) \<Rightarrow>
             if bookingID = [] \<or> gateID = [] then (Failed (400, Text ''booking_id and gate_id are required''), d, orc)
             else let scannedAt = (case at of None \<Rightarrow> clk e 0 | Some t \<Rightarrow> t) in
               (case RecordGateScan (sv_bookings sv) (rq_ctx rq 0) bookingID gateID (Subject claims) scannedAt
                       \<lparr>pr_ID = Subject claims, pr_Role = RoleGateOfficer\<rparr> (later 1 0 e) d of
                  (Inl err, d') \<Rightarrow> (Failed (writeBookingError err), d', orc)
                | (Inr (scan, updated), d') \<Rightarrow>
                   (case sv_SignalGateScan sv bookingID (g_ScanID scan) orc of
                      (Inl _, orc') \<Rightarrow>
                        (Failed (502, Text ''gate approval recorded but workflow signal failed; retry the scan signal''), d', orc')
                    | (Inr _, orc') \<Rightarrow> (Answered 200 (scan, updated), d', orc')))))"

section \<open>Nothing is paid on the word of a caller\<close>

lemma requireRole_Inr: "requireRole rq role = Inr claims \<longleftrightarrow> rq_claims rq = Some claims \<and> HasRole claims role"
  by (auto simp: requireRole_def claimsOf_def split: option.splits)

lemma Get_db: "Get c k d = (r, d') \<Longrightarrow> d' = d"
  by (auto simp: Get_def bindE_Inr_iff elim!: WithTx_cases)

lemma PendingPaymentIntent_db: "PendingPaymentIntent c k d = (r, d') \<Longrightarrow> d' = d"
  by (auto simp: PendingPaymentIntent_def split: list.splits elim!: WithTx_cases)

lemma PendingPaymentIntent_InrD:
  assumes "PendingPaymentIntent c k d = (Inr i, d')" and "ctx_claims c = Some claims"
  shows "i \<in> set (booking_payment_intents d) \<and> pending_intent claims k i"
proof -
  let ?xs = "sort_key (\<lambda>i. - i_CreatedAt i) (filter (pending_intent claims k) (booking_payment_intents d))"
  from assms have "(case ?xs of [] \<Rightarrow> Inl ErrPaymentInvalid | intent # _ \<Rightarrow> Inr (intent, d)) = Inr (i, d')"
    by (auto simp: PendingPaymentIntent_def dest: WithTx_InrD)
  then have "i \<in> set ?xs" by (cases ?xs) auto
  then show ?thesis by simp
qed

lemma expected_amount_cases:
  assumes "expected_amount rq k ref d = (r, d1)" and "rq_claims rq = Some claims"
  shows "d1 = d \<and> (case r of Inl _ \<Rightarrow> True | Inr amount \<Rightarrow>
      (\<exists>i\<in>set (booking_payment_intents d). matching_intent claims k ref i \<and> amount = i_AmountKobo i)
    \<or> (\<exists>b. find_booking (TenantID claims) d k = Some b \<and> b_Status b = B_PAID \<and> b_PaymentReceiptRef b = Some ref))"
proof -
  obtain p dp where P: "PendingPaymentIntent (rq_ctx rq 0) k d = (p, dp)" by fastforce
  have dp: "dp = d" using PendingPaymentIntent_db [OF P] .
  show ?thesis
  proof (cases p)
    case (Inr i)
    then have "i \<in> set (booking_payment_intents d)" "pending_intent claims k i"
      using PendingPaymentIntent_InrD [of "rq_ctx rq 0" k d i dp claims] P assms(2) by simp_all
    with assms(1) P Inr dp show ?thesis
      by (auto simp: expected_amount_def matching_intent_def split: if_splits)
  next
    case (Inl err)
    obtain g dg where G: "Get (rq_ctx rq 1) k d = (g, dg)" by fastforce
    have dg: "dg = d" using Get_db [OF G] .
    have "find_booking (TenantID claims) d k = Some b" if "g = Inr b" for b
      using G that assms(2) by (auto simp: Get_def bindE_Inr_iff dest!: WithTx_InrD dest: getForUpdate_InrD)
    then show ?thesis using assms(1) P Inl dp G dg
      by (auto simp: expected_amount_def split: if_splits sum.splits)
  qed
qed

lemma ConfirmPayment_amount:
  assumes "db_inv d" and "ctx_claims c = Some claims" and "ConfirmPayment st c k ref ver pr e d = (Inr r, d')" and "d' \<noteq> d"
  shows "\<exists>b. find_booking (TenantID claims) d k = Some b \<and> b_Status b = B_SLOT_RESERVED \<and> b_AmountKobo r = b_AmountKobo b"
proof -
  from assms(2,3) have "ConfirmPayment_work st k ref ver pr e claims d = Inr (r, d')"
    by (auto simp: ConfirmPayment_def split: if_splits dest!: WithTx_InrD)
  then show ?thesis
  proof (cases rule: ConfirmPayment_cases)
    case replay
    with assms(4) show ?thesis by simp
  next
    case (paid b i ext)
    have k: "keys_ok d" using assms(1) by (rule db_inv_keys)
    from paid(8) obtain row where row: "find (update_target claims b) (truck_bookings d) = Some row" and "b_AmountKobo r = b_AmountKobo row"
      by (rule transitionTx_InrE) simp
    moreover have "row = b" using find_SomeD [OF row] paid(1) k by (auto simp: update_target_def keys_ok_def dest: distinct_key_eq)
    moreover have "find_booking (TenantID claims) d k = Some b" by (rule find_booking_row [OF k paid(1-3)])
    ultimately show ?thesis using paid(4) by simp
  qed
qed

lemma intent_amount:
  assumes "db_inv d" and "intents_ok d" and "i \<in> set (booking_payment_intents d)" and "find_booking tid d k = Some b"
    and "i_TenantID i = tid" and "i_BookingID i = k"
  shows "i_AmountKobo i = b_AmountKobo b"
proof -
  from assms(2,3) obtain b' where b': "b' \<in> set (truck_bookings d)" "b_BookingID b' = i_BookingID i" "b_AmountKobo b' = i_AmountKobo i"
    unfolding intents_ok_def by blast
  moreover have "b \<in> set (truck_bookings d)" "b_BookingID b = k" using assms(4) by (auto simp: find_booking_def dest: find_SomeD)
  ultimately have "b' = b" using assms(1,6) by (auto simp: db_inv_def keys_ok_def dest: distinct_key_eq)
  with b' show ?thesis by simp
qed

text \<open>
  Claim C5. Nothing is marked paid on the word of a caller: if, in a state the wired stores can
  reach, a payment confirmation changes anything at all in the database, then the caller holds the
  payment-switch role; the booking waited for its payment and is now stored as PAID with the
  caller's receipt; it had a pending payment intent of its own with exactly that reference, over
  exactly the amount of the booking; and the switch itself, asked about that reference, answered
  200 with a transfer that is COMMITTED, fulfilled, under this reference or none, and in NGN,
  whose amount is the amount of the booking to the kobo, as long as it has at most 16 digits
  before the point (longer ones wrap around in \<open>int64\<close>, see \<open>naira_wraps\<close>).
\<close>

theorem confirmPayment_verified:
  assumes "wire signer verifier client bps grace = Inr (bs, qs)" and "reachable bs qs (d, w)"
    and "confirmPayment sv rq k (Some (ref, ver)) e d orc = (reply, d', orc')" and "d' \<noteq> d"
  shows "\<exists>claims i b b' a t amount. rq_claims rq = Some claims \<and> HasRole claims RolePaymentSwitch
    \<and> find_booking (TenantID claims) d k = Some b \<and> b_Status b = B_SLOT_RESERVED
    \<and> find_booking (TenantID claims) d' k = Some b' \<and> b_Status b' = B_PAID \<and> b_PaymentReceiptRef b' = Some ref \<and> b_AmountKobo b' = b_AmountKobo b
    \<and> i \<in> set (booking_payment_intents d) \<and> i_TenantID i = TenantID claims \<and> i_BookingID i = k \<and> i_Status i = ''REQUESTED''
    \<and> i_MojaloopTxRef i = ref \<and> i_AmountKobo i = b_AmountKobo b
    \<and> sv_get sv (mg_baseURL (sv_gateway sv) @ ''/transfers/'' @ ref) = Inr a \<and> ha_Status a = 200 \<and> ha_Json a = Inr t
    \<and> ta_TransferState t = ''COMMITTED'' \<and> TrimSpace (ta_Fulfilment t) \<noteq> [] \<and> ta_TransferID t \<in> {[], ref}
    \<and> ta_Amount t = Some (amount, ''NGN'') \<and> (length (fst (cut_dot amount)) \<le> 16 \<longrightarrow> kobo_value amount = b_AmountKobo b)"
proof -
  note inv = wire_reachable_inv [OF assms(1,2)] and intents = wire_reachable_intents [OF assms(1,2)]
  from assms(3,4) obtain claims where rl: "requireRole rq RolePaymentSwitch = Inr claims"
    by (auto simp: confirmPayment_def split: sum.splits)
  then have c: "rq_claims rq = Some claims" "HasRole claims RolePaymentSwitch" by (simp_all add: requireRole_Inr)
  obtain a d1 where A: "expected_amount rq k ref d = (a, d1)" by fastforce
  note ea = expected_amount_cases [OF A c(1)]
  with assms(3,4) rl A obtain amount st where a: "a = Inr amount"
    and v: "VerifyPayment (sv_gateway sv) (sv_get sv) ref amount = Inr st"
    by (auto simp: confirmPayment_def split: sum.splits if_splits)
  then have st: "ts_TxRef st = ref" by (auto dest: VerifyPayment_ok)
  let ?pr = "\<lparr>pr_ID = Subject claims, pr_Role = RolePaymentSwitch\<rparr>"
  obtain r d2 where C: "ConfirmPayment (sv_bookings sv) (rq_ctx rq 2) k ref ver ?pr e d = (r, d2)" by fastforce
  have d2: "d' = d2"
    using assms(3,4) rl A a v st C ea by (auto simp: confirmPayment_def split: sum.splits prod.splits if_splits)
  then obtain b' where r: "r = Inr b'"
    using C assms(4) by (cases r) (auto simp: ConfirmPayment_def split: if_splits dest: WithTx_error)
  have b': "find_booking (TenantID claims) d' k = Some b'" "b_Status b' = B_PAID" "b_PaymentReceiptRef b' = Some ref"
    using ConfirmPayment_outcome [OF inv _ C [unfolded r], of claims] c(1) d2 by simp_all
  obtain b where b: "find_booking (TenantID claims) d k = Some b" "b_Status b = B_SLOT_RESERVED" "b_AmountKobo b' = b_AmountKobo b"
    using ConfirmPayment_amount [OF inv _ C [unfolded r], of claims] c(1) d2 assms(4) by auto
  then obtain i where i: "i \<in> set (booking_payment_intents d)" "matching_intent claims k ref i" "amount = i_AmountKobo i"
    using ea a by auto
  have "i_AmountKobo i = b_AmountKobo b" by (rule intent_amount [OF inv intents i(1) b(1)]) (use i(2) in \<open>simp_all add: matching_intent_def pending_intent_def\<close>)
  moreover from VerifyPayment_InrD [OF v] obtain x t am where "sv_get sv (mg_baseURL (sv_gateway sv) @ ''/transfers/'' @ ref) = Inr x"
      "ha_Status x = 200" "ha_Json x = Inr t" "ta_TransferState t = ''COMMITTED''" "TrimSpace (ta_Fulfilment t) \<noteq> []"
      "ta_TransferID t \<in> {[], ref}" "ta_Amount t = Some (am, ''NGN'')" "parseNairaMinor am = Inr amount"
    unfolding TransferStateCommitted_def by blast
  moreover note parseNairaMinor_exact [OF this(8)]
  ultimately show ?thesis using c b b' i by (auto simp: matching_intent_def pending_intent_def)
qed

definition demo_switch_claims :: Claims where
  "demo_switch_claims = demo_claims\<lparr>Subject := ''switch'', Roles := [''payment-switch'']\<rparr>"

definition demo_rq :: "Claims \<Rightarrow> request" where
  "demo_rq claims = \<lparr>rq_claims = Some claims, rq_begin = (\<lambda>_. None), rq_config = (\<lambda>_. None), rq_commit = (\<lambda>_. None)\<rparr>"

definition demo_transfer :: TransferAnswer where
  "demo_transfer = \<lparr>ta_TransferID = ''tx-1'', ta_TransferState = ''COMMITTED'', ta_Fulfilment = ''f'', ta_Amount = Some (''2500.00'', ''NGN'')\<rparr>"

definition demo_server :: "(tb_transfer list, unit) Server" where
  "demo_server =
     \<lparr>sv_bookings = demo_store, sv_queues = demo_queue, sv_gateway = \<lparr>mg_baseURL = ''https://switch'', mg_token = ''t''\<rparr>,
      sv_post = (\<lambda>_ _. Inr \<lparr>ha_Status = 200, ha_ReadErr = None, ha_Empty = True, ha_Json = Inr []\<rparr>),
      sv_get = (\<lambda>_. Inr \<lparr>ha_Status = 200, ha_ReadErr = None, ha_Empty = False, ha_Json = Inr demo_transfer\<rparr>),
      sv_StartBookingWorkflow = (\<lambda>_ o1. (Inr (), o1)), sv_SignalPaymentConfirmed = (\<lambda>_ _ o1. (Inr (), o1)),
      sv_SignalGateScan = (\<lambda>_ _ o1. (Inr (), o1)), sv_ObserverState = (\<lambda>_ _. Inl (ErrNotFound Booking)),
      sv_StartCallUpWorkflow = (\<lambda>_ o1. (Inr (), o1)), sv_SignalArrivalConfirmed = (\<lambda>_ _ o1. (Inr (), o1)),
      sv_CallUpObserverState = (\<lambda>_ _. Inl (ErrNotFound Queue)), sv_fgnShareBPS = 1500\<rparr>"

lemma WithTx_demo_rq:
  "WithTx (rq_ctx (demo_rq claims) n) work d = (case work claims d of Inl e \<Rightarrow> (Inl e, d) | Inr (a, d') \<Rightarrow> (Inr a, d'))"
  by (simp add: WithTx_def TenantClaims_def rq_ctx_def demo_rq_def split: sum.splits)

lemma demo_verified:
  "VerifyPayment (sv_gateway demo_server) (sv_get demo_server) ''tx-1'' 250000 =
   Inr \<lparr>ts_TxRef = ''tx-1'', ts_State = ''COMMITTED'', ts_AmountKobo = 250000, ts_Currency = ''NGN'', ts_Fulfilment = ''f''\<rparr>"
proof -
  have "parseNairaMinor ''2500.00'' = Inr 250000"
    by (simp add: parseNairaMinor_def cut_dot_def digits_value_def digit_val_def is_digit_def max_int64_def wrap64_def Let_def)
  then show ?thesis by (simp add: VerifyPayment_def demo_server_def demo_transfer_def TransferStateCommitted_def go_simps)
qed

lemma demo_confirmed:
  "\<exists>o1. ConfirmPayment demo_store (rq_ctx (demo_rq demo_switch_claims) 2) ''bk'' ''tx-1'' 2
      \<lparr>pr_ID = ''switch'', pr_Role = ''payment-switch''\<rparr> (demo_env 40 ''pay'') demo5 =
    (Inr demo_paid, demo5\<lparr>booking_payment_intents := [demo_intent\<lparr>i_Status := ''COMPLETED''\<rparr>], truck_bookings := [demo_paid],
       platform_outbox := platform_outbox demo5 @ [o1]\<rparr>)"
proof -
  let ?d = "demo5\<lparr>booking_payment_intents := [demo_intent\<lparr>i_Status := ''COMPLETED''\<rparr>]\<rparr>"
  let ?u = "demo_reserved\<lparr>b_Status := B_PAID, b_UpdatedAt := 40, b_Version := 3, b_PaymentReceiptRef := Some ''tx-1''\<rparr>"
  have w: "booking_write_error ''tenant-demo'' ?d (set_columns ?u demo_reserved) = None"
    by (simp add: booking_write_error_def enforce_slot_capacity_def receipt_conflict_def demo_reserved_transition_check
        holds_capacity_def find_slot_def demo_slot_def)
  have "o_EventID ` set (platform_outbox demo5) = {''bkxx'', ''rsx''}" by (subst set_map [symmetric]) simp
  then have "''payx'' \<notin> o_EventID ` set (platform_outbox demo5)" by simp
  then have "\<not> list_ex (\<lambda>o1. o_EventID o1 = ''payx'') (platform_outbox demo5)" unfolding list_ex_iff by (metis imageI)
  with w show ?thesis
    by (simp add: demo_paid_def ConfirmPayment_def WithTx_demo_rq ConfirmPayment_work_def getForUpdate_def find_booking_def demo_switch_claims_def
        matching_intent_def pending_intent_def demo_intent_def update_where_def transitionTx_def booking_ValidTransition_def
        emit_def Message_def demo_signer_def demo_topics go_simps Let_def update_target_def) (rule exI, rule refl)
qed

lemma demo_kobo: "kobo_value ''2500.00'' = 250000"
  by (simp add: kobo_value_def cut_dot_def digits_value_def digit_val_def)

theorem confirmPayment_verified_witness:
  "\<exists>d' b. confirmPayment demo_server (demo_rq demo_switch_claims) ''bk'' (Some (''tx-1'', 2)) (demo_env 40 ''pay'') demo5 () =
     (Answered 200 demo_paid, d', ()) \<and> find_booking ''tenant-demo'' d' ''bk'' = Some b \<and> b_PaymentReceiptRef b = Some ''tx-1''
     \<and> kobo_value ''2500.00'' = 250000"
proof -
  let ?run = "confirmPayment demo_server (demo_rq demo_switch_claims) ''bk'' (Some (''tx-1'', 2)) (demo_env 40 ''pay'') demo5 ()"
  obtain o1 where c: "ConfirmPayment demo_store (rq_ctx (demo_rq demo_switch_claims) 2) ''bk'' ''tx-1'' 2
      \<lparr>pr_ID = ''switch'', pr_Role = ''payment-switch''\<rparr> (demo_env 40 ''pay'') demo5 =
    (Inr demo_paid, demo5\<lparr>booking_payment_intents := [demo_intent\<lparr>i_Status := ''COMPLETED''\<rparr>], truck_bookings := [demo_paid],
       platform_outbox := platform_outbox demo5 @ [o1]\<rparr>)" (is "_ = (_, ?d)") using demo_confirmed by blast
  have "requireRole (demo_rq demo_switch_claims) RolePaymentSwitch = Inr demo_switch_claims"
    by (simp add: requireRole_Inr demo_rq_def HasRole_def demo_switch_claims_def RolePaymentSwitch_def)
  moreover have "expected_amount (demo_rq demo_switch_claims) ''bk'' ''tx-1'' demo5 = (Inr 250000, demo5)"
    by (simp add: expected_amount_def PendingPaymentIntent_def WithTx_demo_rq pending_intent_def demo_intent_def demo_switch_claims_def)
  moreover have "Subject demo_switch_claims = ''switch''" "sv_bookings demo_server = demo_store"
    "sv_SignalPaymentConfirmed demo_server = (\<lambda>_ _ o1. (Inr (), o1))"
    by (simp_all add: demo_switch_claims_def demo_server_def)
  ultimately have run: "?run = (Answered 200 demo_paid, ?d, ())"
    using demo_verified c by (simp add: confirmPayment_def RolePaymentSwitch_def)
  have "b_Status demo_paid \<noteq> b_Status demo_reserved" by simp
  then have "demo_paid \<noteq> demo_reserved" by metis
  then have "truck_bookings ?d \<noteq> truck_bookings demo5" by simp
  then have "?d \<noteq> demo5" by metis
  with confirmPayment_verified [OF demo_wire demo_run(5) run] run demo_kobo show ?thesis
    by (auto simp: demo_rq_def demo_switch_claims_def)
qed

section \<open>Who may do what\<close>

lemma Get_InrD:
  assumes "Get c k d = (Inr b, d')" and "ctx_claims c = Some claims"
  shows "b \<in> set (truck_bookings d) \<and> b_TenantID b = TenantID claims \<and> b_BookingID b = k"
  using assms by (auto simp: Get_def bindE_Inr_iff dest!: WithTx_InrD dest: getForUpdate_InrD)

lemma bookingVisible_None:
  "bookingVisible rq found = None \<longleftrightarrow> (\<exists>claims. rq_claims rq = Some claims \<and>
     (b_CreatedBy found = Some (Subject claims)
      \<or> HasAnyRole claims [RoleGateOfficer, RoleNPAOfficer, RolePortOperatorAdmin, RolePaymentSwitch]))"
  by (auto simp: bookingVisible_def claimsOf_def split: option.splits)

text \<open>
  Claim C34. Reads are private and the privileged routes are for their roles: \<open>bookingRead\<close>
  never changes the database, and answers a booking or its workflow state only for a
  booking of the caller's tenant that the caller created, or to an officer role; a request that
  registers a terminal or a slot in the database comes from a port-operator-admin; and a payment
  confirmation that changes the database or signals the payment to the workflow comes from the
  payment switch.
\<close>

theorem privileged_routes_authorised:
  "(bookingRead sv rq path d orc = (reply, d1) \<longrightarrow> d1 = d \<and>
     (case reply of Failed _ \<Rightarrow> True | Answered status x \<Rightarrow> status = 200 \<and>
        (\<exists>claims b. rq_claims rq = Some claims \<and> b \<in> set (truck_bookings d) \<and> b_TenantID b = TenantID claims
           \<and> (b_CreatedBy b = Some (Subject claims)
              \<or> HasAnyRole claims [RoleGateOfficer, RoleNPAOfficer, RolePortOperatorAdmin, RolePaymentSwitch])
           \<and> (case x of Inl found \<Rightarrow> found = b | Inr state \<Rightarrow> sv_ObserverState sv (b_BookingID b) orc = Inr state))))
   \<and> (snd (createTerminal rq tbody d) \<noteq> d \<or> snd (createSlot rq sbody e d) \<noteq> d \<longrightarrow>
       (\<exists>claims. rq_claims rq = Some claims \<and> HasRole claims RolePortOperatorAdmin))
   \<and> (confirmPayment sv rq k pbody e d orc = (preply, d2, orc2) \<and> (d2 \<noteq> d \<or> orc2 \<noteq> orc) \<longrightarrow>
       (\<exists>claims. rq_claims rq = Some claims \<and> HasRole claims RolePaymentSwitch))"
proof (intro conjI impI)
  let ?k = "split_on (CHR ''/'') (trim_prefix ''/v1/bookings/'' path) ! 0"
  assume run: "bookingRead sv rq path d orc = (reply, d1)"
  obtain g dg where G: "Get (rq_ctx rq 0) ?k d = (g, dg)" by fastforce
  have dg: "dg = d" using Get_db [OF G] .
  show "d1 = d" using run G dg
    by (auto simp: bookingRead_def Let_def split: if_splits sum.splits option.splits)
  show "case reply of Failed _ \<Rightarrow> True | Answered status x \<Rightarrow> status = 200 \<and>
        (\<exists>claims b. rq_claims rq = Some claims \<and> b \<in> set (truck_bookings d) \<and> b_TenantID b = TenantID claims
           \<and> (b_CreatedBy b = Some (Subject claims)
              \<or> HasAnyRole claims [RoleGateOfficer, RoleNPAOfficer, RolePortOperatorAdmin, RolePaymentSwitch])
           \<and> (case x of Inl found \<Rightarrow> found = b | Inr state \<Rightarrow> sv_ObserverState sv (b_BookingID b) orc = Inr state))"
  proof (cases reply)
    case (Answered status x)
    with run G obtain b where b: "g = Inr b" "bookingVisible rq b = None" "status = 200"
        "x = Inl b \<or> (\<exists>state. x = Inr state \<and> sv_ObserverState sv ?k orc = Inr state)"
      by (auto simp: bookingRead_def Let_def split: if_splits sum.splits option.splits)
    from b(2) obtain claims where c: "rq_claims rq = Some claims" "b_CreatedBy b = Some (Subject claims)
        \<or> HasAnyRole claims [RoleGateOfficer, RoleNPAOfficer, RolePortOperatorAdmin, RolePaymentSwitch]"
      by (auto simp: bookingVisible_None)
    note row = Get_InrD [OF G [unfolded b(1)], of claims]
    show ?thesis by (cases x) (use Answered b(3,4) c row in auto)
  qed simp
next
  assume "snd (createTerminal rq tbody d) \<noteq> d \<or> snd (createSlot rq sbody e d) \<noteq> d"
  then obtain claims where "requireRole rq RolePortOperatorAdmin = Inr claims"
    by (auto simp: createTerminal_def createSlot_def split: sum.splits)
  then show "\<exists>claims. rq_claims rq = Some claims \<and> HasRole claims RolePortOperatorAdmin" by (auto simp: requireRole_Inr)
next
  assume "confirmPayment sv rq k pbody e d orc = (preply, d2, orc2) \<and> (d2 \<noteq> d \<or> orc2 \<noteq> orc)"
  then obtain claims where "requireRole rq RolePaymentSwitch = Inr claims" by (auto simp: confirmPayment_def split: sum.splits)
  then show "\<exists>claims. rq_claims rq = Some claims \<and> HasRole claims RolePaymentSwitch" by (auto simp: requireRole_Inr)
qed

theorem privileged_routes_authorised_witness:
  "bookingRead demo_server (demo_rq demo_claims) ''/v1/bookings/bk'' demo5 () = (Answered 200 (Inl demo_reserved), demo5)
   \<and> (b_CreatedBy demo_reserved = Some ''clerk'' \<or> HasAnyRole demo_claims [RoleGateOfficer, RoleNPAOfficer, RolePortOperatorAdmin, RolePaymentSwitch])"
proof -
  have "b_CreatedBy demo_reserved = Some ''clerk''" by (simp add: demo_reserved_def demo_row_defs)
  then have "bookingVisible (demo_rq demo_claims) demo_reserved = None" by (simp add: bookingVisible_None demo_rq_def)
  then have run: "bookingRead demo_server (demo_rq demo_claims) ''/v1/bookings/bk'' demo5 () = (Answered 200 (Inl demo_reserved), demo5)"
    by (simp add: bookingRead_def trim_prefix_def Let_def Get_def WithTx_demo_rq getForUpdate_def find_booking_def)
  from privileged_routes_authorised [THEN conjunct1, rule_format, OF run] run show ?thesis
    by (auto simp: demo_rq_def)
qed

text \<open>
  The gate route asks for no role: any verified token of the tenant that meets the store's
  conditions is recorded as a gate officer's approval.
\<close>

lemma gateScan_needs_no_role:
  assumes "rq_claims rq = Some claims" and "Roles claims = []" and "k \<noteq> []" and "g \<noteq> []"
    and "RecordGateScan (sv_bookings sv) (rq_ctx rq 0) k g (Subject claims) t
           \<lparr>pr_ID = Subject claims, pr_Role = RoleGateOfficer\<rparr> (later 1 0 e) d = (Inr (scan, b), d')"
    and "sv_SignalGateScan sv k (g_ScanID scan) orc = (Inr (), orc')"
  shows "gateScan sv rq (Some (k, g, Some t)) e d orc = (Answered 200 (scan, b), d', orc')"
  using assms by (simp add: gateScan_def claimsOf_def)

end
