(* ===== verification/Http_Queue.thy ===== *)
theory Http_Queue
  imports Http_Booking
begin

text \<open>
  The call-up queue handlers of \<^verbatim>\<open>src/internal/server/queue.go\<close>. A truck that is called up
  because another one arrives or cancels gets its grace-window workflow started by the
  same request, or the request says that it was not.
\<close>

definition writeQueueError :: "go_error \<Rightarrow> int \<times> message" where
  "writeQueueError err =
     (if errors_Is err (ErrNotFound Queue) then (404, ErrorOf err)
      else if errors_Is err (ErrIdempotencyConflict Queue) \<or> errors_Is err (ErrOptimisticConflict Queue)
        \<or> errors_Is err (ErrInvalidTransition Queue) \<or> errors_Is err ErrCallUpCapacity
      then (409, ErrorOf err)
      else if errors_Is err ErrGraceWindow then (422, ErrorOf err)
      else (500, Text ''internal queue failure''))"

definition queue_answer :: "int \<Rightarrow> 'a result \<Rightarrow> 'a reply" where
  "queue_answer status r = (case r of Inl err \<Rightarrow> Failed (writeQueueError err) | Inr a \<Rightarrow> Answered status a)"

record queue_body =
  qb_TruckPlate :: string
  qb_TruckerMSISDN :: string
  qb_TerminalID :: string
  qb_PriorityClass :: PriorityClass
  qb_BookingID :: string

definition createQueueRequest ::
  "('l, 'o) Server \<Rightarrow> request \<Rightarrow> string \<Rightarrow> queue_body option \<Rightarrow> env \<Rightarrow> db \<Rightarrow> QueueRow reply \<times> db" where
  "createQueueRequest sv rq header body e d =
     (let idempotencyKey = TrimSpace header in
      if idempotencyKey = [] then (Failed (400, Text ''missing Idempotency-Key''), d)
      else case body of
        None \<Rightarrow> (Failed (400, Text ''invalid queue request JSON''), d)
      | Some input \<Rightarrow>
          (case queue_Create (sv_queues sv) (rq_ctx rq 0)
                  \<lparr>qc_IdempotencyKey = idempotencyKey, qc_TruckPlate = qb_TruckPlate input, qc_TruckerMSISDN = qb_TruckerMSISDN input,
                   qc_TerminalID = qb_TerminalID input, qc_PriorityClass = qb_PriorityClass input, qc_BookingID = qb_BookingID input\<rparr>
                  ChannelWeb (principalOf rq ''trucker'') e d of (r, d') \<Rightarrow> (queue_answer 201 r, d')))"

definition queueRead ::
  "('l, 'o) Server \<Rightarrow> request \<Rightarrow> string \<Rightarrow> db \<Rightarrow> 'o \<Rightarrow> (QueueRow + CallUpObserverState) reply \<times> db" where
  "queueRead sv rq path d orc =
     (let parts = split_on (CHR ''/'') (trim_prefix ''/v1/queue-requests/'' path) in
      if length parts = 2 \<and> parts ! 0 \<noteq> [] \<and> parts ! 1 = ''observer''
      then (case sv_CallUpObserverState sv (parts ! 0) orc of
              Inl err \<Rightarrow> (Failed (writeQueueError err), d) | Inr state \<Rightarrow> (Answered 200 (Inr state), d))
      else if length parts \<noteq> 1 \<or> parts ! 0 = [] then (Failed (404, Text ''queue request not found''), d)
      else (case queue_Get (rq_ctx rq 0) (parts ! 0) d of
              (Inl err, d') \<Rightarrow> (Failed (writeQueueError err), d') | (Inr found, d') \<Rightarrow> (Answered 200 (Inl found), d')))"

definition callup_input :: "request \<Rightarrow> string \<Rightarrow> QueueRow \<Rightarrow> time \<Rightarrow> CallUpWorkflowInput" where
  "callup_input rq role q deadline =
     \<lparr>ci_QueueRequestID = q_QueueRequestID q, ci_TenantID = q_TenantID q, ci_PrincipalID = pr_ID (principalOf rq role),
      ci_TerminalID = q_TerminalID q, ci_GraceDeadline = deadline\<rparr>"

definition startPromotedCallUps :: "('l, 'o) Server \<Rightarrow> request \<Rightarrow> QueueRow option \<Rightarrow> 'o \<Rightarrow> unit result \<times> 'o" where
  "startPromotedCallUps sv rq promoted orc =
     (case promoted of
        None \<Rightarrow> (Inr (), orc)
      | Some q \<Rightarrow>
         (case q_GraceDeadline q of
            None \<Rightarrow> (Inr (), orc)
          | Some deadline \<Rightarrow>
             (case sv_StartCallUpWorkflow sv (callup_input rq ''callup-engine'' q deadline) orc of
                (Inl err, orc') \<Rightarrow>
                  (Inl (Wrapf (''start grace-window workflow for promoted request '' @ q_QueueRequestID q) err), orc')
              | (Inr _, orc') \<Rightarrow> (Inr (), orc'))))"

definition arriveQueueRequest ::
  "('l, 'o) Server \<Rightarrow> request \<Rightarrow> string \<Rightarrow> (string \<times> int) option \<Rightarrow> env \<Rightarrow> db \<Rightarrow> 'o \<Rightarrow> QueueRow reply \<times> db \<times> 'o" where
  "arriveQueueRequest sv rq qid body e d orc =
     (case body of
        None \<Rightarrow> (Failed (400, Text ''gate_id and positive expected_version are required''), d, orc)
      | Some (gateID, ver) \<Rightarrow>
         if gateID = [] \<or> ver < 1 then (Failed (400, Text ''gate_id and positive expected_version are required''), d, orc)
         else (case Arrive (sv_queues sv) (rq_ctx rq 0) qid gateID ver (principalOf rq ''gate-officer'') e d of
           (Inl (err, _), d') \<Rightarrow> (Failed (writeQueueError err), d', orc)
         | (Inr (arrived, promoted), d') \<Rightarrow>
            (case startPromotedCallUps sv rq promoted orc of
               (Inl _, o1) \<Rightarrow>
                 (Failed (502, Text ''arrival recorded but the promoted call-up workflow could not start; the sweeper will retry, or retry this arrival''), d', o1)
             | (Inr _, o1) \<Rightarrow>
                (case (case q_GraceDeadline arrived of
                         None \<Rightarrow> (Inr (), o1)
                       | Some deadline \<Rightarrow> sv_StartCallUpWorkflow sv (callup_input rq ''gate-officer'' arrived deadline) o1) of
                   (Inl _, o2) \<Rightarrow> (Failed (502, Text ''arrival recorded but call-up workflow could not be ensured''), d', o2)
                 | (Inr _, o2) \<Rightarrow>
                    (case sv_SignalArrivalConfirmed sv qid gateID o2 of
                       (Inl _, o3) \<Rightarrow> (Failed (502, Text ''arrival recorded but workflow signal failed; retry this arrival''), d', o3)
                     | (Inr _, o3) \<Rightarrow> (Answered 200 arrived, d', o3))))))"

definition departQueueRequest ::
  "('l, 'o) Server \<Rightarrow> request \<Rightarrow> string \<Rightarrow> int option \<Rightarrow> env \<Rightarrow> db \<Rightarrow> QueueRow reply \<times> db" where
  "departQueueRequest sv rq qid body e d =
     (case body of
        None \<Rightarrow> (Failed (400, Text ''positive expected_version is required''), d)
      | Some ver \<Rightarrow>
          if ver < 1 then (Failed (400, Text ''positive expected_version is required''), d)
          else (case Depart (sv_queues sv) (rq_ctx rq 0) qid ver (principalOf rq ''trucker'') e d of (r, d') \<Rightarrow> (queue_answer 200 r, d')))"

definition cancelQueueRequest ::
  "('l, 'o) Server \<Rightarrow> request \<Rightarrow> string \<Rightarrow> (int \<times> string) option \<Rightarrow> env \<Rightarrow> db \<Rightarrow> 'o \<Rightarrow> QueueRow reply \<times> db \<times> 'o" where
  "cancelQueueRequest sv rq qid body e d orc =
     (case body of
        None \<Rightarrow> (Failed (400, Text ''expected_version and reason are required''), d, orc)
      | Some (ver, reason) \<Rightarrow>
         if ver < 1 \<or> TrimSpace reason = [] then (Failed (400, Text ''expected_version and reason are required''), d, orc)
         else (case queue_Cancel (sv_queues sv) (rq_ctx rq 0) qid ver reason (principalOf rq ''trucker'') e d of
           (Inl err, d') \<Rightarrow> (Failed (writeQueueError err), d', orc)
         | (Inr (cancelled, promoted), d') \<Rightarrow>
            (case startPromotedCallUps sv rq promoted orc of
               (Inl _, o1) \<Rightarrow>
                 (Failed (502, Text ''cancellation recorded but the promoted call-up workflow could not start; the sweeper will retry''), d', o1)
             | (Inr _, o1) \<Rightarrow> (Answered 200 cancelled, d', o1))))"

definition terminalQueue :: "request \<Rightarrow> string \<Rightarrow> db \<Rightarrow> (string \<times> QueueRow list) reply \<times> db" where
  "terminalQueue rq path d =
     (let parts = split_on (CHR ''/'') (trim_prefix ''/v1/terminals/'' path) in
      if length parts \<noteq> 2 \<or> parts ! 0 = [] \<or> parts ! 1 \<noteq> ''queue'' then (Failed (404, Text ''terminal route not found''), d)
      else (case ListTerminal (rq_ctx rq 0) (parts ! 0) d of
              (Inl err, d') \<Rightarrow> (Failed (writeQueueError err), d')
            | (Inr entries, d') \<Rightarrow> (Answered 200 (parts ! 0, entries), d')))"

section \<open>No call-up goes unsupervised\<close>

lemma queue_transition_rows:
  assumes tr: "queue_transitionTx qs claims q nxt mutate ty ext pr e d = Inr (r, d')" and k: "keys_ok d"
    and x: "x \<in> set (truck_queue_requests d')" "x \<notin> set (truck_queue_requests d)"
  shows "x = r"
proof -
  from tr obtain row u o1 where f: "find (queue_target claims q) (truck_queue_requests d) = Some row"
    and r: "r = queue_set_columns u row"
    and d': "truck_queue_requests d' = update_where (queue_target claims q) (queue_set_columns u) (truck_queue_requests d)"
    by (auto elim!: queue_transitionTx_InrE)
  note row = find_SomeD [OF f]
  from x obtain y where y: "y \<in> set (truck_queue_requests d)" "queue_target claims q y" "x = queue_set_columns u y"
    unfolding d' by (auto simp: set_update_where split: if_splits)
  have "y = row" using k y(1,2) row by (auto simp: keys_ok_def queue_target_def dest: distinct_key_eq)
  with y r show ?thesis by simp
qed

lemma queue_transition_keys:
  "queue_transitionTx qs claims q nxt mutate ty ext pr e d = Inr (r, d') \<Longrightarrow> keys_ok d \<Longrightarrow> keys_ok d'"
  by (auto elim!: queue_transitionTx_InrE simp: keys_ok_def map_update_where queue_set_columns_def)

lemma promoted_row:
  assumes "promoteNextTx qs claims t pr now e d = Inr (p, d')" and "keys_ok d"
    and "x \<in> set (truck_queue_requests d')" and "x \<notin> set (truck_queue_requests d)"
  shows "p = Some x \<and> q_GraceDeadline x \<noteq> None"
  using assms(1)
proof (cases rule: promoteNextTx_cases)
  case (promoted tm head q ext)
  have "x = q" by (rule queue_transition_rows [OF promoted(5) assms(2-4)])
  moreover have "q_GraceDeadline q \<noteq> None" using promoted(5) by (auto elim!: queue_transitionTx_InrE simp: queue_set_columns_def)
  ultimately show ?thesis using promoted(1) by simp
qed (use assms in simp)

text \<open>What an operation promotes after moving one request out of the called-up states.\<close>

lemma promoted_after_move:
  assumes tr: "queue_transitionTx qs claims q nxt mutate ty ext pr e d = Inr (r, d1)" and k: "keys_ok d"
    and out: "\<not> called_up nxt" "\<And>u. q_Status (mutate u) = q_Status u"
    and pm: "promoteNextTx qs claims t pr2 now e2 d1 = Inr (p, d')"
    and x: "x \<in> set (truck_queue_requests d')" "x \<notin> set (truck_queue_requests d)" "called_up (q_Status x)"
  shows "p = Some x \<and> q_GraceDeadline x \<noteq> None"
proof (rule promoted_row [OF pm queue_transition_keys [OF tr k] x(1)])
  have "q_Status r = nxt" using tr out(2) by (auto elim!: queue_transitionTx_InrE simp: queue_set_columns_def)
  then show "x \<notin> set (truck_queue_requests d1)" using queue_transition_rows [OF tr k _ x(2)] x(3) out(1) by auto
qed

lemma startPromotedCallUps_started:
  "startPromotedCallUps sv rq p orc = (Inr u, o1) \<Longrightarrow> p = Some x \<and> q_GraceDeadline x \<noteq> None \<Longrightarrow>
   \<exists>deadline o1. q_GraceDeadline x = Some deadline
     \<and> sv_StartCallUpWorkflow sv (callup_input rq ''callup-engine'' x deadline) orc = (Inr (), o1)"
  by (auto simp: startPromotedCallUps_def split: option.splits prod.splits sum.splits)

lemma arrive_answered:
  assumes "arriveQueueRequest sv rq qid body e d orc = (Answered status q, d', orc')"
  obtains gateID ver a p o1 where "Arrive (sv_queues sv) (rq_ctx rq 0) qid gateID ver (principalOf rq ''gate-officer'') e d = (Inr (a, p), d')"
    and "startPromotedCallUps sv rq p orc = (Inr (), o1)"
proof -
  from assms obtain gateID ver where b: "body = Some (gateID, ver)" "\<not> (gateID = [] \<or> ver < 1)"
    by (auto simp: arriveQueueRequest_def split: option.splits if_splits)
  obtain r dr where ar: "Arrive (sv_queues sv) (rq_ctx rq 0) qid gateID ver (principalOf rq ''gate-officer'') e d = (r, dr)" by fastforce
  note run = assms [unfolded arriveQueueRequest_def b(1) option.case prod.case if_not_P [OF b(2)] ar]
  from run obtain a p where r: "r = Inr (a, p)" by (cases r) auto
  obtain t o1 where st: "startPromotedCallUps sv rq p orc = (t, o1)" by fastforce
  note run2 = run [unfolded r st sum.case prod.case]
  from run2 obtain u where "t = Inr u" by (cases t) auto
  moreover from run2 this have "dr = d'" by (auto split: prod.splits sum.splits)
  ultimately show thesis using that ar r st by auto
qed

lemma cancel_answered:
  assumes "cancelQueueRequest sv rq qid body e d orc = (Answered status q, d', orc')"
  obtains ver reason a p o1 where "queue_Cancel (sv_queues sv) (rq_ctx rq 0) qid ver reason (principalOf rq ''trucker'') e d = (Inr (a, p), d')"
    and "startPromotedCallUps sv rq p orc = (Inr (), o1)"
proof -
  from assms obtain ver reason where b: "body = Some (ver, reason)" "\<not> (ver < 1 \<or> TrimSpace reason = [])"
    by (auto simp: cancelQueueRequest_def split: option.splits if_splits)
  obtain r dr where cn: "queue_Cancel (sv_queues sv) (rq_ctx rq 0) qid ver reason (principalOf rq ''trucker'') e d = (r, dr)" by fastforce
  note run = assms [unfolded cancelQueueRequest_def b(1) option.case prod.case if_not_P [OF b(2)] cn]
  from run obtain a p where r: "r = Inr (a, p)" by (cases r) auto
  obtain t o1 where st: "startPromotedCallUps sv rq p orc = (t, o1)" by fastforce
  note run2 = run [unfolded r st sum.case prod.case]
  from run2 obtain u where "t = Inr u" by (cases t) auto
  moreover from run2 this have "dr = d'" by (auto split: prod.splits sum.splits)
  ultimately show thesis using that cn r st by auto
qed

text \<open>
  Claim C33. No call-up goes unsupervised: when an arrival or a cancellation is answered
  with success, every request it called up in the course of it has a grace deadline and
  its grace-window workflow was started, with that deadline, before the answer.
\<close>

theorem answered_callups_supervised:
  assumes "db_inv d" and "x \<in> set (truck_queue_requests d')" and "x \<notin> set (truck_queue_requests d)" and "called_up (q_Status x)"
    and "arriveQueueRequest sv rq qid abody e d orc = (Answered status q, d', orc')
      \<or> cancelQueueRequest sv rq qid cbody e d orc = (Answered status q, d', orc')"
  shows "\<exists>deadline o1. q_GraceDeadline x = Some deadline
    \<and> sv_StartCallUpWorkflow sv (callup_input rq ''callup-engine'' x deadline) orc = (Inr (), o1)"
  using assms(5)
proof
  have k: "keys_ok d" using assms(1) by (rule db_inv_keys)
  assume "arriveQueueRequest sv rq qid abody e d orc = (Answered status q, d', orc')"
  then obtain gateID ver a p o1 where ar: "Arrive (sv_queues sv) (rq_ctx rq 0) qid gateID ver (principalOf rq ''gate-officer'') e d = (Inr (a, p), d')"
    and st: "startPromotedCallUps sv rq p orc = (Inr (), o1)" by (rule arrive_answered)
  from ar obtain claims where "Arrive_work (sv_queues sv) qid gateID ver (principalOf rq ''gate-officer'') e claims d = Inr ((Some a, p), d')"
    by (auto simp: Arrive_def split: if_splits prod.splits sum.splits option.splits dest!: WithTx_InrD)
  then have "p = Some x \<and> q_GraceDeadline x \<noteq> None"
  proof (cases rule: Arrive_cases)
    case (arrived q r d1 ext)
    show ?thesis by (rule promoted_after_move [OF arrived(5) k _ _ arrived(6) assms(2-4)]) (simp_all add: called_up_def)
  qed simp
  then show ?thesis by (rule startPromotedCallUps_started [OF st])
next
  have k: "keys_ok d" using assms(1) by (rule db_inv_keys)
  assume "cancelQueueRequest sv rq qid cbody e d orc = (Answered status q, d', orc')"
  then obtain ver reason a p o1 where cn: "queue_Cancel (sv_queues sv) (rq_ctx rq 0) qid ver reason (principalOf rq ''trucker'') e d = (Inr (a, p), d')"
    and st: "startPromotedCallUps sv rq p orc = (Inr (), o1)" by (rule cancel_answered)
  from cn obtain claims r d1 q0 ext where tr: "queue_transitionTx (sv_queues sv) claims q0 Q_CANCELLED
        (\<lambda>u. u\<lparr>q_ReconciliationReason := Some reason\<rparr>) ''queue.cancelled'' ext (principalOf rq ''trucker'') e d = Inr (r, d1)"
    and pm: "promote_if (called_up (q_Status q0)) (sv_queues sv) claims (q_TerminalID q0) (principalOf rq ''trucker'') (later 1 2 e) d1 = Inr (p, d')"
    by (auto simp: queue_Cancel_def queue_Cancel_work_def bindE_Inr_iff split: if_splits dest!: WithTx_InrD)
  have "p = Some x \<and> q_GraceDeadline x \<noteq> None"
  proof (cases "called_up (q_Status q0)")
    case True
    with pm have pm2: "promoteNextTx (sv_queues sv) claims (q_TerminalID q0) (principalOf rq ''trucker'') (clk (later 1 2 e) 0) (later 1 0 (later 1 2 e)) d1
        = Inr (p, d')" by (simp add: promote_if_def)
    show ?thesis by (rule promoted_after_move [OF tr k _ _ pm2 assms(2-4)]) (simp_all add: called_up_def)
  next
    case False
    with pm have "d' = d1" by (simp add: promote_if_def)
    then have "x = r" using queue_transition_rows [OF tr k] assms(2,3) by blast
    moreover have "q_Status r = Q_CANCELLED" using tr by (auto elim!: queue_transitionTx_InrE simp: queue_set_columns_def)
    ultimately show ?thesis using assms(4) by (simp add: called_up_def)
  qed
  then show ?thesis by (rule startPromotedCallUps_started [OF st])
qed

section \<open>A cancellation that calls the next truck\<close>

definition demo_trucker :: Principal where
  "demo_trucker = \<lparr>pr_ID = ''clerk'', pr_Role = ''trucker''\<rparr>"

lemma emit_trucker:
  assumes "TrimSpace ty \<noteq> []" "TrimSpace corr \<noteq> []" "TrimSpace sub \<noteq> []"
    and "list_all (\<lambda>k. TrimSpace k \<noteq> []) (map fst ext)" "rnd e 1 \<notin> o_EventID ` set (platform_outbox d)"
  shows "\<exists>o1. emit demo_claims TopicQueue ty corr sub p ext demo_trucker lh at (Some demo_signer) e d
    = Inr (d\<lparr>platform_outbox := platform_outbox d @ [o1]\<rparr>) \<and> o_EventID o1 = rnd e 1"
proof -
  have "TrimSpace ''clerk'' = ''clerk''" "TrimSpace ''trucker'' = ''trucker''" by (simp_all add: go_simps)
  moreover have "validTopic TopicQueue" by (simp add: validTopic_def)
  moreover have "\<not> list_ex (\<lambda>o1. o_EventID o1 = rnd e 1) (platform_outbox d)" unfolding list_ex_iff using assms(5) by (metis imageI)
  moreover have "\<not> list_ex (\<lambda>k. TrimSpace k = []) (map fst ext)" using assms(4) by (simp add: list_ex_iff list_all_iff)
  ultimately show ?thesis
    using assms(1-3) by (simp add: emit_def Message_def demo_trucker_def demo_signer_def Let_def) (rule exI, rule conjI, rule refl, simp)
qed

lemma queue_transition_demo:
  assumes "queue_ValidTransition (q_Status q) nxt" and "find (queue_target demo_claims q) (truck_queue_requests d) = Some row"
    and "u = mutate (q\<lparr>q_Status := nxt, q_UpdatedAt := clk e 0, q_Version := wrap64 (q_Version q + 1)\<rparr>)"
    and "queue_write_error ''tenant-demo'' d (queue_set_columns u row) = None"
    and "TrimSpace ty \<noteq> []" "TrimSpace (q_IdempotencyKey row) \<noteq> []" "TrimSpace (q_QueueRequestID row) \<noteq> []"
    and "list_all (\<lambda>k. TrimSpace k \<noteq> []) (map fst ext)" "rnd e 1 \<notin> o_EventID ` set (platform_outbox d)"
  shows "\<exists>o1. queue_transitionTx demo_queue demo_claims q nxt mutate ty ext demo_trucker e d =
    Inr (queue_set_columns u row, d\<lparr>truck_queue_requests := update_where (queue_target demo_claims q) (queue_set_columns u) (truck_queue_requests d),
      platform_outbox := platform_outbox d @ [o1]\<rparr>) \<and> o_EventID o1 = rnd e 1"
proof -
  let ?d = "d\<lparr>truck_queue_requests := update_where (queue_target demo_claims q) (queue_set_columns u) (truck_queue_requests d)\<rparr>"
  have keys: "q_IdempotencyKey (queue_set_columns u row) = q_IdempotencyKey row"
    "q_QueueRequestID (queue_set_columns u row) = q_QueueRequestID row" by (simp_all add: queue_set_columns_def)
  obtain o1 where em: "emit demo_claims TopicQueue ty (q_IdempotencyKey row) (q_QueueRequestID row) (QueuePayload (queue_set_columns u row))
      ext demo_trucker [] (q_UpdatedAt (queue_set_columns u row)) (Some demo_signer) e ?d = Inr (?d\<lparr>platform_outbox := platform_outbox d @ [o1]\<rparr>)"
    and o1: "o_EventID o1 = rnd e 1"
    using emit_trucker [of ty "q_IdempotencyKey row" "q_QueueRequestID row" ext e ?d] assms(5-9) by fastforce
  have "queue_transitionTx demo_queue demo_claims q nxt mutate ty ext demo_trucker e d =
      bindE (emit demo_claims TopicQueue ty (q_IdempotencyKey row) (q_QueueRequestID row) (QueuePayload (queue_set_columns u row))
        ext demo_trucker [] (q_UpdatedAt (queue_set_columns u row)) (Some demo_signer) e ?d) (\<lambda>d'. Inr (queue_set_columns u row, d'))"
    using assms(1-4) by (simp add: queue_transitionTx_def Let_def keys)
  with em o1 show ?thesis by (intro exI [of _ o1]) simp
qed

definition demo_q_gone :: QueueRow where
  "demo_q_gone = queue_set_columns (demo_q_called\<lparr>q_Status := Q_CANCELLED, q_UpdatedAt := 70, q_Version := 4,
     q_ReconciliationReason := Some ''sold''\<rparr>) demo_q_called"

definition demo_q_next :: QueueRow where
  "demo_q_next = queue_set_columns (demo_q_second\<lparr>q_Status := Q_CALLED_UP, q_UpdatedAt := 70, q_Version := 3,
     q_CalledUpAt := Some 70, q_GraceDeadline := Some 170\<rparr>) demo_q_second"

lemma demo_queue_checks: "truck_queue_check demo_q_called" "truck_queue_check demo_q_second"
proof -
  have inv: "db_inv demo_q3" by (rule wire_reachable_inv [OF demo_wire demo_queue_run(3)])
  then have "\<forall>q\<in>set (truck_queue_requests demo_q3). truck_queue_check q" by (auto simp: db_inv_def queue_ok_def)
  then show "truck_queue_check demo_q_called" "truck_queue_check demo_q_second" by simp_all
qed

lemma demo_queue_cancelled:
  "\<exists>ob. queue_Cancel demo_queue (rq_ctx (demo_rq demo_claims) 0) ''qxxx'' 3 ''sold'' demo_trucker (demo_env 70 ''cn'') demo_q3 =
    (Inr (demo_q_gone, Some demo_q_next), demo_q3\<lparr>truck_queue_requests := [demo_q_gone, demo_q_next], platform_outbox := ob\<rparr>)"
proof -
  let ?e = "demo_env 70 ''cn''" and ?e2 = "later 1 0 (later 1 2 (demo_env 70 ''cn''))"
  have w: "queue_write_error ''tenant-demo'' demo_q3 demo_q_gone = None"
    using demo_queue_checks(1)
    by (simp add: queue_write_error_def enforce_terminal_callup_capacity_def called_up_def position_conflict_def demo_q_gone_def
        truck_queue_check_def queue_set_columns_def)
  obtain o1 where tr1: "queue_transitionTx demo_queue demo_claims demo_q_called Q_CANCELLED (\<lambda>u. u\<lparr>q_ReconciliationReason := Some ''sold''\<rparr>)
      ''queue.cancelled'' [(''reason'', ''sold'')] demo_trucker ?e demo_q3 =
      Inr (demo_q_gone, demo_q3\<lparr>truck_queue_requests := [demo_q_gone, demo_q_second], platform_outbox := platform_outbox demo_q3 @ [o1]\<rparr>)"
    and o1: "o_EventID o1 = ''cnx''"
    using queue_transition_demo [of demo_q_called Q_CANCELLED demo_q3 demo_q_called _ "\<lambda>u. u\<lparr>q_ReconciliationReason := Some ''sold''\<rparr>" ?e
        "''queue.cancelled''" "[(''reason'', ''sold'')]", OF _ _ refl] w
    by (auto simp: queue_ValidTransition_def queue_target_def demo_q_gone_def update_where_def go_simps)
  let ?d1 = "demo_q3\<lparr>truck_queue_requests := [demo_q_gone, demo_q_second], platform_outbox := platform_outbox demo_q3 @ [o1]\<rparr>"
  have gone: "q_Status demo_q_gone = Q_CANCELLED" "q_TenantID demo_q_gone = ''tenant-demo''" "q_QueueRequestID demo_q_gone = ''qxxx''"
    "q_TerminalID demo_q_gone = ''APAPA''" "q_Position demo_q_gone = Some 1"
    by (simp_all add: demo_q_gone_def queue_set_columns_def)
  have t: "find_terminal ''tenant-demo'' ?d1 ''APAPA'' = Some (hd (port_terminals demo1))"
    using demo1_facts(6) by (simp add: find_terminal_def)
  have v: "queue_validateTerminalID ''APAPA'' = None"
    by (simp add: queue_validateTerminalID_def terminalPattern_def go_simps del: match_regex.simps)
  have w2: "queue_write_error ''tenant-demo'' ?d1 demo_q_next = None"
    using demo_queue_checks(2) t gone
    by (simp add: queue_write_error_def enforce_terminal_callup_capacity_def called_up_def position_conflict_def demo_q_next_def
        truck_queue_check_def queue_set_columns_def in_callup_def)
  have h: "head_of_queue ''tenant-demo'' ?d1 ''APAPA'' = Some demo_q_second"
    by (simp add: head_of_queue_def queued_at_def gone)
  have a: "active_callups ''tenant-demo'' ?d1 ''APAPA'' = 0"
    by (simp add: active_callups_def in_callup_def called_up_def gone)
  have e2: "clk ?e2 n = 70" "rnd ?e2 n = ''cn'' @ replicate (n + 2) (CHR ''x'')" for n by (simp_all add: later_def demo_env_def)
  obtain o2 where "queue_transitionTx demo_queue demo_claims demo_q_second Q_CALLED_UP
      (\<lambda>u. u\<lparr>q_CalledUpAt := Some 70, q_GraceDeadline := Some (70 + 100)\<rparr>) ''queue.called_up''
      [(''terminal-id'', ''APAPA''), (''grace-deadline'', rfc3339 (70 + 100))] demo_trucker ?e2 ?d1 =
      Inr (demo_q_next, ?d1\<lparr>truck_queue_requests := [demo_q_gone, demo_q_next], platform_outbox := (platform_outbox demo_q3 @ [o1]) @ [o2]\<rparr>)"
    using queue_transition_demo [of demo_q_second Q_CALLED_UP ?d1 demo_q_second _
        "\<lambda>u. u\<lparr>q_CalledUpAt := Some 70, q_GraceDeadline := Some (70 + 100)\<rparr>" ?e2
        "''queue.called_up''" "[(''terminal-id'', ''APAPA''), (''grace-deadline'', rfc3339 (70 + 100))]", OF _ _ refl] w2 gone o1
    unfolding e2 by (auto simp: queue_ValidTransition_def queue_target_def demo_q_next_def update_where_def go_simps)
  then show ?thesis
    by (simp add: queue_Cancel_def WithTx_demo_rq queue_Cancel_work_def queue_getForUpdate_def find_queue_def tr1 promote_if_def called_up_def
        promoteNextTx_def v lockTerminal_def t a h Let_def) (rule exI, rule refl)
qed

theorem answered_callups_supervised_witness:
  "\<exists>d'. cancelQueueRequest demo_server (demo_rq demo_claims) ''qxxx'' (Some (3, ''sold'')) (demo_env 70 ''cn'') demo_q3 () =
     (Answered 200 demo_q_gone, d', ()) \<and> demo_q_next \<in> set (truck_queue_requests d')
   \<and> (\<exists>deadline o1. q_GraceDeadline demo_q_next = Some deadline
        \<and> sv_StartCallUpWorkflow demo_server (callup_input (demo_rq demo_claims) ''callup-engine'' demo_q_next deadline) () = (Inr (), o1))"
proof -
  obtain ob where c: "queue_Cancel demo_queue (rq_ctx (demo_rq demo_claims) 0) ''qxxx'' 3 ''sold'' demo_trucker (demo_env 70 ''cn'') demo_q3 =
      (Inr (demo_q_gone, Some demo_q_next), demo_q3\<lparr>truck_queue_requests := [demo_q_gone, demo_q_next], platform_outbox := ob\<rparr>)" (is "_ = (_, ?d)")
    using demo_queue_cancelled by blast
  have "principalOf (demo_rq demo_claims) ''trucker'' = demo_trucker" by (simp add: principalOf_def demo_rq_def demo_trucker_def)
  moreover have "sv_queues demo_server = demo_queue" by (simp add: demo_server_def)
  moreover have "startPromotedCallUps demo_server (demo_rq demo_claims) (Some demo_q_next) () = (Inr (), ())"
    by (simp add: startPromotedCallUps_def demo_server_def demo_q_next_def queue_set_columns_def)
  moreover have "TrimSpace ''sold'' \<noteq> []" by (simp add: go_simps)
  ultimately have run: "cancelQueueRequest demo_server (demo_rq demo_claims) ''qxxx'' (Some (3, ''sold'')) (demo_env 70 ''cn'') demo_q3 () =
      (Answered 200 demo_q_gone, ?d, ())" using c by (simp add: cancelQueueRequest_def)
  have st: "q_Status demo_q_next = Q_CALLED_UP" "q_QueueRequestID demo_q_next = ''rxxx''"
    by (simp_all add: demo_q_next_def queue_set_columns_def)
  have inv: "db_inv demo_q3" by (rule wire_reachable_inv [OF demo_wire demo_queue_run(3)])
  have "demo_q_next \<noteq> demo_q_called" "demo_q_next \<noteq> demo_q_second" using st by auto
  then have "demo_q_next \<notin> set (truck_queue_requests demo_q3)" by simp
  from answered_callups_supervised [OF inv _ this _ disjI2, OF _ _ run] st run show ?thesis by (simp add: called_up_def)
qed

end
