(* ===== verification/Ussd.thy ===== *)
theory Ussd
  imports Http_Booking
begin

text \<open>
  \<^verbatim>\<open>src/internal/ussd\<close>: the menu a phone walks through to book a slot, join a queue or ask
  for a status, and the callback around it. The Redis client is a parameter: the sessions
  it holds (an expired key is absent) and whether this callback's read and writes fail.
  A reply that ends with an error's text carries the error. \<open>upper\<close> is \<open>unicode.ToUpper\<close>
  applied to a text that is not plain ASCII.
\<close>

section \<open>Sessions\<close>

record Session =
  ss_PendingSlotID :: string
  ss_PendingTerminalID :: string
  ss_BookedID :: string
  ss_QueueRequestID :: string
  ss_UpdatedAt :: int

record redis =
  rd_sessions :: "string \<Rightarrow> Session option"
  rd_get_err :: "go_error option"
  rd_put_err :: "go_error option"

definition empty_session :: Session where
  "empty_session = \<lparr>ss_PendingSlotID = [], ss_PendingTerminalID = [], ss_BookedID = [], ss_QueueRequestID = [], ss_UpdatedAt = 0\<rparr>"

definition NewSessionStore :: "redis option \<Rightarrow> int \<Rightarrow> (redis \<times> int) result" where
  "NewSessionStore client ttl =
     (case client of
        None \<Rightarrow> Inl (ErrText ''USSD session store requires a configured Redis client'')
      | Some r \<Rightarrow> if ttl \<le> 0 then Inl (ErrText ''USSD session TTL must be positive'') else Inr (r, ttl))"

definition session_key :: "string \<Rightarrow> string" where
  "session_key sessionID = ''ussd:session:'' @ sessionID"

definition session_Get :: "redis \<Rightarrow> string \<Rightarrow> Session result" where
  "session_Get r sessionID =
     (case rd_get_err r of
        Some err \<Rightarrow> Inl (Wrapf ''read USSD session'' err)
      | None \<Rightarrow> (case rd_sessions r (session_key sessionID) of None \<Rightarrow> Inr empty_session | Some s \<Rightarrow> Inr s))"

definition session_Put :: "redis \<Rightarrow> string \<Rightarrow> Session \<Rightarrow> env \<Rightarrow> redis result" where
  "session_Put r sessionID session e =
     (case rd_put_err r of
        Some err \<Rightarrow> Inl (Wrapf ''write USSD session'' err)
      | None \<Rightarrow> Inr (r\<lparr>rd_sessions := (rd_sessions r)(session_key sessionID \<mapsto> session\<lparr>ss_UpdatedAt := clk e 0 div 1000000\<rparr>)\<rparr>))"

section \<open>Phone numbers\<close>

definition NormalizeMSISDN :: "string \<Rightarrow> string result" where
  "NormalizeMSISDN value =
     (let trimmed = TrimSpace value in
      if trimmed = [] \<or> len trimmed > 32 then Inl (ErrText ''phoneNumber is missing or too long'')
      else if \<not> list_all (\<lambda>c. is_digit c \<or> c = CHR ''+'') trimmed then Inl (ErrText ''phoneNumber carries invalid characters'')
      else let digits = msisdn_digits trimmed in
        if len digits < 8 \<or> len digits > 15 then Inl (ErrText ''phoneNumber must carry 8 to 15 digits'')
        else Inr (CHR ''+'' # digits))"

section \<open>Texts\<close>

definition nl :: string where "nl = [CHR 0x0A]"

fun booking_status_text :: "BStatus \<Rightarrow> string" where
  "booking_status_text B_DRAFTED = ''DRAFTED''"
| "booking_status_text B_PENDING_SYNC = ''PENDING_SYNC''"
| "booking_status_text B_SLOT_RESERVED = ''SLOT_RESERVED''"
| "booking_status_text B_PAID = ''PAID''"
| "booking_status_text B_VALIDATION_PENDING = ''VALIDATION_PENDING''"
| "booking_status_text B_GATE_APPROVED = ''GATE_APPROVED''"
| "booking_status_text B_COMPLETED = ''COMPLETED''"
| "booking_status_text B_CANCELLED = ''CANCELLED''"
| "booking_status_text B_EXPIRED = ''EXPIRED''"
| "booking_status_text B_REJECTED = ''REJECTED''"
| "booking_status_text B_RECONCILIATION_REQUIRED = ''RECONCILIATION_REQUIRED''"
| "booking_status_text B_REFUNDED = ''REFUNDED''"

fun queue_status_text :: "QStatus \<Rightarrow> string" where
  "queue_status_text Q_REQUESTED = ''REQUESTED''"
| "queue_status_text Q_QUEUED = ''QUEUED''"
| "queue_status_text Q_CALLED_UP = ''CALLED_UP''"
| "queue_status_text Q_EN_ROUTE = ''EN_ROUTE''"
| "queue_status_text Q_ARRIVED = ''ARRIVED''"
| "queue_status_text Q_CANCELLED = ''CANCELLED''"
| "queue_status_text Q_EXPIRED = ''EXPIRED''"
| "queue_status_text Q_FORFEITED = ''FORFEITED''"
| "queue_status_text Q_RECONCILIATION_REQUIRED = ''RECONCILIATION_REQUIRED''"

definition month_text :: "int \<Rightarrow> string" where
  "month_text m =
     [''Jan'', ''Feb'', ''Mar'', ''Apr'', ''May'', ''Jun'', ''Jul'', ''Aug'', ''Sep'', ''Oct'', ''Nov'', ''Dec''] ! nat (m - 1)"

text \<open>\<open>Format("15:04 02 Jan")\<close> of a UTC instant.\<close>

definition clock_text :: "time \<Rightarrow> string" where
  "clock_text t =
     (let secs = t div 1000000; s = secs mod 86400 in
      case civil_of_days (secs div 86400) of (y, m, d) \<Rightarrow>
        two (s div 3600) @ '':'' @ two (s mod 3600 div 60) @ '' '' @ two d @ '' '' @ month_text m)"

datatype ussd_reply = CON string | END string | END_error string go_error

definition menu :: string where
  "menu = ''Welcome to eCallUp 2.0'' @ nl @ ''1. Booking status'' @ nl @ ''2. Book a slot'' @ nl @ ''3. Request queue entry'' @ nl
     @ ''4. Check queue position''"

definition queueStatusReply :: "QueueRow \<Rightarrow> ussd_reply" where
  "queueStatusReply q =
     END (''Queue '' @ q_QueueRequestID q @ nl @ ''Terminal: '' @ q_TerminalID q @ nl
       @ ''Position: '' @ (case q_Position q of None \<Rightarrow> ''unassigned'' | Some p \<Rightarrow> fmt_d p) @ nl
       @ ''Status: '' @ queue_status_text (q_Status q)
       @ (case q_GraceDeadline q of
            Some t \<Rightarrow> if q_Status q = Q_CALLED_UP then nl @ ''Called up! Arrive by '' @ clock_text t else []
          | None \<Rightarrow> [])
       @ (case q_ArrivedAt q of
            Some t \<Rightarrow> if q_Status q = Q_ARRIVED then nl @ ''Arrived at '' @ clock_text t else []
          | None \<Rightarrow> []))"

section \<open>The menu\<close>

record 'l Handler =
  hd_directory :: "'l BookingDirectory"
  hd_queues :: "'l QueueDirectory"
  hd_upper :: "string \<Rightarrow> string"

text \<open>The part of the dialogue at index \<open>i\<close>, trimmed, and whether it is missing or blank.\<close>

definition part :: "string list \<Rightarrow> nat \<Rightarrow> string" where
  "part parts i = TrimSpace (parts ! i)"

definition blank :: "string list \<Rightarrow> nat \<Rightarrow> bool" where
  "blank parts i \<longleftrightarrow> length parts = i \<or> part parts i = []"

definition put_reply :: "redis \<Rightarrow> string \<Rightarrow> Session \<Rightarrow> env \<Rightarrow> ussd_reply \<Rightarrow> db \<Rightarrow> ussd_reply result \<times> db \<times> redis" where
  "put_reply r sessionKey session e reply d =
     (case session_Put r sessionKey session e of Inl err \<Rightarrow> (Inl err, d, r) | Inr r' \<Rightarrow> (Inr reply, d, r'))"

definition step_book ::
  "'l Handler \<Rightarrow> request \<Rightarrow> string \<Rightarrow> string \<Rightarrow> string list \<Rightarrow> Session \<Rightarrow> env \<Rightarrow> db \<Rightarrow> redis \<Rightarrow> ussd_reply result \<times> db \<times> redis" where
  "step_book h rq sessionID phoneNumber parts session e d r =
     (let sessionKey = phoneNumber @ '':'' @ sessionID in
      if blank parts 1 then (Inr (CON ''Enter slot ID''), d, r)
      else if blank parts 2
      then put_reply r sessionKey (session\<lparr>ss_PendingSlotID := part parts 1\<rparr>) e (CON ''Enter truck plate'') d
      else let slotID = part parts 1 in
        if ss_PendingSlotID session \<noteq> [] \<and> ss_PendingSlotID session \<noteq> slotID
        then (Inr (END ''Slot changed mid-session; start again''), d, r)
        else (case BookSlotByID (hd_directory h) (rq_ctx rq) slotID (ToUpper (hd_upper h) (part parts 2)) phoneNumber
                     (''ussd-'' @ sessionID) (later 1 0 e) d of
          (Inl err, d') \<Rightarrow>
            if errors_Is err ErrSlotUnavailable then (Inr (END ''Slot is full; choose another slot''), d', r)
            else if errors_Is err (ErrNotFound Booking) then (Inr (END ''Unknown slot''), d', r)
            else (Inr (END_error ''Booking could not be completed: '' err), d', r)
        | (Inr reserved, d') \<Rightarrow>
            put_reply r sessionKey (session\<lparr>ss_PendingSlotID := [], ss_BookedID := b_BookingID reserved\<rparr>) e
              (END (''Booking confirmed'' @ nl @ ''ID: '' @ b_BookingID reserved @ nl @ ''Status: ''
                 @ booking_status_text (b_Status reserved))) d'))"

definition step_queue ::
  "'l Handler \<Rightarrow> request \<Rightarrow> string \<Rightarrow> string \<Rightarrow> string list \<Rightarrow> Session \<Rightarrow> env \<Rightarrow> db \<Rightarrow> redis \<Rightarrow> ussd_reply result \<times> db \<times> redis" where
  "step_queue h rq sessionID phoneNumber parts session e d r =
     (let sessionKey = phoneNumber @ '':'' @ sessionID in
      if blank parts 1 then (Inr (CON ''Enter terminal code''), d, r)
      else if blank parts 2
      then put_reply r sessionKey (session\<lparr>ss_PendingTerminalID := ToUpper (hd_upper h) (part parts 1)\<rparr>) e (CON ''Enter truck plate'') d
      else let terminalID = ToUpper (hd_upper h) (part parts 1) in
        if ss_PendingTerminalID session \<noteq> [] \<and> ss_PendingTerminalID session \<noteq> terminalID
        then (Inr (END ''Terminal changed mid-session; start again''), d, r)
        else (case RequestQueueEntry (hd_queues h) (rq_ctx rq 0) terminalID (ToUpper (hd_upper h) (part parts 2)) phoneNumber
                     (''ussd-q-'' @ sessionID) (later 1 0 e) d of
          (Inl err, d') \<Rightarrow>
            if errors_Is err (ErrNotFound Queue) then (Inr (END ''Unknown terminal''), d', r)
            else (Inr (END_error ''Queue entry could not be completed: '' err), d', r)
        | (Inr queued, d') \<Rightarrow>
            put_reply r sessionKey (session\<lparr>ss_PendingTerminalID := [], ss_QueueRequestID := q_QueueRequestID queued\<rparr>) e
              (END (''Queue entry confirmed'' @ nl @ ''ID: '' @ q_QueueRequestID queued @ nl @ ''Terminal: '' @ q_TerminalID queued @ nl
                 @ ''Position: '' @ fmt_d (case q_Position queued of None \<Rightarrow> 0 | Some p \<Rightarrow> p) @ nl
                 @ ''Status: '' @ queue_status_text (q_Status queued))) d'))"

definition step ::
  "'l Handler \<Rightarrow> request \<Rightarrow> string \<Rightarrow> string \<Rightarrow> string \<Rightarrow> env \<Rightarrow> db \<Rightarrow> redis \<Rightarrow> ussd_reply result \<times> db \<times> redis" where
  "step h rq sessionID phoneNumber text e d r =
     (let sessionKey = phoneNumber @ '':'' @ sessionID in
      case session_Get r sessionKey of
        Inl err \<Rightarrow> (Inl err, d, r)
      | Inr session \<Rightarrow>
         let parts = split_on (CHR ''*'') text in
         if text = [] then (Inr (CON menu), d, r)
         else if parts ! 0 = ''1''
         then (if blank parts 1 then (Inr (CON ''Enter booking ID''), d, r)
               else (case BookingStatus (rq_ctx rq 0) (part parts 1) phoneNumber d of
                       (Inl err, d') \<Rightarrow>
                         if errors_Is err (ErrNotFound Booking) then (Inr (END ''Booking not found''), d', r) else (Inl err, d', r)
                     | (Inr found, d') \<Rightarrow>
                         (Inr (END (''Booking '' @ b_BookingID found @ nl @ ''Status: '' @ booking_status_text (b_Status found) @ nl
                            @ ''Plate: '' @ b_TruckPlate found)), d', r)))
         else if parts ! 0 = ''2'' then step_book h rq sessionID phoneNumber parts session e d r
         else if parts ! 0 = ''3'' then step_queue h rq sessionID phoneNumber parts session e d r
         else if parts ! 0 = ''4''
         then (let queueRequestID = (if length parts > 1 \<and> part parts 1 \<noteq> [] then part parts 1 else ss_QueueRequestID session) in
               if queueRequestID = [] then (Inr (CON ''Enter queue request ID''), d, r)
               else (case QueueStatus (rq_ctx rq 0) queueRequestID phoneNumber d of
                       (Inl err, d') \<Rightarrow>
                         if errors_Is err (ErrNotFound Queue) then (Inr (END ''Queue request not found''), d', r) else (Inl err, d', r)
                     | (Inr found, d') \<Rightarrow> (Inr (queueStatusReply found), d', r)))
         else (Inr (END ''Invalid choice''), d, r))"

text \<open>The callback: \<open>form\<close> is the parsed form (\<open>None\<close> when it does not parse) as session id, number and text.\<close>

definition Callback ::
  "'l Handler \<Rightarrow> request \<Rightarrow> bool \<Rightarrow> (string \<times> string \<times> string) option \<Rightarrow> env \<Rightarrow> db \<Rightarrow> redis \<Rightarrow> ussd_reply reply \<times> db \<times> redis" where
  "Callback h rq is_post form e d r =
     (if \<not> is_post then (Failed (405, Text ''method not allowed''), d, r)
      else case form of
        None \<Rightarrow> (Failed (400, Text ''invalid form''), d, r)
      | Some (sid, number, text) \<Rightarrow>
         let sessionID = TrimSpace sid in
         (case NormalizeMSISDN number of
            Inl _ \<Rightarrow> (Failed (400, Text ''valid sessionId and phoneNumber are required''), d, r)
          | Inr phoneNumber \<Rightarrow>
             if sessionID = [] \<or> len sessionID > 128 then (Failed (400, Text ''valid sessionId and phoneNumber are required''), d, r)
             else (case step h rq sessionID phoneNumber text e d r of
                     (Inl _, d', r') \<Rightarrow> (Failed (503, Text ''session store unavailable''), d', r')
                   | (Inr reply, d', r') \<Rightarrow> (Answered 200 reply, d', r'))))"

section \<open>A number is normalised once and for all\<close>

lemma msisdn_digits_id: "list_all is_digit s \<Longrightarrow> msisdn_digits s = s"
  by (simp add: msisdn_digits_def list_all_iff filter_id_conv)

lemma digits_trimmed:
  assumes "list_all is_digit ds" and "ds \<noteq> []"
  shows "TrimSpace (CHR ''+'' # ds) = CHR ''+'' # ds"
proof (rule TrimSpace_visible)
  have "is_digit (last ds)" using assms by (simp add: list_all_iff)
  then show "33 \<le> byte (last (CHR ''+'' # ds))" "byte (last (CHR ''+'' # ds)) \<le> 127" using assms(2) by (simp_all add: is_digit_def)
qed simp_all

text \<open>
  A session's number is canonical: what \<open>NormalizeMSISDN\<close> answers is a plus sign and
  8 to 15 digits, the form the booking store accepts; it is the digits of the text the
  carrier sent, matches that text, and normalising it again gives it back.
\<close>

theorem NormalizeMSISDN_canonical:
  assumes "NormalizeMSISDN v = Inr p"
  shows "match_regex msisdnPattern p \<and> p = CHR ''+'' # msisdn_digits (TrimSpace v) \<and> NormalizeMSISDN p = Inr p"
proof -
  let ?ds = "msisdn_digits (TrimSpace v)"
  from assms have p: "p = CHR ''+'' # ?ds" and l: "8 \<le> length ?ds" "length ?ds \<le> 15"
    by (auto simp: NormalizeMSISDN_def Let_def split: if_splits)
  have ds: "list_all is_digit ?ds" by (simp add: msisdn_digits_def list_all_iff)
  have "?ds \<noteq> []" using l by auto
  note t = digits_trimmed [OF ds this]
  have "match_regex msisdnPattern p"
    using l ds by (simp add: p msisdnPattern_def match_regex_head_tail del: match_regex.simps)
  moreover have "msisdn_digits p = ?ds" using msisdn_digits_id [OF ds] by (simp add: p msisdn_digits_def is_digit_def)
  moreover have "list_all (\<lambda>c. is_digit c \<or> c = CHR ''+'') p" using ds by (auto simp: p list_all_iff)
  ultimately show ?thesis using l t by (simp add: NormalizeMSISDN_def Let_def p)
qed

theorem NormalizeMSISDN_canonical_witness:
  "NormalizeMSISDN ''08031234567'' = Inr ''+08031234567'' \<and> match_regex msisdnPattern ''+08031234567''"
proof -
  have n: "NormalizeMSISDN ''08031234567'' = Inr ''+08031234567''"
    by (simp add: NormalizeMSISDN_def msisdn_digits_def is_digit_def go_simps Let_def)
  from NormalizeMSISDN_canonical [OF n] n show ?thesis by blast
qed

section \<open>A phone sees its own entries\<close>

lemma BookingStatus_cases:
  assumes "BookingStatus c k phone d = (r, d')"
  shows "d' = d \<and> (case r of Inl _ \<Rightarrow> True | Inr b \<Rightarrow> \<exists>claims. ctx_claims c = Some claims \<and> b \<in> set (truck_bookings d)
    \<and> b_TenantID b = TenantID claims \<and> b_BookingID b = k \<and> msisdnMatches (b_TruckerMSISDN b) phone)"
proof -
  obtain g dg where G: "Get c k d = (g, dg)" by fastforce
  have "b \<in> set (truck_bookings d) \<and> b_TenantID b = TenantID claims \<and> b_BookingID b = k"
    if "g = Inr b" "ctx_claims c = Some claims" for b claims using Get_InrD G that by blast
  moreover have "\<exists>claims. ctx_claims c = Some claims" if "g = Inr b" for b
    using G that by (auto simp: Get_def dest!: WithTx_InrD)
  ultimately show ?thesis using assms G Get_db [OF G]
    by (auto simp: BookingStatus_def split: sum.splits if_splits)
qed

lemma QueueStatus_cases:
  assumes "QueueStatus c k phone d = (r, d')"
  shows "d' = d \<and> (case r of Inl _ \<Rightarrow> True | Inr q \<Rightarrow> \<exists>claims. ctx_claims c = Some claims \<and> q \<in> set (truck_queue_requests d)
    \<and> q_TenantID q = TenantID claims \<and> q_QueueRequestID q = k \<and> msisdnMatches (q_TruckerMSISDN q) phone)"
proof -
  obtain g dg where G: "queue_Get c k d = (g, dg)" by fastforce
  have "dg = d" using G by (auto simp: queue_Get_def bindE_Inr_iff elim!: WithTx_cases)
  moreover have "\<exists>claims. ctx_claims c = Some claims \<and> q \<in> set (truck_queue_requests d) \<and> q_TenantID q = TenantID claims
      \<and> q_QueueRequestID q = k" if "g = Inr q" for q
    using G that by (auto simp: queue_Get_def bindE_Inr_iff dest!: WithTx_InrD queue_getForUpdate_InrD)
  ultimately show ?thesis using assms G
    by (auto simp: QueueStatus_def split: sum.splits if_splits)
qed

text \<open>
  An international number of \<open>n\<close> digits. Between two of them the suffix comparison of
  \<open>msisdnMatches\<close> is equality.
\<close>

definition international :: "nat \<Rightarrow> string \<Rightarrow> bool" where
  "international n p \<longleftrightarrow> length p = n + 1 \<and> p ! 0 = CHR ''+'' \<and> list_all is_digit (tl p) \<and> tl p \<noteq> [] \<and> hd (tl p) \<noteq> CHR ''0''"

lemma internationalD:
  assumes "international n p"
  shows "p = CHR ''+'' # msisdn_digits p" and "length (msisdn_digits p) = n" and "trim_zeros (msisdn_digits p) = msisdn_digits p"
proof -
  from assms obtain ds where p: "p = CHR ''+'' # ds" and ds: "list_all is_digit ds" "ds \<noteq> []" "hd ds \<noteq> CHR ''0''" "length ds = n"
    by (cases p) (auto simp: international_def)
  have "msisdn_digits p = ds" using msisdn_digits_id [OF ds(1)] by (simp add: p msisdn_digits_def is_digit_def)
  with p ds show "p = CHR ''+'' # msisdn_digits p" "length (msisdn_digits p) = n" "trim_zeros (msisdn_digits p) = msisdn_digits p"
    by (simp_all add: trim_zeros_id)
qed

lemma international_matches:
  assumes "international n a" and "international n b" and "msisdnMatches a b"
  shows "a = b"
proof -
  note a = internationalD [OF assms(1)] and b = internationalD [OF assms(2)]
  have "msisdn_digits a = msisdn_digits b"
    using assms(3) a(2,3) b(2,3) by (auto simp: msisdnMatches_def Let_def split: if_splits dest: suffix_same_length)
  with a(1) b(1) show ?thesis by simp
qed

text \<open>What choices 1 and 4 can answer.\<close>

definition own_entry_reply :: "request \<Rightarrow> (string \<Rightarrow> bool) \<Rightarrow> db \<Rightarrow> ussd_reply \<Rightarrow> bool" where
  "own_entry_reply rq own d y \<longleftrightarrow> (\<exists>claims. rq_claims rq = Some claims \<and>
     ((\<exists>b\<in>set (truck_bookings d). b_TenantID b = TenantID claims \<and> own (b_TruckerMSISDN b)
         \<and> y = END (''Booking '' @ b_BookingID b @ nl @ ''Status: '' @ booking_status_text (b_Status b) @ nl @ ''Plate: '' @ b_TruckPlate b))
      \<or> (\<exists>q\<in>set (truck_queue_requests d). q_TenantID q = TenantID claims \<and> own (q_TruckerMSISDN q) \<and> y = queueStatusReply q)))"

definition status_prompts :: "ussd_reply set" where
  "status_prompts = {CON ''Enter booking ID'', CON ''Enter queue request ID'', END ''Booking not found'', END ''Queue request not found''}"

lemma step_status:
  assumes "step h rq sid phone text e d r = (y, d', r')" and "text \<noteq> []"
    and "hd (split_on (CHR ''*'') text) \<in> {''1'', ''4''}"
  shows "d' = d \<and> r' = r \<and> (case y of Inl _ \<Rightarrow> True
    | Inr s \<Rightarrow> s \<in> status_prompts \<or> own_entry_reply rq (\<lambda>number. msisdnMatches number phone) d s)"
proof (cases "session_Get r (phone @ '':'' @ sid)")
  case (Inl err)
  with assms(1) show ?thesis by (auto simp: step_def Let_def)
next
  case (Inr session)
  let ?parts = "split_on (CHR ''*'') text"
  have hd: "?parts ! 0 = hd ?parts" by (simp add: hd_conv_nth split_on_ne)
  from assms(3) consider "hd ?parts = ''1''" | "hd ?parts = ''4''" by blast
  then show ?thesis
  proof cases
    assume one: "hd ?parts = ''1''"
    obtain b db where B: "BookingStatus (rq_ctx rq 0) (part ?parts 1) phone d = (b, db)" by fastforce
    show ?thesis using assms(1,2) Inr one hd B BookingStatus_cases [OF B]
      by (auto simp: step_def Let_def status_prompts_def own_entry_reply_def split: if_splits sum.splits)
  next
    assume four: "hd ?parts = ''4''"
    define k where "k = (if length ?parts > 1 \<and> part ?parts 1 \<noteq> [] then part ?parts 1 else ss_QueueRequestID session)"
    obtain q dq where Q: "QueueStatus (rq_ctx rq 0) k phone d = (q, dq)" by fastforce
    have "step h rq sid phone text e d r =
        (if k = [] then (Inr (CON ''Enter queue request ID''), d, r)
         else case q of Inl err \<Rightarrow> if errors_Is err (ErrNotFound Queue) then (Inr (END ''Queue request not found''), dq, r) else (Inl err, dq, r)
           | Inr found \<Rightarrow> (Inr (queueStatusReply found), dq, r))"
      using assms(2) Inr four hd Q by (simp add: step_def Let_def k_def split: sum.splits)
    with assms(1) QueueStatus_cases [OF Q] show ?thesis
      by (auto simp: status_prompts_def own_entry_reply_def split: if_splits sum.splits)
  qed
qed

text \<open>
  Claim C35. A phone sees its own entries only. Let the session's number and the numbers recorded
  for bookings and queue requests be international numbers with the same count of digits, as
  Nigerian mobile numbers are. Whatever is typed after choices 1 and 4, the callback changes
  neither the database nor the sessions; it answers an error, one of the four fixed prompts of
  these choices, or the details of a booking or queue request of the gateway's tenant whose
  recorded number is exactly the number of the session.
\<close>

theorem status_replies_private:
  assumes "Callback h rq True (Some (sid, number, text)) e d r = (reply, d', r')"
    and "text \<noteq> []" and "hd (split_on (CHR ''*'') text) \<in> {''1'', ''4''}"
    and "NormalizeMSISDN number = Inr phone" and "international n phone"
    and "\<forall>b\<in>set (truck_bookings d). international n (b_TruckerMSISDN b)"
    and "\<forall>q\<in>set (truck_queue_requests d). international n (q_TruckerMSISDN q)"
  shows "d' = d \<and> r' = r \<and> (case reply of Failed _ \<Rightarrow> True | Answered status y \<Rightarrow> status = 200
    \<and> (y = CON ''Enter booking ID'' \<or> y = CON ''Enter queue request ID'' \<or> y = END ''Booking not found'' \<or> y = END ''Queue request not found''
       \<or> (\<exists>claims. rq_claims rq = Some claims \<and>
           ((\<exists>b\<in>set (truck_bookings d). b_TenantID b = TenantID claims \<and> b_TruckerMSISDN b = phone
               \<and> y = END (''Booking '' @ b_BookingID b @ nl @ ''Status: '' @ booking_status_text (b_Status b) @ nl @ ''Plate: '' @ b_TruckPlate b))
            \<or> (\<exists>q\<in>set (truck_queue_requests d). q_TenantID q = TenantID claims \<and> q_TruckerMSISDN q = phone \<and> y = queueStatusReply q)))))"
proof (cases "TrimSpace sid = [] \<or> len (TrimSpace sid) > 128")
  case True
  with assms(1,4) show ?thesis by (auto simp: Callback_def Let_def)
next
  case False
  obtain y d1 r1 where S: "step h rq (TrimSpace sid) phone text e d r = (y, d1, r1)" by (metis prod_cases3)
  have run: "(reply, d', r') = (case y of Inl _ \<Rightarrow> (Failed (503, Text ''session store unavailable''), d1, r1) | Inr s \<Rightarrow> (Answered 200 s, d1, r1))"
    using assms(1,4) False S by (auto simp: Callback_def Let_def split: sum.splits)
  note st = step_status [OF S assms(2,3)]
  show ?thesis
  proof (cases y)
    case (Inl err)
    with run st show ?thesis by simp
  next
    case (Inr s)
    have "own_entry_reply rq (\<lambda>number. number = phone) d s" if "own_entry_reply rq (\<lambda>number. msisdnMatches number phone) d s"
      using that assms(5-7) international_matches unfolding own_entry_reply_def by blast
    with Inr run st show ?thesis by (simp add: status_prompts_def own_entry_reply_def) blast
  qed
qed

definition demo_redis :: redis where
  "demo_redis = \<lparr>rd_sessions = (\<lambda>_. None), rd_get_err = None, rd_put_err = None\<rparr>"

definition demo_handler :: "tb_transfer list Handler" where
  "demo_handler = \<lparr>hd_directory = \<lparr>bd_store = demo_store, bd_principal = demo_pr\<rparr>,
     hd_queues = \<lparr>qd_store = demo_queue, qd_principal = demo_pr\<rparr>, hd_upper = id\<rparr>"

theorem status_replies_private_witness:
  "Callback demo_handler (demo_rq demo_claims) True (Some (''s'', ''+2348031234567'', ''1*bk'')) (demo_env 60 ''u'') demo5 demo_redis =
     (Answered 200 (END (''Booking bk'' @ nl @ ''Status: SLOT_RESERVED'' @ nl @ ''Plate: LAG-123'')), demo5, demo_redis)
   \<and> (\<exists>b\<in>set (truck_bookings demo5). b_TruckerMSISDN b = ''+2348031234567'')"
proof -
  have m: "b_TruckerMSISDN demo_reserved = ''+2348031234567''" "b_TruckPlate demo_reserved = ''LAG-123''"
    by (simp_all add: demo_reserved_def demo_row_defs)
  have "msisdnMatches ''+2348031234567'' ''+2348031234567''"
    by (simp add: msisdnMatches_def msisdn_digits_def trim_zeros_def is_digit_def)
  then have "step demo_handler (demo_rq demo_claims) ''s'' ''+2348031234567'' ''1*bk'' (demo_env 60 ''u'') demo5 demo_redis =
      (Inr (END (''Booking bk'' @ nl @ ''Status: SLOT_RESERVED'' @ nl @ ''Plate: LAG-123'')), demo5, demo_redis)"
    by (simp add: step_def session_Get_def demo_redis_def blank_def part_def BookingStatus_def Get_def WithTx_demo_rq getForUpdate_def
        find_booking_def m go_simps Let_def)
  moreover have n: "NormalizeMSISDN ''+2348031234567'' = Inr ''+2348031234567''"
    by (simp add: NormalizeMSISDN_def msisdn_digits_def is_digit_def go_simps Let_def)
  ultimately have run: "Callback demo_handler (demo_rq demo_claims) True (Some (''s'', ''+2348031234567'', ''1*bk'')) (demo_env 60 ''u'') demo5 demo_redis =
     (Answered 200 (END (''Booking bk'' @ nl @ ''Status: SLOT_RESERVED'' @ nl @ ''Plate: LAG-123'')), demo5, demo_redis)"
    by (simp add: Callback_def Let_def go_simps)
  have i: "international 13 ''+2348031234567''" by (simp add: international_def is_digit_def)
  have b: "\<forall>b\<in>set (truck_bookings demo5). international 13 (b_TruckerMSISDN b)" using i m by simp
  have q: "\<forall>q\<in>set (truck_queue_requests demo5). international 13 (q_TruckerMSISDN q)"
    using demo4_step by (auto simp: demo5_def demo5_step) (auto simp: demo4_def)
  from status_replies_private [OF run _ _ n i b q] run show ?thesis by (auto simp: queueStatusReply_def)
qed

end
