(* ===== verification/Portcall.thy ===== *)
theory Portcall
  imports Identifiers Tenant
begin

text \<open>
  \<^verbatim>\<open>src/internal/portcall\<close>: port calls, their document evidence, clearance decisions with
  amendments, and the agency profiles calls are bound to, over the tables of
  \<^verbatim>\<open>src/db/migrations/0001_port_calls.sql\<close> to \<^verbatim>\<open>0008_tenant_rls_enforce.sql\<close>. Row-level
  security covers calls, documents, decisions and events; the agency tables have none.
  A UUID column holds the canonical text. \<open>uuid_Parse\<close> is \<open>uuid.Parse\<close> and \<open>pg_uuid\<close> is how
  PostgreSQL reads a UUID text; both answer the canonical text or \<open>None\<close>.
\<close>

section \<open>Model\<close>

datatype PStatus = P_DRAFT | P_SUBMITTED | P_ACCEPTED | P_REJECTED

datatype DocumentStatus = DocumentDeclared | DocumentVerified | DocumentRejected | OtherDocumentStatus string

datatype ClearanceDecision = ClearanceApproved | ClearanceRejected | OtherDecision string

record PCreateRequest =
  pc_CallID :: string
  pc_VesselIMO :: string
  pc_PortCode :: string
  pc_DeclarationRef :: string
  pc_SubmittedBy :: string
  pc_AgencyProfileID :: string
  pc_AgencyProfileVersion :: string

record AgencyProfileRegistration =
  ag_ProfileID :: string
  ag_Version :: string
  ag_AgencyCode :: string
  ag_ProfileSHA256 :: string
  ag_RegisteredBy :: string
  ag_Active :: bool

record DocumentDeclarationRequest =
  dr_DocumentType :: string
  dr_MediaType :: string
  dr_SizeBytes :: int
  dr_SHA256 :: string
  dr_DeclaredBy :: string

record DocumentReviewRequest =
  rv_ExpectedVersion :: int
  rv_Status :: DocumentStatus
  rv_ReviewedBy :: string
  rv_Reason :: string

record DocumentDeclaration =
  dc_DocumentID :: string
  dc_TenantID :: string
  dc_CallID :: string
  dc_DocumentType :: string
  dc_MediaType :: string
  dc_SizeBytes :: int
  dc_SHA256 :: string
  dc_DeclaredBy :: string
  dc_Status :: DocumentStatus
  dc_CreatedAt :: time
  dc_UpdatedAt :: time
  dc_Version :: int
  dc_ReviewedBy :: "string option"
  dc_ReviewedReason :: "string option"
  dc_ReviewedAt :: "time option"

record PortCall =
  pl_CallID :: string
  pl_TenantID :: string
  pl_IdempotencyKey :: string
  pl_VesselIMO :: string
  pl_PortCode :: string
  pl_DeclarationRef :: string
  pl_SubmittedBy :: string
  pl_AgencyProfileID :: string
  pl_AgencyProfileVersion :: string
  pl_Status :: PStatus
  pl_CreatedAt :: time
  pl_UpdatedAt :: time
  pl_Version :: int

record DocumentSupersessionRequest =
  sr_OriginalDocumentID :: string
  sr_ReplacementDocumentID :: string
  sr_Reason :: string
  sr_SupersededBy :: string

record ClearanceAmendmentRequest =
  ar_ExpectedVersion :: int
  ar_Decision :: ClearanceDecision
  ar_Reason :: string
  ar_AmendedBy :: string

record Clearance =
  cd_DecisionID :: string
  cd_TenantID :: string
  cd_CallID :: string
  cd_Decision :: ClearanceDecision
  cd_Reason :: string
  cd_DecidedBy :: string
  cd_CallVersion :: int
  cd_DecidedAt :: time

definition portcall_portCodePattern :: "segment list" where
  "portcall_portCodePattern = [Seg is_upper 2 8]"

definition documentTypePattern :: "segment list" where
  "documentTypePattern =
     [Seg is_letter 1 1, Seg (\<lambda>c. is_letter c \<or> is_digit c \<or> c = CHR ''.'' \<or> c = CHR ''_'' \<or> c = CHR '':'' \<or> c = CHR ''-'') 0 63]"

text \<open>
  \<open>^[A-Za-z0-9.+-]+/[A-Za-z0-9.+-]+$\<close>; the text is at most 256 bytes long when it is matched.
\<close>

definition is_media_char :: "char \<Rightarrow> bool" where
  "is_media_char c \<longleftrightarrow> is_letter c \<or> is_digit c \<or> c = CHR ''.'' \<or> c = CHR ''+'' \<or> c = CHR ''-''"

definition mediaTypePattern :: "segment list" where
  "mediaTypePattern = [Seg is_media_char 1 256, Seg (\<lambda>c. c = CHR ''/'') 1 1, Seg is_media_char 1 256]"

text \<open>
  Go iterates over a map in no fixed order, so the field reported first is open: \<open>order\<close> is
  the order of this run.
\<close>

fun first_uncanonical :: "(string \<times> string) list \<Rightarrow> go_error option" where
  "first_uncanonical [] = None"
| "first_uncanonical ((name, value) # rest) =
     (if value = [] \<or> TrimSpace value \<noteq> value \<or> len value > 256
      then Some (ErrText (name @ '' must be canonical non-empty text of at most 256 characters''))
      else first_uncanonical rest)"

type_synonym map_order = "(string \<times> string) list \<Rightarrow> (string \<times> string) list"

definition document_Validate :: "map_order \<Rightarrow> DocumentDeclarationRequest \<Rightarrow> unit result" where
  "document_Validate order r =
     bindE (or_fail (first_uncanonical (order
       [(''document_type'', dr_DocumentType r), (''media_type'', dr_MediaType r), (''sha256'', dr_SHA256 r),
        (''declared_by'', dr_DeclaredBy r)]))) (\<lambda>_.
     if \<not> match_regex documentTypePattern (dr_DocumentType r) then Inl (ErrText ''document_type is invalid'')
     else if \<not> match_regex mediaTypePattern (dr_MediaType r) then Inl (ErrText ''media_type is invalid'')
     else if dr_SizeBytes r \<le> 0 \<or> dr_SizeBytes r > 104857600 then Inl (ErrText ''size_bytes must be between 1 and 104857600'')
     else if \<not> sha256_text (dr_SHA256 r) then Inl (ErrText ''sha256 must be a lowercase sha256 digest'')
     else Inr ())"

definition portcall_Validate :: "map_order \<Rightarrow> PCreateRequest \<Rightarrow> unit result" where
  "portcall_Validate order r =
     bindE (or_fail (first_uncanonical (order
       [(''call_id'', pc_CallID r), (''vessel_imo'', pc_VesselIMO r), (''port_code'', pc_PortCode r),
        (''declaration_reference'', pc_DeclarationRef r), (''submitted_by'', pc_SubmittedBy r),
        (''agency_profile_id'', pc_AgencyProfileID r), (''agency_profile_version'', pc_AgencyProfileVersion r)]))) (\<lambda>_.
     if \<not> imonumber_Valid (pc_VesselIMO r)
     then Inl (ErrText ''vessel_imo must be a seven-digit IMO number with a valid check digit'')
     else if \<not> match_regex portcall_portCodePattern (pc_PortCode r)
     then Inl (ErrText ''port_code must contain two to eight uppercase letters'')
     else Inr ())"

definition Matches :: "PortCall \<Rightarrow> PCreateRequest \<Rightarrow> bool" where
  "Matches call r \<longleftrightarrow>
     pl_CallID call = pc_CallID r \<and> pl_VesselIMO call = pc_VesselIMO r \<and> pl_PortCode call = pc_PortCode r
     \<and> pl_DeclarationRef call = pc_DeclarationRef r \<and> pl_SubmittedBy call = pc_SubmittedBy r
     \<and> pl_AgencyProfileID call = pc_AgencyProfileID r \<and> pl_AgencyProfileVersion call = pc_AgencyProfileVersion r"

fun portcall_ValidTransition :: "PStatus \<Rightarrow> PStatus \<Rightarrow> bool" where
  "portcall_ValidTransition P_DRAFT next = (next = P_SUBMITTED \<or> next = P_REJECTED)"
| "portcall_ValidTransition P_SUBMITTED next = (next = P_ACCEPTED \<or> next = P_REJECTED)"
| "portcall_ValidTransition _ next = False"

definition validateWorkflowText :: "string \<Rightarrow> int \<Rightarrow> bool" where
  "validateWorkflowText value mx \<longleftrightarrow> value \<noteq> [] \<and> value = TrimSpace value \<and> len value \<le> mx"

section \<open>Tables\<close>

datatype call_payload =
    CallEvent PortCall | DocumentEvent DocumentDeclaration | ClearanceEvent Clearance | SupersessionEvent DocumentSupersessionRequest

record CallOutboxRow =
  po_EventID :: string
  po_TenantID :: string
  po_CallID :: string
  po_EventType :: string
  po_Payload :: call_payload
  po_CreatedAt :: time

record SupersessionRow =
  su_SupersessionID :: string
  su_CallID :: string
  su_OriginalDocumentID :: string
  su_ReplacementDocumentID :: string
  su_Reason :: string
  su_SupersededBy :: string
  su_SupersededAt :: time

record AmendmentRow =
  am_AmendmentID :: string
  am_CallID :: string
  am_PriorDecisionID :: string
  am_PriorDecision :: ClearanceDecision
  am_AmendedDecision :: ClearanceDecision
  am_Reason :: string
  am_AmendedBy :: string
  am_CallVersion :: int
  am_AmendedAt :: time

record ProfileVersionRow =
  pv_ProfileID :: string
  pv_Version :: string
  pv_AgencyCode :: string
  pv_ProfileSHA256 :: string
  pv_RegisteredBy :: string
  pv_RegisteredAt :: time
  pv_TenantID :: string

record ProfileEventRow =
  pe_ProfileID :: string
  pe_Version :: string
  pe_EventType :: string
  pe_Active :: bool
  pe_ProfileSHA256 :: string
  pe_Actor :: string
  pe_OccurredAt :: time
  pe_Reason :: string
  pe_TenantID :: string

record pdb =
  port_calls :: "PortCall list"
  port_call_documents :: "DocumentDeclaration list"
  port_call_clearance_decisions :: "Clearance list"
  port_call_document_supersessions :: "SupersessionRow list"
  port_call_clearance_amendments :: "AmendmentRow list"
  port_agency_profile_versions :: "ProfileVersionRow list"
  port_agency_profile_events :: "ProfileEventRow list"
  port_call_outbox :: "CallOutboxRow list"

definition empty_pdb :: pdb where
  "empty_pdb = \<lparr>port_calls = [], port_call_documents = [], port_call_clearance_decisions = [],
     port_call_document_supersessions = [], port_call_clearance_amendments = [], port_agency_profile_versions = [],
     port_agency_profile_events = [], port_call_outbox = []\<rparr>"

definition find_call :: "string \<Rightarrow> pdb \<Rightarrow> string \<Rightarrow> PortCall option" where
  "find_call tid d callID = find (\<lambda>l. pl_TenantID l = tid \<and> pl_CallID l = callID) (port_calls d)"

definition find_document :: "string \<Rightarrow> pdb \<Rightarrow> string \<Rightarrow> string \<Rightarrow> DocumentDeclaration option" where
  "find_document tid d callID docID =
     find (\<lambda>x. dc_TenantID x = tid \<and> dc_DocumentID x = docID \<and> dc_CallID x = callID) (port_call_documents d)"

definition find_decision :: "string \<Rightarrow> pdb \<Rightarrow> string \<Rightarrow> Clearance option" where
  "find_decision tid d callID = find (\<lambda>x. cd_TenantID x = tid \<and> cd_CallID x = callID) (port_call_clearance_decisions d)"

definition write_event :: "string \<Rightarrow> string \<Rightarrow> string \<Rightarrow> string \<Rightarrow> call_payload \<Rightarrow> time \<Rightarrow> pdb \<Rightarrow> pdb result" where
  "write_event eventID tid callID eventType pay at d =
     (if list_ex (\<lambda>r. po_EventID r = eventID) (port_call_outbox d) then Inl (PgErr (UniqueViolation ''port_call_outbox_pkey''))
      else Inr (d\<lparr>port_call_outbox := port_call_outbox d @
             [\<lparr>po_EventID = eventID, po_TenantID = tid, po_CallID = callID, po_EventType = eventType, po_Payload = pay,
               po_CreatedAt = at\<rparr>]\<rparr>))"


end
