(* ===== verification/Portcall_Store.thy ===== *)
theory Portcall_Store
  imports Portcall
begin

text \<open>
  The operations of \<^verbatim>\<open>src/internal/portcall/store.go\<close>. Each runs in a tenant transaction;
  the \<open>...Tx\<close> functions are the units of work. A check constraint that the validation in
  front of it already implies is not repeated.
\<close>

section \<open>Agency profiles\<close>

text \<open>The newest event is the last row: the sequence is generated by the table.\<close>

definition latest_activation :: "pdb \<Rightarrow> string \<Rightarrow> string \<Rightarrow> bool option" where
  "latest_activation d profileID version =
     (case rev (filter (\<lambda>x. pe_ProfileID x = profileID \<and> pe_Version x = version) (port_agency_profile_events d)) of
        [] \<Rightarrow> None | x # _ \<Rightarrow> Some (pe_Active x))"

definition ensureActiveAgencyProfile :: "pdb \<Rightarrow> string \<Rightarrow> string \<Rightarrow> unit result" where
  "ensureActiveAgencyProfile d profileID version =
     (case latest_activation d profileID version of
        None \<Rightarrow> Inl (ErrNotFound Portcall)
      | Some active \<Rightarrow> if \<not> active then Inl ErrClearanceInvalid else Inr ())"

definition is_profile_char :: "char \<Rightarrow> bool" where
  "is_profile_char c \<longleftrightarrow> is_letter c \<or> is_digit c \<or> c = CHR ''.'' \<or> c = CHR ''_'' \<or> c = CHR '':'' \<or> c = CHR ''-''"

definition profile_versions_check :: "AgencyProfileRegistration \<Rightarrow> bool" where
  "profile_versions_check p \<longleftrightarrow>
     match_regex [Seg (\<lambda>c. is_letter c \<or> is_digit c) 1 1, Seg is_profile_char 0 127] (ag_ProfileID p)
     \<and> match_regex [Seg (\<lambda>c. is_letter c \<or> is_digit c) 1 1, Seg is_profile_char 0 127] (ag_Version p)
     \<and> match_regex [Seg is_upper 2 16] (ag_AgencyCode p) \<and> sha256_text (ag_ProfileSHA256 p)"

definition profile_event :: "AgencyProfileRegistration \<Rightarrow> string \<Rightarrow> bool \<Rightarrow> string \<Rightarrow> time \<Rightarrow> string \<Rightarrow> ProfileEventRow" where
  "profile_event p eventType active reason now tid =
     \<lparr>pe_ProfileID = ag_ProfileID p, pe_Version = ag_Version p, pe_EventType = eventType, pe_Active = active,
      pe_ProfileSHA256 = ag_ProfileSHA256 p, pe_Actor = ag_RegisteredBy p, pe_OccurredAt = now, pe_Reason = reason, pe_TenantID = tid\<rparr>"

definition append_profile_event :: "ProfileEventRow \<Rightarrow> pdb \<Rightarrow> pdb" where
  "append_profile_event x d = d\<lparr>port_agency_profile_events := port_agency_profile_events d @ [x]\<rparr>"

definition RegisterAgencyProfile_work :: "AgencyProfileRegistration \<Rightarrow> env \<Rightarrow> Claims \<Rightarrow> pdb \<Rightarrow> (unit \<times> pdb) result" where
  "RegisterAgencyProfile_work p e claims d =
     (let now = clk e 0; tid = TenantID claims;
          row = \<lparr>pv_ProfileID = ag_ProfileID p, pv_Version = ag_Version p, pv_AgencyCode = ag_AgencyCode p,
                 pv_ProfileSHA256 = ag_ProfileSHA256 p, pv_RegisteredBy = ag_RegisteredBy p, pv_RegisteredAt = now, pv_TenantID = tid\<rparr>;
          deactivated = profile_event p ''DEACTIVATED'' False ''profile deactivated'' now tid in
      if \<not> profile_versions_check p
      then Inl (Wrapf ''insert immutable agency profile version'' (PgErr (CheckViolation ''port_agency_profiles_check'')))
      else case find (\<lambda>v. pv_ProfileID v = ag_ProfileID p \<and> pv_Version v = ag_Version p) (port_agency_profile_versions d) of
        None \<Rightarrow>
          let d1 = append_profile_event (profile_event p ''REGISTERED'' True ''profile version registered'' now tid)
                     (d\<lparr>port_agency_profile_versions := port_agency_profile_versions d @ [row]\<rparr>) in
          Inr ((), if \<not> ag_Active p then append_profile_event deactivated d1 else d1)
      | Some v \<Rightarrow>
          if pv_AgencyCode v \<noteq> ag_AgencyCode p \<or> pv_ProfileSHA256 v \<noteq> ag_ProfileSHA256 p
          then Inl (ErrText ''agency profile version is immutable; create a new version'')
          else Inr ((), append_profile_event
                 (if \<not> ag_Active p then deactivated else profile_event p ''ACTIVATED'' True ''profile activated'' now tid) d))"

definition RegisterAgencyProfile :: "ctx \<Rightarrow> AgencyProfileRegistration \<Rightarrow> env \<Rightarrow> pdb \<Rightarrow> unit result \<times> pdb" where
  "RegisterAgencyProfile c p e d =
     (if ag_ProfileID p = [] \<or> ag_Version p = [] \<or> ag_AgencyCode p = [] \<or> ag_ProfileSHA256 p = [] \<or> ag_RegisteredBy p = []
         \<or> ag_ProfileID p \<noteq> TrimSpace (ag_ProfileID p) \<or> ag_Version p \<noteq> TrimSpace (ag_Version p)
         \<or> ag_RegisteredBy p \<noteq> TrimSpace (ag_RegisteredBy p) \<or> \<not> prefix ''sha256:'' (ag_ProfileSHA256 p)
      then (Inl (ErrText ''agency profile registration is invalid''), d)
      else WithTx c (RegisterAgencyProfile_work p e) d)"

section \<open>Calls\<close>

definition new_call :: "string \<Rightarrow> string \<Rightarrow> PCreateRequest \<Rightarrow> time \<Rightarrow> PortCall" where
  "new_call tid idempotencyKey r createdAt =
     \<lparr>pl_CallID = pc_CallID r, pl_TenantID = tid, pl_IdempotencyKey = idempotencyKey, pl_VesselIMO = pc_VesselIMO r,
      pl_PortCode = pc_PortCode r, pl_DeclarationRef = pc_DeclarationRef r, pl_SubmittedBy = pc_SubmittedBy r,
      pl_AgencyProfileID = pc_AgencyProfileID r, pl_AgencyProfileVersion = pc_AgencyProfileVersion r,
      pl_Status = P_DRAFT, pl_CreatedAt = createdAt, pl_UpdatedAt = createdAt, pl_Version = 1\<rparr>"

text \<open>The index on the idempotency key sees the rows of every tenant; the lookup only its own.\<close>

definition portcall_createTx ::
  "string \<Rightarrow> PCreateRequest \<Rightarrow> env \<Rightarrow> Claims \<Rightarrow> pdb \<Rightarrow> (PortCall \<times> pdb) result" where
  "portcall_createTx idempotencyKey r e claims d =
     bindE (ensureActiveAgencyProfile d (pc_AgencyProfileID r) (pc_AgencyProfileVersion r)) (\<lambda>_.
     let createdAt = clk e 0; call = new_call (TenantID claims) idempotencyKey r createdAt in
     if list_ex (\<lambda>l. pl_IdempotencyKey l = idempotencyKey) (port_calls d)
     then (case find (\<lambda>l. pl_TenantID l = TenantID claims \<and> pl_IdempotencyKey l = idempotencyKey) (port_calls d) of
             None \<Rightarrow> Inl (Wrapf ''idempotency lookup'' (ErrNotFound Portcall))
           | Some found \<Rightarrow> if \<not> Matches found r then Inl (ErrIdempotencyConflict Portcall) else Inr (found, d))
     else if list_ex (\<lambda>l. pl_CallID l = pc_CallID r) (port_calls d)
     then Inl (Wrapf ''insert port call'' (PgErr (UniqueViolation ''port_calls_pkey'')))
     else if \<not> list_ex (\<lambda>v. pv_ProfileID v = pc_AgencyProfileID r \<and> pv_Version v = pc_AgencyProfileVersion r) (port_agency_profile_versions d)
     then Inl (Wrapf ''insert port call'' (PgErr (RaiseException ''port_calls_agency_profile_fk'')))
     else bindE (wrap_err ''write created event'' (write_event (rnd e 0) (TenantID claims) (pl_CallID call) ''port_call.created''
                  (CallEvent call) createdAt (d\<lparr>port_calls := port_calls d @ [call]\<rparr>)))
            (\<lambda>d'. Inr (call, d')))"

definition portcall_Create :: "map_order \<Rightarrow> ctx \<Rightarrow> string \<Rightarrow> PCreateRequest \<Rightarrow> env \<Rightarrow> pdb \<Rightarrow> PortCall result \<times> pdb" where
  "portcall_Create order c idempotencyKey r e d =
     (if idempotencyKey = [] \<or> len idempotencyKey > 256
      then (Inl (ErrText ''idempotency key must be non-empty and at most 256 characters''), d)
      else (case portcall_Validate order r of Inl err \<Rightarrow> (Inl err, d)
            | Inr _ \<Rightarrow> WithTx c (portcall_createTx idempotencyKey r e) d))"

definition portcall_getTx :: "Claims \<Rightarrow> pdb \<Rightarrow> string \<Rightarrow> PortCall result" where
  "portcall_getTx claims d callID = from_option (ErrNotFound Portcall) (find_call (TenantID claims) d callID)"

definition portcall_Get :: "ctx \<Rightarrow> string \<Rightarrow> pdb \<Rightarrow> PortCall result \<times> pdb" where
  "portcall_Get c callID d = WithTx c (\<lambda>claims d. bindE (portcall_getTx claims d callID) (\<lambda>call. Inr (call, d))) d"

text \<open>The \<open>RETURNING\<close> list of the update leaves the agency profile out, so it is empty in the answer.\<close>

definition Transition_work :: "string \<Rightarrow> int \<Rightarrow> PStatus \<Rightarrow> env \<Rightarrow> Claims \<Rightarrow> pdb \<Rightarrow> (PortCall \<times> pdb) result" where
  "Transition_work callID expectedVersion next e claims d =
     bindE (portcall_getTx claims d callID) (\<lambda>current.
     if pl_Version current \<noteq> expectedVersion then Inl (ErrOptimisticConflict Portcall)
     else if \<not> portcall_ValidTransition (pl_Status current) next then Inl (ErrInvalidTransition Portcall)
     else bindE (wrap_err ''transition port call'' (pg_inc (pl_Version current))) (\<lambda>version.
       let updatedAt = clk e 0; f = (\<lambda>l. l\<lparr>pl_Status := next, pl_UpdatedAt := updatedAt, pl_Version := version\<rparr>);
           updated = (f current)\<lparr>pl_AgencyProfileID := [], pl_AgencyProfileVersion := []\<rparr> in
       bindE (wrap_err ''write status event'' (write_event (rnd e 0) (TenantID claims) callID ''port_call.status_changed''
                (CallEvent updated) updatedAt
                (d\<lparr>port_calls := update_where (\<lambda>l. pl_TenantID l = TenantID claims \<and> pl_CallID l = callID
                       \<and> pl_Status l = pl_Status current \<and> pl_Version l = expectedVersion) f (port_calls d)\<rparr>)))
         (\<lambda>d'. Inr (updated, d'))))"

definition Transition :: "ctx \<Rightarrow> string \<Rightarrow> int \<Rightarrow> PStatus \<Rightarrow> env \<Rightarrow> pdb \<Rightarrow> PortCall result \<times> pdb" where
  "Transition c callID expectedVersion next e d = WithTx c (Transition_work callID expectedVersion next e) d"

text \<open>\<open>pick\<close> is the order in which PostgreSQL meets rows of one instant.\<close>

definition ListByIMO :: "(PortCall list \<Rightarrow> PortCall list) \<Rightarrow> ctx \<Rightarrow> string \<Rightarrow> int \<Rightarrow> pdb \<Rightarrow> PortCall list result \<times> pdb" where
  "ListByIMO pick c imo limit d =
     (if \<not> imonumber_Valid imo then (Inl (ErrText ''vessel_imo must be a seven-digit IMO number with a valid check digit''), d)
      else let limit = (if limit \<le> 0 \<or> limit > 100 then 25 else limit) in
        WithTx c (\<lambda>claims d.
          Inr (take (nat limit) (sort_key (\<lambda>l. - pl_CreatedAt l)
                 (pick (filter (\<lambda>l. pl_TenantID l = TenantID claims \<and> pl_VesselIMO l = imo) (port_calls d)))), d)) d)"

section \<open>Documents\<close>

definition new_document :: "string \<Rightarrow> string \<Rightarrow> string \<Rightarrow> DocumentDeclarationRequest \<Rightarrow> time \<Rightarrow> DocumentDeclaration" where
  "new_document docID tid callID r createdAt =
     \<lparr>dc_DocumentID = docID, dc_TenantID = tid, dc_CallID = callID, dc_DocumentType = dr_DocumentType r,
      dc_MediaType = dr_MediaType r, dc_SizeBytes = dr_SizeBytes r, dc_SHA256 = dr_SHA256 r, dc_DeclaredBy = dr_DeclaredBy r,
      dc_Status = DocumentDeclared, dc_CreatedAt = createdAt, dc_UpdatedAt = createdAt, dc_Version = 1,
      dc_ReviewedBy = None, dc_ReviewedReason = None, dc_ReviewedAt = None\<rparr>"

definition same_evidence :: "string \<Rightarrow> DocumentDeclarationRequest \<Rightarrow> DocumentDeclaration \<Rightarrow> bool" where
  "same_evidence callID r x \<longleftrightarrow> dc_CallID x = callID \<and> dc_DocumentType x = dr_DocumentType r \<and> dc_SHA256 x = dr_SHA256 r"

text \<open>A replay answers the columns of its select, which are without the review.\<close>

definition declareDocumentTx ::
  "string \<Rightarrow> DocumentDeclarationRequest \<Rightarrow> env \<Rightarrow> Claims \<Rightarrow> pdb \<Rightarrow> (DocumentDeclaration \<times> pdb) result" where
  "declareDocumentTx callID r e claims d =
     bindE (portcall_getTx claims d callID) (\<lambda>call.
     if pl_Status call = P_REJECTED then Inl (ErrInvalidTransition Portcall)
     else if list_ex (same_evidence callID r) (port_call_documents d)
     then (case find (\<lambda>x. dc_TenantID x = TenantID claims \<and> same_evidence callID r x) (port_call_documents d) of
             None \<Rightarrow> Inl (Wrapf ''lookup document replay'' (ErrText ''no rows in result set''))
           | Some x \<Rightarrow>
               if dc_MediaType x \<noteq> dr_MediaType r \<or> dc_SizeBytes x \<noteq> dr_SizeBytes r \<or> dc_DeclaredBy x \<noteq> dr_DeclaredBy r
               then Inl ErrDocumentConflict
               else Inr (x\<lparr>dc_ReviewedBy := None, dc_ReviewedReason := None, dc_ReviewedAt := None\<rparr>, d))
     else if list_ex (\<lambda>x. dc_DocumentID x = rnd e 0) (port_call_documents d)
     then Inl (Wrapf ''insert document declaration'' (PgErr (UniqueViolation ''port_call_documents_pkey'')))
     else let createdAt = clk e 0; x = new_document (rnd e 0) (TenantID claims) callID r createdAt in
       bindE (wrap_err ''write document event'' (write_event (rnd e 1) (TenantID claims) callID ''port_call.document_declared''
                (DocumentEvent x) createdAt (d\<lparr>port_call_documents := port_call_documents d @ [x]\<rparr>)))
         (\<lambda>d'. Inr (x, d')))"

definition DeclareDocument ::
  "map_order \<Rightarrow> ctx \<Rightarrow> string \<Rightarrow> DocumentDeclarationRequest \<Rightarrow> env \<Rightarrow> pdb \<Rightarrow> DocumentDeclaration result \<times> pdb" where
  "DeclareDocument order c callID r e d =
     (if callID = [] \<or> len callID > 256 \<or> callID \<noteq> TrimSpace callID then (Inl (ErrNotFound Portcall), d)
      else (case document_Validate order r of Inl err \<Rightarrow> (Inl err, d)
            | Inr _ \<Rightarrow> WithTx c (declareDocumentTx callID r e) d))"

definition reviewDocumentTx ::
  "string \<Rightarrow> string \<Rightarrow> DocumentReviewRequest \<Rightarrow> env \<Rightarrow> Claims \<Rightarrow> pdb \<Rightarrow> (DocumentDeclaration \<times> pdb) result" where
  "reviewDocumentTx callID docID r e claims d =
     (let now = clk e 0 in
      case find_document (TenantID claims) d callID docID of
        None \<Rightarrow> Inl (ErrNotFound Portcall)
      | Some x \<Rightarrow>
          if dc_Status x \<noteq> DocumentDeclared \<or> dc_Version x \<noteq> rv_ExpectedVersion r
          then Inl (if dc_Status x = rv_Status r then ErrDocumentConflict else ErrOptimisticConflict Portcall)
          else bindE (wrap_err ''review document'' (pg_inc (dc_Version x))) (\<lambda>version.
            let f = (\<lambda>y. y\<lparr>dc_Status := rv_Status r, dc_Version := version, dc_ReviewedBy := Some (rv_ReviewedBy r),
                          dc_ReviewedReason := Some (rv_Reason r), dc_ReviewedAt := Some now, dc_UpdatedAt := now\<rparr>) in
            bindE (wrap_err ''write document review event'' (write_event (rnd e 0) (TenantID claims) callID
                     ''port_call.document_reviewed'' (DocumentEvent (f x)) now
                     (d\<lparr>port_call_documents := update_where (\<lambda>y. dc_TenantID y = TenantID claims \<and> dc_DocumentID y = docID
                            \<and> dc_CallID y = callID \<and> dc_Status y = DocumentDeclared \<and> dc_Version y = rv_ExpectedVersion r) f
                            (port_call_documents d)\<rparr>)))
              (\<lambda>d'. Inr (f x, d'))))"

definition ReviewDocument ::
  "(string \<Rightarrow> string option) \<Rightarrow> ctx \<Rightarrow> string \<Rightarrow> string \<Rightarrow> DocumentReviewRequest \<Rightarrow> env \<Rightarrow> pdb \<Rightarrow> DocumentDeclaration result \<times> pdb" where
  "ReviewDocument uuid_Parse c callID documentID r e d =
     (if callID = [] \<or> documentID = [] \<or> rv_ExpectedVersion r < 1
         \<or> (rv_Status r \<noteq> DocumentVerified \<and> rv_Status r \<noteq> DocumentRejected)
         \<or> rv_ReviewedBy r = [] \<or> rv_ReviewedBy r \<noteq> TrimSpace (rv_ReviewedBy r)
         \<or> rv_Reason r = [] \<or> rv_Reason r \<noteq> TrimSpace (rv_Reason r) \<or> len (rv_Reason r) > 1024
      then (Inl ErrDocumentConflict, d)
      else (case uuid_Parse documentID of
              None \<Rightarrow> (Inl ErrDocumentConflict, d)
            | Some docID \<Rightarrow> WithTx c (reviewDocumentTx callID docID r e) d))"

definition supersessions_check :: "SupersessionRow \<Rightarrow> pdb \<Rightarrow> bool" where
  "supersessions_check s d \<longleftrightarrow>
     1 \<le> pg_length (su_Reason s) \<and> pg_length (su_Reason s) \<le> 1024 \<and> su_OriginalDocumentID s \<noteq> su_ReplacementDocumentID s
     \<and> \<not> list_ex (\<lambda>x. su_SupersessionID x = su_SupersessionID s \<or> su_OriginalDocumentID x = su_OriginalDocumentID s
                     \<or> su_ReplacementDocumentID x = su_ReplacementDocumentID s) (port_call_document_supersessions d)"

definition SupersedeDocument_work ::
  "(string \<Rightarrow> string option) \<Rightarrow> string \<Rightarrow> DocumentSupersessionRequest \<Rightarrow> env \<Rightarrow> Claims \<Rightarrow> pdb \<Rightarrow> (unit \<times> pdb) result" where
  "SupersedeDocument_work pg_uuid callID r e claims d =
     bindE (from_option (ErrNotFound Portcall)
              (Option.bind (pg_uuid (sr_OriginalDocumentID r)) (find_document (TenantID claims) d callID))) (\<lambda>original.
     bindE (from_option (ErrNotFound Portcall)
              (Option.bind (pg_uuid (sr_ReplacementDocumentID r)) (find_document (TenantID claims) d callID))) (\<lambda>replacement.
     if dc_DocumentType original \<noteq> dc_DocumentType replacement \<or> dc_Status original \<noteq> DocumentVerified
        \<or> dc_Status replacement \<noteq> DocumentVerified
     then Inl ErrDocumentConflict
     else let now = clk e 0;
              s = \<lparr>su_SupersessionID = rnd e 0, su_CallID = callID, su_OriginalDocumentID = dc_DocumentID original,
                   su_ReplacementDocumentID = dc_DocumentID replacement, su_Reason = sr_Reason r, su_SupersededBy = sr_SupersededBy r,
                   su_SupersededAt = now\<rparr> in
       if \<not> supersessions_check s d then Inl ErrDocumentConflict
       else bindE (write_event (rnd e 1) (TenantID claims) callID ''port_call.document_superseded'' (SupersessionEvent r) now
                     (d\<lparr>port_call_document_supersessions := port_call_document_supersessions d @ [s]\<rparr>)) (\<lambda>d'. Inr ((), d'))))"

definition SupersedeDocument ::
  "(string \<Rightarrow> string option) \<Rightarrow> ctx \<Rightarrow> string \<Rightarrow> DocumentSupersessionRequest \<Rightarrow> env \<Rightarrow> pdb \<Rightarrow> unit result \<times> pdb" where
  "SupersedeDocument pg_uuid c callID r e d =
     (if \<not> validateWorkflowText (sr_OriginalDocumentID r) 64 \<or> \<not> validateWorkflowText (sr_ReplacementDocumentID r) 64
         \<or> sr_OriginalDocumentID r = sr_ReplacementDocumentID r \<or> \<not> validateWorkflowText (sr_Reason r) 1024
         \<or> \<not> validateWorkflowText (sr_SupersededBy r) 256
      then (Inl ErrDocumentConflict, d)
      else WithTx c (SupersedeDocument_work pg_uuid callID r e) d)"

section \<open>Clearance\<close>

definition call_documents :: "string \<Rightarrow> pdb \<Rightarrow> string \<Rightarrow> DocumentDeclaration list" where
  "call_documents tid d callID = filter (\<lambda>x. dc_TenantID x = tid \<and> dc_CallID x = callID) (port_call_documents d)"

definition evidence_verified :: "string \<Rightarrow> pdb \<Rightarrow> string \<Rightarrow> bool" where
  "evidence_verified tid d callID \<longleftrightarrow>
     call_documents tid d callID \<noteq> [] \<and> list_all (\<lambda>x. dc_Status x = DocumentVerified) (call_documents tid d callID)"

definition new_clearance ::
  "string \<Rightarrow> string \<Rightarrow> string \<Rightarrow> ClearanceDecision \<Rightarrow> string \<Rightarrow> string \<Rightarrow> int \<Rightarrow> time \<Rightarrow> Clearance" where
  "new_clearance decisionID tid callID decision reason decidedBy callVersion decidedAt =
     \<lparr>cd_DecisionID = decisionID, cd_TenantID = tid, cd_CallID = callID, cd_Decision = decision, cd_Reason = reason,
      cd_DecidedBy = decidedBy, cd_CallVersion = callVersion, cd_DecidedAt = decidedAt\<rparr>"

text \<open>The \<open>call_version\<close> column is checked to be positive, so \<open>expectedVersion+1\<close> cannot wrap around into it.\<close>

definition decideClearanceTx ::
  "string \<Rightarrow> int \<Rightarrow> ClearanceDecision \<Rightarrow> string \<Rightarrow> string \<Rightarrow> env \<Rightarrow> Claims \<Rightarrow> pdb \<Rightarrow> (Clearance \<times> pdb) result" where
  "decideClearanceTx callID expectedVersion decision reason decidedBy e claims d =
     bindE (portcall_getTx claims d callID) (\<lambda>call.
     if pl_Version call \<noteq> expectedVersion then Inl (ErrOptimisticConflict Portcall)
     else if pl_Status call \<noteq> P_ACCEPTED then Inl ErrClearanceInvalid
     else bindE (ensureActiveAgencyProfile d (pl_AgencyProfileID call) (pl_AgencyProfileVersion call)) (\<lambda>_.
       if decision = ClearanceApproved \<and> \<not> evidence_verified (TenantID claims) d callID then Inl ErrClearanceInvalid
       else let decidedAt = clk e 0;
                x = new_clearance (rnd e 0) (TenantID claims) callID decision reason decidedBy (wrap64 (expectedVersion + 1)) decidedAt in
         if cd_CallVersion x \<le> 0
         then Inl (Wrapf ''insert clearance decision'' (PgErr (CheckViolation ''port_call_clearance_decisions_call_version_check'')))
         else if list_ex (\<lambda>y. cd_CallID y = callID) (port_call_clearance_decisions d) then Inl ErrClearanceConflict
         else if list_ex (\<lambda>y. cd_DecisionID y = rnd e 0) (port_call_clearance_decisions d)
         then Inl (Wrapf ''insert clearance decision'' (PgErr (UniqueViolation ''port_call_clearance_decisions_pkey'')))
         else bindE (wrap_err ''write clearance event'' (write_event (rnd e 1) (TenantID claims) callID ''port_call.clearance_decided''
                (ClearanceEvent x) decidedAt
                (d\<lparr>port_call_clearance_decisions := port_call_clearance_decisions d @ [x],
                   port_calls := update_where (\<lambda>l. pl_TenantID l = TenantID claims \<and> pl_CallID l = callID \<and> pl_Version l = expectedVersion)
                     (\<lambda>l. l\<lparr>pl_UpdatedAt := decidedAt, pl_Version := expectedVersion + 1\<rparr>) (port_calls d)\<rparr>)))
              (\<lambda>d'. Inr (x, d'))))"

definition DecideClearance ::
  "ctx \<Rightarrow> string \<Rightarrow> int \<Rightarrow> ClearanceDecision \<Rightarrow> string \<Rightarrow> string \<Rightarrow> env \<Rightarrow> pdb \<Rightarrow> Clearance result \<times> pdb" where
  "DecideClearance c callID expectedVersion decision reason decidedBy e d =
     (if callID = [] \<or> expectedVersion < 1 \<or> (decision \<noteq> ClearanceApproved \<and> decision \<noteq> ClearanceRejected)
         \<or> reason = [] \<or> reason \<noteq> TrimSpace reason \<or> len reason > 1024 \<or> decidedBy = [] \<or> decidedBy \<noteq> TrimSpace decidedBy
      then (Inl ErrClearanceInvalid, d)
      else WithTx c (decideClearanceTx callID expectedVersion decision reason decidedBy e) d)"

definition amendClearanceTx ::
  "string \<Rightarrow> ClearanceAmendmentRequest \<Rightarrow> env \<Rightarrow> Claims \<Rightarrow> pdb \<Rightarrow> (Clearance \<times> pdb) result" where
  "amendClearanceTx callID r e claims d =
     bindE (portcall_getTx claims d callID) (\<lambda>call.
     if pl_Version call \<noteq> ar_ExpectedVersion r then Inl (ErrOptimisticConflict Portcall)
     else bindE (from_option (ErrNotFound Portcall) (find_decision (TenantID claims) d callID)) (\<lambda>prior.
       if cd_Decision prior = ar_Decision r \<or> cd_DecidedBy prior = ar_AmendedBy r then Inl ErrClearanceConflict
       else let now = clk e 0; newVersion = wrap64 (pl_Version call + 1);
                callStatus = (if ar_Decision r = ClearanceRejected then P_REJECTED else P_ACCEPTED);
                f = (\<lambda>x. x\<lparr>cd_Decision := ar_Decision r, cd_Reason := ar_Reason r, cd_DecidedBy := ar_AmendedBy r,
                          cd_CallVersion := newVersion, cd_DecidedAt := now\<rparr>);
                a = \<lparr>am_AmendmentID = rnd e 0, am_CallID = callID, am_PriorDecisionID = cd_DecisionID prior,
                     am_PriorDecision = cd_Decision prior, am_AmendedDecision = ar_Decision r, am_Reason = ar_Reason r,
                     am_AmendedBy = ar_AmendedBy r, am_CallVersion = newVersion, am_AmendedAt = now\<rparr> in
         if newVersion \<le> 0 then Inl (PgErr (CheckViolation ''port_call_clearance_decisions_call_version_check''))
         else if count_rows (\<lambda>l. pl_TenantID l = TenantID claims \<and> pl_CallID l = callID \<and> pl_Version l = pl_Version call) (port_calls d) \<noteq> 1
         then Inl (ErrOptimisticConflict Portcall)
         else if list_ex (\<lambda>y. am_AmendmentID y = rnd e 0) (port_call_clearance_amendments d)
         then Inl (PgErr (UniqueViolation ''port_call_clearance_amendments_pkey''))
         else bindE (write_event (rnd e 1) (TenantID claims) callID ''port_call.clearance_amended'' (ClearanceEvent (f prior)) now
                (d\<lparr>port_call_clearance_decisions := update_where (\<lambda>x. cd_TenantID x = TenantID claims \<and> cd_DecisionID x = cd_DecisionID prior) f
                       (port_call_clearance_decisions d),
                   port_calls := update_where (\<lambda>l. pl_TenantID l = TenantID claims \<and> pl_CallID l = callID \<and> pl_Version l = pl_Version call)
                       (\<lambda>l. l\<lparr>pl_Version := newVersion, pl_Status := callStatus, pl_UpdatedAt := now\<rparr>) (port_calls d),
                   port_call_clearance_amendments := port_call_clearance_amendments d @ [a]\<rparr>))
              (\<lambda>d'. Inr (f prior, d'))))"

definition AmendClearance :: "ctx \<Rightarrow> string \<Rightarrow> ClearanceAmendmentRequest \<Rightarrow> env \<Rightarrow> pdb \<Rightarrow> Clearance result \<times> pdb" where
  "AmendClearance c callID r e d =
     (if ar_ExpectedVersion r < 1 \<or> (ar_Decision r \<noteq> ClearanceApproved \<and> ar_Decision r \<noteq> ClearanceRejected)
         \<or> \<not> validateWorkflowText (ar_Reason r) 1024 \<or> \<not> validateWorkflowText (ar_AmendedBy r) 256
      then (Inl ErrClearanceInvalid, d)
      else WithTx c (amendClearanceTx callID r e) d)"

end
