(* ===== verification/Refinement.thy ===== *)
theory Refinement
  imports Prelude
begin

text \<open>
  Refinement of a store by a life cycle. The store is a step relation with an invariant;
  \<open>abs s k\<close> is the abstract state of the record with key \<open>k\<close> in the database \<open>s\<close>, if there is
  one. A step of the store moves each record by at most one step of the life cycle, and a
  record appears in the initial state. Runs then refine runs.
\<close>

locale lifecycle_refinement =
  fixes inv :: "'s \<Rightarrow> bool" and step :: "'s \<Rightarrow> 's \<Rightarrow> bool" and abs :: "'s \<Rightarrow> 'k \<Rightarrow> 'p option"
    and init :: 'p and astep :: "'p \<Rightarrow> 'p \<Rightarrow> bool"
  assumes inv_step: "inv s \<Longrightarrow> step s s' \<Longrightarrow> inv s'"
    and moves: "inv s \<Longrightarrow> step s s' \<Longrightarrow> abs s k = Some p \<Longrightarrow> \<exists>p'. abs s' k = Some p' \<and> (p' = p \<or> astep p p')"
    and appears: "inv s \<Longrightarrow> step s s' \<Longrightarrow> abs s k = None \<Longrightarrow> abs s' k = None \<or> abs s' k = Some init"
begin

lemma run_inv: "step\<^sup>*\<^sup>* s s' \<Longrightarrow> inv s \<Longrightarrow> inv s'"
  by (induction rule: rtranclp_induct) (auto intro: inv_step)

lemma run_moves:
  assumes "step\<^sup>*\<^sup>* s s'" and "inv s" and "abs s k = Some p"
  shows "\<exists>p'. abs s' k = Some p' \<and> astep\<^sup>*\<^sup>* p p'"
  using assms(1)
proof (induction rule: rtranclp_induct)
  case base
  then show ?case using assms(3) by blast
next
  case (step t u)
  then obtain q where q: "abs t k = Some q" "astep\<^sup>*\<^sup>* p q" by blast
  obtain q' where "abs u k = Some q'" "q' = q \<or> astep q q'"
    using moves [OF run_inv [OF step.hyps(1) assms(2)] step.hyps(2) q(1)] by blast
  with q(2) show ?case by (auto intro: rtranclp.rtrancl_into_rtrancl)
qed

lemma run_appears:
  assumes "step\<^sup>*\<^sup>* s s'" and "inv s" and "abs s k = None" and "abs s' k = Some p"
  shows "astep\<^sup>*\<^sup>* init p"
  using assms(1,4)
proof (induction arbitrary: p rule: rtranclp_induct)
  case base
  then show ?case using assms(3) by simp
next
  case (step t u)
  note i = run_inv [OF step.hyps(1) assms(2)]
  show ?case
  proof (cases "abs t k")
    case None
    with appears [OF i step.hyps(2) None] step.prems show ?thesis by auto
  next
    case (Some q)
    with moves [OF i step.hyps(2) Some] step.prems have "p = q \<or> astep q p" by auto
    with step.IH [OF Some] show ?thesis by (auto intro: rtranclp.rtrancl_into_rtrancl)
  qed
qed

text \<open>What the life cycle keeps, every record of every run has.\<close>

lemma run_keeps:
  assumes "step\<^sup>*\<^sup>* s s'" and "inv s" and "\<And>k. abs s k = None" and "J init" and "\<And>p p'. J p \<Longrightarrow> astep p p' \<Longrightarrow> J p'"
    and "abs s' k = Some p"
  shows "J p"
proof -
  have "astep\<^sup>*\<^sup>* init p" by (rule run_appears [OF assms(1,2) _ assms(6)]) (rule assms(3))
  then show ?thesis by (induction rule: rtranclp_induct) (use assms(4,5) in auto)
qed

end

text \<open>Rows found by a unique key.\<close>

lemma find_unique: "distinct (map key T) \<Longrightarrow> r \<in> set T \<Longrightarrow> find (\<lambda>x. key x = key r) T = Some r"
  by (induction T) auto

lemma set_update_unique:
  assumes "distinct (map key T)" and "r \<in> set T" and "\<And>x. x \<in> set T \<Longrightarrow> P x \<Longrightarrow> key x = key r" and "P r"
  shows "set (update_where P f T) = insert (f r) (set T - {r})"
proof -
  have "P x \<longleftrightarrow> x = r" if "x \<in> set T" for x
    using assms that by (auto dest: distinct_key_eq)
  with assms(2) show ?thesis by (auto simp: set_update_where split: if_splits)
qed

lemma in_update_where: "x \<in> set T \<Longrightarrow> P x \<Longrightarrow> f x \<in> set (update_where P f T)"
  by (auto simp: set_update_where)

lemma find_update_where:
  assumes "\<And>x. x \<in> set T \<Longrightarrow> P x \<Longrightarrow> Q (f x) = Q x"
  shows "find Q (update_where P f T) = map_option (\<lambda>x. if P x then f x else x) (find Q T)"
  using assms by (induction T) (auto simp: update_where_def)

lemma find_append: "find P (T @ U) = (case find P T of None \<Rightarrow> find P U | Some x \<Rightarrow> Some x)"
  by (induction T) auto

text \<open>One row replaced: what an update by primary key does to the table.\<close>

definition swap_row :: "'r \<Rightarrow> 'r \<Rightarrow> 'r list \<Rightarrow> 'r list" where
  "swap_row x x' T = map (\<lambda>y. if y = x then x' else y) T"

lemma update_where_swap:
  assumes "distinct (map key T)" and "x \<in> set T" and "P x" and "\<And>y. y \<in> set T \<Longrightarrow> P y \<Longrightarrow> key y = key x"
  shows "update_where P f T = swap_row x (f x) T"
proof -
  have "P y \<longleftrightarrow> y = x" if "y \<in> set T" for y
    using assms that by (auto dest: distinct_key_eq)
  then show ?thesis by (auto simp: update_where_def swap_row_def)
qed

lemma map_swap_row: "h x' = h x \<Longrightarrow> map h (swap_row x x' T) = map h T"
  by (simp add: swap_row_def)

lemma set_swap_row: "x \<in> set T \<Longrightarrow> set (swap_row x x' T) = insert x' (set T - {x})"
  by (auto simp: swap_row_def)

lemma find_swap_row:
  "Q x' = Q x \<Longrightarrow> find Q (swap_row x x' T) = map_option (\<lambda>y. if y = x then x' else y) (find Q T)"
  by (induction T) (auto simp: swap_row_def)

end
