(* ===== verification/Portcall_Correct.thy ===== *)
theory Portcall_Correct
  imports Portcall_Store Versioned Refinement
begin

text \<open>
  Correctness of the port-call store: what each unit of work does when it succeeds, an
  invariant of the tables over every sequence of operations of every tenant, the audit
  trail of clearance decisions, and the refinement of the store by a small life cycle in
  which the version of a call counts the steps it has made.
\<close>

section \<open>Effects\<close>

lemma write_event_InrD:
  "write_event i t k y p at d = Inr d' \<Longrightarrow> \<exists>os. d' = d\<lparr>port_call_outbox := os\<rparr>"
  by (auto simp: write_event_def split: if_splits)

lemma find_callD: "find_call tid d k = Some l \<Longrightarrow> l \<in> set (port_calls d) \<and> pl_TenantID l = tid \<and> pl_CallID l = k"
  by (auto simp: find_call_def dest: find_SomeD)

lemma portcall_getTx_Inr [simp]: "portcall_getTx claims d k = Inr l \<longleftrightarrow> find_call (TenantID claims) d k = Some l"
  by (simp add: portcall_getTx_def)

lemma portcall_createTx_InrE:
  assumes "portcall_createTx key r e claims d = Inr (l, d')"
  obtains (retained) "d' = d" and "l \<in> set (port_calls d)" and "pl_TenantID l = TenantID claims" and "pl_IdempotencyKey l = key"
      and "Matches l r"
  | (created) os where "l = new_call (TenantID claims) key r (clk e 0)"
      and "d' = d\<lparr>port_calls := port_calls d @ [l], port_call_outbox := os\<rparr>"
      and "\<forall>x\<in>set (port_calls d). pl_CallID x \<noteq> pc_CallID r \<and> pl_IdempotencyKey x \<noteq> key"
      and "ensureActiveAgencyProfile d (pc_AgencyProfileID r) (pc_AgencyProfileVersion r) = Inr ()"
proof -
  have active: "ensureActiveAgencyProfile d (pc_AgencyProfileID r) (pc_AgencyProfileVersion r) = Inr ()"
    using assms by (auto simp: portcall_createTx_def bindE_Inr_iff)
  show thesis
  proof (cases "list_ex (\<lambda>l. pl_IdempotencyKey l = key) (port_calls d)")
    case True
    with assms active show thesis
      by (intro retained) (auto simp: portcall_createTx_def Let_def split: option.splits if_splits dest!: find_SomeD)
  next
    case False
    with assms active have "\<not> list_ex (\<lambda>x. pl_CallID x = pc_CallID r) (port_calls d)"
      and "l = new_call (TenantID claims) key r (clk e 0)"
      and "write_event (rnd e 0) (TenantID claims) (pl_CallID l) ''port_call.created'' (CallEvent l) (clk e 0)
             (d\<lparr>port_calls := port_calls d @ [l]\<rparr>) = Inr d'"
      by (auto simp: portcall_createTx_def Let_def bindE_Inr_iff split: if_splits)
    with False active show thesis by (auto simp: list_ex_iff dest!: write_event_InrD intro: created)
  qed
qed

lemma Transition_InrE:
  assumes "Transition_work k v next e claims d = Inr (l', d')"
  obtains l os where "find_call (TenantID claims) d k = Some l" and "pl_Version l = v" and "v < max_int64"
    and "portcall_ValidTransition (pl_Status l) next"
    and "d' = d\<lparr>port_calls := update_where (\<lambda>x. pl_TenantID x = TenantID claims \<and> pl_CallID x = k \<and> pl_Status x = pl_Status l \<and> pl_Version x = v)
           (\<lambda>x. x\<lparr>pl_Status := next, pl_UpdatedAt := clk e 0, pl_Version := v + 1\<rparr>) (port_calls d), port_call_outbox := os\<rparr>"
  using assms
  by (auto simp: Transition_work_def bindE_Inr_iff Let_def split: if_splits dest!: write_event_InrD)

lemma declareDocumentTx_InrE:
  assumes "declareDocumentTx k r e claims d = Inr (x, d')"
  obtains (retained) "d' = d"
  | (declared) l os where "find_call (TenantID claims) d k = Some l" and "x = new_document (rnd e 0) (TenantID claims) k r (clk e 0)"
      and "d' = d\<lparr>port_call_documents := port_call_documents d @ [x], port_call_outbox := os\<rparr>"
      and "\<forall>y\<in>set (port_call_documents d). dc_DocumentID y \<noteq> dc_DocumentID x \<and> \<not> same_evidence k r y"
  using assms
  by (auto simp: declareDocumentTx_def bindE_Inr_iff Let_def list_ex_iff new_document_def
      split: if_splits option.splits dest!: write_event_InrD)

lemma reviewDocumentTx_InrE:
  assumes "reviewDocumentTx k i r e claims d = Inr (x', d')"
  obtains x os where "find_document (TenantID claims) d k i = Some x" and "dc_Status x = DocumentDeclared"
    and "dc_Version x = rv_ExpectedVersion r" and "dc_Version x < max_int64"
    and "d' = d\<lparr>port_call_documents := update_where (\<lambda>y. dc_TenantID y = TenantID claims \<and> dc_DocumentID y = i \<and> dc_CallID y = k
           \<and> dc_Status y = DocumentDeclared \<and> dc_Version y = rv_ExpectedVersion r)
           (\<lambda>y. y\<lparr>dc_Status := rv_Status r, dc_Version := dc_Version x + 1, dc_ReviewedBy := Some (rv_ReviewedBy r),
                 dc_ReviewedReason := Some (rv_Reason r), dc_ReviewedAt := Some (clk e 0), dc_UpdatedAt := clk e 0\<rparr>)
           (port_call_documents d), port_call_outbox := os\<rparr>"
  using assms
  by (auto simp: reviewDocumentTx_def bindE_Inr_iff Let_def split: if_splits option.splits dest!: write_event_InrD)

lemma SupersedeDocument_InrE:
  assumes "SupersedeDocument_work pg_uuid k r e claims d = Inr (u, d')"
  obtains x y s os where "x \<in> set (port_call_documents d)" and "y \<in> set (port_call_documents d)"
    and "dc_CallID x = k" and "dc_CallID y = k" and "dc_DocumentType x = dc_DocumentType y"
    and "dc_Status x = DocumentVerified" and "dc_Status y = DocumentVerified"
    and "s = \<lparr>su_SupersessionID = rnd e 0, su_CallID = k, su_OriginalDocumentID = dc_DocumentID x,
           su_ReplacementDocumentID = dc_DocumentID y, su_Reason = sr_Reason r, su_SupersededBy = sr_SupersededBy r,
           su_SupersededAt = clk e 0\<rparr>"
    and "supersessions_check s d"
    and "d' = d\<lparr>port_call_document_supersessions := port_call_document_supersessions d @ [s], port_call_outbox := os\<rparr>"
  using assms
  by (auto simp: SupersedeDocument_work_def bindE_Inr_iff Let_def find_document_def split: if_splits bind_splits
      dest!: write_event_InrD find_SomeD)

lemma decideClearanceTx_InrE:
  assumes "decideClearanceTx k v dec reason by1 e claims d = Inr (x, d')"
  obtains l os where "find_call (TenantID claims) d k = Some l" and "pl_Version l = v" and "pl_Status l = P_ACCEPTED"
    and "ensureActiveAgencyProfile d (pl_AgencyProfileID l) (pl_AgencyProfileVersion l) = Inr ()"
    and "dec = ClearanceApproved \<Longrightarrow> evidence_verified (TenantID claims) d k"
    and "x = new_clearance (rnd e 0) (TenantID claims) k dec reason by1 (wrap64 (v + 1)) (clk e 0)" and "0 < wrap64 (v + 1)"
    and "\<forall>y\<in>set (port_call_clearance_decisions d). cd_CallID y \<noteq> k \<and> cd_DecisionID y \<noteq> cd_DecisionID x"
    and "d' = d\<lparr>port_call_clearance_decisions := port_call_clearance_decisions d @ [x],
           port_calls := update_where (\<lambda>l. pl_TenantID l = TenantID claims \<and> pl_CallID l = k \<and> pl_Version l = v)
             (\<lambda>l. l\<lparr>pl_UpdatedAt := clk e 0, pl_Version := v + 1\<rparr>) (port_calls d), port_call_outbox := os\<rparr>"
  using assms
  by (auto simp: decideClearanceTx_def bindE_Inr_iff Let_def list_ex_iff new_clearance_def
      split: if_splits dest!: write_event_InrD)

lemma amendClearanceTx_InrE:
  assumes "amendClearanceTx k r e claims d = Inr (x', d')"
  obtains l x a os where "find_call (TenantID claims) d k = Some l" and "pl_Version l = ar_ExpectedVersion r"
    and "find_decision (TenantID claims) d k = Some x" and "cd_Decision x \<noteq> ar_Decision r" and "cd_DecidedBy x \<noteq> ar_AmendedBy r"
    and "0 < wrap64 (pl_Version l + 1)"
    and "a = \<lparr>am_AmendmentID = rnd e 0, am_CallID = k, am_PriorDecisionID = cd_DecisionID x,
           am_PriorDecision = cd_Decision x, am_AmendedDecision = ar_Decision r, am_Reason = ar_Reason r,
           am_AmendedBy = ar_AmendedBy r, am_CallVersion = wrap64 (pl_Version l + 1), am_AmendedAt = clk e 0\<rparr>"
    and "d' = d\<lparr>port_call_clearance_decisions := update_where (\<lambda>y. cd_TenantID y = TenantID claims \<and> cd_DecisionID y = cd_DecisionID x)
             (\<lambda>y. y\<lparr>cd_Decision := ar_Decision r, cd_Reason := ar_Reason r, cd_DecidedBy := ar_AmendedBy r,
                   cd_CallVersion := wrap64 (pl_Version l + 1), cd_DecidedAt := clk e 0\<rparr>) (port_call_clearance_decisions d),
           port_calls := update_where (\<lambda>y. pl_TenantID y = TenantID claims \<and> pl_CallID y = k \<and> pl_Version y = pl_Version l)
             (\<lambda>y. y\<lparr>pl_Version := wrap64 (pl_Version l + 1),
                   pl_Status := (if ar_Decision r = ClearanceRejected then P_REJECTED else P_ACCEPTED), pl_UpdatedAt := clk e 0\<rparr>) (port_calls d),
           port_call_clearance_amendments := port_call_clearance_amendments d @ [a], port_call_outbox := os\<rparr>"
  using assms
  by (auto simp: amendClearanceTx_def bindE_Inr_iff Let_def split: if_splits dest!: write_event_InrD)

section \<open>Steps\<close>

text \<open>Every operation of the store that writes, with whatever it answers. Reads change nothing.\<close>

inductive call_step :: "pdb \<Rightarrow> pdb \<Rightarrow> bool" where
  Create: "portcall_Create order c key r e d = (y, d') \<Longrightarrow> call_step d d'"
| Transition: "Transition c k v next e d = (y, d') \<Longrightarrow> call_step d d'"
| DeclareDocument: "DeclareDocument order c k doc e d = (y, d') \<Longrightarrow> call_step d d'"
| ReviewDocument: "ReviewDocument uuid_Parse c k i rv e d = (y, d') \<Longrightarrow> call_step d d'"
| SupersedeDocument: "SupersedeDocument pg_uuid c k su e d = (y, d') \<Longrightarrow> call_step d d'"
| DecideClearance: "DecideClearance c k v dec reason by1 e d = (y, d') \<Longrightarrow> call_step d d'"
| AmendClearance: "AmendClearance c k am e d = (y, d') \<Longrightarrow> call_step d d'"
| RegisterAgencyProfile: "RegisterAgencyProfile c p e d = (y, d') \<Longrightarrow> call_step d d'"

inductive call_reachable :: "pdb \<Rightarrow> bool" where
  init: "call_reachable empty_pdb"
| step: "call_reachable d \<Longrightarrow> call_step d d' \<Longrightarrow> call_reachable d'"

text \<open>A step leaves the tables alone or is one successful unit of work; the guards in front of it hold.\<close>

inductive call_work :: "pdb \<Rightarrow> pdb \<Rightarrow> bool" where
  same: "call_work d d"
| create: "portcall_createTx key r e claims d = Inr (l, d') \<Longrightarrow> call_work d d'"
| transition: "Transition_work k v next e claims d = Inr (l, d') \<Longrightarrow> call_work d d'"
| declare_doc: "declareDocumentTx k doc e claims d = Inr (x, d') \<Longrightarrow> call_work d d'"
| review: "reviewDocumentTx k i rv e claims d = Inr (x, d') \<Longrightarrow> rv_Status rv = DocumentVerified \<or> rv_Status rv = DocumentRejected
    \<Longrightarrow> call_work d d'"
| supersede: "SupersedeDocument_work pg_uuid k su e claims d = Inr (u, d') \<Longrightarrow> call_work d d'"
| decide: "decideClearanceTx k v dec reason by1 e claims d = Inr (y, d') \<Longrightarrow> dec = ClearanceApproved \<or> dec = ClearanceRejected
    \<Longrightarrow> 1 \<le> v \<Longrightarrow> call_work d d'"
| amend: "amendClearanceTx k am e claims d = Inr (y, d') \<Longrightarrow> ar_Decision am = ClearanceApproved \<or> ar_Decision am = ClearanceRejected
    \<Longrightarrow> call_work d d'"
| register: "RegisterAgencyProfile_work p e claims d = Inr (u, d') \<Longrightarrow> call_work d d'"

lemma call_step_work: "call_step d d' \<Longrightarrow> call_work d d'"
proof (induction rule: call_step.induct)
  case (Create order c key r e d y d')
  then show ?case by (auto simp: portcall_Create_def split: if_splits sum.splits elim!: WithTx_cases intro: call_work.intros)
next
  case (Transition c k v "next" e d y d')
  then show ?case by (auto simp: Transition_def elim!: WithTx_cases intro: call_work.intros)
next
  case (DeclareDocument order c k doc e d y d')
  then show ?case by (auto simp: DeclareDocument_def split: if_splits sum.splits elim!: WithTx_cases intro: call_work.intros)
next
  case (ReviewDocument uuid_Parse c k i rv e d y d')
  then show ?case by (auto simp: ReviewDocument_def split: if_splits option.splits elim!: WithTx_cases intro: call_work.intros)
next
  case (SupersedeDocument pg_uuid c k su e d y d')
  then show ?case by (auto simp: SupersedeDocument_def split: if_splits elim!: WithTx_cases intro: call_work.intros)
next
  case (DecideClearance c k v dec reason by1 e d y d')
  then show ?case by (auto simp: DecideClearance_def split: if_splits elim!: WithTx_cases intro: call_work.intros)
next
  case (AmendClearance c k am e d y d')
  then show ?case by (auto simp: AmendClearance_def split: if_splits elim!: WithTx_cases intro: call_work.intros)
next
  case (RegisterAgencyProfile c p e d y d')
  then show ?case by (auto simp: RegisterAgencyProfile_def split: if_splits elim!: WithTx_cases intro: call_work.intros)
qed

section \<open>The invariant\<close>

text \<open>The trail of a decision: from an initial decision, decider and version through its amendments to the current ones.\<close>

fun amended :: "ClearanceDecision \<times> string \<times> int \<Rightarrow> AmendmentRow list \<Rightarrow> ClearanceDecision \<times> string \<times> int \<Rightarrow> bool" where
  "amended s [] t \<longleftrightarrow> s = t"
| "amended (dec, by1, v) (m # ms) t \<longleftrightarrow>
     am_PriorDecision m = dec \<and> am_AmendedDecision m \<noteq> dec \<and> am_AmendedBy m \<noteq> by1 \<and> am_CallVersion m = v + 1
     \<and> amended (am_AmendedDecision m, am_AmendedBy m, am_CallVersion m) ms t"

lemma amended_snoc:
  "amended s (ms @ [m]) t \<longleftrightarrow>
     (\<exists>dec by1 v. amended s ms (dec, by1, v) \<and> am_PriorDecision m = dec \<and> am_AmendedDecision m \<noteq> dec \<and> am_AmendedBy m \<noteq> by1
        \<and> am_CallVersion m = v + 1 \<and> t = (am_AmendedDecision m, am_AmendedBy m, am_CallVersion m))"
  by (induction s ms t rule: amended.induct) auto

definition trail :: "pdb \<Rightarrow> string \<Rightarrow> AmendmentRow list" where
  "trail d decisionID = filter (\<lambda>m. am_PriorDecisionID m = decisionID) (port_call_clearance_amendments d)"

definition decision_ok :: "PortCall list \<Rightarrow> Clearance \<Rightarrow> bool" where
  "decision_ok calls x \<longleftrightarrow> (\<exists>l\<in>set calls. pl_CallID l = cd_CallID x \<and> pl_TenantID l = cd_TenantID x \<and> pl_Version l = cd_CallVersion x
     \<and> (pl_Status l = P_ACCEPTED \<or> pl_Status l = P_REJECTED)
     \<and> (cd_Decision x = ClearanceApproved \<and> pl_Status l = P_ACCEPTED \<or> cd_Decision x = ClearanceRejected))"

definition calls_ok :: "pdb \<Rightarrow> bool" where
  "calls_ok d \<longleftrightarrow> distinct (map pl_CallID (port_calls d)) \<and> distinct (map pl_IdempotencyKey (port_calls d))
     \<and> (\<forall>l\<in>set (port_calls d). 0 < pl_Version l \<and> pl_Version l \<le> max_int64)"

definition clearances_ok :: "pdb \<Rightarrow> bool" where
  "clearances_ok d \<longleftrightarrow> distinct (map cd_CallID (port_call_clearance_decisions d)) \<and> distinct (map cd_DecisionID (port_call_clearance_decisions d))
     \<and> (\<forall>x\<in>set (port_call_clearance_decisions d). decision_ok (port_calls d) x)"

definition trails_ok :: "pdb \<Rightarrow> bool" where
  "trails_ok d \<longleftrightarrow>
     (\<forall>m\<in>set (port_call_clearance_amendments d). \<exists>x\<in>set (port_call_clearance_decisions d). cd_DecisionID x = am_PriorDecisionID m)
     \<and> (\<forall>x\<in>set (port_call_clearance_decisions d). \<exists>s. amended s (trail d (cd_DecisionID x)) (cd_Decision x, cd_DecidedBy x, cd_CallVersion x))"

definition review_ok :: "DocumentDeclaration \<Rightarrow> bool" where
  "review_ok x \<longleftrightarrow>
     dc_Status x = DocumentDeclared \<and> dc_Version x = 1 \<and> dc_ReviewedBy x = None \<and> dc_ReviewedAt x = None
     \<or> (dc_Status x = DocumentVerified \<or> dc_Status x = DocumentRejected) \<and> dc_Version x = 2 \<and> dc_ReviewedBy x \<noteq> None \<and> dc_ReviewedAt x \<noteq> None"

definition documents_ok :: "pdb \<Rightarrow> bool" where
  "documents_ok d \<longleftrightarrow> distinct (map dc_DocumentID (port_call_documents d))
     \<and> distinct (map (\<lambda>x. (dc_CallID x, dc_DocumentType x, dc_SHA256 x)) (port_call_documents d))
     \<and> (\<forall>x\<in>set (port_call_documents d). review_ok x)"

definition pdb_inv :: "pdb \<Rightarrow> bool" where
  "pdb_inv d \<longleftrightarrow> calls_ok d \<and> clearances_ok d \<and> trails_ok d \<and> documents_ok d"

lemma pdb_inv_empty: "pdb_inv empty_pdb"
  by (simp add: pdb_inv_def calls_ok_def clearances_ok_def trails_ok_def documents_ok_def empty_pdb_def)

text \<open>Which parts of the invariant an operation can touch.\<close>

lemma pdb_inv_frame:
  assumes "pdb_inv d" and "port_calls d' = port_calls d" and "port_call_clearance_decisions d' = port_call_clearance_decisions d"
    and "port_call_clearance_amendments d' = port_call_clearance_amendments d" and "documents_ok d'"
  shows "pdb_inv d'"
  using assms by (simp add: pdb_inv_def calls_ok_def clearances_ok_def trails_ok_def trail_def)

lemma decision_okI:
  "\<lbrakk>l \<in> set calls; pl_CallID l = cd_CallID x; pl_TenantID l = cd_TenantID x; pl_Version l = cd_CallVersion x;
    pl_Status l = P_ACCEPTED \<or> pl_Status l = P_REJECTED;
    cd_Decision x = ClearanceApproved \<and> pl_Status l = P_ACCEPTED \<or> cd_Decision x = ClearanceRejected\<rbrakk> \<Longrightarrow> decision_ok calls x"
  unfolding decision_ok_def by blast

lemma decision_ok_mono: "decision_ok calls x \<Longrightarrow> set calls \<subseteq> set calls' \<Longrightarrow> decision_ok calls' x"
  by (auto simp: decision_ok_def)

lemma inv_create: "pdb_inv d \<Longrightarrow> portcall_createTx key r e claims d = Inr (l, d') \<Longrightarrow> pdb_inv d'"
proof (erule portcall_createTx_InrE)
  fix os
  assume inv: "pdb_inv d" and l: "l = new_call (TenantID claims) key r (clk e 0)"
    and d': "d' = d\<lparr>port_calls := port_calls d @ [l], port_call_outbox := os\<rparr>"
    and fresh: "\<forall>x\<in>set (port_calls d). pl_CallID x \<noteq> pc_CallID r \<and> pl_IdempotencyKey x \<noteq> key"
  have "calls_ok d'" using inv fresh by (auto simp: pdb_inv_def calls_ok_def d' l new_call_def max_int64_def)
  moreover have "clearances_ok d'" using inv by (auto simp: pdb_inv_def clearances_ok_def d' intro: decision_ok_mono)
  moreover have "trails_ok d'" "documents_ok d'"
    using inv by (simp_all add: pdb_inv_def trails_ok_def documents_ok_def trail_def d')
  ultimately show "pdb_inv d'" by (simp add: pdb_inv_def)
qed simp

text \<open>The call an operation has locked is the only row its update touches.\<close>

lemma locked_call:
  assumes "pdb_inv d" and "find_call tid d k = Some l"
  shows "l \<in> set (port_calls d)" and "pl_CallID l = k" and "pl_TenantID l = tid"
    and "x \<in> set (port_calls d) \<Longrightarrow> pl_CallID x = k \<Longrightarrow> x = l" and "0 < pl_Version l" and "pl_Version l \<le> max_int64"
  using find_callD [OF assms(2)] assms(1) by (auto simp: pdb_inv_def calls_ok_def dest: distinct_key_eq)

lemma calls_ok_update:
  assumes "calls_ok d" and "\<And>x. x \<in> set (port_calls d) \<Longrightarrow> P x \<Longrightarrow> 0 < pl_Version (f x) \<and> pl_Version (f x) \<le> max_int64"
    and "\<And>x. pl_CallID (f x) = pl_CallID x" and "\<And>x. pl_IdempotencyKey (f x) = pl_IdempotencyKey x"
    and "port_calls d' = update_where P f (port_calls d)"
  shows "calls_ok d'"
  using assms by (auto simp: calls_ok_def map_update_where set_update_where)

lemma decision_ok_update:
  assumes "decision_ok T x" and "\<And>l. l \<in> set T \<Longrightarrow> P l \<Longrightarrow> pl_CallID l \<noteq> cd_CallID x"
  shows "decision_ok (update_where P f T) x"
  using assms by (force simp: decision_ok_def set_update_where)

lemma wrap64_succ: "0 < v \<Longrightarrow> v \<le> max_int64 \<Longrightarrow> 0 < wrap64 (v + 1) \<Longrightarrow> wrap64 (v + 1) = v + 1 \<and> v < max_int64"
proof -
  assume "0 < v" "v \<le> max_int64" "0 < wrap64 (v + 1)"
  moreover have "wrap64 (max_int64 + 1) < 0" by (simp add: wrap64_def max_int64_def)
  ultimately have "v < max_int64" by (cases "v = max_int64") auto
  then show ?thesis using \<open>0 < v\<close> by (auto simp: in_int64_def)
qed

lemma inv_transition:
  assumes "pdb_inv d" and "Transition_work k v next e claims d = Inr (l', d')"
  shows "pdb_inv d'"
  using assms(2)
proof (rule Transition_InrE)
  fix l os
  assume l: "find_call (TenantID claims) d k = Some l" and v: "pl_Version l = v" "v < max_int64"
    and t: "portcall_ValidTransition (pl_Status l) next"
    and d': "d' = d\<lparr>port_calls := update_where (\<lambda>x. pl_TenantID x = TenantID claims \<and> pl_CallID x = k \<and> pl_Status x = pl_Status l \<and> pl_Version x = v)
           (\<lambda>x. x\<lparr>pl_Status := next, pl_UpdatedAt := clk e 0, pl_Version := v + 1\<rparr>) (port_calls d), port_call_outbox := os\<rparr>"
  note k = locked_call [OF assms(1) l]
  have "pl_Status l \<noteq> P_ACCEPTED \<and> pl_Status l \<noteq> P_REJECTED" using t by (cases "pl_Status l") auto
  then have "\<forall>x\<in>set (port_call_clearance_decisions d). cd_CallID x \<noteq> k"
    using assms(1) k(4) by (auto simp: pdb_inv_def clearances_ok_def decision_ok_def)
  then have "clearances_ok d'"
    using assms(1) by (auto simp: pdb_inv_def clearances_ok_def d' intro!: decision_ok_update)
  moreover have "calls_ok d'"
    by (rule calls_ok_update [of d]) (use assms(1) v k(5) in \<open>auto simp: pdb_inv_def d'\<close>)
  ultimately show ?thesis using assms(1) by (simp add: pdb_inv_def trails_ok_def documents_ok_def trail_def d')
qed

lemma inv_declare:
  assumes "pdb_inv d" and "declareDocumentTx k r e claims d = Inr (x, d')"
  shows "pdb_inv d'"
  using assms(2)
proof (rule declareDocumentTx_InrE)
  fix l os
  assume x: "x = new_document (rnd e 0) (TenantID claims) k r (clk e 0)"
    and d': "d' = d\<lparr>port_call_documents := port_call_documents d @ [x], port_call_outbox := os\<rparr>"
    and fresh: "\<forall>y\<in>set (port_call_documents d). dc_DocumentID y \<noteq> dc_DocumentID x \<and> \<not> same_evidence k r y"
  have "documents_ok d'"
    using assms(1) fresh by (auto simp: pdb_inv_def documents_ok_def d' x new_document_def same_evidence_def review_ok_def)
  then show ?thesis by (intro pdb_inv_frame [OF assms(1)]) (simp_all add: d')
qed (use assms(1) in simp)

lemma inv_review:
  assumes "pdb_inv d" and "reviewDocumentTx k i r e claims d = Inr (x', d')"
    and "rv_Status r = DocumentVerified \<or> rv_Status r = DocumentRejected"
  shows "pdb_inv d'"
  using assms(2)
proof (rule reviewDocumentTx_InrE)
  fix x :: DocumentDeclaration and os
  let ?P = "\<lambda>y :: DocumentDeclaration. dc_TenantID y = TenantID claims \<and> dc_DocumentID y = i \<and> dc_CallID y = k
           \<and> dc_Status y = DocumentDeclared \<and> dc_Version y = rv_ExpectedVersion r"
  let ?f = "\<lambda>y :: DocumentDeclaration. y\<lparr>dc_Status := rv_Status r, dc_Version := dc_Version x + 1, dc_ReviewedBy := Some (rv_ReviewedBy r),
                 dc_ReviewedReason := Some (rv_Reason r), dc_ReviewedAt := Some (clk e 0), dc_UpdatedAt := clk e 0\<rparr>"
  assume x: "find_document (TenantID claims) d k i = Some x" "dc_Status x = DocumentDeclared" "dc_Version x = rv_ExpectedVersion r"
    and d': "d' = d\<lparr>port_call_documents := update_where ?P ?f (port_call_documents d), port_call_outbox := os\<rparr>"
  have "x \<in> set (port_call_documents d)" using x(1) by (auto simp: find_document_def dest: find_SomeD)
  with assms(1) x(2) have "dc_Version x = 1" by (auto simp: pdb_inv_def documents_ok_def review_ok_def)
  then have "review_ok (?f y)" for y using assms(3) by (auto simp: review_ok_def)
  with assms(1) have "documents_ok d'"
    by (auto simp: pdb_inv_def documents_ok_def d' map_update_where set_update_where)
  then show ?thesis by (intro pdb_inv_frame [OF assms(1)]) (simp_all add: d')
qed

lemma inv_supersede:
  assumes "pdb_inv d" and "SupersedeDocument_work pg_uuid k r e claims d = Inr (u, d')"
  shows "pdb_inv d'"
  using assms(2)
  by (rule SupersedeDocument_InrE) (rule pdb_inv_frame [OF assms(1)], use assms(1) in \<open>simp_all add: pdb_inv_def documents_ok_def\<close>)

lemma inv_register:
  assumes "pdb_inv d" and "RegisterAgencyProfile_work p e claims d = Inr (u, d')"
  shows "pdb_inv d'"
  by (rule pdb_inv_frame [OF assms(1)])
     (use assms in \<open>auto simp: RegisterAgencyProfile_work_def append_profile_event_def Let_def pdb_inv_def documents_ok_def
        split: if_splits option.splits\<close>)

lemma inv_decide:
  assumes "pdb_inv d" and "decideClearanceTx k v dec reason by1 e claims d = Inr (x, d')"
    and "dec = ClearanceApproved \<or> dec = ClearanceRejected"
  shows "pdb_inv d'"
  using assms(2)
proof (rule decideClearanceTx_InrE)
  fix l :: PortCall and os
  let ?P = "\<lambda>l :: PortCall. pl_TenantID l = TenantID claims \<and> pl_CallID l = k \<and> pl_Version l = v"
  let ?f = "\<lambda>l :: PortCall. l\<lparr>pl_UpdatedAt := clk e 0, pl_Version := v + 1\<rparr>"
  assume l: "find_call (TenantID claims) d k = Some l" "pl_Version l = v" "pl_Status l = P_ACCEPTED"
    and x: "x = new_clearance (rnd e 0) (TenantID claims) k dec reason by1 (wrap64 (v + 1)) (clk e 0)" and w: "0 < wrap64 (v + 1)"
    and fresh: "\<forall>y\<in>set (port_call_clearance_decisions d). cd_CallID y \<noteq> k \<and> cd_DecisionID y \<noteq> cd_DecisionID x"
    and d': "d' = d\<lparr>port_call_clearance_decisions := port_call_clearance_decisions d @ [x],
           port_calls := update_where ?P ?f (port_calls d), port_call_outbox := os\<rparr>"
  note kl = locked_call [OF assms(1) l(1)]
  have v: "wrap64 (v + 1) = v + 1" "0 < v" "v < max_int64" using wrap64_succ [of v] kl(5,6) l(2) w by auto
  have "?f l \<in> set (update_where ?P ?f (port_calls d))" by (rule in_update_where) (use kl(1-3) l in simp_all)
  then have "decision_ok (port_calls d') x"
    by (intro decision_okI [of "?f l"]) (use assms(3) kl(2,3) l v in \<open>simp_all add: d' x new_clearance_def\<close>)
  then have "clearances_ok d'"
    using assms(1) fresh by (auto simp: pdb_inv_def clearances_ok_def d' x new_clearance_def intro!: decision_ok_update)
  moreover have "calls_ok d'"
    by (rule calls_ok_update [of d]) (use assms(1) v in \<open>auto simp: pdb_inv_def d'\<close>)
  moreover have "trail d (cd_DecisionID x) = []"
    using assms(1) fresh by (auto simp: pdb_inv_def trails_ok_def trail_def filter_empty_conv)
  then have "trails_ok d'"
    using assms(1) by (auto simp: pdb_inv_def trails_ok_def trail_def d')
  ultimately show ?thesis using assms(1) by (simp add: pdb_inv_def documents_ok_def d')
qed

lemma inv_amend:
  assumes "pdb_inv d" and "amendClearanceTx k r e claims d = Inr (y, d')"
    and "ar_Decision r = ClearanceApproved \<or> ar_Decision r = ClearanceRejected"
  shows "pdb_inv d'"
  using assms(2)
proof (rule amendClearanceTx_InrE)
  fix l :: PortCall and x :: Clearance and a :: AmendmentRow and os
  let ?v = "wrap64 (pl_Version l + 1)"
  let ?P = "\<lambda>y :: PortCall. pl_TenantID y = TenantID claims \<and> pl_CallID y = k \<and> pl_Version y = pl_Version l"
  let ?f = "\<lambda>y :: PortCall. y\<lparr>pl_Version := ?v, pl_Status := (if ar_Decision r = ClearanceRejected then P_REJECTED else P_ACCEPTED),
              pl_UpdatedAt := clk e 0\<rparr>"
  let ?Q = "\<lambda>y :: Clearance. cd_TenantID y = TenantID claims \<and> cd_DecisionID y = cd_DecisionID x"
  let ?g = "\<lambda>y :: Clearance. y\<lparr>cd_Decision := ar_Decision r, cd_Reason := ar_Reason r, cd_DecidedBy := ar_AmendedBy r,
              cd_CallVersion := ?v, cd_DecidedAt := clk e 0\<rparr>"
  assume l: "find_call (TenantID claims) d k = Some l" and x: "find_decision (TenantID claims) d k = Some x"
    and ne: "cd_Decision x \<noteq> ar_Decision r" "cd_DecidedBy x \<noteq> ar_AmendedBy r" and w: "0 < ?v"
    and a: "a = \<lparr>am_AmendmentID = rnd e 0, am_CallID = k, am_PriorDecisionID = cd_DecisionID x,
           am_PriorDecision = cd_Decision x, am_AmendedDecision = ar_Decision r, am_Reason = ar_Reason r,
           am_AmendedBy = ar_AmendedBy r, am_CallVersion = ?v, am_AmendedAt = clk e 0\<rparr>"
    and d': "d' = d\<lparr>port_call_clearance_decisions := update_where ?Q ?g (port_call_clearance_decisions d),
           port_calls := update_where ?P ?f (port_calls d),
           port_call_clearance_amendments := port_call_clearance_amendments d @ [a], port_call_outbox := os\<rparr>"
  note kl = locked_call [OF assms(1) l]
  have v: "?v = pl_Version l + 1" "?v \<le> max_int64" using wrap64_succ [of "pl_Version l"] kl(5,6) w by auto
  have xin: "x \<in> set (port_call_clearance_decisions d)" "cd_CallID x = k" "cd_TenantID x = TenantID claims"
    using x by (auto simp: find_decision_def dest: find_SomeD)
  have only: "z = x" if "z \<in> set (port_call_clearance_decisions d)" "cd_DecisionID z = cd_DecisionID x \<or> cd_CallID z = k" for z
    using assms(1) that xin by (auto simp: pdb_inv_def clearances_ok_def dest: distinct_key_eq)
  have "decision_ok (port_calls d) x" using assms(1) xin(1) by (simp add: pdb_inv_def clearances_ok_def)
  then have cv: "cd_CallVersion x = pl_Version l" using kl(4) xin(2) by (auto simp: decision_ok_def)
  have "?f l \<in> set (update_where ?P ?f (port_calls d))" by (rule in_update_where) (use kl(1-3) in simp_all)
  then have "decision_ok (port_calls d') (?g x)"
    by (intro decision_okI [of "?f l"]) (use assms(3) kl(2,3) xin in \<open>auto simp: d'\<close>)
  moreover have "decision_ok (port_calls d') z" if "z \<in> set (port_call_clearance_decisions d)" "z \<noteq> x" for z
    using assms(1) that only by (auto simp: pdb_inv_def clearances_ok_def d' intro!: decision_ok_update)
  moreover have S: "set (port_call_clearance_decisions d') = insert (?g x) (set (port_call_clearance_decisions d) - {x})"
    unfolding d' using assms(1) xin
    by (simp, intro set_update_unique [where key = cd_DecisionID]) (simp_all add: pdb_inv_def clearances_ok_def)
  moreover have "map cd_CallID (port_call_clearance_decisions d') = map cd_CallID (port_call_clearance_decisions d)"
    and "map cd_DecisionID (port_call_clearance_decisions d') = map cd_DecisionID (port_call_clearance_decisions d)"
    by (simp_all add: d' map_update_where)
  ultimately have "clearances_ok d'"
    using assms(1) by (auto simp: pdb_inv_def clearances_ok_def)
  moreover have "calls_ok d'"
    by (rule calls_ok_update [of d]) (use assms(1) v kl(5) in \<open>auto simp: pdb_inv_def d'\<close>)
  moreover have "trails_ok d'"
  proof -
    have t: "trail d' i = trail d i @ (if i = cd_DecisionID x then [a] else [])" for i
      by (simp add: trail_def d' a)
    from assms(1) xin(1) obtain s where "amended s (trail d (cd_DecisionID x)) (cd_Decision x, cd_DecidedBy x, cd_CallVersion x)"
      by (auto simp: pdb_inv_def trails_ok_def)
    then have "amended s (trail d' (cd_DecisionID x)) (ar_Decision r, ar_AmendedBy r, ?v)"
      using ne v cv by (auto simp: t amended_snoc a)
    moreover have "\<exists>s. amended s (trail d' (cd_DecisionID z)) (cd_Decision z, cd_DecidedBy z, cd_CallVersion z)"
      if "z \<in> set (port_call_clearance_decisions d)" "z \<noteq> x" for z
      using assms(1) that only by (auto simp: pdb_inv_def trails_ok_def t)
    moreover have "\<exists>z\<in>set (port_call_clearance_decisions d'). cd_DecisionID z = am_PriorDecisionID m"
      if "m \<in> set (port_call_clearance_amendments d')" for m
    proof (cases "am_PriorDecisionID m = cd_DecisionID x")
      case False
      with that have "m \<in> set (port_call_clearance_amendments d)" by (auto simp: d' a)
      with assms(1) obtain z where "z \<in> set (port_call_clearance_decisions d)" "cd_DecisionID z = am_PriorDecisionID m"
        by (auto simp: pdb_inv_def trails_ok_def)
      with False show ?thesis by (intro bexI [of _ z]) (auto simp: S)
    qed (simp add: S)
    ultimately show ?thesis by (auto simp: trails_ok_def S simp del: split_paired_Ex)
  qed
  ultimately show ?thesis using assms(1) by (simp add: pdb_inv_def documents_ok_def d')
qed

lemma inv_work: "call_work d d' \<Longrightarrow> pdb_inv d \<Longrightarrow> pdb_inv d'"
  by (induction rule: call_work.induct)
     (auto intro: inv_create inv_transition inv_declare inv_review inv_supersede inv_decide inv_amend inv_register)

lemma call_reachable_inv: "call_reachable d \<Longrightarrow> pdb_inv d"
  by (induction rule: call_reachable.induct) (auto intro: pdb_inv_empty inv_work call_step_work)

section \<open>The life cycle\<close>

datatype phase = Drafted | Submitted | Accepted | Refused | Cleared | Uncleared

fun phase_step :: "phase \<Rightarrow> phase \<Rightarrow> bool" where
  "phase_step Drafted p = (p = Submitted \<or> p = Refused)"
| "phase_step Submitted p = (p = Accepted \<or> p = Refused)"
| "phase_step Accepted p = (p = Cleared \<or> p = Uncleared)"
| "phase_step Cleared p = (p = Uncleared)"
| "phase_step Uncleared p = (p = Cleared)"
| "phase_step Refused p = False"

definition life_step :: "phase \<times> int \<Rightarrow> phase \<times> int \<Rightarrow> bool" where
  "life_step s t \<longleftrightarrow> phase_step (fst s) (fst t) \<and> snd t = snd s + 1"

fun phase_of :: "Clearance option \<Rightarrow> PStatus \<Rightarrow> phase" where
  "phase_of (Some x) st = (if cd_Decision x = ClearanceApproved then Cleared else Uncleared)"
| "phase_of None P_DRAFT = Drafted"
| "phase_of None P_SUBMITTED = Submitted"
| "phase_of None P_ACCEPTED = Accepted"
| "phase_of None P_REJECTED = Refused"

definition call_of :: "pdb \<Rightarrow> string \<Rightarrow> PortCall option" where
  "call_of d k = find (\<lambda>l. pl_CallID l = k) (port_calls d)"

definition decision_of :: "pdb \<Rightarrow> string \<Rightarrow> Clearance option" where
  "decision_of d k = find (\<lambda>x. cd_CallID x = k) (port_call_clearance_decisions d)"

definition call_abs :: "pdb \<Rightarrow> string \<Rightarrow> (phase \<times> int) option" where
  "call_abs d k = map_option (\<lambda>l. (phase_of (decision_of d k) (pl_Status l), pl_Version l)) (call_of d k)"

lemma call_of_locked: "pdb_inv d \<Longrightarrow> find_call tid d k = Some l \<Longrightarrow> call_of d k = Some l"
  using find_unique [of pl_CallID "port_calls d" l] find_callD [of tid d k l] by (auto simp: call_of_def pdb_inv_def calls_ok_def)

lemma decision_of_found: "pdb_inv d \<Longrightarrow> find_decision tid d k = Some x \<Longrightarrow> decision_of d k = Some x"
  using find_unique [of cd_CallID "port_call_clearance_decisions d" x]
  by (auto simp: decision_of_def find_decision_def pdb_inv_def clearances_ok_def dest!: find_SomeD)

lemma decision_of_status:
  assumes "pdb_inv d" and "decision_of d k = Some x" and "call_of d k = Some l"
  shows "pl_Status l = P_ACCEPTED \<or> pl_Status l = P_REJECTED" and "cd_Decision x = ClearanceApproved \<or> cd_Decision x = ClearanceRejected"
proof -
  have x: "x \<in> set (port_call_clearance_decisions d)" "cd_CallID x = k" and l: "l \<in> set (port_calls d)" "pl_CallID l = k"
    using assms(2,3) by (auto simp: decision_of_def call_of_def dest: find_SomeD)
  then have "decision_ok (port_calls d) x" using assms(1) by (simp add: pdb_inv_def clearances_ok_def)
  then obtain l' where "l' \<in> set (port_calls d)" "pl_CallID l' = k" "pl_Status l' = P_ACCEPTED \<or> pl_Status l' = P_REJECTED"
    "cd_Decision x = ClearanceApproved \<or> cd_Decision x = ClearanceRejected"
    using x(2) by (auto simp: decision_ok_def)
  moreover from this l have "l' = l" using assms(1) by (auto simp: pdb_inv_def calls_ok_def dest: distinct_key_eq)
  ultimately show "pl_Status l = P_ACCEPTED \<or> pl_Status l = P_REJECTED" "cd_Decision x = ClearanceApproved \<or> cd_Decision x = ClearanceRejected"
    by auto
qed

text \<open>An operation that moves one call moves only that call.\<close>

definition one_move :: "pdb \<Rightarrow> pdb \<Rightarrow> bool" where
  "one_move d d' \<longleftrightarrow> (\<forall>k. call_abs d' k = call_abs d k \<or> (\<exists>s t. call_abs d k = Some s \<and> call_abs d' k = Some t \<and> life_step s t)
     \<or> call_abs d k = None \<and> call_abs d' k = Some (Drafted, 1))"

lemma one_move_same: "port_calls d' = port_calls d \<Longrightarrow> port_call_clearance_decisions d' = port_call_clearance_decisions d \<Longrightarrow> one_move d d'"
  by (simp add: one_move_def call_abs_def call_of_def decision_of_def)

lemma one_move_at:
  assumes "\<And>k'. k' \<noteq> k \<Longrightarrow> call_abs d' k' = call_abs d k'"
    and "call_abs d k = Some s" and "call_abs d' k = Some t" and "life_step s t"
  shows "one_move d d'"
  unfolding one_move_def using assms by metis

lemma call_of_update:
  assumes "port_calls d' = update_where P f (port_calls d)" and "\<And>x. pl_CallID (f x) = pl_CallID x"
  shows "call_of d' k = map_option (\<lambda>x. if P x then f x else x) (call_of d k)"
  using assms by (simp add: call_of_def find_update_where)

lemma abs_other:
  assumes "port_calls d' = update_where P f (port_calls d)" and "\<And>x. pl_CallID (f x) = pl_CallID x"
    and "\<And>x. P x \<Longrightarrow> pl_CallID x = k" and "k' \<noteq> k" and "decision_of d' k' = decision_of d k'"
  shows "call_abs d' k' = call_abs d k'"
proof -
  have "call_of d' k' = call_of d k'"
  proof (cases "call_of d k'")
    case (Some l)
    then have "pl_CallID l = k'" by (auto simp: call_of_def dest: find_SomeD)
    with assms(3,4) have "\<not> P l" by blast
    with Some show ?thesis by (simp add: call_of_update [OF assms(1,2)])
  qed (simp add: call_of_update [OF assms(1,2)])
  with assms(5) show ?thesis by (simp add: call_abs_def)
qed

lemma move_create:
  assumes "pdb_inv d" and "portcall_createTx key r e claims d = Inr (l, d')"
  shows "one_move d d'"
  using assms(2)
proof (rule portcall_createTx_InrE)
  fix os
  assume l: "l = new_call (TenantID claims) key r (clk e 0)" and d': "d' = d\<lparr>port_calls := port_calls d @ [l], port_call_outbox := os\<rparr>"
    and fresh: "\<forall>x\<in>set (port_calls d). pl_CallID x \<noteq> pc_CallID r \<and> pl_IdempotencyKey x \<noteq> key"
  have "decision_of d (pc_CallID r) = None"
    using assms(1) fresh by (force simp: decision_of_def find_None_iff pdb_inv_def clearances_ok_def decision_ok_def)
  moreover have "call_of d (pc_CallID r) = None" using fresh by (simp add: call_of_def find_None_iff)
  moreover have lk: "pl_CallID l = pc_CallID r" by (simp add: l new_call_def)
  have "call_of d' k = (case call_of d k of None \<Rightarrow> if k = pc_CallID r then Some l else None | Some x \<Rightarrow> Some x)" for k
    by (simp add: call_of_def d' find_append lk split: option.split)
  moreover have "decision_of d' k = decision_of d k" for k by (simp add: decision_of_def d')
  ultimately show ?thesis by (auto simp: one_move_def call_abs_def l new_call_def split: option.splits)
qed (simp add: one_move_def)

lemma move_transition:
  assumes "pdb_inv d" and "Transition_work k v next e claims d = Inr (l', d')"
  shows "one_move d d'"
  using assms(2)
proof (rule Transition_InrE)
  fix l :: PortCall and os
  let ?P = "\<lambda>x :: PortCall. pl_TenantID x = TenantID claims \<and> pl_CallID x = k \<and> pl_Status x = pl_Status l \<and> pl_Version x = v"
  let ?f = "\<lambda>x :: PortCall. x\<lparr>pl_Status := next, pl_UpdatedAt := clk e 0, pl_Version := v + 1\<rparr>"
  assume l: "find_call (TenantID claims) d k = Some l" and v: "pl_Version l = v"
    and t: "portcall_ValidTransition (pl_Status l) next"
    and d': "d' = d\<lparr>port_calls := update_where ?P ?f (port_calls d), port_call_outbox := os\<rparr>"
  have c: "call_of d k = Some l" by (rule call_of_locked [OF assms(1) l])
  have upd: "port_calls d' = update_where ?P ?f (port_calls d)" by (simp add: d')
  have "call_of d' k = Some (?f l)" using c find_callD [OF l] v by (simp add: call_of_update [OF upd])
  moreover have dec: "decision_of d' k' = decision_of d k'" for k' by (simp add: decision_of_def d')
  moreover have n: "decision_of d k = None"
    using decision_of_status(1) [OF assms(1) _ c] t by (cases "decision_of d k"; cases "pl_Status l") auto
  ultimately have "call_abs d' k = Some (phase_of None next, v + 1)" and a: "call_abs d k = Some (phase_of None (pl_Status l), v)"
    using c v by (simp_all add: call_abs_def)
  moreover have "life_step (phase_of None (pl_Status l), v) (phase_of None next, v + 1)"
    using t by (cases "pl_Status l") (auto simp: life_step_def)
  moreover have "call_abs d' k' = call_abs d k'" if "k' \<noteq> k" for k' by (rule abs_other [OF upd _ _ that dec]) auto
  ultimately show ?thesis by (blast intro: one_move_at)
qed

lemma move_decide:
  assumes "pdb_inv d" and "decideClearanceTx k v dec reason by1 e claims d = Inr (x, d')"
  shows "one_move d d'"
  using assms(2)
proof (rule decideClearanceTx_InrE)
  fix l :: PortCall and os
  let ?P = "\<lambda>l :: PortCall. pl_TenantID l = TenantID claims \<and> pl_CallID l = k \<and> pl_Version l = v"
  let ?f = "\<lambda>l :: PortCall. l\<lparr>pl_UpdatedAt := clk e 0, pl_Version := v + 1\<rparr>"
  assume l: "find_call (TenantID claims) d k = Some l" "pl_Version l = v" "pl_Status l = P_ACCEPTED"
    and x: "x = new_clearance (rnd e 0) (TenantID claims) k dec reason by1 (wrap64 (v + 1)) (clk e 0)"
    and fresh: "\<forall>y\<in>set (port_call_clearance_decisions d). cd_CallID y \<noteq> k \<and> cd_DecisionID y \<noteq> cd_DecisionID x"
    and d': "d' = d\<lparr>port_call_clearance_decisions := port_call_clearance_decisions d @ [x],
           port_calls := update_where ?P ?f (port_calls d), port_call_outbox := os\<rparr>"
  have c: "call_of d k = Some l" by (rule call_of_locked [OF assms(1) l(1)])
  have upd: "port_calls d' = update_where ?P ?f (port_calls d)" by (simp add: d')
  have "call_of d' k = Some (?f l)" using c find_callD [OF l(1)] l(2) by (simp add: call_of_update [OF upd])
  moreover have n: "decision_of d k = None" using fresh by (simp add: decision_of_def find_None_iff)
  moreover have "decision_of d' k = Some x"
    using n by (simp add: decision_of_def d' find_append x new_clearance_def)
  ultimately have "call_abs d k = Some (Accepted, v)" "call_abs d' k = Some (phase_of (Some x) P_ACCEPTED, v + 1)"
    using c l by (simp_all add: call_abs_def)
  moreover have "life_step (Accepted, v) (phase_of (Some x) P_ACCEPTED, v + 1)" by (simp add: life_step_def)
  moreover have "call_abs d' k' = call_abs d k'" if "k' \<noteq> k" for k'
    by (rule abs_other [OF upd _ _ that])
       (use that in \<open>auto simp: decision_of_def d' find_append x new_clearance_def split: option.splits\<close>)
  ultimately show ?thesis by (blast intro: one_move_at)
qed

lemma move_amend:
  assumes "pdb_inv d" and "amendClearanceTx k r e claims d = Inr (y, d')"
    and "ar_Decision r = ClearanceApproved \<or> ar_Decision r = ClearanceRejected"
  shows "one_move d d'"
  using assms(2)
proof (rule amendClearanceTx_InrE)
  fix l :: PortCall and x :: Clearance and a :: AmendmentRow and os
  let ?v = "wrap64 (pl_Version l + 1)"
  let ?P = "\<lambda>y :: PortCall. pl_TenantID y = TenantID claims \<and> pl_CallID y = k \<and> pl_Version y = pl_Version l"
  let ?f = "\<lambda>y :: PortCall. y\<lparr>pl_Version := ?v, pl_Status := (if ar_Decision r = ClearanceRejected then P_REJECTED else P_ACCEPTED),
              pl_UpdatedAt := clk e 0\<rparr>"
  let ?Q = "\<lambda>y :: Clearance. cd_TenantID y = TenantID claims \<and> cd_DecisionID y = cd_DecisionID x"
  let ?g = "\<lambda>y :: Clearance. y\<lparr>cd_Decision := ar_Decision r, cd_Reason := ar_Reason r, cd_DecidedBy := ar_AmendedBy r,
              cd_CallVersion := ?v, cd_DecidedAt := clk e 0\<rparr>"
  assume l: "find_call (TenantID claims) d k = Some l" and x: "find_decision (TenantID claims) d k = Some x"
    and ne: "cd_Decision x \<noteq> ar_Decision r" and w: "0 < ?v"
    and d': "d' = d\<lparr>port_call_clearance_decisions := update_where ?Q ?g (port_call_clearance_decisions d),
           port_calls := update_where ?P ?f (port_calls d),
           port_call_clearance_amendments := port_call_clearance_amendments d @ [a], port_call_outbox := os\<rparr>"
  note kl = locked_call [OF assms(1) l]
  have v: "?v = pl_Version l + 1" using wrap64_succ [OF kl(5,6) w] by simp
  have c: "call_of d k = Some l" by (rule call_of_locked [OF assms(1) l])
  have dx: "decision_of d k = Some x" by (rule decision_of_found [OF assms(1) x])
  have xin: "x \<in> set (port_call_clearance_decisions d)" "cd_TenantID x = TenantID claims" "cd_CallID x = k"
    using x by (auto simp: find_decision_def dest: find_SomeD)
  have upd: "port_calls d' = update_where ?P ?f (port_calls d)" by (simp add: d')
  have dec: "decision_of d' k' = map_option (\<lambda>z. if ?Q z then ?g z else z) (decision_of d k')" for k'
    by (simp add: decision_of_def d' find_update_where)
  have "call_of d' k = Some (?f l)" using c kl(2,3) by (simp add: call_of_update [OF upd])
  moreover have "decision_of d' k = Some (?g x)" using dx xin by (simp add: dec)
  ultimately have "call_abs d k = Some (phase_of (Some x) (pl_Status l), pl_Version l)"
    "call_abs d' k = Some (phase_of (Some (?g x)) (pl_Status (?f l)), pl_Version l + 1)"
    using c dx v by (simp_all add: call_abs_def)
  moreover have "life_step (phase_of (Some x) (pl_Status l), pl_Version l) (phase_of (Some (?g x)) (pl_Status (?f l)), pl_Version l + 1)"
    using ne assms(3) decision_of_status(2) [OF assms(1) dx c] by (auto simp: life_step_def)
  moreover have "call_abs d' k' = call_abs d k'" if "k' \<noteq> k" for k'
  proof (rule abs_other [OF upd _ _ that])
    show "decision_of d' k' = decision_of d k'"
    proof (cases "decision_of d k'")
      case (Some z)
      then have z: "z \<in> set (port_call_clearance_decisions d)" "cd_CallID z = k'" by (auto simp: decision_of_def dest: find_SomeD)
      then have "cd_DecisionID z \<noteq> cd_DecisionID x"
        using assms(1) xin that by (auto simp: pdb_inv_def clearances_ok_def dest: distinct_key_eq)
      with Some show ?thesis by (simp add: dec)
    qed (simp add: dec)
  qed auto
  ultimately show ?thesis by (blast intro: one_move_at)
qed

lemma work_moves: "call_work d d' \<Longrightarrow> pdb_inv d \<Longrightarrow> one_move d d'"
proof (induction rule: call_work.induct)
  case (declare_doc k doc e claims d x d')
  from declare_doc.hyps show ?case by (rule declareDocumentTx_InrE) (auto intro: one_move_same)
next
  case (review k i rv e claims d x d')
  from review.hyps(1) show ?case by (rule reviewDocumentTx_InrE) (auto intro: one_move_same)
next
  case (supersede pg_uuid k su e claims d u d')
  from supersede.hyps show ?case by (rule SupersedeDocument_InrE) (auto intro: one_move_same)
next
  case (register p e claims d u d')
  then show ?case
    by (intro one_move_same) (auto simp: RegisterAgencyProfile_work_def append_profile_event_def Let_def split: if_splits option.splits)
qed (auto intro: one_move_same move_create move_transition move_decide move_amend)

interpretation calls: lifecycle_refinement pdb_inv call_step call_abs "(Drafted, 1)" life_step
proof
  fix d d' :: pdb and k p
  assume i: "pdb_inv d" and s: "call_step d d'"
  show "pdb_inv d'" by (rule inv_work [OF call_step_work [OF s] i])
  note m = spec [OF work_moves [OF call_step_work [OF s] i, unfolded one_move_def], of k]
  show "\<exists>p'. call_abs d' k = Some p' \<and> (p' = p \<or> life_step p p')" if "call_abs d k = Some p"
    using m that by (auto simp del: split_paired_Ex)
  show "call_abs d' k = None \<or> call_abs d' k = Some (Drafted, 1)" if "call_abs d k = None"
    using m that by auto
qed

lemma reachable_run: "call_reachable d \<Longrightarrow> call_step\<^sup>*\<^sup>* empty_pdb d"
  by (induction rule: call_reachable.induct) (auto intro: rtranclp.rtrancl_into_rtrancl)

end
