(* ===== verification/Portcall_Properties.thy ===== *)
theory Portcall_Properties
  imports Portcall_Correct Scenario
begin

text \<open>
  What the port-call store guarantees: one clearance decision per call with a complete
  trail of amendments, a life cycle in which the version counts the steps, evidence behind
  every approval and reviews that are final; with a run of one call from registration to
  an amended clearance.
\<close>

section \<open>Documents\<close>

fun review_step :: "DocumentStatus \<Rightarrow> DocumentStatus \<Rightarrow> bool" where
  "review_step DocumentDeclared st = (st = DocumentVerified \<or> st = DocumentRejected)"
| "review_step _ st = False"

interpretation drows: versioned_rows dc_DocumentID dc_TenantID dc_Status dc_Version review_step
proof
  show "\<not> review_step s s" for s by (cases s) auto
qed

lemma documents_evolve:
  assumes "call_work d d'" and "pdb_inv d"
  shows "\<exists>tid. drows.evolves tid (port_call_documents d) (port_call_documents d')"
  using assms
proof (induction rule: call_work.induct)
  case (create key r e claims d l d')
  from create(1) show ?case by (rule portcall_createTx_InrE) auto
next
  case (transition k v "next" e claims d l d')
  from transition(1) show ?case by (rule Transition_InrE) auto
next
  case (declare_doc k doc e claims d x d')
  from declare_doc(1) show ?case
    by (rule declareDocumentTx_InrE) (auto simp: new_document_def intro!: exI [of _ "TenantID claims"] drows.evolves_insert)
next
  case (review k i rv e claims d x d')
  from review(1) show ?case
  proof (rule reviewDocumentTx_InrE)
    fix x :: DocumentDeclaration and os
    let ?P = "\<lambda>y :: DocumentDeclaration. dc_TenantID y = TenantID claims \<and> dc_DocumentID y = i \<and> dc_CallID y = k
           \<and> dc_Status y = DocumentDeclared \<and> dc_Version y = rv_ExpectedVersion rv"
    let ?f = "\<lambda>y :: DocumentDeclaration. y\<lparr>dc_Status := rv_Status rv, dc_Version := dc_Version x + 1, dc_ReviewedBy := Some (rv_ReviewedBy rv),
                 dc_ReviewedReason := Some (rv_Reason rv), dc_ReviewedAt := Some (clk e 0), dc_UpdatedAt := clk e 0\<rparr>"
    assume v: "dc_Version x = rv_ExpectedVersion rv" "dc_Version x < max_int64"
      and d': "d' = d\<lparr>port_call_documents := update_where ?P ?f (port_call_documents d), port_call_outbox := os\<rparr>"
      and x: "find_document (TenantID claims) d k i = Some x" "dc_Status x = DocumentDeclared"
    have one: "dc_Version x = 1"
      using x review.prems by (auto simp: find_document_def pdb_inv_def documents_ok_def review_ok_def dest!: find_SomeD)
    have "drows.evolves (TenantID claims) (port_call_documents d) (update_where ?P ?f (port_call_documents d))"
      by (rule drows.evolves_update) (use review(2) v one in \<open>auto simp: row_step_def in_int64_def max_int64_def\<close>)
    then show ?thesis by (auto simp: d')
  qed
next
  case (supersede pg_uuid k su e claims d u d')
  from supersede(1) show ?case by (rule SupersedeDocument_InrE) auto
next
  case (decide k v dec reason by1 e claims d y d')
  from decide(1) show ?case by (rule decideClearanceTx_InrE) auto
next
  case (amend k am e claims d y d')
  from amend(1) show ?case by (rule amendClearanceTx_InrE) auto
next
  case (register p e claims d u d')
  then show ?case by (auto simp: RegisterAgencyProfile_work_def append_profile_event_def Let_def split: if_splits option.splits)
qed auto

text \<open>A review is final: a document that was verified or rejected stays exactly as it is.\<close>

lemma review_final:
  assumes "pdb_inv d" and "call_step d d'" and "x \<in> set (port_call_documents d)" and "dc_Status x \<noteq> DocumentDeclared"
  shows "x \<in> set (port_call_documents d')"
proof -
  obtain tid where "drows.evolves tid (port_call_documents d) (port_call_documents d')"
    using documents_evolve [OF call_step_work [OF assms(2)] assms(1)] by blast
  moreover have "\<not> review_step (dc_Status x) t" for t using assms(4) by (cases "dc_Status x") auto
  ultimately show ?thesis using assms(3) by (blast intro: drows.evolves_stuck)
qed

section \<open>Findings\<close>

text \<open>
  The agency tables are shared by all tenants: whoever registers a known profile version as
  inactive, with the same code and digest, switches it off for every tenant.
\<close>

lemma profile_off_for_all:
  assumes "RegisterAgencyProfile_work p e claims d = Inr (u, d')" and "\<not> ag_Active p"
  shows "ensureActiveAgencyProfile d' (ag_ProfileID p) (ag_Version p) = Inl ErrClearanceInvalid"
  using assms
  by (auto simp: RegisterAgencyProfile_work_def append_profile_event_def Let_def ensureActiveAgencyProfile_def latest_activation_def
      profile_event_def split: if_splits option.splits)

text \<open>The answer and the event of a transition carry no agency profile, whatever the call is bound to.\<close>

lemma transition_answer_unbound:
  "Transition_work k v next e claims d = Inr (l, d') \<Longrightarrow> pl_AgencyProfileID l = [] \<and> pl_AgencyProfileVersion l = []"
  by (auto simp: Transition_work_def bindE_Inr_iff Let_def split: if_splits)

section \<open>A run\<close>

definition demo_digest :: string where
  "demo_digest = ''sha256:'' @ replicate 64 (CHR ''a'')"

definition demo_profile :: AgencyProfileRegistration where
  "demo_profile = \<lparr>ag_ProfileID = ''npa'', ag_Version = ''v1'', ag_AgencyCode = ''NPA'', ag_ProfileSHA256 = demo_digest,
     ag_RegisteredBy = ''admin'', ag_Active = True\<rparr>"

definition demo_call_request :: PCreateRequest where
  "demo_call_request = \<lparr>pc_CallID = ''call-1'', pc_VesselIMO = ''9074729'', pc_PortCode = ''NGAPP'', pc_DeclarationRef = ''decl-1'',
     pc_SubmittedBy = ''agent'', pc_AgencyProfileID = ''npa'', pc_AgencyProfileVersion = ''v1''\<rparr>"

lemma demo_digest_ok: "sha256_text demo_digest"
  by (simp add: sha256_text_def demo_digest_def match_regex_single is_hex_def go_simps list_all_iff del: match_regex.simps)

lemma demo_digest_prefix: "prefix ''sha256:'' demo_digest" "demo_digest \<noteq> []"
  by (simp_all add: demo_digest_def)

definition demo_p1 :: pdb where
  "demo_p1 = snd (RegisterAgencyProfile demo_ctx demo_profile (demo_env 1 ''x'') empty_pdb)"

definition demo_p2 :: pdb where
  "demo_p2 = snd (portcall_Create id demo_ctx ''key-1'' demo_call_request (demo_env 2 ''a'') demo_p1)"

definition demo_p3 :: pdb where
  "demo_p3 = snd (Transition demo_ctx ''call-1'' 1 P_SUBMITTED (demo_env 3 ''b'') demo_p2)"

definition demo_p4 :: pdb where
  "demo_p4 = snd (Transition demo_ctx ''call-1'' 2 P_ACCEPTED (demo_env 4 ''c'') demo_p3)"

definition demo_p5 :: pdb where
  "demo_p5 = snd (DecideClearance demo_ctx ''call-1'' 3 ClearanceRejected ''no papers'' ''officer'' (demo_env 5 ''d'') demo_p4)"

definition demo_p6 :: pdb where
  "demo_p6 = snd (AmendClearance demo_ctx ''call-1'' \<lparr>ar_ExpectedVersion = 4, ar_Decision = ClearanceApproved, ar_Reason = ''papers seen'',
     ar_AmendedBy = ''chief''\<rparr> (demo_env 6 ''e'') demo_p5)"

lemma demo_p_reachable:
  "call_reachable demo_p1" "call_reachable demo_p2" "call_reachable demo_p3" "call_reachable demo_p4" "call_reachable demo_p5"
  "call_reachable demo_p6"
proof -
  show 1: "call_reachable demo_p1"
    by (rule call_reachable.step [OF call_reachable.init])
       (rule call_step.RegisterAgencyProfile, simp add: demo_p1_def prod_eq_iff)
  show 2: "call_reachable demo_p2"
    by (rule call_reachable.step [OF 1]) (rule call_step.Create, simp add: demo_p2_def prod_eq_iff)
  show 3: "call_reachable demo_p3"
    by (rule call_reachable.step [OF 2]) (rule call_step.Transition, simp add: demo_p3_def prod_eq_iff)
  show 4: "call_reachable demo_p4"
    by (rule call_reachable.step [OF 3]) (rule call_step.Transition, simp add: demo_p4_def prod_eq_iff)
  show 5: "call_reachable demo_p5"
    by (rule call_reachable.step [OF 4]) (rule call_step.DecideClearance, simp add: demo_p5_def prod_eq_iff)
  show "call_reachable demo_p6"
    by (rule call_reachable.step [OF 5]) (rule call_step.AmendClearance, simp add: demo_p6_def prod_eq_iff)
qed

lemma demo_p1_eq:
  "demo_p1 = empty_pdb\<lparr>port_agency_profile_versions := [\<lparr>pv_ProfileID = ''npa'', pv_Version = ''v1'', pv_AgencyCode = ''NPA'',
       pv_ProfileSHA256 = demo_digest, pv_RegisteredBy = ''admin'', pv_RegisteredAt = 1, pv_TenantID = ''tenant-demo''\<rparr>],
     port_agency_profile_events := [profile_event demo_profile ''REGISTERED'' True ''profile version registered'' 1 ''tenant-demo'']\<rparr>"
  by (simp add: demo_p1_def RegisterAgencyProfile_def RegisterAgencyProfile_work_def WithTx_demo demo_profile_def demo_digest_prefix
      demo_digest_ok profile_versions_check_def append_profile_event_def empty_pdb_def Let_def match_regex_single
      is_profile_char_def is_letter_def go_simps numeral_eq_Suc del: match_regex.simps)

definition demo_call :: "PStatus \<Rightarrow> time \<Rightarrow> int \<Rightarrow> PortCall" where
  "demo_call st at v = (new_call ''tenant-demo'' ''key-1'' demo_call_request 2)\<lparr>pl_Status := st, pl_UpdatedAt := at, pl_Version := v\<rparr>"

lemma demo_call_simps [simp]:
  "pl_CallID (demo_call st at v) = ''call-1''" "pl_TenantID (demo_call st at v) = ''tenant-demo''" "pl_Status (demo_call st at v) = st"
  "pl_Version (demo_call st at v) = v" "pl_AgencyProfileID (demo_call st at v) = ''npa''" "pl_AgencyProfileVersion (demo_call st at v) = ''v1''"
  "(demo_call st at v)\<lparr>pl_Status := st', pl_UpdatedAt := at', pl_Version := v'\<rparr> = demo_call st' at' v'"
  "(demo_call st at v)\<lparr>pl_UpdatedAt := at', pl_Version := v'\<rparr> = demo_call st at' v'"
  "(demo_call st at v)\<lparr>pl_Version := v', pl_Status := st', pl_UpdatedAt := at'\<rparr> = demo_call st' at' v'"
  by (simp_all add: demo_call_def new_call_def demo_call_request_def)

lemma demo_request_valid: "portcall_Validate id demo_call_request = Inr ()"
proof -
  have "imonumber_Valid ''9074729''" by code_simp
  then show ?thesis
    by (simp add: portcall_Validate_def demo_call_request_def portcall_portCodePattern_def match_regex_single go_simps del: match_regex.simps)
qed

lemma demo_active: "port_agency_profile_events d = port_agency_profile_events demo_p1 \<Longrightarrow> ensureActiveAgencyProfile d ''npa'' ''v1'' = Inr ()"
  by (simp add: ensureActiveAgencyProfile_def latest_activation_def demo_p1_eq empty_pdb_def profile_event_def demo_profile_def)

definition demo_state :: "pdb \<Rightarrow> PortCall \<Rightarrow> Clearance list \<Rightarrow> AmendmentRow list \<Rightarrow> string list \<Rightarrow> bool" where
  "demo_state d l cs ms ids \<longleftrightarrow> port_calls d = [l] \<and> port_call_documents d = [] \<and> port_call_clearance_decisions d = cs
     \<and> port_call_clearance_amendments d = ms \<and> map po_EventID (port_call_outbox d) = ids
     \<and> port_agency_profile_events d = port_agency_profile_events demo_p1"

lemma demo_p2_state: "demo_state demo_p2 (demo_call P_DRAFT 2 1) [] [] [''a'']"
proof -
  have "portcall_createTx ''key-1'' demo_call_request (demo_env 2 ''a'') demo_claims demo_p1 =
      Inr (demo_call P_DRAFT 2 1, demo_p1\<lparr>port_calls := [demo_call P_DRAFT 2 1], port_call_outbox :=
        [\<lparr>po_EventID = ''a'', po_TenantID = ''tenant-demo'', po_CallID = ''call-1'', po_EventType = ''port_call.created'',
          po_Payload = CallEvent (demo_call P_DRAFT 2 1), po_CreatedAt = 2\<rparr>]\<rparr>)"
    using demo_active [of demo_p1]
    by (simp add: portcall_createTx_def demo_call_request_def demo_call_def new_call_def demo_p1_eq empty_pdb_def write_event_def wrap_err_def
        Let_def)
  then show ?thesis
    by (simp add: demo_p2_def portcall_Create_def demo_request_valid WithTx_demo demo_state_def) (simp add: demo_p1_eq empty_pdb_def)
qed

text \<open>Steps of the one call of the run.\<close>

lemma demo_transition:
  assumes "demo_state d (demo_call st at v) cs ms ids" and "v < max_int64" and "portcall_ValidTransition st next" and "i \<notin> set ids"
  shows "demo_state (snd (Transition demo_ctx ''call-1'' v next (demo_env t i) d)) (demo_call next t (v + 1)) cs ms (ids @ [i])"
  using assms
  by (auto simp: Transition_def Transition_work_def WithTx_demo portcall_getTx_def find_call_def demo_state_def write_event_def wrap_err_def
      pg_inc_def Let_def update_where_def list_ex_iff)

lemma demo_p3_state: "demo_state demo_p3 (demo_call P_SUBMITTED 3 2) [] [] [''a'', ''b'']"
  using demo_transition [OF demo_p2_state, of P_SUBMITTED "''b''" 3] by (simp add: demo_p3_def max_int64_def)

lemma demo_p4_state: "demo_state demo_p4 (demo_call P_ACCEPTED 4 3) [] [] [''a'', ''b'', ''c'']"
  using demo_transition [OF demo_p3_state, of P_ACCEPTED "''c''" 4] by (simp add: demo_p4_def max_int64_def)

definition demo_refusal :: Clearance where
  "demo_refusal = new_clearance ''d'' ''tenant-demo'' ''call-1'' ClearanceRejected ''no papers'' ''officer'' 4 5"

lemma demo_decide:
  "DecideClearance demo_ctx ''call-1'' 3 ClearanceRejected ''no papers'' ''officer'' (demo_env 5 ''d'') demo_p4 = (Inr demo_refusal, demo_p5)
   \<and> demo_state demo_p5 (demo_call P_ACCEPTED 5 4) [demo_refusal] [] [''a'', ''b'', ''c'', ''dx'']"
proof -
  have w: "wrap64 4 = 4" by (simp add: wrap64_def)
  have "decideClearanceTx ''call-1'' 3 ClearanceRejected ''no papers'' ''officer'' (demo_env 5 ''d'') demo_claims demo_p4 =
      Inr (demo_refusal, demo_p4\<lparr>port_call_clearance_decisions := [demo_refusal], port_calls := [demo_call P_ACCEPTED 5 4],
        port_call_outbox := port_call_outbox demo_p4 @ [\<lparr>po_EventID = ''dx'', po_TenantID = ''tenant-demo'', po_CallID = ''call-1'',
          po_EventType = ''port_call.clearance_decided'', po_Payload = ClearanceEvent demo_refusal, po_CreatedAt = 5\<rparr>]\<rparr>)"
    using demo_p4_state demo_active [of demo_p4]
    by (auto simp: decideClearanceTx_def portcall_getTx_def find_call_def demo_state_def write_event_def wrap_err_def w demo_refusal_def
        Let_def update_where_def list_ex_iff new_clearance_def)
  then have "DecideClearance demo_ctx ''call-1'' 3 ClearanceRejected ''no papers'' ''officer'' (demo_env 5 ''d'') demo_p4 =
      (Inr demo_refusal, demo_p4\<lparr>port_call_clearance_decisions := [demo_refusal], port_calls := [demo_call P_ACCEPTED 5 4],
        port_call_outbox := port_call_outbox demo_p4 @ [\<lparr>po_EventID = ''dx'', po_TenantID = ''tenant-demo'', po_CallID = ''call-1'',
          po_EventType = ''port_call.clearance_decided'', po_Payload = ClearanceEvent demo_refusal, po_CreatedAt = 5\<rparr>]\<rparr>)"
    by (simp add: DecideClearance_def WithTx_demo go_simps)
  then show ?thesis using demo_p4_state by (simp add: demo_p5_def demo_state_def)
qed

definition demo_amendment :: ClearanceAmendmentRequest where
  "demo_amendment = \<lparr>ar_ExpectedVersion = 4, ar_Decision = ClearanceApproved, ar_Reason = ''papers seen'', ar_AmendedBy = ''chief''\<rparr>"

definition demo_amended :: Clearance where
  "demo_amended = new_clearance ''d'' ''tenant-demo'' ''call-1'' ClearanceApproved ''papers seen'' ''chief'' 5 6"

definition demo_amendment_row :: AmendmentRow where
  "demo_amendment_row = \<lparr>am_AmendmentID = ''e'', am_CallID = ''call-1'', am_PriorDecisionID = ''d'', am_PriorDecision = ClearanceRejected,
     am_AmendedDecision = ClearanceApproved, am_Reason = ''papers seen'', am_AmendedBy = ''chief'', am_CallVersion = 5, am_AmendedAt = 6\<rparr>"

lemma demo_amend:
  "AmendClearance demo_ctx ''call-1'' demo_amendment (demo_env 6 ''e'') demo_p5 = (Inr demo_amended, demo_p6)
   \<and> demo_state demo_p6 (demo_call P_ACCEPTED 6 5) [demo_amended] [demo_amendment_row] [''a'', ''b'', ''c'', ''dx'', ''ex'']"
proof -
  let ?d = "demo_p5\<lparr>port_call_clearance_decisions := [demo_amended], port_calls := [demo_call P_ACCEPTED 6 5],
        port_call_clearance_amendments := [demo_amendment_row],
        port_call_outbox := port_call_outbox demo_p5 @ [\<lparr>po_EventID = ''ex'', po_TenantID = ''tenant-demo'', po_CallID = ''call-1'',
          po_EventType = ''port_call.clearance_amended'', po_Payload = ClearanceEvent demo_amended, po_CreatedAt = 6\<rparr>]\<rparr>"
  have w: "wrap64 5 = 5" by (simp add: wrap64_def)
  have "amendClearanceTx ''call-1'' demo_amendment (demo_env 6 ''e'') demo_claims demo_p5 = Inr (demo_amended, ?d)"
    using conjunct2 [OF demo_decide]
    by (auto simp: amendClearanceTx_def portcall_getTx_def find_call_def find_decision_def demo_state_def write_event_def w demo_amendment_def
        demo_refusal_def demo_amended_def demo_amendment_row_def Let_def update_where_def list_ex_iff new_clearance_def)
  then have "AmendClearance demo_ctx ''call-1'' demo_amendment (demo_env 6 ''e'') demo_p5 = (Inr demo_amended, ?d)"
    by (simp add: AmendClearance_def WithTx_demo demo_amendment_def validateWorkflowText_def go_simps)
  then show ?thesis using conjunct2 [OF demo_decide] by (simp add: demo_p6_def demo_state_def demo_amendment_def)
qed

text \<open>An amendment asks for no evidence: the refused call is approved without a single document.\<close>

lemma amendment_needs_no_evidence:
  "call_reachable demo_p6 \<and> port_call_documents demo_p6 = [] \<and> map cd_Decision (port_call_clearance_decisions demo_p6) = [ClearanceApproved]
   \<and> map pl_Status (port_calls demo_p6) = [P_ACCEPTED]"
  using demo_p_reachable(6) demo_amend by (simp add: demo_state_def demo_amended_def new_clearance_def)

section \<open>Properties\<close>

text \<open>
  What one operation does to a decision: nothing, or it is an amendment, and then the amendment
  row it appends to the trail records the change.
\<close>

definition clearance_state :: "Clearance \<Rightarrow> ClearanceDecision \<times> string \<times> int" where
  "clearance_state x = (cd_Decision x, cd_DecidedBy x, cd_CallVersion x)"

definition decision_recorded :: "pdb \<Rightarrow> pdb \<Rightarrow> Clearance \<Rightarrow> Clearance \<Rightarrow> bool" where
  "decision_recorded d d' x x' \<longleftrightarrow> cd_DecisionID x' = cd_DecisionID x \<and> cd_CallID x' = cd_CallID x \<and> cd_TenantID x' = cd_TenantID x
     \<and> (\<exists>ms. trail d' (cd_DecisionID x) = trail d (cd_DecisionID x) @ ms \<and> amended (clearance_state x) ms (clearance_state x'))"

lemma amended_trans: "amended s ms t \<Longrightarrow> amended t ns u \<Longrightarrow> amended s (ms @ ns) u"
  by (induction s ms t rule: amended.induct) auto

lemma decision_recorded_same:
  "port_call_clearance_amendments d' = port_call_clearance_amendments d \<Longrightarrow> decision_recorded d d' x x"
  by (simp add: decision_recorded_def trail_def)

lemma decision_recorded_trans: "decision_recorded d d1 x y \<Longrightarrow> decision_recorded d1 d2 y z \<Longrightarrow> decision_recorded d d2 x z"
  unfolding decision_recorded_def by (metis amended_trans append.assoc)

lemma amend_recorded:
  assumes "pdb_inv d" and "amendClearanceTx k r e claims d = Inr (y, d')" and "z \<in> set (port_call_clearance_decisions d)"
  shows "\<exists>z'\<in>set (port_call_clearance_decisions d'). decision_recorded d d' z z'"
  using assms(2)
proof (rule amendClearanceTx_InrE)
  fix l :: PortCall and x :: Clearance and a :: AmendmentRow and os
  let ?v = "wrap64 (pl_Version l + 1)"
  let ?Q = "\<lambda>y :: Clearance. cd_TenantID y = TenantID claims \<and> cd_DecisionID y = cd_DecisionID x"
  let ?g = "\<lambda>y :: Clearance. y\<lparr>cd_Decision := ar_Decision r, cd_Reason := ar_Reason r, cd_DecidedBy := ar_AmendedBy r,
              cd_CallVersion := ?v, cd_DecidedAt := clk e 0\<rparr>"
  assume l: "find_call (TenantID claims) d k = Some l" and x: "find_decision (TenantID claims) d k = Some x"
    and ne: "cd_Decision x \<noteq> ar_Decision r" "cd_DecidedBy x \<noteq> ar_AmendedBy r" and w: "0 < ?v"
    and a: "a = \<lparr>am_AmendmentID = rnd e 0, am_CallID = k, am_PriorDecisionID = cd_DecisionID x,
           am_PriorDecision = cd_Decision x, am_AmendedDecision = ar_Decision r, am_Reason = ar_Reason r,
           am_AmendedBy = ar_AmendedBy r, am_CallVersion = ?v, am_AmendedAt = clk e 0\<rparr>"
    and d': "d' = d\<lparr>port_call_clearance_decisions := update_where ?Q ?g (port_call_clearance_decisions d),
           port_calls := update_where (\<lambda>y. pl_TenantID y = TenantID claims \<and> pl_CallID y = k \<and> pl_Version y = pl_Version l)
             (\<lambda>y. y\<lparr>pl_Version := ?v, pl_Status := (if ar_Decision r = ClearanceRejected then P_REJECTED else P_ACCEPTED),
                   pl_UpdatedAt := clk e 0\<rparr>) (port_calls d),
           port_call_clearance_amendments := port_call_clearance_amendments d @ [a], port_call_outbox := os\<rparr>"
  note kl = locked_call [OF assms(1) l]
  have xin: "x \<in> set (port_call_clearance_decisions d)" "cd_CallID x = k" "cd_TenantID x = TenantID claims"
    using x by (auto simp: find_decision_def dest: find_SomeD)
  have "decision_ok (port_calls d) x" using assms(1) xin(1) by (simp add: pdb_inv_def clearances_ok_def)
  then have v: "?v = cd_CallVersion x + 1" using kl(4) xin(2) wrap64_succ [of "pl_Version l"] kl(5,6) w by (auto simp: decision_ok_def)
  have t: "trail d' i = trail d i @ (if i = cd_DecisionID x then [a] else [])" for i by (simp add: trail_def d' a)
  show ?thesis
  proof (cases "z = x")
    case True
    have "?g x \<in> set (port_call_clearance_decisions d')" unfolding d' using xin by (auto intro: in_update_where)
    moreover have "decision_recorded d d' x (?g x)" using ne v by (simp add: decision_recorded_def clearance_state_def t a)
    ultimately show ?thesis using True by blast
  next
    case False
    then have "cd_DecisionID z \<noteq> cd_DecisionID x"
      using assms(1,3) xin(1) by (auto simp: pdb_inv_def clearances_ok_def dest: distinct_key_eq)
    moreover from this have "z \<in> set (port_call_clearance_decisions d')" using assms(3) by (auto simp: d' update_where_def)
    ultimately show ?thesis by (intro bexI [of _ z]) (simp_all add: decision_recorded_def t)
  qed
qed

lemma work_recorded:
  assumes "call_work d d'" and "pdb_inv d" and "x \<in> set (port_call_clearance_decisions d)"
  shows "\<exists>x'\<in>set (port_call_clearance_decisions d'). decision_recorded d d' x x'"
proof -
  have "set (port_call_clearance_decisions d) \<subseteq> set (port_call_clearance_decisions d')
      \<and> port_call_clearance_amendments d' = port_call_clearance_amendments d
      \<or> (\<exists>k r e claims y. amendClearanceTx k r e claims d = Inr (y, d'))"
    using assms(1)
    by cases (auto simp: RegisterAgencyProfile_work_def append_profile_event_def Let_def split: if_splits option.splits
        elim!: portcall_createTx_InrE Transition_InrE declareDocumentTx_InrE reviewDocumentTx_InrE SupersedeDocument_InrE decideClearanceTx_InrE)
  then show ?thesis using amend_recorded [OF assms(2) _ assms(3)] assms(3) by (auto intro: decision_recorded_same)
qed

lemma run_recorded:
  assumes "call_step\<^sup>*\<^sup>* d d'" and "pdb_inv d" and "x \<in> set (port_call_clearance_decisions d)"
  shows "pdb_inv d' \<and> (\<exists>x'\<in>set (port_call_clearance_decisions d'). decision_recorded d d' x x')"
  using assms(1)
proof (induction rule: rtranclp_induct)
  case base
  show ?case using assms(2,3) by (auto intro: decision_recorded_same)
next
  case (step e e')
  note w = call_step_work [OF step.hyps(2)]
  from step.IH obtain y where "pdb_inv e" "y \<in> set (port_call_clearance_decisions e)" "decision_recorded d e x y" by blast
  moreover from this obtain z where "z \<in> set (port_call_clearance_decisions e')" "decision_recorded e e' y z"
    using work_recorded [OF w] by blast
  ultimately show ?case using inv_work [OF w] decision_recorded_trans by blast
qed

text \<open>
  Claim C11. The history of a clearance is complete. Take any decision that \<open>DecideClearance\<close>
  makes in a reachable state, and any later operations of all tenants. Afterwards the call still
  has that decision and no other, the decision names the version the call is at, an approved call
  is ACCEPTED, and the amendment rows on record, in order, lead from exactly the decision, the
  decider and the version of the first decision to the current ones: each row names the decision
  it changes, changes it, is by someone other than the previous decider and is one version
  further. So no change of a decision is missing from the trail.
\<close>

theorem clearance_trail_complete:
  assumes "call_reachable d" and "DecideClearance c k v dec reason by1 e d = (Inr x, d1)" and "call_step\<^sup>*\<^sup>* d1 d'"
  shows "\<exists>x'\<in>set (port_call_clearance_decisions d'). cd_DecisionID x' = cd_DecisionID x \<and> cd_CallID x' = k
    \<and> amended (dec, by1, v + 1) (trail d' (cd_DecisionID x)) (cd_Decision x', cd_DecidedBy x', cd_CallVersion x')
    \<and> (\<forall>y\<in>set (port_call_clearance_decisions d'). cd_CallID y = k \<longrightarrow> y = x')
    \<and> (\<exists>l\<in>set (port_calls d'). pl_CallID l = k \<and> pl_TenantID l = cd_TenantID x \<and> pl_Version l = cd_CallVersion x'
        \<and> (cd_Decision x' = ClearanceApproved \<longrightarrow> pl_Status l = P_ACCEPTED))"
proof -
  note inv = call_reachable_inv [OF assms(1)]
  from assms(2) obtain claims where "decideClearanceTx k v dec reason by1 e claims d = Inr (x, d1)"
    by (auto simp: DecideClearance_def split: if_splits dest!: WithTx_InrD)
  then have x: "x \<in> set (port_call_clearance_decisions d1)" "clearance_state x = (dec, by1, v + 1)" "cd_CallID x = k"
    and fresh: "\<forall>y\<in>set (port_call_clearance_decisions d). cd_DecisionID y \<noteq> cd_DecisionID x"
    and same: "port_call_clearance_amendments d1 = port_call_clearance_amendments d"
    using locked_call(5,6) [OF inv] wrap64_succ by (auto elim!: decideClearanceTx_InrE simp: clearance_state_def new_clearance_def)
  have "trail d1 (cd_DecisionID x) = []"
    using inv fresh by (auto simp: pdb_inv_def trails_ok_def trail_def filter_empty_conv same)
  moreover have "pdb_inv d1" by (rule inv_work [OF call_step_work [OF call_step.DecideClearance [OF assms(2)]] inv])
  ultimately obtain x' where inv': "pdb_inv d'" and x': "x' \<in> set (port_call_clearance_decisions d')" "cd_DecisionID x' = cd_DecisionID x"
      "cd_CallID x' = k" "cd_TenantID x' = cd_TenantID x" "amended (dec, by1, v + 1) (trail d' (cd_DecisionID x)) (clearance_state x')"
    using run_recorded [OF assms(3) _ x(1)] x(2,3) by (auto simp: decision_recorded_def)
  then have "distinct (map cd_CallID (port_call_clearance_decisions d'))" and ok: "decision_ok (port_calls d') x'"
    by (simp_all add: pdb_inv_def clearances_ok_def)
  then have "\<forall>y\<in>set (port_call_clearance_decisions d'). cd_CallID y = k \<longrightarrow> y = x'"
    using x'(1,3) by (metis distinct_key_eq)
  moreover have "\<exists>l\<in>set (port_calls d'). pl_CallID l = k \<and> pl_TenantID l = cd_TenantID x \<and> pl_Version l = cd_CallVersion x'
      \<and> (cd_Decision x' = ClearanceApproved \<longrightarrow> pl_Status l = P_ACCEPTED)"
    using ok x'(3,4) unfolding decision_ok_def by auto
  ultimately show ?thesis using x'(2,3) x'(5) [unfolded clearance_state_def] by (intro bexI [OF _ x'(1)]) blast
qed

theorem clearance_trail_complete_witness:
  "DecideClearance demo_ctx ''call-1'' 3 ClearanceRejected ''no papers'' ''officer'' (demo_env 5 ''d'') demo_p4 = (Inr demo_refusal, demo_p5)
   \<and> call_step demo_p5 demo_p6
   \<and> port_call_clearance_decisions demo_p6 = [demo_amended] \<and> trail demo_p6 ''d'' = [demo_amendment_row]
   \<and> amended (ClearanceRejected, ''officer'', 4) [demo_amendment_row] (ClearanceApproved, ''chief'', 5)"
proof -
  have s: "demo_state demo_p6 (demo_call P_ACCEPTED 6 5) [demo_amended] [demo_amendment_row] [''a'', ''b'', ''c'', ''dx'', ''ex'']"
    using demo_amend ..
  have st: "call_step demo_p5 demo_p6" by (rule call_step.AmendClearance [OF conjunct1 [OF demo_amend]])
  from clearance_trail_complete [OF demo_p_reachable(4) conjunct1 [OF demo_decide], of demo_p6] st s conjunct1 [OF demo_decide] show ?thesis
    by (simp add: demo_state_def trail_def demo_amended_def new_clearance_def demo_amendment_row_def demo_refusal_def r_into_rtranclp)
qed

text \<open>
  Claim C10. The store refines the life cycle of a call (drafted, submitted, accepted or refused,
  then cleared or not, with amendments switching between the two): one operation moves each
  call by at most one step of the life cycle and its version by exactly one then, a new call
  starts drafted at version 1, no call disappears, and every call in a reachable state got
  where it is by steps of the life cycle.
\<close>

theorem calls_refine_lifecycle:
  assumes "call_reachable d" and "call_step d d'"
  shows "(case call_abs d k of
        None \<Rightarrow> call_abs d' k = None \<or> call_abs d' k = Some (Drafted, 1)
      | Some s \<Rightarrow> life_step\<^sup>*\<^sup>* (Drafted, 1) s \<and> (call_abs d' k = Some s \<or> (\<exists>t. call_abs d' k = Some t \<and> life_step s t)))"
proof (cases "call_abs d k")
  case None
  with calls.appears [OF call_reachable_inv [OF assms(1)] assms(2)] show ?thesis by simp
next
  case (Some s)
  have "call_abs empty_pdb k = None" by (simp add: call_abs_def call_of_def empty_pdb_def)
  from calls.run_appears [OF reachable_run [OF assms(1)] pdb_inv_empty this Some]
  have "life_step\<^sup>*\<^sup>* (Drafted, 1) s" .
  moreover from calls.moves [OF call_reachable_inv [OF assms(1)] assms(2) Some]
  have "call_abs d' k = Some s \<or> (\<exists>t. call_abs d' k = Some t \<and> life_step s t)" by (auto simp del: split_paired_Ex)
  ultimately show ?thesis using Some by simp
qed

theorem calls_refine_lifecycle_witness:
  "call_abs demo_p4 ''call-1'' = Some (Accepted, 3) \<and> call_abs demo_p5 ''call-1'' = Some (Uncleared, 4)
   \<and> life_step\<^sup>*\<^sup>* (Drafted, 1) (Accepted, 3) \<and> life_step (Accepted, 3) (Uncleared, 4)"
proof -
  have a: "call_abs demo_p4 ''call-1'' = Some (Accepted, 3)" "call_abs demo_p5 ''call-1'' = Some (Uncleared, 4)"
    using demo_p4_state demo_decide
    by (simp_all add: demo_state_def call_abs_def call_of_def decision_of_def demo_refusal_def new_clearance_def)
  have "call_step demo_p4 demo_p5" by (rule call_step.DecideClearance [OF conjunct1 [OF demo_decide]])
  from calls_refine_lifecycle [OF demo_p_reachable(4) this, of "''call-1''"] a show ?thesis by (simp add: life_step_def)
qed

text \<open>
  Claim C9. Clearance rests on evidence: when \<open>DecideClearance\<close> succeeds, the call was ACCEPTED
  at the expected version, its agency profile was active, it had no decision before, and
  for an approval it had at least one document and every one of its documents was verified;
  the decision is stored for the next version. Every error leaves the tables unchanged.
\<close>

theorem DecideClearance_evidence:
  assumes "call_reachable d" and "ctx_claims c = Some claims" and "DecideClearance c k v dec reason by1 e d = (y, d')"
  shows "case y of
      Inl err \<Rightarrow> d' = d
    | Inr x \<Rightarrow> \<exists>l. find_call (TenantID claims) d k = Some l \<and> pl_Status l = P_ACCEPTED \<and> pl_Version l = v
        \<and> latest_activation d (pl_AgencyProfileID l) (pl_AgencyProfileVersion l) = Some True
        \<and> (dec = ClearanceApproved \<longrightarrow> (\<exists>z\<in>set (port_call_documents d). dc_TenantID z = TenantID claims \<and> dc_CallID z = k)
              \<and> (\<forall>z\<in>set (port_call_documents d). dc_TenantID z = TenantID claims \<and> dc_CallID z = k \<longrightarrow> dc_Status z = DocumentVerified))
        \<and> decision_of d k = None \<and> decision_of d' k = Some x \<and> cd_Decision x = dec \<and> cd_CallVersion x = v + 1
        \<and> call_of d' k = Some (l\<lparr>pl_UpdatedAt := clk e 0, pl_Version := v + 1\<rparr>)"
proof (cases y)
  case (Inl err)
  with assms(3) show ?thesis by (auto simp: DecideClearance_def split: if_splits elim!: WithTx_cases)
next
  case (Inr x)
  note inv = call_reachable_inv [OF assms(1)]
  from assms(2,3) Inr have "decideClearanceTx k v dec reason by1 e claims d = Inr (x, d')"
    by (auto simp: DecideClearance_def split: if_splits dest!: WithTx_InrD)
  then show ?thesis
  proof (rule decideClearanceTx_InrE)
    fix l :: PortCall and os
    let ?P = "\<lambda>l :: PortCall. pl_TenantID l = TenantID claims \<and> pl_CallID l = k \<and> pl_Version l = v"
    let ?f = "\<lambda>l :: PortCall. l\<lparr>pl_UpdatedAt := clk e 0, pl_Version := v + 1\<rparr>"
    assume l: "find_call (TenantID claims) d k = Some l" "pl_Version l = v" "pl_Status l = P_ACCEPTED"
      and act: "ensureActiveAgencyProfile d (pl_AgencyProfileID l) (pl_AgencyProfileVersion l) = Inr ()"
      and ev: "dec = ClearanceApproved \<Longrightarrow> evidence_verified (TenantID claims) d k"
      and x: "x = new_clearance (rnd e 0) (TenantID claims) k dec reason by1 (wrap64 (v + 1)) (clk e 0)" "0 < wrap64 (v + 1)"
      and fresh: "\<forall>y\<in>set (port_call_clearance_decisions d). cd_CallID y \<noteq> k \<and> cd_DecisionID y \<noteq> cd_DecisionID x"
      and d': "d' = d\<lparr>port_call_clearance_decisions := port_call_clearance_decisions d @ [x],
             port_calls := update_where ?P ?f (port_calls d), port_call_outbox := os\<rparr>"
    have w: "wrap64 (v + 1) = v + 1" using wrap64_succ [of v] locked_call(5,6) [OF inv l(1)] l(2) x(2) by auto
    have n: "decision_of d k = None" using fresh by (simp add: decision_of_def find_None_iff)
    then have "decision_of d' k = Some x" by (simp add: decision_of_def d' find_append x new_clearance_def)
    moreover have "call_of d' k = Some (?f l)"
      using call_of_locked [OF inv l(1)] find_callD [OF l(1)] l(2) call_of_update [of d' ?P ?f d k] by (simp add: d')
    moreover have "latest_activation d (pl_AgencyProfileID l) (pl_AgencyProfileVersion l) = Some True"
      using act by (auto simp: ensureActiveAgencyProfile_def split: option.splits if_splits)
    ultimately show ?thesis
      using l n ev w Inr by (auto simp: x(1) new_clearance_def evidence_verified_def call_documents_def filter_empty_conv list_all_iff)
  qed
qed

theorem DecideClearance_evidence_witness:
  "decision_of demo_p4 ''call-1'' = None \<and> decision_of demo_p5 ''call-1'' = Some demo_refusal
   \<and> latest_activation demo_p4 ''npa'' ''v1'' = Some True \<and> cd_CallVersion demo_refusal = 4"
proof -
  have "find_call ''tenant-demo'' demo_p4 ''call-1'' = Some (demo_call P_ACCEPTED 4 3)"
    using demo_p4_state by (simp add: demo_state_def find_call_def)
  with DecideClearance_evidence [OF demo_p_reachable(4) _ conjunct1 [OF demo_decide], of demo_claims] show ?thesis by simp
qed

end
