(* ===== verification/Outbox.thy ===== *)
theory Outbox
  imports Events Booking_Model
begin

text \<open>
  The transactional outbox as the packages besides booking and queue use it: each package
  builds its envelope and inserts one row of \<^verbatim>\<open>platform_outbox\<close> in the transaction of the
  mutation. A package's state holds the rows it wrote; \<open>event_id\<close> is a fresh UUID of the
  envelope and the primary key.
\<close>

record 'p outbox_row =
  ox_EventID :: string
  ox_TenantID :: string
  ox_Topic :: string
  ox_EventType :: string
  ox_Payload :: "'p Envelope"
  ox_CreatedAt :: time

definition put_event ::
  "Claims \<Rightarrow> string \<Rightarrow> string \<Rightarrow> 'p Envelope \<Rightarrow> time \<Rightarrow> 'p outbox_row list \<Rightarrow> 'p outbox_row list result" where
  "put_event claims topic eventType envelope occurredAt os =
     (if list_ex (\<lambda>x. ox_EventID x = ev_EventID envelope) os
      then Inl (Wrapf (''write '' @ eventType @ '' outbox event'') (PgErr (UniqueViolation ''platform_outbox_pkey'')))
      else Inr (os @ [\<lparr>ox_EventID = ev_EventID envelope, ox_TenantID = TenantID claims, ox_Topic = topic, ox_EventType = eventType,
                       ox_Payload = envelope, ox_CreatedAt = occurredAt\<rparr>]))"

definition emit_event ::
  "Claims \<Rightarrow> string \<Rightarrow> string \<Rightarrow> string \<Rightarrow> string \<Rightarrow> 'p \<Rightarrow> (string \<times> string) list \<Rightarrow> Principal \<Rightarrow> time \<Rightarrow> 'p signer option
   \<Rightarrow> env \<Rightarrow> 'p outbox_row list \<Rightarrow> 'p outbox_row list result" where
  "emit_event claims topic eventType correlationID subjectID payload extensions pr occurredAt signer e os =
     bindE (wrap_err (''build '' @ eventType @ '' envelope'') (Message eventType topic correlationID subjectID payload extensions
              \<lparr>PrincipalID = pr_ID pr, PrincipalRole = pr_Role pr, Signature = [], LedgerCommitHash = []\<rparr>
              occurredAt signer e)) (\<lambda>envelope. put_event claims topic eventType envelope occurredAt os)"

text \<open>What the row of an emitted event says.\<close>

definition announces :: "Claims \<Rightarrow> string \<Rightarrow> string \<Rightarrow> string \<Rightarrow> Principal \<Rightarrow> 'p outbox_row \<Rightarrow> bool" where
  "announces claims topic eventType subjectID pr x \<longleftrightarrow>
     ox_TenantID x = TenantID claims \<and> ox_Topic x = topic \<and> ox_EventType x = eventType
     \<and> ev_EventType (ox_Payload x) = eventType \<and> fb_ID (ev_FHIR (ox_Payload x)) = subjectID
     \<and> PrincipalID (ev_Provenance (ox_Payload x)) = pr_ID pr"

lemma emit_event_InrE:
  assumes "emit_event claims topic ty corr sub p ext pr at signer e os = Inr os'"
  obtains x where "os' = os @ [x]" and "announces claims topic ty sub pr x" and "\<forall>y\<in>set os. ox_EventID y \<noteq> ox_EventID x"
    and "signer \<noteq> None" and "TrimSpace (pr_ID pr) \<noteq> []"
  using assms
  by (auto simp: emit_event_def put_event_def bindE_Inr_iff announces_def list_ex_iff split: if_splits dest!: Message_InrD)

lemma emit_event_distinct:
  "emit_event claims topic ty corr sub p ext pr at signer e os = Inr os' \<Longrightarrow> distinct (map ox_EventID os)
   \<Longrightarrow> distinct (map ox_EventID os')"
  by (erule emit_event_InrE) auto

text \<open>An event with a signer that works, visible texts and a fresh id is written.\<close>

lemma emit_event_ok:
  assumes "signer = Some sign" and "\<And>env. \<exists>s. sign env = Inr s" and "TrimSpace ty \<noteq> []" and "validTopic topic" and "TrimSpace corr \<noteq> []"
    and "TrimSpace sub \<noteq> []" and "TrimSpace (pr_ID pr) \<noteq> []" and "TrimSpace (pr_Role pr) \<noteq> []"
    and "list_all (\<lambda>k. TrimSpace k \<noteq> []) (map fst ext)" and "rnd e 1 \<notin> set (map ox_EventID os)"
  shows "\<exists>x. emit_event claims topic ty corr sub p ext pr at signer e os = Inr (os @ [x]) \<and> ox_EventID x = rnd e 1"
proof -
  have "\<not> list_ex (\<lambda>key. TrimSpace key = []) (map fst ext)" using assms(9) by (auto simp: list_all_iff list_ex_iff)
  moreover define env where "env = \<lparr>ev_EnvelopeVersion = ''1.0'', ev_EventID = rnd e 1, ev_EventType = ty, ev_OccurredAt = at,
      ev_Producer = ''s1-port-interoperability'', ev_CorrelationID = corr, ev_Classification = ''INTERNAL'',
      ev_FHIR = \<lparr>fb_Timestamp = at, fb_FullURL = ''urn:uuid:'' @ rnd e 0, fb_ID = sub, fb_Code = ty, fb_Extension = entry_extensions p ext\<rparr>,
      ev_Provenance = \<lparr>PrincipalID = pr_ID pr, PrincipalRole = pr_Role pr, Signature = [], LedgerCommitHash = []\<rparr>\<rparr>"
  moreover obtain sg where "sign env = Inr sg" using assms(2) by blast
  ultimately have m: "Message ty topic corr sub p ext
      \<lparr>PrincipalID = pr_ID pr, PrincipalRole = pr_Role pr, Signature = [], LedgerCommitHash = []\<rparr> at signer e
      = Inr (env\<lparr>ev_Provenance := (ev_Provenance env)\<lparr>Signature := sg\<rparr>\<rparr>)"
    using assms(1,3-8) by (simp add: Message_def Let_def)
  have "\<not> list_ex (\<lambda>x. ox_EventID x = rnd e 1) os" using assms(10) by (simp add: list_ex_iff) (metis image_eqI)
  with m show ?thesis by (simp add: emit_event_def put_event_def wrap_err_def env_def)
qed

end
