(* ===== verification/Json.thy ===== *)
theory Json
  imports Go_Format
begin

text \<open>
  The part of \<open>encoding/json\<close> the sources hash or store as text: strings with the encoder's
  HTML escaping, integers, string lists and objects whose keys are in the order of the map
  encoder. Strings are UTF-8 byte lists; a byte that starts no valid sequence is replaced.
\<close>

definition cont_byte :: "char \<Rightarrow> bool" where
  "cont_byte c \<longleftrightarrow> 128 \<le> byte c \<and> byte c \<le> 191"

text \<open>The number of bytes of the valid multi-byte sequence at the front, or 0.\<close>

fun utf8_len :: "string \<Rightarrow> nat" where
  "utf8_len (a # b # r) =
     (if 194 \<le> byte a \<and> byte a \<le> 223 \<and> cont_byte b then 2
      else case r of
        [] \<Rightarrow> 0
      | c # r' \<Rightarrow>
          if \<not> cont_byte b \<or> \<not> cont_byte c then 0
          else if byte a = 224 then (if 160 \<le> byte b then 3 else 0)
          else if byte a = 237 then (if byte b \<le> 159 then 3 else 0)
          else if 225 \<le> byte a \<and> byte a \<le> 239 then 3
          else (case r' of
             [] \<Rightarrow> 0
           | d # _ \<Rightarrow>
               if \<not> cont_byte d then 0
               else if byte a = 240 then (if 144 \<le> byte b then 4 else 0)
               else if byte a = 244 then (if byte b \<le> 143 then 4 else 0)
               else if 241 \<le> byte a \<and> byte a \<le> 243 then 4 else 0))"
| "utf8_len _ = 0"

definition hex_of :: "nat \<Rightarrow> char" where
  "hex_of n = ''0123456789abcdef'' ! n"

definition json_ascii :: "char \<Rightarrow> string" where
  "json_ascii c =
     (if c = CHR 0x22 \<or> c = CHR 0x5C then [CHR 0x5C, c]
      else if byte c = 8 then [CHR 0x5C, CHR ''b''] else if byte c = 12 then [CHR 0x5C, CHR ''f'']
      else if byte c = 10 then [CHR 0x5C, CHR ''n''] else if byte c = 13 then [CHR 0x5C, CHR ''r'']
      else if byte c = 9 then [CHR 0x5C, CHR ''t'']
      else if byte c < 32 \<or> c = CHR ''<'' \<or> c = CHR ''>'' \<or> c = CHR ''&''
      then CHR 0x5C # ''u00'' @ [hex_of (byte c div 16), hex_of (byte c mod 16)]
      else [c])"

function json_body :: "string \<Rightarrow> string" where
  "json_body [] = []"
| "json_body (c # s) =
     (if byte c < 128 then json_ascii c @ json_body s
      else let n = utf8_len (c # s) in
        if n = 0 then CHR 0x5C # ''ufffd'' @ json_body s
        else if take n (c # s) = map char_of [226, 128, 168::nat] then CHR 0x5C # ''u2028'' @ json_body (drop n (c # s))
        else if take n (c # s) = map char_of [226, 128, 169::nat] then CHR 0x5C # ''u2029'' @ json_body (drop n (c # s))
        else take n (c # s) @ json_body (drop n (c # s)))"
  by pat_completeness auto
termination
  by (relation "measure length") auto

definition json_string :: "string \<Rightarrow> string" where
  "json_string s = CHR 0x22 # json_body s @ [CHR 0x22]"

definition join :: "string \<Rightarrow> string list \<Rightarrow> string" where
  "join sep xs = concat (case xs of [] \<Rightarrow> [] | x # r \<Rightarrow> x # map ((@) sep) r)"

definition json_strings :: "string list \<Rightarrow> string" where
  "json_strings xs = ''['' @ join '','' (map json_string xs) @ '']''"

definition json_object :: "(string \<times> string) list \<Rightarrow> string" where
  "json_object kvs = ''{'' @ join '','' (map (\<lambda>(k, v). json_string k @ '':'' @ v) kvs) @ ''}''"

definition json_null_or :: "('a \<Rightarrow> string) \<Rightarrow> 'a option \<Rightarrow> string" where
  "json_null_or f x = (case x of None \<Rightarrow> ''null'' | Some a \<Rightarrow> f a)"

end
