(* ===== verification/Declarations.thy ===== *)
theory Declarations
  imports Outbox Json Sha256
begin

text \<open>
  \<^verbatim>\<open>src/internal/declarations/model.go\<close> and \<^verbatim>\<open>rules.go\<close>: the customs declaration, its life
  cycle, the validation of requests, and the pure business rules (HS codes, risk lanes,
  duty, permits and service windows). Money is \<open>int64\<close> minor units and rates are basis points.
\<close>

section \<open>Model\<close>

datatype DStatus =
    StatusDraft | StatusSubmitted | StatusRiskAssessed | StatusGreenLane | StatusYellowLane | StatusRedLane
  | StatusCleared | StatusRejected | StatusScoringUnavailable | StatusSuperseded

fun status_text :: "DStatus \<Rightarrow> string" where
  "status_text StatusDraft = ''DRAFT''"
| "status_text StatusSubmitted = ''SUBMITTED''"
| "status_text StatusRiskAssessed = ''RISK_ASSESSED''"
| "status_text StatusGreenLane = ''GREEN_LANE''"
| "status_text StatusYellowLane = ''YELLOW_LANE''"
| "status_text StatusRedLane = ''RED_LANE''"
| "status_text StatusCleared = ''CLEARED''"
| "status_text StatusRejected = ''REJECTED''"
| "status_text StatusScoringUnavailable = ''SCORING_UNAVAILABLE''"
| "status_text StatusSuperseded = ''SUPERSEDED''"

datatype RiskLane = LaneGreen | LaneYellow | LaneRed

fun lane_text :: "RiskLane \<Rightarrow> string" where
  "lane_text LaneGreen = ''GREEN''"
| "lane_text LaneYellow = ''YELLOW''"
| "lane_text LaneRed = ''RED''"

fun LaneStatus :: "RiskLane \<Rightarrow> DStatus" where
  "LaneStatus LaneGreen = StatusGreenLane"
| "LaneStatus LaneYellow = StatusYellowLane"
| "LaneStatus LaneRed = StatusRedLane"

datatype DeclarationType = TypeImport | TypeExport | TypeTransit | TypeReExport | TypeTemporaryImport | OtherType string

fun type_text :: "DeclarationType \<Rightarrow> string" where
  "type_text TypeImport = ''IMPORT''"
| "type_text TypeExport = ''EXPORT''"
| "type_text TypeTransit = ''TRANSIT''"
| "type_text TypeReExport = ''RE_EXPORT''"
| "type_text TypeTemporaryImport = ''TEMPORARY_IMPORT''"
| "type_text (OtherType t) = t"

fun declaration_transitions :: "DStatus \<Rightarrow> DStatus list" where
  "declaration_transitions StatusDraft = [StatusSubmitted, StatusSuperseded]"
| "declaration_transitions StatusSubmitted = [StatusRiskAssessed, StatusScoringUnavailable, StatusRejected, StatusSuperseded]"
| "declaration_transitions StatusRiskAssessed = [StatusGreenLane, StatusYellowLane, StatusRedLane, StatusSuperseded]"
| "declaration_transitions StatusGreenLane = [StatusCleared, StatusRejected, StatusSuperseded]"
| "declaration_transitions StatusYellowLane = [StatusCleared, StatusRejected, StatusSuperseded]"
| "declaration_transitions StatusRedLane = [StatusCleared, StatusRejected, StatusSuperseded]"
| "declaration_transitions StatusRejected = [StatusSuperseded]"
| "declaration_transitions StatusScoringUnavailable = [StatusSuperseded]"
| "declaration_transitions StatusCleared = []"
| "declaration_transitions StatusSuperseded = []"

definition declaration_ValidTransition :: "DStatus \<Rightarrow> DStatus \<Rightarrow> bool" where
  "declaration_ValidTransition current next \<longleftrightarrow> next \<in> set (declaration_transitions current)"

definition Amendable :: "DStatus \<Rightarrow> bool" where
  "Amendable status \<longleftrightarrow> declaration_ValidTransition status StatusSuperseded"

record DCreateRequest =
  dq_RequestID :: string
  dq_DeclarationRef :: string
  dq_UCR :: string
  dq_DeclarationType :: DeclarationType
  dq_HSCode :: string
  dq_GoodsDescription :: string
  dq_CountryOfOrigin :: string
  dq_CountryOfDestination :: string
  dq_PortOfEntry :: string
  dq_GrossWeightKg :: int
  dq_NetWeightKg :: int
  dq_NumberOfPackages :: int
  dq_ConsigneeID :: string
  dq_OperatorID :: string
  dq_IsAEO :: bool
  dq_InvoiceAmountMinor :: int
  dq_FreightAmountMinor :: int
  dq_InsuranceAmountMinor :: int
  dq_InvoiceCurrency :: string
  dq_TariffBPS :: int
  dq_VatBPS :: int
  dq_LevyBPS :: int
  dq_ExciseBPS :: int

record Declaration =
  de_DeclarationID :: string
  de_TenantID :: string
  de_RequestID :: string
  de_DeclarationRef :: string
  de_UCR :: "string option"
  de_Revision :: int
  de_SupersedesID :: "string option"
  de_TraderID :: string
  de_DeclarationType :: DeclarationType
  de_Status :: DStatus
  de_RiskLane :: "RiskLane option"
  de_RiskScore :: "int option"
  de_ScoringModel :: "string option"
  de_ScoringError :: "string option"
  de_HSCode :: string
  de_GoodsDescription :: string
  de_CountryOfOrigin :: string
  de_CountryOfDestination :: "string option"
  de_PortOfEntry :: string
  de_GrossWeightKg :: int
  de_NetWeightKg :: int
  de_NumberOfPackages :: int
  de_ConsigneeID :: string
  de_OperatorID :: string
  de_IsAEO :: bool
  de_InvoiceAmountMinor :: int
  de_FreightAmountMinor :: int
  de_InsuranceAmountMinor :: int
  de_InvoiceCurrency :: string
  de_TariffBPS :: int
  de_VatBPS :: int
  de_LevyBPS :: int
  de_ExciseBPS :: int
  de_DutyMinor :: "int option"
  de_VatMinor :: "int option"
  de_LevyMinor :: "int option"
  de_ExciseMinor :: "int option"
  de_TotalDutyMinor :: "int option"
  de_RejectionReason :: "string option"
  de_SubmittedAt :: "time option"
  de_ClearedAt :: "time option"
  de_CreatedAt :: time
  de_UpdatedAt :: time
  de_Version :: int

record Permit =
  pm_PermitID :: string
  pm_TenantID :: string
  pm_DeclarationID :: string
  pm_AgencyCode :: string
  pm_AgencyName :: string
  pm_PermitType :: "string option"
  pm_PermitNumber :: "string option"
  pm_Status :: string
  pm_SLADeadline :: "time option"
  pm_ExpiresAt :: "time option"
  pm_RespondedAt :: "time option"
  pm_CreatedAt :: time
  pm_UpdatedAt :: time

record DClearanceCertificate =
  cc_CertificateID :: string
  cc_TenantID :: string
  cc_DeclarationID :: string
  cc_CertificateNumber :: string
  cc_IssuedBy :: string
  cc_PayloadSHA256 :: string
  cc_IssuedAt :: time

section \<open>HS codes\<close>

definition NormalizeHSCode :: "string \<Rightarrow> string result" where
  "NormalizeHSCode hsCode =
     (let cleaned = filter (\<lambda>c. c \<noteq> CHR '' '') (filter (\<lambda>c. c \<noteq> CHR ''.'') hsCode) in
      if cleaned = [] then Inl (ErrText ''hs_code is required'')
      else if \<not> list_all is_digit cleaned then Inl (ErrText ''hs_code must contain only digits (dots are stripped automatically)'')
      else if len cleaned < 6 then Inl (ErrText ''hs_code must be at least 6 digits for the international standard'')
      else if len cleaned > 10 then Inl (ErrText ''hs_code must not exceed 10 digits'')
      else Inr cleaned)"

section \<open>Validation\<close>

definition d_refPattern :: "segment list" where
  "d_refPattern = [Seg is_upper_digit 1 1, Seg is_upper_digit_slash_dash 3 63]"

definition countryPattern :: "segment list" where
  "countryPattern = [Seg is_upper 2 2]"

definition d_currencyPattern :: "segment list" where
  "d_currencyPattern = [Seg is_upper 3 3]"

definition canonical_between :: "int \<Rightarrow> int \<Rightarrow> string \<Rightarrow> bool" where
  "canonical_between lo hi s \<longleftrightarrow> \<not> (len s < lo \<or> len s > hi \<or> s \<noteq> TrimSpace s)"

text \<open>The rates are checked in the order Go's map iteration gives; \<open>order\<close> is the order of this run.\<close>

fun first_bad_rate :: "(string \<times> int) list \<Rightarrow> string option" where
  "first_bad_rate [] = None"
| "first_bad_rate ((name, bps) # rest) = (if bps < 0 \<or> bps > 10000 then Some name else first_bad_rate rest)"

type_synonym rate_order = "(string \<times> int) list \<Rightarrow> (string \<times> int) list"

definition declaration_Validate :: "rate_order \<Rightarrow> DCreateRequest \<Rightarrow> unit result" where
  "declaration_Validate order r =
     (if \<not> canonical_between 8 128 (dq_RequestID r)
      then Inl (ErrText ''request_id must be canonical text between 8 and 128 characters'')
      else if \<not> match_regex d_refPattern (dq_DeclarationRef r) then Inl (ErrText ''declaration_ref is invalid'')
      else if dq_UCR r \<noteq> [] \<and> (len (dq_UCR r) < 8 \<or> len (dq_UCR r) > 64) then Inl (ErrText ''ucr must be between 8 and 64 characters'')
      else if (case dq_DeclarationType r of OtherType _ \<Rightarrow> True | _ \<Rightarrow> False)
      then Inl (ErrText ''declaration_type must be IMPORT, EXPORT, TRANSIT, RE_EXPORT or TEMPORARY_IMPORT'')
      else bindE (NormalizeHSCode (dq_HSCode r)) (\<lambda>_.
        if len (dq_GoodsDescription r) < 10 \<or> len (dq_GoodsDescription r) > 4096
        then Inl (ErrText ''goods_description must be between 10 and 4096 characters'')
        else if \<not> match_regex countryPattern (dq_CountryOfOrigin r)
        then Inl (ErrText ''country_of_origin must be an ISO-2 uppercase code'')
        else if dq_CountryOfDestination r \<noteq> [] \<and> \<not> match_regex countryPattern (dq_CountryOfDestination r)
        then Inl (ErrText ''country_of_destination must be an ISO-2 uppercase code'')
        else if len (dq_PortOfEntry r) < 2 \<or> len (dq_PortOfEntry r) > 64
        then Inl (ErrText ''port_of_entry must be between 2 and 64 characters'')
        else if dq_GrossWeightKg r \<le> 0 then Inl (ErrText ''gross_weight_kg must be positive'')
        else if dq_NetWeightKg r \<le> 0 \<or> dq_NetWeightKg r > dq_GrossWeightKg r
        then Inl (ErrText ''net_weight_kg must be positive and no greater than gross_weight_kg'')
        else if dq_NumberOfPackages r \<le> 0 then Inl (ErrText ''number_of_packages must be positive'')
        else if \<not> canonical_between 2 128 (dq_ConsigneeID r)
        then Inl (ErrText ''consignee_id must be canonical text between 2 and 128 characters'')
        else if \<not> canonical_between 2 128 (dq_OperatorID r)
        then Inl (ErrText ''operator_id must be canonical text between 2 and 128 characters'')
        else if dq_InvoiceAmountMinor r \<le> 0 then Inl (ErrText ''invoice_amount_minor must be positive'')
        else if dq_FreightAmountMinor r < 0 \<or> dq_InsuranceAmountMinor r < 0
        then Inl (ErrText ''freight and insurance amounts must be non-negative'')
        else if \<not> match_regex d_currencyPattern (dq_InvoiceCurrency r)
        then Inl (ErrText ''invoice_currency must be an ISO-3 uppercase code'')
        else case first_bad_rate (order [(''tariff_bps'', dq_TariffBPS r), (''vat_bps'', dq_VatBPS r),
                                          (''levy_bps'', dq_LevyBPS r), (''excise_bps'', dq_ExciseBPS r)]) of
               Some name \<Rightarrow> Inl (ErrText (name @ '' must be between 0 and 10000 basis points''))
             | None \<Rightarrow> Inr ()))"

section \<open>Risk lanes\<close>

definition highRiskCountries :: "string list" where
  "highRiskCountries = [''AF'', ''BY'', ''CU'', ''IR'', ''KP'', ''LY'', ''MM'', ''RU'', ''SD'', ''SY'', ''VE'', ''YE'', ''ZW'']"

definition controlledHSPrefixes :: "string list" where
  "controlledHSPrefixes = [''93'', ''28'', ''84'', ''85'']"

record RiskInput =
  ri_Score :: int
  ri_IsAEO :: bool
  ri_IsSanctioned :: bool
  ri_InvoiceAmountMinor :: int
  ri_HighValueThresholdMinor :: int
  ri_CountryOfOrigin :: string
  ri_HSCode :: string

record RiskAssessment =
  ra_Lane :: RiskLane
  ra_AdjustedScore :: int
  ra_Reasons :: "string list"

definition em_dash :: string where
  "em_dash = map char_of [226, 128, 148::nat]"

text \<open>The score with the reasons so far, through one adjustment.\<close>

definition adjust :: "bool \<Rightarrow> (int \<Rightarrow> int) \<Rightarrow> string \<Rightarrow> int \<times> string list \<Rightarrow> int \<times> string list" where
  "adjust applies f reason acc = (if applies then (f (fst acc), snd acc @ [reason]) else acc)"

definition adjusted_score :: "RiskInput \<Rightarrow> int \<times> string list" where
  "adjusted_score i =
     (let category = take 2 (ri_HSCode i) in
      adjust (ri_IsAEO i) (\<lambda>s. max 0 (s - 20)) ''AEO status: risk score reduced by 20 points''
      (adjust (len (ri_HSCode i) \<ge> 2 \<and> category \<in> set controlledHSPrefixes) (\<lambda>s. min 100 (s + 15)) (''controlled goods category: '' @ category)
      (adjust (ri_HighValueThresholdMinor i > 0 \<and> ri_InvoiceAmountMinor i > ri_HighValueThresholdMinor i) (\<lambda>s. min 100 (s + 10)) ''high-value shipment''
      (adjust (ri_CountryOfOrigin i \<in> set highRiskCountries) (\<lambda>s. min 100 (s + 20)) (''high-risk country of origin: '' @ ri_CountryOfOrigin i)
      (ri_Score i, [])))))"

definition lane_of :: "int \<times> string list \<Rightarrow> RiskAssessment" where
  "lane_of acc =
     (let a = fst acc; r = snd acc in
      if a \<ge> 70
      then \<lparr>ra_Lane = LaneRed, ra_AdjustedScore = a,
            ra_Reasons = r @ [''risk score '' @ fmt_d a @ '' >= 70 '' @ em_dash @ '' physical examination required'']\<rparr>
      else if a \<ge> 40
      then \<lparr>ra_Lane = LaneYellow, ra_AdjustedScore = a,
            ra_Reasons = r @ [''risk score '' @ fmt_d a @ '' >= 40 '' @ em_dash @ '' documentary review required'']\<rparr>
      else \<lparr>ra_Lane = LaneGreen, ra_AdjustedScore = a,
            ra_Reasons = r @ [''risk score '' @ fmt_d a @ '' < 40 '' @ em_dash @ '' auto-clearance eligible'']\<rparr>)"

definition AssignRiskLane :: "RiskInput \<Rightarrow> RiskAssessment result" where
  "AssignRiskLane i =
     (if ri_Score i < 0 \<or> ri_Score i > 100 then Inl (ErrText ''risk score must be between 0 and 100'')
      else if ri_IsSanctioned i
      then Inr \<lparr>ra_Lane = LaneRed, ra_AdjustedScore = 100, ra_Reasons = [''sanctioned party detected '' @ em_dash @ '' automatic red lane'']\<rparr>
      else Inr (lane_of (adjusted_score i)))"

definition ReasonAEOUnverified :: string where
  "ReasonAEOUnverified = ''AEO_UNVERIFIED: claimed AEO status is not verifiable against the accreditation registry''"

definition ApplyAEOClaimGuard :: "RiskAssessment \<Rightarrow> bool \<Rightarrow> bool \<Rightarrow> RiskAssessment" where
  "ApplyAEOClaimGuard a claimedAEO verifiedAEO =
     (if \<not> claimedAEO \<or> verifiedAEO then a
      else let b = a\<lparr>ra_Reasons := ra_Reasons a @ [ReasonAEOUnverified]\<rparr> in
        if ra_Lane b = LaneGreen
        then b\<lparr>ra_Lane := LaneYellow,
               ra_Reasons := ra_Reasons b @ [''auto-clearance withheld: AEO status unverified '' @ em_dash @ '' documentary review required'']\<rparr>
        else b)"

section \<open>Duty\<close>

record DutyInput =
  du_InvoiceAmountMinor :: int
  du_FreightAmountMinor :: int
  du_InsuranceAmountMinor :: int
  du_TariffBPS :: int
  du_VatBPS :: int
  du_LevyBPS :: int
  du_ExciseBPS :: int

record DutyBreakdown =
  db_CIFMinor :: int
  db_DutyMinor :: int
  db_VatMinor :: int
  db_LevyMinor :: int
  db_ExciseMinor :: int
  db_TotalDutyMinor :: int

definition applyBPS :: "int \<Rightarrow> int \<Rightarrow> int" where
  "applyBPS amount bps = (if amount = 0 \<or> bps = 0 then 0 else go_div (wrap64 (wrap64 (amount * bps) + 5000)) 10000)"

definition CalculateDuty :: "rate_order \<Rightarrow> DutyInput \<Rightarrow> DutyBreakdown result" where
  "CalculateDuty order i =
     (if du_InvoiceAmountMinor i \<le> 0 then Inl (ErrText ''invoice amount must be positive'')
      else if du_FreightAmountMinor i < 0 \<or> du_InsuranceAmountMinor i < 0
      then Inl (ErrText ''freight and insurance amounts must be non-negative'')
      else case first_bad_rate (order [(''tariff'', du_TariffBPS i), (''vat'', du_VatBPS i), (''levy'', du_LevyBPS i), (''excise'', du_ExciseBPS i)]) of
        Some name \<Rightarrow> Inl (ErrText (name @ '' rate must be between 0 and 10000 basis points''))
      | None \<Rightarrow>
          let cif = wrap64 (wrap64 (du_InvoiceAmountMinor i + du_FreightAmountMinor i) + du_InsuranceAmountMinor i);
              duty = applyBPS cif (du_TariffBPS i); levy = applyBPS cif (du_LevyBPS i); excise = applyBPS cif (du_ExciseBPS i);
              vatBase = wrap64 (wrap64 (wrap64 (cif + duty) + levy) + excise);
              vat = applyBPS vatBase (du_VatBPS i)
          in Inr \<lparr>db_CIFMinor = cif, db_DutyMinor = duty, db_VatMinor = vat, db_LevyMinor = levy, db_ExciseMinor = excise,
                  db_TotalDutyMinor = wrap64 (wrap64 (wrap64 (duty + vat) + levy) + excise)\<rparr>)"

section \<open>Permits and service windows\<close>

record PermitValidity =
  vl_Valid :: bool
  vl_DaysUntilExpiry :: int
  vl_Warning :: string

text \<open>
  \<open>Truncate(24 * time.Hour)\<close> counts whole days from year 1, as the days of the calendar do.
  \<open>Sub\<close> saturates at the range of \<open>time.Duration\<close> (nanoseconds in 64 bits); \<open>Hours\<close> of a whole
  number of days in that range is exact, and of the saturated value it is its whole hours and a fraction.
\<close>

definition day_micros :: int where "day_micros = 86400000000"

definition whole_days :: "time \<Rightarrow> time \<Rightarrow> int" where
  "whole_days t u =
     (let d = (t div day_micros - u div day_micros) * day_micros * 1000;
          s = (if d > max_int64 then max_int64 else if d < - max_int64 - 1 then - max_int64 - 1 else d)
      in go_div s (day_micros * 1000))"

definition CheckPermitValidity :: "string \<Rightarrow> string \<Rightarrow> time \<Rightarrow> time \<Rightarrow> go_error option \<times> PermitValidity" where
  "CheckPermitValidity permitNumber issuingAgency expiresAt checkDate =
     (let empty = \<lparr>vl_Valid = False, vl_DaysUntilExpiry = 0, vl_Warning = []\<rparr> in
      if TrimSpace permitNumber = [] \<or> TrimSpace issuingAgency = []
      then (Some (ErrText ''permit number and issuing agency are required''), empty)
      else if expiresAt = zero_time then (Some (ErrText ''permit expiry is required''), empty)
      else let days = whole_days expiresAt checkDate in
        if days < 0
        then (Some (ErrText (''permit '' @ permitNumber @ '' from '' @ issuingAgency @ '' expired '' @ fmt_d (- days) @ '' days ago'')),
              \<lparr>vl_Valid = False, vl_DaysUntilExpiry = days, vl_Warning = []\<rparr>)
        else (None, \<lparr>vl_Valid = True, vl_DaysUntilExpiry = days, vl_Warning =
              (if days \<le> 7 then ''permit '' @ permitNumber @ '' expires in '' @ fmt_d days @ '' days '' @ em_dash @ '' renew immediately''
               else if days \<le> 30 then ''permit '' @ permitNumber @ '' expires in '' @ fmt_d days @ '' days '' @ em_dash @ '' renewal recommended''
               else [])\<rparr>))"

fun SLAWindowHours :: "DeclarationType \<Rightarrow> RiskLane \<Rightarrow> int option" where
  "SLAWindowHours TypeImport lane = Some (case lane of LaneGreen \<Rightarrow> 4 | LaneYellow \<Rightarrow> 24 | LaneRed \<Rightarrow> 72)"
| "SLAWindowHours TypeExport lane = Some (case lane of LaneGreen \<Rightarrow> 2 | LaneYellow \<Rightarrow> 12 | LaneRed \<Rightarrow> 48)"
| "SLAWindowHours TypeTransit lane = Some (case lane of LaneGreen \<Rightarrow> 1 | LaneYellow \<Rightarrow> 8 | LaneRed \<Rightarrow> 24)"
| "SLAWindowHours TypeReExport lane = Some (case lane of LaneGreen \<Rightarrow> 4 | LaneYellow \<Rightarrow> 24 | LaneRed \<Rightarrow> 72)"
| "SLAWindowHours TypeTemporaryImport lane = Some (case lane of LaneGreen \<Rightarrow> 8 | LaneYellow \<Rightarrow> 48 | LaneRed \<Rightarrow> 120)"
| "SLAWindowHours (OtherType t) lane = None"

definition SLADeadline :: "time \<Rightarrow> DeclarationType \<Rightarrow> RiskLane \<Rightarrow> time" where
  "SLADeadline submittedAt declarationType lane =
     submittedAt + (case SLAWindowHours declarationType lane of Some hours \<Rightarrow> hours | None \<Rightarrow> 72) * 3600000000"

end
