(* ===== verification/Declarations_Store.thy ===== *)
theory Declarations_Store
  imports Declarations Customs
begin

text \<open>
  The operations of \<^verbatim>\<open>src/internal/declarations/store.go\<close> over the tables of
  \<^verbatim>\<open>src/db/migrations/0012_declarations.sql\<close>, and the declaration lookup of
  \<^verbatim>\<open>src/internal/customs/local.go\<close>. Row-level security limits every statement to the rows of the
  tenant of the transaction. \<open>pg_uuid\<close> is how PostgreSQL reads a UUID text (the canonical text or
  \<open>None\<close>); \<open>pick\<close> is the order in which it returns rows a query does not order.
\<close>

section \<open>Tables\<close>

record ddb =
  customs_declarations :: "Declaration list"
  declaration_permits :: "Permit list"
  declaration_clearance_certificates :: "DClearanceCertificate list"
  declarations_outbox :: "Declaration outbox_row list"

definition empty_ddb :: ddb where
  "empty_ddb = \<lparr>customs_declarations = [], declaration_permits = [], declaration_clearance_certificates = [], declarations_outbox = []\<rparr>"

definition max_int32 :: int where "max_int32 = 2147483647"

definition chars_between :: "int \<Rightarrow> int \<Rightarrow> string \<Rightarrow> bool" where
  "chars_between lo hi s \<longleftrightarrow> lo \<le> pg_length s \<and> pg_length s \<le> hi"

definition null_or :: "('a \<Rightarrow> bool) \<Rightarrow> 'a option \<Rightarrow> bool" where
  "null_or P x = (case x of None \<Rightarrow> True | Some a \<Rightarrow> P a)"

text \<open>The column checks of \<^verbatim>\<open>customs_declarations\<close> and the ranges of its \<open>INTEGER\<close> columns.\<close>

definition declarations_check :: "Declaration \<Rightarrow> bool" where
  "declarations_check x \<longleftrightarrow>
     chars_between 8 128 (de_RequestID x) \<and> match_regex d_refPattern (de_DeclarationRef x) \<and> null_or (chars_between 8 64) (de_UCR x)
     \<and> 1 \<le> de_Revision x \<and> de_Revision x \<le> max_int32 \<and> chars_between 2 256 (de_TraderID x)
     \<and> (case de_DeclarationType x of OtherType _ \<Rightarrow> False | _ \<Rightarrow> True)
     \<and> null_or (\<lambda>s. 0 \<le> s \<and> s \<le> 100) (de_RiskScore x) \<and> match_regex [Seg is_digit 6 10] (de_HSCode x)
     \<and> chars_between 10 4096 (de_GoodsDescription x) \<and> chars_between 2 64 (de_PortOfEntry x) \<and> de_GrossWeightKg x > 0
     \<and> de_NetWeightKg x > 0 \<and> de_NetWeightKg x \<le> de_GrossWeightKg x \<and> 0 < de_NumberOfPackages x \<and> de_NumberOfPackages x \<le> max_int32
     \<and> chars_between 2 128 (de_ConsigneeID x) \<and> chars_between 2 128 (de_OperatorID x) \<and> de_InvoiceAmountMinor x > 0
     \<and> 0 \<le> de_FreightAmountMinor x \<and> 0 \<le> de_InsuranceAmountMinor x
     \<and> 0 \<le> de_TariffBPS x \<and> de_TariffBPS x \<le> 10000 \<and> 0 \<le> de_VatBPS x \<and> de_VatBPS x \<le> 10000
     \<and> 0 \<le> de_LevyBPS x \<and> de_LevyBPS x \<le> 10000 \<and> 0 \<le> de_ExciseBPS x \<and> de_ExciseBPS x \<le> 10000
     \<and> null_or (\<lambda>m. 0 \<le> m) (de_DutyMinor x) \<and> null_or (\<lambda>m. 0 \<le> m) (de_VatMinor x) \<and> null_or (\<lambda>m. 0 \<le> m) (de_LevyMinor x)
     \<and> null_or (\<lambda>m. 0 \<le> m) (de_ExciseMinor x) \<and> null_or (\<lambda>m. 0 \<le> m) (de_TotalDutyMinor x)
     \<and> 1 \<le> de_Version x \<and> de_Version x \<le> max_int64
     \<and> (de_Status x = StatusCleared \<longrightarrow> de_ClearedAt x \<noteq> None) \<and> (de_Status x = StatusSubmitted \<longrightarrow> de_SubmittedAt x \<noteq> None)"

definition check_declaration :: "Declaration \<Rightarrow> unit result" where
  "check_declaration x = ensure (declarations_check x) (PgErr (CheckViolation ''customs_declarations_check''))"

text \<open>The unique keys besides \<open>(tenant_id, request_id)\<close>.\<close>

definition declaration_key_taken :: "Declaration list \<Rightarrow> Declaration \<Rightarrow> bool" where
  "declaration_key_taken T x \<longleftrightarrow> list_ex (\<lambda>y. de_DeclarationID y = de_DeclarationID x
     \<or> (de_TenantID y = de_TenantID x \<and> de_DeclarationRef y = de_DeclarationRef x
        \<and> (de_Revision y = de_Revision x \<or> (de_Status y \<noteq> StatusSuperseded \<and> de_Status x \<noteq> StatusSuperseded)))) T"

definition request_taken :: "Declaration list \<Rightarrow> Declaration \<Rightarrow> bool" where
  "request_taken T x \<longleftrightarrow> list_ex (\<lambda>y. de_TenantID y = de_TenantID x \<and> de_RequestID y = de_RequestID x) T"

section \<open>The store\<close>

text \<open>
  \<open>ds_now_json\<close> is the JSON text of the clock reading, which carries nanoseconds the stored
  \<open>timestamptz\<close> does not.
\<close>

record dstore =
  ds_signer :: "Declaration signer option"
  ds_aeoRegistry :: "(string \<Rightarrow> bool result) option"
  ds_now_json :: "time \<Rightarrow> string"

definition resolveAEO :: "dstore \<Rightarrow> string \<Rightarrow> bool" where
  "resolveAEO st traderID =
     (case ds_aeoRegistry st of
        None \<Rightarrow> False
      | Some isAEO \<Rightarrow> (case isAEO traderID of Inl _ \<Rightarrow> False | Inr verified \<Rightarrow> verified))"

definition SetAEORegistry :: "dstore \<Rightarrow> (string \<Rightarrow> bool result) \<Rightarrow> dstore" where
  "SetAEORegistry st registry = st\<lparr>ds_aeoRegistry := Some registry\<rparr>"

definition declarations_NewStore :: "Declaration signer option \<Rightarrow> (time \<Rightarrow> string) \<Rightarrow> dstore" where
  "declarations_NewStore signer now_json = \<lparr>ds_signer = signer, ds_aeoRegistry = None, ds_now_json = now_json\<rparr>"

definition declarations_emit ::
  "dstore \<Rightarrow> Claims \<Rightarrow> string \<Rightarrow> Declaration \<Rightarrow> (string \<times> string) list \<Rightarrow> Principal \<Rightarrow> time \<Rightarrow> env \<Rightarrow> ddb \<Rightarrow> ddb result" where
  "declarations_emit st claims eventType x extensions pr occurredAt e d =
     bindE (emit_event claims TopicDeclarations eventType (de_RequestID x) (de_DeclarationRef x) x extensions pr occurredAt
              (ds_signer st) e (declarations_outbox d)) (\<lambda>os. Inr (d\<lparr>declarations_outbox := os\<rparr>))"

definition d_requirePrincipal :: "Principal \<Rightarrow> unit result" where
  "d_requirePrincipal pr = ensure (\<not> (pr_ID pr = [] \<or> pr_Role pr = [])) (ErrText ''declaration principal is required'')"

definition nilIfEmpty :: "string \<Rightarrow> string option" where
  "nilIfEmpty s = (if s = [] then None else Some s)"

definition getByRequestID :: "string \<Rightarrow> ddb \<Rightarrow> string \<Rightarrow> Declaration option" where
  "getByRequestID tid d requestID = find (\<lambda>x. de_TenantID x = tid \<and> de_RequestID x = requestID) (customs_declarations d)"

text \<open>The newest revision that names the declaration as the one it supersedes.\<close>

definition getSuccessorRevision :: "string \<Rightarrow> ddb \<Rightarrow> string \<Rightarrow> Declaration option" where
  "getSuccessorRevision tid d k =
     (case rev (sort_key de_Revision (filter (\<lambda>x. de_TenantID x = tid \<and> de_SupersedesID x = Some k) (customs_declarations d))) of
        [] \<Rightarrow> None | x # _ \<Rightarrow> Some x)"

definition derivedAmendmentRequestID :: "string \<Rightarrow> int \<Rightarrow> string" where
  "derivedAmendmentRequestID requestID revision =
     (let suffix = ''#rev'' @ fmt_d revision;
          base = (if len requestID + len suffix > 128 then take (nat (128 - len suffix)) requestID else requestID)
      in base @ suffix)"

definition find_declaration :: "string \<Rightarrow> ddb \<Rightarrow> string \<Rightarrow> Declaration option" where
  "find_declaration tid d k = find (\<lambda>x. de_TenantID x = tid \<and> de_DeclarationID x = k) (customs_declarations d)"

definition bad_uuid :: go_error where
  "bad_uuid = PgErr (RaiseException ''invalid input syntax for type uuid'')"

definition declarations_Get_work :: "(string \<Rightarrow> string option) \<Rightarrow> string \<Rightarrow> Claims \<Rightarrow> ddb \<Rightarrow> (Declaration \<times> ddb) result" where
  "declarations_Get_work pg_uuid declarationID claims d =
     (case pg_uuid declarationID of
        None \<Rightarrow> Inl (Wrapf ''get declaration'' bad_uuid)
      | Some k \<Rightarrow> bindE (from_option (ErrNotFound Declarations) (find_declaration (TenantID claims) d k)) (\<lambda>x. Inr (x, d)))"

definition declarations_Get :: "(string \<Rightarrow> string option) \<Rightarrow> ctx \<Rightarrow> string \<Rightarrow> ddb \<Rightarrow> Declaration result \<times> ddb" where
  "declarations_Get pg_uuid c declarationID d = WithTx c (declarations_Get_work pg_uuid declarationID) d"

definition d_getForUpdate :: "(string \<Rightarrow> string option) \<Rightarrow> Claims \<Rightarrow> ddb \<Rightarrow> string \<Rightarrow> Declaration result" where
  "d_getForUpdate pg_uuid claims d declarationID =
     (case pg_uuid declarationID of
        None \<Rightarrow> Inl (Wrapf ''lock declaration'' bad_uuid)
      | Some k \<Rightarrow> from_option (ErrNotFound Declarations) (find_declaration (TenantID claims) d k))"

definition live_revisions :: "string \<Rightarrow> ddb \<Rightarrow> string \<Rightarrow> Declaration list" where
  "live_revisions tid d ref =
     filter (\<lambda>x. de_TenantID x = tid \<and> de_DeclarationRef x = ref \<and> de_Status x \<noteq> StatusSuperseded) (customs_declarations d)"

definition HeadByRef_work :: "string \<Rightarrow> Claims \<Rightarrow> ddb \<Rightarrow> (Declaration \<times> ddb) result" where
  "HeadByRef_work declarationRef claims d =
     (case rev (sort_key de_Revision (live_revisions (TenantID claims) d declarationRef)) of
        [] \<Rightarrow> Inl (ErrNotFound Declarations) | x # _ \<Rightarrow> Inr (x, d))"

definition HeadByRef :: "ctx \<Rightarrow> string \<Rightarrow> ddb \<Rightarrow> Declaration result \<times> ddb" where
  "HeadByRef c declarationRef d = WithTx c (HeadByRef_work declarationRef) d"

definition declarations_List ::
  "ctx \<Rightarrow> string \<Rightarrow> string \<Rightarrow> int \<Rightarrow> int \<Rightarrow> ddb \<Rightarrow> Declaration list result \<times> ddb" where
  "declarations_List c traderID status limit offset d =
     (let limit = (if limit < 1 \<or> limit > 200 then 50 else limit); offset = (if offset < 0 then 0 else offset) in
      WithTx c (\<lambda>claims d.
        Inr (take (nat limit) (drop (nat offset)
              (sort_key (\<lambda>x. - de_CreatedAt x) (sort_key de_DeclarationID
                (filter (\<lambda>x. de_TenantID x = TenantID claims \<and> (traderID = [] \<or> de_TraderID x = traderID)
                          \<and> (status = [] \<or> status_text (de_Status x) = status)) (customs_declarations d))))), d)) d)"

section \<open>Drafting\<close>

definition new_declaration :: "string \<Rightarrow> string \<Rightarrow> string \<Rightarrow> string \<Rightarrow> int \<Rightarrow> string option \<Rightarrow> string \<Rightarrow> DCreateRequest \<Rightarrow> time \<Rightarrow> Declaration" where
  "new_declaration k tid requestID hsCode revision supersedes traderID r now =
     \<lparr>de_DeclarationID = k, de_TenantID = tid, de_RequestID = requestID, de_DeclarationRef = dq_DeclarationRef r,
      de_UCR = nilIfEmpty (dq_UCR r), de_Revision = revision, de_SupersedesID = supersedes, de_TraderID = traderID,
      de_DeclarationType = dq_DeclarationType r, de_Status = StatusDraft, de_RiskLane = None, de_RiskScore = None,
      de_ScoringModel = None, de_ScoringError = None, de_HSCode = hsCode, de_GoodsDescription = dq_GoodsDescription r,
      de_CountryOfOrigin = dq_CountryOfOrigin r, de_CountryOfDestination = nilIfEmpty (dq_CountryOfDestination r),
      de_PortOfEntry = dq_PortOfEntry r, de_GrossWeightKg = dq_GrossWeightKg r, de_NetWeightKg = dq_NetWeightKg r,
      de_NumberOfPackages = dq_NumberOfPackages r, de_ConsigneeID = dq_ConsigneeID r, de_OperatorID = dq_OperatorID r,
      de_IsAEO = dq_IsAEO r, de_InvoiceAmountMinor = dq_InvoiceAmountMinor r, de_FreightAmountMinor = dq_FreightAmountMinor r,
      de_InsuranceAmountMinor = dq_InsuranceAmountMinor r, de_InvoiceCurrency = dq_InvoiceCurrency r, de_TariffBPS = dq_TariffBPS r,
      de_VatBPS = dq_VatBPS r, de_LevyBPS = dq_LevyBPS r, de_ExciseBPS = dq_ExciseBPS r, de_DutyMinor = None, de_VatMinor = None,
      de_LevyMinor = None, de_ExciseMinor = None, de_TotalDutyMinor = None, de_RejectionReason = None, de_SubmittedAt = None,
      de_ClearedAt = None, de_CreatedAt = now, de_UpdatedAt = now, de_Version = 1\<rparr>"

definition declarations_Create_work ::
  "DCreateRequest \<Rightarrow> string \<Rightarrow> Principal \<Rightarrow> env \<Rightarrow> Claims \<Rightarrow> ddb \<Rightarrow> (Declaration \<times> ddb) result" where
  "declarations_Create_work r hsCode pr e claims d =
     (let x = new_declaration (rnd e 0) (TenantID claims) (dq_RequestID r) hsCode 1 None (pr_ID pr) r (clk e 0) in
      bindE (wrap_err ''insert declaration'' (check_declaration x)) (\<lambda>_.
      if request_taken (customs_declarations d) x
      then (case getByRequestID (TenantID claims) d (dq_RequestID r) of
              None \<Rightarrow> Inl (Wrapf ''lookup idempotent declaration'' (ErrNotFound Declarations))
            | Some existing \<Rightarrow>
                if de_DeclarationRef existing \<noteq> dq_DeclarationRef r \<or> de_HSCode existing \<noteq> hsCode
                   \<or> de_GrossWeightKg existing \<noteq> dq_GrossWeightKg r \<or> de_ConsigneeID existing \<noteq> dq_ConsigneeID r
                   \<or> de_OperatorID existing \<noteq> dq_OperatorID r \<or> de_InvoiceAmountMinor existing \<noteq> dq_InvoiceAmountMinor r
                then Inl (ErrIdempotencyConflict Declarations) else Inr (existing, d))
      else if declaration_key_taken (customs_declarations d) x
      then Inl (Wrapf ''insert declaration'' (PgErr (UniqueViolation ''customs_declarations'')))
      else Inr (x, d\<lparr>customs_declarations := customs_declarations d @ [x]\<rparr>)))"

definition declarations_Create ::
  "rate_order \<Rightarrow> ctx \<Rightarrow> DCreateRequest \<Rightarrow> Principal \<Rightarrow> env \<Rightarrow> ddb \<Rightarrow> Declaration result \<times> ddb" where
  "declarations_Create order c r pr e d =
     (case bindE (declaration_Validate order r) (\<lambda>_. bindE (d_requirePrincipal pr) (\<lambda>_. NormalizeHSCode (dq_HSCode r))) of
        Inl err \<Rightarrow> (Inl err, d)
      | Inr hsCode \<Rightarrow> WithTx c (declarations_Create_work r hsCode pr e) d)"

section \<open>Submission\<close>

fun permits_loop :: "time \<Rightarrow> Permit list \<Rightarrow> go_error option" where
  "permits_loop now [] = None"
| "permits_loop now (p # ps) =
     (if pm_Status p \<noteq> ''APPROVED'' then Some (Wrapf (pm_AgencyCode p @ '' permit is '' @ pm_Status p) ErrPermitInvalid)
      else case pm_ExpiresAt p of
        Some expiresAt \<Rightarrow> if expiresAt \<le> now then Some (Wrapf (pm_AgencyCode p @ '' permit has expired'') ErrPermitInvalid)
                          else permits_loop now ps
      | None \<Rightarrow> permits_loop now ps)"

definition permitsBlockSubmit ::
  "(Permit list \<Rightarrow> Permit list) \<Rightarrow> string \<Rightarrow> ddb \<Rightarrow> string \<Rightarrow> time \<Rightarrow> unit result" where
  "permitsBlockSubmit pick tid d k now =
     or_fail (permits_loop now (pick (filter (\<lambda>p. pm_TenantID p = tid \<and> pm_DeclarationID p = k) (declaration_permits d))))"

definition duty_input :: "Declaration \<Rightarrow> DutyInput" where
  "duty_input x =
     \<lparr>du_InvoiceAmountMinor = de_InvoiceAmountMinor x, du_FreightAmountMinor = de_FreightAmountMinor x,
      du_InsuranceAmountMinor = de_InsuranceAmountMinor x, du_TariffBPS = de_TariffBPS x, du_VatBPS = de_VatBPS x,
      du_LevyBPS = de_LevyBPS x, du_ExciseBPS = de_ExciseBPS x\<rparr>"

text \<open>\<open>UPDATE ... WHERE declaration_id AND status AND version\<close> of the locked row, counting the version up.\<close>

definition update_declaration ::
  "string \<Rightarrow> Declaration \<Rightarrow> (Declaration \<Rightarrow> Declaration) \<Rightarrow> ddb \<Rightarrow> (Declaration \<times> ddb) result" where
  "update_declaration tid x f d =
     bindE (pg_inc (de_Version x)) (\<lambda>version.
     let g = (\<lambda>y. (f y)\<lparr>de_Version := version\<rparr>) in
     bindE (check_declaration (g x)) (\<lambda>_.
     Inr (g x, d\<lparr>customs_declarations := update_where (\<lambda>y. de_TenantID y = tid \<and> de_DeclarationID y = de_DeclarationID x
                     \<and> de_Status y = de_Status x \<and> de_Version y = de_Version x) g (customs_declarations d)\<rparr>)))"

text \<open>\<open>fmt.Errorf("%w: %v", ErrDeclarationInvalid, err)\<close> keeps only the text of the cause.\<close>

definition invalid_because :: "go_error \<Rightarrow> go_error" where
  "invalid_because err = (case err of ErrText t \<Rightarrow> Wrapf t ErrDeclarationInvalid | _ \<Rightarrow> ErrDeclarationInvalid)"

definition Submit_work ::
  "dstore \<Rightarrow> rate_order \<Rightarrow> (Permit list \<Rightarrow> Permit list) \<Rightarrow> (string \<Rightarrow> string option) \<Rightarrow> string \<Rightarrow> int \<Rightarrow> Principal \<Rightarrow> env
   \<Rightarrow> Claims \<Rightarrow> ddb \<Rightarrow> (Declaration \<times> ddb) result" where
  "Submit_work st order pick pg_uuid declarationID expectedVersion pr e claims d =
     bindE (d_getForUpdate pg_uuid claims d declarationID) (\<lambda>x.
     if de_TraderID x \<noteq> pr_ID pr then Inl ErrForbidden
     else if de_Version x \<noteq> expectedVersion then Inl (ErrOptimisticConflict Declarations)
     else if de_Status x \<noteq> StatusDraft then Inl (ErrInvalidTransition Declarations)
     else case NormalizeHSCode (de_HSCode x) of
       Inl err \<Rightarrow> Inl (invalid_because err)
     | Inr _ \<Rightarrow>
         let now = clk e 0 in
         bindE (permitsBlockSubmit pick (TenantID claims) d (de_DeclarationID x) now) (\<lambda>_.
         case CalculateDuty order (duty_input x) of
           Inl err \<Rightarrow> Inl (invalid_because err)
         | Inr b \<Rightarrow>
             bindE (wrap_err ''submit declaration'' (update_declaration (TenantID claims) x
                      (\<lambda>y. y\<lparr>de_Status := StatusSubmitted, de_DutyMinor := Some (db_DutyMinor b), de_VatMinor := Some (db_VatMinor b),
                            de_LevyMinor := Some (db_LevyMinor b), de_ExciseMinor := Some (db_ExciseMinor b),
                            de_TotalDutyMinor := Some (db_TotalDutyMinor b), de_SubmittedAt := Some now, de_UpdatedAt := now\<rparr>) d)) (\<lambda>(updated, d1).
             bindE (declarations_emit st claims ''trade.declaration.submitted.v1'' updated
                      [(''declaration-ref'', de_DeclarationRef updated), (''declaration-type'', type_text (de_DeclarationType updated)),
                       (''total-duty-minor'', fmt_d (db_TotalDutyMinor b))] pr now e d1) (\<lambda>d2.
             Inr (updated, d2)))))"

definition Submit ::
  "dstore \<Rightarrow> rate_order \<Rightarrow> (Permit list \<Rightarrow> Permit list) \<Rightarrow> (string \<Rightarrow> string option) \<Rightarrow> ctx \<Rightarrow> string \<Rightarrow> int \<Rightarrow> Principal \<Rightarrow> env
   \<Rightarrow> ddb \<Rightarrow> Declaration result \<times> ddb" where
  "Submit st order pick pg_uuid c declarationID expectedVersion pr e d =
     (case d_requirePrincipal pr of Inl err \<Rightarrow> (Inl err, d)
      | Inr _ \<Rightarrow> WithTx c (Submit_work st order pick pg_uuid declarationID expectedVersion pr e) d)"

section \<open>Risk assessment\<close>

record ScoreRequest =
  sq_DeclarationRef :: string
  sq_DeclarationType :: string
  sq_HSCode :: string
  sq_GoodsDescription :: string
  sq_CountryOfOrigin :: string
  sq_CountryOfDestination :: string
  sq_PortOfEntry :: string
  sq_GrossWeightKg :: int
  sq_NumberOfPackages :: int
  sq_InvoiceAmountMinor :: int
  sq_InvoiceCurrency :: string
  sq_ConsigneeID :: string
  sq_OperatorID :: string
  sq_TraderID :: string
  sq_IsAEO :: bool

record ScoreResponse =
  sv_Score :: int
  sv_ModelVersion :: string
  sv_Sanctioned :: bool

text \<open>A scorer's error is the text \<open>Error()\<close> gives.\<close>

type_synonym scorer = "ScoreRequest \<Rightarrow> string + ScoreResponse"

definition deref :: "string option \<Rightarrow> string" where
  "deref x = (case x of None \<Rightarrow> [] | Some s \<Rightarrow> s)"

definition certificate_payload :: "dstore \<Rightarrow> Declaration \<Rightarrow> string \<Rightarrow> string \<Rightarrow> time \<Rightarrow> string" where
  "certificate_payload st x certificateNumber issuedBy now = json_object
     [(''certificate_number'', json_string certificateNumber), (''consignee_id'', json_string (de_ConsigneeID x)),
      (''declaration_id'', json_string (de_DeclarationID x)), (''declaration_ref'', json_string (de_DeclarationRef x)),
      (''gross_weight_kg'', fmt_d (de_GrossWeightKg x)), (''hs_code'', json_string (de_HSCode x)),
      (''invoice_currency'', json_string (de_InvoiceCurrency x)), (''issued_at'', ds_now_json st now),
      (''issued_by'', json_string issuedBy), (''operator_id'', json_string (de_OperatorID x)), (''revision'', fmt_d (de_Revision x)),
      (''total_duty_minor'', json_null_or fmt_d (de_TotalDutyMinor x))]"

definition certificate_number :: "Declaration \<Rightarrow> string" where
  "certificate_number x = ''CC-'' @ de_DeclarationRef x @ ''-R'' @ fmt_d (de_Revision x)"

definition new_certificate :: "dstore \<Rightarrow> string \<Rightarrow> string \<Rightarrow> Declaration \<Rightarrow> string \<Rightarrow> time \<Rightarrow> DClearanceCertificate" where
  "new_certificate st k tid x issuedBy now =
     \<lparr>cc_CertificateID = k, cc_TenantID = tid, cc_DeclarationID = de_DeclarationID x, cc_CertificateNumber = certificate_number x,
      cc_IssuedBy = issuedBy,
      cc_PayloadSHA256 = ''sha256:'' @ EncodeToString (Sum256 (certificate_payload st x (certificate_number x) issuedBy now)),
      cc_IssuedAt = now\<rparr>"

definition issueClearance :: "dstore \<Rightarrow> Claims \<Rightarrow> Declaration \<Rightarrow> string \<Rightarrow> time \<Rightarrow> env \<Rightarrow> ddb \<Rightarrow> ddb result" where
  "issueClearance st claims x issuedBy now e d =
     (let cert = new_certificate st (rnd e 0) (TenantID claims) x issuedBy now in
      if \<not> chars_between 2 256 issuedBy \<or> \<not> chars_between 8 96 (cc_CertificateNumber cert)
      then Inl (Wrapf ''issue clearance certificate'' (PgErr (CheckViolation ''declaration_clearance_certificates_check'')))
      else if list_ex (\<lambda>y. cc_CertificateID y = cc_CertificateID cert \<or> cc_DeclarationID y = cc_DeclarationID cert
               \<or> (cc_TenantID y = cc_TenantID cert \<and> cc_CertificateNumber y = cc_CertificateNumber cert)) (declaration_clearance_certificates d)
      then Inl (Wrapf ''issue clearance certificate'' (PgErr (UniqueViolation ''declaration_clearance_certificates'')))
      else Inr (d\<lparr>declaration_clearance_certificates := declaration_clearance_certificates d @ [cert]\<rparr>))"

definition snapshot_work :: "(string \<Rightarrow> string option) \<Rightarrow> string \<Rightarrow> int \<Rightarrow> Claims \<Rightarrow> ddb \<Rightarrow> (Declaration \<times> ddb) result" where
  "snapshot_work pg_uuid declarationID expectedVersion claims d =
     bindE (d_getForUpdate pg_uuid claims d declarationID) (\<lambda>x.
     if de_Version x \<noteq> expectedVersion then Inl (ErrOptimisticConflict Declarations)
     else if de_Status x \<noteq> StatusSubmitted then Inl (ErrInvalidTransition Declarations)
     else Inr (x, d))"

definition score_request :: "Declaration \<Rightarrow> bool \<Rightarrow> ScoreRequest" where
  "score_request x verifiedAEO =
     \<lparr>sq_DeclarationRef = de_DeclarationRef x, sq_DeclarationType = type_text (de_DeclarationType x), sq_HSCode = de_HSCode x,
      sq_GoodsDescription = de_GoodsDescription x, sq_CountryOfOrigin = de_CountryOfOrigin x,
      sq_CountryOfDestination = deref (de_CountryOfDestination x), sq_PortOfEntry = de_PortOfEntry x,
      sq_GrossWeightKg = de_GrossWeightKg x, sq_NumberOfPackages = de_NumberOfPackages x,
      sq_InvoiceAmountMinor = de_InvoiceAmountMinor x, sq_InvoiceCurrency = de_InvoiceCurrency x, sq_ConsigneeID = de_ConsigneeID x,
      sq_OperatorID = de_OperatorID x, sq_TraderID = de_TraderID x, sq_IsAEO = verifiedAEO\<rparr>"

definition lane_input :: "Declaration \<Rightarrow> ScoreResponse \<Rightarrow> bool \<Rightarrow> int \<Rightarrow> RiskInput" where
  "lane_input x verdict verifiedAEO highValueThresholdMinor =
     \<lparr>ri_Score = sv_Score verdict, ri_IsAEO = verifiedAEO, ri_IsSanctioned = sv_Sanctioned verdict,
      ri_InvoiceAmountMinor = de_InvoiceAmountMinor x, ri_HighValueThresholdMinor = highValueThresholdMinor,
      ri_CountryOfOrigin = de_CountryOfOrigin x, ri_HSCode = de_HSCode x\<rparr>"

text \<open>The second transaction of \<open>AssessRisk\<close>, which records the scorer's answer.\<close>

definition record_work ::
  "dstore \<Rightarrow> (string \<Rightarrow> string option) \<Rightarrow> string \<Rightarrow> int \<Rightarrow> string + ScoreResponse \<Rightarrow> bool \<Rightarrow> int \<Rightarrow> Principal \<Rightarrow> env
   \<Rightarrow> Claims \<Rightarrow> ddb \<Rightarrow> (Declaration \<times> ddb) result" where
  "record_work st pg_uuid declarationID expectedVersion scored verifiedAEO highValueThresholdMinor pr e claims d =
     bindE (d_getForUpdate pg_uuid claims d declarationID) (\<lambda>x.
     if de_Version x \<noteq> expectedVersion then Inl (ErrOptimisticConflict Declarations)
     else if de_Status x \<noteq> StatusSubmitted then Inl (ErrInvalidTransition Declarations)
     else let now = clk e 0 in
       (case scored of
          Inl scoringError \<Rightarrow>
            bindE (wrap_err ''park declaration as scoring-unavailable'' (update_declaration (TenantID claims) x
                     (\<lambda>y. y\<lparr>de_Status := StatusScoringUnavailable, de_ScoringError := Some scoringError, de_UpdatedAt := now\<rparr>) d)) (\<lambda>(unavailable, d1).
            bindE (declarations_emit st claims ''trade.declaration.scoring-unavailable.v1'' unavailable
                     [(''declaration-ref'', de_DeclarationRef unavailable)] pr now e d1) (\<lambda>d2.
            Inr (unavailable, d2)))
        | Inr verdict \<Rightarrow>
            bindE (wrap_err ''assign risk lane'' (AssignRiskLane (lane_input x verdict verifiedAEO highValueThresholdMinor))) (\<lambda>assessed.
            let a = ApplyAEOClaimGuard assessed (de_IsAEO x) verifiedAEO;
                finalStatus = (if ra_Lane a = LaneGreen then StatusCleared else LaneStatus (ra_Lane a));
                clearedAt = (if ra_Lane a = LaneGreen then Some now else None) in
            bindE (wrap_err ''lane declaration'' (update_declaration (TenantID claims) x
                     (\<lambda>y. y\<lparr>de_Status := finalStatus, de_RiskLane := Some (ra_Lane a), de_RiskScore := Some (ra_AdjustedScore a),
                           de_ScoringModel := Some (sv_ModelVersion verdict), de_ClearedAt := clearedAt, de_UpdatedAt := now\<rparr>) d)) (\<lambda>(updated, d1).
            bindE (declarations_emit st claims ''trade.declaration.risk-assessed.v1'' updated
                     [(''declaration-ref'', de_DeclarationRef updated), (''risk-lane'', lane_text (ra_Lane a)),
                      (''risk-score'', fmt_d (ra_AdjustedScore a)), (''lane-reasons'', json_strings (ra_Reasons a))] pr now e d1) (\<lambda>d2.
            if finalStatus = StatusCleared
            then bindE (issueClearance st claims updated (pr_ID pr) now (later 0 2 e) d2) (\<lambda>d3.
                 bindE (declarations_emit st claims ''trade.declaration.cleared.v1'' updated
                          [(''declaration-ref'', de_DeclarationRef updated), (''risk-lane'', lane_text (ra_Lane a))] pr now (later 0 3 e) d3) (\<lambda>d4.
                 Inr (updated, d4)))
            else Inr (updated, d2))))))"

text \<open>
  \<open>between\<close> is what other transactions commit while the scorer is asked; the scorer runs
  outside of any transaction.
\<close>

definition AssessRisk ::
  "dstore \<Rightarrow> (string \<Rightarrow> string option) \<Rightarrow> ctx \<Rightarrow> string \<Rightarrow> int \<Rightarrow> scorer option \<Rightarrow> int \<Rightarrow> Principal \<Rightarrow> env \<Rightarrow> (ddb \<Rightarrow> ddb)
   \<Rightarrow> ddb \<Rightarrow> Declaration result \<times> ddb" where
  "AssessRisk st pg_uuid c declarationID expectedVersion scorer highValueThresholdMinor pr e between d =
     (case scorer of
        None \<Rightarrow> (Inl (ErrText ''risk scorer is not configured''), d)
      | Some score \<Rightarrow>
          (case d_requirePrincipal pr of
             Inl err \<Rightarrow> (Inl err, d)
           | Inr _ \<Rightarrow>
               (case WithTx c (snapshot_work pg_uuid declarationID expectedVersion) d of
                  (Inl err, d1) \<Rightarrow> (Inl err, d1)
                | (Inr snapshot, d1) \<Rightarrow>
                    let verifiedAEO = resolveAEO st (de_TraderID snapshot);
                        scored = score (score_request snapshot verifiedAEO) in
                    WithTx c (record_work st pg_uuid declarationID expectedVersion scored verifiedAEO highValueThresholdMinor pr e) (between d1))))"

section \<open>Certificates and amendments\<close>

definition ClearanceCertificate_work ::
  "(string \<Rightarrow> string option) \<Rightarrow> string \<Rightarrow> Claims \<Rightarrow> ddb \<Rightarrow> ((DClearanceCertificate \<times> Declaration) \<times> ddb) result" where
  "ClearanceCertificate_work pg_uuid declarationID claims d =
     bindE (d_getForUpdate pg_uuid claims d declarationID) (\<lambda>x.
     if de_Status x \<noteq> StatusCleared then Inl ErrNotCleared
     else case find (\<lambda>y. cc_TenantID y = TenantID claims \<and> cc_DeclarationID y = de_DeclarationID x) (declaration_clearance_certificates d) of
            None \<Rightarrow> Inl (ErrText (''clearance certificate missing for cleared declaration '' @ declarationID))
          | Some certificate \<Rightarrow> Inr ((certificate, x), d))"

definition ClearanceCertificate ::
  "(string \<Rightarrow> string option) \<Rightarrow> ctx \<Rightarrow> string \<Rightarrow> ddb \<Rightarrow> (DClearanceCertificate \<times> Declaration) result \<times> ddb" where
  "ClearanceCertificate pg_uuid c declarationID d = WithTx c (ClearanceCertificate_work pg_uuid declarationID) d"

text \<open>
  The replay check of an amendment: \<open>Inl\<close> a conflict, \<open>Inr (Some x)\<close> the revision a former call
  wrote, \<open>Inr None\<close> to go on. It compares stored ids with the text of the caller.
\<close>

definition amend_replay :: "string \<Rightarrow> ddb \<Rightarrow> string \<Rightarrow> string \<Rightarrow> string \<Rightarrow> Declaration option result" where
  "amend_replay tid d declarationID k requestID =
     (case getByRequestID tid d requestID of
        None \<Rightarrow> Inr None
      | Some existing \<Rightarrow>
          if de_SupersedesID existing = Some declarationID then Inr (Some existing)
          else if de_DeclarationID existing = declarationID then Inr (getSuccessorRevision tid d k)
          else Inl (ErrIdempotencyConflict Declarations))"

definition Amend_work ::
  "dstore \<Rightarrow> (string \<Rightarrow> string option) \<Rightarrow> string \<Rightarrow> DCreateRequest \<Rightarrow> string \<Rightarrow> int \<Rightarrow> Principal \<Rightarrow> env \<Rightarrow> Claims \<Rightarrow> ddb
   \<Rightarrow> (Declaration \<times> ddb) result" where
  "Amend_work st pg_uuid declarationID r hsCode expectedVersion pr e claims d =
     bindE (d_getForUpdate pg_uuid claims d declarationID) (\<lambda>head.
     if de_TraderID head \<noteq> pr_ID pr then Inl ErrForbidden
     else if de_DeclarationRef head \<noteq> dq_DeclarationRef r then Inl (Wrapf ''amendments keep the declaration ref'' ErrDeclarationInvalid)
     else bindE (amend_replay (TenantID claims) d declarationID (de_DeclarationID head) (dq_RequestID r)) (\<lambda>replay.
       case replay of
         Some amended \<Rightarrow> Inr (amended, d)
       | None \<Rightarrow>
           if de_Version head \<noteq> expectedVersion then Inl (ErrOptimisticConflict Declarations)
           else if \<not> Amendable (de_Status head) then Inl (ErrInvalidTransition Declarations)
           else let now = clk e 0 in
             bindE (wrap_err ''supersede declaration'' (update_declaration (TenantID claims) head
                      (\<lambda>y. y\<lparr>de_Status := StatusSuperseded, de_UpdatedAt := now\<rparr>) d)) (\<lambda>(_, d1).
             let requestID = (if de_RequestID head = dq_RequestID r then derivedAmendmentRequestID (dq_RequestID r) (de_Revision head + 1)
                              else dq_RequestID r);
                 x = new_declaration (rnd e 0) (TenantID claims) requestID hsCode (de_Revision head + 1) (Some (de_DeclarationID head))
                       (pr_ID pr) r now in
             bindE (wrap_err ''write amendment revision'' (check_declaration x)) (\<lambda>_.
             if request_taken (customs_declarations d1) x \<or> declaration_key_taken (customs_declarations d1) x
             then Inl (Wrapf ''write amendment revision'' (PgErr (UniqueViolation ''customs_declarations'')))
             else bindE (declarations_emit st claims ''trade.declaration.amended.v1'' x
                    [(''declaration-ref'', de_DeclarationRef x), (''revision'', fmt_d (de_Revision x)), (''supersedes'', declarationID)]
                    pr now (later 0 1 e) (d1\<lparr>customs_declarations := customs_declarations d1 @ [x]\<rparr>)) (\<lambda>d2.
                  Inr (x, d2))))))"

definition Amend ::
  "dstore \<Rightarrow> rate_order \<Rightarrow> (string \<Rightarrow> string option) \<Rightarrow> ctx \<Rightarrow> string \<Rightarrow> DCreateRequest \<Rightarrow> int \<Rightarrow> Principal \<Rightarrow> env \<Rightarrow> ddb
   \<Rightarrow> Declaration result \<times> ddb" where
  "Amend st order pg_uuid c declarationID r expectedVersion pr e d =
     (case bindE (declaration_Validate order r) (\<lambda>_. bindE (d_requirePrincipal pr) (\<lambda>_. NormalizeHSCode (dq_HSCode r))) of
        Inl err \<Rightarrow> (Inl err, d)
      | Inr hsCode \<Rightarrow> WithTx c (Amend_work st pg_uuid declarationID r hsCode expectedVersion pr e) d)"

section \<open>Permits\<close>

text \<open>
  A null permit type equals no other, so the unique key does not see it; the foreign key sees
  the declarations of every tenant.
\<close>

definition RegisterPermit_work ::
  "(string \<Rightarrow> string option) \<Rightarrow> string \<Rightarrow> string \<Rightarrow> string \<Rightarrow> string option \<Rightarrow> time option \<Rightarrow> env \<Rightarrow> Claims \<Rightarrow> ddb \<Rightarrow> (Permit \<times> ddb) result" where
  "RegisterPermit_work pg_uuid declarationID agencyCode agencyName permitType slaDeadline e claims d =
     (case pg_uuid declarationID of
        None \<Rightarrow> Inl (Wrapf ''register declaration permit'' bad_uuid)
      | Some k \<Rightarrow>
          let now = clk e 0;
              p = \<lparr>pm_PermitID = rnd e 0, pm_TenantID = TenantID claims, pm_DeclarationID = k, pm_AgencyCode = agencyCode,
                   pm_AgencyName = agencyName, pm_PermitType = permitType, pm_PermitNumber = None, pm_Status = ''PENDING'',
                   pm_SLADeadline = slaDeadline, pm_ExpiresAt = None, pm_RespondedAt = None, pm_CreatedAt = now, pm_UpdatedAt = now\<rparr> in
          if \<not> chars_between 2 32 agencyCode \<or> \<not> chars_between 2 128 agencyName \<or> \<not> null_or (chars_between 2 128) permitType
          then Inl (Wrapf ''register declaration permit'' (PgErr (CheckViolation ''declaration_permits_check'')))
          else if permitType \<noteq> None \<and> list_ex (\<lambda>q. pm_TenantID q = TenantID claims \<and> pm_DeclarationID q = k \<and> pm_AgencyCode q = agencyCode
                   \<and> pm_PermitType q = permitType) (declaration_permits d)
          then Inl (ErrIdempotencyConflict Declarations)
          else if list_ex (\<lambda>q. pm_PermitID q = pm_PermitID p) (declaration_permits d)
          then Inl (Wrapf ''register declaration permit'' (PgErr (UniqueViolation ''declaration_permits_pkey'')))
          else if \<not> list_ex (\<lambda>x. de_DeclarationID x = k) (customs_declarations d)
          then Inl (Wrapf ''register declaration permit'' (PgErr (RaiseException ''declaration_permits_declaration_id_fkey'')))
          else Inr (p, d\<lparr>declaration_permits := declaration_permits d @ [p]\<rparr>))"

definition RegisterPermit ::
  "(string \<Rightarrow> string option) \<Rightarrow> ctx \<Rightarrow> string \<Rightarrow> string \<Rightarrow> string \<Rightarrow> string option \<Rightarrow> time option \<Rightarrow> env \<Rightarrow> ddb \<Rightarrow> Permit result \<times> ddb" where
  "RegisterPermit pg_uuid c declarationID agencyCode agencyName permitType slaDeadline e d =
     (if len agencyCode < 2 \<or> len agencyCode > 32 \<or> len agencyName < 2 \<or> len agencyName > 128
      then (Inl (ErrText ''permit agency code and name are required''), d)
      else WithTx c (RegisterPermit_work pg_uuid declarationID agencyCode agencyName permitType slaDeadline e) d)"

section \<open>The local customs backend\<close>

definition LocalValidator_Declaration :: "ctx \<Rightarrow> string \<Rightarrow> ddb \<Rightarrow> CustomsDeclaration result" where
  "LocalValidator_Declaration c declarationRef d =
     (if TrimSpace declarationRef = [] then Inl (ErrText ''declaration reference is required'')
      else case fst (HeadByRef c declarationRef d) of
        Inl err \<Rightarrow> if errors_Is err (ErrNotFound Declarations) then Inl ErrDeclarationNotFound
                   else Inl (Wrapf ''local declaration lookup'' err)
      | Inr x \<Rightarrow> Inr \<lparr>cd_DeclarationRef = de_DeclarationRef x,
                      cd_Status = (if de_Status x = StatusCleared then ''VALID'' else status_text (de_Status x)),
                      cd_WeightKg = de_GrossWeightKg x, cd_ConsigneeID = de_ConsigneeID x, cd_OperatorID = de_OperatorID x\<rparr>)"

end
