(* ===== verification/Declarations_Correct.thy ===== *)
theory Declarations_Correct
  imports Declarations_Store Refinement
begin

text \<open>
  Correctness of the declaration rules and of the declaration store: exact duty arithmetic,
  the lanes, what each unit of work does when it succeeds, the invariant of the tables over
  every sequence of operations, and the life cycle the store refines.
\<close>

section \<open>Rules\<close>

lemma NormalizeHSCode_Inr:
  "NormalizeHSCode s = Inr h \<Longrightarrow> match_regex [Seg is_digit 6 10] h \<and> h = filter (\<lambda>c. c \<noteq> CHR ''.'' \<and> c \<noteq> CHR '' '') s"
  by (auto simp: NormalizeHSCode_def Let_def match_regex_single split: if_splits intro!: filter_cong)

lemma first_bad_rate_None: "first_bad_rate xs = None \<longleftrightarrow> (\<forall>(n, b)\<in>set xs. 0 \<le> b \<and> b \<le> 10000)"
  by (induction xs rule: first_bad_rate.induct) auto

definition lane_for :: "int \<Rightarrow> RiskLane" where
  "lane_for s = (if 70 \<le> s then LaneRed else if 40 \<le> s then LaneYellow else LaneGreen)"

lemma lane_of_simps [simp]: "ra_Lane (lane_of acc) = lane_for (fst acc)" "ra_AdjustedScore (lane_of acc) = fst acc"
  by (simp_all add: lane_of_def lane_for_def Let_def)

lemma adjust_range:
  "0 \<le> fst acc \<and> fst acc \<le> 100 \<Longrightarrow> (\<And>s. 0 \<le> s \<Longrightarrow> s \<le> 100 \<Longrightarrow> 0 \<le> f s \<and> f s \<le> 100) \<Longrightarrow> 0 \<le> fst (adjust p f r acc) \<and> fst (adjust p f r acc) \<le> 100"
  by (simp add: adjust_def)

lemma adjust_mono: "mono f \<Longrightarrow> fst acc \<le> fst acc' \<Longrightarrow> fst (adjust p f r acc) \<le> fst (adjust p f r acc')"
  by (simp add: adjust_def monoD)

lemma adjusted_score_range:
  assumes "0 \<le> ri_Score i" "ri_Score i \<le> 100"
  shows "0 \<le> fst (adjusted_score i) \<and> fst (adjusted_score i) \<le> 100"
  unfolding adjusted_score_def Let_def by (intro adjust_range) (use assms in auto)

lemma adjusted_score_mono:
  "ri_Score i \<le> s \<Longrightarrow> fst (adjusted_score i) \<le> fst (adjusted_score (i\<lparr>ri_Score := s\<rparr>))"
  unfolding adjusted_score_def Let_def by (simp, intro adjust_mono) (auto intro!: monoI)

lemma AssignRiskLane_Inr:
  assumes "AssignRiskLane i = Inr a"
  shows "0 \<le> ra_AdjustedScore a \<and> ra_AdjustedScore a \<le> 100 \<and> ra_Lane a = lane_for (ra_AdjustedScore a)"
  using assms adjusted_score_range [of i] by (auto simp: AssignRiskLane_def lane_for_def split: if_splits)

lemma ApplyAEOClaimGuard_score [simp]: "ra_AdjustedScore (ApplyAEOClaimGuard a c v) = ra_AdjustedScore a"
  by (simp add: ApplyAEOClaimGuard_def Let_def)

lemma ApplyAEOClaimGuard_lane:
  "ra_Lane (ApplyAEOClaimGuard a c v) = (if c \<and> \<not> v \<and> ra_Lane a = LaneGreen then LaneYellow else ra_Lane a)"
  by (auto simp: ApplyAEOClaimGuard_def Let_def)

section \<open>Duty\<close>

definition half_up :: "int \<Rightarrow> int \<Rightarrow> int" where
  "half_up amount bps = (amount * bps + 5000) div 10000"

lemma half_up_rounds:
  "amount * bps - 5000 < 10000 * half_up amount bps \<and> 10000 * half_up amount bps \<le> amount * bps + 5000"
  using div_mult_mod_eq [of "amount * bps + 5000" 10000] pos_mod_bound [of 10000 "amount * bps + 5000"]
    pos_mod_sign [of 10000 "amount * bps + 5000"]
  unfolding half_up_def by linarith

lemma half_up_range:
  assumes "0 \<le> a" "0 \<le> b" "b \<le> 10000"
  shows "0 \<le> half_up a b \<and> half_up a b \<le> a"
proof -
  have "0 \<le> a * b" and "a * b \<le> a * 10000" using assms by (simp_all add: mult_left_mono)
  then have "0 \<le> (a * b + 5000) div 10000" and "(a * b + 5000) div 10000 \<le> (a * 10000 + 5000) div 10000"
    by (simp_all add: zdiv_mono1)
  then show ?thesis by (simp add: half_up_def)
qed

lemma applyBPS_exact:
  assumes "0 \<le> a" "0 \<le> b" "b \<le> 10000" "a \<le> 922337203685477"
  shows "applyBPS a b = half_up a b"
proof -
  have "0 \<le> a * b" and "a * b \<le> 922337203685477 * 10000" using assms by (simp, intro mult_mono) auto
  then have "in_int64 (a * b)" and "in_int64 (a * b + 5000)" by (simp_all add: in_int64_def max_int64_def)
  with \<open>0 \<le> a * b\<close> show ?thesis by (auto simp: applyBPS_def half_up_def go_div_nonneg)
qed

lemma CalculateDuty_exact:
  assumes "\<And>xs. set (order xs) = set xs"
    and "0 < du_InvoiceAmountMinor i" "0 \<le> du_FreightAmountMinor i" "0 \<le> du_InsuranceAmountMinor i"
    and "0 \<le> du_TariffBPS i" "du_TariffBPS i \<le> 10000" "0 \<le> du_VatBPS i" "du_VatBPS i \<le> 10000"
    and "0 \<le> du_LevyBPS i" "du_LevyBPS i \<le> 10000" "0 \<le> du_ExciseBPS i" "du_ExciseBPS i \<le> 10000"
    and cif: "cif = du_InvoiceAmountMinor i + du_FreightAmountMinor i + du_InsuranceAmountMinor i" and bound: "cif \<le> 230584300921369"
  shows "CalculateDuty order i = Inr
    (let duty = half_up cif (du_TariffBPS i); levy = half_up cif (du_LevyBPS i); excise = half_up cif (du_ExciseBPS i);
         vat = half_up (cif + duty + levy + excise) (du_VatBPS i)
     in \<lparr>db_CIFMinor = cif, db_DutyMinor = duty, db_VatMinor = vat, db_LevyMinor = levy, db_ExciseMinor = excise,
         db_TotalDutyMinor = duty + vat + levy + excise\<rparr>)"
proof -
  let ?duty = "half_up cif (du_TariffBPS i)" and ?levy = "half_up cif (du_LevyBPS i)" and ?excise = "half_up cif (du_ExciseBPS i)"
  let ?base = "cif + ?duty + ?levy + ?excise"
  have fit: "in_int64 x" if "0 \<le> x" "x \<le> 7 * 230584300921369" for x
    using that by (simp add: in_int64_def max_int64_def)
  have pos: "0 < cif" using assms by simp
  have r: "0 \<le> ?duty \<and> ?duty \<le> cif" "0 \<le> ?levy \<and> ?levy \<le> cif" "0 \<le> ?excise \<and> ?excise \<le> cif"
    using assms pos half_up_range by simp_all
  have b: "0 \<le> ?base" "?base \<le> 4 * cif" using r pos by linarith+
  have v: "0 \<le> half_up ?base (du_VatBPS i) \<and> half_up ?base (du_VatBPS i) \<le> ?base" using assms b(1) half_up_range by simp
  have ok: "first_bad_rate (order [(''tariff'', du_TariffBPS i), (''vat'', du_VatBPS i), (''levy'', du_LevyBPS i), (''excise'', du_ExciseBPS i)]) = None"
    using assms(1,5-12) by (simp add: first_bad_rate_None)
  have e: "applyBPS cif (du_TariffBPS i) = ?duty" "applyBPS cif (du_LevyBPS i) = ?levy" "applyBPS cif (du_ExciseBPS i) = ?excise"
    "applyBPS ?base (du_VatBPS i) = half_up ?base (du_VatBPS i)"
    using assms pos b bound by (simp_all add: applyBPS_exact)
  have w: "wrap64 (wrap64 (du_InvoiceAmountMinor i + du_FreightAmountMinor i) + du_InsuranceAmountMinor i) = cif"
    "wrap64 (wrap64 (wrap64 (cif + ?duty) + ?levy) + ?excise) = ?base"
    "wrap64 (wrap64 (wrap64 (?duty + half_up ?base (du_VatBPS i)) + ?levy) + ?excise) = ?duty + half_up ?base (du_VatBPS i) + ?levy + ?excise"
    using assms(2-4) cif bound r b v pos by (simp_all add: fit)
  show ?thesis
    using assms(2-4) by (simp add: CalculateDuty_def ok Let_def w e)
qed

text \<open>Beyond that range the product wraps: a duty of 100 per cent on a very large invoice is nothing.\<close>

lemma duty_wraps:
  "applyBPS 1844674407370955162 10000 = 0"
  by (simp add: applyBPS_def wrap64_def go_div_def)

lemma CalculateDuty_order:
  assumes "CalculateDuty order i = Inr b" and "CalculateDuty order' i = Inr b'"
  shows "b' = b"
  using assms by (auto simp: CalculateDuty_def Let_def split: if_splits option.splits)

section \<open>Rows\<close>

text \<open>
  What the trader declared: the row without its status, its assessment, its bookkeeping times
  and its version. A step never changes it.
\<close>

definition declared :: "Declaration \<Rightarrow> Declaration" where
  "declared x = x\<lparr>de_Status := StatusDraft, de_RiskLane := None, de_RiskScore := None, de_ScoringModel := None, de_ScoringError := None,
     de_DutyMinor := None, de_VatMinor := None, de_LevyMinor := None, de_ExciseMinor := None, de_TotalDutyMinor := None,
     de_SubmittedAt := None, de_ClearedAt := None, de_UpdatedAt := 0, de_Version := 0\<rparr>"

lemma declared_eqD:
  assumes "declared x' = declared x"
  shows "de_DeclarationID x' = de_DeclarationID x" "de_TenantID x' = de_TenantID x" "de_RequestID x' = de_RequestID x"
    "de_DeclarationRef x' = de_DeclarationRef x" "de_Revision x' = de_Revision x" "de_SupersedesID x' = de_SupersedesID x"
    "de_TraderID x' = de_TraderID x" "duty_input x' = duty_input x" "certificate_number x' = certificate_number x"
proof -
  have eq: "f (declared x') = f (declared x)" for f :: "Declaration \<Rightarrow> 'a" using assms by simp
  show "de_DeclarationID x' = de_DeclarationID x" using eq [of de_DeclarationID] by (simp add: declared_def)
  show "de_TenantID x' = de_TenantID x" using eq [of de_TenantID] by (simp add: declared_def)
  show "de_RequestID x' = de_RequestID x" using eq [of de_RequestID] by (simp add: declared_def)
  show "de_DeclarationRef x' = de_DeclarationRef x" using eq [of de_DeclarationRef] by (simp add: declared_def)
  show "de_Revision x' = de_Revision x" using eq [of de_Revision] by (simp add: declared_def)
  show "de_SupersedesID x' = de_SupersedesID x" using eq [of de_SupersedesID] by (simp add: declared_def)
  show "de_TraderID x' = de_TraderID x" using eq [of de_TraderID] by (simp add: declared_def)
  show "duty_input x' = duty_input x" using eq [of duty_input] by (simp add: declared_def duty_input_def)
  show "certificate_number x' = certificate_number x"
    using eq [of certificate_number] by (simp add: declared_def certificate_number_def)
qed

definition duty_ok :: "Declaration \<Rightarrow> bool" where
  "duty_ok x \<longleftrightarrow> (\<exists>order b. CalculateDuty order (duty_input x) = Inr b \<and> de_DutyMinor x = Some (db_DutyMinor b)
     \<and> de_VatMinor x = Some (db_VatMinor b) \<and> de_LevyMinor x = Some (db_LevyMinor b) \<and> de_ExciseMinor x = Some (db_ExciseMinor b)
     \<and> de_TotalDutyMinor x = Some (db_TotalDutyMinor b))"

text \<open>What the status of a row says about the rest of it; three statuses of the source are never stored.\<close>

definition row_ok :: "Declaration \<Rightarrow> bool" where
  "row_ok x =
     (case de_Status x of
        StatusDraft \<Rightarrow> de_RiskLane x = None \<and> de_TotalDutyMinor x = None
      | StatusSubmitted \<Rightarrow> de_RiskLane x = None \<and> duty_ok x
      | StatusScoringUnavailable \<Rightarrow> de_RiskLane x = None \<and> de_ScoringError x \<noteq> None \<and> duty_ok x
      | StatusYellowLane \<Rightarrow> de_RiskLane x = Some LaneYellow \<and> duty_ok x
      | StatusRedLane \<Rightarrow> de_RiskLane x = Some LaneRed \<and> duty_ok x
      | StatusCleared \<Rightarrow> de_RiskLane x = Some LaneGreen \<and> (\<exists>s. de_RiskScore x = Some s \<and> s < 40) \<and> duty_ok x
      | StatusSuperseded \<Rightarrow> True
      | _ \<Rightarrow> False)"

section \<open>Effects\<close>

lemma find_declarationD:
  "find_declaration tid d k = Some x \<Longrightarrow> x \<in> set (customs_declarations d) \<and> de_TenantID x = tid \<and> de_DeclarationID x = k"
  by (auto simp: find_declaration_def dest: find_SomeD)

lemma d_getForUpdate_InrD:
  "d_getForUpdate pg_uuid claims d i = Inr x \<Longrightarrow>
     x \<in> set (customs_declarations d) \<and> de_TenantID x = TenantID claims \<and> pg_uuid i = Some (de_DeclarationID x)"
  by (auto simp: d_getForUpdate_def split: option.splits dest: find_declarationD)

lemma declarations_emit_InrD:
  "declarations_emit st claims ty x ext pr at e d = Inr d' \<Longrightarrow> \<exists>os. d' = d\<lparr>declarations_outbox := os\<rparr>"
  by (auto simp: declarations_emit_def bindE_Inr_iff)

lemma check_declaration_Inr [simp]: "check_declaration x = Inr u \<longleftrightarrow> declarations_check x"
  by (simp add: check_declaration_def)

lemma update_declaration_InrD:
  assumes "update_declaration tid x f d = Inr (x', d')" and "distinct (map de_DeclarationID (customs_declarations d))"
    and "x \<in> set (customs_declarations d)" and "de_TenantID x = tid"
  shows "x' = (f x)\<lparr>de_Version := de_Version x + 1\<rparr> \<and> de_Version x < max_int64 \<and> declarations_check x'
    \<and> d' = d\<lparr>customs_declarations := swap_row x x' (customs_declarations d)\<rparr>"
proof -
  let ?g = "\<lambda>y. (f y)\<lparr>de_Version := de_Version x + 1\<rparr>"
  let ?P = "\<lambda>y. de_TenantID y = tid \<and> de_DeclarationID y = de_DeclarationID x \<and> de_Status y = de_Status x \<and> de_Version y = de_Version x"
  have "update_where ?P ?g (customs_declarations d) = swap_row x (?g x) (customs_declarations d)"
    by (rule update_where_swap [OF assms(2,3)]) (use assms(4) in auto)
  with assms(1) show ?thesis by (auto simp: update_declaration_def bindE_Inr_iff Let_def)
qed

text \<open>
  The step one row makes: the declared content stays, the version counts, the new row is
  well formed and the statuses follow each other.
\<close>

definition advance :: "Declaration \<Rightarrow> Declaration \<Rightarrow> bool" where
  "advance x x' \<longleftrightarrow> declared x' = declared x \<and> de_Version x' = de_Version x + 1 \<and> declarations_check x' \<and> (row_ok x \<longrightarrow> row_ok x')
     \<and> (case de_Status x of
          StatusDraft \<Rightarrow> de_Status x' = StatusSubmitted
        | StatusSubmitted \<Rightarrow> de_Status x' \<in> {StatusScoringUnavailable, StatusYellowLane, StatusRedLane, StatusCleared}
        | _ \<Rightarrow> False)"

text \<open>The ways in which one unit of work changes the declarations and the certificates.\<close>

inductive decl_effect :: "ddb \<Rightarrow> ddb \<Rightarrow> bool" where
  same: "customs_declarations d' = customs_declarations d \<Longrightarrow> declaration_clearance_certificates d' = declaration_clearance_certificates d
     \<Longrightarrow> decl_effect d d'"
| draft: "customs_declarations d' = customs_declarations d @ [x] \<Longrightarrow> declaration_clearance_certificates d' = declaration_clearance_certificates d
     \<Longrightarrow> x = new_declaration k tid q hs 1 None trader r now \<Longrightarrow> declarations_check x
     \<Longrightarrow> \<not> request_taken (customs_declarations d) x \<Longrightarrow> \<not> declaration_key_taken (customs_declarations d) x \<Longrightarrow> decl_effect d d'"
| move: "customs_declarations d' = swap_row x x' (customs_declarations d)
     \<Longrightarrow> declaration_clearance_certificates d' = declaration_clearance_certificates d
     \<Longrightarrow> x \<in> set (customs_declarations d) \<Longrightarrow> advance x x' \<Longrightarrow> de_Status x' \<noteq> StatusCleared \<Longrightarrow> decl_effect d d'"
| clear: "customs_declarations d' = swap_row x x' (customs_declarations d)
     \<Longrightarrow> declaration_clearance_certificates d' = declaration_clearance_certificates d @ [c]
     \<Longrightarrow> x \<in> set (customs_declarations d) \<Longrightarrow> advance x x' \<Longrightarrow> de_Status x' = StatusCleared
     \<Longrightarrow> c = new_certificate st k (de_TenantID x) x' who now
     \<Longrightarrow> \<forall>y\<in>set (declaration_clearance_certificates d). cc_DeclarationID y \<noteq> de_DeclarationID x \<Longrightarrow> decl_effect d d'"
| amend: "customs_declarations d' = swap_row x x' (customs_declarations d) @ [y]
     \<Longrightarrow> declaration_clearance_certificates d' = declaration_clearance_certificates d
     \<Longrightarrow> x \<in> set (customs_declarations d) \<Longrightarrow> Amendable (de_Status x) \<Longrightarrow> declared x' = declared x
     \<Longrightarrow> x' = x\<lparr>de_Status := StatusSuperseded, de_UpdatedAt := now, de_Version := de_Version x + 1\<rparr> \<Longrightarrow> declarations_check x'
     \<Longrightarrow> y = new_declaration k (de_TenantID x) q hs (de_Revision x + 1) (Some (de_DeclarationID x)) (de_TraderID x) r now
     \<Longrightarrow> dq_DeclarationRef r = de_DeclarationRef x \<Longrightarrow> declarations_check y
     \<Longrightarrow> \<not> request_taken (swap_row x x' (customs_declarations d)) y
     \<Longrightarrow> \<not> declaration_key_taken (swap_row x x' (customs_declarations d)) y \<Longrightarrow> decl_effect d d'"

lemma Create_effect:
  assumes "declarations_Create_work r hs pr e claims d = Inr (x, d')"
  shows "decl_effect d d'"
  using assms
  by (auto simp: declarations_Create_work_def Let_def bindE_Inr_iff split: if_splits option.splits
      intro: decl_effect.same decl_effect.draft)

lemma Submit_work_InrD:
  assumes "Submit_work st order pick pg_uuid i v pr e claims d = Inr (x', d')" and "distinct (map de_DeclarationID (customs_declarations d))"
  obtains x b os where "x \<in> set (customs_declarations d)" and "de_TenantID x = TenantID claims" and "pg_uuid i = Some (de_DeclarationID x)"
    and "de_TraderID x = pr_ID pr" and "de_Version x = v" and "de_Status x = StatusDraft"
    and "permitsBlockSubmit pick (TenantID claims) d (de_DeclarationID x) (clk e 0) = Inr ()"
    and "CalculateDuty order (duty_input x) = Inr b" and "declarations_check x'"
    and "x' = x\<lparr>de_Status := StatusSubmitted, de_DutyMinor := Some (db_DutyMinor b), de_VatMinor := Some (db_VatMinor b),
           de_LevyMinor := Some (db_LevyMinor b), de_ExciseMinor := Some (db_ExciseMinor b),
           de_TotalDutyMinor := Some (db_TotalDutyMinor b), de_SubmittedAt := Some (clk e 0), de_UpdatedAt := clk e 0, de_Version := v + 1\<rparr>"
    and "d' = d\<lparr>customs_declarations := swap_row x x' (customs_declarations d), declarations_outbox := os\<rparr>"
  using assms(1)
  by (auto simp: Submit_work_def bindE_Inr_iff Let_def split: if_splits sum.splits prod.splits
      dest!: d_getForUpdate_InrD declarations_emit_InrD update_declaration_InrD [OF _ assms(2)])

lemma Submit_effect:
  assumes "Submit_work st order pick pg_uuid i v pr e claims d = Inr (x', d')" and "distinct (map de_DeclarationID (customs_declarations d))"
  shows "decl_effect d d'"
  using assms
proof (rule Submit_work_InrD)
  fix x b os
  assume x: "x \<in> set (customs_declarations d)" "de_Status x = StatusDraft" "de_Version x = v"
    and b: "CalculateDuty order (duty_input x) = Inr b" and chk: "declarations_check x'"
    and x': "x' = x\<lparr>de_Status := StatusSubmitted, de_DutyMinor := Some (db_DutyMinor b), de_VatMinor := Some (db_VatMinor b),
           de_LevyMinor := Some (db_LevyMinor b), de_ExciseMinor := Some (db_ExciseMinor b),
           de_TotalDutyMinor := Some (db_TotalDutyMinor b), de_SubmittedAt := Some (clk e 0), de_UpdatedAt := clk e 0, de_Version := v + 1\<rparr>"
    and d': "d' = d\<lparr>customs_declarations := swap_row x x' (customs_declarations d), declarations_outbox := os\<rparr>"
  have "duty_ok x'" using b by (auto simp: duty_ok_def x' duty_input_def)
  then have "advance x x'" using x chk by (auto simp: advance_def row_ok_def x' declared_def)
  then show ?thesis using x by (intro decl_effect.move [where x = x and x' = x']) (simp_all add: d' x')
qed

lemma issueClearance_InrD:
  assumes "issueClearance st claims x who now e d = Inr d'"
  shows "d' = d\<lparr>declaration_clearance_certificates := declaration_clearance_certificates d @ [new_certificate st (rnd e 0) (TenantID claims) x who now]\<rparr>
    \<and> (\<forall>y\<in>set (declaration_clearance_certificates d). cc_DeclarationID y \<noteq> de_DeclarationID x)"
  using assms by (auto simp: issueClearance_def Let_def list_ex_iff new_certificate_def split: if_splits)

definition laned :: "Declaration \<Rightarrow> RiskAssessment \<Rightarrow> ScoreResponse \<Rightarrow> time \<Rightarrow> Declaration" where
  "laned x a verdict now =
     x\<lparr>de_Status := (if ra_Lane a = LaneGreen then StatusCleared else LaneStatus (ra_Lane a)), de_RiskLane := Some (ra_Lane a),
       de_RiskScore := Some (ra_AdjustedScore a), de_ScoringModel := Some (sv_ModelVersion verdict),
       de_ClearedAt := (if ra_Lane a = LaneGreen then Some now else None), de_UpdatedAt := now, de_Version := de_Version x + 1\<rparr>"

lemma record_parked_InrD:
  assumes "record_work st pg_uuid i v (Inl err) aeo thr pr e claims d = Inr (x', d')"
    and "distinct (map de_DeclarationID (customs_declarations d))"
  obtains x os where "x \<in> set (customs_declarations d)" and "de_TenantID x = TenantID claims" and "pg_uuid i = Some (de_DeclarationID x)"
    and "de_Version x = v" and "de_Status x = StatusSubmitted" and "declarations_check x'"
    and "x' = x\<lparr>de_Status := StatusScoringUnavailable, de_ScoringError := Some err, de_UpdatedAt := clk e 0, de_Version := v + 1\<rparr>"
    and "d' = d\<lparr>customs_declarations := swap_row x x' (customs_declarations d), declarations_outbox := os\<rparr>"
  using assms(1)
  by (auto simp: record_work_def bindE_Inr_iff Let_def split: if_splits prod.splits
      dest!: d_getForUpdate_InrD declarations_emit_InrD update_declaration_InrD [OF _ assms(2)])

lemma record_laned_InrD:
  assumes "record_work st pg_uuid i v (Inr verdict) aeo thr pr e claims d = Inr (x', d')"
    and "distinct (map de_DeclarationID (customs_declarations d))"
  obtains x a os cs where "x \<in> set (customs_declarations d)" and "de_TenantID x = TenantID claims" and "pg_uuid i = Some (de_DeclarationID x)"
    and "de_Version x = v" and "de_Status x = StatusSubmitted" and "declarations_check x'"
    and "AssignRiskLane (lane_input x verdict aeo thr) = Inr a"
    and "x' = laned x (ApplyAEOClaimGuard a (de_IsAEO x) aeo) verdict (clk e 0)"
    and "de_Status x' \<noteq> StatusCleared \<Longrightarrow> cs = []"
    and "de_Status x' = StatusCleared \<Longrightarrow> cs = [new_certificate st (rnd e 2) (TenantID claims) x' (pr_ID pr) (clk e 0)]
           \<and> (\<forall>y\<in>set (declaration_clearance_certificates d). cc_DeclarationID y \<noteq> de_DeclarationID x)"
    and "d' = d\<lparr>customs_declarations := swap_row x x' (customs_declarations d),
           declaration_clearance_certificates := declaration_clearance_certificates d @ cs, declarations_outbox := os\<rparr>"
proof -
  have nc: "LaneStatus l \<noteq> StatusCleared" for l by (cases l) auto
  from assms(1) obtain x a where x: "d_getForUpdate pg_uuid claims d i = Inr x" "de_Version x = v" "de_Status x = StatusSubmitted"
    and a: "AssignRiskLane (lane_input x verdict aeo thr) = Inr a"
    by (auto simp: record_work_def bindE_Inr_iff Let_def split: if_splits)
  define g where "g = ApplyAEOClaimGuard a (de_IsAEO x) aeo"
  have gs: "ra_AdjustedScore a = ra_AdjustedScore g" by (simp add: g_def)
  from assms(1) x a obtain d1 os where
      u: "update_declaration (TenantID claims) x (\<lambda>y. y\<lparr>de_Status := (if ra_Lane g = LaneGreen then StatusCleared else LaneStatus (ra_Lane g)),
              de_RiskLane := Some (ra_Lane g), de_RiskScore := Some (ra_AdjustedScore g), de_ScoringModel := Some (sv_ModelVersion verdict),
              de_ClearedAt := (if ra_Lane g = LaneGreen then Some (clk e 0) else None), de_UpdatedAt := clk e 0\<rparr>) d = Inr (x', d1)"
    and f: "if ra_Lane g = LaneGreen
            then \<exists>d3 os'. issueClearance st claims x' (pr_ID pr) (clk e 0) (later 0 2 e) (d1\<lparr>declarations_outbox := os\<rparr>) = Inr d3
                   \<and> d' = d3\<lparr>declarations_outbox := os'\<rparr>
            else d' = d1\<lparr>declarations_outbox := os\<rparr>"
    by (cases "ra_Lane g = LaneGreen")
      (fastforce simp: record_work_def bindE_Inr_iff Let_def g_def [symmetric] gs nc split: prod.splits dest!: declarations_emit_InrD)+
  note y = d_getForUpdate_InrD [OF x(1)]
  from update_declaration_InrD [OF u assms(2)] y
  have x': "x' = laned x g verdict (clk e 0)" "declarations_check x'"
    and d1: "d1 = d\<lparr>customs_declarations := swap_row x x' (customs_declarations d)\<rparr>"
    by (auto simp: laned_def)
  have k: "de_DeclarationID x' = de_DeclarationID x" by (simp add: x' laned_def)
  have s: "de_Status x' = StatusCleared \<longleftrightarrow> ra_Lane g = LaneGreen" by (simp add: x' laned_def nc)
  show thesis
  proof (cases "de_Status x' = StatusCleared")
    case True
    with f s obtain d3 os' where i: "issueClearance st claims x' (pr_ID pr) (clk e 0) (later 0 2 e) (d1\<lparr>declarations_outbox := os\<rparr>) = Inr d3"
        "d' = d3\<lparr>declarations_outbox := os'\<rparr>"
      by auto
    from issueClearance_InrD [OF i(1)] True i(2) d1 k x a x' y g_def show thesis
      by (intro that [where cs = "[new_certificate st (rnd e 2) (TenantID claims) x' (pr_ID pr) (clk e 0)]" and os = os' and a = a and x = x])
        (auto simp: later_def numeral_2_eq_2)
  next
    case False
    with f s d1 x a x' y g_def show thesis by (intro that [where cs = "[]" and os = os and a = a and x = x]) auto
  qed
qed

lemma record_effect:
  assumes "record_work st pg_uuid i v scored aeo thr pr e claims d = Inr (x', d')" and "distinct (map de_DeclarationID (customs_declarations d))"
  shows "decl_effect d d'"
proof (cases scored)
  case (Inl err)
  from assms [unfolded Inl] show ?thesis
  proof (rule record_parked_InrD)
    fix x os
    assume x: "x \<in> set (customs_declarations d)" "de_Version x = v" "de_Status x = StatusSubmitted" "declarations_check x'"
      and x': "x' = x\<lparr>de_Status := StatusScoringUnavailable, de_ScoringError := Some err, de_UpdatedAt := clk e 0, de_Version := v + 1\<rparr>"
      and d': "d' = d\<lparr>customs_declarations := swap_row x x' (customs_declarations d), declarations_outbox := os\<rparr>"
    have "advance x x'" using x by (auto simp: advance_def row_ok_def x' declared_def duty_ok_def duty_input_def)
    then show ?thesis using x by (intro decl_effect.move [where x = x and x' = x']) (simp_all add: d' x')
  qed
next
  case (Inr verdict)
  from assms [unfolded Inr] show ?thesis
  proof (rule record_laned_InrD)
    fix x a os cs
    assume x: "x \<in> set (customs_declarations d)" "de_TenantID x = TenantID claims" "de_Version x = v" "de_Status x = StatusSubmitted" "declarations_check x'"
      and a: "AssignRiskLane (lane_input x verdict aeo thr) = Inr a"
      and x': "x' = laned x (ApplyAEOClaimGuard a (de_IsAEO x) aeo) verdict (clk e 0)"
      and n: "de_Status x' \<noteq> StatusCleared \<Longrightarrow> cs = []"
      and y: "de_Status x' = StatusCleared \<Longrightarrow> cs = [new_certificate st (rnd e 2) (TenantID claims) x' (pr_ID pr) (clk e 0)]
           \<and> (\<forall>y\<in>set (declaration_clearance_certificates d). cc_DeclarationID y \<noteq> de_DeclarationID x)"
      and d': "d' = d\<lparr>customs_declarations := swap_row x x' (customs_declarations d),
           declaration_clearance_certificates := declaration_clearance_certificates d @ cs, declarations_outbox := os\<rparr>"
    have lane: "ra_Lane (ApplyAEOClaimGuard a (de_IsAEO x) aeo) = LaneGreen \<Longrightarrow> ra_AdjustedScore a < 40"
      using AssignRiskLane_Inr [OF a] by (auto simp: ApplyAEOClaimGuard_lane lane_for_def split: if_splits)
    have adv: "advance x x'"
      using x lane by (cases "ra_Lane (ApplyAEOClaimGuard a (de_IsAEO x) aeo)")
        (auto simp: advance_def row_ok_def x' laned_def declared_def duty_ok_def duty_input_def)
    show ?thesis
    proof (cases "de_Status x' = StatusCleared")
      case True
      with y x adv show ?thesis
        by (intro decl_effect.clear [where x = x and x' = x' and st = st and k = "rnd e 2" and who = "pr_ID pr" and now = "clk e 0"]) (simp_all add: d')
    next
      case False
      with n x adv show ?thesis by (intro decl_effect.move [where x = x and x' = x']) (simp_all add: d')
    qed
  qed
qed

lemma Amend_effect:
  assumes "Amend_work st pg_uuid i r hs v pr e claims d = Inr (y, d')" and "distinct (map de_DeclarationID (customs_declarations d))"
  shows "decl_effect d d'"
proof -
  from assms(1) obtain x where x: "d_getForUpdate pg_uuid claims d i = Inr x" "de_TraderID x = pr_ID pr" "de_DeclarationRef x = dq_DeclarationRef r"
    by (auto simp: Amend_work_def bindE_Inr_iff split: if_splits)
  note z = d_getForUpdate_InrD [OF x(1)]
  from assms(1) x obtain replay where rep: "amend_replay (TenantID claims) d i (de_DeclarationID x) (dq_RequestID r) = Inr replay"
    by (auto simp: Amend_work_def bindE_Inr_iff)
  show ?thesis
  proof (cases replay)
    case (Some _)
    with assms(1) x rep show ?thesis by (auto simp: Amend_work_def intro: decl_effect.same)
  next
    case None
    define q where "q = (if de_RequestID x = dq_RequestID r then derivedAmendmentRequestID (dq_RequestID r) (de_Revision x + 1) else dq_RequestID r)"
    define y1 where "y1 = new_declaration (rnd e 0) (TenantID claims) q hs (de_Revision x + 1) (Some (de_DeclarationID x)) (pr_ID pr) r (clk e 0)"
    from assms(1) x rep None obtain x' d1 os where am: "Amendable (de_Status x)"
      and u: "update_declaration (TenantID claims) x (\<lambda>y. y\<lparr>de_Status := StatusSuperseded, de_UpdatedAt := clk e 0\<rparr>) d = Inr (x', d1)"
      and y1: "declarations_check y1" "\<not> request_taken (customs_declarations d1) y1" "\<not> declaration_key_taken (customs_declarations d1) y1"
      and d': "d' = d1\<lparr>customs_declarations := customs_declarations d1 @ [y1], declarations_outbox := os\<rparr>"
      by (auto simp: Amend_work_def bindE_Inr_iff Let_def q_def y1_def split: if_splits prod.splits dest!: declarations_emit_InrD)
    from update_declaration_InrD [OF u assms(2)] z
    have x': "x' = x\<lparr>de_Status := StatusSuperseded, de_UpdatedAt := clk e 0, de_Version := de_Version x + 1\<rparr>" "declarations_check x'"
      and d1: "d1 = d\<lparr>customs_declarations := swap_row x x' (customs_declarations d)\<rparr>" by auto
    show ?thesis
      by (rule decl_effect.amend [where x = x and x' = x' and y = y1 and now = "clk e 0" and k = "rnd e 0" and q = q and hs = hs and r = r])
        (use z am x' y1 x d1 d' in \<open>auto simp: declared_def y1_def\<close>)
  qed
qed

lemma RegisterPermit_effect: "RegisterPermit_work pg_uuid i a n t s e claims d = Inr (p, d') \<Longrightarrow> decl_effect d d'"
  by (auto simp: RegisterPermit_work_def Let_def split: if_splits option.splits intro: decl_effect.same)

section \<open>Steps\<close>

text \<open>
  Every operation of the store that writes, with whatever it answers; reads change nothing.
  The first transaction of \<open>AssessRisk\<close> only reads, so its step is the second one, with any
  answer of the scorer and any state the first one saw.
\<close>

inductive decl_step :: "ddb \<Rightarrow> ddb \<Rightarrow> bool" where
  Create: "declarations_Create order c r pr e d = (y, d') \<Longrightarrow> decl_step d d'"
| Submit: "Submit st order pick pg_uuid c i v pr e d = (y, d') \<Longrightarrow> decl_step d d'"
| Record: "WithTx c (record_work st pg_uuid i v scored aeo thr pr e) d = (y, d') \<Longrightarrow> decl_step d d'"
| Amend: "Amend st order pg_uuid c i r v pr e d = (z, d') \<Longrightarrow> decl_step d d'"
| RegisterPermit: "RegisterPermit pg_uuid c i a n t s e d = (p, d') \<Longrightarrow> decl_step d d'"

inductive decl_reachable :: "ddb \<Rightarrow> bool" where
  init: "decl_reachable empty_ddb"
| step: "decl_reachable d \<Longrightarrow> decl_step d d' \<Longrightarrow> decl_reachable d'"

lemma snapshot_work_reads: "snapshot_work pg_uuid i v claims d = Inr (x, d') \<Longrightarrow> d' = d"
  by (auto simp: snapshot_work_def bindE_Inr_iff split: if_splits)

lemma snapshot_reads: "WithTx c (snapshot_work pg_uuid i v) d = (y, d') \<Longrightarrow> d' = d"
  by (auto elim!: WithTx_cases dest: snapshot_work_reads)

text \<open>A whole \<open>AssessRisk\<close> is what the others commit meanwhile and then at most one step.\<close>

lemma AssessRisk_steps:
  assumes "AssessRisk st pg_uuid c i v scorer thr pr e between d = (y, d')"
  shows "d' = d \<or> decl_step (between d) d'"
  using assms
  by (auto simp: AssessRisk_def Let_def split: option.splits sum.splits prod.splits dest: snapshot_reads intro: decl_step.Record)

lemma decl_step_effect:
  assumes "decl_step d d'" and "distinct (map de_DeclarationID (customs_declarations d))"
  shows "decl_effect d d'"
  using assms
proof cases
  case (Create order c r pr e y)
  then show ?thesis
    by (auto simp: declarations_Create_def split: sum.splits elim!: WithTx_cases intro: Create_effect decl_effect.same)
next
  case (Submit st order pick pg_uuid c i v pr e y)
  then show ?thesis
    using assms(2) by (auto simp: Submit_def split: sum.splits elim!: WithTx_cases intro: Submit_effect decl_effect.same)
next
  case (Record c st pg_uuid i v scored aeo thr pr e y)
  then show ?thesis using assms(2) by (auto elim!: WithTx_cases intro: record_effect decl_effect.same)
next
  case (Amend st order pg_uuid c i r v pr e z)
  then show ?thesis
    using assms(2) by (auto simp: Amend_def split: sum.splits elim!: WithTx_cases intro: Amend_effect decl_effect.same)
next
  case (RegisterPermit pg_uuid c i a n t s e p)
  then show ?thesis
    by (auto simp: RegisterPermit_def split: if_splits elim!: WithTx_cases intro: RegisterPermit_effect decl_effect.same)
qed

section \<open>The invariant\<close>

definition decl_keys_ok :: "Declaration list \<Rightarrow> bool" where
  "decl_keys_ok T \<longleftrightarrow> distinct (map de_DeclarationID T) \<and> distinct (map (\<lambda>x. (de_TenantID x, de_RequestID x)) T)
     \<and> distinct (map (\<lambda>x. (de_TenantID x, de_DeclarationRef x, de_Revision x)) T)"

definition rows_ok :: "Declaration set \<Rightarrow> bool" where
  "rows_ok S \<longleftrightarrow> (\<forall>x\<in>S. declarations_check x \<and> row_ok x)"

text \<open>\<open>y\<close> is the revision \<open>x\<close> was amended from.\<close>

definition amends :: "Declaration \<Rightarrow> Declaration \<Rightarrow> bool" where
  "amends x y \<longleftrightarrow> de_SupersedesID x = Some (de_DeclarationID y) \<and> de_TenantID y = de_TenantID x \<and> de_DeclarationRef y = de_DeclarationRef x
     \<and> de_TraderID y = de_TraderID x \<and> de_Revision x = de_Revision y + 1"

definition chain_ok :: "Declaration set \<Rightarrow> bool" where
  "chain_ok S \<longleftrightarrow>
     (\<forall>x\<in>S. if de_Revision x = 1 then de_SupersedesID x = None else \<exists>y\<in>S. amends x y \<and> de_Status y = StatusSuperseded)
     \<and> (\<forall>y\<in>S. de_Status y = StatusSuperseded \<longrightarrow> (\<exists>x\<in>S. amends x y))
     \<and> (\<forall>x\<in>S. \<forall>y\<in>S. de_TenantID x = de_TenantID y \<and> de_DeclarationRef x = de_DeclarationRef y
          \<and> de_Status x \<noteq> StatusSuperseded \<and> de_Status y \<noteq> StatusSuperseded \<longrightarrow> x = y)"

definition certifies :: "DClearanceCertificate \<Rightarrow> Declaration \<Rightarrow> bool" where
  "certifies c x \<longleftrightarrow> cc_DeclarationID c = de_DeclarationID x \<and> cc_TenantID c = de_TenantID x \<and> cc_CertificateNumber c = certificate_number x"

definition certs_ok :: "Declaration set \<Rightarrow> DClearanceCertificate list \<Rightarrow> bool" where
  "certs_ok S C \<longleftrightarrow> distinct (map cc_DeclarationID C) \<and> (\<forall>c\<in>set C. \<exists>x\<in>S. certifies c x \<and> de_Status x = StatusCleared)
     \<and> (\<forall>x\<in>S. de_Status x = StatusCleared \<longrightarrow> (\<exists>c\<in>set C. certifies c x))"

definition ddb_inv :: "ddb \<Rightarrow> bool" where
  "ddb_inv d \<longleftrightarrow> decl_keys_ok (customs_declarations d) \<and> rows_ok (set (customs_declarations d)) \<and> chain_ok (set (customs_declarations d))
     \<and> certs_ok (set (customs_declarations d)) (declaration_clearance_certificates d)"

lemma ddb_inv_empty: "ddb_inv empty_ddb"
  by (simp add: ddb_inv_def empty_ddb_def decl_keys_ok_def rows_ok_def chain_ok_def certs_ok_def)

lemma decl_keys_ok_replace:
  assumes "declared x' = declared x" and "decl_keys_ok T"
  shows "decl_keys_ok (swap_row x x' T)"
proof -
  note same = declared_eqD [OF assms(1)]
  have "map de_DeclarationID (swap_row x x' T) = map de_DeclarationID T"
    "map (\<lambda>x. (de_TenantID x, de_RequestID x)) (swap_row x x' T) = map (\<lambda>x. (de_TenantID x, de_RequestID x)) T"
    "map (\<lambda>x. (de_TenantID x, de_DeclarationRef x, de_Revision x)) (swap_row x x' T)
       = map (\<lambda>x. (de_TenantID x, de_DeclarationRef x, de_Revision x)) T"
    by (rule map_swap_row, simp only: same)+
  with assms(2) show ?thesis by (simp add: decl_keys_ok_def)
qed

lemma decl_keys_ok_append:
  assumes "decl_keys_ok T" and "\<not> request_taken T x" and "\<not> declaration_key_taken T x"
  shows "decl_keys_ok (T @ [x])"
  using assms by (auto simp: decl_keys_ok_def request_taken_def declaration_key_taken_def list_ex_iff)

lemma declared_links:
  assumes "declared x' = declared x"
  shows "amends x' y = amends x y" "amends y x' = amends y x" "certifies c x' = certifies c x"
  using declared_eqD [OF assms] by (simp_all add: amends_def certifies_def)

lemma advance_open:
  "advance x x' \<Longrightarrow> de_Status x \<noteq> StatusSuperseded \<and> de_Status x' \<noteq> StatusSuperseded \<and> de_Status x \<noteq> StatusCleared"
  unfolding advance_def by (cases "de_Status x"; force)

lemma chain_pred:
  assumes "chain_ok S" and "x \<in> S" and "declared x' = declared x" and "de_Status x \<noteq> StatusSuperseded" and "z \<in> insert x' (S - {x})"
  shows "if de_Revision z = 1 then de_SupersedesID z = None else \<exists>y\<in>S - {x}. amends z y \<and> de_Status y = StatusSuperseded"
proof -
  define w where "w = (if z = x' then x else z)"
  have w: "w \<in> S" using assms(2,5) by (auto simp: w_def)
  have e: "de_Revision w = de_Revision z" "de_SupersedesID w = de_SupersedesID z" "\<And>y. amends w y = amends z y"
    using declared_eqD [OF assms(3)] declared_links [OF assms(3)] by (simp_all add: w_def)
  have "if de_Revision w = 1 then de_SupersedesID w = None else \<exists>y\<in>S. amends w y \<and> de_Status y = StatusSuperseded"
    using assms(1) w by (simp add: chain_ok_def)
  with e assms(4) show ?thesis by (auto split: if_splits)
qed

lemma chain_succ:
  assumes "chain_ok S" and "declared x' = declared x" and "y \<in> S" and "de_Status y = StatusSuperseded"
  shows "\<exists>z\<in>insert x' (S - {x}). amends z y"
proof -
  from assms obtain z where "z \<in> S" "amends z y" by (auto simp: chain_ok_def)
  then show ?thesis using declared_links [OF assms(2)] by (cases "z = x") auto
qed

lemma chain_ok_move:
  assumes "chain_ok S" and "x \<in> S" and "declared x' = declared x" and "de_Status x \<noteq> StatusSuperseded" and "de_Status x' \<noteq> StatusSuperseded"
  shows "chain_ok (insert x' (S - {x}))"
proof -
  note same = declared_eqD [OF assms(3)]
  let ?S = "insert x' (S - {x})"
  have "if de_Revision z = 1 then de_SupersedesID z = None else \<exists>y\<in>?S. amends z y \<and> de_Status y = StatusSuperseded" if "z \<in> ?S" for z
    using chain_pred [OF assms(1-4) that] by (auto split: if_splits)
  moreover have "\<exists>z\<in>?S. amends z y" if "y \<in> ?S" "de_Status y = StatusSuperseded" for y
    using chain_succ [OF assms(1,3)] that assms(5) by auto
  moreover have "z = y" if "z \<in> ?S" "y \<in> ?S" "de_TenantID z = de_TenantID y" "de_DeclarationRef z = de_DeclarationRef y"
      "de_Status z \<noteq> StatusSuperseded" "de_Status y \<noteq> StatusSuperseded" for z y
    using that assms same unfolding chain_ok_def by (metis Diff_iff insert_iff)
  ultimately show ?thesis unfolding chain_ok_def by blast
qed

lemma chain_ok_draft:
  assumes "chain_ok S" and "de_Revision x = 1" and "de_SupersedesID x = None" and "de_Status x \<noteq> StatusSuperseded"
    and "\<And>y. y \<in> S \<Longrightarrow> de_TenantID y = de_TenantID x \<Longrightarrow> de_DeclarationRef y = de_DeclarationRef x \<Longrightarrow> de_Status y = StatusSuperseded"
  shows "chain_ok (insert x S)"
  using assms unfolding chain_ok_def by (auto split: if_splits)

lemma chain_ok_amend:
  assumes "chain_ok S" and "x \<in> S" and "declared x' = declared x" and "de_Status x \<noteq> StatusSuperseded" and "de_Status x' = StatusSuperseded"
    and "amends y x" and "de_Revision y \<noteq> 1" and "de_Status y \<noteq> StatusSuperseded"
    and "\<And>z. z \<in> insert x' (S - {x}) \<Longrightarrow> de_TenantID z = de_TenantID y \<Longrightarrow> de_DeclarationRef z = de_DeclarationRef y \<Longrightarrow> de_Status z = StatusSuperseded"
  shows "chain_ok (insert y (insert x' (S - {x})))"
proof -
  note links = declared_links [OF assms(3)]
  let ?S = "insert y (insert x' (S - {x}))"
  have "if de_Revision z = 1 then de_SupersedesID z = None else \<exists>w\<in>?S. amends z w \<and> de_Status w = StatusSuperseded" if "z \<in> ?S" for z
    using that assms(5-7) links chain_pred [OF assms(1-4), of z] by (cases "z = y") (auto split: if_splits)
  moreover have "\<exists>z\<in>?S. amends z w" if w: "w \<in> ?S" "de_Status w = StatusSuperseded" for w
    using w assms(6,8) links chain_succ [OF assms(1,3), of w] by (cases "w = x'") auto
  moreover have "z = w" if "z \<in> ?S" "w \<in> ?S" "de_TenantID z = de_TenantID w" "de_DeclarationRef z = de_DeclarationRef w"
      "de_Status z \<noteq> StatusSuperseded" "de_Status w \<noteq> StatusSuperseded" for z w
  proof -
    have "z = w" if "z \<in> S" "w \<in> S" using that \<open>de_TenantID z = de_TenantID w\<close> \<open>de_DeclarationRef z = de_DeclarationRef w\<close>
        \<open>de_Status z \<noteq> StatusSuperseded\<close> \<open>de_Status w \<noteq> StatusSuperseded\<close> assms(1) by (auto simp: chain_ok_def)
    with that assms(5) assms(9) [of z] assms(9) [of w] show ?thesis by auto
  qed
  ultimately show ?thesis unfolding chain_ok_def by blast
qed

lemma certs_ok_move:
  assumes "certs_ok S C" and "de_Status x \<noteq> StatusCleared" and "de_Status x' \<noteq> StatusCleared"
  shows "certs_ok (insert x' (S - {x})) C"
  using assms by (fastforce simp: certs_ok_def)

lemma certs_ok_clear:
  assumes "certs_ok S C" and "de_Status x \<noteq> StatusCleared" and "de_Status x' = StatusCleared" and "certifies c x'"
    and "\<forall>y\<in>set C. cc_DeclarationID y \<noteq> cc_DeclarationID c"
  shows "certs_ok (insert x' (S - {x})) (C @ [c])"
  using assms by (fastforce simp: certs_ok_def)

lemma certs_ok_add: "certs_ok S C \<Longrightarrow> de_Status x \<noteq> StatusCleared \<Longrightarrow> certs_ok (insert x S) C"
  by (fastforce simp: certs_ok_def)

lemma Amendable_open: "Amendable s \<Longrightarrow> s \<noteq> StatusSuperseded \<and> s \<noteq> StatusCleared"
  by (cases s) (auto simp: Amendable_def declaration_ValidTransition_def)

lemma new_declaration_simps [simp]:
  "de_Status (new_declaration k tid q hs n s t r now) = StatusDraft" "de_Revision (new_declaration k tid q hs n s t r now) = n"
  "de_SupersedesID (new_declaration k tid q hs n s t r now) = s" "de_TenantID (new_declaration k tid q hs n s t r now) = tid"
  "de_TraderID (new_declaration k tid q hs n s t r now) = t" "de_DeclarationRef (new_declaration k tid q hs n s t r now) = dq_DeclarationRef r"
  "de_DeclarationID (new_declaration k tid q hs n s t r now) = k" "de_Version (new_declaration k tid q hs n s t r now) = 1"
  "row_ok (new_declaration k tid q hs n s t r now)"
  by (simp_all add: new_declaration_def row_ok_def)

lemma not_key_takenD:
  assumes "\<not> declaration_key_taken T x" and "de_Status x \<noteq> StatusSuperseded"
    and "y \<in> set T" and "de_TenantID y = de_TenantID x" and "de_DeclarationRef y = de_DeclarationRef x"
  shows "de_Status y = StatusSuperseded"
  using assms by (auto simp: declaration_key_taken_def list_ex_iff)

lemma certifies_new: "declared x' = declared x \<Longrightarrow> certifies (new_certificate st k (de_TenantID x) x' who now) x'"
  using declared_eqD [of x' x] by (simp add: certifies_def new_certificate_def)

lemma new_certificate_id [simp]: "cc_DeclarationID (new_certificate st k t x who now) = de_DeclarationID x"
  by (simp add: new_certificate_def)

lemma decl_effect_inv:
  assumes "decl_effect d d'" and "ddb_inv d"
  shows "ddb_inv d'"
  using assms(1)
proof cases
  case same
  with assms(2) show ?thesis by (simp add: ddb_inv_def)
next
  case (draft x k tid q hs trader r now)
  have "chain_ok (insert x (set (customs_declarations d)))"
    using assms(2) draft not_key_takenD [OF draft(6)] by (intro chain_ok_draft) (simp_all add: ddb_inv_def)
  with assms(2) draft show ?thesis by (simp add: ddb_inv_def decl_keys_ok_append certs_ok_add rows_ok_def)
next
  case (move x x')
  note o = advance_open [OF move(4)]
  have dec: "declared x' = declared x" "declarations_check x'" "row_ok x \<longrightarrow> row_ok x'" using move(4) by (simp_all add: advance_def)
  have "chain_ok (insert x' (set (customs_declarations d) - {x}))"
    using assms(2) move(3) dec o by (intro chain_ok_move) (simp_all add: ddb_inv_def)
  with assms(2) move dec o show ?thesis
    by (simp add: ddb_inv_def set_swap_row decl_keys_ok_replace certs_ok_move rows_ok_def)
next
  case (clear x x' c st k who now)
  note o = advance_open [OF clear(4)]
  have dec: "declared x' = declared x" "declarations_check x'" "row_ok x \<longrightarrow> row_ok x'" using clear(4) by (simp_all add: advance_def)
  have "chain_ok (insert x' (set (customs_declarations d) - {x}))"
    using assms(2) clear(3) dec o by (intro chain_ok_move) (simp_all add: ddb_inv_def)
  moreover have "certs_ok (insert x' (set (customs_declarations d) - {x})) (declaration_clearance_certificates d')"
    unfolding clear(2)
    by (rule certs_ok_clear) (use assms(2) clear dec(1) declared_eqD(1) [OF dec(1)] o certifies_new in \<open>auto simp: ddb_inv_def\<close>)
  ultimately show ?thesis
    using assms(2) clear(1,3) dec by (simp add: ddb_inv_def set_swap_row decl_keys_ok_replace rows_ok_def)
next
  case (amend x x' y now k q hs r)
  note o = Amendable_open [OF amend(4)]
  let ?S = "insert x' (set (customs_declarations d) - {x})"
  have rev: "1 \<le> de_Revision x" using assms(2) amend(3) by (auto simp: ddb_inv_def rows_ok_def declarations_check_def)
  have s: "set (swap_row x x' (customs_declarations d)) = ?S" using amend(3) by (rule set_swap_row)
  have "chain_ok (insert y ?S)"
  proof (rule chain_ok_amend [where x = x])
    show "chain_ok (set (customs_declarations d))" using assms(2) by (simp add: ddb_inv_def)
    show "de_Status x' = StatusSuperseded" by (simp add: amend(6))
    show "amends y x" by (simp add: amends_def amend(8,9))
    show "de_Revision y \<noteq> 1" "de_Status y \<noteq> StatusSuperseded" using rev by (simp_all add: amend(8))
    show "de_Status z = StatusSuperseded" if "z \<in> ?S" "de_TenantID z = de_TenantID y" "de_DeclarationRef z = de_DeclarationRef y" for z
      by (rule not_key_takenD [OF amend(12)]) (use that s in \<open>simp_all add: amend(8)\<close>)
  qed (use o amend(3,5) in auto)
  moreover have "certs_ok (insert y ?S) (declaration_clearance_certificates d)"
    using assms(2) amend(6,8) o by (intro certs_ok_add certs_ok_move) (simp_all add: ddb_inv_def)
  moreover have "decl_keys_ok (swap_row x x' (customs_declarations d) @ [y])"
    using assms(2) amend(5,11,12) by (intro decl_keys_ok_append decl_keys_ok_replace) (simp_all add: ddb_inv_def)
  moreover have "row_ok x'" by (simp add: row_ok_def amend(6))
  then have "rows_ok (insert y ?S)" using assms(2) amend(7,8,10) by (simp add: ddb_inv_def rows_ok_def)
  ultimately show ?thesis by (simp add: ddb_inv_def amend(1,2) s)
qed

lemma decl_step_inv: "ddb_inv d \<Longrightarrow> decl_step d d' \<Longrightarrow> ddb_inv d'"
  by (rule decl_effect_inv) (auto intro: decl_step_effect simp: ddb_inv_def decl_keys_ok_def)

lemma decl_reachable_inv: "decl_reachable d \<Longrightarrow> ddb_inv d"
  by (induction rule: decl_reachable.induct) (auto intro: ddb_inv_empty decl_step_inv)

lemma decl_reachable_ids: "decl_reachable d \<Longrightarrow> distinct (map de_DeclarationID (customs_declarations d))"
  using decl_reachable_inv [of d] by (simp add: ddb_inv_def decl_keys_ok_def)

section \<open>The life cycle\<close>

definition row_of :: "ddb \<Rightarrow> string \<Rightarrow> Declaration option" where
  "row_of d k = find (\<lambda>x. de_DeclarationID x = k) (customs_declarations d)"

definition decl_abs :: "ddb \<Rightarrow> string \<Rightarrow> (DStatus \<times> int) option" where
  "decl_abs d k = map_option (\<lambda>x. (de_Status x, de_Version x)) (row_of d k)"

text \<open>The status of a revision moves along the transitions of the source, and its version counts the moves.\<close>

definition decl_move :: "DStatus \<times> int \<Rightarrow> DStatus \<times> int \<Rightarrow> bool" where
  "decl_move p q \<longleftrightarrow> declaration_ValidTransition\<^sup>+\<^sup>+ (fst p) (fst q) \<and> snd q = snd p + 1"

lemma advance_move:
  assumes "advance x x'"
  shows "decl_move (de_Status x, de_Version x) (de_Status x', de_Version x')"
proof -
  note t = declaration_ValidTransition_def
  have ra: "declaration_ValidTransition StatusSubmitted StatusRiskAssessed" by (simp add: t)
  have "declaration_ValidTransition\<^sup>+\<^sup>+ StatusSubmitted s" if "declaration_ValidTransition StatusRiskAssessed s" for s
    using ra that by (meson tranclp.simps)
  moreover have "declaration_ValidTransition\<^sup>+\<^sup>+ StatusSubmitted StatusCleared"
    using calculation [of StatusGreenLane] by (rule tranclp.trancl_into_trancl) (simp_all add: t)
  moreover have "declaration_ValidTransition\<^sup>+\<^sup>+ StatusSubmitted StatusScoringUnavailable"
    and "declaration_ValidTransition\<^sup>+\<^sup>+ StatusDraft StatusSubmitted" by (rule tranclp.r_into_trancl, simp add: t)+
  moreover from assms have "de_Status x = StatusDraft \<and> de_Status x' = StatusSubmitted
      \<or> de_Status x = StatusSubmitted \<and> de_Status x' \<in> {StatusScoringUnavailable, StatusYellowLane, StatusRedLane, StatusCleared}"
    unfolding advance_def by (cases "de_Status x"; force)
  moreover have "declaration_ValidTransition StatusRiskAssessed StatusYellowLane" "declaration_ValidTransition StatusRiskAssessed StatusRedLane"
    by (simp_all add: t)
  ultimately have "declaration_ValidTransition\<^sup>+\<^sup>+ (de_Status x) (de_Status x')" by auto
  then show ?thesis using assms by (simp add: decl_move_def advance_def)
qed

lemma decl_abs_replace:
  assumes "customs_declarations d' = swap_row x x' (customs_declarations d)" and "de_DeclarationID x' = de_DeclarationID x"
    and "x \<in> set (customs_declarations d)" and "distinct (map de_DeclarationID (customs_declarations d))"
  shows "row_of d' k = (if k = de_DeclarationID x then Some x' else row_of d k)"
proof -
  have "row_of d (de_DeclarationID x) = Some x"
    unfolding row_of_def by (rule find_unique [OF assms(4,3)])
  moreover have "row_of d k = Some x \<Longrightarrow> k = de_DeclarationID x" by (auto simp: row_of_def dest: find_SomeD)
  moreover have "row_of d' k = map_option (\<lambda>y. if y = x then x' else y) (row_of d k)"
    unfolding row_of_def assms(1) by (rule find_swap_row) (simp add: assms(2))
  ultimately show ?thesis by (cases "row_of d k") auto
qed

text \<open>One step leaves a revision alone, advances it or supersedes it, and keeps what was declared.\<close>

definition decl_row_step :: "Declaration \<Rightarrow> Declaration \<Rightarrow> bool" where
  "decl_row_step x x' \<longleftrightarrow> declared x' = declared x
     \<and> (x' = x \<or> advance x x' \<or> Amendable (de_Status x) \<and> de_Status x' = StatusSuperseded \<and> de_Version x' = de_Version x + 1)"

lemma decl_row_step_move: "decl_row_step x x' \<Longrightarrow> x' = x \<or> decl_move (de_Status x, de_Version x) (de_Status x', de_Version x')"
  using advance_move [of x x'] by (auto simp: decl_row_step_def decl_move_def Amendable_def)

lemma decl_effect_row:
  assumes "decl_effect d d'" and "ddb_inv d"
  shows "(case row_of d k of
        None \<Rightarrow> row_of d' k = None \<or> (\<exists>x. row_of d' k = Some x \<and> de_Status x = StatusDraft \<and> de_Version x = 1)
      | Some x \<Rightarrow> \<exists>x'. row_of d' k = Some x' \<and> decl_row_step x x')"
proof -
  have ids: "distinct (map de_DeclarationID (customs_declarations d))" using assms(2) by (simp add: ddb_inv_def decl_keys_ok_def)
  have add: "row_of e' k = (case row_of e k of None \<Rightarrow> if de_DeclarationID y = k then Some y else None | Some z \<Rightarrow> Some z)"
    if "customs_declarations e' = customs_declarations e @ [y]" for e e' y
    using that by (simp add: row_of_def find_append split: option.splits)
  show ?thesis
    using assms(1)
  proof cases
    case same
    then show ?thesis by (auto simp: row_of_def decl_row_step_def split: option.splits)
  next
    case (draft x k' tid q hs trader r now)
    then show ?thesis by (auto simp: add [OF draft(1)] decl_row_step_def split: option.splits)
  next
    case (move x x')
    then show ?thesis
      using decl_abs_replace [OF move(1) _ move(3) ids, of k] declared_eqD(1) [of x' x] find_unique [OF ids move(3)] move(4)
      by (auto simp: advance_def row_of_def decl_row_step_def split: option.splits)
  next
    case (clear x x' c st k' who now)
    then show ?thesis
      using decl_abs_replace [OF clear(1) _ clear(3) ids, of k] declared_eqD(1) [of x' x] find_unique [OF ids clear(3)] clear(4)
      by (auto simp: advance_def row_of_def decl_row_step_def split: option.splits)
  next
    case (amend x x' y now k' q hs r)
    let ?e = "d\<lparr>customs_declarations := swap_row x x' (customs_declarations d)\<rparr>"
    have "decl_row_step x x'" using amend(4-6) by (simp add: decl_row_step_def)
    moreover have "row_of ?e k = (if k = de_DeclarationID x then Some x' else row_of d k)"
      by (rule decl_abs_replace [OF _ declared_eqD(1) [OF amend(5)] amend(3) ids]) simp
    moreover have "row_of d' k = (case row_of ?e k of None \<Rightarrow> if de_DeclarationID y = k then Some y else None | Some z \<Rightarrow> Some z)"
      by (rule add) (simp add: amend(1))
    moreover have "row_of d (de_DeclarationID x) = Some x" unfolding row_of_def by (rule find_unique [OF ids amend(3)])
    ultimately show ?thesis using amend(8) by (auto simp: decl_row_step_def split: option.splits)
  qed
qed

interpretation declarations: lifecycle_refinement ddb_inv decl_step decl_abs "(StatusDraft, 1)" decl_move
proof
  fix s s' :: ddb and k :: string and p
  assume i: "ddb_inv s" "decl_step s s'"
  show "ddb_inv s'" using i by (rule decl_step_inv)
  have "decl_effect s s'" by (rule decl_step_effect [OF i(2)]) (use i(1) in \<open>simp add: ddb_inv_def decl_keys_ok_def\<close>)
  note r = decl_effect_row [OF this i(1), of k]
  show "\<exists>p'. decl_abs s' k = Some p' \<and> (p' = p \<or> decl_move p p')" if "decl_abs s k = Some p"
    using r that by (fastforce simp: decl_abs_def dest: decl_row_step_move)
  show "decl_abs s' k = None \<or> decl_abs s' k = Some (StatusDraft, 1)" if "decl_abs s k = None"
    using r that by (auto simp: decl_abs_def)
qed

lemma decl_reachable_run: "decl_reachable d \<Longrightarrow> decl_step\<^sup>*\<^sup>* empty_ddb d"
  by (induction rule: decl_reachable.induct) (auto intro: rtranclp.rtrancl_into_rtrancl)

end
