(* ===== verification/Declarations_Properties.thy ===== *)
theory Declarations_Properties
  imports Declarations_Correct Scenario
begin

text \<open>
  What the declaration engine guarantees: exact duty within a stated range, lanes that an
  unverified claim cannot improve, well-formed rows, one live revision per reference with a
  complete chain of amendments, a certificate for exactly the cleared revisions, scoring that
  fails closed, and customs matches that rest on a cleared declaration; with a run of one
  declaration from the draft to its certificate, and of one that is amended.
\<close>

section \<open>A run\<close>

definition demo_dq :: DCreateRequest where
  "demo_dq = \<lparr>dq_RequestID = ''request-1'', dq_DeclarationRef = ''NG/2024-77'', dq_UCR = [], dq_DeclarationType = TypeImport, dq_HSCode = ''8703.23'',
     dq_GoodsDescription = ''used vehicles'', dq_CountryOfOrigin = ''DE'', dq_CountryOfDestination = [], dq_PortOfEntry = ''NGAPP'',
     dq_GrossWeightKg = 1500, dq_NetWeightKg = 1400, dq_NumberOfPackages = 1, dq_ConsigneeID = ''consignee'', dq_OperatorID = ''operator'',
     dq_IsAEO = False, dq_InvoiceAmountMinor = 100000, dq_FreightAmountMinor = 0, dq_InsuranceAmountMinor = 0, dq_InvoiceCurrency = ''NGN'',
     dq_TariffBPS = 2000, dq_VatBPS = 750, dq_LevyBPS = 0, dq_ExciseBPS = 0\<rparr>"

definition demo_dstore :: dstore where
  "demo_dstore = declarations_NewStore (Some (\<lambda>_. Inr ''sig'')) (\<lambda>_. ''null'')"

definition demo_owner :: Principal where
  "demo_owner = \<lparr>pr_ID = ''clerk'', pr_Role = ''trader''\<rparr>"

lemma demo_dq_valid: "declaration_Validate (\<lambda>xs. xs) demo_dq = Inr ()" "NormalizeHSCode (dq_HSCode demo_dq) = Inr ''870323''"
  by (simp_all add: declaration_Validate_def demo_dq_def NormalizeHSCode_def canonical_between_def d_refPattern_def countryPattern_def
      d_currencyPattern_def match_regex_single go_simps del: match_regex.simps)

lemma WithTx_demo_ctx: "WithTx demo_ctx work d = (case work demo_claims d of Inl e \<Rightarrow> (Inl e, d) | Inr (a, d') \<Rightarrow> (Inr a, d'))"
  by (simp add: WithTx_def demo_ctx_def TenantClaims_def split: sum.splits prod.splits)

definition demo_dd1 :: ddb where
  "demo_dd1 = snd (declarations_Create (\<lambda>xs. xs) demo_ctx demo_dq demo_owner (demo_env 10 ''dec'') empty_ddb)"

definition demo_dd2 :: ddb where
  "demo_dd2 = snd (Submit demo_dstore (\<lambda>xs. xs) (\<lambda>ps. ps) Some demo_ctx ''dec'' 1 demo_owner (demo_env 20 ''e1'') demo_dd1)"

definition demo_score :: "int \<Rightarrow> ScoreResponse" where
  "demo_score s = \<lparr>sv_Score = s, sv_ModelVersion = ''m1'', sv_Sanctioned = False\<rparr>"

definition demo_dd3 :: ddb where
  "demo_dd3 = snd (WithTx demo_ctx (record_work demo_dstore Some ''dec'' 2 (Inr (demo_score 30)) False 0 demo_owner (demo_env 30 ''e2'')) demo_dd2)"

definition demo_parked :: ddb where
  "demo_parked = snd (WithTx demo_ctx (record_work demo_dstore Some ''dec'' 2 (Inl ''down'') False 0 demo_owner (demo_env 30 ''e2'')) demo_dd2)"

definition demo_dq2 :: DCreateRequest where
  "demo_dq2 = demo_dq\<lparr>dq_RequestID := ''request-2'', dq_InvoiceAmountMinor := 200000\<rparr>"

definition demo_dd4 :: ddb where
  "demo_dd4 = snd (Amend demo_dstore (\<lambda>xs. xs) Some demo_ctx ''dec'' demo_dq2 3 demo_owner (demo_env 40 ''amd'') demo_parked)"

lemma demo_d_reachable:
  "decl_reachable demo_dd1" "decl_reachable demo_dd2" "decl_reachable demo_dd3" "decl_reachable demo_parked" "decl_reachable demo_dd4"
proof -
  show 1: "decl_reachable demo_dd1"
    unfolding demo_dd1_def by (rule decl_reachable.step [OF decl_reachable.init], rule decl_step.Create, rule prod.collapse [symmetric])
  show 2: "decl_reachable demo_dd2"
    unfolding demo_dd2_def by (rule decl_reachable.step [OF 1], rule decl_step.Submit, rule prod.collapse [symmetric])
  show "decl_reachable demo_dd3"
    unfolding demo_dd3_def by (rule decl_reachable.step [OF 2], rule decl_step.Record, rule prod.collapse [symmetric])
  show 4: "decl_reachable demo_parked"
    unfolding demo_parked_def by (rule decl_reachable.step [OF 2], rule decl_step.Record, rule prod.collapse [symmetric])
  show "decl_reachable demo_dd4"
    unfolding demo_dd4_def by (rule decl_reachable.step [OF 4], rule decl_step.Amend, rule prod.collapse [symmetric])
qed

definition demo_draft :: Declaration where
  "demo_draft = new_declaration ''dec'' ''tenant-demo'' ''request-1'' ''870323'' 1 None ''clerk'' demo_dq 10"

definition demo_submitted :: Declaration where
  "demo_submitted = demo_draft\<lparr>de_Status := StatusSubmitted, de_DutyMinor := Some 20000, de_VatMinor := Some 9000, de_LevyMinor := Some 0,
     de_ExciseMinor := Some 0, de_TotalDutyMinor := Some 29000, de_SubmittedAt := Some 20, de_UpdatedAt := 20, de_Version := 2\<rparr>"

definition demo_cleared :: Declaration where
  "demo_cleared = demo_submitted\<lparr>de_Status := StatusCleared, de_RiskLane := Some LaneGreen, de_RiskScore := Some 30, de_ScoringModel := Some ''m1'',
     de_ClearedAt := Some 30, de_UpdatedAt := 30, de_Version := 3\<rparr>"

definition demo_unscored :: Declaration where
  "demo_unscored = demo_submitted\<lparr>de_Status := StatusScoringUnavailable, de_ScoringError := Some ''down'', de_UpdatedAt := 30, de_Version := 3\<rparr>"

definition demo_old :: Declaration where
  "demo_old = demo_unscored\<lparr>de_Status := StatusSuperseded, de_UpdatedAt := 40, de_Version := 4\<rparr>"

definition demo_new :: Declaration where
  "demo_new = new_declaration ''amd'' ''tenant-demo'' ''request-2'' ''870323'' 2 (Some ''dec'') ''clerk'' demo_dq2 40"

lemmas demo_decl_defs = demo_draft_def demo_submitted_def demo_cleared_def demo_unscored_def demo_old_def demo_new_def new_declaration_def
  demo_dq_def demo_dq2_def

lemma demo_checks:
  "declarations_check demo_draft" "declarations_check demo_submitted" "declarations_check demo_cleared" "declarations_check demo_unscored"
  "declarations_check demo_old" "declarations_check demo_new"
  by (simp_all add: declarations_check_def demo_decl_defs chars_between_def null_or_def nilIfEmpty_def
      d_refPattern_def max_int32_def max_int64_def match_regex_single go_simps del: match_regex.simps)

text \<open>A state of the run: its declarations and certificates; no permits, and the events written so far.\<close>

definition demo_dstate :: "ddb \<Rightarrow> Declaration list \<Rightarrow> DClearanceCertificate list \<Rightarrow> string list \<Rightarrow> bool" where
  "demo_dstate d xs cs ids \<longleftrightarrow> customs_declarations d = xs \<and> declaration_clearance_certificates d = cs \<and> declaration_permits d = []
     \<and> map ox_EventID (declarations_outbox d) = ids"

lemma demo_dd1_state: "demo_dstate demo_dd1 [demo_draft] [] []"
proof -
  have eq: "demo_dd1 = empty_ddb\<lparr>customs_declarations := [demo_draft]\<rparr>"
    using demo_checks(1)
    by (simp add: demo_dd1_def declarations_Create_def demo_dq_valid d_requirePrincipal_def demo_owner_def WithTx_demo_ctx declarations_Create_work_def
        Let_def check_declaration_def empty_ddb_def request_taken_def declaration_key_taken_def demo_draft_def wrap_err_def)
      (simp add: demo_dq_def demo_claims_def)
  show ?thesis unfolding demo_dstate_def eq by (simp add: empty_ddb_def)
qed

lemma demo_d_emit:
  assumes "demo_dstate d xs cs ids" and "TrimSpace (de_RequestID x) \<noteq> []" and "de_DeclarationRef x = ''NG/2024-77''" and "TrimSpace ty \<noteq> []"
    and "list_all (\<lambda>k. TrimSpace k \<noteq> []) (map fst ext)" and "rnd e 1 \<notin> set ids"
  shows "\<exists>os. declarations_emit demo_dstore demo_claims ty x ext demo_owner at e d = Inr (d\<lparr>declarations_outbox := os\<rparr>) \<and> map ox_EventID os = ids @ [rnd e 1]"
proof -
  have "\<exists>y. emit_event demo_claims TopicDeclarations ty (de_RequestID x) (de_DeclarationRef x) x ext demo_owner at (ds_signer demo_dstore) e (declarations_outbox d)
      = Inr (declarations_outbox d @ [y]) \<and> ox_EventID y = rnd e 1"
    by (rule emit_event_ok [where sign = "\<lambda>_. Inr ''sig''"])
      (use assms in \<open>auto simp: demo_dstore_def declarations_NewStore_def validTopic_def demo_owner_def go_simps demo_dstate_def\<close>)
  with assms(1) show ?thesis by (auto simp: declarations_emit_def demo_dstate_def)
qed

lemma demo_tid: "TenantID demo_claims = ''tenant-demo''"
  by (simp add: demo_claims_def)

lemma demo_owner_id: "pr_ID demo_owner = ''clerk''"
  by (simp add: demo_owner_def)

lemma demo_owner_required: "d_requirePrincipal demo_owner = Inr ()"
  by (simp add: d_requirePrincipal_def demo_owner_def)

lemma demo_draft_simps:
  "de_TraderID demo_draft = ''clerk''" "de_Version demo_draft = 1" "de_Status demo_draft = StatusDraft" "de_DeclarationID demo_draft = ''dec''"
  by (simp_all add: demo_draft_def new_declaration_def)

lemma demo_get: "demo_dstate d (x # xs) cs ids \<Longrightarrow> de_TenantID x = ''tenant-demo'' \<Longrightarrow> de_DeclarationID x = k \<Longrightarrow> d_getForUpdate Some demo_claims d k = Inr x"
  by (simp add: d_getForUpdate_def find_declaration_def demo_dstate_def demo_claims_def)

lemma demo_update:
  assumes "demo_dstate d [x] cs ids" and "de_TenantID x = ''tenant-demo''" and "de_Version x < max_int64"
    and "x' = (f x)\<lparr>de_Version := de_Version x + 1\<rparr>" and "declarations_check x'"
  shows "update_declaration ''tenant-demo'' x f d = Inr (x', d\<lparr>customs_declarations := [x']\<rparr>)"
  using assms by (simp add: update_declaration_def pg_inc_def Let_def check_declaration_def demo_dstate_def update_where_def)

lemma demo_duty_input: "duty_input demo_draft = \<lparr>du_InvoiceAmountMinor = 100000, du_FreightAmountMinor = 0, du_InsuranceAmountMinor = 0,
    du_TariffBPS = 2000, du_VatBPS = 750, du_LevyBPS = 0, du_ExciseBPS = 0\<rparr>"
  by (simp add: duty_input_def demo_decl_defs)

lemma demo_duty: "CalculateDuty (\<lambda>xs. xs) (duty_input demo_draft) = Inr \<lparr>db_CIFMinor = 100000, db_DutyMinor = 20000, db_VatMinor = 9000,
    db_LevyMinor = 0, db_ExciseMinor = 0, db_TotalDutyMinor = 29000\<rparr>"
  unfolding demo_duty_input by (subst CalculateDuty_exact [where cif = 100000]) (simp_all add: half_up_def Let_def)

lemma demo_submit:
  "\<exists>os. Submit_work demo_dstore (\<lambda>xs. xs) (\<lambda>ps. ps) Some ''dec'' 1 demo_owner (demo_env 20 ''e1'') demo_claims demo_dd1
     = Inr (demo_submitted, demo_dd1\<lparr>customs_declarations := [demo_submitted], declarations_outbox := os\<rparr>) \<and> map ox_EventID os = [''e1x'']"
proof -
  let ?f = "\<lambda>y. y\<lparr>de_Status := StatusSubmitted, de_DutyMinor := Some 20000, de_VatMinor := Some 9000, de_LevyMinor := Some 0,
     de_ExciseMinor := Some 0, de_TotalDutyMinor := Some 29000, de_SubmittedAt := Some 20, de_UpdatedAt := 20\<rparr>"
  have g: "d_getForUpdate Some demo_claims demo_dd1 ''dec'' = Inr demo_draft"
    by (rule demo_get [OF demo_dd1_state]) (simp_all add: demo_decl_defs)
  have u: "update_declaration ''tenant-demo'' demo_draft ?f demo_dd1 = Inr (demo_submitted, demo_dd1\<lparr>customs_declarations := [demo_submitted]\<rparr>)"
    by (rule demo_update [OF demo_dd1_state _ _ _ demo_checks(2)]) (simp_all add: demo_decl_defs max_int64_def)
  have s: "demo_dstate (demo_dd1\<lparr>customs_declarations := [demo_submitted]\<rparr>) [demo_submitted] [] []" using demo_dd1_state by (simp add: demo_dstate_def)
  have h: "NormalizeHSCode (de_HSCode demo_draft) = Inr ''870323''" by (simp add: demo_decl_defs NormalizeHSCode_def go_simps)
  have p: "permitsBlockSubmit (\<lambda>ps. ps) ''tenant-demo'' demo_dd1 (de_DeclarationID demo_draft) 20 = Inr ()"
    using demo_dd1_state by (simp add: permitsBlockSubmit_def demo_dstate_def)
  have "\<exists>os. declarations_emit demo_dstore demo_claims ''trade.declaration.submitted.v1'' demo_submitted
      [(''declaration-ref'', de_DeclarationRef demo_submitted), (''declaration-type'', type_text (de_DeclarationType demo_submitted)),
       (''total-duty-minor'', fmt_d 29000)] demo_owner 20 (demo_env 20 ''e1'') (demo_dd1\<lparr>customs_declarations := [demo_submitted]\<rparr>)
      = Inr (demo_dd1\<lparr>customs_declarations := [demo_submitted]\<rparr>\<lparr>declarations_outbox := os\<rparr>) \<and> map ox_EventID os = [] @ [rnd (demo_env 20 ''e1'') 1]"
    by (rule demo_d_emit [OF s]) (simp_all add: demo_decl_defs go_simps)
  then show ?thesis
    using g u h p demo_duty by (auto simp: Submit_work_def demo_tid Let_def wrap_err_def demo_draft_simps demo_owner_id)
qed

lemma demo_dd2_state: "demo_dstate demo_dd2 [demo_submitted] [] [''e1x'']"
proof -
  obtain os where s: "Submit_work demo_dstore (\<lambda>xs. xs) (\<lambda>ps. ps) Some ''dec'' 1 demo_owner (demo_env 20 ''e1'') demo_claims demo_dd1
     = Inr (demo_submitted, demo_dd1\<lparr>customs_declarations := [demo_submitted], declarations_outbox := os\<rparr>)" "map ox_EventID os = [''e1x'']"
    using demo_submit by (elim exE conjE)
  have eq: "demo_dd2 = demo_dd1\<lparr>customs_declarations := [demo_submitted], declarations_outbox := os\<rparr>"
    by (simp add: demo_dd2_def Submit_def demo_owner_required WithTx_demo_ctx s(1))
  show ?thesis using s(2) demo_dd1_state unfolding eq demo_dstate_def by simp
qed

lemma new_declaration_aeo: "de_IsAEO (new_declaration k tid q hs n s t r now) = dq_IsAEO r"
  by (simp add: new_declaration_def)

lemma demo_submitted_simps:
  "de_Version demo_submitted = 2" "de_Status demo_submitted = StatusSubmitted" "de_DeclarationID demo_submitted = ''dec''"
  "de_TenantID demo_submitted = ''tenant-demo''" "de_IsAEO demo_submitted = False"
  by (simp_all add: demo_submitted_def demo_draft_def new_declaration_aeo) (simp add: demo_dq_def)

lemma demo_record_get: "d_getForUpdate Some demo_claims demo_dd2 ''dec'' = Inr demo_submitted"
  by (rule demo_get [OF demo_dd2_state]) (simp_all add: demo_submitted_simps)

lemma demo_park:
  "WithTx demo_ctx (record_work demo_dstore Some ''dec'' 2 (Inl ''down'') False 0 demo_owner (demo_env 30 ''e2'')) demo_dd2
     = (Inr demo_unscored, demo_parked) \<and> demo_dstate demo_parked [demo_unscored] [] [''e1x'', ''e2x'']"
proof -
  let ?d = "demo_dd2\<lparr>customs_declarations := [demo_unscored]\<rparr>"
  have u: "update_declaration ''tenant-demo'' demo_submitted (\<lambda>y. y\<lparr>de_Status := StatusScoringUnavailable, de_ScoringError := Some ''down'', de_UpdatedAt := 30\<rparr>)
      demo_dd2 = Inr (demo_unscored, ?d)"
    by (rule demo_update [OF demo_dd2_state _ _ _ demo_checks(4)]) (simp_all add: demo_submitted_simps max_int64_def demo_unscored_def)
  have s: "demo_dstate ?d [demo_unscored] [] [''e1x'']" using demo_dd2_state by (simp add: demo_dstate_def)
  have "\<exists>os. declarations_emit demo_dstore demo_claims ''trade.declaration.scoring-unavailable.v1'' demo_unscored
      [(''declaration-ref'', de_DeclarationRef demo_unscored)] demo_owner 30 (demo_env 30 ''e2'') ?d
      = Inr (?d\<lparr>declarations_outbox := os\<rparr>) \<and> map ox_EventID os = [''e1x''] @ [rnd (demo_env 30 ''e2'') 1]"
    by (rule demo_d_emit [OF s]) (simp_all add: demo_decl_defs go_simps)
  then obtain os where "record_work demo_dstore Some ''dec'' 2 (Inl ''down'') False 0 demo_owner (demo_env 30 ''e2'') demo_claims demo_dd2
      = Inr (demo_unscored, ?d\<lparr>declarations_outbox := os\<rparr>)" "map ox_EventID os = [''e1x'', ''e2x'']"
    using u demo_record_get by (auto simp: record_work_def demo_tid Let_def wrap_err_def demo_submitted_simps)
  with s show ?thesis by (simp add: demo_parked_def WithTx_demo_ctx demo_dstate_def)
qed

lemmas demo_parked_state = conjunct2 [OF demo_park]

definition demo_certificate :: DClearanceCertificate where
  "demo_certificate = new_certificate demo_dstore ''e2xx'' ''tenant-demo'' demo_cleared ''clerk'' 30"

lemma demo_lane: "AssignRiskLane (lane_input demo_submitted (demo_score 30) False 0) = Inr (lane_of (30, []))"
proof -
  have "adjusted_score (lane_input demo_submitted (demo_score 30) False 0) = (30, [])"
    by (simp add: adjusted_score_def lane_input_def demo_score_def demo_decl_defs adjust_def highRiskCountries_def controlledHSPrefixes_def)
  then show ?thesis by (simp add: AssignRiskLane_def lane_input_def demo_score_def)
qed

lemma demo_dd3_state: "demo_dstate demo_dd3 [demo_cleared] [demo_certificate] [''e1x'', ''e2x'', ''e2xxxx'']"
proof -
  let ?a = "lane_of (30, [])"
  let ?f = "\<lambda>y. y\<lparr>de_Status := StatusCleared, de_RiskLane := Some LaneGreen, de_RiskScore := Some 30, de_ScoringModel := Some ''m1'',
     de_ClearedAt := Some 30, de_UpdatedAt := 30\<rparr>"
  let ?d = "demo_dd2\<lparr>customs_declarations := [demo_cleared]\<rparr>"
  have u: "update_declaration ''tenant-demo'' demo_submitted ?f demo_dd2 = Inr (demo_cleared, ?d)"
    by (rule demo_update [OF demo_dd2_state _ _ _ demo_checks(3)]) (simp_all add: demo_submitted_simps max_int64_def demo_cleared_def)
  have s: "demo_dstate ?d [demo_cleared] [] [''e1x'']" using demo_dd2_state by (simp add: demo_dstate_def)
  have "\<exists>os. declarations_emit demo_dstore demo_claims ''trade.declaration.risk-assessed.v1'' demo_cleared
      [(''declaration-ref'', de_DeclarationRef demo_cleared), (''risk-lane'', lane_text LaneGreen), (''risk-score'', fmt_d 30),
       (''lane-reasons'', json_strings (ra_Reasons ?a))] demo_owner 30 (demo_env 30 ''e2'') ?d
      = Inr (?d\<lparr>declarations_outbox := os\<rparr>) \<and> map ox_EventID os = [''e1x''] @ [rnd (demo_env 30 ''e2'') 1]"
    by (rule demo_d_emit [OF s]) (simp_all add: demo_decl_defs go_simps)
  then obtain os where e1: "declarations_emit demo_dstore demo_claims ''trade.declaration.risk-assessed.v1'' demo_cleared
      [(''declaration-ref'', de_DeclarationRef demo_cleared), (''risk-lane'', lane_text LaneGreen), (''risk-score'', fmt_d 30),
       (''lane-reasons'', json_strings (ra_Reasons ?a))] demo_owner 30 (demo_env 30 ''e2'') ?d = Inr (?d\<lparr>declarations_outbox := os\<rparr>)"
    "map ox_EventID os = [''e1x'', ''e2x'']" by auto
  let ?d3 = "?d\<lparr>declarations_outbox := os\<rparr>\<lparr>declaration_clearance_certificates := [demo_certificate]\<rparr>"
  have num: "certificate_number demo_cleared = ''CC-NG/2024-77-R1''"
  proof -
    have "fmt_d 1 = ''1''" by code_simp
    then show ?thesis by (simp add: certificate_number_def demo_decl_defs)
  qed
  have i: "issueClearance demo_dstore demo_claims demo_cleared ''clerk'' 30 (later 0 2 (demo_env 30 ''e2'')) (?d\<lparr>declarations_outbox := os\<rparr>) = Inr ?d3"
    using demo_dd2_state
    by (simp add: issueClearance_def Let_def demo_dstate_def demo_certificate_def demo_tid new_certificate_def num chars_between_def eval_nat_numeral)
  have s3: "demo_dstate ?d3 [demo_cleared] [demo_certificate] [''e1x'', ''e2x'']" using s e1(2) by (simp add: demo_dstate_def)
  have "\<exists>os'. declarations_emit demo_dstore demo_claims ''trade.declaration.cleared.v1'' demo_cleared
      [(''declaration-ref'', de_DeclarationRef demo_cleared), (''risk-lane'', lane_text LaneGreen)] demo_owner 30 (later 0 3 (demo_env 30 ''e2'')) ?d3
      = Inr (?d3\<lparr>declarations_outbox := os'\<rparr>) \<and> map ox_EventID os' = [''e1x'', ''e2x''] @ [rnd (later 0 3 (demo_env 30 ''e2'')) 1]"
    by (rule demo_d_emit [OF s3]) (simp_all add: demo_decl_defs go_simps eval_nat_numeral)
  then obtain os' where e2: "declarations_emit demo_dstore demo_claims ''trade.declaration.cleared.v1'' demo_cleared
      [(''declaration-ref'', de_DeclarationRef demo_cleared), (''risk-lane'', lane_text LaneGreen)] demo_owner 30 (later 0 3 (demo_env 30 ''e2'')) ?d3
      = Inr (?d3\<lparr>declarations_outbox := os'\<rparr>)" "map ox_EventID os' = [''e1x'', ''e2x'', ''e2xxxx'']" by (auto simp: eval_nat_numeral)
  have g: "ApplyAEOClaimGuard ?a False False = ?a" by (simp add: ApplyAEOClaimGuard_def)
  have "record_work demo_dstore Some ''dec'' 2 (Inr (demo_score 30)) False 0 demo_owner (demo_env 30 ''e2'') demo_claims demo_dd2
      = Inr (demo_cleared, ?d3\<lparr>declarations_outbox := os'\<rparr>)"
    using u e1(1) i e2(1) demo_record_get
    by (simp add: record_work_def demo_lane g demo_tid wrap_err_def demo_submitted_simps lane_for_def demo_owner_id Let_def) (simp add: demo_score_def)
  with s3 e2(2) show ?thesis by (simp add: demo_dd3_def WithTx_demo_ctx demo_dstate_def)
qed

lemma find_unique_where:
  assumes "distinct (map key T)" and "x \<in> set T" and "Q x" and "\<And>y. y \<in> set T \<Longrightarrow> Q y \<Longrightarrow> key y = key x"
  shows "find Q T = Some x"
proof -
  from assms(2,3) have "find Q T \<noteq> None" unfolding find_None_iff by blast
  then obtain y where y: "find Q T = Some y" by blast
  from find_SomeD [OF y] have "y \<in> set T" "key y = key x" using assms(4) by blast+
  with y distinct_key_eq [OF assms(1) _ assms(2)] show ?thesis by simp
qed

section \<open>Properties\<close>

text \<open>
  Claim C19. A clearance certificate exists for exactly the cleared revisions: in every reachable
  state a revision is CLEARED if and only if there is a certificate for it, there is only one,
  it is of the revision's tenant and carries its reference and revision number, the revision
  was laned GREEN with a score below 40, and \<open>ClearanceCertificate\<close> answers it.
\<close>

theorem cleared_iff_certified:
  assumes "decl_reachable d" and "x \<in> set (customs_declarations d)"
  shows "(de_Status x = StatusCleared \<longleftrightarrow> (\<exists>c\<in>set (declaration_clearance_certificates d). cc_DeclarationID c = de_DeclarationID x))
    \<and> (\<forall>c\<in>set (declaration_clearance_certificates d). cc_DeclarationID c = de_DeclarationID x \<longrightarrow>
          cc_TenantID c = de_TenantID x \<and> cc_CertificateNumber c = ''CC-'' @ de_DeclarationRef x @ ''-R'' @ fmt_d (de_Revision x)
          \<and> de_RiskLane x = Some LaneGreen \<and> (\<exists>s. de_RiskScore x = Some s \<and> s < 40)
          \<and> (\<forall>c'\<in>set (declaration_clearance_certificates d). cc_DeclarationID c' = de_DeclarationID x \<longrightarrow> c' = c)
          \<and> (\<forall>pg_uuid i claims. pg_uuid i = Some (de_DeclarationID x) \<and> TenantID claims = de_TenantID x
                \<longrightarrow> ClearanceCertificate_work pg_uuid i claims d = Inr ((c, x), d)))"
proof -
  let ?C = "set (declaration_clearance_certificates d)"
  note inv = decl_reachable_inv [OF assms(1)] and ids = decl_reachable_ids [OF assms(1)]
  have co: "certs_ok (set (customs_declarations d)) (declaration_clearance_certificates d)" using inv by (simp add: ddb_inv_def)
  have own: "certifies c x \<and> de_Status x = StatusCleared" if "c \<in> ?C" "cc_DeclarationID c = de_DeclarationID x" for c
  proof -
    from co that(1) obtain y where y: "y \<in> set (customs_declarations d)" "certifies c y" "de_Status y = StatusCleared" by (auto simp: certs_ok_def)
    from y(2) that(2) have "de_DeclarationID y = de_DeclarationID x" unfolding certifies_def by metis
    then have "y = x" by (rule distinct_key_eq [OF ids y(1) assms(2)])
    with y show ?thesis by simp
  qed
  have one: "c' = c" if "c \<in> ?C" "c' \<in> ?C" "cc_DeclarationID c = cc_DeclarationID c'" for c c'
    using co that by (auto simp: certs_ok_def dest: distinct_key_eq)
  have green: "de_Status x = StatusCleared \<Longrightarrow> de_RiskLane x = Some LaneGreen \<and> (\<exists>s. de_RiskScore x = Some s \<and> s < 40)"
    using inv assms(2) by (auto simp: ddb_inv_def rows_ok_def row_ok_def)
  have answer: "ClearanceCertificate_work pg_uuid i claims d = Inr ((c, x), d)"
    if c: "c \<in> ?C" "cc_DeclarationID c = de_DeclarationID x" and "pg_uuid i = Some (de_DeclarationID x)" "TenantID claims = de_TenantID x" for pg_uuid i claims c
  proof -
    have "find_declaration (de_TenantID x) d (de_DeclarationID x) = Some x"
      unfolding find_declaration_def by (rule find_unique_where [OF ids assms(2)]) auto
    moreover have "find (\<lambda>y. cc_TenantID y = de_TenantID x \<and> cc_DeclarationID y = de_DeclarationID x) (declaration_clearance_certificates d) = Some c"
      by (rule find_unique_where [where key = cc_DeclarationID]) (use co c own [OF c] in \<open>auto simp: certs_ok_def certifies_def\<close>)
    ultimately show ?thesis using that own [OF c] by (simp add: ClearanceCertificate_work_def d_getForUpdate_def)
  qed
  have "de_Status x = StatusCleared \<longleftrightarrow> (\<exists>c\<in>?C. cc_DeclarationID c = de_DeclarationID x)"
    using co assms(2) own by (auto simp: certs_ok_def certifies_def)
  moreover have "cc_TenantID c = de_TenantID x \<and> cc_CertificateNumber c = ''CC-'' @ de_DeclarationRef x @ ''-R'' @ fmt_d (de_Revision x)"
    if "c \<in> ?C" "cc_DeclarationID c = de_DeclarationID x" for c
    using own [OF that] by (simp add: certifies_def certificate_number_def)
  ultimately show ?thesis using green own one answer by metis
qed

theorem cleared_iff_certified_witness:
  "customs_declarations demo_dd3 = [demo_cleared] \<and> declaration_clearance_certificates demo_dd3 = [demo_certificate]
   \<and> de_Status demo_cleared = StatusCleared \<and> cc_TenantID demo_certificate = ''tenant-demo''
   \<and> ClearanceCertificate_work Some ''dec'' demo_claims demo_dd3 = Inr ((demo_certificate, demo_cleared), demo_dd3)"
proof -
  have s: "customs_declarations demo_dd3 = [demo_cleared]" "declaration_clearance_certificates demo_dd3 = [demo_certificate]"
    using demo_dd3_state by (simp_all add: demo_dstate_def)
  have i: "cc_DeclarationID demo_certificate = de_DeclarationID demo_cleared" "de_DeclarationID demo_cleared = ''dec''"
      "de_TenantID demo_cleared = ''tenant-demo''" "de_Status demo_cleared = StatusCleared"
    by (simp_all add: demo_certificate_def demo_cleared_def demo_submitted_simps)
  have "demo_cleared \<in> set (customs_declarations demo_dd3)" by (simp add: s)
  from cleared_iff_certified [OF demo_d_reachable(3) this] i show ?thesis by (auto simp: s demo_tid)
qed

lemma demo_dd4_state: "demo_dstate demo_dd4 [demo_old, demo_new] [] [''e1x'', ''e2x'', ''amdxx'']"
proof -
  let ?d1 = "demo_parked\<lparr>customs_declarations := [demo_old]\<rparr>"
  let ?d2 = "demo_parked\<lparr>customs_declarations := [demo_old, demo_new]\<rparr>"
  have v: "declaration_Validate (\<lambda>xs. xs) demo_dq2 = Inr ()" "NormalizeHSCode (dq_HSCode demo_dq2) = Inr ''870323''"
    by (simp_all add: declaration_Validate_def demo_dq2_def demo_dq_def NormalizeHSCode_def canonical_between_def d_refPattern_def countryPattern_def
      d_currencyPattern_def match_regex_single go_simps del: match_regex.simps)
  have x: "de_Version demo_unscored = 3" "de_Status demo_unscored = StatusScoringUnavailable" "de_DeclarationID demo_unscored = ''dec''"
    "de_TenantID demo_unscored = ''tenant-demo''" "de_TraderID demo_unscored = ''clerk''" "de_DeclarationRef demo_unscored = dq_DeclarationRef demo_dq2"
    "de_RequestID demo_unscored = ''request-1''" "de_Revision demo_unscored = 1" "dq_RequestID demo_dq2 = ''request-2''"
    by (simp_all add: demo_decl_defs)
  have g: "d_getForUpdate Some demo_claims demo_parked ''dec'' = Inr demo_unscored"
    by (rule demo_get [OF demo_parked_state]) (simp_all add: x)
  have r: "amend_replay ''tenant-demo'' demo_parked ''dec'' ''dec'' ''request-2'' = Inr None"
    using demo_parked_state x by (simp add: amend_replay_def getByRequestID_def demo_dstate_def)
  have u: "update_declaration ''tenant-demo'' demo_unscored (\<lambda>y. y\<lparr>de_Status := StatusSuperseded, de_UpdatedAt := 40\<rparr>) demo_parked = Inr (demo_old, ?d1)"
    by (rule demo_update [OF demo_parked_state _ _ _ demo_checks(5)]) (simp_all add: x max_int64_def demo_old_def)
  have k: "\<not> request_taken [demo_old] demo_new" "\<not> declaration_key_taken [demo_old] demo_new"
    by (simp_all add: request_taken_def declaration_key_taken_def demo_decl_defs)
  have s: "demo_dstate ?d2 [demo_old, demo_new] [] [''e1x'', ''e2x'']" using demo_parked_state by (simp add: demo_dstate_def)
  have "\<exists>os. declarations_emit demo_dstore demo_claims ''trade.declaration.amended.v1'' demo_new
      [(''declaration-ref'', de_DeclarationRef demo_new), (''revision'', fmt_d (de_Revision demo_new)), (''supersedes'', ''dec'')]
      demo_owner 40 (later 0 1 (demo_env 40 ''amd'')) ?d2
      = Inr (?d2\<lparr>declarations_outbox := os\<rparr>) \<and> map ox_EventID os = [''e1x'', ''e2x''] @ [rnd (later 0 1 (demo_env 40 ''amd'')) 1]"
    by (rule demo_d_emit [OF s]) (simp_all add: demo_decl_defs go_simps)
  then obtain os where e: "declarations_emit demo_dstore demo_claims ''trade.declaration.amended.v1'' demo_new
      [(''declaration-ref'', de_DeclarationRef demo_new), (''revision'', fmt_d (de_Revision demo_new)), (''supersedes'', ''dec'')]
      demo_owner 40 (later 0 1 (demo_env 40 ''amd'')) ?d2 = Inr (?d2\<lparr>declarations_outbox := os\<rparr>)" "map ox_EventID os = [''e1x'', ''e2x'', ''amdxx'']"
    by auto
  have a: "Amendable StatusScoringUnavailable" by (simp add: Amendable_def declaration_ValidTransition_def)
  have "Amend_work demo_dstore Some ''dec'' demo_dq2 ''870323'' 3 demo_owner (demo_env 40 ''amd'') demo_claims demo_parked
      = Inr (demo_new, ?d2\<lparr>declarations_outbox := os\<rparr>)"
    using g r u k e(1) a demo_checks(6)
    by (simp add: Amend_work_def x demo_tid demo_owner_id wrap_err_def Let_def check_declaration_def demo_new_def [symmetric])
  with s e(2) v show ?thesis by (simp add: demo_dd4_def Amend_def demo_owner_required WithTx_demo_ctx demo_dstate_def)
qed

text \<open>
  Claim C22. Revisions form a chain: in every reachable state a reference of a tenant has at most one
  revision that is not superseded, a first revision supersedes nothing, every later one
  supersedes the revision before it of the same reference and trader, which is SUPERSEDED, and
  every superseded revision has such a successor.
\<close>

theorem revision_chain:
  assumes "decl_reachable d" and "x \<in> set (customs_declarations d)"
  shows "(\<forall>y\<in>set (customs_declarations d). de_TenantID y = de_TenantID x \<and> de_DeclarationRef y = de_DeclarationRef x
        \<and> de_Status x \<noteq> StatusSuperseded \<and> de_Status y \<noteq> StatusSuperseded \<longrightarrow> y = x)
    \<and> (if de_Revision x = 1 then de_SupersedesID x = None
        else \<exists>y\<in>set (customs_declarations d). de_SupersedesID x = Some (de_DeclarationID y) \<and> de_TenantID y = de_TenantID x
          \<and> de_DeclarationRef y = de_DeclarationRef x \<and> de_TraderID y = de_TraderID x \<and> de_Revision y = de_Revision x - 1
          \<and> de_Status y = StatusSuperseded)
    \<and> (de_Status x = StatusSuperseded \<longrightarrow> (\<exists>y\<in>set (customs_declarations d). de_SupersedesID y = Some (de_DeclarationID x)
          \<and> de_TenantID y = de_TenantID x \<and> de_DeclarationRef y = de_DeclarationRef x \<and> de_Revision y = de_Revision x + 1))"
proof -
  have c: "chain_ok (set (customs_declarations d))" using decl_reachable_inv [OF assms(1)] by (simp add: ddb_inv_def)
  have 1: "\<forall>y\<in>set (customs_declarations d). de_TenantID y = de_TenantID x \<and> de_DeclarationRef y = de_DeclarationRef x
        \<and> de_Status x \<noteq> StatusSuperseded \<and> de_Status y \<noteq> StatusSuperseded \<longrightarrow> y = x"
    using c assms(2) unfolding chain_ok_def by metis
  have 2: "if de_Revision x = 1 then de_SupersedesID x = None else \<exists>y\<in>set (customs_declarations d). amends x y \<and> de_Status y = StatusSuperseded"
    using c assms(2) unfolding chain_ok_def by blast
  have 3: "de_Status x = StatusSuperseded \<Longrightarrow> \<exists>y\<in>set (customs_declarations d). amends y x" using c assms(2) unfolding chain_ok_def by blast
  show ?thesis
    by (intro conjI impI 1) (use 2 3 in \<open>fastforce simp: amends_def split: if_splits\<close>)+
qed

theorem revision_chain_witness:
  "customs_declarations demo_dd4 = [demo_old, demo_new] \<and> de_SupersedesID demo_new = Some ''dec'' \<and> de_Revision demo_new = 2
   \<and> (\<exists>y\<in>set (customs_declarations demo_dd4). de_SupersedesID demo_new = Some (de_DeclarationID y) \<and> de_Status y = StatusSuperseded)"
proof -
  have s: "customs_declarations demo_dd4 = [demo_old, demo_new]" using demo_dd4_state by (simp add: demo_dstate_def)
  have n: "de_SupersedesID demo_new = Some ''dec''" "de_Revision demo_new = 2" by (simp_all add: demo_new_def)
  have "demo_new \<in> set (customs_declarations demo_dd4)" by (simp add: s)
  from revision_chain [OF demo_d_reachable(5) this] n(2)
  have "\<exists>y\<in>set (customs_declarations demo_dd4). de_SupersedesID demo_new = Some (de_DeclarationID y) \<and> de_Status y = StatusSuperseded" by auto
  with s n show ?thesis by blast
qed

lemma decl_reachable_row:
  assumes "decl_reachable d" and "decl_step d d'"
  shows "(case row_of d k of
        None \<Rightarrow> row_of d' k = None \<or> (\<exists>x. row_of d' k = Some x \<and> de_Status x = StatusDraft \<and> de_Version x = 1)
      | Some x \<Rightarrow> \<exists>x'. row_of d' k = Some x' \<and> decl_row_step x x')"
  by (rule decl_effect_row [OF decl_step_effect [OF assms(2) decl_reachable_ids [OF assms(1)]] decl_reachable_inv [OF assms(1)]])

text \<open>
  Claim C20. The store refines the life cycle of \<open>model.go\<close>: one operation moves each revision along
  one or more listed transitions and its version by exactly one, or leaves it alone; what the
  trader declared never changes, CLEARED and SUPERSEDED revisions never change at all, none
  disappears, a new one starts as DRAFT at version 1, and every stored revision got where it is
  by such moves.
\<close>

theorem declarations_refine_lifecycle:
  assumes "decl_reachable d" and "decl_step d d'"
  shows "(case row_of d k of
        None \<Rightarrow> row_of d' k = None \<or> (\<exists>x. row_of d' k = Some x \<and> de_Status x = StatusDraft \<and> de_Version x = 1)
      | Some x \<Rightarrow> decl_move\<^sup>*\<^sup>* (StatusDraft, 1) (de_Status x, de_Version x)
          \<and> (\<exists>x'. row_of d' k = Some x' \<and> declared x' = declared x
              \<and> (x' = x \<or> declaration_ValidTransition\<^sup>+\<^sup>+ (de_Status x) (de_Status x') \<and> de_Version x' = de_Version x + 1)
              \<and> (de_Status x = StatusCleared \<or> de_Status x = StatusSuperseded \<longrightarrow> x' = x)))"
proof (cases "row_of d k")
  case None
  with decl_reachable_row [OF assms, of k] show ?thesis by simp
next
  case (Some x)
  have a: "decl_abs d k = Some (de_Status x, de_Version x)" by (simp add: decl_abs_def Some)
  have "decl_abs empty_ddb k = None" by (simp add: decl_abs_def row_of_def empty_ddb_def)
  from declarations.run_appears [OF decl_reachable_run [OF assms(1)] ddb_inv_empty this a]
  have r: "decl_move\<^sup>*\<^sup>* (StatusDraft, 1) (de_Status x, de_Version x)" .
  from decl_reachable_row [OF assms, of k] Some obtain x' where x': "row_of d' k = Some x'" "decl_row_step x x'" by auto
  have "x' = x" if "de_Status x = StatusCleared \<or> de_Status x = StatusSuperseded"
    using x'(2) that advance_open [of x x'] Amendable_open [of "de_Status x"] by (auto simp: decl_row_step_def)
  moreover have "declared x' = declared x" using x'(2) by (simp add: decl_row_step_def)
  moreover have "x' = x \<or> declaration_ValidTransition\<^sup>+\<^sup>+ (de_Status x) (de_Status x') \<and> de_Version x' = de_Version x + 1"
    using decl_row_step_move [OF x'(2)] by (simp add: decl_move_def)
  ultimately show ?thesis using Some r x'(1) by auto
qed

lemma demo_row_of: "customs_declarations d = [x] \<Longrightarrow> row_of d (de_DeclarationID x) = Some x"
  by (simp add: row_of_def)

lemma demo_record_step: "decl_step demo_dd2 demo_dd3"
  unfolding demo_dd3_def by (rule decl_step.Record, rule prod.collapse [symmetric])

theorem declarations_refine_lifecycle_witness:
  "row_of demo_dd2 ''dec'' = Some demo_submitted \<and> row_of demo_dd3 ''dec'' = Some demo_cleared
   \<and> declaration_ValidTransition\<^sup>+\<^sup>+ StatusSubmitted StatusCleared \<and> declared demo_cleared = declared demo_submitted
   \<and> decl_move\<^sup>*\<^sup>* (StatusDraft, 1) (StatusSubmitted, 2)"
proof -
  have r: "row_of demo_dd2 ''dec'' = Some demo_submitted" "row_of demo_dd3 ''dec'' = Some demo_cleared"
    using demo_row_of [of demo_dd2 demo_submitted] demo_row_of [of demo_dd3 demo_cleared] demo_dd2_state demo_dd3_state
    by (simp_all add: demo_dstate_def demo_cleared_def demo_submitted_simps)
  have "demo_cleared \<noteq> demo_submitted"
  proof
    assume "demo_cleared = demo_submitted"
    then have "de_Status demo_cleared = de_Status demo_submitted" by (rule arg_cong)
    then show False by (simp add: demo_cleared_def demo_submitted_simps)
  qed
  with declarations_refine_lifecycle [OF demo_d_reachable(2) demo_record_step, of "''dec''"] r show ?thesis
    by (auto simp: demo_submitted_simps demo_cleared_def)
qed

text \<open>
  No operation leads out of the YELLOW and RED lanes except an amendment: a laned declaration
  is never cleared or rejected, although the table of transitions and the comments plan for it.
\<close>

lemma lanes_end_in_amendment:
  assumes "decl_reachable d" and "decl_step d d'" and "row_of d k = Some x" and "de_Status x = StatusYellowLane \<or> de_Status x = StatusRedLane"
  shows "\<exists>x'. row_of d' k = Some x' \<and> (x' = x \<or> de_Status x' = StatusSuperseded)"
proof -
  from decl_reachable_row [OF assms(1,2), of k] assms(3) obtain x' where x': "row_of d' k = Some x'" "decl_row_step x x'" by auto
  have "\<not> advance x x'" using assms(4) by (auto simp: advance_def)
  with x' show ?thesis by (auto simp: decl_row_step_def)
qed

text \<open>
  Claim C26. Stored rows are well formed: in every reachable state each declaration satisfies the
  column checks of its table, and its status fixes the shape of the rest. A draft has no lane
  and no duty, a submitted one its duty as \<open>CalculateDuty\<close> computes it of the declared values and
  no lane, one whose scoring failed an error and no lane, a laned one its lane, and a cleared
  one the GREEN lane with a score below 40; RISK_ASSESSED, GREEN_LANE and REJECTED are never stored.
\<close>

theorem declaration_rows_typed:
  assumes "decl_reachable d" and "x \<in> set (customs_declarations d)"
  shows "declarations_check x \<and> de_Status x \<notin> {StatusRiskAssessed, StatusGreenLane, StatusRejected}
    \<and> (de_Status x = StatusDraft \<longrightarrow> de_RiskLane x = None \<and> de_TotalDutyMinor x = None)
    \<and> (de_Status x \<in> {StatusSubmitted, StatusScoringUnavailable, StatusYellowLane, StatusRedLane, StatusCleared} \<longrightarrow>
         (\<exists>order b. CalculateDuty order (duty_input x) = Inr b \<and> de_DutyMinor x = Some (db_DutyMinor b) \<and> de_VatMinor x = Some (db_VatMinor b)
            \<and> de_LevyMinor x = Some (db_LevyMinor b) \<and> de_ExciseMinor x = Some (db_ExciseMinor b) \<and> de_TotalDutyMinor x = Some (db_TotalDutyMinor b)))
    \<and> (de_Status x = StatusSubmitted \<longrightarrow> de_RiskLane x = None \<and> de_SubmittedAt x \<noteq> None)
    \<and> (de_Status x = StatusScoringUnavailable \<longrightarrow> de_RiskLane x = None \<and> de_ScoringError x \<noteq> None)
    \<and> (de_Status x = StatusYellowLane \<longrightarrow> de_RiskLane x = Some LaneYellow) \<and> (de_Status x = StatusRedLane \<longrightarrow> de_RiskLane x = Some LaneRed)
    \<and> (de_Status x = StatusCleared \<longrightarrow> de_RiskLane x = Some LaneGreen \<and> (\<exists>s. de_RiskScore x = Some s \<and> s < 40) \<and> de_ClearedAt x \<noteq> None)"
proof -
  have "declarations_check x" and r: "row_ok x" using decl_reachable_inv [OF assms(1)] assms(2) by (simp_all add: ddb_inv_def rows_ok_def)
  moreover from this have "de_Status x = StatusSubmitted \<longrightarrow> de_SubmittedAt x \<noteq> None" "de_Status x = StatusCleared \<longrightarrow> de_ClearedAt x \<noteq> None"
    by (simp_all add: declarations_check_def)
  ultimately show ?thesis by (cases "de_Status x") (simp_all add: row_ok_def duty_ok_def)
qed

theorem declaration_rows_typed_witness:
  "customs_declarations demo_parked = [demo_unscored] \<and> declarations_check demo_unscored
   \<and> de_Status demo_unscored = StatusScoringUnavailable \<and> de_RiskLane demo_unscored = None"
proof -
  have s: "customs_declarations demo_parked = [demo_unscored]" using demo_parked_state by (simp add: demo_dstate_def)
  have t: "de_Status demo_unscored = StatusScoringUnavailable" by (simp add: demo_unscored_def)
  have "demo_unscored \<in> set (customs_declarations demo_parked)" by (simp add: s)
  from declaration_rows_typed [OF demo_d_reachable(4) this] s t show ?thesis by simp
qed

text \<open>\<open>x\<close> is \<open>amount\<close> times \<open>bps\<close> basis points, rounded to the nearest integer, halves upwards.\<close>

definition rounded_half_up :: "int \<Rightarrow> int \<Rightarrow> int \<Rightarrow> bool" where
  "rounded_half_up amount bps x \<longleftrightarrow> amount * bps - 5000 < 10000 * x \<and> 10000 * x \<le> amount * bps + 5000"

lemma rounded_half_up_unique: "rounded_half_up a r x \<Longrightarrow> rounded_half_up a r y \<Longrightarrow> x = y"
  by (simp add: rounded_half_up_def)

lemma half_up_rounded: "rounded_half_up a r (half_up a r)"
  using half_up_rounds [of a r] by (simp add: rounded_half_up_def)

text \<open>
  Claim C24. Duty is exact up to a CIF value of 230,584,300,921,369 minor units, in spite of the 64-bit
  arithmetic: the computation succeeds, the CIF is the true sum, duty, levy and excise are the
  CIF times their rate and VAT is the rate on CIF plus all three, each rounded to the nearest
  minor unit with halves upwards (which fixes the amount), and the total is their true sum and at
  most seven times the CIF.
\<close>

theorem CalculateDuty_bounds:
  assumes "\<And>xs. set (order xs) = set xs"
    and "0 < du_InvoiceAmountMinor i" "0 \<le> du_FreightAmountMinor i" "0 \<le> du_InsuranceAmountMinor i"
    and "\<forall>b\<in>{du_TariffBPS i, du_VatBPS i, du_LevyBPS i, du_ExciseBPS i}. 0 \<le> b \<and> b \<le> 10000"
    and "cif = du_InvoiceAmountMinor i + du_FreightAmountMinor i + du_InsuranceAmountMinor i" and "cif \<le> 230584300921369"
  shows "\<exists>b. CalculateDuty order i = Inr b \<and> db_CIFMinor b = cif
    \<and> rounded_half_up cif (du_TariffBPS i) (db_DutyMinor b) \<and> rounded_half_up cif (du_LevyBPS i) (db_LevyMinor b)
    \<and> rounded_half_up cif (du_ExciseBPS i) (db_ExciseMinor b)
    \<and> rounded_half_up (cif + db_DutyMinor b + db_LevyMinor b + db_ExciseMinor b) (du_VatBPS i) (db_VatMinor b)
    \<and> db_TotalDutyMinor b = db_DutyMinor b + db_VatMinor b + db_LevyMinor b + db_ExciseMinor b
    \<and> 0 \<le> db_TotalDutyMinor b \<and> db_TotalDutyMinor b \<le> 7 * cif"
proof -
  let ?duty = "half_up cif (du_TariffBPS i)" and ?levy = "half_up cif (du_LevyBPS i)" and ?excise = "half_up cif (du_ExciseBPS i)"
  let ?vat = "half_up (cif + ?duty + ?levy + ?excise) (du_VatBPS i)"
  have pos: "0 \<le> cif" using assms by simp
  have r: "0 \<le> ?duty \<and> ?duty \<le> cif" "0 \<le> ?levy \<and> ?levy \<le> cif" "0 \<le> ?excise \<and> ?excise \<le> cif"
    using assms(5) pos half_up_range by simp_all
  then have "0 \<le> ?vat \<and> ?vat \<le> cif + ?duty + ?levy + ?excise" using assms(5) pos half_up_range by simp
  with r have t: "0 \<le> ?duty + ?vat + ?levy + ?excise" "?duty + ?vat + ?levy + ?excise \<le> 7 * cif" by linarith+
  show ?thesis
  proof (intro exI conjI)
    show "CalculateDuty order i = Inr \<lparr>db_CIFMinor = cif, db_DutyMinor = ?duty, db_VatMinor = ?vat, db_LevyMinor = ?levy,
        db_ExciseMinor = ?excise, db_TotalDutyMinor = ?duty + ?vat + ?levy + ?excise\<rparr>"
      using CalculateDuty_exact [OF assms(1-4) _ _ _ _ _ _ _ _ assms(6,7)] assms(5) by (simp add: Let_def)
  qed (use t in \<open>simp_all add: half_up_rounded\<close>)
qed

theorem CalculateDuty_bounds_witness:
  "\<exists>b. CalculateDuty (\<lambda>xs. xs) (duty_input demo_draft) = Inr b \<and> db_CIFMinor b = 100000 \<and> db_TotalDutyMinor b \<le> 700000"
  using CalculateDuty_bounds [of "\<lambda>xs. xs" "duty_input demo_draft" 100000] unfolding demo_duty_input by auto

text \<open>A revision that is at the same version after a run is the same row.\<close>

lemma decl_run_reachable: "decl_step\<^sup>*\<^sup>* d d' \<Longrightarrow> decl_reachable d \<Longrightarrow> decl_reachable d'"
  by (induction rule: rtranclp_induct) (auto intro: decl_reachable.step)

lemma decl_run_row:
  assumes "decl_step\<^sup>*\<^sup>* d d'" and "decl_reachable d" and "row_of d k = Some x"
  shows "\<exists>x'. row_of d' k = Some x' \<and> (x' = x \<or> de_Version x < de_Version x')"
  using assms(1)
proof (induction rule: rtranclp_induct)
  case base
  then show ?case using assms(3) by blast
next
  case (step e e')
  then obtain y where y: "row_of e k = Some y" "y = x \<or> de_Version x < de_Version y" by blast
  from decl_reachable_row [OF decl_run_reachable [OF step.hyps(1) assms(2)] step.hyps(2), of k] y(1)
  obtain y' where "row_of e' k = Some y'" "decl_row_step y y'" by auto
  with y(2) decl_row_step_move [of y y'] show ?case by (auto simp: decl_move_def)
qed

lemma row_of_stored: "decl_reachable d \<Longrightarrow> x \<in> set (customs_declarations d) \<Longrightarrow> row_of d (de_DeclarationID x) = Some x"
  unfolding row_of_def by (rule find_unique) (rule decl_reachable_ids)

text \<open>So the row the second transaction of \<open>AssessRisk\<close> writes is the one the scorer was asked about.\<close>

lemma assessed_snapshot:
  assumes "decl_reachable d" and "decl_step\<^sup>*\<^sup>* d d'" and "z \<in> set (customs_declarations d)" and "x \<in> set (customs_declarations d')"
    and "de_DeclarationID x = de_DeclarationID z" and "de_Version x = de_Version z"
  shows "x = z"
  using decl_run_row [OF assms(2,1) row_of_stored [OF assms(1,3)]] row_of_stored [OF decl_run_reachable [OF assms(2,1)] assms(4)] assms(5,6)
  by auto

text \<open>
  Claim C23. Risk assessment fails closed. The scorer is any function that answers an error or a verdict
  with a score between 0 and 100; an unreachable scorer and an invalid verdict are errors of it,
  as they are for the gRPC client, which validates every verdict. Whatever other operations commit
  between the two transactions, an error of \<open>AssessRisk\<close> gives no declaration a lane and issues
  no certificate. A success answers the named declaration, one version further, and the scorer
  was asked about exactly what this declaration declares, with the AEO status the registry has
  for its trader; then one of two holds: the scorer failed, and the declaration is parked as
  SCORING_UNAVAILABLE with the error text, without a lane and without a new certificate; or the
  scorer answered a verdict, and the declaration has a lane that is GREEN only if the party is
  not sanctioned, the adjusted score is below 40 and, where the trader claimed AEO status, the
  registry verified it. It is CLEARED exactly when the lane is GREEN.
\<close>

theorem AssessRisk_fails_closed:
  assumes "decl_reachable d" and "decl_step\<^sup>*\<^sup>* d (between d)"
    and "\<forall>q w. score q = Inr w \<longrightarrow> 0 \<le> sv_Score w \<and> sv_Score w \<le> 100"
    and "AssessRisk st pg_uuid c i v (Some score) thr pr e between d = (y, d')"
  shows "case y of
      Inl err \<Rightarrow>
        set (declaration_clearance_certificates d') \<subseteq> set (declaration_clearance_certificates d) \<union> set (declaration_clearance_certificates (between d))
        \<and> (\<forall>x\<in>set (customs_declarations d'). de_RiskLane x \<noteq> None \<longrightarrow> x \<in> set (customs_declarations d) \<union> set (customs_declarations (between d)))
    | Inr x \<Rightarrow> pg_uuid i = Some (de_DeclarationID x) \<and> de_Version x = v + 1 \<and> x \<in> set (customs_declarations d')
        \<and> (case score (score_request x (resolveAEO st (de_TraderID x))) of
            Inl t \<Rightarrow> de_ScoringError x = Some t \<and> de_Status x = StatusScoringUnavailable \<and> de_RiskLane x = None
              \<and> declaration_clearance_certificates d' = declaration_clearance_certificates (between d)
          | Inr w \<Rightarrow> (\<exists>lane s. de_RiskLane x = Some lane \<and> de_RiskScore x = Some s
                  \<and> (lane = LaneGreen \<longrightarrow> \<not> sv_Sanctioned w \<and> s < 40 \<and> (de_IsAEO x \<longrightarrow> resolveAEO st (de_TraderID x)))
                  \<and> (de_Status x = StatusCleared \<longleftrightarrow> lane = LaneGreen)))"
proof (cases y)
  case (Inl err)
  then have "d' = d \<or> d' = between d"
    using assms(4) by (auto simp: AssessRisk_def Let_def split: sum.splits prod.splits dest: snapshot_reads WithTx_error)
  with Inl show ?thesis by auto
next
  case (Inr x)
  note reach = decl_run_reachable [OF assms(2,1)]
  note ids = decl_reachable_ids [OF reach]
  from assms(4) Inr obtain z claims d1 where z: "snapshot_work pg_uuid i v claims d = Inr (z, d1)"
    and w: "record_work st pg_uuid i v (score (score_request z (resolveAEO st (de_TraderID z))))
      (resolveAEO st (de_TraderID z)) thr pr e claims (between d1) = Inr (x, d')" and c: "ctx_claims c = Some claims"
    by (auto simp: AssessRisk_def Let_def split: sum.splits prod.splits dest!: WithTx_InrD)
  note w = w [unfolded snapshot_work_reads [OF z]]
  have z': "z \<in> set (customs_declarations d)" "pg_uuid i = Some (de_DeclarationID z)" "de_Version z = v"
    using z by (auto simp: snapshot_work_def bindE_Inr_iff split: if_splits dest: d_getForUpdate_InrD)
  have same: "x0 = z" if "x0 \<in> set (customs_declarations (between d))" "pg_uuid i = Some (de_DeclarationID x0)" "de_Version x0 = v" for x0
    using assessed_snapshot [OF assms(1,2) z'(1) that(1)] that z' by simp
  let ?q = "score_request z (resolveAEO st (de_TraderID z))"
  show ?thesis
  proof (cases "score ?q")
    case (Inl t)
    from record_parked_InrD [OF w [unfolded Inl] ids] show ?thesis
    proof (cases)
      case (1 x0 os)
      have x0: "x0 = z" by (rule same [OF 1(1,3,4)])
      have "row_ok x0" using decl_reachable_inv [OF reach] 1(1) by (simp add: ddb_inv_def rows_ok_def)
      with 1 have "de_RiskLane x0 = None" by (simp add: row_ok_def)
      moreover have "score_request x a = score_request z a" for a by (simp add: 1(7) x0 score_request_def)
      moreover have "x \<in> set (customs_declarations d')" using 1(1) unfolding 1(8) by (simp add: set_swap_row)
      ultimately show ?thesis using 1 Inl \<open>y = Inr x\<close> x0 by simp
    qed
  next
    case (Inr wv)
    from record_laned_InrD [OF w [unfolded Inr] ids] show ?thesis
    proof (cases)
      case (1 x0 a os cs)
      have x0: "x0 = z" by (rule same [OF 1(1,3,4)])
      let ?g = "ApplyAEOClaimGuard a (de_IsAEO x0) (resolveAEO st (de_TraderID z))"
      have s: "sv_Sanctioned wv \<Longrightarrow> ra_Lane a = LaneRed"
        using 1(7) by (auto simp: AssignRiskLane_def lane_input_def split: if_splits)
      have l: "ra_Lane ?g = LaneGreen \<Longrightarrow> ra_Lane a = LaneGreen \<and> (de_IsAEO x0 \<longrightarrow> resolveAEO st (de_TraderID z))"
        by (auto simp: ApplyAEOClaimGuard_lane split: if_splits)
      have "ra_Lane a = LaneGreen \<Longrightarrow> ra_AdjustedScore a < 40"
        using AssignRiskLane_Inr [OF 1(7)] by (auto simp: lane_for_def split: if_splits)
      moreover have "LaneStatus (ra_Lane ?g) \<noteq> StatusCleared" by (cases "ra_Lane ?g") auto
      moreover have "score_request x b = score_request z b" for b by (simp add: 1(8) x0 score_request_def laned_def)
      moreover have "x \<in> set (customs_declarations d')" using 1(1) unfolding 1(11) by (simp add: set_swap_row)
      moreover have "de_TraderID x = de_TraderID z" "de_DeclarationID x = de_DeclarationID z" "de_IsAEO x = de_IsAEO x0" "de_Version x = v + 1"
        using 1(4) by (simp_all add: 1(8) x0 laned_def)
      ultimately show ?thesis
        using 1(8) s l Inr \<open>y = Inr x\<close> z'(2) by (auto simp: laned_def)
    qed
  qed
qed

theorem AssessRisk_fails_closed_witness:
  "AssessRisk demo_dstore Some demo_ctx ''dec'' 2 (Some (\<lambda>_. Inl ''down'')) 0 demo_owner (demo_env 30 ''e2'') (\<lambda>d. d) demo_dd2
     = (Inr demo_unscored, demo_parked)
   \<and> de_ScoringError demo_unscored = Some ''down'' \<and> de_RiskLane demo_unscored = None"
proof -
  have "WithTx demo_ctx (snapshot_work Some ''dec'' 2) demo_dd2 = (Inr demo_submitted, demo_dd2)"
    by (simp add: WithTx_demo_ctx snapshot_work_def demo_record_get demo_submitted_simps)
  moreover have "\<not> resolveAEO demo_dstore t" for t by (simp add: resolveAEO_def demo_dstore_def declarations_NewStore_def)
  ultimately have a: "AssessRisk demo_dstore Some demo_ctx ''dec'' 2 (Some (\<lambda>_. Inl ''down'')) 0 demo_owner (demo_env 30 ''e2'') (\<lambda>d. d) demo_dd2
     = (Inr demo_unscored, demo_parked)"
    using demo_park by (simp add: AssessRisk_def demo_owner_required Let_def)
  from AssessRisk_fails_closed [OF demo_d_reachable(2) _ _ a] a show ?thesis by simp
qed

definition lane_rank :: "RiskLane \<Rightarrow> nat" where
  "lane_rank l = (case l of LaneGreen \<Rightarrow> 0 | LaneYellow \<Rightarrow> 1 | LaneRed \<Rightarrow> 2)"

lemma lane_for_mono: "s \<le> t \<Longrightarrow> lane_rank (lane_for s) \<le> lane_rank (lane_for t)"
  by (simp add: lane_for_def lane_rank_def)

text \<open>
  The lane rules are total and monotone on scores from 0 to 100: a sanctioned party is
  RED, otherwise the lane is decided by the adjusted score at 40 and 70, which stays within 0 to 100; a
  higher score never gives a milder lane, and after the AEO guard a claim that was not verified
  never gives the GREEN lane nor a milder one than without it.
\<close>

theorem AssignRiskLane_sound:
  assumes "0 \<le> ri_Score i" and "ri_Score i \<le> 100"
  shows "\<exists>a. AssignRiskLane i = Inr a \<and> (ri_IsSanctioned i \<longrightarrow> ra_Lane a = LaneRed) \<and> 0 \<le> ra_AdjustedScore a \<and> ra_AdjustedScore a \<le> 100
    \<and> (ra_Lane a = LaneGreen \<longleftrightarrow> ra_AdjustedScore a < 40) \<and> (ra_Lane a = LaneRed \<longleftrightarrow> 70 \<le> ra_AdjustedScore a)
    \<and> (\<forall>s b. ri_Score i \<le> s \<and> s \<le> 100 \<and> AssignRiskLane (i\<lparr>ri_Score := s\<rparr>) = Inr b \<longrightarrow> lane_rank (ra_Lane a) \<le> lane_rank (ra_Lane b))
    \<and> ra_Lane (ApplyAEOClaimGuard a True False) \<noteq> LaneGreen
    \<and> (\<forall>claimed verified. lane_rank (ra_Lane a) \<le> lane_rank (ra_Lane (ApplyAEOClaimGuard a claimed verified)))"
proof -
  from assms obtain a where a: "AssignRiskLane i = Inr a" by (cases "AssignRiskLane i") (auto simp: AssignRiskLane_def split: if_splits)
  note r = AssignRiskLane_Inr [OF a]
  have "lane_rank (ra_Lane a) \<le> lane_rank (ra_Lane b)"
    if "ri_Score i \<le> s" "s \<le> 100" "AssignRiskLane (i\<lparr>ri_Score := s\<rparr>) = Inr b" for s b
    using that a assms adjusted_score_mono [OF that(1)] by (auto simp: AssignRiskLane_def lane_for_mono split: if_splits)
  moreover have "ri_IsSanctioned i \<longrightarrow> ra_Lane a = LaneRed" using a assms by (auto simp: AssignRiskLane_def split: if_splits)
  moreover have "ra_Lane a = LaneGreen \<longleftrightarrow> ra_AdjustedScore a < 40" "ra_Lane a = LaneRed \<longleftrightarrow> 70 \<le> ra_AdjustedScore a"
    using r by (auto simp: lane_for_def split: if_splits)
  moreover have "ra_Lane (ApplyAEOClaimGuard a True False) \<noteq> LaneGreen"
    "lane_rank (ra_Lane a) \<le> lane_rank (ra_Lane (ApplyAEOClaimGuard a claimed verified))" for claimed verified
    by (auto simp: ApplyAEOClaimGuard_lane lane_rank_def)
  ultimately show ?thesis using a r by blast
qed

theorem AssignRiskLane_sound_witness:
  "AssignRiskLane (lane_input demo_submitted (demo_score 30) False 0) = Inr (lane_of (30, []))
   \<and> ra_Lane (lane_of (30, [])) = LaneGreen \<and> ra_Lane (ApplyAEOClaimGuard (lane_of (30, [])) True False) \<noteq> LaneGreen"
  using AssignRiskLane_sound [of "lane_input demo_submitted (demo_score 30) False 0"] demo_lane
  by (simp add: lane_input_def demo_score_def lane_for_def)

text \<open>
  Claim C21. A customs match rests on a cleared declaration: when a booking is cross-checked against
  the platform's own declarations and the evaluation is a MATCH, the caller's tenant has a
  declaration with that reference which is CLEARED and certified, and whose consignee and
  operator are those of the booking.
\<close>

theorem customs_match_needs_clearance:
  assumes "decl_reachable d" and "ctx_claims c = Some claims" and "LocalValidator_Declaration c ref d = Inr declaration"
    and "e_Decision (Evaluate declaration expectation) = DecisionMatch"
  shows "\<exists>x\<in>set (customs_declarations d). de_TenantID x = TenantID claims \<and> de_DeclarationRef x = ref \<and> de_Status x = StatusCleared
    \<and> de_RiskLane x = Some LaneGreen \<and> de_ConsigneeID x = be_ConsigneeID expectation \<and> de_OperatorID x = be_OperatorID expectation
    \<and> (\<exists>cert\<in>set (declaration_clearance_certificates d). cc_DeclarationID cert = de_DeclarationID x \<and> cc_TenantID cert = TenantID claims)"
proof -
  from assms(3) obtain x where h: "fst (HeadByRef c ref d) = Inr x"
    and dec: "declaration = \<lparr>cd_DeclarationRef = de_DeclarationRef x, cd_Status = (if de_Status x = StatusCleared then ''VALID'' else status_text (de_Status x)),
        cd_WeightKg = de_GrossWeightKg x, cd_ConsigneeID = de_ConsigneeID x, cd_OperatorID = de_OperatorID x\<rparr>"
    by (auto simp: LocalValidator_Declaration_def split: if_splits sum.splits)
  obtain d1 where "HeadByRef c ref d = (Inr x, d1)" using h by (cases "HeadByRef c ref d") auto
  with assms(2) have "HeadByRef_work ref claims d = Inr (x, d1)" by (auto simp: HeadByRef_def dest!: WithTx_InrD)
  then obtain xs where "rev (sort_key de_Revision (live_revisions (TenantID claims) d ref)) = x # xs"
    by (auto simp: HeadByRef_work_def split: list.splits)
  then have "x \<in> set (rev (sort_key de_Revision (live_revisions (TenantID claims) d ref)))" by (metis list.set_intros(1))
  then have x: "x \<in> set (customs_declarations d)" "de_TenantID x = TenantID claims" "de_DeclarationRef x = ref" by (auto simp: live_revisions_def)
  have v: "status_text s \<noteq> ''VALID'' \<and> status_text s \<noteq> ''RELEASED''" for s by (cases s) auto
  have m: "cd_Status declaration = ''VALID'' \<or> cd_Status declaration = ''RELEASED''" "cd_ConsigneeID declaration = be_ConsigneeID expectation"
    "cd_OperatorID declaration = be_OperatorID expectation"
    using assms(4) by (auto simp: Evaluate_def Let_def decision_defs split: if_splits)
  then have cl: "de_Status x = StatusCleared" using v [of "de_Status x"] by (auto simp: dec split: if_splits)
  have inv: "row_ok x" "certs_ok (set (customs_declarations d)) (declaration_clearance_certificates d)"
    using decl_reachable_inv [OF assms(1)] x(1) by (simp_all add: ddb_inv_def rows_ok_def)
  then obtain cert where "cert \<in> set (declaration_clearance_certificates d)" "certifies cert x" using cl x(1) by (auto simp: certs_ok_def)
  moreover have "de_RiskLane x = Some LaneGreen" using inv(1) cl by (simp add: row_ok_def)
  ultimately show ?thesis using x cl m(2,3) by (auto simp: dec certifies_def)
qed

definition demo_booking :: BookingExpectation where
  "demo_booking = \<lparr>be_DeclarationRef = ''NG/2024-77'', be_DeclaredWeightKg = 1500, be_ConsigneeID = ''consignee'', be_OperatorID = ''operator'',
     be_WeightToleranceBPS = 500\<rparr>"

theorem customs_match_needs_clearance_witness:
  "\<exists>declaration. LocalValidator_Declaration demo_ctx ''NG/2024-77'' demo_dd3 = Inr declaration
     \<and> e_Decision (Evaluate declaration demo_booking) = DecisionMatch
     \<and> (\<exists>x\<in>set (customs_declarations demo_dd3). de_DeclarationRef x = ''NG/2024-77'' \<and> de_Status x = StatusCleared)"
proof -
  let ?decl = "\<lparr>cd_DeclarationRef = ''NG/2024-77'', cd_Status = ''VALID'', cd_WeightKg = 1500, cd_ConsigneeID = ''consignee'', cd_OperatorID = ''operator''\<rparr>"
  have f: "de_TenantID demo_cleared = ''tenant-demo''" "de_DeclarationRef demo_cleared = ''NG/2024-77''" "de_Status demo_cleared = StatusCleared"
    "de_GrossWeightKg demo_cleared = 1500" "de_ConsigneeID demo_cleared = ''consignee''" "de_OperatorID demo_cleared = ''operator''"
    by (simp_all add: demo_decl_defs)
  have "live_revisions ''tenant-demo'' demo_dd3 ''NG/2024-77'' = [demo_cleared]"
    using demo_dd3_state f by (simp add: live_revisions_def demo_dstate_def)
  then have "HeadByRef demo_ctx ''NG/2024-77'' demo_dd3 = (Inr demo_cleared, demo_dd3)"
    by (simp add: HeadByRef_def WithTx_demo_ctx HeadByRef_work_def demo_tid)
  then have l: "LocalValidator_Declaration demo_ctx ''NG/2024-77'' demo_dd3 = Inr ?decl"
    by (simp add: LocalValidator_Declaration_def f go_simps)
  have e: "e_Decision (Evaluate ?decl demo_booking) = DecisionMatch"
    by (simp add: Evaluate_def demo_booking_def weightWithinTolerance_def wrap64_def Let_def)
  have "ctx_claims demo_ctx = Some demo_claims" by (simp add: demo_ctx_def)
  from customs_match_needs_clearance [OF demo_d_reachable(3) this l e] l e show ?thesis by blast
qed

text \<open>
  Submission is guarded: \<open>Submit\<close> succeeds only for the owner of a DRAFT at the expected version all of whose
  permits are approved and unexpired, and then stores the duty, counts the version and leaves
  every other declaration, the permits and the certificates alone; every error leaves the tables unchanged.
\<close>

theorem Submit_guarded:
  assumes "decl_reachable d" and "ctx_claims c = Some claims" and "\<And>ps. set (pick ps) = set ps"
    and "Submit st order pick pg_uuid c i v pr e d = (y, d')"
  shows "case y of
      Inl err \<Rightarrow> d' = d
    | Inr x' \<Rightarrow> \<exists>x b. x \<in> set (customs_declarations d) \<and> pg_uuid i = Some (de_DeclarationID x) \<and> de_TenantID x = TenantID claims
        \<and> de_TraderID x = pr_ID pr \<and> de_Version x = v \<and> de_Status x = StatusDraft
        \<and> (\<forall>p\<in>set (declaration_permits d). pm_TenantID p = TenantID claims \<and> pm_DeclarationID p = de_DeclarationID x
             \<longrightarrow> pm_Status p = ''APPROVED'' \<and> (\<forall>t. pm_ExpiresAt p = Some t \<longrightarrow> clk e 0 < t))
        \<and> CalculateDuty order (duty_input x) = Inr b \<and> de_TotalDutyMinor x' = Some (db_TotalDutyMinor b)
        \<and> de_Status x' = StatusSubmitted \<and> de_Version x' = v + 1 \<and> declared x' = declared x
        \<and> customs_declarations d' = swap_row x x' (customs_declarations d)
        \<and> declaration_permits d' = declaration_permits d
        \<and> declaration_clearance_certificates d' = declaration_clearance_certificates d"
proof (cases y)
  case (Inl err)
  with assms(4) show ?thesis by (auto simp: Submit_def split: sum.splits dest: WithTx_error)
next
  case (Inr x')
  have loop: "permits_loop now ps = None \<longleftrightarrow> (\<forall>p\<in>set ps. pm_Status p = ''APPROVED'' \<and> (\<forall>t. pm_ExpiresAt p = Some t \<longrightarrow> now < t))" for now ps
    by (induction ps) (auto split: option.splits)
  from assms(2,4) Inr have "Submit_work st order pick pg_uuid i v pr e claims d = Inr (x', d')"
    by (auto simp: Submit_def split: sum.splits dest!: WithTx_InrD)
  then show ?thesis
  proof (rule Submit_work_InrD [OF _ decl_reachable_ids [OF assms(1)]])
    fix x b os
    assume f: "x \<in> set (customs_declarations d)" "de_TenantID x = TenantID claims" "pg_uuid i = Some (de_DeclarationID x)" "de_TraderID x = pr_ID pr"
        "de_Version x = v" "de_Status x = StatusDraft" "permitsBlockSubmit pick (TenantID claims) d (de_DeclarationID x) (clk e 0) = Inr ()"
        "CalculateDuty order (duty_input x) = Inr b"
      and x': "x' = x\<lparr>de_Status := StatusSubmitted, de_DutyMinor := Some (db_DutyMinor b), de_VatMinor := Some (db_VatMinor b),
           de_LevyMinor := Some (db_LevyMinor b), de_ExciseMinor := Some (db_ExciseMinor b),
           de_TotalDutyMinor := Some (db_TotalDutyMinor b), de_SubmittedAt := Some (clk e 0), de_UpdatedAt := clk e 0, de_Version := v + 1\<rparr>"
      and d': "d' = d\<lparr>customs_declarations := swap_row x x' (customs_declarations d), declarations_outbox := os\<rparr>"
    have "\<forall>p\<in>set (declaration_permits d). pm_TenantID p = TenantID claims \<and> pm_DeclarationID p = de_DeclarationID x
        \<longrightarrow> pm_Status p = ''APPROVED'' \<and> (\<forall>t. pm_ExpiresAt p = Some t \<longrightarrow> clk e 0 < t)"
      using f(7) by (auto simp: permitsBlockSubmit_def loop assms(3))
    with f Inr x' d' show ?thesis by (auto simp: declared_def)
  qed
qed

theorem Submit_guarded_witness:
  "Submit demo_dstore (\<lambda>xs. xs) (\<lambda>ps. ps) Some demo_ctx ''dec'' 1 demo_owner (demo_env 20 ''e1'') demo_dd1 = (Inr demo_submitted, demo_dd2)
   \<and> de_Status demo_submitted = StatusSubmitted \<and> declaration_clearance_certificates demo_dd2 = declaration_clearance_certificates demo_dd1"
proof -
  have s: "Submit demo_dstore (\<lambda>xs. xs) (\<lambda>ps. ps) Some demo_ctx ''dec'' 1 demo_owner (demo_env 20 ''e1'') demo_dd1 = (Inr demo_submitted, demo_dd2)"
    using demo_submit by (auto simp: demo_dd2_def Submit_def demo_owner_required WithTx_demo_ctx)
  have "ctx_claims demo_ctx = Some demo_claims" by (simp add: demo_ctx_def)
  from Submit_guarded [OF demo_d_reachable(1) this _ s] s show ?thesis by auto
qed

end
