(* ===== verification/Scorer.thy ===== *)
theory Scorer
  imports Declarations_Store
begin

text \<open>
  \<^verbatim>\<open>src/internal/declarations/scorer_grpc.go\<close> and \<^verbatim>\<open>token_source.go\<close>: the client of the external
  risk scorer with its bounded retries, its backoff and the validation of verdicts, and the
  cached access token. The RPC, the token endpoint, the sleep and the circuit breaker
  (\<open>gobreaker\<close>) are parameters. Durations are \<open>int64\<close> nanoseconds and so are the instants here.
\<close>

section \<open>Configuration\<close>

record GRPCScorerConfig =
  gc_Address :: string
  gc_Plaintext :: bool
  gc_CACertFile :: string
  gc_Timeout :: int
  gc_MaxRetries :: int
  gc_BackoffBase :: int
  gc_BackoffMax :: int
  gc_BreakerFailureThreshold :: int
  gc_BreakerTimeout :: int
  gc_has_TokenSource :: bool

record GRPCScorer =
  gs_timeout :: int
  gs_maxRetries :: int
  gs_backoffBase :: int
  gs_backoffMax :: int
  gs_breakerFailures :: int
  gs_breakerTimeout :: int

definition scorerDefaultMaxRetries :: int where "scorerDefaultMaxRetries = 3"
definition scorerDefaultBackoffBase :: int where "scorerDefaultBackoffBase = 100000000"
definition scorerDefaultBackoffMax :: int where "scorerDefaultBackoffMax = 2000000000"
definition scorerDefaultBreakerFailures :: int where "scorerDefaultBreakerFailures = 5"
definition scorerDefaultBreakerTimeout :: int where "scorerDefaultBreakerTimeout = 30000000000"
definition scorerMaxRetryBudget :: int where "scorerMaxRetryBudget = 10"

text \<open>\<open>strings.Cut\<close> at the first colon.\<close>

definition cut_colon :: "string \<Rightarrow> (string \<times> string) option" where
  "cut_colon s = (if CHR '':'' \<in> set s then Some (takeWhile (\<lambda>c. c \<noteq> CHR '':'') s, tl (dropWhile (\<lambda>c. c \<noteq> CHR '':'') s)) else None)"

text \<open>\<open>read_ca\<close> is the pinned certificate file (the answer of \<open>AppendCertsFromPEM\<close>), \<open>dial\<close> is \<open>grpc.NewClient\<close>.\<close>

definition NewGRPCScorer :: "bool result \<Rightarrow> unit result \<Rightarrow> GRPCScorerConfig \<Rightarrow> GRPCScorer result" where
  "NewGRPCScorer read_ca dial config =
     (if (case cut_colon (gc_Address config) of None \<Rightarrow> True | Some (host, port) \<Rightarrow> TrimSpace host = [] \<or> TrimSpace port = [])
         \<or> sublist ''://'' (gc_Address config)
      then Inl (ErrText ''DECLARATIONS_SCORER_GRPC_ADDR must be a host:port address'')
      else if gc_Timeout config \<le> 0 then Inl (ErrText ''declarations scorer timeout must be positive'')
      else if \<not> gc_has_TokenSource config then Inl (ErrText ''declarations scorer token source is required'')
      else
        let maxRetries = (if gc_MaxRetries config = -1 then scorerDefaultMaxRetries else gc_MaxRetries config) in
        if maxRetries < 0 \<or> maxRetries > scorerMaxRetryBudget
        then Inl (ErrText ''declarations scorer max retries must be -1 (default) or within [0,10]'')
        else
          let backoffBase = (if gc_BackoffBase config \<le> 0 then scorerDefaultBackoffBase else gc_BackoffBase config);
              backoffMax = (if gc_BackoffMax config \<le> 0 then scorerDefaultBackoffMax else gc_BackoffMax config) in
          if backoffMax < backoffBase then Inl (ErrText ''declarations scorer backoff max must not be below the base'')
          else
            let breakerFailures = (if gc_BreakerFailureThreshold config = 0 then scorerDefaultBreakerFailures else gc_BreakerFailureThreshold config);
                breakerTimeout = (if gc_BreakerTimeout config \<le> 0 then scorerDefaultBreakerTimeout else gc_BreakerTimeout config) in
            bindE (if gc_Plaintext config \<or> gc_CACertFile config = [] then Inr ()
                   else case read_ca of
                          Inl err \<Rightarrow> Inl (Wrapf ''read scorer CA certificate'' err)
                        | Inr parsed \<Rightarrow> ensure parsed (ErrText ''scorer CA certificate file contains no PEM certificates'')) (\<lambda>_.
            bindE (wrap_err ''dial declaration scorer'' dial) (\<lambda>_.
            Inr \<lparr>gs_timeout = gc_Timeout config, gs_maxRetries = maxRetries, gs_backoffBase = backoffBase, gs_backoffMax = backoffMax,
                 gs_breakerFailures = breakerFailures, gs_breakerTimeout = breakerTimeout\<rparr>)))"

section \<open>Backoff\<close>

fun backoff_loop :: "int \<Rightarrow> nat \<Rightarrow> int \<Rightarrow> int" where
  "backoff_loop mx 0 delay = delay"
| "backoff_loop mx (Suc n) delay = (let delay = wrap64 (delay * 2) in if delay \<ge> mx then mx else backoff_loop mx n delay)"

text \<open>\<open>r\<close> is \<open>rand.Int64N(int64(delay) / 2)\<close>.\<close>

definition backoff :: "GRPCScorer \<Rightarrow> (int \<Rightarrow> int) \<Rightarrow> nat \<Rightarrow> int" where
  "backoff sc r attempt =
     (let delay = backoff_loop (gs_backoffMax sc) (attempt - 1) (gs_backoffBase sc);
          delay = (if delay > gs_backoffMax sc then gs_backoffMax sc else delay) in
      if delay < 8 then delay
      else wrap64 (delay + wrap64 (r (go_div delay 2) - go_div delay 4)))"

section \<open>Verdicts\<close>

record ScoreDeclarationResponse =
  rs_Score :: int
  rs_ModelVersion :: string
  rs_Sanctioned :: bool

definition validateScorerVerdict :: "ScoreDeclarationResponse option \<Rightarrow> ScoreResponse result" where
  "validateScorerVerdict response =
     (case response of
        None \<Rightarrow> Inl (ErrText ''risk scorer returned no verdict'')
      | Some v \<Rightarrow>
          if rs_Score v < 0 \<or> rs_Score v > 100 then Inl (ErrText (''risk scorer returned an out-of-range score '' @ fmt_d (rs_Score v)))
          else if TrimSpace (rs_ModelVersion v) = [] then Inl (ErrText ''risk scorer response is missing the model version'')
          else Inr \<lparr>sv_Score = rs_Score v, sv_ModelVersion = rs_ModelVersion v, sv_Sanctioned = rs_Sanctioned v\<rparr>)"

section \<open>The retry loop\<close>

datatype code = Unavailable | DeadlineExceeded | OtherCode string

record rpc_error =
  re_code :: code
  re_err :: go_error

definition retriableScorerError :: "rpc_error \<Rightarrow> bool" where
  "retriableScorerError err = (case re_code err of Unavailable \<Rightarrow> True | DeadlineExceeded \<Rightarrow> True | OtherCode _ \<Rightarrow> False)"

text \<open>
  What the loop meets: \<open>io_rpc n\<close> is the answer of the \<open>n\<close>-th attempt, \<open>io_sleep n\<close> how the pause
  before it ends, and \<open>io_before\<close> and \<open>io_after\<close> the circuit breaker: it refuses a call or admits
  it, and is told whether the admitted call failed.
\<close>

record 'b scorer_io =
  io_rpc :: "nat \<Rightarrow> rpc_error + ScoreDeclarationResponse option"
  io_sleep :: "nat \<Rightarrow> go_error option"
  io_before :: "'b \<Rightarrow> go_error option \<times> 'b"
  io_after :: "bool \<Rightarrow> 'b \<Rightarrow> 'b"

definition call_failed :: "rpc_error + ScoreDeclarationResponse option \<Rightarrow> bool" where
  "call_failed answer = (case answer of Inl err \<Rightarrow> retriableScorerError err | Inr _ \<Rightarrow> False)"

text \<open>The result, the breaker, and the attempts that reached the scorer.\<close>

function score_loop :: "int \<Rightarrow> 'b scorer_io \<Rightarrow> nat \<Rightarrow> go_error \<Rightarrow> 'b \<Rightarrow> ScoreResponse result \<times> 'b \<times> nat list" where
  "score_loop maxRetries io attempt lastErr b =
     (if int attempt > maxRetries
      then (Inl (Wrapf (''risk scorer unreachable after '' @ fmt_d (maxRetries + 1) @ '' attempts'') lastErr), b, [])
      else case (if attempt > 0 then io_sleep io attempt else None) of
        Some err \<Rightarrow> (Inl (Wrapf ''risk scoring interrupted'' err), b, [])
      | None \<Rightarrow>
          (case io_before io b of
             (Some refused, b1) \<Rightarrow> (Inl (Wrapf ''risk scorer circuit breaker is open'' refused), b1, [])
           | (None, b1) \<Rightarrow>
               let answer = io_rpc io attempt; b2 = io_after io (call_failed answer) b1 in
               (case answer of
                  Inl err \<Rightarrow>
                    if retriableScorerError err
                    then (case score_loop maxRetries io (attempt + 1) (Wrapf ''risk scorer unreachable'' (re_err err)) b2 of
                            (r, b3, calls) \<Rightarrow> (r, b3, attempt # calls))
                    else (Inl (Wrapf ''risk scorer rejected the request'' (re_err err)), b2, [attempt])
                | Inr response \<Rightarrow> (validateScorerVerdict response, b2, [attempt]))))"
  by pat_completeness auto
termination
  by (relation "measure (\<lambda>(maxRetries, io, attempt, lastErr, b). nat (maxRetries + 1 - int attempt))") auto

declare score_loop.simps [simp del]

definition Score :: "GRPCScorer \<Rightarrow> string result \<Rightarrow> 'b scorer_io \<Rightarrow> ScoreRequest \<Rightarrow> 'b \<Rightarrow> ScoreResponse result \<times> 'b \<times> nat list" where
  "Score sc token io request b =
     (if TrimSpace (sq_DeclarationRef request) = [] then (Inl (ErrText ''declaration reference is required for scoring''), b, [])
      else case token of
        Inl err \<Rightarrow> (Inl (Wrapf ''risk scorer authentication unavailable'' err), b, [])
      | Inr _ \<Rightarrow> score_loop (gs_maxRetries sc) io 0 (ErrText []) b)"

section \<open>Access tokens\<close>

record KeycloakTokenSource =
  kt_earlyRefresh :: int
  kt_token :: string
  kt_refreshAt :: int

record tokenEndpointResponse =
  te_AccessToken :: string
  te_TokenType :: string
  te_ExpiresIn :: int

text \<open>What the endpoint answers: the length of the body, the status, and the body decoded.\<close>

record token_reply =
  tr_body :: "int result"
  tr_StatusCode :: int
  tr_decoded :: "tokenEndpointResponse result"

definition to_lower :: "char \<Rightarrow> char" where
  "to_lower c = (if is_upper c then char_of (byte c + 32) else c)"

definition maxTokenEndpointResponse :: int where "maxTokenEndpointResponse = 1048576"
definition defaultEarlyRefresh :: int where "defaultEarlyRefresh = 30000000000"

text \<open>\<open>now\<close> and \<open>now1\<close> are the clock before and after the fetch; \<open>reply\<close> is asked only on a miss.\<close>

definition Token :: "int \<Rightarrow> token_reply result \<Rightarrow> int \<Rightarrow> KeycloakTokenSource \<Rightarrow> string result \<times> KeycloakTokenSource" where
  "Token now reply now1 source =
     (if kt_token source \<noteq> [] \<and> now < kt_refreshAt source then (Inr (kt_token source), source)
      else case reply of
        Inl err \<Rightarrow> (Inl (Wrapf ''request access token'' err), source)
      | Inr response \<Rightarrow>
          (case tr_body response of
             Inl err \<Rightarrow> (Inl (Wrapf ''read token response'' err), source)
           | Inr size1 \<Rightarrow>
               if size1 > maxTokenEndpointResponse then (Inl (ErrText ''token endpoint response exceeds the size bound''), source)
               else if tr_StatusCode response \<noteq> 200
               then (Inl (ErrText (''token endpoint answered status '' @ fmt_d (tr_StatusCode response))), source)
               else (case tr_decoded response of
                  Inl err \<Rightarrow> (Inl (Wrapf ''decode token response'' err), source)
                | Inr granted \<Rightarrow>
                    if te_AccessToken granted = [] \<or> map to_lower (te_TokenType granted) \<noteq> ''bearer''
                    then (Inl (ErrText ''token endpoint returned no bearer access token''), source)
                    else if te_ExpiresIn granted \<le> 0 then (Inl (ErrText ''token endpoint returned a non-positive token lifetime''), source)
                    else
                      let earlyRefresh = (if kt_earlyRefresh source = 0 then defaultEarlyRefresh else kt_earlyRefresh source);
                          lifetime = wrap64 (te_ExpiresIn granted * 1000000000) in
                      (Inr (te_AccessToken granted),
                       if lifetime > earlyRefresh
                       then source\<lparr>kt_token := te_AccessToken granted, kt_refreshAt := now1 + (lifetime - earlyRefresh)\<rparr>
                       else source\<lparr>kt_token := [], kt_refreshAt := 0\<rparr>))))"

section \<open>Correctness\<close>

lemma validateScorerVerdict_Inr:
  "validateScorerVerdict response = Inr v \<longleftrightarrow> (\<exists>w. response = Some w \<and> 0 \<le> rs_Score w \<and> rs_Score w \<le> 100 \<and> TrimSpace (rs_ModelVersion w) \<noteq> []
     \<and> v = \<lparr>sv_Score = rs_Score w, sv_ModelVersion = rs_ModelVersion w, sv_Sanctioned = rs_Sanctioned w\<rparr>)"
  by (auto simp: validateScorerVerdict_def split: option.splits)

text \<open>What a run of the loop from some attempt on looks like.\<close>

definition run_ok :: "int \<Rightarrow> 'b scorer_io \<Rightarrow> nat \<Rightarrow> ScoreResponse result \<times> 'b \<times> nat list \<Rightarrow> bool" where
  "run_ok maxRetries io attempt out =
     (case out of (r, b, calls) \<Rightarrow>
        calls = [attempt..<attempt + length calls] \<and> int (attempt + length calls) \<le> max (maxRetries + 1) (int attempt)
        \<and> (\<forall>k. attempt \<le> k \<and> k + 1 < attempt + length calls \<longrightarrow> call_failed (io_rpc io k))
        \<and> (\<forall>v. r = Inr v \<longrightarrow> calls \<noteq> [] \<and> (\<exists>response. io_rpc io (last calls) = Inr response \<and> validateScorerVerdict response = Inr v)))"

lemma run_ok_none: "run_ok m io attempt (Inl err, b, [])"
  by (auto simp: run_ok_def)

lemma run_ok_one:
  "int attempt \<le> m \<Longrightarrow> (\<And>v. r = Inr v \<Longrightarrow> \<exists>response. io_rpc io attempt = Inr response \<and> validateScorerVerdict response = Inr v)
   \<Longrightarrow> run_ok m io attempt (r, b, [attempt])"
  by (auto simp: run_ok_def)

lemma run_ok_more:
  assumes "int attempt \<le> m" and "call_failed (io_rpc io attempt)" and "run_ok m io (attempt + 1) (r, b, calls)"
  shows "run_ok m io attempt (r, b, attempt # calls)"
proof -
  from assms(3) have c: "calls = [attempt + 1..<attempt + 1 + length calls]" and n: "int (attempt + 1 + length calls) \<le> max (m + 1) (int attempt + 1)"
    and f: "\<And>k. attempt + 1 \<le> k \<Longrightarrow> k + 1 < attempt + 1 + length calls \<Longrightarrow> call_failed (io_rpc io k)"
    and v: "\<And>v. r = Inr v \<Longrightarrow> calls \<noteq> [] \<and> (\<exists>response. io_rpc io (last calls) = Inr response \<and> validateScorerVerdict response = Inr v)"
    by (auto simp: run_ok_def)
  have "[attempt..<attempt + 1 + length calls] = attempt # [attempt + 1..<attempt + 1 + length calls]" by (simp add: upt_conv_Cons del: upt_Suc)
  with c have a1: "attempt # calls = [attempt..<attempt + length (attempt # calls)]" by (simp del: upt_Suc)
  have a2: "int (attempt + length (attempt # calls)) \<le> max (m + 1) (int attempt)" using n assms(1) by auto
  have a3: "call_failed (io_rpc io k)" if "attempt \<le> k" "k + 1 < attempt + length (attempt # calls)" for k
    using that assms(2) f [of k] by (cases "k = attempt") auto
  have a4: "attempt # calls \<noteq> [] \<and> (\<exists>response. io_rpc io (last (attempt # calls)) = Inr response \<and> validateScorerVerdict response = Inr v)"
    if "r = Inr v" for v using v [OF that] by auto
  from a1 a2 a3 a4 show ?thesis unfolding run_ok_def prod.case by blast
qed

lemma score_loop_run: "run_ok m io attempt (score_loop m io attempt lastErr b)"
proof (induction "nat (m + 1 - int attempt)" arbitrary: attempt lastErr b rule: less_induct)
  case less
  show ?case
  proof (cases "int attempt > m \<or> (if attempt > 0 then io_sleep io attempt else None) \<noteq> None \<or> fst (io_before io b) \<noteq> None")
    case True
    then show ?thesis by (subst score_loop.simps) (auto simp: run_ok_none split: option.splits prod.splits)
  next
    case False
    then obtain b1 where b1: "io_before io b = (None, b1)" by (cases "io_before io b") auto
    let ?b = "io_after io (call_failed (io_rpc io attempt)) b1"
    show ?thesis
    proof (cases "io_rpc io attempt")
      case (Inr response)
      with False b1 show ?thesis by (subst score_loop.simps) (auto simp: Let_def intro!: run_ok_one)
    next
      case (Inl err)
      show ?thesis
      proof (cases "retriableScorerError err")
        case True
        obtain r b3 calls where n: "score_loop m io (attempt + 1) (Wrapf ''risk scorer unreachable'' (re_err err)) ?b = (r, b3, calls)"
          by (cases "score_loop m io (attempt + 1) (Wrapf ''risk scorer unreachable'' (re_err err)) ?b") auto
        have f: "call_failed (io_rpc io attempt)" using Inl True by (simp add: call_failed_def)
        have "run_ok m io (attempt + 1) (r, b3, calls)"
          using less [of "attempt + 1" "Wrapf ''risk scorer unreachable'' (re_err err)" ?b] False n by simp
        from run_ok_more [OF _ f this] False Inl True b1 n show ?thesis by (subst score_loop.simps) (auto simp: Let_def)
      next
        case False': False
        with False b1 Inl show ?thesis by (subst score_loop.simps) (auto simp: Let_def intro!: run_ok_one)
      qed
    qed
  qed
qed

lemma backoff_loop_eq:
  assumes "0 < delay" and "delay \<le> mx" and "mx \<le> 4611686018427387903"
  shows "backoff_loop mx n delay = min mx (delay * 2 ^ n)"
  using assms
proof (induction n arbitrary: delay)
  case 0
  then show ?case by simp
next
  case (Suc n)
  have w: "wrap64 (delay * 2) = delay * 2" using Suc.prems by (simp add: in_int64_def max_int64_def)
  show ?case
  proof (cases "mx \<le> delay * 2")
    case True
    have "delay * 2 * 1 \<le> delay * 2 * 2 ^ n" using Suc.prems by (intro mult_left_mono) auto
    with True w show ?thesis by (simp add: Let_def mult.assoc)
  next
    case False
    with Suc.IH [of "delay * 2"] Suc.prems w show ?thesis by (simp add: Let_def mult.assoc)
  qed
qed

lemma NewGRPCScorer_Inr:
  assumes "NewGRPCScorer read_ca dial config = Inr sc"
  shows "0 \<le> gs_maxRetries sc \<and> gs_maxRetries sc \<le> 10 \<and> 0 < gs_backoffBase sc \<and> gs_backoffBase sc \<le> gs_backoffMax sc
    \<and> 0 < gs_timeout sc \<and> gc_has_TokenSource config"
proof -
  define n where "n = (if gc_MaxRetries config = -1 then scorerDefaultMaxRetries else gc_MaxRetries config)"
  define base where "base = (if gc_BackoffBase config \<le> 0 then scorerDefaultBackoffBase else gc_BackoffBase config)"
  define mx where "mx = (if gc_BackoffMax config \<le> 0 then scorerDefaultBackoffMax else gc_BackoffMax config)"
  have "0 < base" by (simp add: base_def scorerDefaultBackoffBase_def)
  moreover from assms have "0 \<le> n \<and> n \<le> 10 \<and> base \<le> mx \<and> 0 < gc_Timeout config \<and> gc_has_TokenSource config
      \<and> gs_maxRetries sc = n \<and> gs_backoffBase sc = base \<and> gs_backoffMax sc = mx \<and> gs_timeout sc = gc_Timeout config"
    unfolding NewGRPCScorer_def Let_def n_def [symmetric] base_def [symmetric] mx_def [symmetric]
    by (auto simp: bindE_Inr_iff scorerMaxRetryBudget_def split: if_split_asm)
  ultimately show ?thesis by simp
qed

text \<open>The pause before a retry is the exponential delay, capped, give or take a quarter of it.\<close>

lemma backoff_bounds:
  assumes "0 < gs_backoffBase sc" and "gs_backoffBase sc \<le> gs_backoffMax sc" and "gs_backoffMax sc \<le> 4611686018427387903"
    and "\<And>n. 0 < n \<Longrightarrow> 0 \<le> r n \<and> r n < n" and ideal: "ideal = min (gs_backoffMax sc) (gs_backoffBase sc * 2 ^ (attempt - 1))"
  shows "ideal - ideal div 4 \<le> backoff sc r attempt \<and> backoff sc r attempt \<le> ideal + ideal div 4 \<and> 0 < backoff sc r attempt"
proof -
  have l: "backoff_loop (gs_backoffMax sc) (attempt - 1) (gs_backoffBase sc) = ideal"
    unfolding ideal by (rule backoff_loop_eq) (use assms in auto)
  have p: "0 < ideal" "ideal \<le> 4611686018427387903" using assms(1-3) by (auto simp: ideal)
  have q: "go_div ideal 2 = ideal div 2" "go_div ideal 4 = ideal div 4" using p by (simp_all add: go_div_nonneg)
  show ?thesis
  proof (cases "ideal < 8")
    case True
    moreover have "ideal \<le> gs_backoffMax sc" by (simp add: ideal)
    ultimately have "backoff sc r attempt = ideal" unfolding backoff_def l by (simp add: Let_def)
    with p show ?thesis by auto
  next
    case False
    let ?j = "r (ideal div 2) - ideal div 4"
    have r: "0 \<le> r (ideal div 2)" "r (ideal div 2) < ideal div 2" using assms(4) [of "ideal div 2"] False by auto
    then have j: "- (ideal div 4) \<le> ?j" "?j \<le> ideal div 4" by linarith+
    have "in_int64 ?j" "in_int64 (ideal + ?j)" using j p by (auto simp: in_int64_def max_int64_def)
    moreover have "ideal \<le> gs_backoffMax sc" by (simp add: ideal)
    ultimately have "backoff sc r attempt = ideal + ?j" using False unfolding backoff_def l by (simp add: Let_def q)
    with j p show ?thesis by auto
  qed
qed

text \<open>While the breaker admits and the pauses are not cut short, the first answer that is not a retriable failure decides.\<close>

lemma score_loop_reaches:
  assumes "\<And>b. fst (io_before io b) = None" and "\<And>k. io_sleep io k = None" and "attempt \<le> n" and "int n \<le> m"
    and "\<And>k. attempt \<le> k \<Longrightarrow> k < n \<Longrightarrow> call_failed (io_rpc io k)" and "io_rpc io n = Inr response"
  shows "fst (score_loop m io attempt lastErr b) = validateScorerVerdict response"
  using assms(3,5)
proof (induction "n - attempt" arbitrary: attempt lastErr b)
  case 0
  obtain b1 where "io_before io b = (None, b1)" using assms(1) [of b] by (cases "io_before io b") auto
  with 0 assms(2,4,6) show ?case by (subst score_loop.simps) (auto simp: Let_def)
next
  case (Suc j)
  obtain b1 where b1: "io_before io b = (None, b1)" using assms(1) [of b] by (cases "io_before io b") auto
  from Suc have "attempt < n" by simp
  with Suc.prems(2) [of attempt] obtain err where err: "io_rpc io attempt = Inl err" "retriableScorerError err"
    by (cases "io_rpc io attempt") (auto simp: call_failed_def)
  have "fst (score_loop m io (attempt + 1) e1 b2) = validateScorerVerdict response" for e1 b2
    by (rule Suc.hyps(1)) (use Suc.hyps(2) Suc.prems(2) \<open>attempt < n\<close> in auto)
  with b1 err assms(2,4) \<open>attempt < n\<close> show ?case
    by (subst score_loop.simps) (auto simp: Let_def case_prod_beta)
qed

section \<open>Properties\<close>

definition demo_scorer :: GRPCScorer where
  "demo_scorer = \<lparr>gs_timeout = 1, gs_maxRetries = 2, gs_backoffBase = 100, gs_backoffMax = 1000, gs_breakerFailures = 5, gs_breakerTimeout = 1\<rparr>"

definition demo_answer :: ScoreDeclarationResponse where
  "demo_answer = \<lparr>rs_Score = 30, rs_ModelVersion = ''m1'', rs_Sanctioned = False\<rparr>"

definition demo_io :: "unit scorer_io" where
  "demo_io = \<lparr>io_rpc = (\<lambda>n. if n = 0 then Inl \<lparr>re_code = Unavailable, re_err = ErrText ''down''\<rparr> else Inr (Some demo_answer)),
     io_sleep = (\<lambda>_. None), io_before = (\<lambda>b. (None, b)), io_after = (\<lambda>_ b. b)\<rparr>"

definition demo_config :: GRPCScorerConfig where
  "demo_config = \<lparr>gc_Address = ''scorer:443'', gc_Plaintext = True, gc_CACertFile = [], gc_Timeout = 1, gc_MaxRetries = 2, gc_BackoffBase = 100,
     gc_BackoffMax = 1000, gc_BreakerFailureThreshold = 5, gc_BreakerTimeout = 1, gc_has_TokenSource = True\<rparr>"

definition demo_verdict :: ScoreResponse where
  "demo_verdict = \<lparr>sv_Score = 30, sv_ModelVersion = ''m1'', sv_Sanctioned = False\<rparr>"

definition demo_score_request :: ScoreRequest where
  "demo_score_request = \<lparr>sq_DeclarationRef = ''REF1'', sq_DeclarationType = ''IMPORT'', sq_HSCode = ''870323'', sq_GoodsDescription = ''used vehicles'',
     sq_CountryOfOrigin = ''DE'', sq_CountryOfDestination = [], sq_PortOfEntry = ''NGAPP'', sq_GrossWeightKg = 1500, sq_NumberOfPackages = 1,
     sq_InvoiceAmountMinor = 100000, sq_InvoiceCurrency = ''NGN'', sq_ConsigneeID = ''co1'', sq_OperatorID = ''op1'', sq_TraderID = ''tr1'', sq_IsAEO = False\<rparr>"

text \<open>
  Claim C25. Asking the scorer ends, whatever the scorer, the network and the circuit breaker do: with
  a scorer that \<open>NewGRPCScorer\<close> built there are at most eleven attempts, they are consecutive,
  every attempt but the last failed with UNAVAILABLE or DEADLINE_EXCEEDED (a caller fault is
  never retried), and a verdict is returned only when the last attempt answered one with a
  score between 0 and 100 and a model version.
\<close>

theorem Score_terminates:
  assumes "NewGRPCScorer read_ca dial config = Inr sc" and "Score sc token io request b = (r, b', calls)"
  shows "calls = [0..<length calls] \<and> int (length calls) \<le> gs_maxRetries sc + 1 \<and> length calls \<le> 11
    \<and> (\<forall>k. k + 1 < length calls \<longrightarrow> (\<exists>err. io_rpc io k = Inl err \<and> retriableScorerError err))
    \<and> (\<forall>v. r = Inr v \<longrightarrow> calls \<noteq> [] \<and> 0 \<le> sv_Score v \<and> sv_Score v \<le> 100 \<and> TrimSpace (sv_ModelVersion v) \<noteq> []
          \<and> (\<exists>w. io_rpc io (length calls - 1) = Inr (Some w) \<and> sv_Score v = rs_Score w \<and> sv_Sanctioned v = rs_Sanctioned w))"
proof -
  note sc = NewGRPCScorer_Inr [OF assms(1)]
  have "run_ok (gs_maxRetries sc) io 0 (r, b', calls)"
    using assms(2) score_loop_run [of "gs_maxRetries sc" io 0 "ErrText []" b] run_ok_none [of "gs_maxRetries sc" io 0]
    by (auto simp: Score_def split: if_splits sum.splits)
  then have c: "calls = [0..<length calls]" and n: "int (length calls) \<le> gs_maxRetries sc + 1"
    and f: "\<And>k. k + 1 < length calls \<Longrightarrow> call_failed (io_rpc io k)"
    and v: "\<And>v. r = Inr v \<Longrightarrow> calls \<noteq> [] \<and> (\<exists>response. io_rpc io (last calls) = Inr response \<and> validateScorerVerdict response = Inr v)"
    using sc by (auto simp: run_ok_def)
  have l: "calls \<noteq> [] \<Longrightarrow> last calls = length calls - 1" using c by (metis last_upt length_greater_0_conv)
  have "\<exists>err. io_rpc io k = Inl err \<and> retriableScorerError err" if "k + 1 < length calls" for k
    using f [OF that] by (auto simp: call_failed_def split: sum.splits)
  with c n v l sc show ?thesis by (auto simp: validateScorerVerdict_Inr)
qed

theorem Score_terminates_witness:
  "NewGRPCScorer (Inr True) (Inr ()) demo_config = Inr demo_scorer
   \<and> Score demo_scorer (Inr ''token'') demo_io demo_score_request () = (Inr demo_verdict, (), [0, 1])
   \<and> (\<exists>err. io_rpc demo_io 0 = Inl err \<and> retriableScorerError err) \<and> sv_Score demo_verdict \<le> 100"
proof -
  have n: "NewGRPCScorer (Inr True) (Inr ()) demo_config = Inr demo_scorer"
    by (simp add: NewGRPCScorer_def demo_config_def demo_scorer_def cut_colon_def sublist_code scorerMaxRetryBudget_def wrap_err_def go_simps)
  have "score_loop 2 demo_io 1 err () = (Inr demo_verdict, (), [1])" for err
    by (subst score_loop.simps) (simp add: demo_io_def demo_answer_def demo_verdict_def validateScorerVerdict_def go_simps)
  then have "score_loop 2 demo_io 0 (ErrText []) () = (Inr demo_verdict, (), [0, 1])"
    by (subst score_loop.simps) (simp add: demo_io_def retriableScorerError_def)
  then have s: "Score demo_scorer (Inr ''token'') demo_io demo_score_request () = (Inr demo_verdict, (), [0, 1])"
    by (simp add: Score_def demo_score_request_def demo_scorer_def go_simps)
  from Score_terminates [OF n s] s n show ?thesis by simp
qed

end
