(* ===== verification/Base64.thy ===== *)
theory Base64
  imports Sha256
begin

text \<open>
  \<open>encoding/base64\<close> and the decoder of \<open>encoding/hex\<close> of Go's standard library: the standard
  and the URL alphabet, padded and raw. The decoder skips carriage returns and newlines, and
  (not being strict) ignores the spare bits of the last symbol.
\<close>

datatype b64_encoding = StdEncoding | URLEncoding | RawStdEncoding | RawURLEncoding

fun b64_symbols :: "b64_encoding \<Rightarrow> char \<times> char" where
  "b64_symbols StdEncoding = (CHR ''+'', CHR ''/'')"
| "b64_symbols RawStdEncoding = (CHR ''+'', CHR ''/'')"
| "b64_symbols URLEncoding = (CHR ''-'', CHR ''_'')"
| "b64_symbols RawURLEncoding = (CHR ''-'', CHR ''_'')"

fun b64_padded :: "b64_encoding \<Rightarrow> bool" where
  "b64_padded StdEncoding = True"
| "b64_padded URLEncoding = True"
| "b64_padded RawStdEncoding = False"
| "b64_padded RawURLEncoding = False"

definition b64_char :: "b64_encoding \<Rightarrow> nat \<Rightarrow> char" where
  "b64_char enc n =
     (if n < 26 then char_of (65 + n) else if n < 52 then char_of (71 + n)
      else if n < 62 then char_of (n - 4) else if n = 62 then fst (b64_symbols enc) else snd (b64_symbols enc))"

definition b64_value :: "b64_encoding \<Rightarrow> char \<Rightarrow> nat option" where
  "b64_value enc c =
     (if is_upper c then Some (byte c - 65) else if is_lower c then Some (byte c - 71)
      else if is_digit c then Some (byte c + 4)
      else if c = fst (b64_symbols enc) then Some 62 else if c = snd (b64_symbols enc) then Some 63 else None)"

definition b64_pad :: "b64_encoding \<Rightarrow> nat \<Rightarrow> string" where
  "b64_pad enc n = (if b64_padded enc then replicate n (CHR ''='') else [])"

fun b64_encode :: "b64_encoding \<Rightarrow> string \<Rightarrow> string" where
  "b64_encode enc [] = []"
| "b64_encode enc [x] = map (b64_char enc) [byte x div 4, byte x mod 4 * 16] @ b64_pad enc 2"
| "b64_encode enc [x, y] =
     map (b64_char enc) [byte x div 4, byte x mod 4 * 16 + byte y div 16, byte y mod 16 * 4] @ b64_pad enc 1"
| "b64_encode enc (x # y # z # s) =
     map (b64_char enc) [byte x div 4, byte x mod 4 * 16 + byte y div 16, byte y mod 16 * 4 + byte z div 64, byte z mod 64]
       @ b64_encode enc s"

definition b64_byte1 :: "nat \<Rightarrow> nat \<Rightarrow> char" where
  "b64_byte1 p q = char_of (p * 4 + q div 16)"

definition b64_byte2 :: "nat \<Rightarrow> nat \<Rightarrow> char" where
  "b64_byte2 q r = char_of (q mod 16 * 16 + r div 4)"

definition b64_byte3 :: "nat \<Rightarrow> nat \<Rightarrow> char" where
  "b64_byte3 r t = char_of (r mod 4 * 64 + t)"

fun b64_quanta :: "b64_encoding \<Rightarrow> string \<Rightarrow> string option" where
  "b64_quanta enc [] = Some []"
| "b64_quanta enc [a] = None"
| "b64_quanta enc [a, b] =
     (case (b64_value enc a, b64_value enc b) of
        (Some p, Some q) \<Rightarrow> if b64_padded enc then None else Some [b64_byte1 p q]
      | _ \<Rightarrow> None)"
| "b64_quanta enc [a, b, c] =
     (case (b64_value enc a, b64_value enc b, b64_value enc c) of
        (Some p, Some q, Some r) \<Rightarrow> if b64_padded enc then None else Some [b64_byte1 p q, b64_byte2 q r]
      | _ \<Rightarrow> None)"
| "b64_quanta enc (a # b # c # d # s) =
     (case (b64_value enc a, b64_value enc b) of
        (Some p, Some q) \<Rightarrow>
          (case b64_value enc c of
             None \<Rightarrow> if b64_padded enc \<and> c = CHR ''='' \<and> d = CHR ''='' \<and> s = [] then Some [b64_byte1 p q] else None
           | Some r \<Rightarrow>
               (case b64_value enc d of
                  None \<Rightarrow> if b64_padded enc \<and> d = CHR ''='' \<and> s = [] then Some [b64_byte1 p q, b64_byte2 q r] else None
                | Some t \<Rightarrow> map_option ((@) [b64_byte1 p q, b64_byte2 q r, b64_byte3 r t]) (b64_quanta enc s)))
      | _ \<Rightarrow> None)"

definition b64_DecodeString :: "b64_encoding \<Rightarrow> string \<Rightarrow> string option" where
  "b64_DecodeString enc s = b64_quanta enc (filter (\<lambda>c. byte c \<noteq> 10 \<and> byte c \<noteq> 13) s)"

section \<open>Hexadecimal\<close>

definition hex_value :: "char \<Rightarrow> nat option" where
  "hex_value c =
     (if is_digit c then Some (byte c - 48) else if 97 \<le> byte c \<and> byte c \<le> 102 then Some (byte c - 87)
      else if 65 \<le> byte c \<and> byte c \<le> 70 then Some (byte c - 55) else None)"

fun hex_DecodeString :: "string \<Rightarrow> string option" where
  "hex_DecodeString [] = Some []"
| "hex_DecodeString [a] = None"
| "hex_DecodeString (a # b # s) =
     (case (hex_value a, hex_value b) of
        (Some p, Some q) \<Rightarrow> map_option ((#) (char_of (p * 16 + q))) (hex_DecodeString s)
      | _ \<Rightarrow> None)"

section \<open>Round trips\<close>

lemma byte_less [simp]: "byte (c::char) < 256"
  using nat_of_char_less_256 [of c] by simp

lemma byte_char_of: "m < 256 \<Longrightarrow> byte (char_of m) = m"
  by simp

lemma b64_value_char [simp]: "n < 64 \<Longrightarrow> b64_value enc (b64_char enc n) = Some n"
proof -
  assume n: "n < 64"
  consider (upper) "n < 26" | (lower) "26 \<le> n" "n < 52" | (digit) "52 \<le> n" "n < 62" | (symbol) "n = 62 \<or> n = 63"
    using n by linarith
  then show ?thesis
  proof cases
    case upper
    then have "byte (b64_char enc n) = 65 + n" unfolding b64_char_def by (simp add: byte_char_of)
    with upper show ?thesis unfolding b64_value_def is_upper_def by simp
  next
    case lower
    then have "byte (b64_char enc n) = 71 + n" unfolding b64_char_def by (simp add: byte_char_of)
    with lower show ?thesis unfolding b64_value_def is_upper_def is_lower_def by simp
  next
    case digit
    then have "byte (b64_char enc n) = n - 4" unfolding b64_char_def by (simp add: byte_char_of)
    with digit show ?thesis unfolding b64_value_def is_upper_def is_lower_def is_digit_def by auto
  next
    case symbol
    then show ?thesis by (cases enc) (auto simp: b64_value_def b64_char_def is_upper_def is_lower_def is_digit_def)
  qed
qed

lemma b64_value_pad [simp]: "b64_value enc (CHR ''='') = None"
  by (cases enc) (simp_all add: b64_value_def char_class_defs)

lemma b64_char_visible: "n < 64 \<Longrightarrow> 33 \<le> byte (b64_char enc n) \<and> byte (b64_char enc n) \<le> 127"
  by (cases enc) (auto simp: b64_char_def byte_char_of)

lemma byte_split:
  "x div 4 < 64" "x mod 4 * 16 + y div 16 < 64" "y mod 16 * 4 + z div 64 < 64" "z mod 64 < 64" "x mod 4 * 16 < 64" "y mod 16 * 4 < 64"
  if "x < 256" "y < 256" "z < 256" for x y z :: nat
  using that by (simp_all add: less_mult_imp_div_less)

lemma b64_encode_visible: "c \<in> set (b64_encode enc s) \<Longrightarrow> 33 \<le> byte c \<and> byte c \<le> 127"
proof (induction enc s rule: b64_encode.induct)
  case (2 enc x)
  then show ?case
    using byte_split [of "byte x" 0 0] by (auto simp: b64_pad_def b64_char_visible split: if_splits)
next
  case (3 enc x y)
  then show ?case
    using byte_split [of "byte x" "byte y" 0] by (auto simp: b64_pad_def b64_char_visible split: if_splits)
next
  case (4 enc x y z s)
  then show ?case
    using byte_split [of "byte x" "byte y" "byte z"] by (auto simp: b64_char_visible)
qed simp

lemma b64_bytes [simp]:
  "b64_byte1 (byte x div 4) (byte x mod 4 * 16) = x"
  "b64_byte1 (byte x div 4) (byte x mod 4 * 16 + byte y div 16) = x"
  "b64_byte2 (byte x mod 4 * 16 + byte y div 16) (byte y mod 16 * 4) = y"
  "b64_byte2 (byte x mod 4 * 16 + byte y div 16) (byte y mod 16 * 4 + byte z div 64) = y"
  "b64_byte3 (byte y mod 16 * 4 + byte z div 64) (byte z mod 64) = z"
proof -
  have y: "byte y div 16 < 16" and z: "byte z div 64 < 4"
    using byte_less [of y] byte_less [of z] by (simp_all only: less_mult_imp_div_less)
  have 1: "byte x div 4 * 4 + (byte x mod 4 * 16) div 16 = byte x" by simp
  have 2: "byte x div 4 * 4 + (byte x mod 4 * 16 + byte y div 16) div 16 = byte x" using y by simp
  have 3: "(byte x mod 4 * 16 + byte y div 16) mod 16 * 16 + (byte y mod 16 * 4) div 4 = byte y" using y by simp
  have 4: "(byte x mod 4 * 16 + byte y div 16) mod 16 * 16 + (byte y mod 16 * 4 + byte z div 64) div 4 = byte y" using y z by simp
  have 5: "(byte y mod 16 * 4 + byte z div 64) mod 4 * 64 + byte z mod 64 = byte z" using z by simp
  show "b64_byte1 (byte x div 4) (byte x mod 4 * 16) = x"
    "b64_byte1 (byte x div 4) (byte x mod 4 * 16 + byte y div 16) = x"
    "b64_byte2 (byte x mod 4 * 16 + byte y div 16) (byte y mod 16 * 4) = y"
    "b64_byte2 (byte x mod 4 * 16 + byte y div 16) (byte y mod 16 * 4 + byte z div 64) = y"
    "b64_byte3 (byte y mod 16 * 4 + byte z div 64) (byte z mod 64) = z"
    unfolding b64_byte1_def b64_byte2_def b64_byte3_def 1 2 3 4 5 by simp_all
qed

lemma b64_quanta_encode: "b64_quanta enc (b64_encode enc s) = Some s"
proof (induction enc s rule: b64_encode.induct)
  case (2 enc x)
  show ?case using byte_split [of "byte x" 0 0] by (simp add: b64_pad_def numeral_2_eq_2)
next
  case (3 enc x y)
  show ?case using byte_split [of "byte x" "byte y" 0] by (simp add: b64_pad_def)
next
  case (4 enc x y z s)
  then show ?case using byte_split [of "byte x" "byte y" "byte z"] by simp
qed simp

lemma b64_decode_encode: "b64_DecodeString enc (b64_encode enc s) = Some s"
proof -
  have "filter (\<lambda>c. byte c \<noteq> 10 \<and> byte c \<noteq> 13) (b64_encode enc s) = b64_encode enc s"
    by (rule filter_True) (auto dest!: b64_encode_visible)
  then show ?thesis by (simp add: b64_DecodeString_def b64_quanta_encode)
qed

lemma hex_value_digit: "n < 16 \<Longrightarrow> hex_value (hex_digit n) = Some n"
proof -
  assume "n < 16"
  then have "n \<in> set [0..<16]" by simp
  moreover have "list_all (\<lambda>n. hex_value (hex_digit n) = Some n) [0..<16]" by code_simp
  ultimately show ?thesis by (simp add: list_all_iff)
qed

lemma hex_decode_encode: "hex_DecodeString (EncodeToString s) = Some s"
proof (induction s)
  case (Cons c s)
  have "byte c div 16 < 16" using byte_less [of c] by (simp only: less_mult_imp_div_less)
  moreover have "byte c div 16 * 16 + byte c mod 16 = byte c" by simp
  ultimately show ?case using Cons by (simp add: EncodeToString_def hex_value_digit)
qed (simp add: EncodeToString_def)

section \<open>Two decoders never disagree\<close>

lemma b64_value_agree: "b64_value enc c = Some p \<Longrightarrow> b64_value enc' c = Some q \<Longrightarrow> p = q"
  by (cases enc; cases enc') (auto simp: b64_value_def split: if_splits)

lemma b64_value_not_pad: "b64_value enc c = Some p \<Longrightarrow> c \<noteq> CHR ''=''"
  by auto

lemma b64_quanta_agree: "b64_quanta enc s = Some x \<Longrightarrow> b64_quanta enc' s = Some y \<Longrightarrow> x = y"
proof (induction enc s arbitrary: x y rule: b64_quanta.induct)
  case (5 enc a b c d s)
  from 5(2) obtain p q where p: "b64_value enc a = Some p" "b64_value enc b = Some q" by (auto split: option.splits)
  from 5(3) obtain p' q' where q: "b64_value enc' a = Some p'" "b64_value enc' b = Some q'" by (auto split: option.splits)
  note e = b64_value_agree [OF p(1) q(1)] b64_value_agree [OF p(2) q(2)]
  show ?case
  proof (cases "b64_value enc c")
    case None
    with 5(2) p have "c = CHR ''=''" "x = [b64_byte1 p q]" by (auto split: if_splits)
    with 5(3) q e show ?thesis by (auto split: if_splits)
  next
    case (Some r)
    then have "c \<noteq> CHR ''=''" by (rule b64_value_not_pad)
    with 5(3) q obtain r' where r': "b64_value enc' c = Some r'" by (auto split: option.splits if_splits)
    note e' = b64_value_agree [OF Some r']
    show ?thesis
    proof (cases "b64_value enc d")
      case None
      with 5(2) p Some have "d = CHR ''=''" "x = [b64_byte1 p q, b64_byte2 q r]" by (auto split: if_splits)
      with 5(3) q r' e e' show ?thesis by (auto split: if_splits)
    next
      case t: (Some t)
      then have "d \<noteq> CHR ''=''" by (rule b64_value_not_pad)
      with 5(3) q r' obtain t' where t': "b64_value enc' d = Some t'" by (auto split: option.splits if_splits)
      from 5(2) p Some t obtain x' where x: "b64_quanta enc s = Some x'" "x = [b64_byte1 p q, b64_byte2 q r, b64_byte3 r t] @ x'" by auto
      from 5(3) q r' t' obtain y' where y: "b64_quanta enc' s = Some y'" "y = [b64_byte1 p' q', b64_byte2 q' r', b64_byte3 r' t'] @ y'" by auto
      have "x' = y'" by (rule 5(1) [OF _ _ _ Some t x(1) y(1)]) (use p in simp_all)
      with x(2) y(2) e e' b64_value_agree [OF t t'] show ?thesis by simp
    qed
  qed
qed (auto split: option.splits if_splits dest: b64_value_agree)

lemma b64_quanta_length:
  "b64_quanta enc s = Some x \<Longrightarrow> length s = 4 * n \<Longrightarrow> CHR ''='' \<notin> set s \<Longrightarrow> length x = 3 * n"
proof (induction enc s arbitrary: x n rule: b64_quanta.induct)
  case (5 enc a b c d s)
  then obtain m where n: "n = Suc m" by (cases n) auto
  from 5 obtain p q r t y where v: "b64_value enc a = Some p" "b64_value enc b = Some q" "b64_value enc c = Some r" "b64_value enc d = Some t"
      and y: "b64_quanta enc s = Some y" and x: "length x = 3 + length y"
    by (auto split: option.splits if_splits)
  have "length y = 3 * m" by (rule 5(1) [OF _ _ _ v(3,4) y]) (use v n 5(3,4) in simp_all)
  with x n show ?case by simp
next
  case (4 enc a b c)
  then have "4 * n = 3" by simp
  then show ?case by presburger
qed (simp_all, presburger+)

lemma b64_DecodeString_agree:
  "b64_DecodeString enc s = Some x \<Longrightarrow> b64_DecodeString enc' s = Some y \<Longrightarrow> x = y"
  by (auto simp: b64_DecodeString_def dest: b64_quanta_agree)

lemma hex_digit_visible: "n < 16 \<Longrightarrow> 48 \<le> byte (hex_digit n) \<and> byte (hex_digit n) \<le> 102 \<and> hex_digit n \<noteq> CHR ''=''"
proof -
  assume "n < 16"
  then have "n \<in> set [0..<16]" by simp
  moreover have "list_all (\<lambda>n. 48 \<le> byte (hex_digit n) \<and> byte (hex_digit n) \<le> 102 \<and> hex_digit n \<noteq> CHR ''='') [0..<16]" by code_simp
  ultimately show ?thesis by (simp add: list_all_iff)
qed

lemma EncodeToString_visible:
  "c \<in> set (EncodeToString s) \<Longrightarrow> 48 \<le> byte c \<and> byte c \<le> 102 \<and> c \<noteq> CHR ''=''"
proof -
  assume "c \<in> set (EncodeToString s)"
  then obtain x n where "c = hex_digit n" "n = byte x div 16 \<or> n = byte x mod 16" by (auto simp: EncodeToString_def)
  moreover have "byte x div 16 < 16" "byte x mod 16 < 16" using byte_less [of x] by (simp_all add: less_mult_imp_div_less)
  ultimately show ?thesis using hex_digit_visible [of n] by auto
qed

text \<open>Hexadecimal text of a key is valid base64 too, but of another length.\<close>

lemma b64_of_hex_length:
  assumes "b64_DecodeString enc (EncodeToString s) = Some x" and "length s = 2 * n"
  shows "length x = 3 * n"
proof -
  have "filter (\<lambda>c. byte c \<noteq> 10 \<and> byte c \<noteq> 13) (EncodeToString s) = EncodeToString s"
    by (rule filter_True) (auto dest!: EncodeToString_visible)
  with assms have "b64_quanta enc (EncodeToString s) = Some x" by (simp add: b64_DecodeString_def)
  moreover have "CHR ''='' \<notin> set (EncodeToString s)" by (auto dest!: EncodeToString_visible)
  ultimately show ?thesis using b64_quanta_length [of enc "EncodeToString s" x n] assms(2) by simp
qed

lemma length_b64_encode:
  "length (b64_encode enc s) = 4 * (length s div 3)
     + (if length s mod 3 = 0 then 0 else if b64_padded enc then 4 else length s mod 3 + 1)"
proof (induction enc s rule: b64_encode.induct)
  case (4 enc x y z s)
  have "(3 + length s) div 3 = Suc (length s div 3)" by simp
  with 4 show ?case by simp
qed (simp_all add: b64_pad_def)

lemma hex_DecodeString_length: "hex_DecodeString s = Some x \<Longrightarrow> length s = 2 * length x"
  by (induction s arbitrary: x rule: hex_DecodeString.induct) (auto split: option.splits)

end
