(* ===== verification/Json_Decode.thy ===== *)
theory Json_Decode
  imports Json Base64 "HOL-Library.Product_Lexorder" "HOL-Library.List_Lexorder" "HOL-Library.Char_ord"
begin

text \<open>
  Decoding with \<open>encoding/json\<close>: \<open>json_parse\<close> accepts the texts the scanner accepts and yields
  the value they stand for (strings with their escapes resolved, numbers as literals). The
  parser runs on fuel; \<open>json_parse\<close> gives it enough, and \<open>p_value_enough\<close> says so. Also
  here: what a JSON column of type \<open>JSONB\<close> keeps, and decoding into a struct of strings.
\<close>

datatype json =
    JNull | JBool bool | JNumber string | JString string | JArray "json list" | JObject "(string \<times> json) list"

section \<open>Strings\<close>

definition is_json_space :: "char \<Rightarrow> bool" where
  "is_json_space c \<longleftrightarrow> byte c = 32 \<or> byte c = 9 \<or> byte c = 10 \<or> byte c = 13"

abbreviation skip_space :: "string \<Rightarrow> string" where
  "skip_space \<equiv> dropWhile is_json_space"

fun getu4 :: "string \<Rightarrow> (nat \<times> string) option" where
  "getu4 (a # b # c # d # s) =
     (case (hex_value a, hex_value b, hex_value c, hex_value d) of
        (Some p, Some q, Some r, Some t) \<Rightarrow> Some (((p * 16 + q) * 16 + r) * 16 + t, s)
      | _ \<Rightarrow> None)"
| "getu4 _ = None"

definition utf8_encode :: "nat \<Rightarrow> string" where
  "utf8_encode n =
     map char_of
      (if n < 128 then [n]
       else if n < 2048 then [192 + n div 64, 128 + n mod 64]
       else if n < 65536 then [224 + n div 4096, 128 + n div 64 mod 64, 128 + n mod 64]
       else [240 + n div 262144, 128 + n div 4096 mod 64, 128 + n div 64 mod 64, 128 + n mod 64])"

definition replacement :: string where
  "replacement = utf8_encode 65533"

definition low_surrogate :: "nat \<Rightarrow> bool" where
  "low_surrogate n \<longleftrightarrow> 56320 \<le> n \<and> n < 57344"

text \<open>The code unit after \<open>\\u\<close>: the bytes it stands for, and what is left of the text.\<close>

definition unquote_u :: "string \<Rightarrow> (string \<times> string) option" where
  "unquote_u s =
     (case getu4 s of
        None \<Rightarrow> None
      | Some (n, r) \<Rightarrow>
          if 55296 \<le> n \<and> n < 56320
          then (case r of
                  a # b # r' \<Rightarrow>
                    (case (if a = CHR 0x5C \<and> b = CHR ''u'' then getu4 r' else None) of
                       Some (m, r'') \<Rightarrow> if low_surrogate m then Some (utf8_encode (65536 + (n - 55296) * 1024 + (m - 56320)), r'')
                                        else Some (replacement, r)
                     | None \<Rightarrow> Some (replacement, r))
                | _ \<Rightarrow> Some (replacement, r))
          else if low_surrogate n then Some (replacement, r)
          else Some (utf8_encode n, r))"

lemma getu4_shorter: "getu4 s = Some (n, r) \<Longrightarrow> length r < length s"
  by (induction s rule: getu4.induct) (auto split: option.splits)

lemma unquote_u_shorter: "unquote_u s = Some (t, r) \<Longrightarrow> length r < length s"
  by (auto simp: unquote_u_def split: option.splits if_splits list.splits dest!: getu4_shorter)

definition escape_char :: "char \<Rightarrow> char option" where
  "escape_char c =
     (if c = CHR 0x22 \<or> c = CHR 0x5C \<or> c = CHR ''/'' then Some c
      else if c = CHR ''b'' then Some (CHR 0x08) else if c = CHR ''f'' then Some (CHR 0x0C)
      else if c = CHR ''n'' then Some (CHR 0x0A) else if c = CHR ''r'' then Some (CHR 0x0D)
      else if c = CHR ''t'' then Some (CHR 0x09) else None)"

text \<open>The text after the opening quote.\<close>

function p_str :: "string \<Rightarrow> (string \<times> string) option" where
  "p_str [] = None"
| "p_str (c # s) =
     (if c = CHR 0x22 then Some ([], s)
      else if c = CHR 0x5C
      then (case s of
              [] \<Rightarrow> None
            | x # r \<Rightarrow>
                if x = CHR ''u''
                then (case unquote_u r of None \<Rightarrow> None | Some (t, r') \<Rightarrow> map_option (apfst ((@) t)) (p_str r'))
                else (case escape_char x of None \<Rightarrow> None | Some y \<Rightarrow> map_option (apfst ((#) y)) (p_str r)))
      else if byte c < 32 then None
      else if byte c < 128 then map_option (apfst ((#) c)) (p_str s)
      else let n = utf8_len (c # s) in
        if n = 0 then map_option (apfst ((@) replacement)) (p_str s)
        else map_option (apfst ((@) (take n (c # s)))) (p_str (drop n (c # s))))"
  by pat_completeness auto
termination
  by (relation "measure length") (auto dest!: unquote_u_shorter)

declare p_str.simps(2) [simp del]

section \<open>Numbers\<close>

definition p_digits :: "string \<Rightarrow> (string \<times> string) option" where
  "p_digits s = (if takeWhile is_digit s = [] then None else Some (takeWhile is_digit s, dropWhile is_digit s))"

definition p_integer :: "string \<Rightarrow> (string \<times> string) option" where
  "p_integer s = (case s of c # r \<Rightarrow> if c = CHR ''0'' then Some ([c], r) else p_digits s | [] \<Rightarrow> None)"

definition p_fraction :: "string \<Rightarrow> (string \<times> string) option" where
  "p_fraction s =
     (case s of c # r \<Rightarrow> if c = CHR ''.'' then map_option (apfst ((#) c)) (p_digits r) else Some ([], s) | [] \<Rightarrow> Some ([], s))"

definition p_exponent :: "string \<Rightarrow> (string \<times> string) option" where
  "p_exponent s =
     (case s of
        c # r \<Rightarrow>
          if c = CHR ''e'' \<or> c = CHR ''E''
          then (case r of
                  x # r' \<Rightarrow> if x = CHR ''+'' \<or> x = CHR ''-'' then map_option (apfst (\<lambda>t. c # x # t)) (p_digits r')
                            else map_option (apfst ((#) c)) (p_digits r)
                | [] \<Rightarrow> None)
          else Some ([], s)
      | [] \<Rightarrow> Some ([], s))"

definition p_number :: "string \<Rightarrow> (string \<times> string) option" where
  "p_number s =
     (case (if prefix ''-'' s then (''-'', drop 1 s) else ([], s)) of (sg, s1) \<Rightarrow>
      Option.bind (p_integer s1) (\<lambda>(i, s2).
      Option.bind (p_fraction s2) (\<lambda>(f, s3).
      Option.bind (p_exponent s3) (\<lambda>(x, s4). Some (sg @ i @ f @ x, s4)))))"

section \<open>Values\<close>

definition p_literal :: "string \<Rightarrow> json \<Rightarrow> string \<Rightarrow> (json \<times> string) option" where
  "p_literal t v s = (if prefix t s then Some (v, drop (length t) s) else None)"

text \<open>The second argument is how many levels of arrays and objects may still open.\<close>

fun p_value :: "nat \<Rightarrow> nat \<Rightarrow> string \<Rightarrow> (json \<times> string) option"
  and p_elements :: "nat \<Rightarrow> nat \<Rightarrow> string \<Rightarrow> (json list \<times> string) option"
  and p_members :: "nat \<Rightarrow> nat \<Rightarrow> string \<Rightarrow> ((string \<times> json) list \<times> string) option" where
  "p_value 0 k s = None"
| "p_value (Suc f) k s =
     (case skip_space s of
        [] \<Rightarrow> None
      | c # r \<Rightarrow>
          if c = CHR 0x22 then map_option (apfst JString) (p_str r)
          else if c = CHR ''['' then (if k = 0 then None else map_option (apfst JArray)
            (if prefix '']'' (skip_space r) then Some ([], drop 1 (skip_space r)) else p_elements f (k - 1) r))
          else if c = CHR ''{'' then (if k = 0 then None else map_option (apfst JObject)
            (if prefix ''}'' (skip_space r) then Some ([], drop 1 (skip_space r)) else p_members f (k - 1) r))
          else if c = CHR ''t'' then p_literal ''true'' (JBool True) (c # r)
          else if c = CHR ''f'' then p_literal ''false'' (JBool False) (c # r)
          else if c = CHR ''n'' then p_literal ''null'' JNull (c # r)
          else map_option (apfst JNumber) (p_number (c # r)))"
| "p_elements 0 k s = None"
| "p_elements (Suc f) k s =
     (case p_value f k s of
        None \<Rightarrow> None
      | Some (v, r) \<Rightarrow>
          (case skip_space r of
             [] \<Rightarrow> None
           | c # r' \<Rightarrow> if c = CHR '','' then map_option (apfst ((#) v)) (p_elements f k r')
                       else if c = CHR '']'' then Some ([v], r') else None))"
| "p_members 0 k s = None"
| "p_members (Suc f) k s =
     (case skip_space s of
        [] \<Rightarrow> None
      | q # s' \<Rightarrow>
          if q \<noteq> CHR 0x22 then None
          else (case p_str s' of
             None \<Rightarrow> None
           | Some (key, r) \<Rightarrow>
               (case skip_space r of
                  [] \<Rightarrow> None
                | c # r1 \<Rightarrow>
                    if c \<noteq> CHR '':'' then None
                    else (case p_value f k r1 of
                       None \<Rightarrow> None
                     | Some (v, r2) \<Rightarrow>
                         (case skip_space r2 of
                            [] \<Rightarrow> None
                          | d # r3 \<Rightarrow> if d = CHR '','' then map_option (apfst ((#) (key, v))) (p_members f k r3)
                                      else if d = CHR ''}'' then Some ([(key, v)], r3) else None)))))"

definition json_parse :: "string \<Rightarrow> json option" where
  "json_parse s =
     (case p_value (2 * length s + 2) 10000 s of
        Some (v, r) \<Rightarrow> if skip_space r = [] then Some v else None
      | None \<Rightarrow> None)"

section \<open>Structs of strings\<close>

text \<open>
  Field names match up to case folding, where the Kelvin sign and the long s fold to ASCII
  letters. A member of another type than a string is an error, \<open>null\<close> leaves the field alone, and the last
  member of a name wins.
\<close>

fun fold_name :: "string \<Rightarrow> string" where
  "fold_name [] = []"
| "fold_name (c # s) =
     (if prefix (map char_of [226, 132, 170::nat]) (c # s) then CHR ''k'' # fold_name (drop 2 s)
      else if prefix (map char_of [197, 191::nat]) (c # s) then CHR ''s'' # fold_name (drop 1 s)
      else (if is_upper c then char_of (byte c + 32) else c) # fold_name s)"

fun set_field :: "string \<Rightarrow> (string \<times> json) list \<Rightarrow> string \<Rightarrow> string option" where
  "set_field name [] v = Some v"
| "set_field name ((key, x) # ms) v =
     (if fold_name key \<noteq> name then set_field name ms v
      else (case x of JString t \<Rightarrow> set_field name ms t | JNull \<Rightarrow> set_field name ms v | _ \<Rightarrow> None))"

definition unmarshal_strings :: "string list \<Rightarrow> string \<Rightarrow> string list option" where
  "unmarshal_strings names text =
     (case json_parse text of
        Some (JObject ms) \<Rightarrow> those (map (\<lambda>name. set_field name ms []) names)
      | Some JNull \<Rightarrow> Some (map (\<lambda>_. []) names)
      | _ \<Rightarrow> None)"

section \<open>Encoding, and what a JSONB column keeps\<close>

fun json_text :: "json \<Rightarrow> string" where
  "json_text JNull = ''null''"
| "json_text (JBool b) = (if b then ''true'' else ''false'')"
| "json_text (JNumber t) = t"
| "json_text (JString t) = json_string t"
| "json_text (JArray vs) = ''['' @ join '','' (map json_text vs) @ '']''"
| "json_text (JObject ms) = json_object (map (\<lambda>(k, v). (k, json_text v)) ms)"

text \<open>PostgreSQL keeps the members of an object ordered by length and then by bytes.\<close>

fun jsonb :: "json \<Rightarrow> json" where
  "jsonb (JArray vs) = JArray (map jsonb vs)"
| "jsonb (JObject ms) = JObject (sort_key (\<lambda>m. (length (fst m), fst m)) (map (\<lambda>(k, v). (k, jsonb v)) ms))"
| "jsonb v = v"

lemma jsonb_idem [simp]: "jsonb (jsonb v) = jsonb v"
proof (induction v rule: jsonb.induct)
  case (2 ms)
  let ?f = "\<lambda>m :: string \<times> json. (length (fst m), fst m)"
  let ?ns = "map (\<lambda>(k, v). (k, jsonb v)) ms"
  have "map (\<lambda>(k, v). (k, jsonb v)) (sort_key ?f ?ns) = sort_key ?f ?ns"
    by (rule map_idI) (use 2 in auto)
  moreover have "sort_key ?f (sort_key ?f ?ns) = sort_key ?f ?ns"
    by (rule sort_key_id_if_sorted) simp
  ultimately show ?case by simp
qed auto

section \<open>The fuel is enough\<close>

lemma skip_space_le: "skip_space s = c # r \<Longrightarrow> length r < length s"
  using length_dropWhile_le [of is_json_space s] by simp

lemma p_str_shorter: "p_str s = Some (t, r) \<Longrightarrow> length r < length s"
proof (induction s arbitrary: t r rule: p_str.induct)
  case (2 c s)
  note eq = 2(6) [unfolded p_str.simps(2)]
  consider (quote) "c = CHR 0x22" | (escape) "c = CHR 0x5C" | (plain) "c \<noteq> CHR 0x22" "c \<noteq> CHR 0x5C" "byte c < 128"
    | (multi) "c \<noteq> CHR 0x22" "c \<noteq> CHR 0x5C" "\<not> byte c < 128" by blast
  then show ?case
  proof cases
    case escape
    with eq obtain x r0 where s: "s = x # r0" by (cases s) auto
    show ?thesis
    proof (cases "x = CHR ''u''")
      case True
      with eq escape s obtain t0 r1 t1 where "unquote_u r0 = Some (t0, r1)" "p_str r1 = Some (t1, r)"
        by (auto split: option.splits)
      then show ?thesis using 2(1) escape s True unquote_u_shorter by fastforce
    next
      case False
      with eq escape s obtain y t1 where "escape_char x = Some y" "p_str r0 = Some (t1, r)" by (auto split: option.splits)
      then show ?thesis using 2(2) escape s False by fastforce
    qed
  next
    case plain
    with eq obtain t1 where "p_str s = Some (t1, r)" by (auto split: if_splits)
    then show ?thesis using 2(3) plain eq by (auto split: if_splits)
  next
    case multi
    then show ?thesis
    proof (cases "utf8_len (c # s) = 0")
      case True
      with eq multi obtain t1 where "p_str s = Some (t1, r)" by (auto simp: Let_def)
      then show ?thesis using 2(4) [of 0 t1 r] multi True by simp
    next
      case False
      with eq multi obtain t1 where "p_str (drop (utf8_len (c # s)) (c # s)) = Some (t1, r)" by (auto simp: Let_def)
      then have "length r < length (drop (utf8_len (c # s)) (c # s))" using 2(5) multi False by auto
      then show ?thesis by simp
    qed
  qed (use eq in auto)
qed simp

lemma p_digits_shorter: "p_digits s = Some (t, r) \<Longrightarrow> length r < length s"
  by (cases s) (auto simp: p_digits_def split: if_splits intro: le_imp_less_Suc length_dropWhile_le)

lemma p_number_shorter: "p_number s = Some (t, r) \<Longrightarrow> length r < length s"
proof -
  have i: "length r < length s" if "p_integer s = Some (t, r)" for s t r
    using that by (auto simp: p_integer_def split: list.splits if_splits dest: p_digits_shorter)
  have f: "length r \<le> length s" if "p_fraction s = Some (t, r)" for s t r
    using that by (auto simp: p_fraction_def split: list.splits if_splits dest: p_digits_shorter)
  have x: "length r \<le> length s" if "p_exponent s = Some (t, r)" for s t r
    using that by (auto simp: p_exponent_def split: list.splits if_splits dest!: p_digits_shorter)
  assume "p_number s = Some (t, r)"
  then obtain s1 i1 s2 f1 s3 x1 where "length s1 \<le> length s" "p_integer s1 = Some (i1, s2)" "p_fraction s2 = Some (f1, s3)"
      "p_exponent s3 = Some (x1, r)"
    by (auto simp: p_number_def bind_eq_Some_conv split: if_splits)
       (metis diff_le_self length_drop order_refl)+
  with i [of s1 i1 s2] f [of s2 f1 s3] x [of s3 x1 r] show ?thesis by linarith
qed

lemma p_shorter:
  "p_value f k s = Some (v, r) \<Longrightarrow> length r < length s"
  "p_elements f k s = Some (vs, r') \<Longrightarrow> length r' < length s"
  "p_members f k s = Some (ms, r'') \<Longrightarrow> length r'' < length s"
proof (induction f k s and f k s and f k s arbitrary: v r and vs r' and ms r'' rule: p_value_p_elements_p_members.induct)
  case (2 f k s)
  then obtain c s1 where c: "skip_space s = c # s1" by (auto split: list.splits)
  note l = skip_space_le [OF c]
  have d: "length (drop 1 (skip_space s1)) \<le> length s1" using length_dropWhile_le [of is_json_space s1] by simp
  show ?case
    using 2(3) 2(1,2) [OF c] c l d
    by (auto simp: p_literal_def split: if_splits dest!: p_str_shorter p_number_shorter)
next
  case (4 f k s)
  then obtain v0 r0 c s1 where v: "p_value f k s = Some (v0, r0)" and c: "skip_space r0 = c # s1"
    by (auto split: option.splits list.splits)
  show ?case
    using 4(3) 4(1) [OF v] 4(2) [OF v] v c skip_space_le [OF c] by (fastforce split: if_splits)
next
  case (6 f k s)
  then obtain s1 key s2 s3 v0 s4 d s5 where *: "skip_space s = CHR 0x22 # s1" "p_str s1 = Some (key, s2)" "skip_space s2 = CHR '':'' # s3"
      "p_value f k s3 = Some (v0, s4)" "skip_space s4 = d # s5"
    by (auto split: option.splits list.splits if_splits)
  note l = skip_space_le [OF *(1)] p_str_shorter [OF *(2)] skip_space_le [OF *(3)] skip_space_le [OF *(5)]
  show ?case
    using 6(3) 6(1) [OF *(1) _ *(2) _ *(3) _ *(4)] 6(2) [OF *(1) _ *(2) _ *(3) _ *(4)] * l
    by (fastforce split: if_splits)
qed auto

text \<open>A text that parses with some fuel parses with the fuel \<open>json_parse\<close> gives it.\<close>

lemma p_enough:
  "p_value f k s = Some x \<Longrightarrow> 2 * length s + 2 \<le> g \<Longrightarrow> p_value g k s = Some x"
  "p_elements f k s = Some y \<Longrightarrow> 2 * length s + 3 \<le> g \<Longrightarrow> p_elements g k s = Some y"
  "p_members f k s = Some z \<Longrightarrow> 2 * length s + 3 \<le> g \<Longrightarrow> p_members g k s = Some z"
proof (induction f k s and f k s and f k s arbitrary: g x and g y and g z rule: p_value_p_elements_p_members.induct)
  case (2 f k s)
  from 2(3,4) obtain c s1 g0 where c: "skip_space s = c # s1" and g: "g = Suc g0" by (cases g) (auto split: list.splits)
  with 2(4) skip_space_le [OF c] have e: "2 * length s1 + 3 \<le> g0" by simp
  have "p_elements g0 (k - 1) s1 = Some y'" if "p_elements f (k - 1) s1 = Some y'" "c = CHR ''[''" "k \<noteq> 0" "\<not> prefix '']'' (skip_space s1)" for y'
    by (rule 2(1) [OF c _ that(2,3,4,1) e]) (simp add: that)
  moreover have "p_members g0 (k - 1) s1 = Some y'" if "p_members f (k - 1) s1 = Some y'" "c = CHR ''{''" "k \<noteq> 0" "\<not> prefix ''}'' (skip_space s1)" for y'
    by (rule 2(2) [OF c _ _ that(2,3,4,1) e]) (simp_all add: that)
  ultimately show ?case
    using 2(3) c g by (simp split: if_splits) auto
next
  case (4 f k s)
  from 4(3,4) obtain v0 r0 c s1 g0 where v: "p_value f k s = Some (v0, r0)" and c: "skip_space r0 = c # s1" and g: "g = Suc g0"
    by (cases g) (auto split: option.splits list.splits)
  note l = p_shorter(1) [OF v] skip_space_le [OF c]
  have "p_value g0 k s = Some (v0, r0)" using 4(1) [OF v] 4(4) g by simp
  moreover have "p_elements g0 k s1 = Some y'" if "p_elements f k s1 = Some y'" "c = CHR '',''" for y'
    using 4(2) [OF v refl c that(2) that(1)] 4(4) g l by simp
  ultimately show ?case using 4(3) v c g by (auto split: if_splits)
next
  case (6 f k s)
  from 6(3,4) obtain s1 key s2 s3 v0 s4 d s5 g0 where *: "skip_space s = CHR 0x22 # s1" "p_str s1 = Some (key, s2)" "skip_space s2 = CHR '':'' # s3"
      "p_value f k s3 = Some (v0, s4)" "skip_space s4 = d # s5" and g: "g = Suc g0"
    by (cases g) (auto split: option.splits list.splits if_splits)
  note l = skip_space_le [OF *(1)] p_str_shorter [OF *(2)] skip_space_le [OF *(3)] p_shorter(1) [OF *(4)] skip_space_le [OF *(5)]
  have "p_value g0 k s3 = Some (v0, s4)" using 6(1) [OF *(1) _ *(2) refl *(3) _ *(4)] 6(4) g l by simp
  moreover have "p_members g0 k s5 = Some y'" if "p_members f k s5 = Some y'" "d = CHR '',''" for y'
    using 6(2) [OF *(1) _ *(2) refl *(3) _ *(4) refl *(5) that(2) that(1)] 6(4) g l by simp
  ultimately show ?case using 6(3) * g by (auto split: if_splits)
qed auto

lemma p_value_enough: "p_value f 10000 s = Some (v, r) \<Longrightarrow> skip_space r = [] \<Longrightarrow> json_parse s = Some v"
  using p_enough(1) [of f 10000 s "(v, r)" "2 * length s + 2"] by (simp add: json_parse_def)

section \<open>Strings decode to what was encoded\<close>

lemma hex_value_of: "n < 16 \<Longrightarrow> hex_value (hex_of n) = Some n"
  using hex_value_digit [of n] by (simp add: hex_of_def hex_digit_def)

lemma unquote_u_ascii: "n < 128 \<Longrightarrow> unquote_u (''00'' @ hex_of (n div 16) # hex_of (n mod 16) # t) = Some ([char_of n], t)"
proof -
  assume n: "n < 128"
  then have "n div 16 < 16" "n mod 16 < 16" "n div 16 * 16 + n mod 16 = n" by simp_all
  then have "getu4 (''00'' @ hex_of (n div 16) # hex_of (n mod 16) # t) = Some (n, t)"
    by (simp add: hex_value_of hex_value_def [of "CHR ''0''"] is_digit_def)
  with n show ?thesis by (simp add: unquote_u_def low_surrogate_def utf8_encode_def)
qed

lemma p_str_ascii:
  assumes "byte c < 128"
  shows "p_str (json_ascii c @ t) = map_option (apfst ((#) c)) (p_str t)"
proof -
  have u: "p_str (CHR 0x5C # ''u00'' @ hex_of (byte c div 16) # hex_of (byte c mod 16) # t) = map_option (apfst ((#) c)) (p_str t)"
    using unquote_u_ascii [OF assms, of t] by (cases "p_str t") (simp_all add: p_str.simps(2))
  consider (short) "c \<in> {CHR 0x08, CHR 0x0C, CHR 0x0A, CHR 0x0D, CHR 0x09, CHR 0x22, CHR 0x5C}"
    | (long) "json_ascii c = CHR 0x5C # ''u00'' @ [hex_of (byte c div 16), hex_of (byte c mod 16)]"
    | (same) "json_ascii c = [c]" "\<not> byte c < 32" "c \<noteq> CHR 0x22" "c \<noteq> CHR 0x5C"
  proof (cases "c \<in> {CHR 0x08, CHR 0x0C, CHR 0x0A, CHR 0x0D, CHR 0x09, CHR 0x22, CHR 0x5C}")
    case False
    have "byte c \<noteq> byte d" if "c \<noteq> d" for d :: char using that by simp
    from this [of "CHR 0x08"] this [of "CHR 0x0C"] this [of "CHR 0x0A"] this [of "CHR 0x0D"] this [of "CHR 0x09"] False
    have "byte c \<noteq> 8" "byte c \<noteq> 12" "byte c \<noteq> 10" "byte c \<noteq> 13" "byte c \<noteq> 9" by simp_all
    with False have "json_ascii c = (if byte c < 32 \<or> c = CHR ''<'' \<or> c = CHR ''>'' \<or> c = CHR ''&''
      then CHR 0x5C # ''u00'' @ [hex_of (byte c div 16), hex_of (byte c mod 16)] else [c])" by (simp add: json_ascii_def)
    with False that(2,3) show thesis by (cases "byte c < 32 \<or> c = CHR ''<'' \<or> c = CHR ''>'' \<or> c = CHR ''&''") auto
  qed (use that(1) in blast)
  then show ?thesis
  proof cases
    case short
    then show ?thesis by (elim insertE emptyE) (simp_all add: json_ascii_def p_str.simps(2) escape_char_def)
  next
    case long
    with u show ?thesis by simp
  next
    case same
    with assms show ?thesis by (simp add: p_str.simps(2))
  qed
qed

lemma p_str_json_body: "list_all (\<lambda>c. byte c < 128) s \<Longrightarrow> p_str (json_body s @ CHR 0x22 # t) = Some (s, t)"
  by (induction s) (simp_all add: p_str_ascii p_str.simps(2) [of "CHR 0x22"])

end
