(* ===== verification/Signing.thy ===== *)
theory Signing
  imports Events Json_Decode
begin

text \<open>
  \<^verbatim>\<open>src/internal/events/signing.go\<close>: the provenance signature, a compact JWS (EdDSA) over the
  canonical JSON of the envelope without its signature field. Ed25519 itself and the
  third-party canonicaliser are parameters (\<open>crypto\<close>); private keys are byte strings of a
  32-byte seed followed by the 32-byte public key, as in \<open>crypto/ed25519\<close>.
\<close>

section \<open>Definitions\<close>

record 'p crypto =
  ed_public :: "string \<Rightarrow> string"
  ed_Sign :: "string \<Rightarrow> string \<Rightarrow> string"
  ed_Verify :: "string \<Rightarrow> string \<Rightarrow> string \<Rightarrow> bool"
  jcs_Envelope :: "'p Envelope \<Rightarrow> string result"

text \<open>What the sources rely on: a seed has one 32-byte public key, and it verifies what the private key signs.\<close>

definition ed25519_contract :: "'p crypto \<Rightarrow> bool" where
  "ed25519_contract lib \<longleftrightarrow>
     (\<forall>seed. length (ed_public lib seed) = 32)
     \<and> (\<forall>seed msg. length seed = 32 \<longrightarrow> ed_Verify lib (ed_public lib seed) msg (ed_Sign lib (seed @ ed_public lib seed) msg))"

definition NewKeyFromSeed :: "'p crypto \<Rightarrow> string \<Rightarrow> string" where
  "NewKeyFromSeed lib seed = seed @ ed_public lib seed"

definition Public :: "string \<Rightarrow> string" where
  "Public privateKey = drop 32 privateKey"

record Signer =
  sg_privateKey :: string
  sg_kid :: string

definition signingAlgorithm :: string where "signingAlgorithm = ''EdDSA''"
definition keyIDPrefix :: string where "keyIDPrefix = ''port-interoperability-''"

definition key_decoders :: "(string \<Rightarrow> string option) list" where
  "key_decoders = map b64_DecodeString [RawURLEncoding, URLEncoding, RawStdEncoding, StdEncoding] @ [hex_DecodeString]"

fun try_decoders :: "'p crypto \<Rightarrow> (string \<Rightarrow> string option) list \<Rightarrow> string \<Rightarrow> string result" where
  "try_decoders lib [] encoded = Inl (ErrText ''envelope signing private key must be base64 or hex of 32 or 64 bytes'')"
| "try_decoders lib (decode # ds) encoded =
     (case decode encoded of
        None \<Rightarrow> try_decoders lib ds encoded
      | Some raw \<Rightarrow> if len raw = 32 then Inr (NewKeyFromSeed lib raw)
                    else if len raw = 64 then Inr raw
                    else try_decoders lib ds encoded)"

definition ParsePrivateKey :: "'p crypto \<Rightarrow> string \<Rightarrow> string result" where
  "ParsePrivateKey lib encoded =
     (let encoded = TrimSpace encoded in
      if encoded = [] then Inl (ErrText ''envelope signing private key is empty'')
      else try_decoders lib key_decoders encoded)"

definition NewSigner :: "string \<Rightarrow> string \<Rightarrow> Signer result" where
  "NewSigner privateKey keyEpoch =
     (if len privateKey \<noteq> 64 then Inl (ErrText ''envelope signing private key must be 64 bytes'')
      else if len (Public privateKey) \<noteq> 32 then Inl (ErrText ''envelope signing private key has no valid public half'')
      else let keyEpoch = TrimSpace keyEpoch in
        if keyEpoch = [] then Inl (ErrText ''envelope signing key epoch is required'')
        else if \<not> list_all is_digit keyEpoch then Inl (ErrText ''envelope signing key epoch must be decimal digits'')
        else Inr \<lparr>sg_privateKey = privateKey, sg_kid = keyIDPrefix @ keyEpoch\<rparr>)"

definition validKeyID :: "string \<Rightarrow> bool" where
  "validKeyID kid \<longleftrightarrow> kid \<noteq> [] \<and> len kid \<le> 128 \<and> TrimSpace kid = kid \<and> list_all (\<lambda>c. 33 \<le> byte c \<and> byte c \<le> 126) kid"

definition NewSignerWithKeyID :: "string \<Rightarrow> string \<Rightarrow> Signer result" where
  "NewSignerWithKeyID privateKey kid =
     (if len privateKey \<noteq> 64 then Inl (ErrText ''envelope signing private key must be 64 bytes'')
      else if len (Public privateKey) \<noteq> 32 then Inl (ErrText ''envelope signing private key has no valid public half'')
      else if \<not> validKeyID kid then Inl (ErrText ''JWS kid must be canonical printable text of at most 128 characters'')
      else Inr \<lparr>sg_privateKey = privateKey, sg_kid = kid\<rparr>)"

definition SignerFromEnv :: "'p crypto \<Rightarrow> string \<Rightarrow> string \<Rightarrow> Signer result" where
  "SignerFromEnv lib encoded epoch =
     (if encoded = [] then Inl (ErrText ''ENVELOPE_SIGNING_PRIVATE_KEY must be set'')
      else bindE (wrap_err ''ENVELOPE_SIGNING_PRIVATE_KEY'' (ParsePrivateKey lib encoded)) (\<lambda>privateKey.
        if epoch = [] then Inl (ErrText ''ENVELOPE_SIGNING_KEY_EPOCH must be set'')
        else wrap_err ''ENVELOPE_SIGNING_KEY_EPOCH'' (NewSigner privateKey epoch)))"

definition PublicKey :: "Signer \<Rightarrow> string" where
  "PublicKey s = Public (sg_privateKey s)"

definition protectedHeaderJSON :: "string \<Rightarrow> string" where
  "protectedHeaderJSON kid = json_object [(''alg'', json_string signingAlgorithm), (''kid'', json_string kid)]"

definition strip_signature :: "'p Envelope \<Rightarrow> 'p Envelope" where
  "strip_signature env = env\<lparr>ev_Provenance := (ev_Provenance env)\<lparr>Signature := []\<rparr>\<rparr>"

definition canonicalPayload :: "'p crypto \<Rightarrow> 'p Envelope \<Rightarrow> string result" where
  "canonicalPayload lib env = wrap_err ''JCS-canonicalize envelope'' (jcs_Envelope lib (strip_signature env))"

definition jws_input :: "string \<Rightarrow> string \<Rightarrow> string" where
  "jws_input header64 payload64 = header64 @ ''.'' @ payload64"

definition Sign :: "'p crypto \<Rightarrow> Signer \<Rightarrow> 'p signer" where
  "Sign lib s env =
     bindE (canonicalPayload lib env) (\<lambda>canonical.
     let signingInput = jws_input (b64_encode RawURLEncoding (protectedHeaderJSON (sg_kid s))) (b64_encode RawURLEncoding canonical) in
     Inr (signingInput @ ''.'' @ b64_encode RawURLEncoding (ed_Sign lib (sg_privateKey s) signingInput)))"

definition VerifyWithKeyIDPrefix :: "'p crypto \<Rightarrow> 'p Envelope \<Rightarrow> string \<Rightarrow> string \<Rightarrow> unit result" where
  "VerifyWithKeyIDPrefix lib env publicKey kidPrefix =
     (if kidPrefix = [] then Inl (ErrText ''a JWS kid prefix is required (fail closed)'')
      else if len publicKey \<noteq> 32 then Inl (ErrText ''verification public key must be a valid Ed25519 key'')
      else let parts = split_on (CHR ''.'') (Signature (ev_Provenance env)) in
        if len parts \<noteq> 3 then Inl (ErrText ''provenance signature is not a JWS compact serialization'')
        else bindE (from_option (Wrapf ''decode JWS protected header'' (ErrText ''illegal base64 data''))
                      (b64_DecodeString RawURLEncoding (parts ! 0))) (\<lambda>header.
          bindE (from_option (Wrapf ''parse JWS protected header'' (ErrText ''invalid JSON'')) (unmarshal_strings [''alg'', ''kid''] header)) (\<lambda>parsed.
          if parsed ! 0 \<noteq> signingAlgorithm then Inl (ErrText ''JWS alg is not EdDSA'')
          else if \<not> prefix kidPrefix (parsed ! 1) then Inl (ErrText ''JWS kid does not carry the required prefix'')
          else bindE (from_option (Wrapf ''decode JWS signature'' (ErrText ''illegal base64 data''))
                        (b64_DecodeString RawURLEncoding (parts ! 2))) (\<lambda>signature.
            bindE (canonicalPayload lib env) (\<lambda>canonical.
            if b64_encode RawURLEncoding canonical \<noteq> parts ! 1
            then Inl (ErrText ''envelope does not match the signed canonical payload'')
            else if \<not> ed_Verify lib publicKey (jws_input (parts ! 0) (parts ! 1)) signature
            then Inl (ErrText ''JWS signature verification failed'')
            else Inr ())))))"

definition Verify :: "'p crypto \<Rightarrow> 'p Envelope \<Rightarrow> string \<Rightarrow> unit result" where
  "Verify lib env publicKey = VerifyWithKeyIDPrefix lib env publicKey keyIDPrefix"

definition VerifySignature :: "'p crypto \<Rightarrow> 'p Envelope \<Rightarrow> string \<Rightarrow> bool" where
  "VerifySignature lib env publicKey \<longleftrightarrow> Verify lib env publicKey = Inr ()"

text \<open>A toy signature scheme for concrete evaluations.\<close>

definition toy_crypto :: "'p crypto" where
  "toy_crypto =
     \<lparr>ed_public = (\<lambda>seed. take 32 (seed @ replicate 32 (CHR ''0''))), ed_Sign = (\<lambda>key msg. msg @ drop 32 key),
      ed_Verify = (\<lambda>pk msg z. z = msg @ pk), jcs_Envelope = (\<lambda>env. Inr (ev_EventType env @ fb_ID (ev_FHIR env)))\<rparr>"

lemma toy_crypto_contract: "ed25519_contract toy_crypto"
  by (auto simp: ed25519_contract_def toy_crypto_def)

section \<open>Keys\<close>

lemma TrimSpace_visible_set:
  assumes "s \<noteq> []" and "\<And>c. c \<in> set s \<Longrightarrow> 33 \<le> byte c \<and> byte c \<le> 127"
  shows "TrimSpace s = s"
proof (cases s)
  case (Cons c t)
  with assms(2) [of c] assms(2) [of "last s"] show ?thesis by (simp add: TrimSpace_visible)
qed (use assms in simp)

lemma try_decoders_only:
  assumes "\<And>f x. f \<in> set ds \<Longrightarrow> f t = Some x \<Longrightarrow> x = raw \<or> (length x \<noteq> 32 \<and> length x \<noteq> 64)"
    and "f \<in> set ds" and "f t = Some raw" and "length raw = 32 \<or> length raw = 64"
  shows "try_decoders lib ds t = Inr (if length raw = 32 then NewKeyFromSeed lib raw else raw)"
  using assms
proof (induction ds)
  case (Cons g ds)
  show ?case
  proof (cases "g t = Some raw")
    case True
    with Cons.prems(4) show ?thesis by auto
  next
    case False
    with Cons.prems(1) [of g] have "g t = None \<or> (\<exists>x. g t = Some x \<and> length x \<noteq> 32 \<and> length x \<noteq> 64)" by (cases "g t") auto
    moreover have "try_decoders lib ds t = Inr (if length raw = 32 then NewKeyFromSeed lib raw else raw)"
      by (rule Cons.IH) (use Cons.prems False in auto)
    ultimately show ?thesis by auto
  qed
qed simp

text \<open>
  A signing key is read back whatever way it was written: the text of a
  32-byte seed or of a 64-byte private key, in standard or URL base64, padded or raw, or in
  hexadecimal, parses to that key (for a seed, the key of the seed), although the five
  decoders are tried in turn and hexadecimal text is valid base64 too.
\<close>

theorem ParsePrivateKey_encodings:
  assumes "length raw = 32 \<or> length raw = 64" and "t = b64_encode enc raw \<or> t = EncodeToString raw"
  shows "ParsePrivateKey lib t = Inr (if length raw = 32 then NewKeyFromSeed lib raw else raw)"
proof -
  have "length t \<noteq> 0"
    using assms(2)
  proof
    assume "t = b64_encode enc raw"
    then show ?thesis using assms(1) by (simp only: length_b64_encode) auto
  next
    assume "t = EncodeToString raw"
    then show ?thesis using assms(1) by (simp only: length_EncodeToString) auto
  qed
  moreover have "33 \<le> byte c \<and> byte c \<le> 127" if "c \<in> set t" for c
    using assms(2) that b64_encode_visible [of c enc raw] EncodeToString_visible [of c raw] by auto
  ultimately have "t \<noteq> []" "TrimSpace t = t" using TrimSpace_visible_set [of t] by auto
  then have "ParsePrivateKey lib t = try_decoders lib key_decoders t"
    by (simp add: ParsePrivateKey_def)
  also have "\<dots> = Inr (if length raw = 32 then NewKeyFromSeed lib raw else raw)"
    using assms(2)
  proof
    assume t: "t = b64_encode enc raw"
    show ?thesis
    proof (rule try_decoders_only [of _ _ _ "b64_DecodeString enc"])
      fix f x assume f: "f \<in> set key_decoders" "f t = Some x"
      show "x = raw \<or> (length x \<noteq> 32 \<and> length x \<noteq> 64)"
      proof (cases "f = hex_DecodeString")
        case True
        with f t have "2 * length x = length (b64_encode enc raw)" using hex_DecodeString_length by fastforce
        then show ?thesis using assms(1) by (auto simp: length_b64_encode split: if_splits)
      next
        case False
        with f t show ?thesis using b64_DecodeString_agree [OF _ b64_decode_encode] by (auto simp: key_decoders_def)
      qed
    qed (use t assms(1) in \<open>cases enc; simp add: b64_decode_encode key_decoders_def\<close>)+
  next
    assume t: "t = EncodeToString raw"
    show ?thesis
    proof (rule try_decoders_only [of _ _ _ hex_DecodeString])
      fix f x assume f: "f \<in> set key_decoders" "f t = Some x"
      show "x = raw \<or> (length x \<noteq> 32 \<and> length x \<noteq> 64)"
      proof (cases "f = hex_DecodeString")
        case True
        with f t show ?thesis by (simp add: hex_decode_encode)
      next
        case False
        with f t obtain e where "b64_DecodeString e (EncodeToString raw) = Some x" by (auto simp: key_decoders_def)
        from b64_of_hex_length [OF this, of "length raw div 2"] assms(1) show ?thesis by auto
      qed
    qed (use t assms(1) in \<open>simp_all add: hex_decode_encode key_decoders_def\<close>)
  qed
  finally show ?thesis .
qed

theorem ParsePrivateKey_encodings_witness:
  "ParsePrivateKey toy_crypto (EncodeToString (replicate 32 (CHR ''k''))) = Inr (replicate 64 (CHR ''k''))"
  using ParsePrivateKey_encodings [of "replicate 32 (CHR ''k'')" "EncodeToString (replicate 32 (CHR ''k''))" StdEncoding toy_crypto]
  by (simp add: NewKeyFromSeed_def toy_crypto_def replicate_add [symmetric])

section \<open>Signatures\<close>

lemma strip_signature_idem [simp]: "strip_signature (env\<lparr>ev_Provenance := (ev_Provenance env)\<lparr>Signature := s\<rparr>\<rparr>) = strip_signature env"
  by (simp add: strip_signature_def)

lemma split_on_append:
  "c \<notin> set a \<Longrightarrow> split_on c (a @ c # b) = a # split_on c b"
  by (induction a) auto

lemma split_on_none: "c \<notin> set a \<Longrightarrow> split_on c a = [a]"
  by (induction a) auto

lemma b64_char_no_dot: "n < 64 \<Longrightarrow> b64_char enc n \<noteq> CHR ''.''"
  using b64_value_char [of n enc] by (cases enc) (auto simp: b64_value_def char_class_defs)

lemma b64_encode_no_dot: "CHR ''.'' \<notin> set (b64_encode enc s)"
proof (induction enc s rule: b64_encode.induct)
  case (2 enc x)
  show ?case using byte_split [of "byte x" "0" 0] by (auto simp: b64_pad_def b64_char_no_dot [symmetric])
next
  case (3 enc x y)
  show ?case using byte_split [of "byte x" "byte y" 0] by (auto simp: b64_pad_def b64_char_no_dot [symmetric])
next
  case (4 enc x y z s)
  then show ?case using byte_split [of "byte x" "byte y" "byte z"] by (auto simp: b64_char_no_dot [symmetric])
qed simp

lemma header_parses:
  assumes "list_all (\<lambda>c. byte c < 128) kid"
  shows "unmarshal_strings [''alg'', ''kid''] (protectedHeaderJSON kid) = Some [signingAlgorithm, kid]"
proof -
  let ?h = "protectedHeaderJSON kid"
  have "?h = ''{'' @ CHR 0x22 # json_body ''alg'' @ CHR 0x22 # CHR '':'' # CHR 0x22 # json_body ''EdDSA'' @ CHR 0x22 # CHR '','' #
      CHR 0x22 # json_body ''kid'' @ CHR 0x22 # CHR '':'' # CHR 0x22 # json_body kid @ CHR 0x22 # ''}''"
    by (simp add: protectedHeaderJSON_def json_object_def json_string_def join_def signingAlgorithm_def)
  moreover have "p_str (json_body ''alg'' @ CHR 0x22 # t) = Some (''alg'', t)" "p_str (json_body ''kid'' @ CHR 0x22 # t) = Some (''kid'', t)"
      "p_str (json_body ''EdDSA'' @ CHR 0x22 # t) = Some (''EdDSA'', t)" "p_str (json_body kid @ CHR 0x22 # t) = Some (kid, t)" for t
    using assms by (simp_all add: p_str_json_body del: json_body.simps)
  ultimately have "p_value 5 10000 ?h = Some (JObject [(''alg'', JString ''EdDSA''), (''kid'', JString kid)], [])"
    by (simp add: eval_nat_numeral is_json_space_def del: json_body.simps)
  then have "json_parse ?h = Some (JObject [(''alg'', JString ''EdDSA''), (''kid'', JString kid)])"
    by (rule p_value_enough) simp
  moreover have "fold_name ''alg'' = ''alg''" "fold_name ''kid'' = ''kid''" by code_simp+
  ultimately show ?thesis by (simp add: unmarshal_strings_def signingAlgorithm_def del: fold_name.simps)
qed

definition service_signer :: "'p crypto \<Rightarrow> Signer \<Rightarrow> bool" where
  "service_signer lib s \<longleftrightarrow>
     (\<exists>seed. length seed = 32 \<and> sg_privateKey s = NewKeyFromSeed lib seed)
     \<and> (\<exists>epoch. sg_kid s = keyIDPrefix @ epoch \<and> list_all is_digit epoch)"

lemma NewSigner_service:
  assumes "ed25519_contract lib" and "length seed = 32" and "NewSigner (NewKeyFromSeed lib seed) epoch = Inr s"
  shows "service_signer lib s"
  using assms by (auto simp: NewSigner_def service_signer_def Let_def split: if_splits)

lemma Verify_signed:
  assumes "ed25519_contract lib" and "service_signer lib s" and "Sign lib s env = Inr sg"
    and "env' = env\<lparr>ev_Provenance := (ev_Provenance env)\<lparr>Signature := sg\<rparr>\<rparr>"
  shows "Verify lib env' (PublicKey s) = Inr ()"
proof -
  from assms(2) obtain seed epoch where seed: "length seed = 32" "sg_privateKey s = seed @ ed_public lib seed"
      and kid: "sg_kid s = keyIDPrefix @ epoch" "list_all is_digit epoch"
    by (auto simp: service_signer_def NewKeyFromSeed_def)
  from assms(3) obtain canonical where c: "canonicalPayload lib env = Inr canonical" by (auto simp: Sign_def bindE_Inr_iff)
  define h where "h = b64_encode RawURLEncoding (protectedHeaderJSON (sg_kid s))"
  define p where "p = b64_encode RawURLEncoding canonical"
  define z where "z = ed_Sign lib (sg_privateKey s) (jws_input h p)"
  have sg: "sg = h @ CHR ''.'' # p @ CHR ''.'' # b64_encode RawURLEncoding z"
    using assms(3) c by (simp add: Sign_def h_def p_def z_def Let_def jws_input_def)
  have parts: "split_on (CHR ''.'') sg = [h, p, b64_encode RawURLEncoding z]"
    unfolding sg by (simp add: h_def p_def split_on_append split_on_none b64_encode_no_dot)
  have "list_all (\<lambda>c. byte c < 128) epoch" using kid(2) by (auto simp: list_all_iff is_digit_def)
  then have ascii: "list_all (\<lambda>c. byte c < 128) (sg_kid s)" by (simp add: kid keyIDPrefix_def)
  have pub: "PublicKey s = ed_public lib seed" "length (PublicKey s) = 32"
    using seed assms(1) by (simp_all add: PublicKey_def Public_def ed25519_contract_def)
  have ok: "ed_Verify lib (PublicKey s) (jws_input h p) z"
    using assms(1) seed pub by (simp add: ed25519_contract_def z_def)
  have "canonicalPayload lib env' = Inr canonical" using c by (simp add: canonicalPayload_def assms(4))
  moreover have "Signature (ev_Provenance env') = sg" by (simp add: assms(4))
  moreover have "b64_DecodeString RawURLEncoding h = Some (protectedHeaderJSON (sg_kid s))" by (simp add: h_def b64_decode_encode)
  moreover have "prefix keyIDPrefix (sg_kid s)" by (simp add: kid)
  ultimately show ?thesis
    using parts ok pub(2) header_parses [OF ascii]
    by (simp add: Verify_def VerifyWithKeyIDPrefix_def b64_decode_encode p_def [symmetric] keyIDPrefix_def)
qed

lemma Message_signed:
  assumes "Message ty topic corr sub p ext prov at (Some sign) e = Inr env"
  shows "\<exists>env0 sg. sign env0 = Inr sg \<and> env = env0\<lparr>ev_Provenance := (ev_Provenance env0)\<lparr>Signature := sg\<rparr>\<rparr>"
proof -
  let ?env0 = "\<lparr>ev_EnvelopeVersion = ''1.0'', ev_EventID = rnd e 1, ev_EventType = ty, ev_OccurredAt = at,
      ev_Producer = ''s1-port-interoperability'', ev_CorrelationID = corr, ev_Classification = ''INTERNAL'',
      ev_FHIR = \<lparr>fb_Timestamp = at, fb_FullURL = ''urn:uuid:'' @ rnd e 0, fb_ID = sub, fb_Code = ty, fb_Extension = entry_extensions p ext\<rparr>,
      ev_Provenance = prov\<rparr>"
  from assms obtain sg where "sign ?env0 = Inr sg" "env = ?env0\<lparr>ev_Provenance := prov\<lparr>Signature := sg\<rparr>\<rparr>"
    by (simp add: Message_def Let_def split: if_splits sum.splits)
  then show ?thesis by (intro exI [of _ ?env0] exI [of _ sg]) simp
qed

lemma Message_ok:
  assumes "TrimSpace ty \<noteq> []" and "validTopic topic" and "TrimSpace corr \<noteq> []" and "TrimSpace sub \<noteq> []"
    and "TrimSpace (PrincipalID prov) \<noteq> []" and "TrimSpace (PrincipalRole prov) \<noteq> []"
    and "\<And>x. \<exists>z. sign x = Inr z" and "\<not> list_ex (\<lambda>key. TrimSpace key = []) (map fst ext)"
  shows "\<exists>env. Message ty topic corr sub p ext prov at (Some sign) e = Inr env"
proof -
  define env0 where "env0 = \<lparr>ev_EnvelopeVersion = ''1.0'', ev_EventID = rnd e 1, ev_EventType = ty, ev_OccurredAt = at,
      ev_Producer = ''s1-port-interoperability'', ev_CorrelationID = corr, ev_Classification = ''INTERNAL'',
      ev_FHIR = \<lparr>fb_Timestamp = at, fb_FullURL = ''urn:uuid:'' @ rnd e 0, fb_ID = sub, fb_Code = ty, fb_Extension = entry_extensions p ext\<rparr>,
      ev_Provenance = prov\<rparr>"
  obtain z where "sign env0 = Inr z" using assms(7) by blast
  with assms(1-6,8) show ?thesis by (simp add: Message_def Let_def env0_def)
qed

lemma Verify_payload:
  assumes "Verify lib env pk = Inr ()"
  shows "\<exists>canonical h z. canonicalPayload lib env = Inr canonical
    \<and> split_on (CHR ''.'') (Signature (ev_Provenance env)) = [h, b64_encode RawURLEncoding canonical, z]"
proof -
  let ?ps = "split_on (CHR ''.'') (Signature (ev_Provenance env))"
  from assms obtain canonical where "length ?ps = 3" "canonicalPayload lib env = Inr canonical" "b64_encode RawURLEncoding canonical = ?ps ! 1"
    by (auto simp: Verify_def VerifyWithKeyIDPrefix_def bindE_Inr_iff Let_def split: if_splits)
  then show ?thesis by (auto simp: numeral_3_eq_3 length_Suc_conv)
qed

text \<open>
  Claim C18. Signing round trip: an envelope that the service builds and signs with a key
  made of a seed verifies against the public half of that key, and any other envelope that
  carries the same signature and verifies has the same canonical payload, so a signed
  envelope cannot be altered in anything the canonical form shows. The contract of Ed25519 is
  a hypothesis.
\<close>

theorem signed_envelope_verifies:
  assumes "ed25519_contract lib" and "length seed = 32" and "NewSigner (NewKeyFromSeed lib seed) epoch = Inr s"
    and "Message ty topic corr sub p ext prov at (Some (Sign lib s)) e = Inr env"
  shows "VerifySignature lib env (PublicKey s)
    \<and> (\<forall>env'. VerifySignature lib env' pk \<and> Signature (ev_Provenance env') = Signature (ev_Provenance env)
        \<longrightarrow> canonicalPayload lib env' = canonicalPayload lib env)"
proof -
  note srv = NewSigner_service [OF assms(1-3)]
  from Message_signed [OF assms(4)] obtain env0 sg
    where sg: "Sign lib s env0 = Inr sg" "env = env0\<lparr>ev_Provenance := (ev_Provenance env0)\<lparr>Signature := sg\<rparr>\<rparr>"
    by blast
  have ok: "Verify lib env (PublicKey s) = Inr ()" by (rule Verify_signed [OF assms(1) srv sg])
  moreover have "canonicalPayload lib env' = canonicalPayload lib env"
    if "Verify lib env' pk = Inr ()" "Signature (ev_Provenance env') = Signature (ev_Provenance env)" for env'
  proof -
    from Verify_payload [OF ok] Verify_payload [OF that(1)] that(2) obtain c c' where
      "canonicalPayload lib env = Inr c" "canonicalPayload lib env' = Inr c'" "b64_encode RawURLEncoding c = b64_encode RawURLEncoding c'"
      by auto
    moreover from this(3) have "Some c = Some c'"
      using arg_cong [of _ _ "b64_DecodeString RawURLEncoding"] by (metis b64_decode_encode)
    ultimately show ?thesis by simp
  qed
  ultimately show ?thesis by (auto simp: VerifySignature_def)
qed

theorem signed_envelope_verifies_witness:
  "\<exists>s env. NewSigner (NewKeyFromSeed (toy_crypto :: nat crypto) (replicate 32 (CHR ''k''))) ''7'' = Inr s
    \<and> Message ''booking.paid'' TopicBooking ''corr'' ''bk-1'' (7::nat) [(''gate'', ''G1'')]
        \<lparr>PrincipalID = ''p'', PrincipalRole = ''r'', Signature = [], LedgerCommitHash = []\<rparr> 5 (Some (Sign toy_crypto s))
        \<lparr>clk = (\<lambda>_. 0), rnd = (\<lambda>_. ''u'')\<rparr> = Inr env
    \<and> VerifySignature toy_crypto env (PublicKey s)"
proof -
  obtain s where s: "NewSigner (NewKeyFromSeed (toy_crypto :: nat crypto) (replicate 32 (CHR ''k''))) ''7'' = Inr s"
    by (simp add: NewSigner_def Public_def NewKeyFromSeed_def toy_crypto_def TrimSpace_visible is_digit_def)
  have v: "TrimSpace ''booking.paid'' \<noteq> []" "TrimSpace ''corr'' \<noteq> []" "TrimSpace ''bk-1'' \<noteq> []" "TrimSpace ''p'' \<noteq> []" "TrimSpace ''r'' \<noteq> []"
    "TrimSpace ''gate'' \<noteq> []" by (simp_all add: TrimSpace_visible)
  have sign: "\<exists>z. Sign toy_crypto s x = Inr z" for x :: "nat Envelope"
    by (simp add: Sign_def canonicalPayload_def toy_crypto_def wrap_err_def Let_def)
  obtain env where env: "Message ''booking.paid'' TopicBooking ''corr'' ''bk-1'' (7::nat) [(''gate'', ''G1'')]
        \<lparr>PrincipalID = ''p'', PrincipalRole = ''r'', Signature = [], LedgerCommitHash = []\<rparr> 5 (Some (Sign toy_crypto s))
        \<lparr>clk = (\<lambda>_. 0), rnd = (\<lambda>_. ''u'')\<rparr> = Inr env"
    using Message_ok [of "''booking.paid''" TopicBooking "''corr''" "''bk-1''"
        "\<lparr>PrincipalID = ''p'', PrincipalRole = ''r'', Signature = [], LedgerCommitHash = []\<rparr>" "Sign toy_crypto s" "[(''gate'', ''G1'')]"
        7 5 "\<lparr>clk = (\<lambda>_. 0), rnd = (\<lambda>_. ''u'')\<rparr>"] v sign
    by (auto simp: validTopic_def)
  show ?thesis
    using s env signed_envelope_verifies [OF toy_crypto_contract _ s env, of "[]"] by auto
qed

end
