(* ===== verification/Securechain.thy ===== *)
theory Securechain
  imports Signing Outbox Identifiers
begin

text \<open>
  \<^verbatim>\<open>src/internal/securechain/model.go\<close> and the tables of \<^verbatim>\<open>0019_secure_chain.sql\<close>: release
  chains, their links, single-use release tokens and the hash-chained audit ledger. The
  third-party JSON canonicaliser is the parameter \<open>jcs\<close> on JSON values; audit payloads are JSON
  values, so the test that a payload is valid JSON holds by type.
\<close>

section \<open>Model\<close>

datatype CStatus = C_ACTIVE | C_COMPLETED | C_REVOKED | C_EXPIRED

fun chain_status_text :: "CStatus \<Rightarrow> string" where
  "chain_status_text C_ACTIVE = ''ACTIVE''"
| "chain_status_text C_COMPLETED = ''COMPLETED''"
| "chain_status_text C_REVOKED = ''REVOKED''"
| "chain_status_text C_EXPIRED = ''EXPIRED''"

datatype LinkState = LinkPending | LinkAccepted | LinkDeclined | LinkRevoked

definition digestPattern :: "segment list" where
  "digestPattern = [Seg is_hex 64 64]"

definition ValidContainerID :: "string \<Rightarrow> bool" where
  "ValidContainerID value = containerid_Valid value"

definition ValidDigest :: "string \<Rightarrow> bool" where
  "ValidDigest value = match_regex digestPattern value"

text \<open>The number of runes of a text; a byte that starts no valid sequence counts as one.\<close>

function rune_count :: "string \<Rightarrow> nat" where
  "rune_count [] = 0"
| "rune_count (c # s) = Suc (rune_count (drop (utf8_len (c # s) - 1) s))"
  by pat_completeness auto
termination
  by (relation "measure length") auto

definition ValidOrg :: "string \<Rightarrow> bool" where
  "ValidOrg value \<longleftrightarrow> 2 \<le> rune_count value \<and> rune_count value \<le> 128 \<and> CHR ''|'' \<notin> set value"

record Link =
  lk_ChainID :: string
  lk_Seq :: int
  lk_FromOrg :: string
  lk_ToOrg :: string
  lk_NominatedBy :: string
  lk_NominatedAt :: time
  lk_AcceptedAt :: "time option"
  lk_DeclinedAt :: "time option"
  lk_RevokedAt :: "time option"
  lk_DeclineReason :: "string option"
  lk_PrevHash :: string
  lk_LinkHash :: string

definition link_State :: "Link \<Rightarrow> LinkState" where
  "link_State l =
     (if lk_AcceptedAt l \<noteq> None then LinkAccepted else if lk_DeclinedAt l \<noteq> None then LinkDeclined
      else if lk_RevokedAt l \<noteq> None then LinkRevoked else LinkPending)"

text \<open>The row of a chain holds its idempotency key too, which no answer shows; \<open>Links\<close> is filled by a read only.\<close>

record Chain =
  ch_ChainID :: string
  ch_TenantID :: string
  ch_IdempotencyKey :: string
  ch_ContainerID :: string
  ch_BLDigest :: string
  ch_IssuerOrg :: string
  ch_Status :: CStatus
  ch_VelocityHold :: bool
  ch_HoldReason :: "string option"
  ch_RevokeReason :: "string option"
  ch_ExpiresAt :: time
  ch_CreatedAt :: time
  ch_UpdatedAt :: time
  ch_Version :: int
  ch_Links :: "Link list"
  ch_CompletedAt :: "time option"

text \<open>The text of a release token is the JSON of the signed envelope; the column could hold other text.\<close>

type_synonym chain_payload = "(string \<times> string) list"

datatype token_text = EnvelopeText "chain_payload Envelope" | OtherText string

record ReleaseToken =
  tk_Nonce :: string
  tk_TenantID :: string
  tk_ChainID :: string
  tk_ContainerID :: string
  tk_HolderOrg :: string
  tk_TokenJWS :: token_text
  tk_IssuedAt :: time
  tk_ExpiresAt :: time
  tk_ConsumedAt :: "time option"
  tk_ConsumedGate :: "string option"

record AuditEntry =
  ae_AuditSeq :: int
  ae_TenantID :: string
  ae_ChainID :: string
  ae_EventType :: string
  ae_Payload :: json
  ae_PrevHash :: string
  ae_EntryHash :: string
  ae_CreatedAt :: time

record BLAuthority =
  bl_TenantID :: string
  bl_BLDigest :: string
  bl_ContainerID :: string
  bl_ShippingLineOrg :: string
  bl_RegisteredAt :: time

record sdb =
  secure_chain_bl_registry :: "BLAuthority list"
  secure_chains :: "Chain list"
  secure_chain_links :: "Link list"
  secure_chain_tokens :: "ReleaseToken list"
  secure_chain_audit :: "AuditEntry list"
  chain_outbox :: "chain_payload outbox_row list"

definition empty_sdb :: sdb where
  "empty_sdb = \<lparr>secure_chain_bl_registry = [], secure_chains = [], secure_chain_links = [], secure_chain_tokens = [],
     secure_chain_audit = [], chain_outbox = []\<rparr>"

section \<open>Hashes\<close>

definition ZeroHash :: string where
  "ZeroHash = replicate 64 (CHR ''0'')"

definition linkPreimage :: "string \<Rightarrow> int \<Rightarrow> string \<Rightarrow> string \<Rightarrow> string \<Rightarrow> time \<Rightarrow> json" where
  "linkPreimage chainID seq fromOrg toOrg nominatedBy nominatedAt =
     JObject [(''chainId'', JString chainID), (''seq'', JNumber (fmt_d seq)), (''fromOrg'', JString fromOrg), (''toOrg'', JString toOrg),
              (''nominatedBy'', JString nominatedBy), (''nominatedAt'', JString (rfc3339nano nominatedAt))]"

definition chain_digest :: "string \<Rightarrow> string \<Rightarrow> string" where
  "chain_digest prevHash body = EncodeToString (Sum256 (prevHash @ ''|'' @ body))"

definition LinkHash ::
  "(json \<Rightarrow> string result) \<Rightarrow> string \<Rightarrow> string \<Rightarrow> int \<Rightarrow> string \<Rightarrow> string \<Rightarrow> string \<Rightarrow> time \<Rightarrow> string result" where
  "LinkHash jcs prevHash chainID seq fromOrg toOrg nominatedBy nominatedAt =
     (if \<not> ValidDigest prevHash then Inl (ErrText ''previous link hash is not a SHA-256 hex digest'')
      else bindE (wrap_err ''JCS-canonicalize link preimage'' (jcs (linkPreimage chainID seq fromOrg toOrg nominatedBy nominatedAt)))
             (\<lambda>canonical. Inr (chain_digest prevHash canonical)))"

definition AuditHash :: "(json \<Rightarrow> string result) \<Rightarrow> string \<Rightarrow> json \<Rightarrow> string result" where
  "AuditHash jcs prevHash payload =
     (if \<not> ValidDigest prevHash then Inl (ErrText ''previous audit hash is not a SHA-256 hex digest'')
      else bindE (wrap_err ''JCS-canonicalize audit payload'' (jcs payload)) (\<lambda>canonical. Inr (chain_digest prevHash canonical)))"

lemma is_hex_digit: "n < 16 \<Longrightarrow> is_hex (hex_digit n)"
proof -
  assume "n < 16"
  then have "n \<in> set [0..<16]" by simp
  moreover have "list_all (\<lambda>n. is_hex (hex_digit n)) [0..<16]" by code_simp
  ultimately show ?thesis by (simp add: list_all_iff)
qed

lemma EncodeToString_hex: "list_all is_hex (EncodeToString s)"
proof (induction s)
  case (Cons c s)
  have "byte c div 16 < 16" using byte_less [of c] by (simp only: less_mult_imp_div_less)
  with Cons show ?case by (simp add: EncodeToString_def is_hex_digit)
qed (simp add: EncodeToString_def)

lemma ValidDigest_alt: "ValidDigest s \<longleftrightarrow> length s = 64 \<and> list_all is_hex s"
  by (auto simp: ValidDigest_def digestPattern_def match_regex_single simp del: match_regex.simps)

lemma ValidDigest_chain_digest [simp]: "ValidDigest (chain_digest p c)"
  by (simp add: ValidDigest_alt chain_digest_def EncodeToString_hex)

lemma ValidDigest_Zero [simp]: "ValidDigest ZeroHash"
  by (simp add: ValidDigest_alt ZeroHash_def list_all_length is_hex_def is_digit_def)

lemma LinkHash_Inr: "LinkHash jcs p i n f t b at = Inr h \<Longrightarrow> ValidDigest h"
  by (auto simp: LinkHash_def bindE_Inr_iff split: if_splits)

lemma AuditHash_Inr: "AuditHash jcs p v = Inr h \<Longrightarrow> ValidDigest h \<and> ValidDigest p"
  by (auto simp: AuditHash_def bindE_Inr_iff split: if_splits)

section \<open>The tail\<close>

record tail =
  tl_holderOrg :: string
  tl_pendingLink :: "Link option"
  tl_lastSeq :: int
  tl_lastHash :: string

text \<open>The query leaves the decline reason out. The rows of a chain are read in the order of their sequence numbers.\<close>

definition scan_link :: "Link \<Rightarrow> Link" where
  "scan_link l = l\<lparr>lk_DeclineReason := None\<rparr>"

definition listLinks :: "sdb \<Rightarrow> string \<Rightarrow> Link list" where
  "listLinks d chainID = map scan_link (sort_key lk_Seq (filter (\<lambda>l. lk_ChainID l = chainID) (secure_chain_links d)))"

definition tail_step :: "tail \<Rightarrow> Link \<Rightarrow> tail" where
  "tail_step t l =
     (let t = t\<lparr>tl_lastSeq := lk_Seq l, tl_lastHash := lk_LinkHash l\<rparr> in
      case link_State l of
        LinkPending \<Rightarrow> t\<lparr>tl_pendingLink := Some l, tl_holderOrg := lk_FromOrg l\<rparr>
      | LinkAccepted \<Rightarrow> t\<lparr>tl_pendingLink := None, tl_holderOrg := lk_ToOrg l\<rparr>
      | LinkDeclined \<Rightarrow> t\<lparr>tl_pendingLink := None, tl_holderOrg := lk_FromOrg l\<rparr>
      | LinkRevoked \<Rightarrow> t\<lparr>tl_pendingLink := None, tl_holderOrg := []\<rparr>)"

definition tailOf :: "sdb \<Rightarrow> Chain \<Rightarrow> tail" where
  "tailOf d chain =
     foldl tail_step \<lparr>tl_holderOrg = ch_IssuerOrg chain, tl_pendingLink = None, tl_lastSeq = 0, tl_lastHash = ZeroHash\<rparr>
       (listLinks d (ch_ChainID chain))"

section \<open>Constraints of the tables\<close>

definition org_length :: "string \<Rightarrow> bool" where
  "org_length s \<longleftrightarrow> 2 \<le> pg_length s \<and> pg_length s \<le> 128"

text \<open>The trigger on the insertion of a link, then the checks and the two unique indexes.\<close>

definition link_guard :: "sdb \<Rightarrow> Chain \<Rightarrow> Link \<Rightarrow> pg_violation option" where
  "link_guard d chain new =
     (if ch_Status chain \<noteq> C_ACTIVE then Some (CheckViolation ''links are appendable only while ACTIVE'')
      else case rev (sort_key lk_Seq (filter (\<lambda>l. lk_ChainID l = lk_ChainID new) (secure_chain_links d))) of
        [] \<Rightarrow>
          if lk_Seq new \<noteq> 1 then Some (CheckViolation ''first secure-chain link must have seq 1'')
          else if lk_FromOrg new \<noteq> ch_IssuerOrg chain then Some (CheckViolation ''first secure-chain link must be nominated by the issuer'')
          else if lk_PrevHash new \<noteq> ZeroHash then Some (CheckViolation ''first secure-chain link must anchor on the zero hash'')
          else None
      | previous # _ \<Rightarrow>
          if lk_Seq new \<noteq> lk_Seq previous + 1 then Some (CheckViolation ''secure-chain link seq does not follow'')
          else if lk_PrevHash new \<noteq> lk_LinkHash previous then Some (CheckViolation ''secure-chain link breaks the hash chain'')
          else if link_State previous = LinkPending then Some (CheckViolation ''secure chain already has a pending nomination'')
          else if lk_AcceptedAt previous \<noteq> None \<and> lk_FromOrg new \<noteq> lk_ToOrg previous then Some (CheckViolation ''secure-chain tail cannot nominate'')
          else if lk_DeclinedAt previous \<noteq> None \<and> lk_FromOrg new \<noteq> lk_FromOrg previous
          then Some (CheckViolation ''declined secure-chain nomination returns the tail'')
          else if lk_RevokedAt previous \<noteq> None then Some (CheckViolation ''secure chain is revoked at the tail'')
          else None)"

definition link_insert_error :: "sdb \<Rightarrow> Chain \<Rightarrow> Link \<Rightarrow> pg_violation option" where
  "link_insert_error d chain new =
     (case link_guard d chain new of
        Some v \<Rightarrow> Some v
      | None \<Rightarrow>
          if lk_Seq new \<le> 0 \<or> \<not> org_length (lk_FromOrg new) \<or> \<not> org_length (lk_ToOrg new) \<or> \<not> ValidDigest (lk_PrevHash new)
             \<or> \<not> ValidDigest (lk_LinkHash new) \<or> lk_FromOrg new = lk_ToOrg new
          then Some (CheckViolation ''secure_chain_links_check'')
          else if list_ex (\<lambda>l. lk_ChainID l = lk_ChainID new \<and> lk_Seq l = lk_Seq new) (secure_chain_links d)
          then Some (UniqueViolation ''secure_chain_links_pkey'')
          else if list_ex (\<lambda>l. lk_ChainID l = lk_ChainID new \<and> link_State l = LinkPending) (secure_chain_links d)
          then Some (UniqueViolation ''secure_chain_links_pending_idx'')
          else None)"

definition chain_insert_error :: "sdb \<Rightarrow> Chain \<Rightarrow> pg_violation option" where
  "chain_insert_error d new =
     (if pg_length (ch_IdempotencyKey new) < 8 \<or> pg_length (ch_IdempotencyKey new) > 128 \<or> \<not> org_length (ch_IssuerOrg new)
      then Some (CheckViolation ''secure_chains_check'')
      else if list_ex (\<lambda>c. ch_ChainID c = ch_ChainID new) (secure_chains d) then Some (UniqueViolation ''secure_chains_pkey'')
      else if list_ex (\<lambda>c. ch_TenantID c = ch_TenantID new \<and> ch_IdempotencyKey c = ch_IdempotencyKey new) (secure_chains d)
      then Some (UniqueViolation ''secure_chains_tenant_id_idempotency_key_key'')
      else if list_ex (\<lambda>c. ch_TenantID c = ch_TenantID new \<and> ch_ContainerID c = ch_ContainerID new \<and> ch_Status c = C_ACTIVE) (secure_chains d)
      then Some (UniqueViolation ''secure_chains_active_container_idx'')
      else None)"

definition token_insert_error :: "sdb \<Rightarrow> ReleaseToken \<Rightarrow> pg_violation option" where
  "token_insert_error d new =
     (if \<not> ValidDigest (tk_Nonce new) \<or> tk_ExpiresAt new \<le> tk_IssuedAt new then Some (CheckViolation ''secure_chain_tokens_check'')
      else if list_ex (\<lambda>t. tk_Nonce t = tk_Nonce new) (secure_chain_tokens d) then Some (UniqueViolation ''secure_chain_tokens_pkey'')
      else None)"

end
