(* ===== verification/Securechain_Store.thy ===== *)
theory Securechain_Store
  imports Securechain
begin

text \<open>
  The operations of \<^verbatim>\<open>src/internal/securechain/store.go\<close>, \<^verbatim>\<open>verify.go\<close> and \<^verbatim>\<open>workflow.go\<close>. Each runs in a
  tenant transaction and sees the rows of its tenant; \<open>..._work\<close> is the unit of work. A chain
  id of a request is text: PostgreSQL reads it as a UUID (\<open>cl_uuid\<close>), while hashes, events and
  answers carry the text as it came. A table check that the code in front of it implies is
  not repeated: the write-once trigger of links holds for the pending link that is resolved.
\<close>

section \<open>The store\<close>

record chain_lib =
  cl_crypto :: "chain_payload crypto"
  cl_jcs :: "json \<Rightarrow> string result"
  cl_uuid :: "string \<Rightarrow> string option"
  cl_upper :: "string \<Rightarrow> string"

record ChainConfig =
  cf_TokenTTL :: time
  cf_VelocityThreshold :: int
  cf_VelocityHold :: bool

record cstore =
  cs_lib :: chain_lib
  cs_signer :: Signer
  cs_config :: ChainConfig

definition DefaultTokenTTL :: time where "DefaultTokenTTL = 15 * 60 * 1000000"
definition DefaultChainTTL :: time where "DefaultChainTTL = 30 * 24 * 3600 * 1000000"
definition DefaultVelocityThreshold :: int where "DefaultVelocityThreshold = 5"
definition MaxDeclineReason :: int where "MaxDeclineReason = 500"
definition MaxRevokeReason :: int where "MaxRevokeReason = 500"
definition day :: time where "day = 24 * 3600 * 1000000"

definition TopicSecureChain :: string where "TopicSecureChain = ''ports.securechain.v1''"

definition securechain_NewStore :: "chain_lib \<Rightarrow> Signer option \<Rightarrow> ChainConfig \<Rightarrow> cstore result" where
  "securechain_NewStore lib signer config =
     (case signer of
        None \<Rightarrow> Inl (ErrText ''secure-chain store requires an envelope signer'')
      | Some s \<Rightarrow>
          if cf_TokenTTL config < 0 then Inl (ErrText ''release token TTL must not be negative'')
          else Inr \<lparr>cs_lib = lib, cs_signer = s, cs_config = config
                    \<lparr>cf_TokenTTL := (if cf_TokenTTL config = 0 then DefaultTokenTTL else cf_TokenTTL config),
                     cf_VelocityThreshold := (if cf_VelocityThreshold config = 0 then DefaultVelocityThreshold
                                              else cf_VelocityThreshold config)\<rparr>\<rparr>)"

definition chain_signer :: "cstore \<Rightarrow> chain_payload signer option" where
  "chain_signer st = Some (Sign (cl_crypto (cs_lib st)) (cs_signer st))"

definition chain_emit ::
  "cstore \<Rightarrow> Claims \<Rightarrow> string \<Rightarrow> string \<Rightarrow> string \<Rightarrow> chain_payload \<Rightarrow> (string \<times> string) list \<Rightarrow> Principal \<Rightarrow> time \<Rightarrow> env \<Rightarrow> sdb \<Rightarrow> sdb result" where
  "chain_emit st claims eventType correlationID subjectID payload extensions pr occurredAt e d =
     bindE (emit_event claims TopicSecureChain eventType correlationID subjectID payload extensions pr occurredAt (chain_signer st) e (chain_outbox d))
       (\<lambda>os. Inr (d\<lparr>chain_outbox := os\<rparr>))"

section \<open>The audit ledger\<close>

definition audit_rows :: "string \<Rightarrow> sdb \<Rightarrow> string \<Rightarrow> AuditEntry list" where
  "audit_rows tid d chainID = filter (\<lambda>a. ae_TenantID a = tid \<and> ae_ChainID a = chainID) (secure_chain_audit d)"

definition audit_tail :: "AuditEntry list \<Rightarrow> string" where
  "audit_tail es = (if es = [] then ZeroHash else ae_EntryHash (last es))"

definition audit_payload :: "string \<Rightarrow> (string \<times> json) list \<Rightarrow> time \<Rightarrow> json" where
  "audit_payload eventType payload occurredAt =
     JObject [(''detail'', JObject payload), (''eventType'', JString eventType), (''occurredAt'', JString (rfc3339nano occurredAt))]"

text \<open>Sequence numbers are generated in the order of the rows.\<close>

definition audit_entry :: "Claims \<Rightarrow> string \<Rightarrow> string \<Rightarrow> json \<Rightarrow> time \<Rightarrow> string \<Rightarrow> string \<Rightarrow> sdb \<Rightarrow> AuditEntry" where
  "audit_entry claims chainID eventType payloadJSON occurredAt prevHash entryHash d =
     \<lparr>ae_AuditSeq = len (secure_chain_audit d) + 1, ae_TenantID = TenantID claims, ae_ChainID = chainID, ae_EventType = eventType,
      ae_Payload = jsonb payloadJSON, ae_PrevHash = prevHash, ae_EntryHash = entryHash, ae_CreatedAt = occurredAt\<rparr>"

definition chain_audit :: "cstore \<Rightarrow> Claims \<Rightarrow> string \<Rightarrow> string \<Rightarrow> (string \<times> json) list \<Rightarrow> time \<Rightarrow> sdb \<Rightarrow> sdb result" where
  "chain_audit st claims chainID eventType payload occurredAt d =
     (let payloadJSON = audit_payload eventType payload occurredAt;
          prevHash = audit_tail (audit_rows (TenantID claims) d chainID) in
      bindE (AuditHash (cl_jcs (cs_lib st)) prevHash payloadJSON) (\<lambda>entryHash.
      Inr (d\<lparr>secure_chain_audit := secure_chain_audit d @
              [audit_entry claims chainID eventType payloadJSON occurredAt prevHash entryHash d]\<rparr>)))"

section \<open>Locking a chain\<close>

definition lock_row :: "Claims \<Rightarrow> sdb \<Rightarrow> string \<Rightarrow> Chain result" where
  "lock_row claims d i =
     from_option (ErrNotFound Securechain) (find (\<lambda>c. ch_TenantID c = TenantID claims \<and> ch_ChainID c = i) (secure_chains d))"

definition lockChain :: "cstore \<Rightarrow> Claims \<Rightarrow> sdb \<Rightarrow> string \<Rightarrow> Chain result" where
  "lockChain st claims d chainID =
     bindE (from_option (Wrapf ''lock secure chain'' (PgErr (RaiseException ''invalid input syntax for type uuid''))) (cl_uuid (cs_lib st) chainID))
       (lock_row claims d)"

definition update_chain :: "string \<Rightarrow> (Chain \<Rightarrow> Chain) \<Rightarrow> sdb \<Rightarrow> sdb" where
  "update_chain i f d = d\<lparr>secure_chains := update_where (\<lambda>c. ch_ChainID c = i) f (secure_chains d)\<rparr>"

definition not_active :: "Chain \<Rightarrow> go_error" where
  "not_active chain = Wrapf (''chain is '' @ chain_status_text (ch_Status chain)) (ErrInvalidTransition Securechain)"

section \<open>Release authority and creation\<close>

definition canonical_container :: "chain_lib \<Rightarrow> string \<Rightarrow> string" where
  "canonical_container lib containerID = ToUpper (cl_upper lib) (TrimSpace containerID)"

text \<open>The upsert leaves a digest that another organisation registered alone, without an error.\<close>

definition RegisterBLAuthority_work :: "string \<Rightarrow> string \<Rightarrow> env \<Rightarrow> Claims \<Rightarrow> sdb \<Rightarrow> (unit \<times> sdb) result" where
  "RegisterBLAuthority_work containerID blDigest e claims d =
     (let now = clk e 0;
          row = \<lparr>bl_TenantID = TenantID claims, bl_BLDigest = blDigest, bl_ContainerID = containerID, bl_ShippingLineOrg = Subject claims,
                 bl_RegisteredAt = now\<rparr>;
          P = (\<lambda>b. bl_TenantID b = TenantID claims \<and> bl_BLDigest b = blDigest) in
      if \<not> org_length (Subject claims)
      then Inl (Wrapf ''register B/L release authority'' (PgErr (CheckViolation ''secure_chain_bl_registry_shipping_line_org_check'')))
      else if list_ex P (secure_chain_bl_registry d)
      then Inr ((), d\<lparr>secure_chain_bl_registry := update_where (\<lambda>b. P b \<and> bl_ShippingLineOrg b = Subject claims)
              (\<lambda>b. b\<lparr>bl_ContainerID := containerID, bl_RegisteredAt := now\<rparr>) (secure_chain_bl_registry d)\<rparr>)
      else Inr ((), d\<lparr>secure_chain_bl_registry := secure_chain_bl_registry d @ [row]\<rparr>))"

definition RegisterBLAuthority :: "cstore \<Rightarrow> ctx \<Rightarrow> string \<Rightarrow> string \<Rightarrow> env \<Rightarrow> sdb \<Rightarrow> unit result \<times> sdb" where
  "RegisterBLAuthority st c containerID blDigest e d =
     (let containerID = canonical_container (cs_lib st) containerID in
      if \<not> ValidContainerID containerID then (Inl (ErrText ''container id must be an ISO 6346 number''), d)
      else if \<not> ValidDigest blDigest then (Inl (ErrText ''bill-of-lading digest must be a SHA-256 hex digest''), d)
      else WithTx c (RegisterBLAuthority_work containerID blDigest e) d)"

definition release_authority :: "string \<Rightarrow> sdb \<Rightarrow> string \<Rightarrow> string \<Rightarrow> string option" where
  "release_authority tid d blDigest containerID =
     map_option bl_ShippingLineOrg
       (find (\<lambda>b. bl_TenantID b = tid \<and> bl_BLDigest b = blDigest \<and> bl_ContainerID b = containerID) (secure_chain_bl_registry d))"

definition new_chain :: "string \<Rightarrow> Claims \<Rightarrow> string \<Rightarrow> string \<Rightarrow> string \<Rightarrow> time \<Rightarrow> time \<Rightarrow> Chain" where
  "new_chain chainID claims idempotencyKey containerID blDigest expiresAt now =
     \<lparr>ch_ChainID = chainID, ch_TenantID = TenantID claims, ch_IdempotencyKey = idempotencyKey, ch_ContainerID = containerID,
      ch_BLDigest = blDigest, ch_IssuerOrg = Subject claims, ch_Status = C_ACTIVE, ch_VelocityHold = False, ch_HoldReason = None,
      ch_RevokeReason = None, ch_ExpiresAt = expiresAt, ch_CreatedAt = now, ch_UpdatedAt = now, ch_Version = 1, ch_Links = [], ch_CompletedAt = None\<rparr>"

definition CreateChain_work ::
  "cstore \<Rightarrow> string \<Rightarrow> string \<Rightarrow> string \<Rightarrow> time \<Rightarrow> Principal \<Rightarrow> env \<Rightarrow> Claims \<Rightarrow> sdb \<Rightarrow> (Chain \<times> sdb) result" where
  "CreateChain_work st idempotencyKey containerID blDigest expiresAt pr e claims d =
     (if release_authority (TenantID claims) d blDigest containerID \<noteq> Some (Subject claims) then Inl ErrNoReleaseAuthority
      else case find (\<lambda>c. ch_TenantID c = TenantID claims \<and> ch_IdempotencyKey c = idempotencyKey) (secure_chains d) of
        Some existing \<Rightarrow>
          if ch_ContainerID existing \<noteq> containerID \<or> ch_BLDigest existing \<noteq> blDigest then Inl (ErrIdempotencyConflict Securechain)
          else Inr (existing, d)
      | None \<Rightarrow>
          let now = clk e 0; created = new_chain (rnd e 0) claims idempotencyKey containerID blDigest expiresAt now in
          (case chain_insert_error d created of
             Some v \<Rightarrow>
               if v = UniqueViolation ''secure_chains_active_container_idx''
               then Inl (Wrapf ''an ACTIVE secure chain already exists for the container'' (ErrInvalidTransition Securechain))
               else Inl (Wrapf ''create secure chain'' (PgErr v))
           | None \<Rightarrow>
               bindE (chain_audit st claims (ch_ChainID created) ''chain_created''
                        [(''blDigest'', JString blDigest), (''containerId'', JString containerID), (''issuerOrg'', JString (Subject claims))] now
                        (d\<lparr>secure_chains := secure_chains d @ [created]\<rparr>)) (\<lambda>d.
               bindE (chain_emit st claims ''chain_created'' (ch_ChainID created) containerID
                        [(''bl_digest'', blDigest), (''chain_id'', ch_ChainID created), (''container_id'', containerID), (''issuer_org'', Subject claims)]
                        [(''container'', containerID), (''issuer'', Subject claims)] pr now (later 0 1 e) d) (\<lambda>d.
               Inr (created, d)))))"

definition CreateChain ::
  "cstore \<Rightarrow> ctx \<Rightarrow> string \<Rightarrow> string \<Rightarrow> string \<Rightarrow> time \<Rightarrow> Principal \<Rightarrow> env \<Rightarrow> sdb \<Rightarrow> Chain result \<times> sdb" where
  "CreateChain st c idempotencyKey containerID blDigest expiresAt pr e d =
     (let containerID = canonical_container (cs_lib st) containerID; now = clk e 0 in
      if \<not> ValidContainerID containerID then (Inl (ErrText ''container id must be an ISO 6346 number''), d)
      else if \<not> ValidDigest blDigest then (Inl (ErrText ''bill-of-lading digest must be a SHA-256 hex digest''), d)
      else if TrimSpace idempotencyKey = [] \<or> len idempotencyKey > 128 then (Inl (ErrText ''idempotency key is required (8-128 chars)''), d)
      else if \<not> expiresAt > now then (Inl (ErrText ''chain expiry must be in the future''), d)
      else if expiresAt > now + DefaultChainTTL then (Inl (ErrText ''chain expiry exceeds the 720h0m0s maximum''), d)
      else WithTx c (CreateChain_work st idempotencyKey containerID blDigest expiresAt pr e) d)"

section \<open>Reads\<close>

text \<open>The newest chain of a container; of chains created at the same instant, the first row.\<close>

definition chainByContainer_work :: "string \<Rightarrow> Claims \<Rightarrow> sdb \<Rightarrow> (Chain \<times> sdb) result" where
  "chainByContainer_work containerID claims d =
     (case sort_key (\<lambda>c. - ch_CreatedAt c) (filter (\<lambda>c. ch_TenantID c = TenantID claims \<and> ch_ContainerID c = containerID) (secure_chains d)) of
        [] \<Rightarrow> Inl (ErrNotFound Securechain)
      | chain # _ \<Rightarrow> Inr (chain\<lparr>ch_Links := listLinks d (ch_ChainID chain)\<rparr>, d))"

definition GetByContainer :: "cstore \<Rightarrow> ctx \<Rightarrow> string \<Rightarrow> sdb \<Rightarrow> Chain result \<times> sdb" where
  "GetByContainer st c containerID d = WithTx c (chainByContainer_work (canonical_container (cs_lib st) containerID)) d"

definition AuditTrail_work :: "cstore \<Rightarrow> string \<Rightarrow> Claims \<Rightarrow> sdb \<Rightarrow> (AuditEntry list \<times> sdb) result" where
  "AuditTrail_work st chainID claims d =
     bindE (from_option (Wrapf ''load audit trail'' (PgErr (RaiseException ''invalid input syntax for type uuid''))) (cl_uuid (cs_lib st) chainID))
       (\<lambda>i. Inr (audit_rows (TenantID claims) d i, d))"

definition AuditTrail :: "cstore \<Rightarrow> ctx \<Rightarrow> string \<Rightarrow> sdb \<Rightarrow> AuditEntry list result \<times> sdb" where
  "AuditTrail st c chainID d =
     (case WithTx c (AuditTrail_work st chainID) d of
        (Inl err, d) \<Rightarrow> (Inl err, d)
      | (Inr entries, d) \<Rightarrow> if entries = [] then (Inl (ErrNotFound Securechain), d) else (Inr entries, d))"

fun verify_entries :: "(json \<Rightarrow> string result) \<Rightarrow> string \<Rightarrow> AuditEntry list \<Rightarrow> bool result" where
  "verify_entries jcs prev [] = Inr True"
| "verify_entries jcs prev (entry # es) =
     (if ae_PrevHash entry \<noteq> prev then Inr False
      else bindE (AuditHash jcs (ae_PrevHash entry) (ae_Payload entry)) (\<lambda>recomputed.
        if recomputed \<noteq> ae_EntryHash entry then Inr False else verify_entries jcs (ae_EntryHash entry) es))"

definition VerifyAuditTrail :: "cstore \<Rightarrow> ctx \<Rightarrow> string \<Rightarrow> sdb \<Rightarrow> bool result \<times> sdb" where
  "VerifyAuditTrail st c chainID d =
     (case AuditTrail st c chainID d of
        (Inl err, d) \<Rightarrow> (Inl err, d)
      | (Inr entries, d) \<Rightarrow> (verify_entries (cl_jcs (cs_lib st)) ZeroHash entries, d))"

section \<open>Nomination\<close>

definition errVelocityBreach :: go_error where
  "errVelocityBreach = ErrText ''secure-chain velocity threshold breached''"

definition recent_nominations :: "sdb \<Rightarrow> string \<Rightarrow> time \<Rightarrow> int" where
  "recent_nominations d chainID now = count_rows (\<lambda>l. lk_ChainID l = chainID \<and> lk_NominatedAt l > now - day) (secure_chain_links d)"

definition velocity_reason :: "cstore \<Rightarrow> int \<Rightarrow> string" where
  "velocity_reason st nominations =
     ''velocity anomaly: '' @ fmt_d nominations @ '' nominations within 24h (threshold '' @ fmt_d (cf_VelocityThreshold (cs_config st)) @ '')''"

definition flagVelocity :: "cstore \<Rightarrow> Claims \<Rightarrow> Chain \<Rightarrow> int \<Rightarrow> Principal \<Rightarrow> time \<Rightarrow> env \<Rightarrow> sdb \<Rightarrow> sdb result" where
  "flagVelocity st claims chain nominations pr now e d =
     (let reason = velocity_reason st nominations; hold = cf_VelocityHold (cs_config st) in
      bindE (if hold \<and> \<not> ch_VelocityHold chain
             then bindE (wrap_err ''apply velocity hold'' (pg_inc (ch_Version chain))) (\<lambda>version.
                    Inr (update_chain (ch_ChainID chain) (\<lambda>c. c\<lparr>ch_VelocityHold := True, ch_HoldReason := Some reason, ch_UpdatedAt := now,
                           ch_Version := version\<rparr>) d))
             else Inr d) (\<lambda>d.
      bindE (chain_audit st claims (ch_ChainID chain) ''velocity_flagged''
               [(''hold'', JBool hold), (''nominations24h'', JNumber (fmt_d nominations)),
                (''threshold'', JNumber (fmt_d (cf_VelocityThreshold (cs_config st))))] now d) (\<lambda>d.
      chain_emit st claims ''velocity_flagged'' (ch_ChainID chain) (ch_ContainerID chain)
        [(''chain_id'', ch_ChainID chain), (''hold'', if hold then ''true'' else ''false''), (''reason'', reason)]
        [(''container'', ch_ContainerID chain)] pr now e d)))"

definition velocity_check :: "cstore \<Rightarrow> Claims \<Rightarrow> Chain \<Rightarrow> Principal \<Rightarrow> time \<Rightarrow> env \<Rightarrow> sdb \<Rightarrow> sdb result" where
  "velocity_check st claims chain pr now e d =
     (let threshold = cf_VelocityThreshold (cs_config st); recent = recent_nominations d (ch_ChainID chain) now in
      if threshold > 0 \<and> recent + 1 > threshold
      then (if cf_VelocityHold (cs_config st) then Inl errVelocityBreach else flagVelocity st claims chain (recent + 1) pr now e d)
      else Inr d)"

definition new_link :: "string \<Rightarrow> int \<Rightarrow> string \<Rightarrow> string \<Rightarrow> string \<Rightarrow> time \<Rightarrow> string \<Rightarrow> string \<Rightarrow> Link" where
  "new_link chainID seq fromOrg toOrg nominatedBy nominatedAt prevHash linkHash =
     \<lparr>lk_ChainID = chainID, lk_Seq = seq, lk_FromOrg = fromOrg, lk_ToOrg = toOrg, lk_NominatedBy = nominatedBy, lk_NominatedAt = nominatedAt,
      lk_AcceptedAt = None, lk_DeclinedAt = None, lk_RevokedAt = None, lk_DeclineReason = None, lk_PrevHash = prevHash, lk_LinkHash = linkHash\<rparr>"

definition append_link ::
  "cstore \<Rightarrow> string \<Rightarrow> string \<Rightarrow> Principal \<Rightarrow> time \<Rightarrow> env \<Rightarrow> Claims \<Rightarrow> Chain \<Rightarrow> tail \<Rightarrow> sdb \<Rightarrow> (Link \<times> sdb) result" where
  "append_link st chainID toOrg pr now e claims chain chainTail d =
     (let seq = wrap64 (tl_lastSeq chainTail + 1) in
      bindE (LinkHash (cl_jcs (cs_lib st)) (tl_lastHash chainTail) chainID seq (Subject claims) toOrg (pr_ID pr) now) (\<lambda>linkHash.
      let link = new_link (ch_ChainID chain) seq (Subject claims) toOrg (pr_ID pr) now (tl_lastHash chainTail) linkHash in
      case link_insert_error d chain link of
        Some v \<Rightarrow> Inl (Wrapf ''append chain link'' (PgErr v))
      | None \<Rightarrow>
          bindE (chain_audit st claims (ch_ChainID chain) ''link_nominated''
                   [(''fromOrg'', JString (Subject claims)), (''linkHash'', JString linkHash), (''seq'', JNumber (fmt_d seq)), (''toOrg'', JString toOrg)]
                   now (d\<lparr>secure_chain_links := secure_chain_links d @ [link]\<rparr>)) (\<lambda>d.
          bindE (chain_emit st claims ''link_nominated'' chainID (ch_ContainerID chain)
                   [(''chain_id'', chainID), (''from_org'', Subject claims), (''seq'', fmt_d seq), (''to_org'', toOrg)]
                   [(''container'', ch_ContainerID chain), (''toOrg'', toOrg)] pr now e d) (\<lambda>d.
          Inr (link\<lparr>lk_ChainID := chainID\<rparr>, d)))))"

definition Nominate_work :: "cstore \<Rightarrow> string \<Rightarrow> string \<Rightarrow> Principal \<Rightarrow> env \<Rightarrow> Claims \<Rightarrow> sdb \<Rightarrow> (Link \<times> sdb) result" where
  "Nominate_work st chainID toOrg pr e claims d =
     bindE (lockChain st claims d chainID) (\<lambda>chain.
     if ch_Status chain \<noteq> C_ACTIVE then Inl (not_active chain)
     else if ch_VelocityHold chain then Inl ErrVelocityHold
     else if ch_ExpiresAt chain < clk e 0 then Inl (Wrapf ''chain is past its expiry'' (ErrInvalidTransition Securechain))
     else let chainTail = tailOf d chain in
       if tl_pendingLink chainTail \<noteq> None then Inl (Wrapf ''a nomination is already pending'' (ErrInvalidTransition Securechain))
       else if tl_holderOrg chainTail = [] \<or> tl_holderOrg chainTail \<noteq> Subject claims then Inl ErrNotTailHolder
       else if toOrg = Subject claims then Inl (Wrapf ''self-nomination is not a handoff'' (ErrInvalidTransition Securechain))
       else let now = clk e 1 in
         bindE (velocity_check st claims chain pr now e d) (\<lambda>d.
         append_link st chainID toOrg pr now (later 2 2 e) claims chain chainTail d))"

definition applyVelocityHold_work :: "cstore \<Rightarrow> string \<Rightarrow> Principal \<Rightarrow> env \<Rightarrow> Claims \<Rightarrow> sdb \<Rightarrow> (unit \<times> sdb) result" where
  "applyVelocityHold_work st chainID pr e claims d =
     bindE (lockChain st claims d chainID) (\<lambda>chain.
     let now = clk e 0 in
     bindE (flagVelocity st claims chain (recent_nominations d (ch_ChainID chain) now) pr now e d) (\<lambda>d. Inr ((), d)))"

definition applyVelocityHold :: "cstore \<Rightarrow> ctx \<Rightarrow> string \<Rightarrow> Principal \<Rightarrow> env \<Rightarrow> sdb \<Rightarrow> unit result \<times> sdb" where
  "applyVelocityHold st c chainID pr e d = WithTx c (applyVelocityHold_work st chainID pr e) d"

text \<open>\<open>c 0\<close> is the context of the nomination's transaction, \<open>c 1\<close> that of the hold.\<close>

definition Nominate :: "cstore \<Rightarrow> (nat \<Rightarrow> ctx) \<Rightarrow> string \<Rightarrow> string \<Rightarrow> Principal \<Rightarrow> env \<Rightarrow> sdb \<Rightarrow> Link result \<times> sdb" where
  "Nominate st c chainID toOrg pr e d =
     (if \<not> ValidOrg toOrg then (Inl (ErrText ''nominated organisation is not a valid org identifier''), d)
      else case WithTx (c 0) (Nominate_work st chainID toOrg pr e) d of
        (Inr nominated, d) \<Rightarrow> (Inr nominated, d)
      | (Inl err, d) \<Rightarrow>
          if errors_Is err errVelocityBreach
          then (case applyVelocityHold st (c 1) chainID pr (later 4 4 e) d of
                  (Inl holdErr, d) \<Rightarrow> (Inl (Wrapf ''apply velocity hold'' holdErr), d)
                | (Inr _, d) \<Rightarrow> (Inl ErrVelocityHold, d))
          else (Inl err, d))"

section \<open>Resolution\<close>

definition update_link :: "string \<Rightarrow> int \<Rightarrow> (Link \<Rightarrow> Link) \<Rightarrow> sdb \<Rightarrow> sdb" where
  "update_link i seq f d = d\<lparr>secure_chain_links := update_where (\<lambda>l. lk_ChainID l = i \<and> lk_Seq l = seq) f (secure_chain_links d)\<rparr>"

definition resolveLink_work ::
  "cstore \<Rightarrow> string \<Rightarrow> int \<Rightarrow> bool \<Rightarrow> string \<Rightarrow> Principal \<Rightarrow> env \<Rightarrow> Claims \<Rightarrow> sdb \<Rightarrow> (Link \<times> sdb) result" where
  "resolveLink_work st chainID seq accept reason pr e claims d =
     bindE (lockChain st claims d chainID) (\<lambda>chain.
     if ch_Status chain \<noteq> C_ACTIVE then Inl (not_active chain)
     else if ch_VelocityHold chain then Inl ErrVelocityHold
     else case tl_pendingLink (tailOf d chain) of
       None \<Rightarrow> Inl (Wrapf ''no pending nomination'' (ErrInvalidTransition Securechain))
     | Some pending \<Rightarrow>
         if lk_Seq pending \<noteq> seq then Inl (Wrapf ''no pending nomination'' (ErrInvalidTransition Securechain))
         else if lk_ToOrg pending \<noteq> Subject claims then Inl ErrNotAuthorizedParty
         else if \<not> accept \<and> (TrimSpace reason = [] \<or> len reason > MaxDeclineReason)
         then Inl (ErrText ''a decline reason (1-500 chars) is required'')
         else let now = clk e 0;
                  f = (\<lambda>l. if accept then l\<lparr>lk_AcceptedAt := Some now\<rparr> else l\<lparr>lk_DeclinedAt := Some now, lk_DeclineReason := Some reason\<rparr>);
                  eventType = (if accept then ''link_accepted'' else ''link_declined'');
                  resolved = (scan_link (f pending))\<lparr>lk_ChainID := chainID\<rparr> in
           bindE (chain_audit st claims (ch_ChainID chain) eventType
                    [(''fromOrg'', JString (lk_FromOrg resolved)), (''linkHash'', JString (lk_LinkHash resolved)), (''seq'', JNumber (fmt_d seq)),
                     (''toOrg'', JString (lk_ToOrg resolved))] now (update_link (ch_ChainID chain) seq f d)) (\<lambda>d.
           bindE (chain_emit st claims eventType chainID (ch_ContainerID chain)
                    [(''chain_id'', chainID), (''from_org'', lk_FromOrg resolved), (''seq'', fmt_d seq), (''to_org'', lk_ToOrg resolved)]
                    [(''container'', ch_ContainerID chain)] pr now e d) (\<lambda>d.
           Inr (resolved, d))))"

definition Accept :: "cstore \<Rightarrow> ctx \<Rightarrow> string \<Rightarrow> int \<Rightarrow> Principal \<Rightarrow> env \<Rightarrow> sdb \<Rightarrow> Link result \<times> sdb" where
  "Accept st c chainID seq pr e d = WithTx c (resolveLink_work st chainID seq True [] pr e) d"

definition Decline :: "cstore \<Rightarrow> ctx \<Rightarrow> string \<Rightarrow> int \<Rightarrow> string \<Rightarrow> Principal \<Rightarrow> env \<Rightarrow> sdb \<Rightarrow> Link result \<times> sdb" where
  "Decline st c chainID seq reason pr e d = WithTx c (resolveLink_work st chainID seq False reason pr e) d"

definition revoke_open_links :: "string \<Rightarrow> time \<Rightarrow> sdb \<Rightarrow> sdb" where
  "revoke_open_links i now d =
     d\<lparr>secure_chain_links := update_where (\<lambda>l. lk_ChainID l = i \<and> link_State l = LinkPending) (\<lambda>l. l\<lparr>lk_RevokedAt := Some now\<rparr>)
         (secure_chain_links d)\<rparr>"

definition Revoke_work :: "cstore \<Rightarrow> string \<Rightarrow> string \<Rightarrow> Principal \<Rightarrow> env \<Rightarrow> Claims \<Rightarrow> sdb \<Rightarrow> (Chain \<times> sdb) result" where
  "Revoke_work st chainID reason pr e claims d =
     bindE (lockChain st claims d chainID) (\<lambda>chain.
     if ch_IssuerOrg chain \<noteq> Subject claims then Inl (Wrapf ''only the issuing shipping line may revoke'' ErrNotAuthorizedParty)
     else if ch_Status chain \<noteq> C_ACTIVE then Inl (not_active chain)
     else let now = clk e 0 in
       bindE (wrap_err ''revoke secure chain'' (pg_inc (ch_Version chain))) (\<lambda>version.
       let f = (\<lambda>c. c\<lparr>ch_Status := C_REVOKED, ch_RevokeReason := Some reason, ch_UpdatedAt := now, ch_Version := version\<rparr>) in
       bindE (chain_audit st claims (ch_ChainID chain) ''chain_revoked''
                [(''reason'', JString reason), (''revokedBy'', JString (Subject claims))] now
                (update_chain (ch_ChainID chain) f (revoke_open_links (ch_ChainID chain) now d))) (\<lambda>d.
       bindE (chain_emit st claims ''chain_revoked'' chainID (ch_ContainerID chain) [(''chain_id'', chainID), (''reason'', reason)]
                [(''container'', ch_ContainerID chain)] pr now e d) (\<lambda>d.
       Inr (f chain, d)))))"

definition Revoke :: "cstore \<Rightarrow> ctx \<Rightarrow> string \<Rightarrow> string \<Rightarrow> Principal \<Rightarrow> env \<Rightarrow> sdb \<Rightarrow> Chain result \<times> sdb" where
  "Revoke st c chainID reason pr e d =
     (if TrimSpace reason = [] \<or> len reason > MaxRevokeReason then (Inl (ErrText ''a revoke reason (1-500 chars) is required''), d)
      else WithTx c (Revoke_work st chainID reason pr e) d)"

section \<open>Release\<close>

definition active_chain :: "string \<Rightarrow> sdb \<Rightarrow> string \<Rightarrow> Chain option" where
  "active_chain tid d containerID =
     find (\<lambda>c. ch_TenantID c = tid \<and> ch_ContainerID c = containerID \<and> ch_Status c = C_ACTIVE) (secure_chains d)"

text \<open>The nonce is the hexadecimal text of 32 random bytes, drawn after the two UUIDs of the envelope.\<close>

definition new_token :: "string \<Rightarrow> Claims \<Rightarrow> string \<Rightarrow> string \<Rightarrow> chain_payload Envelope \<Rightarrow> time \<Rightarrow> time \<Rightarrow> ReleaseToken" where
  "new_token nonce claims chainID containerID envelope now expiresAt =
     \<lparr>tk_Nonce = nonce, tk_TenantID = TenantID claims, tk_ChainID = chainID, tk_ContainerID = containerID, tk_HolderOrg = Subject claims,
      tk_TokenJWS = EnvelopeText envelope, tk_IssuedAt = now, tk_ExpiresAt = expiresAt, tk_ConsumedAt = None, tk_ConsumedGate = None\<rparr>"

definition ReleaseAuthorization_work :: "cstore \<Rightarrow> string \<Rightarrow> Principal \<Rightarrow> env \<Rightarrow> Claims \<Rightarrow> sdb \<Rightarrow> (ReleaseToken \<times> sdb) result" where
  "ReleaseAuthorization_work st containerID pr e claims d =
     bindE (from_option (ErrNotFound Securechain) (active_chain (TenantID claims) d containerID)) (\<lambda>chain.
     if ch_VelocityHold chain then Inl ErrVelocityHold
     else if ch_ExpiresAt chain < clk e 0 then Inl (Wrapf ''chain is past its expiry'' (ErrInvalidTransition Securechain))
     else let chainTail = tailOf d chain in
       if tl_pendingLink chainTail \<noteq> None then Inl (Wrapf ''a nomination is still pending'' (ErrInvalidTransition Securechain))
       else if tl_holderOrg chainTail = [] \<or> tl_holderOrg chainTail \<noteq> Subject claims then Inl ErrNotTailHolder
       else let now = clk e 1; nonce = EncodeToString (rnd e 2); expiresAt = now + cf_TokenTTL (cs_config st);
                payload = [(''chain_id'', ch_ChainID chain), (''container_id'', containerID), (''expires_at'', rfc3339nano expiresAt),
                           (''holder_org'', Subject claims), (''nonce'', nonce)] in
         bindE (wrap_err ''sign release authorization'' (Message ''release_authorized'' TopicSecureChain (ch_ChainID chain) containerID payload
                  [(''container'', containerID), (''holder'', Subject claims)]
                  \<lparr>PrincipalID = pr_ID pr, PrincipalRole = pr_Role pr, Signature = [], LedgerCommitHash = []\<rparr> now (chain_signer st) e)) (\<lambda>envelope.
         let token = new_token nonce claims (ch_ChainID chain) containerID envelope now expiresAt in
         case token_insert_error d token of
           Some v \<Rightarrow> Inl (Wrapf ''persist release token'' (PgErr v))
         | None \<Rightarrow>
             bindE (put_event claims TopicSecureChain ''release_authorized'' envelope now (chain_outbox d)) (\<lambda>os.
             bindE (chain_audit st claims (ch_ChainID chain) ''release_authorized''
                      [(''expiresAt'', JString (rfc3339nano expiresAt)), (''holderOrg'', JString (Subject claims)), (''nonce'', JString nonce)] now
                      (d\<lparr>secure_chain_tokens := secure_chain_tokens d @ [token], chain_outbox := os\<rparr>)) (\<lambda>d.
             Inr (token, d)))))"

definition ReleaseAuthorization :: "cstore \<Rightarrow> ctx \<Rightarrow> string \<Rightarrow> Principal \<Rightarrow> env \<Rightarrow> sdb \<Rightarrow> ReleaseToken result \<times> sdb" where
  "ReleaseAuthorization st c containerID pr e d =
     (let containerID = canonical_container (cs_lib st) containerID in
      if \<not> ValidContainerID containerID then (Inl (ErrText ''container id must be an ISO 6346 number''), d)
      else WithTx c (ReleaseAuthorization_work st containerID pr e) d)"

definition redeemable :: "string \<Rightarrow> string \<Rightarrow> time \<Rightarrow> ReleaseToken \<Rightarrow> bool" where
  "redeemable tid nonce now t \<longleftrightarrow> tk_TenantID t = tid \<and> tk_Nonce t = nonce \<and> tk_ConsumedAt t = None \<and> tk_ExpiresAt t > now"

definition check_token :: "cstore \<Rightarrow> ReleaseToken \<Rightarrow> unit result" where
  "check_token st t =
     (case tk_TokenJWS t of
        OtherText s \<Rightarrow> Inl (Wrapf ''token is not a signed envelope'' ErrTokenInvalid)
      | EnvelopeText envelope \<Rightarrow>
          (case Verify (cl_crypto (cs_lib st)) envelope (PublicKey (cs_signer st)) of
             Inl err \<Rightarrow> Inl (Wrapf ''envelope signature'' ErrTokenInvalid)
           | Inr _ \<Rightarrow>
               if ev_EventType envelope \<noteq> ''release_authorized'' \<or> ev_CorrelationID envelope \<noteq> tk_ChainID t
               then Inl (Wrapf ''token envelope does not match its chain'' ErrTokenInvalid)
               else Inr ()))"

definition Consume_work :: "cstore \<Rightarrow> string \<Rightarrow> string \<Rightarrow> Principal \<Rightarrow> env \<Rightarrow> Claims \<Rightarrow> sdb \<Rightarrow> (ReleaseToken \<times> sdb) result" where
  "Consume_work st nonce gateID pr e claims d =
     (let now = clk e 0; P = redeemable (TenantID claims) nonce now; f = (\<lambda>t. t\<lparr>tk_ConsumedAt := Some now, tk_ConsumedGate := Some gateID\<rparr>) in
      bindE (from_option ErrTokenInvalid (find P (secure_chain_tokens d))) (\<lambda>token.
      bindE (check_token st token) (\<lambda>_.
      bindE (lock_row claims d (tk_ChainID token)) (\<lambda>chain.
      if ch_Status chain \<noteq> C_ACTIVE then Inl (not_active chain)
      else bindE (wrap_err ''complete secure chain'' (pg_inc (ch_Version chain))) (\<lambda>version.
        bindE (chain_audit st claims (tk_ChainID token) ''release_consumed''
                 [(''gateId'', JString gateID), (''holderOrg'', JString (tk_HolderOrg token)), (''nonce'', JString nonce)] now
                 (update_chain (tk_ChainID token) (\<lambda>c. c\<lparr>ch_Status := C_COMPLETED, ch_UpdatedAt := now, ch_Version := version\<rparr>)
                   (d\<lparr>secure_chain_tokens := update_where P f (secure_chain_tokens d)\<rparr>))) (\<lambda>d.
        bindE (chain_emit st claims ''release_consumed'' (tk_ChainID token) (tk_ContainerID token)
                 [(''chain_id'', tk_ChainID token), (''gate_id'', gateID), (''holder_org'', tk_HolderOrg token), (''nonce'', nonce)]
                 [(''container'', ch_ContainerID chain), (''gate'', gateID)] pr now e d) (\<lambda>d.
        Inr (f token, d))))))))"

definition Consume :: "cstore \<Rightarrow> ctx \<Rightarrow> string \<Rightarrow> string \<Rightarrow> Principal \<Rightarrow> env \<Rightarrow> sdb \<Rightarrow> ReleaseToken result \<times> sdb" where
  "Consume st c nonce gateID pr e d =
     (if \<not> ValidDigest nonce then (Inl ErrTokenInvalid, d)
      else if TrimSpace gateID = [] then (Inl (ErrText ''gate id is required''), d)
      else WithTx c (Consume_work st nonce gateID pr e) d)"

section \<open>Expiry\<close>

definition chain_due :: "string \<Rightarrow> time \<Rightarrow> Chain \<Rightarrow> bool" where
  "chain_due tid now c \<longleftrightarrow> ch_TenantID c = tid \<and> ch_Status c = C_ACTIVE \<and> ch_ExpiresAt c \<le> now"

text \<open>The loop over the chains that the update returned; each event draws two UUIDs.\<close>

fun expire_chains :: "cstore \<Rightarrow> Claims \<Rightarrow> Principal \<Rightarrow> time \<Rightarrow> Chain list \<Rightarrow> env \<Rightarrow> sdb \<Rightarrow> (string list \<times> sdb) result" where
  "expire_chains st claims pr now [] e d = Inr ([], d)"
| "expire_chains st claims pr now (entry # due) e d =
     bindE (chain_audit st claims (ch_ChainID entry) ''chain_expired'' [(''containerId'', JString (ch_ContainerID entry))] now
              (revoke_open_links (ch_ChainID entry) now d)) (\<lambda>d.
     bindE (chain_emit st claims ''chain_expired'' (ch_ChainID entry) (ch_ContainerID entry)
              [(''chain_id'', ch_ChainID entry), (''container_id'', ch_ContainerID entry)] [(''container'', ch_ContainerID entry)] pr now e d) (\<lambda>d.
     bindE (expire_chains st claims pr now due (later 0 2 e) d) (\<lambda>(expired, d). Inr (ch_ChainID entry # expired, d))))"

definition ChainExpireDue_work :: "cstore \<Rightarrow> Principal \<Rightarrow> env \<Rightarrow> Claims \<Rightarrow> sdb \<Rightarrow> (string list \<times> sdb) result" where
  "ChainExpireDue_work st pr e claims d =
     (let P = chain_due (TenantID claims) (clk e 0); due = filter P (secure_chains d) in
      if list_ex (\<lambda>c. ch_Version c \<ge> max_int64) due
      then Inl (Wrapf ''expire due secure chains'' (PgErr (RaiseException ''bigint out of range'')))
      else expire_chains st claims pr (clk e 1) due e
             (d\<lparr>secure_chains := update_where P (\<lambda>c. c\<lparr>ch_Status := C_EXPIRED, ch_UpdatedAt := clk e 0, ch_Version := ch_Version c + 1\<rparr>)
                 (secure_chains d)\<rparr>))"

definition ChainExpireDue :: "cstore \<Rightarrow> ctx \<Rightarrow> Principal \<Rightarrow> env \<Rightarrow> sdb \<Rightarrow> string list result \<times> sdb" where
  "ChainExpireDue st c pr e d = WithTx c (ChainExpireDue_work st pr e) d"

section \<open>The release check of the booking store\<close>

definition VerifyReleaseHolder :: "Claims \<Rightarrow> sdb \<Rightarrow> time \<Rightarrow> string \<Rightarrow> string \<Rightarrow> go_error option" where
  "VerifyReleaseHolder claims d now containerID orgID =
     (if orgID = [] then Some (ErrText ''verified organisation identity is required'')
      else case active_chain (TenantID claims) d containerID of
        None \<Rightarrow> Some (Wrapf ''no active secure chain for the container'' ErrNotTailHolder)
      | Some chain \<Rightarrow>
          if ch_VelocityHold chain then Some ErrVelocityHold
          else if ch_ExpiresAt chain < now then Some (Wrapf ''secure chain is past its expiry'' ErrNotTailHolder)
          else let chainTail = tailOf d chain in
            if tl_pendingLink chainTail \<noteq> None then Some (Wrapf ''a secure-chain nomination is still pending'' ErrNotTailHolder)
            else if tl_holderOrg chainTail = [] \<or> tl_holderOrg chainTail \<noteq> orgID then Some ErrNotTailHolder
            else None)"

section \<open>The expiry workflow\<close>

definition ExpireDueActivity :: "cstore \<Rightarrow> ctx \<Rightarrow> string \<Rightarrow> env \<Rightarrow> sdb \<Rightarrow> string list result \<times> sdb" where
  "ExpireDueActivity st c tenantID e d =
     (if tenantID = [] then (Inl (ErrText ''tenant id is required''), d)
      else case WithClaims c \<lparr>Issuer = ''securechain-expiry-workflow'', Audience = ''s1-port-interoperability'', TenantID = tenantID,
                  Subject = ''booking-worker'', Expires = clk e 0 div 1000000 + 3600, Roles = []\<rparr> of
        Inl err \<Rightarrow> (Inl (Wrapf ''bind tenant claims'' err), d)
      | Inr bound \<Rightarrow> ChainExpireDue st bound \<lparr>pr_ID = ''booking-worker'', pr_Role = ''securechain-expiry''\<rparr> (later 1 0 e) d)"

record ExpiryWorkflowInput =
  ew_TenantID :: string
  ew_SweepInterval :: time
  ew_Sweeps :: int

record ExpiryWorkflowResult =
  er_TenantID :: string
  er_ExpiredChain :: "string list"

text \<open>
  The workflow answers from what its activities answer: \<open>activity n\<close> is what Temporal returns for
  the n-th sweep (after its retries), \<open>sleep n\<close> the error of the timer after it, if it was cancelled. The
  argument \<open>left\<close> counts the sweeps still to run.
\<close>

fun expiry_sweeps ::
  "(nat \<Rightarrow> string list result) \<Rightarrow> (nat \<Rightarrow> go_error option) \<Rightarrow> nat \<Rightarrow> nat \<Rightarrow> ExpiryWorkflowResult \<Rightarrow> ExpiryWorkflowResult \<times> go_error option" where
  "expiry_sweeps activity sleep 0 sweep result = (result, None)"
| "expiry_sweeps activity sleep (Suc left) sweep result =
     (case activity sweep of
        Inl err \<Rightarrow> (result, Some (Wrapf ''secure-chain expiry sweep'' err))
      | Inr expired \<Rightarrow>
          let result = result\<lparr>er_ExpiredChain := er_ExpiredChain result @ expired\<rparr> in
          if left = 0 then (result, None)
          else case sleep sweep of Some err \<Rightarrow> (result, Some err) | None \<Rightarrow> expiry_sweeps activity sleep left (Suc sweep) result)"

definition SecureChainExpiryWorkflow ::
  "(nat \<Rightarrow> string list result) \<Rightarrow> (nat \<Rightarrow> go_error option) \<Rightarrow> ExpiryWorkflowInput \<Rightarrow> ExpiryWorkflowResult \<times> go_error option" where
  "SecureChainExpiryWorkflow activity sleep input =
     (if ew_TenantID input = [] then (\<lparr>er_TenantID = [], er_ExpiredChain = []\<rparr>, Some (ErrText ''tenant id is required''))
      else expiry_sweeps activity sleep (if ew_Sweeps input \<le> 0 then 24 else nat (ew_Sweeps input)) 0
             \<lparr>er_TenantID = ew_TenantID input, er_ExpiredChain = []\<rparr>)"

end
