(* ===== verification/Securechain_Correct.thy ===== *)
theory Securechain_Correct
  imports Securechain_Store Refinement
begin

text \<open>
  Correctness of the release chains: what each unit of work does when it succeeds, the custody
  of a container as a property of its links, and an invariant of the tables over every sequence
  of operations of every tenant.
\<close>

section \<open>Custody\<close>

text \<open>
  \<open>custody h n p ls\<close>: from holder \<open>h\<close>, sequence number \<open>n\<close> and hash \<open>p\<close> on, every link is nominated by the
  holder of the moment, numbered and hashed in succession, and nothing follows a link that
  is pending or revoked.
\<close>

fun custody :: "string \<Rightarrow> int \<Rightarrow> string \<Rightarrow> Link list \<Rightarrow> bool" where
  "custody h n p [] = True"
| "custody h n p (l # ls) =
     (lk_FromOrg l = h \<and> lk_Seq l = n + 1 \<and> lk_PrevHash l = p \<and> lk_ToOrg l \<noteq> lk_FromOrg l
      \<and> (case link_State l of
           LinkAccepted \<Rightarrow> custody (lk_ToOrg l) (n + 1) (lk_LinkHash l) ls
         | LinkDeclined \<Rightarrow> custody h (n + 1) (lk_LinkHash l) ls
         | _ \<Rightarrow> ls = []))"

abbreviation start_tail :: "string \<Rightarrow> int \<Rightarrow> string \<Rightarrow> tail" where
  "start_tail h n p \<equiv> \<lparr>tl_holderOrg = h, tl_pendingLink = None, tl_lastSeq = n, tl_lastHash = p\<rparr>"

definition same_identity :: "Link \<Rightarrow> Link \<Rightarrow> bool" where
  "same_identity l l' \<longleftrightarrow>
     lk_ChainID l' = lk_ChainID l \<and> lk_Seq l' = lk_Seq l \<and> lk_FromOrg l' = lk_FromOrg l \<and> lk_ToOrg l' = lk_ToOrg l
     \<and> lk_NominatedBy l' = lk_NominatedBy l \<and> lk_NominatedAt l' = lk_NominatedAt l \<and> lk_PrevHash l' = lk_PrevHash l \<and> lk_LinkHash l' = lk_LinkHash l"

lemma custody_seq: "custody h n p ls \<Longrightarrow> l \<in> set ls \<Longrightarrow> n < lk_Seq l"
  by (induction h n p ls rule: custody.induct) (force split: LinkState.splits)+

lemma custody_sorted: "custody h n p ls \<Longrightarrow> sorted (map lk_Seq ls) \<and> distinct (map lk_Seq ls)"
proof (induction h n p ls rule: custody.induct)
  case (2 h n p l ls)
  have "\<forall>x\<in>set ls. lk_Seq l < lk_Seq x"
    using 2(3) custody_seq by (fastforce split: LinkState.splits)
  moreover have "sorted (map lk_Seq ls) \<and> distinct (map lk_Seq ls)"
    using 2 by (auto split: LinkState.splits)
  ultimately show ?case by fastforce
qed simp

lemma custody_update:
  assumes "custody h n p ls" and "\<And>x. x \<in> set ls \<Longrightarrow> P x \<Longrightarrow> link_State x = LinkPending" and "\<And>x. same_identity x (f x)"
  shows "custody h n p (update_where P f ls)"
  using assms(1,2)
proof (induction h n p ls rule: custody.induct)
  case (2 h n p l ls)
  show ?case
  proof (cases "P l")
    case True
    with 2(4) [of l] 2(3) have "ls = []" by simp
    with True 2(3) assms(3) [of l] show ?thesis by (auto simp: update_where_def same_identity_def split: LinkState.splits)
  next
    case False
    then have u: "update_where P f (l # ls) = l # update_where P f ls" by (simp add: update_where_def)
    show ?thesis
    proof (cases "link_State l")
      case LinkAccepted
      with 2(3) have "custody (lk_ToOrg l) (n + 1) (lk_LinkHash l) ls" by simp
      from 2(1) [OF LinkAccepted this] 2(4) have "custody (lk_ToOrg l) (n + 1) (lk_LinkHash l) (update_where P f ls)" by simp
      with u LinkAccepted 2(3) show ?thesis by auto
    next
      case LinkDeclined
      with 2(3) have "custody h (n + 1) (lk_LinkHash l) ls" by simp
      from 2(2) [OF LinkDeclined this] 2(4) have "custody h (n + 1) (lk_LinkHash l) (update_where P f ls)" by simp
      with u LinkDeclined 2(3) show ?thesis by auto
    qed (use u 2(3) in \<open>auto simp: update_where_def\<close>)
  qed
qed (simp add: update_where_def)

lemma link_State_scan [simp]: "link_State (scan_link l) = link_State l"
  by (simp add: link_State_def scan_link_def)

lemma scan_link_simps [simp]:
  "lk_ChainID (scan_link l) = lk_ChainID l" "lk_Seq (scan_link l) = lk_Seq l" "lk_FromOrg (scan_link l) = lk_FromOrg l"
  "lk_ToOrg (scan_link l) = lk_ToOrg l" "lk_LinkHash (scan_link l) = lk_LinkHash l" "lk_PrevHash (scan_link l) = lk_PrevHash l"
  by (simp_all add: scan_link_def)

text \<open>The tail of a chain in custody.\<close>

definition fold_tail :: "tail \<Rightarrow> Link list \<Rightarrow> tail" where
  "fold_tail t ls = foldl tail_step t (map scan_link ls)"

lemma fold_tail_simps [simp]:
  "fold_tail t [] = t" "fold_tail t (l # ls) = fold_tail (tail_step t (scan_link l)) ls"
  by (simp_all add: fold_tail_def)

lemma tail_step_cases:
  "link_State l = LinkAccepted \<Longrightarrow> tail_step t l = start_tail (lk_ToOrg l) (lk_Seq l) (lk_LinkHash l)"
  "link_State l = LinkDeclined \<Longrightarrow> tail_step t l = start_tail (lk_FromOrg l) (lk_Seq l) (lk_LinkHash l)"
  "link_State l = LinkRevoked \<Longrightarrow> tail_step t l = start_tail [] (lk_Seq l) (lk_LinkHash l)"
  "link_State l = LinkPending \<Longrightarrow> tail_step t l = (start_tail (lk_FromOrg l) (lk_Seq l) (lk_LinkHash l))\<lparr>tl_pendingLink := Some l\<rparr>"
  by (cases t; simp add: tail_step_def)+

lemma custody_append:
  assumes "custody h n p ls" and "tl_pendingLink (fold_tail (start_tail h n p) ls) = None"
    and "tl_holderOrg (fold_tail (start_tail h n p) ls) = lk_FromOrg l" and "lk_FromOrg l \<noteq> []" and "lk_ToOrg l \<noteq> lk_FromOrg l"
    and "lk_Seq l = tl_lastSeq (fold_tail (start_tail h n p) ls) + 1" and "lk_PrevHash l = tl_lastHash (fold_tail (start_tail h n p) ls)"
    and "link_State l = LinkPending"
  shows "custody h n p (ls @ [l])"
  using assms
proof (induction h n p ls rule: custody.induct)
  case (2 h n p x ls)
  show ?case
  proof (cases "link_State x")
    case LinkAccepted
    with 2(3) have c: "custody (lk_ToOrg x) (n + 1) (lk_LinkHash x) ls" and s: "lk_Seq x = n + 1" by simp_all
    have "custody (lk_ToOrg x) (n + 1) (lk_LinkHash x) (ls @ [l])"
      by (rule 2(1) [OF LinkAccepted c]) (use 2(4-10) s LinkAccepted in \<open>simp_all add: tail_step_cases\<close>)
    with LinkAccepted 2(3) show ?thesis by auto
  next
    case LinkDeclined
    with 2(3) have c: "custody h (n + 1) (lk_LinkHash x) ls" and s: "lk_Seq x = n + 1" "lk_FromOrg x = h" by simp_all
    have "custody h (n + 1) (lk_LinkHash x) (ls @ [l])"
      by (rule 2(2) [OF LinkDeclined c]) (use 2(4-10) s LinkDeclined in \<open>simp_all add: tail_step_cases\<close>)
    with LinkDeclined 2(3) show ?thesis by auto
  next
    case LinkPending
    with 2(3,4) show ?thesis by (simp add: tail_step_cases)
  next
    case LinkRevoked
    with 2(3,5,6) show ?thesis by (simp add: tail_step_cases)
  qed
qed simp

lemma custody_pending:
  assumes "custody h n p ls" and "tl_pendingLink (fold_tail (start_tail h n p) ls) = Some q"
  shows "\<exists>l\<in>set ls. q = scan_link l \<and> link_State l = LinkPending"
  using assms
proof (induction h n p ls rule: custody.induct)
  case (2 h n p x ls)
  then show ?case by (cases "link_State x") (auto simp: tail_step_cases)
qed simp

text \<open>Whoever holds the tail is the issuer or has accepted the container.\<close>

definition has_held :: "string \<Rightarrow> Link list \<Rightarrow> string \<Rightarrow> bool" where
  "has_held issuer ls org \<longleftrightarrow> org = issuer \<or> (\<exists>l\<in>set ls. link_State l = LinkAccepted \<and> lk_ToOrg l = org)"

lemma tail_has_held:
  assumes "custody h n p ls" and "tl_holderOrg (fold_tail (start_tail h n p) ls) \<noteq> []"
  shows "has_held h ls (tl_holderOrg (fold_tail (start_tail h n p) ls))"
  using assms
proof (induction h n p ls rule: custody.induct)
  case (2 h n p x ls)
  then show ?case by (cases "link_State x") (auto simp: tail_step_cases has_held_def)
qed (simp add: has_held_def)

section \<open>Effects\<close>

text \<open>An entry as the ledger appends it: hashed over the last hash of its chain.\<close>

definition good_entry :: "(json \<Rightarrow> string result) \<Rightarrow> AuditEntry list \<Rightarrow> AuditEntry \<Rightarrow> bool" where
  "good_entry jcs T a \<longleftrightarrow>
     ae_PrevHash a = audit_tail (filter (\<lambda>b. ae_TenantID b = ae_TenantID a \<and> ae_ChainID b = ae_ChainID a) T)
     \<and> (\<exists>v. AuditHash jcs (ae_PrevHash a) v = Inr (ae_EntryHash a) \<and> ae_Payload a = jsonb v)"

definition ledger_grows :: "(json \<Rightarrow> string result) \<Rightarrow> AuditEntry list \<Rightarrow> AuditEntry list \<Rightarrow> bool" where
  "ledger_grows jcs = (\<lambda>T T'. \<exists>a. good_entry jcs T a \<and> T' = T @ [a])\<^sup>*\<^sup>*"

text \<open>The tables that say who may have a container: chains, links and tokens.\<close>

definition core :: "sdb \<Rightarrow> sdb" where
  "core d = d\<lparr>secure_chain_bl_registry := [], secure_chain_audit := [], chain_outbox := []\<rparr>"

lemma core_simps [simp]:
  "core (d\<lparr>secure_chain_audit := a\<rparr>) = core d" "core (d\<lparr>chain_outbox := b\<rparr>) = core d" "core (d\<lparr>secure_chain_bl_registry := r\<rparr>) = core d"
  "core (d\<lparr>secure_chains := cs\<rparr>) = (core d)\<lparr>secure_chains := cs\<rparr>" "core (d\<lparr>secure_chain_links := ls\<rparr>) = (core d)\<lparr>secure_chain_links := ls\<rparr>"
  "core (d\<lparr>secure_chain_tokens := ts\<rparr>) = (core d)\<lparr>secure_chain_tokens := ts\<rparr>"
  "secure_chains (core d) = secure_chains d" "secure_chain_links (core d) = secure_chain_links d" "secure_chain_tokens (core d) = secure_chain_tokens d"
  by (simp_all add: core_def)

lemma core_update_chain [simp]: "core (update_chain i f d) = update_chain i f (core d)"
  by (simp add: update_chain_def)

lemma core_update_link [simp]: "core (update_link i n f d) = update_link i n f (core d)"
  by (simp add: update_link_def)

lemma core_revoke_open_links [simp]: "core (revoke_open_links i now d) = revoke_open_links i now (core d)"
  by (simp add: revoke_open_links_def)

lemma core_reads [simp]:
  "tailOf (core d) c = tailOf d c" "link_insert_error (core d) c l = link_insert_error d c l"
  "chain_insert_error (core d) c = chain_insert_error d c" "token_insert_error (core d) t = token_insert_error d t"
  by (simp_all only: tailOf_def listLinks_def link_insert_error_def link_guard_def chain_insert_error_def token_insert_error_def core_simps)

lemma chain_audit_InrD:
  assumes "chain_audit st claims i ty pl at d = Inr d'"
  shows "\<exists>a. d' = d\<lparr>secure_chain_audit := secure_chain_audit d @ [a]\<rparr> \<and> good_entry (cl_jcs (cs_lib st)) (secure_chain_audit d) a"
proof -
  let ?prev = "audit_tail (audit_rows (TenantID claims) d i)" and ?v = "audit_payload ty pl at"
  from assms obtain h where h: "AuditHash (cl_jcs (cs_lib st)) ?prev ?v = Inr h"
      "d' = d\<lparr>secure_chain_audit := secure_chain_audit d @ [audit_entry claims i ty ?v at ?prev h d]\<rparr>"
    by (auto simp: chain_audit_def Let_def bindE_Inr_iff)
  then have "good_entry (cl_jcs (cs_lib st)) (secure_chain_audit d) (audit_entry claims i ty ?v at ?prev h d)"
    by (auto simp: good_entry_def audit_entry_def audit_rows_def)
  with h(2) show ?thesis by blast
qed

lemma chain_emit_InrD: "chain_emit st claims ty corr sub pl ext pr at e d = Inr d' \<Longrightarrow> \<exists>os. d' = d\<lparr>chain_outbox := os\<rparr>"
  by (auto simp: chain_emit_def bindE_Inr_iff)

text \<open>What is written beside the core: the ledger grows, the tables of the core stay.\<close>

definition noted :: "(json \<Rightarrow> string result) \<Rightarrow> sdb \<Rightarrow> sdb \<Rightarrow> bool" where
  "noted jcs d d' \<longleftrightarrow> core d' = core d \<and> ledger_grows jcs (secure_chain_audit d) (secure_chain_audit d')"

lemma noted_audit: "chain_audit st claims i ty pl at d = Inr d' \<Longrightarrow> noted (cl_jcs (cs_lib st)) d d'"
  by (drule chain_audit_InrD) (auto simp: noted_def ledger_grows_def)

lemma noted_emit: "chain_emit st claims ty corr sub pl ext pr at e d = Inr d' \<Longrightarrow> noted jcs d d'"
  by (auto simp: noted_def ledger_grows_def dest!: chain_emit_InrD)

lemma noted_refl: "noted jcs d d"
  by (simp add: noted_def ledger_grows_def)

lemma noted_trans: "noted jcs d d' \<Longrightarrow> noted jcs d' d'' \<Longrightarrow> noted jcs d d''"
  by (auto simp: noted_def ledger_grows_def)

section \<open>Steps of the core\<close>

definition keeps_chain :: "(Chain \<Rightarrow> Chain) \<Rightarrow> bool" where
  "keeps_chain f \<longleftrightarrow>
     (\<forall>c. ch_ChainID (f c) = ch_ChainID c \<and> ch_TenantID (f c) = ch_TenantID c \<and> ch_ContainerID (f c) = ch_ContainerID c
        \<and> ch_IssuerOrg (f c) = ch_IssuerOrg c \<and> (ch_VelocityHold c \<longrightarrow> ch_VelocityHold (f c)))"

definition free_tail :: "sdb \<Rightarrow> Chain \<Rightarrow> string \<Rightarrow> bool" where
  "free_tail d c org \<longleftrightarrow> tl_pendingLink (tailOf d c) = None \<and> tl_holderOrg (tailOf d c) = org \<and> org \<noteq> []"

inductive table_step :: "sdb \<Rightarrow> sdb \<Rightarrow> bool" where
  create: "chain_insert_error d c = None \<Longrightarrow> ch_Status c = C_ACTIVE \<Longrightarrow> table_step d (d\<lparr>secure_chains := secure_chains d @ [c]\<rparr>)"
| hold: "c \<in> set (secure_chains d) \<Longrightarrow> keeps_chain f \<Longrightarrow> (\<And>x. ch_Status (f x) = ch_Status x \<and> ch_VelocityHold (f x))
    \<Longrightarrow> table_step d (update_chain (ch_ChainID c) f d)"
| link: "c \<in> set (secure_chains d) \<Longrightarrow> ch_Status c = C_ACTIVE \<Longrightarrow> \<not> ch_VelocityHold c \<Longrightarrow> lk_ChainID l = ch_ChainID c \<Longrightarrow> link_State l = LinkPending
    \<Longrightarrow> free_tail d c (lk_FromOrg l) \<Longrightarrow> lk_ToOrg l \<noteq> lk_FromOrg l \<Longrightarrow> lk_PrevHash l = tl_lastHash (tailOf d c)
    \<Longrightarrow> lk_Seq l = wrap64 (tl_lastSeq (tailOf d c) + 1) \<Longrightarrow> link_insert_error d c l = None
    \<Longrightarrow> table_step d (d\<lparr>secure_chain_links := secure_chain_links d @ [l]\<rparr>)"
| resolve: "c \<in> set (secure_chains d) \<Longrightarrow> ch_Status c = C_ACTIVE \<Longrightarrow> \<not> ch_VelocityHold c \<Longrightarrow> tl_pendingLink (tailOf d c) = Some q
    \<Longrightarrow> (\<And>x. same_identity x (f x)) \<Longrightarrow> (\<And>x. link_State x = LinkPending \<Longrightarrow> link_State (f x) = LinkAccepted \<or> link_State (f x) = LinkDeclined)
    \<Longrightarrow> table_step d (update_link (ch_ChainID c) (lk_Seq q) f d)"
| close: "c \<in> set (secure_chains d) \<Longrightarrow> ch_Status c = C_ACTIVE \<Longrightarrow> keeps_chain f
    \<Longrightarrow> (\<forall>x. ch_Status (f x) = C_REVOKED) \<or> (\<forall>x. ch_Status (f x) = C_EXPIRED)
    \<Longrightarrow> table_step d (update_chain (ch_ChainID c) f (revoke_open_links (ch_ChainID c) at d))"
| token: "c \<in> set (secure_chains d) \<Longrightarrow> ch_Status c = C_ACTIVE \<Longrightarrow> \<not> ch_VelocityHold c \<Longrightarrow> free_tail d c (tk_HolderOrg t)
    \<Longrightarrow> tk_ChainID t = ch_ChainID c \<Longrightarrow> tk_TenantID t = ch_TenantID c \<Longrightarrow> tk_ContainerID t = ch_ContainerID c \<Longrightarrow> tk_ConsumedAt t = None
    \<Longrightarrow> token_insert_error d t = None \<Longrightarrow> table_step d (d\<lparr>secure_chain_tokens := secure_chain_tokens d @ [t]\<rparr>)"
| consume: "c \<in> set (secure_chains d) \<Longrightarrow> ch_Status c = C_ACTIVE \<Longrightarrow> t \<in> set (secure_chain_tokens d) \<Longrightarrow> tk_ConsumedAt t = None
    \<Longrightarrow> tk_ChainID t = ch_ChainID c \<Longrightarrow> keeps_chain f \<Longrightarrow> (\<And>x. ch_Status (f x) = C_COMPLETED)
    \<Longrightarrow> (\<And>x. P x \<Longrightarrow> tk_Nonce x = tk_Nonce t) \<Longrightarrow> P t
    \<Longrightarrow> table_step d (update_chain (ch_ChainID c) f
          (d\<lparr>secure_chain_tokens := update_where P (\<lambda>x. x\<lparr>tk_ConsumedAt := Some at, tk_ConsumedGate := Some g\<rparr>) (secure_chain_tokens d)\<rparr>))"

text \<open>The steps as the operations make them, on whole databases.\<close>

lemma core_create:
  "chain_insert_error d c = None \<Longrightarrow> ch_Status c = C_ACTIVE \<Longrightarrow> table_step (core d) (core (d\<lparr>secure_chains := secure_chains d @ [c]\<rparr>))"
  using table_step.create [of "core d" c] by simp

lemma core_hold:
  "c \<in> set (secure_chains d) \<Longrightarrow> keeps_chain f \<Longrightarrow> (\<And>x. ch_Status (f x) = ch_Status x \<and> ch_VelocityHold (f x))
    \<Longrightarrow> table_step (core d) (core (update_chain (ch_ChainID c) f d))"
  using table_step.hold [of c "core d" f] by simp

lemma core_link:
  "c \<in> set (secure_chains d) \<Longrightarrow> ch_Status c = C_ACTIVE \<Longrightarrow> \<not> ch_VelocityHold c \<Longrightarrow> lk_ChainID l = ch_ChainID c \<Longrightarrow> link_State l = LinkPending
    \<Longrightarrow> free_tail d c (lk_FromOrg l) \<Longrightarrow> lk_ToOrg l \<noteq> lk_FromOrg l \<Longrightarrow> lk_PrevHash l = tl_lastHash (tailOf d c)
    \<Longrightarrow> lk_Seq l = wrap64 (tl_lastSeq (tailOf d c) + 1) \<Longrightarrow> link_insert_error d c l = None
    \<Longrightarrow> table_step (core d) (core (d\<lparr>secure_chain_links := secure_chain_links d @ [l]\<rparr>))"
  using table_step.link [of c "core d" l] by (simp add: free_tail_def)

lemma core_resolve:
  "c \<in> set (secure_chains d) \<Longrightarrow> ch_Status c = C_ACTIVE \<Longrightarrow> \<not> ch_VelocityHold c \<Longrightarrow> tl_pendingLink (tailOf d c) = Some q
    \<Longrightarrow> (\<And>x. same_identity x (f x)) \<Longrightarrow> (\<And>x. link_State x = LinkPending \<Longrightarrow> link_State (f x) = LinkAccepted \<or> link_State (f x) = LinkDeclined)
    \<Longrightarrow> table_step (core d) (core (update_link (ch_ChainID c) (lk_Seq q) f d))"
  using table_step.resolve [of c "core d" q f] by simp

lemma core_close:
  "c \<in> set (secure_chains d) \<Longrightarrow> ch_Status c = C_ACTIVE \<Longrightarrow> keeps_chain f
    \<Longrightarrow> (\<forall>x. ch_Status (f x) = C_REVOKED) \<or> (\<forall>x. ch_Status (f x) = C_EXPIRED)
    \<Longrightarrow> table_step (core d) (core (update_chain (ch_ChainID c) f (revoke_open_links (ch_ChainID c) at d)))"
  using table_step.close [of c "core d" f at] by simp

lemma core_token:
  "c \<in> set (secure_chains d) \<Longrightarrow> ch_Status c = C_ACTIVE \<Longrightarrow> \<not> ch_VelocityHold c \<Longrightarrow> free_tail d c (tk_HolderOrg t)
    \<Longrightarrow> tk_ChainID t = ch_ChainID c \<Longrightarrow> tk_TenantID t = ch_TenantID c \<Longrightarrow> tk_ContainerID t = ch_ContainerID c \<Longrightarrow> tk_ConsumedAt t = None
    \<Longrightarrow> token_insert_error d t = None \<Longrightarrow> table_step (core d) (core (d\<lparr>secure_chain_tokens := secure_chain_tokens d @ [t]\<rparr>))"
  using table_step.token [of c "core d" t] by (simp add: free_tail_def)

lemma core_consume:
  assumes "c \<in> set (secure_chains d)" and "ch_Status c = C_ACTIVE" and "t \<in> set (secure_chain_tokens d)" and "tk_ConsumedAt t = None"
    and "tk_ChainID t = ch_ChainID c" and "keeps_chain f" and "\<And>x. ch_Status (f x) = C_COMPLETED" and "\<And>x. P x \<Longrightarrow> tk_Nonce x = tk_Nonce t" and "P t"
  shows "table_step (core d) (core (update_chain (ch_ChainID c) f
          (d\<lparr>secure_chain_tokens := update_where P (\<lambda>x. x\<lparr>tk_ConsumedAt := Some at, tk_ConsumedGate := Some g\<rparr>) (secure_chain_tokens d)\<rparr>)))"
proof -
  have "table_step (core d) (update_chain (ch_ChainID c) f
      ((core d)\<lparr>secure_chain_tokens := update_where P (\<lambda>x. x\<lparr>tk_ConsumedAt := Some at, tk_ConsumedGate := Some g\<rparr>) (secure_chain_tokens (core d))\<rparr>))"
    by (rule table_step.consume [where t = t and P = P]) (simp_all only: core_simps, fact+)
  then show ?thesis by simp
qed

text \<open>One unit of work: the core moves by steps, the ledger grows.\<close>

definition chain_effect :: "(json \<Rightarrow> string result) \<Rightarrow> sdb \<Rightarrow> sdb \<Rightarrow> bool" where
  "chain_effect jcs d d' \<longleftrightarrow> table_step\<^sup>*\<^sup>* (core d) (core d') \<and> ledger_grows jcs (secure_chain_audit d) (secure_chain_audit d')"

lemma chain_effect_refl: "chain_effect jcs d d"
  by (simp add: chain_effect_def ledger_grows_def)

lemma chain_effect_trans: "chain_effect jcs d d' \<Longrightarrow> chain_effect jcs d' d'' \<Longrightarrow> chain_effect jcs d d''"
  by (auto simp: chain_effect_def ledger_grows_def)

lemma chain_effect_step:
  assumes "table_step (core d) (core m)" and "secure_chain_audit m = secure_chain_audit d" and "noted jcs m d'"
  shows "chain_effect jcs d d'"
  using assms by (auto simp: chain_effect_def noted_def)

lemma chain_effect_noted: "noted jcs d d' \<Longrightarrow> chain_effect jcs d d'"
  by (auto simp: chain_effect_def noted_def)

section \<open>Every operation is such an effect\<close>

lemma lock_row_Inr: "lock_row claims d i = Inr c \<Longrightarrow> c \<in> set (secure_chains d) \<and> ch_ChainID c = i \<and> ch_TenantID c = TenantID claims"
  by (auto simp: lock_row_def dest: find_SomeD)

lemma lockChain_Inr: "lockChain st claims d k = Inr c \<Longrightarrow>
    c \<in> set (secure_chains d) \<and> cl_uuid (cs_lib st) k = Some (ch_ChainID c) \<and> ch_TenantID c = TenantID claims"
  by (auto simp: lockChain_def bindE_Inr_iff dest: lock_row_Inr)

lemma active_chainD: "active_chain tid d k = Some c \<Longrightarrow>
    c \<in> set (secure_chains d) \<and> ch_TenantID c = tid \<and> ch_ContainerID c = k \<and> ch_Status c = C_ACTIVE"
  by (auto simp: active_chain_def dest: find_SomeD)

lemma RegisterBLAuthority_effect: "RegisterBLAuthority_work k b e claims d = Inr (u, d') \<Longrightarrow> chain_effect jcs d d'"
  by (auto simp: RegisterBLAuthority_work_def Let_def chain_effect_def ledger_grows_def split: if_splits)

lemma CreateChain_InrE:
  assumes "CreateChain_work st key k b x pr e claims d = Inr (c, d')"
  obtains (retained) "d' = d" and "c \<in> set (secure_chains d)" and "ch_TenantID c = TenantID claims" and "ch_IdempotencyKey c = key"
      and "ch_ContainerID c = k" and "ch_BLDigest c = b"
  | (created) "c = new_chain (rnd e 0) claims key k b x (clk e 0)" and "chain_insert_error d c = None"
      and "noted (cl_jcs (cs_lib st)) (d\<lparr>secure_chains := secure_chains d @ [c]\<rparr>) d'"
      and "release_authority (TenantID claims) d b k = Some (Subject claims)"
proof (cases "find (\<lambda>c. ch_TenantID c = TenantID claims \<and> ch_IdempotencyKey c = key) (secure_chains d)")
  case None
  let ?c = "new_chain (rnd e 0) claims key k b x (clk e 0)"
  from assms None obtain d1 where "c = ?c" "chain_insert_error d ?c = None" "release_authority (TenantID claims) d b k = Some (Subject claims)"
      "\<exists>pl. chain_audit st claims (ch_ChainID ?c) ''chain_created'' pl (clk e 0) (d\<lparr>secure_chains := secure_chains d @ [?c]\<rparr>) = Inr d1"
      "\<exists>corr sub pl ext. chain_emit st claims ''chain_created'' corr sub pl ext pr (clk e 0) (later 0 1 e) d1 = Inr d'"
    by (auto simp: CreateChain_work_def Let_def bindE_Inr_iff split: if_splits option.splits) blast
  then show thesis by (auto intro!: created noted_trans [OF noted_audit noted_emit])
next
  case (Some y)
  with assms show thesis by (auto simp: CreateChain_work_def split: if_splits dest!: find_SomeD intro: retained)
qed

lemma CreateChain_effect:
  assumes "CreateChain_work st key k b x pr e claims d = Inr (c, d')"
  shows "chain_effect (cl_jcs (cs_lib st)) d d'"
  using assms
proof (cases rule: CreateChain_InrE)
  case created
  then show ?thesis
    by (intro chain_effect_step [OF _ _ created(3)]) (auto intro!: core_create simp: new_chain_def simp del: core_simps)
qed (simp add: chain_effect_refl)

lemma flagVelocity_InrE:
  assumes "flagVelocity st claims c n pr now e d = Inr d'"
  obtains (flagged) "\<not> (cf_VelocityHold (cs_config st) \<and> \<not> ch_VelocityHold c)" and "noted (cl_jcs (cs_lib st)) d d'"
  | (held) "cf_VelocityHold (cs_config st)" and "\<not> ch_VelocityHold c" and "noted (cl_jcs (cs_lib st)) (update_chain (ch_ChainID c) (\<lambda>x. x\<lparr>ch_VelocityHold := True,
       ch_HoldReason := Some (velocity_reason st n), ch_UpdatedAt := now, ch_Version := ch_Version c + 1\<rparr>) d) d'"
proof (cases "cf_VelocityHold (cs_config st) \<and> \<not> ch_VelocityHold c")
  case True
  with assms show thesis
    by (intro held) (auto simp: flagVelocity_def Let_def bindE_Inr_iff intro!: noted_trans [OF noted_audit noted_emit])
next
  case False
  with assms show thesis
    by (intro flagged) (auto simp: flagVelocity_def Let_def bindE_Inr_iff intro!: noted_trans [OF noted_audit noted_emit])
qed

lemma flagVelocity_effect:
  assumes "flagVelocity st claims c n pr now e d = Inr d'" and "c \<in> set (secure_chains d)"
  shows "chain_effect (cl_jcs (cs_lib st)) d d'"
  using assms(1)
proof (cases rule: flagVelocity_InrE)
  case flagged
  then show ?thesis by (simp add: chain_effect_noted)
next
  case held
  show ?thesis
    by (rule chain_effect_step [OF _ _ held(3)]) (use assms(2) in \<open>auto intro!: core_hold simp: keeps_chain_def simp del: core_simps core_update_chain, simp add: update_chain_def\<close>)
qed

lemma velocity_check_Inr:
  assumes "velocity_check st claims c pr now e d = Inr d'"
  shows "noted (cl_jcs (cs_lib st)) d d'"
  using assms by (auto simp: velocity_check_def Let_def noted_refl split: if_splits elim: flagVelocity_InrE)

lemma append_link_InrE:
  assumes "append_link st k to pr now e claims c t d = Inr (l', d')"
  obtains l h where "l = new_link (ch_ChainID c) (wrap64 (tl_lastSeq t + 1)) (Subject claims) to (pr_ID pr) now (tl_lastHash t) h"
    and "LinkHash (cl_jcs (cs_lib st)) (tl_lastHash t) k (wrap64 (tl_lastSeq t + 1)) (Subject claims) to (pr_ID pr) now = Inr h"
    and "l' = l\<lparr>lk_ChainID := k\<rparr>" and "link_insert_error d c l = None"
    and "noted (cl_jcs (cs_lib st)) (d\<lparr>secure_chain_links := secure_chain_links d @ [l]\<rparr>) d'"
proof -
  let ?l = "\<lambda>h. new_link (ch_ChainID c) (wrap64 (tl_lastSeq t + 1)) (Subject claims) to (pr_ID pr) now (tl_lastHash t) h"
  from assms obtain h d1 where h: "LinkHash (cl_jcs (cs_lib st)) (tl_lastHash t) k (wrap64 (tl_lastSeq t + 1)) (Subject claims) to (pr_ID pr) now = Inr h"
      "link_insert_error d c (?l h) = None" "l' = (?l h)\<lparr>lk_ChainID := k\<rparr>"
      "\<exists>pl. chain_audit st claims (ch_ChainID c) ''link_nominated'' pl now (d\<lparr>secure_chain_links := secure_chain_links d @ [?l h]\<rparr>) = Inr d1"
      "\<exists>corr sub pl ext. chain_emit st claims ''link_nominated'' corr sub pl ext pr now e d1 = Inr d'"
    by (auto simp: append_link_def Let_def bindE_Inr_iff split: option.splits) blast
  then show thesis by (intro that [of "?l h" h]) (auto intro: noted_trans [OF noted_audit noted_emit])
qed

lemma Nominate_InrE:
  assumes "Nominate_work st k to pr e claims d = Inr (l', d')"
  obtains c l h m where "lockChain st claims d k = Inr c" and "ch_Status c = C_ACTIVE" and "\<not> ch_VelocityHold c" and "\<not> ch_ExpiresAt c < clk e 0"
    and "free_tail d c (Subject claims)" and "to \<noteq> Subject claims" and "noted (cl_jcs (cs_lib st)) d m"
    and "velocity_check st claims c pr (clk e 1) e d = Inr m"
    and "l = new_link (ch_ChainID c) (wrap64 (tl_lastSeq (tailOf d c) + 1)) (Subject claims) to (pr_ID pr) (clk e 1) (tl_lastHash (tailOf d c)) h"
    and "LinkHash (cl_jcs (cs_lib st)) (tl_lastHash (tailOf d c)) k (lk_Seq l) (Subject claims) to (pr_ID pr) (clk e 1) = Inr h"
    and "l' = l\<lparr>lk_ChainID := k\<rparr>" and "link_insert_error m c l = None"
    and "noted (cl_jcs (cs_lib st)) (m\<lparr>secure_chain_links := secure_chain_links m @ [l]\<rparr>) d'"
proof -
  from assms obtain c m where c: "lockChain st claims d k = Inr c" "ch_Status c = C_ACTIVE" "\<not> ch_VelocityHold c" "\<not> ch_ExpiresAt c < clk e 0"
      "free_tail d c (Subject claims)" "to \<noteq> Subject claims" "velocity_check st claims c pr (clk e 1) e d = Inr m"
      "append_link st k to pr (clk e 1) (later 2 2 e) claims c (tailOf d c) m = Inr (l', d')"
    by (auto simp: Nominate_work_def bindE_Inr_iff Let_def free_tail_def split: if_splits)
  from c(8) obtain l h where "l = new_link (ch_ChainID c) (wrap64 (tl_lastSeq (tailOf d c) + 1)) (Subject claims) to (pr_ID pr) (clk e 1) (tl_lastHash (tailOf d c)) h"
      "LinkHash (cl_jcs (cs_lib st)) (tl_lastHash (tailOf d c)) k (wrap64 (tl_lastSeq (tailOf d c) + 1)) (Subject claims) to (pr_ID pr) (clk e 1) = Inr h"
      "l' = l\<lparr>lk_ChainID := k\<rparr>" "link_insert_error m c l = None"
      "noted (cl_jcs (cs_lib st)) (m\<lparr>secure_chain_links := secure_chain_links m @ [l]\<rparr>) d'"
    by (rule append_link_InrE)
  with c velocity_check_Inr [OF c(7)] show thesis by (intro that) (auto simp: new_link_def)
qed

lemma link_State_new [simp]: "link_State (new_link i n f t b at p h) = LinkPending"
  by (simp add: link_State_def new_link_def)

lemma noted_reads:
  assumes "noted jcs d m"
  shows "secure_chains m = secure_chains d" "secure_chain_links m = secure_chain_links d" "secure_chain_tokens m = secure_chain_tokens d"
    "tailOf m c = tailOf d c" "link_insert_error m c l = link_insert_error d c l"
proof -
  from assms have "core m = core d" by (simp add: noted_def)
  then show "secure_chains m = secure_chains d" "secure_chain_links m = secure_chain_links d" "secure_chain_tokens m = secure_chain_tokens d"
    "tailOf m c = tailOf d c" "link_insert_error m c l = link_insert_error d c l"
    by (metis core_simps(7), metis core_simps(8), metis core_simps(9), metis core_reads(1), metis core_reads(2))
qed

lemma Nominate_effect:
  assumes "Nominate_work st k to pr e claims d = Inr (l', d')"
  shows "chain_effect (cl_jcs (cs_lib st)) d d'"
proof -
  from assms obtain c l h m where n: "lockChain st claims d k = Inr c" "ch_Status c = C_ACTIVE" "\<not> ch_VelocityHold c"
      "free_tail d c (Subject claims)" "to \<noteq> Subject claims" "noted (cl_jcs (cs_lib st)) d m"
      "l = new_link (ch_ChainID c) (wrap64 (tl_lastSeq (tailOf d c) + 1)) (Subject claims) to (pr_ID pr) (clk e 1) (tl_lastHash (tailOf d c)) h"
      "link_insert_error m c l = None" "noted (cl_jcs (cs_lib st)) (m\<lparr>secure_chain_links := secure_chain_links m @ [l]\<rparr>) d'"
    by (rule Nominate_InrE)
  note r = noted_reads [OF n(6)]
  have "table_step (core m) (core (m\<lparr>secure_chain_links := secure_chain_links m @ [l]\<rparr>))"
    by (rule core_link [of c]) (use n r lockChain_Inr [OF n(1)] in \<open>simp_all add: free_tail_def new_link_def link_State_def\<close>)
  then have "chain_effect (cl_jcs (cs_lib st)) m d'" by (rule chain_effect_step [OF _ _ n(9)]) simp
  with chain_effect_noted [OF n(6)] show ?thesis by (rule chain_effect_trans)
qed

lemma applyVelocityHold_effect:
  assumes "applyVelocityHold_work st k pr e claims d = Inr (u, d')"
  shows "chain_effect (cl_jcs (cs_lib st)) d d'"
  using assms by (auto simp: applyVelocityHold_work_def bindE_Inr_iff Let_def dest!: lockChain_Inr intro: flagVelocity_effect)

definition resolution :: "bool \<Rightarrow> string \<Rightarrow> time \<Rightarrow> Link \<Rightarrow> Link" where
  "resolution accept reason now l =
     (if accept then l\<lparr>lk_AcceptedAt := Some now\<rparr> else l\<lparr>lk_DeclinedAt := Some now, lk_DeclineReason := Some reason\<rparr>)"

lemma resolution_identity: "same_identity l (resolution accept reason now l)"
  by (simp add: same_identity_def resolution_def)

lemma resolution_State: "link_State l = LinkPending \<Longrightarrow> link_State (resolution accept reason now l) = (if accept then LinkAccepted else LinkDeclined)"
  by (auto simp: link_State_def resolution_def split: if_splits)

lemma resolveLink_InrE:
  assumes "resolveLink_work st k n accept reason pr e claims d = Inr (l', d')"
  obtains c q where "lockChain st claims d k = Inr c" and "ch_Status c = C_ACTIVE" and "\<not> ch_VelocityHold c"
    and "tl_pendingLink (tailOf d c) = Some q" and "lk_Seq q = n" and "lk_ToOrg q = Subject claims"
    and "accept \<or> TrimSpace reason \<noteq> []"
    and "noted (cl_jcs (cs_lib st)) (update_link (ch_ChainID c) n (resolution accept reason (clk e 0)) d) d'"
proof -
  have f: "(\<lambda>l. if accept then l\<lparr>lk_AcceptedAt := Some (clk e 0)\<rparr> else l\<lparr>lk_DeclinedAt := Some (clk e 0), lk_DeclineReason := Some reason\<rparr>)
      = resolution accept reason (clk e 0)" by (auto simp: resolution_def)
  from assms obtain c q d1 ty where "lockChain st claims d k = Inr c" "ch_Status c = C_ACTIVE" "\<not> ch_VelocityHold c"
      "tl_pendingLink (tailOf d c) = Some q" "lk_Seq q = n" "lk_ToOrg q = Subject claims" "accept \<or> TrimSpace reason \<noteq> []"
      "\<exists>pl. chain_audit st claims (ch_ChainID c) ty pl (clk e 0) (update_link (ch_ChainID c) n (resolution accept reason (clk e 0)) d) = Inr d1"
      "\<exists>corr sub pl ext. chain_emit st claims ty corr sub pl ext pr (clk e 0) e d1 = Inr d'"
    unfolding resolveLink_work_def bindE_Inr_iff Let_def f
    by (elim exE conjE) (simp split: if_splits option.splits add: bindE_Inr_iff, blast+)
  then show thesis by (intro that) (auto intro: noted_trans [OF noted_audit noted_emit])
qed

lemma resolveLink_effect:
  assumes "resolveLink_work st k n accept reason pr e claims d = Inr (l', d')"
  shows "chain_effect (cl_jcs (cs_lib st)) d d'"
proof -
  from assms obtain c q where r: "lockChain st claims d k = Inr c" "ch_Status c = C_ACTIVE" "\<not> ch_VelocityHold c"
      "tl_pendingLink (tailOf d c) = Some q" "lk_Seq q = n"
      "noted (cl_jcs (cs_lib st)) (update_link (ch_ChainID c) n (resolution accept reason (clk e 0)) d) d'"
    by (rule resolveLink_InrE)
  have "table_step (core d) (core (update_link (ch_ChainID c) (lk_Seq q) (resolution accept reason (clk e 0)) d))"
    by (rule core_resolve) (use r lockChain_Inr [OF r(1)] resolution_identity resolution_State in \<open>auto split: if_splits\<close>)
  then show ?thesis using r(5) by (intro chain_effect_step [OF _ _ r(6)]) (simp_all add: update_link_def)
qed

lemma Revoke_InrE:
  assumes "Revoke_work st k reason pr e claims d = Inr (c', d')"
  obtains c where "lockChain st claims d k = Inr c" and "ch_IssuerOrg c = Subject claims" and "ch_Status c = C_ACTIVE"
    and "noted (cl_jcs (cs_lib st)) (update_chain (ch_ChainID c) (\<lambda>x. x\<lparr>ch_Status := C_REVOKED, ch_RevokeReason := Some reason, ch_UpdatedAt := clk e 0,
           ch_Version := ch_Version c + 1\<rparr>) (revoke_open_links (ch_ChainID c) (clk e 0) d)) d'"
  using assms
  by (auto simp: Revoke_work_def bindE_Inr_iff Let_def split: if_splits intro: noted_trans [OF noted_audit noted_emit])

lemma Revoke_effect:
  assumes "Revoke_work st k reason pr e claims d = Inr (c', d')"
  shows "chain_effect (cl_jcs (cs_lib st)) d d'"
proof -
  from assms obtain c where r: "lockChain st claims d k = Inr c" "ch_Status c = C_ACTIVE"
    "noted (cl_jcs (cs_lib st)) (update_chain (ch_ChainID c) (\<lambda>x. x\<lparr>ch_Status := C_REVOKED, ch_RevokeReason := Some reason, ch_UpdatedAt := clk e 0,
       ch_Version := ch_Version c + 1\<rparr>) (revoke_open_links (ch_ChainID c) (clk e 0) d)) d'"
    by (rule Revoke_InrE)
  show ?thesis
    by (rule chain_effect_step [OF core_close _ r(3)])
       (use lockChain_Inr [OF r(1)] r(2) in \<open>simp_all add: keeps_chain_def update_chain_def revoke_open_links_def\<close>)
qed

lemma put_event_InrD: "put_event claims topic ty env at os = Inr os' \<Longrightarrow> \<exists>x. os' = os @ [x] \<and> ox_Payload x = env"
  by (auto simp: put_event_def split: if_splits)

lemma ReleaseAuthorization_InrE:
  assumes "ReleaseAuthorization_work st k pr e claims d = Inr (t, d')"
  obtains c env where "active_chain (TenantID claims) d k = Some c" and "\<not> ch_VelocityHold c" and "\<not> ch_ExpiresAt c < clk e 0"
    and "free_tail d c (Subject claims)"
    and "\<exists>p ext prov. Message ''release_authorized'' TopicSecureChain (ch_ChainID c) k p ext prov (clk e 1) (chain_signer st) e = Inr env"
    and "t = new_token (EncodeToString (rnd e 2)) claims (ch_ChainID c) k env (clk e 1) (clk e 1 + cf_TokenTTL (cs_config st))"
    and "token_insert_error d t = None" and "noted (cl_jcs (cs_lib st)) (d\<lparr>secure_chain_tokens := secure_chain_tokens d @ [t]\<rparr>) d'"
proof -
  from assms obtain c env os pl where c: "active_chain (TenantID claims) d k = Some c" "\<not> ch_VelocityHold c" "\<not> ch_ExpiresAt c < clk e 0"
      "free_tail d c (Subject claims)"
      "\<exists>p ext prov. Message ''release_authorized'' TopicSecureChain (ch_ChainID c) k p ext prov (clk e 1) (chain_signer st) e = Inr env"
      "t = new_token (EncodeToString (rnd e 2)) claims (ch_ChainID c) k env (clk e 1) (clk e 1 + cf_TokenTTL (cs_config st))"
      "token_insert_error d t = None"
      "chain_audit st claims (ch_ChainID c) ''release_authorized'' pl (clk e 1)
         (d\<lparr>secure_chain_tokens := secure_chain_tokens d @ [t], chain_outbox := os\<rparr>) = Inr d'"
    by (auto simp: ReleaseAuthorization_work_def bindE_Inr_iff Let_def free_tail_def split: if_splits option.splits) blast
  from noted_audit [OF c(8)] have "noted (cl_jcs (cs_lib st)) (d\<lparr>secure_chain_tokens := secure_chain_tokens d @ [t]\<rparr>) d'" by (simp add: noted_def)
  with c show thesis by (intro that [of c env]) simp_all
qed

lemma ReleaseAuthorization_effect:
  assumes "ReleaseAuthorization_work st k pr e claims d = Inr (t, d')"
  shows "chain_effect (cl_jcs (cs_lib st)) d d'"
proof -
  from assms obtain c env where r: "active_chain (TenantID claims) d k = Some c" "\<not> ch_VelocityHold c" "free_tail d c (Subject claims)"
    "t = new_token (EncodeToString (rnd e 2)) claims (ch_ChainID c) k env (clk e 1) (clk e 1 + cf_TokenTTL (cs_config st))"
    "token_insert_error d t = None" "noted (cl_jcs (cs_lib st)) (d\<lparr>secure_chain_tokens := secure_chain_tokens d @ [t]\<rparr>) d'"
    by (rule ReleaseAuthorization_InrE)
  have "table_step (core d) (core (d\<lparr>secure_chain_tokens := secure_chain_tokens d @ [t]\<rparr>))"
    by (rule core_token [of c]) (use r(2,3,5) active_chainD [OF r(1)] in \<open>simp_all add: r(4) new_token_def\<close>)
  then show ?thesis by (rule chain_effect_step [OF _ _ r(6)]) simp
qed

lemma Consume_InrE:
  assumes "Consume_work st n g pr e claims d = Inr (t', d')"
  obtains t c where "find (redeemable (TenantID claims) n (clk e 0)) (secure_chain_tokens d) = Some t" and "check_token st t = Inr ()"
    and "lock_row claims d (tk_ChainID t) = Inr c" and "ch_Status c = C_ACTIVE"
    and "t' = t\<lparr>tk_ConsumedAt := Some (clk e 0), tk_ConsumedGate := Some g\<rparr>"
    and "noted (cl_jcs (cs_lib st)) (update_chain (tk_ChainID t) (\<lambda>x. x\<lparr>ch_Status := C_COMPLETED, ch_UpdatedAt := clk e 0, ch_Version := ch_Version c + 1\<rparr>)
           (d\<lparr>secure_chain_tokens := update_where (redeemable (TenantID claims) n (clk e 0))
                (\<lambda>x. x\<lparr>tk_ConsumedAt := Some (clk e 0), tk_ConsumedGate := Some g\<rparr>) (secure_chain_tokens d)\<rparr>)) d'"
  using assms
  by (auto simp: Consume_work_def bindE_Inr_iff Let_def split: if_splits intro: noted_trans [OF noted_audit noted_emit])

lemma Consume_effect:
  assumes "Consume_work st n g pr e claims d = Inr (t', d')"
  shows "chain_effect (cl_jcs (cs_lib st)) d d'"
proof -
  from assms obtain t c where r: "find (redeemable (TenantID claims) n (clk e 0)) (secure_chain_tokens d) = Some t"
    "lock_row claims d (tk_ChainID t) = Inr c" "ch_Status c = C_ACTIVE"
    "noted (cl_jcs (cs_lib st)) (update_chain (tk_ChainID t) (\<lambda>x. x\<lparr>ch_Status := C_COMPLETED, ch_UpdatedAt := clk e 0, ch_Version := ch_Version c + 1\<rparr>)
           (d\<lparr>secure_chain_tokens := update_where (redeemable (TenantID claims) n (clk e 0))
                (\<lambda>x. x\<lparr>tk_ConsumedAt := Some (clk e 0), tk_ConsumedGate := Some g\<rparr>) (secure_chain_tokens d)\<rparr>)) d'"
    by (rule Consume_InrE)
  note t = find_SomeD [OF r(1)] and c = lock_row_Inr [OF r(2)]
  show ?thesis
  proof (rule chain_effect_step [OF _ _ r(4)])
    have "table_step (core d) (core (update_chain (ch_ChainID c) (\<lambda>x. x\<lparr>ch_Status := C_COMPLETED, ch_UpdatedAt := clk e 0, ch_Version := ch_Version c + 1\<rparr>)
           (d\<lparr>secure_chain_tokens := update_where (redeemable (TenantID claims) n (clk e 0))
                (\<lambda>x. x\<lparr>tk_ConsumedAt := Some (clk e 0), tk_ConsumedGate := Some g\<rparr>) (secure_chain_tokens d)\<rparr>)))"
      by (rule core_consume [of c d t]) (use t c r(3) in \<open>auto simp: keeps_chain_def redeemable_def\<close>)
    with c show "table_step (core d) (core (update_chain (tk_ChainID t) (\<lambda>x. x\<lparr>ch_Status := C_COMPLETED, ch_UpdatedAt := clk e 0, ch_Version := ch_Version c + 1\<rparr>)
           (d\<lparr>secure_chain_tokens := update_where (redeemable (TenantID claims) n (clk e 0))
                (\<lambda>x. x\<lparr>tk_ConsumedAt := Some (clk e 0), tk_ConsumedGate := Some g\<rparr>) (secure_chain_tokens d)\<rparr>)))" by simp
  qed (simp add: update_chain_def)
qed

text \<open>Expiry closes the due chains one after the other.\<close>

lemma revoke_open_links_chains [simp]:
  "secure_chains (revoke_open_links i now d) = secure_chains d" "secure_chain_tokens (revoke_open_links i now d) = secure_chain_tokens d"
  "secure_chain_audit (revoke_open_links i now d) = secure_chain_audit d"
  by (simp_all add: revoke_open_links_def)

lemma update_where_two:
  assumes "\<And>c. key (g c) = key c" and "a \<notin> B"
  shows "update_where (\<lambda>c. key c \<in> insert a B) g T = update_where (\<lambda>c. key c \<in> B) g (update_where (\<lambda>c. key c = a) g T)"
  using assms by (auto simp: update_where_def)

lemma expire_chains_effect:
  assumes "expire_chains st claims pr now due e d1 = Inr (ids, d')" and "keeps_chain g" and "\<And>c. ch_Status (g c) = C_EXPIRED"
    and "core d1 = (core d)\<lparr>secure_chains := update_where (\<lambda>c. ch_ChainID c \<in> set (map ch_ChainID due)) g (secure_chains d)\<rparr>"
    and "secure_chain_audit d1 = secure_chain_audit d"
    and "distinct (map ch_ChainID due)" and "\<And>c. c \<in> set due \<Longrightarrow> c \<in> set (secure_chains d) \<and> ch_Status c = C_ACTIVE"
    and "distinct (map ch_ChainID (secure_chains d))"
  shows "chain_effect (cl_jcs (cs_lib st)) d d' \<and> ids = map ch_ChainID due"
  using assms
proof (induction due arbitrary: e d1 d ids)
  case Nil
  then have "core d1 = core d" by (simp add: update_where_def core_def)
  with Nil show ?case by (auto simp: chain_effect_def ledger_grows_def)
next
  case (Cons x due)
  let ?i = "ch_ChainID x" and ?jcs = "cl_jcs (cs_lib st)"
  let ?m = "update_chain ?i g (revoke_open_links ?i now d)"
  from Cons.prems(1) obtain d2 rest where d2: "noted ?jcs (revoke_open_links ?i now d1) d2"
      and r: "expire_chains st claims pr now due (later 0 2 e) d2 = Inr (rest, d')" and ids: "ids = ?i # rest"
    by (auto simp: bindE_Inr_iff split_beta intro: noted_trans [OF noted_audit noted_emit])
  define m2 where "m2 = ?m\<lparr>secure_chain_audit := secure_chain_audit d2\<rparr>"
  have "table_step (core d) (core ?m)"
    by (rule core_close) (use Cons.prems(2,3,7) in auto)
  moreover have l: "ledger_grows ?jcs (secure_chain_audit d) (secure_chain_audit d2)"
    using d2 Cons.prems(5) by (simp add: noted_def)
  ultimately have e1: "chain_effect ?jcs d m2" by (auto simp: chain_effect_def m2_def)
  have keep: "ch_ChainID (g c) = ch_ChainID c" for c using Cons.prems(2) by (simp add: keeps_chain_def)
  have "core d2 = revoke_open_links ?i now (core d1)" using d2 by (simp add: noted_def)
  also have "\<dots> = (core m2)\<lparr>secure_chains := update_where (\<lambda>c. ch_ChainID c \<in> set (map ch_ChainID due)) g (secure_chains m2)\<rparr>"
    using Cons.prems(4,6) update_where_two [of ch_ChainID g ?i "set (map ch_ChainID due)" "secure_chains d", OF keep]
    by (simp add: m2_def update_chain_def revoke_open_links_def)
  finally have c2: "core d2 = (core m2)\<lparr>secure_chains := update_where (\<lambda>c. ch_ChainID c \<in> set (map ch_ChainID due)) g (secure_chains m2)\<rparr>" .
  have chains: "secure_chains m2 = update_where (\<lambda>c. ch_ChainID c = ?i) g (secure_chains d)" by (simp add: m2_def update_chain_def)
  have "chain_effect ?jcs m2 d' \<and> rest = map ch_ChainID due"
  proof (rule Cons.IH [OF r Cons.prems(2,3) c2])
    show "distinct (map ch_ChainID (secure_chains m2))" using Cons.prems(8) keep by (simp add: chains map_update_where)
    fix c assume c: "c \<in> set due"
    then have "ch_ChainID c \<noteq> ?i" using Cons.prems(6) by (auto simp: image_iff)
    with c Cons.prems(7) [of c] show "c \<in> set (secure_chains m2) \<and> ch_Status c = C_ACTIVE"
      by (auto simp: chains set_update_where)
  qed (use Cons.prems(6) in \<open>simp_all add: m2_def\<close>)
  with e1 ids show ?case by (auto intro: chain_effect_trans)
qed

lemma ChainExpireDue_effect:
  assumes "ChainExpireDue_work st pr e claims d = Inr (ids, d')" and "distinct (map ch_ChainID (secure_chains d))"
  shows "chain_effect (cl_jcs (cs_lib st)) d d' \<and> ids = map ch_ChainID (filter (chain_due (TenantID claims) (clk e 0)) (secure_chains d))"
proof -
  let ?P = "chain_due (TenantID claims) (clk e 0)"
  let ?g = "\<lambda>c. c\<lparr>ch_Status := C_EXPIRED, ch_UpdatedAt := clk e 0, ch_Version := ch_Version c + 1\<rparr>"
  have P: "?P c \<longleftrightarrow> ch_ChainID c \<in> set (map ch_ChainID (filter ?P (secure_chains d)))" if "c \<in> set (secure_chains d)" for c
    using that assms(2) by (auto dest: distinct_key_eq)
  then have u: "update_where ?P ?g (secure_chains d)
      = update_where (\<lambda>c. ch_ChainID c \<in> set (map ch_ChainID (filter ?P (secure_chains d)))) ?g (secure_chains d)"
    by (simp add: update_where_def)
  from assms(1) have "expire_chains st claims pr (clk e 1) (filter ?P (secure_chains d)) e (d\<lparr>secure_chains := update_where ?P ?g (secure_chains d)\<rparr>) = Inr (ids, d')"
    by (auto simp: ChainExpireDue_work_def Let_def split: if_splits)
  then show ?thesis
    by (rule expire_chains_effect [where g = ?g])
       (use u assms(2) in \<open>auto simp: keeps_chain_def chain_due_def distinct_map_filter\<close>)
qed

section \<open>The store as a step relation\<close>

text \<open>Every operation that writes, with whatever it answers. Reads change nothing.\<close>

inductive chain_step :: "cstore \<Rightarrow> sdb \<Rightarrow> sdb \<Rightarrow> bool" for st where
  RegisterBLAuthority: "RegisterBLAuthority st c k b e d = (y, d') \<Longrightarrow> chain_step st d d'"
| CreateChain: "CreateChain st c key k b x pr e d = (z, d') \<Longrightarrow> chain_step st d d'"
| Nominate: "Nominate st cs i to pr e d = (l, d') \<Longrightarrow> chain_step st d d'"
| Accept: "Accept st c i n pr e d = (l, d') \<Longrightarrow> chain_step st d d'"
| Decline: "Decline st c i n reason pr e d = (l, d') \<Longrightarrow> chain_step st d d'"
| Revoke: "Revoke st c i reason pr e d = (z, d') \<Longrightarrow> chain_step st d d'"
| ReleaseAuthorization: "ReleaseAuthorization st c k pr e d = (t, d') \<Longrightarrow> chain_step st d d'"
| Consume: "Consume st c n g pr e d = (t, d') \<Longrightarrow> chain_step st d d'"
| ExpireDue: "ChainExpireDue st c pr e d = (ids, d') \<Longrightarrow> chain_step st d d'"

inductive chain_reachable :: "cstore \<Rightarrow> sdb \<Rightarrow> bool" for st where
  init: "chain_reachable st empty_sdb"
| step: "chain_reachable st d \<Longrightarrow> chain_step st d d' \<Longrightarrow> chain_reachable st d'"

lemma WithTx_effect:
  assumes "WithTx c work d = (r, d')" and "\<And>claims a d'. work claims d = Inr (a, d') \<Longrightarrow> chain_effect jcs d d'"
  shows "chain_effect jcs d d'"
  using assms by (elim WithTx_relation [where R = "chain_effect jcs"]) (auto simp: chain_effect_refl)

lemma Nominate_op_effect:
  assumes "Nominate st c i to pr e d = (l, d')"
  shows "chain_effect (cl_jcs (cs_lib st)) d d'"
proof (cases "ValidOrg to")
  case True
  obtain r d1 where w: "WithTx (c 0) (Nominate_work st i to pr e) d = (r, d1)" by fastforce
  have e1: "chain_effect (cl_jcs (cs_lib st)) d d1" by (rule WithTx_effect [OF w]) (rule Nominate_effect)
  show ?thesis
  proof (cases "\<exists>err. r = Inl err \<and> errors_Is err errVelocityBreach")
    case hold: True
    obtain r2 d2 where v: "applyVelocityHold st (c 1) i pr (later 4 4 e) d1 = (r2, d2)" by fastforce
    have "chain_effect (cl_jcs (cs_lib st)) d1 d2"
      by (rule WithTx_effect [OF v [unfolded applyVelocityHold_def]]) (rule applyVelocityHold_effect)
    moreover have "d' = d2" using assms True w v hold by (auto simp: Nominate_def split: sum.splits)
    ultimately show ?thesis using e1 by (auto intro: chain_effect_trans)
  next
    case False
    then have "d' = d1" using assms True w by (auto simp: Nominate_def split: sum.splits if_splits)
    with e1 show ?thesis by simp
  qed
qed (use assms in \<open>auto simp: Nominate_def chain_effect_refl\<close>)

lemma chain_step_effect:
  assumes "chain_step st d d'" and "distinct (map ch_ChainID (secure_chains d))"
  shows "chain_effect (cl_jcs (cs_lib st)) d d'"
  using assms(1)
proof cases
  case RegisterBLAuthority
  then show ?thesis
    by (auto simp: RegisterBLAuthority_def Let_def chain_effect_refl split: if_splits elim!: WithTx_effect intro: RegisterBLAuthority_effect)
next
  case CreateChain
  then show ?thesis by (auto simp: CreateChain_def Let_def chain_effect_refl split: if_splits elim!: WithTx_effect intro: CreateChain_effect)
next
  case Nominate
  then show ?thesis by (rule Nominate_op_effect)
next
  case Accept
  then show ?thesis by (auto simp: Accept_def elim!: WithTx_effect intro: resolveLink_effect)
next
  case Decline
  then show ?thesis by (auto simp: Decline_def elim!: WithTx_effect intro: resolveLink_effect)
next
  case Revoke
  then show ?thesis by (auto simp: Revoke_def chain_effect_refl split: if_splits elim!: WithTx_effect intro: Revoke_effect)
next
  case ReleaseAuthorization
  then show ?thesis
    by (auto simp: ReleaseAuthorization_def Let_def chain_effect_refl split: if_splits elim!: WithTx_effect intro: ReleaseAuthorization_effect)
next
  case Consume
  then show ?thesis by (auto simp: Consume_def chain_effect_refl split: if_splits elim!: WithTx_effect intro: Consume_effect)
next
  case ExpireDue
  then show ?thesis using ChainExpireDue_effect [OF _ assms(2)] by (auto simp: ChainExpireDue_def elim!: WithTx_effect)
qed

section \<open>The invariant\<close>

definition links_of :: "sdb \<Rightarrow> string \<Rightarrow> Link list" where
  "links_of d i = filter (\<lambda>l. lk_ChainID l = i) (secure_chain_links d)"

definition consumed_tokens :: "sdb \<Rightarrow> string \<Rightarrow> int" where
  "consumed_tokens d i = count_rows (\<lambda>t. tk_ChainID t = i \<and> tk_ConsumedAt t \<noteq> None) (secure_chain_tokens d)"

definition withdrawn :: "CStatus \<Rightarrow> bool" where
  "withdrawn s \<longleftrightarrow> s = C_REVOKED \<or> s = C_EXPIRED"

definition sound_chain :: "sdb \<Rightarrow> Chain \<Rightarrow> bool" where
  "sound_chain d c \<longleftrightarrow>
     custody (ch_IssuerOrg c) 0 ZeroHash (links_of d (ch_ChainID c))
     \<and> (\<forall>l\<in>set (links_of d (ch_ChainID c)). link_State l \<noteq> (if withdrawn (ch_Status c) then LinkPending else LinkRevoked))
     \<and> consumed_tokens d (ch_ChainID c) = (if ch_Status c = C_COMPLETED then 1 else 0)
     \<and> (\<forall>t\<in>set (secure_chain_tokens d). tk_ChainID t = ch_ChainID c \<longrightarrow>
          tk_TenantID t = ch_TenantID c \<and> tk_ContainerID t = ch_ContainerID c
          \<and> has_held (ch_IssuerOrg c) (links_of d (ch_ChainID c)) (tk_HolderOrg t))"

definition one_active :: "Chain list \<Rightarrow> bool" where
  "one_active cs \<longleftrightarrow> (\<forall>c\<in>set cs. \<forall>c'\<in>set cs. ch_Status c = C_ACTIVE \<and> ch_Status c' = C_ACTIVE \<and> ch_TenantID c = ch_TenantID c'
     \<and> ch_ContainerID c = ch_ContainerID c' \<longrightarrow> ch_ChainID c = ch_ChainID c')"

definition chain_inv :: "sdb \<Rightarrow> bool" where
  "chain_inv d \<longleftrightarrow>
     distinct (map ch_ChainID (secure_chains d)) \<and> distinct (map tk_Nonce (secure_chain_tokens d)) \<and> one_active (secure_chains d)
     \<and> lk_ChainID ` set (secure_chain_links d) \<subseteq> ch_ChainID ` set (secure_chains d)
     \<and> tk_ChainID ` set (secure_chain_tokens d) \<subseteq> ch_ChainID ` set (secure_chains d)
     \<and> (\<forall>c\<in>set (secure_chains d). sound_chain d c)"

lemma filter_update_where: "(\<And>x. Q (f x) = Q x) \<Longrightarrow> filter Q (update_where P f T) = update_where P f (filter Q T)"
  by (induction T) (auto simp: update_where_def)

lemma chain_ok_cong:
  assumes "sound_chain d c" and "ch_ChainID c' = ch_ChainID c" and "ch_TenantID c' = ch_TenantID c" and "ch_ContainerID c' = ch_ContainerID c"
    and "ch_IssuerOrg c' = ch_IssuerOrg c" and "ch_Status c' = ch_Status c"
    and "links_of d' (ch_ChainID c) = links_of d (ch_ChainID c)" and "secure_chain_tokens d' = secure_chain_tokens d"
  shows "sound_chain d' c'"
  using assms by (simp add: sound_chain_def consumed_tokens_def)

lemma tailOf_custody:
  assumes "sound_chain d c"
  shows "tailOf d c = fold_tail (start_tail (ch_IssuerOrg c) 0 ZeroHash) (links_of d (ch_ChainID c))"
    and "sort_key lk_Seq (links_of d (ch_ChainID c)) = links_of d (ch_ChainID c)"
proof -
  have s: "sorted (map lk_Seq (links_of d (ch_ChainID c)))" using assms custody_sorted by (auto simp: sound_chain_def)
  then show "sort_key lk_Seq (links_of d (ch_ChainID c)) = links_of d (ch_ChainID c)" by (rule sort_key_id_if_sorted)
  then show "tailOf d c = fold_tail (start_tail (ch_IssuerOrg c) 0 ZeroHash) (links_of d (ch_ChainID c))"
    by (simp add: tailOf_def listLinks_def links_of_def fold_tail_def)
qed

lemma fold_tail_lastSeq: "tl_lastSeq (fold_tail t ls) = (if ls = [] then tl_lastSeq t else lk_Seq (last ls))"
proof (induction ls arbitrary: t)
  case (Cons l ls)
  have "tl_lastSeq (tail_step t (scan_link l)) = lk_Seq l" by (cases "link_State l") (simp_all add: tail_step_cases)
  with Cons show ?case by simp
qed simp

lemma link_seq:
  assumes "sound_chain d c" and "link_insert_error d c l = None" and "lk_ChainID l = ch_ChainID c"
    and "lk_Seq l = wrap64 (tl_lastSeq (tailOf d c) + 1)"
  shows "lk_Seq l = tl_lastSeq (tailOf d c) + 1"
proof (cases "links_of d (ch_ChainID c) = []")
  case True
  then have "tl_lastSeq (tailOf d c) = 0" using tailOf_custody(1) [OF assms(1)] by simp
  with assms(4) show ?thesis by (simp add: in_int64_def max_int64_def)
next
  case False
  then obtain ls x where ls: "links_of d (ch_ChainID c) = ls @ [x]" by (metis append_butlast_last_id)
  have "rev (sort_key lk_Seq (filter (\<lambda>x. lk_ChainID x = lk_ChainID l) (secure_chain_links d))) = x # rev ls"
    using tailOf_custody(2) [OF assms(1)] ls by (simp add: links_of_def assms(3))
  moreover have "link_guard d c l = None" using assms(2) by (auto simp: link_insert_error_def split: option.splits)
  ultimately have "lk_Seq l = lk_Seq x + 1" by (auto simp: link_guard_def split: if_splits)
  then show ?thesis using tailOf_custody(1) [OF assms(1)] ls by (simp add: fold_tail_lastSeq)
qed

lemma has_held_mono: "has_held h ls org \<Longrightarrow> (\<And>l. l \<in> set ls \<Longrightarrow> link_State l = LinkAccepted \<Longrightarrow> l \<in> set ls') \<Longrightarrow> has_held h ls' org"
  by (auto simp: has_held_def)

lemma has_held_update:
  assumes "has_held h ls org" and "\<And>x. x \<in> set ls \<Longrightarrow> P x \<Longrightarrow> link_State x = LinkPending"
  shows "has_held h (update_where P f ls) org"
  using assms(1) by (rule has_held_mono) (use assms(2) in \<open>force simp: set_update_where\<close>)

text \<open>Links change only from pending on, whatever else happens to the chain.\<close>

lemma chain_ok_links:
  assumes "sound_chain d c" and "\<And>x. same_identity x (f x)"
    and "\<And>x. x \<in> set (links_of d (ch_ChainID c)) \<Longrightarrow> P x \<Longrightarrow> link_State x = LinkPending"
    and "ch_ChainID c' = ch_ChainID c" "ch_TenantID c' = ch_TenantID c" "ch_ContainerID c' = ch_ContainerID c" "ch_IssuerOrg c' = ch_IssuerOrg c"
    and "ch_Status c' = C_COMPLETED \<longleftrightarrow> ch_Status c = C_COMPLETED"
    and "\<And>l. l \<in> set (update_where P f (links_of d (ch_ChainID c))) \<Longrightarrow> link_State l \<noteq> (if withdrawn (ch_Status c') then LinkPending else LinkRevoked)"
    and "secure_chain_links d' = update_where P f (secure_chain_links d)" and "secure_chain_tokens d' = secure_chain_tokens d"
  shows "sound_chain d' c'"
proof -
  have l: "links_of d' (ch_ChainID c) = update_where P f (links_of d (ch_ChainID c))"
    using assms(2) by (simp add: links_of_def assms(10) filter_update_where same_identity_def)
  show ?thesis
    using assms(1,4-8,9,11) custody_update [of _ _ _ "links_of d (ch_ChainID c)" P f, OF _ assms(3,2)]
      has_held_update [of _ "links_of d (ch_ChainID c)" _ P f, OF _ assms(3)]
    by (auto simp: sound_chain_def l consumed_tokens_def)
qed

end
