(* ===== verification/Securechain_Invariant.thy ===== *)
theory Securechain_Invariant
  imports Securechain_Correct
begin

text \<open>
  The invariant of the release chains holds in every state the store can reach, and so does
  that of the audit ledger; a relation that every step keeps holds between the ends of every
  run; trails of the ledger that end in the same hash agree or exhibit a collision.
\<close>

section \<open>Steps keep the invariant\<close>

lemma chain_inv_ids: "chain_inv d \<Longrightarrow> distinct (map ch_ChainID (secure_chains d))"
  by (simp add: chain_inv_def)

lemma chain_inv_ok: "chain_inv d \<Longrightarrow> c \<in> set (secure_chains d) \<Longrightarrow> sound_chain d c"
  by (simp add: chain_inv_def)

lemma chain_inv_unique: "chain_inv d \<Longrightarrow> c \<in> set (secure_chains d) \<Longrightarrow> x \<in> set (secure_chains d) \<Longrightarrow> ch_ChainID x = ch_ChainID c \<Longrightarrow> x = c"
  by (auto simp: chain_inv_def dest: distinct_key_eq)

lemma one_active_append:
  assumes "one_active cs" and "\<And>x. x \<in> set cs \<Longrightarrow> ch_TenantID x = ch_TenantID c \<Longrightarrow> ch_ContainerID x = ch_ContainerID c \<Longrightarrow> ch_Status x \<noteq> C_ACTIVE"
  shows "one_active (cs @ [c])"
  unfolding one_active_def
proof (intro ballI impI)
  fix x y assume xy: "x \<in> set (cs @ [c])" "y \<in> set (cs @ [c])"
    and act: "ch_Status x = C_ACTIVE \<and> ch_Status y = C_ACTIVE \<and> ch_TenantID x = ch_TenantID y \<and> ch_ContainerID x = ch_ContainerID y"
  consider "x = y" | "x \<in> set cs" "y \<in> set cs" | "x = c" "y \<in> set cs" | "x \<in> set cs" "y = c" using xy by auto
  then show "ch_ChainID x = ch_ChainID y"
  proof cases
    case 2
    with assms(1) act show ?thesis unfolding one_active_def by blast
  next
    case 3
    with assms(2) [of y] act show ?thesis by simp
  next
    case 4
    with assms(2) [of x] act show ?thesis by simp
  qed simp
qed

lemma step_create:
  assumes "chain_inv d" and "chain_insert_error d c = None" and "ch_Status c = C_ACTIVE"
  shows "chain_inv (d\<lparr>secure_chains := secure_chains d @ [c]\<rparr>)" (is "chain_inv ?d'")
proof -
  from assms(2) have fresh: "ch_ChainID c \<notin> ch_ChainID ` set (secure_chains d)"
    and none: "\<not> (\<exists>x\<in>set (secure_chains d). ch_TenantID x = ch_TenantID c \<and> ch_ContainerID x = ch_ContainerID c \<and> ch_Status x = C_ACTIVE)"
    by (auto simp: chain_insert_error_def list_ex_iff split: if_splits)
  from assms(1) have "\<forall>l\<in>set (secure_chain_links d). lk_ChainID l \<in> ch_ChainID ` set (secure_chains d)"
    "\<forall>t\<in>set (secure_chain_tokens d). tk_ChainID t \<in> ch_ChainID ` set (secure_chains d)" by (auto simp: chain_inv_def image_subset_iff)
  with fresh have nl: "links_of d (ch_ChainID c) = []" and nt: "\<forall>t\<in>set (secure_chain_tokens d). tk_ChainID t \<noteq> ch_ChainID c"
    unfolding links_of_def filter_empty_conv by metis+
  have "consumed_tokens ?d' (ch_ChainID c) = 0" using nt by (simp add: consumed_tokens_def count_rows_zero_iff)
  moreover have "links_of ?d' (ch_ChainID c) = []" using nl by (simp add: links_of_def)
  ultimately have "sound_chain ?d' c" using nt assms(3) by (simp add: sound_chain_def)
  moreover have "sound_chain ?d' x" if "x \<in> set (secure_chains d)" for x
    by (rule chain_ok_cong [OF chain_inv_ok [OF assms(1) that]]) (simp_all add: links_of_def)
  moreover have "one_active (secure_chains d @ [c])"
    by (rule one_active_append) (use assms(1) none in \<open>auto simp: chain_inv_def\<close>)
  ultimately show ?thesis using assms(1) fresh by (simp add: chain_inv_def subset_insertI2)
qed

text \<open>An update of one chain row that keeps its identity.\<close>

lemma one_active_update:
  assumes "one_active cs" and "keeps_chain f" and "\<And>x. x \<in> set cs \<Longrightarrow> P x \<Longrightarrow> ch_Status (f x) = C_ACTIVE \<Longrightarrow> ch_Status x = C_ACTIVE"
  shows "one_active (update_where P f cs)"
proof -
  have "\<exists>x\<in>set cs. ch_ChainID x = ch_ChainID y \<and> ch_TenantID x = ch_TenantID y \<and> ch_ContainerID x = ch_ContainerID y
      \<and> (ch_Status y = C_ACTIVE \<longrightarrow> ch_Status x = C_ACTIVE)" if y: "y \<in> set (update_where P f cs)" for y
  proof -
    from y obtain x where x: "x \<in> set cs" "y = (if P x then f x else x)" by (auto simp: set_update_where)
    then show ?thesis using assms(2) assms(3) [of x] by (intro bexI [of _ x]) (auto simp: keeps_chain_def)
  qed
  then show ?thesis using assms(1) unfolding one_active_def by metis
qed

lemma step_update:
  assumes "chain_inv d" and "c \<in> set (secure_chains d)" and "keeps_chain f" and "ch_Status (f c) = C_ACTIVE \<Longrightarrow> ch_Status c = C_ACTIVE"
    and "secure_chains d' = update_where (\<lambda>x. ch_ChainID x = ch_ChainID c) f (secure_chains d)"
    and "sound_chain d' (f c)" and "\<And>x. x \<in> set (secure_chains d) \<Longrightarrow> ch_ChainID x \<noteq> ch_ChainID c \<Longrightarrow> sound_chain d' x"
    and "distinct (map tk_Nonce (secure_chain_tokens d'))"
    and "lk_ChainID ` set (secure_chain_links d') = lk_ChainID ` set (secure_chain_links d)"
    and "tk_ChainID ` set (secure_chain_tokens d') = tk_ChainID ` set (secure_chain_tokens d)"
  shows "chain_inv d'"
proof -
  have ids: "map ch_ChainID (secure_chains d') = map ch_ChainID (secure_chains d)"
    using assms(3) by (simp add: assms(5) map_update_where keeps_chain_def)
  then have idset: "ch_ChainID ` set (secure_chains d') = ch_ChainID ` set (secure_chains d)" by (metis set_map)
  have uniq: "x = c" if "x \<in> set (secure_chains d)" "ch_ChainID x = ch_ChainID c" for x
    using chain_inv_unique [OF assms(1,2) that] .
  have "sound_chain d' x" if "x \<in> set (secure_chains d')" for x
  proof -
    from that obtain r where r: "r \<in> set (secure_chains d)" "x = (if ch_ChainID r = ch_ChainID c then f r else r)"
      by (auto simp: assms(5) set_update_where)
    then show ?thesis using assms(6) assms(7) [of r] uniq [of r] by (cases "ch_ChainID r = ch_ChainID c") auto
  qed
  moreover have "one_active (secure_chains d')"
    unfolding assms(5) by (rule one_active_update) (use assms(1,3,4) uniq in \<open>auto simp: chain_inv_def\<close>)
  ultimately show ?thesis using assms(1,8-10) ids idset by (simp add: chain_inv_def)
qed

lemma step_hold:
  assumes "chain_inv d" and "c \<in> set (secure_chains d)" and "keeps_chain f" and "\<And>x. ch_Status (f x) = ch_Status x \<and> ch_VelocityHold (f x)"
  shows "chain_inv (update_chain (ch_ChainID c) f d)" (is "chain_inv ?d'")
proof (rule step_update [OF assms(1-3)])
  show "sound_chain ?d' (f c)"
    by (rule chain_ok_cong [OF chain_inv_ok [OF assms(1,2)]])
       (use assms(3,4) in \<open>simp_all add: keeps_chain_def update_chain_def links_of_def\<close>)
  show "sound_chain ?d' x" if "x \<in> set (secure_chains d)" for x
    by (rule chain_ok_cong [OF chain_inv_ok [OF assms(1) that]]) (simp_all add: update_chain_def links_of_def)
qed (use assms in \<open>auto simp: update_chain_def chain_inv_def\<close>)

lemma step_link:
  assumes "chain_inv d" and "c \<in> set (secure_chains d)" and "ch_Status c = C_ACTIVE" and "lk_ChainID l = ch_ChainID c" and "link_State l = LinkPending"
    and "free_tail d c (lk_FromOrg l)" and "lk_ToOrg l \<noteq> lk_FromOrg l" and "lk_PrevHash l = tl_lastHash (tailOf d c)"
    and "lk_Seq l = wrap64 (tl_lastSeq (tailOf d c) + 1)" and "link_insert_error d c l = None"
  shows "chain_inv (d\<lparr>secure_chain_links := secure_chain_links d @ [l]\<rparr>)" (is "chain_inv ?d'")
proof -
  note ok = chain_inv_ok [OF assms(1,2)]
  note t = tailOf_custody(1) [OF ok]
  have ls: "links_of ?d' (ch_ChainID c) = links_of d (ch_ChainID c) @ [l]" by (simp add: links_of_def assms(4))
  have "custody (ch_IssuerOrg c) 0 ZeroHash (links_of d (ch_ChainID c) @ [l])"
    by (rule custody_append) (use ok assms t link_seq [OF ok assms(10,4,9)] in \<open>auto simp: free_tail_def sound_chain_def\<close>)
  moreover have "has_held h (links_of d (ch_ChainID c) @ [l]) org" if "has_held h (links_of d (ch_ChainID c)) org" for h org
    using that by (rule has_held_mono) simp
  ultimately have "sound_chain ?d' c" using ok assms(3,5) by (auto simp: sound_chain_def ls consumed_tokens_def withdrawn_def)
  moreover have "sound_chain ?d' x" if "x \<in> set (secure_chains d)" "ch_ChainID x \<noteq> ch_ChainID c" for x
    by (rule chain_ok_cong [OF chain_inv_ok [OF assms(1) that(1)]]) (use assms(4) that(2) in \<open>simp_all add: links_of_def\<close>)
  moreover have "x = c" if "x \<in> set (secure_chains d)" "ch_ChainID x = ch_ChainID c" for x
    using chain_inv_unique [OF assms(1,2) that] .
  ultimately have "\<forall>x\<in>set (secure_chains d). sound_chain ?d' x" by metis
  with assms(1,2,4) show ?thesis by (auto simp: chain_inv_def)
qed

text \<open>What happens to the links of one chain leaves the other chains alone.\<close>

lemma other_links:
  assumes "sound_chain d x" and "\<And>l. P l \<Longrightarrow> lk_ChainID l \<noteq> ch_ChainID x" and "\<And>l. same_identity l (f l)"
    and "secure_chain_links d' = update_where P f (secure_chain_links d)" and "secure_chain_tokens d' = secure_chain_tokens d"
  shows "sound_chain d' x"
proof -
  have "links_of d' (ch_ChainID x) = update_where P f (links_of d (ch_ChainID x))"
    using assms(3) by (simp add: links_of_def assms(4) filter_update_where same_identity_def)
  also have "\<dots> = links_of d (ch_ChainID x)" by (rule update_where_none) (use assms(2) in \<open>auto simp: links_of_def\<close>)
  finally show ?thesis by (intro chain_ok_cong [OF assms(1)]) (simp_all add: assms(5))
qed

lemma link_ids_update: "(\<And>l. same_identity l (f l)) \<Longrightarrow> lk_ChainID ` set (update_where P f ls) = lk_ChainID ` set ls"
  using map_update_where [of P lk_ChainID f ls] by (metis same_identity_def set_map)

lemma step_resolve:
  assumes "chain_inv d" and "c \<in> set (secure_chains d)" and "ch_Status c = C_ACTIVE" and "tl_pendingLink (tailOf d c) = Some q"
    and "\<And>x. same_identity x (f x)" and "\<And>x. link_State x = LinkPending \<Longrightarrow> link_State (f x) = LinkAccepted \<or> link_State (f x) = LinkDeclined"
  shows "chain_inv (update_link (ch_ChainID c) (lk_Seq q) f d)" (is "chain_inv ?d'")
proof -
  let ?P = "\<lambda>l. lk_ChainID l = ch_ChainID c \<and> lk_Seq l = lk_Seq q"
  note ok = chain_inv_ok [OF assms(1,2)]
  then have cu: "custody (ch_IssuerOrg c) 0 ZeroHash (links_of d (ch_ChainID c))" by (simp add: sound_chain_def)
  from custody_pending [OF cu] assms(4) tailOf_custody(1) [OF ok] obtain p
    where p: "p \<in> set (links_of d (ch_ChainID c))" "q = scan_link p" "link_State p = LinkPending" by auto
  have pend: "x = p" if "x \<in> set (links_of d (ch_ChainID c))" "?P x" for x
    using that p custody_sorted [OF cu] by (auto dest: distinct_key_eq)
  have links: "secure_chain_links ?d' = update_where ?P f (secure_chain_links d)" "secure_chain_tokens ?d' = secure_chain_tokens d"
    "secure_chains ?d' = secure_chains d" by (simp_all add: update_link_def)
  have "sound_chain ?d' c"
  proof (rule chain_ok_links [OF ok assms(5) _ refl refl refl refl refl _ links(1,2)])
    show "link_State x = LinkPending" if "x \<in> set (links_of d (ch_ChainID c))" "?P x" for x using pend [OF that] p(3) by simp
    show "link_State l \<noteq> (if withdrawn (ch_Status c) then LinkPending else LinkRevoked)"
      if l: "l \<in> set (update_where ?P f (links_of d (ch_ChainID c)))" for l
    proof -
      from l obtain r where r: "r \<in> set (links_of d (ch_ChainID c))" "l = (if ?P r then f r else r)" by (auto simp: set_update_where)
      show ?thesis
      proof (cases "?P r")
        case True
        with r pend [OF r(1)] p(3) assms(6) [of p] show ?thesis by auto
      next
        case False
        with r ok show ?thesis by (auto simp: sound_chain_def)
      qed
    qed
  qed
  moreover have "sound_chain ?d' x" if "x \<in> set (secure_chains d)" "ch_ChainID x \<noteq> ch_ChainID c" for x
    by (rule other_links [OF _ _ assms(5) links(1,2)]) (use chain_inv_ok [OF assms(1) that(1)] that(2) in auto)
  moreover have "x = c" if "x \<in> set (secure_chains d)" "ch_ChainID x = ch_ChainID c" for x
    using chain_inv_unique [OF assms(1,2) that] .
  ultimately have "\<forall>x\<in>set (secure_chains d). sound_chain ?d' x" by metis
  then show ?thesis using assms(1) links link_ids_update [OF assms(5)] by (simp add: chain_inv_def)
qed

lemma revoke_identity: "same_identity l (l\<lparr>lk_RevokedAt := at\<rparr>)"
  by (simp add: same_identity_def)

lemma step_close:
  assumes "chain_inv d" and "c \<in> set (secure_chains d)" and "ch_Status c = C_ACTIVE" and "keeps_chain f"
    and "(\<forall>x. ch_Status (f x) = C_REVOKED) \<or> (\<forall>x. ch_Status (f x) = C_EXPIRED)"
  shows "chain_inv (update_chain (ch_ChainID c) f (revoke_open_links (ch_ChainID c) at d))" (is "chain_inv ?d'")
proof (rule step_update [OF assms(1,2,4)])
  let ?P = "\<lambda>l. lk_ChainID l = ch_ChainID c \<and> link_State l = LinkPending" and ?f = "\<lambda>l. l\<lparr>lk_RevokedAt := Some at\<rparr>"
  have links: "secure_chain_links ?d' = update_where ?P ?f (secure_chain_links d)" "secure_chain_tokens ?d' = secure_chain_tokens d"
    by (simp_all add: update_chain_def revoke_open_links_def)
  have st: "withdrawn (ch_Status (f c))" "ch_Status (f c) \<noteq> C_COMPLETED" using assms(5) by (auto simp: withdrawn_def)
  show "ch_Status c = C_ACTIVE" by fact
  show "sound_chain ?d' (f c)"
  proof (rule chain_ok_links [OF chain_inv_ok [OF assms(1,2)] revoke_identity _ _ _ _ _ _ _ links])
    fix l assume "l \<in> set (update_where ?P ?f (links_of d (ch_ChainID c)))"
    then obtain r where r: "r \<in> set (links_of d (ch_ChainID c))" "l = (if ?P r then ?f r else r)" by (auto simp: set_update_where)
    have "link_State (?f r) = LinkRevoked" if "link_State r = LinkPending" using that by (auto simp: link_State_def split: if_splits)
    with r have "link_State l \<noteq> LinkPending" by (auto simp: links_of_def)
    with st(1) show "link_State l \<noteq> (if withdrawn (ch_Status (f c)) then LinkPending else LinkRevoked)" by simp
  qed (use assms(3,4) st in \<open>auto simp: keeps_chain_def\<close>)
  show "sound_chain ?d' x" if "x \<in> set (secure_chains d)" "ch_ChainID x \<noteq> ch_ChainID c" for x
    by (rule other_links [OF chain_inv_ok [OF assms(1) that(1)] _ revoke_identity links]) (use that in auto)
  show "lk_ChainID ` set (secure_chain_links ?d') = lk_ChainID ` set (secure_chain_links d)"
    unfolding links by (rule link_ids_update) (rule revoke_identity)
qed (use assms(1) in \<open>auto simp: update_chain_def revoke_open_links_def chain_inv_def\<close>)

lemma step_token:
  assumes "chain_inv d" and "c \<in> set (secure_chains d)" and "free_tail d c (tk_HolderOrg t)"
    and "tk_ChainID t = ch_ChainID c" and "tk_TenantID t = ch_TenantID c" and "tk_ContainerID t = ch_ContainerID c" and "tk_ConsumedAt t = None"
    and "token_insert_error d t = None"
  shows "chain_inv (d\<lparr>secure_chain_tokens := secure_chain_tokens d @ [t]\<rparr>)" (is "chain_inv ?d'")
proof -
  note ok = chain_inv_ok [OF assms(1,2)]
  have held: "has_held (ch_IssuerOrg c) (links_of d (ch_ChainID c)) (tk_HolderOrg t)"
    using tail_has_held [of "ch_IssuerOrg c" 0 ZeroHash "links_of d (ch_ChainID c)"] ok tailOf_custody(1) [OF ok] assms(3)
    by (simp add: free_tail_def sound_chain_def)
  have l: "links_of ?d' i = links_of d i" for i by (simp add: links_of_def)
  have n: "consumed_tokens ?d' i = consumed_tokens d i" for i by (simp add: consumed_tokens_def assms(7))
  have "sound_chain ?d' x" if "x \<in> set (secure_chains d)" for x
  proof (cases "x = c")
    case True
    with ok held assms(4-6) show ?thesis by (auto simp: sound_chain_def l n)
  next
    case False
    then have "ch_ChainID x \<noteq> ch_ChainID c" using chain_inv_unique [OF assms(1,2) that] by blast
    with chain_inv_ok [OF assms(1) that] assms(4) show ?thesis by (auto simp: sound_chain_def l n)
  qed
  moreover have "tk_Nonce t \<notin> tk_Nonce ` set (secure_chain_tokens d)"
    using assms(8) by (auto simp: token_insert_error_def list_ex_iff split: if_splits)
  ultimately show ?thesis using assms(1,2,4) by (auto simp: chain_inv_def)
qed

lemma step_consume:
  assumes "chain_inv d" and "c \<in> set (secure_chains d)" and "ch_Status c = C_ACTIVE" and "t \<in> set (secure_chain_tokens d)" and "tk_ConsumedAt t = None"
    and "tk_ChainID t = ch_ChainID c" and "keeps_chain f" and "\<And>x. ch_Status (f x) = C_COMPLETED" and "\<And>x. P x \<Longrightarrow> tk_Nonce x = tk_Nonce t" and "P t"
  shows "chain_inv (update_chain (ch_ChainID c) f
    (d\<lparr>secure_chain_tokens := update_where P (\<lambda>x. x\<lparr>tk_ConsumedAt := Some at, tk_ConsumedGate := Some g\<rparr>) (secure_chain_tokens d)\<rparr>))"
    (is "chain_inv ?d'")
proof (rule step_update [OF assms(1,2,7)])
  let ?g = "\<lambda>x. x\<lparr>tk_ConsumedAt := Some at, tk_ConsumedGate := Some g\<rparr>"
  let ?T = "secure_chain_tokens d"
  have uniq: "P x \<longleftrightarrow> x = t" if "x \<in> set ?T" for x
  proof -
    have "distinct (map tk_Nonce ?T)" using assms(1) by (simp add: chain_inv_def)
    then show ?thesis using that assms(4,10) assms(9) [of x] by (auto dest: distinct_key_eq)
  qed
  have toks: "secure_chain_tokens ?d' = update_where P ?g ?T" "secure_chain_links ?d' = secure_chain_links d" by (simp_all add: update_chain_def)
  have l: "links_of ?d' i = links_of d i" for i by (simp add: links_of_def toks)
  have n: "consumed_tokens ?d' i = consumed_tokens d i + (if i = ch_ChainID c then 1 else 0)" for i
  proof -
    have "consumed_tokens ?d' i = count_rows (\<lambda>x. (tk_ChainID x = i \<and> tk_ConsumedAt x \<noteq> None) \<and> tk_Nonce x \<noteq> tk_Nonce t) ?T
        + (if tk_ChainID (?g t) = i \<and> tk_ConsumedAt (?g t) \<noteq> None then 1 else 0)"
      unfolding consumed_tokens_def toks
      by (rule count_update_unique) (use assms(1,4) uniq in \<open>auto simp: chain_inv_def\<close>)
    moreover have "count_rows (\<lambda>x. (tk_ChainID x = i \<and> tk_ConsumedAt x \<noteq> None) \<and> tk_Nonce x \<noteq> tk_Nonce t) ?T = consumed_tokens d i"
      unfolding consumed_tokens_def
    proof (rule count_rows_cong)
      fix x assume x: "x \<in> set ?T"
      have "distinct (map tk_Nonce ?T)" using assms(1) by (simp add: chain_inv_def)
      then have "x = t" if "tk_Nonce x = tk_Nonce t" using that x assms(4) by (auto dest: distinct_key_eq)
      then show "((tk_ChainID x = i \<and> tk_ConsumedAt x \<noteq> None) \<and> tk_Nonce x \<noteq> tk_Nonce t) = (tk_ChainID x = i \<and> tk_ConsumedAt x \<noteq> None)"
        using assms(5) by auto
    qed
    ultimately show ?thesis by (simp add: assms(6))
  qed
  have tokens: "\<exists>y\<in>set ?T. tk_ChainID y = tk_ChainID x \<and> tk_TenantID y = tk_TenantID x \<and> tk_ContainerID y = tk_ContainerID x \<and> tk_HolderOrg y = tk_HolderOrg x"
    if "x \<in> set (secure_chain_tokens ?d')" for x
    using that by (auto simp: toks set_update_where split: if_splits)
  have others: "\<forall>t\<in>set (secure_chain_tokens ?d'). tk_ChainID t = ch_ChainID x \<longrightarrow> tk_TenantID t = ch_TenantID x \<and> tk_ContainerID t = ch_ContainerID x
      \<and> has_held (ch_IssuerOrg x) (links_of d (ch_ChainID x)) (tk_HolderOrg t)" if "x \<in> set (secure_chains d)" for x
    using tokens chain_inv_ok [OF assms(1) that] unfolding sound_chain_def by metis
  show "sound_chain ?d' (f c)"
    using chain_inv_ok [OF assms(1,2)] others [OF assms(2)] assms(3,7,8) by (simp add: sound_chain_def l n keeps_chain_def withdrawn_def)
  show "sound_chain ?d' x" if "x \<in> set (secure_chains d)" "ch_ChainID x \<noteq> ch_ChainID c" for x
    using chain_inv_ok [OF assms(1) that(1)] others [OF that(1)] that(2) by (simp add: sound_chain_def l n)
  show "distinct (map tk_Nonce (secure_chain_tokens ?d'))" using assms(1) by (simp add: toks map_update_where chain_inv_def)
  have "map tk_ChainID (secure_chain_tokens ?d') = map tk_ChainID ?T" by (simp add: toks map_update_where)
  then show "tk_ChainID ` set (secure_chain_tokens ?d') = tk_ChainID ` set ?T" by (metis set_map)
qed (use assms(3) in \<open>simp_all add: update_chain_def\<close>)


section \<open>Reachable states\<close>

lemma table_step_inv: "table_step d d' \<Longrightarrow> chain_inv d \<Longrightarrow> chain_inv d'"
  by (induction rule: table_step.induct)
     (blast intro: step_create step_hold step_link step_resolve step_close step_token step_consume)+

lemma table_steps_inv: "table_step\<^sup>*\<^sup>* d d' \<Longrightarrow> chain_inv d \<Longrightarrow> chain_inv d'"
  by (induction rule: rtranclp_induct) (auto intro: table_step_inv)

lemma chain_inv_core: "chain_inv (core d) = chain_inv d"
  by (simp add: chain_inv_def sound_chain_def links_of_def consumed_tokens_def)

lemma chain_step_inv: "chain_step st d d' \<Longrightarrow> chain_inv d \<Longrightarrow> chain_inv d'"
  using chain_step_effect [of st d d'] table_steps_inv [of "core d" "core d'"]
  by (simp add: chain_inv_core chain_inv_ids chain_effect_def)

lemma empty_inv: "chain_inv empty_sdb"
  by (simp add: chain_inv_def empty_sdb_def one_active_def)

lemma chain_reachable_inv: "chain_reachable st d \<Longrightarrow> chain_inv d"
  by (induction rule: chain_reachable.induct) (auto intro: empty_inv chain_step_inv)

lemma chain_steps_inv: "(chain_step st)\<^sup>*\<^sup>* d d' \<Longrightarrow> chain_inv d \<Longrightarrow> chain_inv d'"
  by (induction rule: rtranclp_induct) (auto intro: chain_step_inv)

text \<open>
  What holds from each state to the next holds over every run: a relation on the core tables that
  is reflexive and transitive and that every step keeps relates the ends of every run of the store.
\<close>

locale kept_relation =
  fixes R :: "sdb \<Rightarrow> sdb \<Rightarrow> bool"
  assumes keeps_refl: "R d d"
    and keeps_trans: "R x y \<Longrightarrow> R y z \<Longrightarrow> R x z"
    and keeps_step: "chain_inv x \<Longrightarrow> table_step x y \<Longrightarrow> R x y"
begin

lemma keeps_steps:
  assumes "table_step\<^sup>*\<^sup>* x y" and "chain_inv x"
  shows "R x y"
  using assms
proof (induction rule: rtranclp_induct)
  case (step u v)
  from step.hyps step.prems have "R u v" by (blast intro: keeps_step table_steps_inv)
  with step show ?case by (blast intro: keeps_trans)
qed (rule keeps_refl)

lemma keeps_run:
  assumes "(chain_step st)\<^sup>*\<^sup>* d d'" and "chain_inv d"
  shows "R (core d) (core d')"
  using assms(1)
proof (induction rule: rtranclp_induct)
  case (step y z)
  have "chain_inv y" using step.hyps(1) assms(2) by (rule chain_steps_inv)
  then have "table_step\<^sup>*\<^sup>* (core y) (core z)" "chain_inv (core y)"
    using chain_step_effect [OF step.hyps(2)] by (simp_all add: chain_inv_ids chain_effect_def chain_inv_core)
  with step.IH show ?case by (blast intro: keeps_trans keeps_steps)
qed (rule keeps_refl)

end

section \<open>The audit ledger\<close>

text \<open>The canonical form of a JSON value does not depend on the order of the members of its objects.\<close>

definition jcs_contract :: "(json \<Rightarrow> string result) \<Rightarrow> bool" where
  "jcs_contract jcs \<longleftrightarrow> (\<forall>v. jcs (jsonb v) = jcs v)"

definition ledger_ok :: "(json \<Rightarrow> string result) \<Rightarrow> AuditEntry list \<Rightarrow> bool" where
  "ledger_ok jcs T \<longleftrightarrow> (\<forall>tid i. verify_entries jcs ZeroHash (filter (\<lambda>a. ae_TenantID a = tid \<and> ae_ChainID a = i) T) = Inr True)"

lemma verify_entries_append:
  "verify_entries jcs p es = Inr True \<Longrightarrow> ae_PrevHash a = (if es = [] then p else ae_EntryHash (last es))
    \<Longrightarrow> AuditHash jcs (ae_PrevHash a) (ae_Payload a) = Inr (ae_EntryHash a) \<Longrightarrow> verify_entries jcs p (es @ [a]) = Inr True"
  by (induction es arbitrary: p) (auto simp: bindE_Inr_iff split: if_splits)

lemma good_entry_ok:
  assumes "jcs_contract jcs" and "good_entry jcs T a" and "ledger_ok jcs T"
  shows "ledger_ok jcs (T @ [a])"
proof -
  let ?es = "filter (\<lambda>b. ae_TenantID b = ae_TenantID a \<and> ae_ChainID b = ae_ChainID a) T"
  from assms(2) obtain v where v: "AuditHash jcs (ae_PrevHash a) v = Inr (ae_EntryHash a)" "ae_Payload a = jsonb v" "ae_PrevHash a = audit_tail ?es"
    by (auto simp: good_entry_def)
  have "AuditHash jcs (ae_PrevHash a) (ae_Payload a) = Inr (ae_EntryHash a)"
  proof -
    have "AuditHash jcs h (jsonb v) = AuditHash jcs h v" for h using assms(1) by (simp add: AuditHash_def jcs_contract_def)
    with v(1,2) show ?thesis by simp
  qed
  then have "verify_entries jcs ZeroHash (?es @ [a]) = Inr True"
    using assms(3) v(3) by (intro verify_entries_append) (auto simp: ledger_ok_def audit_tail_def)
  with assms(3) show ?thesis by (auto simp: ledger_ok_def)
qed

lemma ledger_grows_ok:
  assumes "jcs_contract jcs" and "ledger_grows jcs T T'" and "ledger_ok jcs T"
  shows "ledger_ok jcs T'"
  using assms(2,3) unfolding ledger_grows_def
  by (induction rule: rtranclp_induct) (auto intro: good_entry_ok [OF assms(1)])

lemma reachable_ledger:
  assumes "chain_reachable st d" and "jcs_contract (cl_jcs (cs_lib st))"
  shows "ledger_ok (cl_jcs (cs_lib st)) (secure_chain_audit d)"
  using assms(1)
proof (induction rule: chain_reachable.induct)
  case init
  show ?case by (simp add: ledger_ok_def empty_sdb_def)
next
  case (step d d')
  have "ledger_grows (cl_jcs (cs_lib st)) (secure_chain_audit d) (secure_chain_audit d')"
    using chain_step_effect [OF step.hyps(2) chain_inv_ids [OF chain_reachable_inv [OF step.hyps(1)]]] by (simp add: chain_effect_def)
  with step.IH show ?case by (rule ledger_grows_ok [OF assms(2), rotated])
qed

lemma verify_tail_valid:
  "verify_entries jcs p es = Inr True \<Longrightarrow> ValidDigest p \<Longrightarrow> ValidDigest (if es = [] then p else ae_EntryHash (last es))"
proof (induction es arbitrary: p)
  case (Cons a es)
  then have h: "AuditHash jcs p (ae_Payload a) = Inr (ae_EntryHash a)" "verify_entries jcs (ae_EntryHash a) es = Inr True"
    by (auto simp: bindE_Inr_iff split: if_splits)
  from Cons.IH [OF h(2)] AuditHash_Inr [OF h(1)] show ?case by (simp split: if_splits)
qed simp

text \<open>
  Two verified trails of the same length that end in the same hash agree entry for entry, or
  two of their entries are a collision of SHA-256.
\<close>

definition entry_preimage :: "(json \<Rightarrow> string result) \<Rightarrow> AuditEntry \<Rightarrow> string" where
  "entry_preimage jcs a = (case jcs (ae_Payload a) of Inl _ \<Rightarrow> [] | Inr c \<Rightarrow> ae_PrevHash a @ ''|'' @ c)"

definition collision :: "(json \<Rightarrow> string result) \<Rightarrow> AuditEntry list \<Rightarrow> AuditEntry list \<Rightarrow> bool" where
  "collision jcs es es' \<longleftrightarrow>
     (\<exists>(a, b)\<in>set (zip es es'). entry_preimage jcs a \<noteq> entry_preimage jcs b \<and> Sum256 (entry_preimage jcs a) = Sum256 (entry_preimage jcs b))"

lemma AuditHash_preimage:
  assumes "AuditHash jcs (ae_PrevHash a) (ae_Payload a) = Inr h"
  obtains c where "jcs (ae_Payload a) = Inr c" and "length (ae_PrevHash a) = 64" and "entry_preimage jcs a = ae_PrevHash a @ ''|'' @ c"
    and "h = EncodeToString (Sum256 (entry_preimage jcs a))"
  using assms by (auto simp: AuditHash_def bindE_Inr_iff entry_preimage_def chain_digest_def ValidDigest_alt split: if_splits)

lemma AuditHash_eq:
  assumes "AuditHash jcs (ae_PrevHash a) (ae_Payload a) = Inr h" and "AuditHash jcs (ae_PrevHash b) (ae_Payload b) = Inr h"
    and "entry_preimage jcs a = entry_preimage jcs b \<or> Sum256 (entry_preimage jcs a) \<noteq> Sum256 (entry_preimage jcs b)"
  shows "ae_PrevHash a = ae_PrevHash b \<and> jcs (ae_Payload a) = jcs (ae_Payload b)"
proof -
  obtain c where c: "jcs (ae_Payload a) = Inr c" "length (ae_PrevHash a) = 64" "entry_preimage jcs a = ae_PrevHash a @ ''|'' @ c"
    "h = EncodeToString (Sum256 (entry_preimage jcs a))" using assms(1) by (rule AuditHash_preimage)
  obtain c' where c': "jcs (ae_Payload b) = Inr c'" "length (ae_PrevHash b) = 64" "entry_preimage jcs b = ae_PrevHash b @ ''|'' @ c'"
    "h = EncodeToString (Sum256 (entry_preimage jcs b))" using assms(2) by (rule AuditHash_preimage)
  from c(4) c'(4) have "Sum256 (entry_preimage jcs a) = Sum256 (entry_preimage jcs b)" by (metis hex_decode_encode option.inject)
  with assms(3) have "ae_PrevHash a @ ''|'' @ c = ae_PrevHash b @ ''|'' @ c'" using c(3) c'(3) by simp
  with c(2) c'(2) have "ae_PrevHash a = ae_PrevHash b \<and> ''|'' @ c = ''|'' @ c'" by (intro append_eq_append_conv [THEN iffD1]) simp_all
  with c(1) c'(1) show ?thesis by simp
qed

lemma verify_entries_Cons:
  "verify_entries jcs p (a # es) = Inr True \<longleftrightarrow>
     ae_PrevHash a = p \<and> AuditHash jcs p (ae_Payload a) = Inr (ae_EntryHash a) \<and> verify_entries jcs (ae_EntryHash a) es = Inr True"
  by (auto simp: bindE_Inr_iff split: if_splits)

lemma verify_entries_snoc:
  "verify_entries jcs p (es @ [a]) = Inr True \<Longrightarrow>
     verify_entries jcs p es = Inr True \<and> ae_PrevHash a = (if es = [] then p else ae_EntryHash (last es))
     \<and> AuditHash jcs (ae_PrevHash a) (ae_Payload a) = Inr (ae_EntryHash a)"
proof (induction es arbitrary: p)
  case Nil
  then have "verify_entries jcs p (a # []) = Inr True" by simp
  then show ?case unfolding verify_entries_Cons by simp
next
  case (Cons x es)
  then have "verify_entries jcs p (x # (es @ [a])) = Inr True" by simp
  then have x: "ae_PrevHash x = p" "AuditHash jcs p (ae_Payload x) = Inr (ae_EntryHash x)" "verify_entries jcs (ae_EntryHash x) (es @ [a]) = Inr True"
    unfolding verify_entries_Cons by simp_all
  from Cons.IH [OF x(3)] x(1,2) show ?case unfolding verify_entries_Cons by auto
qed

lemma trails_agree:
  assumes "length es = length es'" and "verify_entries jcs ZeroHash es = Inr True" and "verify_entries jcs ZeroHash es' = Inr True"
    and "audit_tail es = audit_tail es'" and "\<not> collision jcs es es'"
  shows "map (\<lambda>a. (ae_PrevHash a, jcs (ae_Payload a), ae_EntryHash a)) es = map (\<lambda>a. (ae_PrevHash a, jcs (ae_Payload a), ae_EntryHash a)) es'"
  using assms
proof (induction es arbitrary: es' rule: rev_induct)
  case (snoc a es)
  then obtain b fs where f: "es' = fs @ [b]" "length fs = length es"
    by (metis append_butlast_last_id length_append_singleton length_butlast diff_Suc_1 list.size(3) nat.distinct(1))
  note v = verify_entries_snoc [OF snoc.prems(2)] and w = verify_entries_snoc [OF snoc.prems(3) [unfolded f]]
  have h: "ae_EntryHash a = ae_EntryHash b" using snoc.prems(4) by (simp add: f audit_tail_def)
  have nc: "\<not> collision jcs es fs"
    "entry_preimage jcs a = entry_preimage jcs b \<or> Sum256 (entry_preimage jcs a) \<noteq> Sum256 (entry_preimage jcs b)"
    using snoc.prems(5) f by (auto simp: collision_def)
  have e: "ae_PrevHash a = ae_PrevHash b \<and> jcs (ae_Payload a) = jcs (ae_Payload b)"
    by (rule AuditHash_eq [of jcs _ "ae_EntryHash a", OF _ _ nc(2)]) (use v w h in auto)
  moreover have "audit_tail es = audit_tail fs" using v w e by (auto simp: audit_tail_def)
  ultimately show ?case using snoc.IH [of fs] f h v w nc(1) by simp
qed simp

end
