(* ===== verification/Securechain_Scenario.thy ===== *)
theory Securechain_Scenario
  imports Securechain_Invariant
begin

text \<open>
  What the ledger and the outbox need to accept a record, and a concrete run of the secure
  chains, used to instantiate the properties: the shipping line LINE registers a container
  and opens its chain, nominates the organisation clerk, which accepts and asks for a release token that the
  gate redeems; from the third state on, a second nomination within a day breaches the threshold.
\<close>

section \<open>Records are accepted\<close>

lemma chain_audit_ok:
  assumes "\<And>v. \<exists>c. cl_jcs (cs_lib st) v = Inr c" and "ValidDigest (audit_tail (audit_rows (TenantID claims) d i))"
  shows "\<exists>a. chain_audit st claims i ty pl at d = Inr (d\<lparr>secure_chain_audit := secure_chain_audit d @ [a]\<rparr>)
    \<and> ae_TenantID a = TenantID claims \<and> ae_ChainID a = i"
proof -
  obtain c where "cl_jcs (cs_lib st) (audit_payload ty pl at) = Inr c" using assms(1) by blast
  with assms(2) show ?thesis by (auto simp: chain_audit_def Let_def AuditHash_def wrap_err_def audit_entry_def)
qed

lemma chain_emit_ok:
  assumes "\<And>x. \<exists>z. Sign (cl_crypto (cs_lib st)) (cs_signer st) x = Inr z" and "TrimSpace ty \<noteq> []" and "TrimSpace corr \<noteq> []"
    and "TrimSpace sub \<noteq> []" and "TrimSpace (pr_ID pr) \<noteq> []" and "TrimSpace (pr_Role pr) \<noteq> []"
    and "list_all (\<lambda>k. TrimSpace k \<noteq> []) (map fst ext)" and "rnd e 1 \<notin> set (map ox_EventID (chain_outbox d))"
  shows "\<exists>x. chain_emit st claims ty corr sub p ext pr at e d = Inr (d\<lparr>chain_outbox := chain_outbox d @ [x]\<rparr>) \<and> ox_EventID x = rnd e 1"
proof -
  have "\<exists>x. emit_event claims TopicSecureChain ty corr sub p ext pr at (chain_signer st) e (chain_outbox d) = Inr (chain_outbox d @ [x])
      \<and> ox_EventID x = rnd e 1"
    by (rule emit_event_ok [where sign = "Sign (cl_crypto (cs_lib st)) (cs_signer st)"])
       (use assms in \<open>simp_all add: chain_signer_def validTopic_def TopicSecureChain_def\<close>)
  then show ?thesis by (auto simp: chain_emit_def)
qed

text \<open>The hashes that end the trails of a sound ledger are digests.\<close>

lemma ledger_tail_valid:
  assumes "ledger_ok jcs (secure_chain_audit d)"
  shows "ValidDigest (audit_tail (audit_rows tid d i))"
proof -
  have "verify_entries jcs ZeroHash (audit_rows tid d i) = Inr True" using assms by (simp add: ledger_ok_def audit_rows_def)
  from verify_tail_valid [OF this] show ?thesis by (simp add: audit_tail_def split: if_splits)
qed

section \<open>Tokens that were issued verify\<close>

lemma issued_token_checks:
  assumes "ed25519_contract (cl_crypto (cs_lib st))" and "service_signer (cl_crypto (cs_lib st)) (cs_signer st)"
    and "Message ''release_authorized'' topic i k p ext prov at (chain_signer st) e = Inr env"
  shows "check_token st (new_token n claims i k env now x) = Inr ()"
proof -
  from Message_signed [OF assms(3) [unfolded chain_signer_def]] obtain env0 sg
    where "Sign (cl_crypto (cs_lib st)) (cs_signer st) env0 = Inr sg" "env = env0\<lparr>ev_Provenance := (ev_Provenance env0)\<lparr>Signature := sg\<rparr>\<rparr>" by blast
  then have "Verify (cl_crypto (cs_lib st)) env (PublicKey (cs_signer st)) = Inr ()" by (rule Verify_signed [OF assms(1,2)])
  with Message_InrD [OF assms(3)] show ?thesis by (simp add: check_token_def new_token_def)
qed

lemma Message_EventID: "Message ty topic corr sub p ext prov at signer e = Inr env \<Longrightarrow> ev_EventID env = rnd e 1"
  by (auto simp: Message_def Let_def split: option.splits if_splits sum.splits)

section \<open>The store of the run\<close>

definition sc_jcs :: "json \<Rightarrow> string result" where
  "sc_jcs v = Inr (json_text (jsonb v))"

definition sc_store :: cstore where
  "sc_store =
     \<lparr>cs_lib = \<lparr>cl_crypto = toy_crypto, cl_jcs = sc_jcs, cl_uuid = Some, cl_upper = id\<rparr>,
      cs_signer = \<lparr>sg_privateKey = NewKeyFromSeed (toy_crypto :: chain_payload crypto) (replicate 32 (CHR ''k'')), sg_kid = keyIDPrefix @ ''7''\<rparr>,
      cs_config = \<lparr>cf_TokenTTL = DefaultTokenTTL, cf_VelocityThreshold = 1, cf_VelocityHold = True\<rparr>\<rparr>"

definition sc_claims :: "string \<Rightarrow> Claims" where
  "sc_claims org = \<lparr>Issuer = ''issuer'', Audience = ''aud'', TenantID = ''tenant-demo'', Subject = org, Expires = 0, Roles = []\<rparr>"

definition sc_ctx :: "string \<Rightarrow> ctx" where
  "sc_ctx org = \<lparr>ctx_claims = Some (sc_claims org), begin_err = None, config_err = None, commit_err = None\<rparr>"

definition sc_pr :: Principal where
  "sc_pr = \<lparr>pr_ID = ''clerk'', pr_Role = ''operator''\<rparr>"

definition sc_env :: "time \<Rightarrow> char \<Rightarrow> env" where
  "sc_env t p = \<lparr>clk = (\<lambda>_. t), rnd = (\<lambda>_. replicate 32 p)\<rparr>"

abbreviation "sc_box \<equiv> ''CSQU3054383''"
abbreviation "sc_bl \<equiv> replicate 64 (CHR ''b'')"
abbreviation "sc_id \<equiv> replicate 32 (CHR ''c'')"

lemma sc_simps [simp]:
  "cl_crypto (cs_lib sc_store) = toy_crypto" "cl_jcs (cs_lib sc_store) = sc_jcs" "cl_uuid (cs_lib sc_store) = Some" "cl_upper (cs_lib sc_store) = id"
  "cs_config sc_store = \<lparr>cf_TokenTTL = DefaultTokenTTL, cf_VelocityThreshold = 1, cf_VelocityHold = True\<rparr>"
  "TenantID (sc_claims org) = ''tenant-demo''" "Subject (sc_claims org) = org" "pr_ID sc_pr = ''clerk''" "pr_Role sc_pr = ''operator''"
  "clk (sc_env t p) n = t" "rnd (sc_env t p) n = replicate 32 p" "later i j (sc_env t p) = sc_env t p"
  by (simp_all add: sc_store_def sc_claims_def sc_pr_def sc_env_def later_def)

lemma sc_jcs_contract: "jcs_contract (cl_jcs (cs_lib sc_store))"
  by (simp add: jcs_contract_def sc_jcs_def)

lemma sc_signer: "service_signer (cl_crypto (cs_lib sc_store)) (cs_signer sc_store)"
  unfolding service_signer_def sc_simps
  by (intro conjI exI [of _ "replicate 32 (CHR ''k'')"] exI [of _ "''7''"]) (simp_all add: sc_store_def is_digit_def)

lemma sc_sign: "\<exists>z. Sign toy_crypto (cs_signer sc_store) (x :: chain_payload Envelope) = Inr z"
  by (simp add: Sign_def canonicalPayload_def toy_crypto_def wrap_err_def Let_def)

lemma WithTx_sc: "WithTx (sc_ctx org) work d = (case work (sc_claims org) d of Inl err \<Rightarrow> (Inl err, d) | Inr (a, d') \<Rightarrow> (Inr a, d'))"
  by (simp add: WithTx_def TenantClaims_def sc_ctx_def split: sum.splits prod.splits)

lemma sc_texts [simp]:
  "TrimSpace sc_box = sc_box" "TrimSpace ''clerk'' = ''clerk''" "TrimSpace ''operator'' = ''operator''" "ValidContainerID sc_box"
  "canonical_container (cs_lib sc_store) sc_box = sc_box" "ValidDigest sc_bl"
proof -
  show t: "TrimSpace sc_box = sc_box" by (simp add: TrimSpace_visible)
  show "TrimSpace ''clerk'' = ''clerk''" "TrimSpace ''operator'' = ''operator''" by (simp_all add: TrimSpace_visible)
  show "ValidContainerID sc_box" unfolding ValidContainerID_def by code_simp
  have "ToUpper id sc_box = sc_box" by code_simp
  with t show "canonical_container (cs_lib sc_store) sc_box = sc_box" by (simp add: canonical_container_def)
  show "ValidDigest sc_bl" by (simp add: ValidDigest_alt list_all_length is_hex_def is_digit_def)
qed

lemma TrimSpace_replicate [simp]: "0 < n \<Longrightarrow> 33 \<le> byte c \<Longrightarrow> byte c \<le> 127 \<Longrightarrow> TrimSpace (replicate n c) \<noteq> []"
  by (subst TrimSpace_visible_set) auto

text \<open>A record of the run is written, and shows in nothing but the ledger and the outbox.\<close>

definition sc_noted :: "char \<Rightarrow> sdb \<Rightarrow> sdb \<Rightarrow> bool" where
  "sc_noted p d d' \<longleftrightarrow> core d' = core d \<and> secure_chain_bl_registry d' = secure_chain_bl_registry d
     \<and> map ox_EventID (chain_outbox d') = map ox_EventID (chain_outbox d) @ [replicate 32 p] \<and> audit_rows ''tenant-demo'' d' sc_id \<noteq> []"

lemma sc_record:
  assumes "ledger_ok sc_jcs (secure_chain_audit d)" and "TrimSpace ty \<noteq> []" and "TrimSpace corr \<noteq> []" and "TrimSpace sub \<noteq> []"
    and "list_all (\<lambda>k. TrimSpace k \<noteq> []) (map fst ext)" and "replicate 32 p \<notin> set (map ox_EventID (chain_outbox d))"
  shows "\<exists>d'. bindE (chain_audit sc_store (sc_claims org) sc_id ty' pl at d) (\<lambda>d. bindE (chain_emit sc_store (sc_claims org) ty corr sub pl' ext sc_pr at' (sc_env t p) d) (\<lambda>d. Inr (r, d)))
      = Inr (r, d') \<and> sc_noted p d d'"
proof -
  obtain a where a: "chain_audit sc_store (sc_claims org) sc_id ty' pl at d = Inr (d\<lparr>secure_chain_audit := secure_chain_audit d @ [a]\<rparr>)"
      "ae_TenantID a = ''tenant-demo''" "ae_ChainID a = sc_id"
    using chain_audit_ok [of sc_store "sc_claims org" d sc_id ty' pl at] ledger_tail_valid [OF assms(1)] by (auto simp: sc_jcs_def)
  obtain x where "chain_emit sc_store (sc_claims org) ty corr sub pl' ext sc_pr at' (sc_env t p) (d\<lparr>secure_chain_audit := secure_chain_audit d @ [a]\<rparr>)
      = Inr (d\<lparr>secure_chain_audit := secure_chain_audit d @ [a], chain_outbox := chain_outbox d @ [x]\<rparr>)" "ox_EventID x = replicate 32 p"
    using chain_emit_ok [of sc_store ty corr sub sc_pr ext "sc_env t p" "d\<lparr>secure_chain_audit := secure_chain_audit d @ [a]\<rparr>" "sc_claims org" pl' at']
      assms sc_sign by auto
  with a show ?thesis by (simp add: sc_noted_def audit_rows_def)
qed


section \<open>The states of the run\<close>

definition sc_stage :: "Chain list \<Rightarrow> Link list \<Rightarrow> ReleaseToken list \<Rightarrow> char set \<Rightarrow> sdb \<Rightarrow> bool" where
  "sc_stage cs ls ts ps d \<longleftrightarrow>
     chain_reachable sc_store d \<and> secure_chains d = cs \<and> secure_chain_links d = ls \<and> secure_chain_tokens d = ts
     \<and> set (map ox_EventID (chain_outbox d)) \<subseteq> replicate 32 ` ps \<and> (cs \<noteq> [] \<longrightarrow> audit_rows ''tenant-demo'' d sc_id \<noteq> [])"

lemma sc_stage_ledger: "sc_stage cs ls ts ps d \<Longrightarrow> ledger_ok sc_jcs (secure_chain_audit d)"
  using reachable_ledger [OF _ sc_jcs_contract] by (simp add: sc_stage_def)

lemma sc_stage_fresh: "sc_stage cs ls ts ps d \<Longrightarrow> p \<notin> ps \<Longrightarrow> replicate 32 p \<notin> set (map ox_EventID (chain_outbox d))"
  by (auto simp: sc_stage_def)

lemma sc_stage_next:
  assumes "sc_stage cs ls ts ps d" and "chain_step sc_store d d'" and "sc_noted p d1 d'" and "chain_outbox d1 = chain_outbox d"
  shows "sc_stage (secure_chains d1) (secure_chain_links d1) (secure_chain_tokens d1) (insert p ps) d'"
proof -
  have "secure_chains (core d') = secure_chains (core d1)" "secure_chain_links (core d') = secure_chain_links (core d1)"
    "secure_chain_tokens (core d') = secure_chain_tokens (core d1)" "map ox_EventID (chain_outbox d') = map ox_EventID (chain_outbox d) @ [replicate 32 p]"
    "audit_rows ''tenant-demo'' d' sc_id \<noteq> []"
    using assms(3,4) by (simp_all add: sc_noted_def)
  with assms(1,2) show ?thesis
    by (auto simp: sc_stage_def intro: chain_reachable.step dest!: arg_cong [of "map ox_EventID (chain_outbox d')" _ set])
qed

definition sc_chain :: Chain where
  "sc_chain = new_chain sc_id (sc_claims ''LINE'') ''chain-key'' sc_box sc_bl 1000 100"

lemma sc_chain_simps [simp]:
  "ch_ChainID sc_chain = sc_id" "ch_TenantID sc_chain = ''tenant-demo''" "ch_ContainerID sc_chain = sc_box" "ch_IssuerOrg sc_chain = ''LINE''"
  "ch_Status sc_chain = C_ACTIVE" "ch_VelocityHold sc_chain = False" "ch_ExpiresAt sc_chain = 1000" "ch_Version sc_chain = 1" "ch_CreatedAt sc_chain = 100"
  by (simp_all add: sc_chain_def new_chain_def)

definition sc_registered :: sdb where
  "sc_registered = empty_sdb\<lparr>secure_chain_bl_registry := [\<lparr>bl_TenantID = ''tenant-demo'', bl_BLDigest = sc_bl, bl_ContainerID = sc_box,
     bl_ShippingLineOrg = ''LINE'', bl_RegisteredAt = 100\<rparr>]\<rparr>"

lemma sc_register: "RegisterBLAuthority sc_store (sc_ctx ''LINE'') sc_box sc_bl (sc_env 100 (CHR ''r'')) empty_sdb = (Inr (), sc_registered)"
  by (simp add: RegisterBLAuthority_def WithTx_sc RegisterBLAuthority_work_def Let_def org_length_def empty_sdb_def sc_registered_def
     )

lemma sc_created: "\<exists>d. CreateChain sc_store (sc_ctx ''LINE'') ''chain-key'' sc_box sc_bl 1000 sc_pr (sc_env 100 (CHR ''c'')) sc_registered = (Inr sc_chain, d)
    \<and> sc_stage [sc_chain] [] [] {CHR ''c''} d"
proof -
  have r: "sc_stage [] [] [] {} sc_registered"
    using chain_reachable.step [OF chain_reachable.init chain_step.RegisterBLAuthority [OF sc_register]]
    by (simp add: sc_stage_def sc_registered_def empty_sdb_def)
  let ?d = "sc_registered\<lparr>secure_chains := secure_chains sc_registered @ [sc_chain]\<rparr>"
  have guards: "release_authority ''tenant-demo'' sc_registered sc_bl sc_box = Some ''LINE''" "secure_chains sc_registered = []" "chain_insert_error sc_registered sc_chain = None"
    by (simp_all add: release_authority_def sc_registered_def empty_sdb_def chain_insert_error_def org_length_def sc_chain_def new_chain_def)
  have "\<exists>d'. CreateChain_work sc_store ''chain-key'' sc_box sc_bl 1000 sc_pr (sc_env 100 (CHR ''c'')) (sc_claims ''LINE'') sc_registered = Inr (sc_chain, d')
      \<and> sc_noted (CHR ''c'') ?d d'"
    unfolding CreateChain_work_def Let_def sc_simps guards find.simps option.case if_True not_True_eq_False if_False sc_chain_def [symmetric]
    by (simp only: option.case guards simp_thms if_False sc_chain_simps)
       (rule sc_record, use sc_stage_ledger [OF r] sc_stage_fresh [OF r] in \<open>simp_all add: TrimSpace_visible\<close>)
  then obtain d' where d': "CreateChain_work sc_store ''chain-key'' sc_box sc_bl 1000 sc_pr (sc_env 100 (CHR ''c'')) (sc_claims ''LINE'') sc_registered = Inr (sc_chain, d')"
      "sc_noted (CHR ''c'') ?d d'" by blast
  have c: "CreateChain sc_store (sc_ctx ''LINE'') ''chain-key'' sc_box sc_bl 1000 sc_pr (sc_env 100 (CHR ''c'')) sc_registered = (Inr sc_chain, d')"
    using d'(1) by (simp add: CreateChain_def WithTx_sc Let_def DefaultChainTTL_def TrimSpace_visible)
  with sc_stage_next [OF r chain_step.CreateChain [OF c] d'(2)] show ?thesis
    by (auto simp: guards sc_registered_def empty_sdb_def)
qed


definition sc_link :: "string \<Rightarrow> Link" where
  "sc_link h = new_link sc_id 1 ''LINE'' ''clerk'' ''clerk'' 200 ZeroHash h"

definition sc_accepted_link :: "string \<Rightarrow> Link" where
  "sc_accepted_link h = (sc_link h)\<lparr>lk_AcceptedAt := Some 300\<rparr>"

lemma sc_link_simps [simp]:
  "lk_ChainID (sc_link h) = sc_id" "lk_Seq (sc_link h) = 1" "lk_FromOrg (sc_link h) = ''LINE''" "lk_ToOrg (sc_link h) = ''clerk''"
  "lk_NominatedAt (sc_link h) = 200" "lk_LinkHash (sc_link h) = h" "lk_AcceptedAt (sc_link h) = None" "lk_DeclinedAt (sc_link h) = None"
  "lk_RevokedAt (sc_link h) = None" "scan_link (sc_link h) = sc_link h" "lk_PrevHash (sc_link h) = ZeroHash"
  by (simp_all add: sc_link_def new_link_def scan_link_def)

lemma sc_tail:
  "secure_chain_links d = [] \<Longrightarrow> tailOf d sc_chain = start_tail ''LINE'' 0 ZeroHash"
  "secure_chain_links d = [sc_link h] \<Longrightarrow> tailOf d sc_chain = (start_tail ''LINE'' 1 h)\<lparr>tl_pendingLink := Some (sc_link h)\<rparr>"
  "secure_chain_links d = [sc_accepted_link h] \<Longrightarrow> tailOf d sc_chain = start_tail ''clerk'' 1 h"
  by (simp_all add: tailOf_def listLinks_def sc_accepted_link_def tail_step_def link_State_def scan_link_def new_link_def sc_link_def)

lemma sc_lock: "secure_chains d = [sc_chain] \<Longrightarrow> lockChain sc_store (sc_claims org) d sc_id = Inr sc_chain"
  "secure_chains d = [sc_chain] \<Longrightarrow> lock_row (sc_claims org) d sc_id = Inr sc_chain"
  by (simp_all add: lockChain_def lock_row_def)

lemma sc_nominated:
  assumes "sc_stage [sc_chain] [] [] {CHR ''c''} d"
  shows "\<exists>h l d'. Nominate sc_store (\<lambda>_. sc_ctx ''LINE'') sc_id ''clerk'' sc_pr (sc_env 200 (CHR ''n'')) d = (Inr l, d') \<and> ValidDigest h
    \<and> sc_stage [sc_chain] [sc_link h] [] {CHR ''c'', CHR ''n''} d'"
proof -
  have d: "secure_chains d = [sc_chain]" "secure_chain_links d = []" "secure_chain_tokens d = []" using assms by (simp_all add: sc_stage_def)
  define h where "h = chain_digest ZeroHash (json_text (jsonb (linkPreimage sc_id 1 ''LINE'' ''clerk'' ''clerk'' 200)))"
  have h: "LinkHash sc_jcs ZeroHash sc_id 1 ''LINE'' ''clerk'' ''clerk'' 200 = Inr h" by (simp add: LinkHash_def sc_jcs_def h_def wrap_err_def)
  have g: "link_insert_error d sc_chain (sc_link h) = None"
    by (simp add: link_insert_error_def link_guard_def d org_length_def h_def)
  have w: "wrap64 1 = 1" by code_simp
  let ?d = "d\<lparr>secure_chain_links := secure_chain_links d @ [sc_link h]\<rparr>"
  have "\<exists>d'. append_link sc_store sc_id ''clerk'' sc_pr 200 (sc_env 200 (CHR ''n'')) (sc_claims ''LINE'') sc_chain (start_tail ''LINE'' 0 ZeroHash) d
      = Inr ((sc_link h)\<lparr>lk_ChainID := sc_id\<rparr>, d') \<and> sc_noted (CHR ''n'') ?d d'"
    by (simp add: append_link_def Let_def w h sc_link_def [symmetric] g)
       (rule sc_record, use sc_stage_ledger [OF assms] sc_stage_fresh [OF assms] in \<open>simp_all add: TrimSpace_visible\<close>)
  then obtain d' where d': "append_link sc_store sc_id ''clerk'' sc_pr 200 (sc_env 200 (CHR ''n'')) (sc_claims ''LINE'') sc_chain (start_tail ''LINE'' 0 ZeroHash) d
      = Inr ((sc_link h)\<lparr>lk_ChainID := sc_id\<rparr>, d')" "sc_noted (CHR ''n'') ?d d'" by blast
  have "Nominate_work sc_store sc_id ''clerk'' sc_pr (sc_env 200 (CHR ''n'')) (sc_claims ''LINE'') d = Inr ((sc_link h)\<lparr>lk_ChainID := sc_id\<rparr>, d')"
    using d'(1) by (simp add: Nominate_work_def sc_lock [OF d(1)] sc_tail(1) [OF d(2)] velocity_check_def recent_nominations_def d)
  moreover have "ValidOrg ''clerk''" by code_simp
  ultimately have n: "Nominate sc_store (\<lambda>_. sc_ctx ''LINE'') sc_id ''clerk'' sc_pr (sc_env 200 (CHR ''n'')) d = (Inr ((sc_link h)\<lparr>lk_ChainID := sc_id\<rparr>), d')"
    by (simp add: Nominate_def WithTx_sc)
  have "ValidDigest h" by (simp add: h_def)
  with n sc_stage_next [OF assms chain_step.Nominate [OF n] d'(2)] show ?thesis by (auto simp: d insert_commute)
qed

lemma sc_accepted:
  assumes "sc_stage [sc_chain] [sc_link h] [] {CHR ''c'', CHR ''n''} d"
  shows "\<exists>l d'. Accept sc_store (sc_ctx ''clerk'') sc_id 1 sc_pr (sc_env 300 (CHR ''a'')) d = (Inr l, d')
    \<and> sc_stage [sc_chain] [sc_accepted_link h] [] {CHR ''a'', CHR ''c'', CHR ''n''} d'"
proof -
  have d: "secure_chains d = [sc_chain]" "secure_chain_links d = [sc_link h]" "secure_chain_tokens d = []" using assms by (simp_all add: sc_stage_def)
  let ?d = "update_link sc_id 1 (\<lambda>l. l\<lparr>lk_AcceptedAt := Some 300\<rparr>) d" and ?l = "(scan_link (sc_accepted_link h))\<lparr>lk_ChainID := sc_id\<rparr>"
  have "\<exists>d'. resolveLink_work sc_store sc_id 1 True [] sc_pr (sc_env 300 (CHR ''a'')) (sc_claims ''clerk'') d = Inr (?l, d') \<and> sc_noted (CHR ''a'') ?d d'"
    by (simp add: resolveLink_work_def sc_lock [OF d(1)] sc_tail(2) [OF d(2)] Let_def sc_accepted_link_def)
       (rule sc_record, use sc_stage_ledger [OF assms] sc_stage_fresh [OF assms] in \<open>simp_all add: TrimSpace_visible update_link_def\<close>)
  then obtain d' where d': "resolveLink_work sc_store sc_id 1 True [] sc_pr (sc_env 300 (CHR ''a'')) (sc_claims ''clerk'') d = Inr (?l, d')"
    "sc_noted (CHR ''a'') ?d d'" by blast
  then have n: "Accept sc_store (sc_ctx ''clerk'') sc_id 1 sc_pr (sc_env 300 (CHR ''a'')) d = (Inr ?l, d')" by (simp add: Accept_def WithTx_sc)
  from n sc_stage_next [OF assms chain_step.Accept [OF n] d'(2)] show ?thesis
    by (auto simp: d update_link_def update_where_def sc_accepted_link_def)
qed


text \<open>The holder of the free tail is issued a token, which the gate redeems.\<close>

abbreviation "sc_nonce \<equiv> EncodeToString (replicate 32 (CHR ''t''))"

lemma sc_tp: "CHR ''t'' \<notin> {CHR ''a'', CHR ''c'', CHR ''n''}"
  by simp

lemma sc_released:
  assumes "sc_stage [sc_chain] [sc_accepted_link h] [] {CHR ''a'', CHR ''c'', CHR ''n''} d"
  shows "\<exists>t d'. ReleaseAuthorization sc_store (sc_ctx ''clerk'') sc_box sc_pr (sc_env 400 (CHR ''t'')) d = (Inr t, d') \<and> check_token sc_store t = Inr ()
    \<and> tk_Nonce t = sc_nonce \<and> tk_TenantID t = ''tenant-demo'' \<and> tk_ChainID t = sc_id \<and> tk_ContainerID t = sc_box \<and> tk_ConsumedAt t = None \<and> 500 < tk_ExpiresAt t
    \<and> sc_stage [sc_chain] [sc_accepted_link h] [t] {CHR ''a'', CHR ''c'', CHR ''n'', CHR ''t''} d'"
proof -
  have d: "secure_chains d = [sc_chain]" "secure_chain_links d = [sc_accepted_link h]" "secure_chain_tokens d = []" using assms by (simp_all add: sc_stage_def)
  have act: "active_chain ''tenant-demo'' d sc_box = Some sc_chain" by (simp add: active_chain_def d)
  define x where "x = 400 + DefaultTokenTTL"
  define pl where "pl = [(''chain_id'', sc_id), (''container_id'', sc_box), (''expires_at'', rfc3339nano x), (''holder_org'', ''clerk''), (''nonce'', sc_nonce)]"
  define prov where "prov = \<lparr>PrincipalID = ''clerk'', PrincipalRole = ''operator'', Signature = [], LedgerCommitHash = []\<rparr>"
  have "\<exists>env. Message ''release_authorized'' TopicSecureChain sc_id sc_box pl [(''container'', sc_box), (''holder'', ''clerk'')] prov 400
      (Some (Sign toy_crypto (cs_signer sc_store))) (sc_env 400 (CHR ''t'')) = Inr env"
    by (rule Message_ok) (simp_all add: validTopic_def TopicSecureChain_def prov_def TrimSpace_visible sc_sign)
  then obtain env where env: "Message ''release_authorized'' TopicSecureChain sc_id sc_box pl [(''container'', sc_box), (''holder'', ''clerk'')] prov 400
      (chain_signer sc_store) (sc_env 400 (CHR ''t'')) = Inr env" by (auto simp: chain_signer_def)
  define t where "t = new_token sc_nonce (sc_claims ''clerk'') sc_id sc_box env 400 x"
  have ins: "token_insert_error d t = None"
    by (simp add: token_insert_error_def t_def new_token_def d ValidDigest_alt EncodeToString_hex x_def DefaultTokenTTL_def)
  obtain o1 where o1: "put_event (sc_claims ''clerk'') TopicSecureChain ''release_authorized'' env 400 (chain_outbox d) = Inr (chain_outbox d @ [o1])"
      "ox_EventID o1 = replicate 32 (CHR ''t'')"
  proof -
    have "\<not> list_ex (\<lambda>x. ox_EventID x = ev_EventID env) (chain_outbox d)"
      using sc_stage_fresh [OF assms, of "CHR ''t''"] Message_EventID [OF env] unfolding list_ex_iff sc_simps by (metis image_eqI set_map sc_tp)
    with Message_EventID [OF env] show thesis by (intro that) (auto simp: put_event_def)
  qed
  let ?d = "d\<lparr>secure_chain_tokens := secure_chain_tokens d @ [t]\<rparr>"
  have "\<exists>a. chain_audit sc_store (sc_claims ''clerk'') sc_id ''release_authorized''
      [(''expiresAt'', JString (rfc3339nano x)), (''holderOrg'', JString ''clerk''), (''nonce'', JString sc_nonce)] 400
      (d\<lparr>secure_chain_tokens := secure_chain_tokens d @ [t], chain_outbox := chain_outbox d @ [o1]\<rparr>)
      = Inr (d\<lparr>secure_chain_tokens := secure_chain_tokens d @ [t], chain_outbox := chain_outbox d @ [o1], secure_chain_audit := secure_chain_audit d @ [a]\<rparr>)
      \<and> ae_TenantID a = ''tenant-demo'' \<and> ae_ChainID a = sc_id"
    using chain_audit_ok [of sc_store "sc_claims ''clerk''" "d\<lparr>secure_chain_tokens := secure_chain_tokens d @ [t], chain_outbox := chain_outbox d @ [o1]\<rparr>" sc_id]
      ledger_tail_valid [of sc_jcs "d\<lparr>secure_chain_tokens := secure_chain_tokens d @ [t], chain_outbox := chain_outbox d @ [o1]\<rparr>"] sc_stage_ledger [OF assms]
    by (simp add: sc_jcs_def)
  then obtain d' where a: "chain_audit sc_store (sc_claims ''clerk'') sc_id ''release_authorized''
      [(''expiresAt'', JString (rfc3339nano x)), (''holderOrg'', JString ''clerk''), (''nonce'', JString sc_nonce)] 400
      (d\<lparr>secure_chain_tokens := secure_chain_tokens d @ [t], chain_outbox := chain_outbox d @ [o1]\<rparr>) = Inr d'" "sc_noted (CHR ''t'') ?d d'"
    using o1(2) by (auto simp: sc_noted_def audit_rows_def)
  have "ReleaseAuthorization_work sc_store sc_box sc_pr (sc_env 400 (CHR ''t'')) (sc_claims ''clerk'') d = Inr (t, d')"
    using env ins o1(1) a(1)
    by (simp add: ReleaseAuthorization_work_def act sc_tail(3) [OF d(2)] Let_def x_def [symmetric] pl_def prov_def t_def wrap_err_def)
  then have n: "ReleaseAuthorization sc_store (sc_ctx ''clerk'') sc_box sc_pr (sc_env 400 (CHR ''t'')) d = (Inr t, d')"
    by (simp add: ReleaseAuthorization_def WithTx_sc Let_def)
  moreover have "check_token sc_store t = Inr ()"
    unfolding t_def by (rule issued_token_checks [OF _ sc_signer env]) (simp add: toy_crypto_contract)
  moreover have "insert (CHR ''t'') {CHR ''a'', CHR ''c'', CHR ''n''} = {CHR ''a'', CHR ''c'', CHR ''n'', CHR ''t''}" by auto
  ultimately show ?thesis using sc_stage_next [OF assms chain_step.ReleaseAuthorization [OF n] a(2)]
    by (auto simp: d t_def new_token_def x_def DefaultTokenTTL_def)
qed

definition sc_completed :: Chain where
  "sc_completed = sc_chain\<lparr>ch_Status := C_COMPLETED, ch_UpdatedAt := 500, ch_Version := 2\<rparr>"

lemma sc_consumed:
  assumes "sc_stage [sc_chain] [sc_accepted_link h] [t] {CHR ''a'', CHR ''c'', CHR ''n'', CHR ''t''} d" and "check_token sc_store t = Inr ()"
    and "tk_Nonce t = sc_nonce" and "tk_TenantID t = ''tenant-demo''" and "tk_ChainID t = sc_id" and "tk_ContainerID t = sc_box" and "tk_ConsumedAt t = None" and "500 < tk_ExpiresAt t"
  shows "\<exists>t' d'. Consume sc_store (sc_ctx ''GATE'') sc_nonce ''G1'' sc_pr (sc_env 500 (CHR ''g'')) d = (Inr t', d')
    \<and> sc_stage [sc_completed] [sc_accepted_link h] [t'] {CHR ''a'', CHR ''c'', CHR ''g'', CHR ''n'', CHR ''t''} d'"
proof -
  have d: "secure_chains d = [sc_chain]" "secure_chain_links d = [sc_accepted_link h]" "secure_chain_tokens d = [t]" using assms(1) by (simp_all add: sc_stage_def)
  let ?t = "t\<lparr>tk_ConsumedAt := Some 500, tk_ConsumedGate := Some ''G1''\<rparr>"
  let ?d = "update_chain sc_id (\<lambda>c. c\<lparr>ch_Status := C_COMPLETED, ch_UpdatedAt := 500, ch_Version := 2\<rparr>) (d\<lparr>secure_chain_tokens := [?t]\<rparr>)"
  have r: "redeemable ''tenant-demo'' sc_nonce 500 t" using assms by (simp add: redeemable_def)
  have "\<exists>d'. Consume_work sc_store sc_nonce ''G1'' sc_pr (sc_env 500 (CHR ''g'')) (sc_claims ''GATE'') d = Inr (?t, d') \<and> sc_noted (CHR ''g'') ?d d'"
    by (simp add: Consume_work_def d r assms(2,5,6) sc_lock(2) [OF d(1)] Let_def update_where_def pg_inc_def wrap_err_def max_int64_def)
       (rule sc_record, use sc_stage_ledger [OF assms(1)] sc_stage_fresh [OF assms(1)] in \<open>simp_all add: TrimSpace_visible update_chain_def\<close>)
  then obtain d' where d': "Consume_work sc_store sc_nonce ''G1'' sc_pr (sc_env 500 (CHR ''g'')) (sc_claims ''GATE'') d = Inr (?t, d')" "sc_noted (CHR ''g'') ?d d'"
    by blast
  have "ValidDigest sc_nonce" by (simp add: ValidDigest_alt EncodeToString_hex)
  with d'(1) have n: "Consume sc_store (sc_ctx ''GATE'') sc_nonce ''G1'' sc_pr (sc_env 500 (CHR ''g'')) d = (Inr ?t, d')"
    by (simp add: Consume_def WithTx_sc TrimSpace_visible)
  moreover have "insert (CHR ''g'') {CHR ''a'', CHR ''c'', CHR ''n'', CHR ''t''} = {CHR ''a'', CHR ''c'', CHR ''g'', CHR ''n'', CHR ''t''}" by auto
  ultimately show ?thesis using sc_stage_next [OF assms(1) chain_step.Consume [OF n] d'(2)]
    by (auto simp: d update_chain_def update_where_def sc_completed_def)
qed

end
