(* ===== verification/Securechain_Properties.thy ===== *)
theory Securechain_Properties
  imports Securechain_Scenario Scenario
begin

text \<open>
  The properties of the secure release chains: custody and one release per chain in every state
  the store can reach, who is issued a token, the hold, the audit trail, and what the booking
  store gains from the release check.
\<close>

section \<open>Custody\<close>

text \<open>
  Claim C13. Custody: in every state the chain store can reach, a tenant has at most one ACTIVE
  chain per container, and for every chain the links form an unbroken custody record from
  the issuer on (each nominated by the holder of the moment, numbered and hashed in
  succession, nothing after a pending or revoked link); every release token of the chain is
  for its tenant and container and went to the issuer or to an organisation that accepted the
  container; and exactly one token has been redeemed when the chain is COMPLETED, none otherwise.
\<close>

theorem release_chain_custody:
  assumes "chain_reachable st d"
  shows "one_active (secure_chains d)
    \<and> (\<forall>c\<in>set (secure_chains d).
         custody (ch_IssuerOrg c) 0 ZeroHash (links_of d (ch_ChainID c))
         \<and> (\<forall>t\<in>set (secure_chain_tokens d). tk_ChainID t = ch_ChainID c \<longrightarrow>
              tk_TenantID t = ch_TenantID c \<and> tk_ContainerID t = ch_ContainerID c
              \<and> has_held (ch_IssuerOrg c) (links_of d (ch_ChainID c)) (tk_HolderOrg t))
         \<and> consumed_tokens d (ch_ChainID c) = (if ch_Status c = C_COMPLETED then 1 else 0))"
  using chain_reachable_inv [OF assms] by (simp add: chain_inv_def sound_chain_def)

text \<open>The states of the run, for the witnesses.\<close>

lemma sc_run:
  obtains h d3 t d4 t' d5
  where "sc_stage [sc_chain] [sc_accepted_link h] [] {CHR ''a'', CHR ''c'', CHR ''n''} d3"
    and "ReleaseAuthorization sc_store (sc_ctx ''clerk'') sc_box sc_pr (sc_env 400 (CHR ''t'')) d3 = (Inr t, d4)" and "tk_ChainID t = sc_id"
    and "sc_stage [sc_chain] [sc_accepted_link h] [t] {CHR ''a'', CHR ''c'', CHR ''n'', CHR ''t''} d4"
    and "Consume sc_store (sc_ctx ''GATE'') sc_nonce ''G1'' sc_pr (sc_env 500 (CHR ''g'')) d4 = (Inr t', d5)"
    and "sc_stage [sc_completed] [sc_accepted_link h] [t'] {CHR ''a'', CHR ''c'', CHR ''g'', CHR ''n'', CHR ''t''} d5"
proof -
  obtain d1 where "sc_stage [sc_chain] [] [] {CHR ''c''} d1" using sc_created by blast
  then obtain h d2 where "sc_stage [sc_chain] [sc_link h] [] {CHR ''c'', CHR ''n''} d2" using sc_nominated by blast
  then obtain d3 where s3: "sc_stage [sc_chain] [sc_accepted_link h] [] {CHR ''a'', CHR ''c'', CHR ''n''} d3" using sc_accepted by blast
  from sc_released [OF s3] obtain t d4 where t: "ReleaseAuthorization sc_store (sc_ctx ''clerk'') sc_box sc_pr (sc_env 400 (CHR ''t'')) d3 = (Inr t, d4)"
    "check_token sc_store t = Inr ()" "tk_Nonce t = sc_nonce" "tk_TenantID t = ''tenant-demo''" "tk_ChainID t = sc_id" "tk_ContainerID t = sc_box"
    "tk_ConsumedAt t = None" "500 < tk_ExpiresAt t" "sc_stage [sc_chain] [sc_accepted_link h] [t] {CHR ''a'', CHR ''c'', CHR ''n'', CHR ''t''} d4"
    by blast
  from sc_consumed [OF t(9,2-8)] s3 t(1,5,9) that show thesis by blast
qed

theorem release_chain_custody_witness:
  "\<exists>d. chain_reachable sc_store d \<and> secure_chains d = [sc_completed] \<and> consumed_tokens d sc_id = 1
    \<and> custody ''LINE'' 0 ZeroHash (links_of d sc_id) \<and> length (links_of d sc_id) = 1"
proof -
  obtain h d t where s: "sc_stage [sc_completed] [sc_accepted_link h] [t] {CHR ''a'', CHR ''c'', CHR ''g'', CHR ''n'', CHR ''t''} d" by (rule sc_run)
  then have d: "chain_reachable sc_store d" "secure_chains d = [sc_completed]" "secure_chain_links d = [sc_accepted_link h]" by (simp_all add: sc_stage_def)
  from release_chain_custody [OF d(1)] d show ?thesis
    by (intro exI [of _ d]) (auto simp: sc_completed_def links_of_def sc_accepted_link_def)
qed

section \<open>One release\<close>

text \<open>What no later step undoes: a redeemed token stays redeemed, a closed chain stays closed.\<close>

definition stays_closed :: "sdb \<Rightarrow> sdb \<Rightarrow> bool" where
  "stays_closed d d' \<longleftrightarrow>
     (\<forall>t\<in>set (secure_chain_tokens d). tk_ConsumedAt t \<noteq> None \<longrightarrow> t \<in> set (secure_chain_tokens d'))
     \<and> (\<forall>c\<in>set (secure_chains d). ch_Status c \<noteq> C_ACTIVE \<longrightarrow>
          (\<exists>c'\<in>set (secure_chains d'). ch_ChainID c' = ch_ChainID c \<and> ch_TenantID c' = ch_TenantID c \<and> ch_Status c' = ch_Status c))"

lemma stays_closed_refl: "stays_closed d d"
  unfolding stays_closed_def by blast

lemma stays_closedI:
  assumes "\<And>t. t \<in> set (secure_chain_tokens d) \<Longrightarrow> tk_ConsumedAt t \<noteq> None \<Longrightarrow> t \<in> set (secure_chain_tokens d')"
    and "\<And>c. c \<in> set (secure_chains d) \<Longrightarrow> ch_Status c \<noteq> C_ACTIVE \<Longrightarrow>
      \<exists>c'\<in>set (secure_chains d'). ch_ChainID c' = ch_ChainID c \<and> ch_TenantID c' = ch_TenantID c \<and> ch_Status c' = ch_Status c"
  shows "stays_closed d d'"
  using assms unfolding stays_closed_def by blast

lemma stays_closed_trans: "stays_closed x y \<Longrightarrow> stays_closed y z \<Longrightarrow> stays_closed x z"
  unfolding stays_closed_def by (metis (no_types, lifting))

lemma update_keeps_closed:
  assumes "keeps_chain f" and "\<And>x. x \<in> set cs \<Longrightarrow> P x \<Longrightarrow> ch_Status x = C_ACTIVE \<or> ch_Status (f x) = ch_Status x"
    and "c \<in> set cs" and "ch_Status c \<noteq> C_ACTIVE"
  shows "\<exists>c'\<in>set (update_where P f cs). ch_ChainID c' = ch_ChainID c \<and> ch_TenantID c' = ch_TenantID c \<and> ch_Status c' = ch_Status c"
  using assms by (intro bexI [of _ "if P c then f c else c"]) (auto simp: keeps_chain_def set_update_where)

lemma table_step_closed:
  assumes "chain_inv d" and "table_step d d'"
  shows "stays_closed d d'"
  using assms(2)
proof cases
  case (hold c f)
  then show ?thesis by (simp add: stays_closed_def update_chain_def) (blast intro: update_keeps_closed)
next
  case (close c f at)
  have "ch_Status x = C_ACTIVE" if "x \<in> set (secure_chains d)" "ch_ChainID x = ch_ChainID c" for x
    using chain_inv_unique [OF assms(1) close(2) that] close(3) by simp
  with close show ?thesis by (simp add: stays_closed_def update_chain_def) (blast intro: update_keeps_closed)
next
  case (consume c t f P g at)
  have "ch_Status x = C_ACTIVE" if "x \<in> set (secure_chains d)" "ch_ChainID x = ch_ChainID c" for x
    using chain_inv_unique [OF assms(1) consume(2) that] consume(3) by simp
  moreover have "\<not> P x" if "x \<in> set (secure_chain_tokens d)" "tk_ConsumedAt x \<noteq> None" for x
  proof
    assume "P x"
    with consume(9) that(1) consume(4) assms(1) have "x = t" by (auto simp: chain_inv_def dest: distinct_key_eq)
    with that(2) consume(5) show False by simp
  qed
  moreover have "secure_chains d' = update_where (\<lambda>x. ch_ChainID x = ch_ChainID c) f (secure_chains d)"
    "secure_chain_tokens d' = update_where P (\<lambda>x. x\<lparr>tk_ConsumedAt := Some at, tk_ConsumedGate := Some g\<rparr>) (secure_chain_tokens d)"
    using consume(1) by (simp_all add: update_chain_def)
  ultimately show ?thesis using consume(7)
    by (intro stays_closedI) (auto simp: set_update_where intro!: update_keeps_closed)
qed (auto simp: stays_closed_def update_link_def)

interpretation closed: kept_relation stays_closed
  by unfold_locales (rule stays_closed_refl, erule (1) stays_closed_trans, rule table_step_closed)


lemma Consume_InrD:
  assumes "Consume st c n g pr e d = (Inr t', d')"
  obtains claims where "ctx_claims c = Some claims" and "Consume_work st n g pr e claims d = Inr (t', d')" and "ValidDigest n"
  using assms by (auto simp: Consume_def split: if_splits dest!: WithTx_InrD)

lemma noted_rows: "noted jcs d d' \<Longrightarrow> secure_chains d' = secure_chains d \<and> secure_chain_tokens d' = secure_chain_tokens d"
  unfolding noted_def by (metis core_simps(7,9))

lemma consumed_row:
  assumes "Consume st c n g pr e d = (Inr t', d')"
  obtains x where "t' \<in> set (secure_chain_tokens d')" and "tk_Nonce t' = n" and "tk_ConsumedAt t' \<noteq> None" and "x \<in> set (secure_chains d')"
    and "ch_ChainID x = tk_ChainID t'" and "ch_Status x = C_COMPLETED"
proof -
  from assms obtain claims where "Consume_work st n g pr e claims d = Inr (t', d')" by (rule Consume_InrD)
  then obtain t c where r: "find (redeemable (TenantID claims) n (clk e 0)) (secure_chain_tokens d) = Some t"
    "lock_row claims d (tk_ChainID t) = Inr c" "t' = t\<lparr>tk_ConsumedAt := Some (clk e 0), tk_ConsumedGate := Some g\<rparr>"
    "noted (cl_jcs (cs_lib st)) (update_chain (tk_ChainID t) (\<lambda>x. x\<lparr>ch_Status := C_COMPLETED, ch_UpdatedAt := clk e 0, ch_Version := ch_Version c + 1\<rparr>)
           (d\<lparr>secure_chain_tokens := update_where (redeemable (TenantID claims) n (clk e 0))
                (\<lambda>x. x\<lparr>tk_ConsumedAt := Some (clk e 0), tk_ConsumedGate := Some g\<rparr>) (secure_chain_tokens d)\<rparr>)) d'"
    by (rule Consume_InrE)
  note rows = noted_rows [OF r(4)] and t = find_SomeD [OF r(1)] and c = lock_row_Inr [OF r(2)]
  show thesis
    by (rule that [of "c\<lparr>ch_Status := C_COMPLETED, ch_UpdatedAt := clk e 0, ch_Version := ch_Version c + 1\<rparr>"])
       (use rows t c in \<open>auto simp: r(3) update_chain_def set_update_where redeemable_def\<close>)
qed

text \<open>
  Claim C12. A container is released once: when the gate redeems a token, then in every later
  state of the store, whoever does whatever in between, the chain is COMPLETED and exactly
  that one token of it is redeemed; presenting the same nonce again is refused, and so is
  every other token of the chain, wherever and whenever it is presented.
\<close>

theorem container_released_once:
  assumes "chain_reachable st d" and "Consume st c n g pr e d = (Inr t, d1)" and "(chain_step st)\<^sup>*\<^sup>* d1 d2"
  shows "(\<exists>x\<in>set (secure_chains d2). ch_ChainID x = tk_ChainID t \<and> ch_Status x = C_COMPLETED) \<and> consumed_tokens d2 (tk_ChainID t) = 1
    \<and> (\<forall>c' n' g' pr' e' t' d3. Consume st c' n' g' pr' e' d2 = (Inr t', d3) \<longrightarrow> n' \<noteq> n \<and> tk_ChainID t' \<noteq> tk_ChainID t)"
proof -
  from assms(2) obtain x where x: "t \<in> set (secure_chain_tokens d1)" "tk_Nonce t = n" "tk_ConsumedAt t \<noteq> None" "x \<in> set (secure_chains d1)"
    "ch_ChainID x = tk_ChainID t" "ch_Status x = C_COMPLETED" by (rule consumed_row)
  have i1: "chain_inv d1" by (rule chain_reachable_inv [OF chain_reachable.step [OF assms(1) chain_step.Consume [OF assms(2)]]])
  have i2: "chain_inv d2" by (rule chain_steps_inv [OF assms(3) i1])
  from closed.keeps_run [OF assms(3) i1] x obtain y where y: "t \<in> set (secure_chain_tokens d2)" "y \<in> set (secure_chains d2)"
      "ch_ChainID y = tk_ChainID t" "ch_Status y = C_COMPLETED"
    unfolding stays_closed_def by auto
  have once: "consumed_tokens d2 (tk_ChainID t) = 1" using chain_inv_ok [OF i2 y(2)] y(3,4) by (simp add: sound_chain_def)
  have "n' \<noteq> n \<and> tk_ChainID t' \<noteq> tk_ChainID t" if again: "Consume st c' n' g' pr' e' d2 = (Inr t', d3)" for c' n' g' pr' e' t' d3
  proof -
    from again obtain claims where "Consume_work st n' g' pr' e' claims d2 = Inr (t', d3)" by (rule Consume_InrD)
    then obtain s w where s: "find (redeemable (TenantID claims) n' (clk e' 0)) (secure_chain_tokens d2) = Some s"
      "lock_row claims d2 (tk_ChainID s) = Inr w" "ch_Status w = C_ACTIVE" "tk_ChainID t' = tk_ChainID s" by (rule Consume_InrE) simp
    from find_SomeD [OF s(1)] have s': "s \<in> set (secure_chain_tokens d2)" "tk_Nonce s = n'" "tk_ConsumedAt s = None" by (auto simp: redeemable_def)
    have "n' \<noteq> n" using i2 s' y(1) x(2,3) by (auto simp: chain_inv_def dest: distinct_key_eq)
    moreover have "tk_ChainID s \<noteq> tk_ChainID t" using chain_inv_unique [OF i2 y(2), of w] lock_row_Inr [OF s(2)] s(3) y(3,4) by auto
    ultimately show ?thesis using s(4) by simp
  qed
  with y once show ?thesis by blast
qed

theorem container_released_once_witness:
  "\<exists>d4 t d5. Consume sc_store (sc_ctx ''GATE'') sc_nonce ''G1'' sc_pr (sc_env 500 (CHR ''g'')) d4 = (Inr t, d5) \<and> consumed_tokens d5 (tk_ChainID t) = 1
    \<and> (\<nexists>t' d6. Consume sc_store (sc_ctx ''GATE'') sc_nonce ''G1'' sc_pr (sc_env 500 (CHR ''h'')) d5 = (Inr t', d6))"
proof -
  obtain h d4 t0 t d5 where s: "sc_stage [sc_chain] [sc_accepted_link h] [t0] {CHR ''a'', CHR ''c'', CHR ''n'', CHR ''t''} d4"
    "Consume sc_store (sc_ctx ''GATE'') sc_nonce ''G1'' sc_pr (sc_env 500 (CHR ''g'')) d4 = (Inr t, d5)" by (rule sc_run)
  from s(1) have "chain_reachable sc_store d4" by (simp add: sc_stage_def)
  from container_released_once [OF this s(2) rtranclp.rtrancl_refl] s(2) show ?thesis by blast
qed

section \<open>Who is issued a token\<close>

lemma VerifyReleaseHolder_iff:
  "VerifyReleaseHolder claims d now k org = None \<longleftrightarrow>
     org \<noteq> [] \<and> (\<exists>c. active_chain (TenantID claims) d k = Some c \<and> \<not> ch_VelocityHold c \<and> \<not> ch_ExpiresAt c < now \<and> free_tail d c org)"
  by (auto simp: VerifyReleaseHolder_def free_tail_def Let_def split: option.splits if_splits)

text \<open>
  Claim C14. A release token is issued to the verified holder and nobody else: whatever
  \<open>ReleaseAuthorization\<close> answers, an error leaves the database as it was; a token is answered
  only if the release check the booking store uses accepts the caller (an ACTIVE chain of the
  tenant for the container, not held, not past its expiry, no nomination pending, the caller at
  its tail), it is the one new row of the tokens, bound to that chain, container and caller,
  with a signed envelope that passes the check at the gate, and not yet redeemed.
\<close>

theorem token_issued_to_tail_holder:
  assumes "ed25519_contract (cl_crypto (cs_lib st))" and "service_signer (cl_crypto (cs_lib st)) (cs_signer st)" and "ctx_claims c = Some claims"
    and "ReleaseAuthorization st c k pr e d = (r, d')"
  shows "case r of
      Inl err \<Rightarrow> d' = d
    | Inr t \<Rightarrow> (\<exists>x. active_chain (TenantID claims) d (canonical_container (cs_lib st) k) = Some x \<and> tk_ChainID t = ch_ChainID x)
        \<and> VerifyReleaseHolder claims d (clk e 0) (canonical_container (cs_lib st) k) (Subject claims) = None
        \<and> tk_HolderOrg t = Subject claims \<and> tk_ContainerID t = canonical_container (cs_lib st) k \<and> tk_ConsumedAt t = None
        \<and> check_token st t = Inr () \<and> secure_chain_tokens d' = secure_chain_tokens d @ [t] \<and> secure_chains d' = secure_chains d"
proof (cases r)
  case (Inl err)
  with assms(4) show ?thesis by (auto simp: ReleaseAuthorization_def Let_def split: if_splits dest: WithTx_error)
next
  case (Inr t)
  let ?k = "canonical_container (cs_lib st) k"
  from assms(3,4) Inr have "ReleaseAuthorization_work st ?k pr e claims d = Inr (t, d')"
    by (auto simp: ReleaseAuthorization_def Let_def split: if_splits dest!: WithTx_InrD)
  then obtain x env where w: "active_chain (TenantID claims) d ?k = Some x" "\<not> ch_VelocityHold x" "\<not> ch_ExpiresAt x < clk e 0" "free_tail d x (Subject claims)"
    "\<exists>p ext prov. Message ''release_authorized'' TopicSecureChain (ch_ChainID x) ?k p ext prov (clk e 1) (chain_signer st) e = Inr env"
    "t = new_token (EncodeToString (rnd e 2)) claims (ch_ChainID x) ?k env (clk e 1) (clk e 1 + cf_TokenTTL (cs_config st))"
    "noted (cl_jcs (cs_lib st)) (d\<lparr>secure_chain_tokens := secure_chain_tokens d @ [t]\<rparr>) d'" by (rule ReleaseAuthorization_InrE)
  from w(5) have "check_token st t = Inr ()" unfolding w(6) using issued_token_checks [OF assms(1,2)] by blast
  moreover have "VerifyReleaseHolder claims d (clk e 0) ?k (Subject claims) = None"
    unfolding VerifyReleaseHolder_iff using w(1-4) by (auto simp: free_tail_def)
  ultimately show ?thesis using Inr w(1,6) noted_rows [OF w(7)] by (simp add: new_token_def)
qed

theorem token_issued_to_tail_holder_witness:
  "\<exists>d t d'. ReleaseAuthorization sc_store (sc_ctx ''clerk'') sc_box sc_pr (sc_env 400 (CHR ''t'')) d = (Inr t, d')
    \<and> VerifyReleaseHolder (sc_claims ''clerk'') d 400 sc_box ''clerk'' = None \<and> check_token sc_store t = Inr () \<and> tk_HolderOrg t = ''clerk''"
proof -
  obtain d t d' where s: "ReleaseAuthorization sc_store (sc_ctx ''clerk'') sc_box sc_pr (sc_env 400 (CHR ''t'')) d = (Inr t, d')" by (rule sc_run)
  have "ctx_claims (sc_ctx ''clerk'') = Some (sc_claims ''clerk'')" by (simp add: sc_ctx_def)
  from token_issued_to_tail_holder [OF _ sc_signer this s] s show ?thesis
    by (intro exI [of _ d] exI [of _ t] exI [of _ d']) (simp add: toy_crypto_contract)
qed


section \<open>The audit trail\<close>

lemma AuditTrail_InrD:
  assumes "AuditTrail st c i d = (Inr es, d')"
  obtains tid j where "es = audit_rows tid d j" and "d' = d" and "es \<noteq> []"
  using assms by (auto simp: AuditTrail_def AuditTrail_work_def bindE_Inr_iff split: prod.splits sum.splits if_splits dest!: WithTx_InrD)

text \<open>
  Claim C16. The audit trail proves itself: in every state the store can reach, the trail that
  \<open>AuditTrail\<close> answers passes \<open>VerifyAuditTrail\<close>, although it was hashed as built and is
  rehashed from what PostgreSQL stored (canonical JSON does not depend on the order of
  members). And it is tamper evident: any other list of entries of the same length that passes
  the verification and ends in the same hash has the same hashes and the same canonical
  payloads throughout, unless two of its entries are a collision of SHA-256.
\<close>

theorem audit_trail_verifies:
  assumes "chain_reachable st d" and "jcs_contract (cl_jcs (cs_lib st))" and "AuditTrail st c i d = (Inr es, d')"
  shows "VerifyAuditTrail st c i d = (Inr True, d)
    \<and> (\<forall>es'. length es' = length es \<and> verify_entries (cl_jcs (cs_lib st)) ZeroHash es' = Inr True \<and> audit_tail es' = audit_tail es
         \<and> \<not> collision (cl_jcs (cs_lib st)) es es'
         \<longrightarrow> map (\<lambda>a. (ae_PrevHash a, cl_jcs (cs_lib st) (ae_Payload a), ae_EntryHash a)) es'
             = map (\<lambda>a. (ae_PrevHash a, cl_jcs (cs_lib st) (ae_Payload a), ae_EntryHash a)) es)"
proof -
  from assms(3) obtain tid j where es: "es = audit_rows tid d j" "d' = d" by (rule AuditTrail_InrD)
  have v: "verify_entries (cl_jcs (cs_lib st)) ZeroHash es = Inr True"
    using reachable_ledger [OF assms(1,2)] by (simp add: es ledger_ok_def audit_rows_def)
  with assms(3) es(2) have "VerifyAuditTrail st c i d = (Inr True, d)" by (simp add: VerifyAuditTrail_def)
  moreover have "map (\<lambda>a. (ae_PrevHash a, cl_jcs (cs_lib st) (ae_Payload a), ae_EntryHash a)) es'
      = map (\<lambda>a. (ae_PrevHash a, cl_jcs (cs_lib st) (ae_Payload a), ae_EntryHash a)) es"
    if "length es' = length es" "verify_entries (cl_jcs (cs_lib st)) ZeroHash es' = Inr True" "audit_tail es' = audit_tail es"
      "\<not> collision (cl_jcs (cs_lib st)) es es'" for es'
    by (rule trails_agree [OF _ v, symmetric]) (use that in simp_all)
  ultimately show ?thesis by blast
qed

theorem audit_trail_verifies_witness:
  "\<exists>d es. AuditTrail sc_store (sc_ctx ''LINE'') sc_id d = (Inr es, d) \<and> VerifyAuditTrail sc_store (sc_ctx ''LINE'') sc_id d = (Inr True, d)"
proof -
  obtain h t d where "sc_stage [sc_chain] [sc_accepted_link h] [t] {CHR ''a'', CHR ''c'', CHR ''n'', CHR ''t''} d" by (rule sc_run)
  then have d: "chain_reachable sc_store d" "audit_rows ''tenant-demo'' d sc_id \<noteq> []" by (simp_all add: sc_stage_def)
  from d(2) have t: "AuditTrail sc_store (sc_ctx ''LINE'') sc_id d = (Inr (audit_rows ''tenant-demo'' d sc_id), d)"
    by (simp add: AuditTrail_def AuditTrail_work_def WithTx_sc)
  from audit_trail_verifies [OF d(1) sc_jcs_contract t] t show ?thesis by blast
qed

section \<open>The booking of a container\<close>

text \<open>
  The interface between the two stores: a release verifier that accepts holders only. The
  booking store passes every booking of a container through it.
\<close>

locale release_gate =
  fixes verify :: release_verifier and holder :: "Claims \<Rightarrow> string \<Rightarrow> string \<Rightarrow> bool"
  assumes verify_sound: "verify claims d k org = None \<Longrightarrow> holder claims k org"
begin

lemma booked_for_holder:
  assumes "Create (SetReleaseVerifier (Some verify) st) c r pr e d = (Inr b, d')" and "ctx_claims c = Some claims" and "cr_ContainerID r \<noteq> []"
  shows "holder claims (cr_ContainerID r) (Subject claims)"
proof -
  from assms(1,2) have "createTx (SetReleaseVerifier (Some verify) st) r pr (later 1 0 e) claims d = Inr (b, d')"
    by (auto simp: Create_def split: option.splits if_splits dest!: WithTx_InrD)
  with assms(3) have "verify claims d (cr_ContainerID r) (Subject claims) = None"
    by (auto simp: createTx_def bindE_Inr_iff release_check_def SetReleaseVerifier_def)
  then show ?thesis by (rule verify_sound)
qed

end

definition free_holder :: "sdb \<Rightarrow> time \<Rightarrow> Claims \<Rightarrow> string \<Rightarrow> string \<Rightarrow> bool" where
  "free_holder sd now claims k org \<longleftrightarrow>
     (\<exists>x. active_chain (TenantID claims) sd k = Some x \<and> \<not> ch_VelocityHold x \<and> \<not> ch_ExpiresAt x < now \<and> free_tail sd x org)"

interpretation chain_gate: release_gate "\<lambda>claims _. VerifyReleaseHolder claims sd now" "free_holder sd now" for sd now
  by unfold_locales (auto simp: VerifyReleaseHolder_iff free_holder_def)

text \<open>
  Claim C15. Only the holder books a container: with the release check of the chain store wired
  into the booking store, a booking that names a container is created, or answered again, only
  for a caller who is the free tail of the one ACTIVE chain of that container in the tenant,
  a chain that is neither held nor past its expiry; that caller is the issuing line or has
  accepted the container on the chain. Otherwise nothing is booked.
\<close>

theorem only_holder_books_container:
  assumes "chain_reachable cst sd" and "ctx_claims c = Some claims" and "cr_ContainerID r \<noteq> []"
    and "Create (SetReleaseVerifier (Some (\<lambda>claims _. VerifyReleaseHolder claims sd now)) st) c r pr e d = (res, d')"
  shows "case res of
      Inl err \<Rightarrow> d' = d
    | Inr b \<Rightarrow> \<exists>x\<in>set (secure_chains sd). ch_TenantID x = TenantID claims \<and> ch_ContainerID x = cr_ContainerID r \<and> ch_Status x = C_ACTIVE
        \<and> \<not> ch_VelocityHold x \<and> now \<le> ch_ExpiresAt x \<and> free_tail sd x (Subject claims)
        \<and> has_held (ch_IssuerOrg x) (links_of sd (ch_ChainID x)) (Subject claims)
        \<and> (\<forall>y\<in>set (secure_chains sd). ch_TenantID y = TenantID claims \<and> ch_ContainerID y = cr_ContainerID r \<and> ch_Status y = C_ACTIVE \<longrightarrow> y = x)"
proof (cases res)
  case (Inl err)
  with assms(4) show ?thesis by (auto simp: Create_def split: option.splits if_splits dest: WithTx_error)
next
  case (Inr b)
  have i: "chain_inv sd" by (rule chain_reachable_inv [OF assms(1)])
  have "free_holder sd now claims (cr_ContainerID r) (Subject claims)" by (rule chain_gate.booked_for_holder [OF assms(4) [unfolded Inr] assms(2,3)])
  then obtain x where x: "active_chain (TenantID claims) sd (cr_ContainerID r) = Some x" "\<not> ch_VelocityHold x" "\<not> ch_ExpiresAt x < now"
    "free_tail sd x (Subject claims)" unfolding free_holder_def by blast
  note a = active_chainD [OF x(1)]
  then have ok: "sound_chain sd x" using chain_inv_ok [OF i] by blast
  have "has_held (ch_IssuerOrg x) (links_of sd (ch_ChainID x)) (Subject claims)"
    using tail_has_held [of "ch_IssuerOrg x" 0 ZeroHash "links_of sd (ch_ChainID x)"] ok tailOf_custody(1) [OF ok] x(4)
    by (simp add: free_tail_def sound_chain_def)
  moreover have "y = x" if "y \<in> set (secure_chains sd)" "ch_TenantID y = TenantID claims" "ch_ContainerID y = cr_ContainerID r" "ch_Status y = C_ACTIVE" for y
  proof -
    have "ch_ChainID y = ch_ChainID x" using i a that unfolding chain_inv_def one_active_def by metis
    with chain_inv_unique [OF i] a that(1) show ?thesis by blast
  qed
  ultimately show ?thesis unfolding Inr sum.case using x a by (intro bexI [of _ x]) simp_all
qed


definition sc_request :: BCreateRequest where
  "sc_request = (demo_request ''request-1'')\<lparr>cr_ContainerID := sc_box\<rparr>"

theorem only_holder_books_container_witness:
  "\<exists>sd b d'. Create (SetReleaseVerifier (Some (\<lambda>claims _. VerifyReleaseHolder claims sd 400)) demo_store) demo_ctx sc_request demo_pr (demo_env 10 ''bk'') demo2
      = (Inr b, d')
    \<and> (\<exists>x\<in>set (secure_chains sd). ch_ContainerID x = sc_box \<and> ch_Status x = C_ACTIVE \<and> free_tail sd x ''clerk'' \<and> has_held ''LINE'' (links_of sd (ch_ChainID x)) ''clerk'')"
proof -
  obtain h sd where s: "sc_stage [sc_chain] [sc_accepted_link h] [] {CHR ''a'', CHR ''c'', CHR ''n''} sd" by (rule sc_run)
  then have sd: "chain_reachable sc_store sd" "secure_chains sd = [sc_chain]" "secure_chain_links sd = [sc_accepted_link h]" by (simp_all add: sc_stage_def)
  let ?st = "SetReleaseVerifier (Some (\<lambda>claims _. VerifyReleaseHolder claims sd 400)) demo_store"
  have ok: "VerifyReleaseHolder demo_claims sd 400 sc_box ''clerk'' = None"
    by (simp add: VerifyReleaseHolder_def active_chain_def sd sc_tail(3) [OF sd(3)])
  define b where "b = new_booking demo_claims sc_request demo_pr (demo_env 10 ''bk'')"
  have box: "containerid_Valid sc_box" "match_regex containerid_Pattern sc_box" by code_simp+
  have v: "booking_Validate 10 sc_request = None"
    by (simp add: booking_Validate_def sc_request_def demo_request_def truckPlatePattern_def msisdnPattern_def terminalPattern_def
        go_simps zero_time_def box del: match_regex.simps)
  have "truck_bookings_check b"
    by (simp add: b_def demo_row_defs sc_request_def truck_bookings_check_def truckPlatePattern_def msisdnPattern_def go_simps box
        del: match_regex.simps)
  moreover have b: "b_BookingID b = ''bk''" "b_RequestID b = ''request-1''" "b_Status b = B_DRAFTED" "b_TerminalID b = ''APAPA''" "b_Channel b = ChannelWeb"
    "b_SlotID b = None" "b_PaymentReceiptRef b = None" by (simp_all add: b_def demo_row_defs sc_request_def)
  ultimately have w: "booking_write_error ''tenant-demo'' demo2 b = None"
    by (simp add: booking_write_error_def enforce_slot_capacity_def receipt_conflict_def)
  have t: "find_terminal ''tenant-demo'' demo2 ''APAPA'' \<noteq> None" "truck_bookings demo2 = []" "platform_outbox demo2 = []"
    and a: "\<And>t. find_terminal ''tenant-demo'' demo2 ''APAPA'' = Some t \<Longrightarrow> t_Active t"
    by (simp_all add: demo2_eq demo1_eq empty_db_def find_terminal_def)
  have "st_signer ?st = Some demo_signer" "st_releaseVerifier ?st = Some (\<lambda>claims _. VerifyReleaseHolder claims sd 400)"
    "cr_RequestID sc_request = ''request-1''" "cr_TerminalID sc_request = ''APAPA''" "cr_ContainerID sc_request = sc_box"
    by (simp_all add: SetReleaseVerifier_def sc_request_def)
  then have "\<exists>d'. Create ?st demo_ctx sc_request demo_pr (demo_env 10 ''bk'') demo2 = (Inr b, d')"
    using v w t a b ok
    by (auto simp: Create_def createTx_def WithTx_demo release_check_def find_request_def emit_demo Let_def b_def [symmetric] demo_topics go_simps)
  then obtain d' where c: "Create ?st demo_ctx sc_request demo_pr (demo_env 10 ''bk'') demo2 = (Inr b, d')" by blast
  have "\<exists>x\<in>set (secure_chains sd). ch_ContainerID x = sc_box \<and> ch_Status x = C_ACTIVE \<and> free_tail sd x ''clerk''
      \<and> has_held (ch_IssuerOrg x) (links_of sd (ch_ChainID x)) ''clerk''"
    using only_holder_books_container [OF sd(1) _ _ c, of demo_claims] by (auto simp: sc_request_def)
  with c show ?thesis by (intro exI [of _ sd] exI [of _ b] exI [of _ d']) (simp add: sd(2))
qed


section \<open>The velocity hold\<close>

text \<open>Who was granted the container on a chain: the accepted links and the tokens that exist.\<close>

definition grants :: "sdb \<Rightarrow> string \<Rightarrow> Link list \<times> string list" where
  "grants d i = (filter (\<lambda>l. link_State l = LinkAccepted) (links_of d i), map tk_Nonce (filter (\<lambda>t. tk_ChainID t = i) (secure_chain_tokens d)))"

definition stays_held :: "sdb \<Rightarrow> sdb \<Rightarrow> bool" where
  "stays_held d d' \<longleftrightarrow>
     (\<forall>c\<in>set (secure_chains d). ch_VelocityHold c \<longrightarrow>
        (\<exists>c'\<in>set (secure_chains d'). ch_ChainID c' = ch_ChainID c \<and> ch_TenantID c' = ch_TenantID c \<and> ch_VelocityHold c')
        \<and> grants d' (ch_ChainID c) = grants d (ch_ChainID c))"

lemma stays_held_refl: "stays_held d d"
  unfolding stays_held_def by blast

lemma stays_held_trans:
  assumes "stays_held x y" and "stays_held y z"
  shows "stays_held x z"
  unfolding stays_held_def
proof (intro ballI impI)
  fix c assume c: "c \<in> set (secure_chains x)" "ch_VelocityHold c"
  with assms(1) obtain c' where c': "c' \<in> set (secure_chains y)" "ch_ChainID c' = ch_ChainID c" "ch_TenantID c' = ch_TenantID c" "ch_VelocityHold c'"
    "grants y (ch_ChainID c) = grants x (ch_ChainID c)" unfolding stays_held_def by blast
  with assms(2) show "(\<exists>c'\<in>set (secure_chains z). ch_ChainID c' = ch_ChainID c \<and> ch_TenantID c' = ch_TenantID c \<and> ch_VelocityHold c')
      \<and> grants z (ch_ChainID c) = grants x (ch_ChainID c)" unfolding stays_held_def by metis
qed

lemma update_keeps_hold:
  assumes "keeps_chain f" and "c \<in> set cs" and "ch_VelocityHold c"
  shows "\<exists>c'\<in>set (update_where P f cs). ch_ChainID c' = ch_ChainID c \<and> ch_TenantID c' = ch_TenantID c \<and> ch_VelocityHold c'"
  using assms by (intro bexI [of _ "if P c then f c else c"]) (auto simp: keeps_chain_def set_update_where)

lemma filter_update_same:
  "(\<And>x. x \<in> set T \<Longrightarrow> P x \<Longrightarrow> \<not> Q x \<and> \<not> Q (f x)) \<Longrightarrow> filter Q (update_where P f T) = filter Q T"
  by (induction T) (auto simp: update_where_def)

lemma grants_links:
  assumes "secure_chain_links d' = update_where P f (secure_chain_links d)" and "secure_chain_tokens d' = secure_chain_tokens d"
    and "\<And>l. l \<in> set (secure_chain_links d) \<Longrightarrow> P l \<Longrightarrow> lk_ChainID l \<noteq> i \<and> lk_ChainID (f l) \<noteq> i \<or> link_State l \<noteq> LinkAccepted \<and> link_State (f l) \<noteq> LinkAccepted"
  shows "grants d' i = grants d i"
  unfolding grants_def links_of_def assms(1,2) filter_filter
  by (intro arg_cong2 [where f = Pair] filter_update_same refl) (use assms(3) in blast)

lemma table_step_held:
  assumes "chain_inv d" and "table_step d d'"
  shows "stays_held d d'"
  using assms(2)
proof cases
  case (hold c f)
  have "grants d' i = grants d i" for i by (simp add: hold(1) grants_def links_of_def update_chain_def)
  with hold(3) show ?thesis unfolding stays_held_def hold(1) update_chain_def by (auto intro: update_keeps_hold)
next
  case (link c l)
  have "ch_ChainID x \<noteq> ch_ChainID c" if "x \<in> set (secure_chains d)" "ch_VelocityHold x" for x
    using chain_inv_unique [OF assms(1) link(2) that(1)] that(2) link(4) by auto
  moreover have "link_State l \<noteq> LinkAccepted" using link(6) by simp
  ultimately show ?thesis using link(1,5) by (auto simp: stays_held_def grants_def links_of_def)
next
  case (resolve c q f)
  have "ch_ChainID x \<noteq> ch_ChainID c" if "x \<in> set (secure_chains d)" "ch_VelocityHold x" for x
    using chain_inv_unique [OF assms(1) resolve(2) that(1)] that(2) resolve(4) by auto
  then have "grants d' (ch_ChainID x) = grants d (ch_ChainID x)" if "x \<in> set (secure_chains d)" "ch_VelocityHold x" for x
  proof -
    from that have "ch_ChainID x \<noteq> ch_ChainID c" by fact
    with resolve(6) show ?thesis
      by (intro grants_links [of _ "\<lambda>l. lk_ChainID l = ch_ChainID c \<and> lk_Seq l = lk_Seq q" f]) (auto simp: resolve(1) update_link_def same_identity_def)
  qed
  then show ?thesis by (auto simp: stays_held_def resolve(1) update_link_def)
next
  case (close c f at)
  have "grants d' i = grants d i" for i
    by (rule grants_links [of _ "\<lambda>l. lk_ChainID l = ch_ChainID c \<and> link_State l = LinkPending" "\<lambda>l. l\<lparr>lk_RevokedAt := Some at\<rparr>"])
       (auto simp: close(1) update_chain_def revoke_open_links_def link_State_def split: if_splits)
  moreover have "secure_chains d' = update_where (\<lambda>x. ch_ChainID x = ch_ChainID c) f (secure_chains d)" by (simp add: close(1) update_chain_def)
  ultimately show ?thesis using close(4) by (auto simp: stays_held_def intro: update_keeps_hold)
next
  case (token c t)
  have "ch_ChainID x \<noteq> ch_ChainID c" if "x \<in> set (secure_chains d)" "ch_VelocityHold x" for x
    using chain_inv_unique [OF assms(1) token(2) that(1)] that(2) token(4) by auto
  then have "tk_ChainID t \<noteq> ch_ChainID x" if "x \<in> set (secure_chains d)" "ch_VelocityHold x" for x using that token(6) by metis
  then show ?thesis by (auto simp: stays_held_def grants_def links_of_def token(1))
next
  case (consume c t f P g at)
  have "map tk_Nonce (filter (\<lambda>t. tk_ChainID t = i) (update_where P (\<lambda>x. x\<lparr>tk_ConsumedAt := Some at, tk_ConsumedGate := Some g\<rparr>) T))
      = map tk_Nonce (filter (\<lambda>t. tk_ChainID t = i) T)" for i T by (induction T) (auto simp: update_where_def)
  then have "grants d' i = grants d i" for i by (simp add: consume(1) grants_def links_of_def update_chain_def)
  moreover have "secure_chains d' = update_where (\<lambda>x. ch_ChainID x = ch_ChainID c) f (secure_chains d)" by (simp add: consume(1) update_chain_def)
  ultimately show ?thesis using consume(7) by (auto simp: stays_held_def intro: update_keeps_hold)
qed (auto simp: stays_held_def grants_def links_of_def)

interpretation held: kept_relation stays_held
  by unfold_locales (rule stays_held_refl, erule (1) stays_held_trans, rule table_step_held)

text \<open>\<open>ErrVelocityHold\<close> comes from the guard on a held chain only; a breach is answered as such.\<close>

lemma wrap_err_hold [simp]: "wrap_err s x \<noteq> Inl ErrVelocityHold"
  by (cases x) (simp_all add: wrap_err_def)

lemma no_hold_error [simp]:
  "chain_audit st claims i ty pl at d \<noteq> Inl ErrVelocityHold" "chain_emit st claims ty corr sub p ext pr at e d \<noteq> Inl ErrVelocityHold"
  "LinkHash jcs h i n f t b at \<noteq> Inl ErrVelocityHold" "AuditHash jcs h v \<noteq> Inl ErrVelocityHold" "lockChain st claims d i \<noteq> Inl ErrVelocityHold"
  by (auto simp: chain_audit_def Let_def bindE_Inl_iff AuditHash_def chain_emit_def emit_event_def put_event_def LinkHash_def lockChain_def lock_row_def
      from_option_def split: option.splits)

lemma Nominate_hold:
  assumes "Nominate_work st i to pr e claims d = Inl ErrVelocityHold"
  obtains x where "lockChain st claims d i = Inr x" and "ch_VelocityHold x"
proof -
  have "append_link st i to pr now e claims c t d \<noteq> Inl ErrVelocityHold" for now e c t d
    by (auto simp: append_link_def Let_def bindE_Inl_iff split: option.splits)
  moreover have "velocity_check st claims c pr now e d \<noteq> Inl ErrVelocityHold" for c now e d
    by (auto simp: velocity_check_def flagVelocity_def Let_def bindE_Inl_iff errVelocityBreach_def split: if_splits)
  ultimately show thesis using assms that by (auto simp: Nominate_work_def Let_def bindE_Inl_iff not_active_def split: if_splits)
qed


lemma flagVelocity_holds:
  assumes "flagVelocity st claims c n pr now e d = Inr d'" and "cf_VelocityHold (cs_config st)" and "c \<in> set (secure_chains d)"
  shows "\<exists>c'\<in>set (secure_chains d'). ch_ChainID c' = ch_ChainID c \<and> ch_TenantID c' = ch_TenantID c \<and> ch_VelocityHold c'"
proof (cases "ch_VelocityHold c")
  case True
  with assms(1) have "secure_chains d' = secure_chains d"
    by (auto simp: flagVelocity_def Let_def bindE_Inr_iff dest!: chain_audit_InrD chain_emit_InrD)
  with True assms(3) show ?thesis by auto
next
  case False
  let ?f = "\<lambda>x. x\<lparr>ch_VelocityHold := True, ch_HoldReason := Some (velocity_reason st n), ch_UpdatedAt := now, ch_Version := ch_Version c + 1\<rparr>"
  from False assms(1,2) have "secure_chains d' = update_where (\<lambda>x. ch_ChainID x = ch_ChainID c) ?f (secure_chains d)"
    by (auto simp: flagVelocity_def Let_def bindE_Inr_iff update_chain_def dest!: chain_audit_InrD chain_emit_InrD)
  with assms(3) show ?thesis by (intro bexI [of _ "?f c"]) (auto simp: set_update_where)
qed

lemma lockChain_unique:
  assumes "chain_inv d" and "cl_uuid (cs_lib st) k = Some (ch_ChainID c)" and "c \<in> set (secure_chains d)" and "ch_TenantID c = TenantID claims"
  shows "lockChain st claims d k = Inr c"
proof -
  have "find (\<lambda>x. ch_TenantID x = TenantID claims \<and> ch_ChainID x = ch_ChainID c) (secure_chains d) = Some c"
  proof (cases "find (\<lambda>x. ch_TenantID x = TenantID claims \<and> ch_ChainID x = ch_ChainID c) (secure_chains d)")
    case None
    with assms(3,4) show ?thesis by (auto simp: find_None_iff)
  next
    case (Some x)
    then have "x \<in> set (secure_chains d)" "ch_ChainID x = ch_ChainID c" by (auto dest: find_SomeD)
    with chain_inv_unique [OF assms(1,3)] Some show ?thesis by simp
  qed
  with assms(2) show ?thesis by (simp add: lockChain_def lock_row_def)
qed

lemma refused_nomination_held:
  assumes "chain_inv d" and "cf_VelocityHold (cs_config st)" and "\<And>n. ctx_claims (c n) = Some claims" and "Nominate st c i to pr e d = (Inl ErrVelocityHold, d1)"
  shows "\<exists>x. lockChain st claims d1 i = Inr x \<and> ch_VelocityHold x"
proof -
  obtain r d0 where w: "WithTx (c 0) (Nominate_work st i to pr e) d = (r, d0)" by fastforce
  show ?thesis
  proof (cases "r = Inl ErrVelocityHold")
    case True
    with w assms(3) [of 0] have "Nominate_work st i to pr e claims d = Inl ErrVelocityHold" "d0 = d"
      by (auto simp: WithTx_def TenantClaims_def split: option.splits sum.splits)
    then show ?thesis using assms(4) w True by (auto simp: Nominate_def errVelocityBreach_def split: if_splits elim: Nominate_hold)
  next
    case False
    with assms(4) w obtain err where err: "r = Inl err" "errors_Is err errVelocityBreach"
      and h: "applyVelocityHold st (c 1) i pr (later 4 4 e) d0 = (Inr (), d1)"
      by (auto simp: Nominate_def split: if_splits sum.splits prod.splits)
    have d0: "d0 = d" using w err by (auto dest: WithTx_error)
    from WithTx_InrD [OF h [unfolded applyVelocityHold_def]] assms(3) [of 1] obtain x n
      where x: "lockChain st claims d i = Inr x" "flagVelocity st claims x n pr (clk (later 4 4 e) 0) (later 4 4 e) d = Inr d1"
      by (auto simp: applyVelocityHold_work_def Let_def bindE_Inr_iff d0)
    note lx = lockChain_Inr [OF x(1)]
    then obtain y where y: "y \<in> set (secure_chains d1)" "ch_ChainID y = ch_ChainID x" "ch_TenantID y = ch_TenantID x" "ch_VelocityHold y"
      using flagVelocity_holds [OF x(2) assms(2)] by blast
    have "chain_inv d1" by (rule chain_step_inv [OF chain_step.Nominate [OF assms(4)] assms(1)])
    then have "lockChain st claims d1 i = Inr y" by (rule lockChain_unique) (use y lx in auto)
    with y(4) show ?thesis by blast
  qed
qed


text \<open>
  Claim C17. The velocity hold freezes a chain for good: with the hold configured, a nomination
  that is refused with \<open>ErrVelocityHold\<close> leaves the chain held in the database (the refused
  nomination itself is rolled back, the hold is committed by a transaction of its own), and from
  then on, whatever operations anyone performs, the chain stays held: no further organisation accepts
  the container on it and no further release token of it is issued.
\<close>

theorem velocity_hold_freezes_chain:
  assumes "chain_reachable st d" and "cf_VelocityHold (cs_config st)" and "\<And>n. ctx_claims (c n) = Some claims"
    and "Nominate st c i to pr e d = (Inl ErrVelocityHold, d1)" and "(chain_step st)\<^sup>*\<^sup>* d1 d2"
  shows "\<exists>x y. lockChain st claims d1 i = Inr x \<and> ch_VelocityHold x \<and> lockChain st claims d2 i = Inr y \<and> ch_VelocityHold y
    \<and> grants d2 (ch_ChainID x) = grants d1 (ch_ChainID x)"
proof -
  from refused_nomination_held [OF chain_reachable_inv [OF assms(1)] assms(2,3,4)] obtain x where x: "lockChain st claims d1 i = Inr x" "ch_VelocityHold x"
    by blast
  have i1: "chain_inv d1" by (rule chain_reachable_inv [OF chain_reachable.step [OF assms(1) chain_step.Nominate [OF assms(4)]]])
  have i2: "chain_inv d2" by (rule chain_steps_inv [OF assms(5) i1])
  note lx = lockChain_Inr [OF x(1)]
  have core_grants: "grants (core d) j = grants d j" for d j by (simp add: grants_def links_of_def)
  from held.keeps_run [OF assms(5) i1] lx x(2) obtain y where y: "y \<in> set (secure_chains d2)" "ch_ChainID y = ch_ChainID x" "ch_TenantID y = ch_TenantID x"
    "ch_VelocityHold y" "grants d2 (ch_ChainID x) = grants d1 (ch_ChainID x)" unfolding stays_held_def core_grants by auto
  have "lockChain st claims d2 i = Inr y" by (rule lockChain_unique [OF i2]) (use y lx in auto)
  with x y(4,5) show ?thesis by blast
qed

lemma bindE_assoc: "bindE (bindE x f) g = bindE x (\<lambda>a. bindE (f a) g)"
  by (cases x) simp_all

lemma sc_breach:
  assumes "sc_stage [sc_chain] [sc_accepted_link h] [] {CHR ''a'', CHR ''c'', CHR ''n''} d"
  shows "\<exists>d'. Nominate sc_store (\<lambda>_. sc_ctx ''clerk'') sc_id ''OTHER'' sc_pr (sc_env 400 (CHR ''v'')) d = (Inl ErrVelocityHold, d')"
proof -
  have d: "secure_chains d = [sc_chain]" "secure_chain_links d = [sc_accepted_link h]" using assms by (simp_all add: sc_stage_def)
  have n: "recent_nominations d sc_id 400 = 1"
    by (simp add: recent_nominations_def d sc_accepted_link_def count_rows_def day_def)
  have "Nominate_work sc_store sc_id ''OTHER'' sc_pr (sc_env 400 (CHR ''v'')) (sc_claims ''clerk'') d = Inl errVelocityBreach"
    by (simp add: Nominate_work_def sc_lock [OF d(1)] sc_tail(3) [OF d(2)] velocity_check_def n)
  moreover have "\<exists>d'. applyVelocityHold_work sc_store sc_id sc_pr (sc_env 400 (CHR ''v'')) (sc_claims ''clerk'') d = Inr ((), d')"
  proof -
    let ?d = "update_chain sc_id (\<lambda>c. c\<lparr>ch_VelocityHold := True, ch_HoldReason := Some (velocity_reason sc_store 1), ch_UpdatedAt := 400, ch_Version := 2\<rparr>) d"
    have "\<exists>d'. applyVelocityHold_work sc_store sc_id sc_pr (sc_env 400 (CHR ''v'')) (sc_claims ''clerk'') d = Inr ((), d') \<and> sc_noted (CHR ''v'') ?d d'"
      by (simp add: applyVelocityHold_work_def sc_lock [OF d(1)] n flagVelocity_def Let_def pg_inc_def wrap_err_def max_int64_def bindE_assoc)
         (rule sc_record, use sc_stage_ledger [OF assms] sc_stage_fresh [OF assms] in \<open>simp_all add: TrimSpace_visible update_chain_def\<close>)
    then show ?thesis by blast
  qed
  moreover have "ValidOrg ''OTHER''" by code_simp
  ultimately show ?thesis by (auto simp: Nominate_def WithTx_sc applyVelocityHold_def errVelocityBreach_def)
qed


theorem velocity_hold_freezes_chain_witness:
  "\<exists>d d1 x. chain_reachable sc_store d \<and> Nominate sc_store (\<lambda>_. sc_ctx ''clerk'') sc_id ''OTHER'' sc_pr (sc_env 400 (CHR ''v'')) d = (Inl ErrVelocityHold, d1)
    \<and> lockChain sc_store (sc_claims ''clerk'') d1 sc_id = Inr x \<and> ch_VelocityHold x"
proof -
  obtain h d where s: "sc_stage [sc_chain] [sc_accepted_link h] [] {CHR ''a'', CHR ''c'', CHR ''n''} d" by (rule sc_run)
  then have d: "chain_reachable sc_store d" by (simp add: sc_stage_def)
  from sc_breach [OF s] obtain d1 where n: "Nominate sc_store (\<lambda>_. sc_ctx ''clerk'') sc_id ''OTHER'' sc_pr (sc_env 400 (CHR ''v'')) d = (Inl ErrVelocityHold, d1)"
    by blast
  have "ctx_claims ((\<lambda>_::nat. sc_ctx ''clerk'') m) = Some (sc_claims ''clerk'')" for m by (simp add: sc_ctx_def)
  from velocity_hold_freezes_chain [OF d _ this n rtranclp.rtrancl_refl] d n show ?thesis by auto
qed


section \<open>What the gate does not look at\<close>

text \<open>
  The gate redeems a token whatever became of the custody since it was issued: the answer of
  \<open>Consume\<close> depends neither on the links of the chain nor on a velocity hold. A token issued before
  a handoff or a hold still releases the container until it expires.
\<close>

lemma recorded_same:
  assumes "secure_chain_audit d' = secure_chain_audit d" and "chain_outbox d' = chain_outbox d"
  shows "map_sum id fst (bindE (chain_audit st claims i ty pl at d') (\<lambda>d. bindE (chain_emit st claims ty' corr sub p ext pr at' e d) (\<lambda>d. Inr (r, d))))
    = map_sum id fst (bindE (chain_audit st claims i ty pl at d) (\<lambda>d. bindE (chain_emit st claims ty' corr sub p ext pr at' e d) (\<lambda>d. Inr (r, d))))"
proof -
  have "audit_rows (TenantID claims) d' i = audit_rows (TenantID claims) d i" by (simp add: audit_rows_def assms(1))
  then show ?thesis
    by (cases "AuditHash (cl_jcs (cs_lib st)) (audit_tail (audit_rows (TenantID claims) d i)) (audit_payload ty pl at)";
        cases "emit_event claims TopicSecureChain ty' corr sub p ext pr at' (chain_signer st) e (chain_outbox d)")
       (simp_all add: chain_audit_def chain_emit_def Let_def assms)
qed

lemma find_map_hold:
  "find (\<lambda>c. ch_TenantID c = tid \<and> ch_ChainID c = i) (map (\<lambda>x. x\<lparr>ch_VelocityHold := b x\<rparr>) cs)
     = map_option (\<lambda>x. x\<lparr>ch_VelocityHold := b x\<rparr>) (find (\<lambda>c. ch_TenantID c = tid \<and> ch_ChainID c = i) cs)"
  by (induction cs) auto

theorem gate_ignores_custody:
  "map_sum id fst (Consume_work st n g pr e claims
       (d\<lparr>secure_chain_links := ls, secure_chains := map (\<lambda>x. x\<lparr>ch_VelocityHold := b x\<rparr>) (secure_chains d)\<rparr>))
   = map_sum id fst (Consume_work st n g pr e claims d)"
proof (cases "find (redeemable (TenantID claims) n (clk e 0)) (secure_chain_tokens d)")
  case (Some t)
  show ?thesis
  proof (cases "check_token st t")
    case (Inr u)
    show ?thesis
    proof (cases "find (\<lambda>c. ch_TenantID c = TenantID claims \<and> ch_ChainID c = tk_ChainID t) (secure_chains d)")
      case (Some c)
      with \<open>find _ _ = Some t\<close> Inr show ?thesis
        by (cases "ch_Version c < max_int64")
           (auto simp: Consume_work_def Let_def lock_row_def find_map_hold not_active_def wrap_err_def pg_inc_def update_chain_def intro!: recorded_same)
    qed (use Some Inr in \<open>simp add: Consume_work_def Let_def lock_row_def find_map_hold\<close>)
  qed (use Some in \<open>simp add: Consume_work_def Let_def\<close>)
qed (simp add: Consume_work_def Let_def)

end
