(* ===== verification/Offshore.thy ===== *)
theory Offshore
  imports Tariff_Store Outbox Identifiers
begin

text \<open>
  \<^verbatim>\<open>src/internal/offshore\<close>: tanker calls at offshore terminals with the mooring-master
  workflow, their operational events and the assessment of the terminal fee, over the tables of
  \<^verbatim>\<open>src/db/migrations/0016_offshore_terminal_calls.sql\<close>. The store signs its own events and, through
  the tariff store, the revenue events. A table check that the code in front of it implies is
  not repeated; lengths are, since Go counts bytes and PostgreSQL characters. \<open>Open\<close>, \<open>Close\<close>, \<open>Pool\<close>
  and the tracing spans have no part in the model; \<open>scanCall\<close> reads back the row as it is.
\<close>

section \<open>Model\<close>

datatype OStatus =
    O_NOMINATED | O_APPROACH_CLEARED | O_MOORED | O_HOSE_CONNECTED | O_LOADING | O_CUSTODY_TRANSFERRED
  | O_DISCONNECTED | O_DEPARTED | O_CANCELLED | O_Other string

fun offshore_status_text :: "OStatus \<Rightarrow> string" where
  "offshore_status_text O_NOMINATED = ''NOMINATED''"
| "offshore_status_text O_APPROACH_CLEARED = ''APPROACH_CLEARED''"
| "offshore_status_text O_MOORED = ''MOORED''"
| "offshore_status_text O_HOSE_CONNECTED = ''HOSE_CONNECTED''"
| "offshore_status_text O_LOADING = ''LOADING''"
| "offshore_status_text O_CUSTODY_TRANSFERRED = ''CUSTODY_TRANSFERRED''"
| "offshore_status_text O_DISCONNECTED = ''DISCONNECTED''"
| "offshore_status_text O_DEPARTED = ''DEPARTED''"
| "offshore_status_text O_CANCELLED = ''CANCELLED''"
| "offshore_status_text (O_Other s) = s"

datatype TerminalKind = TerminalSBM | TerminalSPM | TerminalFPSO | OtherKind string

fun kind_text :: "TerminalKind \<Rightarrow> string" where
  "kind_text TerminalSBM = ''SBM''"
| "kind_text TerminalSPM = ''SPM''"
| "kind_text TerminalFPSO = ''FPSO''"
| "kind_text (OtherKind s) = s"

datatype OEventType =
    EventHoseConnection | EventLoadingArmStart | EventLoadingArmStop | EventCustodyMeterReading | EventMooringNote | OtherEvent string

fun event_type_text :: "OEventType \<Rightarrow> string" where
  "event_type_text EventHoseConnection = ''HOSE_CONNECTION''"
| "event_type_text EventLoadingArmStart = ''LOADING_ARM_START''"
| "event_type_text EventLoadingArmStop = ''LOADING_ARM_STOP''"
| "event_type_text EventCustodyMeterReading = ''CUSTODY_METER_READING''"
| "event_type_text EventMooringNote = ''MOORING_NOTE''"
| "event_type_text (OtherEvent s) = s"

definition is_call_char :: "char \<Rightarrow> bool" where
  "is_call_char c \<longleftrightarrow> is_letter c \<or> is_digit c \<or> c = CHR ''.'' \<or> c = CHR ''_'' \<or> c = CHR '':'' \<or> c = CHR ''-''"

definition callIDPattern :: "segment list" where
  "callIDPattern = [Seg is_call_char 2 64]"

definition offshore_terminalPattern :: "segment list" where
  "offshore_terminalPattern = [Seg (\<lambda>c. is_upper c \<or> is_digit c \<or> c = CHR ''-'') 2 16]"

definition agencyCodePattern :: "segment list" where
  "agencyCodePattern = [Seg is_upper 2 8]"

record OCreateRequest =
  oq_CallID :: string
  oq_VesselIMO :: string
  oq_VesselName :: string
  oq_TerminalCode :: string
  oq_TerminalKind :: TerminalKind
  oq_BuoyID :: string
  oq_AgencyCode :: string
  oq_GrossTonnage :: int
  oq_CargoTonnes :: int
  oq_MooringWindowStart :: time
  oq_MooringWindowEnd :: time
  oq_NominatedBy :: string

text \<open>The row of a call: the request it was made of, its tenant and key, and what changes.\<close>

record OCall =
  oc_Request :: OCreateRequest
  oc_TenantID :: string
  oc_IdempotencyKey :: string
  oc_Status :: OStatus
  oc_MooringMaster :: "string option"
  oc_CreatedAt :: time
  oc_UpdatedAt :: time
  oc_Version :: int

abbreviation oc_CallID :: "OCall \<Rightarrow> string" where
  "oc_CallID l \<equiv> oq_CallID (oc_Request l)"

definition offshore_canonical :: "string \<Rightarrow> int \<Rightarrow> int \<Rightarrow> bool" where
  "offshore_canonical value mn mx \<longleftrightarrow> len value \<ge> mn \<and> len value \<le> mx \<and> TrimSpace value = value"

definition offshore_Validate :: "OCreateRequest \<Rightarrow> unit result" where
  "offshore_Validate r =
     bindE (ensure (match_regex callIDPattern (oq_CallID r)) (ErrText ''call_id must be 2-64 canonical characters'')) (\<lambda>_.
     bindE (ensure (imonumber_Valid (oq_VesselIMO r)) (ErrText ''vessel_imo must be a seven-digit IMO number with a valid check digit'')) (\<lambda>_.
     bindE (ensure (offshore_canonical (oq_VesselName r) 2 256) (ErrText ''vessel_name must be canonical text between 2 and 256 characters'')) (\<lambda>_.
     bindE (ensure (match_regex offshore_terminalPattern (oq_TerminalCode r)) (ErrText ''terminal_code must be 2-16 uppercase alphanumeric/dash characters'')) (\<lambda>_.
     bindE (ensure (case oq_TerminalKind r of OtherKind _ \<Rightarrow> False | _ \<Rightarrow> True) (ErrText ''terminal_kind must be SBM, SPM or FPSO'')) (\<lambda>_.
     bindE (ensure (offshore_canonical (oq_BuoyID r) 1 64) (ErrText ''buoy_id must be canonical text of at most 64 characters'')) (\<lambda>_.
     bindE (ensure (match_regex agencyCodePattern (oq_AgencyCode r)) (ErrText ''agency_code must be two to eight uppercase letters (NPA, NIMASA, NIWA, FMMBE, CBN)'')) (\<lambda>_.
     bindE (ensure (oq_GrossTonnage r > 0) (ErrText ''gross_tonnage must be positive'')) (\<lambda>_.
     bindE (ensure (oq_CargoTonnes r \<ge> 0) (ErrText ''cargo_tonnes must be non-negative'')) (\<lambda>_.
     bindE (ensure (oq_MooringWindowStart r \<noteq> zero_time \<and> oq_MooringWindowEnd r > oq_MooringWindowStart r)
              (ErrText ''mooring window must be a non-empty interval'')) (\<lambda>_.
     ensure (offshore_canonical (oq_NominatedBy r) 2 256) (ErrText ''nominated_by must be canonical text between 2 and 256 characters'')))))))))))"

text \<open>The retained call replays the request when every field of the request agrees.\<close>

definition offshore_Matches :: "OCall \<Rightarrow> OCreateRequest \<Rightarrow> bool" where
  "offshore_Matches call r \<longleftrightarrow> oc_Request call = r"

fun offshore_ValidTransition :: "OStatus \<Rightarrow> OStatus \<Rightarrow> bool" where
  "offshore_ValidTransition O_NOMINATED next = (next = O_APPROACH_CLEARED \<or> next = O_CANCELLED)"
| "offshore_ValidTransition O_APPROACH_CLEARED next = (next = O_MOORED \<or> next = O_CANCELLED)"
| "offshore_ValidTransition O_MOORED next = (next = O_HOSE_CONNECTED)"
| "offshore_ValidTransition O_HOSE_CONNECTED next = (next = O_LOADING)"
| "offshore_ValidTransition O_LOADING next = (next = O_CUSTODY_TRANSFERRED)"
| "offshore_ValidTransition O_CUSTODY_TRANSFERRED next = (next = O_DISCONNECTED)"
| "offshore_ValidTransition O_DISCONNECTED next = (next = O_DEPARTED)"
| "offshore_ValidTransition _ next = False"

record OperationalEvent =
  oe_EventID :: string
  oe_CallID :: string
  oe_EventType :: OEventType
  oe_RecordedBy :: string
  oe_RecordedAt :: time
  oe_Remarks :: string
  oe_MeterID :: "string option"
  oe_MeterOpeningM3 :: "string option"
  oe_MeterClosingM3 :: "string option"

fun EventAllowed :: "OStatus \<Rightarrow> OEventType \<Rightarrow> bool" where
  "EventAllowed status EventHoseConnection = (status = O_MOORED \<or> status = O_HOSE_CONNECTED)"
| "EventAllowed status EventLoadingArmStart = (status = O_HOSE_CONNECTED \<or> status = O_LOADING)"
| "EventAllowed status EventLoadingArmStop = (status = O_HOSE_CONNECTED \<or> status = O_LOADING)"
| "EventAllowed status EventCustodyMeterReading = (status = O_LOADING \<or> status = O_CUSTODY_TRANSFERRED)"
| "EventAllowed status EventMooringNote =
     (status \<in> {O_NOMINATED, O_APPROACH_CLEARED, O_MOORED, O_HOSE_CONNECTED, O_LOADING, O_CUSTODY_TRANSFERRED, O_DISCONNECTED})"
| "EventAllowed status (OtherEvent _) = False"

section \<open>The store\<close>

datatype offshore_payload = OCallPayload OCall | OEventPayload OperationalEvent

record ostore =
  os_signer :: "offshore_payload signer option"
  os_revenue :: "Assessment signer option"

record odb =
  offshore_terminal_calls :: "OCall list"
  offshore_call_events :: "(string \<times> OperationalEvent) list"
  offshore_tariff :: tdb
  offshore_outbox :: "offshore_payload outbox_row list"

definition TopicOffshore :: string where "TopicOffshore = ''ports.offshore.v1''"

definition offshore_emit ::
  "ostore \<Rightarrow> Claims \<Rightarrow> string \<Rightarrow> string \<Rightarrow> string \<Rightarrow> offshore_payload \<Rightarrow> (string \<times> string) list \<Rightarrow> Principal \<Rightarrow> time \<Rightarrow> env \<Rightarrow> odb \<Rightarrow> odb result" where
  "offshore_emit st claims eventType correlationID subjectID payload extensions pr occurredAt e d =
     bindE (emit_event claims TopicOffshore eventType correlationID subjectID payload extensions pr occurredAt (os_signer st) e (offshore_outbox d))
       (\<lambda>os. Inr (d\<lparr>offshore_outbox := os\<rparr>))"

definition person_length :: "string \<Rightarrow> bool" where
  "person_length s \<longleftrightarrow> 2 \<le> pg_length s \<and> pg_length s \<le> 256"

definition offshore_calls_check :: "OCall \<Rightarrow> bool" where
  "offshore_calls_check l \<longleftrightarrow>
     person_length (oq_VesselName (oc_Request l)) \<and> person_length (oq_NominatedBy (oc_Request l))
     \<and> (case oc_MooringMaster l of None \<Rightarrow> True | Some m \<Rightarrow> person_length m)"

definition find_offshore :: "string \<Rightarrow> odb \<Rightarrow> string \<Rightarrow> OCall option" where
  "find_offshore tid d callID = find (\<lambda>l. oc_TenantID l = tid \<and> oc_CallID l = callID) (offshore_terminal_calls d)"

definition offshore_getForUpdate :: "Claims \<Rightarrow> odb \<Rightarrow> string \<Rightarrow> OCall result" where
  "offshore_getForUpdate claims d callID = from_option (ErrNotFound Offshore) (find_offshore (TenantID claims) d callID)"

definition new_offshore_call :: "string \<Rightarrow> string \<Rightarrow> OCreateRequest \<Rightarrow> time \<Rightarrow> OCall" where
  "new_offshore_call tid idempotencyKey r createdAt =
     \<lparr>oc_Request = r, oc_TenantID = tid, oc_IdempotencyKey = idempotencyKey, oc_Status = O_NOMINATED, oc_MooringMaster = None,
      oc_CreatedAt = createdAt, oc_UpdatedAt = createdAt, oc_Version = 1\<rparr>"

text \<open>The index on the idempotency key sees the rows of every tenant; the lookup only its own.\<close>

definition offshore_createTx :: "ostore \<Rightarrow> string \<Rightarrow> OCreateRequest \<Rightarrow> Principal \<Rightarrow> env \<Rightarrow> Claims \<Rightarrow> odb \<Rightarrow> (OCall \<times> odb) result" where
  "offshore_createTx st idempotencyKey r pr e claims d =
     (let createdAt = clk e 0; call = new_offshore_call (TenantID claims) idempotencyKey r createdAt in
      if \<not> offshore_calls_check call then Inl (Wrapf ''insert offshore call'' (PgErr (CheckViolation ''offshore_terminal_calls_check'')))
      else if list_ex (\<lambda>l. oc_IdempotencyKey l = idempotencyKey) (offshore_terminal_calls d)
      then (case find (\<lambda>l. oc_TenantID l = TenantID claims \<and> oc_IdempotencyKey l = idempotencyKey) (offshore_terminal_calls d) of
              None \<Rightarrow> Inl (Wrapf ''lookup idempotent offshore call'' (ErrNotFound Offshore))
            | Some retained \<Rightarrow> if \<not> offshore_Matches retained r then Inl (ErrIdempotencyConflict Offshore) else Inr (retained, d))
      else if list_ex (\<lambda>l. oc_CallID l = oq_CallID r) (offshore_terminal_calls d)
      then Inl (Wrapf ''insert offshore call'' (PgErr (UniqueViolation ''offshore_terminal_calls_pkey'')))
      else bindE (offshore_emit st claims ''offshore.call_nominated'' idempotencyKey (oq_CallID r) (OCallPayload call)
                    [(''terminal-code'', oq_TerminalCode r), (''terminal-kind'', kind_text (oq_TerminalKind r)), (''buoy-id'', oq_BuoyID r),
                     (''agency'', oq_AgencyCode r)] pr createdAt e
                    (d\<lparr>offshore_terminal_calls := offshore_terminal_calls d @ [call]\<rparr>)) (\<lambda>d. Inr (call, d)))"

definition verified_principal :: "Principal \<Rightarrow> bool" where
  "verified_principal pr \<longleftrightarrow> \<not> (pr_ID pr = [] \<or> pr_Role pr = [])"

definition offshore_Create :: "ostore \<Rightarrow> ctx \<Rightarrow> string \<Rightarrow> OCreateRequest \<Rightarrow> Principal \<Rightarrow> env \<Rightarrow> odb \<Rightarrow> OCall result \<times> odb" where
  "offshore_Create st c idempotencyKey r pr e d =
     (if idempotencyKey = [] \<or> len idempotencyKey > 256
      then (Inl (ErrText ''idempotency key must be non-empty and at most 256 characters''), d)
      else case offshore_Validate r of
        Inl err \<Rightarrow> (Inl err, d)
      | Inr _ \<Rightarrow>
          if \<not> verified_principal pr then (Inl (ErrText ''a verified principal is required''), d)
          else WithTx c (offshore_createTx st idempotencyKey r pr e) d)"

definition offshore_Get :: "ctx \<Rightarrow> string \<Rightarrow> odb \<Rightarrow> OCall result \<times> odb" where
  "offshore_Get c callID d =
     (if \<not> match_regex callIDPattern callID then (Inl (ErrNotFound Offshore), d)
      else WithTx c (\<lambda>claims d. bindE (offshore_getForUpdate claims d callID) (\<lambda>call. Inr (call, d))) d)"

definition offshore_Transition_work ::
  "ostore \<Rightarrow> string \<Rightarrow> int \<Rightarrow> OStatus \<Rightarrow> string \<Rightarrow> Principal \<Rightarrow> env \<Rightarrow> Claims \<Rightarrow> odb \<Rightarrow> (OCall \<times> odb) result" where
  "offshore_Transition_work st callID expectedVersion next mooringMaster pr e claims d =
     bindE (offshore_getForUpdate claims d callID) (\<lambda>current.
     if oc_Version current \<noteq> expectedVersion then Inl (ErrOptimisticConflict Offshore)
     else if \<not> offshore_ValidTransition (oc_Status current) next then Inl (ErrInvalidTransition Offshore)
     else bindE (wrap_err ''transition offshore call'' (pg_inc (oc_Version current))) (\<lambda>version.
       let updatedAt = clk e 0; master = (if next = O_MOORED then Some mooringMaster else oc_MooringMaster current);
           f = (\<lambda>l. l\<lparr>oc_Status := next, oc_MooringMaster := master, oc_UpdatedAt := updatedAt, oc_Version := version\<rparr>); updated = f current in
       if \<not> offshore_calls_check updated
       then Inl (Wrapf ''transition offshore call'' (PgErr (CheckViolation ''offshore_terminal_calls_check'')))
       else bindE (offshore_emit st claims ''offshore.call_status_changed'' (callID @ '':'' @ fmt_d version) callID (OCallPayload updated)
                     [(''from-status'', offshore_status_text (oc_Status current)), (''to-status'', offshore_status_text next),
                      (''agency'', oq_AgencyCode (oc_Request current))] pr updatedAt e
                     (d\<lparr>offshore_terminal_calls := update_where (\<lambda>l. oc_TenantID l = TenantID claims \<and> oc_CallID l = callID
                          \<and> oc_Status l = oc_Status current \<and> oc_Version l = expectedVersion) f (offshore_terminal_calls d)\<rparr>))
              (\<lambda>d. Inr (updated, d))))"

definition offshore_Transition ::
  "ostore \<Rightarrow> ctx \<Rightarrow> string \<Rightarrow> int \<Rightarrow> OStatus \<Rightarrow> string \<Rightarrow> Principal \<Rightarrow> env \<Rightarrow> odb \<Rightarrow> OCall result \<times> odb" where
  "offshore_Transition st c callID expectedVersion next mooringMaster pr e d =
     (if \<not> match_regex callIDPattern callID \<or> expectedVersion < 1 then (Inl (ErrNotFound Offshore), d)
      else if next = O_MOORED \<and> \<not> offshore_canonical mooringMaster 2 256
      then (Inl (Wrapf ''mooring to MOORED requires the named mooring master'' (ErrInvalidTransition Offshore)), d)
      else if next \<noteq> O_MOORED \<and> mooringMaster \<noteq> []
      then (Inl (Wrapf ''mooring master applies only to the MOORED transition'' (ErrInvalidTransition Offshore)), d)
      else if \<not> verified_principal pr then (Inl (ErrText ''a verified principal is required''), d)
      else WithTx c (offshore_Transition_work st callID expectedVersion next mooringMaster pr e) d)"

section \<open>Operational events\<close>

record EventRequest =
  eq_EventType :: OEventType
  eq_RecordedBy :: string
  eq_Remarks :: string
  eq_MeterID :: "string option"
  eq_MeterOpeningM3 :: "string option"
  eq_MeterClosingM3 :: "string option"

text \<open>\<open>^[0-9]{1,15}(\.[0-9]{1,3})?$\<close>\<close>

definition meterReading :: "string \<Rightarrow> bool" where
  "meterReading s \<longleftrightarrow> match_regex [Seg is_digit 1 15] s \<or> match_regex [Seg is_digit 1 15, Seg (\<lambda>c. c = CHR ''.'') 1 1, Seg is_digit 1 3] s"

text \<open>
  A reading in thousandths of a cubic metre. Go compares readings as floats of 64 bits: rounding
  to them is monotone and tells thousandths below ten to the fifteen apart, so the comparison of the
  thousandths is the same. PostgreSQL stores and prints three fractional digits.
\<close>

definition milli :: "string \<Rightarrow> int" where
  "milli s = 1000 * digits_value (takeWhile is_digit s) + digits_value (take 3 (drop 1 (dropWhile is_digit s) @ ''000''))"

definition numeric_text :: "string \<Rightarrow> string" where
  "numeric_text s = fmt_d (milli s div 1000) @ ''.'' @ pad_left 3 (fmt_d (milli s mod 1000))"

definition EventRequest_validate :: "EventRequest \<Rightarrow> unit result" where
  "EventRequest_validate r =
     (if (case eq_EventType r of OtherEvent _ \<Rightarrow> True | _ \<Rightarrow> False) then Inl (Wrapf ''unknown event type'' ErrEventRejected)
      else if \<not> offshore_canonical (eq_RecordedBy r) 2 256 then Inl (Wrapf ''recorded_by must be canonical text'' ErrEventRejected)
      else if len (eq_Remarks r) > 1024 \<or> TrimSpace (eq_Remarks r) \<noteq> eq_Remarks r
      then Inl (Wrapf ''remarks must be canonical text of at most 1024 characters'' ErrEventRejected)
      else if eq_EventType r = EventCustodyMeterReading
      then (case (eq_MeterID r, eq_MeterOpeningM3 r, eq_MeterClosingM3 r) of
              (Some i, Some opening, Some closing) \<Rightarrow>
                if \<not> offshore_canonical i 1 64 \<or> \<not> meterReading opening \<or> \<not> meterReading closing
                then Inl (Wrapf ''custody meter readings require meter id and opening/closing readings'' ErrEventRejected)
                else if milli closing < milli opening then Inl (Wrapf ''closing reading must be at or above the opening reading'' ErrEventRejected)
                else Inr ()
            | _ \<Rightarrow> Inl (Wrapf ''custody meter readings require meter id and opening/closing readings'' ErrEventRejected))
      else if eq_MeterID r \<noteq> None \<or> eq_MeterOpeningM3 r \<noteq> None \<or> eq_MeterClosingM3 r \<noteq> None
      then Inl (Wrapf ''metering fields apply only to custody meter readings'' ErrEventRejected)
      else Inr ())"

definition new_event :: "string \<Rightarrow> string \<Rightarrow> EventRequest \<Rightarrow> time \<Rightarrow> OperationalEvent" where
  "new_event eventID callID r recordedAt =
     \<lparr>oe_EventID = eventID, oe_CallID = callID, oe_EventType = eq_EventType r, oe_RecordedBy = eq_RecordedBy r, oe_RecordedAt = recordedAt,
      oe_Remarks = eq_Remarks r, oe_MeterID = eq_MeterID r, oe_MeterOpeningM3 = map_option numeric_text (eq_MeterOpeningM3 r),
      oe_MeterClosingM3 = map_option numeric_text (eq_MeterClosingM3 r)\<rparr>"

definition RecordEvent_work :: "ostore \<Rightarrow> string \<Rightarrow> EventRequest \<Rightarrow> Principal \<Rightarrow> env \<Rightarrow> Claims \<Rightarrow> odb \<Rightarrow> (OperationalEvent \<times> odb) result" where
  "RecordEvent_work st callID r pr e claims d =
     bindE (offshore_getForUpdate claims d callID) (\<lambda>call.
     if \<not> EventAllowed (oc_Status call) (eq_EventType r)
     then Inl (Wrapf (event_type_text (eq_EventType r) @ '' is not recordable while '' @ offshore_status_text (oc_Status call)) ErrEventRejected)
     else let event = new_event (rnd e 0) callID r (clk e 0) in
       if \<not> person_length (eq_RecordedBy r) then Inl (Wrapf ''insert offshore call event'' (PgErr (CheckViolation ''offshore_call_events_check'')))
       else if list_ex (\<lambda>(_, x). oe_EventID x = oe_EventID event) (offshore_call_events d)
       then Inl (Wrapf ''insert offshore call event'' (PgErr (UniqueViolation ''offshore_call_events_event_id_key'')))
       else bindE (offshore_emit st claims ''offshore.call_event_recorded'' (oe_EventID event) callID (OEventPayload event)
                     [(''event-type'', event_type_text (eq_EventType r)), (''agency'', oq_AgencyCode (oc_Request call))] pr (clk e 0) (later 0 1 e)
                     (d\<lparr>offshore_call_events := offshore_call_events d @ [(TenantID claims, event)]\<rparr>)) (\<lambda>d. Inr (event, d)))"

definition RecordEvent :: "ostore \<Rightarrow> ctx \<Rightarrow> string \<Rightarrow> EventRequest \<Rightarrow> Principal \<Rightarrow> env \<Rightarrow> odb \<Rightarrow> OperationalEvent result \<times> odb" where
  "RecordEvent st c callID r pr e d =
     (if \<not> match_regex callIDPattern callID then (Inl (ErrNotFound Offshore), d)
      else case EventRequest_validate r of
        Inl err \<Rightarrow> (Inl err, d)
      | Inr _ \<Rightarrow>
          if \<not> verified_principal pr then (Inl (ErrText ''a verified principal is required''), d)
          else WithTx c (RecordEvent_work st callID r pr e) d)"

definition ListEvents :: "ctx \<Rightarrow> string \<Rightarrow> odb \<Rightarrow> OperationalEvent list result \<times> odb" where
  "ListEvents c callID d =
     (if \<not> match_regex callIDPattern callID then (Inl (ErrNotFound Offshore), d)
      else WithTx c (\<lambda>claims d.
        Inr (map snd (filter (\<lambda>(t, x). t = TenantID claims \<and> oe_CallID x = callID) (offshore_call_events d)), d)) d)"

section \<open>Fees\<close>

definition fee_params :: "Domain \<Rightarrow> string \<Rightarrow> string \<Rightarrow> Schedule \<Rightarrow> time \<Rightarrow> Facts \<Rightarrow> LineItem list \<Rightarrow> int \<Rightarrow> Principal \<Rightarrow> AssessmentParams" where
  "fee_params domain callID idempotencyKey schedule asOf facts items tot pr =
     \<lparr>ap_IdempotencyKey = idempotencyKey, ap_Domain = domain, ap_CallReference = callID, ap_Schedule = schedule, ap_AsOf = asOf,
      ap_Facts = facts, ap_LineItems = items, ap_TotalMinor = tot, ap_PrincipalID = pr_ID pr, ap_PrincipalRole = pr_Role pr\<rparr>"

definition Assess_work :: "ostore \<Rightarrow> string \<Rightarrow> string \<Rightarrow> time \<Rightarrow> Principal \<Rightarrow> env \<Rightarrow> Claims \<Rightarrow> odb \<Rightarrow> (Assessment \<times> odb) result" where
  "Assess_work st callID idempotencyKey asOf pr e claims d =
     bindE (offshore_getForUpdate claims d callID) (\<lambda>call.
     bindE (LoadEffective (TenantID claims) (offshore_tariff d) DomainOffshoreTerminal asOf) (\<lambda>schedule.
     let facts = \<lparr>f_GrossTonnage = oq_GrossTonnage (oc_Request call), f_CargoTonnes = oq_CargoTonnes (oc_Request call), f_Passengers = 0\<rparr> in
     bindE (Compute schedule facts asOf) (\<lambda>(items, tot).
     bindE (RecordAssessmentTx (os_revenue st) (fee_params DomainOffshoreTerminal callID idempotencyKey schedule asOf facts items tot pr) e claims (offshore_tariff d))
       (\<lambda>(recorded, td). Inr (recorded, d\<lparr>offshore_tariff := td\<rparr>)))))"

definition Assess :: "ostore \<Rightarrow> ctx \<Rightarrow> string \<Rightarrow> string \<Rightarrow> time \<Rightarrow> Principal \<Rightarrow> env \<Rightarrow> odb \<Rightarrow> Assessment result \<times> odb" where
  "Assess st c callID idempotencyKey asOf pr e d =
     (if \<not> match_regex callIDPattern callID then (Inl (ErrNotFound Offshore), d)
      else if idempotencyKey = [] \<or> len idempotencyKey > 256
      then (Inl (ErrText ''assessment idempotency key must be non-empty and at most 256 characters''), d)
      else if asOf = zero_time then (Inl (ErrText ''assessment as-of instant is required''), d)
      else if \<not> verified_principal pr then (Inl (ErrText ''a verified principal is required''), d)
      else WithTx c (Assess_work st callID idempotencyKey asOf pr e) d)"

end
