(* ===== verification/Tariff_Client.thy ===== *)
theory Tariff_Client
  imports Offshore
begin

text \<open>
  The interface between the tariff store and the packages that assess against it
  (\<^verbatim>\<open>offshore\<close> and \<^verbatim>\<open>cruise\<close>). A client reads the facts of a call, loads the schedule in force,
  computes and records. The locale \<open>tariff_client\<close> has what follows for the client's callers: the
  amount is the tariff's for the facts of the call, and a key is charged once.
\<close>

definition fee_for :: "tdb \<Rightarrow> string \<Rightarrow> Domain \<Rightarrow> Facts \<Rightarrow> time \<Rightarrow> (string \<times> LineItem list \<times> int) result" where
  "fee_for td tid domain facts asOf =
     bindE (LoadEffective tid td domain asOf) (\<lambda>schedule.
     bindE (Compute schedule facts asOf) (\<lambda>(items, tot). Inr (sc_ScheduleID schedule, items, tot)))"

locale tariff_client =
  fixes facts_of :: "Claims \<Rightarrow> 'db \<Rightarrow> string \<Rightarrow> Facts result" and tariff_of :: "'db \<Rightarrow> tdb" and put_tariff :: "tdb \<Rightarrow> 'db \<Rightarrow> 'db"
    and domain :: Domain and signer_of :: "'st \<Rightarrow> Assessment signer option"
    and assess :: "'st \<Rightarrow> string \<Rightarrow> string \<Rightarrow> time \<Rightarrow> Principal \<Rightarrow> env \<Rightarrow> Claims \<Rightarrow> 'db \<Rightarrow> (Assessment \<times> 'db) result"
  assumes assess_InrD: "assess st k key asOf pr e claims d = Inr (a, d') \<Longrightarrow>
      \<exists>facts schedule items tot td. facts_of claims d k = Inr facts \<and> LoadEffective (TenantID claims) (tariff_of d) domain asOf = Inr schedule
        \<and> Compute schedule facts asOf = Inr (items, tot)
        \<and> RecordAssessmentTx (signer_of st) (fee_params domain k key schedule asOf facts items tot pr) e claims (tariff_of d) = Inr (a, td)
        \<and> d' = put_tariff td d"
    and tariff_put [simp]: "tariff_of (put_tariff td d) = td"
    and facts_put [simp]: "facts_of claims (put_tariff td d) k = facts_of claims d k"
    and put_same [simp]: "put_tariff (tariff_of d) d = d"
begin

lemma charged:
  assumes "tariff_keys (tariff_of d)" and "assess st k key asOf pr e claims d = Inr (a, d')"
  shows "\<exists>facts. facts_of claims d k = Inr facts \<and> as_Facts a = facts \<and> as_CallReference a = k \<and> as_Domain a = domain
    \<and> fee_for (tariff_of d) (TenantID claims) domain facts asOf = Inr (as_ScheduleID a, as_LineItems a, as_TotalMinor a)"
proof -
  from assess_InrD [OF assms(2)] obtain facts schedule items tot td where
    f: "facts_of claims d k = Inr facts" "LoadEffective (TenantID claims) (tariff_of d) domain asOf = Inr schedule"
       "Compute schedule facts asOf = Inr (items, tot)" and
    r: "RecordAssessmentTx (signer_of st) (fee_params domain k key schedule asOf facts items tot pr) e claims (tariff_of d) = Inr (a, td)"
    by blast
  have "as_Facts a = facts" "as_LineItems a = items" "as_TotalMinor a = tot" "as_ScheduleID a = sc_ScheduleID schedule" "as_CallReference a = k" "as_Domain a = domain"
    using r by (auto simp: RecordAssessmentTx_def fee_params_def new_assessment_def same_assessment_def Let_def bindE_Inr_iff split: option.splits if_splits)
  with f show ?thesis by (simp add: fee_for_def)
qed

lemma charged_once:
  assumes "tariff_keys (tariff_of d)" and "assess st k key asOf pr e claims d = Inr (a, d')"
    and "assess st2 k2 key asOf2 pr2 e2 claims d' = Inr (a2, d2)"
  shows "d2 = d' \<and> as_AssessmentID a2 = as_AssessmentID a \<and> as_TotalMinor a2 = as_TotalMinor a"
proof -
  from assess_InrD [OF assms(2)] obtain facts schedule items tot td where
    r: "RecordAssessmentTx (signer_of st) (fee_params domain k key schedule asOf facts items tot pr) e claims (tariff_of d) = Inr (a, td)"
    and d': "d' = put_tariff td d" by blast
  from assess_InrD [OF assms(3)] obtain facts2 schedule2 items2 tot2 td2 where
    r2: "RecordAssessmentTx (signer_of st2) (fee_params domain k2 key schedule2 asOf2 facts2 items2 tot2 pr2) e2 claims td = Inr (a2, td2)"
    and d2: "d2 = put_tariff td2 d'" by (auto simp: d')
  note once = RecordAssessment_exactly_once [OF assms(1) r]
  let ?p = "fee_params domain k key schedule asOf facts items tot pr" and ?p2 = "fee_params domain k2 key schedule2 asOf2 facts2 items2 tot2 pr2"
  have "ap_IdempotencyKey ?p2 = ap_IdempotencyKey ?p" by (simp add: fee_params_def)
  with once have "case RecordAssessmentTx (signer_of st2) ?p2 e2 claims td of Inl _ \<Rightarrow> True
      | Inr (a2, d2) \<Rightarrow> d2 = td \<and> as_AssessmentID a2 = as_AssessmentID a \<and> ap_TotalMinor ?p2 = ap_TotalMinor ?p" by blast
  then have "td2 = td" "as_AssessmentID a2 = as_AssessmentID a" "ap_TotalMinor ?p2 = ap_TotalMinor ?p" by (simp_all add: r2)
  moreover have "tariff_keys td" "as_TotalMinor a = ap_TotalMinor ?p" using once by blast+
  moreover from RecordAssessment_exactly_once [OF this(1) r2] have "as_TotalMinor a2 = ap_TotalMinor ?p2" by blast
  ultimately show ?thesis unfolding d2 d' by (metis tariff_put put_same)
qed

lemma charge_kept: "tariff_keys (tariff_of d) \<Longrightarrow> assess st k key asOf pr e claims d = Inr (a, d') \<Longrightarrow> tariff_keys (tariff_of d')"
  by (auto dest!: assess_InrD dest: RecordAssessment_exactly_once)

end

definition offshore_facts :: "Claims \<Rightarrow> odb \<Rightarrow> string \<Rightarrow> Facts result" where
  "offshore_facts claims d k = bindE (offshore_getForUpdate claims d k) (\<lambda>call.
     Inr \<lparr>f_GrossTonnage = oq_GrossTonnage (oc_Request call), f_CargoTonnes = oq_CargoTonnes (oc_Request call), f_Passengers = 0\<rparr>)"

interpretation ofee: tariff_client offshore_facts offshore_tariff "\<lambda>td. offshore_tariff_update (\<lambda>_. td)" DomainOffshoreTerminal os_revenue Assess_work
  by unfold_locales
     (auto simp: Assess_work_def offshore_facts_def offshore_getForUpdate_def find_offshore_def bindE_Inr_iff Let_def split: prod.splits)

text \<open>Registering a schedule keeps the keys of the tariff tables too.\<close>

lemma RegisterSchedule_keys:
  assumes "RegisterSchedule u c s e d = (res, d')" and "tariff_keys d"
  shows "tariff_keys d'"
proof (cases "Schedule_Validate s")
  case (Inl err)
  with assms show ?thesis by (simp add: RegisterSchedule_def)
next
  case (Inr x)
  with assms(1) have "WithTx c (RegisterScheduleTx u s e) d = (res, d')" by (simp add: RegisterSchedule_def)
  then show ?thesis
  proof (rule WithTx_invariant [where I = tariff_keys, OF _ assms(2)])
    fix claims a d'' assume w: "RegisterScheduleTx u s e claims d = Inr (a, d'')"
    show "tariff_keys d''"
    proof (cases "sc_ScheduleID s \<in> sc_ScheduleID ` snd ` set (tariff_schedules d)")
      case True
      with w have "d'' = d"
        by (auto simp: RegisterScheduleTx_def Let_def list_ex_iff split: if_splits option.splits prod.splits)
      with assms(2) show ?thesis by simp
    next
      case False
      with w assms(2) show ?thesis by (cases a) (auto elim!: RegisterScheduleTx_new)
    qed
  qed
qed

section \<open>The schedule of the examples\<close>

lemma demo_computed: "Compute demo_schedule demo_facts 7 =
   Inr ([line_item (demo_rule ''GRT'' UnitPerGRT 10 0 None) 20000 200000,
         line_item (demo_rule ''SPL'' UnitPerGTBand 7 10000 None) 20000 140000], 340000)"
proof -
  let ?rules = "[demo_rule ''GRT'' UnitPerGRT 10 0 None, demo_rule ''SPL'' UnitPerGTBand 5 0 (Some 10000), demo_rule ''SPL'' UnitPerGTBand 7 10000 None]"
  have "sort_key rule_key (sc_Rules demo_schedule) = ?rules" by code_simp
  moreover have "price_rules demo_facts ?rules [] 0 = Inr ([line_item (demo_rule ''GRT'' UnitPerGRT 10 0 None) 20000 200000,
         line_item (demo_rule ''SPL'' UnitPerGTBand 7 10000 None) 20000 140000], 340000)" by code_simp
  moreover have "bandedComponents ?rules = [''SPL'']" by code_simp
  ultimately show ?thesis
    using demo_schedule_valid demo_effective by (simp add: Compute_def demo_facts_def band_matched_def line_item_def demo_rule_def)
qed

lemma demo_fee:
  "\<exists>s. LoadEffective ''tenant-demo'' demo_tdb1 DomainOffshoreTerminal 7 = Inr s \<and> sc_ScheduleID s = ''S1'' \<and> sc_Currency s = ''NGN''
   \<and> Compute s demo_facts 7 = Compute demo_schedule demo_facts 7"
proof -
  define stored where "stored = [demo_rule ''SPL'' UnitPerGTBand 7 10000 None, (demo_rule ''GRT'' UnitPerGRT 10 0 None)\<lparr>r_RuleID := ''u''\<rparr>,
    (demo_rule ''SPL'' UnitPerGTBand 5 0 (Some 10000))\<lparr>r_RuleID := ''uu''\<rparr>]"
  let ?s = "demo_schedule\<lparr>sc_RegisteredAt := 5, sc_Rules := sort_key rule_key stored\<rparr>"
  have "sort_key rule_key stored \<noteq> []" unfolding stored_def by (metis length_0_conv length_sort list.distinct(1))
  moreover have "load_rules ''tenant-demo'' demo_tdb1 ''S1'' = sort_key rule_key stored" by (simp add: load_rules_def demo_tdb1_def stored_def)
  ultimately have "LoadEffective ''tenant-demo'' demo_tdb1 DomainOffshoreTerminal 7 = Inr ?s"
    by (simp add: LoadEffective_def effective_rows_def demo_tdb1_def demo_schedule_def Let_def)
  moreover have "Compute ?s demo_facts 7 = Compute demo_schedule demo_facts 7"
    by (rule Compute_stored [OF demo_schedule_valid]) (simp add: stored_def demo_schedule_def unnamed_def demo_rule_def)
  ultimately show ?thesis by (auto simp: demo_schedule_def)
qed

end
