(* ===== verification/Offshore_Properties.thy ===== *)
theory Offshore_Properties
  imports Tariff_Client Refinement Scenario
begin

text \<open>
  Offshore calls over all operations: the workflow fixes version and mooring master, events are
  recorded only once a call has come far enough, and fees are what the tariff computes.
\<close>

section \<open>Readings\<close>

lemma digits_value_zeros: "digits_value (replicate k (CHR ''0'') @ s) = digits_value s"
  by (induction k) (simp_all add: digits_value_def digit_val_def)

lemma digits_value_nonneg: "list_all is_digit s \<Longrightarrow> 0 \<le> digits_value s"
  by (induction s rule: rev_induct) (auto simp: is_digit_def digit_val_def)

lemma drop_digits: "list_all is_digit p \<Longrightarrow> dropWhile is_digit (p @ CHR ''.'' # q) = CHR ''.'' # q \<and> takeWhile is_digit (p @ CHR ''.'' # q) = p"
  by (induction p) (auto simp: is_digit_def)

lemma meterReading_digits:
  assumes "meterReading s"
  shows "list_all is_digit (drop 1 (dropWhile is_digit s))"
proof (cases "match_regex [Seg is_digit 1 15] s")
  case True
  then have "list_all is_digit s" unfolding match_regex_single by blast
  then have "dropWhile is_digit s = []" by (metis dropWhile_eq_Nil_conv list_all_iff)
  then show ?thesis by (simp only: drop_Nil list.pred_inject)
next
  case False
  with assms obtain k where k: "list_all is_digit (take k s)" "match_regex [Seg (\<lambda>c. c = CHR ''.'') 1 1, Seg is_digit 1 3] (drop k s)"
    unfolding meterReading_def match_regex.simps(2) [of is_digit 1 15 "[Seg (\<lambda>c. c = CHR ''.'') 1 1, Seg is_digit 1 3]"] list_ex_iff by blast
  from k(2) obtain cs where cs: "drop k s = CHR ''.'' # cs" "match_regex [Seg is_digit 1 3] cs" unfolding match_regex_head by blast
  from cs(2) have d: "list_all is_digit cs" unfolding match_regex_single by blast
  have "s = take k s @ CHR ''.'' # cs" using cs(1) by (metis append_take_drop_id)
  then have "dropWhile is_digit s = CHR ''.'' # cs" using drop_digits [OF k(1), of cs] by simp
  with d show ?thesis by simp
qed

lemma milli_nonneg: "meterReading s \<Longrightarrow> 0 \<le> milli s"
proof -
  assume m: "meterReading s"
  have "list_all is_digit (takeWhile is_digit s)" by (auto simp: list_all_iff dest: set_takeWhileD)
  moreover have "list_all is_digit (drop 1 (dropWhile is_digit s) @ ''000'')" using meterReading_digits [OF m] by (simp add: is_digit_def)
  then have "list_all is_digit (take 3 (drop 1 (dropWhile is_digit s) @ ''000''))" by (metis in_set_takeD list_all_iff)
  ultimately show ?thesis by (simp only: milli_def) (simp add: digits_value_nonneg del: take_append)
qed

text \<open>The reading that PostgreSQL stores and prints is the reading of the request.\<close>

lemma dec_nat_length3: "n < 1000 \<Longrightarrow> length (dec_nat n) \<le> 3"
  by (subst dec_nat.simps, subst dec_nat.simps, subst dec_nat.simps) auto

lemma milli_stored:
  assumes "meterReading s"
  shows "milli (numeric_text s) = milli s"
proof -
  define w where "w = nat (milli s div 1000)"
  define f where "f = nat (milli s mod 1000)"
  have nn: "0 \<le> milli s" by (rule milli_nonneg [OF assms])
  have wf: "int w = milli s div 1000" "int f = milli s mod 1000" "f < 1000" using nn by (simp_all add: w_def f_def nat_less_iff)
  let ?p = "pad_left 3 (dec_nat f)"
  have "fmt_d (int n) = dec_nat n" for n by (simp add: fmt_d_def)
  then have t: "numeric_text s = dec_nat w @ CHR ''.'' # ?p" by (simp add: numeric_text_def flip: wf(1,2))
  have "length ?p = 3" using dec_nat_length3 [OF wf(3)] by (simp add: pad_left_def)
  then have "take 3 (?p @ ''000'') = ?p" by simp
  moreover have "digits_value ?p = int f" by (simp add: pad_left_def digits_value_zeros digits_value_dec_nat)
  ultimately have "milli (numeric_text s) = 1000 * int w + int f"
    using drop_digits [of "dec_nat w" ?p] dec_nat_digits [of w] by (simp add: milli_def t digits_value_dec_nat del: take_append)
  also have "\<dots> = milli s" unfolding wf by (simp add: mult.commute)
  finally show ?thesis .
qed

section \<open>What the operations do\<close>

lemma offshore_emit_InrD: "offshore_emit st claims ty corr sub p ext pr at e d = Inr d' \<Longrightarrow> \<exists>os. d' = d\<lparr>offshore_outbox := os\<rparr>"
  by (auto simp: offshore_emit_def bindE_Inr_iff)

lemma find_offshoreD: "find_offshore tid d k = Some l \<Longrightarrow> l \<in> set (offshore_terminal_calls d) \<and> oc_TenantID l = tid \<and> oc_CallID l = k"
  by (auto simp: find_offshore_def dest: find_SomeD)

lemma offshore_getForUpdate_Inr [simp]: "offshore_getForUpdate claims d k = Inr l \<longleftrightarrow> find_offshore (TenantID claims) d k = Some l"
  by (auto simp: offshore_getForUpdate_def)

lemma offshore_createTx_InrE:
  assumes "offshore_createTx st key r pr e claims d = Inr (l, d')"
  obtains (retained) "d' = d" and "l \<in> set (offshore_terminal_calls d)" and "oc_IdempotencyKey l = key" and "oc_Request l = r" and "oc_TenantID l = TenantID claims"
  | (created) os where "l = new_offshore_call (TenantID claims) key r (clk e 0)" and "oq_CallID r \<notin> oc_CallID ` set (offshore_terminal_calls d)"
      and "key \<notin> oc_IdempotencyKey ` set (offshore_terminal_calls d)"
      and "d' = d\<lparr>offshore_terminal_calls := offshore_terminal_calls d @ [l], offshore_outbox := os\<rparr>"
proof (cases "list_ex (\<lambda>l. oc_IdempotencyKey l = key) (offshore_terminal_calls d)")
  case True
  with assms show thesis
    by (intro retained) (auto simp: offshore_createTx_def Let_def offshore_Matches_def split: if_splits option.splits dest!: find_SomeD)
next
  case False
  let ?l = "new_offshore_call (TenantID claims) key r (clk e 0)"
  from False assms obtain os where l: "l = ?l" and i: "\<not> list_ex (\<lambda>l. oc_CallID l = oq_CallID r) (offshore_terminal_calls d)"
    and d': "d' = d\<lparr>offshore_terminal_calls := offshore_terminal_calls d @ [?l], offshore_outbox := os\<rparr>"
    by (auto simp: offshore_createTx_def Let_def bindE_Inr_iff split: if_splits dest!: offshore_emit_InrD)
  show thesis by (rule created [of os]) (use l i d' False in \<open>auto simp: list_ex_iff\<close>)
qed

lemma offshore_Transition_InrE:
  assumes "offshore_Transition_work st k v next m pr e claims d = Inr (l, d')"
  obtains x os where "find_offshore (TenantID claims) d k = Some x" and "oc_Version x = v" and "offshore_ValidTransition (oc_Status x) next"
    and "l = x\<lparr>oc_Status := next, oc_MooringMaster := if next = O_MOORED then Some m else oc_MooringMaster x, oc_UpdatedAt := clk e 0,
             oc_Version := oc_Version x + 1\<rparr>"
    and "d' = d\<lparr>offshore_terminal_calls := update_where (\<lambda>y. oc_TenantID y = TenantID claims \<and> oc_CallID y = k
                  \<and> oc_Status y = oc_Status x \<and> oc_Version y = v)
                (\<lambda>y. y\<lparr>oc_Status := next, oc_MooringMaster := if next = O_MOORED then Some m else oc_MooringMaster x, oc_UpdatedAt := clk e 0,
                   oc_Version := oc_Version x + 1\<rparr>) (offshore_terminal_calls d), offshore_outbox := os\<rparr>"
  using assms unfolding offshore_Transition_work_def
  by (auto simp: bindE_Inr_iff Let_def wrap_err_Inr pg_inc_Inr split: if_splits dest!: offshore_emit_InrD)

lemma RecordEvent_InrE:
  assumes "RecordEvent_work st k r pr e claims d = Inr (x, d')"
  obtains l os where "find_offshore (TenantID claims) d k = Some l" and "EventAllowed (oc_Status l) (eq_EventType r)"
    and "x = new_event (rnd e 0) k r (clk e 0)" and "\<forall>(_, y)\<in>set (offshore_call_events d). oe_EventID y \<noteq> oe_EventID x"
    and "d' = d\<lparr>offshore_call_events := offshore_call_events d @ [(TenantID claims, x)], offshore_outbox := os\<rparr>"
  using assms unfolding RecordEvent_work_def
  by (fastforce simp: bindE_Inr_iff Let_def list_ex_iff split: if_splits dest!: offshore_emit_InrD)

section \<open>Steps\<close>

inductive offshore_step :: "odb \<Rightarrow> odb \<Rightarrow> bool" where
  Create: "offshore_Create st c key r pr e d = (res, d') \<Longrightarrow> offshore_step d d'"
| Transition: "offshore_Transition st c k v next m pr e d = (res, d') \<Longrightarrow> offshore_step d d'"
| RecordEvent: "RecordEvent st c k q pr e d = (res, d') \<Longrightarrow> offshore_step d d'"
| Assess: "Assess st c k key asOf pr e d = (res, d') \<Longrightarrow> offshore_step d d'"
| RegisterSchedule: "RegisterSchedule uuid_text c s e (offshore_tariff d) = (res, td) \<Longrightarrow> offshore_step d (d\<lparr>offshore_tariff := td\<rparr>)"

definition empty_odb :: odb where
  "empty_odb = \<lparr>offshore_terminal_calls = [], offshore_call_events = [],
     offshore_tariff = \<lparr>tariff_schedules = [], tariff_rules = [], revenue_assessments = [], revenue_outbox = []\<rparr>, offshore_outbox = []\<rparr>"

inductive offshore_reachable :: "odb \<Rightarrow> bool" where
  init: "offshore_reachable empty_odb"
| step: "offshore_reachable d \<Longrightarrow> offshore_step d d' \<Longrightarrow> offshore_reachable d'"

text \<open>
  What a step can change. The four shapes are all that the invariant proofs look at.
\<close>

inductive offshore_change :: "odb \<Rightarrow> odb \<Rightarrow> bool" where
  same: "offshore_change d (d\<lparr>offshore_tariff := td, offshore_outbox := os\<rparr>)"
| call: "oq_CallID r \<notin> oc_CallID ` set (offshore_terminal_calls d) \<Longrightarrow> key \<notin> oc_IdempotencyKey ` set (offshore_terminal_calls d)
    \<Longrightarrow> offshore_Validate r = Inr ()
    \<Longrightarrow> offshore_change d (d\<lparr>offshore_terminal_calls := offshore_terminal_calls d @ [new_offshore_call tid key r now], offshore_outbox := os\<rparr>)"
| move: "l \<in> set (offshore_terminal_calls d) \<Longrightarrow> offshore_ValidTransition (oc_Status l) next
    \<Longrightarrow> m' = (if next = O_MOORED then Some m else oc_MooringMaster l) \<Longrightarrow> (next = O_MOORED \<Longrightarrow> offshore_canonical m 2 256)
    \<Longrightarrow> offshore_change d (d\<lparr>offshore_terminal_calls := swap_row l (l\<lparr>oc_Status := next, oc_MooringMaster := m', oc_UpdatedAt := now,
          oc_Version := oc_Version l + 1\<rparr>) (offshore_terminal_calls d), offshore_outbox := os\<rparr>)"
| event: "l \<in> set (offshore_terminal_calls d) \<Longrightarrow> oc_CallID l = k \<Longrightarrow> EventRequest_validate q = Inr () \<Longrightarrow> EventAllowed (oc_Status l) (eq_EventType q)
    \<Longrightarrow> \<forall>(_, y)\<in>set (offshore_call_events d). oe_EventID y \<noteq> i
    \<Longrightarrow> offshore_change d (d\<lparr>offshore_call_events := offshore_call_events d @ [(oc_TenantID l, new_event i k q now)], offshore_outbox := os\<rparr>)"

lemma offshore_same [simp, intro]: "offshore_change d d"
  using offshore_change.same [where d = d and td = "offshore_tariff d" and os = "offshore_outbox d"] by simp

lemma offshore_tariff_only [simp, intro]: "offshore_change d (d\<lparr>offshore_tariff := td\<rparr>)"
  using offshore_change.same [where d = d and td = td and os = "offshore_outbox d"] by simp

lemma offshore_step_change:
  assumes "offshore_step d d'" and "distinct (map oc_CallID (offshore_terminal_calls d))"
  shows "offshore_change d d'"
  using assms
proof (induction rule: offshore_step.induct)
  case (Create st c key r pr e d res d')
  from Create(1) show ?case
    unfolding offshore_Create_def
    by (auto split: if_splits sum.splits elim!: WithTx_cases offshore_createTx_InrE intro!: offshore_change.call)
next
  case (Transition st c k v "next" m pr e d res d')
  show ?case
  proof (cases "d' = d")
    case False
    with Transition(1) obtain claims l where w: "offshore_Transition_work st k v next m pr e claims d = Inr (l, d')"
      and m: "next = O_MOORED \<Longrightarrow> offshore_canonical m 2 256"
      unfolding offshore_Transition_def by (auto split: if_splits elim!: WithTx_cases)
    from w show ?thesis
    proof (rule offshore_Transition_InrE)
      fix x :: OCall and os
      let ?m = "if next = O_MOORED then Some m else oc_MooringMaster x"
      let ?P = "\<lambda>y :: OCall. oc_TenantID y = TenantID claims \<and> oc_CallID y = k \<and> oc_Status y = oc_Status x \<and> oc_Version y = v"
      let ?f = "\<lambda>y :: OCall. y\<lparr>oc_Status := next, oc_MooringMaster := ?m, oc_UpdatedAt := clk e 0, oc_Version := oc_Version x + 1\<rparr>"
      assume x: "find_offshore (TenantID claims) d k = Some x" "oc_Version x = v" and v: "offshore_ValidTransition (oc_Status x) next"
        and d': "d' = d\<lparr>offshore_terminal_calls := update_where ?P ?f (offshore_terminal_calls d), offshore_outbox := os\<rparr>"
      note X = find_offshoreD [OF x(1)]
      have u: "update_where ?P ?f (offshore_terminal_calls d) = swap_row x (?f x) (offshore_terminal_calls d)"
        by (rule update_where_swap [OF Transition(2)]) (use X x in auto)
      show ?thesis unfolding d' u by (rule offshore_change.move [OF conjunct1 [OF X] v refl m])
    qed
  qed auto
next
  case (RecordEvent st c k q pr e d res d')
  show ?case
  proof (cases "d' = d")
    case False
    with RecordEvent(1) obtain claims x where w: "RecordEvent_work st k q pr e claims d = Inr (x, d')" and q: "EventRequest_validate q = Inr ()"
      unfolding RecordEvent_def by (auto split: if_splits sum.splits elim!: WithTx_cases)
    from w show ?thesis
    proof (rule RecordEvent_InrE)
      fix l os
      assume l: "find_offshore (TenantID claims) d k = Some l" and a: "EventAllowed (oc_Status l) (eq_EventType q)"
        and x: "x = new_event (rnd e 0) k q (clk e 0)" "\<forall>(_, y)\<in>set (offshore_call_events d). oe_EventID y \<noteq> oe_EventID x"
        and d': "d' = d\<lparr>offshore_call_events := offshore_call_events d @ [(TenantID claims, x)], offshore_outbox := os\<rparr>"
      note L = find_offshoreD [OF l]
      have "oe_EventID x = rnd e 0" by (simp add: x(1) new_event_def)
      with x(2) have "\<forall>(_, y)\<in>set (offshore_call_events d). oe_EventID y \<noteq> rnd e 0" by simp
      from offshore_change.event [OF _ _ q a this] L show ?thesis unfolding d' x(1) by fastforce
    qed
  qed auto
next
  case (Assess st c k key asOf pr e d res d')
  from Assess(1) show ?case
    unfolding Assess_def Assess_work_def
    by (auto simp: bindE_Inr_iff Let_def split: if_splits prod.splits elim!: WithTx_cases)
next
  case (RegisterSchedule uuid_text c s e d res td)
  show ?case ..
qed

section \<open>The workflow\<close>

text \<open>How far a call has come: the version it has when it gets there. A cancelled call has not come far.\<close>

fun stage :: "OStatus \<Rightarrow> int" where
  "stage O_NOMINATED = 1"
| "stage O_APPROACH_CLEARED = 2"
| "stage O_MOORED = 3"
| "stage O_HOSE_CONNECTED = 4"
| "stage O_LOADING = 5"
| "stage O_CUSTODY_TRANSFERRED = 6"
| "stage O_DISCONNECTED = 7"
| "stage O_DEPARTED = 8"
| "stage _ = 0"

fun stage_needed :: "OEventType \<Rightarrow> int" where
  "stage_needed EventHoseConnection = 3"
| "stage_needed EventLoadingArmStart = 4"
| "stage_needed EventLoadingArmStop = 4"
| "stage_needed EventCustodyMeterReading = 5"
| "stage_needed EventMooringNote = 0"
| "stage_needed (OtherEvent _) = 9"

definition readings_ok :: "OperationalEvent \<Rightarrow> bool" where
  "readings_ok x \<longleftrightarrow>
     (if oe_EventType x = EventCustodyMeterReading
      then (case (oe_MeterID x, oe_MeterOpeningM3 x, oe_MeterClosingM3 x) of
              (Some i, Some opening, Some closing) \<Rightarrow> i \<noteq> [] \<and> 0 \<le> milli opening \<and> milli opening \<le> milli closing
            | _ \<Rightarrow> False)
      else oe_MeterID x = None \<and> oe_MeterOpeningM3 x = None \<and> oe_MeterClosingM3 x = None)"

definition event_backed :: "odb \<Rightarrow> string \<times> OperationalEvent \<Rightarrow> bool" where
  "event_backed d = (\<lambda>(tid, x). readings_ok x \<and>
     (\<exists>l\<in>set (offshore_terminal_calls d). oc_CallID l = oe_CallID x \<and> oc_TenantID l = tid \<and> stage_needed (oe_EventType x) \<le> stage (oc_Status l)))"

definition call_shape :: "OStatus \<times> string option \<times> int \<Rightarrow> bool" where
  "call_shape = (\<lambda>(s, m, v). (case s of O_CANCELLED \<Rightarrow> v = 2 \<or> v = 3 | O_Other _ \<Rightarrow> False | _ \<Rightarrow> v = stage s) \<and> (m \<noteq> None \<longleftrightarrow> 3 \<le> stage s)
     \<and> (case m of None \<Rightarrow> True | Some name \<Rightarrow> offshore_canonical name 2 256))"

definition oinv :: "odb \<Rightarrow> bool" where
  "oinv d \<longleftrightarrow> distinct (map oc_CallID (offshore_terminal_calls d)) \<and> distinct (map oc_IdempotencyKey (offshore_terminal_calls d))
     \<and> distinct (map (oe_EventID \<circ> snd) (offshore_call_events d)) \<and> (\<forall>x\<in>set (offshore_call_events d). event_backed d x)"

lemma allowed_stage: "EventAllowed s ty \<Longrightarrow> stage_needed ty \<le> stage s"
  by (cases ty; cases s) auto

lemma stage_mono: "offshore_ValidTransition s s' \<Longrightarrow> stage_needed ty \<le> stage s \<Longrightarrow> stage_needed ty \<le> stage s'"
  by (cases s; cases ty) auto

lemma readings_stored: "EventRequest_validate q = Inr () \<Longrightarrow> readings_ok (new_event i k q now)"
  by (auto simp: EventRequest_validate_def readings_ok_def new_event_def milli_stored milli_nonneg offshore_canonical_def split: if_splits option.splits)

lemma new_event_simps [simp]: "oe_EventID (new_event i k q now) = i" "oe_CallID (new_event i k q now) = k" "oe_EventType (new_event i k q now) = eq_EventType q"
  by (simp_all add: new_event_def)

lemma offshore_change_inv:
  assumes "offshore_change d d'" and "oinv d"
  shows "oinv d'"
  using assms
proof (induction rule: offshore_change.induct)
  case (move l d "next" m' m os now)
  let ?l = "l\<lparr>oc_Status := next, oc_MooringMaster := m', oc_UpdatedAt := now, oc_Version := oc_Version l + 1\<rparr>"
  let ?d = "d\<lparr>offshore_terminal_calls := swap_row l ?l (offshore_terminal_calls d), offshore_outbox := os\<rparr>"
  have "event_backed ?d x" if "event_backed d x" for x
    using that move(1) stage_mono [OF move(2)] by (fastforce simp: event_backed_def set_swap_row)
  with move show ?case by (simp add: oinv_def map_swap_row)
qed (auto simp: oinv_def event_backed_def new_offshore_call_def readings_stored dest: allowed_stage)

lemma find_map_swap:
  "Q x' = Q x \<Longrightarrow> map_option h (find Q (swap_row x x' T)) = (if find Q T = Some x then Some (h x') else map_option h (find Q T))"
  by (induction T) (auto simp: swap_row_def)

definition offshore_abs :: "odb \<Rightarrow> string \<Rightarrow> (OStatus \<times> string option \<times> int) option" where
  "offshore_abs d k = map_option (\<lambda>l. (oc_Status l, oc_MooringMaster l, oc_Version l)) (find (\<lambda>l. oc_CallID l = k) (offshore_terminal_calls d))"

definition offshore_life :: "OStatus \<times> string option \<times> int \<Rightarrow> OStatus \<times> string option \<times> int \<Rightarrow> bool" where
  "offshore_life = (\<lambda>(s, m, v) (s', m', v'). offshore_ValidTransition s s' \<and> v' = v + 1
     \<and> (if s' = O_MOORED then \<exists>name. m' = Some name \<and> offshore_canonical name 2 256 else m' = m))"

interpretation ocalls: lifecycle_refinement oinv offshore_step offshore_abs "(O_NOMINATED, None, 1)" offshore_life
proof
  fix d d' :: odb and k p
  assume i: "oinv d" and s: "offshore_step d d'"
  have c: "offshore_change d d'" using i offshore_step_change [OF s] by (simp add: oinv_def)
  show "oinv d'" by (rule offshore_change_inv [OF c i])
  show "\<exists>p'. offshore_abs d' k = Some p' \<and> (p' = p \<or> offshore_life p p')" if "offshore_abs d k = Some p"
    using c that by (cases rule: offshore_change.cases) (auto simp: offshore_abs_def offshore_life_def find_append find_map_swap)
  show "offshore_abs d' k = None \<or> offshore_abs d' k = Some (O_NOMINATED, None, 1)" if "offshore_abs d k = None"
    using c that by (cases rule: offshore_change.cases) (auto simp: offshore_abs_def find_append find_map_swap new_offshore_call_def)
qed

lemma offshore_run: "offshore_reachable d \<Longrightarrow> offshore_step\<^sup>*\<^sup>* empty_odb d"
  by (induction rule: offshore_reachable.induct) (auto intro: rtranclp.rtrancl_into_rtrancl)

lemma oinv_empty: "oinv empty_odb"
  by (simp add: oinv_def empty_odb_def)

lemma life_keeps_shape: "call_shape p \<Longrightarrow> offshore_life p p' \<Longrightarrow> call_shape p'"
  by (cases "fst p") (auto simp: call_shape_def offshore_life_def split: if_splits option.splits)

lemma offshore_reachable_inv: "offshore_reachable d \<Longrightarrow> oinv d"
  by (rule ocalls.run_inv [OF offshore_run oinv_empty])

lemma offshore_reachable_keys: "offshore_reachable d \<Longrightarrow> tariff_keys (offshore_tariff d)"
proof (induction rule: offshore_reachable.induct)
  case init
  show ?case by (simp add: empty_odb_def tariff_keys_def)
next
  case (step d d')
  from step.hyps(2) step.IH show ?case
  proof (cases rule: offshore_step.cases)
    case (Assess st c k key asOf pr e res)
    with step.IH show ?thesis
      unfolding Assess_def by (auto split: if_splits elim!: WithTx_cases intro: ofee.charge_kept)
  next
    case (RegisterSchedule uuid_text c s e res td)
    with step.IH show ?thesis by (auto intro: RegisterSchedule_keys)
  next
    case (Create st c key r pr e res)
    with step.IH show ?thesis unfolding offshore_Create_def by (auto split: if_splits sum.splits elim!: WithTx_cases offshore_createTx_InrE)
  next
    case (Transition st c k v "next" m pr e res)
    with step.IH show ?thesis unfolding offshore_Transition_def by (auto split: if_splits elim!: WithTx_cases offshore_Transition_InrE)
  next
    case (RecordEvent st c k q pr e res)
    with step.IH show ?thesis unfolding RecordEvent_def by (auto split: if_splits sum.splits elim!: WithTx_cases RecordEvent_InrE)
  qed
qed

section \<open>A call in use\<close>

definition demo_oreq :: OCreateRequest where
  "demo_oreq = \<lparr>oq_CallID = ''SBM1'', oq_VesselIMO = ''9074729'', oq_VesselName = ''Zafiro'', oq_TerminalCode = ''BONGA'', oq_TerminalKind = TerminalSBM,
     oq_BuoyID = ''B1'', oq_AgencyCode = ''NPA'', oq_GrossTonnage = 20000, oq_CargoTonnes = 0, oq_MooringWindowStart = 100, oq_MooringWindowEnd = 200,
     oq_NominatedBy = ''agent''\<rparr>"

definition demo_ostore :: ostore where
  "demo_ostore = \<lparr>os_signer = Some (\<lambda>_. Inr ''sig''), os_revenue = Some (\<lambda>_. Inr ''sig'')\<rparr>"

definition demo_ocall :: "OStatus \<Rightarrow> string option \<Rightarrow> time \<Rightarrow> int \<Rightarrow> OCall" where
  "demo_ocall s m at v = (new_offshore_call ''tenant-demo'' ''key-1'' demo_oreq 1)\<lparr>oc_Status := s, oc_MooringMaster := m, oc_UpdatedAt := at, oc_Version := v\<rparr>"

definition demo_o0 :: odb where "demo_o0 = empty_odb\<lparr>offshore_tariff := demo_tdb1\<rparr>"
definition demo_o1 :: odb where "demo_o1 = snd (offshore_Create demo_ostore demo_ctx ''key-1'' demo_oreq demo_pr (demo_env 1 ''a'') demo_o0)"
definition demo_o2 :: odb where "demo_o2 = snd (offshore_Transition demo_ostore demo_ctx ''SBM1'' 1 O_APPROACH_CLEARED [] demo_pr (demo_env 2 ''b'') demo_o1)"
definition demo_o3 :: odb where "demo_o3 = snd (offshore_Transition demo_ostore demo_ctx ''SBM1'' 2 O_MOORED ''Ade'' demo_pr (demo_env 3 ''c'') demo_o2)"
definition demo_o4 :: odb where "demo_o4 = snd (offshore_Transition demo_ostore demo_ctx ''SBM1'' 3 O_HOSE_CONNECTED [] demo_pr (demo_env 4 ''d'') demo_o3)"
definition demo_o5 :: odb where "demo_o5 = snd (offshore_Transition demo_ostore demo_ctx ''SBM1'' 4 O_LOADING [] demo_pr (demo_env 5 ''e'') demo_o4)"

definition demo_reading :: EventRequest where
  "demo_reading = \<lparr>eq_EventType = EventCustodyMeterReading, eq_RecordedBy = ''gauger'', eq_Remarks = ''ok'', eq_MeterID = Some ''M1'',
     eq_MeterOpeningM3 = Some ''100.5'', eq_MeterClosingM3 = Some ''250''\<rparr>"

definition demo_o6 :: odb where "demo_o6 = snd (RecordEvent demo_ostore demo_ctx ''SBM1'' demo_reading demo_pr (demo_env 6 ''f'') demo_o5)"

lemma demo_o_reachable: "offshore_reachable demo_o1" "offshore_reachable demo_o6"
proof -
  have "RegisterSchedule Some demo_tctx demo_schedule demo_tenv (offshore_tariff empty_odb) = (Inr (), demo_tdb1)"
    using demo_registered by (simp add: empty_odb_def demo_tdb_def)
  from offshore_reachable.step [OF init offshore_step.RegisterSchedule [OF this]] have 0: "offshore_reachable demo_o0" by (simp add: demo_o0_def)
  show 1: "offshore_reachable demo_o1" by (rule offshore_reachable.step [OF 0]) (rule offshore_step.Create, simp add: demo_o1_def prod_eq_iff)
  have 2: "offshore_reachable demo_o2" by (rule offshore_reachable.step [OF 1]) (rule offshore_step.Transition, simp add: demo_o2_def prod_eq_iff)
  have 3: "offshore_reachable demo_o3" by (rule offshore_reachable.step [OF 2]) (rule offshore_step.Transition, simp add: demo_o3_def prod_eq_iff)
  have 4: "offshore_reachable demo_o4" by (rule offshore_reachable.step [OF 3]) (rule offshore_step.Transition, simp add: demo_o4_def prod_eq_iff)
  have 5: "offshore_reachable demo_o5" by (rule offshore_reachable.step [OF 4]) (rule offshore_step.Transition, simp add: demo_o5_def prod_eq_iff)
  show "offshore_reachable demo_o6" by (rule offshore_reachable.step [OF 5]) (rule offshore_step.RecordEvent, simp add: demo_o6_def prod_eq_iff)
qed

definition demo_ostate :: "odb \<Rightarrow> OCall \<Rightarrow> (string \<times> OperationalEvent) list \<Rightarrow> string list \<Rightarrow> bool" where
  "demo_ostate d l xs ids \<longleftrightarrow> offshore_terminal_calls d = [l] \<and> offshore_call_events d = xs \<and> map ox_EventID (offshore_outbox d) = ids \<and> offshore_tariff d = demo_tdb1"

lemma demo_ocall_simps [simp]:
  "oc_Request (demo_ocall s m at v) = demo_oreq" "oc_TenantID (demo_ocall s m at v) = ''tenant-demo''" "oc_Status (demo_ocall s m at v) = s"
  "oc_MooringMaster (demo_ocall s m at v) = m" "oc_Version (demo_ocall s m at v) = v" "oq_CallID demo_oreq = ''SBM1''"
  "(demo_ocall s m at v)\<lparr>oc_Status := s', oc_MooringMaster := m', oc_UpdatedAt := at', oc_Version := v'\<rparr> = demo_ocall s' m' at' v'"
  by (simp_all add: demo_ocall_def new_offshore_call_def demo_oreq_def)

lemma demo_ostore_simps [simp]: "os_signer demo_ostore = Some (\<lambda>_. Inr ''sig'')" "os_revenue demo_ostore = Some (\<lambda>_. Inr ''sig'')"
  by (simp_all add: demo_ostore_def)

lemma demo_oemit:
  assumes "rnd e 1 \<notin> set (map ox_EventID (offshore_outbox d))" and "TrimSpace ty \<noteq> []" and "TrimSpace corr \<noteq> []" and "TrimSpace sub \<noteq> []"
    and "list_all (\<lambda>k. TrimSpace k \<noteq> []) (map fst ext)"
  shows "\<exists>x. offshore_emit demo_ostore demo_claims ty corr sub p ext demo_pr at e d = Inr (d\<lparr>offshore_outbox := offshore_outbox d @ [x]\<rparr>) \<and> ox_EventID x = rnd e 1"
proof -
  have "\<exists>x. emit_event demo_claims TopicOffshore ty corr sub p ext demo_pr at (Some (\<lambda>_. Inr ''sig'')) e (offshore_outbox d) = Inr (offshore_outbox d @ [x])
      \<and> ox_EventID x = rnd e 1"
    by (rule emit_event_ok) (use assms in \<open>auto simp: TopicOffshore_def validTopic_def go_simps\<close>)
  then show ?thesis by (auto simp: offshore_emit_def)
qed

lemma demo_oregex: "match_regex callIDPattern ''SBM1''"
  by (simp add: callIDPattern_def match_regex_single is_call_char_def is_letter_def go_simps del: match_regex.simps)

lemma demo_oreq_valid: "offshore_Validate demo_oreq = Inr ()"
proof -
  have "imonumber_Valid ''9074729''" by code_simp
  then show ?thesis
    using demo_oregex
    by (simp add: offshore_Validate_def offshore_terminalPattern_def agencyCodePattern_def match_regex_single offshore_canonical_def zero_time_def go_simps
        del: match_regex.simps) (simp add: demo_oreq_def match_regex_single offshore_canonical_def zero_time_def go_simps del: match_regex.simps)
qed

lemma demo_pr_verified [simp]: "verified_principal demo_pr"
  by (simp add: verified_principal_def)

lemma demo_o1_state: "demo_ostate demo_o1 (demo_ocall O_NOMINATED None 1 1) [] [''ax'']"
proof -
  let ?l = "demo_ocall O_NOMINATED None 1 1"
  have l: "new_offshore_call ''tenant-demo'' ''key-1'' demo_oreq 1 = ?l" by (simp add: demo_ocall_def new_offshore_call_def)
  have chk: "offshore_calls_check ?l" by (simp add: offshore_calls_check_def person_length_def demo_oreq_def go_simps)
  have e0: "offshore_terminal_calls demo_o0 = []" "offshore_outbox demo_o0 = []" "offshore_call_events demo_o0 = []" "offshore_tariff demo_o0 = demo_tdb1"
    by (simp_all add: demo_o0_def empty_odb_def)
  have "\<exists>x. offshore_emit demo_ostore demo_claims ''offshore.call_nominated'' ''key-1'' ''SBM1'' (OCallPayload ?l)
      [(''terminal-code'', oq_TerminalCode demo_oreq), (''terminal-kind'', kind_text (oq_TerminalKind demo_oreq)), (''buoy-id'', oq_BuoyID demo_oreq),
       (''agency'', oq_AgencyCode demo_oreq)] demo_pr 1 (demo_env 1 ''a'') (demo_o0\<lparr>offshore_terminal_calls := [?l]\<rparr>)
      = Inr (demo_o0\<lparr>offshore_terminal_calls := [?l], offshore_outbox := [x]\<rparr>) \<and> ox_EventID x = ''ax''"
    using demo_oemit [where e = "demo_env 1 ''a''" and d = "demo_o0\<lparr>offshore_terminal_calls := [?l]\<rparr>"] by (simp add: e0 go_simps)
  then obtain x where "offshore_emit demo_ostore demo_claims ''offshore.call_nominated'' ''key-1'' ''SBM1'' (OCallPayload ?l)
      [(''terminal-code'', oq_TerminalCode demo_oreq), (''terminal-kind'', kind_text (oq_TerminalKind demo_oreq)), (''buoy-id'', oq_BuoyID demo_oreq),
       (''agency'', oq_AgencyCode demo_oreq)] demo_pr 1 (demo_env 1 ''a'') (demo_o0\<lparr>offshore_terminal_calls := [?l]\<rparr>)
      = Inr (demo_o0\<lparr>offshore_terminal_calls := [?l], offshore_outbox := [x]\<rparr>)" "ox_EventID x = ''ax''" by blast
  then have "offshore_createTx demo_ostore ''key-1'' demo_oreq demo_pr (demo_env 1 ''a'') demo_claims demo_o0
      = Inr (?l, demo_o0\<lparr>offshore_terminal_calls := [?l], offshore_outbox := [x]\<rparr>)"
    by (simp add: offshore_createTx_def Let_def l chk e0)
  with \<open>ox_EventID x = ''ax''\<close> show ?thesis
    by (simp add: demo_o1_def offshore_Create_def demo_oreq_valid WithTx_demo demo_ostate_def e0)
qed

lemma dec_nat_nonempty: "dec_nat n \<noteq> []"
  by (subst dec_nat.simps) simp

lemma TrimSpace_numbered: "0 \<le> n \<Longrightarrow> 33 \<le> byte c \<Longrightarrow> byte c \<le> 127 \<Longrightarrow> TrimSpace (c # s @ fmt_d n) \<noteq> []"
proof -
  assume n: "0 \<le> n" and c: "33 \<le> byte c" "byte c \<le> 127"
  have "is_digit (last (dec_nat (nat n)))" using dec_nat_digits [of "nat n"] dec_nat_nonempty by (simp add: list_all_iff)
  then have "33 \<le> byte (last (c # s @ fmt_d n))" "byte (last (c # s @ fmt_d n)) \<le> 127" using n dec_nat_nonempty by (simp_all add: fmt_d_def is_digit_def)
  with c show ?thesis by (simp add: TrimSpace_visible)
qed

lemma demo_otransition:
  assumes s: "demo_ostate d (demo_ocall s m at v) xs ids" and v: "1 \<le> v" "v < max_int64" and t: "offshore_ValidTransition s next" and i: "i @ ''x'' \<notin> set ids"
    and m: "if next = O_MOORED then name = ''Ade'' else name = []" "m = None \<or> m = Some ''Ade''"
  shows "demo_ostate (snd (offshore_Transition demo_ostore demo_ctx ''SBM1'' v next name demo_pr (demo_env t i) d))
    (demo_ocall next (if next = O_MOORED then Some name else m) t (v + 1)) xs (ids @ [i @ ''x''])"
proof -
  define m' where "m' = (if next = O_MOORED then Some name else m)"
  have mm: "(if next = O_MOORED then Some name else oc_MooringMaster (demo_ocall s m at v)) = m'" by (simp add: m'_def)
  let ?l = "demo_ocall next m' t (v + 1)"
  have n: "\<not> (next = O_MOORED \<and> \<not> offshore_canonical name 2 256)" "\<not> (next \<noteq> O_MOORED \<and> name \<noteq> [])"
    using m by (auto simp: offshore_canonical_def go_simps split: if_splits)
  have chk: "offshore_calls_check ?l" using m by (auto simp: m'_def offshore_calls_check_def person_length_def demo_oreq_def go_simps)
  have f: "find_offshore ''tenant-demo'' d ''SBM1'' = Some (demo_ocall s m at v)" using s by (simp add: find_offshore_def demo_ostate_def)
  have fresh: "i @ ''x'' \<notin> ox_EventID ` set (offshore_outbox d)" using s i by (auto simp: demo_ostate_def)
  have pre: "TrimSpace (''SBM1:'' @ fmt_d (v + 1)) \<noteq> []" using TrimSpace_numbered [of "v + 1" "CHR ''S''" "''BM1:''"] v(1) by (simp add: go_simps)
  let ?ext = "[(''from-status'', offshore_status_text s), (''to-status'', offshore_status_text next), (''agency'', oq_AgencyCode demo_oreq)]"
  have "\<exists>x. offshore_emit demo_ostore demo_claims ''offshore.call_status_changed'' (''SBM1:'' @ fmt_d (v + 1)) ''SBM1'' (OCallPayload ?l) ?ext
      demo_pr t (demo_env t i) (d\<lparr>offshore_terminal_calls := [?l]\<rparr>)
      = Inr (d\<lparr>offshore_terminal_calls := [?l], offshore_outbox := offshore_outbox d @ [x]\<rparr>) \<and> ox_EventID x = i @ ''x''"
    using demo_oemit [where e = "demo_env t i" and d = "d\<lparr>offshore_terminal_calls := [?l]\<rparr>"] fresh pre by (simp add: go_simps)
  then obtain x where "offshore_emit demo_ostore demo_claims ''offshore.call_status_changed'' (''SBM1:'' @ fmt_d (v + 1)) ''SBM1'' (OCallPayload ?l) ?ext
      demo_pr t (demo_env t i) (d\<lparr>offshore_terminal_calls := [?l]\<rparr>)
      = Inr (d\<lparr>offshore_terminal_calls := [?l], offshore_outbox := offshore_outbox d @ [x]\<rparr>)" "ox_EventID x = i @ ''x''" by blast
  then have "offshore_Transition_work demo_ostore ''SBM1'' v next name demo_pr (demo_env t i) demo_claims d
      = Inr (?l, d\<lparr>offshore_terminal_calls := [?l], offshore_outbox := offshore_outbox d @ [x]\<rparr>)"
    using s t v chk by (simp add: offshore_Transition_work_def offshore_getForUpdate_def f mm pg_inc_def wrap_err_def Let_def demo_ostate_def update_where_def split del: if_split)
  then have "snd (offshore_Transition demo_ostore demo_ctx ''SBM1'' v next name demo_pr (demo_env t i) d)
      = d\<lparr>offshore_terminal_calls := [?l], offshore_outbox := offshore_outbox d @ [x]\<rparr>"
    unfolding offshore_Transition_def if_not_P [OF n(1)] if_not_P [OF n(2)] using v(1) by (simp add: demo_oregex WithTx_demo)
  with \<open>ox_EventID x = i @ ''x''\<close> s show ?thesis by (simp add: demo_ostate_def m'_def)
qed

lemma demo_o5_state: "demo_ostate demo_o5 (demo_ocall O_LOADING (Some ''Ade'') 5 5) [] [''ax'', ''bx'', ''cx'', ''dx'', ''ex'']"
proof -
  have m: "(1::int) < max_int64" "(2::int) < max_int64" "(3::int) < max_int64" "(4::int) < max_int64" by (simp_all add: max_int64_def)
  have 2: "demo_ostate demo_o2 (demo_ocall O_APPROACH_CLEARED None 2 2) [] [''ax'', ''bx'']"
    using demo_otransition [OF demo_o1_state, of O_APPROACH_CLEARED "''b''" "[]" 2] m by (simp add: demo_o2_def)
  have 3: "demo_ostate demo_o3 (demo_ocall O_MOORED (Some ''Ade'') 3 3) [] [''ax'', ''bx'', ''cx'']"
    using demo_otransition [OF 2, of O_MOORED "''c''" "''Ade''" 3] m by (simp add: demo_o3_def)
  have 4: "demo_ostate demo_o4 (demo_ocall O_HOSE_CONNECTED (Some ''Ade'') 4 4) [] [''ax'', ''bx'', ''cx'', ''dx'']"
    using demo_otransition [OF 3, of O_HOSE_CONNECTED "''d''" "[]" 4] m by (simp add: demo_o4_def)
  show ?thesis
    using demo_otransition [OF 4, of O_LOADING "''e''" "[]" 5] m by (simp add: demo_o5_def)
qed

lemma demo_reading_valid: "EventRequest_validate demo_reading = Inr ()"
proof -
  have "meterReading ''100.5''" "meterReading ''250''" "milli ''100.5'' = 100500" "milli ''250'' = 250000"
    unfolding meterReading_def by code_simp+
  then show ?thesis by (simp add: EventRequest_validate_def demo_reading_def offshore_canonical_def go_simps)
qed

lemma demo_o6_state: "offshore_terminal_calls demo_o6 = [demo_ocall O_LOADING (Some ''Ade'') 5 5]"
  "offshore_call_events demo_o6 = [(''tenant-demo'', new_event ''f'' ''SBM1'' demo_reading 6)]"
proof -
  let ?x = "new_event ''f'' ''SBM1'' demo_reading 6" and ?l = "demo_ocall O_LOADING (Some ''Ade'') 5 5"
  let ?d = "demo_o5\<lparr>offshore_call_events := [(''tenant-demo'', ?x)]\<rparr>"
  note s = demo_o5_state [unfolded demo_ostate_def]
  have r: "person_length (eq_RecordedBy demo_reading)" "eq_EventType demo_reading = EventCustodyMeterReading"
    by (simp_all add: demo_reading_def person_length_def go_simps)
  have "\<exists>x. offshore_emit demo_ostore demo_claims ''offshore.call_event_recorded'' ''f'' ''SBM1'' (OEventPayload ?x)
      [(''event-type'', event_type_text EventCustodyMeterReading), (''agency'', oq_AgencyCode demo_oreq)] demo_pr 6 (later 0 1 (demo_env 6 ''f'')) ?d
      = Inr (?d\<lparr>offshore_outbox := offshore_outbox demo_o5 @ [x]\<rparr>) \<and> ox_EventID x = ''fxx''"
    using demo_oemit [where e = "later 0 1 (demo_env 6 ''f'')" and d = ?d] s by (simp add: go_simps numeral_2_eq_2)
  then obtain x where "offshore_emit demo_ostore demo_claims ''offshore.call_event_recorded'' ''f'' ''SBM1'' (OEventPayload ?x)
      [(''event-type'', event_type_text EventCustodyMeterReading), (''agency'', oq_AgencyCode demo_oreq)] demo_pr 6 (later 0 1 (demo_env 6 ''f'')) ?d
      = Inr (?d\<lparr>offshore_outbox := offshore_outbox demo_o5 @ [x]\<rparr>)" by blast
  then have "RecordEvent_work demo_ostore ''SBM1'' demo_reading demo_pr (demo_env 6 ''f'') demo_claims demo_o5
      = Inr (?x, ?d\<lparr>offshore_outbox := offshore_outbox demo_o5 @ [x]\<rparr>)"
    using s by (simp add: RecordEvent_work_def offshore_getForUpdate_def find_offshore_def r Let_def)
  then have eq: "demo_o6 = ?d\<lparr>offshore_outbox := offshore_outbox demo_o5 @ [x]\<rparr>"
    by (simp add: demo_o6_def RecordEvent_def demo_oregex demo_reading_valid WithTx_demo)
  show "offshore_terminal_calls demo_o6 = [?l]" unfolding eq using s by simp
  show "offshore_call_events demo_o6 = [(''tenant-demo'', ?x)]" unfolding eq by simp
qed

section \<open>Guarantees\<close>

text \<open>
  Claim C27. The mooring-master workflow holds in every reachable state: the version of a call is
  the number of its stage (1 NOMINATED to 8 DEPARTED), a cancelled call was cancelled before
  mooring (version 2 or 3), and there is a named mooring master exactly from MOORED on. Every
  operational event belongs to a call of its tenant that has come at least as far as the event
  needs (MOORED for hoses, HOSE_CONNECTED for loading arms, LOADING for custody readings), so a
  cancelled call has nothing but mooring notes; a custody reading names its meter and its stored
  closing reading is not below its opening reading, and no other event carries readings.
\<close>

theorem offshore_workflow:
  assumes "offshore_reachable d"
  shows "(\<forall>l\<in>set (offshore_terminal_calls d). call_shape (oc_Status l, oc_MooringMaster l, oc_Version l))
    \<and> (\<forall>x\<in>set (offshore_call_events d). event_backed d x)"
proof -
  note i = offshore_reachable_inv [OF assms]
  have "call_shape (oc_Status l, oc_MooringMaster l, oc_Version l)" if "l \<in> set (offshore_terminal_calls d)" for l
  proof (rule ocalls.run_keeps [OF offshore_run [OF assms] oinv_empty _ _ life_keeps_shape])
    show "offshore_abs empty_odb k = None" for k by (simp add: offshore_abs_def empty_odb_def)
    show "call_shape (O_NOMINATED, None, 1)" by (simp add: call_shape_def)
    show "offshore_abs d (oc_CallID l) = Some (oc_Status l, oc_MooringMaster l, oc_Version l)"
      using i that find_unique [of oc_CallID "offshore_terminal_calls d" l] by (simp add: offshore_abs_def oinv_def)
  qed
  with i show ?thesis by (simp add: oinv_def)
qed

theorem offshore_workflow_witness:
  "\<exists>x. offshore_call_events demo_o6 = [(''tenant-demo'', x)] \<and> oe_EventType x = EventCustodyMeterReading
    \<and> event_backed demo_o6 (''tenant-demo'', x) \<and> call_shape (O_LOADING, Some ''Ade'', 5)"
  using offshore_workflow [OF demo_o_reachable(2)] unfolding demo_o6_state by (simp add: demo_reading_def)

text \<open>
  Claim C28. A terminal fee is the tariff's: a successful \<open>Assess\<close> answers with the schedule in
  force at the as-of instant for the tenant and with the lines and the total that the tariff
  computes for the tonnage and cargo of the call; and the key is charged once: whatever is
  assessed under it afterwards by the tenant either fails or answers with the same assessment
  and the same total, and changes nothing.
\<close>

theorem Assess_charges_once:
  assumes "offshore_reachable d" and "ctx_claims c = Some claims" and "Assess st c k key asOf pr e d = (Inr a, d')"
  shows "(\<exists>l. find_offshore (TenantID claims) d k = Some l
      \<and> fee_for (offshore_tariff d) (TenantID claims) DomainOffshoreTerminal
          \<lparr>f_GrossTonnage = oq_GrossTonnage (oc_Request l), f_CargoTonnes = oq_CargoTonnes (oc_Request l), f_Passengers = 0\<rparr> asOf
        = Inr (as_ScheduleID a, as_LineItems a, as_TotalMinor a))
    \<and> (\<forall>st2 k2 asOf2 pr2 e2. case Assess st2 c k2 key asOf2 pr2 e2 d' of
        (res, d2) \<Rightarrow> d2 = d' \<and> (\<forall>a2. res = Inr a2 \<longrightarrow> as_AssessmentID a2 = as_AssessmentID a \<and> as_TotalMinor a2 = as_TotalMinor a))"
proof -
  note keys = offshore_reachable_keys [OF assms(1)]
  from assms(2,3) have w: "Assess_work st k key asOf pr e claims d = Inr (a, d')"
    unfolding Assess_def by (auto split: if_splits dest!: WithTx_InrD)
  have "d2 = d' \<and> (\<forall>a2. res = Inr a2 \<longrightarrow> as_AssessmentID a2 = as_AssessmentID a \<and> as_TotalMinor a2 = as_TotalMinor a)"
    if "Assess st2 c k2 key asOf2 pr2 e2 d' = (res, d2)" for st2 k2 asOf2 pr2 e2 res d2
    using that assms(2) ofee.charged_once [OF keys w] unfolding Assess_def by (auto split: if_splits elim!: WithTx_cases)
  moreover from ofee.charged [OF keys w] obtain l where "find_offshore (TenantID claims) d k = Some l"
    and "fee_for (offshore_tariff d) (TenantID claims) DomainOffshoreTerminal
      \<lparr>f_GrossTonnage = oq_GrossTonnage (oc_Request l), f_CargoTonnes = oq_CargoTonnes (oc_Request l), f_Passengers = 0\<rparr> asOf
      = Inr (as_ScheduleID a, as_LineItems a, as_TotalMinor a)" by (auto simp: offshore_facts_def bindE_Inr_iff)
  ultimately show ?thesis by blast
qed

lemma demo_fee_recorded:
  assumes "sc_ScheduleID s = ''S1''" and "sc_Currency s = ''NGN''" and "items \<noteq> []" and "0 \<le> tot"
  shows "\<exists>a td. RecordAssessmentTx (Some (\<lambda>_. Inr ''sig'')) (fee_params DomainOffshoreTerminal ''SBM1'' ''fee-1'' s 7 facts items tot demo_pr)
    (demo_env 9 ''z'') demo_claims demo_tdb1 = Inr (a, td)"
proof -
  let ?p = "fee_params DomainOffshoreTerminal ''SBM1'' ''fee-1'' s 7 facts items tot demo_pr" and ?e = "demo_env 9 ''z''"
  have "\<exists>td. emit_assessment (\<lambda>_. Inr ''sig'') demo_claims ?p (new_assessment ?p ?e) ?e
      (demo_tdb1\<lparr>revenue_assessments := [(''tenant-demo'', new_assessment ?p ?e)]\<rparr>) = Inr td"
    by (simp add: emit_assessment_def Message_def fee_params_def demo_tdb1_def validTopic_def go_simps Let_def)
  moreover have "revenue_assessments_check ''tenant-demo'' demo_tdb1 (new_assessment ?p ?e)"
    using assms by (simp add: revenue_assessments_check_def new_assessment_def fee_params_def demo_tdb1_def demo_schedule_def currencyPattern_def
        match_regex_single go_simps del: match_regex.simps)
  moreover have "revenue_assessments demo_tdb1 = []" by (simp add: demo_tdb1_def)
  ultimately show ?thesis
    using assms by (auto simp: RecordAssessmentTx_def Let_def) (auto simp: fee_params_def canonicalText_def go_simps)
qed

lemma demo_o_assessed: "\<exists>a d'. Assess demo_ostore demo_ctx ''SBM1'' ''fee-1'' 7 demo_pr (demo_env 9 ''z'') demo_o1 = (Inr a, d')"
proof -
  obtain s where s: "LoadEffective ''tenant-demo'' demo_tdb1 DomainOffshoreTerminal 7 = Inr s" "sc_ScheduleID s = ''S1''" "sc_Currency s = ''NGN''"
    and c: "Compute s demo_facts 7 = Compute demo_schedule demo_facts 7" using demo_fee by blast
  have f: "\<lparr>f_GrossTonnage = oq_GrossTonnage demo_oreq, f_CargoTonnes = oq_CargoTonnes demo_oreq, f_Passengers = 0\<rparr> = demo_facts"
    by (simp add: demo_oreq_def demo_facts_def)
  have o: "offshore_terminal_calls demo_o1 = [demo_ocall O_NOMINATED None 1 1]" "offshore_tariff demo_o1 = demo_tdb1"
    using demo_o1_state by (simp_all add: demo_ostate_def)
  have g: "offshore_getForUpdate demo_claims demo_o1 ''SBM1'' = Inr (demo_ocall O_NOMINATED None 1 1)"
    by (simp add: offshore_getForUpdate_def find_offshore_def o)
  let ?items = "[line_item (demo_rule ''GRT'' UnitPerGRT 10 0 None) 20000 200000, line_item (demo_rule ''SPL'' UnitPerGTBand 7 10000 None) 20000 140000]"
  obtain a td where "RecordAssessmentTx (Some (\<lambda>_. Inr ''sig'')) (fee_params DomainOffshoreTerminal ''SBM1'' ''fee-1'' s 7 demo_facts ?items 340000 demo_pr)
    (demo_env 9 ''z'') demo_claims demo_tdb1 = Inr (a, td)" using demo_fee_recorded [OF s(2,3), of ?items 340000 demo_facts] by auto
  then have "Assess_work demo_ostore ''SBM1'' ''fee-1'' 7 demo_pr (demo_env 9 ''z'') demo_claims demo_o1 = Inr (a, demo_o1\<lparr>offshore_tariff := td\<rparr>)"
    by (simp add: Assess_work_def g o s(1) c demo_computed f Let_def)
  then show ?thesis by (simp add: Assess_def demo_oregex zero_time_def WithTx_demo)
qed

theorem Assess_charges_once_witness:
  "\<exists>a d'. Assess demo_ostore demo_ctx ''SBM1'' ''fee-1'' 7 demo_pr (demo_env 9 ''z'') demo_o1 = (Inr a, d')
    \<and> as_ScheduleID a = ''S1'' \<and> as_TotalMinor a = 340000
    \<and> snd (Assess demo_ostore demo_ctx ''SBM1'' ''fee-1'' 8 demo_pr (demo_env 10 ''y'') d') = d'"
proof -
  obtain a d' where a: "Assess demo_ostore demo_ctx ''SBM1'' ''fee-1'' 7 demo_pr (demo_env 9 ''z'') demo_o1 = (Inr a, d')" using demo_o_assessed by blast
  obtain s where s: "LoadEffective ''tenant-demo'' demo_tdb1 DomainOffshoreTerminal 7 = Inr s" "sc_ScheduleID s = ''S1''"
    and c: "Compute s demo_facts 7 = Compute demo_schedule demo_facts 7" using demo_fee by blast
  have o: "offshore_terminal_calls demo_o1 = [demo_ocall O_NOMINATED None 1 1]" "offshore_tariff demo_o1 = demo_tdb1"
    using demo_o1_state by (simp_all add: demo_ostate_def)
  have f: "\<lparr>f_GrossTonnage = oq_GrossTonnage demo_oreq, f_CargoTonnes = oq_CargoTonnes demo_oreq, f_Passengers = 0\<rparr> = demo_facts"
    by (simp add: demo_oreq_def demo_facts_def)
  note once = Assess_charges_once [OF demo_o_reachable(1) demo_ctx_simps(1) a]
  have "as_ScheduleID a = ''S1''" "as_TotalMinor a = 340000"
    using once [THEN conjunct1] s c by (auto simp: find_offshore_def o f fee_for_def demo_computed)
  moreover have "snd (Assess demo_ostore demo_ctx ''SBM1'' ''fee-1'' 8 demo_pr (demo_env 10 ''y'') d') = d'"
    using once [THEN conjunct2, THEN spec, of demo_ostore, THEN spec, of "''SBM1''", THEN spec, of 8, THEN spec, of demo_pr, THEN spec, of "demo_env 10 ''y''"]
    by (auto split: prod.splits)
  ultimately show ?thesis using a by blast
qed

end
