(* ===== verification/Cruise.thy ===== *)
theory Cruise
  imports Offshore Portcall
begin

text \<open>
  \<^verbatim>\<open>src/internal/cruise\<close>: cruise calls over port calls, with passenger bands, excursions, tender
  berths and the assessment of passenger dues, over the tables of
  \<^verbatim>\<open>src/db/migrations/0018_cruise_calls.sql\<close>. Passenger counts are Go integers of 64 bits and
  database integers of 32; the driver refuses what does not fit.
\<close>

section \<open>Model\<close>

datatype CruiseStatus = CR_PLANNED | CR_CONFIRMED | CR_ARRIVED | CR_COMPLETED | CR_CANCELLED | CR_Other string

fun cruise_status_text :: "CruiseStatus \<Rightarrow> string" where
  "cruise_status_text CR_PLANNED = ''PLANNED''"
| "cruise_status_text CR_CONFIRMED = ''CONFIRMED''"
| "cruise_status_text CR_ARRIVED = ''ARRIVED''"
| "cruise_status_text CR_COMPLETED = ''COMPLETED''"
| "cruise_status_text CR_CANCELLED = ''CANCELLED''"
| "cruise_status_text (CR_Other s) = s"

datatype PaxBand = BandSmall | BandMedium | BandLarge | BandMega

fun band_text :: "PaxBand \<Rightarrow> string" where
  "band_text BandSmall = ''SMALL''"
| "band_text BandMedium = ''MEDIUM''"
| "band_text BandLarge = ''LARGE''"
| "band_text BandMega = ''MEGA''"

definition berthPattern :: "segment list" where
  "berthPattern = [Seg (\<lambda>c. is_upper c \<or> is_digit c \<or> c = CHR ''-'') 1 16]"

definition BandFor :: "int \<Rightarrow> PaxBand" where
  "BandFor paxCount = (if paxCount < 500 then BandSmall else if paxCount < 1500 then BandMedium else if paxCount < 4000 then BandLarge else BandMega)"

record CruiseRequest =
  cq_CallID :: string
  cq_PortCallID :: string
  cq_CruiseLine :: string
  cq_VesselName :: string
  cq_PaxCount :: int
  cq_CreatedBy :: string

record CruiseCall =
  cc_Request :: CruiseRequest
  cc_TenantID :: string
  cc_IdempotencyKey :: string
  cc_PaxBand :: PaxBand
  cc_Status :: CruiseStatus
  cc_CreatedAt :: time
  cc_UpdatedAt :: time
  cc_Version :: int

abbreviation cc_CallID :: "CruiseCall \<Rightarrow> string" where
  "cc_CallID l \<equiv> cq_CallID (cc_Request l)"

abbreviation cc_PaxCount :: "CruiseCall \<Rightarrow> int" where
  "cc_PaxCount l \<equiv> cq_PaxCount (cc_Request l)"

definition cruise_Validate :: "CruiseRequest \<Rightarrow> unit result" where
  "cruise_Validate r =
     bindE (ensure (match_regex callIDPattern (cq_CallID r)) (ErrText ''call_id must be 2-64 canonical characters'')) (\<lambda>_.
     bindE (ensure (\<not> (cq_PortCallID r = [] \<or> len (cq_PortCallID r) > 256 \<or> TrimSpace (cq_PortCallID r) \<noteq> cq_PortCallID r))
              (ErrText ''port_call_id must reference an existing platform port call'')) (\<lambda>_.
     bindE (ensure (offshore_canonical (cq_CruiseLine r) 2 256) (ErrText ''cruise_line must be canonical text between 2 and 256 characters'')) (\<lambda>_.
     bindE (ensure (offshore_canonical (cq_VesselName r) 2 256) (ErrText ''vessel_name must be canonical text between 2 and 256 characters'')) (\<lambda>_.
     bindE (ensure (cq_PaxCount r > 0) (ErrText ''pax_count must be positive'')) (\<lambda>_.
     ensure (offshore_canonical (cq_CreatedBy r) 2 256) (ErrText ''created_by must be canonical text between 2 and 256 characters''))))))"

definition cruise_Matches :: "CruiseCall \<Rightarrow> CruiseRequest \<Rightarrow> bool" where
  "cruise_Matches call r \<longleftrightarrow> cc_Request call = r"

fun cruise_ValidTransition :: "CruiseStatus \<Rightarrow> CruiseStatus \<Rightarrow> bool" where
  "cruise_ValidTransition CR_PLANNED next = (next = CR_CONFIRMED \<or> next = CR_CANCELLED)"
| "cruise_ValidTransition CR_CONFIRMED next = (next = CR_ARRIVED \<or> next = CR_CANCELLED)"
| "cruise_ValidTransition CR_ARRIVED next = (next = CR_COMPLETED)"
| "cruise_ValidTransition _ next = False"

record Excursion =
  ex_ExcursionID :: string
  ex_TenantID :: string
  ex_IdempotencyKey :: string
  ex_CallID :: string
  ex_Name :: string
  ex_Operator :: string
  ex_PaxCount :: int
  ex_Status :: string
  ex_RegisteredBy :: string
  ex_RegisteredAt :: time

record TenderAllocation =
  ta_AllocationID :: string
  ta_TenantID :: string
  ta_IdempotencyKey :: string
  ta_CallID :: string
  ta_TerminalCode :: string
  ta_BerthCode :: string
  ta_WindowStart :: time
  ta_WindowEnd :: time
  ta_AllocatedBy :: string
  ta_AllocatedAt :: time

section \<open>The store\<close>

datatype cruise_payload = CruisePayload CruiseCall | ExcursionPayload Excursion | TenderPayload TenderAllocation

record crstore =
  cr_signer :: "cruise_payload signer option"
  cr_revenue :: "Assessment signer option"

record crdb =
  cruise_calls :: "CruiseCall list"
  cruise_excursions :: "Excursion list"
  cruise_tender_allocations :: "TenderAllocation list"
  cruise_ports :: pdb
  cruise_tariff :: tdb
  cruise_outbox :: "cruise_payload outbox_row list"

definition TopicCruise :: string where "TopicCruise = ''ports.cruise.v1''"

definition cruise_emit ::
  "crstore \<Rightarrow> Claims \<Rightarrow> string \<Rightarrow> string \<Rightarrow> string \<Rightarrow> cruise_payload \<Rightarrow> (string \<times> string) list \<Rightarrow> Principal \<Rightarrow> time \<Rightarrow> env \<Rightarrow> crdb \<Rightarrow> crdb result" where
  "cruise_emit st claims eventType correlationID subjectID payload extensions pr occurredAt e d =
     bindE (emit_event claims TopicCruise eventType correlationID subjectID payload extensions pr occurredAt (cr_signer st) e (cruise_outbox d))
       (\<lambda>os. Inr (d\<lparr>cruise_outbox := os\<rparr>))"

definition max_int4 :: int where "max_int4 = 2147483647"

definition int4 :: "string \<Rightarrow> int \<Rightarrow> unit result" where
  "int4 what n = ensure (n \<le> max_int4) (Wrapf what (ErrText ''greater than maximum value for int4''))"

definition cruise_calls_check :: "CruiseCall \<Rightarrow> bool" where
  "cruise_calls_check l \<longleftrightarrow> person_length (cq_CruiseLine (cc_Request l)) \<and> person_length (cq_VesselName (cc_Request l)) \<and> person_length (cq_CreatedBy (cc_Request l))"

definition find_cruise :: "string \<Rightarrow> crdb \<Rightarrow> string \<Rightarrow> CruiseCall option" where
  "find_cruise tid d callID = find (\<lambda>l. cc_TenantID l = tid \<and> cc_CallID l = callID) (cruise_calls d)"

definition cruise_getForUpdate :: "Claims \<Rightarrow> crdb \<Rightarrow> string \<Rightarrow> CruiseCall result" where
  "cruise_getForUpdate claims d callID = from_option (ErrNotFound Cruise) (find_cruise (TenantID claims) d callID)"

definition new_cruise_call :: "string \<Rightarrow> string \<Rightarrow> CruiseRequest \<Rightarrow> time \<Rightarrow> CruiseCall" where
  "new_cruise_call tid idempotencyKey r createdAt =
     \<lparr>cc_Request = r, cc_TenantID = tid, cc_IdempotencyKey = idempotencyKey, cc_PaxBand = BandFor (cq_PaxCount r), cc_Status = CR_PLANNED,
      cc_CreatedAt = createdAt, cc_UpdatedAt = createdAt, cc_Version = 1\<rparr>"

definition cruise_Create_work :: "crstore \<Rightarrow> string \<Rightarrow> CruiseRequest \<Rightarrow> Principal \<Rightarrow> env \<Rightarrow> Claims \<Rightarrow> crdb \<Rightarrow> (CruiseCall \<times> crdb) result" where
  "cruise_Create_work st idempotencyKey r pr e claims d =
     (if find_call (TenantID claims) (cruise_ports d) (cq_PortCallID r) = None
      then Inl (Wrapf (''port call '' @ cq_PortCallID r) (ErrNotFound Cruise))
      else let createdAt = clk e 0; call = new_cruise_call (TenantID claims) idempotencyKey r createdAt in
      bindE (int4 ''insert cruise call'' (cq_PaxCount r)) (\<lambda>_.
      if \<not> cruise_calls_check call then Inl (Wrapf ''insert cruise call'' (PgErr (CheckViolation ''cruise_calls_check'')))
      else if list_ex (\<lambda>l. cc_IdempotencyKey l = idempotencyKey) (cruise_calls d)
      then (case find (\<lambda>l. cc_TenantID l = TenantID claims \<and> cc_IdempotencyKey l = idempotencyKey) (cruise_calls d) of
              None \<Rightarrow> Inl (Wrapf ''lookup idempotent cruise call'' (ErrText ''no rows in result set''))
            | Some retained \<Rightarrow> if \<not> cruise_Matches retained r then Inl (ErrIdempotencyConflict Cruise) else Inr (retained, d))
      else if list_ex (\<lambda>l. cc_CallID l = cq_CallID r) (cruise_calls d)
      then Inl (Wrapf ''insert cruise call'' (PgErr (UniqueViolation ''cruise_calls_pkey'')))
      else bindE (cruise_emit st claims ''cruise.call_registered'' idempotencyKey (cq_CallID r) (CruisePayload call)
                    [(''pax-band'', band_text (cc_PaxBand call)), (''port-call-id'', cq_PortCallID r)] pr createdAt e
                    (d\<lparr>cruise_calls := cruise_calls d @ [call]\<rparr>)) (\<lambda>d. Inr (call, d))))"

definition cruise_Create :: "crstore \<Rightarrow> ctx \<Rightarrow> string \<Rightarrow> CruiseRequest \<Rightarrow> Principal \<Rightarrow> env \<Rightarrow> crdb \<Rightarrow> CruiseCall result \<times> crdb" where
  "cruise_Create st c idempotencyKey r pr e d =
     (if idempotencyKey = [] \<or> len idempotencyKey > 256
      then (Inl (ErrText ''idempotency key must be non-empty and at most 256 characters''), d)
      else case cruise_Validate r of
        Inl err \<Rightarrow> (Inl err, d)
      | Inr _ \<Rightarrow>
          if \<not> verified_principal pr then (Inl (ErrText ''a verified principal is required''), d)
          else WithTx c (cruise_Create_work st idempotencyKey r pr e) d)"

definition cruise_Get :: "ctx \<Rightarrow> string \<Rightarrow> crdb \<Rightarrow> CruiseCall result \<times> crdb" where
  "cruise_Get c callID d =
     (if \<not> match_regex callIDPattern callID then (Inl (ErrNotFound Cruise), d)
      else WithTx c (\<lambda>claims d. bindE (cruise_getForUpdate claims d callID) (\<lambda>call. Inr (call, d))) d)"

definition cruise_Transition_work ::
  "crstore \<Rightarrow> string \<Rightarrow> int \<Rightarrow> CruiseStatus \<Rightarrow> Principal \<Rightarrow> env \<Rightarrow> Claims \<Rightarrow> crdb \<Rightarrow> (CruiseCall \<times> crdb) result" where
  "cruise_Transition_work st callID expectedVersion next pr e claims d =
     bindE (cruise_getForUpdate claims d callID) (\<lambda>current.
     if cc_Version current \<noteq> expectedVersion then Inl (ErrOptimisticConflict Cruise)
     else if \<not> cruise_ValidTransition (cc_Status current) next then Inl (ErrInvalidTransition Cruise)
     else bindE (wrap_err ''transition cruise call'' (pg_inc (cc_Version current))) (\<lambda>version.
       let updatedAt = clk e 0; f = (\<lambda>l. l\<lparr>cc_Status := next, cc_UpdatedAt := updatedAt, cc_Version := version\<rparr>); updated = f current in
       bindE (cruise_emit st claims ''cruise.call_status_changed'' (callID @ '':'' @ fmt_d version) callID (CruisePayload updated)
                [(''from-status'', cruise_status_text (cc_Status current)), (''to-status'', cruise_status_text next)] pr updatedAt e
                (d\<lparr>cruise_calls := update_where (\<lambda>l. cc_TenantID l = TenantID claims \<and> cc_CallID l = callID
                     \<and> cc_Status l = cc_Status current \<and> cc_Version l = expectedVersion) f (cruise_calls d)\<rparr>))
         (\<lambda>d. Inr (updated, d))))"

definition cruise_Transition ::
  "crstore \<Rightarrow> ctx \<Rightarrow> string \<Rightarrow> int \<Rightarrow> CruiseStatus \<Rightarrow> Principal \<Rightarrow> env \<Rightarrow> crdb \<Rightarrow> CruiseCall result \<times> crdb" where
  "cruise_Transition st c callID expectedVersion next pr e d =
     (if \<not> match_regex callIDPattern callID \<or> expectedVersion < 1 then (Inl (ErrNotFound Cruise), d)
      else if \<not> verified_principal pr then (Inl (ErrText ''a verified principal is required''), d)
      else WithTx c (cruise_Transition_work st callID expectedVersion next pr e) d)"

definition call_closed :: "CruiseCall \<Rightarrow> bool" where
  "call_closed call \<longleftrightarrow> cc_Status call = CR_COMPLETED \<or> cc_Status call = CR_CANCELLED"

definition UpdatePaxCount_work :: "crstore \<Rightarrow> string \<Rightarrow> int \<Rightarrow> int \<Rightarrow> Principal \<Rightarrow> env \<Rightarrow> Claims \<Rightarrow> crdb \<Rightarrow> (CruiseCall \<times> crdb) result" where
  "UpdatePaxCount_work st callID expectedVersion paxCount pr e claims d =
     bindE (cruise_getForUpdate claims d callID) (\<lambda>current.
     if cc_Version current \<noteq> expectedVersion then Inl (ErrOptimisticConflict Cruise)
     else if call_closed current then Inl (ErrInvalidTransition Cruise)
     else bindE (int4 ''update pax count'' paxCount) (\<lambda>_.
       bindE (wrap_err ''update pax count'' (pg_inc (cc_Version current))) (\<lambda>version.
       let updatedAt = clk e 0;
           f = (\<lambda>l. l\<lparr>cc_Request := (cc_Request l)\<lparr>cq_PaxCount := paxCount\<rparr>, cc_PaxBand := BandFor paxCount, cc_UpdatedAt := updatedAt, cc_Version := version\<rparr>);
           updated = f current in
       bindE (cruise_emit st claims ''cruise.pax_count_updated'' (callID @ '':'' @ fmt_d version) callID (CruisePayload updated)
                [(''pax-count'', fmt_d paxCount), (''pax-band'', band_text (cc_PaxBand updated))] pr updatedAt e
                (d\<lparr>cruise_calls := update_where (\<lambda>l. cc_TenantID l = TenantID claims \<and> cc_CallID l = callID
                     \<and> cc_Version l = expectedVersion) f (cruise_calls d)\<rparr>))
         (\<lambda>d. Inr (updated, d)))))"

definition UpdatePaxCount :: "crstore \<Rightarrow> ctx \<Rightarrow> string \<Rightarrow> int \<Rightarrow> int \<Rightarrow> Principal \<Rightarrow> env \<Rightarrow> crdb \<Rightarrow> CruiseCall result \<times> crdb" where
  "UpdatePaxCount st c callID expectedVersion paxCount pr e d =
     (if \<not> match_regex callIDPattern callID \<or> expectedVersion < 1 then (Inl (ErrNotFound Cruise), d)
      else if paxCount \<le> 0 then (Inl (ErrText ''pax_count must be positive''), d)
      else if \<not> verified_principal pr then (Inl (ErrText ''a verified principal is required''), d)
      else WithTx c (UpdatePaxCount_work st callID expectedVersion paxCount pr e) d)"

section \<open>Excursions and tenders\<close>

definition new_excursion :: "string \<Rightarrow> string \<Rightarrow> string \<Rightarrow> string \<Rightarrow> string \<Rightarrow> string \<Rightarrow> int \<Rightarrow> string \<Rightarrow> time \<Rightarrow> Excursion" where
  "new_excursion excursionID tid callID idempotencyKey name operator paxCount by registeredAt =
     \<lparr>ex_ExcursionID = excursionID, ex_TenantID = tid, ex_IdempotencyKey = idempotencyKey, ex_CallID = callID, ex_Name = name, ex_Operator = operator,
      ex_PaxCount = paxCount, ex_Status = ''SCHEDULED'', ex_RegisteredBy = by, ex_RegisteredAt = registeredAt\<rparr>"

definition AddExcursion_work ::
  "crstore \<Rightarrow> string \<Rightarrow> string \<Rightarrow> string \<Rightarrow> string \<Rightarrow> int \<Rightarrow> Principal \<Rightarrow> env \<Rightarrow> Claims \<Rightarrow> crdb \<Rightarrow> (Excursion \<times> crdb) result" where
  "AddExcursion_work st callID idempotencyKey name operator paxCount pr e claims d =
     bindE (cruise_getForUpdate claims d callID) (\<lambda>call.
     if call_closed call then Inl (ErrInvalidTransition Cruise)
     else let registeredAt = clk e 0; excursion = new_excursion (rnd e 0) (TenantID claims) callID idempotencyKey name operator paxCount (pr_ID pr) registeredAt in
     bindE (int4 ''insert excursion'' paxCount) (\<lambda>_.
     if \<not> person_length name \<or> \<not> person_length operator \<or> \<not> person_length (pr_ID pr)
     then Inl (Wrapf ''insert excursion'' (PgErr (CheckViolation ''cruise_excursions_check'')))
     else if list_ex (\<lambda>x. ex_IdempotencyKey x = idempotencyKey) (cruise_excursions d)
     then (case find (\<lambda>x. ex_TenantID x = TenantID claims \<and> ex_IdempotencyKey x = idempotencyKey) (cruise_excursions d) of
             None \<Rightarrow> Inl (Wrapf ''lookup idempotent excursion'' (ErrText ''no rows in result set''))
           | Some x \<Rightarrow>
               if ex_CallID x \<noteq> callID \<or> ex_Name x \<noteq> name \<or> ex_Operator x \<noteq> operator \<or> ex_PaxCount x \<noteq> paxCount
               then Inl (ErrIdempotencyConflict Cruise) else Inr (x, d))
     else if list_ex (\<lambda>x. ex_ExcursionID x = ex_ExcursionID excursion) (cruise_excursions d)
     then Inl (Wrapf ''insert excursion'' (PgErr (UniqueViolation ''cruise_excursions_pkey'')))
     else bindE (cruise_emit st claims ''cruise.excursion_registered'' idempotencyKey callID (ExcursionPayload excursion)
                   [(''excursion-id'', ex_ExcursionID excursion)] pr registeredAt (later 0 1 e)
                   (d\<lparr>cruise_excursions := cruise_excursions d @ [excursion]\<rparr>)) (\<lambda>d. Inr (excursion, d))))"

definition AddExcursion ::
  "crstore \<Rightarrow> ctx \<Rightarrow> string \<Rightarrow> string \<Rightarrow> string \<Rightarrow> string \<Rightarrow> int \<Rightarrow> Principal \<Rightarrow> env \<Rightarrow> crdb \<Rightarrow> Excursion result \<times> crdb" where
  "AddExcursion st c callID idempotencyKey name operator paxCount pr e d =
     (if \<not> match_regex callIDPattern callID then (Inl (ErrNotFound Cruise), d)
      else if idempotencyKey = [] \<or> len idempotencyKey > 256 \<or> \<not> offshore_canonical name 2 256 \<or> \<not> offshore_canonical operator 2 256 \<or> paxCount \<le> 0
      then (Inl ErrExcursionInvalid, d)
      else if \<not> verified_principal pr then (Inl (ErrText ''a verified principal is required''), d)
      else WithTx c (AddExcursion_work st callID idempotencyKey name operator paxCount pr e) d)"

definition new_tender :: "string \<Rightarrow> string \<Rightarrow> string \<Rightarrow> string \<Rightarrow> string \<Rightarrow> string \<Rightarrow> time \<Rightarrow> time \<Rightarrow> string \<Rightarrow> time \<Rightarrow> TenderAllocation" where
  "new_tender allocationID tid callID idempotencyKey terminalCode berthCode windowStart windowEnd by allocatedAt =
     \<lparr>ta_AllocationID = allocationID, ta_TenantID = tid, ta_IdempotencyKey = idempotencyKey, ta_CallID = callID, ta_TerminalCode = terminalCode,
      ta_BerthCode = berthCode, ta_WindowStart = windowStart, ta_WindowEnd = windowEnd, ta_AllocatedBy = by, ta_AllocatedAt = allocatedAt\<rparr>"

text \<open>The exclusion constraint: same call, same berth, windows (half open) that share an instant.\<close>

definition tender_overlap :: "TenderAllocation \<Rightarrow> TenderAllocation \<Rightarrow> bool" where
  "tender_overlap a b \<longleftrightarrow> ta_WindowStart a < ta_WindowEnd b \<and> ta_WindowStart b < ta_WindowEnd a"

definition tender_excluded :: "crdb \<Rightarrow> TenderAllocation \<Rightarrow> bool" where
  "tender_excluded d new \<longleftrightarrow>
     list_ex (\<lambda>x. ta_CallID x = ta_CallID new \<and> ta_BerthCode x = ta_BerthCode new \<and> tender_overlap x new) (cruise_tender_allocations d)"

definition AllocateTender_work ::
  "crstore \<Rightarrow> string \<Rightarrow> string \<Rightarrow> string \<Rightarrow> string \<Rightarrow> time \<Rightarrow> time \<Rightarrow> Principal \<Rightarrow> env \<Rightarrow> Claims \<Rightarrow> crdb \<Rightarrow> (TenderAllocation \<times> crdb) result" where
  "AllocateTender_work st callID idempotencyKey terminalCode berthCode windowStart windowEnd pr e claims d =
     bindE (cruise_getForUpdate claims d callID) (\<lambda>call.
     if call_closed call then Inl (ErrInvalidTransition Cruise)
     else let allocatedAt = clk e 0;
              allocation = new_tender (rnd e 0) (TenantID claims) callID idempotencyKey terminalCode berthCode windowStart windowEnd (pr_ID pr) allocatedAt in
     if \<not> person_length (pr_ID pr)
     then Inl (Wrapf ''insert tender allocation (overlap on the berth is rejected)'' (PgErr (CheckViolation ''cruise_tender_allocations_check'')))
     else if list_ex (\<lambda>x. ta_IdempotencyKey x = idempotencyKey) (cruise_tender_allocations d)
     then (case find (\<lambda>x. ta_TenantID x = TenantID claims \<and> ta_IdempotencyKey x = idempotencyKey) (cruise_tender_allocations d) of
             None \<Rightarrow> Inl (Wrapf ''lookup idempotent tender allocation'' (ErrText ''no rows in result set''))
           | Some x \<Rightarrow>
               if ta_CallID x \<noteq> callID \<or> ta_TerminalCode x \<noteq> terminalCode \<or> ta_BerthCode x \<noteq> berthCode
                  \<or> ta_WindowStart x \<noteq> windowStart \<or> ta_WindowEnd x \<noteq> windowEnd
               then Inl (ErrIdempotencyConflict Cruise) else Inr (x, d))
     else if list_ex (\<lambda>x. ta_AllocationID x = ta_AllocationID allocation) (cruise_tender_allocations d)
     then Inl (Wrapf ''insert tender allocation (overlap on the berth is rejected)'' (PgErr (UniqueViolation ''cruise_tender_allocations_pkey'')))
     else if tender_excluded d allocation
     then Inl (Wrapf ''insert tender allocation (overlap on the berth is rejected)'' (PgErr (RaiseException ''cruise_tender_allocations_call_id_berth_code_tstzrange_excl'')))
     else bindE (cruise_emit st claims ''cruise.tender_allocated'' idempotencyKey callID (TenderPayload allocation)
                   [(''terminal-code'', terminalCode), (''berth-code'', berthCode)] pr allocatedAt (later 0 1 e)
                   (d\<lparr>cruise_tender_allocations := cruise_tender_allocations d @ [allocation]\<rparr>)) (\<lambda>d. Inr (allocation, d)))"

definition AllocateTender ::
  "crstore \<Rightarrow> ctx \<Rightarrow> string \<Rightarrow> string \<Rightarrow> string \<Rightarrow> string \<Rightarrow> time \<Rightarrow> time \<Rightarrow> Principal \<Rightarrow> env \<Rightarrow> crdb \<Rightarrow> TenderAllocation result \<times> crdb" where
  "AllocateTender st c callID idempotencyKey terminalCode berthCode windowStart windowEnd pr e d =
     (if \<not> match_regex callIDPattern callID then (Inl (ErrNotFound Cruise), d)
      else if idempotencyKey = [] \<or> len idempotencyKey > 256 \<or> \<not> match_regex offshore_terminalPattern terminalCode \<or> \<not> match_regex berthPattern berthCode
              \<or> windowStart = zero_time \<or> \<not> windowEnd > windowStart
      then (Inl ErrAllocationInvalid, d)
      else if \<not> verified_principal pr then (Inl (ErrText ''a verified principal is required''), d)
      else WithTx c (AllocateTender_work st callID idempotencyKey terminalCode berthCode windowStart windowEnd pr e) d)"

section \<open>Dues\<close>

definition AssessDues_work :: "crstore \<Rightarrow> string \<Rightarrow> string \<Rightarrow> time \<Rightarrow> Principal \<Rightarrow> env \<Rightarrow> Claims \<Rightarrow> crdb \<Rightarrow> (Assessment \<times> crdb) result" where
  "AssessDues_work st callID idempotencyKey asOf pr e claims d =
     bindE (cruise_getForUpdate claims d callID) (\<lambda>call.
     bindE (LoadEffective (TenantID claims) (cruise_tariff d) DomainCruiseDues asOf) (\<lambda>schedule.
     let facts = \<lparr>f_GrossTonnage = 0, f_CargoTonnes = 0, f_Passengers = cc_PaxCount call\<rparr> in
     bindE (Compute schedule facts asOf) (\<lambda>(items, tot).
     bindE (RecordAssessmentTx (cr_revenue st) (fee_params DomainCruiseDues callID idempotencyKey schedule asOf facts items tot pr) e claims (cruise_tariff d))
       (\<lambda>(recorded, td). Inr (recorded, d\<lparr>cruise_tariff := td\<rparr>)))))"

definition AssessDues :: "crstore \<Rightarrow> ctx \<Rightarrow> string \<Rightarrow> string \<Rightarrow> time \<Rightarrow> Principal \<Rightarrow> env \<Rightarrow> crdb \<Rightarrow> Assessment result \<times> crdb" where
  "AssessDues st c callID idempotencyKey asOf pr e d =
     (if \<not> match_regex callIDPattern callID then (Inl (ErrNotFound Cruise), d)
      else if idempotencyKey = [] \<or> len idempotencyKey > 256
      then (Inl (ErrText ''assessment idempotency key must be non-empty and at most 256 characters''), d)
      else if asOf = zero_time then (Inl (ErrText ''assessment as-of instant is required''), d)
      else if \<not> verified_principal pr then (Inl (ErrText ''a verified principal is required''), d)
      else WithTx c (AssessDues_work st callID idempotencyKey asOf pr e) d)"

end
