(* ===== verification/Cruise_Properties.thy ===== *)
theory Cruise_Properties
  imports Cruise Offshore_Properties Portcall_Properties
begin

text \<open>
  Cruise calls over all operations, with the port calls they extend: bands follow counts, tender
  windows of a call do not overlap, and dues are what the tariff computes.
\<close>

section \<open>Port calls stay\<close>

abbreviation call_names :: "pdb \<Rightarrow> (string \<times> string) set" where
  "call_names d \<equiv> (\<lambda>l. (pl_TenantID l, pl_CallID l)) ` set (port_calls d)"

lemma names_update: "(\<And>l. g (f l) = g l) \<Longrightarrow> g ` set (update_where P f T) = g ` set T"
proof -
  assume "\<And>l. g (f l) = g l"
  then have "map g (update_where P f T) = map g T" by (simp add: update_where_def)
  then show ?thesis by (metis set_map)
qed

lemma call_names_kept:
  assumes "call_step d d'"
  shows "call_names d \<subseteq> call_names d'"
  using call_step_work [OF assms]
proof (induction rule: call_work.induct)
  case (create key r e claims d l d')
  from create(1) show ?case by (rule portcall_createTx_InrE) auto
next
  case (transition k v "next" e claims d l d')
  from transition(1) show ?case by (rule Transition_InrE) (simp add: names_update)
next
  case (declare_doc k doc e claims d x d')
  from declare_doc(1) show ?case by (rule declareDocumentTx_InrE) auto
next
  case (review k i rv e claims d x d')
  from review(1) show ?case by (rule reviewDocumentTx_InrE) auto
next
  case (supersede pg_uuid k su e claims d u d')
  from supersede(1) show ?case by (rule SupersedeDocument_InrE) auto
next
  case (decide k v dec reason by1 e claims d y d')
  from decide(1) show ?case by (rule decideClearanceTx_InrE) (simp add: names_update)
next
  case (amend k am e claims d y d')
  from amend(1) show ?case by (rule amendClearanceTx_InrE) (simp_all add: names_update)
next
  case (register p e claims d u d')
  then show ?case by (auto simp: RegisterAgencyProfile_work_def append_profile_event_def Let_def split: if_splits option.splits)
qed auto

section \<open>What the operations do\<close>

lemma cruise_emit_InrD: "cruise_emit st claims ty corr sub p ext pr at e d = Inr d' \<Longrightarrow> \<exists>os. d' = d\<lparr>cruise_outbox := os\<rparr>"
  by (auto simp: cruise_emit_def bindE_Inr_iff)

lemma find_cruiseD: "find_cruise tid d k = Some l \<Longrightarrow> l \<in> set (cruise_calls d) \<and> cc_TenantID l = tid \<and> cc_CallID l = k"
  by (auto simp: find_cruise_def dest: find_SomeD)

lemma cruise_getForUpdate_Inr [simp]: "cruise_getForUpdate claims d k = Inr l \<longleftrightarrow> find_cruise (TenantID claims) d k = Some l"
  by (auto simp: cruise_getForUpdate_def)

lemma int4_Inr [simp]: "int4 what n = Inr u \<longleftrightarrow> n \<le> max_int4"
  by (auto simp: int4_def)

inductive cruise_step :: "crdb \<Rightarrow> crdb \<Rightarrow> bool" where
  Create: "cruise_Create st c key r pr e d = (res, d') \<Longrightarrow> cruise_step d d'"
| Transition: "cruise_Transition st c k v next pr e d = (res, d') \<Longrightarrow> cruise_step d d'"
| UpdatePaxCount: "UpdatePaxCount st c k v n pr e d = (res, d') \<Longrightarrow> cruise_step d d'"
| AddExcursion: "AddExcursion st c k key name operator n pr e d = (res2, d') \<Longrightarrow> cruise_step d d'"
| AllocateTender: "AllocateTender st c k key terminal berth w1 w2 pr e d = (res3, d') \<Longrightarrow> cruise_step d d'"
| AssessDues: "AssessDues st c k key asOf pr e d = (res4, d') \<Longrightarrow> cruise_step d d'"
| RegisterSchedule: "RegisterSchedule uuid_text c s e (cruise_tariff d) = (res5, td) \<Longrightarrow> cruise_step d (d\<lparr>cruise_tariff := td\<rparr>)"
| PortCall: "call_step (cruise_ports d) pd \<Longrightarrow> cruise_step d (d\<lparr>cruise_ports := pd\<rparr>)"

definition empty_crdb :: crdb where
  "empty_crdb = \<lparr>cruise_calls = [], cruise_excursions = [], cruise_tender_allocations = [], cruise_ports = empty_pdb,
     cruise_tariff = \<lparr>tariff_schedules = [], tariff_rules = [], revenue_assessments = [], revenue_outbox = []\<rparr>, cruise_outbox = []\<rparr>"

inductive cruise_reachable :: "crdb \<Rightarrow> bool" where
  init: "cruise_reachable empty_crdb"
| step: "cruise_reachable d \<Longrightarrow> cruise_step d d' \<Longrightarrow> cruise_reachable d'"

inductive cruise_change :: "crdb \<Rightarrow> crdb \<Rightarrow> bool" where
  same: "call_names (cruise_ports d) \<subseteq> call_names pd \<Longrightarrow> cruise_change d (d\<lparr>cruise_ports := pd, cruise_tariff := td\<rparr>)"
| call: "cruise_Validate r = Inr () \<Longrightarrow> cq_PaxCount r \<le> max_int4 \<Longrightarrow> (tid, cq_PortCallID r) \<in> call_names (cruise_ports d)
    \<Longrightarrow> cq_CallID r \<notin> cc_CallID ` set (cruise_calls d)
    \<Longrightarrow> cruise_change d (d\<lparr>cruise_calls := cruise_calls d @ [new_cruise_call tid key r now], cruise_outbox := os\<rparr>)"
| move: "l \<in> set (cruise_calls d) \<Longrightarrow> cruise_ValidTransition (cc_Status l) next
    \<Longrightarrow> cruise_change d (d\<lparr>cruise_calls := swap_row l (l\<lparr>cc_Status := next, cc_UpdatedAt := now, cc_Version := cc_Version l + 1\<rparr>) (cruise_calls d),
          cruise_outbox := os\<rparr>)"
| count: "l \<in> set (cruise_calls d) \<Longrightarrow> \<not> call_closed l \<Longrightarrow> 0 < n \<Longrightarrow> n \<le> max_int4
    \<Longrightarrow> cruise_change d (d\<lparr>cruise_calls := swap_row l (l\<lparr>cc_Request := (cc_Request l)\<lparr>cq_PaxCount := n\<rparr>, cc_PaxBand := BandFor n, cc_UpdatedAt := now,
          cc_Version := cc_Version l + 1\<rparr>) (cruise_calls d), cruise_outbox := os\<rparr>)"
| excursion: "l \<in> set (cruise_calls d) \<Longrightarrow> \<not> call_closed l \<Longrightarrow> 0 < n
    \<Longrightarrow> cruise_change d (d\<lparr>cruise_excursions := cruise_excursions d @ [new_excursion i (cc_TenantID l) (cc_CallID l) key name operator n by1 now],
          cruise_outbox := os\<rparr>)"
| tender: "l \<in> set (cruise_calls d) \<Longrightarrow> \<not> call_closed l \<Longrightarrow> w1 < w2
    \<Longrightarrow> x = new_tender i (cc_TenantID l) (cc_CallID l) key terminal berth w1 w2 by1 now \<Longrightarrow> \<not> tender_excluded d x
    \<Longrightarrow> cruise_change d (d\<lparr>cruise_tender_allocations := cruise_tender_allocations d @ [x], cruise_outbox := os\<rparr>)"

lemma cruise_same [simp, intro]: "cruise_change d d" "cruise_change d (d\<lparr>cruise_tariff := td\<rparr>)"
  using cruise_change.same [where d = d and pd = "cruise_ports d" and td = "cruise_tariff d"]
    cruise_change.same [where d = d and pd = "cruise_ports d" and td = td] by simp_all

lemma change_create:
  assumes "cruise_Create_work st key r pr e claims d = Inr (l, d')" and "cruise_Validate r = Inr ()"
  shows "cruise_change d d'"
proof (cases "d' = d")
  case False
  from assms(1) obtain l where "find_call (TenantID claims) (cruise_ports d) (cq_PortCallID r) = Some l"
    by (cases "find_call (TenantID claims) (cruise_ports d) (cq_PortCallID r)") (auto simp: cruise_Create_work_def)
  then have p: "(TenantID claims, cq_PortCallID r) \<in> call_names (cruise_ports d)" by (force dest!: find_callD)
  from assms(1) False obtain os where n: "cq_PaxCount r \<le> max_int4" and i: "\<not> list_ex (\<lambda>l. cc_CallID l = cq_CallID r) (cruise_calls d)"
    and d': "d' = d\<lparr>cruise_calls := cruise_calls d @ [new_cruise_call (TenantID claims) key r (clk e 0)], cruise_outbox := os\<rparr>"
    by (auto simp: cruise_Create_work_def Let_def bindE_Inr_iff split: if_splits option.splits dest!: cruise_emit_InrD)
  have "cq_CallID r \<notin> cc_CallID ` set (cruise_calls d)" using i by (auto simp: list_ex_iff)
  then show ?thesis unfolding d' by (rule cruise_change.call [OF assms(2) n p])
qed auto

lemma change_transition:
  assumes "cruise_Transition_work st k v next pr e claims d = Inr (l, d')" and "distinct (map cc_CallID (cruise_calls d))"
  shows "cruise_change d d'"
proof -
  let ?f = "\<lambda>x y. y\<lparr>cc_Status := next, cc_UpdatedAt := clk e 0, cc_Version := cc_Version x + 1\<rparr>"
  let ?P = "\<lambda>x y. cc_TenantID y = TenantID claims \<and> cc_CallID y = k \<and> cc_Status y = cc_Status x \<and> cc_Version y = v"
  from assms(1) obtain x os where x: "find_cruise (TenantID claims) d k = Some x" "cc_Version x = v" "cruise_ValidTransition (cc_Status x) next"
    and d': "d' = d\<lparr>cruise_calls := update_where (?P x) (?f x) (cruise_calls d), cruise_outbox := os\<rparr>"
    by (auto simp: cruise_Transition_work_def bindE_Inr_iff Let_def split: if_splits dest!: cruise_emit_InrD)
  note X = find_cruiseD [OF x(1)]
  have u: "update_where (?P x) (?f x) (cruise_calls d) = swap_row x (?f x x) (cruise_calls d)"
    by (rule update_where_swap [OF assms(2)]) (use X x in auto)
  show ?thesis unfolding d' u by (rule cruise_change.move [OF conjunct1 [OF X] x(3)])
qed

lemma change_count:
  assumes "UpdatePaxCount_work st k v n pr e claims d = Inr (l, d')" and "distinct (map cc_CallID (cruise_calls d))" and "0 < n"
  shows "cruise_change d d'"
proof -
  let ?f = "\<lambda>x y. y\<lparr>cc_Request := (cc_Request y)\<lparr>cq_PaxCount := n\<rparr>, cc_PaxBand := BandFor n, cc_UpdatedAt := clk e 0, cc_Version := cc_Version x + 1\<rparr>"
  let ?P = "\<lambda>y. cc_TenantID y = TenantID claims \<and> cc_CallID y = k \<and> cc_Version y = v"
  from assms(1) obtain x os where x: "find_cruise (TenantID claims) d k = Some x" "cc_Version x = v" "\<not> call_closed x" "n \<le> max_int4"
    and d': "d' = d\<lparr>cruise_calls := update_where ?P (?f x) (cruise_calls d), cruise_outbox := os\<rparr>"
    by (auto simp: UpdatePaxCount_work_def bindE_Inr_iff Let_def split: if_splits dest!: cruise_emit_InrD)
  note X = find_cruiseD [OF x(1)]
  have u: "update_where ?P (?f x) (cruise_calls d) = swap_row x (?f x x) (cruise_calls d)"
    by (rule update_where_swap [OF assms(2)]) (use X x in auto)
  show ?thesis unfolding d' u by (rule cruise_change.count [OF conjunct1 [OF X] x(3) assms(3) x(4)])
qed

lemma change_excursion:
  assumes "AddExcursion_work st k key name operator n pr e claims d = Inr (x, d')" and "0 < n"
  shows "cruise_change d d'"
proof (cases "d' = d")
  case False
  with assms(1) obtain l os where l: "find_cruise (TenantID claims) d k = Some l" "\<not> call_closed l"
    and d': "d' = d\<lparr>cruise_excursions := cruise_excursions d @ [new_excursion (rnd e 0) (TenantID claims) k key name operator n (pr_ID pr) (clk e 0)],
      cruise_outbox := os\<rparr>"
    by (auto simp: AddExcursion_work_def bindE_Inr_iff Let_def split: if_splits option.splits dest!: cruise_emit_InrD)
  note L = find_cruiseD [OF l(1)]
  then show ?thesis unfolding d' using cruise_change.excursion [OF conjunct1 [OF L] l(2) assms(2)] by simp
qed auto

lemma change_tender:
  assumes "AllocateTender_work st k key terminal berth w1 w2 pr e claims d = Inr (x, d')" and "w1 < w2"
  shows "cruise_change d d'"
proof (cases "d' = d")
  case False
  let ?x = "new_tender (rnd e 0) (TenantID claims) k key terminal berth w1 w2 (pr_ID pr) (clk e 0)"
  from assms(1) False obtain l os where l: "find_cruise (TenantID claims) d k = Some l" "\<not> call_closed l" and ex: "\<not> tender_excluded d ?x"
    and d': "d' = d\<lparr>cruise_tender_allocations := cruise_tender_allocations d @ [?x], cruise_outbox := os\<rparr>"
    by (auto simp: AllocateTender_work_def bindE_Inr_iff Let_def split: if_splits option.splits dest!: cruise_emit_InrD)
  note L = find_cruiseD [OF l(1)]
  then show ?thesis unfolding d' by (intro cruise_change.tender [OF conjunct1 [OF L] l(2) assms(2) _ ex]) simp
qed auto

lemma cruise_step_change:
  assumes "cruise_step d d'" and "distinct (map cc_CallID (cruise_calls d))"
  shows "cruise_change d d'"
  using assms
proof (induction rule: cruise_step.induct)
  case (PortCall d pd)
  show ?case using cruise_change.same [OF call_names_kept [OF PortCall(1)], of "cruise_tariff d"] by simp
qed (auto simp: cruise_Create_def cruise_Transition_def UpdatePaxCount_def AddExcursion_def AllocateTender_def AssessDues_def AssessDues_work_def
      bindE_Inr_iff Let_def split: if_splits sum.splits prod.splits elim!: WithTx_cases
      intro: change_create change_transition change_count change_excursion change_tender)

section \<open>The invariant\<close>

definition cruise_call_ok :: "crdb \<Rightarrow> CruiseCall \<Rightarrow> bool" where
  "cruise_call_ok d l \<longleftrightarrow> 0 < cc_PaxCount l \<and> cc_PaxCount l \<le> max_int4 \<and> cc_PaxBand l = BandFor (cc_PaxCount l)
     \<and> cc_Status l \<in> {CR_PLANNED, CR_CONFIRMED, CR_ARRIVED, CR_COMPLETED, CR_CANCELLED}
     \<and> (cc_TenantID l, cq_PortCallID (cc_Request l)) \<in> call_names (cruise_ports d)"

definition tender_ok :: "crdb \<Rightarrow> TenderAllocation \<Rightarrow> bool" where
  "tender_ok d x \<longleftrightarrow> ta_WindowStart x < ta_WindowEnd x \<and> (\<exists>l\<in>set (cruise_calls d). cc_CallID l = ta_CallID x \<and> cc_TenantID l = ta_TenantID x)"

definition berths_apart :: "TenderAllocation list \<Rightarrow> bool" where
  "berths_apart = sorted_wrt (\<lambda>a b. \<not> (ta_CallID a = ta_CallID b \<and> ta_BerthCode a = ta_BerthCode b \<and> tender_overlap a b))"

definition crinv :: "crdb \<Rightarrow> bool" where
  "crinv d \<longleftrightarrow> distinct (map cc_CallID (cruise_calls d)) \<and> (\<forall>l\<in>set (cruise_calls d). cruise_call_ok d l)
     \<and> (\<forall>x\<in>set (cruise_tender_allocations d). tender_ok d x) \<and> berths_apart (cruise_tender_allocations d)"

lemma valid_listed: "cruise_ValidTransition s s' \<Longrightarrow> s' \<in> {CR_PLANNED, CR_CONFIRMED, CR_ARRIVED, CR_COMPLETED, CR_CANCELLED}"
  by (cases s) auto

lemma crinv_swap:
  assumes "crinv d" and "l \<in> set (cruise_calls d)" and "cc_CallID l' = cc_CallID l" and "cc_TenantID l' = cc_TenantID l"
    and "cruise_call_ok d l \<Longrightarrow> cruise_call_ok d l'"
  shows "crinv (d\<lparr>cruise_calls := swap_row l l' (cruise_calls d), cruise_outbox := os\<rparr>)"
  using assms by (fastforce simp: crinv_def map_swap_row set_swap_row cruise_call_ok_def tender_ok_def)

lemma cruise_change_inv:
  assumes "cruise_change d d'" and "crinv d"
  shows "crinv d'"
  using assms
proof (induction rule: cruise_change.induct)
  case (same d pd td)
  then show ?case by (auto simp: crinv_def cruise_call_ok_def tender_ok_def)
next
  case (call r tid d key now os)
  have "0 < cq_PaxCount r" using call(1) by (auto simp: cruise_Validate_def bindE_Inr_iff)
  with call show ?case by (auto simp: crinv_def cruise_call_ok_def tender_ok_def new_cruise_call_def)
next
  case (move l d "next" now os)
  then show ?case using valid_listed [OF move(2)] by (intro crinv_swap) (simp_all add: cruise_call_ok_def)
next
  case (count l d n now os)
  then show ?case by (intro crinv_swap) (simp_all add: cruise_call_ok_def)
next
  case (excursion l d n i key name operator by1 now os)
  then show ?case by (simp add: crinv_def cruise_call_ok_def tender_ok_def)
next
  case (tender l d w1 w2 x i key terminal berth by1 now os)
  have x: "ta_CallID x = cc_CallID l" "ta_TenantID x = cc_TenantID l" "ta_WindowStart x < ta_WindowEnd x"
    using tender(3) by (simp_all add: tender(4) new_tender_def)
  have "\<not> (ta_CallID y = ta_CallID x \<and> ta_BerthCode y = ta_BerthCode x \<and> tender_overlap y x)" if "y \<in> set (cruise_tender_allocations d)" for y
    using tender(5) that by (auto simp: tender_excluded_def list_ex_iff)
  with tender(1,6) x show ?case by (auto simp: crinv_def cruise_call_ok_def tender_ok_def berths_apart_def sorted_wrt_append)
qed

lemma cruise_reachable_inv: "cruise_reachable d \<Longrightarrow> crinv d"
proof (induction rule: cruise_reachable.induct)
  case init
  show ?case by (simp add: crinv_def empty_crdb_def berths_apart_def)
next
  case (step d d')
  then show ?case using cruise_step_change [OF step.hyps(2)] cruise_change_inv by (simp add: crinv_def)
qed

text \<open>Dues.\<close>

definition cruise_facts :: "Claims \<Rightarrow> crdb \<Rightarrow> string \<Rightarrow> Facts result" where
  "cruise_facts claims d k = bindE (cruise_getForUpdate claims d k) (\<lambda>call. Inr \<lparr>f_GrossTonnage = 0, f_CargoTonnes = 0, f_Passengers = cc_PaxCount call\<rparr>)"

interpretation cfee: tariff_client cruise_facts cruise_tariff "\<lambda>td. cruise_tariff_update (\<lambda>_. td)" DomainCruiseDues cr_revenue AssessDues_work
  by unfold_locales
     (auto simp: AssessDues_work_def cruise_facts_def cruise_getForUpdate_def find_cruise_def bindE_Inr_iff Let_def split: prod.splits)

lemma cruise_reachable_keys: "cruise_reachable d \<Longrightarrow> tariff_keys (cruise_tariff d)"
proof (induction rule: cruise_reachable.induct)
  case init
  show ?case by (simp add: empty_crdb_def tariff_keys_def)
next
  case (step d d')
  from step.hyps(2) step.IH show ?case
  proof (cases rule: cruise_step.cases)
    case (AssessDues st c k key asOf pr e res4)
    with step.IH show ?thesis
      unfolding AssessDues_def by (auto split: if_splits elim!: WithTx_cases intro: cfee.charge_kept)
  next
    case (RegisterSchedule uuid_text c s e res5 td)
    with step.IH show ?thesis by (auto intro: RegisterSchedule_keys)
  qed (use step.IH in \<open>auto simp: cruise_Create_def cruise_Create_work_def cruise_Transition_def cruise_Transition_work_def UpdatePaxCount_def
      UpdatePaxCount_work_def AddExcursion_def AddExcursion_work_def AllocateTender_def AllocateTender_work_def bindE_Inr_iff Let_def
      split: if_splits sum.splits option.splits elim!: WithTx_cases dest!: cruise_emit_InrD\<close>)
qed

section \<open>Two calls in use\<close>

definition demo_creq :: "string \<Rightarrow> CruiseRequest" where
  "demo_creq k = \<lparr>cq_CallID = k, cq_PortCallID = ''call-1'', cq_CruiseLine = ''Line'', cq_VesselName = ''Wave'', cq_PaxCount = 600, cq_CreatedBy = ''agent''\<rparr>"

definition demo_crstore :: crstore where
  "demo_crstore = \<lparr>cr_signer = Some (\<lambda>_. Inr ''sig''), cr_revenue = Some (\<lambda>_. Inr ''sig'')\<rparr>"

definition demo_c0 :: crdb where "demo_c0 = empty_crdb\<lparr>cruise_ports := demo_p2\<rparr>"
definition demo_c1 :: crdb where "demo_c1 = snd (cruise_Create demo_crstore demo_ctx ''k1'' (demo_creq ''C1'') demo_pr (demo_env 1 ''a'') demo_c0)"
definition demo_c2 :: crdb where "demo_c2 = snd (cruise_Create demo_crstore demo_ctx ''k2'' (demo_creq ''C2'') demo_pr (demo_env 2 ''b'') demo_c1)"
definition demo_c3 :: crdb where
  "demo_c3 = snd (AllocateTender demo_crstore demo_ctx ''C1'' ''t1'' ''TEND'' ''B1'' 100 200 demo_pr (demo_env 3 ''c'') demo_c2)"
definition demo_c4 :: crdb where
  "demo_c4 = snd (AllocateTender demo_crstore demo_ctx ''C2'' ''t2'' ''TEND'' ''B1'' 150 250 demo_pr (demo_env 4 ''d'') demo_c3)"

lemma cruise_over_ports: "call_reachable p \<Longrightarrow> cruise_reachable (empty_crdb\<lparr>cruise_ports := p\<rparr>)"
proof (induction rule: call_reachable.induct)
  case init
  have "empty_crdb\<lparr>cruise_ports := empty_pdb\<rparr> = empty_crdb" by (simp add: empty_crdb_def)
  then show ?case using cruise_reachable.init by simp
next
  case (step p p')
  from cruise_reachable.step [OF step.IH cruise_step.PortCall] step.hyps(2) show ?case by fastforce
qed

lemma demo_c_reachable: "cruise_reachable demo_c4"
proof -
  have 0: "cruise_reachable demo_c0" unfolding demo_c0_def by (rule cruise_over_ports [OF demo_p_reachable(2)])
  have 1: "cruise_reachable demo_c1" by (rule cruise_reachable.step [OF 0]) (rule cruise_step.Create, simp add: demo_c1_def prod_eq_iff)
  have 2: "cruise_reachable demo_c2" by (rule cruise_reachable.step [OF 1]) (rule cruise_step.Create, simp add: demo_c2_def prod_eq_iff)
  have 3: "cruise_reachable demo_c3" by (rule cruise_reachable.step [OF 2]) (rule cruise_step.AllocateTender, simp add: demo_c3_def prod_eq_iff)
  show ?thesis by (rule cruise_reachable.step [OF 3]) (rule cruise_step.AllocateTender, simp add: demo_c4_def prod_eq_iff)
qed

definition demo_crstate :: "crdb \<Rightarrow> CruiseCall list \<Rightarrow> TenderAllocation list \<Rightarrow> string list \<Rightarrow> bool" where
  "demo_crstate d ls xs ids \<longleftrightarrow> cruise_calls d = ls \<and> cruise_tender_allocations d = xs \<and> map ox_EventID (cruise_outbox d) = ids \<and> cruise_ports d = demo_p2"

lemma demo_cemit:
  assumes "rnd e 1 \<notin> set (map ox_EventID (cruise_outbox d))" and "TrimSpace ty \<noteq> []" and "TrimSpace corr \<noteq> []" and "TrimSpace sub \<noteq> []"
    and "list_all (\<lambda>k. TrimSpace k \<noteq> []) (map fst ext)"
  shows "\<exists>x. cruise_emit demo_crstore demo_claims ty corr sub p ext demo_pr at e d = Inr (d\<lparr>cruise_outbox := cruise_outbox d @ [x]\<rparr>) \<and> ox_EventID x = rnd e 1"
proof -
  have "\<exists>x. emit_event demo_claims TopicCruise ty corr sub p ext demo_pr at (cr_signer demo_crstore) e (cruise_outbox d) = Inr (cruise_outbox d @ [x])
      \<and> ox_EventID x = rnd e 1"
    by (rule emit_event_ok [where sign = "\<lambda>_. Inr ''sig''"]) (use assms in \<open>auto simp: TopicCruise_def validTopic_def go_simps demo_crstore_def\<close>)
  then show ?thesis by (auto simp: cruise_emit_def)
qed

definition demo_cc :: "string \<Rightarrow> string \<Rightarrow> time \<Rightarrow> CruiseCall" where
  "demo_cc k key t = new_cruise_call ''tenant-demo'' key (demo_creq k) t"

lemma demo_cc_simps [simp]: "cc_Request (demo_cc k key t) = demo_creq k" "cc_TenantID (demo_cc k key t) = ''tenant-demo''"
  "cc_IdempotencyKey (demo_cc k key t) = key" "cq_CallID (demo_creq k) = k" "cq_PaxCount (demo_creq k) = 600" "cq_PortCallID (demo_creq k) = ''call-1''"
  "call_closed (demo_cc k key t) = False"
  by (simp_all add: demo_cc_def new_cruise_call_def demo_creq_def call_closed_def)

lemma demo_c_regex: "match_regex callIDPattern ''C1''" "match_regex callIDPattern ''C2''"
  by (simp_all add: callIDPattern_def match_regex_single is_call_char_def is_letter_def go_simps del: match_regex.simps)

lemma demo_c_create:
  assumes s: "demo_crstate d ls xs ids" and k: "k = ''C1'' \<and> key = ''k1'' \<or> k = ''C2'' \<and> key = ''k2''" and i: "i @ ''x'' \<notin> set ids"
    and new: "\<forall>l\<in>set ls. cc_IdempotencyKey l \<noteq> key \<and> cc_CallID l \<noteq> k"
  shows "demo_crstate (snd (cruise_Create demo_crstore demo_ctx key (demo_creq k) demo_pr (demo_env t i) d)) (ls @ [demo_cc k key t]) xs (ids @ [i @ ''x''])"
proof -
  let ?l = "demo_cc k key t" and ?d = "d\<lparr>cruise_calls := ls @ [demo_cc k key t]\<rparr>"
  have v: "cruise_Validate (demo_creq k) = Inr ()"
    using k demo_c_regex by (auto simp: cruise_Validate_def) (auto simp: demo_creq_def offshore_canonical_def go_simps)
  have p: "find_call ''tenant-demo'' (cruise_ports d) ''call-1'' \<noteq> None" using s demo_p2_state by (simp add: demo_crstate_def demo_state_def find_call_def)
  have chk: "cruise_calls_check ?l" by (simp add: cruise_calls_check_def) (simp add: demo_creq_def person_length_def go_simps)
  have fresh: "i @ ''x'' \<notin> ox_EventID ` set (cruise_outbox d)" using s i by (auto simp: demo_crstate_def)
  have vis: "TrimSpace k \<noteq> []" "TrimSpace key \<noteq> []" "key \<noteq> []" "length key \<le> 256" using k by (auto simp: go_simps)
  have "\<exists>x. cruise_emit demo_crstore demo_claims ''cruise.call_registered'' key k (CruisePayload ?l)
      [(''pax-band'', band_text (cc_PaxBand ?l)), (''port-call-id'', ''call-1'')] demo_pr t (demo_env t i) ?d
      = Inr (?d\<lparr>cruise_outbox := cruise_outbox d @ [x]\<rparr>) \<and> ox_EventID x = i @ ''x''"
    using demo_cemit [where e = "demo_env t i" and d = ?d] fresh vis by (simp add: go_simps)
  then obtain x where em: "cruise_emit demo_crstore demo_claims ''cruise.call_registered'' key k (CruisePayload ?l)
      [(''pax-band'', band_text (cc_PaxBand ?l)), (''port-call-id'', ''call-1'')] demo_pr t (demo_env t i) ?d
      = Inr (?d\<lparr>cruise_outbox := cruise_outbox d @ [x]\<rparr>)" and x: "ox_EventID x = i @ ''x''" by blast
  have n: "\<not> list_ex (\<lambda>l. cc_IdempotencyKey l = key) (cruise_calls d)" "\<not> list_ex (\<lambda>l. cc_CallID l = k) (cruise_calls d)" "cruise_calls d = ls"
    using new s by (auto simp: demo_crstate_def list_ex_iff)
  have "cruise_Create_work demo_crstore key (demo_creq k) demo_pr (demo_env t i) demo_claims d = Inr (?l, ?d\<lparr>cruise_outbox := cruise_outbox d @ [x]\<rparr>)"
    using p em n(1,2) chk by (simp add: cruise_Create_work_def int4_def max_int4_def Let_def demo_cc_def [symmetric] n(3))
  then have "snd (cruise_Create demo_crstore demo_ctx key (demo_creq k) demo_pr (demo_env t i) d) = ?d\<lparr>cruise_outbox := cruise_outbox d @ [x]\<rparr>"
    using vis v by (simp add: cruise_Create_def WithTx_demo)
  with s x show ?thesis by (simp add: demo_crstate_def)
qed

lemma demo_c_tender:
  assumes s: "demo_crstate d ls xs ids" and k: "k = ''C1'' \<and> key = ''t1'' \<or> k = ''C2'' \<and> key = ''t2''" and i: "i @ ''xx'' \<notin> set ids"
    and l: "find_cruise ''tenant-demo'' d k = Some (demo_cc k key2 t2)" and w: "0 < w1" "w1 < w2"
    and new: "\<forall>x\<in>set xs. ta_IdempotencyKey x \<noteq> key \<and> ta_AllocationID x \<noteq> i \<and> ta_CallID x \<noteq> k"
  shows "demo_crstate (snd (AllocateTender demo_crstore demo_ctx k key ''TEND'' ''B1'' w1 w2 demo_pr (demo_env t i) d)) ls
    (xs @ [new_tender i ''tenant-demo'' k key ''TEND'' ''B1'' w1 w2 ''clerk'' t]) (ids @ [i @ ''xx''])"
proof -
  let ?y = "new_tender i ''tenant-demo'' k key ''TEND'' ''B1'' w1 w2 ''clerk'' t"
  let ?d = "d\<lparr>cruise_tender_allocations := xs @ [?y]\<rparr>"
  have fresh: "i @ ''xx'' \<notin> ox_EventID ` set (cruise_outbox d)" using s i by (auto simp: demo_crstate_def)
  have vis: "TrimSpace k \<noteq> []" "TrimSpace key \<noteq> []" "key \<noteq> []" "length key \<le> 256" "match_regex callIDPattern k" using k demo_c_regex by (auto simp: go_simps)
  have "\<exists>x. cruise_emit demo_crstore demo_claims ''cruise.tender_allocated'' key k (TenderPayload ?y)
      [(''terminal-code'', ''TEND''), (''berth-code'', ''B1'')] demo_pr t (later 0 1 (demo_env t i)) ?d
      = Inr (?d\<lparr>cruise_outbox := cruise_outbox d @ [x]\<rparr>) \<and> ox_EventID x = i @ ''xx''"
    using demo_cemit [where e = "later 0 1 (demo_env t i)" and d = ?d] fresh vis(1,2) by (simp add: go_simps numeral_2_eq_2)
  then obtain x where em: "cruise_emit demo_crstore demo_claims ''cruise.tender_allocated'' key k (TenderPayload ?y)
      [(''terminal-code'', ''TEND''), (''berth-code'', ''B1'')] demo_pr t (later 0 1 (demo_env t i)) ?d
      = Inr (?d\<lparr>cruise_outbox := cruise_outbox d @ [x]\<rparr>)" and x: "ox_EventID x = i @ ''xx''" by blast
  have ex: "\<not> tender_excluded d ?y" "\<not> list_ex (\<lambda>x. ta_IdempotencyKey x = key) xs" "\<not> list_ex (\<lambda>x. ta_AllocationID x = i) xs"
    "cruise_tender_allocations d = xs" "person_length ''clerk''" "ta_AllocationID ?y = i"
    using new s by (auto simp: demo_crstate_def tender_excluded_def list_ex_iff person_length_def new_tender_def go_simps)
  have "AllocateTender_work demo_crstore k key ''TEND'' ''B1'' w1 w2 demo_pr (demo_env t i) demo_claims d
      = Inr (?y, ?d\<lparr>cruise_outbox := cruise_outbox d @ [x]\<rparr>)"
    using l em ex by (simp add: AllocateTender_work_def cruise_getForUpdate_def Let_def)
  moreover have "match_regex offshore_terminalPattern ''TEND''" "match_regex berthPattern ''B1''"
    by (simp_all add: offshore_terminalPattern_def berthPattern_def match_regex_single go_simps del: match_regex.simps)
  ultimately have "snd (AllocateTender demo_crstore demo_ctx k key ''TEND'' ''B1'' w1 w2 demo_pr (demo_env t i) d) = ?d\<lparr>cruise_outbox := cruise_outbox d @ [x]\<rparr>"
    using vis w by (simp add: AllocateTender_def WithTx_demo zero_time_def)
  with s x show ?thesis by (simp add: demo_crstate_def)
qed

lemma demo_c4_state:
  "demo_crstate demo_c4 [demo_cc ''C1'' ''k1'' 1, demo_cc ''C2'' ''k2'' 2]
     [new_tender ''c'' ''tenant-demo'' ''C1'' ''t1'' ''TEND'' ''B1'' 100 200 ''clerk'' 3, new_tender ''d'' ''tenant-demo'' ''C2'' ''t2'' ''TEND'' ''B1'' 150 250 ''clerk'' 4]
     [''ax'', ''bx'', ''cxx'', ''dxx'']"
proof -
  let ?ls = "[demo_cc ''C1'' ''k1'' 1, demo_cc ''C2'' ''k2'' 2]"
  have 0: "demo_crstate demo_c0 [] [] []" by (simp add: demo_crstate_def demo_c0_def empty_crdb_def)
  have 1: "demo_crstate demo_c1 [demo_cc ''C1'' ''k1'' 1] [] [''ax'']"
    using demo_c_create [OF 0, of "''C1''" "''k1''" "''a''" 1] by (simp add: demo_c1_def)
  have 2: "demo_crstate demo_c2 ?ls [] [''ax'', ''bx'']"
    using demo_c_create [OF 1, of "''C2''" "''k2''" "''b''" 2] by (simp add: demo_c2_def)
  then have "find_cruise ''tenant-demo'' demo_c2 ''C1'' = Some (demo_cc ''C1'' ''k1'' 1)" by (simp add: find_cruise_def demo_crstate_def)
  from demo_c_tender [OF 2 _ _ this, of "''t1''" "''c''" 100 200 3]
  have 3: "demo_crstate demo_c3 ?ls [new_tender ''c'' ''tenant-demo'' ''C1'' ''t1'' ''TEND'' ''B1'' 100 200 ''clerk'' 3] [''ax'', ''bx'', ''cxx'']"
    by (simp add: demo_c3_def)
  then have "find_cruise ''tenant-demo'' demo_c3 ''C2'' = Some (demo_cc ''C2'' ''k2'' 2)" by (simp add: find_cruise_def demo_crstate_def)
  from demo_c_tender [OF 3 _ _ this, of "''t2''" "''d''" 150 250 4] show ?thesis by (simp add: demo_c4_def new_tender_def)
qed

section \<open>Guarantees\<close>

text \<open>
  Claim C29. In every reachable state a cruise call carries between 1 and 2147483647 passengers in the
  band that \<open>BandFor\<close> gives for their number, is in one of the five states, and extends a port call
  of its own tenant that exists; every tender window is not empty and belongs to a call of its
  tenant; and no instant lies in two windows that one call holds on the same berth.
\<close>

theorem cruise_calls_consistent:
  assumes "cruise_reachable d"
  shows "(\<forall>l\<in>set (cruise_calls d). cruise_call_ok d l) \<and> (\<forall>x\<in>set (cruise_tender_allocations d). tender_ok d x)
    \<and> (\<forall>i j t. i < j \<and> j < length (cruise_tender_allocations d)
        \<and> ta_CallID (cruise_tender_allocations d ! i) = ta_CallID (cruise_tender_allocations d ! j)
        \<and> ta_BerthCode (cruise_tender_allocations d ! i) = ta_BerthCode (cruise_tender_allocations d ! j) \<longrightarrow>
        \<not> (ta_WindowStart (cruise_tender_allocations d ! i) \<le> t \<and> t < ta_WindowEnd (cruise_tender_allocations d ! i)
          \<and> ta_WindowStart (cruise_tender_allocations d ! j) \<le> t \<and> t < ta_WindowEnd (cruise_tender_allocations d ! j)))"
  using cruise_reachable_inv [OF assms]
  by (fastforce simp: crinv_def berths_apart_def sorted_wrt_iff_nth_less tender_overlap_def)

theorem cruise_calls_consistent_witness:
  "cruise_call_ok demo_c4 (demo_cc ''C1'' ''k1'' 1) \<and> tender_ok demo_c4 (new_tender ''d'' ''tenant-demo'' ''C2'' ''t2'' ''TEND'' ''B1'' 150 250 ''clerk'' 4)"
  using cruise_calls_consistent [OF demo_c_reachable] demo_c4_state by (simp add: demo_crstate_def)

text \<open>
  One berth does not serve one call at a time: the exclusion constraint also compares the call,
  so two calls can hold the same berth of a terminal at the same instant.
\<close>

theorem tender_berth_shared:
  "\<exists>d. cruise_reachable d \<and> (\<exists>a\<in>set (cruise_tender_allocations d). \<exists>b\<in>set (cruise_tender_allocations d).
     ta_CallID a \<noteq> ta_CallID b \<and> ta_TerminalCode a = ta_TerminalCode b \<and> ta_BerthCode a = ta_BerthCode b \<and> tender_overlap a b)"
  using demo_c_reachable demo_c4_state by (intro exI [of _ demo_c4]) (simp add: demo_crstate_def new_tender_def tender_overlap_def)

text \<open>
  Passenger dues are the tariff's for the passenger count of the call, and a key is charged once.
\<close>

theorem AssessDues_charges_once:
  assumes "cruise_reachable d" and "ctx_claims c = Some claims" and "AssessDues st c k key asOf pr e d = (Inr a, d')"
  shows "(\<exists>l. find_cruise (TenantID claims) d k = Some l
      \<and> fee_for (cruise_tariff d) (TenantID claims) DomainCruiseDues \<lparr>f_GrossTonnage = 0, f_CargoTonnes = 0, f_Passengers = cc_PaxCount l\<rparr> asOf
        = Inr (as_ScheduleID a, as_LineItems a, as_TotalMinor a))
    \<and> (\<forall>st2 k2 asOf2 pr2 e2. case AssessDues st2 c k2 key asOf2 pr2 e2 d' of
        (res, d2) \<Rightarrow> d2 = d' \<and> (\<forall>a2. res = Inr a2 \<longrightarrow> as_AssessmentID a2 = as_AssessmentID a \<and> as_TotalMinor a2 = as_TotalMinor a))"
proof -
  note keys = cruise_reachable_keys [OF assms(1)]
  from assms(2,3) have w: "AssessDues_work st k key asOf pr e claims d = Inr (a, d')"
    unfolding AssessDues_def by (auto split: if_splits dest!: WithTx_InrD)
  have "d2 = d' \<and> (\<forall>a2. res = Inr a2 \<longrightarrow> as_AssessmentID a2 = as_AssessmentID a \<and> as_TotalMinor a2 = as_TotalMinor a)"
    if "AssessDues st2 c k2 key asOf2 pr2 e2 d' = (res, d2)" for st2 k2 asOf2 pr2 e2 res d2
    using that assms(2) cfee.charged_once [OF keys w] unfolding AssessDues_def by (auto split: if_splits elim!: WithTx_cases)
  moreover from cfee.charged [OF keys w] obtain l where "find_cruise (TenantID claims) d k = Some l"
    and "fee_for (cruise_tariff d) (TenantID claims) DomainCruiseDues \<lparr>f_GrossTonnage = 0, f_CargoTonnes = 0, f_Passengers = cc_PaxCount l\<rparr> asOf
      = Inr (as_ScheduleID a, as_LineItems a, as_TotalMinor a)" by (auto simp: cruise_facts_def bindE_Inr_iff)
  ultimately show ?thesis by blast
qed

text \<open>
  The retained call is compared as it is now: once the passenger count was corrected, the request
  the call was made of is refused under its own key.
\<close>

theorem corrected_count_blocks_replay:
  assumes "find (\<lambda>l. cc_TenantID l = TenantID claims \<and> cc_IdempotencyKey l = key) (cruise_calls d) = Some l" and "cc_PaxCount l \<noteq> cq_PaxCount r"
    and "find_call (TenantID claims) (cruise_ports d) (cq_PortCallID r) \<noteq> None" and "cq_PaxCount r \<le> max_int4"
    and "cruise_calls_check (new_cruise_call (TenantID claims) key r (clk e 0))"
  shows "cruise_Create_work st key r pr e claims d = Inl (ErrIdempotencyConflict Cruise)"
proof -
  have "list_ex (\<lambda>l. cc_IdempotencyKey l = key) (cruise_calls d)" using find_SomeD [OF assms(1)] by (auto simp: list_ex_iff)
  moreover have "\<not> cruise_Matches l r" using assms(2) by (auto simp: cruise_Matches_def)
  ultimately show ?thesis using assms by (simp add: cruise_Create_work_def Let_def int4_def)
qed

end
