(* ===== verification/Spec2Isabelle.thy ===== *)
theory Spec2Isabelle
  imports Prelude Identifiers Tenant Events Booking_Model Queue_Model Database Sha256 Ledger Versioned Customs Go_Format Scenario Queue_Properties Booking_Properties Workflows Sweeper Directory Tariff Tariff_Store Payments Http_Booking Http_Queue Ussd Portcall_Properties
    Declarations_Properties Scorer Securechain_Properties Offshore_Properties Cruise_Properties
begin

text \<open>
  A verification library for the Nigerian port interoperability service
  (the Go module under \<^verbatim>\<open>src/\<close>).

  \<^bold>\<open>The program.\<close> Truckers book slots at port terminals, pay, are cross-checked by
  customs and admitted at the gate (\<^verbatim>\<open>internal/booking\<close>); trucks without a slot wait in
  a call-up queue per terminal (\<^verbatim>\<open>internal/queue\<close>). Both stores keep their rows in
  PostgreSQL tables whose checks, unique indexes and triggers
  (\<^verbatim>\<open>db/migrations\<close>) are part of the behaviour; every operation runs in one
  tenant-bound transaction (\<^verbatim>\<open>internal/tenantdb\<close>, \<^verbatim>\<open>internal/tenantctx\<close>) and appends signed
  event envelopes to an outbox (\<^verbatim>\<open>internal/events\<close>). A closed booking releases slot
  capacity to the queue store and, when paid, posts a refund to the settlement ledger
  (\<^verbatim>\<open>internal/ledger\<close>). Temporal workflows supervise one booking or one call-up each, and
  a sweeper serves every tenant in turn. USSD phones reach the stores through narrow
  directories.

  \<^bold>\<open>Theories and sources.\<close>
  \<^item> \<open>Prelude\<close>: Go's integers, strings, regular expressions and errors; tables as lists of
    rows. \<open>Go_Format\<close>: decimal and RFC 3339 printing. \<open>Sha256\<close>: the hash the ledger derives
    ids with, checked on its standard test vectors.
  \<^item> \<open>Identifiers\<close>: \<^verbatim>\<open>internal/containerid\<close>, \<^verbatim>\<open>imonumber\<close>, \<^verbatim>\<open>mmsinumber\<close>.
  \<^item> \<open>Tenant\<close>: \<^verbatim>\<open>tenantctx/tenant.go\<close> and \<^verbatim>\<open>tenantdb.go\<close>; \<open>WithTx\<close> runs a closure on the
    database and keeps its result only when it succeeds and commits, \<open>WithTxW\<close> does the same
    for code that also talks to a world outside the database (the ledger), whose effects a
    rollback does not undo.
  \<^item> \<open>Events\<close>: \<^verbatim>\<open>events/envelope.go\<close>; the signer is an argument, supplied by \<open>Signing\<close>.
  \<^item> \<open>Booking_Model\<close>, \<open>Queue_Model\<close>: rows, statuses, transitions and request validation of
    \<^verbatim>\<open>booking/model.go\<close> and \<^verbatim>\<open>queue/model.go\<close>. \<open>Database\<close>: the state record \<open>db\<close>, its table
    checks, unique indexes and capacity triggers.
  \<^item> \<open>Ledger\<close>: \<^verbatim>\<open>ledger/ledger.go\<close>; the TigerBeetle client is a parameter and
    \<open>tigerbeetle_contract\<close> states what its documentation promises (ids post once, nothing
    is taken back, only submitted transfers appear). \<open>Customs\<close>: \<^verbatim>\<open>customs/customs.go\<close>.
  \<^item> \<open>Booking_Store\<close>, \<open>Queue_Store\<close>: every operation of \<^verbatim>\<open>booking/store.go\<close> and
    \<^verbatim>\<open>queue/store.go\<close> under its Go name (\<open>queue_\<close> where both have one); the closure of a
    transaction is a definition of its own (\<open>_work\<close>, or the name of the Go helper).
  \<^item> \<open>Versioned\<close>, \<open>Writes\<close>: the abstract specification. A table of versioned rows evolves by
    listed transitions of one tenant's rows; \<open>db_write\<close> lists the atomic writes the stores may
    perform and the conditions of each, and \<open>db_inv\<close> is kept by every one.
  \<^item> \<open>Booking_Correct\<close>, \<open>Queue_Correct\<close>: the refinement, each operation is a sequence of such
    writes. The locales \<open>capacity_listener\<close>, \<open>refund_rail\<close> and \<open>booking_store\<close> are the
    interfaces between the stores and the ledger, interpreted on the queue store, the ledger
    and the wired store.
  \<^item> \<open>System\<close>: the wiring of \<^verbatim>\<open>cmd/port-interoperability/main.go\<close>, all operations as one step
    relation \<open>op_step\<close> and the states it can reach. \<open>Scenario\<close>: concrete runs the witnesses
    use.
  \<^item> \<open>Booking_Properties\<close>, \<open>Queue_Properties\<close>: the contract of each operation.
  \<^item> \<open>Workflows\<close>, \<open>Sweeper\<close>: \<^verbatim>\<open>booking/workflow.go\<close>, \<^verbatim>\<open>queue/workflow.go\<close>, \<^verbatim>\<open>queue/sweeper.go\<close>.
    A workflow is kept at its next blocking point; a step is a selector firing (signal or
    timer), an attempt of the pending activity, or any operation of anyone else.
  \<^item> \<open>Directory\<close>: \<^verbatim>\<open>booking/directory.go\<close>, \<^verbatim>\<open>queue/directory.go\<close>.
  \<^item> \<open>Tariff\<close>, \<open>Tariff_Store\<close>: \<^verbatim>\<open>internal/tariff\<close> (fee schedules, assessments) and its tables; \<open>Compute\<close>
    against exact arithmetic, registration and loading, assessments recorded once.
  \<^item> \<open>Payments\<close>: \<^verbatim>\<open>internal/payments/mojaloop.go\<close>; naira texts both ways, what counts as a settled transfer.
  \<^item> \<open>Http_Booking\<close>, \<open>Http_Queue\<close>: the handlers of \<^verbatim>\<open>internal/server/booking.go\<close> and \<^verbatim>\<open>queue.go\<close> with the
    roles of \<^verbatim>\<open>auth.go\<close>; who may do what, nothing paid unverified, no call-up unsupervised.
  \<^item> \<open>Ussd\<close>: \<^verbatim>\<open>internal/ussd/handler.go\<close>; canonical numbers, private status replies.
  \<^item> \<open>Portcall\<close>, \<open>Portcall_Store\<close>, \<open>Portcall_Correct\<close>, \<open>Portcall_Properties\<close>: \<^verbatim>\<open>internal/portcall\<close>; the tables
    keep one decision per call with its trail, and the store refines a life cycle through the
    locale \<open>lifecycle_refinement\<close> of \<open>Refinement\<close>.
  \<^item> \<open>Outbox\<close>, \<open>Json\<close>: the outbox row and the JSON texts that the packages below share.
  \<^item> \<open>Declarations\<close>, \<open>Declarations_Store\<close>, \<open>Scorer\<close>, \<open>Declarations_Correct\<close>, \<open>Declarations_Properties\<close>:
    \<^verbatim>\<open>internal/declarations\<close> and \<^verbatim>\<open>internal/customs/local.go\<close>; exact duty, lanes, revisions in a chain, a
    certificate for exactly the cleared ones, scoring that fails closed and ends.
  \<^item> \<open>Base64\<close>, \<open>Json_Decode\<close>: the decoders of Go's standard library that the packages below use, with
    their round trips; the JSON parser runs on fuel and the length of the text is enough.
  \<^item> \<open>Signing\<close>: \<^verbatim>\<open>internal/events/signing.go\<close>; keys in five encodings, JWS signatures that verify and fix
    the canonical payload. Ed25519 and JSON canonicalisation are parameters (\<open>crypto\<close>) with their contracts.
  \<^item> \<open>Securechain\<close>, \<open>Securechain_Store\<close>: \<^verbatim>\<open>internal/securechain\<close> and its tables. \<open>Securechain_Correct\<close>: every
    operation is a sequence of listed steps of the chain, link and token tables (\<open>table_step\<close>) beside a growing
    audit ledger. \<open>Securechain_Invariant\<close>: both stay sound in every reachable state; the locale
    \<open>kept_relation\<close> carries what every step keeps over whole runs. \<open>Securechain_Scenario\<close>: a concrete run.
    \<open>Securechain_Properties\<close>: custody, one release, who gets a token, the hold, the audit trail, and through the
    locale \<open>release_gate\<close> what the booking store gains from the release check.
  \<^item> \<open>Offshore\<close>, \<open>Tariff_Client\<close>, \<open>Offshore_Properties\<close>: \<^verbatim>\<open>internal/offshore\<close>; the mooring-master workflow, events that
    come late enough, and through the locale \<open>tariff_client\<close> fees that are the tariff's and charged once.
  \<^item> \<open>Cruise\<close>, \<open>Cruise_Properties\<close>: \<^verbatim>\<open>internal/cruise\<close> over port calls and tariff; bands follow counts, tender windows
    of a call stay apart, dues through the same locale.

  \<^bold>\<open>What is shown.\<close> This theory: capacity, gate safety, payment receipts, tenant isolation and
  the state machines in every reachable state. The component theories: the functional
  behaviour of the operations on success and on error, idempotent retries, refunds and
  settlements that mirror each other, completeness of the sweeps, check digits, and for containers the
  release chain: custody, a single release and an audit trail that verifies.

  \<^bold>\<open>Choices.\<close> The clock, fresh identifiers and transaction failures of an operation come from its
  environment argument (\<open>env\<close>, \<open>ctx\<close>), so a statement over all of them covers every run.
  \<open>FOR UPDATE SKIP LOCKED\<close> is a choice \<open>pick\<close> among the due rows. No loop of the source
  runs on fuel: each recurs on a list or has a termination proof (the JSON parser of the standard
  library does, with a proof that its fuel is enough).
  Operations are serialised: each is one transaction under the row locks the source takes.

  \<^bold>\<open>Not modelled.\<close> Network and driver glue (connection pools, HTTP and gRPC clients, JSON
  decoding, telemetry, process start-up), cryptography from other modules (JWT, RSA, Ed25519),
  Temporal's replay and the database's isolation below the level of a transaction.
  The components that are not in a theory here are listed with their reason in the manifest.
\<close>

section \<open>What holds in every reachable state\<close>

text \<open>
  Claim C1. A slot is never overbooked: in every state the wired system reaches,
  by any interleaving of any operations of any tenants, the bookings that hold
  capacity in a slot (SLOT_RESERVED, PAID, VALIDATION_PENDING, GATE_APPROVED) are
  at most the slot's capacity.
\<close>

theorem slot_never_overbooked:
  assumes "wire signer verifier client bps grace = Inr (bs, qs)" and "reachable bs qs (d, w)"
    and "s \<in> set (terminal_slots d)"
  shows "count_rows (in_slot (s_SlotID s)) (truck_bookings d) \<le> s_Capacity s"
  using wire_reachable_inv [OF assms(1,2)] assms(3) by (simp add: db_inv_def capacity_ok_def)

theorem slot_never_overbooked_witness:
  "count_rows (in_slot ''slot'') (truck_bookings demo4) \<le> 1 \<and> 0 < count_rows (in_slot ''slot'') (truck_bookings demo4)"
proof -
  have "count_rows (in_slot (s_SlotID demo_slot)) (truck_bookings demo4) \<le> s_Capacity demo_slot"
    by (rule slot_never_overbooked [OF demo_wire demo_run(4)]) simp
  then show ?thesis by (simp add: demo_slot_def in_slot_def holds_capacity_def)
qed

text \<open>
  Claim C2. Nothing passes the gate unpaid or uncleared: in every reachable state a
  booking that is GATE_APPROVED or COMPLETED carries the receipt of a completed
  payment intent of its own, has an approved scan taken inside the window of its
  own slot, and, if it references a cargo declaration, has a MATCH validation of
  exactly that declaration. A COMPLETED booking also records a ledger hash.
\<close>

theorem gate_approval_sound:
  assumes "wire signer verifier client bps grace = Inr (bs, qs)" and "reachable bs qs (d, w)"
    and "b \<in> set (truck_bookings d)" and "b_Status b = B_GATE_APPROVED \<or> b_Status b = B_COMPLETED"
  shows "(\<exists>i\<in>set (booking_payment_intents d). i_BookingID i = b_BookingID b \<and> i_TenantID i = b_TenantID b
            \<and> i_Status i = ''COMPLETED'' \<and> b_PaymentReceiptRef b = Some (i_MojaloopTxRef i))
    \<and> (\<exists>g\<in>set (gate_scans d). \<exists>s\<in>set (terminal_slots d).
            g_BookingID g = b_BookingID b \<and> g_Decision g = ''APPROVED'' \<and> b_SlotID b = Some (s_SlotID s)
            \<and> s_StartsAt s \<le> g_ScannedAt g \<and> g_ScannedAt g \<le> s_EndsAt s)
    \<and> (b_CargoDeclarationRef b \<noteq> None \<longrightarrow> (\<exists>v\<in>set (customs_validations d). v_BookingID v = b_BookingID b
            \<and> v_Decision v = DecisionMatch \<and> b_CargoDeclarationRef b = Some (v_DeclarationRef v)))
    \<and> (b_Status b = B_COMPLETED \<longrightarrow> ledger_recorded b)"
proof -
  note inv = wire_reachable_inv [OF assms(1,2)]
  then have l: "lifecycle_ok d b" using assms(3) by (simp add: db_inv_def list_all_iff)
  have paid: "paid_stage (b_Status b)" using assms(4) by (auto simp: paid_stage_def)
  have r: "has_receipt d b" and g: "gate_cleared d b" and h: "b_Status b = B_COMPLETED \<longrightarrow> ledger_recorded b"
    using l paid assms(4) unfolding lifecycle_ok_def by blast+
  have "\<exists>v\<in>set (customs_validations d). v_BookingID v = b_BookingID b \<and> v_Decision v = DecisionMatch
      \<and> b_CargoDeclarationRef b = Some (v_DeclarationRef v)" if "b_CargoDeclarationRef b \<noteq> None"
    using g that reachable_match_ref [OF inv assms(3)] unfolding gate_cleared_def by (auto simp: customs_match_def)
  with r g h show ?thesis unfolding has_receipt_def gate_cleared_def by blast
qed

theorem gate_approval_sound_witness:
  "\<exists>i\<in>set (booking_payment_intents demo7). i_BookingID i = ''bk'' \<and> i_Status i = ''COMPLETED''"
proof -
  have "b_Status demo_gated = B_GATE_APPROVED" "b_BookingID demo_gated = ''bk''"
    by (simp_all add: demo_gated_def)
  with gate_approval_sound [OF demo_wire demo_run(7), of demo_gated] show ?thesis by auto
qed

text \<open>
  Claim C3. One receipt pays one booking, across all tenants: in every reachable
  state two bookings that carry the same payment receipt are the same booking.
\<close>

theorem receipt_pays_one_booking:
  assumes "wire signer verifier client bps grace = Inr (bs, qs)" and "reachable bs qs (d, w)"
    and "b \<in> set (truck_bookings d)" and "c \<in> set (truck_bookings d)"
    and "b_PaymentReceiptRef b = Some ref" and "b_PaymentReceiptRef c = Some ref"
  shows "b = c"
  using wire_reachable_inv [OF assms(1,2)] assms(3-6) unfolding db_inv_def receipts_ok_def by auto

theorem receipt_pays_one_booking_witness:
  "{c \<in> set (truck_bookings demo6). b_PaymentReceiptRef c = Some ''tx-1''} = {demo_paid}"
proof -
  have "demo_paid \<in> set (truck_bookings demo6)" "b_PaymentReceiptRef demo_paid = Some ''tx-1''" by simp_all
  then show ?thesis using receipt_pays_one_booking [OF demo_wire demo_run(6), of _ demo_paid "''tx-1''"] by blast
qed

text \<open>
  Claim C4. Tenants are isolated: whatever operation runs, with whatever
  arguments and outcome, every row of every table that belongs to another tenant
  is the same afterwards, in the same order.
\<close>

theorem tenants_isolated:
  assumes "wire signer verifier client bps grace = Inr (bs, qs)" and "reachable bs qs (d, w)"
    and "op_step bs qs c (d, w) (d', w')" and "ctx_claims c = Some claims" and "tid \<noteq> TenantID claims"
  shows "tenant_view tid d' = tenant_view tid d"
proof -
  have k: "keys_ok d" by (rule db_inv_keys [OF wire_reachable_inv [OF assms(1,2)]])
  have "tenant_writes c d d'" by (rule wire_step_writes [OF assms(1,3) k])
  then have "db_writes (TenantID claims) d d' \<or> db_config (TenantID claims) d d'"
    using assms(4) by (simp add: tenant_writes_def)
  then show ?thesis
  proof
    assume "db_writes (TenantID claims) d d'"
    from writes_isolated [OF this k assms(5)] show ?thesis ..
  next
    assume "db_config (TenantID claims) d d'"
    then show ?thesis using assms(5) by (rule config_isolated)
  qed
qed

theorem tenants_isolated_witness: "tenant_view ''tenant-other'' demo4 = tenant_view ''tenant-other'' demo3"
proof -
  have "op_step demo_store (demo_queue\<lparr>qs_bookings := demo_store\<rparr>) demo_ctx (demo3, []) (demo4, [])"
    by (rule op_step.ReserveSlot) (simp add: demo4_def prod_eq_iff)
  from tenants_isolated [OF demo_wire demo_run(3) this, of demo_claims "''tenant-other''"] show ?thesis by simp
qed

text \<open>
  Claim C37. Records are never lost and never leave their state machines: one
  operation takes every booking and every queue request along listed transitions
  only, keeps its identity and tenant, and leaves a booking in a final state
  (COMPLETED, CANCELLED, EXPIRED, REFUNDED) exactly as it was.
\<close>

theorem records_follow_state_machines:
  assumes "wire signer verifier client bps grace = Inr (bs, qs)" and "reachable bs qs (d, w)"
    and "op_step bs qs c (d, w) (d', w')"
  shows "(\<forall>b\<in>set (truck_bookings d). \<exists>b'\<in>set (truck_bookings d'). b_BookingID b' = b_BookingID b
            \<and> b_TenantID b' = b_TenantID b \<and> booking_ValidTransition\<^sup>*\<^sup>* (b_Status b) (b_Status b'))
    \<and> (\<forall>q\<in>set (truck_queue_requests d). \<exists>q'\<in>set (truck_queue_requests d'). q_QueueRequestID q' = q_QueueRequestID q
            \<and> q_TenantID q' = q_TenantID q \<and> queue_ValidTransition\<^sup>*\<^sup>* (q_Status q) (q_Status q'))
    \<and> (\<forall>b\<in>set (truck_bookings d). b_Status b \<in> {B_COMPLETED, B_CANCELLED, B_EXPIRED, B_REFUNDED}
            \<longrightarrow> b \<in> set (truck_bookings d'))"
proof -
  have k: "keys_ok d" by (rule db_inv_keys [OF wire_reachable_inv [OF assms(1,2)]])
  have "tenant_writes c d d'" by (rule wire_step_writes [OF assms(1,3) k])
  then obtain tid where e: "bookings_evolve tid (truck_bookings d) (truck_bookings d')"
      "queue_evolves tid (truck_queue_requests d) (truck_queue_requests d')"
    using writes_evolve [OF _ k] by (auto simp: tenant_writes_def db_config_def split: option.splits)
  have "b \<in> set (truck_bookings d')"
    if "b \<in> set (truck_bookings d)" "b_Status b \<in> {B_COMPLETED, B_CANCELLED, B_EXPIRED, B_REFUNDED}" for b
    using brows.evolves_stuck [OF e(1) that(1)] that(2) booking_terminal_stuck [of "b_Status b"]
    by (auto simp: booking_terminal_def)
  with brows.evolves_keeps [OF e(1)] qrows.evolves_keeps [OF e(2)] show ?thesis by blast
qed

theorem records_follow_state_machines_witness:
  "\<exists>b'\<in>set (truck_bookings demo7). b_BookingID b' = ''bk'' \<and> booking_ValidTransition\<^sup>*\<^sup>* B_PAID (b_Status b')"
proof -
  have "op_step demo_store (demo_queue\<lparr>qs_bookings := demo_store\<rparr>) demo_ctx (demo6, []) (demo7, [])"
    by (rule op_step.RecordGateScan) (simp add: demo7_def prod_eq_iff)
  from records_follow_state_machines [OF demo_wire demo_run(6) this] show ?thesis by simp
qed

text \<open>
  Claim C6. A terminal is never over-called: if every terminal's call-ups
  (CALLED_UP, EN_ROUTE) are within its call-up capacity before an operation, they
  are after it, provided the operation does not lower a capacity. (Lowering is
  possible: \<open>ConfigureTerminal\<close> does not look at the active call-ups.)
\<close>

theorem callups_within_capacity:
  assumes "wire signer verifier client bps grace = Inr (bs, qs)" and "reachable bs qs (d, w)"
    and "op_step bs qs c (d, w) (d', w')" and "callups_within d"
    and "\<forall>t\<in>set (port_terminals d). \<forall>t'\<in>set (port_terminals d'). t_TerminalID t' = t_TerminalID t
           \<longrightarrow> t_QueueCapacity t \<le> t_QueueCapacity t'"
  shows "\<forall>t\<in>set (port_terminals d'). count_rows (\<lambda>q. q_TenantID q = t_TenantID t \<and> in_callup (t_TerminalID t) q)
           (truck_queue_requests d') \<le> t_QueueCapacity t"
proof -
  have k: "keys_ok d" by (rule db_inv_keys [OF wire_reachable_inv [OF assms(1,2)]])
  have "tenant_writes c d d'" by (rule wire_step_writes [OF assms(1,3) k])
  then have "callups_within d'"
    using assms(4,5) callups_writes [OF _ k wire_reachable_terminals [OF assms(1,2)]] callups_config
    by (fastforce simp: tenant_writes_def split: option.splits)
  then show ?thesis by (simp add: callups_within_def active_callups_def)
qed

theorem callups_within_capacity_witness:
  "count_rows (\<lambda>q. q_TenantID q = ''tenant-demo'' \<and> in_callup ''APAPA'' q) (truck_queue_requests demo_q2) \<le> 1
   \<and> 0 < count_rows (\<lambda>q. q_TenantID q = ''tenant-demo'' \<and> in_callup ''APAPA'' q) (truck_queue_requests demo_q2)"
proof -
  have t: "port_terminals demo1 = [hd (port_terminals demo1)]" "t_TerminalID (hd (port_terminals demo1)) = ''APAPA''"
    "t_TenantID (hd (port_terminals demo1)) = ''tenant-demo''"
    by (simp_all add: demo1_eq)
  have st: "op_step demo_store demo_q demo_ctx (demo_q1, []) (demo_q2, [])"
    by (rule op_step.PromoteNext) (simp add: demo_q2_def prod_eq_iff)
  have "0 \<le> t_QueueCapacity x" if "x \<in> set (port_terminals demo1)" for x using that by (simp add: demo1_eq)
  then have w: "callups_within demo_q1"
    by (auto simp: callups_within_def active_callups_def in_callup_def called_up_def)
  have "\<forall>t\<in>set (port_terminals demo_q2).
      count_rows (\<lambda>q. q_TenantID q = t_TenantID t \<and> in_callup (t_TerminalID t) q) (truck_queue_requests demo_q2) \<le> t_QueueCapacity t"
    by (rule callups_within_capacity [OF demo_wire demo_queue_run(1) st w]) (simp add: demo1_eq)
  moreover have "hd (port_terminals demo1) \<in> set (port_terminals demo_q2)" using t(1) by (metis demo_q2_facts(2) list.set_intros(1))
  ultimately show ?thesis using t by (force simp: in_callup_def called_up_def)
qed

end
